(* ===== verification/Rust_Prelude.thy ===== *)
theory Rust_Prelude
  imports Main "HOL-Library.Word" "HOL-Library.List_Lexorder" "HOL-Library.Char_ord"
    "HOL-Library.Sublist"
begin

text \<open>
  The shared vocabulary of the development: the parts of Rust's standard library that the
  modelled crates use, with the lemmas every component needs about them.

  A Rust \<^verbatim>\<open>String\<close> or \<^verbatim>\<open>&str\<close> is its UTF-8 byte sequence, and so is a
  \<^verbatim>\<open>Vec<u8>\<close>: both are Isabelle's \<^typ>\<open>string\<close>, whose \<^typ>\<open>char\<close> is a byte. The byte-wise
  order that \<^verbatim>\<open>Ord for str\<close> uses is then the lexicographic order of
  \<open>HOL-Library.List_Lexorder\<close>. A \<^verbatim>\<open>Result<T, E>\<close> is the sum \<open>E + T\<close>.
\<close>

named_theorems rust_simps \<open>equations of the Rust standard library functions\<close>

type_synonym bytes = string
type_synonym uuid = "128 word"
type_synonym timestamp = int

unbundle bit_operations_syntax


section \<open>Results and options\<close>

definition unwrap_or :: "'a option \<Rightarrow> 'a \<Rightarrow> 'a" where
  "unwrap_or x d = (case x of None \<Rightarrow> d | Some v \<Rightarrow> v)"

lemma unwrap_or_simps [simp, rust_simps]:
  "unwrap_or None d = d"
  "unwrap_or (Some v) d = v"
  by (simp_all add: unwrap_or_def)

definition or_else :: "'a option \<Rightarrow> 'a option \<Rightarrow> 'a option" where
  "or_else x y = (case x of None \<Rightarrow> y | Some v \<Rightarrow> Some v)"

lemma or_else_simps [simp, rust_simps]:
  "or_else None y = y"
  "or_else (Some v) y = Some v"
  by (simp_all add: or_else_def)


section \<open>String functions\<close>

definition str_starts_with :: "string \<Rightarrow> string \<Rightarrow> bool" where
  "str_starts_with s p \<longleftrightarrow> take (length p) s = p"

definition str_strip_prefix :: "string \<Rightarrow> string \<Rightarrow> string option" where
  "str_strip_prefix s p = (if take (length p) s = p then Some (drop (length p) s) else None)"

definition str_strip_suffix :: "string \<Rightarrow> string \<Rightarrow> string option" where
  "str_strip_suffix s p =
     (if length p \<le> length s \<and> drop (length s - length p) s = p
      then Some (take (length s - length p) s) else None)"

fun str_contains :: "string \<Rightarrow> string \<Rightarrow> bool" where
  "str_contains [] p \<longleftrightarrow> p = []"
| "str_contains (c # s) p \<longleftrightarrow> str_starts_with (c # s) p \<or> str_contains s p"

text \<open>\<open>s.split(c)\<close> for a single byte \<open>c\<close>: never empty, the separators removed.\<close>

fun str_split :: "char \<Rightarrow> string \<Rightarrow> string list" where
  "str_split c [] = [[]]"
| "str_split c (x # s) =
     (if x = c then [] # str_split c s
      else (case str_split c s of [] \<Rightarrow> [[x]] | w # ws \<Rightarrow> (x # w) # ws))"

definition trim_start_matches :: "char \<Rightarrow> string \<Rightarrow> string" where
  "trim_start_matches c s = dropWhile (\<lambda>x. x = c) s"

definition trim_end_matches :: "char \<Rightarrow> string \<Rightarrow> string" where
  "trim_end_matches c s = rev (dropWhile (\<lambda>x. x = c) (rev s))"

lemma strip_prefix_append [simp, rust_simps]: "str_strip_prefix (p @ s) p = Some s"
  by (simp add: str_strip_prefix_def)

lemma strip_prefix_Some: "str_strip_prefix s p = Some r \<longleftrightarrow> s = p @ r"
proof
  assume "str_strip_prefix s p = Some r"
  then have "take (length p) s = p" and "drop (length p) s = r"
    by (auto simp: str_strip_prefix_def split: if_splits)
  then show "s = p @ r" by (metis append_take_drop_id)
qed simp

lemma strip_suffix_append [simp, rust_simps]: "str_strip_suffix (s @ p) p = Some s"
  by (simp add: str_strip_suffix_def)

lemma strip_suffix_Some: "str_strip_suffix s p = Some r \<longleftrightarrow> s = r @ p"
proof
  assume "str_strip_suffix s p = Some r"
  then have "drop (length s - length p) s = p" and "take (length s - length p) s = r"
    by (auto simp: str_strip_suffix_def split: if_splits)
  then show "s = r @ p" by (metis append_take_drop_id)
qed simp

lemma strip_suffix_None: "str_strip_suffix s p = None \<longleftrightarrow> (\<nexists>r. s = r @ p)"
  by (metis option.exhaust option.simps(3) strip_suffix_Some)

lemma starts_with_iff: "str_starts_with s p \<longleftrightarrow> (\<exists>r. s = p @ r)"
  by (auto simp: str_starts_with_def) (metis append_take_drop_id)

lemma contains_iff: "str_contains s p \<longleftrightarrow> (\<exists>a b. s = a @ p @ b)"
proof (induction s)
  case (Cons c s)
  show ?case
  proof
    assume "str_contains (c # s) p"
    then consider "\<exists>r. c # s = p @ r" | "\<exists>a b. s = a @ p @ b"
      using Cons.IH by (auto simp: starts_with_iff)
    then show "\<exists>a b. c # s = a @ p @ b"
      by cases (metis append_Nil, metis append_Cons)
  next
    assume "\<exists>a b. c # s = a @ p @ b"
    then obtain a b where ab: "c # s = a @ p @ b" by blast
    show "str_contains (c # s) p"
    proof (cases a)
      case Nil
      with ab have "str_starts_with (c # s) p" by (simp add: starts_with_iff)
      then show ?thesis by simp
    next
      case (Cons d a')
      with ab have "s = a' @ p @ b" by simp
      then show ?thesis using Cons.IH by auto
    qed
  qed
qed simp

lemma split_nonempty [simp]: "str_split c s \<noteq> []"
  by (induction s) (auto split: list.splits)

lemma split_no_sep: "c \<notin> set s \<Longrightarrow> str_split c s = [s]"
  by (induction s) auto

lemma split_append: "c \<notin> set s \<Longrightarrow> str_split c (s @ c # t) = s # str_split c t"
  by (induction s) auto

lemma hd_split: "hd (str_split c s) = takeWhile (\<lambda>x. x \<noteq> c) s"
  by (induction s) (auto split: list.splits)

end
