(* ===== verification/Plans.thy ===== *)
theory Plans
  imports Rust_Prelude
begin

text \<open>
  The subscription plans of \<^verbatim>\<open>crates/billing/src/plans.rs\<close>: the plan table with its limits, the
  memory ladder and its check, and the mapping from Stripe price ids to plans. The process
  environment is the parameter \<open>env\<close>: a variable's value, or \<open>None\<close> when it is unset.
\<close>

datatype Plan = Plan_Free | Plan_Pro | Plan_Team | Plan_Enterprise

fun Plan_display :: "Plan \<Rightarrow> string" where
  "Plan_display Plan_Free = ''free''"
| "Plan_display Plan_Pro = ''pro''"
| "Plan_display Plan_Team = ''team''"
| "Plan_display Plan_Enterprise = ''enterprise''"

text \<open>\<^verbatim>\<open>Workspace::plan\<close> and the \<^verbatim>\<open>match\<close> of the quota check: how a stored plan name is read.\<close>

definition Plan_of_str :: "string \<Rightarrow> Plan" where
  "Plan_of_str s =
     (if s = ''pro'' then Plan_Pro
      else if s = ''team'' then Plan_Team
      else if s = ''enterprise'' then Plan_Enterprise
      else Plan_Free)"

definition from_stripe_price_id :: "string \<Rightarrow> Plan option" where
  "from_stripe_price_id price_id =
     (if str_starts_with price_id ''price_pro_'' then Some Plan_Pro
      else if str_starts_with price_id ''price_team_'' then Some Plan_Team
      else if str_starts_with price_id ''price_enterprise_'' then Some Plan_Enterprise
      else None)"

definition MEMORY_LADDER_MB :: "32 word list" where
  "MEMORY_LADDER_MB = [256, 512, 1024, 2048]"

record PlanLimits =
  max_servers :: "32 word"
  max_deployments_per_month :: "32 word"
  max_requests_per_month :: "64 word"
  max_team_members :: "32 word"
  max_memory_mb :: "32 word"
  log_retention_days :: "32 word"
  custom_domains :: bool
  priority_support :: bool
  sso_enabled :: bool

definition PlanLimits_default :: PlanLimits where
  "PlanLimits_default = \<lparr>
     max_servers = 3, max_deployments_per_month = 50, max_requests_per_month = 10000,
     max_team_members = 1, max_memory_mb = 256, log_retention_days = 7,
     custom_domains = False, priority_support = False, sso_enabled = False \<rparr>"

record PlanDefinition =
  pd_plan :: Plan
  pd_name :: string
  pd_description :: string
  price_monthly_jpy :: "32 word option"
  price_yearly_jpy :: "32 word option"
  stripe_price_id_monthly :: "string option"
  stripe_price_id_yearly :: "string option"
  pd_limits :: PlanLimits
  pd_features :: "string list"

definition PLANS :: "PlanDefinition list" where
  "PLANS =
    [\<lparr> pd_plan = Plan_Free, pd_name = ''Free'', pd_description = ''Perfect for getting started'',
       price_monthly_jpy = Some 0, price_yearly_jpy = Some 0,
       stripe_price_id_monthly = None, stripe_price_id_yearly = None,
       pd_limits = \<lparr>
         max_servers = 3, max_deployments_per_month = 50, max_requests_per_month = 10000,
         max_team_members = 1, max_memory_mb = 256, log_retention_days = 7,
         custom_domains = False, priority_support = False, sso_enabled = False \<rparr>,
       pd_features = [''3 MCP servers'', ''50 deployments/month'', ''10K API requests/month'',
         ''7-day log retention'', ''Community support''] \<rparr>,
     \<lparr> pd_plan = Plan_Pro, pd_name = ''Pro'', pd_description = ''For professional developers'',
       price_monthly_jpy = Some 2980, price_yearly_jpy = Some 29800,
       stripe_price_id_monthly = None, stripe_price_id_yearly = None,
       pd_limits = \<lparr>
         max_servers = 20, max_deployments_per_month = 500, max_requests_per_month = 500000,
         max_team_members = 1, max_memory_mb = 2048, log_retention_days = 30,
         custom_domains = True, priority_support = False, sso_enabled = False \<rparr>,
       pd_features = [''20 MCP servers'', ''500 deployments/month'', ''500K API requests/month'',
         ''30-day log retention'', ''Custom domains'', ''Email support''] \<rparr>,
     \<lparr> pd_plan = Plan_Team, pd_name = ''Team'', pd_description = ''For growing teams'',
       price_monthly_jpy = Some 9800, price_yearly_jpy = Some 98000,
       stripe_price_id_monthly = None, stripe_price_id_yearly = None,
       pd_limits = \<lparr>
         max_servers = 100, max_deployments_per_month = 2000, max_requests_per_month = 5000000,
         max_team_members = 10, max_memory_mb = 2048, log_retention_days = 90,
         custom_domains = True, priority_support = True, sso_enabled = False \<rparr>,
       pd_features = [''100 MCP servers'', ''2000 deployments/month'', ''5M API requests/month'',
         ''90-day log retention'', ''Custom domains'', ''Up to 10 team members'',
         ''Priority support''] \<rparr>,
     \<lparr> pd_plan = Plan_Enterprise, pd_name = ''Enterprise'',
       pd_description = ''For large organizations'',
       price_monthly_jpy = None, price_yearly_jpy = None,
       stripe_price_id_monthly = None, stripe_price_id_yearly = None,
       pd_limits = \<lparr>
         max_servers = 10000, max_deployments_per_month = 100000,
         max_requests_per_month = 1000000000,
         max_team_members = 1000, max_memory_mb = 2048, log_retention_days = 365,
         custom_domains = True, priority_support = True, sso_enabled = True \<rparr>,
       pd_features = [''Up to 10,000 MCP servers'', ''Up to 100K deployments/month'',
         ''Up to 1B API requests/month'', ''1-year log retention'', ''Custom domains'',
         ''Up to 1,000 team members'', ''SSO/SAML'', ''Dedicated support'', ''SLA''] \<rparr>]"

definition get_plan_definition :: "Plan \<Rightarrow> PlanDefinition option" where
  "get_plan_definition plan = List.find (\<lambda>p. pd_plan p = plan) PLANS"

definition Plan_limits :: "Plan \<Rightarrow> PlanLimits" where
  "Plan_limits plan =
     unwrap_or (map_option pd_limits (List.find (\<lambda>p. pd_plan p = plan) PLANS)) PlanLimits_default"

datatype MemoryChoiceError = NotOnLadder | ExceedsPlan "32 word"

definition validate_memory_choice ::
  "32 word option \<Rightarrow> PlanLimits \<Rightarrow> MemoryChoiceError + unit" where
  "validate_memory_choice memory_mb limits =
     (case memory_mb of
        None \<Rightarrow> Inr ()
      | Some mb \<Rightarrow>
          if mb \<notin> set MEMORY_LADDER_MB then Inl NotOnLadder
          else if mb > max_memory_mb limits then Inl (ExceedsPlan (max_memory_mb limits))
          else Inr ())"

definition get_plan_by_price_id :: "(string \<Rightarrow> string option) \<Rightarrow> string \<Rightarrow> Plan option" where
  "get_plan_by_price_id env price_id =
     (if env ''STRIPE_PRICE_PRO_MONTHLY'' = Some price_id then Some Plan_Pro
      else if env ''STRIPE_PRICE_PRO_YEARLY'' = Some price_id then Some Plan_Pro
      else if env ''STRIPE_PRICE_TEAM_MONTHLY'' = Some price_id then Some Plan_Team
      else if env ''STRIPE_PRICE_TEAM_YEARLY'' = Some price_id then Some Plan_Team
      else if env ''STRIPE_PRICE_ENTERPRISE_MONTHLY'' = Some price_id then Some Plan_Enterprise
      else if env ''STRIPE_PRICE_ENTERPRISE_YEARLY'' = Some price_id then Some Plan_Enterprise
      else None)"


section \<open>Correctness\<close>

text \<open>The plans in the order of the table, as a linear order.\<close>

fun plan_rank :: "Plan \<Rightarrow> nat" where
  "plan_rank Plan_Free = 0"
| "plan_rank Plan_Pro = 1"
| "plan_rank Plan_Team = 2"
| "plan_rank Plan_Enterprise = 3"

instantiation Plan :: linorder
begin

definition less_eq_Plan :: "Plan \<Rightarrow> Plan \<Rightarrow> bool" where
  "less_eq_Plan p q \<longleftrightarrow> plan_rank p \<le> plan_rank q"

definition less_Plan :: "Plan \<Rightarrow> Plan \<Rightarrow> bool" where
  "less_Plan p q \<longleftrightarrow> plan_rank p < plan_rank q"

instance
proof
  fix p q r :: Plan
  show "p \<le> q \<Longrightarrow> q \<le> p \<Longrightarrow> p = q" by (cases p; cases q) (simp_all add: less_eq_Plan_def)
qed (auto simp: less_eq_Plan_def less_Plan_def)

end

definition limits_le :: "PlanLimits \<Rightarrow> PlanLimits \<Rightarrow> bool" where
  "limits_le a b \<longleftrightarrow>
     max_servers a \<le> max_servers b \<and>
     max_deployments_per_month a \<le> max_deployments_per_month b \<and>
     max_requests_per_month a \<le> max_requests_per_month b \<and>
     max_team_members a \<le> max_team_members b \<and>
     max_memory_mb a \<le> max_memory_mb b \<and>
     log_retention_days a \<le> log_retention_days b \<and>
     (custom_domains a \<longrightarrow> custom_domains b) \<and>
     (priority_support a \<longrightarrow> priority_support b) \<and>
     (sso_enabled a \<longrightarrow> sso_enabled b)"

lemma Plan_limits_simps [simp]:
  "Plan_limits Plan_Free = PlanLimits_default"
  "Plan_limits Plan_Pro = \<lparr>
     max_servers = 20, max_deployments_per_month = 500, max_requests_per_month = 500000,
     max_team_members = 1, max_memory_mb = 2048, log_retention_days = 30,
     custom_domains = True, priority_support = False, sso_enabled = False \<rparr>"
  "Plan_limits Plan_Team = \<lparr>
     max_servers = 100, max_deployments_per_month = 2000, max_requests_per_month = 5000000,
     max_team_members = 10, max_memory_mb = 2048, log_retention_days = 90,
     custom_domains = True, priority_support = True, sso_enabled = False \<rparr>"
  "Plan_limits Plan_Enterprise = \<lparr>
     max_servers = 10000, max_deployments_per_month = 100000, max_requests_per_month = 1000000000,
     max_team_members = 1000, max_memory_mb = 2048, log_retention_days = 365,
     custom_domains = True, priority_support = True, sso_enabled = True \<rparr>"
  by (simp_all add: Plan_limits_def PLANS_def PlanLimits_default_def)

lemma Plan_limits_mono: "p \<le> q \<Longrightarrow> limits_le (Plan_limits p) (Plan_limits q)"
  by (cases p; cases q) (simp_all add: less_eq_Plan_def limits_le_def PlanLimits_default_def)

lemma validate_memory_choice_Ok:
  "validate_memory_choice m l = Inr () \<longleftrightarrow>
     (\<forall>mb. m = Some mb \<longrightarrow> mb \<in> set MEMORY_LADDER_MB \<and> mb \<le> max_memory_mb l)"
  by (auto simp: validate_memory_choice_def split: option.splits)

lemma Plan_of_str_display [simp]: "Plan_of_str (Plan_display p) = p"
  by (cases p) (simp_all add: Plan_of_str_def)

text \<open>
  An upgrade never takes anything away: every limit and feature of a plan is at least that
  of the cheaper plans, and a memory size accepted for a server stays acceptable.
\<close>

theorem plan_upgrade_safe:
  assumes "p \<le> q"
  shows "limits_le (Plan_limits p) (Plan_limits q) \<and>
    (validate_memory_choice m (Plan_limits p) = Inr () \<longrightarrow>
     validate_memory_choice m (Plan_limits q) = Inr ())"
proof -
  have le: "limits_le (Plan_limits p) (Plan_limits q)" using assms by (rule Plan_limits_mono)
  then have "max_memory_mb (Plan_limits p) \<le> max_memory_mb (Plan_limits q)"
    by (simp add: limits_le_def)
  then have "validate_memory_choice m (Plan_limits p) = Inr () \<longrightarrow>
      validate_memory_choice m (Plan_limits q) = Inr ()"
    unfolding validate_memory_choice_Ok by (auto intro: order_trans)
  with le show ?thesis by blast
qed

theorem plan_upgrade_safe_witness:
  "validate_memory_choice (Some 256) (Plan_limits Plan_Enterprise) = Inr ()"
proof -
  have "Plan_Free \<le> Plan_Enterprise" by (simp add: less_eq_Plan_def)
  moreover have "validate_memory_choice (Some 256) (Plan_limits Plan_Free) = Inr ()"
    by (simp add: validate_memory_choice_def MEMORY_LADDER_MB_def PlanLimits_default_def)
  ultimately show ?thesis using plan_upgrade_safe by blast
qed

end
