(* ===== verification/Json.thy ===== *)
theory Json
  imports Rust_Prelude
begin

text \<open>
  \<^verbatim>\<open>serde_json\<close>, as far as the modelled crates depend on it. The crate itself is third-party
  code: \<^verbatim>\<open>Value\<close> is a datatype and its accessors are functions, while parsing and printing are
  parameters, collected in the record \<open>codec\<close>, with the documented laws the code relies on as
  the locale \<open>json_codec\<close>. The default \<^verbatim>\<open>Map\<close> is a \<^verbatim>\<open>BTreeMap\<close>: an association list with
  strictly increasing keys.
\<close>

section \<open>Values\<close>

datatype number = NInt int | NFloat "64 word"

datatype json =
    JNull
  | JBool bool
  | JNumber number
  | JString string
  | JArray "json list"
  | JObject "(string \<times> json) list"

type_synonym json_map = "(string \<times> json) list"

fun as_str :: "json \<Rightarrow> string option" where
  "as_str (JString s) = Some s"
| "as_str _ = None"

fun as_array :: "json \<Rightarrow> json list option" where
  "as_array (JArray vs) = Some vs"
| "as_array _ = None"

fun as_object :: "json \<Rightarrow> json_map option" where
  "as_object (JObject m) = Some m"
| "as_object _ = None"

text \<open>\<^verbatim>\<open>Value::get\<close> with a string index: \<^verbatim>\<open>None\<close> on anything that is not an object.\<close>

fun json_get :: "json \<Rightarrow> string \<Rightarrow> json option" where
  "json_get (JObject m) k = map_of m k"
| "json_get _ k = None"

fun map_insert :: "string \<Rightarrow> json \<Rightarrow> json_map \<Rightarrow> json_map" where
  "map_insert k v [] = [(k, v)]"
| "map_insert k v ((k', v') # m) =
     (if k < k' then (k, v) # (k', v') # m
      else if k = k' then (k, v) # m
      else (k', v') # map_insert k v m)"

definition map_remove :: "string \<Rightarrow> json_map \<Rightarrow> json_map" where
  "map_remove k m = filter (\<lambda>kv. fst kv \<noteq> k) m"

text \<open>A write through \<^verbatim>\<open>get_mut(k)\<close>: the value of an existing key is replaced in place.\<close>

definition map_set :: "string \<Rightarrow> json \<Rightarrow> json_map \<Rightarrow> json_map" where
  "map_set k v m = map (\<lambda>kv. if fst kv = k then (k, v) else kv) m"

fun json_set :: "json \<Rightarrow> string \<Rightarrow> json \<Rightarrow> json" where
  "json_set (JObject m) k v = JObject (map_set k v m)"
| "json_set v k _ = v"

text \<open>\<^verbatim>\<open>serde_json::from_value::<Vec<String>>\<close>.\<close>

fun strings_of :: "json list \<Rightarrow> string list option" where
  "strings_of [] = Some []"
| "strings_of (v # vs) =
     (case as_str v of None \<Rightarrow> None | Some s \<Rightarrow> map_option (Cons s) (strings_of vs))"

definition json_string_list :: "json \<Rightarrow> string list option" where
  "json_string_list v = (case as_array v of None \<Rightarrow> None | Some vs \<Rightarrow> strings_of vs)"


section \<open>Well-formed values\<close>

fun json_wf :: "json \<Rightarrow> bool" where
  "json_wf (JArray vs) = list_all json_wf vs"
| "json_wf (JObject m) =
     (sorted_wrt (<) (map fst m) \<and> list_all (\<lambda>kv. json_wf (snd kv)) m)"
| "json_wf _ = True"

fun json_depth :: "json \<Rightarrow> nat" where
  "json_depth (JArray vs) = Suc (foldr max (map json_depth vs) 0)"
| "json_depth (JObject m) = Suc (foldr max (map (\<lambda>kv. json_depth (snd kv)) m) 0)"
| "json_depth _ = 0"

fun float_free :: "json \<Rightarrow> bool" where
  "float_free (JArray vs) = list_all float_free vs"
| "float_free (JObject m) = list_all (\<lambda>kv. float_free (snd kv)) m"
| "float_free (JNumber (NFloat _)) = False"
| "float_free _ = True"

text \<open>
  The values for which \<^verbatim>\<open>serde_json\<close> promises that printing and parsing are inverse: nested at
  most 127 deep (the parser's recursion limit is 128) and without floating-point numbers (whose
  parser is only exact with the \<^verbatim>\<open>float_roundtrip\<close> feature, which is off).
\<close>

definition json_plain :: "json \<Rightarrow> bool" where
  "json_plain v \<longleftrightarrow> json_wf v \<and> json_depth v \<le> 127 \<and> float_free v"

lemma map_of_map_insert [simp]: "map_of (map_insert k v m) = (map_of m)(k \<mapsto> v)"
  by (induction k v m rule: map_insert.induct) (auto simp: fun_eq_iff)

lemma map_of_map_remove [simp]: "map_of (map_remove k m) = (map_of m)(k := None)"
  by (induction m) (auto simp: map_remove_def fun_eq_iff)

lemma map_of_map_set:
  "map_of (map_set k v m) = (\<lambda>x. if x = k then map_option (\<lambda>_. v) (map_of m k) else map_of m x)"
  by (induction m) (auto simp: map_set_def fun_eq_iff)

lemma map_remove_insert [simp]: "map_remove k (map_insert k v m) = map_remove k m"
  by (induction k v m rule: map_insert.induct) (auto simp: map_remove_def)

lemma set_map_insert: "set (map_insert k v m) \<subseteq> insert (k, v) (set m)"
  by (induction k v m rule: map_insert.induct) auto

lemma keys_map_insert: "fst ` set (map_insert k v m) = insert k (fst ` set m)"
  by (induction k v m rule: map_insert.induct) auto

lemma sorted_map_insert:
  "sorted_wrt (<) (map fst m) \<Longrightarrow> sorted_wrt (<) (map fst (map_insert k v m))"
proof (induction k v m rule: map_insert.induct)
  case (2 k v k' v' m)
  then have m: "sorted_wrt (<) (map fst m)" and k': "\<forall>x \<in> fst ` set m. k' < x" by auto
  consider "k < k'" | "k = k'" | "k' < k" by fastforce
  then show ?case
  proof cases
    case 1
    with k' have "\<forall>x \<in> fst ` set m. k < x" using order.strict_trans by blast
    with 1 m k' show ?thesis by simp
  next
    case 3
    with k' have "\<forall>x \<in> fst ` set (map_insert k v m). k' < x" by (simp add: keys_map_insert)
    moreover have "sorted_wrt (<) (map fst (map_insert k v m))"
      using 2(1) 3 m by (simp add: less_imp_neq less_not_sym)
    ultimately show ?thesis using 3 by (simp add: less_imp_neq less_not_sym)
  qed (use m k' in simp)
qed simp

lemma sorted_map_remove:
  fixes m :: json_map
  shows "sorted_wrt (<) (map fst m) \<Longrightarrow> sorted_wrt (<) (map fst (map_remove k m))"
  by (induction m) (auto simp: map_remove_def)

lemma sorted_map_set:
  fixes m :: json_map
  shows "sorted_wrt (<) (map fst m) \<Longrightarrow> sorted_wrt (<) (map fst (map_set k v m))"
proof -
  have "map fst (map_set k v m) = map fst m"
    by (induction m) (auto simp: map_set_def)
  then show "sorted_wrt (<) (map fst m) \<Longrightarrow> ?thesis" by simp
qed

text \<open>Two sorted maps with the same lookups are the same list: encodings are canonical.\<close>

lemma map_of_rebuild:
  assumes "distinct (map fst m)"
  shows "map (\<lambda>k. (k, the (map_of m k))) (map fst m) = m"
proof -
  have "(fst kv, the (map_of m (fst kv))) = kv" if "kv \<in> set m" for kv
    using map_of_is_SomeI [OF assms, of "fst kv" "snd kv"] that by simp
  then have "map (\<lambda>kv. (fst kv, the (map_of m (fst kv)))) m = m" by (rule map_idI)
  then show ?thesis by (simp add: comp_def)
qed

lemma sorted_map_eqI:
  fixes m m' :: json_map
  assumes "sorted_wrt (<) (map fst m)" and "sorted_wrt (<) (map fst m')" and "map_of m = map_of m'"
  shows "m = m'"
proof -
  have distinct: "distinct (map fst m)" "distinct (map fst m')"
    using assms(1,2) by (simp_all add: strict_sorted_iff)
  have "set (map fst m) = set (map fst m')"
    using arg_cong [OF assms(3), of dom] by (simp add: dom_map_of_conv_image_fst)
  then have "map fst m = map fst m'"
    using strict_sorted_equal [OF assms(2,1)] by blast
  then show ?thesis
    using map_of_rebuild [OF distinct(1)] map_of_rebuild [OF distinct(2)] assms(3) by metis
qed

lemma json_wf_get: "json_wf v \<Longrightarrow> json_get v k = Some w \<Longrightarrow> json_wf w"
  by (cases v) (force simp: list_all_iff dest: map_of_SomeD)+

lemma json_wf_map_insert:
  "json_wf (JObject m) \<Longrightarrow> json_wf v \<Longrightarrow> json_wf (JObject (map_insert k v m))"
  using set_map_insert [of k v m] by (auto simp: sorted_map_insert list_all_iff)

lemma json_wf_map_remove: "json_wf (JObject m) \<Longrightarrow> json_wf (JObject (map_remove k m))"
  using sorted_map_remove [of m k] by (auto simp: list_all_iff map_remove_def)

lemma json_wf_map_set:
  "json_wf (JObject m) \<Longrightarrow> json_wf v \<Longrightarrow> json_wf (JObject (map_set k v m))"
  using sorted_map_set [of m k v] by (auto simp: list_all_iff map_set_def)

lemma foldr_max_le: "foldr max xs (0::nat) \<le> n \<longleftrightarrow> (\<forall>x \<in> set xs. x \<le> n)"
  by (induction xs) auto

lemma json_depth_object_le:
  "json_depth (JObject m) \<le> Suc n \<longleftrightarrow> (\<forall>kv \<in> set m. json_depth (snd kv) \<le> n)"
  by (simp add: foldr_max_le)

lemma json_depth_array_le:
  "json_depth (JArray vs) \<le> Suc n \<longleftrightarrow> (\<forall>v \<in> set vs. json_depth v \<le> n)"
  by (simp add: foldr_max_le)


text \<open>Well-formed, float-free and at most \<open>n\<close> deep; replacing a member by one no worse keeps it.\<close>

definition json_ok :: "nat \<Rightarrow> json \<Rightarrow> bool" where
  "json_ok n v \<longleftrightarrow> json_wf v \<and> json_depth v \<le> n \<and> float_free v"

lemma json_plain_ok: "json_plain v \<longleftrightarrow> json_ok 127 v"
  by (simp add: json_plain_def json_ok_def)

lemma json_ok_array: "json_ok n (JArray vs) \<longleftrightarrow> (\<exists>k. n = Suc k \<and> (\<forall>v \<in> set vs. json_ok k v))"
  by (cases n) (auto simp: json_ok_def list_all_iff foldr_max_le)

lemma json_ok_string [simp]: "json_ok n (JString s)"
  by (simp add: json_ok_def)

lemma json_ok_object:
  "json_ok n (JObject m) \<longleftrightarrow>
     (\<exists>k. n = Suc k \<and> sorted_wrt (<) (map fst m) \<and> (\<forall>kv \<in> set m. json_ok k (snd kv)))"
  by (cases n) (auto simp: json_ok_def list_all_iff foldr_max_le)

lemma json_ok_get: "json_ok n v \<Longrightarrow> json_get v k = Some w \<Longrightarrow> \<exists>j. n = Suc j \<and> json_ok j w"
  by (cases v) (force simp: json_ok_object dest: map_of_SomeD)+

lemma json_ok_set:
  assumes "json_ok n v" and "json_get v k = Some w" and "\<And>j. json_ok j w \<Longrightarrow> json_ok j w'"
  shows "json_ok n (json_set v k w')"
proof -
  obtain m where v: "v = JObject m" using assms(2) by (cases v) auto
  then obtain j where n: "n = Suc j" and m: "sorted_wrt (<) (map fst m)" "\<forall>kv \<in> set m. json_ok j (snd kv)"
    using assms(1) by (auto simp: json_ok_object)
  have "(k, w) \<in> set m" using assms(2) v map_of_SomeD by auto
  then have "json_ok j w'" using m(2) assms(3) by force
  then have "\<forall>kv \<in> set (map_set k w' m). json_ok j (snd kv)" using m(2) by (auto simp: map_set_def)
  then show ?thesis using sorted_map_set [OF m(1)] by (simp add: v n json_ok_object)
qed

lemma json_get_set:
  "json_get (json_set v k w) x = (if x = k then map_option (\<lambda>_. w) (json_get v k) else json_get v x)"
  by (cases v) (simp_all add: map_of_map_set)


text \<open>\<^verbatim>\<open>json!({..})\<close> with the fields in source order.\<close>

definition jobj :: "(string \<times> json) list \<Rightarrow> json" where
  "jobj fields = JObject (fold (\<lambda>(k, v). map_insert k v) fields [])"

lemma json_get_jobj: "json_get (jobj fields) k = map_of (rev fields) k"
proof -
  have "map_of (fold (\<lambda>(k, v). map_insert k v) fields m) k =
      (case map_of (rev fields) k of None \<Rightarrow> map_of m k | Some v \<Rightarrow> Some v)" for m
  proof (induction fields arbitrary: m)
    case (Cons kv fields)
    then show ?case by (cases kv) (auto simp: map_add_def split: option.splits)
  qed simp
  then show ?thesis by (simp add: jobj_def split: option.splits)
qed

lemma json_ok_jobj:
  assumes "\<forall>kv \<in> set fields. json_ok n (snd kv)"
  shows "json_ok (Suc n) (jobj fields)"
proof -
  have "sorted_wrt (<) (map fst m) \<Longrightarrow> \<forall>kv \<in> set m. json_ok n (snd kv) \<Longrightarrow>
      sorted_wrt (<) (map fst (fold (\<lambda>(k, v). map_insert k v) fields m)) \<and>
      (\<forall>kv \<in> set (fold (\<lambda>(k, v). map_insert k v) fields m). json_ok n (snd kv))" for m
    using assms
  proof (induction fields arbitrary: m)
    case (Cons kv fields)
    have "\<forall>x \<in> set (map_insert (fst kv) (snd kv) m). json_ok n (snd x)"
      using Cons.prems set_map_insert [of "fst kv" "snd kv" m] by auto
    then show ?case
      using Cons.IH [of "map_insert (fst kv) (snd kv) m"] Cons.prems sorted_map_insert by (cases kv) auto
  qed simp
  from this [of "[]"] show ?thesis by (simp add: jobj_def json_ok_object)
qed


section \<open>The codec\<close>

record codec =
  from_slice :: "bytes \<Rightarrow> json option"
  to_vec :: "json \<Rightarrow> bytes option"
  ser_error :: "json \<Rightarrow> string"

text \<open>
  (\<open>ser_error\<close> is the message of the error that a failing \<open>to_vec\<close> returns.)
  What the crates rely on: a parsed value is a proper \<^verbatim>\<open>Value\<close> (its objects are \<^verbatim>\<open>BTreeMap\<close>s),
  and a plain value can be printed and read back.
\<close>

locale json_codec =
  fixes C :: codec
  assumes parse_wf: "from_slice C b = Some v \<Longrightarrow> json_wf v"
    and print_parse: "json_plain v \<Longrightarrow> \<exists>b. to_vec C v = Some b \<and> from_slice C b = Some v"
begin

lemma to_vec_plain: "json_plain v \<Longrightarrow> to_vec C v \<noteq> None"
  using print_parse by fastforce

lemma from_slice_to_vec: "json_plain v \<Longrightarrow> to_vec C v = Some b \<Longrightarrow> from_slice C b = Some v"
  using print_parse by fastforce

lemma to_vec_inject:
  "json_plain v \<Longrightarrow> json_plain w \<Longrightarrow> to_vec C v = to_vec C w \<Longrightarrow> v = w"
  using print_parse by (metis option.inject)

end

text \<open>Compact output: control characters are escaped, so a printed value is a single line.\<close>

locale json_line_codec = json_codec +
  assumes print_line: "to_vec C v = Some b \<Longrightarrow> CHR 0x0A \<notin> set b \<and> CHR 0x0D \<notin> set b"

text \<open>
  A codec with these laws: a tagged prefix code. It stands in for \<^verbatim>\<open>serde_json\<close> where a concrete
  instance is evaluated.
\<close>

definition enc_nat :: "nat \<Rightarrow> bytes" where
  "enc_nat n = replicate n (CHR ''1'') @ ''0''"

definition nibble :: "nat \<Rightarrow> char" where
  "nibble n = char_of (97 + n)"

definition unnibble :: "char \<Rightarrow> nat" where
  "unnibble c = of_char c - 97"

fun enc_string :: "string \<Rightarrow> bytes" where
  "enc_string [] = ''.''"
| "enc_string (c # s) =
     CHR '':'' # nibble (of_char c div 16) # nibble (of_char c mod 16) # enc_string s"

fun enc_json :: "json \<Rightarrow> bytes" where
  "enc_json JNull = ''n''"
| "enc_json (JBool b) = (if b then ''t'' else ''f'')"
| "enc_json (JNumber (NInt i)) = (if i < 0 then CHR ''-'' # enc_nat (nat (- i)) else CHR ''+'' # enc_nat (nat i))"
| "enc_json (JNumber (NFloat w)) = CHR ''e'' # enc_nat (unat w)"
| "enc_json (JString s) = CHR ''s'' # enc_string s"
| "enc_json (JArray vs) = CHR ''['' # concat (map (\<lambda>v. CHR '','' # enc_json v) vs) @ '']''"
| "enc_json (JObject m) =
     CHR ''{'' # concat (map (\<lambda>kv. CHR '','' # enc_string (fst kv) @ enc_json (snd kv)) m) @ ''}''"

fun dec_nat :: "bytes \<Rightarrow> (nat \<times> bytes) option" where
  "dec_nat [] = None"
| "dec_nat (c # b) =
     (if c = CHR ''0'' then Some (0, b)
      else map_option (\<lambda>(n, r). (Suc n, r)) (dec_nat b))"

fun dec_string :: "bytes \<Rightarrow> (string \<times> bytes) option" where
  "dec_string [] = None"
| "dec_string (c # b) =
     (if c = CHR ''.'' then Some ([], b)
      else (case b of
              x # y # r \<Rightarrow>
                map_option (\<lambda>(s, r'). (char_of (16 * unnibble x + unnibble y) # s, r')) (dec_string r)
            | _ \<Rightarrow> None))"

fun dec_json :: "nat \<Rightarrow> bytes \<Rightarrow> (json \<times> bytes) option"
and dec_items :: "nat \<Rightarrow> bytes \<Rightarrow> (json list \<times> bytes) option"
and dec_fields :: "nat \<Rightarrow> bytes \<Rightarrow> (json_map \<times> bytes) option" where
  "dec_json 0 b = None"
| "dec_json (Suc n) b =
     (case b of [] \<Rightarrow> None
      | c # r \<Rightarrow>
        (if c = CHR ''n'' then Some (JNull, r)
         else if c = CHR ''t'' then Some (JBool True, r)
         else if c = CHR ''f'' then Some (JBool False, r)
         else if c = CHR ''+'' then map_option (\<lambda>(k, r'). (JNumber (NInt (int k)), r')) (dec_nat r)
         else if c = CHR ''-'' then map_option (\<lambda>(k, r'). (JNumber (NInt (- int k)), r')) (dec_nat r)
         else if c = CHR ''e'' then map_option (\<lambda>(k, r'). (JNumber (NFloat (of_nat k)), r')) (dec_nat r)
         else if c = CHR ''s'' then map_option (\<lambda>(s, r'). (JString s, r')) (dec_string r)
         else if c = CHR ''['' then map_option (\<lambda>(vs, r'). (JArray vs, r')) (dec_items n r)
         else if c = CHR ''{'' then map_option (\<lambda>(m, r'). (JObject m, r')) (dec_fields n r)
         else None))"
| "dec_items 0 b = None"
| "dec_items (Suc n) b =
     (case b of [] \<Rightarrow> None
      | c # r \<Rightarrow>
        (if c = CHR '','' then
           (case dec_json n r of None \<Rightarrow> None
            | Some (v, r') \<Rightarrow> map_option (\<lambda>(vs, r''). (v # vs, r'')) (dec_items n r'))
         else Some ([], r)))"
| "dec_fields 0 b = None"
| "dec_fields (Suc n) b =
     (case b of [] \<Rightarrow> None
      | c # r \<Rightarrow>
        (if c = CHR '','' then
           (case dec_string r of None \<Rightarrow> None
            | Some (k, r1) \<Rightarrow>
              (case dec_json n r1 of None \<Rightarrow> None
               | Some (v, r2) \<Rightarrow> map_option (\<lambda>(m, r'). ((k, v) # m, r')) (dec_fields n r2)))
         else Some ([], r)))"

definition ref_codec :: codec where
  "ref_codec =
     \<lparr> from_slice = (\<lambda>b. case dec_json (Suc (length b)) b of
          Some (v, []) \<Rightarrow> (if json_wf v then Some v else None) | _ \<Rightarrow> None),
       to_vec = (\<lambda>v. Some (enc_json v)),
       ser_error = (\<lambda>_. []) \<rparr>"

lemma dec_enc_nat [simp]: "dec_nat (enc_nat n @ r) = Some (n, r)"
  by (induction n) (auto simp: enc_nat_def)

lemma of_char_div_16: "(of_char c :: nat) div 16 < 16"
proof -
  have "(of_char c :: nat) < 16 * 16" using nat_of_char_less_256 [of c] by simp
  then show ?thesis by (rule less_mult_imp_div_less)
qed

lemma of_nibble: "n < 16 \<Longrightarrow> (of_char (nibble n) :: nat) = 97 + n"
  by (simp add: nibble_def)

lemma unnibble_nibble [simp]: "n < 16 \<Longrightarrow> unnibble (nibble n) = n"
  by (simp add: unnibble_def of_nibble)

lemma dec_enc_string [simp]: "dec_string (enc_string s @ r) = Some (s, r)"
proof (induction s)
  case (Cons c s)
  have "16 * (of_char c div 16) + of_char c mod 16 = (of_char c :: nat)" by simp
  then show ?case using Cons of_char_div_16 [of c] by simp
qed simp

lemma dec_items_enc:
  assumes "\<And>v r n. v \<in> set vs \<Longrightarrow> length (enc_json v) < n \<Longrightarrow> dec_json n (enc_json v @ r) = Some (v, r)"
  shows "length (concat (map (\<lambda>v. CHR '','' # enc_json v) vs)) < n \<Longrightarrow>
    dec_items n (concat (map (\<lambda>v. CHR '','' # enc_json v) vs) @ CHR '']'' # r) = Some (vs, r)"
  using assms
proof (induction vs arbitrary: n)
  case Nil
  then show ?case by (cases n) auto
next
  case (Cons v vs)
  then show ?case by (cases n) auto
qed

lemma dec_fields_enc:
  assumes "\<And>kv r n. kv \<in> set m \<Longrightarrow> length (enc_json (snd kv)) < n \<Longrightarrow>
    dec_json n (enc_json (snd kv) @ r) = Some (snd kv, r)"
  shows "length (concat (map (\<lambda>kv. CHR '','' # enc_string (fst kv) @ enc_json (snd kv)) m)) < n \<Longrightarrow>
    dec_fields n (concat (map (\<lambda>kv. CHR '','' # enc_string (fst kv) @ enc_json (snd kv)) m) @
      CHR ''}'' # r) = Some (m, r)"
  using assms
proof (induction m arbitrary: n)
  case Nil
  then show ?case by (cases n) auto
next
  case (Cons kv m)
  then show ?case by (cases n) auto
qed

lemma dec_enc_json: "length (enc_json v) < n \<Longrightarrow> dec_json n (enc_json v @ r) = Some (v, r)"
proof (induction v arbitrary: n r)
  case (JNumber x)
  then show ?case by (cases x; cases n) auto
next
  case (JArray vs)
  then obtain k where "n = Suc k" by (cases n) auto
  with JArray show ?case using dec_items_enc [of vs k r] by simp
next
  case (JObject m)
  then obtain k where n: "n = Suc k" by (cases n) auto
  have "dec_json i (enc_json (snd kv) @ q) = Some (snd kv, q)"
    if "kv \<in> set m" "length (enc_json (snd kv)) < i" for kv q i
    using JObject.IH [of kv "snd kv"] that by (cases kv) auto
  with JObject.prems n show ?case using dec_fields_enc [of m k r] by simp
qed (case_tac n; auto)+

interpretation ref: json_codec ref_codec
proof
  fix b v
  show "from_slice ref_codec b = Some v \<Longrightarrow> json_wf v"
    by (auto simp: ref_codec_def split: option.splits prod.splits list.splits if_splits)
next
  fix v
  assume "json_plain v"
  then have "from_slice ref_codec (enc_json v) = Some v"
    using dec_enc_json [of v "Suc (length (enc_json v))" "[]"]
    by (simp add: ref_codec_def json_plain_def)
  then show "\<exists>b. to_vec ref_codec v = Some b \<and> from_slice ref_codec b = Some v"
    by (simp add: ref_codec_def)
qed

lemma nibble_no_eol: "n < 16 \<Longrightarrow> nibble n \<noteq> CHR 0x0A \<and> nibble n \<noteq> CHR 0x0D"
  using of_nibble [of n] by (auto simp: of_char_def)

lemma enc_string_no_eol: "c \<in> {CHR 0x0A, CHR 0x0D} \<Longrightarrow> c \<notin> set (enc_string s)"
proof (induction s)
  case (Cons x s)
  then show ?case using nibble_no_eol [OF of_char_div_16 [of x]] nibble_no_eol [of "of_char x mod 16"] by auto
qed auto

lemma enc_json_no_eol: "c \<in> {CHR 0x0A, CHR 0x0D} \<Longrightarrow> c \<notin> set (enc_json v)"
proof (induction v)
  case (JNumber x)
  then show ?case by (cases x) (auto simp: enc_nat_def)
next
  case (JObject m)
  have "c \<notin> set (enc_json (snd kv))" if "kv \<in> set m" for kv
    using JObject.IH [OF that, of "snd kv"] JObject.prems by (cases kv) auto
  then show ?case using enc_string_no_eol [OF JObject.prems] JObject.prems by auto
qed (use enc_string_no_eol in auto)

interpretation ref_line: json_line_codec ref_codec
  by unfold_locales (auto simp: ref_codec_def enc_json_no_eol)

end
