(* ===== verification/Http.thy ===== *)
theory Http
  imports Rust_Prelude
begin

text \<open>
  HTTP headers and the text parsers of the standard library that the gateway uses on them:
  \<^verbatim>\<open>HeaderMap\<close> lookups, \<^verbatim>\<open>HeaderValue::to_str\<close>, trimming and splitting of header text, integer
  parsing, and \<^verbatim>\<open>Ipv4Addr\<close> / \<^verbatim>\<open>Ipv6Addr\<close> parsing.

  A header map is the list of its (lower-case) names and values in iteration order.
\<close>

type_synonym headers = "(string \<times> bytes) list"

definition hdr_get :: "headers \<Rightarrow> string \<Rightarrow> bytes option" where
  "hdr_get h n = map_of h n"

definition hdr_remove :: "string \<Rightarrow> headers \<Rightarrow> headers" where
  "hdr_remove n h = filter (\<lambda>kv. fst kv \<noteq> n) h"

text \<open>\<^verbatim>\<open>insert\<close> replaces every value of the name; \<^verbatim>\<open>append\<close> adds one.\<close>

definition hdr_insert :: "headers \<Rightarrow> string \<Rightarrow> bytes \<Rightarrow> headers" where
  "hdr_insert h n v = hdr_remove n h @ [(n, v)]"

definition hdr_append :: "headers \<Rightarrow> string \<Rightarrow> bytes \<Rightarrow> headers" where
  "hdr_append h n v = h @ [(n, v)]"

definition visible_ascii :: "char \<Rightarrow> bool" where
  "visible_ascii c \<longleftrightarrow> (32 \<le> (of_char c :: nat) \<and> (of_char c :: nat) < 127) \<or> (of_char c :: nat) = 9"

definition hdr_to_str :: "bytes \<Rightarrow> string option" where
  "hdr_to_str v = (if list_all visible_ascii v then Some v else None)"

definition hdr_str :: "headers \<Rightarrow> string \<Rightarrow> string option" where
  "hdr_str h n = Option.bind (hdr_get h n) hdr_to_str"

text \<open>\<^verbatim>\<open>HeaderValue::from_str\<close>: the same characters are accepted.\<close>

definition hdr_from_str :: "string \<Rightarrow> bytes option" where
  "hdr_from_str s = (if list_all visible_ascii s then Some s else None)"

definition ascii_ws :: "char \<Rightarrow> bool" where
  "ascii_ws c \<longleftrightarrow> (of_char c :: nat) \<in> {9, 10, 11, 12, 13, 32}"

text \<open>\<^verbatim>\<open>str::trim\<close> on ASCII text, which is what \<^verbatim>\<open>to_str\<close> returns.\<close>

definition ascii_trim :: "string \<Rightarrow> string" where
  "ascii_trim s = rev (dropWhile ascii_ws (rev (dropWhile ascii_ws s)))"

definition ascii_lower_char :: "char \<Rightarrow> char" where
  "ascii_lower_char c =
     (if 65 \<le> (of_char c :: nat) \<and> (of_char c :: nat) \<le> 90 then char_of ((of_char c :: nat) + 32) else c)"

definition to_ascii_lowercase :: "string \<Rightarrow> string" where
  "to_ascii_lowercase s = map ascii_lower_char s"


section \<open>White space\<close>

text \<open>The byte length of the white-space character at the front, 0 if there is none.\<close>

definition ws_len :: "string \<Rightarrow> nat" where
  "ws_len s =
     (case map (of_char :: char \<Rightarrow> nat) (take 3 s) of
        [] \<Rightarrow> 0
      | a # r \<Rightarrow>
          if (9 \<le> a \<and> a \<le> 13) \<or> a = 32 then 1
          else (case r of
             [] \<Rightarrow> 0
           | b # r' \<Rightarrow>
               if a = 194 \<and> (b = 133 \<or> b = 160) then 2
               else (case r' of
                  [] \<Rightarrow> 0
                | c # _ \<Rightarrow>
                    if (a = 225 \<and> b = 154 \<and> c = 128) \<or>
                       (a = 226 \<and> b = 128 \<and> ((128 \<le> c \<and> c \<le> 138) \<or> c = 168 \<or> c = 169 \<or> c = 175)) \<or>
                       (a = 226 \<and> b = 129 \<and> c = 159) \<or> (a = 227 \<and> b = 128 \<and> c = 128)
                    then 3 else 0)))"

fun take_word :: "string \<Rightarrow> string" where
  "take_word [] = []"
| "take_word (c # s) = (if 0 < ws_len (c # s) then [] else c # take_word s)"

function split_whitespace :: "string \<Rightarrow> string list" where
  "split_whitespace s =
     (if s = [] then []
      else if 0 < ws_len s then split_whitespace (drop (ws_len s) s)
      else take_word s # split_whitespace (drop (length (take_word s)) s))"
  by pat_completeness auto
termination
proof (relation "measure length")
  fix s :: string
  assume "s \<noteq> []" "\<not> 0 < ws_len s"
  then obtain c r where "s = c # r" "take_word s = c # take_word r" by (cases s) auto
  then show "(drop (length (take_word s)) s, s) \<in> measure length" by simp
qed auto

declare split_whitespace.simps [simp del]


text \<open>\<^verbatim>\<open>str::trim\<close> on any text.\<close>

function str_trim_start :: "string \<Rightarrow> string" where
  "str_trim_start s = (if s \<noteq> [] \<and> 0 < ws_len s then str_trim_start (drop (ws_len s) s) else s)"
  by pat_completeness auto
termination
  by (relation "measure length") auto

declare str_trim_start.simps [simp del]

definition ends_with_ws :: "string \<Rightarrow> nat \<Rightarrow> bool" where
  "ends_with_ws s n \<longleftrightarrow> n \<le> length s \<and> ws_len (drop (length s - n) s) = n"

function str_trim_end :: "string \<Rightarrow> string" where
  "str_trim_end s =
     (case find (ends_with_ws s) [1, 2, 3] of None \<Rightarrow> s | Some n \<Rightarrow> str_trim_end (take (length s - n) s))"
  by pat_completeness auto
termination
  by (relation "measure length") (auto simp: ends_with_ws_def split: if_splits)

declare str_trim_end.simps [simp del]

definition str_trim :: "string \<Rightarrow> string" where
  "str_trim s = str_trim_end (str_trim_start s)"


section \<open>Numbers\<close>

definition digit_val :: "char \<Rightarrow> nat option" where
  "digit_val c =
     (let n = (of_char c :: nat) in if 48 \<le> n \<and> n \<le> 57 then Some (n - 48) else None)"

fun digits_val :: "nat \<Rightarrow> string \<Rightarrow> nat option" where
  "digits_val acc [] = Some acc"
| "digits_val acc (c # s) =
     (case digit_val c of None \<Rightarrow> None | Some d \<Rightarrow> digits_val (10 * acc + d) s)"

text \<open>\<^verbatim>\<open>str::parse\<close> for an unsigned type of \<open>w\<close> bits: an optional plus sign, at least one digit.\<close>

definition parse_unsigned :: "nat \<Rightarrow> string \<Rightarrow> nat option" where
  "parse_unsigned w s =
     (let ds = (case s of c # r \<Rightarrow> (if c = CHR ''+'' then r else s) | [] \<Rightarrow> []) in
      if ds = [] then None
      else (case digits_val 0 ds of
              Some n \<Rightarrow> (if n < 2 ^ w then Some n else None) | None \<Rightarrow> None))"

definition parse_signed :: "nat \<Rightarrow> string \<Rightarrow> int option" where
  "parse_signed w s =
     (case s of
        c # r \<Rightarrow>
          (if c = CHR ''-'' then
             (if r = [] then None
              else (case digits_val 0 r of
                      Some n \<Rightarrow> (if n \<le> 2 ^ (w - 1) then Some (- int n) else None) | None \<Rightarrow> None))
           else map_option int (parse_unsigned (w - 1) s))
      | [] \<Rightarrow> None)"

fun show_nat :: "nat \<Rightarrow> string" where
  "show_nat n = (if n < 10 then [char_of (48 + n)] else show_nat (n div 10) @ [char_of (48 + n mod 10)])"

declare show_nat.simps [simp del]

definition show_int :: "int \<Rightarrow> string" where
  "show_int i = (if i < 0 then CHR ''-'' # show_nat (nat (- i)) else show_nat (nat i))"

text \<open>\<open>{:0w}\<close> of a number.\<close>

definition pad_zero :: "nat \<Rightarrow> string \<Rightarrow> string" where
  "pad_zero w s = replicate (w - length s) (CHR ''0'') @ s"


section \<open>IP addresses\<close>

definition ipv4_octet :: "string \<Rightarrow> bool" where
  "ipv4_octet s \<longleftrightarrow> s \<noteq> [] \<and> length s \<le> 3 \<and>
     (case digits_val 0 s of None \<Rightarrow> False | Some n \<Rightarrow> n \<le> 255) \<and>
     (length s = 1 \<or> hd s \<noteq> CHR ''0'')"

definition parses_ipv4 :: "string \<Rightarrow> bool" where
  "parses_ipv4 s \<longleftrightarrow>
     (let ps = str_split (CHR ''.'') s in length ps = 4 \<and> list_all ipv4_octet ps)"

definition hex_digit :: "char \<Rightarrow> bool" where
  "hex_digit c \<longleftrightarrow> (let n = (of_char c :: nat) in
     (48 \<le> n \<and> n \<le> 57) \<or> (65 \<le> n \<and> n \<le> 70) \<or> (97 \<le> n \<and> n \<le> 102))"

definition ipv6_group :: "string \<Rightarrow> bool" where
  "ipv6_group s \<longleftrightarrow> s \<noteq> [] \<and> length s \<le> 4 \<and> list_all hex_digit s"

text \<open>The number of 16-bit groups of a colon-separated run; a trailing IPv4 part counts two.\<close>

definition ipv6_run :: "bool \<Rightarrow> string \<Rightarrow> nat option" where
  "ipv6_run v4 s =
     (if s = [] then Some 0
      else (let ps = str_split (CHR '':'') s in
            if list_all ipv6_group ps then Some (length ps)
            else if v4 \<and> list_all ipv6_group (butlast ps) \<and> parses_ipv4 (last ps)
              then Some (length ps + 1)
            else None))"

fun split_double_colon :: "string \<Rightarrow> (string \<times> string) option" where
  "split_double_colon [] = None"
| "split_double_colon [c] = None"
| "split_double_colon (c # d # s) =
     (if c = CHR '':'' \<and> d = CHR '':'' then Some ([], s)
      else map_option (\<lambda>(a, b). (c # a, b)) (split_double_colon (d # s)))"

definition parses_ipv6 :: "string \<Rightarrow> bool" where
  "parses_ipv6 s \<longleftrightarrow>
     (case split_double_colon s of
        None \<Rightarrow> ipv6_run True s = Some 8
      | Some (a, b) \<Rightarrow>
          (case (ipv6_run False a, ipv6_run True b) of
             (Some n, Some m) \<Rightarrow> n + m \<le> 7
           | _ \<Rightarrow> False))"


section \<open>Facts\<close>

lemma hdr_get_simps [simp]:
  "hdr_get (hdr_insert h n v) m = (if m = n then Some v else hdr_get h m)"
  "hdr_get [] m = None"
proof -
  have "map_of (filter (\<lambda>kv. fst kv \<noteq> n) h) m = (if m = n then None else map_of h m)"
    by (induction h) auto
  then show "hdr_get (hdr_insert h n v) m = (if m = n then Some v else hdr_get h m)"
    by (auto simp: hdr_get_def hdr_insert_def hdr_remove_def map_add_def split: option.splits)
qed (simp add: hdr_get_def)

lemma digit_val_char_of [simp]: "n < 10 \<Longrightarrow> digit_val (char_of (48 + n)) = Some n"
  by (simp add: digit_val_def)

lemma digits_val_show_nat_append: "digits_val 0 (show_nat n @ t) = digits_val n t"
proof (induction n arbitrary: t rule: show_nat.induct)
  case (1 n)
  show ?case
  proof (cases "n < 10")
    case True
    then show ?thesis by (subst show_nat.simps) simp
  next
    case False
    have "digits_val 0 (show_nat n @ t) =
        digits_val 0 (show_nat (n div 10) @ char_of (48 + n mod 10) # t)"
      using False by (subst show_nat.simps) simp
    also have "\<dots> = digits_val (n div 10) (char_of (48 + n mod 10) # t)"
      using 1 False by blast
    also have "\<dots> = digits_val n t"
      by simp
    finally show ?thesis .
  qed
qed

lemma digits_val_show_nat [simp]: "digits_val 0 (show_nat n) = Some n"
  using digits_val_show_nat_append [of n "[]"] by simp

lemma show_nat_inject [simp]: "show_nat n = show_nat m \<longleftrightarrow> n = m"
  by (metis digits_val_show_nat option.inject)

lemma digits_val_set: "digits_val acc s = Some n \<Longrightarrow> c \<in> set s \<Longrightarrow> digit_val c \<noteq> None"
  by (induction s arbitrary: acc) (auto split: option.splits)

lemma show_nat_digits: "c \<in> set (show_nat n) \<Longrightarrow> digit_val c \<noteq> None"
  using digits_val_set digits_val_show_nat by blast

lemma show_nat_no_sep [simp]:
  "CHR '':'' \<notin> set (show_nat n)" "CHR ''-'' \<notin> set (show_nat n)" "show_nat n \<noteq> []"
proof -
  show "CHR '':'' \<notin> set (show_nat n)" "CHR ''-'' \<notin> set (show_nat n)"
    using show_nat_digits [of "CHR '':''" n] show_nat_digits [of "CHR ''-''" n]
    by (auto simp: digit_val_def)
  show "show_nat n \<noteq> []" by (subst show_nat.simps) simp
qed

lemma show_int_no_colon [simp]: "CHR '':'' \<notin> set (show_int i)"
  by (simp add: show_int_def)

lemma show_int_inject [simp]: "show_int i = show_int j \<longleftrightarrow> i = j"
proof
  assume eq: "show_int i = show_int j"
  have neg: "x < 0 \<longleftrightarrow> CHR ''-'' \<in> set (show_int x)" for x
    by (simp add: show_int_def)
  have "i < 0 \<longleftrightarrow> j < 0" using eq neg by metis
  then show "i = j" using eq by (auto simp: show_int_def split: if_splits)
qed simp


text \<open>A printed number is read back.\<close>

lemma show_nat_head: "\<exists>c r. show_nat n = c # r \<and> digit_val c \<noteq> None"
proof -
  have "show_nat n \<noteq> []" using show_nat.simps [of n] by (simp split: if_splits)
  then obtain c r where "show_nat n = c # r" by (cases "show_nat n") auto
  then show ?thesis using show_nat_digits [of c n] by auto
qed

lemma parse_show_nat: "n < 2 ^ w \<Longrightarrow> parse_unsigned w (show_nat n) = Some n"
proof -
  assume n: "n < 2 ^ w"
  obtain c r where cr: "show_nat n = c # r" "digit_val c \<noteq> None" using show_nat_head by blast
  then have "c \<noteq> CHR ''+''" by (auto simp: digit_val_def)
  then show ?thesis using n digits_val_show_nat [of n] by (simp add: parse_unsigned_def cr)
qed

lemma parse_show_int:
  assumes "- (2 ^ 63) \<le> i" and "i < 2 ^ 63"
  shows "parse_signed 64 (show_int i) = Some i"
proof (cases "i < 0")
  case True
  obtain c r where cr: "show_nat (nat (- i)) = c # r" using show_nat_head by blast
  have "nat (- i) \<le> 2 ^ 63" using assms(1) by simp
  then show ?thesis using True digits_val_show_nat [of "nat (- i)"] by (simp add: parse_signed_def show_int_def cr)
next
  case False
  obtain c r where cr: "show_nat (nat i) = c # r" "digit_val c \<noteq> None" using show_nat_head by blast
  then have "c \<noteq> CHR ''-''" by (auto simp: digit_val_def)
  moreover have "parse_unsigned 63 (c # r) = Some (nat i)" using parse_show_nat [of "nat i" 63] assms(2) False cr(1) by simp
  ultimately show ?thesis using False by (simp add: parse_signed_def show_int_def cr(1))
qed


section \<open>Identifiers as text\<close>

text \<open>
  The \<^verbatim>\<open>Display\<close> form of a \<^verbatim>\<open>Uuid\<close> (third-party): lower-case hexadecimal groups and hyphens. The
  code relies on it being a faithful name that holds no colon.
\<close>

locale uuid_display =
  fixes show_uuid :: "uuid \<Rightarrow> string"
  assumes show_uuid_inject: "show_uuid u = show_uuid v \<Longrightarrow> u = v"
    and show_uuid_no_colon: "CHR '':'' \<notin> set (show_uuid u)"

definition ref_uuid :: "uuid \<Rightarrow> string" where
  "ref_uuid u = show_nat (unat u)"

interpretation ref_uuid: uuid_display ref_uuid
  by unfold_locales (simp_all add: ref_uuid_def word_unat_eq_iff)

lemma append_sep_inject:
  assumes "c \<notin> set x" and "c \<notin> set x'" and "x @ c # y = x' @ c # y'"
  shows "x = x' \<and> y = y'"
  using assms by (induction x arbitrary: x') (case_tac x'; auto)+

end
