(* ===== verification/Rust_Text.thy ===== *)
theory Rust_Text
  imports Http
begin

text \<open>
  More of Rust's operations on text, used by the build system: lines, replacement, joining, splitting once and trimming a
  character, with the lemmas the components share. The Unicode case mappings of \<^verbatim>\<open>to_lowercase\<close> and
  \<^verbatim>\<open>to_uppercase\<close> are a parameter (record \<open>casing\<close>), of which only the ASCII part is assumed.
\<close>

section \<open>Operations\<close>

text \<open>\<^verbatim>\<open>str::lines\<close>: the terminator of a line is \<^verbatim>\<open>\n\<close> or \<^verbatim>\<open>\r\n\<close>; an empty last line is dropped.\<close>

definition drop_cr :: "string \<Rightarrow> string" where
  "drop_cr l = (case str_strip_suffix l [CHR 0x0D] of None \<Rightarrow> l | Some r \<Rightarrow> r)"

definition str_lines :: "string \<Rightarrow> string list" where
  "str_lines s =
     (let parts = str_split (CHR 0x0A) s
      in map drop_cr (butlast parts) @ (if last parts = [] then [] else [last parts]))"

text \<open>\<^verbatim>\<open>str::replace\<close> (the crates replace non-empty texts only).\<close>

function str_replace :: "string \<Rightarrow> string \<Rightarrow> string \<Rightarrow> string" where
  "str_replace s p r =
     (if s = [] then []
      else if p \<noteq> [] \<and> str_starts_with s p then r @ str_replace (drop (length p) s) p r
      else hd s # str_replace (tl s) p r)"
  by pat_completeness auto
termination
  by (relation "measure (\<lambda>(s, _, _). length s)") auto

declare str_replace.simps [simp del]

fun str_join :: "string \<Rightarrow> string list \<Rightarrow> string" where
  "str_join sep [] = []"
| "str_join sep [x] = x"
| "str_join sep (x # y # ys) = x @ sep @ str_join sep (y # ys)"

abbreviation (input) newline :: char where "newline \<equiv> CHR 0x0A"
abbreviation (input) quote1 :: char where "quote1 \<equiv> CHR 0x27"
abbreviation (input) quote2 :: char where "quote2 \<equiv> CHR 0x22"
abbreviation (input) backslash :: char where "backslash \<equiv> CHR 0x5C"

definition trim_char :: "char \<Rightarrow> string \<Rightarrow> string" where
  "trim_char c s = trim_end_matches c (trim_start_matches c s)"

definition str_ends_with :: "string \<Rightarrow> string \<Rightarrow> bool" where
  "str_ends_with s p \<longleftrightarrow> str_strip_suffix s p \<noteq> None"

text \<open>\<^verbatim>\<open>split_once\<close> and \<^verbatim>\<open>rfind\<close> with a one-byte character.\<close>

fun str_split_once :: "char \<Rightarrow> string \<Rightarrow> (string \<times> string) option" where
  "str_split_once c [] = None"
| "str_split_once c (x # s) = (if x = c then Some ([], s) else map_option (\<lambda>(a, b). (x # a, b)) (str_split_once c s))"

definition str_rfind :: "char \<Rightarrow> string \<Rightarrow> nat option" where
  "str_rfind c s = (if c \<in> set s then Some (length s - 1 - length (takeWhile (\<lambda>x. x \<noteq> c) (rev s))) else None)"

text \<open>\<^verbatim>\<open>splitn(2, char::is_whitespace)\<close>: the text before the first white-space character and what follows it.\<close>

definition split_first_ws :: "string \<Rightarrow> string \<times> string option" where
  "split_first_ws s =
     (let w = take_word s; r = drop (length w) s in (w, if r = [] then None else Some (drop (ws_len r) r)))"

definition has_ws :: "string \<Rightarrow> bool" where
  "has_ws s \<longleftrightarrow> length (take_word s) < length s"

text \<open>The position of the last element with a property (\<^verbatim>\<open>rposition\<close>).\<close>

definition rposition :: "('a \<Rightarrow> bool) \<Rightarrow> 'a list \<Rightarrow> nat option" where
  "rposition P xs = (if list_ex P xs then Some (length xs - 1 - length (takeWhile (\<lambda>x. \<not> P x) (rev xs))) else None)"

definition is_lower :: "char \<Rightarrow> bool" where "is_lower c \<longleftrightarrow> 97 \<le> (of_char c :: nat) \<and> (of_char c :: nat) \<le> 122"
definition is_upper :: "char \<Rightarrow> bool" where "is_upper c \<longleftrightarrow> 65 \<le> (of_char c :: nat) \<and> (of_char c :: nat) \<le> 90"
definition is_digit :: "char \<Rightarrow> bool" where "is_digit c \<longleftrightarrow> 48 \<le> (of_char c :: nat) \<and> (of_char c :: nat) \<le> 57"

abbreviation is_alphabetic :: "char \<Rightarrow> bool" where "is_alphabetic c \<equiv> is_lower c \<or> is_upper c"
abbreviation is_alphanumeric :: "char \<Rightarrow> bool" where "is_alphanumeric c \<equiv> is_alphabetic c \<or> is_digit c"

text \<open>The first \<open>n\<close> characters of a text in UTF-8: a byte that is no continuation byte starts a character.\<close>

fun take_chars :: "nat \<Rightarrow> string \<Rightarrow> string" where
  "take_chars n [] = []"
| "take_chars n (c # s) =
     (if 128 \<le> (of_char c :: nat) \<and> (of_char c :: nat) < 192 then c # take_chars n s
      else (case n of 0 \<Rightarrow> [] | Suc m \<Rightarrow> c # take_chars m s))"


section \<open>Letter case\<close>

record casing =
  to_lower :: "string \<Rightarrow> string"
  to_upper :: "string \<Rightarrow> string"

definition ascii_upper_char :: "char \<Rightarrow> char" where
  "ascii_upper_char c = (if is_lower c then char_of (of_char c - 32 :: nat) else c)"

definition is_ascii_text :: "string \<Rightarrow> bool" where
  "is_ascii_text s \<longleftrightarrow> (\<forall>c \<in> set s. (of_char c :: nat) < 128)"

locale case_mapping =
  fixes K :: casing
  assumes lower_ascii: "is_ascii_text s \<Longrightarrow> to_lower K s = map ascii_lower_char s"
    and upper_ascii: "is_ascii_text s \<Longrightarrow> to_upper K s = map ascii_upper_char s"

definition ascii_casing :: casing where
  "ascii_casing = \<lparr>to_lower = map ascii_lower_char, to_upper = map ascii_upper_char\<rparr>"

interpretation ascii_casing: case_mapping ascii_casing
  by unfold_locales (simp_all add: ascii_casing_def)


section \<open>Lemmas\<close>

lemma join_map_append: "str_join sep (x # xs) = x @ concat (map (\<lambda>y. sep @ y) xs)"
proof (induction xs arbitrary: x)
  case (Cons y ys)
  show ?case using Cons.IH [of y] by simp
qed simp

lemma set_join: "set (str_join sep xs) \<subseteq> \<Union> (set ` set xs) \<union> set sep"
  by (induction sep xs rule: str_join.induct) auto

lemma split_join: "(\<forall>x \<in> set xs. c \<notin> set x) \<Longrightarrow> xs \<noteq> [] \<Longrightarrow> str_split c (str_join [c] xs) = xs"
proof (induction "[c]" xs rule: str_join.induct)
  case (3 x y ys)
  then show ?case using split_append [of c x "str_join [c] (y # ys)"] by simp
qed (simp_all add: split_no_sep)

lemma join_split [simp]: "str_join [c] (str_split c s) = s"
proof (induction s)
  case (Cons x s)
  then show ?case by (cases "str_split c s") (auto simp: join_map_append)
qed simp

lemma split_once_Some: "str_split_once c s = Some (a, b) \<longleftrightarrow> s = a @ c # b \<and> c \<notin> set a"
proof (induction s arbitrary: a)
  case (Cons x s)
  show ?case
  proof (cases a)
    case Nil
    then show ?thesis by auto
  next
    case (Cons y a')
    have "str_split_once c s = Some (a', b) \<longleftrightarrow> s = a' @ c # b \<and> c \<notin> set a'" by (rule Cons.IH)
    then show ?thesis using Cons by auto
  qed
qed simp

lemma split_once_append [simp]: "c \<notin> set a \<Longrightarrow> str_split_once c (a @ c # b) = Some (a, b)"
  by (simp add: split_once_Some)

lemma split_pieces: "p \<in> set (str_split c s) \<Longrightarrow> c \<notin> set p \<and> set p \<subseteq> set s"
proof (induction s arbitrary: p)
  case (Cons x s)
  show ?case
  proof (cases "str_split c s")
    case Nil
    then show ?thesis by simp
  next
    case (Cons q qs)
    have "c \<notin> set q \<and> set q \<subseteq> set s" "\<And>r. r \<in> set qs \<Longrightarrow> c \<notin> set r \<and> set r \<subseteq> set s"
      using Cons.IH [of q] Cons.IH local.Cons by auto
    then show ?thesis using Cons.prems local.Cons by (auto split: if_splits)
  qed
qed simp

text \<open>A text of terminated lines.\<close>

lemma split_terminated:
  "(\<forall>l \<in> set ls. newline \<notin> set l) \<Longrightarrow> str_split newline (concat (map (\<lambda>l. l @ [newline]) ls)) = ls @ [[]]"
  by (induction ls) (simp_all add: split_append)

lemma lines_terminated:
  "(\<forall>l \<in> set ls. newline \<notin> set l \<and> CHR 0x0D \<notin> set l) \<Longrightarrow> str_lines (concat (map (\<lambda>l. l @ [newline]) ls)) = ls"
proof -
  assume "\<forall>l \<in> set ls. newline \<notin> set l \<and> CHR 0x0D \<notin> set l"
  moreover have "drop_cr l = l" if "CHR 0x0D \<notin> set l" for l
    using that by (auto simp: drop_cr_def strip_suffix_Some split: option.splits)
  ultimately show ?thesis by (simp add: str_lines_def split_terminated map_idI Let_def)
qed

lemma lines_no_newline: "l \<in> set (str_lines s) \<Longrightarrow> newline \<notin> set l"
proof -
  assume "l \<in> set (str_lines s)"
  then consider (last) "l = last (str_split newline s)" | (other) q where "q \<in> set (butlast (str_split newline s))" "l = drop_cr q"
    unfolding str_lines_def Let_def by (auto split: if_splits)
  then obtain p where p: "p \<in> set (str_split newline s)" "l = p \<or> l = drop_cr p"
  proof cases
    case last
    then show ?thesis using that last_in_set [OF split_nonempty] by blast
  next
    case other
    then show ?thesis using that in_set_butlastD by fast
  qed
  moreover have "set (drop_cr p) \<subseteq> set p"
    by (auto simp: drop_cr_def strip_suffix_Some split: option.splits)
  ultimately show ?thesis using split_pieces [OF p(1)] by auto
qed

lemma take_word_prefix: "\<exists>r. s = take_word s @ r"
  by (induction s) (auto split: if_splits)

lemma take_word_all: "\<not> has_ws s \<Longrightarrow> take_word s = s"
proof -
  assume "\<not> has_ws s"
  moreover obtain r where "s = take_word s @ r" using take_word_prefix by blast
  ultimately have "r = []" unfolding has_ws_def by (metis add.right_neutral length_append less_add_same_cancel1 length_greater_0_conv)
  then show ?thesis using \<open>s = take_word s @ r\<close> by simp
qed

lemma set_trim_start: "set (str_trim_start s) \<subseteq> set s"
proof (induction s rule: str_trim_start.induct)
  case (1 s)
  then show ?case using set_drop_subset [of "ws_len s" s] by (cases "s \<noteq> [] \<and> 0 < ws_len s") (auto simp: str_trim_start.simps [of s])
qed

lemma set_trim_end: "set (str_trim_end s) \<subseteq> set s"
proof (induction s rule: str_trim_end.induct)
  case (1 s)
  show ?case
  proof (cases "find (ends_with_ws s) [1, 2, 3]")
    case None
    then show ?thesis by (simp add: str_trim_end.simps [of s])
  next
    case (Some n)
    then have "set (str_trim_end s) \<subseteq> set (take (length s - n) s)" using 1 by (simp add: str_trim_end.simps [of s])
    then show ?thesis using set_take_subset [of "length s - n" s] by blast
  qed
qed

lemma set_trim: "set (str_trim s) \<subseteq> set s"
  using set_trim_start set_trim_end by (auto simp: str_trim_def)

end
