(* ===== verification/Fly_Secrets.thy ===== *)
theory Fly_Secrets
  imports Rust_Text
begin

text \<open>
  Secrets in the build (\<^verbatim>\<open>crates/builder/src/flyctl.rs\<close>): what is removed from logged output, the checks on keys and
  values, and the text given to \<^verbatim>\<open>flyctl secrets import\<close>. An \<^verbatim>\<open>anyhow\<close> error is the list of its messages, the
  outermost context first.
\<close>

record SecretEnv =
  se_key :: string
  se_value :: string

type_synonym anyhow = "string list"

section \<open>Redaction\<close>

definition MIN_REDACTED_SECRET_LEN :: nat where "MIN_REDACTED_SECRET_LEN = 4"
definition REDACTED :: string where "REDACTED = ''[REDACTED]''"

text \<open>
  The credential patterns are sequences of literal texts, single characters and greedy repetitions. A repetition is
  given by the length of the character it takes from the front; none of them can take a character that the next piece
  begins with, so a match needs no backtracking.
\<close>

datatype piece = Lit string | No_Case string | One "char \<Rightarrow> bool" | Many "string \<Rightarrow> nat" nat

function run_of :: "(string \<Rightarrow> nat) \<Rightarrow> string \<Rightarrow> nat \<times> nat" where
  "run_of f s =
     (if s = [] \<or> f s = 0 then (0, 0) else (let (n, b) = run_of f (drop (f s) s) in (Suc n, f s + b)))"
  by pat_completeness auto
termination
  by (relation "measure (length \<circ> snd)") auto

declare run_of.simps [simp del]

fun match_pieces :: "piece list \<Rightarrow> string \<Rightarrow> nat option" where
  "match_pieces [] s = Some 0"
| "match_pieces (Lit w # ps) s =
     (if str_starts_with s w then map_option ((+) (length w)) (match_pieces ps (drop (length w) s)) else None)"
| "match_pieces (No_Case w # ps) s =
     (if to_ascii_lowercase (take (length w) s) = w then map_option ((+) (length w)) (match_pieces ps (drop (length w) s)) else None)"
| "match_pieces (One P # ps) s =
     (case s of [] \<Rightarrow> None | c # r \<Rightarrow> if P c then map_option Suc (match_pieces ps r) else None)"
| "match_pieces (Many f least # ps) s =
     (let (n, b) = run_of f s in if least \<le> n then map_option ((+) b) (match_pieces ps (drop b s)) else None)"

definition in_class :: "(char \<Rightarrow> bool) \<Rightarrow> string \<Rightarrow> nat" where
  "in_class P s = (case s of [] \<Rightarrow> 0 | c # _ \<Rightarrow> if P c then 1 else 0)"

text \<open>Under \<^verbatim>\<open>(?i)\<close> the letters of a class also stand for U+017F and U+212A, which fold to s and k.\<close>

definition in_class_no_case :: "(char \<Rightarrow> bool) \<Rightarrow> string \<Rightarrow> nat" where
  "in_class_no_case P s =
     (if str_starts_with s [CHR 0xC5, CHR 0xBF] then 2
      else if str_starts_with s [CHR 0xE2, CHR 0x84, CHR 0xAA] then 3 else in_class P s)"

definition token_redaction_patterns :: "piece list list" where
  "token_redaction_patterns =
     [[Lit ''FlyV1'', Many ws_len 1, Many (in_class (\<lambda>c. is_alphanumeric c \<or> c \<in> set ''_-,/.='')) 1],
      [Lit ''f'', One (\<lambda>c. c \<in> set ''om''), One is_digit, Lit ''_'', Many (in_class (\<lambda>c. is_alphanumeric c \<or> c \<in> set ''_-'')) 10],
      [Lit ''gh'', One (\<lambda>c. c \<in> set ''posru''), Lit ''_'', Many (in_class is_alphanumeric) 20],
      [Lit ''github_pat_'', Many (in_class (\<lambda>c. is_alphanumeric c \<or> c = CHR ''_'')) 20],
      [Lit ''sk-'', Many (in_class (\<lambda>c. is_alphanumeric c \<or> c \<in> set ''_-'')) 16],
      [Lit ''AKIA'', Many (in_class (\<lambda>c. is_digit c \<or> is_upper c)) 12],
      [No_Case ''bearer'', Many ws_len 1, Many (in_class_no_case (\<lambda>c. is_alphanumeric c \<or> c \<in> set ''._-'')) 8]]"

function regex_replace_all :: "piece list \<Rightarrow> string \<Rightarrow> string \<Rightarrow> string" where
  "regex_replace_all ps s r =
     (if s = [] then []
      else (case match_pieces ps s of
              Some n \<Rightarrow> if 0 < n then r @ regex_replace_all ps (drop n s) r else hd s # regex_replace_all ps (tl s) r
            | None \<Rightarrow> hd s # regex_replace_all ps (tl s) r))"
  by pat_completeness auto
termination
  by (relation "measure (\<lambda>(_, s, _). length s)") auto

declare regex_replace_all.simps [simp del]

definition sanitize_log_output :: "string \<Rightarrow> SecretEnv list \<Rightarrow> string" where
  "sanitize_log_output output secrets =
     fold (\<lambda>ps s. regex_replace_all ps s REDACTED) token_redaction_patterns
       (fold (\<lambda>secret s. if MIN_REDACTED_SECRET_LEN \<le> length (se_value secret) then str_replace s (se_value secret) REDACTED else s)
         secrets output)"


section \<open>Checks\<close>

definition validate_secret_key :: "string \<Rightarrow> anyhow + unit" where
  "validate_secret_key key =
     (if key = [] then Inl [''Secret key cannot be empty'']
      else if \<not> is_alphabetic (hd key) \<and> hd key \<noteq> CHR ''_'' then Inl [''Secret key must start with a letter or underscore'']
      else if \<not> list_all (\<lambda>c. is_alphanumeric c \<or> c = CHR ''_'') key
        then Inl [''Secret key must contain only letters, numbers, and underscores'']
      else if 256 < length key then Inl [''Secret key exceeds maximum length of 256 characters'']
      else Inr ())"

definition validate_secret_value :: "string \<Rightarrow> anyhow + unit" where
  "validate_secret_value v =
     (if newline \<in> set v \<or> CHR 0x0D \<in> set v then Inl [''Secret value cannot contain newline characters'']
      else if CHR 0x00 \<in> set v then Inl [''Secret value cannot contain null bytes'']
      else if 65536 < length v then Inl [''Secret value exceeds maximum length of 65536 bytes'']
      else Inr ())"

text \<open>The checks of all secrets, in order, with their contexts; the first error ends them.\<close>

fun validate_secrets :: "SecretEnv list \<Rightarrow> anyhow + unit" where
  "validate_secrets [] = Inr ()"
| "validate_secrets (s # ss) =
     (case validate_secret_key (se_key s) of
        Inl e \<Rightarrow> Inl ((''Invalid secret key: '' @ se_key s) # e)
      | Inr _ \<Rightarrow>
          (case validate_secret_value (se_value s) of
             Inl e \<Rightarrow> Inl ((''Invalid secret value for key: '' @ se_key s) # e)
           | Inr _ \<Rightarrow> validate_secrets ss))"

definition secrets_payload :: "SecretEnv list \<Rightarrow> string" where
  "secrets_payload secrets = concat (map (\<lambda>s. se_key s @ ''='' @ se_value s @ [newline]) secrets)"


section \<open>What redaction guarantees\<close>

text \<open>\<open>redacted s t\<close>: \<open>t\<close> is \<open>s\<close> with some pieces replaced by the mark.\<close>

inductive redacted :: "string \<Rightarrow> string \<Rightarrow> bool" where
  redacted_end: "redacted [] []"
| redacted_keep: "redacted s t \<Longrightarrow> redacted (c # s) (c # t)"
| redacted_cut: "redacted s t \<Longrightarrow> redacted (w @ s) (REDACTED @ t)"

lemma redacted_replace: "redacted s (str_replace s p REDACTED)"
proof (induction s p "REDACTED" rule: str_replace.induct)
  case (1 s p)
  show ?case
  proof (cases "s = []")
    case False
    then show ?thesis
      using 1 redacted_keep [of "tl s" _ "hd s"] redacted_cut [of "drop (length p) s" _ "take (length p) s"]
      by (auto simp: str_replace.simps [of s])
  qed (simp add: str_replace.simps redacted_end)
qed

lemma redacted_regex: "redacted s (regex_replace_all ps s REDACTED)"
proof (induction ps s "REDACTED" rule: regex_replace_all.induct)
  case (1 ps s)
  show ?case
  proof (cases "s = []")
    case False
    then show ?thesis
      using 1 redacted_keep [of "tl s" _ "hd s"] redacted_cut [of "drop n s" _ "take n s" for n]
      by (auto simp: regex_replace_all.simps [of ps s] split: option.splits)
  qed (simp add: regex_replace_all.simps redacted_end)
qed

lemma redacted_refl: "redacted s s"
  by (induction s) (auto intro: redacted.intros)

text \<open>A value that cannot be part of the mark is in the result only where it was before.\<close>

definition markless :: "string \<Rightarrow> bool" where
  "markless v \<longleftrightarrow> v \<noteq> [] \<and> CHR ''['' \<notin> set v \<and> CHR '']'' \<notin> set v \<and> \<not> str_contains ''REDACTED'' v"

lemma redacted_starts:
  assumes "redacted s t" and "CHR ''['' \<notin> set v" and "t = v @ r"
  shows "\<exists>r'. s = v @ r'"
  using assms
proof (induction arbitrary: v rule: redacted.induct)
  case (redacted_keep s t c)
  then show ?case by (cases v) auto
next
  case (redacted_cut s t w)
  then show ?case by (cases v) (auto simp: REDACTED_def)
qed simp

lemma contains_Cons: "str_contains (c # s) v \<longleftrightarrow> (\<exists>r. c # s = v @ r) \<or> str_contains s v"
  by (cases v) (auto simp: contains_iff Cons_eq_append_conv)

lemma prefix_before: "c \<notin> set v \<Longrightarrow> x @ c # t = v @ r \<Longrightarrow> \<exists>r'. x = v @ r'"
proof (induction x arbitrary: v)
  case Nil
  then show ?case by (cases v) auto
next
  case (Cons y x)
  then show ?case by (cases v) auto
qed

lemma contains_sep: "c \<notin> set v \<Longrightarrow> v \<noteq> [] \<Longrightarrow> str_contains (x @ c # t) v \<longleftrightarrow> str_contains x v \<or> str_contains t v"
proof (induction x)
  case Nil
  have "\<not> (\<exists>r. c # t = v @ r)" using Nil by (cases v) auto
  then show ?case using Nil contains_Cons [of c t v] by (cases v) simp_all
next
  case (Cons y x)
  have "(\<exists>r. y # (x @ c # t) = v @ r) \<longleftrightarrow> (\<exists>r. y # x = v @ r)"
    using prefix_before [OF Cons.prems(1), of "y # x" t] by (metis append_Cons append_assoc)
  then show ?case using Cons contains_Cons [of y "x @ c # t" v] contains_Cons [of y x v] by auto
qed

lemma in_mark:
  assumes "markless v" and "str_contains (REDACTED @ t) v"
  shows "str_contains t v"
proof -
  note v = assms(1) [unfolded markless_def]
  have "REDACTED @ t = [] @ CHR ''['' # (''REDACTED'' @ CHR '']'' # t)" by (simp add: REDACTED_def)
  then have "str_contains ([] @ CHR ''['' # (''REDACTED'' @ CHR '']'' # t)) v" using assms(2) by metis
  then show ?thesis using v contains_sep [of "CHR ''[''" v "[]"] contains_sep [of "CHR '']''" v "''REDACTED''"]
    by (auto simp del: append_Cons append_Nil simp: contains_iff)
qed

lemma redacted_contains:
  assumes "redacted s t" and "markless v" and "str_contains t v"
  shows "str_contains s v"
  using assms
proof (induction rule: redacted.induct)
  case (redacted_keep s t c)
  have "\<exists>r'. c # s = v @ r'" if "c # t = v @ r" for r
    using redacted_starts [OF redacted.redacted_keep [OF redacted_keep.hyps], of v] that redacted_keep.prems(1)
    by (auto simp: markless_def)
  then show ?case using redacted_keep.IH [OF redacted_keep.prems(1)] redacted_keep.prems(2) unfolding contains_Cons by blast
next
  case (redacted_cut s t w)
  have "str_contains s v" using redacted_cut in_mark by blast
  then show ?case unfolding contains_iff by (metis append.assoc)
qed

lemma redacted_trans_free:
  "redacted s t \<Longrightarrow> markless v \<Longrightarrow> \<not> str_contains s v \<Longrightarrow> \<not> str_contains t v"
  using redacted_contains by blast

text \<open>Replacing a value removes it.\<close>

lemma replace_free:
  assumes "markless p"
  shows "\<not> str_contains (str_replace s p REDACTED) p"
  using assms
proof (induction s p REDACTED rule: str_replace.induct)
  case (1 s p)
  show ?case
  proof (cases "s = []")
    case True
    then show ?thesis using 1(3) str_replace.simps [of "[]" p] by (simp add: markless_def)
  next
    case False
    show ?thesis
    proof (cases "str_starts_with s p")
      case True
      then have "str_replace s p REDACTED = REDACTED @ str_replace (drop (length p) s) p REDACTED"
        using False 1(3) by (simp add: str_replace.simps [of s] markless_def)
      then show ?thesis using 1(1) True False 1(3) in_mark [OF 1(3)] by (auto simp: markless_def)
    next
      case no: False
      then have eq: "str_replace s p REDACTED = hd s # str_replace (tl s) p REDACTED"
        using False by (simp add: str_replace.simps [of s])
      have "redacted s (hd s # str_replace (tl s) p REDACTED)"
        using redacted_keep [OF redacted_replace, of "hd s" "tl s" p] False by simp
      moreover have "CHR ''['' \<notin> set p" "\<nexists>r. s = p @ r" using no 1(3) by (auto simp: markless_def starts_with_iff)
      ultimately have "\<nexists>r. hd s # str_replace (tl s) p REDACTED = p @ r"
        using redacted_starts by blast
      moreover have "\<not> str_contains (str_replace (tl s) p REDACTED) p" using 1(2) False no 1(3) by simp
      ultimately show ?thesis unfolding eq contains_Cons by blast
    qed
  qed
qed

lemma fold_redacted:
  assumes "\<And>x s. redacted s (f x s)" and "markless v" and "\<not> str_contains s v"
  shows "\<not> str_contains (fold f xs s) v"
  using assms(3) by (induction xs arbitrary: s) (auto dest: redacted_trans_free [OF assms(1,2)])

text \<open>
  C23: logged output holds no secret. Whatever the output is and whatever other secrets there are, a secret of at least
  four bytes that holds neither a square bracket nor the word \<^verbatim>\<open>REDACTED\<close>, so that no part of the mark \<^verbatim>\<open>[REDACTED]\<close> can
  complete it, does not occur in the sanitized output.
\<close>

theorem secrets_redacted:
  assumes "secret \<in> set secrets" and "4 \<le> length (se_value secret)" and "CHR ''['' \<notin> set (se_value secret)"
    and "CHR '']'' \<notin> set (se_value secret)" and "\<not> str_contains ''REDACTED'' (se_value secret)"
  shows "\<not> str_contains (sanitize_log_output output secrets) (se_value secret)"
proof -
  let ?v = "se_value secret"
  let ?f = "\<lambda>secret s. if MIN_REDACTED_SECRET_LEN \<le> length (se_value secret) then str_replace s (se_value secret) REDACTED else s"
  have v: "markless ?v" using assms(2-5) by (auto simp: markless_def)
  have step: "redacted s (?f x s)" for x s by (simp add: redacted_replace redacted_refl)
  obtain before after where "secrets = before @ secret # after" using assms(1) by (meson split_list)
  then have "fold ?f secrets output = fold ?f after (str_replace (fold ?f before output) ?v REDACTED)"
    using assms(2) by (simp add: MIN_REDACTED_SECRET_LEN_def)
  moreover have "\<not> str_contains (fold ?f after (str_replace (fold ?f before output) ?v REDACTED)) ?v"
    by (rule fold_redacted [OF step v replace_free [OF v]])
  ultimately have "\<not> str_contains (fold ?f secrets output) ?v" by simp
  then show ?thesis unfolding sanitize_log_output_def by (rule fold_redacted [OF redacted_regex v])
qed

lemma secrets_redacted_witness:
  "\<not> str_contains (sanitize_log_output ''token=s3cr3t'' [\<lparr>se_key = ''A'', se_value = ''s3cr3t''\<rparr>]) ''s3cr3t''"
  using secrets_redacted [of "\<lparr>se_key = ''A'', se_value = ''s3cr3t''\<rparr>" "[\<lparr>se_key = ''A'', se_value = ''s3cr3t''\<rparr>]" "''token=s3cr3t''"]
  by (simp add: str_starts_with_def del: str_contains.simps(2)) (simp add: str_starts_with_def)

text \<open>A value that contains another one of the list is left in part.\<close>

lemma overlapping_secret_leaks:
  "sanitize_log_output ''key=pass-1234-word'' [\<lparr>se_key = ''A'', se_value = ''1234''\<rparr>, \<lparr>se_key = ''B'', se_value = ''pass-1234-word''\<rparr>]
     = ''key=pass-[REDACTED]-word''"
  by code_simp


section \<open>What the checks guarantee\<close>

lemma valid_secret:
  assumes "validate_secrets secrets = Inr ()" and "s \<in> set secrets"
  shows "CHR ''='' \<notin> set (se_key s)" "newline \<notin> set (se_key s @ se_value s)" "CHR 0x0D \<notin> set (se_key s @ se_value s)"
proof -
  have "validate_secret_key (se_key s) = Inr () \<and> validate_secret_value (se_value s) = Inr ()"
    using assms by (induction secrets) (auto split: sum.splits)
  then have k: "list_all (\<lambda>c. is_alphanumeric c \<or> c = CHR ''_'') (se_key s)"
    and v: "newline \<notin> set (se_value s)" "CHR 0x0D \<notin> set (se_value s)"
    by (auto simp: validate_secret_key_def validate_secret_value_def split: if_splits)
  have "c \<notin> set (se_key s)" if "\<not> is_alphanumeric c" "c \<noteq> CHR ''_''" for c
    using k that by (auto simp: list_all_iff)
  then show "CHR ''='' \<notin> set (se_key s)" "newline \<notin> set (se_key s @ se_value s)" "CHR 0x0D \<notin> set (se_key s @ se_value s)"
    using v by (auto simp: is_lower_def is_upper_def is_digit_def)
qed

text \<open>
  C22: a secret cannot bring another one. The text given to \<^verbatim>\<open>flyctl secrets import\<close>, read line by line and split at the
  first equals sign, is exactly the list of the checked keys and values.
\<close>

theorem secrets_not_injected:
  assumes "validate_secrets secrets = Inr ()"
  shows "map (str_split_once (CHR ''='')) (str_lines (secrets_payload secrets)) = map (\<lambda>s. Some (se_key s, se_value s)) secrets"
proof -
  let ?line = "\<lambda>s. se_key s @ ''='' @ se_value s"
  have "secrets_payload secrets = concat (map (\<lambda>l. l @ [newline]) (map ?line secrets))"
    by (simp add: secrets_payload_def comp_def)
  moreover have "str_lines (concat (map (\<lambda>l. l @ [newline]) (map ?line secrets))) = map ?line secrets"
    by (rule lines_terminated) (use valid_secret(2,3) [OF assms] in auto)
  ultimately show ?thesis using valid_secret(1) [OF assms] by simp
qed

lemma secrets_not_injected_witness:
  "map (str_split_once (CHR ''='')) (str_lines (secrets_payload [\<lparr>se_key = ''A'', se_value = ''B=C''\<rparr>])) = [Some (''A'', ''B=C'')]"
  using secrets_not_injected [of "[\<lparr>se_key = ''A'', se_value = ''B=C''\<rparr>]"]
  by (simp add: validate_secret_key_def validate_secret_value_def is_upper_def)


end
