(* ===== verification/Dockerfile_Context.thy ===== *)
theory Dockerfile_Context
  imports Json Fly_Secrets
begin

text \<open>
  Reading Dockerfiles (\<^verbatim>\<open>crates/builder/src/flyctl.rs\<close>): the entry command of a repository's Dockerfile, the
  shell-like tokenizer, and the check that every \<^verbatim>\<open>COPY\<close> and \<^verbatim>\<open>ADD\<close> source lies inside the build context. The file
  system is a parameter (record \<open>files\<close>).
\<close>

section \<open>Commands\<close>

text \<open>The loop of \<^verbatim>\<open>tokenize_shell\<close>: the open quote, whether a token has begun, and its text so far.\<close>

function tokenize_loop :: "char option \<Rightarrow> bool \<Rightarrow> string \<Rightarrow> string \<Rightarrow> string list" where
  "tokenize_loop q in_token cur [] = (if in_token then [cur] else [])"
| "tokenize_loop (Some q) in_token cur (c # s) =
     (if c = q then tokenize_loop None in_token cur s else tokenize_loop (Some q) in_token (cur @ [c]) s)"
| "tokenize_loop None in_token cur (c # s) =
     (if c = quote2 \<or> c = quote1 then tokenize_loop (Some c) True cur s
      else if 0 < ws_len (c # s) then
        (if in_token then cur # tokenize_loop None False [] (drop (ws_len (c # s)) (c # s))
         else tokenize_loop None False cur (drop (ws_len (c # s)) (c # s)))
      else tokenize_loop None True (cur @ [c]) s)"
  by pat_completeness auto
termination
  by (relation "measure (\<lambda>(_, _, _, s). length s)") auto

definition tokenize_shell :: "string \<Rightarrow> string list" where
  "tokenize_shell s = tokenize_loop None False [] s"

definition shell_quote_if_needed :: "string \<Rightarrow> string" where
  "shell_quote_if_needed token =
     (if token = [] \<or> has_ws token then [quote2] @ str_replace token [quote2] [backslash, quote2] @ [quote2] else token)"

definition parse_docker_command :: "codec \<Rightarrow> string \<Rightarrow> string option" where
  "parse_docker_command C s =
     (let s = str_trim s
      in if str_starts_with s ''['' then
           (case Option.bind (from_slice C s) json_string_list of
              Some parts \<Rightarrow>
                (let parts = filter (\<lambda>p. p \<noteq> []) parts
                 in if parts \<noteq> [] then Some (str_join '' '' (map shell_quote_if_needed parts)) else None)
            | None \<Rightarrow> None)
         else if s \<noteq> [] then Some s else None)"

text \<open>\<^verbatim>\<open>line[10..]\<close> after a test on the upper-case form of the line.\<close>

definition command_after :: "codec \<Rightarrow> casing \<Rightarrow> string \<Rightarrow> string \<Rightarrow> string option" where
  "command_after C K keyword line =
     (if str_starts_with (to_upper K line) keyword then parse_docker_command C (str_trim (drop (length keyword) line)) else None)"

definition extract_dockerfile_entry_command :: "codec \<Rightarrow> casing \<Rightarrow> string \<Rightarrow> string option" where
  "extract_dockerfile_entry_command C K content =
     (let (entrypoint, cmd) =
        fold (\<lambda>raw (entrypoint, cmd).
          let line = str_trim raw
          in (or_else (command_after C K ''ENTRYPOINT'' line) entrypoint, or_else (command_after C K ''CMD'' line) cmd))
        (str_lines content) (None, None)
      in or_else entrypoint cmd)"


section \<open>Instructions\<close>

fun logical_loop :: "string \<Rightarrow> string list \<Rightarrow> string list" where
  "logical_loop current [] = (if current = [] then [] else [current])"
| "logical_loop current (raw_line # rest) =
     (let line = trim_end_matches (CHR 0x0D) raw_line; trimmed = str_trim line
      in if current = [] \<and> (trimmed = [] \<or> str_starts_with trimmed ''#'') then logical_loop current rest
         else
           (let continues = str_ends_with (str_trim_end line) [backslash];
                segment = (if continues then str_trim (butlast (str_trim_end line)) else trimmed);
                current' = (if current = [] then segment else if segment \<noteq> [] then current @ '' '' @ segment else current)
            in if continues then logical_loop current' rest else current' # logical_loop [] rest))"

definition logical_instructions :: "string \<Rightarrow> string list" where
  "logical_instructions dockerfile = logical_loop [] (str_lines dockerfile)"

lemma length_trim_start: "length (str_trim_start s) \<le> length s"
proof (induction s rule: str_trim_start.induct)
  case (1 s)
  then show ?case by (cases "s \<noteq> [] \<and> 0 < ws_len s") (auto simp: str_trim_start.simps [of s])
qed

function split_flags :: "string \<Rightarrow> string list \<times> string" where
  "split_flags remainder =
     (case str_strip_prefix remainder ''--'' of
        None \<Rightarrow> ([], remainder)
      | Some stripped \<Rightarrow>
          (let w = take_word stripped; (flags, rest) = split_flags (str_trim_start (drop (length w) stripped))
           in ((''--'' @ w) # flags, rest)))"
  by pat_completeness auto
termination
proof (relation "measure length")
  fix remainder stripped w :: string
  assume "str_strip_prefix remainder ''--'' = Some stripped"
  then show "(str_trim_start (drop (length w) stripped), remainder) \<in> measure length"
    using length_trim_start [of "drop (length w) stripped"] by (simp add: strip_prefix_Some)
qed simp

declare split_flags.simps [simp del]

definition unquote :: "string \<Rightarrow> string" where
  "unquote p = trim_char quote1 (trim_char quote2 (str_trim p))"

definition parse_json_string_array :: "string \<Rightarrow> string list" where
  "parse_json_string_array s =
     (let s = str_trim s
      in if \<not> (str_starts_with s ''['' \<and> str_ends_with s '']'') then []
         else filter (\<lambda>p. p \<noteq> []) (map unquote (str_split (CHR '','') (butlast (tl s)))))"

definition split_copy_tokens :: "string \<Rightarrow> string list \<times> string list" where
  "split_copy_tokens rest =
     (let (flags, remainder) = split_flags (str_trim rest)
      in (flags, if str_starts_with remainder ''['' then parse_json_string_array remainder else tokenize_shell remainder))"

definition has_glob :: "string \<Rightarrow> bool" where
  "has_glob s \<longleftrightarrow> CHR ''*'' \<in> set s \<or> CHR ''?'' \<in> set s \<or> CHR ''['' \<in> set s"

definition is_remote_source :: "casing \<Rightarrow> string \<Rightarrow> bool" where
  "is_remote_source K src \<longleftrightarrow>
     (let s = to_lower K src
      in str_starts_with s ''http://'' \<or> str_starts_with s ''https://'' \<or> str_starts_with s ''ftp://'' \<or>
         str_starts_with s ''git@'' \<or> str_starts_with s ''git://'' \<or> (str_contains s ''github.com/'' \<and> CHR ''#'' \<in> set s))"

fun contains_unresolved_var :: "string \<Rightarrow> bool" where
  "contains_unresolved_var [] = False"
| "contains_unresolved_var [c] = (c = CHR ''$'')"
| "contains_unresolved_var (c # d # s) =
     (if c = CHR ''$'' then (if d = CHR ''$'' then contains_unresolved_var s else True) else contains_unresolved_var (d # s))"

record ContextSource =
  cs_raw :: string
  cs_instruction :: string

definition instruction_sources :: "casing \<Rightarrow> string \<Rightarrow> ContextSource list" where
  "instruction_sources K instr =
     (let (w, r) = split_first_ws instr; keyword = to_upper K w
      in if keyword \<noteq> ''COPY'' \<and> keyword \<noteq> ''ADD'' then []
         else
           (let (flags, operands) = split_copy_tokens (str_trim (unwrap_or r []))
            in if list_ex (\<lambda>f. f = ''--from'' \<or> str_starts_with f ''--from='') flags then []
               else if length operands < 2 then []
               else map (\<lambda>src. \<lparr>cs_raw = src, cs_instruction = instr\<rparr>)
                 (filter (\<lambda>src. \<not> str_starts_with src ''<<'' \<and> \<not> (keyword = ''ADD'' \<and> is_remote_source K src) \<and>
                    \<not> contains_unresolved_var src) (butlast operands))))"

definition parse_context_sources :: "casing \<Rightarrow> string \<Rightarrow> ContextSource list" where
  "parse_context_sources K dockerfile = concat (map (instruction_sources K) (logical_instructions dockerfile))"


section \<open>Inside the context\<close>

record files =
  fs_exists :: "string \<Rightarrow> bool"
  fs_read :: "string \<Rightarrow> string option"
  fs_subdirs :: "string \<Rightarrow> string list option"
  fs_canonical :: "string \<Rightarrow> string option"

text \<open>\<^verbatim>\<open>Path::join\<close> and \<^verbatim>\<open>Path::starts_with\<close>: an absolute path replaces the base; a prefix counts by components.\<close>

definition path_join :: "string \<Rightarrow> string \<Rightarrow> string" where
  "path_join a b =
     (if str_starts_with b ''/'' then b else if a = [] then b else if str_ends_with a ''/'' then a @ b else a @ ''/'' @ b)"

definition components :: "string \<Rightarrow> string list" where
  "components p = filter (\<lambda>x. x \<noteq> [] \<and> x \<noteq> ''.'') (str_split (CHR ''/'') p)"

definition path_starts_with :: "string \<Rightarrow> string \<Rightarrow> bool" where
  "path_starts_with p base \<longleftrightarrow>
     (str_starts_with p ''/'' \<longleftrightarrow> str_starts_with base ''/'') \<and> take (length (components base)) (components p) = components base"

definition glob_static_prefix :: "string \<Rightarrow> string" where
  "glob_static_prefix norm = str_join ''/'' (takeWhile (\<lambda>seg. \<not> has_glob seg) (str_split (CHR ''/'') norm))"

datatype EscapeReason = NotFound | ParentTraversal

definition source_escapes :: "files \<Rightarrow> string \<Rightarrow> string \<Rightarrow> string option \<Rightarrow> EscapeReason option" where
  "source_escapes F raw context_dir canonical_ctx =
     (let norm = str_replace (trim_start_matches (CHR ''/'') raw) [backslash] ''/''
      in if norm = [] \<or> norm = ''.'' \<or> norm = ''./'' then None
         else if list_ex (\<lambda>seg. seg = ''..'') (str_split (CHR ''/'') norm) then Some ParentTraversal
         else
           (let check_path = (if has_glob norm then glob_static_prefix norm else norm)
            in if check_path = [] then None
               else
                 (let full = path_join context_dir check_path
                  in if \<not> fs_exists F full then Some NotFound
                     else (case (fs_canonical F full, canonical_ctx) of
                             (Some canon, Some ctx) \<Rightarrow> if \<not> path_starts_with canon ctx then Some NotFound else None
                           | _ \<Rightarrow> None))))"

record EscapingSource =
  es_instruction :: string
  es_source :: string
  es_reason :: EscapeReason

text \<open>\<^verbatim>\<open>DockerfileContextFit\<close>: the escaping sources, none when the Dockerfile is usable.\<close>

datatype DockerfileContextFit = Usable | Unusable "EscapingSource list"

definition dockerfile_context_fit :: "files \<Rightarrow> casing \<Rightarrow> string \<Rightarrow> string \<Rightarrow> DockerfileContextFit" where
  "dockerfile_context_fit F K dockerfile context_dir =
     (let canonical_ctx = fs_canonical F context_dir;
          escaping = List.map_filter (\<lambda>cs. map_option (\<lambda>reason.
              \<lparr>es_instruction = cs_instruction cs, es_source = cs_raw cs, es_reason = reason\<rparr>)
            (source_escapes F (cs_raw cs) context_dir canonical_ctx)) (parse_context_sources K dockerfile)
      in if escaping = [] then Usable else Unusable escaping)"


section \<open>Tokens and quoting\<close>

definition quote_free :: "string \<Rightarrow> bool" where
  "quote_free s \<longleftrightarrow> quote1 \<notin> set s \<and> quote2 \<notin> set s"

lemma ws_len_append: "w \<noteq> [] \<Longrightarrow> ws_len w = 0 \<Longrightarrow> r = [] \<or> str_starts_with r '' '' \<Longrightarrow> ws_len (w @ r) = 0"
proof -
  assume w: "w \<noteq> []" "ws_len w = 0" and r: "r = [] \<or> str_starts_with r '' ''"
  obtain a w1 where a: "w = a # w1" using w(1) by (cases w) auto
  show ?thesis
  proof (cases "r = []")
    case False
    then obtain r' where r': "r = CHR '' '' # r'" using r by (auto simp: starts_with_iff)
    show ?thesis
    proof (cases w1)
      case Nil
      then show ?thesis using w a r' by (cases r') (auto simp: ws_len_def split: if_splits)
    next
      case (Cons b w2)
      then show ?thesis using w a r' by (cases w2) (auto simp: ws_len_def split: if_splits)
    qed
  qed (simp add: w)
qed

lemma no_ws_Cons: "\<not> has_ws (c # s) \<Longrightarrow> ws_len (c # s) = 0 \<and> \<not> has_ws s"
  by (auto simp: has_ws_def split: if_splits)

text \<open>A word without quotes and white space is a token; so is a quoted text without quotes.\<close>

lemma tokenize_word:
  assumes "quote_free w" and "\<not> has_ws w" and "w \<noteq> [] \<or> in_token" and r: "r = [] \<or> str_starts_with r '' ''"
  shows "tokenize_loop None in_token cur (w @ r) = (cur @ w) # tokenize_loop None False [] (tl r)"
  using assms(1-3)
proof (induction w arbitrary: cur in_token)
  case Nil
  show ?case
  proof (cases "r = []")
    case False
    then obtain r' where "r = CHR '' '' # r'" using r by (auto simp: starts_with_iff)
    then show ?thesis using Nil by (simp add: ws_len_def)
  qed (use Nil in simp)
next
  case (Cons c w)
  have "ws_len (c # w) = 0" "\<not> has_ws w" using no_ws_Cons [OF Cons.prems(2)] by auto
  then have "ws_len (c # w @ r) = 0" using ws_len_append [OF _ _ r, of "c # w"] by simp
  moreover have "quote_free w" using Cons.prems(1) by (simp add: quote_free_def)
  moreover have "c \<noteq> quote1" "c \<noteq> quote2" using Cons.prems(1) by (auto simp: quote_free_def)
  ultimately show ?case using Cons.IH [of True "cur @ [c]"] \<open>\<not> has_ws w\<close> by simp
qed

lemma tokenize_quoted:
  assumes "q \<notin> set w"
  shows "tokenize_loop (Some q) in_token cur (w @ q # r) = tokenize_loop None in_token (cur @ w) r"
  using assms by (induction w arbitrary: cur) auto

lemma replace_absent: "c \<notin> set s \<Longrightarrow> str_replace s [c] r = s"
proof (induction s)
  case (Cons x s)
  then show ?case using str_replace.simps [of "x # s" "[c]" r] by (auto simp: str_starts_with_def)
qed (use str_replace.simps [of "[]"] in simp)

lemma tokenize_parts:
  "(\<forall>p \<in> set ps. quote_free p \<and> p \<noteq> []) \<Longrightarrow> tokenize_shell (str_join '' '' (map shell_quote_if_needed ps)) = ps"
proof (induction ps)
  case (Cons p ps)
  let ?rest = "str_join '' '' (map shell_quote_if_needed ps)"
  define r where "r = (if ps = [] then [] else '' '' @ ?rest)"
  have r: "r = [] \<or> str_starts_with r '' ''" by (simp add: r_def str_starts_with_def)
  have rest: "tokenize_loop None False [] (tl r) = ps"
    using Cons by (cases ps) (simp_all add: r_def tokenize_shell_def)
  have "str_join '' '' (map shell_quote_if_needed (p # ps)) = shell_quote_if_needed p @ r"
    by (cases ps) (simp_all add: r_def)
  moreover have "tokenize_loop None False [] (shell_quote_if_needed p @ r) = p # ps"
  proof (cases "has_ws p")
    case True
    have "str_replace p [quote2] [backslash, quote2] = p"
      by (rule replace_absent) (use Cons.prems in \<open>simp add: quote_free_def\<close>)
    moreover have "tokenize_loop (Some quote2) True [] (p @ quote2 # r) = tokenize_loop None True p r"
      by (subst tokenize_quoted) (use Cons.prems in \<open>simp_all add: quote_free_def\<close>)
    moreover have "tokenize_loop None True p r = p # tokenize_loop None False [] (tl r)"
      using tokenize_word [of "[]" True r p] r by (simp add: quote_free_def has_ws_def)
    ultimately show ?thesis using True rest by (simp add: shell_quote_if_needed_def)
  next
    case False
    then show ?thesis
      using Cons.prems tokenize_word [of p False r "[]"] r rest by (simp add: shell_quote_if_needed_def)
  qed
  ultimately show ?case by (simp add: tokenize_shell_def)
qed (simp add: tokenize_shell_def)

lemma strings_of_texts [simp]: "strings_of (map JString ps) = Some ps"
  by (induction ps) auto

theorem docker_command_roundtrip:
  assumes "from_slice C (str_trim s) = Some (JArray (map JString parts))" and "str_starts_with (str_trim s) ''[''"
    and "\<forall>p \<in> set parts. quote_free p"
  shows "map_option tokenize_shell (parse_docker_command C s) =
    (if filter (\<lambda>p. p \<noteq> []) parts = [] then None else Some (filter (\<lambda>p. p \<noteq> []) parts))"
  using assms tokenize_parts [of "filter (\<lambda>p. p \<noteq> []) parts"]
  by (simp add: parse_docker_command_def json_string_list_def Let_def)

text \<open>With quotes it does not: the tokenizer knows no escapes, and only white space makes a word be quoted.\<close>

lemma quotes_lost:
  "tokenize_shell (shell_quote_if_needed [CHR ''a'', quote2, CHR '' '', CHR ''b'']) = [[CHR ''a'', backslash], ''b'']"
  "tokenize_shell (shell_quote_if_needed [CHR ''a'', quote1, CHR ''b'']) = [''ab'']"
  by code_simp+

end
