(* ===== verification/Project_Detect.thy ===== *)
theory Project_Detect
  imports Dockerfile_Context
begin

text \<open>
  What the builder reads off a repository (\<^verbatim>\<open>crates/builder/src/flyctl.rs\<close>): workspace members, the start command and
  the dependencies of each language, the package manager, and the system packages that dependencies need.
  \<^verbatim>\<open>toml::from_str\<close> is a parameter, as the JSON codec is.
\<close>

datatype toml = TString string | TArray "toml list" | TTable "(string \<times> toml) list" | TOther

fun toml_get :: "toml \<Rightarrow> string \<Rightarrow> toml option" where
  "toml_get (TTable m) k = map_of m k"
| "toml_get _ k = None"

fun toml_str :: "toml \<Rightarrow> string option" where
  "toml_str (TString s) = Some s"
| "toml_str _ = None"

fun toml_array :: "toml \<Rightarrow> toml list option" where
  "toml_array (TArray l) = Some l"
| "toml_array _ = None"

fun toml_table :: "toml \<Rightarrow> (string \<times> toml) list option" where
  "toml_table (TTable m) = Some m"
| "toml_table _ = None"

record build_env =
  be_files :: files
  be_codec :: codec
  be_case :: casing
  be_toml :: "string \<Rightarrow> toml option"

section \<open>Workspaces\<close>

definition parse_workspaces :: "codec \<Rightarrow> string \<Rightarrow> string list" where
  "parse_workspaces C package_json =
     (case from_slice C package_json of
        None \<Rightarrow> []
      | Some pkg \<Rightarrow>
          (case json_get pkg ''workspaces'' of
             Some (JArray a) \<Rightarrow> List.map_filter as_str a
           | Some (JObject m) \<Rightarrow>
               (case Option.bind (json_get (JObject m) ''packages'') as_array of
                  Some a \<Rightarrow> List.map_filter as_str a | None \<Rightarrow> [])
           | _ \<Rightarrow> []))"

definition globs_of :: "string list \<Rightarrow> string list" where
  "globs_of items = filter (\<lambda>g. g \<noteq> [] \<and> \<not> str_starts_with g ''!'') (map unquote items)"

definition parse_inline_glob_array :: "string \<Rightarrow> string list" where
  "parse_inline_glob_array s =
     globs_of (str_split (CHR '','') (trim_end_matches (CHR '']'') (trim_start_matches (CHR ''['') (str_trim s))))"

fun pnpm_loop :: "bool \<Rightarrow> string list \<Rightarrow> string list" where
  "pnpm_loop in_packages [] = []"
| "pnpm_loop in_packages (raw_line # rest) =
     (let line = trim_end_matches (CHR 0x0D) raw_line; trimmed = str_trim line
      in if trimmed = [] \<or> str_starts_with trimmed ''#'' then pnpm_loop in_packages rest
         else if \<not> (str_starts_with line '' '' \<or> str_starts_with line [CHR 0x09]) then
           (case str_strip_prefix trimmed ''packages:'' of
              Some r \<Rightarrow>
                (let r = str_trim r
                 in if str_starts_with r ''['' then parse_inline_glob_array r @ pnpm_loop False rest
                    else pnpm_loop True rest)
            | None \<Rightarrow> pnpm_loop False rest)
         else if in_packages then
           (case str_strip_prefix trimmed ''-'' of Some item \<Rightarrow> globs_of [item] | None \<Rightarrow> []) @ pnpm_loop in_packages rest
         else pnpm_loop in_packages rest)"

definition parse_pnpm_workspace :: "string \<Rightarrow> string list" where
  "parse_pnpm_workspace yaml = pnpm_loop False (str_lines yaml)"

definition sorted_unique :: "string list \<Rightarrow> string list" where
  "sorted_unique xs = remdups_adj (sort xs)"

definition detect_workspace_globs :: "build_env \<Rightarrow> string \<Rightarrow> string list" where
  "detect_workspace_globs B dir =
     (let read = (\<lambda>f. fs_read (be_files B) (path_join dir f));
          npm = (case read ''package.json'' of Some pkg \<Rightarrow> parse_workspaces (be_codec B) pkg | None \<Rightarrow> []);
          pnpm = (case or_else (read ''pnpm-workspace.yaml'') (read ''pnpm-workspace.yml'') of
                    Some y \<Rightarrow> parse_pnpm_workspace y | None \<Rightarrow> [])
      in sorted_unique (npm @ pnpm))"

definition glob_prefix :: "string \<Rightarrow> string option" where
  "glob_prefix g = or_else (str_strip_suffix g ''/**'') (str_strip_suffix g ''/*'')"

definition list_workspace_members :: "files \<Rightarrow> string \<Rightarrow> string list \<Rightarrow> string list" where
  "list_workspace_members F root globs =
     sorted_unique (concat (map (\<lambda>g.
       case glob_prefix g of
         Some pre \<Rightarrow>
           (case fs_subdirs F (path_join root pre) of
              Some names \<Rightarrow> map (\<lambda>name. pre @ ''/'' @ name) names | None \<Rightarrow> [])
       | None \<Rightarrow> if \<not> has_glob g then [g] else []) globs))"

definition glob_matches :: "string \<Rightarrow> string \<Rightarrow> bool" where
  "glob_matches subdir g =
     (let g = trim_char (CHR ''/'') g
      in case str_strip_suffix g ''/**'' of
           Some pre \<Rightarrow>
             (let pre = trim_char (CHR ''/'') pre
              in pre = [] \<or> (length pre < length subdir \<and> str_starts_with subdir pre \<and> subdir ! length pre = CHR ''/''))
         | None \<Rightarrow>
             (case str_strip_suffix g ''/*'' of
                Some pre \<Rightarrow>
                  (case str_strip_prefix subdir (trim_char (CHR ''/'') pre) of
                     Some r \<Rightarrow> (let r = trim_start_matches (CHR ''/'') r in r \<noteq> [] \<and> CHR ''/'' \<notin> set r)
                   | None \<Rightarrow> False)
              | None \<Rightarrow>
                  if g = ''*'' then subdir \<noteq> [] \<and> CHR ''/'' \<notin> set subdir else g = subdir))"

definition subdir_is_workspace_member :: "string \<Rightarrow> string list \<Rightarrow> bool" where
  "subdir_is_workspace_member subdir globs \<longleftrightarrow> list_ex (glob_matches (trim_char (CHR ''/'') subdir)) globs"

definition prefix_entry_with_subdir :: "string \<Rightarrow> string \<Rightarrow> string" where
  "prefix_entry_with_subdir entry subdir =
     (let subdir = trim_char (CHR ''/'') subdir
      in if subdir = [] then entry
         else
           (case split_whitespace entry of
              cmd # arg # rest \<Rightarrow>
                (if cmd = ''node'' \<and> \<not> str_starts_with arg ''/'' \<and> \<not> str_starts_with arg ''-'' then
                   ''node '' @ subdir @ ''/'' @ arg @ concat (map (\<lambda>r. '' '' @ r) rest)
                 else if cmd = ''npm'' then ''npm --prefix '' @ subdir @ '' '' @ str_join '' '' (arg # rest)
                 else if cmd = ''pnpm'' then ''pnpm --filter ./'' @ subdir @ '' '' @ str_join '' '' (arg # rest)
                 else entry)
            | _ \<Rightarrow> entry))"


section \<open>Start commands and dependencies\<close>

datatype NodePm = Npm | Pnpm

fun NodePm_cli :: "NodePm \<Rightarrow> string" where
  "NodePm_cli Npm = ''npm''"
| "NodePm_cli Pnpm = ''pnpm''"

fun NodePm_runner :: "NodePm \<Rightarrow> string" where
  "NodePm_runner Npm = ''npm run''"
| "NodePm_runner Pnpm = ''pnpm run''"

definition detect_node_pm :: "build_env \<Rightarrow> string \<Rightarrow> NodePm" where
  "detect_node_pm B dir =
     (if fs_exists (be_files B) (path_join dir ''pnpm-lock.yaml'') \<or> fs_exists (be_files B) (path_join dir ''pnpm-workspace.yaml'') \<or>
         fs_exists (be_files B) (path_join dir ''pnpm-workspace.yml'') then Pnpm
      else
        (case Option.bind (fs_read (be_files B) (path_join dir ''package.json'')) (\<lambda>content.
                Option.bind (from_slice (be_codec B) content) (\<lambda>v. Option.bind (json_get v ''packageManager'') as_str)) of
           Some pm \<Rightarrow> if str_starts_with (str_trim_start pm) ''pnpm'' then Pnpm else Npm
         | None \<Rightarrow> Npm))"

definition parse_node_deps :: "build_env \<Rightarrow> string \<Rightarrow> string list" where
  "parse_node_deps B package_json =
     (case from_slice (be_codec B) package_json of
        None \<Rightarrow> []
      | Some pkg \<Rightarrow>
          concat (map (\<lambda>section.
            case Option.bind (json_get pkg section) as_object of
              Some m \<Rightarrow> map (to_lower (be_case B) \<circ> fst) m | None \<Rightarrow> [])
            [''dependencies'', ''devDependencies'', ''optionalDependencies'', ''peerDependencies'']))"

definition requirement_name :: "casing \<Rightarrow> string \<Rightarrow> string \<Rightarrow> string option" where
  "requirement_name K stops l =
     (let name = to_lower K (str_trim (takeWhile (\<lambda>c. c \<notin> set stops) l)) in if name \<noteq> [] then Some name else None)"

definition parse_requirements_deps :: "casing \<Rightarrow> string \<Rightarrow> string list" where
  "parse_requirements_deps K requirements =
     List.map_filter (requirement_name K ''=<>~! ;[('')
       (filter (\<lambda>l. l \<noteq> [] \<and> \<not> str_starts_with l ''#'' \<and> \<not> str_starts_with l ''-'') (map str_trim (str_lines requirements)))"

definition parse_pyproject_deps :: "build_env \<Rightarrow> string \<Rightarrow> string list" where
  "parse_pyproject_deps B pyproject =
     (case be_toml B pyproject of
        None \<Rightarrow> []
      | Some val \<Rightarrow>
          (case Option.bind (toml_get val ''project'') (\<lambda>p. Option.bind (toml_get p ''dependencies'') toml_array) of
             Some arr \<Rightarrow> List.map_filter (requirement_name (be_case B) ''=<>~! ;['') (List.map_filter toml_str arr)
           | None \<Rightarrow> []) @
          (case Option.bind (toml_get val ''tool'') (\<lambda>t. Option.bind (toml_get t ''poetry'') (\<lambda>p.
                 Option.bind (toml_get p ''dependencies'') toml_table)) of
             Some table \<Rightarrow> map (to_lower (be_case B) \<circ> fst) table
           | None \<Rightarrow> []))"

definition parse_go_deps :: "casing \<Rightarrow> string \<Rightarrow> string list" where
  "parse_go_deps K go_mod =
     List.map_filter (\<lambda>l.
       (let l = unwrap_or (str_strip_prefix l ''require '') l
        in case split_whitespace l of
             [] \<Rightarrow> None
           | first # _ \<Rightarrow> if CHR ''/'' \<in> set first \<and> CHR ''.'' \<in> set first then Some (to_lower K first) else None))
       (map str_trim (str_lines go_mod))"

definition nonblank :: "string option \<Rightarrow> string option" where
  "nonblank x = (case x of None \<Rightarrow> None | Some s \<Rightarrow> if str_trim s \<noteq> [] then Some (str_trim s) else None)"

definition parse_node_entry :: "codec \<Rightarrow> string \<Rightarrow> NodePm \<Rightarrow> string option" where
  "parse_node_entry C package_json pm =
     Option.bind (from_slice C package_json) (\<lambda>pkg.
       if nonblank (Option.bind (json_get pkg ''scripts'') (\<lambda>s. Option.bind (json_get s ''start'') as_str)) \<noteq> None
       then Some (NodePm_cli pm @ '' start'')
       else
         (let node = map_option (\<lambda>p. ''node '' @ p)
          in or_else (node (nonblank (Option.bind (json_get pkg ''main'') as_str)))
               (case json_get pkg ''bin'' of
                  Some (JString path) \<Rightarrow> node (nonblank (Some path))
                | Some (JObject m) \<Rightarrow>
                    or_else
                      (node (Option.bind (Option.bind (json_get pkg ''name'') as_str) (\<lambda>n. nonblank (Option.bind (map_of m n) as_str))))
                      (case List.map_filter (\<lambda>v. nonblank (as_str v)) (map snd m) of
                         [] \<Rightarrow> None | p # _ \<Rightarrow> node (Some p))
                | _ \<Rightarrow> None)))"

definition parse_pyproject_script :: "(string \<Rightarrow> toml option) \<Rightarrow> string \<Rightarrow> string option" where
  "parse_pyproject_script T pyproject =
     Option.bind (T pyproject) (\<lambda>val. Option.bind (toml_get val ''project'') (\<lambda>p. Option.bind (toml_get p ''scripts'') (\<lambda>s.
     Option.bind (toml_table s) (\<lambda>m. case m of [] \<Rightarrow> None | (k, _) # _ \<Rightarrow> Some k))))"

definition parse_cargo_bin :: "(string \<Rightarrow> toml option) \<Rightarrow> string \<Rightarrow> string option" where
  "parse_cargo_bin T cargo_toml =
     Option.bind (T cargo_toml) (\<lambda>val.
       or_else
         (nonblank (Option.bind (toml_get val ''bin'') (\<lambda>b. Option.bind (toml_array b) (\<lambda>arr.
            case arr of [] \<Rightarrow> None | first # _ \<Rightarrow> Option.bind (toml_get first ''name'') toml_str))))
         (nonblank (Option.bind (toml_get val ''package'') (\<lambda>p. Option.bind (toml_get p ''name'') toml_str))))"

record ProjectStructure =
  pj_python_entry :: "string option"
  pj_python_script :: "string option"
  pj_has_pyproject :: bool
  pj_has_uv_lock :: bool
  pj_has_requirements_txt :: bool
  pj_has_package_json :: bool
  pj_node_entry :: "string option"
  pj_rust_bin :: "string option"
  pj_node_deps :: "string list"
  pj_python_deps :: "string list"
  pj_go_deps :: "string list"
  pj_node_pm :: NodePm

definition detected_entry :: "ProjectStructure \<Rightarrow> string \<Rightarrow> string option" where
  "detected_entry p runtime =
     (if runtime = ''node'' then pj_node_entry p
      else if runtime = ''python'' then or_else (pj_python_script p) (map_option (\<lambda>f. ''python '' @ f) (pj_python_entry p))
      else if runtime = ''go'' then Some ''./server''
      else if runtime = ''rust'' then map_option (\<lambda>b. ''./'' @ b) (pj_rust_bin p)
      else None)"

definition python_entry_candidates :: "string list" where
  "python_entry_candidates = [''server.py'', ''main.py'', ''app.py'', ''__main__.py'', ''run.py'', ''index.py'', ''mcp_server.py'']"

definition detect_project_structure :: "build_env \<Rightarrow> string \<Rightarrow> ProjectStructure" where
  "detect_project_structure B dir =
     (let there = (\<lambda>f. fs_exists (be_files B) (path_join dir f));
          read = (\<lambda>f. fs_read (be_files B) (path_join dir f));
          has_pyproject = there ''pyproject.toml'';
          has_requirements = there ''requirements.txt'';
          has_package = there ''package.json'';
          pm = (if has_package then detect_node_pm B dir else Npm);
          when = (\<lambda>b f. if b then read f else None);
          src = path_join dir ''src'';
          entry = or_else (find there python_entry_candidates)
            (if fs_exists (be_files B) src
             then map_option (\<lambda>c. ''src/'' @ c) (find (\<lambda>c. fs_exists (be_files B) (path_join src c)) python_entry_candidates)
             else None)
      in \<lparr>pj_python_entry = entry,
          pj_python_script = Option.bind (when has_pyproject ''pyproject.toml'') (parse_pyproject_script (be_toml B)),
          pj_has_pyproject = has_pyproject,
          pj_has_uv_lock = there ''uv.lock'',
          pj_has_requirements_txt = has_requirements,
          pj_has_package_json = has_package,
          pj_node_entry = Option.bind (when has_package ''package.json'') (\<lambda>c. parse_node_entry (be_codec B) c pm),
          pj_rust_bin = Option.bind (when (there ''Cargo.toml'') ''Cargo.toml'') (parse_cargo_bin (be_toml B)),
          pj_node_deps = (case when has_package ''package.json'' of Some c \<Rightarrow> parse_node_deps B c | None \<Rightarrow> []),
          pj_python_deps =
            (case when has_requirements ''requirements.txt'' of Some c \<Rightarrow> parse_requirements_deps (be_case B) c | None \<Rightarrow> []) @
            (case when has_pyproject ''pyproject.toml'' of Some c \<Rightarrow> parse_pyproject_deps B c | None \<Rightarrow> []),
          pj_go_deps = (case when (there ''go.mod'') ''go.mod'' of Some c \<Rightarrow> parse_go_deps (be_case B) c | None \<Rightarrow> []),
          pj_node_pm = pm\<rparr>)"

definition detect_member_entry :: "build_env \<Rightarrow> string \<Rightarrow> string \<Rightarrow> string \<Rightarrow> string option" where
  "detect_member_entry B root member runtime =
     (if runtime = ''node'' then
        Option.bind (fs_read (be_files B) (path_join member ''package.json'')) (\<lambda>content.
          parse_node_entry (be_codec B) content (detect_node_pm B root))
      else detected_entry (detect_project_structure B member) runtime)"


section \<open>System packages\<close>

record Provision =
  pv_apt_packages :: "string list"
  pv_post_install :: "string list"
  pv_min_memory_mb :: "nat option"
  pv_warnings :: "string list"
  pv_skip_if_contains :: "string list"

definition no_provision :: Provision where
  "no_provision = \<lparr>pv_apt_packages = [], pv_post_install = [], pv_min_memory_mb = None, pv_warnings = [], pv_skip_if_contains = []\<rparr>"

definition provision_empty :: "Provision \<Rightarrow> bool" where
  "provision_empty p \<longleftrightarrow> pv_apt_packages p = [] \<and> pv_post_install p = [] \<and> pv_min_memory_mb p = None"

text \<open>Push the items that are not there yet.\<close>

definition add_missing :: "string list \<Rightarrow> string list \<Rightarrow> string list" where
  "add_missing new old = fold (\<lambda>x acc. if x \<in> set acc then acc else acc @ [x]) new old"

definition provision_merge :: "Provision \<Rightarrow> Provision \<Rightarrow> Provision" where
  "provision_merge self other =
     \<lparr>pv_apt_packages = add_missing (pv_apt_packages other) (pv_apt_packages self),
      pv_post_install = pv_post_install self @ pv_post_install other,
      pv_min_memory_mb = (case (pv_min_memory_mb self, pv_min_memory_mb other) of
         (Some a, Some b) \<Rightarrow> Some (max a b) | (a, b) \<Rightarrow> or_else a b),
      pv_warnings = pv_warnings self @ pv_warnings other,
      pv_skip_if_contains = add_missing (pv_skip_if_contains other) (pv_skip_if_contains self)\<rparr>"

definition deps_contain :: "string list \<Rightarrow> string list \<Rightarrow> bool" where
  "deps_contain deps needles \<longleftrightarrow> list_ex (\<lambda>d. list_ex (\<lambda>n. d = n \<or> str_contains d n) needles) deps"

definition BROWSER_MEMORY_MB :: nat where "BROWSER_MEMORY_MB = 2048"

definition detects :: "bool \<Rightarrow> Provision \<Rightarrow> Provision option" where
  "detects b p = (if b then Some p else None)"

definition detect_playwright_node :: "ProjectStructure \<Rightarrow> Provision option" where
  "detect_playwright_node p = detects (deps_contain (pj_node_deps p) [''playwright'', ''@playwright/test'', ''playwright-core''])
     (no_provision\<lparr>pv_post_install := [''npx playwright install --with-deps chromium''], pv_min_memory_mb := Some BROWSER_MEMORY_MB,
        pv_skip_if_contains := [''playwright install'']\<rparr>)"

definition chromium_runtime_libs :: "string list" where
  "chromium_runtime_libs =
     [''ca-certificates'', ''fonts-liberation'', ''libasound2'', ''libatk-bridge2.0-0'',
      ''libatk1.0-0'', ''libcups2'', ''libdbus-1-3'', ''libdrm2'', ''libgbm1'', ''libnspr4'',
      ''libnss3'', ''libxcomposite1'', ''libxdamage1'', ''libxfixes3'', ''libxkbcommon0'',
      ''libxrandr2'', ''libpango-1.0-0'', ''libcairo2'']"

definition detect_puppeteer_node :: "ProjectStructure \<Rightarrow> Provision option" where
  "detect_puppeteer_node p = detects (deps_contain (pj_node_deps p) [''puppeteer'', ''puppeteer-core''])
     \<lparr>pv_apt_packages = chromium_runtime_libs, pv_post_install = [''npx puppeteer browsers install chrome''],
      pv_min_memory_mb = Some BROWSER_MEMORY_MB,
      pv_warnings = [''Puppeteer in a container must launch with `--no-sandbox` (and ideally `--disable-dev-shm-usage`). Ensure your server passes these args.''],
      pv_skip_if_contains = [''puppeteer browsers install'', ''playwright install'']\<rparr>"

definition detect_playwright_python :: "ProjectStructure \<Rightarrow> Provision option" where
  "detect_playwright_python p = detects (deps_contain (pj_python_deps p) [''playwright''])
     (no_provision\<lparr>pv_post_install := [''playwright install --with-deps chromium''], pv_min_memory_mb := Some BROWSER_MEMORY_MB,
        pv_skip_if_contains := [''playwright install'']\<rparr>)"

definition detect_selenium_python :: "ProjectStructure \<Rightarrow> Provision option" where
  "detect_selenium_python p = detects (deps_contain (pj_python_deps p) [''selenium''])
     (no_provision\<lparr>pv_apt_packages := [''chromium'', ''chromium-driver''], pv_min_memory_mb := Some BROWSER_MEMORY_MB,
        pv_warnings := [''Selenium in a container should launch Chrome with `--no-sandbox`.'']\<rparr>)"

definition detect_browser_go :: "ProjectStructure \<Rightarrow> Provision option" where
  "detect_browser_go p = detects (deps_contain (pj_go_deps p) [''go-rod/rod'', ''chromedp/chromedp''])
     (no_provision\<lparr>pv_apt_packages := [''chromium''], pv_min_memory_mb := Some BROWSER_MEMORY_MB\<rparr>)"

definition detect_ffmpeg_node :: "ProjectStructure \<Rightarrow> Provision option" where
  "detect_ffmpeg_node p = detects (deps_contain (pj_node_deps p) [''fluent-ffmpeg'']) (no_provision\<lparr>pv_apt_packages := [''ffmpeg'']\<rparr>)"

definition detect_opencv_python :: "ProjectStructure \<Rightarrow> Provision option" where
  "detect_opencv_python p = detects (deps_contain (pj_python_deps p) [''opencv-python'', ''opencv-contrib-python''])
     (no_provision\<lparr>pv_apt_packages := [''libgl1'', ''libglib2.0-0'']\<rparr>)"

definition DETECTORS :: "(ProjectStructure \<Rightarrow> Provision option) list" where
  "DETECTORS = [detect_playwright_node, detect_puppeteer_node, detect_playwright_python, detect_selenium_python,
     detect_browser_go, detect_ffmpeg_node, detect_opencv_python]"

definition detect_provision :: "ProjectStructure \<Rightarrow> Provision" where
  "detect_provision project =
     fold (\<lambda>detect merged. case detect project of Some p \<Rightarrow> provision_merge merged p | None \<Rightarrow> merged) DETECTORS no_provision"

text \<open>The steps of a provision that the Dockerfile does not take itself.\<close>

definition apt_line :: "string \<Rightarrow> Provision \<Rightarrow> string option" where
  "apt_line dockerfile provision =
     (let apt_needed = filter (\<lambda>pkg. \<not> str_contains dockerfile pkg) (pv_apt_packages provision)
      in if apt_needed = [] then None
         else Some (''RUN apt-get update && apt-get install -y --no-install-recommends '' @ str_join '' '' apt_needed @
                '' && rm -rf /var/lib/apt/lists/*''))"

definition post_install_needed :: "string \<Rightarrow> Provision \<Rightarrow> string list" where
  "post_install_needed dockerfile provision =
     (if list_ex (str_contains dockerfile) (pv_skip_if_contains provision) then [] else pv_post_install provision)"

text \<open>Packages go after the last \<^verbatim>\<open>FROM\<close>, the other steps before the last command, or to the end.\<close>

definition run_steps :: "string \<Rightarrow> string list \<Rightarrow> string list" where
  "run_steps comment post_install = comment # map (\<lambda>cmd. ''RUN '' @ cmd) post_install"

definition package_steps :: "string option \<Rightarrow> string list" where
  "package_steps apt = (case apt of Some a \<Rightarrow> [''# nodeflare: system packages'', a] | None \<Rightarrow> [])"

definition steps_at :: "nat \<Rightarrow> nat option \<Rightarrow> string option \<Rightarrow> string list \<Rightarrow> nat \<Rightarrow> string \<Rightarrow> string list" where
  "steps_at last_from last_cmd apt post_install i line =
     (if Some i = last_cmd \<and> post_install \<noteq> []
      then run_steps ''# nodeflare: provision system dependency (matches installed library version)'' post_install else []) @
     [line] @ (if i = last_from then package_steps apt else [])"

definition insert_steps :: "string list \<Rightarrow> nat \<Rightarrow> nat option \<Rightarrow> string option \<Rightarrow> string list \<Rightarrow> string list" where
  "insert_steps lines last_from last_cmd apt post_install =
     concat (map (\<lambda>(i, line). steps_at last_from last_cmd apt post_install i line) (enumerate 0 lines)) @
     (if last_cmd = None \<and> post_install \<noteq> []
      then run_steps ''# nodeflare: provision system dependency'' post_install else [])"

definition apply_provision :: "casing \<Rightarrow> string \<Rightarrow> Provision \<Rightarrow> string option" where
  "apply_provision K dockerfile provision =
     (if pv_apt_packages provision = [] \<and> pv_post_install provision = [] then None
      else
        (let lines = str_lines dockerfile;
             upper = (\<lambda>l. to_upper K (str_trim_start l));
             last_cmd = rposition (\<lambda>l. str_starts_with (upper l) ''CMD'' \<or> str_starts_with (upper l) ''ENTRYPOINT'') lines;
             apt = apt_line dockerfile provision;
             post_install = post_install_needed dockerfile provision
         in case rposition (\<lambda>l. str_starts_with (upper l) ''FROM '') lines of
              None \<Rightarrow> None
            | Some last_from \<Rightarrow>
                if apt = None \<and> post_install = [] then None
                else Some (str_join [newline] (insert_steps lines last_from last_cmd apt post_install) @ [newline])))"


section \<open>Provisioning once\<close>

text \<open>A text without line ends that is in a text is in one of its lines.\<close>

lemma contains_append: "str_contains s p \<Longrightarrow> str_contains (a @ s @ b) p"
  by (auto simp: contains_iff) (metis append.assoc)

lemma contains_drop_cr: "CHR 0x0D \<notin> set p \<Longrightarrow> p \<noteq> [] \<Longrightarrow> str_contains l p \<Longrightarrow> str_contains (drop_cr l) p"
proof (cases "str_strip_suffix l [CHR 0x0D]")
  case (Some r)
  assume p: "CHR 0x0D \<notin> set p" "p \<noteq> []" "str_contains l p"
  then have "str_contains (r @ CHR 0x0D # []) p" using Some by (simp add: strip_suffix_Some)
  then show ?thesis using p Some contains_sep [of "CHR 0x0D" p r "[]"] by (simp add: drop_cr_def del: str_contains.simps)
    (simp add: contains_iff)
qed (simp add: drop_cr_def)

lemma contains_split: "newline \<notin> set p \<Longrightarrow> p \<noteq> [] \<Longrightarrow> str_contains s p \<Longrightarrow> \<exists>l \<in> set (str_split newline s). str_contains l p"
proof (induction "length (str_split newline s)" arbitrary: s)
  case 0
  then show ?case by simp
next
  case (Suc n)
  show ?case
  proof (cases "newline \<in> set s")
    case True
    then obtain a b where s: "s = a @ newline # b" "newline \<notin> set a" by (meson split_list_first)
    then have "str_contains a p \<or> str_contains b p" using Suc.prems contains_sep by simp
    then show ?thesis using Suc s by (auto simp: split_append)
  qed (use Suc.prems in \<open>simp add: split_no_sep\<close>)
qed

definition in_line :: "string \<Rightarrow> bool" where
  "in_line p \<longleftrightarrow> p \<noteq> [] \<and> newline \<notin> set p \<and> CHR 0x0D \<notin> set p"

lemma contains_line: "in_line p \<Longrightarrow> str_contains s p \<Longrightarrow> \<exists>l \<in> set (str_lines s). str_contains l p"
proof -
  assume p: "in_line p" and s: "str_contains s p"
  let ?parts = "str_split newline s"
  from contains_split [of p s] p s obtain l where l: "l \<in> set ?parts" "str_contains l p" by (auto simp: in_line_def)
  have "?parts = butlast ?parts @ [last ?parts]" by simp
  then have "l \<in> set (butlast ?parts) \<or> l = last ?parts" using l(1) by (metis in_set_conv_decomp_last Un_iff set_append set_ConsD empty_iff list.set(1))
  then show ?thesis
  proof
    assume "l \<in> set (butlast ?parts)"
    then show ?thesis using l(2) p contains_drop_cr [of p l] by (auto simp: str_lines_def Let_def in_line_def)
  next
    assume "l = last ?parts"
    moreover have "l \<noteq> []" using l(2) p by (auto simp: in_line_def)
    ultimately show ?thesis using l(2) by (auto simp: str_lines_def Let_def)
  qed
qed

lemma contains_join: "x \<in> set xs \<Longrightarrow> str_contains x p \<Longrightarrow> str_contains (str_join sep xs) p"
proof (induction sep xs rule: str_join.induct)
  case (3 sep x' y ys)
  then show ?case using contains_append [of "x'" p "[]" "sep @ str_join sep (y # ys)"]
      contains_append [of "str_join sep (y # ys)" p "x' @ sep" "[]"] by auto
qed simp_all

text \<open>What a provision of the detectors is like.\<close>

definition provision_ok :: "Provision \<Rightarrow> bool" where
  "provision_ok p \<longleftrightarrow> (\<forall>x \<in> set (pv_apt_packages p). in_line x) \<and> (\<forall>x \<in> set (pv_skip_if_contains p). in_line x) \<and>
     (pv_post_install p \<noteq> [] \<longrightarrow> (\<exists>c \<in> set (pv_post_install p). \<exists>m \<in> set (pv_skip_if_contains p). str_contains c m))"

lemma set_add_missing [simp]: "set (add_missing new old) = set new \<union> set old"
  unfolding add_missing_def by (induction new arbitrary: old) auto

lemma merge_ok: "provision_ok p \<Longrightarrow> provision_ok q \<Longrightarrow> provision_ok (provision_merge p q)"
  by (auto simp: provision_ok_def provision_merge_def)

lemma detects_ok: "provision_ok p \<Longrightarrow> detects b p = Some q \<Longrightarrow> provision_ok q"
  by (simp add: detects_def split: if_splits)

lemma provisions_ok:
  "detect_playwright_node project = Some p \<Longrightarrow> provision_ok p" "detect_puppeteer_node project = Some p \<Longrightarrow> provision_ok p"
  "detect_playwright_python project = Some p \<Longrightarrow> provision_ok p" "detect_selenium_python project = Some p \<Longrightarrow> provision_ok p"
  "detect_browser_go project = Some p \<Longrightarrow> provision_ok p" "detect_ffmpeg_node project = Some p \<Longrightarrow> provision_ok p"
  "detect_opencv_python project = Some p \<Longrightarrow> provision_ok p"
  unfolding detect_playwright_node_def detect_puppeteer_node_def detect_playwright_python_def detect_selenium_python_def
    detect_browser_go_def detect_ffmpeg_node_def detect_opencv_python_def
  by (erule detects_ok [rotated], code_simp)+

lemma detectors_ok: "detect \<in> set DETECTORS \<Longrightarrow> detect project = Some p \<Longrightarrow> provision_ok p"
  unfolding DETECTORS_def using provisions_ok by auto

lemma detect_provision_ok: "provision_ok (detect_provision project)"
proof -
  have "provision_ok m \<Longrightarrow> set ds \<subseteq> set DETECTORS \<Longrightarrow>
      provision_ok (fold (\<lambda>detect merged. case detect project of Some p \<Rightarrow> provision_merge merged p | None \<Rightarrow> merged) ds m)" for ds m
  proof (induction ds arbitrary: m)
    case (Cons d ds)
    then show ?case using detectors_ok [of d project] merge_ok by (auto split: option.splits)
  qed simp
  moreover have "provision_ok no_provision" by (simp add: no_provision_def provision_ok_def)
  ultimately show ?thesis unfolding detect_provision_def by blast
qed

lemma rposition_lt: "rposition P xs = Some i \<Longrightarrow> i < length xs"
  by (cases xs) (auto simp: rposition_def split: if_splits)

lemma inserted_at:
  assumes "i < length lines" and "y \<in> set (steps_at lf lc apt post i (lines ! i))"
  shows "y \<in> set (insert_steps lines lf lc apt post)"
proof -
  have "(i, lines ! i) \<in> set (enumerate 0 lines)" using assms(1) by (simp add: in_set_enumerate_eq)
  then have "\<exists>z \<in> set (enumerate 0 lines). y \<in> set (case z of (i, line) \<Rightarrow> steps_at lf lc apt post i line)"
    using assms(2) by (intro bexI [of _ "(i, lines ! i)"]) simp_all
  then show ?thesis unfolding insert_steps_def by simp
qed

lemma set_run_steps: "c \<in> set post \<Longrightarrow> ''RUN '' @ c \<in> set (run_steps comment post)"
  unfolding run_steps_def by (induction post) auto

lemma inserted_line: "x \<in> set lines \<Longrightarrow> x \<in> set (insert_steps lines lf lc apt post)"
proof -
  assume "x \<in> set lines"
  then obtain i where "i < length lines" "lines ! i = x" by (auto simp: in_set_conv_nth)
  then show ?thesis using inserted_at [of i lines x] by (simp add: steps_at_def)
qed

lemma inserted_apt: "lf < length lines \<Longrightarrow> a \<in> set (insert_steps lines lf lc (Some a) post)"
  by (rule inserted_at) (auto simp: steps_at_def package_steps_def)

lemma inserted_post:
  assumes "lc = None \<or> (\<exists>i. lc = Some i \<and> i < length lines)" and "c \<in> set post"
  shows "''RUN '' @ c \<in> set (insert_steps lines lf lc apt post)"
proof (cases lc)
  case None
  then show ?thesis using set_run_steps [OF assms(2)] assms(2) unfolding insert_steps_def by auto
next
  case (Some i)
  have "''RUN '' @ c \<in> set (steps_at lf lc apt post i (lines ! i))"
    using Some set_run_steps [OF assms(2)] assms(2) unfolding steps_at_def by auto
  then show ?thesis using Some assms(1) by (intro inserted_at) auto
qed

lemma contains_patched: "x \<in> set xs \<Longrightarrow> str_contains x p \<Longrightarrow> str_contains (str_join [newline] xs @ [newline]) p"
  using contains_append [OF contains_join, of x xs p "[]" "[newline]" "[newline]"] by simp

text \<open>
  C38: provisioning is idempotent. A Dockerfile to which the detected system packages and installation steps of a project
  were added needs nothing more: applying the same provision to it changes nothing.
\<close>

theorem apply_provision_once:
  assumes "apply_provision K dockerfile (detect_provision project) = Some patched"
  shows "apply_provision K patched (detect_provision project) = None"
proof -
  let ?p = "detect_provision project" and ?lines = "str_lines dockerfile"
  let ?apt = "apt_line dockerfile ?p" and ?post = "post_install_needed dockerfile ?p"
  have ok: "provision_ok ?p" by (rule detect_provision_ok)
  obtain lf lc where lf: "lf < length ?lines" and lc: "lc = None \<or> (\<exists>i. lc = Some i \<and> i < length ?lines)"
    and patched: "patched = str_join [newline] (insert_steps ?lines lf lc ?apt ?post) @ [newline]"
  proof -
    let ?lc = "rposition (\<lambda>l. str_starts_with (to_upper K (str_trim_start l)) ''CMD'' \<or>
        str_starts_with (to_upper K (str_trim_start l)) ''ENTRYPOINT'') ?lines"
    obtain lf where lf: "rposition (\<lambda>l. str_starts_with (to_upper K (str_trim_start l)) ''FROM '') ?lines = Some lf"
      and "patched = str_join [newline] (insert_steps ?lines lf ?lc ?apt ?post) @ [newline]"
      using assms unfolding apply_provision_def Let_def by (auto split: if_splits option.splits)
    then show ?thesis using that [of lf ?lc] rposition_lt [OF lf] rposition_lt [of _ ?lines] by (cases ?lc) auto
  qed
  have kept: "str_contains patched x" if "in_line x" "str_contains dockerfile x" for x
    using contains_line [OF that] contains_patched inserted_line unfolding patched by blast
  have "str_contains patched x" if x: "x \<in> set (pv_apt_packages ?p)" for x
  proof (cases "str_contains dockerfile x")
    case True
    then show ?thesis using kept x ok by (simp add: provision_ok_def)
  next
    case False
    let ?needed = "filter (\<lambda>pkg. \<not> str_contains dockerfile pkg) (pv_apt_packages ?p)"
    have "?needed \<noteq> []" using False x by (auto simp: filter_empty_conv)
    then obtain a b where "?apt = Some (a @ str_join '' '' ?needed @ b)"
      unfolding apt_line_def Let_def by (metis (no_types))
    moreover have "str_contains (str_join '' '' ?needed) x"
      by (rule contains_join [of x]) (use x False in \<open>auto simp: contains_iff intro: exI [of _ "[]"]\<close>)
    ultimately show ?thesis unfolding patched
      using contains_patched [OF inserted_apt [OF lf]] contains_append by metis
  qed
  then have "apt_line patched ?p = None" by (simp add: apt_line_def Let_def filter_empty_conv)
  moreover have "post_install_needed patched ?p = []"
  proof (cases "pv_post_install ?p = []")
    case False
    then obtain c m where cm: "c \<in> set (pv_post_install ?p)" "m \<in> set (pv_skip_if_contains ?p)" "str_contains c m"
      using ok by (auto simp: provision_ok_def)
    show ?thesis
    proof (cases "?post = []")
      case True
      then obtain m' where "m' \<in> set (pv_skip_if_contains ?p)" "str_contains dockerfile m'"
        using False by (auto simp: post_install_needed_def list_ex_iff split: if_splits)
      then show ?thesis using kept ok by (auto simp: post_install_needed_def list_ex_iff provision_ok_def)
    next
      case no: False
      then have "c \<in> set ?post" using cm(1) by (simp add: post_install_needed_def split: if_splits)
      then have "''RUN '' @ c \<in> set (insert_steps ?lines lf lc ?apt ?post)" using inserted_post [OF lc] by blast
      then have "str_contains patched m" unfolding patched
        using contains_patched contains_append [OF cm(3), of "''RUN ''" "[]"] by simp
      then show ?thesis using cm(2) by (auto simp: post_install_needed_def list_ex_iff)
    qed
  qed (simp add: post_install_needed_def)
  ultimately show ?thesis by (simp add: apply_provision_def Let_def split: option.splits)
qed

definition video_project :: ProjectStructure where
  "video_project = \<lparr>pj_python_entry = None, pj_python_script = None, pj_has_pyproject = False, pj_has_uv_lock = False,
     pj_has_requirements_txt = False, pj_has_package_json = True, pj_node_entry = None, pj_rust_bin = None,
     pj_node_deps = [''fluent-ffmpeg''], pj_python_deps = [], pj_go_deps = [], pj_node_pm = Npm\<rparr>"

lemma apply_provision_once_witness:
  "\<exists>patched. apply_provision ascii_casing ''FROM x'' (detect_provision video_project) = Some patched \<and>
     apply_provision ascii_casing patched (detect_provision video_project) = None"
proof -
  have "apply_provision ascii_casing ''FROM x'' (detect_provision video_project) \<noteq> None" by code_simp
  then obtain patched where "apply_provision ascii_casing ''FROM x'' (detect_provision video_project) = Some patched" by blast
  then show ?thesis using apply_provision_once by blast
qed

text \<open>A glob for the children of a directory also matches a neighbour whose name begins with the directory's.\<close>

lemma neighbour_is_member: "subdir_is_workspace_member ''packages-old'' [''packages/*'']"
  by code_simp

end
