(* ===== verification/Dockerfile_Gen.thy ===== *)
theory Dockerfile_Gen
  imports Project_Detect
begin

text \<open>
  The files the builder writes (\<^verbatim>\<open>crates/builder/src/flyctl.rs\<close>): \<^verbatim>\<open>fly.toml\<close>, the Dockerfiles of each runtime
  and transport, and the wrapping of a repository's own Dockerfile.
\<close>

definition NODE_IMAGE :: string where "NODE_IMAGE = ''node:20-slim''"
definition PYTHON_IMAGE :: string where "PYTHON_IMAGE = ''python:3.11-slim''"
definition GO_BUILDER_IMAGE :: string where "GO_BUILDER_IMAGE = ''golang:1.22''"
definition RUST_BUILDER_IMAGE :: string where "RUST_BUILDER_IMAGE = ''rust:1.75-slim''"
definition DEBIAN_RUNTIME_IMAGE :: string where "DEBIAN_RUNTIME_IMAGE = ''debian:bookworm-slim''"
definition STDIO_PORT :: int where "STDIO_PORT = 8000"
definition NODE_PORT :: int where "NODE_PORT = 3000"
definition PYTHON_PORT :: int where "PYTHON_PORT = 8000"
definition GO_RUST_PORT :: int where "GO_RUST_PORT = 8080"

definition unlines :: "string list \<Rightarrow> string" where
  "unlines ls = concat (map (\<lambda>l. l @ [newline]) ls)"

definition dq :: "string \<Rightarrow> string" where
  "dq s = [quote2] @ s @ [quote2]"

section \<open>fly.toml\<close>

definition default_port :: "string \<Rightarrow> int" where
  "default_port runtime =
     (if runtime = ''node'' then NODE_PORT else if runtime = ''python'' then PYTHON_PORT
      else if runtime = ''go'' \<or> runtime = ''rust'' then GO_RUST_PORT else NODE_PORT)"

definition internal_port :: "string \<Rightarrow> string \<Rightarrow> int option \<Rightarrow> int" where
  "internal_port runtime transport port =
     (if transport = ''stdio'' then STDIO_PORT
      else (case port of Some p \<Rightarrow> if 0 < p \<and> p < 2 ^ 16 then p else default_port runtime | None \<Rightarrow> default_port runtime))"

definition generate_fly_toml :: "string \<Rightarrow> string \<Rightarrow> string \<Rightarrow> string \<Rightarrow> nat \<Rightarrow> int option \<Rightarrow> string" where
  "generate_fly_toml app_name region runtime transport memory_mb port =
     (let p = show_int (internal_port runtime transport port)
      in unlines [
        ''app = '' @ dq app_name,
        ''primary_region = '' @ dq region,
        '''',
        ''[build]'',
        '''',
        ''[env]'',
        ''  PORT = '' @ dq p,
        '''',
        ''[http_service]'',
        ''  internal_port = '' @ p,
        ''  force_https = true'',
        ''  auto_stop_machines = '' @ dq ''stop'',
        ''  auto_start_machines = true'',
        ''  min_machines_running = 0'',
        '''',
        ''  [http_service.concurrency]'',
        ''    type = '' @ dq ''connections'',
        ''    hard_limit = 100'',
        ''    soft_limit = 80'',
        '''',
        ''[[vm]]'',
        ''  memory = '' @ dq (show_nat memory_mb @ ''mb''),
        ''  cpu_kind = '' @ dq ''shared'',
        ''  cpus = 1''])"


section \<open>Entry commands\<close>

text \<open>\<^verbatim>\<open>serde_json::to_string(..).unwrap_or_else(|_| "\"\"".to_string())\<close>\<close>

definition json_text :: "codec \<Rightarrow> string \<Rightarrow> string" where
  "json_text C s = unwrap_or (to_vec C (JString s)) (dq [])"

definition format_entry_command_as_args :: "codec \<Rightarrow> string \<Rightarrow> string" where
  "format_entry_command_as_args C cmd = str_join '', '' (map (json_text C) (tokenize_shell cmd))"

definition npx_segment_ok :: "string \<Rightarrow> bool" where
  "npx_segment_ok s \<longleftrightarrow> s \<noteq> [] \<and> list_all (\<lambda>c. is_lower c \<or> is_digit c \<or> c \<in> set ''-_.'') s"

definition is_valid_npx_package :: "string \<Rightarrow> bool" where
  "is_valid_npx_package spec \<longleftrightarrow>
     \<not> (spec = [] \<or> 214 < length spec) \<and>
     (let (name, version) = (case str_rfind (CHR ''@'') spec of
            None \<Rightarrow> (spec, None)
          | Some i \<Rightarrow> if i = 0 then (spec, None) else (take i spec, Some (drop (Suc i) spec)));
        name_ok = (case str_strip_prefix name ''@'' of
            Some scoped \<Rightarrow>
              (case str_split_once (CHR ''/'') scoped of
                 Some (scope, pkg) \<Rightarrow> npx_segment_ok scope \<and> npx_segment_ok pkg | None \<Rightarrow> False)
          | None \<Rightarrow> npx_segment_ok name);
        version_ok = (case version of
            None \<Rightarrow> True
          | Some v \<Rightarrow> v \<noteq> [] \<and> list_all (\<lambda>c. is_alphanumeric c \<or> c \<in> set ''-_.'') v)
      in name_ok \<and> version_ok)"

definition parse_npx_command :: "string \<Rightarrow> (string \<times> string list) option" where
  "parse_npx_command cmd =
     (case split_whitespace cmd of
        [] \<Rightarrow> None
      | npx # parts \<Rightarrow>
          (if npx \<noteq> ''npx'' then None
           else (case dropWhile (\<lambda>part. str_starts_with part ''-'') parts of
                   [] \<Rightarrow> None
                 | package # extra_args \<Rightarrow> if \<not> is_valid_npx_package package then None else Some (package, extra_args))))"


section \<open>Dockerfiles\<close>

definition given :: "string option \<Rightarrow> string option" where
  "given command = (case command of Some cmd \<Rightarrow> if str_trim cmd \<noteq> [] then Some (str_trim cmd) else None | None \<Rightarrow> None)"

definition node_build_step :: "string option \<Rightarrow> NodePm \<Rightarrow> string" where
  "node_build_step build_command pm =
     (case given build_command of Some cmd \<Rightarrow> ''RUN '' @ cmd | None \<Rightarrow> ''RUN '' @ NodePm_runner pm @ '' build --if-present'')"

definition node_setup_section :: "NodePm \<Rightarrow> string option \<Rightarrow> string list" where
  "node_setup_section pm build_command =
     (let build = node_build_step build_command pm
      in case pm of
           Pnpm \<Rightarrow> [
             ''COPY . .'',
             ''# Install ALL deps (incl. devDependencies) so a TypeScript/bundler build can run.'',
             ''RUN corepack enable && (pnpm install --frozen-lockfile 2>/dev/null || pnpm install)'',
             [CHR ''#''] @ '' Run the project'' @ [quote1] @ ''s own build script if it declares one (tsc/esbuild/etc.).'',
             build]
         | Npm \<Rightarrow> [
             ''COPY package*.json ./'',
             ''# Install ALL deps (incl. devDependencies) so a TypeScript/bundler build can run.'',
             ''RUN npm ci 2>/dev/null || npm install'',
             ''COPY . .'',
             ''# Run the project'' @ [quote1] @ ''s own build script if it declares one (tsc/esbuild/etc.).'',
             build])"

definition optional_build_step :: "string option \<Rightarrow> string list" where
  "optional_build_step build_command = (case given build_command of Some cmd \<Rightarrow> [''RUN '' @ cmd] | None \<Rightarrow> [])"

definition generate_python_install_deps :: "ProjectStructure \<Rightarrow> string" where
  "generate_python_install_deps p =
     (if pj_has_uv_lock p then ''RUN pip install --no-cache-dir uv && uv sync --frozen''
      else if pj_has_pyproject p then ''RUN pip install --no-cache-dir .''
      else if pj_has_requirements_txt p then ''RUN pip install --no-cache-dir -r requirements.txt''
      else ''# No dependency file found'')"

definition python_default_cmd :: "ProjectStructure \<Rightarrow> string" where
  "python_default_cmd p =
     (case pj_python_script p of
        Some script \<Rightarrow> dq script
      | None \<Rightarrow> dq ''python'' @ '', '' @ dq (unwrap_or (pj_python_entry p) ''main.py''))"

definition rust_binary_copy_and_cmd :: "ProjectStructure \<Rightarrow> string \<times> string" where
  "rust_binary_copy_and_cmd p =
     (case pj_rust_bin p of
        Some bin \<Rightarrow> (''COPY --from=builder /app/target/release/'' @ bin @ '' ./'' @ bin, dq (''./'' @ bin))
      | None \<Rightarrow> (''COPY --from=builder /app/target/release/* .'', dq ''./server''))"

abbreviation (input) apt_install :: "string \<Rightarrow> string" where
  "apt_install packages \<equiv> ''RUN apt-get update && apt-get install -y --no-install-recommends '' @ packages @ '' && rm -rf /var/lib/apt/lists/*''"

definition go_build_stage :: "string list" where
  "go_build_stage = [
     ''FROM '' @ GO_BUILDER_IMAGE @ '' AS builder'', ''WORKDIR /app'', ''COPY go.mod go.sum ./'', ''RUN go mod download'',
     ''COPY . .'', ''RUN CGO_ENABLED=0 GOOS=linux go build -o /app/server .'']"

definition rust_build_stage :: "string list" where
  "rust_build_stage = [
     ''FROM '' @ RUST_BUILDER_IMAGE @ '' AS builder'', apt_install ''build-essential'', ''WORKDIR /app'',
     ''COPY Cargo.toml Cargo.lock ./'', ''RUN mkdir src && echo '' @ dq ''fn main() {}'' @ '' > src/main.rs'',
     ''RUN cargo build --release'', ''RUN rm -rf src'', ''COPY . .'', ''RUN touch src/main.rs'', ''RUN cargo build --release'']"

definition generate_sse_dockerfile :: "codec \<Rightarrow> string \<Rightarrow> string option \<Rightarrow> ProjectStructure \<Rightarrow> string" where
  "generate_sse_dockerfile C runtime build_command p =
     (if runtime = ''node'' then
        unlines ([''FROM '' @ NODE_IMAGE, apt_install ''procps curl'', ''WORKDIR /app''] @ node_setup_section (pj_node_pm p) build_command @
          [''EXPOSE '' @ show_int NODE_PORT,
           ''CMD ['' @ (case pj_node_entry p of Some e \<Rightarrow> format_entry_command_as_args C e
              | None \<Rightarrow> dq ''node'' @ '', '' @ dq ''index.js'') @ '']''])
      else if runtime = ''python'' then
        unlines ([''FROM '' @ PYTHON_IMAGE, apt_install ''procps curl'', ''WORKDIR /app'', ''COPY . .'', generate_python_install_deps p] @
          optional_build_step build_command @ [''EXPOSE '' @ show_int PYTHON_PORT, ''CMD ['' @ python_default_cmd p @ '']''])
      else if runtime = ''go'' then
        unlines (go_build_stage @ [''FROM '' @ DEBIAN_RUNTIME_IMAGE, apt_install ''ca-certificates procps curl'', ''WORKDIR /app'',
          ''COPY --from=builder /app/server .'', ''EXPOSE '' @ show_int GO_RUST_PORT, ''CMD ['' @ dq ''./server'' @ '']''])
      else if runtime = ''rust'' then
        (let (copy_bin, run_cmd) = rust_binary_copy_and_cmd p
         in unlines (rust_build_stage @ [''FROM '' @ DEBIAN_RUNTIME_IMAGE, apt_install ''ca-certificates procps curl'', ''WORKDIR /app'',
              copy_bin, ''EXPOSE '' @ show_int GO_RUST_PORT, ''CMD ['' @ run_cmd @ '']'']))
      else
        unlines [''FROM '' @ DEBIAN_RUNTIME_IMAGE, apt_install ''procps curl'', ''WORKDIR /app'', ''COPY . .'',
          ''CMD ['' @ dq ''./start.sh'' @ '']''])"

definition extract_env_lines :: "casing \<Rightarrow> string \<Rightarrow> string" where
  "extract_env_lines K dockerfile =
     (let env_lines = filter (\<lambda>t. let u = to_upper K t in
            str_starts_with u ''ENV '' \<and> \<not> str_contains u ''PORT='' \<and> \<not> str_contains u ''MCP_PATH='')
          (map str_trim (str_lines dockerfile))
      in if env_lines = [] then ''ENV PATH='' @ dq ''/app/.venv/bin:/app/node_modules/.bin:$PATH''
         else str_join [newline] env_lines)"

text \<open>The text before the first occurrence of a separator.\<close>

fun text_before :: "string \<Rightarrow> string \<Rightarrow> string" where
  "text_before sep [] = []"
| "text_before sep (c # s) = (if str_starts_with (c # s) sep then [] else c # text_before sep s)"

datatype cont = Cont_No | Cont_Keep | Cont_Skip

definition name_stage :: "casing \<Rightarrow> string \<Rightarrow> string \<Rightarrow> string" where
  "name_stage K stage_name trimmed =
     (if str_contains (to_upper K trimmed) '' AS '' then str_trim (text_before '' AS '' trimmed) @ '' AS '' @ stage_name
      else trimmed @ '' AS '' @ stage_name)"

text \<open>The kept lines, and whether the last \<^verbatim>\<open>FROM\<close> was met outside a continuation.\<close>

fun stage_loop :: "casing \<Rightarrow> string \<Rightarrow> nat \<Rightarrow> nat \<Rightarrow> cont \<Rightarrow> string list \<Rightarrow> string list \<times> bool" where
  "stage_loop K stage_name last_from i ct [] = ([], False)"
| "stage_loop K stage_name last_from i ct (line # rest) =
     (let continues = str_ends_with (str_trim_end line) [backslash];
          next = (\<lambda>c. stage_loop K stage_name last_from (Suc i) (if continues then c else Cont_No) rest)
      in case ct of
           Cont_Skip \<Rightarrow> next Cont_Skip
         | Cont_Keep \<Rightarrow> (let (out, found) = next Cont_Keep in (line # out, found))
         | Cont_No \<Rightarrow>
             (let trimmed = str_trim line; upper = to_upper K trimmed
              in if str_starts_with upper ''ENTRYPOINT'' \<or> str_starts_with upper ''CMD'' \<or> str_starts_with upper ''EXPOSE''
                 then next Cont_Skip
                 else (let (out, found) = next Cont_Keep
                       in if str_starts_with upper ''FROM '' \<and> i = last_from then (name_stage K stage_name trimmed # out, True)
                          else (line # out, found))))"

definition convert_to_named_stage :: "casing \<Rightarrow> string \<Rightarrow> string \<Rightarrow> string" where
  "convert_to_named_stage K dockerfile stage_name =
     (let lines = str_lines dockerfile;
          last_from = unwrap_or (rposition (\<lambda>l. str_starts_with (to_upper K (str_trim l)) ''FROM '') lines) 0;
          (result, found) = stage_loop K stage_name last_from 0 Cont_No lines
      in if \<not> found then dockerfile else str_join [newline] result)"

abbreviation (input) adapter_env :: "string \<Rightarrow> int \<Rightarrow> string list" where
  "adapter_env mcp_path port \<equiv> [''ENV PORT='' @ show_int port, ''ENV MCP_PATH='' @ dq mcp_path, ''ENV MCP_HTTP_HOST=0.0.0.0'',
     ''EXPOSE '' @ show_int port]"

abbreviation (input) adapter_cmd :: "string \<Rightarrow> string \<Rightarrow> string" where
  "adapter_cmd adapter args \<equiv> ''CMD ['' @ dq ''node'' @ '', '' @ dq adapter @ '', '' @ args @ '']''"

definition generate_stdio_dockerfile_with_existing :: "build_env \<Rightarrow> string \<Rightarrow> string \<Rightarrow> string \<Rightarrow> string" where
  "generate_stdio_dockerfile_with_existing B mcp_path entry_command original =
     unlines ([
       ''# ============================================'',
       ''# Stage 1: Build using original Dockerfile'',
       ''# ============================================'',
       convert_to_named_stage (be_case B) original ''app'',
       '''',
       ''# ============================================'',
       ''# Stage 2: Run the original image + STDIO adapter (Node.js)'',
       ''# ============================================'',
       ''FROM app AS runtime'',
       '''',
       ''WORKDIR /app'',
       '''',
       ''# Ensure Node.js is available for the adapter. No-op if the base already has it;'',
       ''# otherwise install via the base image'' @ [quote1] @ ''s own package manager (apt or apk).'',
       ''RUN sh -c '' @ [quote1] @ ''command -v node >/dev/null 2>&1 || '' @ [backslash],
       ''    (command -v apt-get >/dev/null 2>&1 && apt-get update && apt-get install -y --no-install-recommends nodejs npm ca-certificates && rm -rf /var/lib/apt/lists/*) || '' @ [backslash],
       ''    (command -v apk >/dev/null 2>&1 && apk add --no-cache nodejs npm ca-certificates) || true'' @ [quote1],
       '''',
       ''# Preserve ENV variables from original Dockerfile (especially PATH)'',
       extract_env_lines (be_case B) original,
       '''',
       ''# Copy STDIO adapter from the build context'',
       ''COPY stdio-adapter.cjs /app/stdio-adapter.cjs'',
       ''''] @ adapter_env mcp_path STDIO_PORT @ [
       '''',
       ''# Run the original entry command through the STDIO adapter'',
       adapter_cmd ''/app/stdio-adapter.cjs'' (format_entry_command_as_args (be_codec B) entry_command)])"

definition npx_dockerfile :: "codec \<Rightarrow> string \<Rightarrow> string option \<Rightarrow> string \<Rightarrow> string list \<Rightarrow> string" where
  "npx_dockerfile C mcp_path build_command package extra_args =
     unlines ([''FROM '' @ NODE_IMAGE, apt_install ''procps curl'', ''WORKDIR /app'',
       ''# Install the package globally - binary goes to /usr/local/bin which is in PATH'',
       ''RUN npm install -g '' @ package,
       ''COPY package*.json ./'',
       ''RUN npm ci --only=production 2>/dev/null || npm install --only=production || true'',
       ''COPY . .''] @ optional_build_step build_command @
      [''# STDIO adapter is already copied to source directory''] @ adapter_env mcp_path NODE_PORT @
      [''# Use npx to run the globally installed package'',
       ''# npx resolves the correct binary name from package.json'',
       adapter_cmd ''stdio-adapter.cjs'' (dq ''npx'' @ '', '' @ json_text C package @
         (if extra_args = [] then [] else '', '' @ str_join '', '' (map (json_text C) extra_args)))])"

definition generate_stdio_dockerfile ::
  "build_env \<Rightarrow> string \<Rightarrow> string \<Rightarrow> string option \<Rightarrow> string option \<Rightarrow> string option \<Rightarrow> string option \<Rightarrow> ProjectStructure \<Rightarrow> string" where
  "generate_stdio_dockerfile B runtime mcp_path existing_dockerfile existing_entry_command entry_command build_command p =
     (let C = be_codec B; explicit_entry = or_else entry_command existing_entry_command
      in case (existing_dockerfile, explicit_entry) of
           (Some dockerfile, Some entry_cmd) \<Rightarrow> generate_stdio_dockerfile_with_existing B mcp_path entry_cmd dockerfile
         | _ \<Rightarrow>
           (let effective = or_else explicit_entry (detected_entry p runtime)
            in if runtime = ''node'' then
                 (case Option.bind effective parse_npx_command of
                    Some (package, extra_args) \<Rightarrow> npx_dockerfile C mcp_path build_command package extra_args
                  | None \<Rightarrow>
                      unlines ([''FROM '' @ NODE_IMAGE, apt_install ''procps curl'', ''WORKDIR /app''] @
                        node_setup_section (pj_node_pm p) build_command @
                        [''# STDIO adapter is already copied to source directory''] @ adapter_env mcp_path NODE_PORT @
                        [adapter_cmd ''stdio-adapter.cjs'' (case effective of Some cmd \<Rightarrow> format_entry_command_as_args C cmd
                           | None \<Rightarrow> dq ''node'' @ '', '' @ dq ''index.js'')]))
               else if runtime = ''python'' then
                 unlines ([''FROM '' @ PYTHON_IMAGE, ''# Install Node.js for the STDIO-to-SSE adapter'', apt_install ''procps curl nodejs npm'',
                   ''WORKDIR /app'', ''COPY . .'', generate_python_install_deps p] @ optional_build_step build_command @
                   adapter_env mcp_path PYTHON_PORT @
                   [adapter_cmd ''stdio-adapter.cjs'' (case effective of Some cmd \<Rightarrow> format_entry_command_as_args C cmd
                      | None \<Rightarrow> dq ''python'' @ '', '' @ dq (unwrap_or (pj_python_entry p) ''main.py''))])
               else if runtime = ''go'' then
                 unlines (go_build_stage @ ['''', ''FROM '' @ NODE_IMAGE, apt_install ''ca-certificates procps curl'', ''WORKDIR /app'',
                   ''COPY --from=builder /app/server .'', ''COPY stdio-adapter.cjs .''] @ adapter_env mcp_path GO_RUST_PORT @
                   [adapter_cmd ''stdio-adapter.cjs'' (dq ''./server'')])
               else if runtime = ''rust'' then
                 (let (copy_bin, run_cmd) = rust_binary_copy_and_cmd p
                  in unlines (rust_build_stage @ ['''', ''FROM '' @ NODE_IMAGE, apt_install ''ca-certificates procps curl'', ''WORKDIR /app'',
                       copy_bin, ''COPY stdio-adapter.cjs .''] @ adapter_env mcp_path GO_RUST_PORT @ [adapter_cmd ''stdio-adapter.cjs'' run_cmd]))
               else
                 unlines ([''FROM '' @ NODE_IMAGE, apt_install ''procps curl'', ''WORKDIR /app'', ''COPY . .''] @
                   adapter_env mcp_path NODE_PORT @ [adapter_cmd ''stdio-adapter.cjs'' (dq ''./start.sh'')])))"

definition generate_dockerfile ::
  "build_env \<Rightarrow> string \<Rightarrow> string \<Rightarrow> string \<Rightarrow> string option \<Rightarrow> string option \<Rightarrow> string option \<Rightarrow> string option \<Rightarrow> ProjectStructure \<Rightarrow> string" where
  "generate_dockerfile B runtime transport mcp_path existing_dockerfile existing_entry_command entry_command build_command p =
     (if transport \<noteq> ''stdio'' then generate_sse_dockerfile (be_codec B) runtime build_command p
      else generate_stdio_dockerfile B runtime mcp_path existing_dockerfile existing_entry_command entry_command build_command p)"


section \<open>What cannot get into a Dockerfile\<close>

definition npx_char :: "char \<Rightarrow> bool" where
  "npx_char c \<longleftrightarrow> is_alphanumeric c \<or> c \<in> set ''-_.@/''"

lemma npx_segment_chars: "npx_segment_ok s \<Longrightarrow> c \<in> set s \<Longrightarrow> npx_char c"
  by (auto simp: npx_segment_ok_def npx_char_def list_all_iff)

lemma rfind_Some: "str_rfind c s = Some i \<Longrightarrow> s = take i s @ c # drop (Suc i) s"
proof -
  assume i: "str_rfind c s = Some i"
  then have "c \<in> set s" by (simp add: str_rfind_def split: if_splits)
  then obtain a b where ab: "s = a @ c # b" "c \<notin> set b" by (meson split_list_last)
  have "takeWhile (\<lambda>x. x \<noteq> c) (rev b @ c # rev a) = rev b"
    using ab(2) by (subst takeWhile_append2) auto
  then have "i = length a" using i by (simp add: str_rfind_def ab(1))
  then show ?thesis using ab(1) by simp
qed

lemma npx_package_chars:
  assumes "is_valid_npx_package spec" and "c \<in> set spec"
  shows "npx_char c"
proof -
  have name: "npx_char x" if "case str_strip_prefix name ''@'' of Some scoped \<Rightarrow>
        (case str_split_once (CHR ''/'') scoped of Some (scope, pkg) \<Rightarrow> npx_segment_ok scope \<and> npx_segment_ok pkg | None \<Rightarrow> False)
      | None \<Rightarrow> npx_segment_ok name" "x \<in> set name" for name x
  proof (cases "str_strip_prefix name ''@''")
    case None
    then show ?thesis using that npx_segment_chars by simp
  next
    case (Some scoped)
    note prems = that
    obtain scope pkg where "str_split_once (CHR ''/'') scoped = Some (scope, pkg)" "npx_segment_ok scope" "npx_segment_ok pkg"
      using prems(1) Some by (auto split: option.splits)
    then have "x = CHR ''@'' \<or> x = CHR ''/'' \<or> x \<in> set scope \<or> x \<in> set pkg"
      using prems(2) Some by (auto simp: strip_prefix_Some split_once_Some)
    moreover have "npx_char (CHR ''@'')" "npx_char (CHR ''/'')" by (simp_all add: npx_char_def)
    ultimately show ?thesis using npx_segment_chars \<open>npx_segment_ok scope\<close> \<open>npx_segment_ok pkg\<close> by blast
  qed
  show ?thesis
  proof (cases "str_rfind (CHR ''@'') spec")
    case None
    then show ?thesis using assms name [of spec c] by (simp add: is_valid_npx_package_def)
  next
    case (Some i)
    show ?thesis
    proof (cases "i = 0")
      case True
      then show ?thesis using assms name [of spec c] Some by (simp add: is_valid_npx_package_def)
    next
      case False
      let ?name = "take i spec" and ?v = "drop (Suc i) spec"
      have "c \<in> set ?name \<or> c = CHR ''@'' \<or> c \<in> set ?v"
        using assms(2) rfind_Some [OF Some] by (metis Un_iff set_ConsD set_append)
      moreover have "npx_char x" if "x \<in> set ?v" for x
        using assms(1) that Some False by (auto simp: is_valid_npx_package_def npx_char_def list_all_iff)
      ultimately show ?thesis using assms(1) name [of ?name c] Some False
        by (auto simp: is_valid_npx_package_def npx_char_def)
    qed
  qed
qed

theorem npx_install_safe:
  assumes "parse_npx_command cmd = Some (package, args)"
  shows "package \<noteq> [] \<and> length package \<le> 214 \<and> \<not> str_starts_with package ''-'' \<and> (\<forall>c \<in> set package. npx_char c)"
proof -
  obtain parts where parts: "dropWhile (\<lambda>part. str_starts_with part ''-'') parts = package # args" "is_valid_npx_package package"
    using assms by (auto simp: parse_npx_command_def split: list.splits if_splits)
  then have "\<not> str_starts_with package ''-''" by (metis (no_types, lifting) dropWhile_eq_Cons_conv)
  then show ?thesis using parts(2) npx_package_chars [OF parts(2)] by (auto simp: is_valid_npx_package_def)
qed

lemma args_one_line:
  assumes "json_line_codec C"
  shows "newline \<notin> set (format_entry_command_as_args C cmd)"
proof -
  have "newline \<notin> set (json_text C s)" for s
    using json_line_codec.print_line [OF assms, of "JString s"] by (cases "to_vec C (JString s)") (auto simp: json_text_def dq_def)
  then show ?thesis unfolding format_entry_command_as_args_def using set_join by fastforce
qed

lemma unlines_snoc: "unlines (ls @ [l]) = unlines ls @ l @ [newline]"
  by (simp add: unlines_def)

text \<open>The start of the last line, up to its arguments.\<close>

abbreviation (input) cmd_start :: string where
  "cmd_start \<equiv> ''CMD ['' @ dq ''node'' @ '', '' @ dq ''stdio-adapter.cjs'' @ '', ''"

text \<open>
  C37: an entry command stays in its line. In the Dockerfile generated for a Node or Python server on the stdio
  transport, whatever the entry command is (for Node: one that does not install a package), everything before the
  arguments of the final \<^verbatim>\<open>CMD\<close> is the same, and the arguments are one line: a command cannot add an instruction.
\<close>

theorem entry_command_confined:
  assumes "json_line_codec (be_codec B)" and "runtime = ''node'' \<or> runtime = ''python''"
  shows "\<exists>head. \<forall>cmd. (runtime = ''node'' \<longrightarrow> parse_npx_command cmd = None) \<longrightarrow>
     (\<exists>args. newline \<notin> set args \<and>
        generate_dockerfile B runtime ''stdio'' mcp_path None None (Some cmd) build_command p = head @ cmd_start @ args @ [CHR '']'', newline])"
proof -
  let ?gen = "\<lambda>cmd. generate_dockerfile B runtime ''stdio'' mcp_path None None (Some cmd) build_command p"
  let ?args = "format_entry_command_as_args (be_codec B)"
  define lines where "lines = (if runtime = ''node''
     then [''FROM '' @ NODE_IMAGE, apt_install ''procps curl'', ''WORKDIR /app''] @ node_setup_section (pj_node_pm p) build_command @
       [''# STDIO adapter is already copied to source directory''] @ adapter_env mcp_path NODE_PORT
     else [''FROM '' @ PYTHON_IMAGE, ''# Install Node.js for the STDIO-to-SSE adapter'', apt_install ''procps curl nodejs npm'',
       ''WORKDIR /app'', ''COPY . .'', generate_python_install_deps p] @ optional_build_step build_command @ adapter_env mcp_path PYTHON_PORT)"
  have "?gen cmd = unlines (lines @ [cmd_start @ ?args cmd @ '']''])" if "runtime = ''node'' \<longrightarrow> parse_npx_command cmd = None" for cmd
    using assms(2) that by (auto simp: generate_dockerfile_def generate_stdio_dockerfile_def lines_def Let_def)
  then have "?gen cmd = unlines lines @ cmd_start @ ?args cmd @ [CHR '']'', newline]"
    if "runtime = ''node'' \<longrightarrow> parse_npx_command cmd = None" for cmd
    using that by (simp add: unlines_snoc)
  then show ?thesis using args_one_line [OF assms(1)] by blast
qed

definition sample_build :: build_env where
  "sample_build = \<lparr>be_files = \<lparr>fs_exists = \<lambda>_. False, fs_read = \<lambda>_. None, fs_subdirs = \<lambda>_. None, fs_canonical = \<lambda>_. None\<rparr>,
     be_codec = ref_codec, be_case = ascii_casing, be_toml = \<lambda>_. None\<rparr>"

lemma entry_command_confined_witness:
  "\<exists>head. \<forall>cmd \<in> {''python a.py'', ''x'' @ [newline] @ ''RUN y''}. \<exists>args. newline \<notin> set args \<and>
     generate_dockerfile sample_build ''python'' ''stdio'' ''/mcp'' None None (Some cmd) None video_project =
       head @ cmd_start @ args @ [CHR '']'', newline]"
proof -
  have codec: "json_line_codec (be_codec sample_build)" using ref_line.json_line_codec_axioms by (simp add: sample_build_def)
  obtain head where head: "\<forall>cmd. (''python'' = ''node'' \<longrightarrow> parse_npx_command cmd = None) \<longrightarrow> (\<exists>args. newline \<notin> set args \<and>
      generate_dockerfile sample_build ''python'' ''stdio'' ''/mcp'' None None (Some cmd) None video_project =
        head @ cmd_start @ args @ [CHR '']'', newline])"
    using entry_command_confined [OF codec, of "''python''" "''/mcp''" None video_project] by blast
  have "''python'' \<noteq> ''node''" by simp
  then show ?thesis using head by blast
qed

text \<open>
  Two rewritings of a repository's Dockerfile that produce an invalid one: a stage named with a lower-case \<^verbatim>\<open>as\<close> gets a
  second name, and of an \<^verbatim>\<open>ENV\<close> instruction that continues on the next line only the first line is repeated, with its
  backslash, so that the \<^verbatim>\<open>COPY\<close> of the adapter becomes part of it.
\<close>

lemma stage_named_twice:
  "convert_to_named_stage ascii_casing ''FROM node:20 as build'' ''app'' = ''FROM node:20 as build AS app''"
  by code_simp

lemma env_continuation_cut:
  "extract_env_lines ascii_casing (''ENV A=1 '' @ [backslash, newline] @ ''    B=2'') = ''ENV A=1 '' @ [backslash]"
  by code_simp

end
