(* ===== verification/Fly_Deploy.thy ===== *)
theory Fly_Deploy
  imports Plans Dockerfile_Gen
begin

text \<open>
  One deployment by \<^verbatim>\<open>flyctl\<close> and its verification (\<^verbatim>\<open>crates/builder/src/flyctl.rs\<close>, with the job of
  \<^verbatim>\<open>crates/queue/src/lib.rs\<close>). A deployment is its result with everything it did on the way: logged lines, files
  written, commands run. What commands and Fly.io answer is a parameter (record \<open>fly_world\<close>).
\<close>

section \<open>Jobs and the world\<close>

record BuildJob =
  bj_deployment_id :: uuid
  bj_server_id :: uuid
  bj_app_name :: string
  bj_github_repo :: string
  bj_github_branch :: string
  bj_commit_sha :: string
  bj_runtime :: string
  bj_github_installation_id :: "int option"
  bj_region :: string
  bj_root_directory :: string
  bj_mcp_path :: string
  bj_transport :: string
  bj_entry_command :: "string option"
  bj_build_command :: "string option"
  bj_memory_mb :: "int option"
  bj_port :: "int option"

record MachineInfo =
  mi_id :: string
  mi_state :: string

datatype command_outcome = Not_Spawned string | Stdin_Failed string | Timed_Out | Not_Finished string | Ran bool string string

text \<open>
  \<open>fw_after\<close> is the file system once \<^verbatim>\<open>fly.toml\<close> and the adapter are written; \<open>fw_writes\<close> is the error of a write,
  if it fails; \<open>fw_debug\<close> is the \<^verbatim>\<open>{:?}\<close> form of a list of texts, and \<open>fw_adapter\<close> the adapter's script.
\<close>

record fly_world =
  fw_command :: "string list \<Rightarrow> string \<Rightarrow> command_outcome"
  fw_app_lookup :: "string \<Rightarrow> nat option"
  fw_machines :: "string \<Rightarrow> (string + nat \<times> (string + MachineInfo list))"
  fw_writes :: "string \<Rightarrow> string option"
  fw_after :: files
  fw_debug :: "string list \<Rightarrow> string"
  fw_adapter :: string

datatype fly_event = Log string | Wrote string string | Command "string list" string

type_synonym 'a deploying = "fly_event list \<times> (anyhow + 'a)"

definition on_log :: "string \<Rightarrow> 'a deploying \<Rightarrow> 'a deploying" where
  "on_log m k = (Log m # fst k, snd k)"

definition on_logs :: "string list \<Rightarrow> 'a deploying \<Rightarrow> 'a deploying" where
  "on_logs ms k = foldr on_log ms k"

definition bail :: "anyhow \<Rightarrow> 'a deploying" where
  "bail e = ([], Inl e)"

definition on_write :: "fly_world \<Rightarrow> string \<Rightarrow> string \<Rightarrow> string \<Rightarrow> 'a deploying \<Rightarrow> 'a deploying" where
  "on_write W path content context k =
     (case fw_writes W path of Some e \<Rightarrow> bail [context, e] | None \<Rightarrow> (Wrote path content # fst k, snd k))"

definition on_command :: "fly_world \<Rightarrow> string list \<Rightarrow> string \<Rightarrow> (command_outcome \<Rightarrow> 'a deploying) \<Rightarrow> 'a deploying" where
  "on_command W args input k = (let r = k (fw_command W args input) in (Command args input # fst r, snd r))"

text \<open>\<^verbatim>\<open>timeout(..).await.map_err(..)?.context(..)?\<close>\<close>

definition finished ::
  "string \<Rightarrow> string \<Rightarrow> (bool \<Rightarrow> string \<Rightarrow> string \<Rightarrow> 'a deploying) \<Rightarrow> command_outcome \<Rightarrow> 'a deploying" where
  "finished timeout_message context k outcome =
     (case outcome of
        Ran ok out err \<Rightarrow> k ok out err
      | Timed_Out \<Rightarrow> bail [timeout_message]
      | Not_Spawned e \<Rightarrow> bail [context, e] | Stdin_Failed e \<Rightarrow> bail [context, e] | Not_Finished e \<Rightarrow> bail [context, e])"


section \<open>Diagnostics\<close>

text \<open>An escape sequence ends with its first letter.\<close>

fun strip_ansi :: "bool \<Rightarrow> string \<Rightarrow> string" where
  "strip_ansi escaped [] = []"
| "strip_ansi True (c # s) = strip_ansi (\<not> is_alphabetic c) s"
| "strip_ansi False (c # s) = (if c = CHR 0x1B then strip_ansi True s else c # strip_ansi False s)"

definition dedup_key :: "string \<Rightarrow> string" where
  "dedup_key line =
     (if 20 < length line \<and> list_all is_digit (take 4 line) \<and> line ! 4 = CHR ''-'' \<and> line ! 10 = CHR ''T''
      then (case str_split_once (CHR '' '') line of Some (_, r) \<Rightarrow> str_trim_start r | None \<Rightarrow> line)
      else line)"

definition MARKERS :: "string list" where
  "MARKERS =
     [''error'', ''fatal'', ''panic'', ''exception'', ''traceback'', ''cannot find'', ''cannot read'', ''not found'', ''no such file'',
      ''did not complete'', ''exit code'', ''exited with'', ''failed to'', ''module_not_found'', ''modulenotfounderror'',
      ''permission denied'', ''out of memory'', ''oom'', ''killed process'', ''sigkill'']"

fun diagnostic_lines :: "casing \<Rightarrow> string list \<Rightarrow> string list \<Rightarrow> string list" where
  "diagnostic_lines K seen [] = []"
| "diagnostic_lines K seen (raw_line # rest) =
     (let line = str_trim raw_line
      in if line \<noteq> [] \<and> list_ex (str_contains (to_lower K line)) MARKERS \<and> dedup_key line \<notin> set seen
         then line # diagnostic_lines K (dedup_key line # seen) rest
         else diagnostic_lines K seen rest)"

definition extract_error_lines :: "casing \<Rightarrow> string \<Rightarrow> nat \<Rightarrow> string" where
  "extract_error_lines K log max_lines =
     (let lines = diagnostic_lines K [] (str_lines (strip_ansi False log))
      in str_join [newline] (drop (length lines - max_lines) lines))"

definition snippet :: "string \<Rightarrow> string" where
  "snippet s = (let s = str_trim s; short = take_chars 200 s in if length short < length s then short @ [CHR 0xE2, CHR 0x80, CHR 0xA6] else short)"


section \<open>Fly.io\<close>

text \<open>A lookup without an answer, or with any status but a success, counts as \<^emph>\<open>no\<close>.\<close>

definition app_exists :: "fly_world \<Rightarrow> string \<Rightarrow> bool" where
  "app_exists W app_name = (case fw_app_lookup W app_name of None \<Rightarrow> False | Some status \<Rightarrow> 200 \<le> status \<and> status < 300)"

definition destroy_app :: "fly_world \<Rightarrow> casing \<Rightarrow> string \<Rightarrow> unit deploying" where
  "destroy_app W K app_name =
     on_command W [''flyctl'', ''apps'', ''destroy'', app_name, ''--yes''] []
       (finished (''flyctl apps destroy '' @ app_name @ '' timed out'') ''Failed to run flyctl apps destroy'' (\<lambda>ok out err.
          if ok then ([], Inr ())
          else if \<not> app_exists W app_name then ([], Inr ())
          else
            (let lower = to_lower K err
             in if str_contains lower ''not found'' \<or> str_contains lower ''could not find'' \<or> str_contains lower ''does not exist''
                then ([], Inr ())
                else bail [''flyctl apps destroy '' @ app_name @ '' failed: '' @ str_trim err])))"

definition get_machine_id :: "fly_world \<Rightarrow> string \<Rightarrow> anyhow + string" where
  "get_machine_id W app_name =
     (case fw_machines W app_name of
        Inl e \<Rightarrow> Inl [''Failed to list machines'', e]
      | Inr (status, body) \<Rightarrow>
          if \<not> (200 \<le> status \<and> status < 300) then Inl [''Failed to list machines: HTTP '' @ show_nat status]
          else (case body of
                  Inl e \<Rightarrow> Inl [e]
                | Inr machines \<Rightarrow>
                    (case or_else (find (\<lambda>m. mi_state m = ''started'') machines) (case machines of [] \<Rightarrow> None | m # _ \<Rightarrow> Some m) of
                       Some m \<Rightarrow> Inr (app_name @ '':'' @ mi_id m)
                     | None \<Rightarrow> Inl [''No machines found''])))"


section \<open>A deployment\<close>

abbreviation (input) em_dash :: string where "em_dash \<equiv> [CHR 0xE2, CHR 0x80, CHR 0x94]"

record DeployResult =
  dp_endpoint_url :: string
  dp_machine_id :: "string option"
  dp_app_name :: string

text \<open>\<^verbatim>\<open>m as u64\<close>\<close>

definition resolve_memory :: "int option \<Rightarrow> nat option \<Rightarrow> nat \<Rightarrow> nat" where
  "resolve_memory memory_mb floor ceiling =
     (let requested = (case memory_mb of Some m \<Rightarrow> nat (m mod 2 ^ 64) | None \<Rightarrow> 256)
      in max (min (max requested (unwrap_or floor 0)) ceiling) 256)"

definition no_entry_error :: "build_env \<Rightarrow> fly_world \<Rightarrow> string \<Rightarrow> string \<Rightarrow> string" where
  "no_entry_error B W source_dir runtime =
     (let B' = B\<lparr>be_files := fw_after W\<rparr>; workspaces = detect_workspace_globs B' source_dir
      in if workspaces \<noteq> [] then
           (let members = list_workspace_members (fw_after W) source_dir workspaces;
                target_hint = (if members = [] then str_join '', '' workspaces else str_join '', '' members)
            in ''This looks like a monorepo (package.json declares workspaces: '' @ str_join '', '' workspaces @ ''). Nodeflare can'' @ [quote1] @
               ''t tell which server to run, so it won'' @ [quote1] @ ''t guess. Set the Root Directory to the target package '' @ em_dash @ '' one of: '' @
               target_hint @ '' '' @ em_dash @ '' and/or set the startup command (e.g. `node '' @ (case members of [] \<Rightarrow> ''<package>'' | m # _ \<Rightarrow> m) @
               ''/dist/index.js`).'')
         else
           ''Entry command is required for stdio transport and could not be auto-detected. Please set the startup command in the server settings (e.g., '' @
           (if runtime = ''node'' then ''node index.js, npx @modelcontextprotocol/server-xxx''
            else if runtime = ''python'' then ''python main.py, uv run mcp-server''
            else if runtime = ''go'' then ''./your-binary-name''
            else if runtime = ''rust'' then ''./your-binary-name stdio''
            else ''./your-command'') @ '').'')"

text \<open>The Dockerfile that is adopted, with the lines logged about one that is not.\<close>

definition adopt_dockerfile :: "build_env \<Rightarrow> fly_world \<Rightarrow> string \<Rightarrow> string option \<times> string list" where
  "adopt_dockerfile B W source_dir =
     (let path = path_join source_dir ''Dockerfile''
      in case (if fs_exists (fw_after W) path then fs_read (fw_after W) path else None) of
           None \<Rightarrow> (None, [])
         | Some df \<Rightarrow>
             (case dockerfile_context_fit (fw_after W) (be_case B) df source_dir of
                Usable \<Rightarrow> (Some df, [])
              | Unusable escaping \<Rightarrow>
                  (None, map (\<lambda>e. ''Ignoring repo Dockerfile: `'' @ es_instruction e @ ''` references `'' @ es_source e @
                     ''` which is not in the build context '' @ em_dash @ '' generating a Dockerfile instead.'') escaping)))"

definition write_dockerfile ::
  "build_env \<Rightarrow> fly_world \<Rightarrow> BuildJob \<Rightarrow> string \<Rightarrow> string option \<Rightarrow> string option \<Rightarrow> ProjectStructure \<Rightarrow> Provision \<Rightarrow>
   'a deploying \<Rightarrow> 'a deploying" where
  "write_dockerfile B W job source_dir existing existing_entry project provision k =
     (let path = path_join source_dir ''Dockerfile''
      in if existing = None \<or> bj_transport job = ''stdio'' then
           (let content = generate_dockerfile B (bj_runtime job) (bj_transport job) (bj_mcp_path job) existing existing_entry
                  (bj_entry_command job) (bj_build_command job) project
            in on_write W path (unwrap_or (apply_provision (be_case B) content provision) content) ''Failed to write Dockerfile''
                 (on_log (''Generated Dockerfile for '' @ bj_runtime job @ '' runtime (transport: '' @ bj_transport job @ '')'') k))
         else if \<not> provision_empty provision then
           (case Option.bind existing (\<lambda>df. apply_provision (be_case B) df provision) of
              Some patched \<Rightarrow> on_write W path patched ''Failed to write patched Dockerfile''
                (on_log ''Injected system-dependency provisioning into existing Dockerfile'' k)
            | None \<Rightarrow> k)
         else k)"

definition create_app :: "fly_world \<Rightarrow> string \<Rightarrow> string \<Rightarrow> SecretEnv list \<Rightarrow> 'a deploying \<Rightarrow> 'a deploying" where
  "create_app W org app_name secrets k =
     on_log (''Creating/verifying Fly.io app: '' @ app_name)
     (on_command W [''flyctl'', ''apps'', ''create'', app_name, ''--org'', org] []
       (finished ''flyctl apps create timed out after 60s'' ''Failed to run flyctl apps create'' (\<lambda>ok out err.
          if ok \<or> app_exists W app_name \<or> str_contains err ''already exists'' then k
          else bail [''Failed to create Fly app '' @ app_name @ '': '' @ sanitize_log_output (str_trim err) secrets])))"

text \<open>The result of the import is only logged internally.\<close>

definition import_secrets :: "fly_world \<Rightarrow> string \<Rightarrow> SecretEnv list \<Rightarrow> 'a deploying \<Rightarrow> 'a deploying" where
  "import_secrets W app_name secrets k =
     (if secrets = [] then k
      else
        (case validate_secrets secrets of
           Inl e \<Rightarrow> bail e
         | Inr _ \<Rightarrow>
             on_log (''Setting '' @ show_nat (length secrets) @ '' secrets...'')
             (on_command W [''flyctl'', ''secrets'', ''import'', ''--app'', app_name] (secrets_payload secrets) (\<lambda>outcome.
                case outcome of
                  Not_Spawned e \<Rightarrow> bail [''Failed to spawn flyctl secrets import'', e]
                | Stdin_Failed e \<Rightarrow> bail [''Failed to write secrets to flyctl stdin'', e]
                | Timed_Out \<Rightarrow> bail [''flyctl secrets import timed out after 60s'']
                | Not_Finished e \<Rightarrow> bail [''Failed to import secrets'', e]
                | Ran _ _ _ \<Rightarrow> k))))"

definition nonblank_lines :: "string \<Rightarrow> string list" where
  "nonblank_lines s = filter (\<lambda>l. str_trim l \<noteq> []) (str_lines s)"

definition run_deploy :: "build_env \<Rightarrow> fly_world \<Rightarrow> string \<Rightarrow> SecretEnv list \<Rightarrow> DeployResult deploying" where
  "run_deploy B W app_name secrets =
     on_log ''Starting remote build and deploy...''
     (on_command W [''flyctl'', ''deploy'', ''--remote-only'', ''--app'', app_name, ''--yes''] []
       (finished ''flyctl deploy timed out after 1200s'' ''Failed to run flyctl deploy'' (\<lambda>ok out err.
          on_logs (nonblank_lines (sanitize_log_output out secrets))
          (if \<not> ok then
             (let sanitized = sanitize_log_output err secrets; summary = extract_error_lines (be_case B) sanitized 15
              in on_logs (map (\<lambda>l. ''ERROR: '' @ l) (nonblank_lines sanitized))
                 (bail [''Build failed:'' @ [newline] @ (if summary = [] then sanitized else summary)]))
           else
             on_log ''Deployment successful!''
             (case get_machine_id W app_name of
                Inr i \<Rightarrow> on_log (''Machine ID: '' @ i)
                  ([], Inr \<lparr>dp_endpoint_url = ''https://'' @ app_name @ ''.fly.dev'', dp_machine_id = Some i, dp_app_name = app_name\<rparr>)
              | Inl _ \<Rightarrow> ([], Inr \<lparr>dp_endpoint_url = ''https://'' @ app_name @ ''.fly.dev'', dp_machine_id = None, dp_app_name = app_name\<rparr>))))))"

definition show_bool :: "bool \<Rightarrow> string" where
  "show_bool b = (if b then ''true'' else ''false'')"

definition show_option :: "fly_world \<Rightarrow> string option \<Rightarrow> string" where
  "show_option W x = (case x of None \<Rightarrow> ''None'' | Some s \<Rightarrow> ''Some('' @ butlast (tl (fw_debug W [s])) @ '')'')"

definition show_option_nat :: "nat option \<Rightarrow> string" where
  "show_option_nat x = (case x of None \<Rightarrow> ''None'' | Some n \<Rightarrow> ''Some('' @ show_nat n @ '')'')"

definition build_and_deploy ::
  "build_env \<Rightarrow> fly_world \<Rightarrow> string \<Rightarrow> BuildJob \<Rightarrow> string \<Rightarrow> SecretEnv list \<Rightarrow> nat \<Rightarrow> DeployResult deploying" where
  "build_and_deploy B W org job source_dir secrets plan_memory_ceiling_mb =
     (let app_name = bj_app_name job;
          project = detect_project_structure B source_dir;
          provision = detect_provision project;
          memory_mb = resolve_memory (bj_memory_mb job) (pv_min_memory_mb provision) plan_memory_ceiling_mb;
          (existing, ignored) = adopt_dockerfile B W source_dir;
          existing_entry = (if bj_transport job = ''stdio''
            then Option.bind existing (extract_dockerfile_entry_command (be_codec B) (be_case B)) else None);
          detected = detected_entry project (bj_runtime job)
      in on_log (''Preparing deployment for app: '' @ app_name)
        (on_log (''Detected project structure: pyproject='' @ show_bool (pj_has_pyproject project) @ '', uv='' @ show_bool (pj_has_uv_lock project) @
           '', requirements='' @ show_bool (pj_has_requirements_txt project) @ '', python_entry='' @ show_option W (pj_python_entry project))
        (on_logs (if provision_empty provision then []
             else (''Detected system dependencies: apt='' @ fw_debug W (pv_apt_packages provision) @ '', post_install='' @
                fw_debug W (pv_post_install provision) @ '', min_memory='' @ show_option_nat (pv_min_memory_mb provision) @ ''MB'') #
                map (\<lambda>w. [CHR 0xE2, CHR 0x9A, CHR 0xA0, CHR 0xEF, CHR 0xB8, CHR 0x8F] @ ''  '' @ w) (pv_warnings provision))
        (on_log (''Machine memory: '' @ show_nat memory_mb @ ''MB (requested '' @
            show_nat (case bj_memory_mb job of Some m \<Rightarrow> nat (m mod 2 ^ 64) | None \<Rightarrow> 256) @ ''MB, detection floor '' @
            show_nat (unwrap_or (pv_min_memory_mb provision) 0) @ ''MB, plan ceiling '' @ show_nat plan_memory_ceiling_mb @ ''MB)'')
        (on_write W (path_join source_dir ''fly.toml'')
            (generate_fly_toml app_name (bj_region job) (bj_runtime job) (bj_transport job) memory_mb (bj_port job)) ''Failed to write fly.toml''
        (on_log ''Generated fly.toml''
        ((if bj_transport job = ''stdio'' then
            (\<lambda>k. on_write W (path_join source_dir ''stdio-adapter.cjs'') (fw_adapter W) ''Failed to write stdio-adapter.cjs''
               (on_log ''Copied STDIO-to-SSE adapter script'' k))
          else id)
        (on_logs ignored
        (on_logs (if existing_entry \<noteq> None then [''Found existing Dockerfile with entry command, will preserve it''] else [])
        (on_logs (case bj_entry_command job of
             Some cmd \<Rightarrow> [''Using user-specified entry command: '' @ cmd]
           | None \<Rightarrow> if existing_entry \<noteq> None then [''Using entry command from existing Dockerfile'']
               else (case detected of Some d \<Rightarrow> [''Auto-detected startup command: '' @ d] | None \<Rightarrow> []))
        (if bj_transport job = ''stdio'' \<and> bj_entry_command job = None \<and> existing_entry = None \<and> detected = None
         then bail [no_entry_error B W source_dir (bj_runtime job)]
         else
           write_dockerfile B W job source_dir existing existing_entry project provision
           (create_app W org app_name secrets
           (import_secrets W app_name secrets
           (run_deploy B W app_name secrets))))))))))))))"


section \<open>Verification after the deployment\<close>

datatype ProbeOutcome = Verified | Broken string | Inconclusive string

definition classify_probe :: "bool \<Rightarrow> bool \<Rightarrow> string \<Rightarrow> ProbeOutcome" where
  "classify_probe saw_server_error saw_http_response detail =
     (if saw_server_error \<or> \<not> saw_http_response then Broken detail else Inconclusive detail)"

definition looks_like_jsonrpc :: "codec \<Rightarrow> string \<Rightarrow> bool" where
  "looks_like_jsonrpc C body =
     (let json_part = (case List.map_filter (\<lambda>l. map_option str_trim (str_strip_prefix (str_trim l) ''data:'')) (str_lines body) of
            [] \<Rightarrow> str_trim body | d # _ \<Rightarrow> d)
      in case from_slice C json_part of
           Some v \<Rightarrow> json_get v ''result'' \<noteq> None \<or> json_get v ''error'' \<noteq> None \<or> json_get v ''jsonrpc'' \<noteq> None
         | None \<Rightarrow> False)"

text \<open>An answer is its status, the status as text and the body.\<close>

datatype probe_reply = Probe_Failed string | Probe_Answer nat string string

datatype probe_event = Probe_Request string | Probe_Log string | Probe_Sleep nat

definition PROBE_ATTEMPTS :: nat where "PROBE_ATTEMPTS = 8"
definition PROBE_RETRY_DELAY_SECS :: nat where "PROBE_RETRY_DELAY_SECS = 5"

definition probe_success :: "codec \<Rightarrow> probe_reply \<Rightarrow> bool" where
  "probe_success C r = (case r of
     Probe_Answer status _ body \<Rightarrow> 200 \<le> status \<and> status < 300 \<and> looks_like_jsonrpc C body | Probe_Failed _ \<Rightarrow> False)"

fun probe_loop ::
  "codec \<Rightarrow> string \<Rightarrow> (nat \<Rightarrow> probe_reply) \<Rightarrow> nat \<Rightarrow> nat \<Rightarrow> bool \<Rightarrow> bool \<Rightarrow> string \<Rightarrow> probe_event list \<times> ProbeOutcome" where
  "probe_loop C url replies attempt 0 saw_server_error saw_http_response detail =
     ([], classify_probe saw_server_error saw_http_response detail)"
| "probe_loop C url replies attempt (Suc left) saw_server_error saw_http_response detail =
     (let wait = (\<lambda>saw_server_error saw_http_response detail.
            let (events, outcome) = probe_loop C url replies (Suc attempt) left saw_server_error saw_http_response detail
            in ((if 0 < left then
                   [Probe_Log (''Verifying MCP server'' @ [CHR 0xE2, CHR 0x80, CHR 0xA6] @ '' not ready yet (attempt '' @ show_nat attempt @ ''/'' @
                      show_nat PROBE_ATTEMPTS @ '': '' @ detail @ '')''), Probe_Sleep PROBE_RETRY_DELAY_SECS]
                 else []) @ events, outcome));
          (events, outcome) =
            (case replies attempt of
               Probe_Failed e \<Rightarrow> wait saw_server_error saw_http_response (''request error: '' @ e)
             | Probe_Answer status text body \<Rightarrow>
                 if probe_success C (replies attempt)
                 then ([Probe_Log (''MCP server verified: initialize responded ('' @ text @ '')'')], Verified)
                 else wait (saw_server_error \<or> (500 \<le> status \<and> status < 600)) True
                        (''HTTP '' @ show_nat status @ '': '' @ snippet body))
      in (Probe_Request url # events, outcome))"

definition verify_mcp_initialize :: "codec \<Rightarrow> string \<Rightarrow> string \<Rightarrow> (nat \<Rightarrow> probe_reply) \<Rightarrow> probe_event list \<times> ProbeOutcome" where
  "verify_mcp_initialize C endpoint_url mcp_path replies =
     (let path = (if mcp_path = [] then ''/mcp'' else mcp_path);
          url = trim_end_matches (CHR ''/'') endpoint_url @ ''/'' @ trim_start_matches (CHR ''/'') path
      in probe_loop C url replies 1 PROBE_ATTEMPTS False False ''no response'')"


section \<open>What a deployment guarantees\<close>

text \<open>The probe ends after at most eight requests, and its outcome says what they showed.\<close>

definition server_error :: "probe_reply \<Rightarrow> bool" where
  "server_error r = (case r of Probe_Answer status _ _ \<Rightarrow> 500 \<le> status \<and> status < 600 | Probe_Failed _ \<Rightarrow> False)"

definition http_answer :: "probe_reply \<Rightarrow> bool" where
  "http_answer r = (case r of Probe_Answer _ _ _ \<Rightarrow> True | Probe_Failed _ \<Rightarrow> False)"

definition requests_sent :: "probe_event list \<Rightarrow> nat" where
  "requests_sent es = length (filter (\<lambda>e. case e of Probe_Request _ \<Rightarrow> True | _ \<Rightarrow> False) es)"

definition seconds_waited :: "probe_event list \<Rightarrow> nat" where
  "seconds_waited es = sum_list (map (\<lambda>e. case e of Probe_Sleep n \<Rightarrow> n | _ \<Rightarrow> 0) es)"

lemma probe_loop_Verified:
  "snd (probe_loop C url replies a n se sh d) = Verified \<longleftrightarrow> (\<exists>i \<in> {a..<a + n}. probe_success C (replies i))"
proof (induction n arbitrary: a se sh d)
  case 0
  then show ?case by (simp add: classify_probe_def)
next
  case (Suc n)
  have "{a..<a + Suc n} = insert a {Suc a..<Suc a + n}" by auto
  then show ?case using Suc.IH
    by (auto simp: Let_def split_def probe_success_def split: probe_reply.splits if_splits)
qed

lemma probe_loop_Broken:
  "(\<exists>m. snd (probe_loop C url replies a n se sh d) = Broken m) \<longleftrightarrow> (\<forall>i \<in> {a..<a + n}. \<not> probe_success C (replies i)) \<and>
     (se \<or> (\<exists>i \<in> {a..<a + n}. server_error (replies i)) \<or> \<not> (sh \<or> (\<exists>i \<in> {a..<a + n}. http_answer (replies i))))"
proof (induction n arbitrary: a se sh d)
  case 0
  then show ?case by (simp add: classify_probe_def)
next
  case (Suc n)
  have range: "{a..<a + Suc n} = insert a {Suc a..<Suc a + n}" by auto
  show ?case
  proof (cases "replies a")
    case (Probe_Failed e)
    then show ?thesis unfolding range using Suc.IH [of "Suc a" se sh]
      by (simp add: Let_def split_def probe_success_def server_error_def http_answer_def)
  next
    case (Probe_Answer status t body)
    then show ?thesis unfolding range using Suc.IH [of "Suc a" "se \<or> (500 \<le> status \<and> status < 600)" True]
      by (cases "probe_success C (replies a)")
        (auto simp: Let_def split_def server_error_def http_answer_def)
  qed
qed

lemma probe_loop_cost:
  "requests_sent (fst (probe_loop C url replies a n se sh d)) \<le> n \<and> seconds_waited (fst (probe_loop C url replies a n se sh d)) \<le> 5 * (n - 1)"
proof (induction n arbitrary: a se sh d)
  case 0
  then show ?case by (simp add: requests_sent_def seconds_waited_def)
next
  case (Suc n)
  let ?events = "\<lambda>se sh d. fst (probe_loop C url replies (Suc a) n se sh d)"
  have one: "requests_sent (Probe_Request url # es) = Suc (requests_sent es)" "seconds_waited (Probe_Request url # es) = seconds_waited es"
    "requests_sent (Probe_Log m # es) = requests_sent es" "seconds_waited (Probe_Log m # es) = seconds_waited es"
    "requests_sent (Probe_Sleep k # es) = requests_sent es" "seconds_waited (Probe_Sleep k # es) = k + seconds_waited es"
    "requests_sent [] = 0" "seconds_waited [] = 0" for es m k
    by (simp_all add: requests_sent_def seconds_waited_def)
  have less: "requests_sent (?events se sh d) \<le> n" "seconds_waited (?events se sh d) \<le> 5 * (n - 1)" for se sh d
    using Suc.IH by blast+
  show ?case
    using less by (cases n) (auto simp: Let_def split_def one PROBE_RETRY_DELAY_SECS_def add_le_mono split: probe_reply.splits)
qed

text \<open>
  C26: verification ends and tells what it saw. It sends at most eight requests and waits at most 35 seconds between
  them. The server counts as verified exactly if one of the eight answers is a JSON-RPC message with a success status,
  and as broken exactly if none is and there was a server error or no answer at all.
\<close>

theorem probe_outcome:
  "requests_sent (fst (verify_mcp_initialize C endpoint_url mcp_path replies)) \<le> 8 \<and>
   seconds_waited (fst (verify_mcp_initialize C endpoint_url mcp_path replies)) \<le> 35 \<and>
   (snd (verify_mcp_initialize C endpoint_url mcp_path replies) = Verified \<longleftrightarrow> (\<exists>i \<in> {1..8}. probe_success C (replies i))) \<and>
   ((\<exists>detail. snd (verify_mcp_initialize C endpoint_url mcp_path replies) = Broken detail) \<longleftrightarrow>
     (\<forall>i \<in> {1..8}. \<not> probe_success C (replies i)) \<and>
     ((\<exists>i \<in> {1..8}. server_error (replies i)) \<or> (\<forall>i \<in> {1..8}. \<not> http_answer (replies i))))"
proof -
  let ?url = "trim_end_matches (CHR ''/'') endpoint_url @ ''/'' @ trim_start_matches (CHR ''/'') (if mcp_path = [] then ''/mcp'' else mcp_path)"
  have run: "verify_mcp_initialize C endpoint_url mcp_path replies = probe_loop C ?url replies 1 8 False False ''no response''"
    by (simp add: verify_mcp_initialize_def PROBE_ATTEMPTS_def)
  have range: "{1..<1 + 8} = {1..8 :: nat}" by auto
  show ?thesis unfolding run
    using probe_loop_Verified [of C ?url replies 1 8 False False "''no response''"] probe_loop_Broken [of C ?url replies 1 8 False False "''no response''"]
      probe_loop_cost [of C ?url replies 1 8 False False "''no response''"]
    unfolding range by simp
qed

lemma probe_outcome_witness:
  "snd (verify_mcp_initialize ref_codec ''https://a'' [] (\<lambda>_. Probe_Failed ''refused'')) \<noteq> Verified \<and>
   (\<exists>detail. snd (verify_mcp_initialize ref_codec ''https://a'' [] (\<lambda>_. Probe_Failed ''refused'')) = Broken detail)"
  using probe_outcome [of ref_codec "''https://a''" "[]" "\<lambda>_. Probe_Failed ''refused''"]
  by (simp add: probe_success_def http_answer_def)

text \<open>The commands that were run, each with its input.\<close>

definition commands :: "'a deploying \<Rightarrow> (string list \<times> string) set" where
  "commands p = {(args, input). Command args input \<in> set (fst p)}"

lemma commands_simps [simp]:
  "commands (on_log m k) = commands k" "commands (bail e) = {}" "commands ([], r) = {}"
  "commands (on_command W args input k') = insert (args, input) (commands (k' (fw_command W args input)))"
  by (auto simp: commands_def on_log_def bail_def on_command_def Let_def)

lemma commands_logs [simp]: "commands (on_logs ms k) = commands k"
  by (induction ms) (simp_all add: on_logs_def)

lemma commands_write: "commands (on_write W path content context k) \<subseteq> commands k"
  by (auto simp: commands_def on_write_def bail_def split: option.splits)

lemma commands_write_dockerfile: "commands (write_dockerfile B W job source_dir existing entry project provision k) \<subseteq> commands k"
  by (auto simp: write_dockerfile_def Let_def split: option.splits if_splits dest!: commands_write [THEN subsetD])

lemma commands_finished: "(\<And>ok out err. commands (k ok out err) \<subseteq> S) \<Longrightarrow> commands (finished m c k outcome) \<subseteq> S"
  by (simp add: finished_def split: command_outcome.splits)

lemma commands_create_app: "commands (create_app W org app_name secrets k) \<subseteq> insert ([''flyctl'', ''apps'', ''create'', app_name, ''--org'', org], []) (commands k)"
  unfolding create_app_def commands_simps by (intro insert_mono commands_finished) auto

lemma commands_import: "commands (import_secrets W app_name secrets k) \<subseteq> commands k \<union>
    (if validate_secrets secrets = Inr () then {([''flyctl'', ''secrets'', ''import'', ''--app'', app_name], secrets_payload secrets)} else {})"
  by (auto simp: import_secrets_def split: sum.splits command_outcome.splits)

lemma commands_deploy: "commands (run_deploy B W app_name secrets) \<subseteq> {([''flyctl'', ''deploy'', ''--remote-only'', ''--app'', app_name, ''--yes''], [])}"
  unfolding run_deploy_def commands_simps
  by (intro insert_mono commands_finished) (auto simp: Let_def split: sum.splits)

lemma commands_adapter: "commands ((if b then (\<lambda>k. on_write W path content c (on_log m k)) else id) k) \<subseteq> commands k"
  using commands_write [of W path content c "on_log m k"] by simp

lemma commands_choice: "commands (if b then bail e else k) \<subseteq> commands k"
  by simp

text \<open>
  Secrets are never on a command line. A deployment runs only three commands, whose arguments are the application,
  the organization and fixed words; the secrets are given to one of them on its standard input, and only after all of
  them passed the checks.
\<close>

theorem secrets_only_on_stdin:
  "commands (build_and_deploy B W org job source_dir secrets ceiling) \<subseteq>
     {([''flyctl'', ''apps'', ''create'', bj_app_name job, ''--org'', org], []),
      ([''flyctl'', ''deploy'', ''--remote-only'', ''--app'', bj_app_name job, ''--yes''], [])} \<union>
     (if validate_secrets secrets = Inr ()
      then {([''flyctl'', ''secrets'', ''import'', ''--app'', bj_app_name job], secrets_payload secrets)} else {})"
  (is "_ \<subseteq> {?create, ?deploy} \<union> ?import")
proof -
  let ?S = "{?create, ?deploy} \<union> ?import" and ?app = "bj_app_name job"
  let ?rest = "import_secrets W ?app secrets (run_deploy B W ?app secrets)"
  have rest: "commands ?rest \<subseteq> {?deploy} \<union> ?import"
    using commands_import [of W ?app secrets "run_deploy B W ?app secrets"] commands_deploy [of B W ?app secrets] by blast
  have deploy: "commands (create_app W org ?app secrets ?rest) \<subseteq> ?S"
    using commands_create_app [of W org ?app secrets ?rest] rest by blast
  show ?thesis unfolding build_and_deploy_def Let_def split_def commands_simps commands_logs
    by (intro order_trans [OF commands_write] order_trans [OF commands_adapter], unfold commands_simps commands_logs)+
      (intro order_trans [OF commands_choice] order_trans [OF commands_write_dockerfile deploy])
qed

text \<open>
  The error message of a failed build is taken from the sanitized output, but escape sequences are removed afterwards: a
  secret whose characters an escape sequence separates is put together again.
\<close>

lemma escape_restores_secret:
  "str_contains (extract_error_lines ascii_casing
     (sanitize_log_output (''error: pass'' @ [CHR 0x1B] @ ''[0mword'') [\<lparr>se_key = ''A'', se_value = ''password''\<rparr>]) 15) ''password''"
  by code_simp

text \<open>The memory of a machine lies between 256 MB and what the plan allows.\<close>

lemma resolve_memory_bounds: "256 \<le> ceiling \<Longrightarrow> 256 \<le> resolve_memory m floor ceiling \<and> resolve_memory m floor ceiling \<le> ceiling"
  by (auto simp: resolve_memory_def Let_def)

end
