(* ===== verification/Scopes.thy ===== *)
theory Scopes
  imports Rust_Prelude
begin

text \<open>
  The authorization scopes of \<^verbatim>\<open>crates/common/src/types.rs\<close>: the \<^verbatim>\<open>Scope\<close> and
  \<^verbatim>\<open>McpMethod\<close> enums with their parsers and printer, and the \<^verbatim>\<open>ScopeChecker\<close> that decides
  whether a credential may perform an MCP method.
\<close>

section \<open>Data and parsers\<close>

datatype Scope =
    Scope_All
  | Scope_ToolsAll | Scope_ToolsList | Scope_ToolsCall | Scope_ToolsCallSpecific string
  | Scope_ResourcesAll | Scope_ResourcesList | Scope_ResourcesRead
  | Scope_ResourcesReadSpecific string
  | Scope_PromptsAll | Scope_PromptsList | Scope_PromptsGet | Scope_PromptsGetSpecific string

definition Scope_parse :: "string \<Rightarrow> Scope option" where
  "Scope_parse s =
     (if s = ''*'' then Some Scope_All
      else if s = ''tools:*'' then Some Scope_ToolsAll
      else if s = ''tools:list'' then Some Scope_ToolsList
      else if s = ''tools:call'' then Some Scope_ToolsCall
      else if s = ''resources:*'' then Some Scope_ResourcesAll
      else if s = ''resources:list'' then Some Scope_ResourcesList
      else if s = ''resources:read'' then Some Scope_ResourcesRead
      else if s = ''prompts:*'' then Some Scope_PromptsAll
      else if s = ''prompts:list'' then Some Scope_PromptsList
      else if s = ''prompts:get'' then Some Scope_PromptsGet
      else (case str_strip_prefix s ''tools:call:'' of
              Some tool_name \<Rightarrow> Some (Scope_ToolsCallSpecific tool_name)
            | None \<Rightarrow>
           (case str_strip_prefix s ''resources:read:'' of
              Some resource_uri \<Rightarrow> Some (Scope_ResourcesReadSpecific resource_uri)
            | None \<Rightarrow>
           (case str_strip_prefix s ''prompts:get:'' of
              Some prompt_name \<Rightarrow> Some (Scope_PromptsGetSpecific prompt_name)
            | None \<Rightarrow> None))))"

fun Scope_as_str :: "Scope \<Rightarrow> string" where
  "Scope_as_str Scope_All = ''*''"
| "Scope_as_str Scope_ToolsAll = ''tools:*''"
| "Scope_as_str Scope_ToolsList = ''tools:list''"
| "Scope_as_str Scope_ToolsCall = ''tools:call''"
| "Scope_as_str (Scope_ToolsCallSpecific name) = ''tools:call:'' @ name"
| "Scope_as_str Scope_ResourcesAll = ''resources:*''"
| "Scope_as_str Scope_ResourcesList = ''resources:list''"
| "Scope_as_str Scope_ResourcesRead = ''resources:read''"
| "Scope_as_str (Scope_ResourcesReadSpecific uri) = ''resources:read:'' @ uri"
| "Scope_as_str Scope_PromptsAll = ''prompts:*''"
| "Scope_as_str Scope_PromptsList = ''prompts:list''"
| "Scope_as_str Scope_PromptsGet = ''prompts:get''"
| "Scope_as_str (Scope_PromptsGetSpecific name) = ''prompts:get:'' @ name"

datatype McpMethod =
    Method_ToolsList | Method_ToolsCall
  | Method_ResourcesList | Method_ResourcesRead
  | Method_PromptsList | Method_PromptsGet
  | Method_Unknown

definition McpMethod_parse :: "string \<Rightarrow> McpMethod" where
  "McpMethod_parse m =
     (if m = ''tools/list'' then Method_ToolsList
      else if m = ''tools/call'' then Method_ToolsCall
      else if m = ''resources/list'' then Method_ResourcesList
      else if m = ''resources/read'' then Method_ResourcesRead
      else if m = ''prompts/list'' then Method_PromptsList
      else if m = ''prompts/get'' then Method_PromptsGet
      else Method_Unknown)"


section \<open>The scope checker\<close>

record ScopeChecker =
  sc_scopes :: "Scope list"

definition ScopeChecker_new :: "string list \<Rightarrow> ScopeChecker" where
  "ScopeChecker_new scope_strings = \<lparr> sc_scopes = List.map_filter Scope_parse scope_strings \<rparr>"

text \<open>One iteration of the loop of \<^verbatim>\<open>is_allowed\<close>: does this scope make the loop return true?\<close>

fun scope_grants :: "Scope \<Rightarrow> McpMethod \<Rightarrow> string option \<Rightarrow> bool" where
  "scope_grants Scope_All m t = True"
| "scope_grants Scope_ToolsAll m t = (m = Method_ToolsList \<or> m = Method_ToolsCall)"
| "scope_grants Scope_ToolsList m t = (m = Method_ToolsList)"
| "scope_grants Scope_ToolsCall m t = (m = Method_ToolsCall)"
| "scope_grants (Scope_ToolsCallSpecific a) m t = (m = Method_ToolsCall \<and> t = Some a)"
| "scope_grants Scope_ResourcesAll m t = (m = Method_ResourcesList \<or> m = Method_ResourcesRead)"
| "scope_grants Scope_ResourcesList m t = (m = Method_ResourcesList)"
| "scope_grants Scope_ResourcesRead m t = (m = Method_ResourcesRead)"
| "scope_grants (Scope_ResourcesReadSpecific a) m t = (m = Method_ResourcesRead \<and> t = Some a)"
| "scope_grants Scope_PromptsAll m t = (m = Method_PromptsList \<or> m = Method_PromptsGet)"
| "scope_grants Scope_PromptsList m t = (m = Method_PromptsList)"
| "scope_grants Scope_PromptsGet m t = (m = Method_PromptsGet)"
| "scope_grants (Scope_PromptsGetSpecific a) m t = (m = Method_PromptsGet \<and> t = Some a)"

fun is_allowed_loop :: "Scope list \<Rightarrow> McpMethod \<Rightarrow> string option \<Rightarrow> bool" where
  "is_allowed_loop [] m t = False"
| "is_allowed_loop (s # ss) m t = (if scope_grants s m t then True else is_allowed_loop ss m t)"

definition is_allowed :: "ScopeChecker \<Rightarrow> McpMethod \<Rightarrow> string option \<Rightarrow> bool" where
  "is_allowed chk m t =
     (if sc_scopes chk = [] then False else is_allowed_loop (sc_scopes chk) m t)"

definition has_any_scope :: "ScopeChecker \<Rightarrow> bool" where
  "has_any_scope chk \<longleftrightarrow> sc_scopes chk \<noteq> []"

definition predefined_scopes :: "(string \<times> string) list" where
  "predefined_scopes =
     [(''*'', ''Full access - all permissions''),
      (''tools:*'', ''Tools - all operations''),
      (''tools:list'', ''Tools - list only''),
      (''tools:call'', ''Tools - execute any tool''),
      (''resources:*'', ''Resources - all operations''),
      (''resources:list'', ''Resources - list only''),
      (''resources:read'', ''Resources - read any''),
      (''prompts:*'', ''Prompts - all operations''),
      (''prompts:list'', ''Prompts - list only''),
      (''prompts:get'', ''Prompts - get any'')]"


section \<open>Correctness\<close>

lemma Scope_parse_as_str [simp]: "Scope_parse (Scope_as_str s) = Some s"
  by (cases s) (simp_all add: Scope_parse_def str_strip_prefix_def)

lemma Scope_as_str_of_parse: "Scope_parse str = Some s \<Longrightarrow> Scope_as_str s = str"
  by (auto simp: Scope_parse_def strip_prefix_Some split: if_splits option.splits)

text \<open>
  Parsing and printing scopes are inverse to each other: a string parses to a scope
  exactly when it is that scope's printed form, so a scope stored as text keeps its meaning and
  no two strings denote the same scope.
\<close>

theorem Scope_parse_roundtrip: "Scope_parse str = Some s \<longleftrightarrow> str = Scope_as_str s"
  using Scope_as_str_of_parse by fastforce

lemma is_allowed_loop_iff: "is_allowed_loop ss m t \<longleftrightarrow> (\<exists>s \<in> set ss. scope_grants s m t)"
  by (induction ss) auto

lemma is_allowed_iff: "is_allowed chk m t \<longleftrightarrow> (\<exists>s \<in> set (sc_scopes chk). scope_grants s m t)"
  by (auto simp: is_allowed_def is_allowed_loop_iff)

lemma set_ScopeChecker_new:
  "s \<in> set (sc_scopes (ScopeChecker_new strs)) \<longleftrightarrow> Scope_as_str s \<in> set strs"
  unfolding ScopeChecker_new_def List.map_filter_def
  using Scope_as_str_of_parse by (force simp: image_iff)

text \<open>
  The documented meaning of a scope list, independent of the checker: the scope strings that
  permit a method on a target.
\<close>

definition granting_scopes :: "McpMethod \<Rightarrow> string option \<Rightarrow> string list" where
  "granting_scopes m t = ''*'' #
     (case m of
        Method_ToolsList \<Rightarrow> [''tools:*'', ''tools:list'']
      | Method_ToolsCall \<Rightarrow> [''tools:*'', ''tools:call''] @
          (case t of None \<Rightarrow> [] | Some n \<Rightarrow> [''tools:call:'' @ n])
      | Method_ResourcesList \<Rightarrow> [''resources:*'', ''resources:list'']
      | Method_ResourcesRead \<Rightarrow> [''resources:*'', ''resources:read''] @
          (case t of None \<Rightarrow> [] | Some n \<Rightarrow> [''resources:read:'' @ n])
      | Method_PromptsList \<Rightarrow> [''prompts:*'', ''prompts:list'']
      | Method_PromptsGet \<Rightarrow> [''prompts:*'', ''prompts:get''] @
          (case t of None \<Rightarrow> [] | Some n \<Rightarrow> [''prompts:get:'' @ n])
      | Method_Unknown \<Rightarrow> [])"

lemma scope_grants_iff: "scope_grants s m t \<longleftrightarrow> Scope_as_str s \<in> set (granting_scopes m t)"
  by (cases s; cases m; cases t; simp add: granting_scopes_def; blast)

lemma granting_scopes_range:
  "\<exists>ss. granting_scopes m t = map Scope_as_str ss"
proof -
  let ?tgt = "\<lambda>C. case t of None \<Rightarrow> [] | Some n \<Rightarrow> [C n]"
  let ?ss = "Scope_All # (case m of
      Method_ToolsList \<Rightarrow> [Scope_ToolsAll, Scope_ToolsList]
    | Method_ToolsCall \<Rightarrow> [Scope_ToolsAll, Scope_ToolsCall] @ ?tgt Scope_ToolsCallSpecific
    | Method_ResourcesList \<Rightarrow> [Scope_ResourcesAll, Scope_ResourcesList]
    | Method_ResourcesRead \<Rightarrow>
        [Scope_ResourcesAll, Scope_ResourcesRead] @ ?tgt Scope_ResourcesReadSpecific
    | Method_PromptsList \<Rightarrow> [Scope_PromptsAll, Scope_PromptsList]
    | Method_PromptsGet \<Rightarrow> [Scope_PromptsAll, Scope_PromptsGet] @ ?tgt Scope_PromptsGetSpecific
    | Method_Unknown \<Rightarrow> [])"
  have "granting_scopes m t = map Scope_as_str ?ss"
    by (cases m; cases t; simp add: granting_scopes_def)
  then show ?thesis by blast
qed

lemma is_allowed_new_iff:
  "is_allowed (ScopeChecker_new strs) m t \<longleftrightarrow> set strs \<inter> set (granting_scopes m t) \<noteq> {}"
proof -
  obtain ss where ss: "granting_scopes m t = map Scope_as_str ss"
    using granting_scopes_range by blast
  have "is_allowed (ScopeChecker_new strs) m t \<longleftrightarrow>
      (\<exists>s. Scope_as_str s \<in> set strs \<and> Scope_as_str s \<in> set (granting_scopes m t))"
    by (auto simp: is_allowed_iff set_ScopeChecker_new scope_grants_iff)
  also have "\<dots> \<longleftrightarrow> set strs \<inter> set (granting_scopes m t) \<noteq> {}"
    unfolding ss by auto
  finally show ?thesis .
qed

text \<open>
  The checker built from a credential's scope strings permits a method on a target exactly
  when the list holds one of the scope strings documented for it: the wildcard, the resource's
  wildcard, the action, or the action on precisely this target. Strings that are not scopes
  grant nothing, an empty list grants nothing, and only the wildcard grants unknown methods.
\<close>

theorem is_allowed_spec:
  "is_allowed (ScopeChecker_new strs) m t \<longleftrightarrow>
     (\<exists>str. str \<in> set strs \<and> str \<in> set (granting_scopes m t))"
  unfolding is_allowed_new_iff by auto

lemma is_allowed_mono:
  "is_allowed (ScopeChecker_new strs) m t \<Longrightarrow> set strs \<subseteq> set strs' \<Longrightarrow>
     is_allowed (ScopeChecker_new strs') m t"
  by (auto simp: is_allowed_new_iff)

lemma is_allowed_empty [simp]: "\<not> is_allowed (ScopeChecker_new []) m t"
  by (simp add: is_allowed_new_iff)

lemma predefined_scopes_parse:
  "(str, descr) \<in> set predefined_scopes \<Longrightarrow> \<exists>s. Scope_parse str = Some s"
  by (auto simp: predefined_scopes_def Scope_parse_def)

end
