(* ===== verification/Common_Types.thy ===== *)
theory Common_Types
  imports Rust_Prelude
begin

text \<open>
  The enums of \<^verbatim>\<open>crates/common/src/types.rs\<close> with their textual forms, the slug syntax that
  names servers and workspaces, and the pagination parameters of the list endpoints. Texts are
  the forms the database stores (the \<^verbatim>\<open>match\<close> blocks of \<^verbatim>\<open>server_repo.rs\<close> and
  \<^verbatim>\<open>deployment_repo.rs\<close>) and the readers are the accessors of \<^verbatim>\<open>crates/db/src/models\<close>.
\<close>

section \<open>Enums and their stored forms\<close>

datatype Runtime = Runtime_Node | Runtime_Python | Runtime_Go | Runtime_Rust | Runtime_Docker

fun Runtime_display :: "Runtime \<Rightarrow> string" where
  "Runtime_display Runtime_Node = ''node''"
| "Runtime_display Runtime_Python = ''python''"
| "Runtime_display Runtime_Go = ''go''"
| "Runtime_display Runtime_Rust = ''rust''"
| "Runtime_display Runtime_Docker = ''docker''"

definition Runtime_of_str :: "string \<Rightarrow> Runtime" where
  "Runtime_of_str s =
     (if s = ''node'' then Runtime_Node
      else if s = ''python'' then Runtime_Python
      else if s = ''go'' then Runtime_Go
      else if s = ''rust'' then Runtime_Rust
      else if s = ''docker'' then Runtime_Docker
      else Runtime_Node)"

datatype Visibility = Visibility_Private | Visibility_Team | Visibility_Public

fun Visibility_str :: "Visibility \<Rightarrow> string" where
  "Visibility_str Visibility_Private = ''private''"
| "Visibility_str Visibility_Team = ''team''"
| "Visibility_str Visibility_Public = ''public''"

definition Visibility_of_str :: "string \<Rightarrow> Visibility" where
  "Visibility_of_str s =
     (if s = ''team'' then Visibility_Team
      else if s = ''public'' then Visibility_Public
      else Visibility_Private)"

datatype AccessMode = AccessMode_Public | AccessMode_VpnOnly

fun AccessMode_display :: "AccessMode \<Rightarrow> string" where
  "AccessMode_display AccessMode_Public = ''public''"
| "AccessMode_display AccessMode_VpnOnly = ''vpn_only''"

definition AccessMode_of_str :: "string \<Rightarrow> AccessMode" where
  "AccessMode_of_str s = (if s = ''vpn_only'' then AccessMode_VpnOnly else AccessMode_Public)"

datatype Transport = Transport_Sse | Transport_Stdio

fun Transport_display :: "Transport \<Rightarrow> string" where
  "Transport_display Transport_Sse = ''sse''"
| "Transport_display Transport_Stdio = ''stdio''"

definition Transport_of_str :: "string \<Rightarrow> Transport" where
  "Transport_of_str s = (if s = ''stdio'' then Transport_Stdio else Transport_Sse)"

datatype ServerStatus =
    Server_Inactive | Server_Building | Server_Deploying | Server_Running
  | Server_Failed | Server_Stopped | Server_Deleting

fun ServerStatus_str :: "ServerStatus \<Rightarrow> string" where
  "ServerStatus_str Server_Inactive = ''inactive''"
| "ServerStatus_str Server_Building = ''building''"
| "ServerStatus_str Server_Deploying = ''deploying''"
| "ServerStatus_str Server_Running = ''running''"
| "ServerStatus_str Server_Failed = ''failed''"
| "ServerStatus_str Server_Stopped = ''stopped''"
| "ServerStatus_str Server_Deleting = ''deleting''"

definition ServerStatus_of_str :: "string \<Rightarrow> ServerStatus" where
  "ServerStatus_of_str s =
     (if s = ''building'' then Server_Building
      else if s = ''deploying'' then Server_Deploying
      else if s = ''running'' then Server_Running
      else if s = ''failed'' then Server_Failed
      else if s = ''stopped'' then Server_Stopped
      else if s = ''deleting'' then Server_Deleting
      else Server_Inactive)"

datatype DeploymentStatus =
    Deployment_Pending | Deployment_Building | Deployment_Pushing | Deployment_Deploying
  | Deployment_Succeeded | Deployment_Failed | Deployment_Cancelled

fun DeploymentStatus_str :: "DeploymentStatus \<Rightarrow> string" where
  "DeploymentStatus_str Deployment_Pending = ''pending''"
| "DeploymentStatus_str Deployment_Building = ''building''"
| "DeploymentStatus_str Deployment_Pushing = ''pushing''"
| "DeploymentStatus_str Deployment_Deploying = ''deploying''"
| "DeploymentStatus_str Deployment_Succeeded = ''succeeded''"
| "DeploymentStatus_str Deployment_Failed = ''failed''"
| "DeploymentStatus_str Deployment_Cancelled = ''cancelled''"

definition DeploymentStatus_of_str :: "string \<Rightarrow> DeploymentStatus" where
  "DeploymentStatus_of_str s =
     (if s = ''building'' then Deployment_Building
      else if s = ''pushing'' then Deployment_Pushing
      else if s = ''deploying'' then Deployment_Deploying
      else if s = ''succeeded'' then Deployment_Succeeded
      else if s = ''failed'' then Deployment_Failed
      else if s = ''cancelled'' then Deployment_Cancelled
      else Deployment_Pending)"

definition deployment_is_finished :: "string \<Rightarrow> bool" where
  "deployment_is_finished s \<longleftrightarrow> s \<in> {''succeeded'', ''failed'', ''cancelled''}"

datatype WorkspaceRole = Role_Owner | Role_Admin | Role_Member | Role_Viewer

definition WorkspaceRole_of_str :: "string \<Rightarrow> WorkspaceRole" where
  "WorkspaceRole_of_str s =
     (if s = ''owner'' then Role_Owner
      else if s = ''admin'' then Role_Admin
      else if s = ''member'' then Role_Member
      else if s = ''viewer'' then Role_Viewer
      else Role_Viewer)"

datatype ToolPermissionLevel = Tool_Normal | Tool_Elevated | Tool_Dangerous

definition ToolPermissionLevel_of_str :: "string \<Rightarrow> ToolPermissionLevel" where
  "ToolPermissionLevel_of_str s =
     (if s = ''elevated'' then Tool_Elevated
      else if s = ''dangerous'' then Tool_Dangerous
      else Tool_Normal)"

lemma stored_enums_read_back:
  "Runtime_of_str (Runtime_display r) = r"
  "Visibility_of_str (Visibility_str v) = v"
  "AccessMode_of_str (AccessMode_display a) = a"
  "Transport_of_str (Transport_display t) = t"
  "ServerStatus_of_str (ServerStatus_str s) = s"
  "DeploymentStatus_of_str (DeploymentStatus_str d) = d"
  subgoal by (cases r) (simp_all add: Runtime_of_str_def)
  subgoal by (cases v) (simp_all add: Visibility_of_str_def)
  subgoal by (cases a) (simp_all add: AccessMode_of_str_def)
  subgoal by (cases t) (simp_all add: Transport_of_str_def)
  subgoal by (cases s) (simp_all add: ServerStatus_of_str_def)
  subgoal by (cases d) (simp_all add: DeploymentStatus_of_str_def)
  done

lemma deployment_is_finished_iff:
  "deployment_is_finished (DeploymentStatus_str d) \<longleftrightarrow>
     d \<in> {Deployment_Succeeded, Deployment_Failed, Deployment_Cancelled}"
  by (cases d) (simp_all add: deployment_is_finished_def)


section \<open>Slugs\<close>

definition slug_char :: "char \<Rightarrow> bool" where
  "slug_char c \<longleftrightarrow> (CHR ''a'' \<le> c \<and> c \<le> CHR ''z'') \<or> (CHR ''0'' \<le> c \<and> c \<le> CHR ''9'')"

text \<open>\<^verbatim>\<open>^[a-z0-9]+(-[a-z0-9]+)*$\<close>: the parts between hyphens are non-empty runs of slug characters.\<close>

definition validate_slug :: "string \<Rightarrow> bool" where
  "validate_slug s \<longleftrightarrow> list_all (\<lambda>w. w \<noteq> [] \<and> list_all slug_char w) (str_split (CHR ''-'') s)"

lemma split_chars: "x \<in> set s \<Longrightarrow> x = c \<or> (\<exists>w \<in> set (str_split c s). x \<in> set w)"
  by (induction s) (auto split: list.splits)

lemma validate_slug_chars: "validate_slug s \<Longrightarrow> c \<in> set s \<Longrightarrow> slug_char c \<or> c = CHR ''-''"
  using split_chars [of c s "CHR ''-''"] by (auto simp: validate_slug_def list_all_iff)

lemma validate_slug_nonempty: "validate_slug s \<Longrightarrow> s \<noteq> []"
  by (auto simp: validate_slug_def)

lemma not_slug_char [simp]:
  "\<not> slug_char (CHR ''.'')" "\<not> slug_char (CHR '':'')" "\<not> slug_char (CHR ''-'')"
  "\<not> slug_char (CHR ''/'')"
  by (simp_all add: slug_char_def less_eq_char_def of_char_def)

lemma validate_slug_no_dot_colon:
  "validate_slug s \<Longrightarrow> CHR ''.'' \<notin> set s \<and> CHR '':'' \<notin> set s \<and> CHR ''/'' \<notin> set s"
  using validate_slug_chars by fastforce


section \<open>Pagination\<close>

record PaginationParams =
  pg_page :: "32 word option"
  pg_per_page :: "32 word option"

definition pagination_offset :: "PaginationParams \<Rightarrow> 32 word" where
  "pagination_offset p =
     (let page = max (unwrap_or (pg_page p) 1) 1;
          per_page = unwrap_or (pg_per_page p) 20
      in (page - 1) * per_page)"

definition pagination_limit :: "PaginationParams \<Rightarrow> 32 word" where
  "pagination_limit p = min (unwrap_or (pg_per_page p) 20) 100"

text \<open>The rows a page returns: \<open>LIMIT limit OFFSET offset\<close> of a listing with row numbers from 0.\<close>

definition page_rows :: "PaginationParams \<Rightarrow> nat set" where
  "page_rows p = {unat (pagination_offset p) ..< unat (pagination_offset p) + unat (pagination_limit p)}"

lemma unat_mult_lt:
  fixes a b :: "32 word"
  assumes "unat a * unat b < 2 ^ 32"
  shows "unat (a * b) = unat a * unat b"
  using assms by (simp add: unat_word_ariths)

lemma pagination_offset_exact:
  assumes "1 \<le> page" and "unat page * unat pp < 2 ^ 32"
  shows "unat (pagination_offset \<lparr>pg_page = Some page, pg_per_page = Some pp\<rparr>) =
    (unat page - 1) * unat pp"
proof -
  have page: "unat (page - 1) = unat page - 1"
    using assms(1) by (simp add: unat_sub word_le_nat_alt)
  have "(unat page - 1) * unat pp \<le> unat page * unat pp" by (intro mult_le_mono1) simp
  then have "unat (page - 1) * unat pp < 2 ^ 32"
    using assms(2) unfolding page by (rule le_less_trans)
  then have "unat ((page - 1) * pp) = (unat page - 1) * unat pp"
    using unat_mult_lt page by simp
  then show ?thesis
    using assms(1) by (simp add: pagination_offset_def max_absorb1)
qed

lemma block_member_iff:
  fixes r q pp l :: nat
  assumes "l \<le> pp" and "0 < pp"
  shows "r \<in> {q * pp ..< q * pp + l} \<longleftrightarrow> r div pp = q \<and> r mod pp < l"
proof
  assume "r \<in> {q * pp ..< q * pp + l}"
  then obtain d where d: "r = q * pp + d" and "d < l"
    by (metis add_diff_inverse_nat atLeastLessThan_iff less_diff_conv2 linorder_not_less nat_add_left_cancel_less)
  with assms show "r div pp = q \<and> r mod pp < l" by auto
next
  assume "r div pp = q \<and> r mod pp < l"
  then show "r \<in> {q * pp ..< q * pp + l}"
    by (metis add_left_cancel add_strict_left_mono atLeastLessThan_iff div_mult_mod_eq le_add1 mult.commute)
qed

text \<open>
  Which rows a page returns, as long as the offset fits the 32-bit arithmetic. With a page
  size of at most 100 the pages tile the listing: row \<open>r\<close> is on page \<open>r div per_page + 1\<close> and on no
  other. With a larger page size the limit is clamped to 100 while the offset is not, so
  the rows whose position inside the page is 100 or more are on no page at all.
\<close>

theorem pagination_rows:
  assumes "1 \<le> page" and "0 < pp" and "unat page * unat pp < 2 ^ 32"
  shows "r \<in> page_rows \<lparr>pg_page = Some page, pg_per_page = Some pp\<rparr> \<longleftrightarrow>
    unat page = r div unat pp + 1 \<and> (unat pp \<le> 100 \<or> r mod unat pp < 100)"
proof -
  let ?p = "\<lparr>pg_page = Some page, pg_per_page = Some pp\<rparr>"
  have pp: "0 < unat pp" using assms(2) by (simp add: unat_gt_0 word_gt_0)
  have page: "1 \<le> unat page" using assms(1) by (simp add: word_le_nat_alt)
  have lim: "unat (pagination_limit ?p) = min (unat pp) 100"
    by (simp add: pagination_limit_def min_def word_le_nat_alt)
  have "r \<in> page_rows ?p \<longleftrightarrow>
      r \<in> {(unat page - 1) * unat pp ..< (unat page - 1) * unat pp + min (unat pp) 100}"
    unfolding page_rows_def lim pagination_offset_exact [OF assms(1,3)] ..
  also have "\<dots> \<longleftrightarrow> r div unat pp = unat page - 1 \<and> r mod unat pp < min (unat pp) 100"
    using pp by (intro block_member_iff) auto
  also have "\<dots> \<longleftrightarrow> unat page = r div unat pp + 1 \<and> (unat pp \<le> 100 \<or> r mod unat pp < 100)"
    using page pp by (auto simp: min_def)
  finally show ?thesis .
qed

theorem pagination_rows_witness:
  "150 \<notin> page_rows \<lparr>pg_page = Some 1, pg_per_page = Some 200\<rparr> \<and>
   150 \<notin> page_rows \<lparr>pg_page = Some 2, pg_per_page = Some 200\<rparr> \<and>
   150 \<in> page_rows \<lparr>pg_page = Some 2, pg_per_page = Some 100\<rparr>"
  using pagination_rows [of 1 200 150] pagination_rows [of 2 200 150] pagination_rows [of 2 100 150]
  by simp

end
