(* ===== verification/Models.thy ===== *)
theory Models
  imports Common_Types Scopes Plans Json
begin

text \<open>
  The database rows the gateway works on (\<^verbatim>\<open>crates/db/src/models\<close>) with their accessors, the
  credentials' validity and scope checks, and the API key format of \<^verbatim>\<open>crates/auth/src/api_key.rs\<close>.
  Times are seconds of the UTC clock; \<open>now\<close> is what \<^verbatim>\<open>Utc::now()\<close> returned. The SHA-256 hex
  digest of \<^verbatim>\<open>hash_key\<close> comes from third-party crates and is the parameter \<open>sha256_hex\<close>.
\<close>

section \<open>Servers, workspaces, tools\<close>

record McpServer =
  srv_id :: uuid
  srv_workspace_id :: uuid
  srv_name :: string
  srv_slug :: string
  srv_description :: "string option"
  srv_github_repo :: string
  srv_github_branch :: string
  srv_github_installation_id :: "64 word option"
  srv_runtime :: string
  srv_visibility :: string
  srv_access_mode :: string
  srv_transport :: string
  srv_status :: string
  srv_endpoint_url :: "string option"
  srv_rate_limit_per_minute :: "int option"
  srv_region :: string
  srv_root_directory :: string
  srv_mcp_path :: string
  srv_entry_command :: "string option"
  srv_build_command :: "string option"
  srv_auth_enabled :: bool
  srv_memory_mb :: "int option"
  srv_port :: "int option"
  srv_fly_app_name :: string
  srv_tool_list_filter_by_scope :: bool
  srv_tool_schema_slim :: bool
  srv_tool_search_mode :: bool
  srv_tool_code_mode :: bool
  srv_created_at :: timestamp
  srv_updated_at :: timestamp

definition McpServer_runtime :: "McpServer \<Rightarrow> Runtime" where
  "McpServer_runtime s = Runtime_of_str (srv_runtime s)"

definition McpServer_visibility :: "McpServer \<Rightarrow> Visibility" where
  "McpServer_visibility s = Visibility_of_str (srv_visibility s)"

definition McpServer_access_mode :: "McpServer \<Rightarrow> AccessMode" where
  "McpServer_access_mode s = AccessMode_of_str (srv_access_mode s)"

definition McpServer_status :: "McpServer \<Rightarrow> ServerStatus" where
  "McpServer_status s = ServerStatus_of_str (srv_status s)"

definition McpServer_transport :: "McpServer \<Rightarrow> Transport" where
  "McpServer_transport s = Transport_of_str (srv_transport s)"

definition McpServer_is_running :: "McpServer \<Rightarrow> bool" where
  "McpServer_is_running s \<longleftrightarrow> srv_status s = ''running''"

record Workspace =
  ws_id :: uuid
  ws_name :: string
  ws_slug :: string
  ws_plan :: string
  ws_owner_id :: uuid
  ws_stripe_customer_id :: "string option"
  ws_stripe_subscription_id :: "string option"
  ws_stripe_region_subscription_item_id :: "string option"
  ws_subscription_status :: "string option"
  ws_current_period_end :: "timestamp option"
  ws_auto_email_invoices :: "bool option"
  ws_created_at :: timestamp
  ws_updated_at :: timestamp

record Tool =
  tool_id :: uuid
  tool_server_id :: uuid
  tool_name :: string
  tool_description :: "string option"
  tool_input_schema :: "json option"
  tool_enabled :: bool
  tool_permission_level :: string
  tool_rate_limit_per_minute :: "int option"
  tool_created_at :: timestamp
  tool_updated_at :: timestamp


section \<open>API keys\<close>

record ApiKey =
  key_id :: uuid
  key_workspace_id :: uuid
  key_server_id :: "uuid option"
  key_name :: string
  key_key_prefix :: string
  key_key_hash :: string
  key_scopes :: json
  key_last_used_at :: "timestamp option"
  key_expires_at :: "timestamp option"
  key_created_at :: timestamp

definition ApiKey_scopes :: "ApiKey \<Rightarrow> string list" where
  "ApiKey_scopes k = unwrap_or (json_string_list (key_scopes k)) []"

definition ApiKey_has_scope :: "ApiKey \<Rightarrow> string \<Rightarrow> bool" where
  "ApiKey_has_scope k scope \<longleftrightarrow>
     scope \<in> set (ApiKey_scopes k) \<or> ''*'' \<in> set (ApiKey_scopes k)"

definition ApiKey_is_expired :: "timestamp \<Rightarrow> ApiKey \<Rightarrow> bool" where
  "ApiKey_is_expired now k =
     (case key_expires_at k of Some expires_at \<Rightarrow> expires_at < now | None \<Rightarrow> False)"

definition ApiKey_scope_checker :: "ApiKey \<Rightarrow> ScopeChecker" where
  "ApiKey_scope_checker k = ScopeChecker_new (ApiKey_scopes k)"

definition API_KEY_PREFIX :: string where
  "API_KEY_PREFIX = ''mcp_''"

definition ApiKey_is_valid_format :: "string \<Rightarrow> bool" where
  "ApiKey_is_valid_format key \<longleftrightarrow> str_starts_with key API_KEY_PREFIX \<and> 12 < length key"

definition ApiKey_verify :: "(string \<Rightarrow> string) \<Rightarrow> string \<Rightarrow> string \<Rightarrow> bool" where
  "ApiKey_verify sha256_hex key hash \<longleftrightarrow> sha256_hex key = hash"

record GeneratedApiKey =
  gen_full_key :: string
  gen_prefix :: string
  gen_hash :: string

text \<open>
  \<^verbatim>\<open>ApiKeyService::generate\<close>: \<open>random_part\<close> is the URL-safe Base64 text of the 32 random bytes, or
  \<open>None\<close> when the random generator fails. The text is ASCII, so the first 12 characters are the
  first 12 bytes.
\<close>

definition ApiKey_generate ::
  "(string \<Rightarrow> string) \<Rightarrow> string option \<Rightarrow> string + GeneratedApiKey" where
  "ApiKey_generate sha256_hex random_part =
     (case random_part of
        None \<Rightarrow> Inl ''Failed to generate random bytes for API key''
      | Some r \<Rightarrow>
          (let full_key = API_KEY_PREFIX @ r;
               prefix = take 12 full_key;
               hash = sha256_hex full_key
           in Inr \<lparr> gen_full_key = full_key, gen_prefix = prefix, gen_hash = hash \<rparr>))"


section \<open>OAuth access tokens\<close>

record OAuthAccessTokenWithClient =
  tok_id :: uuid
  tok_token_hash :: string
  tok_client_id :: uuid
  tok_user_id :: uuid
  tok_scopes :: json
  tok_expires_at :: timestamp
  tok_revoked_at :: "timestamp option"
  tok_last_used_at :: "timestamp option"
  tok_created_at :: timestamp
  tok_oauth_client_id :: string
  tok_workspace_id :: "uuid option"
  tok_server_id :: "uuid option"
  tok_client_is_active :: bool

definition OAuthToken_scopes :: "OAuthAccessTokenWithClient \<Rightarrow> string list" where
  "OAuthToken_scopes t = unwrap_or (json_string_list (tok_scopes t)) []"

definition OAuthToken_is_expired :: "timestamp \<Rightarrow> OAuthAccessTokenWithClient \<Rightarrow> bool" where
  "OAuthToken_is_expired now t \<longleftrightarrow> tok_expires_at t < now"

definition OAuthToken_is_revoked :: "OAuthAccessTokenWithClient \<Rightarrow> bool" where
  "OAuthToken_is_revoked t \<longleftrightarrow> tok_revoked_at t \<noteq> None"

definition OAuthToken_is_valid :: "timestamp \<Rightarrow> OAuthAccessTokenWithClient \<Rightarrow> bool" where
  "OAuthToken_is_valid now t \<longleftrightarrow>
     \<not> OAuthToken_is_expired now t \<and> \<not> OAuthToken_is_revoked t \<and> tok_client_is_active t"

definition OAuthToken_scope_checker :: "OAuthAccessTokenWithClient \<Rightarrow> ScopeChecker" where
  "OAuthToken_scope_checker t = ScopeChecker_new (OAuthToken_scopes t)"


section \<open>Facts\<close>

lemma McpServer_is_running_status:
  "McpServer_is_running s \<longleftrightarrow> McpServer_status s = Server_Running"
  by (auto simp: McpServer_is_running_def McpServer_status_def ServerStatus_of_str_def)

lemma ApiKey_generate_ok:
  assumes "ApiKey_generate h (Some r) = Inr g" and "8 < length r"
  shows "ApiKey_is_valid_format (gen_full_key g)"
    and "ApiKey_verify h (gen_full_key g) (gen_hash g)"
    and "length (gen_prefix g) = 12"
    and "\<exists>rest. gen_full_key g = gen_prefix g @ rest"
proof -
  have g: "g = \<lparr> gen_full_key = ''mcp_'' @ r, gen_prefix = take 12 (''mcp_'' @ r),
      gen_hash = h (''mcp_'' @ r) \<rparr>"
    using assms(1) by (simp add: ApiKey_generate_def API_KEY_PREFIX_def Let_def)
  show "ApiKey_is_valid_format (gen_full_key g)" "length (gen_prefix g) = 12"
    using assms(2) by (simp_all add: g ApiKey_is_valid_format_def str_starts_with_def API_KEY_PREFIX_def)
  show "ApiKey_verify h (gen_full_key g) (gen_hash g)" by (simp add: g ApiKey_verify_def)
  show "\<exists>rest. gen_full_key g = gen_prefix g @ rest"
    unfolding g by (metis GeneratedApiKey.select_convs(1,2) append_take_drop_id)
qed

end
