(* ===== verification/Proxy_Error.thy ===== *)
theory Proxy_Error
  imports Json Http
begin

text \<open>
  The gateway's error type and how it is rendered as a JSON-RPC error response
  (\<^verbatim>\<open>ProxyError\<close>, \<^verbatim>\<open>error_response_with_id\<close> and \<^verbatim>\<open>build_response\<close> of \<^verbatim>\<open>crates/proxy/src/main.rs\<close>).
  A response is its status, its headers and its body; a streamed body is the byte sequence the
  stream will yield.
\<close>

datatype ProxyError =
    Unauthorized string "string option"
  | Forbidden string
  | NotFound string
  | BadRequest string
  | RateLimitExceeded
  | QuotaExceeded string
  | PaymentRequired string
  | ServiceUnavailable string
  | Internal string

fun ProxyError_display :: "ProxyError \<Rightarrow> string" where
  "ProxyError_display (Unauthorized m _) = ''Unauthorized: '' @ m"
| "ProxyError_display (Forbidden m) = ''Forbidden: '' @ m"
| "ProxyError_display (NotFound m) = ''Not found: '' @ m"
| "ProxyError_display (BadRequest m) = ''Bad request: '' @ m"
| "ProxyError_display RateLimitExceeded = ''Rate limit exceeded''"
| "ProxyError_display (QuotaExceeded m) = ''Quota exceeded: '' @ m"
| "ProxyError_display (PaymentRequired m) = ''Payment required: '' @ m"
| "ProxyError_display (ServiceUnavailable m) = ''Service unavailable: '' @ m"
| "ProxyError_display (Internal m) = ''Internal error: '' @ m"

datatype body = Full bytes | Streamed "string + bytes"

record response =
  rsp_status :: nat
  rsp_headers :: headers
  rsp_body :: body

text \<open>\<^verbatim>\<open>(status, axum::Json(v)).into_response()\<close>.\<close>

definition json_response :: "codec \<Rightarrow> nat \<Rightarrow> json \<Rightarrow> response" where
  "json_response C status v =
     (case to_vec C v of
        Some b \<Rightarrow> \<lparr> rsp_status = status, rsp_headers = [(''content-type'', ''application/json'')],
                    rsp_body = Full b \<rparr>
      | None \<Rightarrow> \<lparr> rsp_status = 500, rsp_headers = [(''content-type'', ''text/plain; charset=utf-8'')],
                 rsp_body = Full (ser_error C v) \<rparr>)"

definition www_authenticate_value :: "string option \<Rightarrow> string" where
  "www_authenticate_value host =
     (let resource_metadata_url =
        (case host of
           Some h \<Rightarrow> ''https://'' @ h @ ''/.well-known/oauth-protected-resource''
         | None \<Rightarrow> ''/.well-known/oauth-protected-resource'')
      in ''Bearer resource_metadata='' @ [CHR 34] @ resource_metadata_url @ [CHR 34] @
         '', scope='' @ [CHR 34] @ ''*'' @ [CHR 34])"

text \<open>The first \<^verbatim>\<open>match\<close>: status, client-visible message, error type, \<^verbatim>\<open>WWW-Authenticate\<close>.\<close>

fun error_parts :: "ProxyError \<Rightarrow> nat \<times> string \<times> string \<times> string option" where
  "error_parts (Unauthorized m host) = (401, m, ''UNAUTHORIZED'', Some (www_authenticate_value host))"
| "error_parts (Forbidden m) = (403, m, ''FORBIDDEN'', None)"
| "error_parts (NotFound m) = (404, m, ''NOT_FOUND'', None)"
| "error_parts (BadRequest m) = (400, m, ''BAD_REQUEST'', None)"
| "error_parts RateLimitExceeded =
     (429, ''Rate limit exceeded. Please slow down.'', ''RATE_LIMIT_EXCEEDED'', None)"
| "error_parts (QuotaExceeded m) = (429, m, ''MONTHLY_QUOTA_EXCEEDED'', None)"
| "error_parts (PaymentRequired m) = (402, m, ''PAYMENT_REQUIRED'', None)"
| "error_parts (ServiceUnavailable m) =
     (503, ''Service temporarily unavailable'', ''SERVICE_UNAVAILABLE'', None)"
| "error_parts (Internal m) = (500, ''An internal error occurred'', ''INTERNAL_ERROR'', None)"

definition jsonrpc_code :: "nat \<Rightarrow> int" where
  "jsonrpc_code status =
     (if status = 400 then -32600
      else if status = 401 then -32001
      else if status = 403 then -32002
      else if status = 404 then -32601
      else if status = 429 then -32003
      else if status = 402 then -32004
      else if status = 503 then -32005
      else -32603)"

definition error_body :: "ProxyError \<Rightarrow> json option \<Rightarrow> json" where
  "error_body err rid =
     (case error_parts err of (status, message, error_code, _) \<Rightarrow>
       JObject
        [(''error'', JObject
           [(''code'', JNumber (NInt (jsonrpc_code status))),
            (''data'', JObject [(''status'', JNumber (NInt (int status))), (''type'', JString error_code)]),
            (''message'', JString message)]),
         (''id'', unwrap_or rid JNull),
         (''jsonrpc'', JString ''2.0'')])"

definition error_response_with_id :: "codec \<Rightarrow> ProxyError \<Rightarrow> json option \<Rightarrow> response" where
  "error_response_with_id C err rid =
     (case error_parts err of (status, _, _, www_authenticate) \<Rightarrow>
        (let r = json_response C status (error_body err rid) in
         (case www_authenticate of
            None \<Rightarrow> r
          | Some www_auth \<Rightarrow>
              r\<lparr> rsp_headers := hdr_insert (rsp_headers r) ''www-authenticate''
                   (unwrap_or (hdr_from_str www_auth) ''Bearer'') \<rparr>)))"

text \<open>
  \<^verbatim>\<open>build_response\<close>: the builder of the \<^verbatim>\<open>http\<close> crate refuses a status outside 100..999, a header
  name that is not a token and a header value that is not legal; its error text becomes an
  \<^verbatim>\<open>Internal\<close> error. Which names are tokens and the error text are the crate's.
\<close>

record http_ext =
  legal_name :: "string \<Rightarrow> bool"
  builder_error :: "nat \<Rightarrow> headers \<Rightarrow> string"

definition build_response ::
  "http_ext \<Rightarrow> nat \<Rightarrow> headers \<Rightarrow> bytes \<Rightarrow> ProxyError + response" where
  "build_response H status headers b =
     (if 100 \<le> status \<and> status \<le> 999 \<and>
         list_all (\<lambda>kv. legal_name H (fst kv) \<and> hdr_from_str (snd kv) \<noteq> None) headers
      then Inr \<lparr> rsp_status = status, rsp_headers = headers, rsp_body = Full b \<rparr>
      else Inl (Internal (builder_error H status headers)))"


section \<open>Facts\<close>

lemma error_body_plain:
  assumes "\<And>v. rid = Some v \<Longrightarrow> json_plain v \<and> json_depth v \<le> 126"
  shows "json_plain (error_body err rid)"
proof -
  obtain status message error_code w where parts: "error_parts err = (status, message, error_code, w)"
    by (cases "error_parts err") auto
  have "json_wf (unwrap_or rid JNull) \<and> json_depth (unwrap_or rid JNull) \<le> 126 \<and>
      float_free (unwrap_or rid JNull)"
    using assms by (cases rid) (auto simp: json_plain_def)
  then show ?thesis
    unfolding json_plain_def error_body_def parts
    by (auto simp: less_char_def)
qed

end
