(* ===== verification/Redis.thy ===== *)
theory Redis
  imports Http
begin

text \<open>
  The Redis server the gateway shares with its peers. It is an external service: its commands
  are a record of functions over a state type \<open>'s\<close>, an argument of every definition that calls
  it, and the locale \<open>redis_server\<close> states the documented behaviour of the commands the code uses,
  through an abstraction \<open>look\<close> that gives each live key its value and remaining time to live.
  Every command fails when the server is unreachable (\<open>r_up\<close> is false).
\<close>

text \<open>A stored value: one that reads as a 64-bit integer, or any other string.\<close>

datatype rval = RInt int | RStr string

text \<open>The stored form of a text, and what a reader gets: text that is a number is stored as one.\<close>

definition rval_of :: "string \<Rightarrow> rval" where
  "rval_of s = (case parse_signed 64 s of
     Some i \<Rightarrow> (if show_int i = s then RInt i else RStr s) | None \<Rightarrow> RStr s)"

fun rval_str :: "rval \<Rightarrow> string" where
  "rval_str (RInt i) = show_int i"
| "rval_str (RStr s) = s"

lemma rval_str_of [simp]: "rval_str (rval_of s) = s"
  by (simp add: rval_of_def split: option.splits)

record 's redis_ops =
  r_up :: "'s \<Rightarrow> bool"
  r_get :: "'s \<Rightarrow> string \<Rightarrow> rval option"
  r_exists :: "'s \<Rightarrow> string \<Rightarrow> bool"
  r_ttl :: "'s \<Rightarrow> string \<Rightarrow> int"
  r_set_ex :: "'s \<Rightarrow> string \<Rightarrow> rval \<Rightarrow> nat \<Rightarrow> 's"
  r_incr :: "'s \<Rightarrow> string \<Rightarrow> (int \<times> 's) option"
  r_expire :: "'s \<Rightarrow> string \<Rightarrow> nat \<Rightarrow> 's"
  r_del :: "'s \<Rightarrow> string \<Rightarrow> 's"

type_synonym keyspace = "string \<rightharpoonup> rval \<times> nat option"

text \<open>What a reader sees of a key after \<open>d\<close> seconds.\<close>

definition aged :: "nat \<Rightarrow> (rval \<times> nat option) option \<Rightarrow> (rval \<times> nat option) option" where
  "aged d e =
     (case e of
        Some (v, Some t) \<Rightarrow> (if d < t then Some (v, Some (t - d)) else None)
      | _ \<Rightarrow> e)"

lemma aged_simps [simp]:
  "aged d None = None"
  "aged d (Some (v, None)) = Some (v, None)"
  "d < t \<Longrightarrow> aged d (Some (v, Some t)) = Some (v, Some (t - d))"
  "t \<le> d \<Longrightarrow> aged d (Some (v, Some t)) = None"
  by (simp_all add: aged_def)

locale redis_server =
  fixes R :: "'s redis_ops"
    and look :: "'s \<Rightarrow> keyspace"
    and elapse :: "nat \<Rightarrow> 's \<Rightarrow> 's"
  assumes get_look: "r_get R s k = map_option fst (look s k)"
    and exists_look: "r_exists R s k \<longleftrightarrow> look s k \<noteq> None"
    and ttl_look: "r_ttl R s k = (case look s k of None \<Rightarrow> -2 | Some (_, None) \<Rightarrow> -1
                                  | Some (_, Some t) \<Rightarrow> int t)"
    and look_set_ex: "0 < t \<Longrightarrow> look (r_set_ex R s k v t) = (look s)(k \<mapsto> (v, Some t))"
    and look_del: "look (r_del R s k) = (look s)(k := None)"
    and look_expire: "0 < t \<Longrightarrow>
      look (r_expire R s k t) = (case look s k of None \<Rightarrow> look s
                                 | Some (v, _) \<Rightarrow> (look s)(k \<mapsto> (v, Some t)))"
    and incr_fresh: "look s k = None \<Longrightarrow>
      \<exists>s'. r_incr R s k = Some (1, s') \<and> look s' = (look s)(k \<mapsto> (RInt 1, None)) \<and> r_up R s' = r_up R s"
    and incr_int: "look s k = Some (RInt n, e) \<Longrightarrow> n < 2 ^ 63 - 1 \<Longrightarrow>
      \<exists>s'. r_incr R s k = Some (n + 1, s') \<and> look s' = (look s)(k \<mapsto> (RInt (n + 1), e)) \<and> r_up R s' = r_up R s"
    and incr_str: "look s k = Some (RStr x, e) \<Longrightarrow> r_incr R s k = None"
    and incr_overflow: "look s k = Some (RInt n, e) \<Longrightarrow> 2 ^ 63 - 1 \<le> n \<Longrightarrow> r_incr R s k = None"
    and look_elapse: "look (elapse d s) k = aged d (look s k)"
    and up_set_ex: "r_up R (r_set_ex R s k v t) = r_up R s"
    and up_del: "r_up R (r_del R s k) = r_up R s"
    and up_expire: "r_up R (r_expire R s k t) = r_up R s"
begin

lemmas look_simps = get_look exists_look ttl_look look_set_ex look_del look_expire look_elapse
  up_set_ex up_del up_expire

text \<open>Commands touch their own key only.\<close>

lemma incr_frame:
  assumes "r_incr R s k = Some (n, s')"
  shows "k' \<noteq> k \<Longrightarrow> look s' k' = look s k'" and "r_up R s' = r_up R s"
proof -
  have "(k' \<noteq> k \<longrightarrow> look s' k' = look s k') \<and> r_up R s' = r_up R s"
  proof (cases "look s k")
    case None
    then show ?thesis using incr_fresh [of s k] assms by auto
  next
    case (Some e)
    obtain v t where e: "e = (v, t)" by (cases e)
    show ?thesis
    proof (cases v)
      case (RInt i)
      then have look: "look s k = Some (RInt i, t)" using Some e by simp
      have "i < 2 ^ 63 - 1"
        using incr_overflow [OF look] assms by (cases "i < 2 ^ 63 - 1") auto
      then show ?thesis using incr_int [OF look] assms by auto
    next
      case (RStr x)
      then show ?thesis using incr_str [of s k x t] Some e assms by simp
    qed
  qed
  then show "k' \<noteq> k \<Longrightarrow> look s' k' = look s k'" and "r_up R s' = r_up R s" by auto
qed

lemma expire_frame: "0 < t \<Longrightarrow> k' \<noteq> k \<Longrightarrow> look (r_expire R s k t) k' = look s k'"
  by (auto simp: look_expire split: option.splits)

end

text \<open>
  A store with these laws, used where a concrete instance is evaluated: a reachability flag and
  the keyspace itself.
\<close>

type_synonym ref_store = "bool \<times> keyspace"

definition ref_incr :: "ref_store \<Rightarrow> string \<Rightarrow> (int \<times> ref_store) option" where
  "ref_incr s k =
     (case snd s k of
        None \<Rightarrow> Some (1, fst s, (snd s)(k \<mapsto> (RInt 1, None)))
      | Some (RInt n, t) \<Rightarrow>
          (if n < 2 ^ 63 - 1 then Some (n + 1, fst s, (snd s)(k \<mapsto> (RInt (n + 1), t))) else None)
      | Some (RStr _, _) \<Rightarrow> None)"

definition ref_redis :: "ref_store redis_ops" where
  "ref_redis = \<lparr>
     r_up = fst,
     r_get = (\<lambda>s k. map_option fst (snd s k)),
     r_exists = (\<lambda>s k. snd s k \<noteq> None),
     r_ttl = (\<lambda>s k. case snd s k of None \<Rightarrow> -2 | Some (_, None) \<Rightarrow> -1 | Some (_, Some t) \<Rightarrow> int t),
     r_set_ex = (\<lambda>s k v t. (fst s, (snd s)(k \<mapsto> (v, Some t)))),
     r_incr = ref_incr,
     r_expire = (\<lambda>s k t. (fst s, case snd s k of None \<Rightarrow> snd s
                                | Some (v, _) \<Rightarrow> (snd s)(k \<mapsto> (v, Some t)))),
     r_del = (\<lambda>s k. (fst s, (snd s)(k := None))) \<rparr>"

definition ref_elapse :: "nat \<Rightarrow> ref_store \<Rightarrow> ref_store" where
  "ref_elapse d s = (fst s, \<lambda>k. aged d (snd s k))"

interpretation ref_store: redis_server ref_redis snd ref_elapse
  by unfold_locales
    (auto simp: ref_redis_def ref_incr_def ref_elapse_def split: option.splits rval.splits)

end
