(* ===== verification/Redis_Cache.thy ===== *)
theory Redis_Cache
  imports Models Redis Http Proxy_Error
begin

text \<open>
  The gateway's Redis cache of credentials, servers, workspaces and code-execution tokens
  (\<^verbatim>\<open>crates/proxy/src/redis_cache.rs\<close>). The JSON form of a cached struct is generated by
  \<^verbatim>\<open>serde\<close>'s derive: a pair of functions, the parameter \<open>'a serde\<close>. Every operation is best-effort:
  a Redis error reads as a miss and drops a write.
\<close>

record 'a serde =
  ser :: "'a \<Rightarrow> string option"
  de :: "string \<Rightarrow> 'a option"

text \<open>The derive's contract: what was serialized deserializes to the same value.\<close>

locale serde_derive =
  fixes S :: "'a serde"
  assumes ser_total: "ser S x \<noteq> None"
    and de_ser: "ser S x = Some j \<Longrightarrow> de S j = Some x"

definition API_KEY_CACHE_TTL_SECS :: nat where "API_KEY_CACHE_TTL_SECS = 300"
definition SERVER_CACHE_TTL_SECS :: nat where "SERVER_CACHE_TTL_SECS = 30"
definition WORKSPACE_CACHE_TTL_SECS :: nat where "WORKSPACE_CACHE_TTL_SECS = 30"

lemmas cache_ttl_defs = API_KEY_CACHE_TTL_SECS_def SERVER_CACHE_TTL_SECS_def WORKSPACE_CACHE_TTL_SECS_def


section \<open>Cached data\<close>

record CachedApiKey =
  ck_id :: uuid
  ck_workspace_id :: uuid
  ck_server_id :: "uuid option"
  ck_name :: string
  ck_scopes :: json
  ck_expires_at :: "timestamp option"

definition CachedApiKey_from :: "ApiKey \<Rightarrow> CachedApiKey" where
  "CachedApiKey_from key = \<lparr>
     ck_id = key_id key, ck_workspace_id = key_workspace_id key, ck_server_id = key_server_id key,
     ck_name = key_name key, ck_scopes = key_scopes key, ck_expires_at = key_expires_at key \<rparr>"

definition to_api_key :: "timestamp \<Rightarrow> CachedApiKey \<Rightarrow> ApiKey" where
  "to_api_key now c = \<lparr>
     key_id = ck_id c, key_workspace_id = ck_workspace_id c, key_server_id = ck_server_id c,
     key_name = ck_name c, key_key_prefix = [], key_key_hash = [], key_scopes = ck_scopes c,
     key_last_used_at = None, key_expires_at = ck_expires_at c, key_created_at = now \<rparr>"

record CachedServer =
  cs_id :: uuid
  cs_workspace_id :: uuid
  cs_name :: string
  cs_slug :: string
  cs_endpoint_url :: "string option"
  cs_visibility :: string
  cs_status :: string
  cs_rate_limit_per_minute :: "int option"
  cs_mcp_path :: string
  cs_auth_enabled :: bool
  cs_tool_list_filter_by_scope :: bool
  cs_tool_schema_slim :: bool
  cs_tool_search_mode :: bool
  cs_tool_code_mode :: bool

definition CachedServer_from :: "McpServer \<Rightarrow> CachedServer" where
  "CachedServer_from s = \<lparr>
     cs_id = srv_id s, cs_workspace_id = srv_workspace_id s, cs_name = srv_name s,
     cs_slug = srv_slug s, cs_endpoint_url = srv_endpoint_url s,
     cs_visibility = srv_visibility s, cs_status = srv_status s,
     cs_rate_limit_per_minute = srv_rate_limit_per_minute s, cs_mcp_path = srv_mcp_path s,
     cs_auth_enabled = srv_auth_enabled s,
     cs_tool_list_filter_by_scope = srv_tool_list_filter_by_scope s,
     cs_tool_schema_slim = srv_tool_schema_slim s,
     cs_tool_search_mode = srv_tool_search_mode s,
     cs_tool_code_mode = srv_tool_code_mode s \<rparr>"

definition is_serveable :: "CachedServer \<Rightarrow> bool" where
  "is_serveable s \<longleftrightarrow> cs_status s = ''running''"

record CachedWorkspace =
  cw_id :: uuid
  cw_plan :: string
  cw_subscription_status :: "string option"
  cw_current_period_end :: "timestamp option"

definition CachedWorkspace_from :: "Workspace \<Rightarrow> CachedWorkspace" where
  "CachedWorkspace_from w = \<lparr>
     cw_id = ws_id w, cw_plan = ws_plan w,
     cw_subscription_status = ws_subscription_status w,
     cw_current_period_end = ws_current_period_end w \<rparr>"

record CodeExecContext =
  ce_server_id :: uuid
  ce_target_url :: string
  ce_scopes :: "string list"


section \<open>Keys\<close>

definition api_key_cache_key :: "string \<Rightarrow> string" where
  "api_key_cache_key key_hash = ''proxy:apikey:'' @ key_hash"

definition server_cache_key :: "string \<Rightarrow> string" where
  "server_cache_key slug = ''proxy:server:'' @ slug"

definition code_exec_key :: "string \<Rightarrow> string" where
  "code_exec_key token = ''proxy:codeexec:'' @ token"

definition workspace_cache_key :: "(uuid \<Rightarrow> string) \<Rightarrow> uuid \<Rightarrow> string" where
  "workspace_cache_key show_uuid workspace_id = ''proxy:workspace:'' @ show_uuid workspace_id"

lemmas cache_key_defs = api_key_cache_key_def server_cache_key_def code_exec_key_def
  workspace_cache_key_def


section \<open>Operations\<close>

text \<open>The shared body of the getters: \<open>GET\<close>, then \<open>from_str\<close>; any failure is a miss.\<close>

definition cache_get :: "'s redis_ops \<Rightarrow> 'a serde \<Rightarrow> 's \<Rightarrow> string \<Rightarrow> 'a option" where
  "cache_get R S s k =
     (if \<not> r_up R s then None
      else (case r_get R s k of
              Some (RStr j) \<Rightarrow> de S j
            | Some (RInt i) \<Rightarrow> de S (show_int i)
            | None \<Rightarrow> None))"

text \<open>The shared body of the setters: \<open>to_string\<close>, then \<open>SET .. EX ttl\<close>; failures are dropped.\<close>

definition cache_set :: "'s redis_ops \<Rightarrow> 'a serde \<Rightarrow> 's \<Rightarrow> string \<Rightarrow> 'a \<Rightarrow> nat \<Rightarrow> 's" where
  "cache_set R S s k x ttl =
     (case ser S x of
        None \<Rightarrow> s
      | Some j \<Rightarrow> (if r_up R s then r_set_ex R s k (RStr j) ttl else s))"

definition cache_del :: "'s redis_ops \<Rightarrow> 's \<Rightarrow> string \<Rightarrow> 's" where
  "cache_del R s k = (if r_up R s then r_del R s k else s)"

definition get_api_key :: "'s redis_ops \<Rightarrow> CachedApiKey serde \<Rightarrow> 's \<Rightarrow> string \<Rightarrow> CachedApiKey option" where
  "get_api_key R S s key_hash = cache_get R S s (api_key_cache_key key_hash)"

definition set_api_key :: "'s redis_ops \<Rightarrow> CachedApiKey serde \<Rightarrow> 's \<Rightarrow> string \<Rightarrow> ApiKey \<Rightarrow> 's" where
  "set_api_key R S s key_hash key =
     cache_set R S s (api_key_cache_key key_hash) (CachedApiKey_from key) API_KEY_CACHE_TTL_SECS"

definition invalidate_api_key :: "'s redis_ops \<Rightarrow> 's \<Rightarrow> string \<Rightarrow> 's" where
  "invalidate_api_key R s key_hash = cache_del R s (api_key_cache_key key_hash)"

definition get_server :: "'s redis_ops \<Rightarrow> CachedServer serde \<Rightarrow> 's \<Rightarrow> string \<Rightarrow> CachedServer option" where
  "get_server R S s slug = cache_get R S s (server_cache_key slug)"

definition set_server :: "'s redis_ops \<Rightarrow> CachedServer serde \<Rightarrow> 's \<Rightarrow> string \<Rightarrow> McpServer \<Rightarrow> 's" where
  "set_server R S s slug server =
     cache_set R S s (server_cache_key slug) (CachedServer_from server) SERVER_CACHE_TTL_SECS"

definition invalidate_server :: "'s redis_ops \<Rightarrow> 's \<Rightarrow> string \<Rightarrow> 's" where
  "invalidate_server R s slug = cache_del R s (server_cache_key slug)"

definition set_code_exec ::
  "'s redis_ops \<Rightarrow> CodeExecContext serde \<Rightarrow> 's \<Rightarrow> string \<Rightarrow> CodeExecContext \<Rightarrow> nat \<Rightarrow> 's" where
  "set_code_exec R S s token ctx ttl_secs = cache_set R S s (code_exec_key token) ctx ttl_secs"

definition get_code_exec ::
  "'s redis_ops \<Rightarrow> CodeExecContext serde \<Rightarrow> 's \<Rightarrow> string \<Rightarrow> CodeExecContext option" where
  "get_code_exec R S s token = cache_get R S s (code_exec_key token)"

definition get_workspace ::
  "'s redis_ops \<Rightarrow> CachedWorkspace serde \<Rightarrow> (uuid \<Rightarrow> string) \<Rightarrow> 's \<Rightarrow> uuid \<Rightarrow> CachedWorkspace option" where
  "get_workspace R S show_uuid s workspace_id =
     cache_get R S s (workspace_cache_key show_uuid workspace_id)"

definition set_workspace ::
  "'s redis_ops \<Rightarrow> CachedWorkspace serde \<Rightarrow> (uuid \<Rightarrow> string) \<Rightarrow> 's \<Rightarrow> Workspace \<Rightarrow> 's" where
  "set_workspace R S show_uuid s workspace =
     cache_set R S s (workspace_cache_key show_uuid (ws_id workspace))
       (CachedWorkspace_from workspace) WORKSPACE_CACHE_TTL_SECS"

definition invalidate_workspace :: "'s redis_ops \<Rightarrow> (uuid \<Rightarrow> string) \<Rightarrow> 's \<Rightarrow> uuid \<Rightarrow> 's" where
  "invalidate_workspace R show_uuid s workspace_id =
     cache_del R s (workspace_cache_key show_uuid workspace_id)"


section \<open>Correctness\<close>

text \<open>
  What survives the cache: the fields that authentication, authorization and expiry look at.
\<close>

lemma to_api_key_from [simp]:
  "key_id (to_api_key now (CachedApiKey_from k)) = key_id k"
  "key_workspace_id (to_api_key now (CachedApiKey_from k)) = key_workspace_id k"
  "key_server_id (to_api_key now (CachedApiKey_from k)) = key_server_id k"
  "ApiKey_scopes (to_api_key now (CachedApiKey_from k)) = ApiKey_scopes k"
  "ApiKey_is_expired t (to_api_key now (CachedApiKey_from k)) = ApiKey_is_expired t k"
  by (simp_all add: to_api_key_def CachedApiKey_from_def ApiKey_scopes_def ApiKey_is_expired_def)

lemma is_serveable_from [simp]: "is_serveable (CachedServer_from s) \<longleftrightarrow> McpServer_is_running s"
  by (simp add: is_serveable_def CachedServer_from_def McpServer_is_running_def)

context redis_server
begin

lemma look_cache_set:
  assumes "serde_derive S" and "r_up R s" and "0 < ttl"
  shows "\<exists>j. de S j = Some x \<and> look (cache_set R S s k x ttl) = (look s)(k \<mapsto> (RStr j, Some ttl))"
proof -
  obtain j where j: "ser S x = Some j" and de: "de S j = Some x"
    using serde_derive.ser_total [OF assms(1)] serde_derive.de_ser [OF assms(1)] by blast
  then show ?thesis using assms(2,3) by (auto simp: cache_set_def look_set_ex)
qed

lemma cache_get_look:
  "look s k = Some (RStr j, e) \<Longrightarrow> r_up R s \<Longrightarrow> cache_get R S s k = de S j"
  "look s k = None \<Longrightarrow> cache_get R S s k = None"
  by (simp_all add: cache_get_def get_look)

text \<open>A cached value is served unchanged until its time to live has passed, and then no more.\<close>

lemma cache_set_get:
  assumes "serde_derive S" and "r_up R s" and "0 < ttl"
    and "r_up R (elapse d (cache_set R S s k x ttl))"
  shows "cache_get R S (elapse d (cache_set R S s k x ttl)) k = (if d < ttl then Some x else None)"
proof -
  obtain j where "de S j = Some x"
    and "look (cache_set R S s k x ttl) = (look s)(k \<mapsto> (RStr j, Some ttl))"
    using look_cache_set [OF assms(1-3)] by blast
  then show ?thesis
    using assms(4) by (auto simp: cache_get_def get_look look_elapse)
qed

lemma cache_del_get: "r_up R s \<Longrightarrow> cache_get R S (cache_del R s k) k = None"
  by (simp add: cache_get_def cache_del_def get_look look_del)

lemma cache_set_other:
  "k' \<noteq> k \<Longrightarrow> 0 < ttl \<Longrightarrow> look (cache_set R S s k x ttl) k' = look s k'"
  by (auto simp: cache_set_def look_set_ex split: option.splits)

end

text \<open>
  The derived form of a code-execution context: an object with one field per struct field. (The
  identifier is rendered as a number here; \<^verbatim>\<open>uuid\<close>'s own text form is not needed.)
\<close>

definition ce_to_json :: "CodeExecContext \<Rightarrow> json" where
  "ce_to_json c = JObject
     [(''scopes'', JArray (map JString (ce_scopes c))),
      (''server_id'', JNumber (NInt (uint (ce_server_id c)))),
      (''target_url'', JString (ce_target_url c))]"

definition ce_of_json :: "json \<Rightarrow> CodeExecContext option" where
  "ce_of_json v =
     (case (Option.bind (json_get v ''scopes'') json_string_list, json_get v ''server_id'',
            Option.bind (json_get v ''target_url'') as_str) of
        (Some scopes, Some (JNumber (NInt i)), Some url) \<Rightarrow>
          Some \<lparr> ce_server_id = word_of_int i, ce_target_url = url, ce_scopes = scopes \<rparr>
      | _ \<Rightarrow> None)"

definition ce_serde :: "codec \<Rightarrow> CodeExecContext serde" where
  "ce_serde C = \<lparr> ser = (\<lambda>c. to_vec C (ce_to_json c)),
                  de = (\<lambda>j. Option.bind (from_slice C j) ce_of_json) \<rparr>"

lemma strings_of_map [simp]: "strings_of (map JString ss) = Some ss"
  by (induction ss) auto

lemma ce_of_to_json [simp]: "ce_of_json (ce_to_json c) = Some c"
  by (simp add: ce_of_json_def ce_to_json_def json_string_list_def)

lemma ce_to_json_plain: "json_plain (ce_to_json c)"
  by (auto simp: json_plain_def ce_to_json_def list_all_iff less_char_def foldr_max_le
      comp_def numeral_eq_Suc)

lemma ce_serde_derive:
  assumes "json_codec C"
  shows "serde_derive (ce_serde C)"
proof
  fix c j
  show "ser (ce_serde C) c \<noteq> None"
    using json_codec.to_vec_plain [OF assms ce_to_json_plain] by (simp add: ce_serde_def)
  assume "ser (ce_serde C) c = Some j"
  then have "from_slice C j = Some (ce_to_json c)"
    using json_codec.from_slice_to_vec [OF assms ce_to_json_plain] by (simp add: ce_serde_def)
  then show "de (ce_serde C) j = Some c" by (simp add: ce_serde_def)
qed

interpretation code_exec_form: serde_derive "ce_serde ref_codec"
  by (rule ce_serde_derive) (rule ref.json_codec_axioms)

end
