(* ===== verification/Rate_Limit.thy ===== *)
theory Rate_Limit
  imports Redis_Cache "HOL-Library.AList"
begin

text \<open>
  Rate limiting and brute-force protection (\<^verbatim>\<open>crates/proxy/src/rate_limit.rs\<close>): the process-local
  fallback limiter, the client address extraction, the API-key lockout, the per-minute limit and
  the monthly quota, with the Lua scripts that make the Redis steps atomic. The per-process
  state is the fallback table, the shared state is Redis; both are passed explicitly. Counters
  that would need \<open>2 ^ 64\<close> requests to overflow are naturals.
\<close>

section \<open>The process-local fallback limiter\<close>

type_synonym fallback = "(string \<times> nat \<times> nat) list"

definition fallback_window :: "nat \<Rightarrow> nat \<Rightarrow> nat" where
  "fallback_window now window_secs = (if window_secs = 0 then now else now div window_secs)"

definition fallback_allow :: "nat \<Rightarrow> string \<Rightarrow> nat \<Rightarrow> nat \<Rightarrow> fallback \<Rightarrow> bool \<times> fallback" where
  "fallback_allow now key limit window_secs m =
     (let window = fallback_window now window_secs;
          m1 = (if length m > 10000 then filter (\<lambda>e. fst (snd e) = window) m else m);
          entry = (case map_of m1 key of None \<Rightarrow> (window, 0) | Some e \<Rightarrow> e);
          entry1 = (if fst entry \<noteq> window then (window, 0) else entry);
          count = snd entry1 + 1
      in (count \<le> limit, AList.update key (fst entry1, count) m1))"


section \<open>The client address\<close>

type_synonym env = "string \<Rightarrow> string option"

definition env_true :: "env \<Rightarrow> string \<Rightarrow> bool" where
  "env_true env v = (case env v of Some x \<Rightarrow> x = ''true'' \<or> x = ''1'' | None \<Rightarrow> False)"

definition is_valid_ip :: "string \<Rightarrow> bool" where
  "is_valid_ip ip \<longleftrightarrow> ip \<noteq> [] \<and> (parses_ipv4 ip \<or> parses_ipv6 ip)"

text \<open>A header that names a valid address.\<close>

definition header_ip :: "headers \<Rightarrow> string \<Rightarrow> string option" where
  "header_ip h n = (case hdr_str h n of
     Some ip \<Rightarrow> (if is_valid_ip ip then Some ip else None) | None \<Rightarrow> None)"

definition trusted_hops :: "env \<Rightarrow> nat" where
  "trusted_hops env =
     (case Option.bind (env ''TRUSTED_PROXY_HOPS'') (parse_unsigned 64) of
        Some n \<Rightarrow> (if 1 \<le> n then n else 1)
      | None \<Rightarrow> 1)"

definition xff_entries :: "string \<Rightarrow> string list" where
  "xff_entries xff = filter (\<lambda>s. s \<noteq> []) (map ascii_trim (str_split (CHR '','') xff))"

definition xff_ip :: "nat \<Rightarrow> string \<Rightarrow> string option" where
  "xff_ip hops xff =
     (let ips = xff_entries xff in
      if ips = [] then None
      else (let idx = length ips - hops in
            if idx < length ips \<and> is_valid_ip (ips ! idx) then Some (ips ! idx) else None))"

definition extract_client_ip :: "env \<Rightarrow> headers \<Rightarrow> string \<Rightarrow> string" where
  "extract_client_ip env h peer =
     (if \<not> env_true env ''TRUST_PROXY_HEADERS'' then peer
      else
        unwrap_or
          (or_else (if env_true env ''PROXY_BEHIND_FLY'' then header_ip h ''fly-client-ip'' else None)
          (or_else (header_ip h ''cf-connecting-ip'')
          (or_else (header_ip h ''x-real-ip'')
                   (Option.bind (hdr_str h ''x-forwarded-for'') (xff_ip (trusted_hops env))))))
          peer)"


section \<open>Brute-force protection\<close>

definition API_KEY_BRUTE_FORCE_PREFIX :: string where
  "API_KEY_BRUTE_FORCE_PREFIX = ''bf:apikey:''"

record BruteForceConfig =
  max_attempts :: int
  lockout_secs :: nat
  attempt_window_secs :: nat

definition BruteForceConfig_default :: "env \<Rightarrow> BruteForceConfig" where
  "BruteForceConfig_default env = \<lparr>
     max_attempts =
       unwrap_or (Option.bind (env ''API_KEY_BRUTE_FORCE_MAX_ATTEMPTS'') (parse_signed 64)) 10,
     lockout_secs =
       unwrap_or (Option.bind (env ''API_KEY_BRUTE_FORCE_LOCKOUT_SECS'') (parse_unsigned 64)) 600,
     attempt_window_secs =
       unwrap_or (Option.bind (env ''API_KEY_BRUTE_FORCE_WINDOW_SECS'') (parse_unsigned 64)) 300 \<rparr>"

definition attempts_key :: "string \<Rightarrow> string" where
  "attempts_key ip = API_KEY_BRUTE_FORCE_PREFIX @ ''attempts:'' @ ip"

definition lockout_key :: "string \<Rightarrow> string" where
  "lockout_key ip = API_KEY_BRUTE_FORCE_PREFIX @ ''lockout:'' @ ip"

definition is_api_key_locked_out :: "'s redis_ops \<Rightarrow> 's \<Rightarrow> string \<Rightarrow> bool" where
  "is_api_key_locked_out R s ip = (if r_up R s then r_exists R s (lockout_key ip) else False)"

definition get_api_key_lockout_remaining :: "'s redis_ops \<Rightarrow> 's \<Rightarrow> string \<Rightarrow> int option" where
  "get_api_key_lockout_remaining R s ip =
     (if r_up R s then (let t = r_ttl R s (lockout_key ip) in if 0 < t then Some t else None)
      else None)"

text \<open>
  The script of \<^verbatim>\<open>record_api_key_failed_attempt\<close>. A command error (a non-integer counter) aborts
  it; the commands before the error keep their effect.
\<close>

definition failed_attempt_script ::
  "'s redis_ops \<Rightarrow> BruteForceConfig \<Rightarrow> string \<Rightarrow> string \<Rightarrow> 's \<Rightarrow> (int \<times> 's) option" where
  "failed_attempt_script R cfg k1 k2 s =
     (case r_incr R s k1 of
        None \<Rightarrow> None
      | Some (attempts, s1) \<Rightarrow>
          (let s2 = (if attempts = 1 then r_expire R s1 k1 (attempt_window_secs cfg) else s1);
               s3 = (if max_attempts cfg \<le> attempts
                     then r_del R (r_set_ex R s2 k2 (RInt 1) (lockout_secs cfg)) k1 else s2)
           in Some (attempts, s3)))"

definition record_api_key_failed_attempt ::
  "'s redis_ops \<Rightarrow> BruteForceConfig \<Rightarrow> 's \<Rightarrow> string \<Rightarrow> 's" where
  "record_api_key_failed_attempt R cfg s ip =
     (if r_up R s
      then (case failed_attempt_script R cfg (attempts_key ip) (lockout_key ip) s of
              Some (_, s') \<Rightarrow> s' | None \<Rightarrow> s)
      else s)"

definition clear_api_key_failed_attempts :: "'s redis_ops \<Rightarrow> 's \<Rightarrow> string \<Rightarrow> 's" where
  "clear_api_key_failed_attempts R s ip = (if r_up R s then r_del R s (attempts_key ip) else s)"


section \<open>The per-minute limit\<close>

definition DEFAULT_RATE_LIMIT :: int where "DEFAULT_RATE_LIMIT = 100"
definition WINDOW_SIZE_SECONDS :: nat where "WINDOW_SIZE_SECONDS = 60"

text \<open>\<^verbatim>\<open>RATE_LIMIT_SCRIPT\<close>.\<close>

definition rate_limit_script ::
  "'s redis_ops \<Rightarrow> string \<Rightarrow> int \<Rightarrow> nat \<Rightarrow> 's \<Rightarrow> (int \<times> 's) option" where
  "rate_limit_script R key limit ttl s =
     (case r_incr R s key of
        None \<Rightarrow> None
      | Some (current, s1) \<Rightarrow>
          (let s2 = (if current = 1 then r_expire R s1 key ttl else s1)
           in Some (if current > limit then -1 else current, s2)))"

definition rate_limit_key :: "(uuid \<Rightarrow> string) \<Rightarrow> uuid \<Rightarrow> uuid \<Rightarrow> nat \<Rightarrow> string" where
  "rate_limit_key show_uuid credential_id server_id minute_bucket =
     ''rate_limit:'' @ show_uuid credential_id @ '':'' @ show_uuid server_id @ '':'' @
     show_nat minute_bucket"

text \<open>
  \<^verbatim>\<open>rate_limit::check\<close>. The call fails when Redis is unreachable or the script raises an error;
  the fallback limiter decides then.
\<close>

definition rate_limit_check ::
  "'s redis_ops \<Rightarrow> (uuid \<Rightarrow> string) \<Rightarrow> nat \<Rightarrow> uuid \<Rightarrow> CachedServer \<Rightarrow> 's \<times> fallback \<Rightarrow>
   (ProxyError + unit) \<times> 's \<times> fallback" where
  "rate_limit_check R show_uuid now credential_id server st =
     (let minute_bucket = now div WINDOW_SIZE_SECONDS;
          key = rate_limit_key show_uuid credential_id (cs_id server) minute_bucket;
          limit = unwrap_or (cs_rate_limit_per_minute server) DEFAULT_RATE_LIMIT;
          ttl = WINDOW_SIZE_SECONDS + 5
      in case (if r_up R (fst st) then rate_limit_script R key limit ttl (fst st) else None) of
           Some (result, s') \<Rightarrow>
             (if result < 0 then Inl RateLimitExceeded else Inr (), s', snd st)
         | None \<Rightarrow>
             (let fb_key = ''rl:'' @ show_uuid credential_id @ '':'' @ show_uuid (cs_id server);
                  (ok, fb') = fallback_allow now fb_key (nat (max limit 1)) WINDOW_SIZE_SECONDS (snd st)
              in (if ok then Inr () else Inl RateLimitExceeded, fst st, fb')))"


section \<open>The monthly quota\<close>

text \<open>The UTC clock reading: the timestamp and its calendar date.\<close>

record utc =
  utc_secs :: nat
  utc_year :: nat
  utc_month :: nat
  utc_day :: nat

text \<open>\<^verbatim>\<open>MONTHLY_QUOTA_SCRIPT\<close>. \<open>tonumber\<close> of a non-numeric value is \<open>nil\<close>, and comparing it is an error.\<close>

definition monthly_quota_script ::
  "'s redis_ops \<Rightarrow> string \<Rightarrow> int \<Rightarrow> nat \<Rightarrow> 's \<Rightarrow> (int \<times> 's) option" where
  "monthly_quota_script R key limit ttl s =
     (case (case r_get R s key of None \<Rightarrow> Some 0 | Some (RInt n) \<Rightarrow> Some n | Some (RStr _) \<Rightarrow> None) of
        None \<Rightarrow> None
      | Some current \<Rightarrow>
          if current \<ge> limit then Some (-1, s)
          else (case r_incr R s key of
                  None \<Rightarrow> None
                | Some (newval, s1) \<Rightarrow>
                    Some (newval, if newval = 1 then r_expire R s1 key ttl else s1)))"

text \<open>
  \<^verbatim>\<open>load_workspace\<close>: the Redis cache, then the database. \<open>find_workspace\<close> is the answer of
  \<^verbatim>\<open>WorkspaceRepository::find_by_id\<close>: an error text, or the row if there is one.
\<close>

definition load_workspace ::
  "'s redis_ops \<Rightarrow> CachedWorkspace serde \<Rightarrow> (uuid \<Rightarrow> string) \<Rightarrow> (uuid \<Rightarrow> string + Workspace option) \<Rightarrow>
   's \<Rightarrow> uuid \<Rightarrow> (ProxyError + CachedWorkspace) \<times> 's" where
  "load_workspace R S show_uuid find_workspace s workspace_id =
     (case get_workspace R S show_uuid s workspace_id of
        Some cached \<Rightarrow> (Inr cached, s)
      | None \<Rightarrow>
          (case find_workspace workspace_id of
             Inl e \<Rightarrow> (Inl (Internal (''Database error: '' @ e)), s)
           | Inr None \<Rightarrow> (Inl (Internal ''Workspace not found''), s)
           | Inr (Some workspace) \<Rightarrow>
               (Inr (CachedWorkspace_from workspace), set_workspace R S show_uuid s workspace)))"

definition subscription_check :: "nat \<Rightarrow> CachedWorkspace \<Rightarrow> ProxyError + unit" where
  "subscription_check now w =
     (case cw_subscription_status w of
        None \<Rightarrow> Inr ()
      | Some status \<Rightarrow>
          if status = ''past_due'' \<or> status = ''unpaid'' then
            Inl (PaymentRequired
              ''Your subscription payment is past due. Please update your payment method.'')
          else if status = ''cancelled'' \<and> cw_plan w \<noteq> ''free'' then
            (case cw_current_period_end w of
               Some period_end \<Rightarrow>
                 (if int now > period_end then
                    Inl (PaymentRequired ''Your subscription has expired. Please renew to continue.'')
                  else Inr ())
             | None \<Rightarrow> Inr ())
          else Inr ())"

definition days_in_month :: "nat \<Rightarrow> nat \<Rightarrow> nat" where
  "days_in_month year month =
     (if month \<in> {1, 3, 5, 7, 8, 10, 12} then 31
      else if month \<in> {4, 6, 9, 11} then 30
      else if month = 2 then
        (if year mod 4 = 0 \<and> (year mod 100 \<noteq> 0 \<or> year mod 400 = 0) then 29 else 28)
      else 31)"

definition month_key :: "(uuid \<Rightarrow> string) \<Rightarrow> uuid \<Rightarrow> utc \<Rightarrow> string" where
  "month_key show_uuid workspace_id now =
     ''monthly_requests:'' @ show_uuid workspace_id @ '':'' @
     pad_zero 4 (show_nat (utc_year now)) @ ''-'' @ pad_zero 2 (show_nat (utc_month now))"

definition quota_ttl :: "utc \<Rightarrow> nat" where
  "quota_ttl now = (days_in_month (utc_year now) (utc_month now) - utc_day now + 5) * 24 * 60 * 60"

definition check_and_increment_monthly_quota ::
  "'s redis_ops \<Rightarrow> CachedWorkspace serde \<Rightarrow> (uuid \<Rightarrow> string) \<Rightarrow> (uuid \<Rightarrow> string + Workspace option) \<Rightarrow>
   utc \<Rightarrow> uuid \<Rightarrow> 's \<times> fallback \<Rightarrow> (ProxyError + unit) \<times> 's \<times> fallback" where
  "check_and_increment_monthly_quota R S show_uuid find_workspace now workspace_id st =
     (case load_workspace R S show_uuid find_workspace (fst st) workspace_id of
        (Inl e, s1) \<Rightarrow> (Inl e, s1, snd st)
      | (Inr workspace, s1) \<Rightarrow>
          (case subscription_check (utc_secs now) workspace of
             Inl e \<Rightarrow> (Inl e, s1, snd st)
           | Inr _ \<Rightarrow>
               (let limit = uint (max_requests_per_month (Plan_limits (Plan_of_str (cw_plan workspace))))
                in case (if r_up R s1
                         then monthly_quota_script R (month_key show_uuid workspace_id now) limit
                                (quota_ttl now) s1
                         else None) of
                     Some (v, s2) \<Rightarrow>
                       (if v < 0 then
                          Inl (QuotaExceeded (''Monthly request quota exceeded (limit '' @
                            show_int limit @ ''). Please upgrade your plan.''))
                        else Inr (), s2, snd st)
                   | None \<Rightarrow>
                       (let (ok, fb') = fallback_allow (utc_secs now) (''mq:'' @ show_uuid workspace_id)
                              (nat DEFAULT_RATE_LIMIT) WINDOW_SIZE_SECONDS (snd st)
                        in (if ok then Inr () else Inl RateLimitExceeded, s1, fb')))))"


section \<open>Correctness: the fallback limiter\<close>

record fb_call =
  fc_now :: nat
  fc_key :: string

text \<open>A sequence of calls with one limit and window length; the results in order.\<close>

fun fallback_run :: "nat \<Rightarrow> nat \<Rightarrow> fb_call list \<Rightarrow> fallback \<Rightarrow> bool list \<times> fallback" where
  "fallback_run limit ws [] m = ([], m)"
| "fallback_run limit ws (c # cs) m =
     (let (ok, m1) = fallback_allow (fc_now c) (fc_key c) limit ws m;
          (oks, m2) = fallback_run limit ws cs m1
      in (ok # oks, m2))"

text \<open>The count the table holds for a key in a window.\<close>

definition fb_count :: "fallback \<Rightarrow> string \<Rightarrow> nat \<Rightarrow> nat" where
  "fb_count m k w = (case map_of m k of Some (w', n) \<Rightarrow> (if w' = w then n else 0) | None \<Rightarrow> 0)"

lemma map_of_filter_window:
  "distinct (map fst m) \<Longrightarrow> map_of (filter (\<lambda>e. fst (snd e) = w) m) k =
     (case map_of m k of Some e \<Rightarrow> (if fst e = w then Some e else None) | None \<Rightarrow> None)"
  by (induction m) (auto split: option.splits dest: map_of_SomeD simp: rev_image_eqI)

text \<open>The table after the opportunistic clean-up, and the call in its terms.\<close>

definition fb_clean :: "nat \<Rightarrow> fallback \<Rightarrow> fallback" where
  "fb_clean w m = (if length m > 10000 then filter (\<lambda>e. fst (snd e) = w) m else m)"

lemma fallback_allow_eq:
  assumes "fallback_window now ws = w"
  shows "fallback_allow now key limit ws m =
    (fb_count (fb_clean w m) key w < limit,
     AList.update key (w, fb_count (fb_clean w m) key w + 1) (fb_clean w m))"
  using assms unfolding fallback_allow_def fb_clean_def
  by (auto simp: Let_def fb_count_def split: option.splits)

lemma fallback_allow_step:
  fixes m :: fallback
  assumes "distinct (map fst m)" and "fallback_window now ws = w"
  shows "fst (fallback_allow now key limit ws m) \<longleftrightarrow> fb_count m key w < limit"
    and "fb_count (snd (fallback_allow now key limit ws m)) k w =
      fb_count m k w + (if k = key then 1 else 0)"
    and "distinct (map fst (snd (fallback_allow now key limit ws m)))"
proof -
  note allow = fallback_allow_eq [OF assms(2)]
  have d1: "distinct (map fst (fb_clean w m))"
    using assms(1) by (auto simp: fb_clean_def distinct_map_filter)
  have same: "fb_count (fb_clean w m) k w = fb_count m k w" for k
    using map_of_filter_window [OF assms(1), of w k]
    by (auto simp: fb_clean_def fb_count_def split: option.splits)
  show "fst (fallback_allow now key limit ws m) \<longleftrightarrow> fb_count m key w < limit"
    by (simp add: allow same)
  show "fb_count (snd (fallback_allow now key limit ws m)) k w =
      fb_count m k w + (if k = key then 1 else 0)"
    using same by (auto simp: allow fb_count_def update_conv')
  show "distinct (map fst (snd (fallback_allow now key limit ws m)))"
    by (simp add: allow distinct_update d1)
qed

lemma fallback_allow_windows:
  fixes m :: fallback
  assumes "\<forall>e \<in> set m. fst (snd e) \<le> fallback_window now ws"
  shows "\<forall>e \<in> set (snd (fallback_allow now key limit ws m)). fst (snd e) \<le> fallback_window now ws"
proof -
  let ?w = "fallback_window now ws"
  have "set (AList.update key (?w, n) m') \<subseteq> insert (key, ?w, n) (set m')" for m' :: fallback and n
    by (induction m') auto
  moreover have "set (fb_clean ?w m) \<subseteq> set m" by (auto simp: fb_clean_def)
  ultimately show ?thesis
    unfolding fallback_allow_eq [OF refl] using assms by fastforce
qed

definition fc_in :: "nat \<Rightarrow> string \<Rightarrow> nat \<Rightarrow> fb_call \<Rightarrow> bool" where
  "fc_in ws k w c \<longleftrightarrow> fc_key c = k \<and> fallback_window (fc_now c) ws = w"

lemma fb_count_future:
  "\<forall>e \<in> set m. fst (snd e) < w \<Longrightarrow> fb_count m k w = 0"
  by (force simp: fb_count_def split: option.splits dest: map_of_SomeD)

lemma fallback_window_mono: "a \<le> b \<Longrightarrow> fallback_window a ws \<le> fallback_window b ws"
  by (simp add: fallback_window_def div_le_mono)

lemma fallback_run_counts:
  assumes "sorted (map fc_now cs)" and "distinct (map fst m)"
    and "\<forall>c \<in> set cs. \<forall>e \<in> set m. fst (snd e) \<le> fallback_window (fc_now c) ws"
  shows "length (filter (\<lambda>(c, ok). fc_in ws k w c \<and> ok) (zip cs (fst (fallback_run limit ws cs m)))) =
    min (limit - fb_count m k w) (length (filter (fc_in ws k w) cs))"
  using assms
proof (induction cs arbitrary: m)
  case (Cons c cs)
  let ?v = "fallback_window (fc_now c) ws"
  let ?r = "fallback_allow (fc_now c) (fc_key c) limit ws m"
  let ?m = "snd ?r"
  note step = fallback_allow_step [OF Cons.prems(2), of "fc_now c" ws ?v "fc_key c" limit]
  have later: "?v \<le> fallback_window (fc_now d) ws" if "d \<in> set cs" for d
    using Cons.prems(1) that by (auto intro: fallback_window_mono)
  have "\<forall>e \<in> set ?m. fst (snd e) \<le> ?v"
    using Cons.prems(3) by (intro fallback_allow_windows) auto
  then have IH: "length (filter (\<lambda>(c, ok). fc_in ws k w c \<and> ok) (zip cs (fst (fallback_run limit ws cs ?m)))) =
    min (limit - fb_count ?m k w) (length (filter (fc_in ws k w) cs))"
    using Cons.prems(1) step(3) later by (intro Cons.IH) (auto intro: order_trans)
  have split: "fst (fallback_run limit ws (c # cs) m) = fst ?r # fst (fallback_run limit ws cs ?m)"
    by (simp add: Let_def split: prod.splits)
  consider "?v = w" | "?v < w" | "w < ?v" by linarith
  then show ?case
  proof cases
    case 1
    then have "fc_in ws k w c \<longleftrightarrow> fc_key c = k" by (simp add: fc_in_def)
    with 1 show ?thesis unfolding split using IH step(1) step(2) [of k] by auto
  next
    case 2
    then have "fb_count m k w = 0" "fb_count ?m k w = 0" "\<not> fc_in ws k w c"
      using Cons.prems(3) \<open>\<forall>e \<in> set ?m. fst (snd e) \<le> ?v\<close>
      by (auto intro!: fb_count_future simp: fc_in_def dest: bspec intro: le_less_trans)
    then show ?thesis unfolding split using IH by simp
  next
    case 3
    then have "\<not> fc_in ws k w c" and "filter (fc_in ws k w) cs = []"
      using later by (fastforce simp: fc_in_def filter_empty_conv)+
    then show ?thesis unfolding split using IH by simp
  qed
qed simp

text \<open>
  During a Redis outage the fallback limiter lets through, for each key and each time
  window, exactly the first \<open>limit\<close> calls of any sequence of calls (of any keys) made in clock
  order; the clean-up of the table never resets a counter of the current window.
\<close>

theorem fallback_limit_exact:
  assumes "sorted (map fc_now cs)"
  shows "length (filter (\<lambda>(c, ok). fc_in ws k w c \<and> ok) (zip cs (fst (fallback_run limit ws cs [])))) =
    min limit (length (filter (fc_in ws k w) cs))"
  using fallback_run_counts [OF assms, of "[]" ws k w limit] by (simp add: fb_count_def)


theorem fallback_limit_exact_witness:
  "let calls = [\<lparr>fc_now = 60, fc_key = ''a''\<rparr>, \<lparr>fc_now = 61, fc_key = ''b''\<rparr>,
                \<lparr>fc_now = 62, fc_key = ''a''\<rparr>, \<lparr>fc_now = 63, fc_key = ''a''\<rparr>] in
   length (filter (\<lambda>(c, ok). fc_in 60 ''a'' 1 c \<and> ok) (zip calls (fst (fallback_run 2 60 calls [])))) = 2"
proof -
  let ?calls = "[\<lparr>fc_now = 60, fc_key = ''a''\<rparr>, \<lparr>fc_now = 61, fc_key = ''b''\<rparr>,
    \<lparr>fc_now = 62, fc_key = ''a''\<rparr>, \<lparr>fc_now = 63, fc_key = ''a''\<rparr>]"
  have "sorted (map fc_now ?calls)" by simp
  moreover have "length (filter (fc_in 60 ''a'' 1) ?calls) = 3"
    by (simp add: fc_in_def fallback_window_def)
  ultimately show ?thesis using fallback_limit_exact [of ?calls 60 "''a''" 1 2] by simp
qed


section \<open>Correctness: the per-minute limit\<close>

context uuid_display
begin

lemma rate_limit_key_inject:
  "rate_limit_key show_uuid c s b = rate_limit_key show_uuid c' s' b' \<longleftrightarrow> c = c' \<and> s = s' \<and> b = b'"
proof
  assume "rate_limit_key show_uuid c s b = rate_limit_key show_uuid c' s' b'"
  then have "show_uuid c @ CHR '':'' # (show_uuid s @ CHR '':'' # show_nat b) =
      show_uuid c' @ CHR '':'' # (show_uuid s' @ CHR '':'' # show_nat b')"
    by (simp add: rate_limit_key_def)
  note 1 = append_sep_inject [OF show_uuid_no_colon show_uuid_no_colon this]
  note 2 = append_sep_inject [OF show_uuid_no_colon show_uuid_no_colon conjunct2 [OF 1]]
  from 1 2 show "c = c' \<and> s = s' \<and> b = b'" using show_uuid_inject by simp
qed simp

end

record rl_call =
  rc_now :: nat
  rc_cred :: uuid
  rc_srv :: CachedServer

text \<open>
  A sequence of checks made by the gateway's processes against one Redis: \<open>t\<close> is the time of the
  previous call, and Redis ages between calls.
\<close>

fun check_run ::
  "'s redis_ops \<Rightarrow> (nat \<Rightarrow> 's \<Rightarrow> 's) \<Rightarrow> (uuid \<Rightarrow> string) \<Rightarrow> nat \<Rightarrow> rl_call list \<Rightarrow> 's \<times> fallback \<Rightarrow>
   (ProxyError + unit) list" where
  "check_run R elapse show_uuid t [] st = []"
| "check_run R elapse show_uuid t (c # cs) st =
     (let (r, st') = rate_limit_check R show_uuid (rc_now c) (rc_cred c) (rc_srv c)
                       (elapse (rc_now c - t) (fst st), snd st)
      in r # check_run R elapse show_uuid (rc_now c) cs st')"

definition rc_in :: "uuid \<Rightarrow> uuid \<Rightarrow> nat \<Rightarrow> rl_call \<Rightarrow> bool" where
  "rc_in cred srv b c \<longleftrightarrow> rc_cred c = cred \<and> cs_id (rc_srv c) = srv \<and> rc_now c div 60 = b"

definition rc_limit :: "rl_call \<Rightarrow> int" where
  "rc_limit c = unwrap_or (cs_rate_limit_per_minute (rc_srv c)) DEFAULT_RATE_LIMIT"

context redis_server
begin

text \<open>The counter a script leaves behind, from the counter it found.\<close>

definition counter_is :: "'s \<Rightarrow> string \<Rightarrow> nat \<Rightarrow> nat \<Rightarrow> bool" where
  "counter_is s k n bound \<longleftrightarrow>
     (if n = 0 then look s k = None
      else \<exists>ttl. look s k = Some (RInt (int n), Some ttl) \<and> bound < ttl)"

lemma rate_limit_script_step:
  assumes "counter_is s k n 0" and "int n < 2 ^ 63 - 1" and "0 < ttl"
  shows "\<exists>s'. rate_limit_script R k limit ttl s =
      Some (if int n + 1 > limit then -1 else int n + 1, s') \<and>
    look s' k = Some (RInt (int n + 1), if n = 0 then Some ttl else snd (the (look s k))) \<and>
    (\<forall>k'. k' \<noteq> k \<longrightarrow> look s' k' = look s k') \<and> r_up R s' = r_up R s"
proof (cases "n = 0")
  case True
  then obtain s1 where s1: "r_incr R s k = Some (1, s1)" "look s1 = (look s)(k \<mapsto> (RInt 1, None))"
      "r_up R s1 = r_up R s"
    using assms(1) incr_fresh [of s k] by (auto simp: counter_is_def)
  show ?thesis
    using True s1 assms(3) by (auto simp: rate_limit_script_def look_expire up_expire)
next
  case False
  then obtain t where t: "look s k = Some (RInt (int n), Some t)"
    using assms(1) by (auto simp: counter_is_def)
  obtain s1 where s1: "r_incr R s k = Some (int n + 1, s1)"
      "look s1 = (look s)(k \<mapsto> (RInt (int n + 1), Some t))" "r_up R s1 = r_up R s"
    using incr_int [OF t assms(2)] by auto
  show ?thesis
    using False s1 t by (auto simp: rate_limit_script_def)
qed

lemma rate_limit_script_frame:
  assumes "rate_limit_script R k limit ttl s = Some (r, s')" and "0 < ttl" and "k' \<noteq> k"
  shows "look s' k' = look s k' \<and> r_up R s' = r_up R s"
  using assms incr_frame(1) [of s k _ _ k'] incr_frame(2) [of s k]
  by (auto simp: rate_limit_script_def expire_frame up_expire Let_def split: option.splits if_splits)

lemma rate_limit_check_frame:
  assumes "rate_limit_check R show_uuid now cred srv st = (r, st')"
    and "k \<noteq> rate_limit_key show_uuid cred (cs_id srv) (now div 60)"
  shows "look (fst st') k = look (fst st) k \<and> r_up R (fst st') = r_up R (fst st)"
  using assms rate_limit_script_frame [of _ _ _ "fst st" _ _ k]
  by (fastforce simp: rate_limit_check_def WINDOW_SIZE_SECONDS_def Let_def
      split: option.splits prod.splits if_splits)

lemma rate_limit_check_step:
  assumes "k = rate_limit_key show_uuid (rc_cred c) (cs_id (rc_srv c)) (rc_now c div 60)"
    and "r_up R (fst st)" and "counter_is (fst st) k n b" and "int n < 2 ^ 63 - 1" and "b < 65"
  shows "\<exists>st'. rate_limit_check R show_uuid (rc_now c) (rc_cred c) (rc_srv c) st =
      ((if int n < rc_limit c then Inr () else Inl RateLimitExceeded), st') \<and>
    counter_is (fst st') k (Suc n) b \<and> r_up R (fst st')"
proof -
  have c0: "counter_is (fst st) k n 0" using assms(3) by (auto simp: counter_is_def)
  obtain s' where s': "rate_limit_script R k (rc_limit c) 65 (fst st) =
      Some (if int n + 1 > rc_limit c then -1 else int n + 1, s')"
    "look s' k = Some (RInt (int n + 1), if n = 0 then Some 65 else snd (the (look (fst st) k)))"
    "r_up R s' = r_up R (fst st)"
    using rate_limit_script_step [OF c0 assms(4), of 65 "rc_limit c"] by auto
  have "counter_is s' k (Suc n) b"
    using s'(2) assms(3,5) by (auto simp: counter_is_def add.commute split: if_splits)
  then show ?thesis
    using s' assms(1,2)
    by (auto simp: rate_limit_check_def WINDOW_SIZE_SECONDS_def Let_def rc_limit_def)
qed

lemma counter_is_elapse:
  "counter_is s k n b \<Longrightarrow> d \<le> b \<Longrightarrow> counter_is (elapse d s) k n (b - d)"
  by (auto simp: counter_is_def look_elapse)

end


text \<open>The gateway's view: a Redis that stays reachable, and identifiers with a faithful text form.\<close>

locale limiter = redis_server R look elapse + uuid_display show_uuid
  for R :: "'s redis_ops" and look :: "'s \<Rightarrow> keyspace" and elapse :: "nat \<Rightarrow> 's \<Rightarrow> 's"
    and show_uuid :: "uuid \<Rightarrow> string" +
  assumes up_elapse: "r_up R (elapse d s) = r_up R s"
begin

lemma zip_filter_none:
  "\<forall>c \<in> set cs. \<not> P c \<Longrightarrow> filter (\<lambda>(c, r). P c \<and> Q r) (zip cs rs) = []"
  by (auto simp: filter_empty_conv dest: set_zip_leftD)

lemma check_run_counts:
  assumes "sorted (map rc_now cs)" and "\<forall>c \<in> set cs. t \<le> rc_now c" and "r_up R (fst st)"
    and "\<forall>c \<in> set cs. rc_in cred srv b c \<longrightarrow> rc_limit c = L"
    and "int (n + length cs) < 2 ^ 63 - 1"
    and "counter_is (fst st) (rate_limit_key show_uuid cred srv b) n (60 * b + 59 - t)"
  shows "length (filter (\<lambda>(c, r). rc_in cred srv b c \<and> r = Inr ())
      (zip cs (check_run R elapse show_uuid t cs st))) =
    min (nat L - n) (length (filter (rc_in cred srv b) cs))"
  using assms
proof (induction cs arbitrary: t n st)
  case (Cons c cs)
  let ?k = "rate_limit_key show_uuid cred srv b"
  let ?s = "elapse (rc_now c - t) (fst st)"
  obtain r st' where chk:
    "rate_limit_check R show_uuid (rc_now c) (rc_cred c) (rc_srv c) (?s, snd st) = (r, st')"
    by (rule prod.exhaust)
  have run: "check_run R elapse show_uuid t (c # cs) st = r # check_run R elapse show_uuid (rc_now c) cs st'"
    using chk by simp
  have le: "t \<le> rc_now c" and le_cs: "\<forall>d \<in> set cs. rc_now c \<le> rc_now d" using Cons.prems(1,2) by auto
  have up: "r_up R ?s" using Cons.prems(3) by (simp add: up_elapse)
  show ?case
  proof (cases "rc_now c \<le> 60 * b + 59")
    case False
    then have "\<forall>d \<in> set (c # cs). \<not> rc_in cred srv b d"
      using le_cs by (auto simp: rc_in_def)
    then show ?thesis
      using zip_filter_none [of "c # cs" "rc_in cred srv b" "\<lambda>r. r = Inr ()"]
      by (simp add: filter_empty_conv)
  next
    case True
    then have inv: "counter_is ?s ?k n (60 * b + 59 - rc_now c)"
      using counter_is_elapse [OF Cons.prems(6), of "rc_now c - t"] le by (simp add: algebra_simps)
    show ?thesis
    proof (cases "rc_in cred srv b c")
      case in_c: True
      have "60 * b + 59 - rc_now c < 65" using in_c by (auto simp: rc_in_def)
      then have step: "r = (if int n < L then Inr () else Inl RateLimitExceeded)"
          "counter_is (fst st') ?k (Suc n) (60 * b + 59 - rc_now c)" "r_up R (fst st')"
        using rate_limit_check_step [of ?k show_uuid c "(?s, snd st)" n "60 * b + 59 - rc_now c"]
          in_c up inv chk Cons.prems(4,5) by (auto simp: rc_in_def)
      have "length (filter (\<lambda>(c, r). rc_in cred srv b c \<and> r = Inr ())
          (zip cs (check_run R elapse show_uuid (rc_now c) cs st'))) =
        min (nat L - Suc n) (length (filter (rc_in cred srv b) cs))"
        using Cons.prems le_cs step by (intro Cons.IH) auto
      then show ?thesis using in_c step(1) unfolding run by auto
    next
      case out: False
      then have "?k \<noteq> rate_limit_key show_uuid (rc_cred c) (cs_id (rc_srv c)) (rc_now c div 60)"
        by (auto simp: rc_in_def rate_limit_key_inject)
      then have frame: "look (fst st') ?k = look ?s ?k" "r_up R (fst st')"
        using rate_limit_check_frame [OF chk] up by auto
      then have "counter_is (fst st') ?k n (60 * b + 59 - rc_now c)"
        using inv by (simp add: counter_is_def)
      then have "length (filter (\<lambda>(c, r). rc_in cred srv b c \<and> r = Inr ())
          (zip cs (check_run R elapse show_uuid (rc_now c) cs st'))) =
        min (nat L - n) (length (filter (rc_in cred srv b) cs))"
        using Cons.prems le_cs frame by (intro Cons.IH) auto
      then show ?thesis using out unfolding run by simp
    qed
  qed
qed simp

end

interpretation ref_limiter: limiter ref_redis snd ref_elapse ref_uuid
  by unfold_locales (simp add: ref_redis_def ref_elapse_def)


definition sample_server :: "uuid \<Rightarrow> int option \<Rightarrow> CachedServer" where
  "sample_server u limit = \<lparr>
     cs_id = u, cs_workspace_id = 7, cs_name = ''demo'', cs_slug = ''demo'',
     cs_endpoint_url = Some ''https://mcp-demo.fly.dev'', cs_visibility = ''private'',
     cs_status = ''running'', cs_rate_limit_per_minute = limit, cs_mcp_path = ''/mcp'',
     cs_auth_enabled = True, cs_tool_list_filter_by_scope = True, cs_tool_schema_slim = False,
     cs_tool_search_mode = False, cs_tool_code_mode = False \<rparr>"



section \<open>Correctness: the client address\<close>

lemma str_split_append_sep: "str_split c (x @ c # y) = str_split c x @ str_split c y"
proof (induction x)
  case (Cons a x)
  then show ?case by (cases "str_split c x") (auto split: list.splits)
qed simp

lemma xff_entries_append: "xff_entries (x @ CHR '','' # y) = xff_entries x @ xff_entries y"
  by (simp add: xff_entries_def str_split_append_sep)

lemma trusted_hops_pos: "1 \<le> trusted_hops env"
  by (simp add: trusted_hops_def split: option.splits)

lemma xff_ip_suffix:
  assumes "1 \<le> hops" and "hops \<le> length (xff_entries y)"
  shows "xff_ip hops (x @ CHR '','' # y) = xff_ip hops y"
proof -
  let ?a = "xff_entries x" and ?b = "xff_entries y"
  have idx: "length ?a + length ?b - hops = length ?a + (length ?b - hops)"
    and last: "length ?b - hops < length ?b" "length ?a + (length ?b - hops) < length ?a + length ?b"
    using assms by linarith+
  have "?b \<noteq> []" using last(1) by auto
  then show ?thesis
    using last by (simp add: xff_ip_def xff_entries_append idx nth_append_length_plus Let_def)
qed

text \<open>
  C39: What a client can do to the address its requests are accounted to. Without \<^verbatim>\<open>TRUST_PROXY_HEADERS\<close> no header
  matters. With it, when the trusted proxies append to the client's own \<^verbatim>\<open>X-Forwarded-For\<close> at least as many entries as there
  are trusted hops, entries that the client wrote in visible ASCII never change the address; one byte that is not makes the whole
  header be ignored, and the address is then the one of a request without it. But when a proxy adds a line of its own instead,
  the client's line, which comes first, is the only one that is read.
\<close>

theorem client_ip_influence:
  assumes "trusted_hops env \<le> length (xff_entries y)"
  shows "extract_client_ip env (hdr_insert h ''x-forwarded-for'' (x @ '','' @ y)) peer =
      extract_client_ip env
        (if list_all visible_ascii x then hdr_insert h ''x-forwarded-for'' y else hdr_remove ''x-forwarded-for'' h) peer \<and>
    extract_client_ip env ((''x-forwarded-for'', x) # h) peer = extract_client_ip env (hdr_insert h ''x-forwarded-for'' x) peer \<and>
    (\<not> env_true env ''TRUST_PROXY_HEADERS'' \<longrightarrow> extract_client_ip env h' peer = peer)"
proof -
  have "visible_ascii (CHR '','')" by (simp add: visible_ascii_def)
  then have appended: "Option.bind (hdr_to_str (x @ '','' @ y)) (xff_ip (trusted_hops env)) =
      (if list_all visible_ascii x then Option.bind (hdr_to_str y) (xff_ip (trusted_hops env)) else None)"
    using xff_ip_suffix [OF trusted_hops_pos assms, of x] by (simp add: hdr_to_str_def)
  have removed: "hdr_get (hdr_remove m h) n = (if n = m then None else hdr_get h n)" for m n
    by (induction h) (auto simp: hdr_get_def hdr_remove_def)
  have first: "hdr_get ((''x-forwarded-for'', x) # h) n = hdr_get (hdr_insert h ''x-forwarded-for'' x) n" for n
    by (simp add: hdr_get_def [of "_ # _"]) (simp add: hdr_get_def)
  show ?thesis
    using appended by (auto simp: extract_client_ip_def header_ip_def hdr_str_def removed first)
qed

theorem client_ip_influence_witness:
  "let env = (\<lambda>v. if v = ''TRUST_PROXY_HEADERS'' then Some ''1'' else None) in
   extract_client_ip env (hdr_insert [] ''x-forwarded-for'' (''6.6.6.6'' @ '','' @ '' 203.0.113.9'')) ''10.0.0.1''
     = ''203.0.113.9'' \<and>
   extract_client_ip env (hdr_insert [] ''x-forwarded-for'' ([CHR 0xFF] @ '','' @ '' 203.0.113.9'')) ''10.0.0.1'' = ''10.0.0.1''"
proof -
  let ?env = "\<lambda>v. if v = ''TRUST_PROXY_HEADERS'' then Some ''1'' else None"
  have y: "trusted_hops ?env \<le> length (xff_entries '' 203.0.113.9'')" by code_simp
  have "list_all visible_ascii ''6.6.6.6''" "\<not> list_all visible_ascii [CHR 0xFF]"
    "extract_client_ip ?env (hdr_insert [] ''x-forwarded-for'' '' 203.0.113.9'') ''10.0.0.1'' = ''203.0.113.9''"
    "extract_client_ip ?env (hdr_remove ''x-forwarded-for'' []) ''10.0.0.1'' = ''10.0.0.1''"
    by code_simp+
  then show ?thesis
    using client_ip_influence [OF y, of "[]" "''6.6.6.6''" "''10.0.0.1''"] client_ip_influence [OF y, of "[]" "[CHR 0xFF]" "''10.0.0.1''"]
    unfolding Let_def by presburger
qed


section \<open>Correctness: brute-force protection\<close>

text \<open>A series of failed attempts from one address; each waits \<open>d\<close> seconds first.\<close>

fun fail_run ::
  "'s redis_ops \<Rightarrow> (nat \<Rightarrow> 's \<Rightarrow> 's) \<Rightarrow> BruteForceConfig \<Rightarrow> string \<Rightarrow> nat list \<Rightarrow> 's \<Rightarrow> 's" where
  "fail_run R elapse cfg ip [] s = s"
| "fail_run R elapse cfg ip (d # ds) s =
     fail_run R elapse cfg ip ds (record_api_key_failed_attempt R cfg (elapse d s) ip)"

lemma attempts_lockout_neq [simp]: "attempts_key ip \<noteq> lockout_key ip'" "lockout_key ip' \<noteq> attempts_key ip"
  by (simp_all add: attempts_key_def lockout_key_def)

context limiter
begin

lemma failed_attempt_step:
  assumes "counter_is s (attempts_key ip) n b" and "r_up R s" and "look s (lockout_key ip) = None"
    and "int n < max_attempts cfg" and "max_attempts cfg < 2 ^ 63" and "0 < lockout_secs cfg"
    and "b < attempt_window_secs cfg"
  defines "s' \<equiv> record_api_key_failed_attempt R cfg s ip"
  shows "r_up R s'"
    and "int n + 1 < max_attempts cfg \<Longrightarrow>
      counter_is s' (attempts_key ip) (Suc n) b \<and> look s' (lockout_key ip) = None"
    and "int n + 1 = max_attempts cfg \<Longrightarrow>
      look s' (lockout_key ip) = Some (RInt 1, Some (lockout_secs cfg))"
proof -
  let ?k = "attempts_key ip"
  have "0 < attempt_window_secs cfg" using assms(7) by simp
  obtain s1 where incr: "r_incr R s ?k = Some (int n + 1, s1)"
    and look1: "look s1 ?k = Some (RInt (int n + 1), if n = 0 then None else snd (the (look s ?k)))"
    and other: "look s1 (lockout_key ip) = look s (lockout_key ip)" and up1: "r_up R s1 = r_up R s"
  proof (cases "n = 0")
    case True
    then show ?thesis using that assms(1) incr_fresh [of s ?k] by (auto simp: counter_is_def)
  next
    case False
    then obtain t where "look s ?k = Some (RInt (int n), Some t)"
      using assms(1) by (auto simp: counter_is_def)
    moreover have "int n < 2 ^ 63 - 1" using assms(4,5) by simp
    ultimately show ?thesis using that False incr_int [of s ?k "int n" "Some t"] by auto
  qed
  define s2 where "s2 = (if int n + 1 = 1 then r_expire R s1 ?k (attempt_window_secs cfg) else s1)"
  have s2: "counter_is s2 ?k (Suc n) b" "look s2 (lockout_key ip) = None" "r_up R s2"
    using look1 other up1 assms(1-3,7) \<open>0 < attempt_window_secs cfg\<close>
    by (auto simp: s2_def counter_is_def look_expire up_expire add.commute split: if_splits)
  have s': "s' = (if max_attempts cfg \<le> int n + 1
      then r_del R (r_set_ex R s2 (lockout_key ip) (RInt 1) (lockout_secs cfg)) ?k else s2)"
    using assms(2) incr by (simp add: s'_def record_api_key_failed_attempt_def
        failed_attempt_script_def s2_def Let_def)
  show "r_up R s'" using s2(3) by (simp add: s' up_del up_set_ex)
  show "counter_is s' ?k (Suc n) b \<and> look s' (lockout_key ip) = None" if "int n + 1 < max_attempts cfg"
    using that s2 by (simp add: s')
  show "look s' (lockout_key ip) = Some (RInt 1, Some (lockout_secs cfg))" if "int n + 1 = max_attempts cfg"
    using that assms(6) by (simp add: s' look_del look_set_ex)
qed

lemma fail_run_lockout:
  assumes "counter_is s (attempts_key ip) n (sum_list ds)" and "r_up R s"
    and "look s (lockout_key ip) = None" and "int n < max_attempts cfg"
    and "max_attempts cfg < 2 ^ 63" and "0 < lockout_secs cfg"
    and "sum_list ds < attempt_window_secs cfg" and "int (n + length ds) \<le> max_attempts cfg"
  shows "r_up R (fail_run R elapse cfg ip ds s) \<and>
    look (fail_run R elapse cfg ip ds s) (lockout_key ip) =
      (if int (n + length ds) = max_attempts cfg then Some (RInt 1, Some (lockout_secs cfg)) else None)"
  using assms
proof (induction ds arbitrary: s n)
  case (Cons d ds)
  let ?s = "elapse d s"
  let ?s' = "record_api_key_failed_attempt R cfg ?s ip"
  have inv: "counter_is ?s (attempts_key ip) n (sum_list ds)"
    using counter_is_elapse [OF Cons.prems(1), of d] by simp
  have up: "r_up R ?s" and lock: "look ?s (lockout_key ip) = None"
    using Cons.prems(2,3) by (simp_all add: up_elapse look_elapse)
  have "sum_list ds < attempt_window_secs cfg" using Cons.prems(7) by simp
  note step = failed_attempt_step [OF inv up lock Cons.prems(4-6) this]
  show ?case
  proof (cases "int n + 1 = max_attempts cfg")
    case True
    then have "length ds = 0" using Cons.prems(8) by (simp del: length_0_conv)
    then have "ds = []" by simp
    with True step show ?thesis by simp
  next
    case False
    then have "int n + 1 < max_attempts cfg" using Cons.prems(4) by simp
    then show ?thesis
      using Cons.IH [of ?s' "Suc n"] step Cons.prems(5-8) by simp
  qed
qed simp

end

text \<open>
  An address is locked out exactly when it has made the configured number of failed attempts
  within the attempt window, no sooner, and the lockout lasts exactly the configured time.
\<close>

theorem lockout_exact:
  assumes "limiter R look elapse show_uuid" and "r_up R s"
    and "look s (attempts_key ip) = None" and "look s (lockout_key ip) = None"
    and "1 \<le> max_attempts cfg" and "max_attempts cfg < 2 ^ 63" and "0 < lockout_secs cfg"
    and "sum_list ds < attempt_window_secs cfg" and "int (length ds) \<le> max_attempts cfg"
  shows "is_api_key_locked_out R (elapse d (fail_run R elapse cfg ip ds s)) ip \<longleftrightarrow>
    int (length ds) = max_attempts cfg \<and> d < lockout_secs cfg"
proof -
  have rs: "redis_server R look elapse" using assms(1) by (simp add: limiter_def)
  have up: "r_up R (elapse d s) = r_up R s" for d s
    using assms(1) by (simp add: limiter_def limiter_axioms_def)
  have "redis_server.counter_is look s (attempts_key ip) 0 (sum_list ds)"
    using assms(3) by (simp add: redis_server.counter_is_def [OF rs])
  note run = limiter.fail_run_lockout [OF assms(1) this assms(2,4) _ assms(6-8)]
  have "r_exists R (elapse d t) k \<longleftrightarrow> aged d (look t k) \<noteq> None" for t k
    by (simp add: redis_server.exists_look [OF rs] redis_server.look_elapse [OF rs])
  moreover have "aged d (Some (v, Some t)) \<noteq> None \<longleftrightarrow> d < t" for v t
    by (simp add: aged_def)
  ultimately show ?thesis
    using run assms(5,9) by (simp add: is_api_key_locked_out_def up)
qed

theorem lockout_exact_witness:
  "let cfg = \<lparr>max_attempts = 3, lockout_secs = 600, attempt_window_secs = 300\<rparr>;
       s = fail_run ref_redis ref_elapse cfg ''198.51.100.7'' [0, 5, 9] (True, Map.empty)
   in is_api_key_locked_out ref_redis (ref_elapse 599 s) ''198.51.100.7'' \<and>
      \<not> is_api_key_locked_out ref_redis (ref_elapse 600 s) ''198.51.100.7''"
proof -
  let ?cfg = "\<lparr>max_attempts = 3, lockout_secs = 600, attempt_window_secs = 300\<rparr>"
  have "is_api_key_locked_out ref_redis
      (ref_elapse d (fail_run ref_redis ref_elapse ?cfg ''198.51.100.7'' [0, 5, 9] (True, Map.empty)))
      ''198.51.100.7'' \<longleftrightarrow> int (length [0::nat, 5, 9]) = max_attempts ?cfg \<and> d < lockout_secs ?cfg" for d
    by (rule lockout_exact [OF ref_limiter.limiter_axioms]) (simp_all add: ref_redis_def)
  then show ?thesis by (simp add: Let_def)
qed


section \<open>Correctness: the subscription and the monthly quota\<close>

lemma subscription_check_accepts:
  "subscription_check now w = Inr () \<longleftrightarrow>
    cw_subscription_status w \<notin> {Some ''past_due'', Some ''unpaid''} \<and>
    (cw_subscription_status w = Some ''cancelled'' \<and> cw_plan w \<noteq> ''free'' \<longrightarrow>
       (\<forall>e. cw_current_period_end w = Some e \<longrightarrow> int now \<le> e))"
  by (auto simp: subscription_check_def split: option.splits)

text \<open>The spelling the payment provider uses and the billing webhook stores is never blocked.\<close>

lemma canceled_subscription_passes:
  "cw_subscription_status w = Some ''canceled'' \<Longrightarrow> subscription_check now w = Inr ()"
  by (simp add: subscription_check_accepts)

text \<open>The quota of the plan named in the workspace row.\<close>

definition quota_limit :: "CachedWorkspace \<Rightarrow> nat" where
  "quota_limit w = unat (max_requests_per_month (Plan_limits (Plan_of_str (cw_plan w))))"

lemma quota_limit_bound: "quota_limit w \<le> 1000000000"
  by (cases "Plan_of_str (cw_plan w)")
    (simp_all add: quota_limit_def PlanLimits_default_def)

lemma quota_ttl_pos: "0 < quota_ttl now"
  by (simp add: quota_ttl_def)

context redis_server
begin

text \<open>A monthly counter: absent, or \<open>n\<close> with the time to live it was given.\<close>

definition month_counter :: "'s \<Rightarrow> string \<Rightarrow> nat \<Rightarrow> nat \<Rightarrow> bool" where
  "month_counter s k n t \<longleftrightarrow> look s k = (if n = 0 then None else Some (RInt (int n), Some t))"

lemma quota_script_reject:
  assumes "month_counter s k n t" and "limit \<le> n"
  shows "monthly_quota_script R k (int limit) ttl s = Some (-1, s)"
  using assms by (auto simp: monthly_quota_script_def month_counter_def get_look split: if_splits)

lemma quota_script_accept:
  assumes "month_counter s k n t" and "n < limit" and "limit < 2 ^ 63" and "0 < ttl"
  shows "\<exists>s'. monthly_quota_script R k (int limit) ttl s = Some (int n + 1, s') \<and>
    look s' = (look s)(k \<mapsto> (RInt (int n + 1), Some (if n = 0 then ttl else t)))"
proof (cases "n = 0")
  case True
  then have "look s k = None" using assms(1) by (simp add: month_counter_def)
  moreover obtain s' where "r_incr R s k = Some (1, s')" "look s' = (look s)(k \<mapsto> (RInt 1, None))"
    using incr_fresh [OF calculation] by blast
  ultimately show ?thesis using True assms(2,4)
    by (auto simp: monthly_quota_script_def get_look look_expire)
next
  case False
  then have look: "look s k = Some (RInt (int n), Some t)" using assms(1) by (simp add: month_counter_def)
  moreover have "int n < 2 ^ 63 - 1" using assms(2,3) by simp
  ultimately obtain s' where "r_incr R s k = Some (int n + 1, s')"
      "look s' = (look s)(k \<mapsto> (RInt (int n + 1), Some t))"
    using incr_int by blast
  then show ?thesis using False look assms(2) by (auto simp: monthly_quota_script_def get_look)
qed

end

text \<open>
  Once the subscription is in order, a request passes the monthly quota exactly when the
  workspace has used less than its plan's limit this month; it then counts once and touches no
  other key, and a refused request counts not at all. The counter gets its expiry with the first
  request of the month and keeps it.
\<close>

theorem monthly_quota_exact:
  assumes "redis_server R look elapse" and "load_workspace R S show_uuid find_workspace s wid = (Inr w, s1)"
    and "r_up R s1" and "subscription_check (utc_secs now) w = Inr ()"
    and "look s1 (month_key show_uuid wid now) = (if n = 0 then None else Some (RInt (int n), Some t))"
  shows "\<exists>r s2. check_and_increment_monthly_quota R S show_uuid find_workspace now wid (s, fb) = (r, s2, fb) \<and>
    (if n < quota_limit w
     then r = Inr () \<and> look s2 = (look s1)(month_key show_uuid wid now \<mapsto>
            (RInt (int n + 1), Some (if n = 0 then quota_ttl now else t)))
     else s2 = s1 \<and> (\<exists>msg. r = Inl (QuotaExceeded msg)))"
proof -
  let ?k = "month_key show_uuid wid now"
  have limit: "uint (max_requests_per_month (Plan_limits (Plan_of_str (cw_plan w)))) = int (quota_limit w)"
    by (simp add: quota_limit_def)
  have c: "redis_server.month_counter look s1 ?k n t"
    using assms(5) by (simp add: redis_server.month_counter_def [OF assms(1)])
  have bound: "quota_limit w < 2 ^ 63" using quota_limit_bound [of w] by simp
  have run: "check_and_increment_monthly_quota R S show_uuid find_workspace now wid (s, fb) =
      (if v < 0 then Inl (QuotaExceeded (''Monthly request quota exceeded (limit '' @
         show_int (int (quota_limit w)) @ ''). Please upgrade your plan.'')) else Inr (), s2, fb)"
    if "monthly_quota_script R ?k (int (quota_limit w)) (quota_ttl now) s1 = Some (v, s2)" for v s2
    using that assms(2-4) by (simp add: check_and_increment_monthly_quota_def limit)
  show ?thesis
  proof (cases "n < quota_limit w")
    case True
    then obtain s2 where script: "monthly_quota_script R ?k (int (quota_limit w)) (quota_ttl now) s1 = Some (int n + 1, s2)"
      and look: "look s2 = (look s1)(?k \<mapsto> (RInt (int n + 1), Some (if n = 0 then quota_ttl now else t)))"
      using redis_server.quota_script_accept [OF assms(1) c True bound quota_ttl_pos [of now]] by blast
    show ?thesis using True look run [OF script] by simp
  next
    case False
    then have "quota_limit w \<le> n" by simp
    note script = redis_server.quota_script_reject [OF assms(1) c this, of "quota_ttl now"]
    show ?thesis using False run [OF script] by simp
  qed
qed

text \<open>A workspace on the free plan, as it is read from a cold cache.\<close>

definition sample_workspace :: Workspace where
  "sample_workspace = \<lparr> ws_id = 5, ws_name = ''w'', ws_slug = ''w'', ws_plan = ''free'', ws_owner_id = 1,
     ws_stripe_customer_id = None, ws_stripe_subscription_id = None,
     ws_stripe_region_subscription_item_id = None, ws_subscription_status = None,
     ws_current_period_end = None, ws_auto_email_invoices = None, ws_created_at = 0, ws_updated_at = 0 \<rparr>"

theorem monthly_quota_exact_witness:
  "let wid = 5; now = \<lparr>utc_secs = 1000, utc_year = 2025, utc_month = 2, utc_day = 28\<rparr>;
       k = month_key ref_uuid wid now;
       run = (\<lambda>n. fst (check_and_increment_monthly_quota ref_redis \<lparr>ser = (\<lambda>_. None), de = (\<lambda>_. None)\<rparr>
         ref_uuid (\<lambda>_. Inr (Some sample_workspace)) now wid (((True, [k \<mapsto> (RInt n, Some 9)])), [])))
   in run 9999 = Inr () \<and> run 10000 \<noteq> Inr ()"
proof -
  let ?now = "\<lparr>utc_secs = 1000, utc_year = 2025, utc_month = 2, utc_day = 28\<rparr>"
  let ?k = "month_key ref_uuid 5 ?now" and ?S = "\<lparr>ser = (\<lambda>_. None), de = (\<lambda>_. None)\<rparr> :: CachedWorkspace serde"
  let ?w = "CachedWorkspace_from sample_workspace"
  have load: "load_workspace ref_redis ?S ref_uuid (\<lambda>_. Inr (Some sample_workspace)) s 5 = (Inr ?w, s)" for s
    by (simp add: load_workspace_def get_workspace_def set_workspace_def cache_get_def cache_set_def
        split: option.splits rval.splits)
  have w: "subscription_check 1000 ?w = Inr ()" "quota_limit ?w = 10000"
    by (simp_all add: subscription_check_accepts quota_limit_def CachedWorkspace_from_def
        sample_workspace_def Plan_of_str_def PlanLimits_default_def)
  note at = monthly_quota_exact [OF ref_store.redis_server_axioms load, of "(True, [?k \<mapsto> (RInt (int m), Some 9)])"
      ?now m 9 "[]" for m]
  have "fst (check_and_increment_monthly_quota ref_redis ?S ref_uuid (\<lambda>_. Inr (Some sample_workspace)) ?now 5
      (((True, [?k \<mapsto> (RInt (int m), Some 9)])), [])) = Inr () \<longleftrightarrow> m < 10000" if "m \<noteq> 0" for m
    using at [of m] that w by (auto simp: ref_redis_def split: if_splits)
  from this [of 9999] this [of 10000] show ?thesis by (simp add: Let_def)
qed

end
