(* ===== verification/Request_Cache.thy ===== *)
theory Request_Cache
  imports Http "HOL-Library.AList"
begin

text \<open>
  Request coalescing and response caching (\<^verbatim>\<open>crates/proxy/src/cache.rs\<close>). The state is the vector
  of shards, each with its LRU cache and its in-flight table, and the broadcast channels the
  in-flight entries own. Every critical section of the source is one definition, and the
  functions that contain an \<^verbatim>\<open>await\<close> between two sections are sequences of them, so that the step
  function \<open>exec\<close> can interleave the sections of any number of requests, cancellations included.
  The crate \<^verbatim>\<open>lru\<close> and the standard hasher's digest are parameters.
\<close>

section \<open>Data\<close>

type_synonym cache_id = "64 word"

record CacheEntry =
  en_response_body :: bytes
  en_status :: "16 word"
  en_headers :: "(string \<times> string) list"
  en_created_at :: nat

record CachedResponse =
  crs_body :: bytes
  crs_status :: "16 word"
  crs_headers :: "(string \<times> string) list"

definition response_of :: "CacheEntry \<Rightarrow> CachedResponse" where
  "response_of e = \<lparr> crs_body = en_response_body e, crs_status = en_status e, crs_headers = en_headers e \<rparr>"

text \<open>The operations of \<^verbatim>\<open>LruCache\<close> the code calls.\<close>

record 'c lru_ops =
  lru_new :: "nat \<Rightarrow> 'c"
  lru_get :: "'c \<Rightarrow> cache_id \<Rightarrow> CacheEntry option \<times> 'c"
  lru_put :: "'c \<Rightarrow> cache_id \<Rightarrow> CacheEntry \<Rightarrow> 'c"
  lru_pop :: "'c \<Rightarrow> cache_id \<Rightarrow> 'c"
  lru_iter :: "'c \<Rightarrow> (cache_id \<times> CacheEntry) list"
  lru_len :: "'c \<Rightarrow> nat"

text \<open>Its documented contract, through the finite map it stores.\<close>

locale lru_cache =
  fixes L :: "'c lru_ops"
    and held :: "'c \<Rightarrow> cache_id \<rightharpoonup> CacheEntry"
  assumes held_new: "held (lru_new L n) = Map.empty"
    and get_held: "fst (lru_get L c k) = held c k"
    and held_get: "held (snd (lru_get L c k)) = held c"
    and held_put: "held (lru_put L c k e) k = Some e"
    and held_put_other: "k' \<noteq> k \<Longrightarrow> held (lru_put L c k e) k' = Some e' \<Longrightarrow> held c k' = Some e'"
    and held_pop: "held (lru_pop L c k) = (held c)(k := None)"
    and iter_held: "set (lru_iter L c) = {(k, e). held c k = Some e}"
    and len_held: "lru_len L c = card (dom (held c))"

text \<open>
  A broadcast channel of capacity one: open, holding the value that was sent, or closed because
  its only sender was dropped before a send.
\<close>

datatype channel = Open | Sent CacheEntry | Closed

text \<open>\<^verbatim>\<open>CacheShard\<close>; the in-flight table holds each request's sender, by its channel's number.\<close>

record 'c CacheShard =
  sh_cache :: 'c
  sh_in_flight :: "(cache_id \<times> nat) list"

record 'c RequestCache =
  rq_shards :: "'c CacheShard list"
  rq_ttl :: nat
  rq_max_response_size :: nat

record RequestHandle =
  hd_shard :: nat
  hd_key :: cache_id
  hd_completed :: bool

datatype CoalesceResult = Cached CachedResponse | Coalesced CachedResponse | Execute RequestHandle

record CacheStats =
  st_cached_entries :: nat
  st_in_flight_requests :: nat
  st_num_shards :: nat

section \<open>Operations\<close>

definition NUM_SHARDS :: nat where "NUM_SHARDS = 32"

definition max_cacheable_response_size :: "(string \<Rightarrow> string option) \<Rightarrow> nat" where
  "max_cacheable_response_size env =
     unwrap_or (Option.bind (env ''PROXY_CACHE_MAX_RESPONSE_SIZE'') (parse_unsigned 64)) (1024 * 1024)"

definition CacheShard_new :: "'c lru_ops \<Rightarrow> nat \<Rightarrow> 'c CacheShard" where
  "CacheShard_new L capacity_per_shard = \<lparr>
     sh_cache = lru_new L (if capacity_per_shard = 0 then 1 else capacity_per_shard),
     sh_in_flight = [] \<rparr>"

definition RequestCache_new ::
  "'c lru_ops \<Rightarrow> (string \<Rightarrow> string option) \<Rightarrow> nat \<Rightarrow> nat \<Rightarrow> 'c RequestCache" where
  "RequestCache_new L env ttl_secs max_entries = \<lparr>
     rq_shards = map (\<lambda>_. CacheShard_new L (max (max_entries div NUM_SHARDS) 1)) [0..<NUM_SHARDS],
     rq_ttl = ttl_secs,
     rq_max_response_size = max_cacheable_response_size env \<rparr>"

text \<open>
  What \<^verbatim>\<open>cache_key\<close> feeds the hasher: a \<^verbatim>\<open>str\<close> writes its bytes and the byte \<open>0xFF\<close>, a byte slice
  writes its length as eight little-endian bytes and then its bytes.
\<close>

fun le_bytes :: "nat \<Rightarrow> nat \<Rightarrow> bytes" where
  "le_bytes 0 n = []"
| "le_bytes (Suc w) n = char_of (n mod 256) # le_bytes w (n div 256)"

definition hash_slice :: "bytes \<Rightarrow> bytes" where
  "hash_slice b = le_bytes 8 (length b) @ b"

definition hash_input :: "string \<Rightarrow> bytes \<Rightarrow> bytes \<Rightarrow> bytes" where
  "hash_input endpoint identity body =
     endpoint @ [CHR 0xFF] @ hash_slice identity @ hash_slice body"

definition cache_key :: "(bytes \<Rightarrow> 64 word) \<Rightarrow> string \<Rightarrow> bytes \<Rightarrow> bytes \<Rightarrow> cache_id" where
  "cache_key finish endpoint identity body = finish (hash_input endpoint identity body)"

definition shard_index :: "cache_id \<Rightarrow> nat" where
  "shard_index key = unat (and key (of_nat (NUM_SHARDS - 1)))"

definition get_shard :: "'c RequestCache \<Rightarrow> cache_id \<Rightarrow> 'c CacheShard" where
  "get_shard rq key = rq_shards rq ! shard_index key"

text \<open>A locked section's write-back to shard \<open>i\<close>.\<close>

definition upd_shard :: "nat \<Rightarrow> ('c CacheShard \<Rightarrow> 'c CacheShard) \<Rightarrow> 'c RequestCache \<Rightarrow> 'c RequestCache" where
  "upd_shard i f rq = rq\<lparr>rq_shards := (rq_shards rq)[i := f (rq_shards rq ! i)]\<rparr>"

text \<open>The section under the cache lock that \<^verbatim>\<open>get\<close> and \<^verbatim>\<open>try_coalesce\<close> share.\<close>

definition lookup_fresh ::
  "'c lru_ops \<Rightarrow> nat \<Rightarrow> nat \<Rightarrow> cache_id \<Rightarrow> 'c \<Rightarrow> CachedResponse option \<times> 'c" where
  "lookup_fresh L ttl now key cache =
     (case lru_get L cache key of
        (Some entry, cache1) \<Rightarrow>
          if now - en_created_at entry < ttl then (Some (response_of entry), cache1)
          else (None, lru_pop L cache1 key)
      | (None, cache1) \<Rightarrow> (None, cache1))"

definition cache_lookup ::
  "'c lru_ops \<Rightarrow> nat \<Rightarrow> cache_id \<Rightarrow> 'c RequestCache \<Rightarrow> CachedResponse option \<times> 'c RequestCache" where
  "cache_lookup L now key rq =
     (let (r, c) = lookup_fresh L (rq_ttl rq) now key (sh_cache (get_shard rq key))
      in (r, upd_shard (shard_index key) (\<lambda>sh. sh\<lparr>sh_cache := c\<rparr>) rq))"

definition RequestCache_get ::
  "'c lru_ops \<Rightarrow> (bytes \<Rightarrow> 64 word) \<Rightarrow> nat \<Rightarrow> string \<Rightarrow> bytes \<Rightarrow> bytes \<Rightarrow> 'c RequestCache \<Rightarrow>
   CachedResponse option \<times> 'c RequestCache" where
  "RequestCache_get L finish now endpoint identity body rq =
     cache_lookup L now (cache_key finish endpoint identity body) rq"

text \<open>
  The section of \<^verbatim>\<open>try_coalesce\<close> under the in-flight lock: subscribe to the running request's channel
  (\<open>Inl\<close>), or open a channel and become the executor (\<open>Inr\<close>). \<open>chs\<close> is the list of all channels.
\<close>

definition join_or_register ::
  "cache_id \<Rightarrow> 'c RequestCache \<Rightarrow> channel list \<Rightarrow>
   (nat + RequestHandle) \<times> 'c RequestCache \<times> channel list" where
  "join_or_register key rq chs =
     (case map_of (sh_in_flight (get_shard rq key)) key of
        Some tx \<Rightarrow> (Inl tx, rq, chs)
      | None \<Rightarrow>
          (Inr \<lparr>hd_shard = shard_index key, hd_key = key, hd_completed = False\<rparr>,
           upd_shard (shard_index key)
             (\<lambda>sh. sh\<lparr>sh_in_flight := AList.update key (length chs) (sh_in_flight sh)\<rparr>) rq,
           chs @ [Open]))"

text \<open>
  \<^verbatim>\<open>rx.recv().await\<close>: \<open>None\<close> while the channel is open and empty, otherwise the received entry or
  the error of a closed channel.
\<close>

definition recv :: "channel list \<Rightarrow> nat \<Rightarrow> CacheEntry option option" where
  "recv chs rx = (case chs ! rx of Open \<Rightarrow> None | Sent e \<Rightarrow> Some (Some e) | Closed \<Rightarrow> Some None)"

text \<open>Removing the in-flight entry of a handle; the sender it owned is returned.\<close>

definition in_flight_remove ::
  "RequestHandle \<Rightarrow> 'c RequestCache \<Rightarrow> nat option \<times> 'c RequestCache" where
  "in_flight_remove h rq =
     (map_of (sh_in_flight (rq_shards rq ! hd_shard h)) (hd_key h),
      upd_shard (hd_shard h) (\<lambda>sh. sh\<lparr>sh_in_flight := AList.delete (hd_key h) (sh_in_flight sh)\<rparr>) rq)"

text \<open>The two sections of \<^verbatim>\<open>complete\<close>: notify the waiters, then store.\<close>

definition complete_entry :: "nat \<Rightarrow> bytes \<Rightarrow> 16 word \<Rightarrow> (string \<times> string) list \<Rightarrow> CacheEntry" where
  "complete_entry now response_body status headers = \<lparr>
     en_response_body = response_body, en_status = status, en_headers = headers, en_created_at = now \<rparr>"

definition complete_notify ::
  "RequestHandle \<Rightarrow> CacheEntry \<Rightarrow> 'c RequestCache \<Rightarrow> channel list \<Rightarrow> 'c RequestCache \<times> channel list" where
  "complete_notify h entry rq chs =
     (case in_flight_remove h rq of
        (Some tx, rq1) \<Rightarrow> (rq1, chs[tx := Sent entry])
      | (None, rq1) \<Rightarrow> (rq1, chs))"

definition complete_store ::
  "'c lru_ops \<Rightarrow> RequestHandle \<Rightarrow> CacheEntry \<Rightarrow> 'c RequestCache \<Rightarrow> 'c RequestCache" where
  "complete_store L h entry rq =
     (if length (en_response_body entry) \<le> rq_max_response_size rq
      then upd_shard (hd_shard h) (\<lambda>sh. sh\<lparr>sh_cache := lru_put L (sh_cache sh) (hd_key h) entry\<rparr>) rq
      else rq)"

text \<open>Dropping the sender wakes the waiters with an error.\<close>

definition drop_sender :: "RequestHandle \<Rightarrow> 'c RequestCache \<Rightarrow> channel list \<Rightarrow> 'c RequestCache \<times> channel list" where
  "drop_sender h rq chs =
     (case in_flight_remove h rq of
        (Some tx, rq1) \<Rightarrow> (rq1, chs[tx := Closed])
      | (None, rq1) \<Rightarrow> (rq1, chs))"

definition RequestCache_cancel ::
  "RequestHandle \<Rightarrow> 'c RequestCache \<Rightarrow> channel list \<Rightarrow> 'c RequestCache \<times> channel list" where
  "RequestCache_cancel h rq chs = drop_sender (h\<lparr>hd_completed := True\<rparr>) rq chs"

definition RequestHandle_drop ::
  "RequestHandle \<Rightarrow> 'c RequestCache \<Rightarrow> channel list \<Rightarrow> 'c RequestCache \<times> channel list" where
  "RequestHandle_drop h rq chs = (if hd_completed h then (rq, chs) else drop_sender h rq chs)"

text \<open>\<^verbatim>\<open>cleanup_expired\<close>, shard by shard.\<close>

definition cleanup_shard :: "'c lru_ops \<Rightarrow> nat \<Rightarrow> nat \<Rightarrow> 'c CacheShard \<Rightarrow> 'c CacheShard" where
  "cleanup_shard L ttl now sh =
     sh\<lparr>sh_cache := fold (\<lambda>k c. lru_pop L c k)
          (map fst (filter (\<lambda>(_, e). ttl \<le> now - en_created_at e) (lru_iter L (sh_cache sh))))
          (sh_cache sh)\<rparr>"

definition cleanup_expired :: "'c lru_ops \<Rightarrow> nat \<Rightarrow> 'c RequestCache \<Rightarrow> 'c RequestCache" where
  "cleanup_expired L now rq = rq\<lparr>rq_shards := map (cleanup_shard L (rq_ttl rq) now) (rq_shards rq)\<rparr>"

definition RequestCache_stats :: "'c lru_ops \<Rightarrow> 'c RequestCache \<Rightarrow> CacheStats" where
  "RequestCache_stats L rq = \<lparr>
     st_cached_entries = sum_list (map (\<lambda>sh. lru_len L (sh_cache sh)) (rq_shards rq)),
     st_in_flight_requests = sum_list (map (\<lambda>sh. length (sh_in_flight sh)) (rq_shards rq)),
     st_num_shards = NUM_SHARDS \<rparr>"


section \<open>Requests as concurrent tasks\<close>

text \<open>
  A request for \<open>(endpoint, identity, body)\<close> and where it is in \<^verbatim>\<open>try_coalesce\<close> and \<^verbatim>\<open>complete\<close>: at the top
  of the loop, between the two locked sections, awaiting the channel, executing with the handle
  in its hands, between the sections of \<^verbatim>\<open>complete\<close>, or finished. A task whose future was dropped, or
  that cancelled its request, is \<open>Aborted\<close>.
\<close>

record request =
  q_endpoint :: string
  q_identity :: bytes
  q_body :: bytes

datatype task =
    Idle
  | Looking request
  | Registering request
  | Waiting request nat
  | Executing request RequestHandle
  | Storing request RequestHandle CacheEntry
  | Answered request CoalesceResult
  | Stored request CacheEntry
  | Aborted request

definition req_key :: "(bytes \<Rightarrow> 64 word) \<Rightarrow> request \<Rightarrow> cache_id" where
  "req_key finish q = cache_key finish (q_endpoint q) (q_identity q) (q_body q)"

text \<open>
  \<^verbatim>\<open>try_coalesce\<close> as one call, seen by the request that makes it. What happens while it awaits the
  channel is up to the other requests: \<open>wait rx\<close> gives what \<^verbatim>\<open>rx.recv()\<close> returns and the cache, the
  channels and the time at that moment. The call that never returns is \<open>None\<close>.
\<close>

type_synonym 'c moment = "'c RequestCache \<times> channel list \<times> nat"

partial_function (option) try_coalesce ::
  "'c lru_ops \<Rightarrow> (bytes \<Rightarrow> 64 word) \<Rightarrow> (nat \<Rightarrow> 'c moment \<Rightarrow> CacheEntry option \<times> 'c moment) \<Rightarrow> request \<Rightarrow>
   'c moment \<Rightarrow> (CoalesceResult \<times> 'c moment) option" where
  "try_coalesce L finish wait q m =
     (case m of (rq, chs, now) \<Rightarrow>
        (case cache_lookup L now (req_key finish q) rq of
           (Some r, rq1) \<Rightarrow> Some (Cached r, rq1, chs, now)
         | (None, rq1) \<Rightarrow>
             (case join_or_register (req_key finish q) rq1 chs of
                (Inr h, rq2, chs2) \<Rightarrow> Some (Execute h, rq2, chs2, now)
              | (Inl rx, rq2, chs2) \<Rightarrow>
                  (case wait rx (rq2, chs2, now) of
                     (Some e, m') \<Rightarrow> Some (Coalesced (response_of e), m')
                   | (None, m') \<Rightarrow> try_coalesce L finish wait q m'))))"

text \<open>
  The whole system. \<open>sy_log\<close> records every execution that was completed; no operation reads it.
\<close>

record 'c system =
  sy_rq :: "'c RequestCache"
  sy_chs :: "channel list"
  sy_now :: nat
  sy_tasks :: "nat \<Rightarrow> task"
  sy_log :: "(request \<times> CacheEntry) list"

datatype event =
    Start nat request
  | Look nat
  | Register nat
  | Receive nat
  | Notify nat bytes "16 word" "(string \<times> string) list"
  | Store nat
  | Cancel nat
  | Drop nat
  | Cleanup nat
  | Tick nat

definition set_task :: "nat \<Rightarrow> task \<Rightarrow> 'c system \<Rightarrow> 'c system" where
  "set_task t p s = s\<lparr>sy_tasks := (sy_tasks s)(t := p)\<rparr>"

text \<open>One locked section of one task; \<open>None\<close> when the task is not at that section.\<close>

fun exec :: "'c lru_ops \<Rightarrow> (bytes \<Rightarrow> 64 word) \<Rightarrow> event \<Rightarrow> 'c system \<Rightarrow> 'c system option" where
  "exec L finish (Start t q) s =
     (case sy_tasks s t of Idle \<Rightarrow> Some (set_task t (Looking q) s) | _ \<Rightarrow> None)"
| "exec L finish (Look t) s =
     (case sy_tasks s t of
        Looking q \<Rightarrow>
          (case cache_lookup L (sy_now s) (req_key finish q) (sy_rq s) of
             (Some r, rq) \<Rightarrow> Some (set_task t (Answered q (Cached r)) (s\<lparr>sy_rq := rq\<rparr>))
           | (None, rq) \<Rightarrow> Some (set_task t (Registering q) (s\<lparr>sy_rq := rq\<rparr>)))
      | _ \<Rightarrow> None)"
| "exec L finish (Register t) s =
     (case sy_tasks s t of
        Registering q \<Rightarrow>
          (case join_or_register (req_key finish q) (sy_rq s) (sy_chs s) of
             (Inl rx, rq, chs) \<Rightarrow> Some (set_task t (Waiting q rx) (s\<lparr>sy_rq := rq, sy_chs := chs\<rparr>))
           | (Inr h, rq, chs) \<Rightarrow> Some (set_task t (Executing q h) (s\<lparr>sy_rq := rq, sy_chs := chs\<rparr>)))
      | _ \<Rightarrow> None)"
| "exec L finish (Receive t) s =
     (case sy_tasks s t of
        Waiting q rx \<Rightarrow>
          (case recv (sy_chs s) rx of
             None \<Rightarrow> None
           | Some (Some e) \<Rightarrow> Some (set_task t (Answered q (Coalesced (response_of e))) s)
           | Some None \<Rightarrow> Some (set_task t (Looking q) s))
      | _ \<Rightarrow> None)"
| "exec L finish (Notify t body status headers) s =
     (case sy_tasks s t of
        Executing q h \<Rightarrow>
          (let e = complete_entry (sy_now s) body status headers;
               (rq, chs) = complete_notify h e (sy_rq s) (sy_chs s)
           in Some (set_task t (Storing q (h\<lparr>hd_completed := True\<rparr>) e)
                 (s\<lparr>sy_rq := rq, sy_chs := chs, sy_log := (q, e) # sy_log s\<rparr>)))
      | _ \<Rightarrow> None)"
| "exec L finish (Store t) s =
     (case sy_tasks s t of
        Storing q h e \<Rightarrow> Some (set_task t (Stored q e) (s\<lparr>sy_rq := complete_store L h e (sy_rq s)\<rparr>))
      | _ \<Rightarrow> None)"
| "exec L finish (Cancel t) s =
     (case sy_tasks s t of
        Executing q h \<Rightarrow>
          (let (rq, chs) = RequestCache_cancel h (sy_rq s) (sy_chs s)
           in Some (set_task t (Aborted q) (s\<lparr>sy_rq := rq, sy_chs := chs\<rparr>)))
      | _ \<Rightarrow> None)"
| "exec L finish (Drop t) s =
     (case sy_tasks s t of
        Looking q \<Rightarrow> Some (set_task t (Aborted q) s)
      | Registering q \<Rightarrow> Some (set_task t (Aborted q) s)
      | Waiting q rx \<Rightarrow> Some (set_task t (Aborted q) s)
      | Executing q h \<Rightarrow>
          (let (rq, chs) = RequestHandle_drop h (sy_rq s) (sy_chs s)
           in Some (set_task t (Aborted q) (s\<lparr>sy_rq := rq, sy_chs := chs\<rparr>)))
      | Storing q h e \<Rightarrow>
          (let (rq, chs) = RequestHandle_drop h (sy_rq s) (sy_chs s)
           in Some (set_task t (Aborted q) (s\<lparr>sy_rq := rq, sy_chs := chs\<rparr>)))
      | _ \<Rightarrow> None)"
| "exec L finish (Cleanup i) s =
     (if i < length (rq_shards (sy_rq s))
      then Some (s\<lparr>sy_rq := upd_shard i (cleanup_shard L (rq_ttl (sy_rq s)) (sy_now s)) (sy_rq s)\<rparr>)
      else None)"
| "exec L finish (Tick d) s = Some (s\<lparr>sy_now := sy_now s + d\<rparr>)"

definition system_init :: "'c RequestCache \<Rightarrow> 'c system" where
  "system_init rq = \<lparr>sy_rq = rq, sy_chs = [], sy_now = 0, sy_tasks = (\<lambda>_. Idle), sy_log = []\<rparr>"

text \<open>The states of a cache that was created by \<^verbatim>\<open>RequestCache::new\<close>.\<close>

inductive reachable ::
  "'c lru_ops \<Rightarrow> (bytes \<Rightarrow> 64 word) \<Rightarrow> 'c RequestCache \<Rightarrow> 'c system \<Rightarrow> bool"
  for L finish rq where
  init: "reachable L finish rq (system_init rq)"
| step: "reachable L finish rq s \<Longrightarrow> exec L finish ev s = Some s' \<Longrightarrow> reachable L finish rq s'"

fun_cases exec_StartE: "exec L finish (Start t q) s = Some s'"
fun_cases exec_LookE: "exec L finish (Look t) s = Some s'"
fun_cases exec_RegisterE: "exec L finish (Register t) s = Some s'"
fun_cases exec_ReceiveE: "exec L finish (Receive t) s = Some s'"
fun_cases exec_NotifyE: "exec L finish (Notify t b st hs) s = Some s'"
fun_cases exec_StoreE: "exec L finish (Store t) s = Some s'"
fun_cases exec_CancelE: "exec L finish (Cancel t) s = Some s'"
fun_cases exec_DropE: "exec L finish (Drop t) s = Some s'"


section \<open>Sharding is transparent\<close>

text \<open>What the shards hold together: one in-flight table and one cache, looked up by key.\<close>

definition flight :: "'c RequestCache \<Rightarrow> cache_id \<rightharpoonup> nat" where
  "flight rq k = map_of (sh_in_flight (get_shard rq k)) k"

definition cached :: "('c \<Rightarrow> cache_id \<rightharpoonup> CacheEntry) \<Rightarrow> 'c RequestCache \<Rightarrow> cache_id \<rightharpoonup> CacheEntry" where
  "cached held rq k = held (sh_cache (get_shard rq k)) k"

definition rq_wf :: "'c RequestCache \<Rightarrow> bool" where
  "rq_wf rq \<longleftrightarrow> length (rq_shards rq) = NUM_SHARDS"

definition handle_for :: "cache_id \<Rightarrow> RequestHandle \<Rightarrow> bool" where
  "handle_for k h \<longleftrightarrow> hd_key h = k \<and> hd_shard h = shard_index k"

lemma handle_for_completed [simp]: "handle_for k (h\<lparr>hd_completed := b\<rparr>) = handle_for k h"
  by (simp add: handle_for_def)

lemma shard_index_less: "shard_index k < NUM_SHARDS"
proof -
  have "and k (31 :: 64 word) \<le> 31" by (rule word_and_le1)
  then show ?thesis by (simp add: shard_index_def NUM_SHARDS_def word_le_nat_alt)
qed

lemma get_shard_upd:
  "rq_wf rq \<Longrightarrow> get_shard (upd_shard i f rq) k =
     (if shard_index k = i then f (get_shard rq k) else get_shard rq k)"
  using shard_index_less [of k] by (simp add: rq_wf_def get_shard_def upd_shard_def nth_list_update)

lemma upd_shard_fields [simp]:
  "rq_ttl (upd_shard i f rq) = rq_ttl rq"
  "rq_max_response_size (upd_shard i f rq) = rq_max_response_size rq"
  "rq_wf (upd_shard i f rq) = rq_wf rq"
  by (simp_all add: upd_shard_def rq_wf_def)

lemma rq_wf_new: "rq_wf (RequestCache_new L env ttl n)"
  by (simp add: RequestCache_new_def rq_wf_def)

lemma get_shard_new: "get_shard (RequestCache_new L env ttl n) k = CacheShard_new L (max (n div NUM_SHARDS) 1)"
  using shard_index_less [of k] by (simp add: RequestCache_new_def get_shard_def)

lemma flight_upd_cache:
  "rq_wf rq \<Longrightarrow> flight (upd_shard i (\<lambda>sh. sh\<lparr>sh_cache := c sh\<rparr>) rq) = flight rq"
  by (auto simp: flight_def get_shard_upd fun_eq_iff)

lemma cached_upd_flight:
  "rq_wf rq \<Longrightarrow> cached held (upd_shard i (\<lambda>sh. sh\<lparr>sh_in_flight := c sh\<rparr>) rq) = cached held rq"
  by (auto simp: cached_def get_shard_upd fun_eq_iff)

lemma cached_upd_cache:
  "rq_wf rq \<Longrightarrow> cached held (upd_shard i (\<lambda>sh. sh\<lparr>sh_cache := c sh\<rparr>) rq) k =
     (if shard_index k = i then held (c (get_shard rq k)) k else cached held rq k)"
  by (auto simp: cached_def get_shard_upd)

lemma in_flight_remove_abs:
  assumes "rq_wf rq" and "handle_for k h"
  shows "\<exists>rq'. in_flight_remove h rq = (flight rq k, rq') \<and> rq_wf rq' \<and>
    flight rq' = (flight rq)(k := None) \<and> cached held rq' = cached held rq"
proof -
  let ?rq = "snd (in_flight_remove h rq)"
  have "flight ?rq = (flight rq)(k := None)"
    using assms by (auto simp: in_flight_remove_def flight_def get_shard_upd handle_for_def fun_eq_iff
        delete_conv)
  moreover have "in_flight_remove h rq = (flight rq k, ?rq)"
    using assms by (simp add: in_flight_remove_def flight_def handle_for_def get_shard_def)
  moreover have "rq_wf ?rq" "cached held ?rq = cached held rq"
    using assms by (simp_all add: in_flight_remove_def cached_upd_flight)
  ultimately show ?thesis by blast
qed

lemma join_or_register_abs:
  assumes "rq_wf rq"
  shows "\<exists>r rq' chs'. join_or_register k rq chs = (r, rq', chs') \<and> rq_wf rq' \<and>
    cached held rq' = cached held rq \<and>
    (case flight rq k of
       Some c \<Rightarrow> r = Inl c \<and> rq' = rq \<and> chs' = chs
     | None \<Rightarrow> (\<exists>h. r = Inr h \<and> handle_for k h \<and> \<not> hd_completed h) \<and>
         flight rq' = (flight rq)(k \<mapsto> length chs) \<and> chs' = chs @ [Open])"
proof (cases "flight rq k")
  case None
  then show ?thesis using assms
    by (auto simp: join_or_register_def flight_def get_shard_upd handle_for_def fun_eq_iff
        update_conv cached_upd_flight)
next
  case (Some c)
  then show ?thesis using assms by (simp add: join_or_register_def flight_def)
qed

text \<open>The two ways a sender goes: \<open>v\<close> is what its channel holds afterwards.\<close>

definition finish_flight :: "channel \<Rightarrow> cache_id \<Rightarrow> 'c RequestCache \<Rightarrow> channel list \<Rightarrow> channel list" where
  "finish_flight v k rq chs = (case flight rq k of Some c \<Rightarrow> chs[c := v] | None \<Rightarrow> chs)"

lemma complete_notify_abs:
  assumes "rq_wf rq" and "handle_for k h"
  shows "\<exists>rq'. complete_notify h e rq chs = (rq', finish_flight (Sent e) k rq chs) \<and> rq_wf rq' \<and>
    flight rq' = (flight rq)(k := None) \<and> cached held rq' = cached held rq"
  using in_flight_remove_abs [OF assms, of held]
  by (auto simp: complete_notify_def finish_flight_def split: option.splits)

lemma drop_sender_abs:
  assumes "rq_wf rq" and "handle_for k h"
  shows "\<exists>rq'. drop_sender h rq chs = (rq', finish_flight Closed k rq chs) \<and> rq_wf rq' \<and>
    flight rq' = (flight rq)(k := None) \<and> cached held rq' = cached held rq"
  using in_flight_remove_abs [OF assms, of held]
  by (auto simp: drop_sender_def finish_flight_def split: option.splits)

context lru_cache
begin

lemma cache_lookup_abs:
  assumes "rq_wf rq"
  shows "\<exists>r rq'. cache_lookup L now k rq = (r, rq') \<and> rq_wf rq' \<and> flight rq' = flight rq \<and>
    rq_ttl rq' = rq_ttl rq \<and> cached held rq' \<subseteq>\<^sub>m cached held rq \<and>
    r = (case cached held rq k of
           Some e \<Rightarrow> (if now - en_created_at e < rq_ttl rq then Some (response_of e) else None)
         | None \<Rightarrow> None)"
proof -
  let ?c = "sh_cache (get_shard rq k)"
  obtain r c where lf: "lookup_fresh L (rq_ttl rq) now k ?c = (r, c)" by fastforce
  obtain e c1 where g: "lru_get L ?c k = (e, c1)" by fastforce
  have e: "e = cached held rq k" and c1: "held c1 = held ?c"
    using get_held [of ?c k] held_get [of ?c k] by (simp_all add: g cached_def)
  have sub: "held ?c a = Some y" if "held c a = Some y" for a y
    using that lf c1 by (auto simp: lookup_fresh_def g held_pop split: option.splits if_splits)
  have r: "r = (case cached held rq k of
           Some e \<Rightarrow> (if now - en_created_at e < rq_ttl rq then Some (response_of e) else None)
         | None \<Rightarrow> None)"
    using lf by (auto simp: lookup_fresh_def g e [symmetric] split: option.splits if_splits)
  define rq' where "rq' = upd_shard (shard_index k) (\<lambda>sh. sh\<lparr>sh_cache := c\<rparr>) rq"
  have "cached held rq' k' = Some x \<Longrightarrow> cached held rq k' = Some x" for k' x
  proof (cases "shard_index k' = shard_index k")
    case True
    then have "get_shard rq k' = get_shard rq k" by (simp add: get_shard_def)
    moreover assume "cached held rq' k' = Some x"
    ultimately show ?thesis
      using True sub assms by (simp add: rq'_def cached_def get_shard_upd)
  qed (simp add: rq'_def cached_upd_cache assms)
  then have "cached held rq' \<subseteq>\<^sub>m cached held rq" by (auto simp: map_le_def dom_def)
  moreover have "cache_lookup L now k rq = (r, rq')" by (simp add: cache_lookup_def lf rq'_def)
  ultimately show ?thesis using assms r by (simp add: rq'_def flight_upd_cache)
qed

lemma complete_store_abs:
  assumes "rq_wf rq" and "handle_for k h"
  shows "rq_wf (complete_store L h e rq) \<and> flight (complete_store L h e rq) = flight rq \<and>
    (\<forall>k' e'. cached held (complete_store L h e rq) k' = Some e' \<longrightarrow>
       k' = k \<and> e' = e \<or> cached held rq k' = Some e')"
proof -
  have "cached held rq k' = Some e'"
    if "cached held (complete_store L h e rq) k' = Some e'" "k' \<noteq> k" for k' e'
    using that assms held_put_other [of k' k "sh_cache (get_shard rq k')" e e']
    by (simp add: complete_store_def handle_for_def cached_def get_shard_upd split: if_splits)
  moreover have "e' = e \<or> cached held rq k = Some e'"
    if "cached held (complete_store L h e rq) k = Some e'" for e'
    using that assms
    by (simp add: complete_store_def handle_for_def cached_def get_shard_upd held_put split: if_splits)
  moreover have "rq_wf (complete_store L h e rq)" "flight (complete_store L h e rq) = flight rq"
    using assms(1) by (simp_all add: complete_store_def flight_upd_cache)
  ultimately show ?thesis by blast
qed

lemma held_fold_pop: "held (fold (\<lambda>k c. lru_pop L c k) ks c) = (\<lambda>k. if k \<in> set ks then None else held c k)"
  by (induction ks arbitrary: c) (auto simp: held_pop fun_eq_iff)

lemma cleanup_shard_held:
  "held (sh_cache (cleanup_shard L ttl now sh)) k = Some e \<longleftrightarrow>
     held (sh_cache sh) k = Some e \<and> now - en_created_at e < ttl"
  by (force simp: cleanup_shard_def held_fold_pop iter_held)

lemma cleanup_abs:
  fixes i ttl now
  assumes "rq_wf rq"
  defines "rq' \<equiv> upd_shard i (cleanup_shard L ttl now) rq"
  shows "rq_wf rq' \<and> flight rq' = flight rq \<and> cached held rq' \<subseteq>\<^sub>m cached held rq"
proof -
  have "flight rq' = flight rq"
    using assms by (simp add: rq'_def flight_def get_shard_upd fun_eq_iff cleanup_shard_def)
  moreover have "cached held rq' k = Some e \<Longrightarrow> cached held rq k = Some e" for k e
    using assms by (simp add: cached_def get_shard_upd cleanup_shard_held split: if_splits)
  ultimately show ?thesis using assms by (auto simp: map_le_def dom_def)
qed

end


section \<open>Correctness: coalescing\<close>

text \<open>
  Coordination: a key is in flight exactly while one task executes it, the in-flight entry's
  channel is open and belongs to that key alone, and a waiter of an open channel waits for its
  own key.
\<close>

definition coord :: "(bytes \<Rightarrow> 64 word) \<Rightarrow> (cache_id \<rightharpoonup> nat) \<Rightarrow> channel list \<Rightarrow> (nat \<Rightarrow> task) \<Rightarrow> bool" where
  "coord finish fl chs ts \<longleftrightarrow>
     (\<forall>t q h. ts t = Executing q h \<longrightarrow>
        handle_for (req_key finish q) h \<and> \<not> hd_completed h \<and> fl (req_key finish q) \<noteq> None) \<and>
     (\<forall>t t' q q' h h'. ts t = Executing q h \<longrightarrow> ts t' = Executing q' h' \<longrightarrow>
        req_key finish q = req_key finish q' \<longrightarrow> t = t') \<and>
     (\<forall>k c. fl k = Some c \<longrightarrow> c < length chs \<and> chs ! c = Open \<and>
        (\<exists>t q h. ts t = Executing q h \<and> req_key finish q = k)) \<and>
     (\<forall>k k' c. fl k = Some c \<longrightarrow> fl k' = Some c \<longrightarrow> k = k') \<and>
     (\<forall>t q c. ts t = Waiting q c \<longrightarrow> c < length chs \<and>
        (chs ! c = Open \<longrightarrow> fl (req_key finish q) = Some c)) \<and>
     (\<forall>t q h e. ts t = Storing q h e \<longrightarrow> handle_for (req_key finish q) h \<and> hd_completed h)"

lemma coordD:
  assumes "coord finish fl chs ts"
  shows "ts t = Executing q h \<Longrightarrow> handle_for (req_key finish q) h"
    and "ts t = Executing q h \<Longrightarrow> \<not> hd_completed h"
    and "ts t = Executing q h \<Longrightarrow> \<exists>c. fl (req_key finish q) = Some c"
    and "ts t = Executing q h \<Longrightarrow> ts t' = Executing q' h' \<Longrightarrow>
      req_key finish q = req_key finish q' \<Longrightarrow> t = t'"
    and "fl k = Some c \<Longrightarrow> c < length chs"
    and "fl k = Some c \<Longrightarrow> chs ! c = Open"
    and "fl k = Some c \<Longrightarrow> \<exists>t q h. ts t = Executing q h \<and> req_key finish q = k"
    and "fl k = Some c \<Longrightarrow> fl k' = Some c \<Longrightarrow> k = k'"
    and "ts t = Waiting q c \<Longrightarrow> c < length chs"
    and "ts t = Waiting q c \<Longrightarrow> chs ! c = Open \<Longrightarrow> fl (req_key finish q) = Some c"
    and "ts t = Storing q h e \<Longrightarrow> handle_for (req_key finish q) h"
    and "ts t = Storing q h e \<Longrightarrow> hd_completed h"
  using assms unfolding coord_def by (blast | simp)+

lemma coordI:
  assumes "\<And>t q h. ts t = Executing q h \<Longrightarrow>
      handle_for (req_key finish q) h \<and> \<not> hd_completed h \<and> fl (req_key finish q) \<noteq> None"
    and "\<And>t t' q q' h h'. ts t = Executing q h \<Longrightarrow> ts t' = Executing q' h' \<Longrightarrow>
      req_key finish q = req_key finish q' \<Longrightarrow> t = t'"
    and "\<And>k c. fl k = Some c \<Longrightarrow> c < length chs \<and> chs ! c = Open"
    and "\<And>k c. fl k = Some c \<Longrightarrow> \<exists>t q h. ts t = Executing q h \<and> req_key finish q = k"
    and "\<And>k k' c. fl k = Some c \<Longrightarrow> fl k' = Some c \<Longrightarrow> k = k'"
    and "\<And>t q c. ts t = Waiting q c \<Longrightarrow> c < length chs"
    and "\<And>t q c. ts t = Waiting q c \<Longrightarrow> chs ! c = Open \<Longrightarrow> fl (req_key finish q) = Some c"
    and "\<And>t q h e. ts t = Storing q h e \<Longrightarrow> handle_for (req_key finish q) h \<and> hd_completed h"
  shows "coord finish fl chs ts"
  unfolding coord_def using assms by (intro conjI allI impI) simp_all

text \<open>Tasks that hold no part of the coordination.\<close>

definition inert :: "task \<Rightarrow> bool" where
  "inert p = (case p of Waiting _ _ \<Rightarrow> False | Executing _ _ \<Rightarrow> False | Storing _ _ _ \<Rightarrow> False | _ \<Rightarrow> True)"

lemma inert_simps [simp]:
  "inert Idle" "inert (Looking q)" "inert (Registering q)" "inert (Answered q r)"
  "inert (Stored q e)" "inert (Aborted q)"
  "\<not> inert (Waiting q c)" "\<not> inert (Executing q h)" "\<not> inert (Storing q h e)"
  by (simp_all add: inert_def)

lemma coord_release:
  assumes "coord finish fl chs ts" and "\<And>q h. ts t \<noteq> Executing q h" and "inert p"
  shows "coord finish fl chs (ts(t := p))"
  using assms unfolding coord_def inert_def
  by (auto split: task.splits; metis)

lemma coord_wait:
  assumes "coord finish fl chs ts" and "inert (ts t)" and "fl (req_key finish q) = Some c"
  shows "coord finish fl chs (ts(t := Waiting q c))"
proof -
  have "\<And>q h. ts t \<noteq> Executing q h" using assms(2) by auto
  then show ?thesis using assms(1,3) unfolding coord_def by (auto; metis)
qed


lemma coord_register:
  assumes "coord finish fl chs ts" and "inert (ts t)" and "fl (req_key finish q) = None"
    and "handle_for (req_key finish q) h" and "\<not> hd_completed h"
  shows "coord finish (fl(req_key finish q \<mapsto> length chs)) (chs @ [Open]) (ts(t := Executing q h))"
proof -
  note D = coordD [OF assms(1)]
  have t: "ts t \<noteq> Executing q' h'" for q' h' using assms(2) by auto
  have fresh: "req_key finish q' \<noteq> req_key finish q" if "ts t' = Executing q' h'" for t' q' h'
    using D(3) [OF that] assms(3) by auto
  show ?thesis
  proof (rule coordI, goal_cases)
    case (1 t' q' h')
    then show ?case using assms(4,5) D(1-3) [of t' q' h'] fresh [of t' q' h'] by (auto split: if_splits)
  next
    case (2 t1 t2 q1 q2 h1 h2)
    then show ?case using fresh [of t1 q1 h1] fresh [of t2 q2 h2] D(4) [of t1 q1 h1 t2 q2 h2]
      by (auto split: if_splits)
  next
    case (3 k c)
    then show ?case using D(5) [of k c] D(6) [of k c] by (auto simp: nth_append split: if_splits)
  next
    case (4 k c)
    then show ?case using D(7) [of k c] t by (fastforce split: if_splits)
  next
    case (5 k k' c)
    then show ?case using D(5) [of k c] D(5) [of k' c] D(8) [of k c k'] by (auto split: if_splits)
  next
    case (6 t' q' c)
    then show ?case using D(9) [of t' q' c] by (auto split: if_splits)
  next
    case (7 t' q' c)
    then have "ts t' = Waiting q' c" by (auto split: if_splits)
    then show ?case using 7 D(9) [of t' q' c] D(10) [of t' q' c] assms(3) by (auto simp: nth_append)
  next
    case (8 t' q' h' e)
    then show ?case using D(11,12) [of t' q' h' e] by (auto split: if_splits)
  qed
qed

lemma coord_finish:
  assumes "coord finish fl chs ts" and "ts t = Executing q h" and "v \<noteq> Open"
    and "inert p \<or> (\<exists>h' e. p = Storing q h' e \<and> handle_for (req_key finish q) h' \<and> hd_completed h')"
  shows "coord finish (fl(req_key finish q := None))
    (case fl (req_key finish q) of Some c \<Rightarrow> chs[c := v] | None \<Rightarrow> chs) (ts(t := p))"
proof -
  note D = coordD [OF assms(1)]
  let ?k = "req_key finish q"
  obtain c where c: "fl ?k = Some c" using D(3) [OF assms(2)] by blast
  have p: "p \<noteq> Executing q' h'" "p \<noteq> Waiting q' c'" for q' h' c' using assms(4) by auto
  have other: "t' = t" if "ts t' = Executing q' h'" "req_key finish q' = ?k" for t' q' h'
    using D(4) [OF that(1) assms(2) that(2)] .
  have "coord finish (fl(?k := None)) (chs[c := v]) (ts(t := p))"
  proof (rule coordI, goal_cases)
    case (1 t' q' h')
    then have "t' \<noteq> t" "ts t' = Executing q' h'" using p by (auto split: if_splits)
    then show ?case using D(1-3) [of t' q' h'] other by auto
  next
    case (2 t1 t2 q1 q2 h1 h2)
    then show ?case using p D(4) [of t1 q1 h1 t2 q2 h2] by (auto split: if_splits)
  next
    case (3 k d)
    then have "fl k = Some d" "k \<noteq> ?k" by (auto split: if_splits)
    moreover have "d \<noteq> c" using calculation D(8) [of k d ?k] c by blast
    ultimately show ?case using D(5,6) [of k d] by simp
  next
    case (4 k d)
    then have "fl k = Some d" "k \<noteq> ?k" by (auto split: if_splits)
    then obtain t' q' h' where "ts t' = Executing q' h'" "req_key finish q' = k" "k \<noteq> ?k"
      using D(7) [of k d] by blast
    moreover from this have "t' \<noteq> t" using assms(2) by auto
    ultimately show ?case by (intro exI [of _ t']) simp
  next
    case (5 k k' d)
    then show ?case using D(8) [of k d k'] by (auto split: if_splits)
  next
    case (6 t' q' d)
    then show ?case using p D(9) [of t' q' d] by (auto split: if_splits)
  next
    case (7 t' q' d)
    then have w: "ts t' = Waiting q' d" using p by (auto split: if_splits)
    then have "d \<noteq> c" using 7(2) assms(3) D(9) [OF w] by auto
    then show ?case using 7(2) D(10) [OF w] c by auto
  next
    case (8 t' q' h' e)
    then show ?case using assms(4) D(11,12) [of t' q' h' e] by (auto split: if_splits)
  qed
  then show ?thesis by (simp add: c)
qed


text \<open>
  Provenance: what is cached, buffered in a channel or delivered for a key was produced by an
  execution of a request with that key.
\<close>

definition produced ::
  "(bytes \<Rightarrow> 64 word) \<Rightarrow> (request \<times> CacheEntry) list \<Rightarrow> cache_id \<Rightarrow> CacheEntry \<Rightarrow> bool" where
  "produced finish log k e \<longleftrightarrow> (\<exists>q. (q, e) \<in> set log \<and> req_key finish q = k)"

definition prov ::
  "(bytes \<Rightarrow> 64 word) \<Rightarrow> (cache_id \<rightharpoonup> CacheEntry) \<Rightarrow> channel list \<Rightarrow> (nat \<Rightarrow> task) \<Rightarrow>
   (request \<times> CacheEntry) list \<Rightarrow> bool" where
  "prov finish ca chs ts log \<longleftrightarrow>
     (\<forall>k e. ca k = Some e \<longrightarrow> produced finish log k e) \<and>
     (\<forall>t q c e. ts t = Waiting q c \<longrightarrow> chs ! c = Sent e \<longrightarrow> produced finish log (req_key finish q) e) \<and>
     (\<forall>t q h e. ts t = Storing q h e \<longrightarrow> (q, e) \<in> set log) \<and>
     (\<forall>t q r. ts t = Answered q r \<longrightarrow>
        (\<exists>e. produced finish log (req_key finish q) e \<and>
             (r = Cached (response_of e) \<or> r = Coalesced (response_of e))))"

lemma provD:
  assumes "prov finish ca chs ts log"
  shows "ca k = Some e \<Longrightarrow> produced finish log k e"
    and "ts t = Waiting q c \<Longrightarrow> chs ! c = Sent e \<Longrightarrow> produced finish log (req_key finish q) e"
    and "ts t = Storing q h e \<Longrightarrow> (q, e) \<in> set log"
    and "ts t = Answered q r \<Longrightarrow> \<exists>e. produced finish log (req_key finish q) e \<and>
      (r = Cached (response_of e) \<or> r = Coalesced (response_of e))"
  using assms unfolding prov_def by blast+

lemma provI:
  assumes "\<And>k e. ca k = Some e \<Longrightarrow> produced finish log k e"
    and "\<And>t q c e. ts t = Waiting q c \<Longrightarrow> chs ! c = Sent e \<Longrightarrow> produced finish log (req_key finish q) e"
    and "\<And>t q h e. ts t = Storing q h e \<Longrightarrow> (q, e) \<in> set log"
    and "\<And>t q r. ts t = Answered q r \<Longrightarrow> \<exists>e. produced finish log (req_key finish q) e \<and>
      (r = Cached (response_of e) \<or> r = Coalesced (response_of e))"
  shows "prov finish ca chs ts log"
  unfolding prov_def using assms by (intro conjI allI impI)

text \<open>Tasks that carry no response.\<close>

definition plain :: "task \<Rightarrow> bool" where
  "plain p = (case p of Waiting _ _ \<Rightarrow> False | Storing _ _ _ \<Rightarrow> False | Answered _ _ \<Rightarrow> False | _ \<Rightarrow> True)"

lemma plain_simps [simp]:
  "plain (Looking q)" "plain (Registering q)" "plain (Executing q h)" "plain (Stored q e)" "plain (Aborted q)"
  "\<not> plain (Waiting q c)" "\<not> plain (Storing q h e)" "\<not> plain (Answered q r)"
  by (simp_all add: plain_def)

lemma produced_Cons: "produced finish log k e \<Longrightarrow> produced finish (x # log) k e"
  by (auto simp: produced_def)

text \<open>A task moves to a state that carries no response, or to one whose response is accounted for.\<close>

lemma prov_task:
  assumes "prov finish ca chs ts log" and "ca' \<subseteq>\<^sub>m ca"
    and "plain p \<or> (\<exists>q c. p = Waiting q c \<and> chs ! c = Open) \<or>
      (\<exists>q e. (p = Answered q (Cached (response_of e)) \<or> p = Answered q (Coalesced (response_of e))) \<and>
         produced finish log (req_key finish q) e)"
  shows "prov finish ca' chs (ts(t := p)) log"
proof (rule provI, goal_cases)
  case (1 k e)
  then show ?case using provD(1) [OF assms(1), of k e] assms(2) by (auto simp: map_le_def dom_def)
next
  case (2 t' q c e)
  then show ?case using provD(2) [OF assms(1), of t' q c e] assms(3) by (auto split: if_splits)
next
  case (3 t' q h e)
  then show ?case using provD(3) [OF assms(1), of t' q h e] assms(3) by (auto split: if_splits)
next
  case (4 t' q r)
  then show ?case using provD(4) [OF assms(1), of t' q r] assms(3) by (auto split: if_splits)
qed

text \<open>A channel other than the waiters' own changes, or one whose new content is accounted for.\<close>

lemma prov_channels:
  assumes "prov finish ca chs ts log"
    and "\<And>t q c e. ts t = Waiting q c \<Longrightarrow> chs' ! c = Sent e \<Longrightarrow>
      chs ! c = Sent e \<or> produced finish log (req_key finish q) e"
  shows "prov finish ca chs' ts log"
  using assms(1) provD [OF assms(1)] assms(2) by (intro provI) blast+


lemma set_task_fields [simp]:
  "sy_rq (set_task t p s) = sy_rq s" "sy_chs (set_task t p s) = sy_chs s"
  "sy_now (set_task t p s) = sy_now s" "sy_log (set_task t p s) = sy_log s"
  "sy_tasks (set_task t p s) = (sy_tasks s)(t := p)"
  by (simp_all add: set_task_def)

context lru_cache
begin

definition sys_inv :: "(bytes \<Rightarrow> 64 word) \<Rightarrow> 'c system \<Rightarrow> bool" where
  "sys_inv finish s \<longleftrightarrow> rq_wf (sy_rq s) \<and>
     coord finish (flight (sy_rq s)) (sy_chs s) (sy_tasks s) \<and>
     prov finish (cached held (sy_rq s)) (sy_chs s) (sy_tasks s) (sy_log s)"

lemma sys_inv_init: "rq_wf rq \<Longrightarrow> flight rq = Map.empty \<Longrightarrow> cached held rq = Map.empty \<Longrightarrow>
    sys_inv finish (system_init rq)"
  by (simp add: sys_inv_def system_init_def coord_def prov_def)

text \<open>A task without a place in the coordination moves on; the cache may lose entries.\<close>

lemma sys_inv_move:
  assumes "sys_inv finish s" and "\<And>q h. sy_tasks s t \<noteq> Executing q h" and "inert p"
    and "rq_wf rq" and "flight rq = flight (sy_rq s)" and "cached held rq \<subseteq>\<^sub>m cached held (sy_rq s)"
    and "plain p \<or> (\<exists>q e. (p = Answered q (Cached (response_of e)) \<or> p = Answered q (Coalesced (response_of e))) \<and>
         produced finish (sy_log s) (req_key finish q) e)"
  shows "sys_inv finish (set_task t p (s\<lparr>sy_rq := rq\<rparr>))"
  using assms coord_release [of finish "flight (sy_rq s)" "sy_chs s" "sy_tasks s" t p]
    prov_task [of finish "cached held (sy_rq s)" "sy_chs s" "sy_tasks s" "sy_log s" "cached held rq" p t]
  by (auto simp: sys_inv_def)

lemma inv_Look:
  assumes "sys_inv finish s" and "exec L finish (Look t) s = Some s'"
  shows "sys_inv finish s'"
proof -
  obtain q where t: "sy_tasks s t = Looking q" using assms(2) by (auto split: task.splits)
  have wf: "rq_wf (sy_rq s)" using assms(1) by (simp add: sys_inv_def)
  let ?k = "req_key finish q"
  obtain r rq' where look: "cache_lookup L (sy_now s) ?k (sy_rq s) = (r, rq')"
    and rq': "rq_wf rq'" "flight rq' = flight (sy_rq s)" "cached held rq' \<subseteq>\<^sub>m cached held (sy_rq s)"
    and r: "r = (case cached held (sy_rq s) ?k of
           Some e \<Rightarrow> (if sy_now s - en_created_at e < rq_ttl (sy_rq s) then Some (response_of e) else None)
         | None \<Rightarrow> None)"
    using cache_lookup_abs [OF wf, of "sy_now s" ?k] by blast
  note move = sys_inv_move [OF assms(1) _ _ rq']
  show ?thesis
  proof (cases r)
    case None
    then show ?thesis using assms(2) move [of t "Registering q"] t look by simp
  next
    case (Some x)
    then obtain e where "cached held (sy_rq s) ?k = Some e" "x = response_of e"
      using r by (auto split: option.splits if_splits)
    then have "produced finish (sy_log s) ?k e" "x = response_of e"
      using assms(1) provD(1) by (auto simp: sys_inv_def)
    then show ?thesis using Some assms(2) move [of t "Answered q (Cached x)"] t look by auto
  qed
qed

lemma inv_Register:
  assumes "sys_inv finish s" and "exec L finish (Register t) s = Some s'"
  shows "sys_inv finish s'"
proof -
  obtain q where t: "sy_tasks s t = Registering q" using assms(2) by (auto split: task.splits)
  let ?k = "req_key finish q"
  have inv: "rq_wf (sy_rq s)" "coord finish (flight (sy_rq s)) (sy_chs s) (sy_tasks s)"
      "prov finish (cached held (sy_rq s)) (sy_chs s) (sy_tasks s) (sy_log s)"
    using assms(1) by (simp_all add: sys_inv_def)
  obtain r rq' chs' where j: "join_or_register ?k (sy_rq s) (sy_chs s) = (r, rq', chs')"
    and rq': "rq_wf rq'" "cached held rq' = cached held (sy_rq s)"
    and r: "case flight (sy_rq s) ?k of
       Some c \<Rightarrow> r = Inl c \<and> rq' = sy_rq s \<and> chs' = sy_chs s
     | None \<Rightarrow> (\<exists>h. r = Inr h \<and> handle_for ?k h \<and> \<not> hd_completed h) \<and>
         flight rq' = (flight (sy_rq s))(?k \<mapsto> length (sy_chs s)) \<and> chs' = sy_chs s @ [Open]"
    using join_or_register_abs [OF inv(1), of ?k "sy_chs s" held] by blast
  show ?thesis
  proof (cases "flight (sy_rq s) ?k")
    case (Some c)
    then have s': "s' = set_task t (Waiting q c) s" using r assms(2) t j by simp
    have "coord finish (flight (sy_rq s)) (sy_chs s) ((sy_tasks s)(t := Waiting q c))"
      using coord_wait [OF inv(2) _ Some] t by simp
    moreover have "prov finish (cached held (sy_rq s)) (sy_chs s) ((sy_tasks s)(t := Waiting q c)) (sy_log s)"
      using coordD(6) [OF inv(2) Some] by (intro prov_task [OF inv(3)]) auto
    ultimately show ?thesis using inv(1) by (simp add: sys_inv_def s')
  next
    case None
    then obtain h where h: "r = Inr h" "handle_for ?k h" "\<not> hd_completed h"
      and fl: "flight rq' = (flight (sy_rq s))(?k \<mapsto> length (sy_chs s))" and chs: "chs' = sy_chs s @ [Open]"
      using r by auto
    have s': "s' = set_task t (Executing q h) (s\<lparr>sy_rq := rq', sy_chs := chs'\<rparr>)"
      using h assms(2) t j by simp
    have "coord finish (flight rq') chs' ((sy_tasks s)(t := Executing q h))"
      using coord_register [OF inv(2) _ None h(2,3)] t by (simp add: fl chs)
    moreover have "prov finish (cached held rq') chs' ((sy_tasks s)(t := Executing q h)) (sy_log s)"
    proof (rule prov_channels)
      show "prov finish (cached held rq') (sy_chs s) ((sy_tasks s)(t := Executing q h)) (sy_log s)"
        by (rule prov_task [OF inv(3)]) (simp_all add: rq')
      show "sy_chs s ! c = Sent e \<or> produced finish (sy_log s) (req_key finish q') e"
        if "((sy_tasks s)(t := Executing q h)) t' = Waiting q' c" "chs' ! c = Sent e" for t' q' c e
        using that coordD(9) [OF inv(2), of t' q' c] by (auto simp: chs nth_append split: if_splits)
    qed
    ultimately show ?thesis using rq' by (simp add: sys_inv_def s')
  qed
qed

lemma inv_Receive:
  assumes "sys_inv finish s" and "exec L finish (Receive t) s = Some s'"
  shows "sys_inv finish s'"
proof -
  obtain q c where t: "sy_tasks s t = Waiting q c" using assms(2) by (auto split: task.splits)
  have inv: "rq_wf (sy_rq s)" "prov finish (cached held (sy_rq s)) (sy_chs s) (sy_tasks s) (sy_log s)"
    using assms(1) by (simp_all add: sys_inv_def)
  note move = sys_inv_move [OF assms(1) _ _ inv(1) refl map_le_refl]
  show ?thesis
  proof (cases "sy_chs s ! c")
    case (Sent e)
    then show ?thesis
      using provD(2) [OF inv(2) t Sent] assms(2) t move [of t "Answered q (Coalesced (response_of e))"]
      by (auto simp: recv_def)
  qed (use assms(2) t move [of t "Looking q"] in \<open>simp_all add: recv_def\<close>)
qed

end


lemma finish_flight_nth:
  "finish_flight v k rq chs ! c = Sent e \<Longrightarrow>
     chs ! c = Sent e \<or> (flight rq k = Some c \<and> c < length chs \<and> v = Sent e)"
  by (cases "flight rq k = Some c"; cases "c < length chs")
    (auto simp: finish_flight_def list_update_beyond split: option.splits)

lemma prov_log:
  assumes "prov finish ca chs ts log"
  shows "prov finish ca chs ts (x # log)"
  using provD [OF assms] by (intro provI) (auto intro: produced_Cons, blast intro: produced_Cons)

context lru_cache
begin

lemma inv_finish:
  assumes "sys_inv finish s" and "sy_tasks s t = Executing q h" and "v \<noteq> Open"
    and "rq_wf rq" and "flight rq = (flight (sy_rq s))(req_key finish q := None)"
    and "cached held rq = cached held (sy_rq s)"
    and "chs = finish_flight v (req_key finish q) (sy_rq s) (sy_chs s)"
    and "v = Sent e \<Longrightarrow> (q, e) \<in> set log" and "v = Sent e \<or> v = Closed"
    and "p = Aborted q \<or> (\<exists>h'. p = Storing q h' e \<and> v = Sent e \<and>
           handle_for (req_key finish q) h' \<and> hd_completed h')"
    and "log = sy_log s \<or> log = (q, e) # sy_log s"
  shows "sys_inv finish (set_task t p (s\<lparr>sy_rq := rq, sy_chs := chs, sy_log := log\<rparr>))"
proof -
  let ?k = "req_key finish q"
  have inv: "coord finish (flight (sy_rq s)) (sy_chs s) (sy_tasks s)"
      "prov finish (cached held (sy_rq s)) (sy_chs s) (sy_tasks s) (sy_log s)"
    using assms(1) by (simp_all add: sys_inv_def)
  have prov: "prov finish (cached held (sy_rq s)) (sy_chs s) (sy_tasks s) log"
    using assms(11) prov_log [OF inv(2)] inv(2) by auto
  have "coord finish (flight rq) chs ((sy_tasks s)(t := p))"
    using coord_finish [OF inv(1) assms(2,3), of p] assms(10) by (auto simp: assms(5,7) finish_flight_def)
  moreover have "prov finish (cached held rq) chs ((sy_tasks s)(t := p)) log"
  proof (rule provI, goal_cases)
    case (1 k e')
    then show ?case using provD(1) [OF prov] by (simp add: assms(6))
  next
    case (2 t' q' c e')
    then have w: "sy_tasks s t' = Waiting q' c" using assms(10) by (auto split: if_splits)
    from finish_flight_nth [OF 2(2) [unfolded assms(7)]] show ?case
    proof
      assume "sy_chs s ! c = Sent e'"
      then show ?thesis using provD(2) [OF prov w] by blast
    next
      assume c: "flight (sy_rq s) ?k = Some c \<and> c < length (sy_chs s) \<and> v = Sent e'"
      then have "flight (sy_rq s) (req_key finish q') = Some c"
        using coordD(6,10) [OF inv(1)] w by blast
      then have "req_key finish q' = ?k" using coordD(8) [OF inv(1)] c by blast
      then show ?thesis using c assms(8,9) by (auto simp: produced_def)
    qed
  next
    case (3 t' q' h' e')
    then show ?case using provD(3) [OF prov, of t' q' h' e'] assms(8,10) by (auto split: if_splits)
  next
    case (4 t' q' r)
    then show ?case using provD(4) [OF prov, of t' q' r] assms(10) by (auto split: if_splits)
  qed
  ultimately show ?thesis using assms(4) by (simp add: sys_inv_def)
qed

lemma inv_Notify:
  assumes "sys_inv finish s" and "exec L finish (Notify t b st hs) s = Some s'"
  shows "sys_inv finish s'"
proof -
  obtain q h where t: "sy_tasks s t = Executing q h" using assms(2) by (auto split: task.splits)
  let ?e = "complete_entry (sy_now s) b st hs" and ?k = "req_key finish q"
  have inv: "rq_wf (sy_rq s)" "coord finish (flight (sy_rq s)) (sy_chs s) (sy_tasks s)"
    using assms(1) by (simp_all add: sys_inv_def)
  have h: "handle_for ?k h" using coordD(1) [OF inv(2) t] .
  obtain rq' where n: "complete_notify h ?e (sy_rq s) (sy_chs s) =
        (rq', finish_flight (Sent ?e) ?k (sy_rq s) (sy_chs s))"
    and rq': "rq_wf rq'" "flight rq' = (flight (sy_rq s))(?k := None)"
      "cached held rq' = cached held (sy_rq s)"
    using complete_notify_abs [OF inv(1) h] by blast
  have "s' = set_task t (Storing q (h\<lparr>hd_completed := True\<rparr>) ?e) (s\<lparr>sy_rq := rq',
      sy_chs := finish_flight (Sent ?e) ?k (sy_rq s) (sy_chs s), sy_log := (q, ?e) # sy_log s\<rparr>)"
    using assms(2) t n by (simp add: Let_def)
  then show ?thesis
    using inv_finish [OF assms(1) t _ rq' refl, of "Sent ?e" ?e "(q, ?e) # sy_log s"] h by simp
qed

lemma inv_drop_sender:
  assumes "sys_inv finish s" and "sy_tasks s t = Executing q h" and "handle_for (req_key finish q) h'"
    and "drop_sender h' (sy_rq s) (sy_chs s) = (rq, chs)"
  shows "sys_inv finish (set_task t (Aborted q) (s\<lparr>sy_rq := rq, sy_chs := chs\<rparr>))"
proof -
  let ?k = "req_key finish q"
  have "rq_wf (sy_rq s)" using assms(1) by (simp add: sys_inv_def)
  then have "rq_wf rq" "flight rq = (flight (sy_rq s))(?k := None)" "cached held rq = cached held (sy_rq s)"
      "chs = finish_flight Closed ?k (sy_rq s) (sy_chs s)"
    using drop_sender_abs [OF _ assms(3), of "sy_rq s" "sy_chs s" held] assms(4) by auto
  then show ?thesis
    using inv_finish [OF assms(1,2), of Closed rq chs undefined "sy_log s" "Aborted q"] by simp
qed

lemma inv_Cancel:
  assumes "sys_inv finish s" and "exec L finish (Cancel t) s = Some s'"
  shows "sys_inv finish s'"
proof -
  obtain q h where t: "sy_tasks s t = Executing q h" using assms(2) by (auto split: task.splits)
  have "coord finish (flight (sy_rq s)) (sy_chs s) (sy_tasks s)" using assms(1) by (simp add: sys_inv_def)
  then have "handle_for (req_key finish q) h" using coordD(1) t by blast
  then show ?thesis
    using assms(2) t inv_drop_sender [OF assms(1) t, of "h\<lparr>hd_completed := True\<rparr>"]
    by (auto simp: RequestCache_cancel_def split: prod.splits)
qed

lemma inv_Drop:
  assumes "sys_inv finish s" and "exec L finish (Drop t) s = Some s'"
  shows "sys_inv finish s'"
proof -
  have inv: "rq_wf (sy_rq s)" "coord finish (flight (sy_rq s)) (sy_chs s) (sy_tasks s)"
    using assms(1) by (simp_all add: sys_inv_def)
  have move: "sys_inv finish (set_task t (Aborted q) s)" if "\<And>q h. sy_tasks s t \<noteq> Executing q h" for q
    using sys_inv_move [OF assms(1) _ _ inv(1) refl map_le_refl, of t "Aborted q"] that by simp
  show ?thesis
  proof (cases "sy_tasks s t")
    case (Executing q h)
    then show ?thesis
      using assms(2) coordD(1,2) [OF inv(2) Executing] inv_drop_sender [OF assms(1) Executing, of h]
      by (auto simp: RequestHandle_drop_def split: prod.splits)
  next
    case (Storing q h e)
    then show ?thesis
      using assms(2) coordD(12) [OF inv(2) Storing] move [of q] by (simp add: RequestHandle_drop_def)
  qed (use assms(2) move in auto)
qed

lemma inv_Store:
  assumes "sys_inv finish s" and "exec L finish (Store t) s = Some s'"
  shows "sys_inv finish s'"
proof -
  obtain q h e where t: "sy_tasks s t = Storing q h e" using assms(2) by (auto split: task.splits)
  let ?rq = "complete_store L h e (sy_rq s)" and ?k = "req_key finish q"
  have inv: "rq_wf (sy_rq s)" "coord finish (flight (sy_rq s)) (sy_chs s) (sy_tasks s)"
      "prov finish (cached held (sy_rq s)) (sy_chs s) (sy_tasks s) (sy_log s)"
    using assms(1) by (simp_all add: sys_inv_def)
  have st: "rq_wf ?rq" "flight ?rq = flight (sy_rq s)"
      "cached held ?rq k' = Some e' \<Longrightarrow> k' = ?k \<and> e' = e \<or> cached held (sy_rq s) k' = Some e'" for k' e'
    using complete_store_abs [OF inv(1) coordD(11) [OF inv(2) t], of e] by blast+
  have "produced finish (sy_log s) ?k e" using provD(3) [OF inv(3) t] by (auto simp: produced_def)
  then have "prov finish (cached held ?rq) (sy_chs s) (sy_tasks s) (sy_log s)"
    using provD [OF inv(3)] st(3) by (intro provI) blast+
  then have "sys_inv finish (s\<lparr>sy_rq := ?rq\<rparr>)" using inv st by (simp add: sys_inv_def)
  from sys_inv_move [OF this _ _ _ refl map_le_refl, of t "Stored q e"] show ?thesis
    using assms(2) t st(1) by simp
qed

lemma inv_exec:
  assumes "sys_inv finish s" and "exec L finish ev s = Some s'"
  shows "sys_inv finish s'"
proof (cases ev)
  case (Start t q)
  then show ?thesis
    using assms sys_inv_move [OF assms(1) _ _ _ refl map_le_refl, of t "Looking q"]
    by (auto simp: sys_inv_def split: task.splits)
next
  case (Cleanup i)
  let ?rq = "upd_shard i (cleanup_shard L (rq_ttl (sy_rq s)) (sy_now s)) (sy_rq s)"
  have "rq_wf ?rq \<and> flight ?rq = flight (sy_rq s) \<and> cached held ?rq \<subseteq>\<^sub>m cached held (sy_rq s)"
    using cleanup_abs assms(1) by (simp add: sys_inv_def)
  moreover have "s' = s\<lparr>sy_rq := ?rq\<rparr>" using Cleanup assms(2) by (simp split: if_splits)
  moreover have "prov finish ca chs ts log \<Longrightarrow> ca' \<subseteq>\<^sub>m ca \<Longrightarrow> prov finish ca' chs ts log" for ca ca' chs ts log
    by (auto simp: prov_def map_le_def dom_def)
  ultimately show ?thesis using assms(1) by (auto simp: sys_inv_def)
next
  case (Tick d)
  then show ?thesis using assms by (auto simp: sys_inv_def)
next
  case (Look t)
  then show ?thesis using inv_Look [OF assms(1)] assms(2) by (simp only:)
next
  case (Register t)
  then show ?thesis using inv_Register [OF assms(1)] assms(2) by (simp only:)
next
  case (Receive t)
  then show ?thesis using inv_Receive [OF assms(1)] assms(2) by (simp only:)
next
  case (Notify t b st hs)
  then show ?thesis using inv_Notify [OF assms(1)] assms(2) by (simp only:)
next
  case (Store t)
  then show ?thesis using inv_Store [OF assms(1)] assms(2) by (simp only:)
next
  case (Cancel t)
  then show ?thesis using inv_Cancel [OF assms(1)] assms(2) by (simp only:)
next
  case (Drop t)
  then show ?thesis using inv_Drop [OF assms(1)] assms(2) by (simp only:)
qed

lemma inv_reachable:
  assumes "reachable L finish rq s" and "rq_wf rq" and "flight rq = Map.empty" and "cached held rq = Map.empty"
  shows "sys_inv finish s"
  using assms by (induction rule: reachable.induct) (auto intro: sys_inv_init inv_exec)

lemma RequestCache_new_abs:
  "rq_wf (RequestCache_new L env ttl n)" "flight (RequestCache_new L env ttl n) = Map.empty"
  "cached held (RequestCache_new L env ttl n) = Map.empty"
  by (auto simp: rq_wf_new flight_def cached_def get_shard_new CacheShard_new_def held_new)

lemmas inv_new = inv_reachable [OF _ RequestCache_new_abs]

end


section \<open>The key identifies the request\<close>

text \<open>A request as the gateway makes it: the endpoint is UTF-8 text, lengths fit \<^verbatim>\<open>usize\<close>.\<close>

definition request_wf :: "request \<Rightarrow> bool" where
  "request_wf q \<longleftrightarrow> CHR 0xFF \<notin> set (q_endpoint q) \<and>
     length (q_identity q) < 2 ^ 64 \<and> length (q_body q) < 2 ^ 64"

lemma length_le_bytes [simp]: "length (le_bytes w n) = w"
  by (induction w arbitrary: n) auto

lemma le_bytes_inject: "le_bytes w m = le_bytes w n \<Longrightarrow> m < 256 ^ w \<Longrightarrow> n < 256 ^ w \<Longrightarrow> m = n"
proof (induction w arbitrary: m n)
  case (Suc w)
  have "of_char (char_of (m mod 256) :: char) = (of_char (char_of (n mod 256) :: char) :: nat)"
    using Suc.prems(1) by simp
  then have "m mod 256 = n mod 256" by simp
  moreover have "m div 256 = n div 256"
    using Suc by (simp add: less_mult_imp_div_less mult.commute)
  ultimately show ?case by (metis div_mult_mod_eq)
qed simp

lemma hash_slice_inject:
  assumes "hash_slice a @ x = hash_slice b @ y" and "length a < 2 ^ 64" and "length b < 2 ^ 64"
  shows "a = b \<and> x = y"
proof -
  have "le_bytes 8 (length a) = le_bytes 8 (length b)" "a @ x = b @ y"
    using assms(1) by (simp_all add: hash_slice_def)
  moreover have "length a = length b"
    by (rule le_bytes_inject [OF calculation(1)]) (use assms(2,3) in simp_all)
  ultimately show ?thesis by simp
qed

lemma hash_input_inject:
  assumes "hash_input (q_endpoint q) (q_identity q) (q_body q) =
      hash_input (q_endpoint q') (q_identity q') (q_body q')"
    and "request_wf q" and "request_wf q'"
  shows "q = q'"
proof -
  have wf: "CHR 0xFF \<notin> set (q_endpoint q)" "CHR 0xFF \<notin> set (q_endpoint q')"
      "length (q_identity q) < 2 ^ 64" "length (q_identity q') < 2 ^ 64"
      "length (q_body q) < 2 ^ 64" "length (q_body q') < 2 ^ 64"
    using assms(2,3) by (simp_all add: request_wf_def)
  have "q_endpoint q @ CHR 0xFF # hash_slice (q_identity q) @ hash_slice (q_body q) =
      q_endpoint q' @ CHR 0xFF # hash_slice (q_identity q') @ hash_slice (q_body q')"
    using assms(1) by (simp add: hash_input_def)
  note e = append_sep_inject [OF wf(1,2) this]
  note i = hash_slice_inject [OF conjunct2 [OF e] wf(3,4)]
  have "hash_slice (q_body q) @ [] = hash_slice (q_body q') @ []" using i by simp
  note b = hash_slice_inject [OF this wf(5,6)]
  show ?thesis using e i b by simp
qed


section \<open>A reference LRU cache\<close>

text \<open>Most recently used entry first, at most \<open>fst c\<close> (and at least one) of them.\<close>

type_synonym ref_lru = "nat \<times> (cache_id \<times> CacheEntry) list"

definition ref_lru :: "ref_lru lru_ops" where
  "ref_lru = \<lparr>
     lru_new = (\<lambda>n. (n, [])),
     lru_get = (\<lambda>c k. (map_of (snd c) k, fst c,
        (case map_of (snd c) k of None \<Rightarrow> [] | Some e \<Rightarrow> [(k, e)]) @ AList.delete k (snd c))),
     lru_put = (\<lambda>c k e. (fst c, (k, e) # take (fst c - 1) (AList.delete k (snd c)))),
     lru_pop = (\<lambda>c k. (fst c, AList.delete k (snd c))),
     lru_iter = (\<lambda>c. filter (\<lambda>(k, e). map_of (snd c) k = Some e) (snd c)),
     lru_len = (\<lambda>c. length (remdups (map fst (snd c)))) \<rparr>"

lemma map_of_take: "map_of (take n xs) k = Some e \<Longrightarrow> map_of xs k = Some e"
  by (induction xs arbitrary: n) (auto simp: take_Cons split: nat.splits if_splits)

interpretation ref_cache: lru_cache ref_lru "\<lambda>c. map_of (snd c)"
proof
  show "map_of (snd (snd (lru_get ref_lru c k))) = map_of (snd c)" for c k
    by (auto simp: ref_lru_def delete_conv fun_eq_iff map_add_def split: option.splits)
  show "k' \<noteq> k \<Longrightarrow> map_of (snd (lru_put ref_lru c k e)) k' = Some e' \<Longrightarrow> map_of (snd c) k' = Some e'"
    for k' k c e e'
    by (auto simp: ref_lru_def delete_conv dest!: map_of_take split: if_splits)
  show "lru_len ref_lru c = card (dom (map_of (snd c)))" for c
    by (simp add: ref_lru_def dom_map_of_conv_image_fst length_remdups_card_conv)
qed (auto simp: ref_lru_def delete_conv dest: map_of_SomeD)


text \<open>A concrete schedule, for the examples below.\<close>

fun run_events :: "'c lru_ops \<Rightarrow> (bytes \<Rightarrow> 64 word) \<Rightarrow> event list \<Rightarrow> 'c system \<Rightarrow> 'c system option" where
  "run_events L finish [] s = Some s"
| "run_events L finish (ev # evs) s = Option.bind (exec L finish ev s) (run_events L finish evs)"

lemma reachable_run:
  "reachable L finish rq s \<Longrightarrow> run_events L finish evs s = Some s' \<Longrightarrow> reachable L finish rq s'"
  by (induction evs arbitrary: s) (auto simp: bind_eq_Some_conv intro: reachable.step)

definition sample_request :: request where
  "sample_request = \<lparr>q_endpoint = ''e'', q_identity = ''a'', q_body = ''b''\<rparr>"

definition sample_system :: "ref_lru system" where
  "sample_system = system_init (RequestCache_new ref_lru (\<lambda>_. None) 60 100)"

definition sample_events :: "event list" where
  "sample_events = [Start 0 sample_request, Look 0, Register 0, Start 1 sample_request, Look 1, Register 1]"

lemma shard_index_0 [simp]: "shard_index 0 = 0"
  by (simp add: shard_index_def)

lemma shard_0: "rq_shards rq ! 0 = get_shard rq 0"
  by (simp add: get_shard_def)

lemmas run_simps = sample_events_def sample_system_def system_init_def rq_wf_new get_shard_new
  cache_lookup_def join_or_register_def lookup_fresh_def get_shard_upd req_key_def cache_key_def
  CacheShard_new_def ref_lru_def recv_def set_task_def

section \<open>Main properties of the cache\<close>

text \<open>
  C9: single flight, without lost wake-ups. Whatever the interleaving of requests, completions,
  cancellations and dropped futures, no two tasks execute a request of the same key at the same
  time, and a task that waits for another's response either has a live executor of its key or can
  proceed at once.
\<close>

theorem single_flight:
  assumes "lru_cache L held" and "reachable L finish (RequestCache_new L env ttl n) s"
  shows "(\<forall>t t' q q' h h'. sy_tasks s t = Executing q h \<and> sy_tasks s t' = Executing q' h' \<and>
       req_key finish q = req_key finish q' \<longrightarrow> t = t') \<and>
    (\<forall>t q c. sy_tasks s t = Waiting q c \<longrightarrow>
       (\<exists>t' q' h. sy_tasks s t' = Executing q' h \<and> req_key finish q' = req_key finish q) \<or>
       (\<exists>s'. exec L finish (Receive t) s = Some s'))"
proof -
  have "coord finish (flight (sy_rq s)) (sy_chs s) (sy_tasks s)"
    using lru_cache.inv_new [OF assms] by (simp add: lru_cache.sys_inv_def [OF assms(1)])
  note D = coordD [OF this]
  have "\<exists>t' q' h. sy_tasks s t' = Executing q' h \<and> req_key finish q' = req_key finish q"
    if "sy_tasks s t = Waiting q c" "sy_chs s ! c = Open" for t q c
    using D(7) [OF D(10) [OF that]] .
  moreover have "\<exists>s'. exec L finish (Receive t) s = Some s'"
    if "sy_tasks s t = Waiting q c" "sy_chs s ! c \<noteq> Open" for t q c
    using that by (cases "sy_chs s ! c") (simp_all add: recv_def)
  ultimately show ?thesis using D(4) by blast
qed

theorem single_flight_witness:
  "\<exists>s. run_events ref_lru (\<lambda>_. 0) sample_events sample_system = Some s \<and>
     sy_tasks s 1 = Waiting sample_request 0 \<and>
     (\<exists>t' q' h. sy_tasks s t' = Executing q' h \<and> req_key (\<lambda>_. 0) q' = req_key (\<lambda>_. 0) sample_request)"
proof -
  have "map_option (\<lambda>s. (sy_tasks s 1, exec ref_lru (\<lambda>_. 0) (Receive 1) s = None))
      (run_events ref_lru (\<lambda>_. 0) sample_events sample_system) = Some (Waiting sample_request 0, True)"
    by (simp add: run_simps)
  then obtain s where s: "run_events ref_lru (\<lambda>_. 0) sample_events sample_system = Some s"
    and w: "sy_tasks s 1 = Waiting sample_request 0" "exec ref_lru (\<lambda>_. 0) (Receive 1) s = None" by auto
  have "reachable ref_lru (\<lambda>_. 0) (RequestCache_new ref_lru (\<lambda>_. None) 60 100) s"
    by (rule reachable_run [OF reachable.init]) (use s in \<open>simp add: sample_system_def\<close>)
  from single_flight [OF ref_cache.lru_cache_axioms this] s w show ?thesis by (metis option.distinct(1))
qed

text \<open>
  C17: a response served from the cache or shared with a waiter was produced by an execution of the
  very same request: same endpoint, same caller identity, same body. The only hypothesis is that
  the 64-bit digests of the requests executed so far do not collide with this one's.
\<close>

theorem response_isolation:
  assumes "lru_cache L held" and "reachable L finish (RequestCache_new L env ttl n) s"
    and "sy_tasks s t = Answered q r" and "request_wf q"
    and "\<forall>q' \<in> fst ` set (sy_log s). request_wf q' \<and>
      (req_key finish q' = req_key finish q \<longrightarrow>
        hash_input (q_endpoint q') (q_identity q') (q_body q') =
        hash_input (q_endpoint q) (q_identity q) (q_body q))"
  shows "\<exists>e. (q, e) \<in> set (sy_log s) \<and> (r = Cached (response_of e) \<or> r = Coalesced (response_of e))"
proof -
  have "prov finish (cached held (sy_rq s)) (sy_chs s) (sy_tasks s) (sy_log s)"
    using lru_cache.inv_new [OF assms(1,2)] by (simp add: lru_cache.sys_inv_def [OF assms(1)])
  then obtain e where "produced finish (sy_log s) (req_key finish q) e"
    and r: "r = Cached (response_of e) \<or> r = Coalesced (response_of e)"
    using provD(4) assms(3) by blast
  then obtain q' where q': "(q', e) \<in> set (sy_log s)" "req_key finish q' = req_key finish q"
    by (auto simp: produced_def)
  then have "request_wf q'" "hash_input (q_endpoint q') (q_identity q') (q_body q') =
      hash_input (q_endpoint q) (q_identity q) (q_body q)"
    using assms(5) by force+
  then have "q' = q" using hash_input_inject assms(4) by blast
  then show ?thesis using q'(1) r by blast
qed

theorem response_isolation_witness:
  "\<exists>s r. run_events ref_lru (\<lambda>_. 0) (sample_events @ [Notify 0 ''tools'' 200 [], Receive 1]) sample_system = Some s \<and>
     sy_tasks s 1 = Answered sample_request r \<and>
     (\<exists>e. (sample_request, e) \<in> set (sy_log s) \<and> (r = Cached (response_of e) \<or> r = Coalesced (response_of e)))"
proof -
  let ?r = "Coalesced \<lparr>crs_body = ''tools'', crs_status = 200, crs_headers = []\<rparr>"
  have "map_option (\<lambda>s. (sy_tasks s 1, map fst (sy_log s)))
      (run_events ref_lru (\<lambda>_. 0) (sample_events @ [Notify 0 ''tools'' 200 [], Receive 1]) sample_system) =
      Some (Answered sample_request ?r, [sample_request])"
    by (simp add: run_simps complete_notify_def in_flight_remove_def complete_entry_def response_of_def
        shard_0 Let_def)
  then obtain s where s: "run_events ref_lru (\<lambda>_. 0) (sample_events @ [Notify 0 ''tools'' 200 [], Receive 1]) sample_system = Some s"
    and a: "sy_tasks s 1 = Answered sample_request ?r" and log: "map fst (sy_log s) = [sample_request]" by auto
  have reach: "reachable ref_lru (\<lambda>_. 0) (RequestCache_new ref_lru (\<lambda>_. None) 60 100) s"
    by (rule reachable_run [OF reachable.init]) (use s in \<open>simp add: sample_system_def\<close>)
  have "fst ` set (sy_log s) = {sample_request}" using log by (metis list.set_map list.simps(15) list.set(1))
  moreover have "request_wf sample_request" by (simp add: request_wf_def sample_request_def)
  ultimately have "\<exists>e. (sample_request, e) \<in> set (sy_log s) \<and>
      (?r = Cached (response_of e) \<or> ?r = Coalesced (response_of e))"
    by (intro response_isolation [OF ref_cache.lru_cache_axioms reach a]) simp_all
  then show ?thesis using s a by blast
qed

text \<open>
  The cache keeps what it stores for its time to live and no longer. A response that is small
  enough is found again exactly while it is younger than the TTL, an oversized one is not stored,
  and the periodic clean-up removes exactly the expired entries and no in-flight request.
\<close>

theorem store_lookup:
  assumes "lru_cache L held" and "rq_wf rq" and "handle_for k h"
  shows "fst (cache_lookup L now k (complete_store L h e rq)) =
      (if length (en_response_body e) \<le> rq_max_response_size rq
       then (if now - en_created_at e < rq_ttl rq then Some (response_of e) else None)
       else fst (cache_lookup L now k rq)) \<and>
    (cached held (cleanup_expired L now rq) k' = Some e' \<longleftrightarrow>
       cached held rq k' = Some e' \<and> now - en_created_at e' < rq_ttl rq) \<and>
    flight (cleanup_expired L now rq) = flight rq"
proof -
  have "cached held (complete_store L h e rq) k = Some e" "rq_wf (complete_store L h e rq)"
      "rq_ttl (complete_store L h e rq) = rq_ttl rq"
    if "length (en_response_body e) \<le> rq_max_response_size rq"
    using that assms(2,3) lru_cache.held_put [OF assms(1)]
    by (simp_all add: complete_store_def handle_for_def cached_def get_shard_upd)
  then have "fst (cache_lookup L now k (complete_store L h e rq)) =
      (if now - en_created_at e < rq_ttl rq then Some (response_of e) else None)"
    if "length (en_response_body e) \<le> rq_max_response_size rq"
    using that lru_cache.cache_lookup_abs [OF assms(1), of "complete_store L h e rq" now k] by auto
  moreover have "complete_store L h e rq = rq" if "\<not> length (en_response_body e) \<le> rq_max_response_size rq"
    using that by (simp add: complete_store_def)
  moreover have shard: "get_shard (cleanup_expired L now rq) x = cleanup_shard L (rq_ttl rq) now (get_shard rq x)" for x
    using shard_index_less [of x] assms(2) by (simp add: get_shard_def cleanup_expired_def rq_wf_def)
  moreover have "flight (cleanup_expired L now rq) = flight rq"
    by (simp add: flight_def shard fun_eq_iff cleanup_shard_def)
  ultimately show ?thesis
    using lru_cache.cleanup_shard_held [OF assms(1)] by (simp add: cached_def)
qed


theorem store_lookup_witness:
  "let rq = RequestCache_new ref_lru (\<lambda>_. None) 60 100; h = \<lparr>hd_shard = 0, hd_key = 0, hd_completed = True\<rparr>;
       e = complete_entry 1000 ''tools'' 200 []
   in fst (cache_lookup ref_lru 1059 0 (complete_store ref_lru h e rq)) = Some (response_of e) \<and>
      fst (cache_lookup ref_lru 1060 0 (complete_store ref_lru h e rq)) = None"
proof -
  let ?rq = "RequestCache_new ref_lru (\<lambda>_. None) 60 100"
  have rq: "rq_ttl ?rq = 60" "rq_max_response_size ?rq = 1024 * 1024"
    by (simp_all add: RequestCache_new_def max_cacheable_response_size_def)
  have h: "handle_for 0 \<lparr>hd_shard = 0, hd_key = 0, hd_completed = True\<rparr>" by (simp add: handle_for_def)
  show ?thesis
    using store_lookup [OF ref_cache.lru_cache_axioms rq_wf_new h, of 1059 "complete_entry 1000 ''tools'' 200 []"]
      store_lookup [OF ref_cache.lru_cache_axioms rq_wf_new h, of 1060 "complete_entry 1000 ''tools'' 200 []"]
    by (simp add: Let_def rq complete_entry_def)
qed

end
