(* ===== verification/Proxy_Auth.thy ===== *)
theory Proxy_Auth
  imports Rate_Limit
begin

text \<open>
  Authentication (\<^verbatim>\<open>crates/proxy/src/auth.rs\<close>): finding the token in a request, validating API keys
  (Redis cache, then database) and OAuth access tokens, with the brute-force bookkeeping around
  both. The database is a parameter: the answers of the repository queries the code awaits and
  the effect of the two updates it spawns. A spawned task's effect is applied where it is spawned.
\<close>

section \<open>Credentials\<close>

datatype AuthCredential = Cred_ApiKey ApiKey | Cred_OAuthToken OAuthAccessTokenWithClient

fun cred_workspace_id :: "AuthCredential \<Rightarrow> uuid option" where
  "cred_workspace_id (Cred_ApiKey key) = Some (key_workspace_id key)"
| "cred_workspace_id (Cred_OAuthToken token) = tok_workspace_id token"

fun cred_server_id :: "AuthCredential \<Rightarrow> uuid option" where
  "cred_server_id (Cred_ApiKey key) = key_server_id key"
| "cred_server_id (Cred_OAuthToken token) = tok_server_id token"

fun cred_scope_checker :: "AuthCredential \<Rightarrow> ScopeChecker" where
  "cred_scope_checker (Cred_ApiKey key) = ApiKey_scope_checker key"
| "cred_scope_checker (Cred_OAuthToken token) = OAuthToken_scope_checker token"

definition is_method_allowed :: "AuthCredential \<Rightarrow> McpMethod \<Rightarrow> string option \<Rightarrow> bool" where
  "is_method_allowed cred mth target = is_allowed (cred_scope_checker cred) mth target"

fun cred_scopes :: "AuthCredential \<Rightarrow> string list" where
  "cred_scopes (Cred_ApiKey key) = ApiKey_scopes key"
| "cred_scopes (Cred_OAuthToken token) = OAuthToken_scopes token"

fun cred_id :: "AuthCredential \<Rightarrow> uuid" where
  "cred_id (Cred_ApiKey key) = key_id key"
| "cred_id (Cred_OAuthToken token) = tok_id token"

datatype TokenType = TokenType_ApiKey | TokenType_OAuthToken

definition detect_token_type :: "string \<Rightarrow> TokenType" where
  "detect_token_type token =
     (if str_starts_with token ''mcp_'' then TokenType_ApiKey else TokenType_OAuthToken)"

definition extract_api_key :: "headers \<Rightarrow> ProxyError + string" where
  "extract_api_key h =
     (let from_x_api_key =
            (case hdr_get h ''x-api-key'' of
               Some v \<Rightarrow>
                 (case hdr_to_str v of
                    None \<Rightarrow> Inl (Unauthorized ''Invalid API key header'' None)
                  | Some key \<Rightarrow> Inr key)
             | None \<Rightarrow>
                 Inl (Unauthorized ''Missing API key. Use Authorization header or X-API-Key header.'' None))
      in case hdr_get h ''authorization'' of
           None \<Rightarrow> from_x_api_key
         | Some v \<Rightarrow>
             (case hdr_to_str v of
                None \<Rightarrow> Inl (Unauthorized ''Invalid authorization header'' None)
              | Some auth \<Rightarrow>
                  (case str_strip_prefix auth ''Bearer '' of
                     Some key \<Rightarrow> Inr key
                   | None \<Rightarrow> from_x_api_key)))"


section \<open>Validation\<close>

text \<open>The queries and updates of the repositories; a query's \<open>Inl\<close> is the database error's text.\<close>

record 'd auth_db =
  db_api_key_by_hash :: "'d \<Rightarrow> string \<Rightarrow> string + ApiKey option"
  db_oauth_token_by_hash :: "'d \<Rightarrow> string \<Rightarrow> string + OAuthAccessTokenWithClient option"
  db_touch_api_key :: "'d \<Rightarrow> uuid \<Rightarrow> 'd"
  db_touch_oauth_token :: "'d \<Rightarrow> uuid \<Rightarrow> 'd"

text \<open>What stays fixed while the gateway runs.\<close>

record ('s, 'd) auth_env =
  ae_redis :: "'s redis_ops"
  ae_serde :: "CachedApiKey serde"
  ae_db :: "'d auth_db"
  ae_brute_force :: BruteForceConfig
  ae_sha256_hex :: "string \<Rightarrow> string"

definition lockout_error :: "'s redis_ops \<Rightarrow> 's \<Rightarrow> string \<Rightarrow> ProxyError" where
  "lockout_error R s client_ip =
     Unauthorized (''Too many failed attempts. Please try again in '' @
       show_int (unwrap_or (get_api_key_lockout_remaining R s client_ip) 0) @ '' seconds.'') None"

definition validate_api_key ::
  "('s, 'd) auth_env \<Rightarrow> timestamp \<Rightarrow> string \<Rightarrow> string \<Rightarrow> 's \<times> 'd \<Rightarrow> (ProxyError + ApiKey) \<times> 's \<times> 'd" where
  "validate_api_key A now api_key client_ip st =
     (let R = ae_redis A; s = fst st; d = snd st;
          fail_attempt = record_api_key_failed_attempt R (ae_brute_force A) s client_ip
      in if is_api_key_locked_out R s client_ip then (Inl (lockout_error R s client_ip), s, d)
         else if \<not> ApiKey_is_valid_format api_key then
           (Inl (Unauthorized ''Invalid API key format'' None), fail_attempt, d)
         else
           (let key_hash = ae_sha256_hex A api_key
            in case get_api_key R (ae_serde A) s key_hash of
                 Some cached \<Rightarrow>
                   (let record = to_api_key now cached
                    in if ApiKey_is_expired now record then
                         (Inl (Unauthorized ''API key expired'' None), fail_attempt, d)
                       else (Inr record, clear_api_key_failed_attempts R s client_ip,
                             db_touch_api_key (ae_db A) d (key_id record)))
               | None \<Rightarrow>
                   (case db_api_key_by_hash (ae_db A) d key_hash of
                      Inl e \<Rightarrow> (Inl (Internal e), s, d)
                    | Inr None \<Rightarrow> (Inl (Unauthorized ''Invalid API key'' None), fail_attempt, d)
                    | Inr (Some record) \<Rightarrow>
                        (if ApiKey_is_expired now record then
                           (Inl (Unauthorized ''API key expired'' None), fail_attempt, d)
                         else (Inr record,
                               set_api_key R (ae_serde A) (clear_api_key_failed_attempts R s client_ip)
                                 key_hash record,
                               db_touch_api_key (ae_db A) d (key_id record))))))"

definition validate_oauth_token ::
  "('s, 'd) auth_env \<Rightarrow> timestamp \<Rightarrow> string \<Rightarrow> string \<Rightarrow> 's \<times> 'd \<Rightarrow>
   (ProxyError + OAuthAccessTokenWithClient) \<times> 's \<times> 'd" where
  "validate_oauth_token A now token client_ip st =
     (let R = ae_redis A; s = fst st; d = snd st;
          fail_attempt = record_api_key_failed_attempt R (ae_brute_force A) s client_ip
      in if is_api_key_locked_out R s client_ip then (Inl (lockout_error R s client_ip), s, d)
         else
           (case db_oauth_token_by_hash (ae_db A) d (ae_sha256_hex A token) of
              Inl e \<Rightarrow> (Inl (Internal e), s, d)
            | Inr None \<Rightarrow> (Inl (Unauthorized ''Invalid access token'' None), fail_attempt, d)
            | Inr (Some oauth_token) \<Rightarrow>
                (if \<not> OAuthToken_is_valid now oauth_token then
                   (Inl (Unauthorized ''Access token expired or revoked'' None), fail_attempt, d)
                 else (Inr oauth_token, clear_api_key_failed_attempts R s client_ip,
                       db_touch_oauth_token (ae_db A) d (tok_id oauth_token)))))"

definition validate_credential ::
  "('s, 'd) auth_env \<Rightarrow> timestamp \<Rightarrow> string \<Rightarrow> string \<Rightarrow> 's \<times> 'd \<Rightarrow>
   (ProxyError + AuthCredential) \<times> 's \<times> 'd" where
  "validate_credential A now token client_ip st =
     (case detect_token_type token of
        TokenType_ApiKey \<Rightarrow>
          (case validate_api_key A now token client_ip st of (r, st') \<Rightarrow> (map_sum id Cred_ApiKey r, st'))
      | TokenType_OAuthToken \<Rightarrow>
          (case validate_oauth_token A now token client_ip st of
             (r, st') \<Rightarrow> (map_sum id Cred_OAuthToken r, st')))"


section \<open>Correctness: accepted credentials\<close>

lemma validate_api_key_Inr:
  assumes "validate_api_key A now token ip (s, d) = (Inr k, s', d')"
  shows "\<not> is_api_key_locked_out (ae_redis A) s ip" and "ApiKey_is_valid_format token"
    and "\<not> ApiKey_is_expired now k" and "d' = db_touch_api_key (ae_db A) d (key_id k)"
    and "get_api_key (ae_redis A) (ae_serde A) s (ae_sha256_hex A token) = None \<Longrightarrow>
      db_api_key_by_hash (ae_db A) d (ae_sha256_hex A token) = Inr (Some k) \<and>
      s' = set_api_key (ae_redis A) (ae_serde A) (clear_api_key_failed_attempts (ae_redis A) s ip)
             (ae_sha256_hex A token) k"
    and "get_api_key (ae_redis A) (ae_serde A) s (ae_sha256_hex A token) = Some c \<Longrightarrow>
      k = to_api_key now c \<and> s' = clear_api_key_failed_attempts (ae_redis A) s ip"
  using assms by (auto simp: validate_api_key_def Let_def split: if_splits option.splits sum.splits)

lemma validate_oauth_token_Inr:
  assumes "validate_oauth_token A now token ip (s, d) = (Inr t, s', d')"
  shows "\<not> is_api_key_locked_out (ae_redis A) s ip \<and>
    db_oauth_token_by_hash (ae_db A) d (ae_sha256_hex A token) = Inr (Some t) \<and>
    OAuthToken_is_valid now t \<and> s' = clear_api_key_failed_attempts (ae_redis A) s ip"
  using assms by (auto simp: validate_oauth_token_def Let_def split: if_splits option.splits sum.splits)

lemma validate_credential_Inr:
  assumes "validate_credential A now token ip (s, d) = (Inr cred, s', d')"
  shows "(\<exists>k. cred = Cred_ApiKey k \<and> detect_token_type token = TokenType_ApiKey \<and>
      validate_api_key A now token ip (s, d) = (Inr k, s', d')) \<or>
    (\<exists>t. cred = Cred_OAuthToken t \<and> detect_token_type token = TokenType_OAuthToken \<and>
      validate_oauth_token A now token ip (s, d) = (Inr t, s', d'))"
proof (cases "detect_token_type token")
  case TokenType_ApiKey
  then show ?thesis using assms
    by (cases "validate_api_key A now token ip (s, d)"; cases "fst (validate_api_key A now token ip (s, d))")
      (auto simp: validate_credential_def)
next
  case TokenType_OAuthToken
  then show ?thesis using assms
    by (cases "validate_oauth_token A now token ip (s, d)"; cases "fst (validate_oauth_token A now token ip (s, d))")
      (auto simp: validate_credential_def)
qed

text \<open>The cache is invisible to the answer when it holds what the database holds.\<close>

lemma validate_api_key_cached:
  assumes "\<not> is_api_key_locked_out (ae_redis A) s ip" and "ApiKey_is_valid_format token"
    and "get_api_key (ae_redis A) (ae_serde A) s (ae_sha256_hex A token) = Some (CachedApiKey_from k)"
    and "\<not> ApiKey_is_expired now k"
  shows "validate_api_key A now token ip (s, d) =
    (Inr (to_api_key now (CachedApiKey_from k)), clear_api_key_failed_attempts (ae_redis A) s ip,
     db_touch_api_key (ae_db A) d (key_id k))"
  using assms by (simp add: validate_api_key_def Let_def)

lemma validate_api_key_deleted:
  assumes "get_api_key (ae_redis A) (ae_serde A) s (ae_sha256_hex A token) = None"
    and "db_api_key_by_hash (ae_db A) d (ae_sha256_hex A token) = Inr None"
  shows "fst (validate_api_key A now token ip (s, d)) \<noteq> Inr k"
  using assms by (simp add: validate_api_key_def Let_def)



text \<open>A serializer for cached keys with the derive's contract, for concrete instances.\<close>

fun json_opt_int :: "int option \<Rightarrow> json" where
  "json_opt_int None = JNull"
| "json_opt_int (Some i) = JNumber (NInt i)"

fun opt_int_of :: "json \<Rightarrow> int option" where
  "opt_int_of (JNumber (NInt i)) = Some i"
| "opt_int_of _ = None"

lemma opt_int_of_json [simp]: "opt_int_of (json_opt_int x) = x"
  by (cases x) auto

definition ref_key_serde :: "CachedApiKey serde" where
  "ref_key_serde = \<lparr>
     ser = (\<lambda>c. Some (enc_json (JArray
       [JNumber (NInt (uint (ck_id c))), JNumber (NInt (uint (ck_workspace_id c))),
        json_opt_int (map_option uint (ck_server_id c)), JString (ck_name c), ck_scopes c,
        json_opt_int (ck_expires_at c)]))),
     de = (\<lambda>j. case dec_json (Suc (length j)) j of
       Some (JArray [JNumber (NInt i), JNumber (NInt w), sid, JString n, scopes, ex], []) \<Rightarrow>
         Some \<lparr> ck_id = word_of_int i, ck_workspace_id = word_of_int w,
                ck_server_id = map_option word_of_int (opt_int_of sid), ck_name = n,
                ck_scopes = scopes, ck_expires_at = opt_int_of ex \<rparr>
     | _ \<Rightarrow> None) \<rparr>"

interpretation key_form: serde_derive ref_key_serde
proof
  show "ser ref_key_serde c \<noteq> None" for c by (simp add: ref_key_serde_def)
  fix c j
  assume "ser ref_key_serde c = Some j"
  then have j: "j = enc_json (JArray
       [JNumber (NInt (uint (ck_id c))), JNumber (NInt (uint (ck_workspace_id c))),
        json_opt_int (map_option uint (ck_server_id c)), JString (ck_name c), ck_scopes c,
        json_opt_int (ck_expires_at c)])" (is "j = enc_json ?v")
    by (simp add: ref_key_serde_def)
  have "dec_json (Suc (length j)) j = Some (?v, [])"
    using dec_enc_json [of ?v "Suc (length j)" "[]"] unfolding j by (simp only: append_Nil2 lessI)
  then show "de ref_key_serde j = Some c"
    by (simp add: ref_key_serde_def option.map_comp comp_def option.map_ident)
qed

definition sample_key :: ApiKey where
  "sample_key = \<lparr> key_id = 3, key_workspace_id = 5, key_server_id = None, key_name = ''ci'',
     key_key_prefix = ''mcp_00000000'', key_key_hash = ''mcp_000000000000'', key_scopes = JArray [JString ''*''],
     key_last_used_at = None, key_expires_at = None, key_created_at = 0 \<rparr>"

text \<open>A database whose state is the row of one key, if it has not been deleted.\<close>

definition sample_auth :: "(ref_store, ApiKey option) auth_env" where
  "sample_auth = \<lparr> ae_redis = ref_redis, ae_serde = ref_key_serde,
     ae_db = \<lparr> db_api_key_by_hash = (\<lambda>d h. Inr (case d of Some k \<Rightarrow> (if key_key_hash k = h then Some k else None) | None \<Rightarrow> None)),
               db_oauth_token_by_hash = (\<lambda>_ _. Inr None),
               db_touch_api_key = (\<lambda>d _. d), db_touch_oauth_token = (\<lambda>d _. d) \<rparr>,
     ae_brute_force = \<lparr>max_attempts = 3, lockout_secs = 600, attempt_window_secs = 300\<rparr>,
     ae_sha256_hex = (\<lambda>t. t) \<rparr>"



section \<open>Correctness: guessing credentials\<close>

text \<open>A token that no row of the database makes acceptable, and that costs its sender an attempt.\<close>

definition wrong_guess :: "('s, 'd) auth_env \<Rightarrow> 'd \<Rightarrow> timestamp \<Rightarrow> string \<Rightarrow> bool" where
  "wrong_guess A d now token =
     (case detect_token_type token of
        TokenType_ApiKey \<Rightarrow>
          (ApiKey_is_valid_format token \<longrightarrow>
            (case db_api_key_by_hash (ae_db A) d (ae_sha256_hex A token) of
               Inl _ \<Rightarrow> False | Inr None \<Rightarrow> True | Inr (Some k) \<Rightarrow> ApiKey_is_expired now k))
      | TokenType_OAuthToken \<Rightarrow>
          (case db_oauth_token_by_hash (ae_db A) d (ae_sha256_hex A token) of
             Inl _ \<Rightarrow> False | Inr None \<Rightarrow> True | Inr (Some t) \<Rightarrow> \<not> OAuthToken_is_valid now t))"

text \<open>A series of guesses from one address, each made \<open>w\<close> seconds after the one before.\<close>

fun guess_run ::
  "('s, 'd) auth_env \<Rightarrow> (nat \<Rightarrow> 's \<Rightarrow> 's) \<Rightarrow> string \<Rightarrow> 'd \<Rightarrow> (nat \<times> timestamp \<times> string) list \<Rightarrow> 's \<Rightarrow> 's" where
  "guess_run A elapse ip d [] s = s"
| "guess_run A elapse ip d ((w, now, token) # gs) s =
     guess_run A elapse ip d gs (fst (snd (validate_credential A now token ip (elapse w s, d))))"

lemma wrong_guess_counts:
  assumes "wrong_guess A d now token" and "\<not> is_api_key_locked_out (ae_redis A) s ip"
    and "get_api_key (ae_redis A) (ae_serde A) s (ae_sha256_hex A token) = None"
  shows "\<exists>e. validate_credential A now token ip (s, d) =
    (Inl e, record_api_key_failed_attempt (ae_redis A) (ae_brute_force A) s ip, d)"
  using assms
  by (cases "detect_token_type token")
    (auto simp: wrong_guess_def validate_credential_def validate_api_key_def validate_oauth_token_def
      Let_def split: sum.splits option.splits)

lemma locked_out_refused:
  assumes "is_api_key_locked_out (ae_redis A) s ip"
  shows "validate_credential A now token ip (s, d) = (Inl (lockout_error (ae_redis A) s ip), s, d)"
  using assms
  by (cases "detect_token_type token")
    (simp_all add: validate_credential_def validate_api_key_def validate_oauth_token_def Let_def)

lemma fail_run_append: "fail_run R elapse cfg ip (xs @ ys) s = fail_run R elapse cfg ip ys (fail_run R elapse cfg ip xs s)"
  by (induction xs arbitrary: s) auto

lemma guess_run_append: "guess_run A elapse ip d (xs @ ys) s = guess_run A elapse ip d ys (guess_run A elapse ip d xs s)"
  by (induction xs arbitrary: s) auto

lemma cache_key_not_brute_force: "api_key_cache_key h \<noteq> attempts_key ip" "api_key_cache_key h \<noteq> lockout_key ip"
  by (simp_all add: api_key_cache_key_def attempts_key_def lockout_key_def API_KEY_BRUTE_FORCE_PREFIX_def)

context redis_server
begin

lemma failed_attempt_frame:
  assumes "0 < attempt_window_secs cfg" and "0 < lockout_secs cfg"
    and "k \<noteq> attempts_key ip" and "k \<noteq> lockout_key ip"
  shows "look (record_api_key_failed_attempt R cfg s ip) k = look s k"
proof -
  have "look s2 k = look s k" if "failed_attempt_script R cfg (attempts_key ip) (lockout_key ip) s = Some (n, s2)" for n s2
    using that assms incr_frame(1) [of s "attempts_key ip" _ _ k] expire_frame [OF assms(1)]
    by (auto simp: failed_attempt_script_def Let_def look_del look_set_ex split: option.splits if_splits)
  then show ?thesis by (auto simp: record_api_key_failed_attempt_def split: option.splits)
qed

lemma fail_run_frame:
  assumes "0 < attempt_window_secs cfg" and "0 < lockout_secs cfg"
    and "k \<noteq> attempts_key ip" and "k \<noteq> lockout_key ip" and "look s k = None"
  shows "look (fail_run R elapse cfg ip ws s) k = None"
  using assms(5)
  by (induction ws arbitrary: s) (simp_all add: failed_attempt_frame [OF assms(1-4)] look_elapse)

end

lemma guess_run_counts:
  assumes "limiter (ae_redis A) look elapse show_uuid" and "r_up (ae_redis A) s"
    and "look s (attempts_key ip) = None" and "look s (lockout_key ip) = None"
    and "max_attempts (ae_brute_force A) < 2 ^ 63" and "0 < lockout_secs (ae_brute_force A)"
    and "sum_list (map fst gs) < attempt_window_secs (ae_brute_force A)"
    and "int (length gs) \<le> max_attempts (ae_brute_force A)"
    and "\<forall>(w, now, token) \<in> set gs. wrong_guess A d now token \<and>
      look s (api_key_cache_key (ae_sha256_hex A token)) = None"
  shows "guess_run A elapse ip d gs s = fail_run (ae_redis A) elapse (ae_brute_force A) ip (map fst gs) s"
  using assms(7-9)
proof (induction gs rule: rev_induct)
  case (snoc g gs)
  let ?R = "ae_redis A" and ?cfg = "ae_brute_force A"
  have rs: "redis_server ?R look elapse" using assms(1) by (simp add: limiter_def)
  have up: "r_up ?R (elapse w t) = r_up ?R t" for w t
    using assms(1) by (simp add: limiter_def limiter_axioms_def)
  obtain w now token where g: "g = (w, now, token)" by (cases g)
  define t where "t = fail_run ?R elapse ?cfg ip (map fst gs) s"
  have IH: "guess_run A elapse ip d gs s = t" using snoc by (simp add: t_def)
  have "redis_server.counter_is look s (attempts_key ip) 0 (sum_list (map fst gs))"
    using assms(3) by (simp add: redis_server.counter_is_def [OF rs])
  from limiter.fail_run_lockout [OF assms(1) this assms(2,4) _ assms(5,6)] snoc.prems(1,2)
  have t: "r_up ?R t" "look t (lockout_key ip) = None" by (simp_all add: t_def)
  have "look t (api_key_cache_key (ae_sha256_hex A token)) = None"
    unfolding t_def
    by (rule redis_server.fail_run_frame [OF rs _ assms(6) cache_key_not_brute_force])
      (use snoc.prems(1,3) g in auto)
  then have "look (elapse w t) (api_key_cache_key (ae_sha256_hex A token)) = None"
    by (simp add: redis_server.look_elapse [OF rs])
  then have "get_api_key ?R (ae_serde A) (elapse w t) (ae_sha256_hex A token) = None"
    using redis_server.cache_get_look(2) [OF rs] by (simp add: get_api_key_def)
  moreover have "\<not> is_api_key_locked_out ?R (elapse w t) ip"
    using t(2) redis_server.look_elapse [OF rs] redis_server.exists_look [OF rs]
    by (simp add: is_api_key_locked_out_def)
  ultimately have "fst (snd (validate_credential A now token ip (elapse w t, d))) =
      record_api_key_failed_attempt ?R ?cfg (elapse w t) ip"
    using wrong_guess_counts [of A d now token "elapse w t" ip] snoc.prems(3) g by auto
  then show ?case by (simp add: guess_run_append fail_run_append IH g flip: t_def)
qed simp

lemma accepted_clears:
  assumes "redis_server (ae_redis A) look elapse" and "r_up (ae_redis A) s"
    and "validate_credential A now token ip (s, d) = (Inr cred, s', d')"
  shows "look s' (attempts_key ip) = None \<and> look s' (lockout_key ip) = None"
proof -
  let ?R = "ae_redis A" and ?s = "clear_api_key_failed_attempts (ae_redis A) s ip"
  note rules = redis_server.look_del [OF assms(1)] redis_server.up_del [OF assms(1)]
  have "\<not> is_api_key_locked_out ?R s ip"
    using locked_out_refused [of A s ip now token d] assms(3) by auto
  then have "look s (lockout_key ip) = None"
    using assms(2) redis_server.exists_look [OF assms(1)] by (cases "look s (lockout_key ip)") (auto simp: is_api_key_locked_out_def)
  then have s: "look ?s (attempts_key ip) = None" "look ?s (lockout_key ip) = None" "r_up ?R ?s"
    using assms(2) by (simp_all add: clear_api_key_failed_attempts_def rules)
  have cached: "look (set_api_key ?R (ae_serde A) ?s h k) x = look ?s x" if "x \<noteq> api_key_cache_key h" for h k x
    using that s(3) redis_server.look_set_ex [OF assms(1)]
    by (auto simp: set_api_key_def cache_set_def cache_ttl_defs split: option.splits)
  have "s' = ?s \<or> (\<exists>h k. s' = set_api_key ?R (ae_serde A) ?s h k)"
    using validate_credential_Inr [OF assms(3)]
  proof (elim disjE exE conjE)
    fix k assume v: "validate_api_key A now token ip (s, d) = (Inr k, s', d')"
    show ?thesis
      using validate_api_key_Inr(5,6) [OF v] by (cases "get_api_key ?R (ae_serde A) s (ae_sha256_hex A token)") auto
  next
    fix t assume v: "validate_oauth_token A now token ip (s, d) = (Inr t, s', d')"
    show ?thesis using validate_oauth_token_Inr [OF v] by simp
  qed
  then show ?thesis
    using s(1,2) cached cache_key_not_brute_force by (elim disjE exE) (auto simp: cache_key_not_brute_force [symmetric])
qed

text \<open>
  C34: What the lockout stops. When an address that has no failed attempt on record makes the configured number of wrong guesses
  within the attempt window and no accepted request in between, with API keys, malformed keys and OAuth tokens alike, every token
  it presents for the whole lockout time is refused, the right one included, and the refusals change nothing. An accepted request
  clears the record of its address and the count begins anew, so an address that keeps presenting one valid credential in
  between is not stopped.
\<close>

theorem brute_force_stopped:
  assumes "limiter (ae_redis A) look elapse show_uuid" and "r_up (ae_redis A) s"
    and "look s (attempts_key ip) = None" and "look s (lockout_key ip) = None"
    and "max_attempts (ae_brute_force A) < 2 ^ 63" and "0 < lockout_secs (ae_brute_force A)"
    and "sum_list (map fst gs) < attempt_window_secs (ae_brute_force A)"
    and "gs \<noteq> []" and "int (length gs) = max_attempts (ae_brute_force A)"
    and "\<forall>(w, now, token) \<in> set gs. wrong_guess A d now token \<and>
      look s (api_key_cache_key (ae_sha256_hex A token)) = None"
    and "e < lockout_secs (ae_brute_force A)"
  shows "(let s' = elapse e (guess_run A elapse ip d gs s)
    in validate_credential A now token ip (s', d') = (Inl (lockout_error (ae_redis A) s' ip), s', d')) \<and>
    (\<forall>s1 s2 now1 token1 d1 d2 cred. r_up (ae_redis A) s1 \<and> validate_credential A now1 token1 ip (s1, d1) = (Inr cred, s2, d2) \<longrightarrow>
      look s2 (attempts_key ip) = None \<and> look s2 (lockout_key ip) = None)"
proof -
  let ?R = "ae_redis A" and ?cfg = "ae_brute_force A"
  have rs: "redis_server ?R look elapse" using assms(1) by (simp add: limiter_def)
  have up: "r_up ?R (elapse w t) = r_up ?R t" for w t
    using assms(1) by (simp add: limiter_def limiter_axioms_def)
  have run: "guess_run A elapse ip d gs s = fail_run ?R elapse ?cfg ip (map fst gs) s"
    by (rule guess_run_counts [OF assms(1-7)]) (use assms(9,10) in simp_all)
  have "redis_server.counter_is look s (attempts_key ip) 0 (sum_list (map fst gs))"
    using assms(3) by (simp add: redis_server.counter_is_def [OF rs])
  moreover have "int 0 < max_attempts ?cfg" using assms(8) unfolding assms(9) [symmetric] by simp
  ultimately have "r_up ?R (guess_run A elapse ip d gs s)"
      "look (guess_run A elapse ip d gs s) (lockout_key ip) = Some (RInt 1, Some (lockout_secs ?cfg))"
    using limiter.fail_run_lockout [OF assms(1) _ assms(2,4) _ assms(5-7)] assms(9) by (simp_all add: run)
  then have "is_api_key_locked_out ?R (elapse e (guess_run A elapse ip d gs s)) ip"
    using assms(11) redis_server.exists_look [OF rs] redis_server.look_elapse [OF rs] up
    by (simp add: is_api_key_locked_out_def)
  then have "validate_credential A now token ip (elapse e (guess_run A elapse ip d gs s), d') =
      (Inl (lockout_error (ae_redis A) (elapse e (guess_run A elapse ip d gs s)) ip), elapse e (guess_run A elapse ip d gs s), d')"
    by (rule locked_out_refused)
  then show ?thesis unfolding Let_def using accepted_clears [OF rs] by blast
qed

theorem brute_force_stopped_witness:
  "let gs = [(0, 0, ''mcp_short''), (4, 4, ''mcp_000000000001''), (9, 13, ''tok'')];
       s' = ref_elapse 100 (guess_run sample_auth ref_elapse ''198.51.100.7'' (Some sample_key) gs (True, Map.empty))
   in validate_credential sample_auth 113 ''mcp_000000000000'' ''198.51.100.7'' (s', Some sample_key) =
      (Inl (lockout_error ref_redis s' ''198.51.100.7''), s', Some sample_key)"
proof -
  let ?gs = "[(0, 0, ''mcp_short''), (4, 4, ''mcp_000000000001''), (9, 13, ''tok'')] :: (nat \<times> timestamp \<times> string) list"
  have env: "ae_redis sample_auth = ref_redis" "ae_sha256_hex sample_auth = (\<lambda>t. t)"
      "ae_brute_force sample_auth = \<lparr>max_attempts = 3, lockout_secs = 600, attempt_window_secs = 300\<rparr>"
    by (simp_all add: sample_auth_def)
  have "\<forall>(w, now, token) \<in> set ?gs. wrong_guess sample_auth (Some sample_key) now token"
    by (simp add: wrong_guess_def detect_token_type_def str_starts_with_def ApiKey_is_valid_format_def
        API_KEY_PREFIX_def sample_auth_def sample_key_def)
  then show ?thesis
    using brute_force_stopped [of sample_auth snd ref_elapse ref_uuid "(True, Map.empty)" "''198.51.100.7''"
        ?gs "Some sample_key" 100 113 "''mcp_000000000000''" "Some sample_key"] ref_limiter.limiter_axioms
    by (simp add: env ref_redis_def)
qed

end
