(* ===== verification/Transform.thy ===== *)
theory Transform
  imports Proxy_Auth
begin

text \<open>
  Rewriting \<^verbatim>\<open>tools/list\<close> responses (\<^verbatim>\<open>crates/proxy/src/mcp_transform.rs\<close>): scope filtering, description
  trimming and tool replacement, over a JSON body or the \<^verbatim>\<open>data:\<close> lines of an event stream. JSON text
  goes through the codec parameter \<open>C\<close>; UTF-8 validity is the standard library's and is defined here.
\<close>

section \<open>UTF-8\<close>

definition utf8_cont :: "char \<Rightarrow> bool" where
  "utf8_cont c \<longleftrightarrow> 128 \<le> (of_char c :: nat) \<and> (of_char c :: nat) < 192"

text \<open>The byte length of the well-formed sequence at the front, if there is one.\<close>

fun utf8_head :: "bytes \<Rightarrow> nat option" where
  "utf8_head [] = None"
| "utf8_head (b0 # r) =
     (let x = (of_char b0 :: nat) in
      if x < 128 then Some 1
      else if 194 \<le> x \<and> x < 224 then
        (case r of b1 # _ \<Rightarrow> if utf8_cont b1 then Some 2 else None | _ \<Rightarrow> None)
      else if 224 \<le> x \<and> x < 240 then
        (case r of
           b1 # b2 # _ \<Rightarrow>
             (if utf8_cont b1 \<and> utf8_cont b2 \<and> (x = 224 \<longrightarrow> 160 \<le> (of_char b1 :: nat)) \<and>
                 (x = 237 \<longrightarrow> (of_char b1 :: nat) < 160)
              then Some 3 else None)
         | _ \<Rightarrow> None)
      else if 240 \<le> x \<and> x < 245 then
        (case r of
           b1 # b2 # b3 # _ \<Rightarrow>
             (if utf8_cont b1 \<and> utf8_cont b2 \<and> utf8_cont b3 \<and> (x = 240 \<longrightarrow> 144 \<le> (of_char b1 :: nat)) \<and>
                 (x = 244 \<longrightarrow> (of_char b1 :: nat) < 144)
              then Some 4 else None)
         | _ \<Rightarrow> None)
      else None)"

lemma utf8_head_bounds: "utf8_head b = Some n \<Longrightarrow> 0 < n \<and> n \<le> length b"
  by (cases b) (auto simp: Let_def split: if_splits list.splits)

function from_utf8 :: "bytes \<Rightarrow> bool" where
  "from_utf8 b =
     (b = [] \<or> (case utf8_head b of None \<Rightarrow> False | Some n \<Rightarrow> from_utf8 (drop n b)))"
  by pat_completeness auto
termination
  by (relation "measure length") (auto dest: utf8_head_bounds)

declare from_utf8.simps [simp del]

text \<open>\<^verbatim>\<open>str::is_char_boundary\<close>.\<close>

definition is_char_boundary :: "string \<Rightarrow> nat \<Rightarrow> bool" where
  "is_char_boundary s i \<longleftrightarrow> i = 0 \<or> i = length s \<or> (i < length s \<and> \<not> utf8_cont (s ! i))"

fun floor_boundary_loop :: "string \<Rightarrow> nat \<Rightarrow> nat" where
  "floor_boundary_loop s 0 = 0"
| "floor_boundary_loop s (Suc i) =
     (if \<not> is_char_boundary s (Suc i) then floor_boundary_loop s i else Suc i)"

definition floor_char_boundary :: "string \<Rightarrow> nat \<Rightarrow> nat" where
  "floor_char_boundary s max_ix = (if length s \<le> max_ix then length s else floor_boundary_loop s max_ix)"


section \<open>Framing\<close>

definition is_ascii_whitespace :: "char \<Rightarrow> bool" where
  "is_ascii_whitespace c \<longleftrightarrow> c \<in> {CHR '' '', CHR 0x09, CHR 0x0A, CHR 0x0C, CHR 0x0D}"

definition first_non_ws :: "bytes \<Rightarrow> char option" where
  "first_non_ws body = find (\<lambda>b. \<not> is_ascii_whitespace b) body"

definition is_event_stream :: "string option \<Rightarrow> bytes \<Rightarrow> bool" where
  "is_event_stream content_type body =
     (case content_type of
        Some ct \<Rightarrow> str_contains ct ''text/event-stream''
      | None \<Rightarrow> first_non_ws body \<noteq> Some (CHR ''{'') \<and> first_non_ws body \<noteq> Some (CHR ''[''))"

text \<open>\<^verbatim>\<open>split_inclusive('\n')\<close>: the lines with their terminators; no empty last line.\<close>

fun split_inclusive :: "string \<Rightarrow> string list" where
  "split_inclusive [] = []"
| "split_inclusive (c # s) =
     (if c = CHR 0x0A then [c] # split_inclusive s
      else (case split_inclusive s of [] \<Rightarrow> [[c]] | l # ls \<Rightarrow> (c # l) # ls))"

definition is_eol :: "char \<Rightarrow> bool" where
  "is_eol c \<longleftrightarrow> c = CHR 0x0A \<or> c = CHR 0x0D"

definition trim_eol :: "string \<Rightarrow> string" where
  "trim_eol line = rev (dropWhile is_eol (rev line))"

text \<open>
  The JSON message of a \<^verbatim>\<open>data:\<close> line. (The loop of \<^verbatim>\<open>parse_first_jsonrpc\<close> takes its lines from
  \<^verbatim>\<open>lines()\<close>, whose entries are those of \<open>split_inclusive\<close> without their line ending; trimming makes
  the two equal.)
\<close>

definition data_payload :: "string \<Rightarrow> string option" where
  "data_payload trimmed =
     (case str_strip_prefix trimmed ''data:'' of
        None \<Rightarrow> None
      | Some rest \<Rightarrow> Some (unwrap_or (str_strip_prefix rest '' '') rest))"

definition line_message :: "codec \<Rightarrow> string \<Rightarrow> json option" where
  "line_message C line = Option.bind (data_payload (trim_eol line)) (from_slice C)"

text \<open>
  A rewriting closure \<^verbatim>\<open>&dyn Fn(&mut Value) -> bool\<close>: whether it changed the value, and the value.
\<close>

type_synonym rewriter = "json \<Rightarrow> bool \<times> json"

definition rewrite_json :: "codec \<Rightarrow> bytes \<Rightarrow> rewriter \<Rightarrow> bytes" where
  "rewrite_json C body f =
     (case from_slice C body of
        None \<Rightarrow> body
      | Some v \<Rightarrow>
          (case f v of
             (True, v') \<Rightarrow> unwrap_or (to_vec C v') body
           | (False, _) \<Rightarrow> body))"

text \<open>
  One line: the new text, and whether it was rewritten. \<^verbatim>\<open>v.to_string()\<close> prints the same text as
  \<^verbatim>\<open>to_vec\<close>; a value with no printed form would make it panic, here it leaves the line as it is.
\<close>

definition rewrite_line :: "codec \<Rightarrow> rewriter \<Rightarrow> string \<Rightarrow> string \<times> bool" where
  "rewrite_line C f line =
     (case line_message C line of
        None \<Rightarrow> (line, False)
      | Some v \<Rightarrow>
          (case f v of
             (True, v') \<Rightarrow>
               (case to_vec C v' of
                  Some text \<Rightarrow> (''data: '' @ text @ drop (length (trim_eol line)) line, True)
                | None \<Rightarrow> (line, False))
           | (False, _) \<Rightarrow> (line, False)))"

definition rewrite_sse :: "codec \<Rightarrow> bytes \<Rightarrow> rewriter \<Rightarrow> bytes" where
  "rewrite_sse C body f =
     (if \<not> from_utf8 body then body
      else (let ls = map (rewrite_line C f) (split_inclusive body)
            in if list_ex snd ls then concat (map fst ls) else body))"

definition rewrite_jsonrpc :: "codec \<Rightarrow> bytes \<Rightarrow> string option \<Rightarrow> rewriter \<Rightarrow> bytes" where
  "rewrite_jsonrpc C body content_type f =
     (if is_event_stream content_type body then rewrite_sse C body f else rewrite_json C body f)"

definition parse_first_jsonrpc :: "codec \<Rightarrow> bytes \<Rightarrow> string option \<Rightarrow> json option" where
  "parse_first_jsonrpc C body content_type =
     (if is_event_stream content_type body then
        (if \<not> from_utf8 body then None
         else Option.bind
           (find (\<lambda>m. case m of Some v \<Rightarrow> json_get v ''result'' \<noteq> None | None \<Rightarrow> False)
              (map (line_message C) (split_inclusive body))) id)
      else from_slice C body)"


section \<open>The transforms\<close>

definition MAX_DESCRIPTION_LEN :: nat where "MAX_DESCRIPTION_LEN = 500"

text \<open>The three UTF-8 bytes of the ellipsis.\<close>

definition ellipsis :: string where
  "ellipsis = [CHR 0xE2, CHR 0x80, CHR 0xA6]"

text \<open>\<open>result.tools\<close> as an array, and the message with it replaced.\<close>

definition result_tools :: "json \<Rightarrow> json list option" where
  "result_tools msg =
     Option.bind (json_get msg ''result'') (\<lambda>r. Option.bind (json_get r ''tools'') as_array)"

definition set_result_tools :: "json \<Rightarrow> json list \<Rightarrow> json" where
  "set_result_tools msg tools =
     (case json_get msg ''result'' of
        None \<Rightarrow> msg
      | Some r \<Rightarrow> json_set msg ''result'' (json_set r ''tools'' (JArray tools)))"

definition tool_json_name :: "json \<Rightarrow> string option" where
  "tool_json_name t = Option.bind (json_get t ''name'') as_str"

definition keep_tool :: "(string \<Rightarrow> bool) \<Rightarrow> json \<Rightarrow> bool" where
  "keep_tool allow t = (case tool_json_name t of Some name \<Rightarrow> allow name | None \<Rightarrow> True)"

definition slim_description :: "string \<Rightarrow> string" where
  "slim_description s = take (floor_char_boundary s MAX_DESCRIPTION_LEN) s @ ellipsis"

definition slim_tool :: "json \<Rightarrow> json \<times> bool" where
  "slim_tool t =
     (case Option.bind (json_get t ''description'') as_str of
        Some s \<Rightarrow>
          (if length s > MAX_DESCRIPTION_LEN
           then (json_set t ''description'' (JString (slim_description s)), True) else (t, False))
      | None \<Rightarrow> (t, False))"

definition transform_message :: "(string \<Rightarrow> bool) option \<Rightarrow> bool \<Rightarrow> rewriter" where
  "transform_message allow slim msg =
     (case result_tools msg of
        None \<Rightarrow> (False, msg)
      | Some tools \<Rightarrow>
          (let kept = (case allow of Some p \<Rightarrow> filter (keep_tool p) tools | None \<Rightarrow> tools);
               changed = (length kept \<noteq> length tools);
               slimmed = (if slim then map slim_tool kept else map (\<lambda>t. (t, False)) kept)
           in (changed \<or> list_ex snd slimmed, set_result_tools msg (map fst slimmed))))"

definition transform_with ::
  "codec \<Rightarrow> bytes \<Rightarrow> string option \<Rightarrow> (string \<Rightarrow> bool) option \<Rightarrow> bool \<Rightarrow> bytes" where
  "transform_with C body content_type allow slim =
     (if allow = None \<and> \<not> slim then body
      else rewrite_jsonrpc C body content_type (transform_message allow slim))"

definition transform_tools_list ::
  "codec \<Rightarrow> bytes \<Rightarrow> string option \<Rightarrow> AuthCredential option \<Rightarrow> bool \<Rightarrow> bool \<Rightarrow> bytes" where
  "transform_tools_list C body content_type credential filter_by_scope slim =
     transform_with C body content_type
       (if filter_by_scope
        then map_option (\<lambda>cred name. is_method_allowed cred Method_ToolsCall (Some name)) credential
        else None) slim"

definition replace_tools :: "codec \<Rightarrow> bytes \<Rightarrow> string option \<Rightarrow> json list \<Rightarrow> bytes" where
  "replace_tools C body content_type replacement =
     rewrite_jsonrpc C body content_type
       (\<lambda>msg. case result_tools msg of
          Some _ \<Rightarrow> (True, set_result_tools msg replacement) | None \<Rightarrow> (False, msg))"

record ObservedTool =
  ob_name :: string
  ob_description :: "string option"
  ob_input_schema :: "json option"

fun observe_tools :: "json list \<Rightarrow> ObservedTool list option" where
  "observe_tools [] = Some []"
| "observe_tools (t # ts) =
     (case tool_json_name t of
        None \<Rightarrow> None
      | Some name \<Rightarrow>
          map_option (Cons \<lparr> ob_name = name,
                             ob_description = Option.bind (json_get t ''description'') as_str,
                             ob_input_schema = json_get t ''inputSchema'' \<rparr>)
            (observe_tools ts))"

definition extract_tools :: "codec \<Rightarrow> bytes \<Rightarrow> string option \<Rightarrow> ObservedTool list option" where
  "extract_tools C body content_type =
     Option.bind (parse_first_jsonrpc C body content_type)
       (\<lambda>v. Option.bind (result_tools v) observe_tools)"


section \<open>Correctness: cutting text at character boundaries\<close>

lemma from_utf8_Nil [simp]: "from_utf8 []"
  by (simp add: from_utf8.simps)

lemma from_utf8_head: "b \<noteq> [] \<Longrightarrow> from_utf8 b \<longleftrightarrow> (\<exists>n. utf8_head b = Some n \<and> from_utf8 (drop n b))"
  by (subst from_utf8.simps) (simp split: option.splits)

lemma utf8_head_append: "utf8_head b = Some n \<Longrightarrow> utf8_head (b @ c) = Some n"
  by (cases b) (auto simp: Let_def split: if_splits list.splits)

lemma utf8_head_take: "utf8_head b = Some n \<Longrightarrow> utf8_head (take n b @ c) = Some n"
  by (cases b) (auto simp: Let_def split: if_splits list.splits)

lemma utf8_head_le_4: "utf8_head b = Some n \<Longrightarrow> n \<le> 4"
  by (cases b) (auto simp: Let_def split: if_splits list.splits)

lemma utf8_head_cont:
  assumes "utf8_head b = Some n" and "0 < i" and "i < n"
  shows "utf8_cont (b ! i)"
proof -
  obtain b0 r where b: "b = b0 # r" using assms(1) by (cases b) auto
  consider "i = 1" | "i = 2" | "i = 3" using assms(2,3) utf8_head_le_4 [OF assms(1)] by linarith
  then show ?thesis
    using assms(1,3) by cases (auto simp: b Let_def split: if_splits list.splits)
qed

lemma utf8_head_not_cont: "utf8_head b = Some n \<Longrightarrow> \<not> utf8_cont (b ! 0)"
  by (cases b) (auto simp: Let_def utf8_cont_def split: if_splits)

lemma from_utf8_append: "from_utf8 a \<Longrightarrow> from_utf8 b \<Longrightarrow> from_utf8 (a @ b)"
proof (induction a rule: from_utf8.induct)
  case (1 a)
  show ?case
  proof (cases "a = []")
    case False
    then obtain n where n: "utf8_head a = Some n" "from_utf8 (drop n a)" using 1 from_utf8_head by blast
    then have "from_utf8 (drop n a @ b)" using 1 False by blast
    moreover have "n \<le> length a" using utf8_head_bounds [OF n(1)] by simp
    ultimately show ?thesis using False utf8_head_append [OF n(1)] by (simp add: from_utf8_head [of "a @ b"])
  qed (use 1 in simp)
qed

lemma utf8_head_whole: "utf8_head b = Some n \<Longrightarrow> from_utf8 (take n b)"
  using utf8_head_take [of b n "[]"] utf8_head_bounds [of b n]
  by (cases b) (auto simp: from_utf8_head)

text \<open>A prefix of valid text that ends at a boundary is valid.\<close>

lemma from_utf8_take:
  "from_utf8 s \<Longrightarrow> is_char_boundary s i \<Longrightarrow> from_utf8 (take i s)"
proof (induction s arbitrary: i rule: from_utf8.induct)
  case (1 s)
  show ?case
  proof (cases "s = [] \<or> i = 0")
    case False
    then obtain n where n: "utf8_head s = Some n" "from_utf8 (drop n s)" using 1 from_utf8_head by blast
    have b: "0 < n" "n \<le> length s" using utf8_head_bounds [OF n(1)] by auto
    have "n \<le> i"
      using 1(3) False utf8_head_cont [OF n(1), of i] b by (force simp: is_char_boundary_def)
    then have "is_char_boundary (drop n s) (i - n)"
      using 1(3) b by (auto simp: is_char_boundary_def)
    then have "from_utf8 (take (i - n) (drop n s))" using 1 n False by blast
    then have "from_utf8 (take n s @ take (i - n) (drop n s))"
      by (rule from_utf8_append [OF utf8_head_whole [OF n(1)]])
    then show ?thesis using \<open>n \<le> i\<close> by (metis le_add_diff_inverse take_add)
  qed auto
qed

text \<open>Valid text has a boundary in every four consecutive positions.\<close>

lemma boundary_dense:
  "from_utf8 s \<Longrightarrow> i \<le> length s \<Longrightarrow> \<exists>j \<le> i. i \<le> j + 3 \<and> is_char_boundary s j"
proof (induction s arbitrary: i rule: from_utf8.induct)
  case (1 s)
  show ?case
  proof (cases "s = []")
    case False
    then obtain n where n: "utf8_head s = Some n" "from_utf8 (drop n s)" using 1 from_utf8_head by blast
    have b: "0 < n" "n \<le> length s" "n \<le> 4" using utf8_head_bounds [OF n(1)] utf8_head_le_4 [OF n(1)] by auto
    show ?thesis
    proof (cases "i < n")
      case True
      then show ?thesis using b by (intro exI [of _ 0]) (auto simp: is_char_boundary_def)
    next
      case False
      moreover have "i - n \<le> length (drop n s)" using 1(3) by simp
      ultimately obtain j where j: "j \<le> i - n" "i - n \<le> j + 3" "is_char_boundary (drop n s) j"
        using 1(1) [OF n] by blast
      have "is_char_boundary s (j + n)"
      proof (cases "j = 0")
        case True
        then show ?thesis
          using n(2) b utf8_head_not_cont [of "drop n s"] from_utf8_head [of "drop n s"]
          by (cases "n = length s") (auto simp: is_char_boundary_def)
      next
        case False
        then show ?thesis using j(3) b by (auto simp: is_char_boundary_def add.commute)
      qed
      then show ?thesis using j False by (intro exI [of _ "j + n"]) auto
    qed
  qed (use 1(3) in \<open>auto simp: is_char_boundary_def\<close>)
qed

lemma floor_boundary_loop_spec:
  "floor_boundary_loop s i \<le> i \<and> is_char_boundary s (floor_boundary_loop s i) \<and>
   (\<forall>j \<le> i. is_char_boundary s j \<longrightarrow> j \<le> floor_boundary_loop s i)"
  by (induction s i rule: floor_boundary_loop.induct)
    (auto simp: is_char_boundary_def le_Suc_eq)

lemma floor_char_boundary_spec:
  "floor_char_boundary s m \<le> m \<and> is_char_boundary s (floor_char_boundary s m) \<and>
   (\<forall>j \<le> m. is_char_boundary s j \<longrightarrow> j \<le> floor_char_boundary s m)"
  using floor_boundary_loop_spec [of s m] by (auto simp: floor_char_boundary_def is_char_boundary_def)

lemma ellipsis_utf8: "from_utf8 ellipsis"
  by (simp add: from_utf8_head ellipsis_def utf8_cont_def)



lemma from_utf8_ascii: "\<forall>c \<in> set s. (of_char c :: nat) < 128 \<Longrightarrow> from_utf8 s"
  by (induction s) (simp_all add: from_utf8_head)



section \<open>Correctness: rewriting keeps messages intact\<close>

lemma result_tools_set:
  "result_tools msg = Some tools \<Longrightarrow> result_tools (set_result_tools msg ts) = Some ts"
  by (auto simp: result_tools_def set_result_tools_def json_get_set bind_eq_Some_conv)

lemma set_result_tools_other:
  "k \<noteq> ''result'' \<Longrightarrow> json_get (set_result_tools msg ts) k = json_get msg k"
  by (simp add: set_result_tools_def json_get_set split: option.splits)

lemma json_set_same:
  assumes "json_wf v" and "json_get v k = Some w"
  shows "json_set v k w = v"
proof -
  obtain m where v: "v = JObject m" using assms(2) by (cases v) auto
  then have sorted: "sorted_wrt (<) (map fst m)" using assms(1) by simp
  have "map_set k w m = m"
    using assms(2) v sorted_map_set [OF sorted] by (intro sorted_map_eqI sorted) (auto simp: map_of_map_set fun_eq_iff)
  then show ?thesis by (simp add: v)
qed

lemma set_result_tools_same:
  assumes "json_wf msg" and "result_tools msg = Some tools"
  shows "set_result_tools msg tools = msg"
proof -
  obtain r t where r: "json_get msg ''result'' = Some r" "json_get r ''tools'' = Some t" "as_array t = Some tools"
    using assms(2) by (auto simp: result_tools_def bind_eq_Some_conv)
  have "t = JArray tools" using r(3) by (cases t) auto
  then have "json_set r ''tools'' (JArray tools) = r"
    using json_set_same [OF json_wf_get [OF assms(1) r(1)] r(2)] by simp
  then show ?thesis using json_set_same [OF assms(1) r(1)] r(1) by (simp add: set_result_tools_def)
qed

text \<open>Tools replaced by tools that are no deeper keep the message printable.\<close>

lemma json_ok_set_result_tools:
  assumes "json_ok n msg" and "result_tools msg = Some tools"
    and "\<And>j. \<forall>t \<in> set tools. json_ok j t \<Longrightarrow> \<forall>t \<in> set ts. json_ok j t"
  shows "json_ok n (set_result_tools msg ts)"
proof -
  obtain r t where r: "json_get msg ''result'' = Some r" "json_get r ''tools'' = Some t" "as_array t = Some tools"
    using assms(2) by (auto simp: result_tools_def bind_eq_Some_conv)
  have t: "t = JArray tools" using r(3) by (cases t) auto
  have "json_ok j (JArray tools) \<Longrightarrow> json_ok j (JArray ts)" for j
    using assms(3) by (auto simp: json_ok_array)
  then have "json_ok j r \<Longrightarrow> json_ok j (json_set r ''tools'' (JArray ts))" for j
    using json_ok_set [of j r "''tools''" t "JArray ts"] r(2) t by simp
  then show ?thesis using json_ok_set [OF assms(1) r(1)] r(1) by (simp add: set_result_tools_def)
qed

lemma slim_tool_ok: "json_ok j t \<Longrightarrow> json_ok j (fst (slim_tool t))"
  by (auto simp: slim_tool_def bind_eq_Some_conv split: option.splits intro: json_ok_set)

lemma slim_tool_unchanged: "\<not> snd (slim_tool t) \<Longrightarrow> fst (slim_tool t) = t"
  by (auto simp: slim_tool_def split: option.splits if_splits)

lemma tool_json_name_slim [simp]: "tool_json_name (fst (slim_tool t)) = tool_json_name t"
  by (auto simp: slim_tool_def tool_json_name_def json_get_set split: option.splits)

text \<open>The tools a transformed message lists.\<close>

definition transformed_tools :: "(string \<Rightarrow> bool) option \<Rightarrow> bool \<Rightarrow> json list \<Rightarrow> json list" where
  "transformed_tools allow slim tools =
     map (if slim then fst \<circ> slim_tool else id)
       (case allow of Some p \<Rightarrow> filter (keep_tool p) tools | None \<Rightarrow> tools)"

lemma transform_message_value:
  "snd (transform_message allow slim msg) =
     (case result_tools msg of None \<Rightarrow> msg | Some tools \<Rightarrow> set_result_tools msg (transformed_tools allow slim tools))"
  by (auto simp: transform_message_def transformed_tools_def Let_def comp_def split: option.splits)

lemma transform_message_ok:
  assumes "json_ok n msg"
  shows "json_ok n (snd (transform_message allow slim msg))"
proof (cases "result_tools msg")
  case (Some tools)
  then show ?thesis
    by (auto simp: transform_message_value transformed_tools_def
        intro!: json_ok_set_result_tools [OF assms] slim_tool_ok split: option.splits)
qed (simp add: transform_message_value assms)

lemma filter_length_eq: "length (filter P xs) = length xs \<Longrightarrow> filter P xs = xs"
  using length_filter_less [of _ xs P] by (fastforce intro: filter_True)

text \<open>The returned flag is exact: when it is false the message is as it was.\<close>

lemma transform_message_unchanged:
  assumes "json_wf msg" and "\<not> fst (transform_message allow slim msg)"
  shows "snd (transform_message allow slim msg) = msg"
proof (cases "result_tools msg")
  case (Some tools)
  let ?kept = "case allow of Some p \<Rightarrow> filter (keep_tool p) tools | None \<Rightarrow> tools"
  have len: "length ?kept = length tools" and slim: "slim \<Longrightarrow> \<forall>t \<in> set ?kept. \<not> snd (slim_tool t)"
    using assms(2) Some by (auto simp: transform_message_def Let_def list_ex_iff)
  have "?kept = tools"
    using len by (cases allow) (auto intro: filter_length_eq)
  moreover have "transformed_tools allow slim tools = ?kept"
    using slim slim_tool_unchanged by (auto simp: transformed_tools_def intro!: map_idI)
  ultimately show ?thesis
    using Some set_result_tools_same [OF assms(1) Some] by (simp add: transform_message_value)
qed (simp add: transform_message_value)

text \<open>What trimming leaves of a tool: everything but a long description, which becomes its valid shortening.\<close>

definition trimmed :: "json \<Rightarrow> json \<Rightarrow> bool" where
  "trimmed t t' \<longleftrightarrow>
     (\<forall>k. k \<noteq> ''description'' \<longrightarrow> json_get t' k = json_get t k) \<and>
     (json_get t' ''description'' = json_get t ''description'' \<or>
      (\<exists>s. json_get t ''description'' = Some (JString s) \<and> MAX_DESCRIPTION_LEN < length s \<and>
         json_get t' ''description'' = Some (JString (slim_description s))))"

lemma slim_tool_trimmed: "trimmed t (fst (slim_tool t))"
proof (cases "Option.bind (json_get t ''description'') as_str")
  case (Some s)
  then have "json_get t ''description'' = Some (JString s)" by (auto simp: bind_eq_Some_conv elim: as_str.elims)
  then show ?thesis using Some by (auto simp: trimmed_def slim_tool_def json_get_set)
qed (simp add: trimmed_def slim_tool_def)

lemma trimmed_refl: "trimmed t t"
  by (simp add: trimmed_def)

lemma set_result_tools_result:
  assumes "result_tools msg = Some tools"
  shows "\<exists>r r'. json_get msg ''result'' = Some r \<and> json_get (set_result_tools msg ts) ''result'' = Some r' \<and>
    (\<forall>k. k \<noteq> ''tools'' \<longrightarrow> json_get r' k = json_get r k)"
  using assms by (auto simp: result_tools_def set_result_tools_def json_get_set bind_eq_Some_conv)

lemma rewritten_parses:
  assumes "json_codec C" and "from_slice C body = Some msg" and "json_plain msg"
  shows "from_slice C (rewrite_json C body (transform_message allow slim)) = Some (snd (transform_message allow slim msg))"
proof (cases "fst (transform_message allow slim msg)")
  case True
  have "json_plain (snd (transform_message allow slim msg))" using assms(3) transform_message_ok by (simp add: json_plain_ok)
  then obtain b where "to_vec C (snd (transform_message allow slim msg)) = Some b"
      "from_slice C b = Some (snd (transform_message allow slim msg))"
    using json_codec.print_parse [OF assms(1)] by blast
  then show ?thesis using assms(2) True by (cases "transform_message allow slim msg") (simp add: rewrite_json_def)
next
  case False
  then show ?thesis
    using assms(2,3) transform_message_unchanged [of msg allow slim]
    by (cases "transform_message allow slim msg") (simp add: rewrite_json_def json_plain_def)
qed

text \<open>
  C28: Filtering a \<^verbatim>\<open>tools/list\<close> response by scope. In a JSON response (not an event stream) a credential is shown exactly the
  tools it may call, and the ones without a name, in their order; without trimming each as it was, with trimming with at most a
  long description shortened. Every other member of \<^verbatim>\<open>result\<close> (such as \<^verbatim>\<open>nextCursor\<close>) and of the message is as it
  was. A body that is not JSON, or has no array of tools, is passed through byte for byte. The messages are those that print and
  parse back to themselves: nested to the parser's depth and without floating-point numbers, whose printing is not modelled.
\<close>

theorem filter_tools_exact:
  assumes "json_codec C" and "\<not> is_event_stream ct body"
  shows "(from_slice C body = None \<longrightarrow> transform_tools_list C body ct (Some cred) True slim = body) \<and>
    (\<forall>msg. from_slice C body = Some msg \<and> result_tools msg = None \<longrightarrow> transform_tools_list C body ct (Some cred) True slim = body) \<and>
    (\<forall>msg tools. from_slice C body = Some msg \<and> json_plain msg \<and> result_tools msg = Some tools \<longrightarrow>
      (\<exists>out shown r r'. from_slice C (transform_tools_list C body ct (Some cred) True slim) = Some out \<and>
         result_tools out = Some shown \<and>
         list_all2 (\<lambda>t t'. trimmed t t' \<and> (\<not> slim \<longrightarrow> t' = t))
           (filter (\<lambda>t. \<forall>name. tool_json_name t = Some name \<longrightarrow> is_method_allowed cred Method_ToolsCall (Some name)) tools) shown \<and>
         json_get msg ''result'' = Some r \<and> json_get out ''result'' = Some r' \<and>
         (\<forall>k. k \<noteq> ''tools'' \<longrightarrow> json_get r' k = json_get r k) \<and>
         (\<forall>k. k \<noteq> ''result'' \<longrightarrow> json_get out k = json_get msg k)))"
proof -
  let ?allow = "Some (\<lambda>name. is_method_allowed cred Method_ToolsCall (Some name))"
  let ?f = "transform_message ?allow slim"
  have out: "transform_tools_list C body ct (Some cred) True slim = rewrite_json C body ?f"
    using assms(2) by (simp add: transform_tools_list_def transform_with_def rewrite_jsonrpc_def)
  have keep: "keep_tool p = (\<lambda>t. \<forall>name. tool_json_name t = Some name \<longrightarrow> p name)" for p
    by (auto simp: keep_tool_def fun_eq_iff split: option.splits)
  have "\<exists>out shown r r'. from_slice C (transform_tools_list C body ct (Some cred) True slim) = Some out \<and>
         result_tools out = Some shown \<and>
         list_all2 (\<lambda>t t'. trimmed t t' \<and> (\<not> slim \<longrightarrow> t' = t))
           (filter (\<lambda>t. \<forall>name. tool_json_name t = Some name \<longrightarrow> is_method_allowed cred Method_ToolsCall (Some name)) tools) shown \<and>
         json_get msg ''result'' = Some r \<and> json_get out ''result'' = Some r' \<and>
         (\<forall>k. k \<noteq> ''tools'' \<longrightarrow> json_get r' k = json_get r k) \<and>
         (\<forall>k. k \<noteq> ''result'' \<longrightarrow> json_get out k = json_get msg k)"
    if m: "from_slice C body = Some msg" "json_plain msg" "result_tools msg = Some tools" for msg tools
  proof -
    let ?shown = "transformed_tools ?allow slim tools"
    have v: "snd (?f msg) = set_result_tools msg ?shown" using m(3) by (simp add: transform_message_value)
    have "list_all2 (\<lambda>t t'. trimmed t t' \<and> (\<not> slim \<longrightarrow> t' = t))
        (filter (\<lambda>t. \<forall>name. tool_json_name t = Some name \<longrightarrow> is_method_allowed cred Method_ToolsCall (Some name)) tools) ?shown"
      by (simp add: transformed_tools_def keep list_all2_map2 list_all2_same slim_tool_trimmed trimmed_refl)
    moreover obtain r r' where "json_get msg ''result'' = Some r" "json_get (set_result_tools msg ?shown) ''result'' = Some r'"
        "\<forall>k. k \<noteq> ''tools'' \<longrightarrow> json_get r' k = json_get r k"
      using set_result_tools_result [OF m(3)] by blast
    ultimately show ?thesis
      using rewritten_parses [OF assms(1) m(1,2), of ?allow slim] result_tools_set [OF m(3)] set_result_tools_other [of _ msg ?shown]
      unfolding out v by (intro exI conjI) auto
  qed
  moreover have "transform_tools_list C body ct (Some cred) True slim = body"
    if "from_slice C body = None \<or> (\<exists>msg. from_slice C body = Some msg \<and> result_tools msg = None)"
    using that by (auto simp: out rewrite_json_def transform_message_def)
  ultimately show ?thesis by blast
qed


section \<open>Correctness: event-stream framing\<close>

text \<open>A list of lines as \<open>split_inclusive\<close> makes them.\<close>

fun proper_lines :: "string list \<Rightarrow> bool" where
  "proper_lines [] = True"
| "proper_lines (l # ls) =
     (l \<noteq> [] \<and> CHR 0x0A \<notin> set (butlast l) \<and> (ls \<noteq> [] \<longrightarrow> last l = CHR 0x0A) \<and> proper_lines ls)"

lemma split_inclusive_proper: "proper_lines (split_inclusive s)"
proof (induction s)
  case (Cons c s)
  then show ?case by (cases "split_inclusive s") auto
qed simp

lemma concat_split_inclusive: "concat (split_inclusive s) = s"
proof (induction s)
  case (Cons c s)
  then show ?case by (cases "split_inclusive s") auto
qed simp

lemma split_inclusive_line:
  "CHR 0x0A \<notin> set p \<Longrightarrow> split_inclusive (p @ CHR 0x0A # s) = (p @ [CHR 0x0A]) # split_inclusive s"
  by (induction p) auto

lemma split_inclusive_last: "p \<noteq> [] \<Longrightarrow> CHR 0x0A \<notin> set (butlast p) \<Longrightarrow> split_inclusive p = [p]"
proof (induction p)
  case (Cons c p)
  then show ?case by (cases "p = []") auto
qed simp

lemma split_inclusive_concat: "proper_lines ls \<Longrightarrow> split_inclusive (concat ls) = ls"
proof (induction ls)
  case (Cons l ls)
  show ?case
  proof (cases "ls = []")
    case True
    then show ?thesis using Cons.prems split_inclusive_last by simp
  next
    case False
    then have l: "l = butlast l @ [CHR 0x0A]" using Cons.prems append_butlast_last_id [of l] by simp
    have "split_inclusive (butlast l @ CHR 0x0A # concat ls) = (butlast l @ [CHR 0x0A]) # split_inclusive (concat ls)"
      using Cons.prems by (intro split_inclusive_line) simp
    then show ?thesis using Cons l by (metis append.assoc append_Cons append_Nil concat.simps(2) proper_lines.simps(2))
  qed
qed simp

text \<open>The ending of a line: what trimming removes.\<close>

definition line_ending :: "string \<Rightarrow> string" where
  "line_ending line = drop (length (trim_eol line)) line"

lemma trim_eol_append: "line = trim_eol line @ line_ending line"
  and line_ending_eol: "\<forall>c \<in> set (line_ending line). is_eol c"
proof -
  have split: "line = trim_eol line @ rev (takeWhile is_eol (rev line))"
    by (metis rev_append rev_rev_ident takeWhile_dropWhile_id trim_eol_def)
  then have e: "line_ending line = rev (takeWhile is_eol (rev line))"
    unfolding line_ending_def by (metis append_eq_conv_conj)
  show "line = trim_eol line @ line_ending line" using split e by simp
  show "\<forall>c \<in> set (line_ending line). is_eol c" using e set_takeWhileD by fastforce
qed

lemma trim_eol_new:
  assumes "\<forall>c \<in> set t. \<not> is_eol c" and "\<forall>c \<in> set e. is_eol c"
  shows "trim_eol (t @ e) = t" and "line_ending (t @ e) = e"
proof -
  have "dropWhile is_eol (rev t) = rev t"
    using assms(1) by (cases t rule: rev_cases) auto
  then have "dropWhile is_eol (rev e @ rev t) = rev t"
    using dropWhile_append2 [of "rev e" is_eol "rev t"] assms(2) by simp
  then show t: "trim_eol (t @ e) = t" by (simp add: trim_eol_def)
  show "line_ending (t @ e) = e" by (simp add: line_ending_def t)
qed

text \<open>A line that ends a record still does after its text was replaced.\<close>

lemma replaced_line_proper:
  assumes "l \<noteq> []" and "CHR 0x0A \<notin> set (butlast l)" and "t \<noteq> []" and "CHR 0x0A \<notin> set t"
  shows "CHR 0x0A \<notin> set (butlast (t @ line_ending l))" and "t @ line_ending l \<noteq> []"
    and "last l = CHR 0x0A \<Longrightarrow> last (t @ line_ending l) = CHR 0x0A"
proof -
  have l: "l = trim_eol l @ line_ending l" by (rule trim_eol_append)
  then have "CHR 0x0A \<notin> set (butlast (line_ending l))"
    using assms(2) by (cases "line_ending l = []") (metis butlast_append empty_iff empty_set butlast.simps(1) Un_iff set_append)+
  then show "CHR 0x0A \<notin> set (butlast (t @ line_ending l))" using assms(4) by (auto simp: butlast_append dest: in_set_butlastD)
  show "t @ line_ending l \<noteq> []" using assms(3) by simp
  assume last: "last l = CHR 0x0A"
  have "line_ending l \<noteq> []"
  proof
    assume e: "line_ending l = []"
    then have "trim_eol l = l" using l by simp
    then have "dropWhile is_eol (rev l) = rev l" by (metis rev_rev_ident trim_eol_def)
    moreover obtain c r where "rev l = c # r" using assms(1) by (cases "rev l") auto
    moreover from this have "c = CHR 0x0A" using last by (metis last_snoc rev.simps(2) rev_rev_ident)
    ultimately show False by (metis dropWhile.simps(2) is_eol_def dropWhile_eq_self_iff list.sel(1) list.distinct(1))
  qed
  then show "last (t @ line_ending l) = CHR 0x0A" using l last by (metis last_appendR)
qed


context json_line_codec
begin

text \<open>What rewriting one line does, for a closure that keeps messages printable and reports changes.\<close>

lemma rewrite_line_spec:
  assumes "\<And>m. json_plain m \<Longrightarrow> json_plain (snd (f m)) \<and> (\<not> fst (f m) \<longrightarrow> snd (f m) = m)"
    and "\<And>m. line_message C l = Some m \<Longrightarrow> json_plain m"
  defines "l' \<equiv> fst (rewrite_line C f l)"
  shows "line_ending l' = line_ending l \<and>
      (case line_message C l of None \<Rightarrow> l' = l | Some m \<Rightarrow> line_message C l' = Some (snd (f m)))"
    and "l' = l \<or> (\<exists>t. l' = t @ line_ending l \<and> t \<noteq> [] \<and> CHR 0x0A \<notin> set t)"
    and "\<not> snd (rewrite_line C f l) \<Longrightarrow> l' = l"
proof -
  have "(line_ending l' = line_ending l \<and>
      (case line_message C l of None \<Rightarrow> l' = l | Some m \<Rightarrow> line_message C l' = Some (snd (f m)))) \<and>
    (l' = l \<or> (\<exists>t. l' = t @ line_ending l \<and> t \<noteq> [] \<and> CHR 0x0A \<notin> set t)) \<and>
    (\<not> snd (rewrite_line C f l) \<longrightarrow> l' = l)"
  proof (cases "line_message C l")
    case None
    then show ?thesis by (simp add: l'_def rewrite_line_def)
  next
    case (Some m)
    obtain b v where f: "f m = (b, v)" by fastforce
    have v: "json_plain v" "\<not> b \<Longrightarrow> v = m" using assms(1) [of m] assms(2) Some f by auto
    show ?thesis
    proof (cases b)
      case False
      then show ?thesis using Some v f by (simp add: l'_def rewrite_line_def)
    next
      case True
      obtain pr where pr: "to_vec C v = Some pr" "from_slice C pr = Some v"
        using print_parse [OF v(1)] by blast
      have eol: "CHR 0x0A \<notin> set pr" "\<forall>c \<in> set (''data: '' @ pr). \<not> is_eol c"
        using print_line [OF pr(1)] by (auto simp: is_eol_def)
      have l': "l' = (''data: '' @ pr) @ line_ending l"
        using Some f True pr(1) by (simp add: l'_def rewrite_line_def line_ending_def)
      have t: "trim_eol l' = ''data: '' @ pr" "line_ending l' = line_ending l"
        using trim_eol_new [OF eol(2) line_ending_eol] by (simp_all only: l')
      have "str_strip_prefix (''data: '' @ pr) ''data:'' = Some ('' '' @ pr)"
        by (simp add: str_strip_prefix_def)
      then have "line_message C l' = Some v"
        using pr(2) by (simp add: line_message_def t(1) data_payload_def str_strip_prefix_def)
      then show ?thesis
        using Some f t(2) l' eol(1) True pr(1)
        by (auto simp: rewrite_line_def intro!: exI [of _ "''data: '' @ pr"])
    qed
  qed
  then show "line_ending l' = line_ending l \<and>
      (case line_message C l of None \<Rightarrow> l' = l | Some m \<Rightarrow> line_message C l' = Some (snd (f m)))"
    and "l' = l \<or> (\<exists>t. l' = t @ line_ending l \<and> t \<noteq> [] \<and> CHR 0x0A \<notin> set t)"
    and "\<not> snd (rewrite_line C f l) \<Longrightarrow> l' = l" by blast+
qed

lemma rewrite_lines_proper:
  assumes "\<And>m. json_plain m \<Longrightarrow> json_plain (snd (f m)) \<and> (\<not> fst (f m) \<longrightarrow> snd (f m) = m)"
    and "\<And>l m. l \<in> set ls \<Longrightarrow> line_message C l = Some m \<Longrightarrow> json_plain m" and "proper_lines ls"
  shows "proper_lines (map (\<lambda>l. fst (rewrite_line C f l)) ls)"
  using assms(2,3)
proof (induction ls)
  case (Cons l ls)
  let ?l = "fst (rewrite_line C f l)"
  have split: "?l = l \<or> (\<exists>t. ?l = t @ line_ending l \<and> t \<noteq> [] \<and> CHR 0x0A \<notin> set t)"
    by (rule rewrite_line_spec(2) [OF assms(1)]) (use Cons.prems(1) in auto)
  have l: "l \<noteq> []" "CHR 0x0A \<notin> set (butlast l)" "ls \<noteq> [] \<Longrightarrow> last l = CHR 0x0A" using Cons.prems(2) by auto
  have "?l \<noteq> [] \<and> CHR 0x0A \<notin> set (butlast ?l) \<and> (ls \<noteq> [] \<longrightarrow> last ?l = CHR 0x0A)"
    using split l(3)
  proof (elim disjE exE conjE)
    fix t
    assume t: "?l = t @ line_ending l" "t \<noteq> []" "CHR 0x0A \<notin> set t"
    show ?thesis using replaced_line_proper [OF l(1,2) t(2,3)] l(3) unfolding t(1) by blast
  qed (use l in simp)
  moreover have "proper_lines (map (\<lambda>l. fst (rewrite_line C f l)) ls)"
    by (rule Cons.IH) (use Cons.prems in auto)
  ultimately show ?case by simp
qed simp

lemma rewrite_sse_lines:
  assumes "\<And>m. json_plain m \<Longrightarrow> json_plain (snd (f m)) \<and> (\<not> fst (f m) \<longrightarrow> snd (f m) = m)"
    and "\<And>l m. l \<in> set (split_inclusive body) \<Longrightarrow> line_message C l = Some m \<Longrightarrow> json_plain m"
    and "from_utf8 body"
  shows "split_inclusive (rewrite_sse C body f) = map (\<lambda>l. fst (rewrite_line C f l)) (split_inclusive body)"
proof (cases "list_ex (\<lambda>l. snd (rewrite_line C f l)) (split_inclusive body)")
  case True
  then show ?thesis
    using split_inclusive_concat [OF rewrite_lines_proper [OF assms(1,2) split_inclusive_proper]] assms(3)
    by (simp add: rewrite_sse_def list_ex_iff comp_def)
next
  case False
  have "fst (rewrite_line C f l) = l" if "l \<in> set (split_inclusive body)" for l
    by (rule rewrite_line_spec(3) [OF assms(1)]) (use assms(2) that False in \<open>auto simp: list_ex_iff\<close>)
  then have "map (\<lambda>l. fst (rewrite_line C f l)) (split_inclusive body) = split_inclusive body"
    by (simp add: map_idI)
  then show ?thesis using False by (simp add: rewrite_sse_def list_ex_iff)
qed

end

text \<open>
  Rewriting an event stream preserves its framing. The output has the same lines with the same
  line endings; a line that carries no JSON message is passed through verbatim, and one that does
  carries the transformed message.
\<close>

theorem sse_framing_preserved:
  assumes "json_line_codec C" and "is_event_stream ct body" and "from_utf8 body"
    and "\<forall>l \<in> set (split_inclusive body). \<forall>m. line_message C l = Some m \<longrightarrow> json_plain m"
  shows "list_all2
    (\<lambda>l l'. line_ending l' = line_ending l \<and>
       (case line_message C l of
          None \<Rightarrow> l' = l
        | Some m \<Rightarrow> line_message C l' = Some (snd (transform_message allow slim m))))
    (split_inclusive body) (split_inclusive (transform_with C body ct allow slim))"
proof -
  let ?f = "transform_message allow slim" and ?ls = "split_inclusive body"
  have f: "json_plain (snd (?f m)) \<and> (\<not> fst (?f m) \<longrightarrow> snd (?f m) = m)" if "json_plain m" for m
    using that transform_message_ok [of 127 m allow slim] transform_message_unchanged [of m allow slim]
    by (simp add: json_plain_ok) (simp add: json_ok_def)
  have lines: "line_message C l = Some m \<Longrightarrow> json_plain m" if "l \<in> set ?ls" for l m
    using assms(4) that by blast
  show ?thesis
  proof (cases "allow = None \<and> \<not> slim")
    case True
    then have "\<not> fst (?f m)" for m
      by (auto simp: transform_message_def Let_def list_ex_iff split: option.splits)
    then have "snd (?f m) = m" if "json_plain m" for m using f [OF that] by blast
    then show ?thesis
      using True lines by (auto simp: transform_with_def list_all2_same split: option.splits)
  next
    case False
    then have "transform_with C body ct allow slim = rewrite_sse C body ?f"
      using assms(2) by (auto simp: transform_with_def rewrite_jsonrpc_def)
    then have "split_inclusive (transform_with C body ct allow slim) = map (\<lambda>l. fst (rewrite_line C ?f l)) ?ls"
      using json_line_codec.rewrite_sse_lines [OF assms(1) f lines assms(3)] by simp
    moreover have "list_all2
        (\<lambda>l l'. line_ending l' = line_ending l \<and>
          (case line_message C l of None \<Rightarrow> l' = l | Some m \<Rightarrow> line_message C l' = Some (snd (?f m))))
        ?ls (map (\<lambda>l. fst (rewrite_line C ?f l)) ?ls)"
      unfolding list_all2_map2 list_all2_same
      by (intro ballI json_line_codec.rewrite_line_spec(1) [OF assms(1) f]) (use lines in auto)
    ultimately show ?thesis by simp
  qed
qed

text \<open>A response that lists two tools, and a key that may call one of them.\<close>

definition sample_list :: json where
  "sample_list = JObject [(''jsonrpc'', JString ''2.0''),
     (''result'', JObject [(''nextCursor'', JString ''2''), (''tools'', JArray
        [JObject [(''name'', JString ''read'')], JObject [(''name'', JString ''wipe'')]])])]"

definition sample_cred :: AuthCredential where
  "sample_cred = Cred_ApiKey (sample_key\<lparr>key_scopes := JArray [JString ''tools:call:read'']\<rparr>)"

lemma sample_list_plain: "json_plain sample_list"
  by (simp add: sample_list_def json_plain_def less_char_def)

lemma sample_list_parses: "from_slice ref_codec (enc_json sample_list) = Some sample_list"
  using ref.print_parse [OF sample_list_plain] by (simp add: ref_codec_def)

lemma sample_list_tools:
  "result_tools sample_list =
     Some [JObject [(''name'', JString ''read'')], JObject [(''name'', JString ''wipe'')]]"
  by (simp add: sample_list_def result_tools_def)

lemma sample_cred_allowed:
  "is_method_allowed sample_cred Method_ToolsCall (Some name) \<longleftrightarrow> name = ''read''"
  by (auto simp: is_method_allowed_def sample_cred_def ApiKey_scope_checker_def ApiKey_scopes_def
      json_string_list_def ScopeChecker_new_def Scope_parse_def str_strip_prefix_def is_allowed_def
      List.map_filter_def)

theorem filter_tools_exact_witness:
  "\<exists>out r. from_slice ref_codec (transform_tools_list ref_codec (enc_json sample_list) (Some ''application/json'')
      (Some sample_cred) True False) = Some out \<and>
    result_tools out = Some [JObject [(''name'', JString ''read'')]] \<and> json_get out ''result'' = Some r \<and>
    json_get r ''nextCursor'' = Some (JString ''2'')"
proof -
  have "\<not> is_event_stream (Some ''application/json'') (enc_json sample_list)"
    by (simp add: is_event_stream_def str_starts_with_def)
  note listed = filter_tools_exact [OF ref.json_codec_axioms this, of sample_cred False, THEN conjunct2, THEN conjunct2, rule_format,
      OF conjI [OF sample_list_parses conjI [OF sample_list_plain sample_list_tools]]]
  have allowed: "filter (\<lambda>t. \<forall>name. tool_json_name t = Some name \<longrightarrow> is_method_allowed sample_cred Method_ToolsCall (Some name))
      [JObject [(''name'', JString ''read'')], JObject [(''name'', JString ''wipe'')]] = [JObject [(''name'', JString ''read'')]]"
    by (simp add: sample_cred_allowed tool_json_name_def)
  obtain out shown r r' where o: "from_slice ref_codec (transform_tools_list ref_codec (enc_json sample_list) (Some ''application/json'')
        (Some sample_cred) True False) = Some out" "result_tools out = Some shown"
      "list_all2 (\<lambda>t t'. trimmed t t' \<and> (\<not> False \<longrightarrow> t' = t)) [JObject [(''name'', JString ''read'')]] shown"
      "json_get sample_list ''result'' = Some r" "json_get out ''result'' = Some r'" "\<forall>k. k \<noteq> ''tools'' \<longrightarrow> json_get r' k = json_get r k"
    using listed unfolding allowed by (elim exE conjE) (rule that; assumption)
  have "shown = [JObject [(''name'', JString ''read'')]]" using o(3) by (auto simp: list_all2_Cons1)
  moreover have "json_get r' ''nextCursor'' = Some (JString ''2'')" using o(4) o(6) [THEN spec, of "''nextCursor''"] by (auto simp: sample_list_def)
  ultimately show ?thesis using o(1,2,5) by blast
qed

lemma enc_string_ascii: "c \<in> set (enc_string s) \<Longrightarrow> (of_char c :: nat) < 128"
proof (induction s)
  case (Cons x s)
  then show ?case using of_nibble [OF of_char_div_16 [of x]] of_nibble [of "of_char x mod 16"] of_char_div_16 [of x]
    by auto
qed simp

lemma enc_json_ascii: "c \<in> set (enc_json v) \<Longrightarrow> (of_char c :: nat) < 128"
proof (induction v)
  case (JNumber x)
  then show ?case by (cases x) (auto simp: enc_nat_def split: if_splits)
next
  case (JObject m)
  have "(of_char c :: nat) < 128" if "kv \<in> set m" "c \<in> set (enc_json (snd kv))" for kv
    using JObject.IH [OF that(1), of "snd kv"] that(2) by (cases kv) auto
  then show ?case using JObject.prems enc_string_ascii by (auto split: if_splits)
qed (use enc_string_ascii in \<open>auto split: if_splits\<close>)

definition sample_sse :: bytes where
  "sample_sse = ''event: message'' @ [CHR 0x0A] @ ''data: '' @ enc_json sample_list @ [CHR 0x0A, CHR 0x0A]"

theorem sse_framing_preserved_witness:
  "list_all2
    (\<lambda>l l'. line_ending l' = line_ending l \<and>
       (case line_message ref_codec l of
          None \<Rightarrow> l' = l
        | Some m \<Rightarrow> line_message ref_codec l' = Some (snd (transform_message (Some (\<lambda>n. n = ''read'')) True m))))
    (split_inclusive sample_sse)
    (split_inclusive (transform_with ref_codec sample_sse (Some ''text/event-stream'') (Some (\<lambda>n. n = ''read'')) True))"
proof (rule sse_framing_preserved [OF ref_line.json_line_codec_axioms])
  show "is_event_stream (Some ''text/event-stream'') sample_sse"
    by (simp add: is_event_stream_def str_starts_with_def)
  show "from_utf8 sample_sse"
    by (rule from_utf8_ascii) (auto simp: sample_sse_def enc_json_ascii)
  have eol: "CHR 0x0A \<notin> set (enc_json sample_list)" "CHR 0x0D \<notin> set (enc_json sample_list)"
    by (simp_all add: enc_json_no_eol)
  then have no_eol: "\<forall>c \<in> set (''data: '' @ enc_json sample_list). \<not> is_eol c"
    by (auto simp: is_eol_def)
  have data: "split_inclusive (CHR ''d'' # CHR ''a'' # CHR ''t'' # CHR ''a'' # CHR '':'' # CHR '' '' # enc_json sample_list @ [CHR 0x0A, CHR 0x0A]) =
      [''data: '' @ enc_json sample_list @ [CHR 0x0A], [CHR 0x0A]]"
    using split_inclusive_line [of "''data: '' @ enc_json sample_list" "[CHR 0x0A]"] eol by simp
  have "trim_eol (''data: '' @ enc_json sample_list @ [CHR 0x0A]) = ''data: '' @ enc_json sample_list"
    using trim_eol_new(1) [OF no_eol, of "[CHR 0x0A]"] by (simp add: is_eol_def)
  then have "line_message ref_codec (''data: '' @ enc_json sample_list @ [CHR 0x0A]) = Some sample_list"
    by (simp add: line_message_def data_payload_def str_strip_prefix_def sample_list_parses)
  moreover have "line_message ref_codec (''event: message'' @ [CHR 0x0A]) = None" "line_message ref_codec [CHR 0x0A] = None"
    by (simp_all add: line_message_def trim_eol_def is_eol_def data_payload_def str_strip_prefix_def)
  ultimately show "\<forall>l \<in> set (split_inclusive sample_sse). \<forall>m. line_message ref_codec l = Some m \<longrightarrow> json_plain m"
    using sample_list_plain data by (simp add: sample_sse_def)
qed

end
