(* ===== verification/Affinity.thy ===== *)
theory Affinity
  imports Redis_Cache
begin

text \<open>
  Session affinity (\<^verbatim>\<open>crates/proxy/src/affinity.rs\<close>): which Fly Machine a request is pinned to. The
  process-local state is the table of round-robin cursors, the shared state is Redis; the Fly
  Machines API is the parameter \<open>fly\<close>. All of it is best-effort, so every failure is the default
  decision.
\<close>

definition SESSION_TTL_SECS :: nat where "SESSION_TTL_SECS = 3600"
definition MACHINE_LIST_TTL_SECS :: nat where "MACHINE_LIST_TTL_SECS = 30"

section \<open>Choosing a machine\<close>

text \<open>\<^verbatim>\<open>RR_CURSORS\<close>: a cursor per app, a \<^verbatim>\<open>usize\<close> that wraps.\<close>

type_synonym cursors = "string \<rightharpoonup> 64 word"

definition next_rr :: "string \<Rightarrow> nat \<Rightarrow> cursors \<Rightarrow> nat \<times> cursors" where
  "next_rr app len cursors =
     (if len = 0 then (0, cursors)
      else (let cur = unwrap_or (cursors app) 0
            in (unat cur mod len, cursors(app \<mapsto> cur + 1))))"

record Affinity =
  af_forced_machine :: "string option"
  af_bind_session_to :: "string option"
  af_app :: "string option"

definition Affinity_default :: Affinity where
  "Affinity_default = \<lparr>af_forced_machine = None, af_bind_session_to = None, af_app = None\<rparr>"

record Machine =
  mc_id :: string
  mc_state :: string

text \<open>\<^verbatim>\<open>split("://").nth(1)\<close>: what stands between the first separator and the next, if there is one.\<close>

fun until_sep :: "string \<Rightarrow> string" where
  "until_sep [] = []"
| "until_sep (c # s) = (if str_starts_with (c # s) ''://'' then [] else c # until_sep s)"

fun after_sep :: "string \<Rightarrow> string option" where
  "after_sep [] = None"
| "after_sep (c # s) = (if str_starts_with (c # s) ''://'' then Some (drop 2 s) else after_sep s)"

definition app_name_from_target :: "string \<Rightarrow> string option" where
  "app_name_from_target target_url =
     (case after_sep target_url of
        None \<Rightarrow> None
      | Some rest \<Rightarrow>
          (let after_scheme = until_sep rest;
               host = hd (str_split (CHR ''/'') after_scheme);
               host' = hd (str_split (CHR '':'') host)
           in str_strip_suffix host' ''.fly.dev''))"

definition pick_machine :: "string \<Rightarrow> Machine list \<Rightarrow> cursors \<Rightarrow> string option \<times> cursors" where
  "pick_machine app machines cursors =
     (if machines = [] then (None, cursors)
      else (let started = filter (\<lambda>m. mc_state m = ''started'') machines;
                pool = (if started = [] then machines else started);
                (idx, cursors') = next_rr app (length pool) cursors
            in (Some (mc_id (pool ! idx)), cursors')))"


section \<open>Bindings\<close>

definition session_key :: "string \<Rightarrow> string \<Rightarrow> string" where
  "session_key app session_id = ''proxy:mcpaff:sess:'' @ app @ '':'' @ session_id"

definition getex_script :: "'s redis_ops \<Rightarrow> string \<Rightarrow> nat \<Rightarrow> 's \<Rightarrow> rval option \<times> 's" where
  "getex_script R k ttl s =
     (case r_get R s k of Some v \<Rightarrow> (Some v, r_expire R s k ttl) | None \<Rightarrow> (None, s))"

definition lookup_session :: "'s redis_ops \<Rightarrow> string \<Rightarrow> string \<Rightarrow> 's \<Rightarrow> string option \<times> 's" where
  "lookup_session R app session_id s =
     (if r_up R s
      then (case getex_script R (session_key app session_id) SESSION_TTL_SECS s of
              (v, s') \<Rightarrow> (map_option rval_str v, s'))
      else (None, s))"

definition store_session :: "'s redis_ops \<Rightarrow> string \<Rightarrow> string \<Rightarrow> string \<Rightarrow> 's \<Rightarrow> 's" where
  "store_session R app session_id machine s =
     (if r_up R s then r_set_ex R s (session_key app session_id) (rval_of machine) SESSION_TTL_SECS else s)"

definition delete_session :: "'s redis_ops \<Rightarrow> string \<Rightarrow> string \<Rightarrow> 's \<Rightarrow> 's" where
  "delete_session R app session_id s =
     (if r_up R s then r_del R s (session_key app session_id) else s)"

text \<open>
  \<open>fly token url\<close> is the answer to the authorized GET: \<open>None\<close> for a transport error, else the status
  and the machines of the body if they parse.
\<close>

type_synonym fly_api = "string \<Rightarrow> string \<Rightarrow> (nat \<times> Machine list option) option"

definition fetch_machines :: "fly_api \<Rightarrow> string \<Rightarrow> string \<Rightarrow> Machine list" where
  "fetch_machines fly token app =
     (if token = [] then []
      else (case fly token (''https://api.machines.dev/v1/apps/'' @ app @ ''/machines'') of
              Some (status, body) \<Rightarrow>
                (if 200 \<le> status \<and> status < 300 then unwrap_or body [] else [])
            | None \<Rightarrow> []))"

definition machines_key :: "string \<Rightarrow> string" where
  "machines_key app = ''proxy:mcpaff:machines:'' @ app"

definition machine_list ::
  "'s redis_ops \<Rightarrow> Machine list serde \<Rightarrow> fly_api \<Rightarrow> string \<Rightarrow> string \<Rightarrow> 's \<Rightarrow> Machine list \<times> 's" where
  "machine_list R S fly token app s =
     (case cache_get R S s (machines_key app) of
        Some ms \<Rightarrow> (ms, s)
      | None \<Rightarrow>
          (let machines = fetch_machines fly token app
           in (machines,
               if machines = [] then s
               else cache_set R S s (machines_key app) machines MACHINE_LIST_TTL_SECS)))"


section \<open>Decisions\<close>

definition decide ::
  "'s redis_ops \<Rightarrow> Machine list serde \<Rightarrow> fly_api \<Rightarrow> string \<Rightarrow> string \<Rightarrow> headers \<Rightarrow> bool \<Rightarrow>
   's \<times> cursors \<Rightarrow> Affinity \<times> 's \<times> cursors" where
  "decide R S fly token target_url h is_initialize st =
     (let app = app_name_from_target target_url; s = fst st; cursors = snd st
      in case hdr_str h ''mcp-session-id'' of
           Some session_id \<Rightarrow>
             (case app of
                None \<Rightarrow> (Affinity_default, s, cursors)
              | Some app \<Rightarrow>
                  (case lookup_session R app session_id s of
                     (Some machine, s1) \<Rightarrow>
                       (case machine_list R S fly token app s1 of
                          (machines, s2) \<Rightarrow>
                            if list_ex (\<lambda>m. mc_id m = machine) machines
                            then (\<lparr>af_forced_machine = Some machine, af_bind_session_to = None,
                                   af_app = Some app\<rparr>, s2, cursors)
                            else (Affinity_default, delete_session R app session_id s2, cursors))
                   | (None, s1) \<Rightarrow> (Affinity_default, s1, cursors)))
         | None \<Rightarrow>
             (if is_initialize then
                (case app of
                   None \<Rightarrow> (Affinity_default, s, cursors)
                 | Some app \<Rightarrow>
                     (case machine_list R S fly token app s of
                        (machines, s1) \<Rightarrow>
                          (case pick_machine app machines cursors of
                             (Some machine, cursors') \<Rightarrow>
                               (\<lparr>af_forced_machine = Some machine, af_bind_session_to = Some machine,
                                 af_app = Some app\<rparr>, s1, cursors')
                           | (None, cursors') \<Rightarrow> (Affinity_default, s1, cursors'))))
              else (Affinity_default, s, cursors)))"

definition capture_session :: "'s redis_ops \<Rightarrow> Affinity \<Rightarrow> string option \<Rightarrow> 's \<Rightarrow> 's" where
  "capture_session R affinity session_id s =
     (case (af_app affinity, af_bind_session_to affinity, session_id) of
        (Some app, Some machine, Some sid) \<Rightarrow> store_session R app sid machine s
      | _ \<Rightarrow> s)"


section \<open>Correctness\<close>

lemma app_name_no_colon:
  assumes "app_name_from_target url = Some app"
  shows "CHR '':'' \<notin> set app"
proof -
  obtain host where "takeWhile (\<lambda>c. c \<noteq> CHR '':'') host = app @ ''.fly.dev''"
    using assms by (auto simp: app_name_from_target_def Let_def hd_split strip_suffix_Some split: option.splits)
  then have "set app \<subseteq> set (takeWhile (\<lambda>c. c \<noteq> CHR '':'') host)" by auto
  then show ?thesis using set_takeWhileD by fastforce
qed

text \<open>A sequence of picks, each for an app and a pool size.\<close>

fun rr_run :: "(string \<times> nat) list \<Rightarrow> cursors \<Rightarrow> nat list" where
  "rr_run [] c = []"
| "rr_run ((app, len) # calls) c = (case next_rr app len c of (i, c') \<Rightarrow> i # rr_run calls c')"

lemma unat_cursor_suc: "unat (c :: 64 word) + 1 < 2 ^ 64 \<Longrightarrow> unat (c + 1) = unat c + 1"
  by (simp add: unat_word_ariths)

lemma rr_run_app:
  assumes "\<forall>(a, l) \<in> set calls. a = app \<longrightarrow> l = len" and "0 < len"
    and "unat (unwrap_or (c app) 0) + length (filter (\<lambda>x. fst x = app) calls) < 2 ^ 64"
  shows "map snd (filter (\<lambda>x. fst (fst x) = app) (zip calls (rr_run calls c))) =
    map (\<lambda>j. (unat (unwrap_or (c app) 0) + j) mod len) [0..<length (filter (\<lambda>x. fst x = app) calls)]"
  using assms(1,3)
proof (induction calls arbitrary: c)
  case (Cons call calls)
  obtain a l where call: "call = (a, l)" by (cases call)
  obtain i c' where n: "next_rr a l c = (i, c')" by fastforce
  show ?case
  proof (cases "a = app")
    case False
    then have "c' app = c app" using n by (auto simp: next_rr_def Let_def split: if_splits)
    then show ?thesis using Cons.IH [of c'] Cons.prems False by (simp add: call n)
  next
    case True
    let ?x = "unwrap_or (c app) 0" and ?k = "length (filter (\<lambda>x. fst x = app) calls)"
    have l: "l = len" using Cons.prems(1) True call by auto
    have i: "i = unat ?x mod len" and c': "unwrap_or (c' app) 0 = ?x + 1"
      using n True l assms(2) by (auto simp: next_rr_def Let_def)
    have "unat (?x + 1) = unat ?x + 1" using Cons.prems(2) True call by (intro unat_cursor_suc) simp
    then have "map snd (filter (\<lambda>x. fst (fst x) = app) (zip calls (rr_run calls c'))) =
        map (\<lambda>j. (unat ?x + 1 + j) mod len) [0..<?k]"
      using Cons.IH [of c'] Cons.prems True call by (simp add: c')
    also have "\<dots> = map (\<lambda>j. (unat ?x + j) mod len) [1..<Suc ?k]"
      by (simp add: map_Suc_upt [symmetric] comp_def del: upt_Suc)
    finally show ?thesis
      using True n i by (simp add: call upt_conv_Cons del: upt_Suc)
  qed
qed simp

text \<open>
  New sessions are dealt to an app's machines in turn. Whatever other apps' picks are
  interleaved, the picks of one app run through its pool cyclically from its cursor, so they
  spread evenly over the pool and never index outside it.
\<close>

theorem round_robin_fair:
  assumes "\<forall>(a, l) \<in> set calls. a = app \<longrightarrow> l = len" and "0 < len"
    and "unat (unwrap_or (c app) 0) + length (filter (\<lambda>x. fst x = app) calls) < 2 ^ 64"
  shows "let picks = map snd (filter (\<lambda>x. fst (fst x) = app) (zip calls (rr_run calls c)))
    in (\<forall>j < length picks. picks ! j = (unat (unwrap_or (c app) 0) + j) mod len) \<and>
       length picks = length (filter (\<lambda>x. fst x = app) calls) \<and> (\<forall>i \<in> set picks. i < len)"
  using rr_run_app [of calls app len c, OF assms] assms(2) by (simp add: Let_def)

theorem round_robin_fair_witness:
  "let calls = [(''a'', 2), (''b'', 3), (''a'', 2), (''a'', 2)]
   in map snd (filter (\<lambda>x. fst (fst x) = ''a'') (zip calls (rr_run calls Map.empty))) ! 1 = 1"
proof -
  let ?calls = "[(''a'', 2), (''b'', 3), (''a'', 2), (''a'', 2)] :: (string \<times> nat) list"
  have "length (filter (\<lambda>x. fst x = ''a'') ?calls) = 3" by simp
  then show ?thesis
    using round_robin_fair [of ?calls "''a''" 2 Map.empty] by (simp add: Let_def del: rr_run.simps)
qed

context redis_server
begin

lemma lookup_stored:
  assumes "r_up R s" and "\<And>n t. r_up R (elapse n t) = r_up R t"
  shows "fst (lookup_session R app sid (elapse e (store_session R app sid m s))) =
    (if e < SESSION_TTL_SECS then Some m else None)"
  using assms
  by (simp add: lookup_session_def store_session_def getex_script_def get_look look_elapse look_set_ex
      up_set_ex SESSION_TTL_SECS_def)

lemma up_lookup_session: "r_up R (snd (lookup_session R app sid s)) = r_up R s"
  by (simp add: lookup_session_def getex_script_def up_expire split: option.splits)

lemma up_machine_list: "r_up R (snd (machine_list R S fly token app s)) = r_up R s"
  by (simp add: machine_list_def cache_set_def up_set_ex Let_def split: option.splits)

lemma look_delete_session: "r_up R s \<Longrightarrow> look (delete_session R app sid s) (session_key app sid) = None"
  by (simp add: delete_session_def look_del)

end

lemma decide_initialize:
  assumes "hdr_str h ''mcp-session-id'' = None" and "decide R S fly token url h b (s, c) = (a, s1, c1)"
    and "af_bind_session_to a = Some m"
  shows "af_forced_machine a = Some m \<and> (\<exists>app. app_name_from_target url = Some app \<and> af_app a = Some app \<and>
    m \<in> mc_id ` set (fst (machine_list R S fly token app s)))"
proof -
  have ne: "pool ! fst (next_rr app (length pool) c) \<in> set pool" if "pool \<noteq> []" for app :: string and pool :: "Machine list"
    using that by (simp add: next_rr_def Let_def)
  have pick: "m' \<in> mc_id ` set ms" if "pick_machine app ms c = (Some m', c')" for app ms m' c'
  proof -
    define pool where "pool = (if filter (\<lambda>m. mc_state m = ''started'') ms = [] then ms
      else filter (\<lambda>m. mc_state m = ''started'') ms)"
    have "pool \<noteq> []" "set pool \<subseteq> set ms" "m' = mc_id (pool ! fst (next_rr app (length pool) c))"
      using that by (auto simp: pick_machine_def pool_def Let_def split: if_splits prod.splits)
    then show ?thesis using ne [of pool app] by blast
  qed
  show ?thesis
    using assms pick
    by (auto simp: decide_def Affinity_default_def Let_def split: option.splits prod.splits if_splits)
qed

text \<open>
  A session sticks to the machine that opened it. The machine an \<^verbatim>\<open>initialize\<close> was forced to is
  one of the app's machines, and every later request of that session within an hour is forced to
  the same machine as long as the app still lists it; when the machine is gone the binding is
  deleted and nothing is forced. Bindings of different apps or sessions never share a key.
\<close>

theorem session_sticky:
  assumes "redis_server R look elapse" and "\<And>n t. r_up R (elapse n t) = r_up R t"
    and "hdr_str h1 ''mcp-session-id'' = None"
    and "decide R S fly token url h1 True (s, c) = (a, s1, c1)" and "af_bind_session_to a = Some m"
    and "r_up R s1" and "hdr_str h2 ''mcp-session-id'' = Some sid"
    and "app_name_from_target url = Some app" and "e < 3600"
    and "app_name_from_target url' = Some app'"
  shows "af_forced_machine a = Some m \<and>
    (let s2 = elapse e (capture_session R a (Some sid) s1);
         machines = fst (machine_list R S fly2 token app (snd (lookup_session R app sid s2)));
         d = decide R S fly2 token url h2 b (s2, c2)
     in if m \<in> mc_id ` set machines
        then af_forced_machine (fst d) = Some m
        else fst d = Affinity_default \<and> look (fst (snd d)) (session_key app sid) = None) \<and>
    (session_key app sid = session_key app' sid' \<longrightarrow> app = app' \<and> sid = sid')"
proof -
  have init: "af_forced_machine a = Some m" "af_app a = Some app"
    using decide_initialize [OF assms(3,4,5)] assms(8) by auto
  let ?s2 = "elapse e (store_session R app sid m s1)"
  have cap: "capture_session R a (Some sid) s1 = store_session R app sid m s1"
    using init assms(5) by (simp add: capture_session_def)
  have "fst (lookup_session R app sid ?s2) = Some m"
    using redis_server.lookup_stored [OF assms(1,6) assms(2)] assms(9) by (simp add: SESSION_TTL_SECS_def)
  then obtain s3 where look: "lookup_session R app sid ?s2 = (Some m, s3)" by (metis prod.collapse)
  obtain ms s4 where ml: "machine_list R S fly2 token app s3 = (ms, s4)" by fastforce
  have "r_up R ?s2"
    using assms(2,6) redis_server.up_set_ex [OF assms(1)] by (simp add: store_session_def)
  then have "r_up R s4"
    using redis_server.up_lookup_session [OF assms(1), of app sid ?s2] redis_server.up_machine_list [OF assms(1), of S fly2 token app s3]
    by (simp add: look ml)
  then have del: "look (delete_session R app sid s4) (session_key app sid) = None"
    by (rule redis_server.look_delete_session [OF assms(1)])
  have "decide R S fly2 token url h2 b (?s2, c2) = (Affinity_default, delete_session R app sid s4, c2)"
    if "m \<notin> mc_id ` set ms"
    using that assms(7,8) by (auto simp: decide_def Let_def look ml list_ex_iff)
  moreover have "fst (decide R S fly2 token url h2 b (?s2, c2)) =
      (if m \<in> mc_id ` set ms then \<lparr>af_forced_machine = Some m, af_bind_session_to = None, af_app = Some app\<rparr>
       else Affinity_default)"
    using assms(7,8) by (auto simp: decide_def Let_def look ml list_ex_iff)
  moreover have "app = app' \<and> sid = sid'" if "session_key app sid = session_key app' sid'"
    using that append_sep_inject [OF app_name_no_colon [OF assms(8)] app_name_no_colon [OF assms(10)]]
    by (simp add: session_key_def)
  ultimately show ?thesis using init del by (simp add: cap look ml Let_def)
qed

definition sample_fly :: fly_api where
  "sample_fly token url = Some (200, Some [\<lparr>mc_id = ''m1'', mc_state = ''stopped''\<rparr>, \<lparr>mc_id = ''m2'', mc_state = ''started''\<rparr>])"

theorem session_sticky_witness:
  "let S = \<lparr>ser = (\<lambda>_. None), de = (\<lambda>_. None)\<rparr> :: Machine list serde;
       url = ''https://mcp-1.fly.dev/mcp'';
       (a, s1, c1) = decide ref_redis S sample_fly ''t'' url [] True ((True, Map.empty), Map.empty);
       s2 = ref_elapse 3599 (capture_session ref_redis a (Some ''sid'') s1)
   in af_forced_machine (fst (decide ref_redis S sample_fly ''t'' url [(''mcp-session-id'', ''sid'')] False (s2, c1))) = Some ''m2''"
proof -
  let ?S = "\<lparr>ser = (\<lambda>_. None), de = (\<lambda>_. None)\<rparr> :: Machine list serde"
  let ?url = "''https://mcp-1.fly.dev/mcp''" and ?s = "(True, Map.empty) :: ref_store"
  let ?a = "\<lparr>af_forced_machine = Some ''m2'', af_bind_session_to = Some ''m2'', af_app = Some ''mcp-1''\<rparr>"
  have app: "app_name_from_target ?url = Some ''mcp-1''" by code_simp
  have ms: "machine_list ref_redis ?S sample_fly ''t'' app s =
      ([\<lparr>mc_id = ''m1'', mc_state = ''stopped''\<rparr>, \<lparr>mc_id = ''m2'', mc_state = ''started''\<rparr>], s)" for app s
    by (simp add: machine_list_def cache_get_def cache_set_def fetch_machines_def sample_fly_def
        split: option.splits rval.splits)
  have init: "decide ref_redis ?S sample_fly ''t'' ?url [] True (?s, Map.empty) = (?a, ?s, [''mcp-1'' \<mapsto> 1])"
    by (simp add: decide_def app ms hdr_str_def pick_machine_def next_rr_def Let_def)
  have hdr: "hdr_str [] ''mcp-session-id'' = None" "hdr_str [(''mcp-session-id'', ''sid'')] ''mcp-session-id'' = Some ''sid''"
    by (simp_all add: hdr_str_def hdr_get_def hdr_to_str_def visible_ascii_def)
  have up: "r_up ref_redis (ref_elapse n t) = r_up ref_redis t" "r_up ref_redis ?s" for n t
    by (simp_all add: ref_redis_def ref_elapse_def)
  have "af_forced_machine (fst (decide ref_redis ?S sample_fly ''t'' ?url [(''mcp-session-id'', ''sid'')] False
      (ref_elapse 3599 (capture_session ref_redis ?a (Some ''sid'') ?s), [''mcp-1'' \<mapsto> 1]))) = Some ''m2''"
    using session_sticky [OF ref_store.redis_server_axioms up(1) hdr(1) init _ up(2) hdr(2) app _ app,
        where e = 3599 and ?fly2.0 = sample_fly and b = False and ?c2.0 = "[''mcp-1'' \<mapsto> 1]" and sid' = "''sid''"]
    by (simp add: Let_def ms)
  then show ?thesis by (simp add: Let_def init)
qed

end
