(* ===== verification/Meta_Tools.thy ===== *)
theory Meta_Tools
  imports Models Http "HOL-Library.Product_Lexorder" "HOL-Library.Multiset"
begin

text \<open>
  The synthetic tools (\<^verbatim>\<open>crates/proxy/src/meta_tools.rs\<close>, \<^verbatim>\<open>code_mode.rs\<close>, \<^verbatim>\<open>code_runner.rs\<close>): their
  definitions, lexical ranking of the catalog, the bodies of their results, the rewriting of
  \<^verbatim>\<open>call_tool\<close> and the sandbox runner's client. Unicode lower-casing is the parameter \<open>lower\<close>; the
  white space of \<^verbatim>\<open>split_whitespace\<close> is that of the theory Http.
\<close>

definition trim_is_empty :: "string \<Rightarrow> bool" where
  "trim_is_empty s \<longleftrightarrow> split_whitespace s = []"


section \<open>Search mode\<close>

definition SEARCH_TOOLS :: string where "SEARCH_TOOLS = ''search_tools''"
definition CALL_TOOL :: string where "CALL_TOOL = ''call_tool''"
definition SEARCH_LIMIT :: nat where "SEARCH_LIMIT = 10"

definition search_tools_def_json :: json where
  "search_tools_def_json = jobj
     [(''name'', JString SEARCH_TOOLS),
      (''description'', JString ''Search this server's available tools by keyword. Returns matching tool names, descriptions, and input schemas. Use this to discover which tool to call, then invoke it with `call_tool`.''),
      (''inputSchema'', jobj
         [(''type'', JString ''object''),
          (''properties'', jobj [(''query'', jobj
             [(''type'', JString ''string''),
              (''description'', JString ''Keywords describing the tool or capability you need. Leave empty to list all tools.'')])]),
          (''required'', JArray [])])]"

definition call_tool_def_json :: json where
  "call_tool_def_json = jobj
     [(''name'', JString CALL_TOOL),
      (''description'', JString ''Invoke one of this server's tools by name. First use `search_tools` to find the tool's name and input schema.''),
      (''inputSchema'', jobj
         [(''type'', JString ''object''),
          (''properties'', jobj
             [(''name'', jobj
                [(''type'', JString ''string''),
                 (''description'', JString ''The exact name of the tool to call (as returned by search_tools).'')]),
              (''arguments'', jobj
                [(''type'', JString ''object''),
                 (''description'', JString ''Arguments object matching the tool's input schema.'')])]),
          (''required'', JArray [JString ''name''])])]"

definition meta_definitions :: "json list" where
  "meta_definitions = [search_tools_def_json, call_tool_def_json]"

text \<open>The score of one tool: two per term in its name, one per term in its description.\<close>

definition tool_score :: "(string \<Rightarrow> string) \<Rightarrow> string list \<Rightarrow> Tool \<Rightarrow> int" where
  "tool_score lower terms t =
     (let name = lower (tool_name t); desc = lower (unwrap_or (tool_description t) [])
      in fold (\<lambda>term score. score + (if str_contains name term then 2 else 0) +
                 (if str_contains desc term then 1 else 0)) terms 0)"

definition scored_tools :: "(string \<Rightarrow> string) \<Rightarrow> string list \<Rightarrow> Tool list \<Rightarrow> (int \<times> Tool) list" where
  "scored_tools lower terms tools =
     List.map_filter
       (\<lambda>t. if terms = [] then Some (0, t)
            else (let score = tool_score lower terms t in if score > 0 then Some (score, t) else None))
       tools"

text \<open>The comparator: higher score first, ties by name. The sort is stable.\<close>

definition rank_key :: "int \<times> Tool \<Rightarrow> int \<times> string" where
  "rank_key st = (- fst st, tool_name (snd st))"

definition rank_tools :: "(string \<Rightarrow> string) \<Rightarrow> Tool list \<Rightarrow> string \<Rightarrow> nat \<Rightarrow> Tool list" where
  "rank_tools lower tools query limit =
     map snd (take limit (sort_key rank_key
       (scored_tools lower (split_whitespace (lower query)) tools)))"

definition search_limit :: nat where "search_limit = SEARCH_LIMIT"

definition json_opt :: "json option \<Rightarrow> json" where
  "json_opt v = unwrap_or v JNull"

text \<open>A \<^verbatim>\<open>tools/call\<close> result with one text item.\<close>

definition text_result :: "string \<Rightarrow> bool \<Rightarrow> json option \<Rightarrow> json" where
  "text_result content is_error rid = jobj
     [(''jsonrpc'', JString ''2.0''),
      (''id'', json_opt rid),
      (''result'', jobj
         [(''content'', JArray [jobj [(''type'', JString ''text''), (''text'', JString content)]]),
          (''isError'', JBool is_error)])]"

definition search_result_json :: "codec \<Rightarrow> Tool list \<Rightarrow> json option \<Rightarrow> bytes" where
  "search_result_json C matched rid =
     (let tools_json = map (\<lambda>t. jobj
            [(''name'', JString (tool_name t)),
             (''description'', json_opt (map_option JString (tool_description t))),
             (''inputSchema'', json_opt (tool_input_schema t))]) matched;
          t = unwrap_or (to_vec C (jobj [(''tools'', JArray tools_json)])) ''{\"tools\":[]}''
      in unwrap_or (to_vec C (text_result t False rid)) [])"

definition json_path :: "json \<Rightarrow> string list \<Rightarrow> json option" where
  "json_path v ks = fold (\<lambda>k acc. Option.bind acc (\<lambda>x. json_get x k)) ks (Some v)"

definition extract_search_query :: "codec \<Rightarrow> bytes \<Rightarrow> string" where
  "extract_search_query C body =
     unwrap_or (Option.bind (from_slice C body) (\<lambda>v.
       Option.bind (json_path v [''params'', ''arguments'', ''query'']) as_str)) []"

text \<open>\<^verbatim>\<open>rewrite_call_tool_body\<close>: the wrapped name and arguments, then the rewritten request.\<close>

definition call_tool_target :: "json \<Rightarrow> (string \<times> json) option" where
  "call_tool_target v =
     Option.bind (Option.bind (json_get v ''params'') as_object) (\<lambda>params.
     Option.bind (Option.bind (or_else (map_of params ''arguments'') (map_of params ''args'')) as_object) (\<lambda>wrapper.
     Option.bind (Option.bind (or_else (map_of wrapper ''name'') (map_of wrapper ''tool'')) as_str) (\<lambda>real_name.
     Some (real_name,
           unwrap_or (or_else (map_of wrapper ''arguments'')
                     (or_else (map_of wrapper ''args'') (map_of wrapper ''input''))) (JObject [])))))"

definition rewrite_call_tool_body :: "codec \<Rightarrow> bytes \<Rightarrow> bytes option" where
  "rewrite_call_tool_body C body =
     Option.bind (from_slice C body) (\<lambda>v.
     Option.bind (call_tool_target v) (\<lambda>(real_name, real_args).
     Option.bind (as_object v) (\<lambda>obj.
       let new_params = map_insert ''arguments'' real_args (map_insert ''name'' (JString real_name) [])
       in to_vec C (JObject (map_insert ''params'' (JObject new_params) obj)))))"


section \<open>Code mode\<close>

definition RUN_CODE :: string where "RUN_CODE = ''run_code''"

definition run_code_def_json :: json where
  "run_code_def_json = jobj
     [(''name'', JString RUN_CODE),
      (''description'', JString ''Execute JavaScript that orchestrates this server's tools and return only the result. A global `tools` object exposes each tool as `await tools.<name>(args)`; use `search_tools` first to discover tool names and their input schemas. Prefer this over many separate tool calls for multi-step tasks: filter and combine data in code so intermediate results don't bloat the context. The sandbox has no file system or network beyond the tools, and `return`-ed value (JSON-serializable) is the result.''),
      (''inputSchema'', jobj
         [(''type'', JString ''object''),
          (''properties'', jobj [(''code'', jobj
             [(''type'', JString ''string''),
              (''description'', JString ''JavaScript to run. Use `await tools.<name>({...})` to call tools and `return` the final value.'')])]),
          (''required'', JArray [JString ''code''])])]"

definition code_definitions :: "json list" where
  "code_definitions = [search_tools_def_json, run_code_def_json]"

definition extract_code :: "codec \<Rightarrow> bytes \<Rightarrow> string option" where
  "extract_code C body =
     Option.bind (from_slice C body) (\<lambda>v.
       Option.bind (json_path v [''params'', ''arguments'', ''code'']) as_str)"

definition newline :: string where "newline = [CHR 0x0A]"

definition ts_function :: "codec \<Rightarrow> Tool \<Rightarrow> string" where
  "ts_function C t =
     (case tool_description t of
        Some desc \<Rightarrow>
          (if desc \<noteq> [] then
             ''/** '' @ map (\<lambda>c. if c = CHR 0x0A then CHR '' '' else c) desc @ '' */'' @ newline
           else [])
      | None \<Rightarrow> []) @
     (let schema = unwrap_or (Option.bind (tool_input_schema t) (to_vec C)) ''{}''
      in ''declare function '' @ tool_name t @ ''(args: /* '' @ schema @
         '' */ Record<string, unknown>): Promise<unknown>;'' @ newline @ newline)"

definition generate_ts_api :: "codec \<Rightarrow> Tool list \<Rightarrow> string" where
  "generate_ts_api C tools =
     ''// Available tools (call as `await tools.<name>(args)`):'' @ newline @ newline @
     concat (map (ts_function C) tools)"

definition result_json :: "codec \<Rightarrow> string \<Rightarrow> json option \<Rightarrow> bytes" where
  "result_json C output rid = unwrap_or (to_vec C (text_result output False rid)) []"

definition error_json :: "codec \<Rightarrow> string \<Rightarrow> json option \<Rightarrow> bytes" where
  "error_json C message rid = unwrap_or (to_vec C (text_result message True rid)) []"


section \<open>The sandbox runner's client\<close>

record CodeRunnerClient =
  cr_runner_url :: string
  cr_tools_callback_base :: string
  cr_timeout_secs :: nat
  cr_max_tool_calls :: nat

record RunRequest =
  run_code_text :: string
  run_token :: string
  run_tools_endpoint :: string
  run_timeout_secs :: nat
  run_max_tool_calls :: nat

definition nonblank :: "string option \<Rightarrow> string option" where
  "nonblank v = (case v of Some u \<Rightarrow> (if trim_is_empty u then None else Some u) | None \<Rightarrow> None)"

definition CodeRunner_from_env :: "(string \<Rightarrow> string option) \<Rightarrow> CodeRunnerClient option" where
  "CodeRunner_from_env env =
     (case nonblank (env ''PROXY_CODE_RUNNER_URL'') of
        None \<Rightarrow> None
      | Some runner_url \<Rightarrow> Some \<lparr>
          cr_runner_url = runner_url,
          cr_tools_callback_base =
            unwrap_or (or_else (nonblank (env ''PROXY_CODE_TOOLS_CALLBACK_BASE'')) (env ''PROXY_PUBLIC_URL'')) [],
          cr_timeout_secs = unwrap_or (Option.bind (env ''PROXY_CODE_TIMEOUT_SECS'') (parse_unsigned 64)) 15,
          cr_max_tool_calls =
            unwrap_or (Option.bind (env ''PROXY_CODE_MAX_TOOL_CALLS'') (parse_unsigned 32)) 50 \<rparr>)"

definition tools_endpoint :: "(uuid \<Rightarrow> string) \<Rightarrow> CodeRunnerClient \<Rightarrow> uuid \<Rightarrow> string" where
  "tools_endpoint show_uuid r server_id =
     trim_end_matches (CHR ''/'') (cr_tools_callback_base r) @ ''/internal/code-exec/'' @
     show_uuid server_id @ ''/tools-call''"

text \<open>
  \<^verbatim>\<open>run\<close>: \<open>post\<close> is the HTTP exchange with the runner, its error text or the status (with its
  printed form) and the body, whose JSON form is \<open>None\<close> when it does not parse.
\<close>

definition CodeRunner_run ::
  "codec \<Rightarrow> (string \<Rightarrow> RunRequest \<Rightarrow> string + (nat \<times> string) \<times> (string + json)) \<Rightarrow> CodeRunnerClient \<Rightarrow>
   RunRequest \<Rightarrow> string + string" where
  "CodeRunner_run C post r req =
     (case post (trim_end_matches (CHR ''/'') (cr_runner_url r) @ ''/run'') req of
        Inl e \<Rightarrow> Inl (''runner unreachable: '' @ e)
      | Inr ((status, status_text), body) \<Rightarrow>
          if \<not> (200 \<le> status \<and> status < 300) then Inl (''runner returned HTTP '' @ status_text)
          else (case body of
             Inl e \<Rightarrow> Inl (''bad runner response: '' @ e)
           | Inr v \<Rightarrow>
               (case Option.bind (json_get v ''error'') as_str of
                  Some err \<Rightarrow> Inl err
                | None \<Rightarrow>
                    (case json_get v ''output'' of
                       Some (JString s) \<Rightarrow> Inr s
                     | Some other \<Rightarrow> Inr (unwrap_or (to_vec C other) [])
                     | None \<Rightarrow> Inr []))))"


section \<open>Correctness: ranking\<close>

lemma scored_tools_iff:
  "(s, t) \<in> set (scored_tools lower terms tools) \<longleftrightarrow>
     t \<in> set tools \<and> (if terms = [] then s = 0 else s = tool_score lower terms t \<and> 0 < s)"
  by (auto simp: scored_tools_def List.map_filter_def Let_def)

lemma take_sort_best:
  fixes n :: nat and xs :: "'a list" and f :: "'a \<Rightarrow> 'b :: linorder"
  defines "best \<equiv> take n (sort_key f xs)"
  shows "sorted (map f best)" and "length best = min n (length xs)" and "mset best \<subseteq># mset xs"
    and "x \<in># mset xs - mset best \<Longrightarrow> y \<in> set best \<Longrightarrow> f y \<le> f x"
proof -
  let ?rest = "drop n (sort_key f xs)"
  have sort: "sort_key f xs = best @ ?rest" by (simp add: best_def)
  have "mset xs = mset (sort_key f xs)" by simp
  also have "\<dots> = mset best + mset ?rest" by (subst sort) (simp only: mset_append)
  finally have m: "mset xs = mset best + mset ?rest" .
  have "sorted (map f (best @ ?rest))" using sorted_sort_key [of f xs] sort by simp
  then show "sorted (map f best)" by (simp add: sorted_append)
  show "length best = min n (length xs)" by (simp add: best_def)
  show "mset best \<subseteq># mset xs" by (simp add: m)
  assume "x \<in># mset xs - mset best" "y \<in> set best"
  moreover have "mset xs - mset best = mset ?rest" by (simp add: m)
  ultimately show "f y \<le> f x" using \<open>sorted (map f (best @ ?rest))\<close> by (auto simp: sorted_append)
qed

text \<open>
  The lexical search returns the best matches: only tools of the catalog that match a term (all
  of them for an empty query), at most the limit and fewer only when there are fewer, in order of
  score and then name, and no tool left out ranks before one that is returned.
\<close>

theorem rank_tools_best:
  "\<exists>best. rank_tools lower tools query limit = map snd best \<and>
     (let terms = split_whitespace (lower query); scored = scored_tools lower terms tools
      in (\<forall>(s, t) \<in> set scored. t \<in> set tools \<and> (terms \<noteq> [] \<longrightarrow> 0 < s \<and> s = tool_score lower terms t)) \<and>
         mset best \<subseteq># mset scored \<and> length best = min limit (length scored) \<and>
         sorted (map rank_key best) \<and>
         (\<forall>x \<in># mset scored - mset best. \<forall>y \<in> set best. rank_key y \<le> rank_key x))"
proof -
  let ?terms = "split_whitespace (lower query)"
  let ?scored = "scored_tools lower ?terms tools"
  let ?best = "take limit (sort_key rank_key ?scored)"
  have "rank_tools lower tools query limit = map snd ?best" by (simp add: rank_tools_def)
  moreover have "\<forall>(s, t) \<in> set ?scored. t \<in> set tools \<and> (?terms \<noteq> [] \<longrightarrow> 0 < s \<and> s = tool_score lower ?terms t)"
    by (auto simp: scored_tools_iff split: if_splits)
  ultimately show ?thesis
    using take_sort_best [where f = rank_key and n = limit and xs = ?scored]
    by (intro exI [of _ ?best]) (simp only: Let_def, blast)
qed

definition sample_tool :: "string \<Rightarrow> string \<Rightarrow> Tool" where
  "sample_tool n d = \<lparr> tool_id = 0, tool_server_id = 0, tool_name = n, tool_description = Some d,
     tool_input_schema = None, tool_enabled = True, tool_permission_level = ''normal'',
     tool_rate_limit_per_minute = None, tool_created_at = 0, tool_updated_at = 0 \<rparr>"

theorem rank_tools_best_witness:
  "\<exists>best :: (int \<times> Tool) list. rank_tools id [sample_tool ''b'' ''list issues'', sample_tool ''issues'' ''x''] ''issues'' 1 = map snd best \<and>
     length best \<le> 1"
proof -
  define ts where "ts = [sample_tool ''b'' ''list issues'', sample_tool ''issues'' ''x'']"
  have "\<exists>best :: (int \<times> Tool) list. rank_tools id ts ''issues'' 1 = map snd best \<and> length best \<le> 1"
    using rank_tools_best [of id ts "''issues''" 1] unfolding Let_def
  proof (elim exE conjE)
    fix best :: "(int \<times> Tool) list"
    assume "rank_tools id ts ''issues'' 1 = map snd best"
      and "length best = min 1 (length (scored_tools id (split_whitespace (id ''issues'')) ts))"
    then show ?thesis by (intro exI [of _ best]) simp
  qed
  then show ?thesis unfolding ts_def .
qed

end
