(* ===== verification/Gateway_Pure.thy ===== *)
theory Gateway_Pure
  imports Transform Meta_Tools Request_Cache
begin

text \<open>
  The pure functions of the gateway's \<^verbatim>\<open>crates/proxy/src/main.rs\<close>: host and request inspection, the
  scope check, the sanitized upstream headers, the caller identity and the canonical bodies of the
  response cache, and the transforms applied to list responses.
\<close>

section \<open>Requests\<close>

definition extract_subdomain :: "string \<Rightarrow> string \<Rightarrow> ProxyError + string" where
  "extract_subdomain host base_domain =
     (let host_without_port = hd (str_split (CHR '':'') host);
          base_without_port = hd (str_split (CHR '':'') base_domain)
      in case str_strip_suffix host_without_port (CHR ''.'' # base_without_port) of
           Some subdomain \<Rightarrow>
             (if subdomain = [] \<or> CHR ''.'' \<in> set subdomain
              then Inl (BadRequest ''Invalid subdomain format'') else Inr subdomain)
         | None \<Rightarrow>
             (if host_without_port = base_without_port
              then Inl (BadRequest ''No server specified. Use {server-slug}.{base-domain}'')
              else Inl (BadRequest (''Invalid host: expected *.'' @ base_domain))))"

record McpRequestInfo =
  mi_method :: McpMethod
  mi_method_str :: "string option"
  mi_target :: "string option"
  mi_id :: "json option"

definition request_target :: "McpMethod \<Rightarrow> json \<Rightarrow> string option" where
  "request_target mth v =
     (case mth of
        Method_ToolsCall \<Rightarrow> Option.bind (json_path v [''params'', ''name'']) as_str
      | Method_ResourcesRead \<Rightarrow> Option.bind (json_path v [''params'', ''uri'']) as_str
      | Method_PromptsGet \<Rightarrow> Option.bind (json_path v [''params'', ''name'']) as_str
      | _ \<Rightarrow> None)"

definition extract_mcp_request_info :: "codec \<Rightarrow> bytes \<Rightarrow> McpRequestInfo" where
  "extract_mcp_request_info C body =
     (case from_slice C body of
        None \<Rightarrow> \<lparr>mi_method = Method_Unknown, mi_method_str = None, mi_target = None, mi_id = None\<rparr>
      | Some v \<Rightarrow>
          (case Option.bind (json_get v ''method'') as_str of
             None \<Rightarrow> \<lparr>mi_method = Method_Unknown, mi_method_str = None, mi_target = None,
                      mi_id = json_get v ''id''\<rparr>
           | Some m \<Rightarrow> \<lparr>mi_method = McpMethod_parse m, mi_method_str = Some m,
                        mi_target = request_target (McpMethod_parse m) v, mi_id = json_get v ''id''\<rparr>))"

definition lacks_permission :: "string \<Rightarrow> string \<Rightarrow> string \<Rightarrow> ProxyError" where
  "lacks_permission op all target =
     Forbidden (''Access token lacks permission for '' @ op @ '':'' @ target @ '' (need '' @ op @ '', '' @
       op @ '':'' @ target @ '', or '' @ all @ '')'')"

definition lacks_scope :: "string \<Rightarrow> ProxyError" where
  "lacks_scope scope_needed = Forbidden (''Access token lacks required scope: '' @ scope_needed)"

definition check_scope_permission :: "AuthCredential \<Rightarrow> McpRequestInfo \<Rightarrow> ProxyError + unit" where
  "check_scope_permission cred info =
     (if mi_method info = Method_Unknown then Inr ()
      else if is_method_allowed cred (mi_method info) (mi_target info) then Inr ()
      else (case mi_method info of
         Method_ToolsList \<Rightarrow> Inl (lacks_scope ''tools:list or tools:*'')
       | Method_ToolsCall \<Rightarrow>
           (case mi_target info of
              Some tool \<Rightarrow> Inl (lacks_permission ''tools:call'' ''tools:*'' tool)
            | None \<Rightarrow> Inl (lacks_scope ''tools:call or tools:*''))
       | Method_ResourcesList \<Rightarrow> Inl (lacks_scope ''resources:list or resources:*'')
       | Method_ResourcesRead \<Rightarrow>
           (case mi_target info of
              Some uri \<Rightarrow> Inl (lacks_permission ''resources:read'' ''resources:*'' uri)
            | None \<Rightarrow> Inl (lacks_scope ''resources:read or resources:*''))
       | Method_PromptsList \<Rightarrow> Inl (lacks_scope ''prompts:list or prompts:*'')
       | Method_PromptsGet \<Rightarrow>
           (case mi_target info of
              Some name \<Rightarrow> Inl (lacks_permission ''prompts:get'' ''prompts:*'' name)
            | None \<Rightarrow> Inl (lacks_scope ''prompts:get or prompts:*''))
       | Method_Unknown \<Rightarrow> Inr ()))"

definition is_sse_request :: "headers \<Rightarrow> bool" where
  "is_sse_request h =
     (case hdr_str h ''accept'' of Some v \<Rightarrow> str_contains v ''text/event-stream'' | None \<Rightarrow> False)"


section \<open>Upstream headers\<close>

record ForwardContext =
  fc_auth_enabled :: bool
  fc_client_ip :: string
  fc_host :: string
  fc_server_id :: uuid
  fc_filter_by_scope :: bool
  fc_slim :: bool
  fc_search_mode :: bool
  fc_code_mode :: bool

definition HOP_BY_HOP_HEADERS :: "string list" where
  "HOP_BY_HOP_HEADERS =
     [''connection'', ''keep-alive'', ''proxy-authenticate'', ''proxy-authorization'', ''te'',
      ''trailer'', ''transfer-encoding'', ''upgrade'']"

definition connection_tokens :: "headers \<Rightarrow> string list" where
  "connection_tokens inbound =
     (case hdr_str inbound ''connection'' of
        Some conn \<Rightarrow>
          filter (\<lambda>t. t \<noteq> [])
            (map (\<lambda>tok. to_ascii_lowercase (ascii_trim tok)) (str_split (CHR '','') conn))
      | None \<Rightarrow> [])"

definition forwards_header :: "headers \<Rightarrow> ForwardContext \<Rightarrow> string \<Rightarrow> bool" where
  "forwards_header inbound fwd name =
     (let lname = to_ascii_lowercase name
      in \<not> (lname = ''host'' \<or> lname = ''x-forwarded-for'') \<and>
         lname \<notin> set HOP_BY_HOP_HEADERS \<and>
         lname \<notin> set (connection_tokens inbound) \<and>
         \<not> (lname = ''authorization'' \<and> fc_auth_enabled fwd))"

definition insert_if_valid :: "headers \<Rightarrow> string \<Rightarrow> string \<Rightarrow> headers" where
  "insert_if_valid h name s = (case hdr_from_str s of Some v \<Rightarrow> hdr_insert h name v | None \<Rightarrow> h)"

definition build_upstream_headers :: "headers \<Rightarrow> ForwardContext \<Rightarrow> headers" where
  "build_upstream_headers inbound fwd =
     (let out = filter (\<lambda>kv. forwards_header inbound fwd (fst kv)) inbound;
          xff = (case hdr_str inbound ''x-forwarded-for'' of
                   Some existing \<Rightarrow>
                     (if ascii_trim existing \<noteq> [] then existing @ '', '' @ fc_client_ip fwd
                      else fc_client_ip fwd)
                 | None \<Rightarrow> fc_client_ip fwd);
          out1 = insert_if_valid out ''x-forwarded-for'' xff;
          out2 = insert_if_valid out1 ''x-forwarded-host'' (fc_host fwd)
      in hdr_insert out2 ''x-forwarded-proto'' ''https'')"


section \<open>Cache identity and bodies\<close>

text \<open>\<^verbatim>\<open>Uuid::as_bytes\<close>: sixteen bytes, most significant first.\<close>

definition uuid_bytes :: "uuid \<Rightarrow> bytes" where
  "uuid_bytes u = rev (le_bytes 16 (unat u))"

definition cache_identity :: "AuthCredential option \<Rightarrow> headers \<Rightarrow> bytes" where
  "cache_identity credential inbound =
     (case credential of
        Some cred \<Rightarrow> uuid_bytes (cred_id cred)
      | None \<Rightarrow>
          concat (map (\<lambda>name. case hdr_get inbound name of
              Some value \<Rightarrow> name @ ''='' @ value @ [CHR 0x0A] | None \<Rightarrow> [])
            [''authorization'', ''cookie'']))"

definition jsonrpc_cache_key_body :: "codec \<Rightarrow> bytes \<Rightarrow> bytes" where
  "jsonrpc_cache_key_body C body =
     (case Option.bind (from_slice C body) as_object of
        Some obj \<Rightarrow> unwrap_or (to_vec C (JObject (map_remove ''jsonrpc'' (map_remove ''id'' obj)))) body
      | None \<Rightarrow> body)"

definition strip_jsonrpc_id :: "codec \<Rightarrow> bytes \<Rightarrow> bytes" where
  "strip_jsonrpc_id C body =
     (case Option.bind (from_slice C body) as_object of
        Some obj \<Rightarrow>
          (if map_of obj ''id'' \<noteq> None then unwrap_or (to_vec C (JObject (map_remove ''id'' obj))) body
           else body)
      | None \<Rightarrow> body)"

definition inject_jsonrpc_id :: "codec \<Rightarrow> bytes \<Rightarrow> json option \<Rightarrow> bytes" where
  "inject_jsonrpc_id C body rid =
     (case Option.bind (from_slice C body) as_object of
        Some obj \<Rightarrow> unwrap_or (to_vec C (JObject (map_insert ''id'' (json_opt rid) obj))) body
      | None \<Rightarrow> body)"


section \<open>List responses and the catalog\<close>

definition response_content_type :: "(string \<times> string) list \<Rightarrow> string option" where
  "response_content_type h =
     map_option snd (find (\<lambda>kv. to_ascii_lowercase (fst kv) = ''content-type'') h)"

definition transform_list_body ::
  "codec \<Rightarrow> McpRequestInfo \<Rightarrow> (string \<times> string) list \<Rightarrow> bytes \<Rightarrow> AuthCredential option \<Rightarrow>
   ForwardContext \<Rightarrow> bytes" where
  "transform_list_body C info h body credential fwd =
     (if mi_method info \<noteq> Method_ToolsList then body
      else (let content_type = response_content_type h
            in if fc_code_mode fwd then replace_tools C body content_type code_definitions
               else if fc_search_mode fwd then replace_tools C body content_type meta_definitions
               else (let will_filter = fc_filter_by_scope fwd \<and> credential \<noteq> None
                     in if \<not> will_filter \<and> \<not> fc_slim fwd then body
                        else transform_tools_list C body content_type credential
                               (fc_filter_by_scope fwd) (fc_slim fwd))))"

definition scope_filter_tools :: "Tool list \<Rightarrow> AuthCredential option \<Rightarrow> ForwardContext \<Rightarrow> Tool list" where
  "scope_filter_tools tools credential fwd =
     (case credential of
        Some cred \<Rightarrow>
          (if fc_filter_by_scope fwd
           then filter (\<lambda>t. is_method_allowed cred Method_ToolsCall (Some (tool_name t))) tools else tools)
      | None \<Rightarrow> tools)"

definition tool_embed_text :: "Tool \<Rightarrow> string" where
  "tool_embed_text t =
     (case tool_description t of
        Some desc \<Rightarrow> (if desc \<noteq> [] then tool_name t @ '': '' @ desc else tool_name t)
      | None \<Rightarrow> tool_name t)"


section \<open>Correctness: routing\<close>

lemma hd_split_no_sep: "c \<notin> set x \<Longrightarrow> hd (str_split c (x @ y)) = x @ hd (str_split c y)"
  unfolding hd_split by (induction x) auto

text \<open>
  Every valid slug is reachable under its own host name, with or without a port, and a host
  name leads to one slug only: what stands before the base domain, a single non-empty label.
\<close>

theorem subdomain_routing:
  assumes "validate_slug slug"
  shows "extract_subdomain (slug @ ''.'' @ base) base = Inr slug \<and>
    (extract_subdomain host base = Inr s \<longrightarrow>
       hd (str_split (CHR '':'') host) = s @ ''.'' @ hd (str_split (CHR '':'') base) \<and> s \<noteq> [] \<and> CHR ''.'' \<notin> set s)"
proof -
  have slug: "slug \<noteq> []" "CHR ''.'' \<notin> set slug" "CHR '':'' \<notin> set slug"
    using assms validate_slug_no_dot_colon validate_slug_nonempty by auto
  have "hd (str_split (CHR '':'') (slug @ ''.'' @ base)) = slug @ ''.'' @ hd (str_split (CHR '':'') base)"
    using slug(3) hd_split_no_sep [of "CHR '':''" "slug @ ''.''" base] by simp
  then have "extract_subdomain (slug @ ''.'' @ base) base = Inr slug"
    using slug strip_suffix_append [of slug "CHR ''.'' # hd (str_split (CHR '':'') base)"]
    by (simp add: extract_subdomain_def Let_def)
  moreover have "hd (str_split (CHR '':'') host) = s @ ''.'' @ hd (str_split (CHR '':'') base) \<and> s \<noteq> [] \<and> CHR ''.'' \<notin> set s"
    if "extract_subdomain host base = Inr s"
    using that by (auto simp: extract_subdomain_def Let_def strip_suffix_Some split: option.splits if_splits)
  ultimately show ?thesis by blast
qed

theorem subdomain_routing_witness:
  "extract_subdomain (''my-server'' @ ''.'' @ ''mcp.cloud:8081'') ''mcp.cloud:8081'' = Inr ''my-server''"
proof -
  have "validate_slug ''my-server''" by code_simp
  then show ?thesis using subdomain_routing [of "''my-server''" "''mcp.cloud:8081''"] by blast
qed


section \<open>Correctness: upstream headers\<close>

definition names_lower :: "headers \<Rightarrow> bool" where
  "names_lower h \<longleftrightarrow> (\<forall>kv \<in> set h. to_ascii_lowercase (fst kv) = fst kv)"

lemma map_of_filter_key: "map_of (filter (\<lambda>kv. P (fst kv)) h) n = (if P n then map_of h n else None)"
  by (induction h) auto

lemma hdr_get_insert_if_valid:
  "hdr_get (insert_if_valid h n s) m =
     (if m = n \<and> list_all visible_ascii s then Some s else hdr_get h m)"
  by (simp add: insert_if_valid_def hdr_from_str_def)

lemma upstream_header_get:
  assumes "n \<notin> {''x-forwarded-for'', ''x-forwarded-host'', ''x-forwarded-proto''}"
  shows "hdr_get (build_upstream_headers inbound fwd) n =
    (if forwards_header inbound fwd n then hdr_get inbound n else None)"
  using assms by (simp add: build_upstream_headers_def Let_def hdr_get_insert_if_valid)
    (simp add: hdr_get_def map_of_filter_key)



text \<open>
  The other header a client can authenticate with is not among those: an API key sent as
  \<^verbatim>\<open>X-API-Key\<close> reaches the upstream server.
\<close>

lemma x_api_key_forwarded:
  assumes "''x-api-key'' \<notin> set (connection_tokens inbound)"
  shows "hdr_get (build_upstream_headers inbound fwd) ''x-api-key'' = hdr_get inbound ''x-api-key''"
proof -
  have "to_ascii_lowercase ''x-api-key'' = ''x-api-key''" by code_simp
  then show ?thesis using assms by (simp add: upstream_header_get forwards_header_def HOP_BY_HOP_HEADERS_def)
qed


section \<open>Correctness: the response cache is blind to request ids\<close>

lemma json_ok_map_remove: "json_ok n (JObject m) \<Longrightarrow> json_ok n (JObject (map_remove k m))"
  using sorted_map_remove [of m k] by (fastforce simp: json_ok_object map_remove_def)

lemma json_ok_map_insert:
  "json_ok (Suc n) (JObject m) \<Longrightarrow> json_ok n v \<Longrightarrow> json_ok (Suc n) (JObject (map_insert k v m))"
  using set_map_insert [of k v m] by (auto simp: json_ok_object sorted_map_insert)

context json_codec
begin

lemma key_body_value:
  assumes "from_slice C body = Some (JObject m)" and "json_plain (JObject m)"
  shows "to_vec C (JObject (map_remove ''jsonrpc'' (map_remove ''id'' m))) = Some (jsonrpc_cache_key_body C body)"
proof -
  have "json_plain (JObject (map_remove ''jsonrpc'' (map_remove ''id'' m)))"
    using assms(2) json_ok_map_remove by (simp add: json_plain_ok)
  then obtain b where "to_vec C (JObject (map_remove ''jsonrpc'' (map_remove ''id'' m))) = Some b"
    using print_parse by blast
  then show ?thesis using assms(1) by (simp add: jsonrpc_cache_key_body_def)
qed

lemma strip_value:
  assumes "from_slice C body = Some (JObject m)" and "json_plain (JObject m)"
  shows "from_slice C (strip_jsonrpc_id C body) = Some (JObject (map_remove ''id'' m))"
proof (cases "map_of m ''id'' = None")
  case True
  then have "map_remove ''id'' m = m" by (force simp: map_remove_def map_of_eq_None_iff intro!: filter_True)
  then show ?thesis using True assms(1) by (simp add: strip_jsonrpc_id_def)
next
  case False
  have "json_plain (JObject (map_remove ''id'' m))"
    using assms(2) json_ok_map_remove by (simp add: json_plain_ok)
  then obtain b where "to_vec C (JObject (map_remove ''id'' m)) = Some b" "from_slice C b = Some (JObject (map_remove ''id'' m))"
    using print_parse by blast
  then show ?thesis using False assms(1) by (auto simp: strip_jsonrpc_id_def)
qed

lemma inject_value:
  assumes "from_slice C body = Some (JObject m)" and "json_plain (JObject m)" and "json_ok 126 (json_opt rid)"
  shows "from_slice C (inject_jsonrpc_id C body rid) = Some (JObject (map_insert ''id'' (json_opt rid) m))"
proof -
  have "json_plain (JObject (map_insert ''id'' (json_opt rid) m))"
    using json_ok_map_insert [of 126 m "json_opt rid"] assms(2,3) by (simp add: json_plain_ok)
  then obtain b where "to_vec C (JObject (map_insert ''id'' (json_opt rid) m)) = Some b"
      "from_slice C b = Some (JObject (map_insert ''id'' (json_opt rid) m))"
    using print_parse by blast
  then show ?thesis using assms(1) by (simp add: inject_jsonrpc_id_def)
qed

end

text \<open>
  Two requests share a cache entry exactly when they differ at most in their JSON-RPC \<^verbatim>\<open>id\<close> and
  version fields, and what a caller is served from the cache is the upstream's message with that
  caller's own id in place of whatever id it had.
\<close>

theorem cached_response_correlated:
  assumes "json_codec C"
    and "from_slice C b1 = Some (JObject m1)" and "json_plain (JObject m1)"
    and "from_slice C b2 = Some (JObject m2)" and "json_plain (JObject m2)"
    and "from_slice C resp = Some (JObject r)" and "json_plain (JObject r)" and "json_ok 126 (json_opt rid)"
  shows "(jsonrpc_cache_key_body C b1 = jsonrpc_cache_key_body C b2 \<longleftrightarrow>
      (\<forall>k. k \<notin> {''id'', ''jsonrpc''} \<longrightarrow> map_of m1 k = map_of m2 k)) \<and>
    from_slice C (inject_jsonrpc_id C (strip_jsonrpc_id C resp) rid) =
      Some (JObject (map_insert ''id'' (json_opt rid) (map_remove ''id'' r)))"
proof -
  let ?r1 = "map_remove ''jsonrpc'' (map_remove ''id'' m1)" and ?r2 = "map_remove ''jsonrpc'' (map_remove ''id'' m2)"
  have plain: "json_plain (JObject ?r1)" "json_plain (JObject ?r2)"
    using assms(3,5) json_ok_map_remove by (simp_all add: json_plain_ok)
  have "jsonrpc_cache_key_body C b1 = jsonrpc_cache_key_body C b2 \<longleftrightarrow> to_vec C (JObject ?r1) = to_vec C (JObject ?r2)"
    using json_codec.key_body_value [OF assms(1,2,3)] json_codec.key_body_value [OF assms(1,4,5)] by simp
  also have "\<dots> \<longleftrightarrow> ?r1 = ?r2"
    using json_codec.to_vec_inject [OF assms(1) plain] by auto
  also have "\<dots> \<longleftrightarrow> map_of ?r1 = map_of ?r2"
  proof
    show "?r1 = ?r2" if "map_of ?r1 = map_of ?r2"
      using sorted_map_eqI [OF _ _ that] plain by (simp add: json_plain_def)
  qed (rule arg_cong)
  also have "\<dots> \<longleftrightarrow> (\<forall>k. k \<notin> {''id'', ''jsonrpc''} \<longrightarrow> map_of m1 k = map_of m2 k)"
    by (auto simp: fun_eq_iff)
  finally have "jsonrpc_cache_key_body C b1 = jsonrpc_cache_key_body C b2 \<longleftrightarrow>
      (\<forall>k. k \<notin> {''id'', ''jsonrpc''} \<longrightarrow> map_of m1 k = map_of m2 k)" .
  moreover have "json_plain (JObject (map_remove ''id'' r))"
    using assms(7) json_ok_map_remove by (simp add: json_plain_ok)
  ultimately show ?thesis
    using json_codec.inject_value [OF assms(1) json_codec.strip_value [OF assms(1,6,7)] _ assms(8)] by blast
qed

definition sample_request_body :: "int \<Rightarrow> json" where
  "sample_request_body i = JObject [(''id'', JNumber (NInt i)), (''method'', JString ''tools/list'')]"

theorem cached_response_correlated_witness:
  "jsonrpc_cache_key_body ref_codec (enc_json (sample_request_body 1)) =
   jsonrpc_cache_key_body ref_codec (enc_json (sample_request_body 2))"
proof -
  have plain: "json_plain (sample_request_body i)" for i
    by (simp add: sample_request_body_def json_plain_def less_char_def)
  then have parse: "from_slice ref_codec (enc_json (sample_request_body i)) = Some (sample_request_body i)" for i
    using ref.print_parse [OF plain, of i] by (simp add: ref_codec_def)
  have "json_ok 126 (json_opt None)" by (simp add: json_opt_def json_ok_def)
  then show ?thesis
    using cached_response_correlated [OF ref.json_codec_axioms parse [of 1, unfolded sample_request_body_def]
        plain [of 1, unfolded sample_request_body_def] parse [of 2, unfolded sample_request_body_def]
        plain [of 2, unfolded sample_request_body_def] parse [of 1, unfolded sample_request_body_def]
        plain [of 1, unfolded sample_request_body_def]]
    by (simp add: sample_request_body_def)
qed

section \<open>Correctness: the caller identity\<close>

lemma uuid_bytes_inject: "uuid_bytes a = uuid_bytes b \<longleftrightarrow> a = b"
proof
  assume "uuid_bytes a = uuid_bytes b"
  then have "le_bytes 16 (unat a) = le_bytes 16 (unat b)" by (simp add: uuid_bytes_def)
  moreover have lt: "unat (w :: uuid) < 256 ^ 16" for w using unsigned_less [of w] by simp
  ultimately have "unat a = unat b" using le_bytes_inject [OF _ lt lt] by blast
  then show "a = b" by (simp add: word_unat_eq_iff)
qed simp

text \<open>
  The caller identity separates callers. Requests the gateway authenticated have the same
  identity exactly when they come from the same credential; requests it passes through have the
  same identity exactly when their first \<^verbatim>\<open>Authorization\<close> and first \<^verbatim>\<open>Cookie\<close> values agree (header values
  contain no line feed).
\<close>

theorem cache_identity_separates:
  assumes "\<forall>v \<in> set (map snd h @ map snd h'). CHR 0x0A \<notin> set v"
  shows "(cache_identity (Some c) h = cache_identity (Some c') h' \<longleftrightarrow> cred_id c = cred_id c') \<and>
    (cache_identity None h = cache_identity None h' \<longleftrightarrow>
       hdr_get h ''authorization'' = hdr_get h' ''authorization'' \<and> hdr_get h ''cookie'' = hdr_get h' ''cookie'')"
proof -
  have no_nl: "CHR 0x0A \<notin> set v" if "hdr_get h n = Some v \<or> hdr_get h' n = Some v" for n v
    using that assms by (force simp: hdr_get_def dest!: map_of_SomeD)
  define part where "part n x = (case hdr_get x n of Some v \<Rightarrow> n @ ''='' @ v @ [CHR 0x0A] | None \<Rightarrow> [])" for n x
  have id: "cache_identity None x = part ''authorization'' x @ part ''cookie'' x" for x
    by (simp add: cache_identity_def part_def)
  have cookie: "hdr_get h ''cookie'' = hdr_get h' ''cookie''" if "part ''cookie'' h = part ''cookie'' h'"
    using that by (auto simp: part_def split: option.splits)
  have "hdr_get h ''authorization'' = hdr_get h' ''authorization'' \<and> hdr_get h ''cookie'' = hdr_get h' ''cookie''"
    if eq: "cache_identity None h = cache_identity None h'"
  proof (cases "hdr_get h ''authorization''"; cases "hdr_get h' ''authorization''")
    fix a a'
    assume a: "hdr_get h ''authorization'' = Some a" "hdr_get h' ''authorization'' = Some a'"
    have "a @ CHR 0x0A # part ''cookie'' h = a' @ CHR 0x0A # part ''cookie'' h'"
      using eq unfolding id part_def [of "''authorization''"] a by simp
    moreover have "CHR 0x0A \<notin> set a" "CHR 0x0A \<notin> set a'" using no_nl a by blast+
    ultimately have "a = a' \<and> part ''cookie'' h = part ''cookie'' h'" by (intro append_sep_inject)
    then show ?thesis using a cookie by simp
  next
    fix a'
    assume a: "hdr_get h ''authorization'' = None" "hdr_get h' ''authorization'' = Some a'"
    have "part ''cookie'' h = ''authorization='' @ a' @ CHR 0x0A # part ''cookie'' h'"
      using eq unfolding id part_def [of "''authorization''"] a by simp
    then show ?thesis by (cases "hdr_get h ''cookie''") (simp_all add: part_def)
  next
    fix a
    assume a: "hdr_get h ''authorization'' = Some a" "hdr_get h' ''authorization'' = None"
    have "part ''cookie'' h' = ''authorization='' @ a @ CHR 0x0A # part ''cookie'' h"
      using eq unfolding id part_def [of "''authorization''"] a by simp
    then show ?thesis by (cases "hdr_get h' ''cookie''") (simp_all add: part_def)
  next
    assume a: "hdr_get h ''authorization'' = None" "hdr_get h' ''authorization'' = None"
    have "part ''cookie'' h = part ''cookie'' h'"
      using eq unfolding id part_def [of "''authorization''"] a by simp
    then show ?thesis using a cookie by simp
  qed
  then show ?thesis by (auto simp: cache_identity_def uuid_bytes_inject)
qed

theorem cache_identity_separates_witness:
  "cache_identity (Some sample_cred) [] = cache_identity (Some (Cred_ApiKey sample_key)) [] \<and>
   cache_identity None [(''cookie'', ''a=1'')] \<noteq> cache_identity None [(''cookie'', ''a=2'')]"
proof -
  have "\<forall>v \<in> set (map snd [(''cookie'', ''a=1'')] @ map snd [(''cookie'', ''a=2'')]). CHR 0x0A \<notin> set v" by simp
  from cache_identity_separates [OF this]
    cache_identity_separates [of "[]" "[]" sample_cred "Cred_ApiKey sample_key"]
  show ?thesis by (simp add: hdr_get_def sample_cred_def)
qed

text \<open>A second \<^verbatim>\<open>Cookie\<close> line (HTTP/2 sends each cookie as its own line) is not part of the identity.\<close>

lemma second_cookie_ignored:
  "hdr_get h ''cookie'' \<noteq> None \<Longrightarrow>
   cache_identity None (hdr_append h ''cookie'' v) = cache_identity None h"
  by (auto simp: cache_identity_def hdr_get_def hdr_append_def map_add_def split: option.splits)


section \<open>Correctness: the scope check\<close>

lemma check_scope_permission_Inr:
  "check_scope_permission cred info = Inr () \<longleftrightarrow>
     mi_method info = Method_Unknown \<or> is_method_allowed cred (mi_method info) (mi_target info)"
  by (auto simp: check_scope_permission_def split: McpMethod.splits option.splits)

lemma check_scope_permission_Inl:
  "check_scope_permission cred info = Inl e \<Longrightarrow> \<exists>m. e = Forbidden m"
  by (auto simp: check_scope_permission_def lacks_scope_def lacks_permission_def
      split: McpMethod.splits option.splits if_splits)

text \<open>A body that is not an object with a \<^verbatim>\<open>method\<close> passes the check, a JSON-RPC batch among them.\<close>

lemma batch_passes_scope_check:
  "from_slice C body = Some (JArray vs) \<Longrightarrow>
   check_scope_permission cred (extract_mcp_request_info C body) = Inr ()"
  by (simp add: check_scope_permission_Inr extract_mcp_request_info_def)

lemma json_path_Nil [simp]: "json_path v [] = Some v"
  by (simp add: json_path_def)

lemma json_path_Cons [simp]: "json_path v (k # ks) = Option.bind (json_get v k) (\<lambda>x. json_path x ks)"
proof -
  have none: "fold (\<lambda>k acc. Option.bind acc (\<lambda>x. json_get x k)) ks None = None" for ks
    by (induction ks) auto
  show ?thesis by (cases "json_get v k") (simp_all add: json_path_def none)
qed

text \<open>
  The wrapper tool is no way around the scopes. When a \<^verbatim>\<open>call_tool\<close> request is unwrapped, the
  request that is checked and forwarded is a \<^verbatim>\<open>tools/call\<close> of the wrapped tool with the original
  id, so it passes exactly when the credential may call that very tool.
\<close>

theorem call_tool_scope_checked:
  assumes "json_codec C" and "from_slice C body = Some (JObject obj)" and "json_plain (JObject obj)"
    and "map_of obj ''method'' = Some (JString ''tools/call'')"
    and "call_tool_target (JObject obj) = Some (name, args)"
  shows "\<exists>out. rewrite_call_tool_body C body = Some out \<and>
    extract_mcp_request_info C out = \<lparr>mi_method = Method_ToolsCall, mi_method_str = Some ''tools/call'',
      mi_target = Some name, mi_id = map_of obj ''id''\<rparr> \<and>
    (check_scope_permission cred (extract_mcp_request_info C out) = Inr () \<longleftrightarrow>
       is_method_allowed cred Method_ToolsCall (Some name))"
proof -
  let ?params = "JObject (map_insert ''arguments'' args (map_insert ''name'' (JString name) []))"
  let ?v = "JObject (map_insert ''params'' ?params obj)"
  obtain params wrapper p w where p: "map_of obj ''params'' = Some p" "p = JObject params"
    and w: "or_else (map_of params ''arguments'') (map_of params ''args'') = Some w" "w = JObject wrapper"
    and args: "args = unwrap_or (or_else (map_of wrapper ''arguments'')
                     (or_else (map_of wrapper ''args'') (map_of wrapper ''input''))) (JObject [])"
    using assms(5) by (auto simp: call_tool_target_def bind_eq_Some_conv elim!: as_object.elims)
  have "json_ok 127 (JObject obj)" using assms(3) by (simp add: json_plain_ok)
  then have p_ok: "json_ok 126 (JObject params)"
    using json_ok_get [of 127 "JObject obj" "''params''" p] p by simp
  have "json_get (JObject params) ''arguments'' = Some w \<or> json_get (JObject params) ''args'' = Some w"
    using w(1) by (auto simp: or_else_def split: option.splits)
  then have w_ok: "json_ok 125 (JObject wrapper)" using json_ok_get [OF p_ok] w(2) by fastforce
  have "args = JObject [] \<or> (\<exists>k. json_get (JObject wrapper) k = Some args)"
    unfolding args by (auto simp: or_else_def unwrap_or_def split: option.splits)
  then have "json_ok 124 args" using json_ok_get [OF w_ok] by (fastforce simp: json_ok_object)
  then have args_ok: "json_ok 125 args" by (simp add: json_ok_def)
  have "json_ok 126 ?params"
    using args_ok by (auto simp: json_ok_object numeral_eq_Suc less_char_def)
  then have plain: "json_plain ?v"
    using json_ok_map_insert [of 126 obj ?params "''params''"] \<open>json_ok 127 (JObject obj)\<close>
    by (simp add: json_plain_ok)
  obtain out where out: "to_vec C ?v = Some out" "from_slice C out = Some ?v"
    using json_codec.print_parse [OF assms(1) plain] by blast
  have rw: "rewrite_call_tool_body C body = Some out"
    using assms(2,5) out(1) by (simp add: rewrite_call_tool_body_def Let_def)
  have info: "extract_mcp_request_info C out = \<lparr>mi_method = Method_ToolsCall, mi_method_str = Some ''tools/call'',
      mi_target = Some name, mi_id = map_of obj ''id''\<rparr>"
    using out(2) assms(4)
    by (simp add: extract_mcp_request_info_def McpMethod_parse_def request_target_def)
  show ?thesis using rw info by (simp add: check_scope_permission_Inr)
qed

definition sample_call_tool :: json where
  "sample_call_tool = JObject [(''id'', JNumber (NInt 7)), (''method'', JString ''tools/call''),
     (''params'', JObject [(''arguments'', JObject [(''name'', JString ''wipe'')]), (''name'', JString ''call_tool'')])]"

theorem call_tool_scope_checked_witness:
  "\<exists>out. rewrite_call_tool_body ref_codec (enc_json sample_call_tool) = Some out \<and>
     check_scope_permission sample_cred (extract_mcp_request_info ref_codec out) \<noteq> Inr ()"
proof -
  have plain: "json_plain sample_call_tool" by (simp add: sample_call_tool_def json_plain_def less_char_def)
  have parse: "from_slice ref_codec (enc_json sample_call_tool) = Some sample_call_tool"
    using ref.print_parse [OF plain] by (simp add: ref_codec_def)
  have "call_tool_target sample_call_tool = Some (''wipe'', JObject [])"
    by (simp add: call_tool_target_def sample_call_tool_def)
  from call_tool_scope_checked [OF ref.json_codec_axioms parse [unfolded sample_call_tool_def]
      plain [unfolded sample_call_tool_def] _ this [unfolded sample_call_tool_def], of sample_cred]
  show ?thesis by (auto simp: sample_cred_allowed sample_call_tool_def)
qed

end
