(* ===== verification/Gateway.thy ===== *)
theory Gateway
  imports Gateway_Pure Affinity
begin

text \<open>
  The gateway's handlers (\<^verbatim>\<open>crates/proxy/src/main.rs\<close>). \<open>gateway\<close> holds what is fixed while the process
  runs: configuration, codecs and the services it talks to; \<open>gstate\<close> is the state the handlers
  change. A handler returns its response and the new state; \<open>gs_sent\<close> lists the requests that were
  sent upstream, and no handler reads it. A spawned task's effect is applied where it is spawned.
  A handler that waits for another request's response for ever is \<open>None\<close>; what happens during such a
  wait is the parameter \<open>gw_wait\<close>.
\<close>

section \<open>Environment and state\<close>

record upstream_request =
  up_streaming :: bool
  up_method :: string
  up_url :: string
  up_headers :: headers
  up_body :: bytes

text \<open>An answer: status, headers, and the body or the error that reading it gave.\<close>

type_synonym upstream_response = "nat \<times> headers \<times> (string + bytes)"

record UpsertTool =
  ut_server_id :: uuid
  ut_name :: string
  ut_description :: "string option"
  ut_input_schema :: "json option"

record CreateRequestLog =
  rl_server_id :: uuid
  rl_tool_name :: "string option"
  rl_api_key_id :: "uuid option"
  rl_client_info :: "json option"
  rl_request_body :: "json option"
  rl_response_status :: string
  rl_error_message :: "string option"
  rl_duration_ms :: int

type_synonym embedding = "32 word list"

record 'd gateway_db =
  db_server_by_slug :: "'d \<Rightarrow> string \<Rightarrow> string + McpServer option"
  db_workspace_by_id :: "'d \<Rightarrow> uuid \<Rightarrow> string + Workspace option"
  db_list_tools :: "'d \<Rightarrow> uuid \<Rightarrow> string + Tool list"
  db_search_by_embedding :: "'d \<Rightarrow> uuid \<Rightarrow> embedding \<Rightarrow> nat \<Rightarrow> string + Tool list"
  db_sync_tools :: "'d \<Rightarrow> uuid \<Rightarrow> UpsertTool list \<Rightarrow> string + 'd"
  db_missing_embeddings :: "'d \<Rightarrow> uuid \<Rightarrow> string + Tool list"
  db_set_embedding :: "'d \<Rightarrow> uuid \<Rightarrow> embedding \<Rightarrow> string + 'd"
  db_log_request :: "'d \<Rightarrow> CreateRequestLog \<Rightarrow> 'd"

record EmbeddingClient =
  em_embed :: "string \<Rightarrow> embedding option"
  em_embed_batch :: "string list \<Rightarrow> embedding option list option"

record ('s, 'd, 'c) gstate =
  gs_redis :: 's
  gs_db :: 'd
  gs_fallback :: fallback
  gs_cursors :: cursors
  gs_rq :: "'c RequestCache"
  gs_chs :: "channel list"
  gs_sent :: "upstream_request list"

record ('s, 'd, 'c) gateway =
  gw_auth :: "('s, 'd) auth_env"
  gw_codec :: codec
  gw_http :: http_ext
  gw_server_serde :: "CachedServer serde"
  gw_workspace_serde :: "CachedWorkspace serde"
  gw_exec_serde :: "CodeExecContext serde"
  gw_machine_serde :: "Machine list serde"
  gw_lru :: "'c lru_ops"
  gw_show_uuid :: "uuid \<Rightarrow> string"
  gw_env :: env
  gw_proxy_base_domain :: string
  gw_server_host :: string
  gw_server_port :: nat
  gw_fly_token :: string
  gw_fly :: fly_api
  gw_db :: "'d gateway_db"
  gw_lower :: "string \<Rightarrow> string"
  gw_embedding :: "EmbeddingClient option"
  gw_runner :: "CodeRunnerClient option"
  gw_runner_post :: "string \<Rightarrow> RunRequest \<Rightarrow> string + (nat \<times> string) \<times> (string + json)"
  gw_upstream :: "upstream_request \<Rightarrow> string + upstream_response"
  gw_hasher :: "bytes \<Rightarrow> 64 word"
  gw_wait :: "nat \<Rightarrow> 'c moment \<Rightarrow> CacheEntry option \<times> 'c moment"

text \<open>
  An incoming request. \<open>in_body\<close> is what reading the body within the size limit gives; \<open>in_token\<close>
  and \<open>in_duration_ms\<close> are the random identifier and the timer reading the handler takes.
\<close>

record inbound =
  in_host :: string
  in_peer :: string
  in_method :: string
  in_query :: "string option"
  in_headers :: headers
  in_body :: "string + bytes"
  in_token :: uuid
  in_duration_ms :: int

abbreviation gw_redis :: "('s, 'd, 'c) gateway \<Rightarrow> 's redis_ops" where
  "gw_redis G \<equiv> ae_redis (gw_auth G)"


section \<open>Servers and metadata\<close>

definition resolve_server ::
  "('s, 'd, 'c) gateway \<Rightarrow> string \<Rightarrow> ('s, 'd, 'c) gstate \<Rightarrow> (ProxyError + CachedServer) \<times> ('s, 'd, 'c) gstate" where
  "resolve_server G slug st =
     (case get_server (gw_redis G) (gw_server_serde G) (gs_redis st) slug of
        Some hit \<Rightarrow> (Inr hit, st)
      | None \<Rightarrow>
          (case db_server_by_slug (gw_db G) (gs_db st) slug of
             Inl e \<Rightarrow> (Inl (Internal e), st)
           | Inr None \<Rightarrow> (Inl (NotFound ''Server not found''), st)
           | Inr (Some server) \<Rightarrow>
               (Inr (CachedServer_from server),
                st\<lparr>gs_redis := set_server (gw_redis G) (gw_server_serde G) (gs_redis st) slug server\<rparr>)))"

definition health_check :: string where "health_check = ''ok''"

definition status_response :: "nat \<Rightarrow> response" where
  "status_response status = \<lparr>rsp_status = status, rsp_headers = [], rsp_body = Full []\<rparr>"

definition text_response :: "nat \<Rightarrow> string \<Rightarrow> response" where
  "text_response status s =
     \<lparr>rsp_status = status, rsp_headers = [(''content-type'', ''text/plain; charset=utf-8'')], rsp_body = Full s\<rparr>"

text \<open>The test both metadata endpoints start with: a resolvable server with authentication off.\<close>

definition auth_disabled_host ::
  "('s, 'd, 'c) gateway \<Rightarrow> string \<Rightarrow> ('s, 'd, 'c) gstate \<Rightarrow> bool \<times> ('s, 'd, 'c) gstate" where
  "auth_disabled_host G host st =
     (case extract_subdomain host (gw_proxy_base_domain G) of
        Inl _ \<Rightarrow> (False, st)
      | Inr slug \<Rightarrow>
          (case resolve_server G slug st of
             (Inl _, st') \<Rightarrow> (False, st')
           | (Inr server, st') \<Rightarrow> (\<not> cs_auth_enabled server, st')))"

definition api_url :: "('s, 'd, 'c) gateway \<Rightarrow> string" where
  "api_url G = unwrap_or (gw_env G ''API_URL'')
     (''http://'' @ gw_server_host G @ '':'' @ show_nat (gw_server_port G))"

definition json_strings :: "string list \<Rightarrow> json" where
  "json_strings ss = JArray (map JString ss)"

definition oauth_metadata ::
  "('s, 'd, 'c) gateway \<Rightarrow> string \<Rightarrow> ('s, 'd, 'c) gstate \<Rightarrow> response \<times> ('s, 'd, 'c) gstate" where
  "oauth_metadata G host st =
     (case auth_disabled_host G host st of
        (True, st') \<Rightarrow> (status_response 404, st')
      | (False, st') \<Rightarrow>
          (json_response (gw_codec G) 200 (JObject
             [(''issuer'', JString (api_url G)),
              (''authorization_endpoint'', JString (api_url G @ ''/oauth/authorize'')),
              (''token_endpoint'', JString (api_url G @ ''/oauth/token'')),
              (''registration_endpoint'', JString (api_url G @ ''/oauth/register'')),
              (''response_types_supported'', json_strings [''code'']),
              (''grant_types_supported'', json_strings [''authorization_code'', ''refresh_token'']),
              (''code_challenge_methods_supported'', json_strings [''S256'']),
              (''token_endpoint_auth_methods_supported'',
                 json_strings [''client_secret_basic'', ''client_secret_post'', ''none''])]), st'))"

definition protected_resource_metadata ::
  "('s, 'd, 'c) gateway \<Rightarrow> string \<Rightarrow> ('s, 'd, 'c) gstate \<Rightarrow> response \<times> ('s, 'd, 'c) gstate" where
  "protected_resource_metadata G host st =
     (case auth_disabled_host G host st of
        (True, st') \<Rightarrow> (status_response 404, st')
      | (False, st') \<Rightarrow>
          (json_response (gw_codec G) 200 (JObject
             [(''resource'', JString (''https://'' @ host)),
              (''authorization_servers'', json_strings [api_url G]),
              (''scopes_supported'', json_strings
                 [''*'', ''tools:*'', ''tools:list'', ''tools:call'', ''resources:*'', ''resources:list'',
                  ''resources:read'', ''prompts:*'', ''prompts:list'', ''prompts:get''])]), st'))"


section \<open>Upstream requests\<close>

definition RESPONSE_HEADERS :: "string list" where
  "RESPONSE_HEADERS =
     [''content-type'', ''content-encoding'', ''cache-control'', ''etag'', ''vary'', ''x-request-id'', ''mcp-session-id'']"

definition response_header_list :: "headers \<Rightarrow> (string \<times> string) list" where
  "response_header_list h =
     List.map_filter
       (\<lambda>(k, v). if k \<in> set RESPONSE_HEADERS then map_option (\<lambda>s. (k, s)) (hdr_to_str v) else None) h"

definition record_sent :: "upstream_request \<Rightarrow> ('s, 'd, 'c) gstate \<Rightarrow> ('s, 'd, 'c) gstate" where
  "record_sent r st = st\<lparr>gs_sent := gs_sent st @ [r]\<rparr>"

definition execute_upstream_request ::
  "('s, 'd, 'c) gateway \<Rightarrow> string \<Rightarrow> string \<Rightarrow> headers \<Rightarrow> bytes \<Rightarrow> ('s, 'd, 'c) gstate \<Rightarrow>
   (ProxyError + bytes \<times> nat \<times> (string \<times> string) list) \<times> ('s, 'd, 'c) gstate" where
  "execute_upstream_request G target_url mth h body st =
     (let r = \<lparr>up_streaming = False, up_method = mth, up_url = target_url, up_headers = h, up_body = body\<rparr>;
          st' = record_sent r st
      in case gw_upstream G r of
           Inl e \<Rightarrow> (Inl (ServiceUnavailable (''Upstream error: '' @ e)), st')
         | Inr (status, rh, Inl e) \<Rightarrow> (Inl (Internal (''Failed to read response: '' @ e)), st')
         | Inr (status, rh, Inr b) \<Rightarrow> (Inr (b, status, response_header_list rh), st'))"

definition STREAM_HEADERS :: "string list" where
  "STREAM_HEADERS =
     [''content-type'', ''content-encoding'', ''cache-control'', ''x-request-id'', ''mcp-session-id'', ''x-accel-buffering'']"

definition stream_header_list :: "headers \<Rightarrow> headers" where
  "stream_header_list h =
     (let copied = List.map_filter
            (\<lambda>(k, v). if k \<in> set STREAM_HEADERS then map_option (\<lambda>s. (k, s)) (hdr_to_str v) else None) h;
          with_type = (if list_ex (\<lambda>kv. fst kv = ''content-type'') copied then copied
                       else copied @ [(''content-type'', ''text/event-stream'')])
      in with_type @ [(''cache-control'', ''no-cache''), (''x-accel-buffering'', ''no'')])"

definition execute_streaming_request ::
  "('s, 'd, 'c) gateway \<Rightarrow> string \<Rightarrow> string \<Rightarrow> headers \<Rightarrow> bytes \<Rightarrow> ('s, 'd, 'c) gstate \<Rightarrow>
   (ProxyError + response) \<times> ('s, 'd, 'c) gstate" where
  "execute_streaming_request G target_url mth h body st =
     (let r = \<lparr>up_streaming = True, up_method = mth, up_url = target_url, up_headers = h, up_body = body\<rparr>;
          st' = record_sent r st
      in case gw_upstream G r of
           Inl e \<Rightarrow> (Inl (ServiceUnavailable (''Upstream error: '' @ e)), st')
         | Inr (status, rh, b) \<Rightarrow>
             (case build_response (gw_http G) status (stream_header_list rh) [] of
                Inl e \<Rightarrow> (Inl e, st')
              | Inr resp \<Rightarrow> (Inr (resp\<lparr>rsp_body := Streamed b\<rparr>), st')))"


section \<open>The tool catalog\<close>

definition search_catalog ::
  "('s, 'd, 'c) gateway \<Rightarrow> AuthCredential option \<Rightarrow> ForwardContext \<Rightarrow> string \<Rightarrow> 'd \<Rightarrow> Tool list" where
  "search_catalog G credential fwd query d =
     (let semantic =
            (case gw_embedding G of
               None \<Rightarrow> []
             | Some client \<Rightarrow>
                 (if trim_is_empty query then []
                  else (case em_embed client query of
                     None \<Rightarrow> []
                   | Some qvec \<Rightarrow>
                       (case db_search_by_embedding (gw_db G) d (fc_server_id fwd) qvec (search_limit * 4) of
                          Inl _ \<Rightarrow> []
                        | Inr tools \<Rightarrow> scope_filter_tools tools credential fwd))))
      in if semantic \<noteq> [] then take search_limit semantic
         else (let tools = (case db_list_tools (gw_db G) d (fc_server_id fwd) of Inl _ \<Rightarrow> [] | Inr ts \<Rightarrow> ts)
               in rank_tools (gw_lower G) (scope_filter_tools tools credential fwd) query search_limit))"

definition store_embedding ::
  "'d gateway_db \<Rightarrow> Tool \<times> embedding option \<Rightarrow> 'd \<Rightarrow> 'd" where
  "store_embedding D tv d =
     (case snd tv of
        None \<Rightarrow> d
      | Some v \<Rightarrow> (case db_set_embedding D d (tool_id (fst tv)) v of Inl _ \<Rightarrow> d | Inr d' \<Rightarrow> d'))"

definition backfill_embeddings :: "'d gateway_db \<Rightarrow> EmbeddingClient \<Rightarrow> uuid \<Rightarrow> 'd \<Rightarrow> 'd" where
  "backfill_embeddings D client server_id d =
     (case db_missing_embeddings D d server_id of
        Inl _ \<Rightarrow> d
      | Inr missing \<Rightarrow>
          (if missing = [] then d
           else (case em_embed_batch client (map tool_embed_text missing) of
              None \<Rightarrow> d
            | Some vectors \<Rightarrow> fold (store_embedding D) (zip missing vectors) d)))"

definition spawn_catalog_update ::
  "('s, 'd, 'c) gateway \<Rightarrow> uuid \<Rightarrow> (string \<times> string) list \<Rightarrow> bytes \<Rightarrow> 'd \<Rightarrow> 'd" where
  "spawn_catalog_update G server_id h body d =
     (case extract_tools (gw_codec G) body (response_content_type h) of
        None \<Rightarrow> d
      | Some tools \<Rightarrow>
          (if tools = [] then d
           else (case db_sync_tools (gw_db G) d server_id
                   (map (\<lambda>t. \<lparr>ut_server_id = server_id, ut_name = ob_name t,
                              ut_description = ob_description t, ut_input_schema = ob_input_schema t\<rparr>) tools) of
              Inl _ \<Rightarrow> d
            | Inr d' \<Rightarrow>
                (case gw_embedding G of
                   None \<Rightarrow> d'
                 | Some client \<Rightarrow> backfill_embeddings (gw_db G) client server_id d'))))"


section \<open>Synthetic tools\<close>

definition json_content_type :: "(string \<times> string) list" where
  "json_content_type = [(''content-type'', ''application/json'')]"

text \<open>\<^verbatim>\<open>build_response(200, ..).unwrap_or_else(..)\<close>.\<close>

definition respond :: "('s, 'd, 'c) gateway \<Rightarrow> bytes \<Rightarrow> response" where
  "respond G b =
     (case build_response (gw_http G) 200 json_content_type b of
        Inr r \<Rightarrow> r | Inl _ \<Rightarrow> status_response 500)"

definition search_tools_response ::
  "('s, 'd, 'c) gateway \<Rightarrow> AuthCredential option \<Rightarrow> ForwardContext \<Rightarrow> string \<Rightarrow> json option \<Rightarrow> 'd \<Rightarrow> response" where
  "search_tools_response G credential fwd query rid d =
     (let matched = search_catalog G credential fwd query d; C = gw_codec G
      in respond G (if fc_code_mode fwd then result_json C (generate_ts_api C matched) rid
                    else search_result_json C matched rid))"

definition run_code_response ::
  "('s, 'd, 'c) gateway \<Rightarrow> ForwardContext \<Rightarrow> AuthCredential option \<Rightarrow> string \<Rightarrow> bytes \<Rightarrow> json option \<Rightarrow>
   uuid \<Rightarrow> ('s, 'd, 'c) gstate \<Rightarrow> response \<times> ('s, 'd, 'c) gstate" where
  "run_code_response G fwd credential target_url body rid fresh st =
     (let C = gw_codec G
      in case gw_runner G of
           None \<Rightarrow>
             (respond G (error_json C ''Code execution is enabled for this server but no code runner is configured.'' rid), st)
         | Some runner \<Rightarrow>
             (case credential of
                None \<Rightarrow> (respond G (error_json C ''Code execution requires NodeFlare authentication.'' rid), st)
              | Some cred \<Rightarrow>
                  (case extract_code C body of
                     None \<Rightarrow> (respond G (error_json C (''run_code requires a '' @ [CHR 0x27] @ ''code'' @ [CHR 0x27] @ '' argument.'') rid), st)
                   | Some code \<Rightarrow>
                       (let token = gw_show_uuid G fresh;
                            ctx = \<lparr>ce_server_id = fc_server_id fwd, ce_target_url = target_url, ce_scopes = cred_scopes cred\<rparr>;
                            ttl = cr_timeout_secs runner + 10;
                            st' = st\<lparr>gs_redis := set_code_exec (gw_redis G) (gw_exec_serde G) (gs_redis st) token ctx ttl\<rparr>;
                            req = \<lparr>run_code_text = code, run_token = token,
                                   run_tools_endpoint = tools_endpoint (gw_show_uuid G) runner (fc_server_id fwd),
                                   run_timeout_secs = cr_timeout_secs runner,
                                   run_max_tool_calls = cr_max_tool_calls runner\<rparr>
                        in (respond G (case CodeRunner_run C (gw_runner_post G) runner req of
                                         Inr output \<Rightarrow> result_json C output rid
                                       | Inl e \<Rightarrow> error_json C (''code execution failed: '' @ e) rid), st')))))"

text \<open>\<^verbatim>\<open>code_exec_tools_call\<close>: the endpoint the sandbox calls back.\<close>

definition tool_call_rpc :: "string \<Rightarrow> json \<Rightarrow> json" where
  "tool_call_rpc tool arguments = jobj
     [(''jsonrpc'', JString ''2.0''), (''id'', JNumber (NInt 1)), (''method'', JString ''tools/call''),
      (''params'', jobj [(''name'', JString tool), (''arguments'', arguments)])]"

definition exec_result :: "('s, 'd, 'c) gateway \<Rightarrow> ProxyError + bytes \<times> nat \<times> (string \<times> string) list \<Rightarrow> response" where
  "exec_result G r =
     (let C = gw_codec G
      in case r of
           Inl e \<Rightarrow>
             json_response C 200 (jobj [(''__toolError'', JString (''upstream error: '' @ ProxyError_display e))])
         | Inr (resp_body, status, _) \<Rightarrow>
             (case from_slice C resp_body of
                Some v \<Rightarrow>
                  (case json_get v ''error'' of
                     Some err \<Rightarrow> json_response C 200 (jobj [(''__toolError'', err)])
                   | None \<Rightarrow> json_response C 200 (json_opt (json_get v ''result'')))
              | None \<Rightarrow>
                  (case build_response (gw_http G) status json_content_type resp_body of
                     Inr resp \<Rightarrow> resp | Inl _ \<Rightarrow> text_response 502 ''bad upstream'')))"

definition code_exec_tools_call ::
  "('s, 'd, 'c) gateway \<Rightarrow> uuid \<Rightarrow> headers \<Rightarrow> bytes \<Rightarrow> ('s, 'd, 'c) gstate \<Rightarrow> response \<times> ('s, 'd, 'c) gstate" where
  "code_exec_tools_call G server_id h body st =
     (case Option.bind (hdr_str h ''authorization'') (\<lambda>v. str_strip_prefix v ''Bearer '') of
        None \<Rightarrow> (text_response 401 ''missing bearer token'', st)
      | Some bearer \<Rightarrow>
          (case get_code_exec (gw_redis G) (gw_exec_serde G) (gs_redis st) (ascii_trim bearer) of
             None \<Rightarrow> (text_response 401 ''invalid or expired token'', st)
           | Some ctx \<Rightarrow>
               if ce_server_id ctx \<noteq> server_id then (text_response 403 ''token/server mismatch'', st)
               else (case from_slice (gw_codec G) body of
                  None \<Rightarrow> (text_response 400 ''invalid JSON body'', st)
                | Some parsed \<Rightarrow>
                    (case Option.bind (json_get parsed ''tool'') as_str of
                       None \<Rightarrow> (text_response 400 (''missing '' @ [CHR 0x27] @ ''tool'' @ [CHR 0x27]), st)
                     | Some tool \<Rightarrow>
                         (let arguments = unwrap_or (json_get parsed ''arguments'') (JObject [])
                          in if \<not> is_allowed (ScopeChecker_new (ce_scopes ctx)) Method_ToolsCall (Some tool)
                             then (text_response 403 (''scope does not permit tools:call:'' @ tool), st)
                             else (case to_vec (gw_codec G) (tool_call_rpc tool arguments) of
                                None \<Rightarrow> (text_response 500 ''serialize'', st)
                              | Some rpc_bytes \<Rightarrow>
                                  (case execute_upstream_request G (ce_target_url ctx) ''POST''
                                          [(''content-type'', ''application/json''), (''accept'', ''application/json'')]
                                          rpc_bytes st of
                                     (r, st') \<Rightarrow> (exec_result G r, st'))))))))"


section \<open>Forwarding\<close>

text \<open>The answer of a handler step: an error, or the response with the request's description.\<close>

type_synonym forward_result = "ProxyError + response \<times> McpRequestInfo"

text \<open>The last steps of every buffered path: transform, build.\<close>

definition finish_response ::
  "('s, 'd, 'c) gateway \<Rightarrow> McpRequestInfo \<Rightarrow> nat \<Rightarrow> (string \<times> string) list \<Rightarrow> bytes \<Rightarrow> forward_result" where
  "finish_response G info status h body =
     map_sum id (\<lambda>r. (r, info)) (build_response (gw_http G) status h body)"

definition success_status :: "nat \<Rightarrow> bool" where
  "success_status status \<longleftrightarrow> 200 \<le> status \<and> status < 300"

text \<open>The cacheable methods: \<open>result\<close> is the outcome of \<^verbatim>\<open>try_coalesce\<close>.\<close>

definition cache_complete ::
  "'c lru_ops \<Rightarrow> nat \<Rightarrow> RequestHandle \<Rightarrow> bytes \<Rightarrow> nat \<Rightarrow> (string \<times> string) list \<Rightarrow> ('s, 'd, 'c) gstate \<Rightarrow> ('s, 'd, 'c) gstate" where
  "cache_complete L now handle body status h st =
     (let e = complete_entry now body (of_nat status) h;
          (rq, chs) = complete_notify handle e (gs_rq st) (gs_chs st)
      in st\<lparr>gs_rq := complete_store L (handle\<lparr>hd_completed := True\<rparr>) e rq, gs_chs := chs\<rparr>)"

definition cache_cancel :: "RequestHandle \<Rightarrow> ('s, 'd, 'c) gstate \<Rightarrow> ('s, 'd, 'c) gstate" where
  "cache_cancel handle st =
     (let (rq, chs) = RequestCache_cancel handle (gs_rq st) (gs_chs st) in st\<lparr>gs_rq := rq, gs_chs := chs\<rparr>)"

definition serve_cached ::
  "('s, 'd, 'c) gateway \<Rightarrow> McpRequestInfo \<Rightarrow> AuthCredential option \<Rightarrow> ForwardContext \<Rightarrow> CachedResponse \<Rightarrow> forward_result" where
  "serve_cached G info credential fwd c =
     (let C = gw_codec G;
          body = inject_jsonrpc_id C (crs_body c) (mi_id info);
          body' = transform_list_body C info (crs_headers c) body credential fwd
      in finish_response G info (unat (crs_status c)) (crs_headers c) body')"

definition forward_cacheable ::
  "('s, 'd, 'c) gateway \<Rightarrow> nat \<Rightarrow> string \<Rightarrow> string \<Rightarrow> headers \<Rightarrow> bytes \<Rightarrow> McpRequestInfo \<Rightarrow> AuthCredential option \<Rightarrow>
   ForwardContext \<Rightarrow> CoalesceResult \<Rightarrow> ('s, 'd, 'c) gstate \<Rightarrow> forward_result \<times> ('s, 'd, 'c) gstate" where
  "forward_cacheable G now target_url mth h body info credential fwd result st =
     (case result of
        Cached c \<Rightarrow> (serve_cached G info credential fwd c, st)
      | Coalesced c \<Rightarrow> (serve_cached G info credential fwd c, st)
      | Execute handle \<Rightarrow>
          (case execute_upstream_request G target_url mth h body st of
             (Inl e, st1) \<Rightarrow> (Inl e, cache_cancel handle st1)
           | (Inr (resp_body, status, rh), st1) \<Rightarrow>
               (let st2 = (if success_status status
                           then cache_complete (gw_lru G) now handle (strip_jsonrpc_id (gw_codec G) resp_body) status rh
                                  (st1\<lparr>gs_db := spawn_catalog_update G (fc_server_id fwd) rh resp_body (gs_db st1)\<rparr>)
                           else cache_cancel handle st1);
                    body' = transform_list_body (gw_codec G) info rh resp_body credential fwd
                in (finish_response G info status rh body', st2))))"

definition is_cacheable :: "McpMethod \<Rightarrow> bool" where
  "is_cacheable m \<longleftrightarrow> m = Method_ToolsList \<or> m = Method_ResourcesList \<or> m = Method_PromptsList"

text \<open>Everything after the scope check.\<close>

definition forward_upstream ::
  "('s, 'd, 'c) gateway \<Rightarrow> nat \<Rightarrow> string \<Rightarrow> inbound \<Rightarrow> bytes \<Rightarrow> McpRequestInfo \<Rightarrow> AuthCredential option \<Rightarrow>
   ForwardContext \<Rightarrow> ('s, 'd, 'c) gstate \<Rightarrow> (forward_result \<times> ('s, 'd, 'c) gstate) option" where
  "forward_upstream G now target_url q body info credential fwd st =
     (let R = gw_redis G; mth = in_method q; is_sse = is_sse_request (in_headers q);
          h = build_upstream_headers (in_headers q) fwd;
          is_initialize = (mi_method_str info = Some ''initialize'');
          is_tools_list = (mi_method info = Method_ToolsList)
      in case decide R (gw_machine_serde G) (gw_fly G) (gw_fly_token G) target_url h is_initialize
                (gs_redis st, gs_cursors st) of
           (affinity, s1, cursors1) \<Rightarrow>
             (let st1 = st\<lparr>gs_redis := s1, gs_cursors := cursors1\<rparr>;
                  h1 = (case af_forced_machine affinity of
                          Some machine \<Rightarrow> insert_if_valid h ''fly-force-instance-id'' machine
                        | None \<Rightarrow> h)
              in if is_sse \<and> \<not> is_tools_list then
                   (case execute_streaming_request G target_url mth h1 body st1 of
                      (Inl e, st2) \<Rightarrow> Some (Inl e, st2)
                    | (Inr resp, st2) \<Rightarrow>
                        Some (Inr (resp, info),
                         st2\<lparr>gs_redis := capture_session R affinity (hdr_str (rsp_headers resp) ''mcp-session-id'')
                               (gs_redis st2)\<rparr>))
                 else if is_sse \<and> is_tools_list then
                   (case execute_upstream_request G target_url mth h1 body st1 of
                      (Inl e, st2) \<Rightarrow> Some (Inl e, st2)
                    | (Inr (resp_body, status, rh), st2) \<Rightarrow>
                        Some (finish_response G info status rh
                           (transform_list_body (gw_codec G) info rh resp_body credential fwd),
                         if success_status status
                         then st2\<lparr>gs_db := spawn_catalog_update G (fc_server_id fwd) rh resp_body (gs_db st2)\<rparr>
                         else st2))
                 else if is_cacheable (mi_method info) then
                   (case try_coalesce (gw_lru G) (gw_hasher G) (gw_wait G)
                           \<lparr>q_endpoint = target_url, q_identity = cache_identity credential (in_headers q),
                            q_body = jsonrpc_cache_key_body (gw_codec G) body\<rparr>
                           (gs_rq st1, gs_chs st1, now) of
                      None \<Rightarrow> None
                    | Some (result, rq, chs, later) \<Rightarrow>
                        Some (forward_cacheable G later target_url mth h1 body info credential fwd result
                                (st1\<lparr>gs_rq := rq, gs_chs := chs\<rparr>)))
                 else
                   (case execute_upstream_request G target_url mth h1 body st1 of
                      (Inl e, st2) \<Rightarrow> Some (Inl e, st2)
                    | (Inr (resp_body, status, rh), st2) \<Rightarrow>
                        Some (finish_response G info status rh resp_body,
                         st2\<lparr>gs_redis := capture_session R affinity (map_of rh ''mcp-session-id'')
                               (gs_redis st2)\<rparr>))))"

definition forward_request ::
  "('s, 'd, 'c) gateway \<Rightarrow> nat \<Rightarrow> string \<Rightarrow> inbound \<Rightarrow> AuthCredential option \<Rightarrow> ForwardContext \<Rightarrow>
   ('s, 'd, 'c) gstate \<Rightarrow> (forward_result \<times> ('s, 'd, 'c) gstate) option" where
  "forward_request G now target_url q credential fwd st =
     (case in_body q of
        Inl e \<Rightarrow> Some (Inl (BadRequest (''Failed to read body: '' @ e)), st)
      | Inr body0 \<Rightarrow>
          (let C = gw_codec G;
               info0 = extract_mcp_request_info C body0;
               meta = (fc_search_mode fwd \<or> fc_code_mode fwd) \<and> mi_method info0 = Method_ToolsCall
           in if meta \<and> mi_target info0 = Some SEARCH_TOOLS then
                Some (Inr (search_tools_response G credential fwd (extract_search_query C body0) (mi_id info0) (gs_db st), info0), st)
              else if meta \<and> mi_target info0 = Some RUN_CODE \<and> fc_code_mode fwd then
                (case run_code_response G fwd credential target_url body0 (mi_id info0) (in_token q) st of
                   (resp, st') \<Rightarrow> Some (Inr (resp, info0), st'))
              else
                (let body = (if meta \<and> mi_target info0 = Some CALL_TOOL \<and> fc_search_mode fwd
                             then unwrap_or (rewrite_call_tool_body C body0) body0 else body0);
                     info = extract_mcp_request_info C body
                 in case (case credential of Some cred \<Rightarrow> check_scope_permission cred info | None \<Rightarrow> Inr ()) of
                      Inl e \<Rightarrow> Some (Inr (error_response_with_id C e (mi_id info), info), st)
                    | Inr _ \<Rightarrow> forward_upstream G now target_url q body info credential fwd st)))"


section \<open>The request handler\<close>

definition is_browser :: "inbound \<Rightarrow> bool" where
  "is_browser q \<longleftrightarrow> in_method q = ''GET'' \<and>
     (case hdr_str (in_headers q) ''accept'' of
        Some accept \<Rightarrow>
          str_contains accept ''text/html'' \<and> \<not> str_contains accept ''application/json'' \<and>
          \<not> str_contains accept ''text/event-stream''
      | None \<Rightarrow> False)"

fun add_host_to_error :: "string \<Rightarrow> ProxyError \<Rightarrow> ProxyError" where
  "add_host_to_error host (Unauthorized msg _) = Unauthorized msg (Some host)"
| "add_host_to_error host e = e"

text \<open>Step 3: the credential of a request to a server with authentication on.\<close>

definition authenticate ::
  "('s, 'd, 'c) gateway \<Rightarrow> utc \<Rightarrow> inbound \<Rightarrow> string \<Rightarrow> CachedServer \<Rightarrow> ('s, 'd, 'c) gstate \<Rightarrow>
   (ProxyError + AuthCredential) \<times> ('s, 'd, 'c) gstate" where
  "authenticate G now q client_ip server st =
     (case extract_api_key (in_headers q) of
        Inl e \<Rightarrow> (Inl (add_host_to_error (in_host q) e), st)
      | Inr api_key \<Rightarrow>
          (case validate_credential (gw_auth G) (int (utc_secs now)) api_key client_ip (gs_redis st, gs_db st) of
             (Inl e, s1, d1) \<Rightarrow> (Inl (add_host_to_error (in_host q) e), st\<lparr>gs_redis := s1, gs_db := d1\<rparr>)
           | (Inr credential, s1, d1) \<Rightarrow>
               (let st1 = st\<lparr>gs_redis := s1, gs_db := d1\<rparr>
                in if (case cred_server_id credential of Some i \<Rightarrow> i \<noteq> cs_id server | None \<Rightarrow> False)
                   then (Inl (Forbidden ''Credential not valid for this server''), st1)
                   else (case rate_limit_check (gw_redis G) (gw_show_uuid G) (utc_secs now) (cred_id credential)
                                server (gs_redis st1, gs_fallback st1) of
                           (r, s2, fb2) \<Rightarrow>
                             (let st2 = st1\<lparr>gs_redis := s2, gs_fallback := fb2\<rparr>
                              in case r of
                                   Inl RateLimitExceeded \<Rightarrow> (Inl RateLimitExceeded, st2)
                                 | _ \<Rightarrow> (Inr credential, st2))))))"

text \<open>Step 4: the quota errors that stop the request; any other error is logged and ignored.\<close>

fun quota_stops :: "ProxyError \<Rightarrow> bool" where
  "quota_stops (QuotaExceeded _) = True"
| "quota_stops (PaymentRequired _) = True"
| "quota_stops RateLimitExceeded = True"
| "quota_stops _ = False"

definition target_url_of :: "string \<Rightarrow> CachedServer \<Rightarrow> string option \<Rightarrow> string" where
  "target_url_of endpoint_url server query =
     trim_end_matches (CHR ''/'') endpoint_url @ ''/'' @ trim_start_matches (CHR ''/'') (cs_mcp_path server) @
     (case query of Some x \<Rightarrow> ''?'' @ x | None \<Rightarrow> [])"

definition forward_context :: "CachedServer \<Rightarrow> string \<Rightarrow> string \<Rightarrow> ForwardContext" where
  "forward_context server client_ip host = \<lparr>
     fc_auth_enabled = cs_auth_enabled server, fc_client_ip = client_ip, fc_host = host,
     fc_server_id = cs_id server, fc_filter_by_scope = cs_tool_list_filter_by_scope server,
     fc_slim = cs_tool_schema_slim server, fc_search_mode = cs_tool_search_mode server,
     fc_code_mode = cs_tool_code_mode server \<rparr>"

text \<open>Steps 4 to 8, once the credential is settled.\<close>

definition serve_request ::
  "('s, 'd, 'c) gateway \<Rightarrow> utc \<Rightarrow> inbound \<Rightarrow> string \<Rightarrow> CachedServer \<Rightarrow> AuthCredential option \<Rightarrow>
   ('s, 'd, 'c) gstate \<Rightarrow> ((ProxyError + response) \<times> ('s, 'd, 'c) gstate) option" where
  "serve_request G now q client_ip server credential st =
     (case check_and_increment_monthly_quota (gw_redis G) (gw_workspace_serde G) (gw_show_uuid G)
             (db_workspace_by_id (gw_db G) (gs_db st)) now (cs_workspace_id server) (gs_redis st, gs_fallback st) of
        (r, s1, fb1) \<Rightarrow>
          (let st1 = st\<lparr>gs_redis := s1, gs_fallback := fb1\<rparr>
           in case (case r of Inl e \<Rightarrow> (if quota_stops e then Some e else None) | Inr _ \<Rightarrow> None) of
                Some e \<Rightarrow> Some (Inl e, st1)
              | None \<Rightarrow>
                  (case cs_endpoint_url server of
                     None \<Rightarrow> Some (Inl (ServiceUnavailable ''Server not deployed''), st1)
                   | Some endpoint_url \<Rightarrow>
                       (case forward_request G (utc_secs now) (target_url_of endpoint_url server (in_query q)) q credential
                               (forward_context server client_ip (in_host q)) st1 of
                          None \<Rightarrow> None
                        | Some (Inl e, st2) \<Rightarrow> Some (Inl e, st2)
                        | Some (Inr (resp, info), st2) \<Rightarrow>
                            Some (Inr resp, st2\<lparr>gs_db := db_log_request (gw_db G) (gs_db st2) \<lparr>
                               rl_server_id = cs_id server, rl_tool_name = mi_target info,
                               rl_api_key_id = map_option cred_id credential, rl_client_info = None,
                               rl_request_body = None,
                               rl_response_status = (if success_status (rsp_status resp) then ''success'' else ''error''),
                               rl_error_message = None, rl_duration_ms = in_duration_ms q \<rparr>\<rparr>)))))"

definition proxy_handler ::
  "('s, 'd, 'c) gateway \<Rightarrow> utc \<Rightarrow> inbound \<Rightarrow> ('s, 'd, 'c) gstate \<Rightarrow> ((ProxyError + response) \<times> ('s, 'd, 'c) gstate) option" where
  "proxy_handler G now q st =
     (if is_browser q then
        Some (Inr \<lparr>rsp_status = 302,
              rsp_headers = [(''location'', unwrap_or (gw_env G ''MAIN_SITE_URL'') ''https://nodeflare.tech'')],
              rsp_body = Full []\<rparr>, st)
      else
        (let client_ip = extract_client_ip (gw_env G) (in_headers q) (in_peer q)
         in case extract_subdomain (in_host q) (gw_proxy_base_domain G) of
              Inl e \<Rightarrow> Some (Inl e, st)
            | Inr slug \<Rightarrow>
                (case resolve_server G slug st of
                   (Inl e, st1) \<Rightarrow> Some (Inl e, st1)
                 | (Inr server, st1) \<Rightarrow>
                     if \<not> is_serveable server then
                       Some (Inl (ServiceUnavailable (''Server is not running (status: '' @ cs_status server @ '')'')), st1)
                     else if cs_auth_enabled server then
                       (case authenticate G now q client_ip server st1 of
                          (Inl e, st2) \<Rightarrow> Some (Inl e, st2)
                        | (Inr credential, st2) \<Rightarrow> serve_request G now q client_ip server (Some credential) st2)
                     else serve_request G now q client_ip server None st1)))"

text \<open>What the client receives: an error is rendered without a request id.\<close>

definition handle_request ::
  "('s, 'd, 'c) gateway \<Rightarrow> utc \<Rightarrow> inbound \<Rightarrow> ('s, 'd, 'c) gstate \<Rightarrow> (response \<times> ('s, 'd, 'c) gstate) option" where
  "handle_request G now q st =
     (case proxy_handler G now q st of
        None \<Rightarrow> None
      | Some (Inr resp, st') \<Rightarrow> Some (resp, st')
      | Some (Inl e, st') \<Rightarrow> Some (error_response_with_id (gw_codec G) e None, st'))"

end
