(* ===== verification/Gateway_Security.thy ===== *)
theory Gateway_Security
  imports Gateway
begin

text \<open>
  What the gateway's handlers guarantee together: which requests reach a tenant's server, what the
  code sandbox can do with its token, and what \<^verbatim>\<open>search_tools\<close> shows. The lemmas follow the list of
  sent requests through the handlers, one per definition; \<open>sample_gateway\<close> is a concrete gateway.
\<close>


section \<open>What is sent upstream\<close>

lemma gs_sent_execute [simp]:
  "gs_sent (snd (execute_upstream_request G u m h b st)) =
     gs_sent st @ [\<lparr>up_streaming = False, up_method = m, up_url = u, up_headers = h, up_body = b\<rparr>]"
  by (simp add: execute_upstream_request_def Let_def record_sent_def split: sum.splits prod.splits)

lemma gs_sent_stream [simp]:
  "gs_sent (snd (execute_streaming_request G u m h b st)) =
     gs_sent st @ [\<lparr>up_streaming = True, up_method = m, up_url = u, up_headers = h, up_body = b\<rparr>]"
  by (simp add: execute_streaming_request_def Let_def record_sent_def split: sum.splits prod.splits)

lemma gs_sent_cache [simp]:
  "gs_sent (cache_cancel rh st) = gs_sent st"
  "gs_sent (cache_complete L now rh b s hs st) = gs_sent st"
  by (simp_all add: cache_cancel_def cache_complete_def Let_def split: prod.splits)

lemma forward_cacheable_sent:
  "gs_sent (snd (forward_cacheable G now u m h b info cred fwd res st)) =
     (case res of
        Execute _ \<Rightarrow> gs_sent st @ [\<lparr>up_streaming = False, up_method = m, up_url = u, up_headers = h, up_body = b\<rparr>]
      | _ \<Rightarrow> gs_sent st)"
proof (cases "execute_upstream_request G u m h b st")
  case (Pair r st1)
  then have "gs_sent st1 = gs_sent st @ [\<lparr>up_streaming = False, up_method = m, up_url = u, up_headers = h, up_body = b\<rparr>]"
    using gs_sent_execute [of G u m h b st] by simp
  then show ?thesis using Pair
    by (auto simp: forward_cacheable_def Let_def split: CoalesceResult.splits sum.splits)
qed

text \<open>The headers a request leaves with: the sanitized ones and perhaps the machine it is pinned to.\<close>

definition upstream_headers_of :: "inbound \<Rightarrow> ForwardContext \<Rightarrow> headers \<Rightarrow> bool" where
  "upstream_headers_of q fwd h \<longleftrightarrow>
     h = build_upstream_headers (in_headers q) fwd \<or>
     (\<exists>machine. h = insert_if_valid (build_upstream_headers (in_headers q) fwd) ''fly-force-instance-id'' machine)"

definition sent_for :: "inbound \<Rightarrow> ForwardContext \<Rightarrow> string \<Rightarrow> bytes \<Rightarrow> upstream_request \<Rightarrow> bool" where
  "sent_for q fwd u b r \<longleftrightarrow>
     up_method r = in_method q \<and> up_url r = u \<and> up_body r = b \<and> upstream_headers_of q fwd (up_headers r)"

lemma forward_upstream_sent:
  assumes "forward_upstream G now u q b info cred fwd st = Some (r, st')"
  shows "gs_sent st' = gs_sent st \<or> (\<exists>x. gs_sent st' = gs_sent st @ [x] \<and> sent_for q fwd u b x)"
proof -
  obtain af s1 c1 where dec: "decide (gw_redis G) (gw_machine_serde G) (gw_fly G) (gw_fly_token G) u
      (build_upstream_headers (in_headers q) fwd) (mi_method_str info = Some ''initialize'')
      (gs_redis st, gs_cursors st) = (af, s1, c1)" by (metis prod_cases3)
  define st1 where "st1 = st\<lparr>gs_redis := s1, gs_cursors := c1\<rparr>"
  define h1 where "h1 = (case af_forced_machine af of
      Some machine \<Rightarrow> insert_if_valid (build_upstream_headers (in_headers q) fwd) ''fly-force-instance-id'' machine
    | None \<Rightarrow> build_upstream_headers (in_headers q) fwd)"
  have h1: "upstream_headers_of q fwd h1" by (auto simp: h1_def upstream_headers_of_def split: option.splits)
  have sent1: "gs_sent st1 = gs_sent st" by (simp add: st1_def)
  note unf = assms [unfolded forward_upstream_def Let_def dec prod.case, folded h1_def st1_def]
  show ?thesis
  proof (cases "is_sse_request (in_headers q) \<and> mi_method info \<noteq> Method_ToolsList")
    case True
    then have "gs_sent st' = gs_sent (snd (execute_streaming_request G u (in_method q) h1 b st1))"
      using unf by (auto split: prod.splits sum.splits simp del: gs_sent_stream)
    then show ?thesis using h1 sent1 by (auto simp: sent_for_def)
  next
    case nostream: False
    show ?thesis
    proof (cases "\<not> is_sse_request (in_headers q) \<and> is_cacheable (mi_method info)")
      case True
      then obtain res rq chs later where fc: "forward_cacheable G later u (in_method q) h1 b info cred fwd res
           (st1\<lparr>gs_rq := rq, gs_chs := chs\<rparr>) = (r, st')"
        using unf by (auto split: option.splits)
      show ?thesis using h1 sent1
          forward_cacheable_sent [of G later u "in_method q" h1 b info cred fwd res "st1\<lparr>gs_rq := rq, gs_chs := chs\<rparr>"]
        unfolding fc by (auto simp: sent_for_def split: CoalesceResult.splits)
    next
      case False
      then have "gs_sent st' = gs_sent (snd (execute_upstream_request G u (in_method q) h1 b st1))"
        using unf nostream by (auto split: prod.splits sum.splits if_splits simp del: gs_sent_execute)
      then show ?thesis using h1 sent1 by (auto simp: sent_for_def)
    qed
  qed
qed

lemma run_code_sent: "gs_sent (snd (run_code_response G fwd cred u b rid fresh st)) = gs_sent st"
  by (simp add: run_code_response_def Let_def split: option.splits)

text \<open>The body that was sent is the one the scope check looked at.\<close>

lemma forward_request_sent:
  assumes "forward_request G now u q cred fwd st = Some (r, st')"
  shows "gs_sent st' = gs_sent st \<or>
    (\<exists>x b. gs_sent st' = gs_sent st @ [x] \<and> sent_for q fwd u b x \<and>
       (\<forall>c. cred = Some c \<longrightarrow> check_scope_permission c (extract_mcp_request_info (gw_codec G) b) = Inr ()))"
proof (cases "in_body q")
  case (Inl e)
  then show ?thesis using assms by (simp add: forward_request_def)
next
  case (Inr body0)
  let ?orig = "extract_mcp_request_info (gw_codec G) body0"
  let ?meta = "(fc_search_mode fwd \<or> fc_code_mode fwd) \<and> mi_method ?orig = Method_ToolsCall"
  define body where "body = (if ?meta \<and> mi_target ?orig = Some CALL_TOOL \<and> fc_search_mode fwd
                             then unwrap_or (rewrite_call_tool_body (gw_codec G) body0) body0 else body0)"
  let ?info = "extract_mcp_request_info (gw_codec G) body"
  note unf = assms [unfolded forward_request_def Let_def Inr sum.case, folded body_def]
  show ?thesis
  proof (cases "?meta \<and> mi_target ?orig = Some SEARCH_TOOLS")
    case True
    then show ?thesis using unf by auto
  next
    case search: False
    show ?thesis
    proof (cases "?meta \<and> mi_target ?orig = Some RUN_CODE \<and> fc_code_mode fwd")
      case True
      have "st' = snd (run_code_response G fwd cred u body0 (mi_id ?orig) (in_token q) st)"
        using unf search True by (auto split: prod.splits)
      then show ?thesis by (simp add: run_code_sent)
    next
      case False
      have "(case (case cred of Some c \<Rightarrow> check_scope_permission c ?info | None \<Rightarrow> Inr ()) of
          Inl e \<Rightarrow> Some (Inr (error_response_with_id (gw_codec G) e (mi_id ?info), ?info), st)
        | Inr _ \<Rightarrow> forward_upstream G now u q body ?info cred fwd st) = Some (r, st')"
        using unf by (simp only: if_not_P [OF search] if_not_P [OF False])
      then consider "gs_sent st' = gs_sent st"
        | "forward_upstream G now u q body ?info cred fwd st = Some (r, st')"
          "\<forall>c. cred = Some c \<longrightarrow> check_scope_permission c ?info = Inr ()"
        by (auto split: sum.splits option.splits)
      then show ?thesis using forward_upstream_sent by cases (blast+)
    qed
  qed
qed


lemma resolve_server_sent [simp]: "gs_sent (snd (resolve_server G slug st)) = gs_sent st"
  by (simp add: resolve_server_def split: option.splits sum.splits)

lemma authenticate_sent [simp]: "gs_sent (snd (authenticate G now q ip server st)) = gs_sent st"
  by (simp add: authenticate_def Let_def split: sum.splits prod.splits option.splits ProxyError.splits)

lemma authenticate_Inr:
  assumes "authenticate G now q ip server st = (Inr cred, st')"
  shows "(\<exists>token s1 d1. extract_api_key (in_headers q) = Inr token \<and>
      validate_credential (gw_auth G) (int (utc_secs now)) token ip (gs_redis st, gs_db st) = (Inr cred, s1, d1)) \<and>
    (cred_server_id cred = None \<or> cred_server_id cred = Some (cs_id server))"
  using assms
  by (auto simp: authenticate_def Let_def split: sum.splits prod.splits option.splits ProxyError.splits if_splits)

lemma serve_request_sent:
  assumes "serve_request G now q ip server cred st = Some (r, st')"
  shows "gs_sent st' = gs_sent st \<or>
    (\<exists>e x b. cs_endpoint_url server = Some e \<and> gs_sent st' = gs_sent st @ [x] \<and>
       sent_for q (forward_context server ip (in_host q)) (target_url_of e server (in_query q)) b x \<and>
       (\<forall>c. cred = Some c \<longrightarrow> check_scope_permission c (extract_mcp_request_info (gw_codec G) b) = Inr ()))"
proof -
  obtain r0 s1 fb1 where quota: "check_and_increment_monthly_quota (gw_redis G) (gw_workspace_serde G) (gw_show_uuid G)
      (db_workspace_by_id (gw_db G) (gs_db st)) now (cs_workspace_id server) (gs_redis st, gs_fallback st) = (r0, s1, fb1)"
    by (metis prod_cases3)
  define st1 where "st1 = st\<lparr>gs_redis := s1, gs_fallback := fb1\<rparr>"
  define stop where "stop = (case r0 of Inl e \<Rightarrow> (if quota_stops e then Some e else None) | Inr _ \<Rightarrow> None)"
  note unf = assms [unfolded serve_request_def Let_def quota prod.case, folded st1_def stop_def]
  have sent1: "gs_sent st1 = gs_sent st" by (simp add: st1_def)
  show ?thesis
  proof (cases "stop = None \<and> cs_endpoint_url server \<noteq> None")
    case False
    then have "st' = st1" using unf by (auto split: option.splits)
    then show ?thesis using sent1 by simp
  next
    case True
    then obtain e where e: "cs_endpoint_url server = Some e" and none: "stop = None" by blast
    obtain r2 st2 where fwd: "forward_request G (utc_secs now) (target_url_of e server (in_query q)) q cred
        (forward_context server ip (in_host q)) st1 = Some (r2, st2)"
      using unf e none by (auto split: option.splits)
    have "gs_sent st' = gs_sent st2" using unf by (simp add: e none fwd split: sum.splits prod.splits) auto
    then show ?thesis using forward_request_sent [OF fwd] sent1 e by auto
  qed
qed

lemma upstream_headers_no_auth:
  assumes "upstream_headers_of q fwd h" and "fc_auth_enabled fwd"
  shows "hdr_get h ''authorization'' = None"
proof -
  have "to_ascii_lowercase ''authorization'' = ''authorization''" by code_simp
  then have "hdr_get (build_upstream_headers (in_headers q) fwd) ''authorization'' = None"
    using assms(2) by (simp add: upstream_header_get forwards_header_def)
  then show ?thesis using assms(1) by (auto simp: upstream_headers_of_def hdr_get_insert_if_valid)
qed

text \<open>
  C6: nothing reaches a tenant's server unless the gateway authorized it. If handling a request sent
  anything upstream then it sent one request, to the server the host name resolves to, which was
  running; and when that server has authentication on, the client presented a credential that
  was valid at that moment for that server, the credential's scopes permit the method and target
  of the very body that was sent (or the method is not one of MCP's), and the client's
  \<^verbatim>\<open>Authorization\<close> header was not passed on.
\<close>

theorem upstream_authorized:
  assumes "proxy_handler G now q st = Some (r, st')" and "gs_sent st' \<noteq> gs_sent st"
  shows "\<exists>slug server e x. extract_subdomain (in_host q) (gw_proxy_base_domain G) = Inr slug \<and>
    fst (resolve_server G slug st) = Inr server \<and> is_serveable server \<and> cs_endpoint_url server = Some e \<and>
    gs_sent st' = gs_sent st @ [x] \<and> up_url x = target_url_of e server (in_query q) \<and>
    (cs_auth_enabled server \<longrightarrow>
       hdr_get (up_headers x) ''authorization'' = None \<and>
       (\<exists>token cred st1 st2. extract_api_key (in_headers q) = Inr token \<and> st1 = snd (resolve_server G slug st) \<and>
          validate_credential (gw_auth G) (int (utc_secs now)) token
            (extract_client_ip (gw_env G) (in_headers q) (in_peer q)) (gs_redis st1, gs_db st1) = (Inr cred, st2) \<and>
          (cred_server_id cred = None \<or> cred_server_id cred = Some (cs_id server)) \<and>
          (let info = extract_mcp_request_info (gw_codec G) (up_body x)
           in mi_method info = Method_Unknown \<or> is_method_allowed cred (mi_method info) (mi_target info))))"
proof -
  let ?ip = "extract_client_ip (gw_env G) (in_headers q) (in_peer q)"
  note unf = assms(1) [unfolded proxy_handler_def Let_def]
  have nb: "\<not> is_browser q" using unf assms(2) by auto
  obtain slug where slug: "extract_subdomain (in_host q) (gw_proxy_base_domain G) = Inr slug"
    using unf assms(2) nb by (cases "extract_subdomain (in_host q) (gw_proxy_base_domain G)") auto
  obtain r1 st1 where res: "resolve_server G slug st = (r1, st1)" by fastforce
  have sent1: "gs_sent st1 = gs_sent st" using resolve_server_sent [of G slug st] res by simp
  obtain server where r1: "r1 = Inr server" using unf assms(2) nb slug res sent1 by (cases r1) auto
  have run: "is_serveable server" using unf assms(2) nb slug res sent1 r1 by (auto split: if_splits)
  show ?thesis
  proof (cases "cs_auth_enabled server")
    case False
    then have "serve_request G now q ?ip server None st1 = Some (r, st')" using unf nb slug res r1 run by simp
    from serve_request_sent [OF this] show ?thesis
      using False assms(2) sent1 slug res r1 run by (auto simp: sent_for_def)
  next
    case True
    obtain r2 st2 where auth: "authenticate G now q ?ip server st1 = (r2, st2)" by fastforce
    have sent2: "gs_sent st2 = gs_sent st1" using authenticate_sent [of G now q ?ip server st1] auth by simp
    obtain cred where r2: "r2 = Inr cred"
      using unf assms(2) nb slug res r1 run True auth sent1 sent2 by (cases r2) auto
    have "serve_request G now q ?ip server (Some cred) st2 = Some (r, st')"
      using unf nb slug res r1 run True auth r2 by simp
    from serve_request_sent [OF this] obtain e x where e: "cs_endpoint_url server = Some e"
      and x: "gs_sent st' = gs_sent st @ [x]"
      and sf: "sent_for q (forward_context server ?ip (in_host q)) (target_url_of e server (in_query q)) (up_body x) x"
      and scope: "check_scope_permission cred (extract_mcp_request_info (gw_codec G) (up_body x)) = Inr ()"
      using assms(2) sent1 sent2 by (auto simp: sent_for_def)
    have noauth: "hdr_get (up_headers x) ''authorization'' = None"
      using sf True by (intro upstream_headers_no_auth) (auto simp: sent_for_def forward_context_def)
    from authenticate_Inr [OF auth [unfolded r2]] obtain token s1 d1 where
      "extract_api_key (in_headers q) = Inr token"
      "validate_credential (gw_auth G) (int (utc_secs now)) token ?ip (gs_redis st1, gs_db st1) = (Inr cred, s1, d1)"
      and sid: "cred_server_id cred = None \<or> cred_server_id cred = Some (cs_id server)" by blast
    then show ?thesis
      using slug res r1 run e x sf noauth scope by (auto simp: sent_for_def Let_def check_scope_permission_Inr)
  qed
qed


text \<open>A gateway with one server and one key, for concrete instances.\<close>

definition no_serde :: "'a serde" where
  "no_serde = \<lparr>ser = (\<lambda>_. None), de = (\<lambda>_. None)\<rparr>"

definition sample_call_body :: json where
  "sample_call_body = JObject [(''id'', JNumber (NInt 1)), (''method'', JString ''tools/call''),
     (''params'', JObject [(''name'', JString ''read'')])]"

definition sample_codec :: codec where
  "sample_codec = \<lparr>from_slice = (\<lambda>b. if b = ''req'' then Some sample_call_body
       else if b = ''exec'' then Some (JObject [(''tool'', JString ''read'')]) else None),
     to_vec = (\<lambda>v. Some ''out''), ser_error = (\<lambda>_. [])\<rparr>"

definition sample_gateway :: "(ref_store, ApiKey option, ref_lru) gateway" where
  "sample_gateway = \<lparr>
     gw_auth = sample_auth, gw_codec = sample_codec,
     gw_http = \<lparr>legal_name = (\<lambda>_. True), builder_error = (\<lambda>_ _. [])\<rparr>,
     gw_server_serde = \<lparr>ser = (\<lambda>_. None), de = (\<lambda>_. Some (sample_server 5 None))\<rparr>,
     gw_workspace_serde = no_serde, gw_exec_serde = ce_serde ref_codec, gw_machine_serde = no_serde,
     gw_lru = ref_lru, gw_show_uuid = ref_uuid, gw_env = (\<lambda>_. None), gw_proxy_base_domain = ''mcp.cloud'',
     gw_server_host = ''localhost'', gw_server_port = 8080, gw_fly_token = [], gw_fly = sample_fly,
     gw_db = \<lparr>db_server_by_slug = (\<lambda>_ _. Inr None), db_workspace_by_id = (\<lambda>_ _. Inr None),
       db_list_tools = (\<lambda>_ _. Inr []), db_search_by_embedding = (\<lambda>_ _ _ _. Inr []),
       db_sync_tools = (\<lambda>d _ _. Inr d), db_missing_embeddings = (\<lambda>_ _. Inr []),
       db_set_embedding = (\<lambda>d _ _. Inr d), db_log_request = (\<lambda>d _. d)\<rparr>,
     gw_lower = id, gw_embedding = None,
     gw_runner = Some \<lparr>cr_runner_url = ''http://runner'', cr_tools_callback_base = ''http://proxy'', cr_timeout_secs = 30, cr_max_tool_calls = 50\<rparr>,
     gw_runner_post = (\<lambda>_ _. Inl ''down''), gw_upstream = (\<lambda>_. Inr (200, [], Inr ''{}'')),
     gw_hasher = (\<lambda>_. 0), gw_wait = (\<lambda>_ m. (None, m))\<rparr>"

definition sample_gstate :: "(ref_store, ApiKey option, ref_lru) gstate" where
  "sample_gstate = \<lparr>
     gs_redis = (True, [''proxy:server:demo'' \<mapsto> (RStr ''demo'', Some 30)]), gs_db = Some sample_key,
     gs_fallback = [], gs_cursors = Map.empty, gs_rq = RequestCache_new ref_lru (\<lambda>_. None) 30 100,
     gs_chs = [], gs_sent = []\<rparr>"

definition sample_inbound :: inbound where
  "sample_inbound = \<lparr>in_host = ''demo.mcp.cloud'', in_peer = ''203.0.113.9'', in_method = ''POST'', in_query = None,
     in_headers = [(''authorization'', ''Bearer mcp_000000000000'')], in_body = Inr ''req'', in_token = 9,
     in_duration_ms = 3\<rparr>"

lemma sample_env [simp]:
  "ae_redis sample_auth = ref_redis" "ae_serde sample_auth = ref_key_serde" "ae_sha256_hex sample_auth = (\<lambda>t. t)"
  "gw_auth sample_gateway = sample_auth" "gw_codec sample_gateway = sample_codec"
  by (simp_all add: sample_auth_def sample_gateway_def)

lemma sample_resolve: "resolve_server sample_gateway ''demo'' sample_gstate = (Inr (sample_server 5 None), sample_gstate)"
  by (simp add: resolve_server_def sample_gateway_def sample_gstate_def get_server_def cache_get_def server_cache_key_def
      ref_redis_def sample_auth_def)

lemma sample_subdomain: "extract_subdomain ''demo.mcp.cloud'' ''mcp.cloud'' = Inr ''demo''"
  by code_simp


lemma sample_limit_fresh:
  "fst s \<Longrightarrow> snd s (rate_limit_key ref_uuid c u (now div 60)) = None \<Longrightarrow>
     \<exists>s2. rate_limit_check ref_redis ref_uuid now c (sample_server u None) (s, fb) = (Inr (), s2, fb)"
  by (auto simp: rate_limit_check_def Let_def sample_server_def rate_limit_script_def ref_redis_def ref_incr_def
      DEFAULT_RATE_LIMIT_def WINDOW_SIZE_SECONDS_def)

lemma sample_authenticate:
  "\<exists>st2. authenticate sample_gateway \<lparr>utc_secs = 0, utc_year = 2025, utc_month = 1, utc_day = 1\<rparr> sample_inbound
     ''203.0.113.9'' (sample_server 5 None) sample_gstate = (Inr (Cred_ApiKey sample_key), st2) \<and> gs_sent st2 = []"
proof -
  let ?s1 = "set_api_key ref_redis ref_key_serde (clear_api_key_failed_attempts ref_redis (gs_redis sample_gstate) ''203.0.113.9'')
    ''mcp_000000000000'' sample_key"
  have "extract_api_key [(''authorization'', ''Bearer mcp_000000000000'')] = Inr ''mcp_000000000000''"
    by code_simp
  moreover have "validate_credential sample_auth 0 ''mcp_000000000000'' ''203.0.113.9'' (gs_redis sample_gstate, Some sample_key) =
      (Inr (Cred_ApiKey sample_key), ?s1, Some sample_key)"
    by (simp add: validate_credential_def detect_token_type_def str_starts_with_def validate_api_key_def
        sample_auth_def is_api_key_locked_out_def ref_redis_def ApiKey_is_valid_format_def API_KEY_PREFIX_def
        get_api_key_def cache_get_def sample_key_def ApiKey_is_expired_def Let_def sample_gstate_def
        api_key_cache_key_def lockout_key_def API_KEY_BRUTE_FORCE_PREFIX_def)
  moreover have "snd ?s1 (rate_limit_key ref_uuid 3 5 0) = None" and "fst ?s1"
    by (simp_all add: set_api_key_def cache_set_def clear_api_key_failed_attempts_def ref_redis_def ref_key_serde_def
        rate_limit_key_def api_key_cache_key_def sample_gstate_def del: enc_json.simps)
  then have "\<exists>s2. rate_limit_check ref_redis ref_uuid 0 3 (sample_server 5 None) (?s1, []) = (Inr (), s2, [])"
    using sample_limit_fresh [of ?s1 3 5 0] by simp
  ultimately show ?thesis
    by (auto simp: authenticate_def sample_inbound_def Let_def sample_gateway_def sample_gstate_def sample_key_def sample_server_def)
qed


lemma sample_info: "extract_mcp_request_info sample_codec ''req'' =
    \<lparr>mi_method = Method_ToolsCall, mi_method_str = Some ''tools/call'', mi_target = Some ''read'', mi_id = Some (JNumber (NInt 1))\<rparr>"
  by (simp add: extract_mcp_request_info_def sample_codec_def sample_call_body_def McpMethod_parse_def request_target_def)

lemma sample_scope: "check_scope_permission (Cred_ApiKey sample_key) (extract_mcp_request_info sample_codec ''req'') = Inr ()"
  by (simp add: sample_info check_scope_permission_Inr is_method_allowed_def sample_key_def ApiKey_scope_checker_def ApiKey_scopes_def
      json_string_list_def ScopeChecker_new_def Scope_parse_def is_allowed_def List.map_filter_def)

lemma sample_forward:
  "\<exists>r st'. forward_upstream sample_gateway 0 url sample_inbound ''req'' (extract_mcp_request_info sample_codec ''req'') c fwd st =
     Some (Inr r, st') \<and> gs_sent st' \<noteq> gs_sent st"
proof -
  have "\<not> is_sse_request (in_headers sample_inbound)" by code_simp
  moreover have "hdr_str (build_upstream_headers [(''authorization'', ''Bearer mcp_000000000000'')] fwd) ''mcp-session-id'' = None"
    using upstream_header_get [of "''mcp-session-id''" "[(''authorization'', ''Bearer mcp_000000000000'')]" fwd]
    by (auto simp: hdr_str_def hdr_get_def)
  ultimately show ?thesis
    by (simp add: forward_upstream_def Let_def sample_info is_cacheable_def decide_def sample_inbound_def Affinity_default_def
      execute_upstream_request_def sample_gateway_def record_sent_def finish_response_def build_response_def response_header_list_def)
qed


lemma sample_serve:
  assumes "gs_sent st = []"
  shows "\<exists>r st'. serve_request sample_gateway \<lparr>utc_secs = 0, utc_year = 2025, utc_month = 1, utc_day = 1\<rparr> sample_inbound
     ''203.0.113.9'' (sample_server 5 None) (Some (Cred_ApiKey sample_key)) st = Some (r, st') \<and> gs_sent st' \<noteq> []"
proof -
  have ws: "check_and_increment_monthly_quota ref_redis no_serde ref_uuid (\<lambda>_. Inr None) now w (s, fb) =
      (Inl (Internal ''Workspace not found''), s, fb)" for now w s fb
    by (simp add: check_and_increment_monthly_quota_def load_workspace_def get_workspace_def cache_get_def no_serde_def
        split: option.splits rval.splits)
  let ?url = "target_url_of ''https://mcp-demo.fly.dev'' (sample_server 5 None) None"
  let ?fwd = "forward_context (sample_server 5 None) ''203.0.113.9'' ''demo.mcp.cloud''"
  have "forward_request sample_gateway 0 ?url sample_inbound (Some (Cred_ApiKey sample_key)) ?fwd st =
      forward_upstream sample_gateway 0 ?url sample_inbound ''req'' (extract_mcp_request_info sample_codec ''req'')
        (Some (Cred_ApiKey sample_key)) ?fwd st"
    using sample_scope by (simp add: forward_request_def sample_inbound_def Let_def forward_context_def sample_server_def)
  then obtain r st' where "forward_request sample_gateway 0 ?url sample_inbound (Some (Cred_ApiKey sample_key)) ?fwd st =
      Some (Inr r, st')" "gs_sent st' \<noteq> gs_sent st"
    using sample_forward [of ?url "Some (Cred_ApiKey sample_key)" ?fwd st] by auto
  then show ?thesis
    using assms ws
    by (cases r) (simp add: serve_request_def Let_def sample_gateway_def sample_inbound_def sample_server_def, blast?)
qed

lemma sample_handler:
  "\<exists>r st'. proxy_handler sample_gateway \<lparr>utc_secs = 0, utc_year = 2025, utc_month = 1, utc_day = 1\<rparr> sample_inbound sample_gstate = Some (r, st') \<and> gs_sent st' \<noteq> []"
proof -
  have "\<not> is_browser sample_inbound" by code_simp
  moreover have "extract_client_ip (\<lambda>_. None) h p = p" for h p by (simp add: extract_client_ip_def env_true_def)
  moreover obtain st2 where "authenticate sample_gateway \<lparr>utc_secs = 0, utc_year = 2025, utc_month = 1, utc_day = 1\<rparr> sample_inbound
     ''203.0.113.9'' (sample_server 5 None) sample_gstate = (Inr (Cred_ApiKey sample_key), st2)" and "gs_sent st2 = []"
    using sample_authenticate by blast
  moreover obtain r st' where "serve_request sample_gateway \<lparr>utc_secs = 0, utc_year = 2025, utc_month = 1, utc_day = 1\<rparr> sample_inbound
     ''203.0.113.9'' (sample_server 5 None) (Some (Cred_ApiKey sample_key)) st2 = Some (r, st')" and "gs_sent st' \<noteq> []"
    using sample_serve [OF \<open>gs_sent st2 = []\<close>] by blast
  moreover have "gw_env sample_gateway = (\<lambda>_. None)" "gw_proxy_base_domain sample_gateway = ''mcp.cloud''"
      "in_host sample_inbound = ''demo.mcp.cloud''" "in_peer sample_inbound = ''203.0.113.9''"
      "is_serveable (sample_server 5 None)" "cs_auth_enabled (sample_server 5 None)"
    by (simp_all add: sample_gateway_def sample_inbound_def sample_server_def is_serveable_def)
  ultimately show ?thesis using sample_resolve sample_subdomain by (simp add: proxy_handler_def Let_def)
qed

theorem upstream_authorized_witness:
  "\<exists>r st' x. proxy_handler sample_gateway \<lparr>utc_secs = 0, utc_year = 2025, utc_month = 1, utc_day = 1\<rparr> sample_inbound sample_gstate =
     Some (r, st') \<and> gs_sent st' = [x] \<and> up_url x = ''https://mcp-demo.fly.dev/mcp'' \<and> hdr_get (up_headers x) ''authorization'' = None"
proof -
  obtain r st' where run: "proxy_handler sample_gateway \<lparr>utc_secs = 0, utc_year = 2025, utc_month = 1, utc_day = 1\<rparr> sample_inbound sample_gstate =
      Some (r, st')" and "gs_sent st' \<noteq> []" using sample_handler by blast
  moreover have "gs_sent sample_gstate = []" by (simp add: sample_gstate_def)
  ultimately have sent: "gs_sent st' \<noteq> gs_sent sample_gstate" by simp
  have "gw_proxy_base_domain sample_gateway = ''mcp.cloud''" "in_host sample_inbound = ''demo.mcp.cloud''" "in_query sample_inbound = None"
    by (simp_all add: sample_gateway_def sample_inbound_def)
  moreover have "target_url_of ''https://mcp-demo.fly.dev'' (sample_server 5 None) None = ''https://mcp-demo.fly.dev/mcp''"
    by (simp add: target_url_of_def sample_server_def trim_end_matches_def trim_start_matches_def)
  moreover have "cs_auth_enabled (sample_server 5 None)" "cs_endpoint_url (sample_server 5 None) = Some ''https://mcp-demo.fly.dev''"
    by (simp_all add: sample_server_def)
  ultimately show ?thesis
    using upstream_authorized [OF run sent] run sample_subdomain sample_resolve \<open>gs_sent sample_gstate = []\<close> by auto
qed


section \<open>The sandbox boundary\<close>

lemma cred_scopes_checker: "is_allowed (ScopeChecker_new (cred_scopes cred)) mth target = is_method_allowed cred mth target"
  by (cases cred) (simp_all add: is_method_allowed_def ApiKey_scope_checker_def OAuthToken_scope_checker_def)

lemma run_code_state:
  assumes "gw_runner G = Some runner" and "extract_code (gw_codec G) body = Some code"
  shows "snd (run_code_response G fwd (Some cred) url body rid fresh st) =
    st\<lparr>gs_redis := set_code_exec (gw_redis G) (gw_exec_serde G) (gs_redis st) (gw_show_uuid G fresh)
       \<lparr>ce_server_id = fc_server_id fwd, ce_target_url = url, ce_scopes = cred_scopes cred\<rparr> (cr_timeout_secs runner + 10)\<rparr>"
  using assms by (simp add: run_code_response_def Let_def)

lemma code_exec_sent:
  assumes "hdr_str h ''authorization'' = Some (''Bearer '' @ token)" and "ascii_trim token = token"
    and "from_slice (gw_codec G) call = Some parsed" and "json_get parsed ''tool'' = Some (JString tool)"
    and "to_vec (gw_codec G) (tool_call_rpc tool (unwrap_or (json_get parsed ''arguments'') (JObject []))) = Some rpc"
  shows "gs_sent (snd (code_exec_tools_call G sid h call st)) = gs_sent st @
    (case get_code_exec (gw_redis G) (gw_exec_serde G) (gs_redis st) token of
       None \<Rightarrow> []
     | Some ctx \<Rightarrow>
         if ce_server_id ctx = sid \<and> is_allowed (ScopeChecker_new (ce_scopes ctx)) Method_ToolsCall (Some tool)
         then [\<lparr>up_streaming = False, up_method = ''POST'', up_url = ce_target_url ctx,
                up_headers = [(''content-type'', ''application/json''), (''accept'', ''application/json'')], up_body = rpc\<rparr>]
         else [])"
proof -
  have strip: "str_strip_prefix (''Bearer '' @ token) ''Bearer '' = Some token" by (simp add: str_strip_prefix_def)
  have sent: "gs_sent (snd (case execute_upstream_request G u m hs b st of (r, st') \<Rightarrow> (exec_result G r, st'))) =
      gs_sent (snd (execute_upstream_request G u m hs b st))" for u m hs b
    by (simp add: split_beta)
  show ?thesis
    by (simp add: code_exec_tools_call_def assms strip Let_def sent del: append.simps split: option.split)
qed

text \<open>
  C16: what a sandbox can do with the token \<^verbatim>\<open>run_code\<close> issued to it. A tool call it makes back reaches
  the upstream server exactly when it names the server the token was issued for, a tool that the scopes
  of the credential behind the \<^verbatim>\<open>run_code\<close> call permit, and comes before the runner's time limit plus
  ten seconds is over; what is sent is then that tool call and nothing else.
\<close>

theorem sandbox_confined:
  assumes "redis_server (gw_redis G) look elapse" and "\<And>n t. r_up (gw_redis G) (elapse n t) = r_up (gw_redis G) t"
    and "serde_derive (gw_exec_serde G)" and "r_up (gw_redis G) (gs_redis st)"
    and "gw_runner G = Some runner" and "extract_code (gw_codec G) body = Some code"
    and "hdr_str h ''authorization'' = Some (''Bearer '' @ gw_show_uuid G fresh)"
    and "ascii_trim (gw_show_uuid G fresh) = gw_show_uuid G fresh"
    and "from_slice (gw_codec G) call = Some parsed" and "json_get parsed ''tool'' = Some (JString tool)"
    and "to_vec (gw_codec G) (tool_call_rpc tool (unwrap_or (json_get parsed ''arguments'') (JObject []))) = Some rpc"
  shows "let st1 = snd (run_code_response G fwd (Some cred) url body rid fresh st);
             st2 = st1\<lparr>gs_redis := elapse e (gs_redis st1)\<rparr>
    in gs_sent (snd (code_exec_tools_call G sid h call st2)) = gs_sent st @
      (if e < cr_timeout_secs runner + 10 \<and> sid = fc_server_id fwd \<and> is_method_allowed cred Method_ToolsCall (Some tool)
       then [\<lparr>up_streaming = False, up_method = ''POST'', up_url = url,
              up_headers = [(''content-type'', ''application/json''), (''accept'', ''application/json'')], up_body = rpc\<rparr>]
       else [])"
proof -
  let ?ctx = "\<lparr>ce_server_id = fc_server_id fwd, ce_target_url = url, ce_scopes = cred_scopes cred\<rparr>"
  let ?ttl = "cr_timeout_secs runner + 10"
  let ?s1 = "cache_set (gw_redis G) (gw_exec_serde G) (gs_redis st) (code_exec_key (gw_show_uuid G fresh)) ?ctx ?ttl"
  have "r_up (gw_redis G) ?s1"
    using assms(4) redis_server.up_set_ex [OF assms(1)] by (auto simp: cache_set_def split: option.splits)
  then have "cache_get (gw_redis G) (gw_exec_serde G) (elapse e ?s1) (code_exec_key (gw_show_uuid G fresh)) =
      (if e < ?ttl then Some ?ctx else None)"
    using redis_server.cache_set_get [OF assms(1,3,4), of ?ttl e] assms(2) by simp
  then show ?thesis
    by (simp add: Let_def run_code_state [OF assms(5,6)] code_exec_sent [OF assms(7-11)] get_code_exec_def set_code_exec_def
        cred_scopes_checker split: if_split)
qed

theorem sandbox_confined_witness:
  "let G = sample_gateway\<lparr>gw_codec := sample_codec\<lparr>from_slice := (\<lambda>b. Some (if b = ''run''
             then JObject [(''params'', JObject [(''arguments'', JObject [(''code'', JString ''1'')])])]
             else JObject [(''tool'', JString b)]))\<rparr>\<rparr>;
       fwd = forward_context (sample_server 5 None) ''203.0.113.9'' ''demo.mcp.cloud'';
       st1 = snd (run_code_response G fwd (Some sample_cred) ''https://mcp-demo.fly.dev/mcp'' ''run'' None 9 sample_gstate);
       st2 = st1\<lparr>gs_redis := ref_elapse 39 (gs_redis st1)\<rparr>;
       h = [(''authorization'', ''Bearer 9'')]
   in length (gs_sent (snd (code_exec_tools_call G 5 h ''read'' st2))) = 1 \<and>
      gs_sent (snd (code_exec_tools_call G 5 h ''wipe'' st2)) = [] \<and>
      gs_sent (snd (code_exec_tools_call G 6 h ''read'' st2)) = []"
proof -
  define C where "C = sample_codec\<lparr>from_slice := (\<lambda>b. Some (if b = ''run''
             then JObject [(''params'', JObject [(''arguments'', JObject [(''code'', JString ''1'')])])]
             else JObject [(''tool'', JString b)]))\<rparr>"
  define G where "G = sample_gateway\<lparr>gw_codec := C\<rparr>"
  define fwd where "fwd = forward_context (sample_server 5 None) ''203.0.113.9'' ''demo.mcp.cloud''"
  have env: "gw_redis G = ref_redis" "gw_exec_serde G = ce_serde ref_codec" "gw_codec G = C" "gw_show_uuid G = ref_uuid"
    "\<exists>u b n. gw_runner G = Some \<lparr>cr_runner_url = u, cr_tools_callback_base = b, cr_timeout_secs = 30, cr_max_tool_calls = n\<rparr>"
    by (simp_all add: G_def sample_gateway_def sample_auth_def)
  have code: "extract_code C ''run'' = Some ''1''" by (simp add: extract_code_def C_def json_path_def)
  have "show_nat 9 = ''9''" by code_simp
  then have tok: "ref_uuid 9 = ''9''" by (simp add: ref_uuid_def)
  have conf: "let st1 = snd (run_code_response G fwd (Some sample_cred) ''https://mcp-demo.fly.dev/mcp'' ''run'' None 9 sample_gstate);
       st2 = st1\<lparr>gs_redis := ref_elapse 39 (gs_redis st1)\<rparr>
   in length (gs_sent (snd (code_exec_tools_call G sid [(''authorization'', ''Bearer 9'')] tool st2))) =
     (if sid = 5 \<and> tool = ''read'' then 1 else 0)" if "tool \<noteq> ''run''" for sid tool
  proof -
    obtain u b n where runner: "gw_runner G = Some \<lparr>cr_runner_url = u, cr_tools_callback_base = b, cr_timeout_secs = 30, cr_max_tool_calls = n\<rparr>"
      using env(5) by blast
    have hdr: "hdr_str [(''authorization'', ''Bearer 9'')] ''authorization'' = Some (''Bearer '' @ gw_show_uuid G 9)"
      "ascii_trim (gw_show_uuid G 9) = gw_show_uuid G 9" by (simp_all add: env tok) code_simp+
    show ?thesis
      using sandbox_confined [of G snd ref_elapse sample_gstate _ "''run''" "''1''" "[(''authorization'', ''Bearer 9'')]" 9 tool
          "JObject [(''tool'', JString tool)]" tool "''out''" fwd sample_cred "''https://mcp-demo.fly.dev/mcp''" None 39 sid,
          OF _ _ _ _ runner _ hdr] ref_store.redis_server_axioms code_exec_form.serde_derive_axioms code that
      by (simp add: env C_def sample_codec_def ref_redis_def ref_elapse_def sample_gstate_def fwd_def forward_context_def
          sample_server_def sample_cred_allowed Let_def)
  qed
  show ?thesis
    using conf [of "''read''" 5] conf [of "''wipe''" 5] conf [of "''read''" 6]
    by (simp add: Let_def C_def [symmetric] G_def [symmetric] fwd_def [symmetric])
qed


text \<open>
  The credential's workspace is not looked at: the key of one workspace, bound to no server, opens
  another workspace's server.
\<close>

lemma foreign_workspace_accepted:
  "key_workspace_id sample_key \<noteq> cs_workspace_id (sample_server 5 None) \<and>
   (\<exists>r st'. proxy_handler sample_gateway \<lparr>utc_secs = 0, utc_year = 2025, utc_month = 1, utc_day = 1\<rparr> sample_inbound sample_gstate =
      Some (r, st') \<and> gs_sent st' \<noteq> [])"
  using sample_handler by (simp add: sample_key_def sample_server_def)


section \<open>Discovery\<close>

lemma scored_tools_subset: "(s, t) \<in> set (scored_tools lower terms tools) \<Longrightarrow> t \<in> set tools"
  by (auto simp: scored_tools_def List.map_filter_def Let_def split: if_splits)

lemma rank_tools_subset: "set (rank_tools lower tools query n) \<subseteq> set tools"
  by (auto simp: rank_tools_def dest!: in_set_takeD scored_tools_subset)

lemma rank_tools_length: "length (rank_tools lower tools query n) \<le> n"
  by (simp add: rank_tools_def)

lemma search_catalog_cases:
  "(\<exists>tools v n. search_catalog G cred fwd query d = take search_limit (scope_filter_tools tools cred fwd) \<and>
      db_search_by_embedding (gw_db G) d (fc_server_id fwd) v n = Inr tools) \<or>
   (\<exists>tools. search_catalog G cred fwd query d = rank_tools (gw_lower G) (scope_filter_tools tools cred fwd) query search_limit \<and>
      (tools = [] \<or> db_list_tools (gw_db G) d (fc_server_id fwd) = Inr tools))"
  unfolding search_catalog_def Let_def
  by (auto split: option.splits sum.splits if_splits)

text \<open>
  \<^verbatim>\<open>search_tools\<close> shows a caller nothing it may not use. However the query is answered, by
  embeddings or by words, the result has at most the fixed number of tools, each of them read from
  the catalog of the server that was asked and, where the server filters by scope, one that the
  caller's credential may call.
\<close>

theorem search_shows_callable:
  assumes "t \<in> set (search_catalog G cred fwd query d)"
  shows "length (search_catalog G cred fwd query d) \<le> search_limit \<and>
    ((\<exists>ts. db_list_tools (gw_db G) d (fc_server_id fwd) = Inr ts \<and> t \<in> set ts) \<or>
     (\<exists>v n ts. db_search_by_embedding (gw_db G) d (fc_server_id fwd) v n = Inr ts \<and> t \<in> set ts)) \<and>
    (fc_filter_by_scope fwd \<longrightarrow> (\<forall>c. cred = Some c \<longrightarrow> is_method_allowed c Method_ToolsCall (Some (tool_name t))))"
proof -
  have vis: "x \<in> set tools \<and> (fc_filter_by_scope fwd \<longrightarrow>
      (\<forall>c. cred = Some c \<longrightarrow> is_method_allowed c Method_ToolsCall (Some (tool_name x))))"
    if "x \<in> set (scope_filter_tools tools cred fwd)" for x tools
    using that by (auto simp: scope_filter_tools_def split: option.splits if_splits)
  consider (semantic) tools v n where "search_catalog G cred fwd query d = take search_limit (scope_filter_tools tools cred fwd)"
      "db_search_by_embedding (gw_db G) d (fc_server_id fwd) v n = Inr tools"
    | (lexical) tools where "search_catalog G cred fwd query d = rank_tools (gw_lower G) (scope_filter_tools tools cred fwd) query search_limit"
      "tools = [] \<or> db_list_tools (gw_db G) d (fc_server_id fwd) = Inr tools"
    using search_catalog_cases [of G cred fwd query d] by blast
  then show ?thesis
  proof cases
    case semantic
    then show ?thesis using assms vis [of t tools] by (auto dest: in_set_takeD)
  next
    case lexical
    have "t \<in> set (scope_filter_tools tools cred fwd)"
      using assms rank_tools_subset [of "gw_lower G"] unfolding lexical(1) by blast
    then show ?thesis using vis [of t tools] lexical by (auto simp: rank_tools_length)
  qed
qed

theorem search_shows_callable_witness:
  "let G = sample_gateway\<lparr>gw_db := (gw_db sample_gateway)\<lparr>db_list_tools := (\<lambda>_ _. Inr [sample_tool ''wipe'' ''x'', sample_tool ''read'' ''x''])\<rparr>\<rparr>;
       fwd = forward_context (sample_server 5 None) ''203.0.113.9'' ''demo.mcp.cloud'';
       found = search_catalog G (Some sample_cred) fwd [] None
   in sample_tool ''read'' ''x'' \<in> set found \<and> sample_tool ''wipe'' ''x'' \<notin> set found"
proof -
  define G where "G = sample_gateway\<lparr>gw_db := (gw_db sample_gateway)\<lparr>db_list_tools := (\<lambda>_ _. Inr [sample_tool ''wipe'' ''x'', sample_tool ''read'' ''x''])\<rparr>\<rparr>"
  define fwd where "fwd = forward_context (sample_server 5 None) ''203.0.113.9'' ''demo.mcp.cloud''"
  have none: "split_whitespace [] = []" by code_simp
  have filt: "fc_filter_by_scope fwd" by (simp add: fwd_def forward_context_def sample_server_def)
  have "sample_tool ''read'' ''x'' \<in> set (search_catalog G (Some sample_cred) fwd [] None)"
    using filt none by (simp add: search_catalog_def G_def sample_gateway_def scope_filter_tools_def sample_cred_allowed sample_tool_def
        rank_tools_def scored_tools_def List.map_filter_def search_limit_def SEARCH_LIMIT_def)
  moreover have "sample_tool ''wipe'' ''x'' \<notin> set (search_catalog G (Some sample_cred) fwd [] None)"
    using search_shows_callable [of "sample_tool ''wipe'' ''x''" G "Some sample_cred" fwd "[]" None] filt
    by (auto simp: sample_cred_allowed sample_tool_def)
  ultimately show ?thesis by (simp add: Let_def G_def [symmetric] fwd_def [symmetric])
qed

end
