(* ===== verification/Sql.thy ===== *)
theory Sql
  imports Rust_Prelude
begin

text \<open>
  PostgreSQL as the API's handlers see it. A table is the list of its rows in insertion order; a
  statement is a function on the store that fails when it violates a constraint. A handler is a
  program of such statements, built from combinators that mirror \<^verbatim>\<open>?\<close>, \<^verbatim>\<open>ok_or\<close>, early returns and
  \<^verbatim>\<open>let _ =\<close>. The handlers are not transactions: a service interleaves the statements of the requests
  it has received in any order, and any statement may fail, so that every error path, every partial
  effect and every race is a run of the model. Invariants of all those runs are proved by a
  rely-guarantee rule (\<open>rg_sound\<close>).
\<close>

named_theorems rg_rules \<open>rely-guarantee conditions of the handler combinators\<close>

section \<open>Tables\<close>

definition sql_update :: "('r \<Rightarrow> bool) \<Rightarrow> ('r \<Rightarrow> 'r) \<Rightarrow> 'r list \<Rightarrow> 'r list" where
  "sql_update P f t = map (\<lambda>r. if P r then f r else r) t"

definition sql_delete :: "('r \<Rightarrow> bool) \<Rightarrow> 'r list \<Rightarrow> 'r list" where
  "sql_delete P t = filter (\<lambda>r. \<not> P r) t"

text \<open>\<open>clash\<close> is the table's uniqueness constraint.\<close>

definition sql_insert :: "('r \<Rightarrow> 'r \<Rightarrow> bool) \<Rightarrow> 'r \<Rightarrow> 'r list \<Rightarrow> 'r list option" where
  "sql_insert clash r t = (if list_ex (clash r) t then None else Some (t @ [r]))"

lemma set_sql_update: "set (sql_update P f t) = {r \<in> set t. \<not> P r} \<union> f ` {r \<in> set t. P r}"
  by (auto simp: sql_update_def)

lemma set_sql_delete [simp]: "set (sql_delete P t) = {r \<in> set t. \<not> P r}"
  by (auto simp: sql_delete_def)

lemma sql_insert_Some: "sql_insert clash r t = Some t' \<longleftrightarrow> \<not> list_ex (clash r) t \<and> t' = t @ [r]"
  by (auto simp: sql_insert_def)

lemma map_sql_update: "(\<And>r. g (f r) = g r) \<Longrightarrow> map g (sql_update P f t) = map g t"
  by (simp add: sql_update_def)

lemma distinct_sql_delete [simp]: "distinct (map g t) \<Longrightarrow> distinct (map g (sql_delete P t))"
  by (simp add: sql_delete_def distinct_map_filter)

lemma filter_key: "distinct (map f xs) \<Longrightarrow> x \<in> set xs \<Longrightarrow> filter (\<lambda>y. f y = f x) xs = [x]"
  by (induction xs) (auto simp: filter_empty_conv image_iff)

lemma find_Some_in: "find P xs = Some x \<Longrightarrow> x \<in> set xs \<and> P x"
  by (auto simp: find_Some_iff)

lemma find_sql_update:
  "(\<And>r. Q (f r) = Q r) \<Longrightarrow> find Q (sql_update P f t) = map_option (\<lambda>r. if P r then f r else r) (find Q t)"
  by (induction t) (auto simp: sql_update_def)


section \<open>Programs\<close>

text \<open>
  A handler is a program of statements on the shared store \<open>'d\<close>. Each statement is atomic: it changes
  the store and chooses the rest of the program by what it saw. It may also fail, with or without
  having taken effect (the answer of a committed statement can be lost); the first component is what
  the handler does then.
\<close>

datatype ('d, 'r) prog =
    Return 'r
  | Statement "('d, 'r) prog" "'d \<Rightarrow> 'd" "'d \<Rightarrow> ('d, 'r) prog"

datatype fate = Runs | Fails | Lost

type_synonym ('d, 'e, 'a) handler = "('d, 'e + 'a) prog"

text \<open>One request alone, under a given fate for each of its statements.\<close>

primrec run :: "('d, 'r) prog \<Rightarrow> fate list \<Rightarrow> 'd \<Rightarrow> 'r \<times> 'd" where
  "run (Return r) fs d = (r, d)"
| "run (Statement p f k) fs d =
     (case fs of
        Fails # fs' \<Rightarrow> run p fs' d
      | Lost # fs' \<Rightarrow> run p fs' (f d)
      | _ \<Rightarrow> run (k d) (tl fs) (f d))"

definition answer :: "'a \<Rightarrow> ('d, 'e, 'a) handler" where
  "answer a = Return (Inr a)"

definition refuse :: "'e \<Rightarrow> ('d, 'e, 'a) handler" where
  "refuse e = Return (Inl e)"

text \<open>\<^verbatim>\<open>ok_or(e)?\<close>\<close>

definition require :: "'x option \<Rightarrow> 'e \<Rightarrow> ('x \<Rightarrow> ('d, 'e, 'a) handler) \<Rightarrow> ('d, 'e, 'a) handler" where
  "require x e k = (case x of None \<Rightarrow> refuse e | Some v \<Rightarrow> k v)"

text \<open>\<^verbatim>\<open>if !b { return Err(e) }\<close>\<close>

definition ensure :: "bool \<Rightarrow> 'e \<Rightarrow> ('d, 'e, 'a) handler \<Rightarrow> ('d, 'e, 'a) handler" where
  "ensure b e h = (if b then h else refuse e)"

text \<open>One statement; the continuation gets \<open>None\<close> when it failed.\<close>

definition run_sql :: "('d \<Rightarrow> ('x \<times> 'd) option) \<Rightarrow> ('x option \<Rightarrow> ('d, 'r) prog) \<Rightarrow> ('d, 'r) prog" where
  "run_sql f k =
     Statement (k None) (\<lambda>d. case f d of None \<Rightarrow> d | Some (_, d') \<Rightarrow> d') (\<lambda>d. k (map_option fst (f d)))"

text \<open>\<^verbatim>\<open>.await.map_err(|_| e)?\<close>\<close>

definition run_or :: "('d \<Rightarrow> ('x \<times> 'd) option) \<Rightarrow> 'e \<Rightarrow> ('x \<Rightarrow> ('d, 'e, 'a) handler) \<Rightarrow> ('d, 'e, 'a) handler" where
  "run_or f e k = run_sql f (\<lambda>r. require r e k)"

definition select :: "('d \<Rightarrow> 'x) \<Rightarrow> 'd \<Rightarrow> ('x \<times> 'd) option" where
  "select f d = Some (f d, d)"

definition change :: "('d \<Rightarrow> 'd) \<Rightarrow> 'd \<Rightarrow> (unit \<times> 'd) option" where
  "change f d = Some ((), f d)"

lemma select_eq [simp]: "select f d = Some (f d, d)"
  by (simp add: select_def)

lemma change_eq [simp]: "change f d = Some ((), f d)"
  by (simp add: change_def)

lemma run_simps [simp]:
  "run (answer a) fs d = (Inr a, d)"
  "run (refuse e) fs d = (Inl e, d)"
  "run (require x e k) fs d = (case x of None \<Rightarrow> (Inl e, d) | Some v \<Rightarrow> run (k v) fs d)"
  "run (ensure b e h) fs d = (if b then run h fs d else (Inl e, d))"
  "run (run_sql f k') fs d =
     (case fs of
        Fails # fs' \<Rightarrow> run (k' None) fs' d
      | Lost # fs' \<Rightarrow> run (k' None) fs' (case f d of None \<Rightarrow> d | Some (_, d') \<Rightarrow> d')
      | _ \<Rightarrow> (case f d of None \<Rightarrow> run (k' None) (tl fs) d | Some (x, d') \<Rightarrow> run (k' (Some x)) (tl fs) d'))"
  "run (run_or f e k) fs d =
     (case fs of
        Fails # fs' \<Rightarrow> (Inl e, d)
      | Lost # fs' \<Rightarrow> (Inl e, case f d of None \<Rightarrow> d | Some (_, d') \<Rightarrow> d')
      | _ \<Rightarrow> (case f d of None \<Rightarrow> (Inl e, d) | Some (x, d') \<Rightarrow> run (k x) (tl fs) d'))"
  by (auto simp: answer_def refuse_def require_def ensure_def run_sql_def run_or_def
      split: option.splits list.splits fate.splits)


section \<open>A service: requests interleaved statement by statement\<close>

text \<open>
  The store, and every request that has arrived with what is left of its handler. A step lets a
  request arrive, or lets one handler execute its next statement with some fate.
\<close>

inductive serves :: "('q \<Rightarrow> ('d, 'r) prog) \<Rightarrow> 'd \<Rightarrow> 'd \<times> ('q \<times> ('d, 'r) prog) list \<Rightarrow> bool"
  for handle :: "'q \<Rightarrow> ('d, 'r) prog" and start :: 'd where
  serves_start: "serves handle start (start, [])"
| serves_arrive: "serves handle start (d, ts) \<Longrightarrow> serves handle start (d, ts @ [(q, handle q)])"
| serves_runs: "serves handle start (d, ts) \<Longrightarrow> i < length ts \<Longrightarrow> ts ! i = (q, Statement p f k) \<Longrightarrow>
    serves handle start (f d, ts[i := (q, k d)])"
| serves_fails: "serves handle start (d, ts) \<Longrightarrow> i < length ts \<Longrightarrow> ts ! i = (q, Statement p f k) \<Longrightarrow>
    serves handle start (d, ts[i := (q, p)])"
| serves_lost: "serves handle start (d, ts) \<Longrightarrow> i < length ts \<Longrightarrow> ts ! i = (q, Statement p f k) \<Longrightarrow>
    serves handle start (f d, ts[i := (q, p)])"

text \<open>The requests of a run, and the answers given so far.\<close>

definition requests :: "('q \<times> ('d, 'r) prog) list \<Rightarrow> 'q list" where
  "requests ts = map fst ts"

definition answered :: "('q \<times> ('d, 'r) prog) list \<Rightarrow> 'q \<Rightarrow> 'r \<Rightarrow> bool" where
  "answered ts q r \<longleftrightarrow> (q, Return r) \<in> set ts"


lemma run_map [simp]: "run (map_prog g p) fs d = map_prod g id (run p fs d)"
  by (induction p arbitrary: fs d) (auto split: list.splits fate.splits)

text \<open>A handler that runs to its end without being interrupted.\<close>

lemma serves_rest:
  "serves handle start (d, ts) \<Longrightarrow> i < length ts \<Longrightarrow> ts ! i = (q, p) \<Longrightarrow> run p fs d = (r, d') \<Longrightarrow>
   serves handle start (d', ts[i := (q, Return r)])"
proof (induction p arbitrary: fs d ts)
  case (Return x)
  then show ?case by (metis list_update_id prod.inject run.simps(1))
next
  case (Statement p f k)
  note at = Statement.prems(1-3)
  have *: "serves handle start (f d, ts[i := (q, k d)])" "serves handle start (d, ts[i := (q, p)])"
    "serves handle start (f d, ts[i := (q, p)])"
    using serves_runs [OF at] serves_fails [OF at] serves_lost [OF at] by simp_all
  have "run p (tl fs) d = (r, d') \<or> run p (tl fs) (f d) = (r, d') \<or> run (k d) (tl fs) (f d) = (r, d')"
    using Statement.prems(4) by (auto split: list.splits fate.splits)
  then show ?case
    using Statement.IH(1) [OF *(2), where fs = "tl fs"] Statement.IH(1) [OF *(3), where fs = "tl fs"]
      Statement.IH(2) [OF _ *(1), where fs = "tl fs"] Statement.prems(2) by auto
qed

lemma serves_run:
  assumes "serves handle start (d, ts)" and "run (handle q) fs d = (r, d')"
  shows "serves handle start (d', ts @ [(q, Return r)])"
  using serves_rest [OF serves_arrive [OF assms(1)], where i = "length ts" and fs = fs and r = r and d' = d' and q = q
    and p = "handle q"] assms(2) by simp

text \<open>One statement of a handler.\<close>

primrec effect :: "('d, 'r) prog \<Rightarrow> 'd \<Rightarrow> 'd" where
  "effect (Return r) d = d"
| "effect (Statement p f k) d = f d"

primrec resume :: "('d, 'r) prog \<Rightarrow> 'd \<Rightarrow> ('d, 'r) prog" where
  "resume (Return r) d = Return r"
| "resume (Statement p f k) d = k d"

lemma serves_step:
  "serves handle start (d, ts) \<Longrightarrow> i < length ts \<Longrightarrow> ts ! i = (q, p) \<Longrightarrow>
   serves handle start (effect p d, ts[i := (q, resume p d)])"
  by (cases p) (auto intro: serves_runs simp: list_update_same_conv [THEN iffD2])

lemma step_simps [simp]:
  "effect (map_prog g p) d = effect p d" "resume (map_prog g p) d = map_prog g (resume p d)"
  "effect (run_sql f k) d = (case f d of None \<Rightarrow> d | Some (_, d') \<Rightarrow> d')"
  "resume (run_sql f k) d = k (map_option fst (f d))"
  "effect (run_or f e k') d = (case f d of None \<Rightarrow> d | Some (_, d') \<Rightarrow> d')"
  "resume (run_or f e k') d = require (map_option fst (f d)) e k'"
  "effect (require (Some x) e k'') d = effect (k'' x) d" "resume (require (Some x) e k'') d = resume (k'' x) d"
  by (cases p; simp add: run_sql_def run_or_def require_def)+


section \<open>Rely and guarantee\<close>

text \<open>
  \<open>rg R p Q d\<close>: from the store \<open>d\<close>, whatever other requests do within \<open>R\<close> between two statements of \<open>p\<close>,
  every statement of \<open>p\<close> stays within \<open>R\<close>, and its result satisfies \<open>Q\<close> in every later store.
\<close>

primrec rg :: "('d \<Rightarrow> 'd \<Rightarrow> bool) \<Rightarrow> ('d, 'r) prog \<Rightarrow> ('r \<Rightarrow> 'd \<Rightarrow> bool) \<Rightarrow> 'd \<Rightarrow> bool" where
  "rg R (Return r) Q d \<longleftrightarrow> (\<forall>d'. R d d' \<longrightarrow> Q r d')"
| "rg R (Statement p f k) Q d \<longleftrightarrow>
     (\<forall>d'. R d d' \<longrightarrow> R d' (f d') \<and> rg R p Q d' \<and> rg R p Q (f d') \<and> rg R (k d') Q (f d'))"

lemma rg_stable: "transp R \<Longrightarrow> rg R p Q d \<Longrightarrow> R d d' \<Longrightarrow> rg R p Q d'"
  by (cases p) (auto dest: transpD)

lemma requests_update: "i < length ts \<Longrightarrow> ts ! i = (q, p) \<Longrightarrow> requests (ts[i := (q, p')]) = requests ts"
  by (metis fst_conv list_update_id map_update requests_def nth_map length_map)

definition safe :: "('d \<Rightarrow> 'd \<Rightarrow> bool) \<Rightarrow> ('q \<Rightarrow> 'r \<Rightarrow> 'd \<Rightarrow> bool) \<Rightarrow> 'd \<Rightarrow> 'd \<times> ('q \<times> ('d, 'r) prog) list \<Rightarrow> bool" where
  "safe R Q start s \<longleftrightarrow> R start (fst s) \<and> (\<forall>(q, p) \<in> set (snd s). rg R p (Q q) (fst s))"

lemma safe_step:
  assumes "safe R Q start (d, ts)" and "transp R" and "i < length ts" and "R d d'" and "rg R p (Q q) d'"
  shows "safe R Q start (d', ts[i := (q, p)])"
proof -
  have "rg R p0 (Q q0) d'" if "(q0, p0) \<in> set ts" for q0 p0
    using assms(1,2,4) that by (auto simp: safe_def intro: rg_stable)
  moreover have "R start d'" using assms(1,2,4) by (auto simp: safe_def dest: transpD)
  ultimately show ?thesis using assms(5) by (auto simp: safe_def dest!: set_update_subset_insert [THEN subsetD])
qed

theorem rg_sound:
  assumes "serves handle start (d, ts)" and refl: "reflp R" and trans: "transp R"
    and "\<And>q d'. q \<in> set (requests ts) \<Longrightarrow> R start d' \<Longrightarrow> rg R (handle q) (Q q) d'"
  shows "safe R Q start (d, ts)"
  using assms(1,4)
proof (induction "(d, ts)" arbitrary: d ts)
  case serves_start
  then show ?case using refl by (simp add: reflpD safe_def)
next
  case (serves_arrive d ts q)
  then have "safe R Q start (d, ts)" by (simp add: requests_def)
  then show ?case using serves_arrive.prems [of q d] by (auto simp: safe_def requests_def)
next
  case (serves_runs d ts i q p f k)
  then have s: "safe R Q start (d, ts)" by (simp add: requests_update)
  with serves_runs(3,4) have "rg R (Statement p f k) (Q q) d" by (force simp: safe_def in_set_conv_nth)
  then have "R d (f d)" "rg R (k d) (Q q) (f d)" using refl by (auto dest: reflpD)
  then show ?case using safe_step [OF s trans serves_runs(3)] by blast
next
  case (serves_fails d ts i q p f k)
  then have s: "safe R Q start (d, ts)" by (simp add: requests_update)
  with serves_fails(3,4) have "rg R (Statement p f k) (Q q) d" by (force simp: safe_def in_set_conv_nth)
  then have "R d d" "rg R p (Q q) d" using refl by (auto dest: reflpD)
  then show ?case using safe_step [OF s trans serves_fails(3)] by blast
next
  case (serves_lost d ts i q p f k)
  then have s: "safe R Q start (d, ts)" by (simp add: requests_update)
  with serves_lost(3,4) have "rg R (Statement p f k) (Q q) d" by (force simp: safe_def in_set_conv_nth)
  then have "R d (f d)" "rg R p (Q q) (f d)" using refl by (auto dest: reflpD)
  then show ?case using safe_step [OF s trans serves_lost(3)] by blast
qed

text \<open>A request alone is a run among no others.\<close>

lemma run_rg:
  assumes "reflp R" and "transp R" and "rg R p Q d" and "run p fs d = (r, d')"
  shows "R d d' \<and> Q r d'"
  using assms(3,4)
proof (induction p arbitrary: fs d)
  case (Return x)
  then show ?case using assms(1) by (auto dest: reflpD)
next
  case (Statement p f k)
  have "R d (f d)" "rg R p Q d" "rg R p Q (f d)" "rg R (k d) Q (f d)"
    using Statement.prems(1) assms(1) by (auto dest: reflpD)
  moreover have "run p (tl fs) d = (r, d') \<or> run p (tl fs) (f d) = (r, d') \<or> run (k d) (tl fs) (f d) = (r, d')"
    using Statement.prems(2) by (auto split: list.splits fate.splits)
  ultimately show ?case
    using Statement.IH(1) [of d "tl fs"] Statement.IH(1) [of "f d" "tl fs"] Statement.IH(2) [of "k d" "f d" "tl fs"]
      transpD [OF assms(2), of d "f d" d'] by auto
qed

lemma safe_answered: "safe R Q start (d, ts) \<Longrightarrow> reflp R \<Longrightarrow> answered ts q r \<Longrightarrow> Q q r d"
  by (force simp: safe_def answered_def dest: reflpD)

lemma rg_map [rg_rules]: "rg R (map_prog g p) Q d \<longleftrightarrow> rg R p (\<lambda>r. Q (g r)) d"
  by (induction p arbitrary: d) auto

text \<open>The combinators.\<close>

lemma rg_answer [rg_rules]: "rg R (answer a) Q d \<longleftrightarrow> (\<forall>d'. R d d' \<longrightarrow> Q (Inr a) d')"
  by (simp add: answer_def)

lemma rg_refuse [rg_rules]: "rg R (refuse e) Q d \<longleftrightarrow> (\<forall>d'. R d d' \<longrightarrow> Q (Inl e) d')"
  by (simp add: refuse_def)

lemma rg_require [rg_rules]:
  "rg R (require x e k) Q d \<longleftrightarrow>
     (case x of None \<Rightarrow> (\<forall>d'. R d d' \<longrightarrow> Q (Inl e) d') | Some v \<Rightarrow> rg R (k v) Q d)"
  by (simp add: require_def rg_refuse split: option.splits)

lemma rg_ensure [rg_rules]: "rg R (ensure b e h) Q d \<longleftrightarrow> (if b then rg R h Q d else (\<forall>d'. R d d' \<longrightarrow> Q (Inl e) d'))"
  by (simp add: ensure_def rg_refuse)

text \<open>A statement whose effect is within \<open>R\<close> wherever it runs.\<close>

lemma rg_run_sql:
  assumes "transp R" and "\<And>d'. R d d' \<Longrightarrow> rg R (k None) Q d'"
    and "\<And>d' x d''. R d d' \<Longrightarrow> f d' = Some (x, d'') \<Longrightarrow> R d' d'' \<and> rg R (k (Some x)) Q d''"
    and refl: "reflp R"
  shows "rg R (run_sql f k) Q d"
proof -
  have "R d' (case f d' of None \<Rightarrow> d' | Some (x, d'') \<Rightarrow> d'')" if "R d d'" for d'
    using that assms(3) refl by (auto dest: reflpD split: option.splits)
  moreover have "rg R (k None) Q (case f d' of None \<Rightarrow> d' | Some (x, d'') \<Rightarrow> d'')" if "R d d'" for d'
    using that assms(2) assms(3) [OF that] assms(1) by (auto split: option.splits intro: rg_stable)
  ultimately show ?thesis using assms(2,3) by (auto simp: run_sql_def split: option.splits)
qed

lemma rg_run_or:
  assumes "transp R" and "reflp R" and "\<And>d'. R d d' \<Longrightarrow> Q (Inl e) d'"
    and "\<And>d' x d''. R d d' \<Longrightarrow> f d' = Some (x, d'') \<Longrightarrow> R d' d'' \<and> rg R (k x) Q d''"
  shows "rg R (run_or f e k) Q d"
  unfolding run_or_def
  by (rule rg_run_sql) (use assms in \<open>auto simp: rg_rules dest: transpD\<close>)

section \<open>Invariants\<close>

text \<open>
  \<open>keeps I p Q\<close>: started in a store with \<open>I\<close> and among requests that keep \<open>I\<close>, the program keeps \<open>I\<close> at each of
  its statements and its result satisfies \<open>Q\<close>.
\<close>

definition keeps :: "('d \<Rightarrow> bool) \<Rightarrow> ('d, 'r) prog \<Rightarrow> ('r \<Rightarrow> 'd \<Rightarrow> bool) \<Rightarrow> bool" where
  "keeps I p Q \<longleftrightarrow> (\<forall>d. I d \<longrightarrow> rg (\<lambda>d d'. I d \<longrightarrow> I d') p Q d)"

theorem keeps_sound:
  assumes "serves handle start (d, ts)" and "I start" and "\<And>q. q \<in> set (requests ts) \<Longrightarrow> keeps I (handle q) (Q q)"
  shows "I d" and "answered ts q r \<Longrightarrow> Q q r d"
proof -
  let ?R = "\<lambda>d d'. I d \<longrightarrow> I d'"
  have R: "reflp ?R" "transp ?R" by (auto intro: reflpI transpI)
  have "rg ?R (handle q) (Q q) d'" if "q \<in> set (requests ts)" "?R start d'" for q d'
    using assms(2,3) that by (auto simp: keeps_def)
  then have s: "safe ?R Q start (d, ts)" by (rule rg_sound [OF assms(1) R])
  then show "I d" using assms(2) by (simp add: safe_def)
  show "answered ts q r \<Longrightarrow> Q q r d" by (rule safe_answered [OF s R(1)])
qed

lemma keeps_map: "keeps I (map_prog g p) Q \<longleftrightarrow> keeps I p (\<lambda>r. Q (g r))"
  by (simp add: keeps_def rg_rules)

lemma keeps_answer: "(\<And>d. I d \<Longrightarrow> Q (Inr a) d) \<Longrightarrow> keeps I (answer a) Q"
  by (simp add: keeps_def rg_rules)

lemma keeps_refuse: "(\<And>d. I d \<Longrightarrow> Q (Inl e) d) \<Longrightarrow> keeps I (refuse e) Q"
  by (simp add: keeps_def rg_rules)

lemma keeps_require:
  "(\<And>d. I d \<Longrightarrow> Q (Inl e) d) \<Longrightarrow> (\<And>v. x = Some v \<Longrightarrow> keeps I (k v) Q) \<Longrightarrow> keeps I (require x e k) Q"
  by (cases x) (simp_all add: require_def keeps_refuse)

lemma keeps_ensure:
  "(\<And>d. I d \<Longrightarrow> Q (Inl e) d) \<Longrightarrow> (b \<Longrightarrow> keeps I h Q) \<Longrightarrow> keeps I (ensure b e h) Q"
  by (simp add: ensure_def keeps_refuse)

lemma keeps_run_sql:
  assumes "keeps I (k None) Q" and "\<And>d x d'. I d \<Longrightarrow> f d = Some (x, d') \<Longrightarrow> I d' \<and> keeps I (k (Some x)) Q"
  shows "keeps I (run_sql f k) Q"
proof -
  have R: "reflp (\<lambda>d d'. I d \<longrightarrow> I d')" "transp (\<lambda>d d'. I d \<longrightarrow> I d')" by (auto intro: reflpI transpI)
  have "rg (\<lambda>d d'. I d \<longrightarrow> I d') (run_sql f k) Q d" if "I d" for d
    by (rule rg_run_sql [OF R(2) _ _ R(1)]) (use assms that in \<open>auto simp: keeps_def\<close>)
  then show ?thesis by (simp add: keeps_def)
qed

lemma keeps_run_or:
  assumes "\<And>d. I d \<Longrightarrow> Q (Inl e) d" and "\<And>d x d'. I d \<Longrightarrow> f d = Some (x, d') \<Longrightarrow> I d' \<and> keeps I (k x) Q"
  shows "keeps I (run_or f e k) Q"
  unfolding run_or_def by (rule keeps_run_sql) (use assms in \<open>auto intro!: keeps_require\<close>)

lemma keeps_select_or:
  "(\<And>d. I d \<Longrightarrow> Q (Inl e) d) \<Longrightarrow> (\<And>d. I d \<Longrightarrow> keeps I (k (g d)) Q) \<Longrightarrow> keeps I (run_or (select g) e k) Q"
  by (rule keeps_run_or) auto

lemma keeps_change_or:
  "(\<And>d. I d \<Longrightarrow> Q (Inl e) d) \<Longrightarrow> (\<And>d. I d \<Longrightarrow> I (g d)) \<Longrightarrow> keeps I (k ()) Q \<Longrightarrow> keeps I (run_or (change g) e k) Q"
  by (rule keeps_run_or) auto

lemma keeps_select:
  "keeps I (k None) Q \<Longrightarrow> (\<And>d. I d \<Longrightarrow> keeps I (k (Some (g d))) Q) \<Longrightarrow> keeps I (run_sql (select g) k) Q"
  by (rule keeps_run_sql) auto

lemma keeps_change:
  "keeps I (k None) Q \<Longrightarrow> (\<And>d. I d \<Longrightarrow> I (g d)) \<Longrightarrow> keeps I (k (Some ())) Q \<Longrightarrow> keeps I (run_sql (change g) k) Q"
  by (rule keeps_run_sql) auto

lemma keeps_mono: "keeps I p Q \<Longrightarrow> (\<And>r d. I d \<Longrightarrow> Q r d \<Longrightarrow> Q' r d) \<Longrightarrow> keeps I p Q'"
proof -
  assume K: "keeps I p Q" and Q: "\<And>r d. I d \<Longrightarrow> Q r d \<Longrightarrow> Q' r d"
  have "rg (\<lambda>d d'. I d \<longrightarrow> I d') p Q d \<Longrightarrow> I d \<Longrightarrow> rg (\<lambda>d d'. I d \<longrightarrow> I d') p Q' d" for d
    by (induction p arbitrary: d) (auto simp: Q)
  then show ?thesis using K by (simp add: keeps_def)
qed

lemmas keeps_rules = keeps_answer keeps_refuse keeps_require keeps_ensure keeps_select_or keeps_change_or
  keeps_select keeps_change

text \<open>
  \<open>stays I p Q\<close>: the program never ends \<open>I\<close>, wherever it starts, and its result satisfies \<open>Q\<close>. With it one
  shows that what a request established lasts, although other requests are under way.
\<close>

definition stays :: "('d \<Rightarrow> bool) \<Rightarrow> ('d, 'r) prog \<Rightarrow> ('r \<Rightarrow> 'd \<Rightarrow> bool) \<Rightarrow> bool" where
  "stays I p Q \<longleftrightarrow> (\<forall>d. rg (\<lambda>d d'. I d \<longrightarrow> I d') p Q d)"

theorem stays_sound:
  assumes "serves handle start (d, ts)" and "\<And>q. q \<in> set (requests ts) \<Longrightarrow> stays I (handle q) (Q q)"
    and "answered ts q r"
  shows "Q q r d"
proof -
  let ?R = "\<lambda>d d'. I d \<longrightarrow> I d'"
  have R: "reflp ?R" "transp ?R" by (auto intro: reflpI transpI)
  have "rg ?R (handle q) (Q q) d'" if "q \<in> set (requests ts)" "?R start d'" for q d'
    using assms(2) that by (auto simp: stays_def)
  then have s: "safe ?R Q start (d, ts)" by (rule rg_sound [OF assms(1) R])
  show ?thesis by (rule safe_answered [OF s R(1) assms(3)])
qed

lemma stays_run: "stays I p Q \<Longrightarrow> run p fs d = (r, d') \<Longrightarrow> (I d \<longrightarrow> I d') \<and> Q r d'"
  by (rule run_rg [where R = "\<lambda>d d'. I d \<longrightarrow> I d'"]) (auto simp: stays_def intro: reflpI transpI)

lemma stays_map: "stays I (map_prog g p) Q \<longleftrightarrow> stays I p (\<lambda>r. Q (g r))"
  by (simp add: stays_def rg_rules)

lemma stays_answer: "(\<And>d. Q (Inr a) d) \<Longrightarrow> stays I (answer a) Q"
  by (simp add: stays_def rg_rules)

lemma stays_refuse: "(\<And>d. Q (Inl e) d) \<Longrightarrow> stays I (refuse e) Q"
  by (simp add: stays_def rg_rules)

lemma stays_require:
  "(\<And>d. Q (Inl e) d) \<Longrightarrow> (\<And>v. x = Some v \<Longrightarrow> stays I (k v) Q) \<Longrightarrow> stays I (require x e k) Q"
  by (cases x) (simp_all add: require_def stays_refuse)

lemma stays_ensure: "(\<And>d. Q (Inl e) d) \<Longrightarrow> stays I h Q \<Longrightarrow> stays I (ensure b e h) Q"
  by (simp add: ensure_def stays_refuse)

lemma stays_run_sql:
  assumes "\<And>d x d'. I d \<Longrightarrow> f d = Some (x, d') \<Longrightarrow> I d'" and "\<And>x. stays I (k x) Q"
  shows "stays I (run_sql f k) Q"
proof -
  have R: "reflp (\<lambda>d d'. I d \<longrightarrow> I d')" "transp (\<lambda>d d'. I d \<longrightarrow> I d')" by (auto intro: reflpI transpI)
  have "rg (\<lambda>d d'. I d \<longrightarrow> I d') (run_sql f k) Q d" for d
    by (rule rg_run_sql [OF R(2) _ _ R(1)]) (use assms in \<open>auto simp: stays_def\<close>)
  then show ?thesis by (simp add: stays_def)
qed

lemma stays_run_or:
  "(\<And>d. Q (Inl e) d) \<Longrightarrow> (\<And>d x d'. I d \<Longrightarrow> f d = Some (x, d') \<Longrightarrow> I d') \<Longrightarrow> (\<And>x. stays I (k x) Q) \<Longrightarrow>
   stays I (run_or f e k) Q"
  unfolding run_or_def by (rule stays_run_sql) (auto intro!: stays_require)

lemma stays_change: "(\<And>d. I d \<Longrightarrow> I (g d)) \<Longrightarrow> (\<And>x. stays I (k x) Q) \<Longrightarrow> stays I (run_sql (change g) k) Q"
  by (rule stays_run_sql) auto

lemma stays_change_or:
  "(\<And>d. Q (Inl e) d) \<Longrightarrow> (\<And>d. I d \<Longrightarrow> I (g d)) \<Longrightarrow> stays I (k ()) Q \<Longrightarrow> stays I (run_or (change g) e k) Q"
  by (rule stays_run_or) auto

lemma stays_select: "(\<And>x. stays I (k x) Q) \<Longrightarrow> stays I (run_sql (select g) k) Q"
  by (rule stays_run_sql) auto

lemma stays_select_or: "(\<And>d. Q (Inl e) d) \<Longrightarrow> (\<And>x. stays I (k x) Q) \<Longrightarrow> stays I (run_or (select g) e k) Q"
  by (rule stays_run_or) auto

text \<open>A last statement that establishes \<open>I\<close>.\<close>

lemma stays_established:
  assumes "\<And>d. Q (Inl e) d" and "\<And>d. I (g d)" and "\<And>d. I d \<Longrightarrow> Q (Inr a) d"
  shows "stays I (run_or (change g) e (\<lambda>_. answer a)) Q"
  using assms by (auto simp: stays_def run_or_def run_sql_def rg_rules)

lemmas stays_rules = stays_answer stays_refuse stays_require stays_ensure stays_select_or stays_change_or
  stays_select stays_change

end
