(* ===== verification/Workspace_Repo.thy ===== *)
theory Workspace_Repo
  imports Models Sql
begin

text \<open>
  Workspaces and their members (\<^verbatim>\<open>crates/db/src/models/workspace.rs\<close>,
  \<^verbatim>\<open>crates/db/src/repositories/workspace_repo.rs\<close>): each query and statement of the repository on the
  tables \<^verbatim>\<open>workspaces\<close> and \<^verbatim>\<open>workspace_members\<close>. \<open>now\<close> is the value of \<^verbatim>\<open>NOW()\<close> and \<open>fresh\<close> the value of
  \<^verbatim>\<open>gen_random_uuid()\<close>. The schema's constraints on these tables are the unique slug, the primary keys
  and the deletion of the members of a deleted workspace.
\<close>

record WorkspaceMember =
  wm_workspace_id :: uuid
  wm_user_id :: uuid
  wm_role :: string
  wm_created_at :: timestamp

definition WorkspaceMember_role :: "WorkspaceMember \<Rightarrow> WorkspaceRole" where
  "WorkspaceMember_role m = WorkspaceRole_of_str (wm_role m)"

fun role_str :: "WorkspaceRole \<Rightarrow> string" where
  "role_str Role_Owner = ''owner''"
| "role_str Role_Admin = ''admin''"
| "role_str Role_Member = ''member''"
| "role_str Role_Viewer = ''viewer''"

lemma role_read_back [simp]: "WorkspaceRole_of_str (role_str r) = r"
  by (cases r) (simp_all add: WorkspaceRole_of_str_def)

lemma role_owner_iff: "WorkspaceRole_of_str s = Role_Owner \<longleftrightarrow> s = ''owner''"
  by (simp add: WorkspaceRole_of_str_def)

definition MAX_WORKSPACES_PER_USER :: nat where "MAX_WORKSPACES_PER_USER = 50"
definition MAX_MEMBERS_PER_WORKSPACE :: nat where "MAX_MEMBERS_PER_WORKSPACE = 200"

record workspace_db =
  wd_workspaces :: "Workspace list"
  wd_members :: "WorkspaceMember list"


section \<open>Workspaces\<close>

definition ws_find_by_id :: "uuid \<Rightarrow> workspace_db \<Rightarrow> Workspace option" where
  "ws_find_by_id i d = find (\<lambda>w. ws_id w = i) (wd_workspaces d)"

definition ws_find_by_slug :: "string \<Rightarrow> workspace_db \<Rightarrow> Workspace option" where
  "ws_find_by_slug slug d = find (\<lambda>w. ws_slug w = slug) (wd_workspaces d)"

text \<open>The join of a user's memberships with their workspaces, newest first.\<close>

definition ws_list_by_user :: "uuid \<Rightarrow> workspace_db \<Rightarrow> (Workspace \<times> string) list" where
  "ws_list_by_user user_id d =
     take MAX_WORKSPACES_PER_USER (sort_key (\<lambda>(w, _). - ws_created_at w)
       (concat (map (\<lambda>w. map (\<lambda>m. (w, wm_role m))
          (filter (\<lambda>m. wm_workspace_id m = ws_id w \<and> wm_user_id m = user_id) (wd_members d))) (wd_workspaces d))))"

definition workspace_row :: "uuid \<Rightarrow> timestamp \<Rightarrow> string \<Rightarrow> string \<Rightarrow> uuid \<Rightarrow> Workspace" where
  "workspace_row fresh now name slug owner_id = \<lparr>
     ws_id = fresh, ws_name = name, ws_slug = slug, ws_plan = ''free'', ws_owner_id = owner_id,
     ws_stripe_customer_id = None, ws_stripe_subscription_id = None, ws_stripe_region_subscription_item_id = None,
     ws_subscription_status = Some ''none'', ws_current_period_end = None, ws_auto_email_invoices = Some True,
     ws_created_at = now, ws_updated_at = now \<rparr>"

definition member_clash :: "WorkspaceMember \<Rightarrow> WorkspaceMember \<Rightarrow> bool" where
  "member_clash m m' \<longleftrightarrow> wm_workspace_id m = wm_workspace_id m' \<and> wm_user_id m = wm_user_id m'"

definition workspace_clash :: "Workspace \<Rightarrow> Workspace \<Rightarrow> bool" where
  "workspace_clash w w' \<longleftrightarrow> ws_id w = ws_id w' \<or> ws_slug w = ws_slug w'"

text \<open>One transaction: the workspace and its owner's membership, or nothing.\<close>

definition ws_create ::
  "uuid \<Rightarrow> timestamp \<Rightarrow> string \<Rightarrow> string \<Rightarrow> uuid \<Rightarrow> workspace_db \<Rightarrow> (Workspace \<times> workspace_db) option" where
  "ws_create fresh now name slug owner_id d =
     (let w = workspace_row fresh now name slug owner_id;
          m = \<lparr>wm_workspace_id = fresh, wm_user_id = owner_id, wm_role = ''owner'', wm_created_at = now\<rparr>
      in case (sql_insert workspace_clash w (wd_workspaces d), sql_insert member_clash m (wd_members d)) of
           (Some ws, Some ms) \<Rightarrow> Some (w, d\<lparr>wd_workspaces := ws, wd_members := ms\<rparr>)
         | _ \<Rightarrow> None)"

text \<open>An \<^verbatim>\<open>UPDATE .. WHERE id = $1\<close> of one workspace.\<close>

definition ws_set :: "uuid \<Rightarrow> (Workspace \<Rightarrow> Workspace) \<Rightarrow> workspace_db \<Rightarrow> workspace_db" where
  "ws_set i f d = d\<lparr>wd_workspaces := sql_update (\<lambda>w. ws_id w = i) f (wd_workspaces d)\<rparr>"

text \<open>\<^verbatim>\<open>update\<close> fails (\<^verbatim>\<open>RowNotFound\<close>) when there is no such workspace; the other updates then do nothing.\<close>

definition ws_update ::
  "timestamp \<Rightarrow> uuid \<Rightarrow> string option \<Rightarrow> Plan option \<Rightarrow> workspace_db \<Rightarrow> (Workspace \<times> workspace_db) option" where
  "ws_update now i name plan d =
     (let d' = ws_set i (\<lambda>w. w\<lparr>ws_name := unwrap_or name (ws_name w),
                              ws_plan := unwrap_or (map_option Plan_display plan) (ws_plan w), ws_updated_at := now\<rparr>) d
      in map_option (\<lambda>w. (w, d')) (ws_find_by_id i d'))"

definition ws_update_stripe_customer :: "timestamp \<Rightarrow> uuid \<Rightarrow> string \<Rightarrow> workspace_db \<Rightarrow> workspace_db" where
  "ws_update_stripe_customer now i customer_id =
     ws_set i (\<lambda>w. w\<lparr>ws_stripe_customer_id := Some customer_id, ws_updated_at := now\<rparr>)"

definition ws_update_stripe_ids :: "timestamp \<Rightarrow> uuid \<Rightarrow> string \<Rightarrow> string \<Rightarrow> workspace_db \<Rightarrow> workspace_db" where
  "ws_update_stripe_ids now i customer_id subscription_id =
     ws_set i (\<lambda>w. w\<lparr>ws_stripe_customer_id := Some customer_id, ws_stripe_subscription_id := Some subscription_id,
                      ws_subscription_status := Some ''active'', ws_updated_at := now\<rparr>)"

definition ws_update_plan :: "timestamp \<Rightarrow> uuid \<Rightarrow> Plan \<Rightarrow> workspace_db \<Rightarrow> workspace_db" where
  "ws_update_plan now i plan = ws_set i (\<lambda>w. w\<lparr>ws_plan := Plan_display plan, ws_updated_at := now\<rparr>)"

definition ws_clear_stripe_subscription :: "timestamp \<Rightarrow> uuid \<Rightarrow> workspace_db \<Rightarrow> workspace_db" where
  "ws_clear_stripe_subscription now i =
     ws_set i (\<lambda>w. w\<lparr>ws_stripe_subscription_id := None, ws_subscription_status := Some ''cancelled'',
                      ws_updated_at := now\<rparr>)"

definition ws_update_subscription_status ::
  "timestamp \<Rightarrow> uuid \<Rightarrow> string \<Rightarrow> timestamp option \<Rightarrow> workspace_db \<Rightarrow> workspace_db" where
  "ws_update_subscription_status now i status period_end =
     ws_set i (\<lambda>w. w\<lparr>ws_subscription_status := Some status, ws_current_period_end := period_end, ws_updated_at := now\<rparr>)"

definition ws_update_region_item :: "timestamp \<Rightarrow> uuid \<Rightarrow> string option \<Rightarrow> workspace_db \<Rightarrow> workspace_db" where
  "ws_update_region_item now i item =
     ws_set i (\<lambda>w. w\<lparr>ws_stripe_region_subscription_item_id := item, ws_updated_at := now\<rparr>)"

definition ws_update_billing_settings :: "timestamp \<Rightarrow> uuid \<Rightarrow> bool \<Rightarrow> workspace_db \<Rightarrow> workspace_db" where
  "ws_update_billing_settings now i auto_email =
     ws_set i (\<lambda>w. w\<lparr>ws_auto_email_invoices := Some auto_email, ws_updated_at := now\<rparr>)"

definition ws_find_by_stripe_customer :: "string \<Rightarrow> workspace_db \<Rightarrow> Workspace option" where
  "ws_find_by_stripe_customer customer_id d = find (\<lambda>w. ws_stripe_customer_id w = Some customer_id) (wd_workspaces d)"

definition ws_find_by_stripe_subscription :: "string \<Rightarrow> workspace_db \<Rightarrow> Workspace option" where
  "ws_find_by_stripe_subscription sub_id d = find (\<lambda>w. ws_stripe_subscription_id w = Some sub_id) (wd_workspaces d)"

definition ws_delete :: "uuid \<Rightarrow> workspace_db \<Rightarrow> workspace_db" where
  "ws_delete i d = d\<lparr>wd_workspaces := sql_delete (\<lambda>w. ws_id w = i) (wd_workspaces d),
                     wd_members := sql_delete (\<lambda>m. wm_workspace_id m = i) (wd_members d)\<rparr>"

definition ws_list_owned :: "uuid \<Rightarrow> workspace_db \<Rightarrow> Workspace list" where
  "ws_list_owned user_id d =
     take MAX_WORKSPACES_PER_USER (sort_key (\<lambda>w. - ws_created_at w) (filter (\<lambda>w. ws_owner_id w = user_id) (wd_workspaces d)))"


section \<open>Members\<close>

definition get_member :: "uuid \<Rightarrow> uuid \<Rightarrow> workspace_db \<Rightarrow> WorkspaceMember option" where
  "get_member workspace_id user_id d =
     find (\<lambda>m. wm_workspace_id m = workspace_id \<and> wm_user_id m = user_id) (wd_members d)"

definition add_member ::
  "timestamp \<Rightarrow> uuid \<Rightarrow> uuid \<Rightarrow> WorkspaceRole \<Rightarrow> workspace_db \<Rightarrow> (WorkspaceMember \<times> workspace_db) option" where
  "add_member now workspace_id user_id role d =
     (let m = \<lparr>wm_workspace_id = workspace_id, wm_user_id = user_id, wm_role = role_str role, wm_created_at = now\<rparr>
      in if ws_find_by_id workspace_id d = None then None
         else map_option (\<lambda>ms. (m, d\<lparr>wd_members := ms\<rparr>)) (sql_insert member_clash m (wd_members d)))"

definition remove_member :: "uuid \<Rightarrow> uuid \<Rightarrow> workspace_db \<Rightarrow> workspace_db" where
  "remove_member workspace_id user_id d =
     d\<lparr>wd_members := sql_delete (\<lambda>m. wm_workspace_id m = workspace_id \<and> wm_user_id m = user_id) (wd_members d)\<rparr>"

definition update_member_role ::
  "uuid \<Rightarrow> uuid \<Rightarrow> WorkspaceRole \<Rightarrow> workspace_db \<Rightarrow> (WorkspaceMember option \<times> workspace_db) option" where
  "update_member_role workspace_id user_id role d =
     (let d' = d\<lparr>wd_members := sql_update (\<lambda>m. wm_workspace_id m = workspace_id \<and> wm_user_id m = user_id)
                   (\<lambda>m. m\<lparr>wm_role := role_str role\<rparr>) (wd_members d)\<rparr>
      in Some (get_member workspace_id user_id d', d'))"

definition count_members :: "uuid \<Rightarrow> workspace_db \<Rightarrow> nat" where
  "count_members workspace_id d = length (filter (\<lambda>m. wm_workspace_id m = workspace_id) (wd_members d))"

definition list_members :: "uuid \<Rightarrow> workspace_db \<Rightarrow> WorkspaceMember list" where
  "list_members workspace_id d =
     take MAX_MEMBERS_PER_WORKSPACE (sort_key wm_created_at (filter (\<lambda>m. wm_workspace_id m = workspace_id) (wd_members d)))"


section \<open>Ownership\<close>

text \<open>
  What the schema and the handlers together keep: identifiers are unique, a user is at most once
  a member of a workspace, and a workspace that has members with the role of owner has exactly one,
  the user named in its own row.
\<close>

definition ws_owners :: "workspace_db \<Rightarrow> (uuid \<times> uuid) set" where
  "ws_owners d = set (map (\<lambda>w. (ws_id w, ws_owner_id w)) (wd_workspaces d))"

definition member_key :: "WorkspaceMember \<Rightarrow> uuid \<times> uuid" where
  "member_key m = (wm_workspace_id m, wm_user_id m)"

definition owner_rows :: "(uuid \<times> uuid) set \<Rightarrow> WorkspaceMember \<Rightarrow> bool" where
  "owner_rows own m \<longleftrightarrow> (\<exists>u. (wm_workspace_id m, u) \<in> own) \<and>
     (\<forall>u. (wm_workspace_id m, u) \<in> own \<longrightarrow> (wm_role m = ''owner'' \<longleftrightarrow> wm_user_id m = u))"

definition ws_ok :: "workspace_db \<Rightarrow> bool" where
  "ws_ok d \<longleftrightarrow>
     distinct (map ws_id (wd_workspaces d)) \<and> distinct (map member_key (wd_members d)) \<and>
     (\<forall>m \<in> set (wd_members d). owner_rows (ws_owners d) m) \<and> ws_owners d \<subseteq> member_key ` set (wd_members d)"

lemma ws_ok_empty: "ws_ok \<lparr>wd_workspaces = [], wd_members = []\<rparr>"
  by (simp add: ws_ok_def ws_owners_def)

lemma ws_ok_create:
  assumes "ws_ok d" and "ws_create fresh now name slug owner_id d = Some (w, d')"
  shows "ws_ok d'"
proof -
  let ?m = "\<lparr>wm_workspace_id = fresh, wm_user_id = owner_id, wm_role = ''owner'', wm_created_at = now\<rparr>"
  have w: "w = workspace_row fresh now name slug owner_id" and new: "fresh \<notin> ws_id ` set (wd_workspaces d)"
    and d': "wd_workspaces d' = wd_workspaces d @ [w]" "wd_members d' = wd_members d @ [?m]"
    using assms(2) by (auto simp: ws_create_def Let_def sql_insert_Some list_ex_iff workspace_clash_def
        workspace_row_def split: option.splits)
  have own: "ws_owners d' = insert (fresh, owner_id) (ws_owners d)"
    by (simp add: ws_owners_def d' w workspace_row_def)
  have fresh: "(fresh, u) \<notin> ws_owners d" for u using new by (auto simp: ws_owners_def)
  have rows: "\<forall>m \<in> set (wd_members d). owner_rows (ws_owners d) m" using assms(1) by (simp add: ws_ok_def)
  then have none: "wm_workspace_id m \<noteq> fresh" if "m \<in> set (wd_members d)" for m
    using that fresh by (auto simp: owner_rows_def)
  have "distinct (map ws_id (wd_workspaces d'))" using assms(1) new by (simp add: ws_ok_def d' w workspace_row_def)
  moreover have "distinct (map member_key (wd_members d'))"
    using assms(1) none by (auto simp: ws_ok_def d' member_key_def)
  moreover have "\<forall>m \<in> set (wd_members d'). owner_rows (ws_owners d') m"
    using rows none fresh by (auto simp: d' own owner_rows_def)
  moreover have "ws_owners d' \<subseteq> member_key ` set (wd_members d')"
    using assms(1) by (auto simp: ws_ok_def d' own member_key_def)
  ultimately show ?thesis by (simp add: ws_ok_def)
qed

text \<open>An update that leaves identifiers and owners alone.\<close>

lemma ws_ok_set:
  assumes "\<And>w. ws_id (f w) = ws_id w" and "\<And>w. ws_owner_id (f w) = ws_owner_id w"
  shows "ws_ok (ws_set i f d) = ws_ok d"
  unfolding ws_ok_def ws_owners_def by (simp add: ws_set_def map_sql_update assms)

lemma ws_ok_updates [simp]:
  "ws_ok (ws_update_stripe_customer now i c d) = ws_ok d"
  "ws_ok (ws_update_stripe_ids now i c s d) = ws_ok d"
  "ws_ok (ws_update_plan now i p d) = ws_ok d"
  "ws_ok (ws_clear_stripe_subscription now i d) = ws_ok d"
  "ws_ok (ws_update_subscription_status now i st pe d) = ws_ok d"
  "ws_ok (ws_update_region_item now i item d) = ws_ok d"
  "ws_ok (ws_update_billing_settings now i b d) = ws_ok d"
  by (simp_all add: ws_update_stripe_customer_def ws_update_stripe_ids_def ws_update_plan_def
      ws_clear_stripe_subscription_def ws_update_subscription_status_def ws_update_region_item_def
      ws_update_billing_settings_def ws_ok_set)

lemma ws_ok_update:
  "ws_update now i name plan d = Some (w, d') \<Longrightarrow> ws_ok d' = ws_ok d"
  by (auto simp: ws_update_def Let_def ws_ok_set)

lemma ws_ok_delete:
  assumes "ws_ok d"
  shows "ws_ok (ws_delete i d)"
proof -
  have own: "ws_owners (ws_delete i d) = {(j, u) \<in> ws_owners d. j \<noteq> i}"
    by (auto simp: ws_owners_def ws_delete_def)
  have "owner_rows (ws_owners (ws_delete i d)) m" if "m \<in> set (wd_members d)" "wm_workspace_id m \<noteq> i" for m
    using assms that by (auto simp: ws_ok_def own owner_rows_def)
  moreover have "ws_owners (ws_delete i d) \<subseteq> member_key ` set (wd_members (ws_delete i d))"
  proof
    fix x assume "x \<in> ws_owners (ws_delete i d)"
    then obtain j u where x: "x = (j, u)" "(j, u) \<in> ws_owners d" "j \<noteq> i" by (auto simp: own)
    then obtain m where "m \<in> set (wd_members d)" "member_key m = (j, u)"
      using assms by (metis (no_types, lifting) image_iff subsetD ws_ok_def)
    then have "m \<in> set (wd_members (ws_delete i d))" "x = member_key m"
      using x by (auto simp: ws_delete_def member_key_def)
    then show "x \<in> member_key ` set (wd_members (ws_delete i d))" by blast
  qed
  ultimately show ?thesis using assms by (simp add: ws_ok_def) (simp add: ws_delete_def)
qed

lemma get_member_Some:
  "get_member i u d = Some m \<Longrightarrow> m \<in> set (wd_members d) \<and> wm_workspace_id m = i \<and> wm_user_id m = u"
  by (auto simp: get_member_def dest: find_Some_in)

lemma ws_ok_add:
  assumes "ws_ok d" and "add_member now i u role d = Some (m, d')" and "role \<noteq> Role_Owner"
  shows "ws_ok d'"
proof -
  have m: "m = \<lparr>wm_workspace_id = i, wm_user_id = u, wm_role = role_str role, wm_created_at = now\<rparr>"
    and d': "wd_workspaces d' = wd_workspaces d" "wd_members d' = wd_members d @ [m]"
    and new: "(i, u) \<notin> member_key ` set (wd_members d)" and ex: "\<exists>w. ws_find_by_id i d = Some w"
    using assms(2) by (auto simp: add_member_def Let_def sql_insert_Some list_ex_iff member_clash_def member_key_def
        split: if_splits)
  have own: "ws_owners d' = ws_owners d" by (simp add: ws_owners_def d')
  have "role_str role \<noteq> ''owner''" using assms(3) by (cases role) auto
  moreover have "\<exists>v. (i, v) \<in> ws_owners d" using ex by (auto simp: ws_find_by_id_def ws_owners_def dest!: find_Some_in)
  moreover have "(i, u) \<notin> ws_owners d" using assms(1) new by (auto simp: ws_ok_def)
  ultimately have "owner_rows (ws_owners d) m" by (auto simp: owner_rows_def m)
  then show ?thesis using assms(1) new by (auto simp: ws_ok_def own) (auto simp: d' m member_key_def)
qed

text \<open>Removing a member who is not an owner, or giving such a member another role than the owner's.\<close>

lemma ws_ok_remove:
  assumes "ws_ok d" and "(i, u) \<notin> ws_owners d"
  shows "ws_ok (remove_member i u d)"
proof -
  have own: "ws_owners (remove_member i u d) = ws_owners d" by (simp add: ws_owners_def remove_member_def)
  have "ws_owners d \<subseteq> member_key ` set (wd_members (remove_member i u d))"
    using assms by (force simp: ws_ok_def remove_member_def member_key_def)
  then show ?thesis using assms(1) unfolding ws_ok_def own
    by (simp add: remove_member_def sql_delete_def distinct_map_filter)
qed

lemma ws_ok_role:
  assumes "ws_ok d" and notown: "(i, u) \<notin> ws_owners d" and "role \<noteq> Role_Owner"
    and "update_member_role i u role d = Some (r, d')"
  shows "ws_ok d'"
proof -
  let ?P = "\<lambda>m. wm_workspace_id m = i \<and> wm_user_id m = u" and ?f = "\<lambda>m. m\<lparr>wm_role := role_str role\<rparr>"
  have d': "wd_workspaces d' = wd_workspaces d" "wd_members d' = sql_update ?P ?f (wd_members d)"
    using assms(4) by (auto simp: update_member_role_def Let_def)
  have own: "ws_owners d' = ws_owners d" by (simp add: ws_owners_def d')
  have keys: "map member_key (wd_members d') = map member_key (wd_members d)"
    unfolding d' by (rule map_sql_update) (simp add: member_key_def)
  have "role_str role \<noteq> ''owner''" using assms(3) by (cases role) auto
  then have "owner_rows (ws_owners d) (?f x)" if "x \<in> set (wd_members d)" "?P x" for x
    using assms(1) that notown by (auto simp: ws_ok_def owner_rows_def)
  then have "\<forall>x \<in> set (wd_members d'). owner_rows (ws_owners d) x"
    using assms(1) by (auto simp: d' set_sql_update ws_ok_def)
  moreover have "member_key ` set (wd_members d') = member_key ` set (wd_members d)"
    using keys by (metis list.set_map)
  ultimately show ?thesis using assms(1) keys by (simp add: ws_ok_def own d'(1))
qed

text \<open>A member's row tells whether the member owns the workspace.\<close>

lemma owner_role:
  assumes "ws_ok d" and "get_member i u d = Some m"
  shows "wm_role m = ''owner'' \<longleftrightarrow> (i, u) \<in> ws_owners d"
proof -
  have m: "m \<in> set (wd_members d)" "wm_workspace_id m = i" "wm_user_id m = u" using get_member_Some [OF assms(2)] by auto
  then have "owner_rows (ws_owners d) m" using assms(1) by (simp add: ws_ok_def)
  then show ?thesis using m unfolding owner_rows_def by metis
qed

end
