(* ===== verification/OAuth_Store.thy ===== *)
theory OAuth_Store
  imports Workspace_Repo Redis_Cache
begin

text \<open>
  The OAuth tables and their repositories (\<^verbatim>\<open>crates/db/src/models/oauth.rs\<close>,
  \<^verbatim>\<open>crates/db/src/repositories/oauth_repo.rs\<close>). \<open>now\<close> is \<^verbatim>\<open>NOW()\<close> and \<open>fresh\<close> the row's generated
  identifier. The schema's constraints kept here are the unique hashes and client identifiers, the
  references to \<^verbatim>\<open>oauth_clients\<close> with their cascading deletion, and that of a refresh token to its access
  token (set to null when that is deleted). References to users and servers and column lengths are
  not: a statement that violates one fails, which is one of the fates of a statement.
\<close>

section \<open>Rows\<close>

text \<open>\<^verbatim>\<open>serde_json::to_value\<close> of a \<^verbatim>\<open>Vec<String>\<close>, and back with \<^verbatim>\<open>unwrap_or_default\<close>.\<close>

definition json_strings :: "string list \<Rightarrow> json" where
  "json_strings xs = JArray (map JString xs)"

definition strings_or_default :: "json \<Rightarrow> string list" where
  "strings_or_default v = unwrap_or (json_string_list v) []"

lemma strings_read_back [simp]: "strings_or_default (json_strings xs) = xs"
  by (simp add: strings_or_default_def json_strings_def json_string_list_def)

record OAuthClient =
  oc_id :: uuid
  oc_client_id :: string
  oc_client_secret_hash :: "string option"
  oc_client_name :: string
  oc_redirect_uris :: json
  oc_grant_types :: json
  oc_token_endpoint_auth_method :: string
  oc_workspace_id :: "uuid option"
  oc_server_id :: "uuid option"
  oc_scopes :: json
  oc_is_active :: bool
  oc_is_dynamic :: bool
  oc_software_id :: "string option"
  oc_software_version :: "string option"
  oc_access_token_ttl_seconds :: "64 word option"
  oc_created_at :: timestamp
  oc_updated_at :: timestamp

definition OAuthClient_redirect_uris :: "OAuthClient \<Rightarrow> string list" where
  "OAuthClient_redirect_uris c = strings_or_default (oc_redirect_uris c)"

definition OAuthClient_grant_types :: "OAuthClient \<Rightarrow> string list" where
  "OAuthClient_grant_types c = strings_or_default (oc_grant_types c)"

definition OAuthClient_scopes :: "OAuthClient \<Rightarrow> string list" where
  "OAuthClient_scopes c = strings_or_default (oc_scopes c)"

definition is_redirect_uri_valid :: "OAuthClient \<Rightarrow> string \<Rightarrow> bool" where
  "is_redirect_uri_valid c uri \<longleftrightarrow> uri \<in> set (OAuthClient_redirect_uris c)"

definition supports_grant_type :: "OAuthClient \<Rightarrow> string \<Rightarrow> bool" where
  "supports_grant_type c grant_type \<longleftrightarrow> grant_type \<in> set (OAuthClient_grant_types c)"

record CreateOAuthClient =
  cc_client_id :: string
  cc_client_secret_hash :: "string option"
  cc_client_name :: string
  cc_redirect_uris :: "string list"
  cc_grant_types :: "string list"
  cc_token_endpoint_auth_method :: string
  cc_workspace_id :: "uuid option"
  cc_server_id :: "uuid option"
  cc_scopes :: "string list"
  cc_is_dynamic :: bool
  cc_software_id :: "string option"
  cc_software_version :: "string option"
  cc_access_token_ttl_seconds :: "64 word option"

record OAuthAuthorizationCode =
  ac_id :: uuid
  ac_code_hash :: string
  ac_client_id :: uuid
  ac_user_id :: uuid
  ac_redirect_uri :: string
  ac_scopes :: json
  ac_code_challenge :: string
  ac_code_challenge_method :: string
  ac_expires_at :: timestamp
  ac_used_at :: "timestamp option"
  ac_created_at :: timestamp

definition AuthCode_scopes :: "OAuthAuthorizationCode \<Rightarrow> string list" where
  "AuthCode_scopes c = strings_or_default (ac_scopes c)"

definition AuthCode_is_expired :: "timestamp \<Rightarrow> OAuthAuthorizationCode \<Rightarrow> bool" where
  "AuthCode_is_expired now c \<longleftrightarrow> ac_expires_at c < now"

definition AuthCode_is_used :: "OAuthAuthorizationCode \<Rightarrow> bool" where
  "AuthCode_is_used c \<longleftrightarrow> ac_used_at c \<noteq> None"

record CreateOAuthAuthorizationCode =
  cac_code_hash :: string
  cac_client_id :: uuid
  cac_user_id :: uuid
  cac_redirect_uri :: string
  cac_scopes :: "string list"
  cac_code_challenge :: string
  cac_code_challenge_method :: string
  cac_expires_at :: timestamp

record OAuthAccessToken =
  at_id :: uuid
  at_token_hash :: string
  at_client_id :: uuid
  at_user_id :: uuid
  at_scopes :: json
  at_expires_at :: timestamp
  at_revoked_at :: "timestamp option"
  at_last_used_at :: "timestamp option"
  at_created_at :: timestamp

record CreateOAuthAccessToken =
  cat_token_hash :: string
  cat_client_id :: uuid
  cat_user_id :: uuid
  cat_scopes :: "string list"
  cat_expires_at :: timestamp

record OAuthRefreshToken =
  rt_id :: uuid
  rt_token_hash :: string
  rt_client_id :: uuid
  rt_user_id :: uuid
  rt_scopes :: json
  rt_access_token_id :: "uuid option"
  rt_expires_at :: timestamp
  rt_revoked_at :: "timestamp option"
  rt_created_at :: timestamp

definition RefreshToken_scopes :: "OAuthRefreshToken \<Rightarrow> string list" where
  "RefreshToken_scopes t = strings_or_default (rt_scopes t)"

definition RefreshToken_is_valid :: "timestamp \<Rightarrow> OAuthRefreshToken \<Rightarrow> bool" where
  "RefreshToken_is_valid now t \<longleftrightarrow> \<not> rt_expires_at t < now \<and> rt_revoked_at t = None"

record CreateOAuthRefreshToken =
  crt_token_hash :: string
  crt_client_id :: uuid
  crt_user_id :: uuid
  crt_scopes :: "string list"
  crt_access_token_id :: "uuid option"
  crt_expires_at :: timestamp


section \<open>The store\<close>

text \<open>The tables the OAuth handlers use, and the Redis server that counts registrations.\<close>

record 'r oauth_db =
  od_workspaces :: workspace_db
  od_clients :: "OAuthClient list"
  od_codes :: "OAuthAuthorizationCode list"
  od_access :: "OAuthAccessToken list"
  od_refresh :: "OAuthRefreshToken list"
  od_redis :: 'r

definition od_get_member :: "uuid \<Rightarrow> uuid \<Rightarrow> 'r oauth_db \<Rightarrow> WorkspaceMember option" where
  "od_get_member workspace_id user_id d = get_member workspace_id user_id (od_workspaces d)"


section \<open>Clients\<close>

definition client_find_by_id :: "uuid \<Rightarrow> 'r oauth_db \<Rightarrow> OAuthClient option" where
  "client_find_by_id i d = find (\<lambda>c. oc_id c = i) (od_clients d)"

definition client_find_by_client_id :: "string \<Rightarrow> 'r oauth_db \<Rightarrow> OAuthClient option" where
  "client_find_by_client_id client_id d = find (\<lambda>c. oc_client_id c = client_id) (od_clients d)"

text \<open>The first row; the column is not unique.\<close>

definition client_find_by_server_id :: "uuid \<Rightarrow> 'r oauth_db \<Rightarrow> OAuthClient option" where
  "client_find_by_server_id server_id d = find (\<lambda>c. oc_server_id c = Some server_id) (od_clients d)"

definition client_list_by_workspace :: "uuid \<Rightarrow> 'r oauth_db \<Rightarrow> OAuthClient list" where
  "client_list_by_workspace workspace_id d =
     sort_key (\<lambda>c. - oc_created_at c) (filter (\<lambda>c. oc_workspace_id c = Some workspace_id) (od_clients d))"

definition client_row :: "uuid \<Rightarrow> timestamp \<Rightarrow> CreateOAuthClient \<Rightarrow> OAuthClient" where
  "client_row fresh now data = \<lparr>
     oc_id = fresh, oc_client_id = cc_client_id data, oc_client_secret_hash = cc_client_secret_hash data,
     oc_client_name = cc_client_name data, oc_redirect_uris = json_strings (cc_redirect_uris data),
     oc_grant_types = json_strings (cc_grant_types data),
     oc_token_endpoint_auth_method = cc_token_endpoint_auth_method data,
     oc_workspace_id = cc_workspace_id data, oc_server_id = cc_server_id data,
     oc_scopes = json_strings (cc_scopes data), oc_is_active = True, oc_is_dynamic = cc_is_dynamic data,
     oc_software_id = cc_software_id data, oc_software_version = cc_software_version data,
     oc_access_token_ttl_seconds = cc_access_token_ttl_seconds data, oc_created_at = now, oc_updated_at = now \<rparr>"

definition client_clash :: "OAuthClient \<Rightarrow> OAuthClient \<Rightarrow> bool" where
  "client_clash c c' \<longleftrightarrow> oc_id c = oc_id c' \<or> oc_client_id c = oc_client_id c'"

definition client_create ::
  "uuid \<Rightarrow> timestamp \<Rightarrow> CreateOAuthClient \<Rightarrow> 'r oauth_db \<Rightarrow> (OAuthClient \<times> 'r oauth_db) option" where
  "client_create fresh now data d =
     (let c = client_row fresh now data
      in map_option (\<lambda>t. (c, d\<lparr>od_clients := t\<rparr>)) (sql_insert client_clash c (od_clients d)))"

definition client_update_secret :: "timestamp \<Rightarrow> uuid \<Rightarrow> string \<Rightarrow> 'r oauth_db \<Rightarrow> 'r oauth_db" where
  "client_update_secret now i secret_hash d =
     d\<lparr>od_clients := sql_update (\<lambda>c. oc_id c = i)
         (\<lambda>c. c\<lparr>oc_client_secret_hash := Some secret_hash, oc_updated_at := now\<rparr>) (od_clients d)\<rparr>"

text \<open>The rows of the other tables that reference the client go with it.\<close>

definition client_delete :: "uuid \<Rightarrow> 'r oauth_db \<Rightarrow> 'r oauth_db" where
  "client_delete i d =
     d\<lparr>od_clients := sql_delete (\<lambda>c. oc_id c = i) (od_clients d),
       od_codes := sql_delete (\<lambda>c. ac_client_id c = i) (od_codes d),
       od_access := sql_delete (\<lambda>t. at_client_id t = i) (od_access d),
       od_refresh := sql_delete (\<lambda>t. rt_client_id t = i) (od_refresh d)\<rparr>"


section \<open>Authorization codes\<close>

definition code_find_by_hash :: "string \<Rightarrow> 'r oauth_db \<Rightarrow> OAuthAuthorizationCode option" where
  "code_find_by_hash h d = find (\<lambda>c. ac_code_hash c = h) (od_codes d)"

definition code_row :: "uuid \<Rightarrow> timestamp \<Rightarrow> CreateOAuthAuthorizationCode \<Rightarrow> OAuthAuthorizationCode" where
  "code_row fresh now data = \<lparr>
     ac_id = fresh, ac_code_hash = cac_code_hash data, ac_client_id = cac_client_id data,
     ac_user_id = cac_user_id data, ac_redirect_uri = cac_redirect_uri data,
     ac_scopes = json_strings (cac_scopes data), ac_code_challenge = cac_code_challenge data,
     ac_code_challenge_method = cac_code_challenge_method data, ac_expires_at = cac_expires_at data,
     ac_used_at = None, ac_created_at = now \<rparr>"

definition code_clash :: "OAuthAuthorizationCode \<Rightarrow> OAuthAuthorizationCode \<Rightarrow> bool" where
  "code_clash c c' \<longleftrightarrow> ac_id c = ac_id c' \<or> ac_code_hash c = ac_code_hash c'"

definition code_create ::
  "uuid \<Rightarrow> timestamp \<Rightarrow> CreateOAuthAuthorizationCode \<Rightarrow> 'r oauth_db \<Rightarrow> (OAuthAuthorizationCode \<times> 'r oauth_db) option" where
  "code_create fresh now data d =
     (let c = code_row fresh now data
      in if client_find_by_id (cac_client_id data) d = None then None
         else map_option (\<lambda>t. (c, d\<lparr>od_codes := t\<rparr>)) (sql_insert code_clash c (od_codes d)))"

definition code_mark_as_used :: "timestamp \<Rightarrow> uuid \<Rightarrow> 'r oauth_db \<Rightarrow> 'r oauth_db" where
  "code_mark_as_used now i d =
     d\<lparr>od_codes := sql_update (\<lambda>c. ac_id c = i) (\<lambda>c. c\<lparr>ac_used_at := Some now\<rparr>) (od_codes d)\<rparr>"

definition code_delete_expired :: "timestamp \<Rightarrow> 'r oauth_db \<Rightarrow> nat \<times> 'r oauth_db" where
  "code_delete_expired now d =
     (length (filter (\<lambda>c. ac_expires_at c < now) (od_codes d)),
      d\<lparr>od_codes := sql_delete (\<lambda>c. ac_expires_at c < now) (od_codes d)\<rparr>)"


section \<open>Access tokens\<close>

definition access_find_by_hash :: "string \<Rightarrow> 'r oauth_db \<Rightarrow> OAuthAccessToken option" where
  "access_find_by_hash h d = find (\<lambda>t. at_token_hash t = h) (od_access d)"

text \<open>The join of a token with its client.\<close>

definition token_with_client :: "OAuthAccessToken \<Rightarrow> OAuthClient \<Rightarrow> OAuthAccessTokenWithClient" where
  "token_with_client t c = \<lparr>
     tok_id = at_id t, tok_token_hash = at_token_hash t, tok_client_id = at_client_id t,
     tok_user_id = at_user_id t, tok_scopes = at_scopes t, tok_expires_at = at_expires_at t,
     tok_revoked_at = at_revoked_at t, tok_last_used_at = at_last_used_at t, tok_created_at = at_created_at t,
     tok_oauth_client_id = oc_client_id c, tok_workspace_id = oc_workspace_id c,
     tok_server_id = oc_server_id c, tok_client_is_active = oc_is_active c \<rparr>"

definition access_find_with_client :: "string \<Rightarrow> 'r oauth_db \<Rightarrow> OAuthAccessTokenWithClient option" where
  "access_find_with_client h d =
     (case concat (map (\<lambda>t. map (token_with_client t) (filter (\<lambda>c. oc_id c = at_client_id t) (od_clients d)))
             (filter (\<lambda>t. at_token_hash t = h) (od_access d))) of
        [] \<Rightarrow> None
      | x # _ \<Rightarrow> Some x)"

definition access_row :: "uuid \<Rightarrow> timestamp \<Rightarrow> CreateOAuthAccessToken \<Rightarrow> OAuthAccessToken" where
  "access_row fresh now data = \<lparr>
     at_id = fresh, at_token_hash = cat_token_hash data, at_client_id = cat_client_id data,
     at_user_id = cat_user_id data, at_scopes = json_strings (cat_scopes data),
     at_expires_at = cat_expires_at data, at_revoked_at = None, at_last_used_at = None, at_created_at = now \<rparr>"

definition access_clash :: "OAuthAccessToken \<Rightarrow> OAuthAccessToken \<Rightarrow> bool" where
  "access_clash t t' \<longleftrightarrow> at_id t = at_id t' \<or> at_token_hash t = at_token_hash t'"

definition access_create ::
  "uuid \<Rightarrow> timestamp \<Rightarrow> CreateOAuthAccessToken \<Rightarrow> 'r oauth_db \<Rightarrow> (OAuthAccessToken \<times> 'r oauth_db) option" where
  "access_create fresh now data d =
     (let t = access_row fresh now data
      in if client_find_by_id (cat_client_id data) d = None then None
         else map_option (\<lambda>ts. (t, d\<lparr>od_access := ts\<rparr>)) (sql_insert access_clash t (od_access d)))"

definition access_revoke :: "timestamp \<Rightarrow> uuid \<Rightarrow> 'r oauth_db \<Rightarrow> 'r oauth_db" where
  "access_revoke now i d =
     d\<lparr>od_access := sql_update (\<lambda>t. at_id t = i) (\<lambda>t. t\<lparr>at_revoked_at := Some now\<rparr>) (od_access d)\<rparr>"

definition access_revoke_by_client :: "timestamp \<Rightarrow> uuid \<Rightarrow> 'r oauth_db \<Rightarrow> 'r oauth_db" where
  "access_revoke_by_client now client_id d =
     d\<lparr>od_access := sql_update (\<lambda>t. at_client_id t = client_id \<and> at_revoked_at t = None)
         (\<lambda>t. t\<lparr>at_revoked_at := Some now\<rparr>) (od_access d)\<rparr>"

definition access_update_last_used :: "timestamp \<Rightarrow> uuid \<Rightarrow> 'r oauth_db \<Rightarrow> 'r oauth_db" where
  "access_update_last_used now i d =
     d\<lparr>od_access := sql_update (\<lambda>t. at_id t = i) (\<lambda>t. t\<lparr>at_last_used_at := Some now\<rparr>) (od_access d)\<rparr>"

text \<open>A deleted access token is forgotten by the refresh tokens that name it.\<close>

definition access_delete_expired :: "timestamp \<Rightarrow> 'r oauth_db \<Rightarrow> nat \<times> 'r oauth_db" where
  "access_delete_expired now d =
     (let gone = (\<lambda>t. at_expires_at t < now \<and> at_revoked_at t \<noteq> None);
          ids = map at_id (filter gone (od_access d))
      in (length ids,
          d\<lparr>od_access := sql_delete gone (od_access d),
            od_refresh := sql_update (\<lambda>r. \<exists>i \<in> set ids. rt_access_token_id r = Some i)
              (\<lambda>r. r\<lparr>rt_access_token_id := None\<rparr>) (od_refresh d)\<rparr>))"


section \<open>Refresh tokens\<close>

definition refresh_find_by_hash :: "string \<Rightarrow> 'r oauth_db \<Rightarrow> OAuthRefreshToken option" where
  "refresh_find_by_hash h d = find (\<lambda>t. rt_token_hash t = h) (od_refresh d)"

definition refresh_row :: "uuid \<Rightarrow> timestamp \<Rightarrow> CreateOAuthRefreshToken \<Rightarrow> OAuthRefreshToken" where
  "refresh_row fresh now data = \<lparr>
     rt_id = fresh, rt_token_hash = crt_token_hash data, rt_client_id = crt_client_id data,
     rt_user_id = crt_user_id data, rt_scopes = json_strings (crt_scopes data),
     rt_access_token_id = crt_access_token_id data, rt_expires_at = crt_expires_at data,
     rt_revoked_at = None, rt_created_at = now \<rparr>"

definition refresh_clash :: "OAuthRefreshToken \<Rightarrow> OAuthRefreshToken \<Rightarrow> bool" where
  "refresh_clash t t' \<longleftrightarrow> rt_id t = rt_id t' \<or> rt_token_hash t = rt_token_hash t'"

definition refresh_create ::
  "uuid \<Rightarrow> timestamp \<Rightarrow> CreateOAuthRefreshToken \<Rightarrow> 'r oauth_db \<Rightarrow> (OAuthRefreshToken \<times> 'r oauth_db) option" where
  "refresh_create fresh now data d =
     (let t = refresh_row fresh now data
      in if client_find_by_id (crt_client_id data) d = None \<or>
            (case crt_access_token_id data of None \<Rightarrow> False | Some i \<Rightarrow> i \<notin> at_id ` set (od_access d)) then None
         else map_option (\<lambda>ts. (t, d\<lparr>od_refresh := ts\<rparr>)) (sql_insert refresh_clash t (od_refresh d)))"

definition refresh_revoke :: "timestamp \<Rightarrow> uuid \<Rightarrow> 'r oauth_db \<Rightarrow> 'r oauth_db" where
  "refresh_revoke now i d =
     d\<lparr>od_refresh := sql_update (\<lambda>t. rt_id t = i) (\<lambda>t. t\<lparr>rt_revoked_at := Some now\<rparr>) (od_refresh d)\<rparr>"

definition refresh_revoke_by_client :: "timestamp \<Rightarrow> uuid \<Rightarrow> 'r oauth_db \<Rightarrow> 'r oauth_db" where
  "refresh_revoke_by_client now client_id d =
     d\<lparr>od_refresh := sql_update (\<lambda>t. rt_client_id t = client_id \<and> rt_revoked_at t = None)
         (\<lambda>t. t\<lparr>rt_revoked_at := Some now\<rparr>) (od_refresh d)\<rparr>"

definition refresh_delete_expired :: "timestamp \<Rightarrow> 'r oauth_db \<Rightarrow> nat \<times> 'r oauth_db" where
  "refresh_delete_expired now d =
     (length (filter (\<lambda>t. rt_expires_at t < now \<and> rt_revoked_at t \<noteq> None) (od_refresh d)),
      d\<lparr>od_refresh := sql_delete (\<lambda>t. rt_expires_at t < now \<and> rt_revoked_at t \<noteq> None) (od_refresh d)\<rparr>)"

end
