(* ===== verification/Api_Limits.thy ===== *)
theory Api_Limits
  imports Rate_Limit
begin

text \<open>
  The API's request limits (\<^verbatim>\<open>crates/api/src/middleware/rate_limit.rs\<close>): the client address, the
  brute-force lockout with its per-purpose key prefix, the per-address limit of every request and
  that of WebSocket connections. Address parsing and the Redis server are those of the gateway's model.
\<close>

section \<open>The client address\<close>

definition api_xff_ip :: "string \<Rightarrow> string option" where
  "api_xff_ip xff = (let first_ip = ascii_trim (hd (str_split (CHR '','') xff))
                     in if is_valid_ip first_ip then Some first_ip else None)"

definition api_client_ip :: "env \<Rightarrow> headers \<Rightarrow> string \<Rightarrow> string" where
  "api_client_ip env h peer =
     (if \<not> env_true env ''TRUST_PROXY_HEADERS'' then peer
      else
        unwrap_or
          (or_else (header_ip h ''fly-client-ip'')
          (or_else (header_ip h ''cf-connecting-ip'')
          (or_else (header_ip h ''x-real-ip'')
                   (Option.bind (hdr_str h ''x-forwarded-for'') api_xff_ip))))
          peer)"


section \<open>Counters\<close>

text \<open>
  The script shared by the limits: count, and start the window at the first. A command error aborts
  it. \<open>None\<close> also when the server is unreachable, and the store is then unchanged.
\<close>

definition count_script :: "'s redis_ops \<Rightarrow> string \<Rightarrow> nat \<Rightarrow> 's \<Rightarrow> (int \<times> 's) option" where
  "count_script R key window s =
     (if r_up R s then
        (case r_incr R s key of
           None \<Rightarrow> None
         | Some (current, s1) \<Rightarrow> Some (current, if current = 1 then r_expire R s1 key window else s1))
      else None)"

record RateLimitConfig =
  rlc_max_requests :: int
  rlc_window_secs :: nat
  rlc_key_prefix :: string
  rlc_burst_limit :: int

definition RateLimitConfig_default :: "env \<Rightarrow> RateLimitConfig" where
  "RateLimitConfig_default env = \<lparr>
     rlc_max_requests = unwrap_or (Option.bind (env ''RATE_LIMIT_MAX_REQUESTS'') (parse_signed 64)) 1000,
     rlc_window_secs = unwrap_or (Option.bind (env ''RATE_LIMIT_WINDOW_SECS'') (parse_unsigned 64)) 60,
     rlc_key_prefix = ''rate_limit:'',
     rlc_burst_limit = unwrap_or (Option.bind (env ''RATE_LIMIT_BURST'') (parse_signed 64)) 100 \<rparr>"

definition get_plan_rate_limits :: "string \<Rightarrow> int \<times> int" where
  "get_plan_rate_limits plan =
     (if plan = ''enterprise'' then (100000, 10000)
      else if plan = ''team'' then (10000, 1000)
      else if plan = ''pro'' then (5000, 500)
      else (1000, 100))"

record api_response =
  rsp_status :: nat
  rsp_headers :: headers
  rsp_body :: string

definition rate_limit_middleware ::
  "'s redis_ops \<Rightarrow> env \<Rightarrow> headers \<Rightarrow> string \<Rightarrow> ('s \<Rightarrow> api_response \<times> 's) \<Rightarrow> 's \<Rightarrow> api_response \<times> 's" where
  "rate_limit_middleware R env h peer next s =
     (let config = RateLimitConfig_default env;
          key = rlc_key_prefix config @ api_client_ip env h peer;
          limit = show_int (rlc_max_requests config)
      in case count_script R key (rlc_window_secs config) s of
           None \<Rightarrow> next s
         | Some (count, s1) \<Rightarrow>
             (if rlc_max_requests config < count then
                (\<lparr>rsp_status = 429,
                  rsp_headers = [(''x-ratelimit-limit'', limit), (''x-ratelimit-remaining'', ''0''),
                                 (''retry-after'', show_nat (rlc_window_secs config))],
                  rsp_body = ''Too many requests. Please try again later.''\<rparr>, s1)
              else
                (case next s1 of (r, s2) \<Rightarrow>
                   (let remaining = max (rlc_max_requests config - count) 0;
                        h1 = hdr_insert (rsp_headers r) ''x-ratelimit-limit'' limit
                    in (r\<lparr>rsp_headers := hdr_insert h1 ''x-ratelimit-remaining'' (show_int remaining)\<rparr>, s2)))))"

definition check_ws_connection_rate_limit :: "'s redis_ops \<Rightarrow> env \<Rightarrow> string \<Rightarrow> 's \<Rightarrow> bool \<times> 's" where
  "check_ws_connection_rate_limit R env ip s =
     (let max_connections = unwrap_or (Option.bind (env ''WS_RATE_LIMIT_MAX_CONNECTIONS'') (parse_signed 64)) 100;
          window_secs = unwrap_or (Option.bind (env ''WS_RATE_LIMIT_WINDOW_SECS'') (parse_unsigned 64)) 60
      in case count_script R (''ws_rate_limit:'' @ ip) window_secs s of
           None \<Rightarrow> (True, s)
         | Some (count, s1) \<Rightarrow> (count \<le> max_connections, s1))"


section \<open>Brute-force protection\<close>

definition ApiBruteForce_default :: "env \<Rightarrow> BruteForceConfig" where
  "ApiBruteForce_default env = \<lparr>
     max_attempts = unwrap_or (Option.bind (env ''BRUTE_FORCE_MAX_ATTEMPTS'') (parse_signed 64)) 5,
     lockout_secs = unwrap_or (Option.bind (env ''BRUTE_FORCE_LOCKOUT_SECS'') (parse_unsigned 64)) 900,
     attempt_window_secs = unwrap_or (Option.bind (env ''BRUTE_FORCE_WINDOW_SECS'') (parse_unsigned 64)) 300 \<rparr>"

definition api_attempts_key :: "string \<Rightarrow> string \<Rightarrow> string" where
  "api_attempts_key key_prefix ip = key_prefix @ ''attempts:'' @ ip"

definition api_lockout_key :: "string \<Rightarrow> string \<Rightarrow> string" where
  "api_lockout_key key_prefix ip = key_prefix @ ''lockout:'' @ ip"

definition is_ip_locked_out :: "'s redis_ops \<Rightarrow> 's \<Rightarrow> string \<Rightarrow> string \<Rightarrow> bool" where
  "is_ip_locked_out R s ip key_prefix = (if r_up R s then r_exists R s (api_lockout_key key_prefix ip) else False)"

definition record_failed_attempt :: "'s redis_ops \<Rightarrow> env \<Rightarrow> 's \<Rightarrow> string \<Rightarrow> string \<Rightarrow> 's" where
  "record_failed_attempt R env s ip key_prefix =
     (if r_up R s
      then (case failed_attempt_script R (ApiBruteForce_default env) (api_attempts_key key_prefix ip)
                   (api_lockout_key key_prefix ip) s of
              Some (_, s') \<Rightarrow> s' | None \<Rightarrow> s)
      else s)"

definition clear_failed_attempts :: "'s redis_ops \<Rightarrow> 's \<Rightarrow> string \<Rightarrow> string \<Rightarrow> 's" where
  "clear_failed_attempts R s ip key_prefix = (if r_up R s then r_del R s (api_attempts_key key_prefix ip) else s)"

definition get_lockout_remaining :: "'s redis_ops \<Rightarrow> 's \<Rightarrow> string \<Rightarrow> string \<Rightarrow> int option" where
  "get_lockout_remaining R s ip key_prefix =
     (if r_up R s then (let t = r_ttl R s (api_lockout_key key_prefix ip) in if 0 < t then Some t else None) else None)"


section \<open>Who chooses the address\<close>

text \<open>
  Behind a proxy that appends to \<^verbatim>\<open>X-Forwarded-For\<close> and sets no header of its own, the client's
  address is whatever the client wrote first in that header.
\<close>

lemma client_chooses_ip:
  assumes "env_true env ''TRUST_PROXY_HEADERS''" and "is_valid_ip ip" and "ascii_trim ip = ip" and "CHR '','' \<notin> set ip"
    and "hdr_str h ''x-forwarded-for'' = Some (ip @ CHR '','' # rest)"
    and "header_ip h ''fly-client-ip'' = None" and "header_ip h ''cf-connecting-ip'' = None"
    and "header_ip h ''x-real-ip'' = None"
  shows "api_client_ip env h peer = ip"
  using assms by (simp add: api_client_ip_def api_xff_ip_def split_append)

text \<open>Nothing but the command's own key changes.\<close>

context redis_server
begin

lemma count_script_frame:
  assumes "count_script R k w s = Some (n, s')" and "0 < w" and "k' \<noteq> k"
  shows "look s' k' = look s k'"
  using assms incr_frame [of s k] by (auto simp: count_script_def expire_frame split: if_splits option.splits)

end

end
