(* ===== verification/Api_Error.thy ===== *)
theory Api_Error
  imports Rust_Prelude Json
begin

text \<open>
  The errors of the API: the shared error type with its status, code and texts
  (\<^verbatim>\<open>crates/common/src/error.rs\<close>) and the API's \<^verbatim>\<open>AppError\<close> with its conversions
  (\<^verbatim>\<open>crates/api/src/error.rs\<close>). The error values of other crates are carried as their texts.
\<close>

section \<open>The shared error type\<close>

datatype Error =
    Error_Unauthorized | Error_Forbidden | Error_NotFound string | Error_Conflict string
  | Error_Validation string | Error_BadRequest string | Error_RateLimitExceeded
  | Error_ServiceUnavailable string | Error_Internal string | Error_Database string | Error_Redis string
  | Error_Jwt string | Error_ExternalService string | Error_Config string | Error_Io string | Error_Json string

fun Error_display :: "Error \<Rightarrow> string" where
  "Error_display Error_Unauthorized = ''Authentication required''"
| "Error_display Error_Forbidden = ''Permission denied''"
| "Error_display (Error_NotFound s) = s @ '' not found''"
| "Error_display (Error_Conflict s) = ''Conflict: '' @ s"
| "Error_display (Error_Validation s) = ''Validation error: '' @ s"
| "Error_display (Error_BadRequest s) = ''Bad request: '' @ s"
| "Error_display Error_RateLimitExceeded = ''Rate limit exceeded''"
| "Error_display (Error_ServiceUnavailable s) = ''Service unavailable: '' @ s"
| "Error_display (Error_Internal s) = ''Internal server error: '' @ s"
| "Error_display (Error_Database s) = ''Database error: '' @ s"
| "Error_display (Error_Redis s) = ''Redis error: '' @ s"
| "Error_display (Error_Jwt s) = ''JWT error: '' @ s"
| "Error_display (Error_ExternalService s) = ''External service error: '' @ s"
| "Error_display (Error_Config s) = ''Configuration error: '' @ s"
| "Error_display (Error_Io s) = ''IO error: '' @ s"
| "Error_display (Error_Json s) = ''JSON error: '' @ s"

fun Error_status_code :: "Error \<Rightarrow> nat" where
  "Error_status_code Error_Unauthorized = 401"
| "Error_status_code Error_Forbidden = 403"
| "Error_status_code (Error_NotFound _) = 404"
| "Error_status_code (Error_Conflict _) = 409"
| "Error_status_code (Error_Validation _) = 400"
| "Error_status_code (Error_BadRequest _) = 400"
| "Error_status_code Error_RateLimitExceeded = 429"
| "Error_status_code (Error_ServiceUnavailable _) = 503"
| "Error_status_code _ = 500"

fun Error_error_code :: "Error \<Rightarrow> string" where
  "Error_error_code Error_Unauthorized = ''UNAUTHORIZED''"
| "Error_error_code Error_Forbidden = ''FORBIDDEN''"
| "Error_error_code (Error_NotFound _) = ''NOT_FOUND''"
| "Error_error_code (Error_Conflict _) = ''CONFLICT''"
| "Error_error_code (Error_Validation _) = ''VALIDATION_ERROR''"
| "Error_error_code (Error_BadRequest _) = ''BAD_REQUEST''"
| "Error_error_code Error_RateLimitExceeded = ''RATE_LIMIT_EXCEEDED''"
| "Error_error_code (Error_ServiceUnavailable _) = ''SERVICE_UNAVAILABLE''"
| "Error_error_code (Error_Database _) = ''DATABASE_ERROR''"
| "Error_error_code (Error_Redis _) = ''REDIS_ERROR''"
| "Error_error_code (Error_Jwt _) = ''JWT_ERROR''"
| "Error_error_code (Error_ExternalService _) = ''EXTERNAL_SERVICE_ERROR''"
| "Error_error_code (Error_Config _) = ''CONFIG_ERROR''"
| "Error_error_code (Error_Io _) = ''IO_ERROR''"
| "Error_error_code (Error_Json _) = ''JSON_ERROR''"
| "Error_error_code (Error_Internal _) = ''INTERNAL_ERROR''"

fun Error_client_message :: "Error \<Rightarrow> string" where
  "Error_client_message Error_Unauthorized = ''Authentication required''"
| "Error_client_message Error_Forbidden = ''Permission denied''"
| "Error_client_message (Error_NotFound resource) = resource @ '' not found''"
| "Error_client_message (Error_Conflict msg) = msg"
| "Error_client_message (Error_Validation msg) = ''Validation error: '' @ msg"
| "Error_client_message (Error_BadRequest msg) = msg"
| "Error_client_message Error_RateLimitExceeded = ''Rate limit exceeded. Please try again later.''"
| "Error_client_message (Error_ServiceUnavailable _) = ''Service temporarily unavailable''"
| "Error_client_message (Error_Database _) = ''A database error occurred''"
| "Error_client_message (Error_Redis _) = ''A cache error occurred''"
| "Error_client_message (Error_Jwt _) = ''Authentication error''"
| "Error_client_message (Error_ExternalService _) = ''External service error''"
| "Error_client_message (Error_Config _) = ''Configuration error''"
| "Error_client_message (Error_Io _) = ''An I/O error occurred''"
| "Error_client_message (Error_Json _) = ''Invalid JSON format''"
| "Error_client_message (Error_Internal _) = ''An internal error occurred''"

record ErrorBody =
  eb_code :: string
  eb_message :: string
  eb_details :: "json option"

definition ErrorResponse_of :: "Error \<Rightarrow> ErrorBody" where
  "ErrorResponse_of e = \<lparr>eb_code = Error_error_code e, eb_message = Error_client_message e, eb_details = None\<rparr>"


section \<open>The API's errors\<close>

record AppError =
  ae_status :: nat
  ae_code :: string
  ae_message :: string
  ae_details :: "json option"

definition AppError_new :: "nat \<Rightarrow> string \<Rightarrow> string \<Rightarrow> AppError" where
  "AppError_new status code message = \<lparr>ae_status = status, ae_code = code, ae_message = message, ae_details = None\<rparr>"

definition with_details :: "AppError \<Rightarrow> json \<Rightarrow> AppError" where
  "with_details e details = e\<lparr>ae_details := Some details\<rparr>"

text \<open>The resource is logged only.\<close>

definition app_not_found :: "string \<Rightarrow> AppError" where
  "app_not_found resource = AppError_new 404 ''NOT_FOUND'' ''The requested resource was not found''"

definition app_forbidden :: "string \<Rightarrow> AppError" where
  "app_forbidden message = AppError_new 403 ''FORBIDDEN'' message"

definition app_conflict :: "string \<Rightarrow> string \<Rightarrow> AppError" where
  "app_conflict code message = AppError_new 409 code message"

definition app_bad_request :: "string \<Rightarrow> string \<Rightarrow> AppError" where
  "app_bad_request code message = AppError_new 400 code message"

definition app_internal :: "string \<Rightarrow> AppError" where
  "app_internal message = AppError_new 500 ''INTERNAL_ERROR'' message"

definition app_payment_required :: "string \<Rightarrow> string \<Rightarrow> AppError" where
  "app_payment_required code message = AppError_new 402 code message"

definition AppError_of_sqlx :: "string \<Rightarrow> AppError" where
  "AppError_of_sqlx e = app_internal ''Database error occurred''"

definition AppError_of_anyhow :: "string \<Rightarrow> AppError" where
  "AppError_of_anyhow e = app_internal ''An internal error occurred''"

definition AppError_of_Error :: "Error \<Rightarrow> AppError" where
  "AppError_of_Error e =
     (let code = Error_status_code e
      in AppError_new (if code \<in> {401, 403, 404, 409, 400, 429, 503} then code else 500)
           (Error_error_code e) (Error_display e))"

definition internal_error :: "string \<Rightarrow> string \<Rightarrow> nat \<times> string" where
  "internal_error context_text e = (500, ''An internal error occurred'')"

definition api_db_error :: "string \<Rightarrow> nat \<times> string" where
  "api_db_error e = (500, ''A database error occurred'')"

definition service_error :: "string \<Rightarrow> string \<Rightarrow> nat \<times> string" where
  "service_error service e = (503, service @ '' is temporarily unavailable'')"


text \<open>How a handler ends without an answer of its own: a status with a body, or a panic.\<close>

datatype 'b failure = Reply nat 'b | Panic

definition failed :: "nat \<times> string \<Rightarrow> string failure" where
  "failed e = Reply (fst e) (snd e)"


section \<open>What an answer reveals\<close>

text \<open>The sanitized message never depends on the text of an internal error.\<close>

fun is_internal :: "Error \<Rightarrow> bool" where
  "is_internal Error_Unauthorized = False"
| "is_internal Error_Forbidden = False"
| "is_internal (Error_NotFound _) = False"
| "is_internal (Error_Conflict _) = False"
| "is_internal (Error_Validation _) = False"
| "is_internal (Error_BadRequest _) = False"
| "is_internal Error_RateLimitExceeded = False"
| "is_internal _ = True"

lemma client_message_hides:
  assumes "is_internal e" and "Error_error_code e' = Error_error_code e"
  shows "Error_client_message e' = Error_client_message e"
  using assms by (cases e; cases e') simp_all

text \<open>The conversion to \<^verbatim>\<open>AppError\<close>, which \<^verbatim>\<open>?\<close> applies in the handlers, does not use it: a database error's text is sent.\<close>

lemma database_error_sent: "ae_message (AppError_of_Error (Error_Database text_of_error)) = ''Database error: '' @ text_of_error"
  by (simp add: AppError_of_Error_def AppError_new_def Let_def)

end
