(* ===== verification/OAuth_Server.thy ===== *)
theory OAuth_Server
  imports OAuth_Store Api_Limits Api_Error
begin

text \<open>
  The OAuth 2.1 authorization server (\<^verbatim>\<open>crates/api/src/routes/oauth.rs\<close>): client management by
  workspace members, dynamic registration, the consent redirect, the issue of authorization codes and
  the token endpoint. Each handler is a program over the OAuth store. Its clock and random draws are
  the record \<open>draw\<close>; hashing, URL parsing, URL encoding and date arithmetic come from other crates and are
  the record \<open>oauth_env\<close>. The error branch of a handler is a status with its body, or a panic of \<^verbatim>\<open>chrono\<close>'s
  date arithmetic.
\<close>

section \<open>Environment\<close>

record 'r oauth_env =
  oe_hash :: "string \<Rightarrow> string"
  oe_challenge :: "string \<Rightarrow> string"
  oe_add :: "timestamp \<Rightarrow> int \<Rightarrow> timestamp option"
  oe_url :: "string \<Rightarrow> (string \<times> string option) option"
  oe_encode :: "string \<Rightarrow> string"
  oe_show_uuid :: "uuid \<Rightarrow> string"
  oe_rfc3339 :: "timestamp \<Rightarrow> string"
  oe_redis :: "'r redis_ops"
  oe_vars :: env
  oe_frontend_url :: string
  oe_host_port :: string
  oe_db_error :: string

text \<open>What one request draws: the time, the identifiers of the rows it inserts, a UUID and two tokens.\<close>

record draw =
  dr_now :: timestamp
  dr_row :: uuid
  dr_row2 :: uuid
  dr_uuid :: uuid
  dr_token :: string
  dr_token2 :: string

definition REFRESH_TOKEN_EXPIRES_DAYS :: int where "REFRESH_TOKEN_EXPIRES_DAYS = 30"
definition AUTH_CODE_EXPIRES_MINUTES :: int where "AUTH_CODE_EXPIRES_MINUTES = 10"
definition DEFAULT_ACCESS_TOKEN_TTL_SECONDS :: "64 word" where "DEFAULT_ACCESS_TOKEN_TTL_SECONDS = 30 * 24 * 3600"
definition NO_EXPIRATION_SECONDS :: "64 word" where "NO_EXPIRATION_SECONDS = 100 * 365 * 24 * 3600"

text \<open>The sum panics when the date is out of range.\<close>

definition access_token_expiry :: "'r oauth_env \<Rightarrow> timestamp \<Rightarrow> 64 word option \<Rightarrow> (timestamp \<times> int) option" where
  "access_token_expiry E now ttl_seconds =
     (let secs = sint (unwrap_or ttl_seconds NO_EXPIRATION_SECONDS)
      in map_option (\<lambda>t. (t, secs)) (oe_add E now secs))"

abbreviation server_error :: "'r oauth_env \<Rightarrow> string failure" where
  "server_error E \<equiv> Reply 500 (oe_db_error E)"

definition db_error :: "string failure" where "db_error = Reply 500 ''Database error''"


section \<open>Client management\<close>

record CreateOAuthClientRequest =
  cr_client_name :: string
  cr_redirect_uris :: "string list"
  cr_server_id :: "uuid option"
  cr_scopes :: "string list"
  cr_expires_in_days :: "64 word option"

record OAuthClientResponse =
  ocr_id :: uuid
  ocr_client_id :: string
  ocr_client_secret :: "string option"
  ocr_client_name :: string
  ocr_redirect_uris :: "string list"
  ocr_server_id :: "uuid option"
  ocr_scopes :: "string list"
  ocr_created_at :: string

definition client_response :: "'r oauth_env \<Rightarrow> string option \<Rightarrow> OAuthClient \<Rightarrow> OAuthClientResponse" where
  "client_response E client_secret c = \<lparr>
     ocr_id = oc_id c, ocr_client_id = oc_client_id c, ocr_client_secret = client_secret,
     ocr_client_name = oc_client_name c, ocr_redirect_uris = OAuthClient_redirect_uris c,
     ocr_server_id = oc_server_id c, ocr_scopes = OAuthClient_scopes c,
     ocr_created_at = oe_rfc3339 E (oc_created_at c) \<rparr>"

definition list_clients ::
  "'r oauth_env \<Rightarrow> uuid \<Rightarrow> uuid \<Rightarrow> ('r oauth_db, string failure, OAuthClientResponse list) handler" where
  "list_clients E user_id workspace_id =
     run_or (select (od_get_member workspace_id user_id)) db_error (\<lambda>member.
     require member (Reply 403 ''Not a workspace member'') (\<lambda>_.
     run_or (select (client_list_by_workspace workspace_id)) (server_error E) (\<lambda>clients.
     answer (map (client_response E None) clients))))"

text \<open>The check shared by the handlers that change a client.\<close>

definition require_editor ::
  "uuid \<Rightarrow> uuid \<Rightarrow> ('r oauth_db, string failure, 'a) handler \<Rightarrow> ('r oauth_db, string failure, 'a) handler" where
  "require_editor user_id workspace_id k =
     run_or (select (od_get_member workspace_id user_id)) db_error (\<lambda>member.
     require member (Reply 403 ''Not a workspace member'') (\<lambda>m.
     ensure (WorkspaceMember_role m \<noteq> Role_Viewer) (Reply 403 ''Insufficient permissions'') k))"

definition create_client_data ::
  "'r oauth_env \<Rightarrow> draw \<Rightarrow> uuid \<Rightarrow> CreateOAuthClientRequest \<Rightarrow> CreateOAuthClient" where
  "create_client_data E dr workspace_id body = \<lparr>
     cc_client_id = oe_show_uuid E (dr_uuid dr), cc_client_secret_hash = Some (oe_hash E (dr_token dr)),
     cc_client_name = cr_client_name body, cc_redirect_uris = cr_redirect_uris body,
     cc_grant_types = [''authorization_code'', ''refresh_token''],
     cc_token_endpoint_auth_method = ''client_secret_basic'', cc_workspace_id = Some workspace_id,
     cc_server_id = cr_server_id body, cc_scopes = cr_scopes body, cc_is_dynamic = False,
     cc_software_id = None, cc_software_version = None,
     cc_access_token_ttl_seconds = map_option (\<lambda>d. d * 24 * 3600) (cr_expires_in_days body) \<rparr>"

definition create_client ::
  "'r oauth_env \<Rightarrow> draw \<Rightarrow> uuid \<Rightarrow> uuid \<Rightarrow> CreateOAuthClientRequest \<Rightarrow>
   ('r oauth_db, string failure, OAuthClientResponse) handler" where
  "create_client E dr user_id workspace_id body =
     require_editor user_id workspace_id
     (run_or (client_create (dr_row dr) (dr_now dr) (create_client_data E dr workspace_id body)) (server_error E) (\<lambda>client.
      answer (client_response E (Some (dr_token dr)) client)))"

text \<open>The client of a server, when it belongs to the workspace.\<close>

definition server_client ::
  "'r oauth_env \<Rightarrow> uuid \<Rightarrow> uuid \<Rightarrow> (OAuthClient \<Rightarrow> ('r oauth_db, string failure, 'a) handler) \<Rightarrow>
   ('r oauth_db, string failure, 'a) handler" where
  "server_client E workspace_id server_id k =
     run_or (select (client_find_by_server_id server_id)) (server_error E) (\<lambda>found.
     require found (Reply 404 ''OAuth client not found for this server'') (\<lambda>client.
     ensure (oc_workspace_id client = Some workspace_id) (Reply 404 ''OAuth client not found'')
     (k client)))"

definition get_server_oauth ::
  "'r oauth_env \<Rightarrow> uuid \<Rightarrow> uuid \<Rightarrow> uuid \<Rightarrow> ('r oauth_db, string failure, OAuthClientResponse) handler" where
  "get_server_oauth E user_id workspace_id server_id =
     run_or (select (od_get_member workspace_id user_id)) db_error (\<lambda>member.
     require member (Reply 403 ''Not a workspace member'') (\<lambda>_.
     server_client E workspace_id server_id (\<lambda>client.
     answer (client_response E None client))))"

text \<open>Both revocations are attempted whatever the first one's outcome.\<close>

definition revoke_client_tokens ::
  "timestamp \<Rightarrow> uuid \<Rightarrow> ('r oauth_db, 'e, 'a) handler \<Rightarrow> ('r oauth_db, 'e, 'a) handler" where
  "revoke_client_tokens now client_id k =
     run_sql (change (access_revoke_by_client now client_id)) (\<lambda>_.
     run_sql (change (refresh_revoke_by_client now client_id)) (\<lambda>_. k))"

definition regenerate_server_oauth_secret ::
  "'r oauth_env \<Rightarrow> draw \<Rightarrow> uuid \<Rightarrow> uuid \<Rightarrow> uuid \<Rightarrow> ('r oauth_db, string failure, OAuthClientResponse) handler" where
  "regenerate_server_oauth_secret E dr user_id workspace_id server_id =
     require_editor user_id workspace_id
     (server_client E workspace_id server_id (\<lambda>client.
      run_or (change (client_update_secret (dr_now dr) (oc_id client) (oe_hash E (dr_token dr)))) (server_error E) (\<lambda>_.
      revoke_client_tokens (dr_now dr) (oc_id client)
      (answer (client_response E (Some (dr_token dr)) client)))))"

text \<open>The answer is the status \<^verbatim>\<open>NO_CONTENT\<close>.\<close>

definition delete_client ::
  "'r oauth_env \<Rightarrow> draw \<Rightarrow> uuid \<Rightarrow> uuid \<Rightarrow> uuid \<Rightarrow> ('r oauth_db, string failure, nat) handler" where
  "delete_client E dr user_id workspace_id client_id =
     require_editor user_id workspace_id
     (run_or (select (client_find_by_id client_id)) (server_error E) (\<lambda>found.
      require found (Reply 404 ''Client not found'') (\<lambda>client.
      ensure (oc_workspace_id client = Some workspace_id) (Reply 404 ''Client not found'')
      (revoke_client_tokens (dr_now dr) client_id
       (run_or (change (client_delete client_id)) (server_error E) (\<lambda>_. answer 204))))))"


section \<open>Metadata and dynamic registration\<close>

record AuthorizationServerMetadata =
  asm_issuer :: string
  asm_authorization_endpoint :: string
  asm_token_endpoint :: string
  asm_registration_endpoint :: string
  asm_response_types :: "string list"
  asm_grant_types :: "string list"
  asm_code_challenge_methods :: "string list"
  asm_token_endpoint_auth_methods :: "string list"

definition authorization_server_metadata :: "'r oauth_env \<Rightarrow> AuthorizationServerMetadata" where
  "authorization_server_metadata E =
     (let issuer = unwrap_or (oe_vars E ''API_URL'') (''http://'' @ oe_host_port E)
      in \<lparr> asm_issuer = issuer, asm_authorization_endpoint = issuer @ ''/oauth/authorize'',
           asm_token_endpoint = issuer @ ''/oauth/token'', asm_registration_endpoint = issuer @ ''/oauth/register'',
           asm_response_types = [''code''], asm_grant_types = [''authorization_code'', ''refresh_token''],
           asm_code_challenge_methods = [''S256''],
           asm_token_endpoint_auth_methods = [''client_secret_basic'', ''client_secret_post'', ''none''] \<rparr>)"

record ClientRegistrationRequest =
  rr_redirect_uris :: "string list"
  rr_client_name :: "string option"
  rr_token_endpoint_auth_method :: string
  rr_grant_types :: "string list"
  rr_response_types :: "string list"
  rr_scope :: "string option"
  rr_software_id :: "string option"
  rr_software_version :: "string option"

record ClientRegistrationResponse =
  rp_client_id :: string
  rp_client_secret :: "string option"
  rp_client_id_issued_at :: timestamp
  rp_client_secret_expires_at :: int
  rp_redirect_uris :: "string list"
  rp_client_name :: string
  rp_token_endpoint_auth_method :: string
  rp_grant_types :: "string list"
  rp_response_types :: "string list"
  rp_scope :: "string option"
  rp_software_id :: "string option"
  rp_software_version :: "string option"

text \<open>The two fields of the error bodies.\<close>

record oauth_error =
  err_error :: string
  err_description :: "string option"

definition is_valid_redirect_uri :: "'r oauth_env \<Rightarrow> string \<Rightarrow> bool" where
  "is_valid_redirect_uri E uri =
     (case oe_url E uri of
        None \<Rightarrow> False
      | Some (scheme, host_str) \<Rightarrow>
          (let host = unwrap_or host_str []
           in if host \<in> {''localhost'', ''127.0.0.1'', ''::1''} then True
              else if host \<in> {''claude.ai'', ''claude.com''} \<and> scheme = ''https'' then True
              else scheme = ''https''))"

definition od_count :: "'r oauth_env \<Rightarrow> string \<Rightarrow> nat \<Rightarrow> 'r oauth_db \<Rightarrow> (int \<times> 'r oauth_db) option" where
  "od_count E key window d =
     map_option (\<lambda>(n, s). (n, d\<lparr>od_redis := s\<rparr>)) (count_script (oe_redis E) key window (od_redis d))"

definition register_client_data :: "'r oauth_env \<Rightarrow> draw \<Rightarrow> ClientRegistrationRequest \<Rightarrow> CreateOAuthClient" where
  "register_client_data E dr body = \<lparr>
     cc_client_id = oe_show_uuid E (dr_uuid dr),
     cc_client_secret_hash = (if rr_token_endpoint_auth_method body = ''none'' then None
                              else Some (oe_hash E (dr_token dr))),
     cc_client_name = unwrap_or (rr_client_name body) ''Dynamic Client'',
     cc_redirect_uris = rr_redirect_uris body, cc_grant_types = rr_grant_types body,
     cc_token_endpoint_auth_method = rr_token_endpoint_auth_method body,
     cc_workspace_id = None, cc_server_id = None,
     cc_scopes = unwrap_or (map_option split_whitespace (rr_scope body)) [''*''], cc_is_dynamic = True,
     cc_software_id = rr_software_id body, cc_software_version = rr_software_version body,
     cc_access_token_ttl_seconds = Some DEFAULT_ACCESS_TOKEN_TTL_SECONDS \<rparr>"

definition register_client ::
  "'r oauth_env \<Rightarrow> draw \<Rightarrow> headers \<Rightarrow> string \<Rightarrow> ClientRegistrationRequest \<Rightarrow>
   ('r oauth_db, oauth_error failure, ClientRegistrationResponse) handler" where
  "register_client E dr h peer body =
     run_sql (od_count E (''oauth_register_rate:'' @ api_client_ip (oe_vars E) h peer) 3600) (\<lambda>counted.
     ensure (case counted of Some n \<Rightarrow> n \<le> 10 | None \<Rightarrow> True)
       (Reply 429 \<lparr>err_error = ''rate_limit_exceeded'',
                   err_description = Some ''Too many client registrations. Please try again later.''\<rparr>)
     (ensure (rr_redirect_uris body \<noteq> [])
       (Reply 400 \<lparr>err_error = ''invalid_redirect_uri'',
                   err_description = Some ''At least one redirect_uri is required''\<rparr>)
     (case find (\<lambda>uri. \<not> is_valid_redirect_uri E uri) (rr_redirect_uris body) of
        Some uri \<Rightarrow>
          refuse (Reply 400 \<lparr>err_error = ''invalid_redirect_uri'',
                    err_description = Some (''Invalid redirect_uri: '' @ uri @ ''. Must be HTTPS or localhost.'')\<rparr>)
      | None \<Rightarrow>
          run_or (client_create (dr_row dr) (dr_now dr) (register_client_data E dr body))
            (Reply 500 \<lparr>err_error = ''server_error'', err_description = Some ''Failed to register client''\<rparr>) (\<lambda>created.
          answer \<lparr>
            rp_client_id = oe_show_uuid E (dr_uuid dr),
            rp_client_secret = (if rr_token_endpoint_auth_method body = ''none'' then None else Some (dr_token dr)),
            rp_client_id_issued_at = oc_created_at created, rp_client_secret_expires_at = 0,
            rp_redirect_uris = rr_redirect_uris body,
            rp_client_name = unwrap_or (rr_client_name body) ''Dynamic Client'',
            rp_token_endpoint_auth_method = rr_token_endpoint_auth_method body,
            rp_grant_types = rr_grant_types body, rp_response_types = rr_response_types body,
            rp_scope = rr_scope body, rp_software_id = rr_software_id body,
            rp_software_version = rr_software_version body \<rparr>))))"


section \<open>Authorization\<close>

record AuthorizeRequest =
  ar_response_type :: string
  ar_client_id :: string
  ar_redirect_uri :: string
  ar_state :: "string option"
  ar_code_challenge :: string
  ar_code_challenge_method :: "string option"
  ar_scope :: "string option"

text \<open>The answer is the location of the temporary redirect.\<close>

definition authorize ::
  "'r oauth_env \<Rightarrow> AuthorizeRequest \<Rightarrow> ('r oauth_db, string failure, string) handler" where
  "authorize E params =
     ensure (ar_response_type params = ''code'') (Reply 400 ''unsupported_response_type'')
     (let challenge_method = unwrap_or (ar_code_challenge_method params) ''S256''
      in ensure (challenge_method = ''S256'') (Reply 400 ''Only S256 code_challenge_method is supported'')
     (run_or (select (client_find_by_client_id (ar_client_id params))) (server_error E) (\<lambda>found.
      require found (Reply 400 ''invalid_client'') (\<lambda>client.
      ensure (is_redirect_uri_valid client (ar_redirect_uri params)) (Reply 400 ''invalid_redirect_uri'')
      (answer (oe_frontend_url E @ ''/oauth/consent?response_type='' @ oe_encode E (ar_response_type params)
         @ ''&client_id='' @ oe_encode E (ar_client_id params)
         @ ''&redirect_uri='' @ oe_encode E (ar_redirect_uri params)
         @ ''&code_challenge='' @ oe_encode E (ar_code_challenge params)
         @ ''&code_challenge_method='' @ oe_encode E challenge_method
         @ ''&state='' @ oe_encode E (unwrap_or (ar_state params) [])
         @ ''&scope='' @ oe_encode E (unwrap_or (ar_scope params) [])))))))"

record ClientInfoResponse =
  ci_client_id :: string
  ci_client_name :: string
  ci_scopes :: "string list"

definition client_info :: "'r oauth_env \<Rightarrow> string \<Rightarrow> ('r oauth_db, string failure, ClientInfoResponse) handler" where
  "client_info E client_id =
     run_or (select (client_find_by_client_id client_id)) (server_error E) (\<lambda>found.
     require found (Reply 404 ''invalid_client'') (\<lambda>client.
     answer \<lparr>ci_client_id = oc_client_id client, ci_client_name = oc_client_name client,
             ci_scopes = OAuthClient_scopes client\<rparr>))"

record AuthorizeCodeRequest =
  acr_response_type :: string
  acr_client_id :: string
  acr_redirect_uri :: string
  acr_code_challenge :: string
  acr_code_challenge_method :: string
  acr_scope :: string

text \<open>The first requested scope the client does not have, and the scopes that are granted.\<close>

definition refused_scope :: "string list \<Rightarrow> string list \<Rightarrow> string option" where
  "refused_scope client_scopes requested =
     (if ''*'' \<in> set client_scopes then None
      else find (\<lambda>s. s \<noteq> ''*'' \<and> s \<notin> set client_scopes) requested)"

definition granted_scopes :: "string list \<Rightarrow> string list \<Rightarrow> string list" where
  "granted_scopes client_scopes requested =
     (if ''*'' \<in> set requested \<and> ''*'' \<notin> set client_scopes then client_scopes else requested)"

text \<open>Runs the rest with the date, or panics.\<close>

definition with_date :: "'t option \<Rightarrow> ('t \<Rightarrow> ('d, 'b failure, 'a) handler) \<Rightarrow> ('d, 'b failure, 'a) handler" where
  "with_date t k = require t Panic k"

definition authorize_code ::
  "'r oauth_env \<Rightarrow> draw \<Rightarrow> uuid \<Rightarrow> AuthorizeCodeRequest \<Rightarrow> ('r oauth_db, string failure, string) handler" where
  "authorize_code E dr user_id body =
     ensure (acr_response_type body = ''code'') (Reply 400 ''unsupported_response_type'')
     (ensure (acr_code_challenge_method body = ''S256'') (Reply 400 ''Only S256 code_challenge_method is supported'')
     (run_or (select (client_find_by_client_id (acr_client_id body))) (server_error E) (\<lambda>found.
      require found (Reply 400 ''invalid_client'') (\<lambda>client.
      ensure (is_redirect_uri_valid client (acr_redirect_uri body)) (Reply 400 ''invalid_redirect_uri'')
      (let requested_scopes = split_whitespace (acr_scope body); client_scopes = OAuthClient_scopes client
       in case refused_scope client_scopes requested_scopes of
            Some scope \<Rightarrow> refuse (Reply 400
              (''Scope '' @ [CHR 0x27] @ scope @ [CHR 0x27] @ '' is not authorized for this client''))
          | None \<Rightarrow>
              with_date (oe_add E (dr_now dr) (AUTH_CODE_EXPIRES_MINUTES * 60)) (\<lambda>expires_at.
              run_or (code_create (dr_row dr) (dr_now dr) \<lparr>
                  cac_code_hash = oe_hash E (dr_token dr), cac_client_id = oc_id client, cac_user_id = user_id,
                  cac_redirect_uri = acr_redirect_uri body,
                  cac_scopes = granted_scopes client_scopes requested_scopes,
                  cac_code_challenge = acr_code_challenge body,
                  cac_code_challenge_method = acr_code_challenge_method body, cac_expires_at = expires_at \<rparr>)
                (server_error E) (\<lambda>_.
              answer (dr_token dr))))))))"


section \<open>The token endpoint\<close>

record TokenRequest =
  tr_grant_type :: string
  tr_code :: "string option"
  tr_redirect_uri :: "string option"
  tr_code_verifier :: "string option"
  tr_refresh_token :: "string option"
  tr_client_id :: "string option"
  tr_client_secret :: "string option"

record TokenResponse =
  tk_access_token :: string
  tk_token_type :: string
  tk_expires_in :: int
  tk_refresh_token :: "string option"
  tk_scope :: string

definition token_error :: "string \<Rightarrow> string \<Rightarrow> oauth_error failure" where
  "token_error e desc = Reply 400 \<lparr>err_error = e, err_description = Some desc\<rparr>"

definition token_server_error :: "oauth_error failure" where
  "token_server_error = Reply 500 \<lparr>err_error = ''server_error'', err_description = None\<rparr>"

text \<open>\<^verbatim>\<open>[String]::join(" ")\<close>\<close>

fun join_space :: "string list \<Rightarrow> string" where
  "join_space [] = []"
| "join_space [s] = s"
| "join_space (s # ss) = s @ CHR '' '' # join_space ss"

text \<open>The lifetime configured for the client; a client that cannot be read counts as one with the default.\<close>

definition client_ttl :: "OAuthClient option option \<Rightarrow> 64 word option" where
  "client_ttl found =
     unwrap_or (map_option oc_access_token_ttl_seconds (Option.bind found id)) (Some DEFAULT_ACCESS_TOKEN_TTL_SECONDS)"

definition new_access_token ::
  "'r oauth_env \<Rightarrow> draw \<Rightarrow> uuid \<Rightarrow> uuid \<Rightarrow> string list \<Rightarrow>
   (OAuthAccessToken \<Rightarrow> int \<Rightarrow> ('r oauth_db, oauth_error failure, 'a) handler) \<Rightarrow>
   ('r oauth_db, oauth_error failure, 'a) handler" where
  "new_access_token E dr client_id user_id scopes k =
     run_sql (select (client_find_by_id client_id)) (\<lambda>found.
     with_date (access_token_expiry E (dr_now dr) (client_ttl found)) (\<lambda>(access_expires_at, access_expires_in).
     run_or (access_create (dr_row dr) (dr_now dr) \<lparr>
         cat_token_hash = oe_hash E (dr_token dr), cat_client_id = client_id, cat_user_id = user_id,
         cat_scopes = scopes, cat_expires_at = access_expires_at \<rparr>) token_server_error (\<lambda>created.
     k created access_expires_in)))"

definition exchange_code ::
  "'r oauth_env \<Rightarrow> draw \<Rightarrow> TokenRequest \<Rightarrow> ('r oauth_db, oauth_error failure, TokenResponse) handler" where
  "exchange_code E dr body =
     require (tr_code body) (token_error ''invalid_request'' ''code is required'') (\<lambda>code.
     require (tr_code_verifier body) (token_error ''invalid_request'' ''code_verifier is required'') (\<lambda>code_verifier.
     require (tr_redirect_uri body) (token_error ''invalid_request'' ''redirect_uri is required'') (\<lambda>redirect_uri.
     run_or (select (code_find_by_hash (oe_hash E code))) token_server_error (\<lambda>found.
     require found (token_error ''invalid_grant'' ''Invalid or expired authorization code'') (\<lambda>auth_code.
     ensure (\<not> (AuthCode_is_expired (dr_now dr) auth_code \<or> AuthCode_is_used auth_code))
       (token_error ''invalid_grant'' ''Authorization code has expired or been used'')
     (ensure (ac_redirect_uri auth_code = redirect_uri) (token_error ''invalid_grant'' ''redirect_uri does not match'')
     (ensure (oe_challenge E code_verifier = ac_code_challenge auth_code)
       (token_error ''invalid_grant'' ''Invalid code_verifier'')
     (run_sql (change (code_mark_as_used (dr_now dr) (ac_id auth_code))) (\<lambda>_.
      new_access_token E dr (ac_client_id auth_code) (ac_user_id auth_code) (AuthCode_scopes auth_code)
        (\<lambda>created_access_token access_expires_in.
      with_date (oe_add E (dr_now dr) (REFRESH_TOKEN_EXPIRES_DAYS * 86400)) (\<lambda>refresh_expires_at.
      run_or (refresh_create (dr_row2 dr) (dr_now dr) \<lparr>
          crt_token_hash = oe_hash E (dr_token2 dr), crt_client_id = ac_client_id auth_code,
          crt_user_id = ac_user_id auth_code, crt_scopes = AuthCode_scopes auth_code,
          crt_access_token_id = Some (at_id created_access_token), crt_expires_at = refresh_expires_at \<rparr>)
        token_server_error (\<lambda>_.
      answer \<lparr>tk_access_token = dr_token dr, tk_token_type = ''Bearer'', tk_expires_in = access_expires_in,
              tk_refresh_token = Some (dr_token2 dr), tk_scope = join_space (AuthCode_scopes auth_code)\<rparr>))))))))))))"

definition refresh_access_token ::
  "'r oauth_env \<Rightarrow> draw \<Rightarrow> TokenRequest \<Rightarrow> ('r oauth_db, oauth_error failure, TokenResponse) handler" where
  "refresh_access_token E dr body =
     require (tr_refresh_token body) (token_error ''invalid_request'' ''refresh_token is required'') (\<lambda>refresh_token.
     run_or (select (refresh_find_by_hash (oe_hash E refresh_token))) token_server_error (\<lambda>found.
     require found (token_error ''invalid_grant'' ''Invalid refresh token'') (\<lambda>stored_token.
     ensure (RefreshToken_is_valid (dr_now dr) stored_token)
       (token_error ''invalid_grant'' ''Refresh token has expired or been revoked'')
     (let rest = new_access_token E dr (rt_client_id stored_token) (rt_user_id stored_token)
                   (RefreshToken_scopes stored_token) (\<lambda>_ access_expires_in.
            answer \<lparr>tk_access_token = dr_token dr, tk_token_type = ''Bearer'', tk_expires_in = access_expires_in,
                    tk_refresh_token = None, tk_scope = join_space (RefreshToken_scopes stored_token)\<rparr>)
      in case rt_access_token_id stored_token of
           Some access_token_id \<Rightarrow> run_sql (change (access_revoke (dr_now dr) access_token_id)) (\<lambda>_. rest)
         | None \<Rightarrow> rest))))"

definition token ::
  "'r oauth_env \<Rightarrow> draw \<Rightarrow> TokenRequest \<Rightarrow> ('r oauth_db, oauth_error failure, TokenResponse) handler" where
  "token E dr body =
     (if tr_grant_type body = ''authorization_code'' then exchange_code E dr body
      else if tr_grant_type body = ''refresh_token'' then refresh_access_token E dr body
      else refuse (token_error ''unsupported_grant_type'' ''Only authorization_code and refresh_token are supported''))"

end
