(* ===== verification/OAuth_Service.thy ===== *)
theory OAuth_Service
  imports OAuth_Server Proxy_Auth
begin

text \<open>
  The authorization server as a service: every request of \<^verbatim>\<open>crates/api/src/routes/oauth.rs\<close>, and what
  other parts of the system do to the same tables, as the programs of one \<open>serves\<close> relation, in which
  requests interleave statement by statement and statements fail. What the tables hold is traced back
  to the requests that were made.
\<close>

section \<open>Requests\<close>

text \<open>
  Besides the endpoints: the gateway touching a token it accepted, the clean-up of expired rows, the
  deletion of a client with its workspace or server, and any change of the workspaces.
\<close>

datatype oauth_request =
    Rq_List uuid uuid
  | Rq_Create draw uuid uuid CreateOAuthClientRequest
  | Rq_Get_Server uuid uuid uuid
  | Rq_Regenerate draw uuid uuid uuid
  | Rq_Delete draw uuid uuid uuid
  | Rq_Register draw headers string ClientRegistrationRequest
  | Rq_Authorize AuthorizeRequest
  | Rq_Client_Info string
  | Rq_Authorize_Code draw uuid AuthorizeCodeRequest
  | Rq_Token draw TokenRequest
  | Rq_Touch timestamp uuid
  | Rq_Clean timestamp
  | Rq_Cascade uuid
  | Rq_Workspaces workspace_db

datatype oauth_reply =
    Rp_Clients "string failure + OAuthClientResponse list"
  | Rp_Client "string failure + OAuthClientResponse"
  | Rp_Status "string failure + nat"
  | Rp_Registered "oauth_error failure + ClientRegistrationResponse"
  | Rp_Location "string failure + string"
  | Rp_Info "string failure + ClientInfoResponse"
  | Rp_Code "string failure + string"
  | Rp_Token "oauth_error failure + TokenResponse"
  | Rp_Done "unit + unit"

definition clean_expired :: "timestamp \<Rightarrow> ('r oauth_db, unit, unit) handler" where
  "clean_expired now =
     run_or (\<lambda>d. Some (code_delete_expired now d)) () (\<lambda>_.
     run_or (\<lambda>d. Some (access_delete_expired now d)) () (\<lambda>_.
     run_or (\<lambda>d. Some (refresh_delete_expired now d)) () (\<lambda>_. answer ())))"

fun oauth_handle :: "'r oauth_env \<Rightarrow> oauth_request \<Rightarrow> ('r oauth_db, oauth_reply) prog" where
  "oauth_handle E (Rq_List u w) = map_prog Rp_Clients (list_clients E u w)"
| "oauth_handle E (Rq_Create dr u w body) = map_prog Rp_Client (create_client E dr u w body)"
| "oauth_handle E (Rq_Get_Server u w s) = map_prog Rp_Client (get_server_oauth E u w s)"
| "oauth_handle E (Rq_Regenerate dr u w s) = map_prog Rp_Client (regenerate_server_oauth_secret E dr u w s)"
| "oauth_handle E (Rq_Delete dr u w i) = map_prog Rp_Status (delete_client E dr u w i)"
| "oauth_handle E (Rq_Register dr h peer body) = map_prog Rp_Registered (register_client E dr h peer body)"
| "oauth_handle E (Rq_Authorize params) = map_prog Rp_Location (authorize E params)"
| "oauth_handle E (Rq_Client_Info c) = map_prog Rp_Info (client_info E c)"
| "oauth_handle E (Rq_Authorize_Code dr u body) = map_prog Rp_Code (authorize_code E dr u body)"
| "oauth_handle E (Rq_Token dr body) = map_prog Rp_Token (token E dr body)"
| "oauth_handle E (Rq_Touch now i) = map_prog Rp_Done (run_or (change (access_update_last_used now i)) () answer)"
| "oauth_handle E (Rq_Clean now) = map_prog Rp_Done (clean_expired now)"
| "oauth_handle E (Rq_Cascade i) = map_prog Rp_Done (run_or (change (client_delete i)) () answer)"
| "oauth_handle E (Rq_Workspaces w) = map_prog Rp_Done (run_or (change (\<lambda>d. d\<lparr>od_workspaces := w\<rparr>)) () answer)"


section \<open>Where a grant comes from\<close>

text \<open>A client row's identifier and what its registration asked for.\<close>

definition registered :: "'r oauth_env \<Rightarrow> oauth_request set \<Rightarrow> uuid \<Rightarrow> CreateOAuthClient \<Rightarrow> bool" where
  "registered E Qs i data \<longleftrightarrow>
     (\<exists>dr u w body. Rq_Create dr u w body \<in> Qs \<and> dr_row dr = i \<and> data = create_client_data E dr w body) \<or>
     (\<exists>dr h p body. Rq_Register dr h p body \<in> Qs \<and> dr_row dr = i \<and> data = register_client_data E dr body)"

text \<open>The user's consent: a request for a code for this client, to an address and within the scopes it registered.\<close>

definition consented ::
  "'r oauth_env \<Rightarrow> oauth_request set \<Rightarrow> draw \<Rightarrow> AuthorizeCodeRequest \<Rightarrow> uuid \<Rightarrow> uuid \<Rightarrow> string list \<Rightarrow> bool" where
  "consented E Qs dr body i u scopes \<longleftrightarrow>
     Rq_Authorize_Code dr u body \<in> Qs \<and>
     (\<exists>data. registered E Qs i data \<and> cc_client_id data = acr_client_id body \<and>
        acr_redirect_uri body \<in> set (cc_redirect_uris data) \<and>
        refused_scope (cc_scopes data) (split_whitespace (acr_scope body)) = None \<and>
        scopes = granted_scopes (cc_scopes data) (split_whitespace (acr_scope body)))"

text \<open>A token request that presented the code of such a consent with its redirect address and verifier.\<close>

definition exchanged ::
  "'r oauth_env \<Rightarrow> oauth_request set \<Rightarrow> draw \<Rightarrow> TokenRequest \<Rightarrow> uuid \<Rightarrow> uuid \<Rightarrow> string list \<Rightarrow> bool" where
  "exchanged E Qs dr tr i u scopes \<longleftrightarrow>
     Rq_Token dr tr \<in> Qs \<and> tr_grant_type tr = ''authorization_code'' \<and>
     (\<exists>dr0 body code v. consented E Qs dr0 body i u scopes \<and>
        tr_code tr = Some code \<and> oe_hash E code = oe_hash E (dr_token dr0) \<and>
        tr_redirect_uri tr = Some (acr_redirect_uri body) \<and>
        tr_code_verifier tr = Some v \<and> oe_challenge E v = acr_code_challenge body)"

text \<open>A token request that presented the refresh token of such an exchange.\<close>

definition refreshed ::
  "'r oauth_env \<Rightarrow> oauth_request set \<Rightarrow> draw \<Rightarrow> TokenRequest \<Rightarrow> uuid \<Rightarrow> uuid \<Rightarrow> string list \<Rightarrow> bool" where
  "refreshed E Qs dr tr i u scopes \<longleftrightarrow>
     Rq_Token dr tr \<in> Qs \<and> tr_grant_type tr = ''refresh_token'' \<and>
     (\<exists>dr0 tr0 rt. exchanged E Qs dr0 tr0 i u scopes \<and>
        tr_refresh_token tr = Some rt \<and> oe_hash E rt = oe_hash E (dr_token2 dr0))"

definition client_traced :: "'r oauth_env \<Rightarrow> oauth_request set \<Rightarrow> OAuthClient \<Rightarrow> bool" where
  "client_traced E Qs c \<longleftrightarrow> (\<exists>data. registered E Qs (oc_id c) data \<and> oc_client_id c = cc_client_id data \<and>
     OAuthClient_redirect_uris c = cc_redirect_uris data \<and> OAuthClient_scopes c = cc_scopes data)"

definition code_traced :: "'r oauth_env \<Rightarrow> oauth_request set \<Rightarrow> OAuthAuthorizationCode \<Rightarrow> bool" where
  "code_traced E Qs c \<longleftrightarrow> (\<exists>dr body. consented E Qs dr body (ac_client_id c) (ac_user_id c) (AuthCode_scopes c) \<and>
     ac_code_hash c = oe_hash E (dr_token dr) \<and> ac_redirect_uri c = acr_redirect_uri body \<and>
     ac_code_challenge c = acr_code_challenge body)"

definition access_traced :: "'r oauth_env \<Rightarrow> oauth_request set \<Rightarrow> OAuthAccessToken \<Rightarrow> bool" where
  "access_traced E Qs t \<longleftrightarrow> (\<exists>dr tr.
     (exchanged E Qs dr tr (at_client_id t) (at_user_id t) (strings_or_default (at_scopes t)) \<or>
      refreshed E Qs dr tr (at_client_id t) (at_user_id t) (strings_or_default (at_scopes t))) \<and>
     at_token_hash t = oe_hash E (dr_token dr))"

definition refresh_traced :: "'r oauth_env \<Rightarrow> oauth_request set \<Rightarrow> OAuthRefreshToken \<Rightarrow> bool" where
  "refresh_traced E Qs t \<longleftrightarrow> (\<exists>dr tr.
     exchanged E Qs dr tr (rt_client_id t) (rt_user_id t) (RefreshToken_scopes t) \<and>
     rt_token_hash t = oe_hash E (dr_token2 dr))"

definition traced :: "'r oauth_env \<Rightarrow> oauth_request set \<Rightarrow> 'r oauth_db \<Rightarrow> bool" where
  "traced E Qs d \<longleftrightarrow>
     (\<forall>c \<in> set (od_clients d). client_traced E Qs c) \<and> (\<forall>c \<in> set (od_codes d). code_traced E Qs c) \<and>
     (\<forall>t \<in> set (od_access d). access_traced E Qs t) \<and> (\<forall>t \<in> set (od_refresh d). refresh_traced E Qs t)"

text \<open>Statements that insert nothing keep the trace: they delete rows or change fields no trace mentions.\<close>

lemma traced_simps:
  "access_traced E Qs (t\<lparr>at_revoked_at := x\<rparr>) = access_traced E Qs t"
  "access_traced E Qs (t\<lparr>at_last_used_at := x\<rparr>) = access_traced E Qs t"
  "refresh_traced E Qs (r\<lparr>rt_revoked_at := x\<rparr>) = refresh_traced E Qs r"
  "refresh_traced E Qs (r\<lparr>rt_access_token_id := y\<rparr>) = refresh_traced E Qs r"
  "code_traced E Qs (c\<lparr>ac_used_at := x\<rparr>) = code_traced E Qs c"
  "client_traced E Qs (cl\<lparr>oc_client_secret_hash := s, oc_updated_at := n\<rparr>) = client_traced E Qs cl"
  by (simp_all add: access_traced_def refresh_traced_def code_traced_def client_traced_def
      RefreshToken_scopes_def AuthCode_scopes_def OAuthClient_scopes_def OAuthClient_redirect_uris_def)

lemma all_sql_update: "(\<And>r. P (f r) = P r) \<Longrightarrow> (\<forall>r \<in> set (sql_update S f t). P r) = (\<forall>r \<in> set t. P r)"
  by (induction t) (auto simp: sql_update_def)

lemma traced_statements:
  assumes "traced E Qs d"
  shows "traced E Qs (client_update_secret now i h d)" and "traced E Qs (client_delete i d)"
    and "traced E Qs (code_mark_as_used now i d)" and "traced E Qs (access_revoke now i d)"
    and "traced E Qs (access_revoke_by_client now i d)" and "traced E Qs (refresh_revoke_by_client now i d)"
    and "traced E Qs (access_update_last_used now i d)" and "traced E Qs (d\<lparr>od_workspaces := w\<rparr>)"
    and "traced E Qs (d\<lparr>od_redis := r\<rparr>)" and "traced E Qs (snd (code_delete_expired now d))"
    and "traced E Qs (snd (access_delete_expired now d))" and "traced E Qs (snd (refresh_delete_expired now d))"
  using assms
  by (simp_all add: traced_def client_update_secret_def client_delete_def code_mark_as_used_def access_revoke_def
      access_revoke_by_client_def refresh_revoke_by_client_def access_update_last_used_def code_delete_expired_def
      access_delete_expired_def refresh_delete_expired_def Let_def all_sql_update traced_simps)

text \<open>The four insertions.\<close>

lemma traced_client_create:
  assumes "traced E Qs d" and "registered E Qs i data" and "client_create i now data d = Some (c, d')"
  shows "traced E Qs d'"
proof -
  have "client_traced E Qs (client_row i now data)"
    unfolding client_traced_def using assms(2)
    by (intro exI [of _ data]) (simp add: client_row_def OAuthClient_scopes_def OAuthClient_redirect_uris_def)
  then show ?thesis using assms(1,3) by (auto simp: traced_def client_create_def Let_def sql_insert_Some)
qed

lemma traced_code_create:
  assumes "traced E Qs d" and "code_create i now data d = Some (c, d')"
    and "consented E Qs dr body (cac_client_id data) (cac_user_id data) (cac_scopes data)"
    and "cac_code_hash data = oe_hash E (dr_token dr)" and "cac_redirect_uri data = acr_redirect_uri body"
    and "cac_code_challenge data = acr_code_challenge body"
  shows "traced E Qs d'"
proof -
  have "code_traced E Qs (code_row i now data)"
    unfolding code_traced_def using assms(3-6) by (intro exI [of _ dr] exI [of _ body]) (simp add: code_row_def AuthCode_scopes_def)
  then show ?thesis using assms(1,2)
    by (auto simp: traced_def code_create_def Let_def sql_insert_Some split: if_splits)
qed

lemma traced_access_create:
  assumes "traced E Qs d" and "access_create i now data d = Some (t, d')"
    and "exchanged E Qs dr tr (cat_client_id data) (cat_user_id data) (cat_scopes data) \<or>
      refreshed E Qs dr tr (cat_client_id data) (cat_user_id data) (cat_scopes data)"
    and "cat_token_hash data = oe_hash E (dr_token dr)"
  shows "traced E Qs d'"
proof -
  have "access_traced E Qs (access_row i now data)"
    unfolding access_traced_def using assms(3,4) by (intro exI [of _ dr] exI [of _ tr]) (simp add: access_row_def)
  then show ?thesis using assms(1,2)
    by (auto simp: traced_def access_create_def Let_def sql_insert_Some split: if_splits)
qed

lemma traced_refresh_create:
  assumes "traced E Qs d" and "refresh_create i now data d = Some (t, d')"
    and "exchanged E Qs dr tr (crt_client_id data) (crt_user_id data) (crt_scopes data)"
    and "crt_token_hash data = oe_hash E (dr_token2 dr)"
  shows "traced E Qs d'"
proof -
  have "refresh_traced E Qs (refresh_row i now data)"
    unfolding refresh_traced_def using assms(3,4)
    by (intro exI [of _ dr] exI [of _ tr]) (simp add: refresh_row_def RefreshToken_scopes_def)
  then show ?thesis using assms(1,2)
    by (auto simp: traced_def refresh_create_def Let_def sql_insert_Some split: if_splits)
qed


section \<open>Every handler keeps the trace\<close>

abbreviation keeps_trace ::
  "'r oauth_env \<Rightarrow> oauth_request set \<Rightarrow> ('r oauth_db, 'a) prog \<Rightarrow> bool" where
  "keeps_trace E Qs p \<equiv> keeps (traced E Qs) p (\<lambda>_ _. True)"

lemma keeps_require_editor: "keeps_trace E Qs k \<Longrightarrow> keeps_trace E Qs (require_editor u w k)"
  unfolding require_editor_def by (intro keeps_rules TrueI)

lemma keeps_server_client: "(\<And>c. keeps_trace E Qs (k c)) \<Longrightarrow> keeps_trace E Qs (server_client E w s k)"
  unfolding server_client_def by (intro keeps_rules TrueI)

lemma keeps_revoke_client: "keeps_trace E Qs k \<Longrightarrow> keeps_trace E Qs (revoke_client_tokens now c k)"
  unfolding revoke_client_tokens_def by (intro keeps_rules TrueI traced_statements)

lemma keeps_trace_readers:
  "keeps_trace E Qs (list_clients E u w)" "keeps_trace E Qs (get_server_oauth E u w s)"
  "keeps_trace E Qs (authorize E params)" "keeps_trace E Qs (client_info E c)"
  unfolding list_clients_def get_server_oauth_def authorize_def client_info_def Let_def
  by (intro keeps_rules keeps_server_client TrueI)+

lemma keeps_trace_editors:
  "keeps_trace E Qs (regenerate_server_oauth_secret E dr u w s)" "keeps_trace E Qs (delete_client E dr u w i)"
  unfolding regenerate_server_oauth_secret_def delete_client_def
  by (intro keeps_rules keeps_require_editor keeps_server_client keeps_revoke_client traced_statements TrueI; assumption)+

lemma keeps_trace_housekeeping:
  "keeps_trace E Qs (run_or (change (access_update_last_used now i)) () answer)"
  "keeps_trace E Qs (run_or (change (client_delete i)) () answer)"
  "keeps_trace E Qs (run_or (change (\<lambda>d. d\<lparr>od_workspaces := w\<rparr>)) () answer)"
  "keeps_trace E Qs (clean_expired now)"
proof -
  show "keeps_trace E Qs (clean_expired now)"
    unfolding clean_expired_def
    by (intro keeps_run_or keeps_answer conjI TrueI; simp; metis traced_statements(10-12) snd_conv)
qed (intro keeps_rules traced_statements TrueI; assumption)+

text \<open>The insertions, as steps of a program.\<close>

lemma keeps_client_create:
  "registered E Qs i data \<Longrightarrow> (\<And>c. keeps_trace E Qs (k c)) \<Longrightarrow> keeps_trace E Qs (run_or (client_create i now data) e k)"
  by (intro keeps_run_or conjI TrueI) (auto elim: traced_client_create)

lemma keeps_trace_create:
  assumes "Rq_Create dr u w body \<in> Qs"
  shows "keeps_trace E Qs (create_client E dr u w body)"
proof -
  have "registered E Qs (dr_row dr) (create_client_data E dr w body)" using assms by (auto simp: registered_def)
  then show ?thesis unfolding create_client_def
    by (intro keeps_require_editor keeps_client_create keeps_answer TrueI)
qed

lemma od_count_traced: "traced E Qs d \<Longrightarrow> od_count E key window d = Some (n, d') \<Longrightarrow> traced E Qs d'"
  by (auto simp: od_count_def traced_statements)

lemma keeps_trace_register:
  assumes "Rq_Register dr h peer body \<in> Qs"
  shows "keeps_trace E Qs (register_client E dr h peer body)"
proof -
  have "registered E Qs (dr_row dr) (register_client_data E dr body)"
    unfolding registered_def using assms by blast
  then have tail: "keeps_trace E Qs (case x of Some uri \<Rightarrow> refuse (e uri)
      | None \<Rightarrow> run_or (client_create (dr_row dr) now (register_client_data E dr body)) e' (\<lambda>c. answer (f c)))" for x e e' f now
    by (cases x) (simp_all add: keeps_refuse keeps_client_create keeps_answer)
  show ?thesis unfolding register_client_def
    by (intro keeps_run_sql keeps_ensure conjI TrueI tail) (auto elim: od_count_traced)
qed

lemma client_traced_found:
  "traced E Qs d \<Longrightarrow> client_find_by_client_id c d = Some cl \<Longrightarrow> client_traced E Qs cl \<and> oc_client_id cl = c"
  by (auto simp: traced_def client_find_by_client_id_def dest: find_Some_in)

lemma keeps_trace_authorize_code:
  assumes "Rq_Authorize_Code dr u body \<in> Qs"
  shows "keeps_trace E Qs (authorize_code E dr u body)"
proof -
  let ?scopes = "split_whitespace (acr_scope body)"
  have tail: "keeps_trace E Qs (case refused_scope (OAuthClient_scopes cl) ?scopes of
      Some s \<Rightarrow> refuse (e s)
    | None \<Rightarrow> with_date t (\<lambda>x. run_or (code_create i now \<lparr>cac_code_hash = oe_hash E (dr_token dr), cac_client_id = oc_id cl,
        cac_user_id = u, cac_redirect_uri = acr_redirect_uri body,
        cac_scopes = granted_scopes (OAuthClient_scopes cl) ?scopes, cac_code_challenge = acr_code_challenge body,
        cac_code_challenge_method = m, cac_expires_at = x\<rparr>) e' (\<lambda>_. answer a)))"
    if cl: "client_traced E Qs cl" "oc_client_id cl = acr_client_id body" "is_redirect_uri_valid cl (acr_redirect_uri body)"
    for cl e t i now m e' a
  proof (cases "refused_scope (OAuthClient_scopes cl) ?scopes")
    case None
    then have "consented E Qs dr body (oc_id cl) u (granted_scopes (OAuthClient_scopes cl) ?scopes)"
      using assms cl by (auto simp: consented_def client_traced_def is_redirect_uri_valid_def)
    then show ?thesis unfolding None with_date_def option.case
      by (intro keeps_require keeps_run_or keeps_answer conjI TrueI) (auto elim: traced_code_create)
  qed (simp add: keeps_refuse)
  show ?thesis unfolding authorize_code_def Let_def
    by (intro keeps_rules TrueI tail) (auto dest: client_traced_found)
qed

text \<open>The token endpoint.\<close>

lemma keeps_new_access_token:
  assumes "exchanged E Qs dr tr c u scopes \<or> refreshed E Qs dr tr c u scopes"
    and "\<And>t n. keeps (traced E Qs) (k t n) Q" and "\<And>f d. Q (Inl f) d"
  shows "keeps (traced E Qs) (new_access_token E dr c u scopes k) Q"
proof -
  have "keeps (traced E Qs) (with_date t (\<lambda>(x, n). run_or (access_create (dr_row dr) (dr_now dr) \<lparr>
         cat_token_hash = oe_hash E (dr_token dr), cat_client_id = c, cat_user_id = u,
         cat_scopes = scopes, cat_expires_at = x \<rparr>) e (\<lambda>created. k created n))) Q" for t e
    unfolding with_date_def split_def
    by (intro keeps_require keeps_run_or conjI assms(2,3)) (use assms(1) in \<open>auto elim: traced_access_create\<close>)
  then show ?thesis unfolding new_access_token_def by (intro keeps_select)
qed

lemma code_traced_found:
  "traced E Qs d \<Longrightarrow> code_find_by_hash h d = Some c \<Longrightarrow> code_traced E Qs c \<and> ac_code_hash c = h"
  by (auto simp: traced_def code_find_by_hash_def dest: find_Some_in)

lemma refresh_traced_found:
  "traced E Qs d \<Longrightarrow> refresh_find_by_hash h d = Some t \<Longrightarrow> refresh_traced E Qs t \<and> rt_token_hash t = h"
  by (auto simp: traced_def refresh_find_by_hash_def dest: find_Some_in)

text \<open>What the answer to a token request says of its origin.\<close>

definition token_origin :: "'r oauth_env \<Rightarrow> oauth_request set \<Rightarrow> draw \<Rightarrow> TokenRequest \<Rightarrow> TokenResponse \<Rightarrow> bool" where
  "token_origin E Qs dr tr resp \<longleftrightarrow>
     (\<exists>i u scopes. (exchanged E Qs dr tr i u scopes \<or> refreshed E Qs dr tr i u scopes) \<and>
        tk_access_token resp = dr_token dr \<and> tk_scope resp = join_space scopes)"

abbreviation token_post ::
  "'r oauth_env \<Rightarrow> oauth_request set \<Rightarrow> draw \<Rightarrow> TokenRequest \<Rightarrow> 'e + TokenResponse \<Rightarrow> 'd \<Rightarrow> bool" where
  "token_post E Qs dr tr r d \<equiv> \<forall>resp. r = Inr resp \<longrightarrow> token_origin E Qs dr tr resp"

lemma keeps_exchange_code:
  assumes "Rq_Token dr tr \<in> Qs" and "tr_grant_type tr = ''authorization_code''"
  shows "keeps (traced E Qs) (exchange_code E dr tr) (token_post E Qs dr tr)"
proof -
  have ex: "exchanged E Qs dr tr (ac_client_id c) (ac_user_id c) (AuthCode_scopes c)"
    if "code_traced E Qs c" "ac_code_hash c = oe_hash E code" "tr_code tr = Some code" "tr_redirect_uri tr = Some uri"
      "ac_redirect_uri c = uri" "tr_code_verifier tr = Some v" "oe_challenge E v = ac_code_challenge c" for c code uri v
    using that assms by (fastforce simp: exchanged_def code_traced_def)
  have fin: "keeps (traced E Qs) (with_date t (\<lambda>x. run_or (refresh_create i now \<lparr>crt_token_hash = oe_hash E (dr_token2 dr),
      crt_client_id = ac_client_id c, crt_user_id = ac_user_id c, crt_scopes = AuthCode_scopes c,
      crt_access_token_id = y, crt_expires_at = x\<rparr>) e (\<lambda>_. answer \<lparr>tk_access_token = dr_token dr, tk_token_type = b,
        tk_expires_in = n, tk_refresh_token = r, tk_scope = join_space (AuthCode_scopes c)\<rparr>))) (token_post E Qs dr tr)"
    if "exchanged E Qs dr tr (ac_client_id c) (ac_user_id c) (AuthCode_scopes c)" for c t i now y e b n r
    unfolding with_date_def
    by (intro keeps_require keeps_run_or keeps_answer conjI) (use that in \<open>auto simp: token_origin_def elim: traced_refresh_create\<close>)
  show ?thesis unfolding exchange_code_def
    by (intro keeps_rules traced_statements keeps_new_access_token [where tr = tr] fin disjI1 ex)
      (auto dest: code_traced_found)
qed

lemma keeps_refresh_access_token:
  assumes "Rq_Token dr tr \<in> Qs" and "tr_grant_type tr = ''refresh_token''"
  shows "keeps (traced E Qs) (refresh_access_token E dr tr) (token_post E Qs dr tr)"
proof -
  have re: "refreshed E Qs dr tr (rt_client_id t) (rt_user_id t) (RefreshToken_scopes t)"
    if "refresh_traced E Qs t" "rt_token_hash t = oe_hash E r" "tr_refresh_token tr = Some r" for t r
    using that assms by (fastforce simp: refreshed_def refresh_traced_def)
  have rest: "keeps (traced E Qs) (new_access_token E dr (rt_client_id t) (rt_user_id t) (RefreshToken_scopes t)
      (\<lambda>_ n. answer \<lparr>tk_access_token = dr_token dr, tk_token_type = b, tk_expires_in = n, tk_refresh_token = x,
         tk_scope = join_space (RefreshToken_scopes t)\<rparr>)) (token_post E Qs dr tr)"
    if "refreshed E Qs dr tr (rt_client_id t) (rt_user_id t) (RefreshToken_scopes t)" for t b x
    by (intro keeps_new_access_token [where tr = tr] keeps_answer) (use that in \<open>auto simp: token_origin_def\<close>)
  show ?thesis unfolding refresh_access_token_def Let_def
    by (intro keeps_rules; (simp split: option.split)?; intro conjI impI allI keeps_change traced_statements rest re)
      (auto dest: refresh_traced_found)
qed

lemma keeps_token:
  "Rq_Token dr tr \<in> Qs \<Longrightarrow> keeps (traced E Qs) (token E dr tr) (token_post E Qs dr tr)"
  by (simp add: token_def keeps_exchange_code keeps_refresh_access_token keeps_refuse)

text \<open>What a reply says of its origin: only tokens do.\<close>

fun reply_traced :: "'r oauth_env \<Rightarrow> oauth_request set \<Rightarrow> oauth_request \<Rightarrow> oauth_reply \<Rightarrow> bool" where
  "reply_traced E Qs (Rq_Token dr tr) (Rp_Token (Inr resp)) \<longleftrightarrow> token_origin E Qs dr tr resp"
| "reply_traced E Qs _ _ \<longleftrightarrow> True"

lemma oauth_handle_keeps:
  assumes "q \<in> Qs"
  shows "keeps (traced E Qs) (oauth_handle E q) (\<lambda>r _. reply_traced E Qs q r)"
proof (cases q)
  case (Rq_Token dr tr)
  then show ?thesis using assms keeps_token [of dr tr Qs E]
    by (auto simp: keeps_map elim!: keeps_mono) (metis Inr_inject reply_traced.simps sum.exhaust)
qed (use assms in \<open>simp_all add: keeps_map keeps_trace_readers keeps_trace_editors keeps_trace_housekeeping
      keeps_trace_create keeps_trace_register keeps_trace_authorize_code\<close>)

lemma oauth_traced:
  assumes "serves (oauth_handle E) start (d, ts)" and "od_clients start = []" and "od_codes start = []"
    and "od_access start = []" and "od_refresh start = []"
  shows "traced E (set (requests ts)) d" and "answered ts q r \<Longrightarrow> reply_traced E (set (requests ts)) q r"
proof -
  have start: "traced E (set (requests ts)) start" using assms(2-5) by (simp add: traced_def)
  show "traced E (set (requests ts)) d"
    by (rule keeps_sound(1) [OF assms(1) start oauth_handle_keeps])
  show "answered ts q r \<Longrightarrow> reply_traced E (set (requests ts)) q r"
    by (rule keeps_sound(2) [OF assms(1) start oauth_handle_keeps])
qed

end
