(* ===== verification/OAuth_Security.thy ===== *)
theory OAuth_Security
  imports OAuth_Service
begin

text \<open>
  What the authorization server guarantees: issued tokens stem from consent, deletion is final for the
  gateway, the code flow ends in a token the gateway accepts with the granted scopes, and a code
  that was exchanged is spent.
\<close>

section \<open>The gateway's view of the tables\<close>

text \<open>
  The gateway's OAuth query and update, on the tables of the authorization server; its API key
  queries are on other tables.
\<close>

definition oauth_tables :: "('r oauth_db \<Rightarrow> string \<Rightarrow> string + ApiKey option) \<Rightarrow> timestamp \<Rightarrow> 'r oauth_db auth_db" where
  "oauth_tables keys now = \<lparr>
     db_api_key_by_hash = keys,
     db_oauth_token_by_hash = (\<lambda>d h. Inr (access_find_with_client h d)),
     db_touch_api_key = (\<lambda>d _. d),
     db_touch_oauth_token = (\<lambda>d i. access_update_last_used now i d) \<rparr>"

text \<open>What the gateway relies on: an answer is a stored token with its client, found by its hash.\<close>

locale token_tables =
  fixes D :: "'d auth_db" and stored :: "'d \<Rightarrow> OAuthAccessTokenWithClient \<Rightarrow> bool"
  assumes lookup_stored: "db_oauth_token_by_hash D d h = Inr (Some t) \<Longrightarrow> stored d t \<and> tok_token_hash t = h"
begin

lemma accepted_stored:
  assumes "ae_db A = D" and "validate_credential A now secret ip (s, d) = (Inr (Cred_OAuthToken t), st)"
  shows "stored d t" and "tok_token_hash t = ae_sha256_hex A secret" and "OAuthToken_is_valid now t"
proof -
  obtain s' d' where st: "st = (s', d')" by (cases st)
  then have "validate_oauth_token A now secret ip (s, d) = (Inr t, s', d')"
    using validate_credential_Inr [of A now secret ip s d "Cred_OAuthToken t" s' d'] assms(2) by auto
  from validate_oauth_token_Inr [OF this]
  have "db_oauth_token_by_hash D d (ae_sha256_hex A secret) = Inr (Some t)" "OAuthToken_is_valid now t"
    using assms(1) by auto
  then show "stored d t" "tok_token_hash t = ae_sha256_hex A secret" "OAuthToken_is_valid now t"
    using lookup_stored by auto
qed

end

definition token_stored :: "'r oauth_db \<Rightarrow> OAuthAccessTokenWithClient \<Rightarrow> bool" where
  "token_stored d t \<longleftrightarrow> (\<exists>a \<in> set (od_access d). \<exists>c \<in> set (od_clients d).
     oc_id c = at_client_id a \<and> t = token_with_client a c)"

lemma access_find_with_client_stored:
  assumes "access_find_with_client h d = Some t"
  shows "token_stored d t \<and> tok_token_hash t = h"
proof -
  let ?rows = "concat (map (\<lambda>t. map (token_with_client t) (filter (\<lambda>c. oc_id c = at_client_id t) (od_clients d)))
             (filter (\<lambda>t. at_token_hash t = h) (od_access d)))"
  have "t \<in> set ?rows" using assms by (cases ?rows) (auto simp: access_find_with_client_def)
  then show ?thesis by (auto simp: token_stored_def token_with_client_def)
qed

interpretation oauth_side: token_tables "oauth_tables keys now" token_stored
  by unfold_locales (auto simp: oauth_tables_def dest: access_find_with_client_stored)


section \<open>Tokens stem from consent\<close>

lemma granted_within:
  "refused_scope cs req = None \<Longrightarrow> s \<in> set (granted_scopes cs req) \<Longrightarrow> ''*'' \<in> set cs \<or> s \<in> set cs"
  by (auto simp: refused_scope_def granted_scopes_def find_None_iff split: if_splits)

lemma exchanged_consented:
  "exchanged E Qs dr tr i u scopes \<or> refreshed E Qs dr tr i u scopes \<Longrightarrow> \<exists>dr0 body. consented E Qs dr0 body i u scopes"
  by (auto simp: exchanged_def refreshed_def)

lemma consentedE:
  assumes "consented E Qs dr body i u scopes"
  obtains data where "Rq_Authorize_Code dr u body \<in> Qs" "registered E Qs i data" "cc_client_id data = acr_client_id body"
    "acr_redirect_uri body \<in> set (cc_redirect_uris data)"
    "refused_scope (cc_scopes data) (split_whitespace (acr_scope body)) = None"
    "scopes = granted_scopes (cc_scopes data) (split_whitespace (acr_scope body))"
  using assms by (auto simp: consented_def)

text \<open>
  C7: whatever requests the authorization server received, however their statements interleaved and
  whichever of them failed, a credential that the gateway accepts as an OAuth token was consented to:
  its user asked for a code for this very client, at a redirect address the client registered, and the
  token's scopes are those granted by that request, all of them within the registered ones.
\<close>

theorem accepted_token_consented:
  assumes "serves (oauth_handle E) start (d, ts)" and "od_clients start = []" and "od_codes start = []"
    and "od_access start = []" and "od_refresh start = []" and "ae_db A = oauth_tables keys now"
    and "validate_credential A now secret ip (s, d) = (Inr (Cred_OAuthToken t), st)"
  shows "\<exists>dr body data. Rq_Authorize_Code dr (tok_user_id t) body \<in> set (requests ts) \<and>
    registered E (set (requests ts)) (tok_client_id t) data \<and>
    cc_client_id data = acr_client_id body \<and> acr_redirect_uri body \<in> set (cc_redirect_uris data) \<and>
    OAuthToken_scopes t = granted_scopes (cc_scopes data) (split_whitespace (acr_scope body)) \<and>
    (\<forall>scope \<in> set (OAuthToken_scopes t). ''*'' \<in> set (cc_scopes data) \<or> scope \<in> set (cc_scopes data))"
proof -
  have "token_stored d t" by (rule oauth_side.accepted_stored(1) [OF assms(6,7)])
  then obtain a c where a: "a \<in> set (od_access d)" "t = token_with_client a c"
    unfolding token_stored_def by blast
  have tr: "traced E (set (requests ts)) d" by (rule oauth_traced(1) [OF assms(1-5)])
  then have "access_traced E (set (requests ts)) a" using a(1) unfolding traced_def by blast
  then obtain dr body where "consented E (set (requests ts)) dr body (at_client_id a) (at_user_id a) (strings_or_default (at_scopes a))"
    unfolding access_traced_def using exchanged_consented by metis
  then obtain data where "Rq_Authorize_Code dr (at_user_id a) body \<in> set (requests ts)"
    "registered E (set (requests ts)) (at_client_id a) data" "cc_client_id data = acr_client_id body"
    "acr_redirect_uri body \<in> set (cc_redirect_uris data)"
    and ref: "refused_scope (cc_scopes data) (split_whitespace (acr_scope body)) = None"
    and sc: "strings_or_default (at_scopes a) = granted_scopes (cc_scopes data) (split_whitespace (acr_scope body))"
    by (rule consentedE)
  moreover have "\<forall>scope \<in> set (strings_or_default (at_scopes a)). ''*'' \<in> set (cc_scopes data) \<or> scope \<in> set (cc_scopes data)"
    unfolding sc by (intro ballI granted_within [OF ref])
  moreover have "tok_user_id t = at_user_id a" "tok_client_id t = at_client_id a"
    "OAuthToken_scopes t = strings_or_default (at_scopes a)"
    by (simp_all add: a(2) token_with_client_def OAuthToken_scopes_def strings_or_default_def)
  ultimately show ?thesis using sc
    by (intro exI [of _ dr] exI [of _ body] exI [of _ data]) simp
qed

text \<open>
  C15: proof of possession. A token endpoint that answers an authorization-code request answers it for
  a code issued to a consent request whose redirect address is the one presented and whose challenge
  is that of the presented verifier; the answered scopes are the granted ones. A refresh request is
  answered only for the refresh token of such an exchange.
\<close>

theorem token_answer_proves_possession:
  assumes "serves (oauth_handle E) start (d, ts)" and "od_clients start = []" and "od_codes start = []"
    and "od_access start = []" and "od_refresh start = []"
    and "answered ts (Rq_Token dr tr) (Rp_Token (Inr resp))"
  shows "\<exists>i u scopes. tk_scope resp = join_space scopes \<and>
    (if tr_grant_type tr = ''authorization_code'' then exchanged E (set (requests ts)) dr tr i u scopes
     else refreshed E (set (requests ts)) dr tr i u scopes)"
proof -
  have "reply_traced E (set (requests ts)) (Rq_Token dr tr) (Rp_Token (Inr resp))"
    by (rule oauth_traced(2) [OF assms(1-5) assms(6)])
  then obtain i u scopes where "tk_scope resp = join_space scopes"
    and or: "exchanged E (set (requests ts)) dr tr i u scopes \<or> refreshed E (set (requests ts)) dr tr i u scopes"
    by (auto simp: token_origin_def)
  moreover have "refreshed E (set (requests ts)) dr tr i u scopes \<Longrightarrow> tr_grant_type tr = ''refresh_token''"
    by (simp add: refreshed_def)
  moreover have "exchanged E (set (requests ts)) dr tr i u scopes \<Longrightarrow> tr_grant_type tr = ''authorization_code''"
    by (simp add: exchanged_def)
  ultimately show ?thesis by (intro exI [of _ i] exI [of _ u] exI [of _ scopes]) auto
qed


section \<open>Deletion is final\<close>

definition gone :: "uuid \<Rightarrow> 'r oauth_db \<Rightarrow> bool" where
  "gone i d \<longleftrightarrow> i \<notin> oc_id ` set (od_clients d) \<and> i \<notin> ac_client_id ` set (od_codes d) \<and>
     i \<notin> at_client_id ` set (od_access d) \<and> i \<notin> rt_client_id ` set (od_refresh d)"

lemma image_sql_update: "(\<And>r. g (f r) = g r) \<Longrightarrow> g ` set (sql_update P f t) = g ` set t"
  by (metis list.set_map map_sql_update)

lemma gone_statements:
  assumes "gone i d"
  shows "gone i (client_update_secret now j h d)" and "gone i (client_delete j d)"
    and "gone i (code_mark_as_used now j d)" and "gone i (access_revoke now j d)"
    and "gone i (access_revoke_by_client now j d)" and "gone i (refresh_revoke_by_client now j d)"
    and "gone i (access_update_last_used now j d)" and "gone i (d\<lparr>od_workspaces := w\<rparr>)"
    and "gone i (d\<lparr>od_redis := r\<rparr>)" and "gone i (snd (code_delete_expired now d))"
    and "gone i (snd (access_delete_expired now d))" and "gone i (snd (refresh_delete_expired now d))"
  using assms
  by (simp_all add: gone_def client_update_secret_def client_delete_def code_mark_as_used_def access_revoke_def
      access_revoke_by_client_def refresh_revoke_by_client_def access_update_last_used_def code_delete_expired_def
      access_delete_expired_def refresh_delete_expired_def Let_def image_sql_update)
    (auto simp: image_iff)

lemma gone_client_delete: "gone i (client_delete i d)"
  by (auto simp: gone_def client_delete_def)

lemma client_missing: "gone i d \<Longrightarrow> client_find_by_id i d = None"
  by (auto simp: gone_def client_find_by_id_def find_None_iff)

text \<open>Nothing can be inserted for a client that is gone.\<close>

lemma gone_inserts:
  "gone i d \<Longrightarrow> j \<noteq> i \<Longrightarrow> client_create j now cd d = Some (c, d') \<Longrightarrow> gone i d'"
  "gone i d \<Longrightarrow> code_create j now dd d = Some (a, d') \<Longrightarrow> gone i d'"
  "gone i d \<Longrightarrow> access_create j now ad d = Some (t, d') \<Longrightarrow> gone i d'"
  "gone i d \<Longrightarrow> refresh_create j now rd d = Some (u, d') \<Longrightarrow> gone i d'"
proof -
  show "gone i d \<Longrightarrow> j \<noteq> i \<Longrightarrow> client_create j now cd d = Some (c, d') \<Longrightarrow> gone i d'"
    by (auto simp: gone_def client_create_def Let_def sql_insert_Some client_row_def)
  show "gone i d \<Longrightarrow> code_create j now dd d = Some (a, d') \<Longrightarrow> gone i d'"
    using client_missing [of i d]
    by (cases "cac_client_id dd = i") (auto simp: gone_def code_create_def Let_def sql_insert_Some code_row_def split: if_splits)
  show "gone i d \<Longrightarrow> access_create j now ad d = Some (t, d') \<Longrightarrow> gone i d'"
    using client_missing [of i d]
    by (cases "cat_client_id ad = i") (auto simp: gone_def access_create_def Let_def sql_insert_Some access_row_def split: if_splits)
  show "gone i d \<Longrightarrow> refresh_create j now rd d = Some (u, d') \<Longrightarrow> gone i d'"
    using client_missing [of i d]
    by (cases "crt_client_id rd = i") (auto simp: gone_def refresh_create_def Let_def sql_insert_Some refresh_row_def split: if_splits)
qed

abbreviation stays_gone :: "uuid \<Rightarrow> ('r oauth_db, 'a) prog \<Rightarrow> bool" where
  "stays_gone i p \<equiv> stays (gone i) p (\<lambda>_ _. True)"

lemma stays_require_editor: "(\<And>e d. Q (Inl e) d) \<Longrightarrow> stays (gone i) k Q \<Longrightarrow> stays (gone i) (require_editor u w k) Q"
  unfolding require_editor_def by (intro stays_rules)

lemma stays_server_client: "(\<And>c. stays_gone i (k c)) \<Longrightarrow> stays_gone i (server_client E w s k)"
  unfolding server_client_def by (intro stays_rules TrueI)

lemma stays_revoke_client: "stays (gone i) k Q \<Longrightarrow> stays (gone i) (revoke_client_tokens now c k) Q"
  unfolding revoke_client_tokens_def by (intro stays_rules gone_statements)

lemma stays_gone_readers:
  "stays_gone i (list_clients E u w)" "stays_gone i (get_server_oauth E u w s)"
  "stays_gone i (authorize E params)" "stays_gone i (client_info E c)"
  unfolding list_clients_def get_server_oauth_def authorize_def client_info_def Let_def
  by (intro stays_rules stays_server_client TrueI)+

lemma stays_gone_editors:
  "stays_gone i (regenerate_server_oauth_secret E dr u w s)" "stays_gone i (delete_client E dr u w j)"
  unfolding regenerate_server_oauth_secret_def delete_client_def
  by (intro stays_rules stays_require_editor stays_server_client stays_revoke_client gone_statements TrueI; assumption)+

lemma stays_gone_housekeeping:
  "stays_gone i (run_or (change (access_update_last_used now j)) () answer)"
  "stays_gone i (run_or (change (client_delete j)) () answer)"
  "stays_gone i (run_or (change (\<lambda>d. d\<lparr>od_workspaces := w\<rparr>)) () answer)"
  "stays_gone i (clean_expired now)"
proof -
  show "stays_gone i (clean_expired now)"
    unfolding clean_expired_def
    by (intro stays_run_or stays_answer TrueI; simp; metis gone_statements(10-12) snd_conv)
qed (intro stays_rules gone_statements TrueI; assumption)+

lemma stays_gone_create:
  "dr_row dr \<noteq> i \<Longrightarrow> stays_gone i (create_client E dr u w body)"
  unfolding create_client_def
  by (intro stays_require_editor stays_run_or stays_answer TrueI) (auto elim: gone_inserts)

lemma stays_gone_register:
  assumes "dr_row dr \<noteq> i"
  shows "stays_gone i (register_client E dr h peer body)"
proof -
  have tail: "stays_gone i (case x of Some uri \<Rightarrow> refuse (e uri)
      | None \<Rightarrow> run_or (client_create (dr_row dr) now cd) e' (\<lambda>c. answer (f c)))" for x e e' f now cd
    by (cases x) (auto intro!: stays_refuse stays_run_or stays_answer elim: gone_inserts(1) [OF _ assms])
  show ?thesis unfolding register_client_def
    by (intro stays_run_sql stays_ensure TrueI tail) (auto simp: od_count_def gone_statements)
qed

lemma stays_gone_authorize_code: "stays_gone i (authorize_code E dr u body)"
proof -
  have tail: "stays_gone i (case x of Some s \<Rightarrow> refuse (e s)
      | None \<Rightarrow> with_date t (\<lambda>x. run_or (code_create j now (cd x)) e' (\<lambda>_. answer a)))" for x e t j now cd e' a
    by (cases x) (auto intro!: stays_refuse stays_require stays_run_or stays_answer simp: with_date_def elim: gone_inserts)
  show ?thesis unfolding authorize_code_def Let_def by (intro stays_rules TrueI tail)
qed

lemma stays_new_access_token:
  "(\<And>t n. stays_gone i (k t n)) \<Longrightarrow> stays_gone i (new_access_token E dr c u scopes k)"
  unfolding new_access_token_def with_date_def split_def
  by (intro stays_select stays_require stays_run_or TrueI) (auto elim: gone_inserts)

lemma stays_gone_token: "stays_gone i (token E dr tr)"
proof -
  have ex: "stays_gone i (exchange_code E dr tr)" unfolding exchange_code_def with_date_def
    by (intro stays_rules gone_statements stays_new_access_token stays_require stays_run_or TrueI) (auto elim: gone_inserts)
  have re: "stays_gone i (refresh_access_token E dr tr)" unfolding refresh_access_token_def Let_def
    by (intro stays_rules TrueI; simp split: option.split;
        intro conjI impI allI stays_change gone_statements stays_new_access_token stays_answer TrueI; assumption)
  show ?thesis using ex re by (simp add: token_def stays_refuse)
qed

text \<open>A deletion that was answered has taken place.\<close>

definition deletion_post :: "uuid \<Rightarrow> oauth_request \<Rightarrow> oauth_reply \<Rightarrow> 'r oauth_db \<Rightarrow> bool" where
  "deletion_post i q r d \<longleftrightarrow> (\<forall>dr u w. q = Rq_Delete dr u w i \<longrightarrow> r = Rp_Status (Inr 204) \<longrightarrow> gone i d)"

lemma stays_gone_delete:
  "stays (gone i) (delete_client E dr u w i) (\<lambda>r d. r = Inr 204 \<longrightarrow> gone i d)"
  unfolding delete_client_def
  by (intro stays_require_editor stays_select_or stays_require stays_ensure stays_revoke_client stays_established
      gone_client_delete) simp_all

text \<open>The rows a request may register.\<close>

fun draws_client :: "uuid \<Rightarrow> oauth_request \<Rightarrow> bool" where
  "draws_client i (Rq_Create dr u w body) \<longleftrightarrow> dr_row dr = i"
| "draws_client i (Rq_Register dr h peer body) \<longleftrightarrow> dr_row dr = i"
| "draws_client i _ \<longleftrightarrow> False"

lemma oauth_handle_stays_gone:
  assumes "\<not> draws_client i q"
  shows "stays (gone i) (oauth_handle E q) (deletion_post i q)"
proof (cases "\<exists>dr u w. q = Rq_Delete dr u w i")
  case True
  then obtain dr u w where q: "q = Rq_Delete dr u w i" by blast
  show ?thesis using stays_gone_delete [of i E dr u w]
    by (simp add: q stays_map deletion_post_def [abs_def])
next
  case False
  then have post: "deletion_post i q = (\<lambda>_ _. True)" by (auto simp: deletion_post_def fun_eq_iff)
  have "stays_gone i (oauth_handle E q)" using assms
    by (cases q) (simp_all add: stays_map stays_gone_readers stays_gone_editors stays_gone_housekeeping
        stays_gone_create stays_gone_register stays_gone_authorize_code stays_gone_token)
  then show ?thesis by (simp add: post)
qed

text \<open>
  C13: deleting an OAuth client is final for the gateway. Once a deletion has been answered, whatever
  else the server was and is doing (exchanges under way included) and whichever statements failed (the
  revocations' failures are ignored by the code), the gateway accepts no token of that client, for as
  long as no new client row gets the deleted one's identifier.
\<close>

theorem client_deletion_final:
  assumes "serves (oauth_handle E) start (d, ts)" and "answered ts (Rq_Delete dr u w i) (Rp_Status (Inr 204))"
    and "\<forall>q \<in> set (requests ts). \<not> draws_client i q" and "ae_db A = oauth_tables keys now"
    and "validate_credential A now' secret ip (s, d) = (Inr (Cred_OAuthToken t), st)"
  shows "tok_client_id t \<noteq> i"
proof -
  have "deletion_post i (Rq_Delete dr u w i) (Rp_Status (Inr 204)) d"
    by (rule stays_sound [OF assms(1) oauth_handle_stays_gone assms(2)]) (use assms(3) in blast)
  then have "gone i d" by (simp add: deletion_post_def)
  moreover have "token_stored d t" by (rule oauth_side.accepted_stored(1) [OF assms(4,5)])
  ultimately show ?thesis by (auto simp: token_stored_def gone_def token_with_client_def)
qed

section \<open>The code flow\<close>

text \<open>The code with this hash has been used.\<close>

definition spent :: "string \<Rightarrow> 'r oauth_db \<Rightarrow> bool" where
  "spent h d \<longleftrightarrow> (\<exists>c. code_find_by_hash h d = Some c \<and> AuthCode_is_used c)"

lemma spent_marked:
  "code_find_by_hash h d = Some c \<Longrightarrow> spent h (code_mark_as_used now (ac_id c) d)"
  by (simp add: spent_def code_find_by_hash_def code_mark_as_used_def find_sql_update AuthCode_is_used_def)

lemma spent_inserts:
  "spent h d \<Longrightarrow> access_create i now ad d = Some (t, d') \<Longrightarrow> spent h d'"
  "spent h d \<Longrightarrow> refresh_create i now rd d = Some (r, d') \<Longrightarrow> spent h d'"
  by (auto simp: spent_def code_find_by_hash_def access_create_def refresh_create_def Let_def split: if_splits)

lemma stays_spent_tokens:
  "stays (spent h) (new_access_token E dr c u scopes (\<lambda>created n.
     with_date t (\<lambda>x. run_or (refresh_create i now (rd created x)) e (\<lambda>_. answer (resp n))))) (\<lambda>_ _. True)"
  unfolding new_access_token_def with_date_def split_def
  by (intro stays_select stays_require stays_run_or stays_answer TrueI) (auto elim: spent_inserts)

lemma exchange_spends:
  assumes "run (exchange_code E dr tr) (fa # fb # fs) d = (Inr resp, d1)" and "fb \<noteq> Fails" and "tr_code tr = Some code"
  shows "spent (oe_hash E code) d1"
proof (cases fa)
  case Runs
  let ?h = "oe_hash E code"
  obtain c k where c: "code_find_by_hash ?h d = Some c"
    and r: "run (new_access_token E dr (ac_client_id c) (ac_user_id c) (AuthCode_scopes c) (\<lambda>created n.
      with_date (oe_add E (dr_now dr) (REFRESH_TOKEN_EXPIRES_DAYS * 86400)) (\<lambda>x. run_or (refresh_create (dr_row2 dr) (dr_now dr)
        \<lparr>crt_token_hash = oe_hash E (dr_token2 dr), crt_client_id = ac_client_id c, crt_user_id = ac_user_id c,
         crt_scopes = AuthCode_scopes c, crt_access_token_id = Some (at_id created), crt_expires_at = x\<rparr>) token_server_error
        (\<lambda>_. answer (k n))))) fs (code_mark_as_used (dr_now dr) (ac_id c) d) = (Inr resp, d1)"
    using assms Runs unfolding exchange_code_def
    by (auto split: option.splits if_splits fate.splits)
  show ?thesis using stays_run [OF stays_spent_tokens r, of ?h] spent_marked [OF c] by blast
qed (use assms in \<open>auto simp: exchange_code_def split: option.splits\<close>)

lemma spent_refused:
  assumes "spent (oe_hash E code) d" and "tr_code tr = Some code"
  shows "\<exists>e. fst (run (exchange_code E dr tr) fs d) = Inl e"
  using assms by (auto simp: exchange_code_def spent_def split: option.splits list.splits fate.splits)

text \<open>
  C25: an authorization code is spent by its exchange. When the statement that marks it took effect,
  the next request for the same code obtains no tokens, whatever else that request presents and whichever
  of its statements fail.
\<close>

theorem code_single_use:
  assumes "run (token E dr tr) (fa # fb # fs) d = (Inr resp, d1)" and "fb \<noteq> Fails"
    and "tr_grant_type tr = ''authorization_code''" and "tr_grant_type tr' = ''authorization_code''"
    and "tr_code tr = Some code" and "tr_code tr' = Some code'" and "oe_hash E code' = oe_hash E code"
  shows "\<exists>e. fst (run (token E dr' tr') fs' d1) = Inl e"
proof -
  have "spent (oe_hash E code') d1" unfolding assms(7)
    by (rule exchange_spends [OF _ assms(2,5)]) (use assms(1,3) in \<open>simp add: token_def\<close>)
  then show ?thesis using assms(4,6) spent_refused by (simp add: token_def)
qed

lemma find_key: "distinct (map f xs) \<Longrightarrow> x \<in> set xs \<Longrightarrow> find (\<lambda>y. f y = f x) xs = Some x"
  by (induction xs) (auto simp: image_iff)

lemma find_append: "find P (xs @ ys) = (case find P xs of None \<Rightarrow> find P ys | Some x \<Rightarrow> Some x)"
  by (induction xs) auto

text \<open>What a code request that was answered has stored.\<close>

lemma authorize_code_stores:
  assumes "run (authorize_code E dr u body) [] d = (Inr code, d1)"
    and "client_find_by_client_id (acr_client_id body) d = Some cl"
    and "oe_add E (dr_now dr) (AUTH_CODE_EXPIRES_MINUTES * 60) = Some limit"
  shows "code = dr_token dr" and "od_clients d1 = od_clients d" and "od_access d1 = od_access d" and "od_refresh d1 = od_refresh d"
    and "\<exists>c. code_find_by_hash (oe_hash E code) d1 = Some c \<and> ac_client_id c = oc_id cl \<and> ac_user_id c = u \<and>
      ac_redirect_uri c = acr_redirect_uri body \<and> ac_code_challenge c = acr_code_challenge body \<and>
      AuthCode_scopes c = granted_scopes (OAuthClient_scopes cl) (split_whitespace (acr_scope body)) \<and>
      ac_expires_at c = limit \<and> \<not> AuthCode_is_used c"
proof -
  let ?row = "code_row (dr_row dr) (dr_now dr) \<lparr>
                  cac_code_hash = oe_hash E (dr_token dr), cac_client_id = oc_id cl, cac_user_id = u,
                  cac_redirect_uri = acr_redirect_uri body,
                  cac_scopes = granted_scopes (OAuthClient_scopes cl) (split_whitespace (acr_scope body)),
                  cac_code_challenge = acr_code_challenge body,
                  cac_code_challenge_method = acr_code_challenge_method body, cac_expires_at = limit \<rparr>"
  have c: "code = dr_token dr" and d1: "d1 = d\<lparr>od_codes := od_codes d @ [?row]\<rparr>" and new: "\<not> list_ex (code_clash ?row) (od_codes d)"
    using assms by (auto simp: authorize_code_def with_date_def code_create_def Let_def sql_insert_Some
        split: if_splits option.splits)
  have "find (\<lambda>c. ac_code_hash c = oe_hash E code) (od_codes d) = None"
    using new by (auto simp: find_None_iff list_ex_iff code_clash_def c code_row_def)
  then have "code_find_by_hash (oe_hash E code) d1 = Some ?row"
    by (simp add: code_find_by_hash_def d1 find_append c code_row_def)
  then show "\<exists>c. code_find_by_hash (oe_hash E code) d1 = Some c \<and> ac_client_id c = oc_id cl \<and> ac_user_id c = u \<and>
      ac_redirect_uri c = acr_redirect_uri body \<and> ac_code_challenge c = acr_code_challenge body \<and>
      AuthCode_scopes c = granted_scopes (OAuthClient_scopes cl) (split_whitespace (acr_scope body)) \<and>
      ac_expires_at c = limit \<and> \<not> AuthCode_is_used c"
    by (simp add: code_row_def AuthCode_scopes_def AuthCode_is_used_def)
  show "code = dr_token dr" "od_clients d1 = od_clients d" "od_access d1 = od_access d" "od_refresh d1 = od_refresh d"
    using c d1 by simp_all
qed

text \<open>Neither the identifiers nor the hashes a request draws are in the tables.\<close>

definition fresh_draw :: "'r oauth_env \<Rightarrow> draw \<Rightarrow> 'r oauth_db \<Rightarrow> bool" where
  "fresh_draw E dr d \<longleftrightarrow>
     dr_row dr \<notin> at_id ` set (od_access d) \<and> oe_hash E (dr_token dr) \<notin> at_token_hash ` set (od_access d) \<and>
     dr_row2 dr \<notin> rt_id ` set (od_refresh d) \<and> oe_hash E (dr_token2 dr) \<notin> rt_token_hash ` set (od_refresh d)"

lemma exchange_succeeds:
  assumes "code_find_by_hash (oe_hash E code) d = Some c" and "\<not> AuthCode_is_expired (dr_now dr) c" and "\<not> AuthCode_is_used c"
    and "tr_code tr = Some code" and "tr_redirect_uri tr = Some (ac_redirect_uri c)"
    and "tr_code_verifier tr = Some v" and "oe_challenge E v = ac_code_challenge c"
    and "client_find_by_id (ac_client_id c) d = Some cl" and "fresh_draw E dr d"
    and "access_token_expiry E (dr_now dr) (oc_access_token_ttl_seconds cl) = Some (expires, secs)"
    and "oe_add E (dr_now dr) (REFRESH_TOKEN_EXPIRES_DAYS * 86400) = Some rexp"
  shows "\<exists>d2. run (exchange_code E dr tr) [] d =
      (Inr \<lparr>tk_access_token = dr_token dr, tk_token_type = ''Bearer'', tk_expires_in = secs,
            tk_refresh_token = Some (dr_token2 dr), tk_scope = join_space (AuthCode_scopes c)\<rparr>, d2) \<and>
    od_clients d2 = od_clients d \<and>
    od_access d2 = od_access d @ [access_row (dr_row dr) (dr_now dr) \<lparr>cat_token_hash = oe_hash E (dr_token dr),
      cat_client_id = ac_client_id c, cat_user_id = ac_user_id c, cat_scopes = AuthCode_scopes c, cat_expires_at = expires\<rparr>]"
proof -
  let ?d = "code_mark_as_used (dr_now dr) (ac_id c) d"
  have d: "od_clients ?d = od_clients d" "od_access ?d = od_access d" "od_refresh ?d = od_refresh d"
    by (simp_all add: code_mark_as_used_def)
  have cl: "client_find_by_id (ac_client_id c) ?d = Some cl" "\<And>d'. od_clients d' = od_clients d \<Longrightarrow> client_find_by_id (ac_client_id c) d' = Some cl"
    using assms(8) by (simp_all add: client_find_by_id_def d)
  let ?cat = "\<lparr>cat_token_hash = oe_hash E (dr_token dr), cat_client_id = ac_client_id c, cat_user_id = ac_user_id c,
      cat_scopes = AuthCode_scopes c, cat_expires_at = expires\<rparr>"
  let ?a = "access_row (dr_row dr) (dr_now dr) ?cat"
  let ?d1 = "?d\<lparr>od_access := od_access d @ [?a]\<rparr>"
  let ?crt = "\<lparr>crt_token_hash = oe_hash E (dr_token2 dr), crt_client_id = ac_client_id c, crt_user_id = ac_user_id c,
      crt_scopes = AuthCode_scopes c, crt_access_token_id = Some (at_id ?a), crt_expires_at = rexp\<rparr>"
  have "\<not> list_ex (access_clash ?a) (od_access d)"
    using assms(9) by (auto simp: fresh_draw_def list_ex_iff access_clash_def access_row_def)
  then have ac: "access_create (dr_row dr) (dr_now dr) ?cat ?d = Some (?a, ?d1)"
    using cl(1) by (simp add: access_create_def Let_def sql_insert_def d)
  have "\<not> list_ex (refresh_clash (refresh_row (dr_row2 dr) (dr_now dr) ?crt)) (od_refresh d)"
    using assms(9) by (auto simp: fresh_draw_def list_ex_iff refresh_clash_def refresh_row_def)
  then obtain r d2 where rc: "refresh_create (dr_row2 dr) (dr_now dr) ?crt ?d1 = Some (r, d2)" "od_clients d2 = od_clients d"
      "od_access d2 = od_access d @ [?a]"
    using cl(2) [of ?d1] by (simp add: refresh_create_def Let_def sql_insert_def d)
  have "run (exchange_code E dr tr) [] d =
      (Inr \<lparr>tk_access_token = dr_token dr, tk_token_type = ''Bearer'', tk_expires_in = secs,
            tk_refresh_token = Some (dr_token2 dr), tk_scope = join_space (AuthCode_scopes c)\<rparr>, d2)"
    using assms(1-7,10,11) cl(1) ac rc(1) by (simp add: exchange_code_def new_access_token_def client_ttl_def with_date_def)
  then show ?thesis using rc(2,3) by blast
qed

lemma find_issued_row:
  assumes "od_access d = ts @ [a]" and "\<forall>x \<in> set ts. at_token_hash x \<noteq> at_token_hash a" and "distinct (map oc_id (od_clients d))"
    and "cl \<in> set (od_clients d)" and "at_client_id a = oc_id cl"
  shows "access_find_with_client (at_token_hash a) d = Some (token_with_client a cl)"
proof -
  have "filter (\<lambda>t. at_token_hash t = at_token_hash a) ts = []" using assms(2) by (simp add: filter_empty_conv)
  then show ?thesis using assms(1,5) filter_key [OF assms(3,4)] by (simp add: access_find_with_client_def)
qed

lemma gateway_accepts:
  assumes "access_find_with_client (oe_hash E secret) d = Some t" and "tok_revoked_at t = None" and "tok_client_is_active t"
    and "ae_db A = oauth_tables keys now0" and "ae_sha256_hex A = oe_hash E" and "detect_token_type secret = TokenType_OAuthToken"
  shows "(\<exists>st. validate_credential A now secret ip (s, d) = (Inr (Cred_OAuthToken t), st)) \<longleftrightarrow>
    now \<le> tok_expires_at t \<and> \<not> is_api_key_locked_out (ae_redis A) s ip"
  using assms
  by (auto simp: validate_credential_def validate_oauth_token_def Let_def oauth_tables_def OAuthToken_is_valid_def
      OAuthToken_is_expired_def OAuthToken_is_revoked_def)

text \<open>
  C24: The code flow, run alone and with no failing statement. A code answered to a consent request and presented next and in
  time, with its redirect address and the verifier of its challenge, is exchanged for tokens with the granted scopes. The gateway
  finds the access token as that user's, for that client's server, and as long as it finds the token's row and client as they were
  stored (not revoked by a refresh or otherwise, not deleted, the client still active), it accepts the token from every address
  that is not locked out until it expires, and neither from a locked-out address nor later. The identifiers and hashes drawn are
  to be new, the dates within the calendar, and the token's random text is not to begin with \<^verbatim>\<open>mcp_\<close>, by which the
  gateway tells API keys.
\<close>

theorem code_flow:
  assumes "run (authorize_code E dr u body) [] d = (Inr code, d1)"
    and "client_find_by_client_id (acr_client_id body) d = Some cl" and "oc_is_active cl"
    and "distinct (map oc_id (od_clients d))" and "oe_challenge E v = acr_code_challenge body"
    and "oe_add E (dr_now dr) (AUTH_CODE_EXPIRES_MINUTES * 60) = Some limit" and "dr_now dr2 \<le> limit"
    and "access_token_expiry E (dr_now dr2) (oc_access_token_ttl_seconds cl) = Some (expires, secs)"
    and "oe_add E (dr_now dr2) (REFRESH_TOKEN_EXPIRES_DAYS * 86400) = Some rexp" and "fresh_draw E dr2 d"
    and "tr_grant_type tr = ''authorization_code''" and "tr_code tr = Some code"
    and "tr_redirect_uri tr = Some (acr_redirect_uri body)" and "tr_code_verifier tr = Some v"
    and "ae_db A = oauth_tables keys now0" and "ae_sha256_hex A = oe_hash E"
    and "\<not> str_starts_with (dr_token dr2) ''mcp_''"
  shows "\<exists>resp d2 t. run (token E dr2 tr) [] d1 = (Inr resp, d2) \<and>
    tk_scope resp = join_space (granted_scopes (OAuthClient_scopes cl) (split_whitespace (acr_scope body))) \<and>
    tok_user_id t = u \<and> tok_oauth_client_id t = acr_client_id body \<and> tok_server_id t = oc_server_id cl \<and>
    OAuthToken_scopes t = granted_scopes (OAuthClient_scopes cl) (split_whitespace (acr_scope body)) \<and>
    access_find_with_client (oe_hash E (tk_access_token resp)) d2 = Some t \<and>
    (\<forall>d3. access_find_with_client (oe_hash E (tk_access_token resp)) d3 = Some t \<longrightarrow> (\<forall>now ip s.
      (\<exists>st. validate_credential A now (tk_access_token resp) ip (s, d3) = (Inr (Cred_OAuthToken t), st)) \<longleftrightarrow>
      now \<le> expires \<and> \<not> is_api_key_locked_out (ae_redis A) s ip))"
proof -
  note st = authorize_code_stores [OF assms(1,2,6)]
  let ?g = "granted_scopes (OAuthClient_scopes cl) (split_whitespace (acr_scope body))"
  obtain c where c: "code_find_by_hash (oe_hash E code) d1 = Some c" "ac_client_id c = oc_id cl" "ac_user_id c = u"
      "ac_redirect_uri c = acr_redirect_uri body" "ac_code_challenge c = acr_code_challenge body"
      "AuthCode_scopes c = ?g" "ac_expires_at c = limit" "\<not> AuthCode_is_used c"
    using st(5) by auto
  have cl: "cl \<in> set (od_clients d)" "oc_client_id cl = acr_client_id body"
    using assms(2) by (auto simp: client_find_by_client_id_def dest: find_Some_in)
  have id: "client_find_by_id (ac_client_id c) d1 = Some cl"
    unfolding client_find_by_id_def st(2) c(2) by (rule find_key [OF assms(4) cl(1)])
  have fr: "fresh_draw E dr2 d1" using assms(10) by (simp add: fresh_draw_def st(3,4))
  have time: "\<not> AuthCode_is_expired (dr_now dr2) c" using assms(7) c(7) by (simp add: AuthCode_is_expired_def)
  have tr: "tr_redirect_uri tr = Some (ac_redirect_uri c)" "oe_challenge E v = ac_code_challenge c"
    using assms(5,13) c(4,5) by simp_all
  let ?a = "access_row (dr_row dr2) (dr_now dr2) \<lparr>cat_token_hash = oe_hash E (dr_token dr2), cat_client_id = oc_id cl,
      cat_user_id = u, cat_scopes = ?g, cat_expires_at = expires\<rparr>"
  obtain d2 where run: "run (exchange_code E dr2 tr) [] d1 = (Inr \<lparr>tk_access_token = dr_token dr2, tk_token_type = ''Bearer'',
      tk_expires_in = secs, tk_refresh_token = Some (dr_token2 dr2), tk_scope = join_space ?g\<rparr>, d2)"
    and d2: "od_clients d2 = od_clients d" "od_access d2 = od_access d1 @ [?a]"
    using exchange_succeeds [OF c(1) time c(8) assms(12) tr(1) assms(14) tr(2) id fr assms(8,9)] unfolding st(2) c(2,3,6) by blast
  let ?t = "token_with_client ?a cl" and ?h = "oe_hash E (dr_token dr2)"
  have "\<forall>x \<in> set (od_access d1). at_token_hash x \<noteq> ?h" using fr by (force simp: fresh_draw_def)
  then have found: "access_find_with_client ?h d2 = Some ?t"
    using find_issued_row [OF d2(2), of cl] assms(4) cl(1) d2(1) by (simp add: access_row_def)
  have t: "tok_revoked_at ?t = None" "tok_client_is_active ?t" "tok_expires_at ?t = expires" "tok_user_id ?t = u"
      "tok_oauth_client_id ?t = acr_client_id body" "tok_server_id ?t = oc_server_id cl" "OAuthToken_scopes ?t = ?g"
    using assms(3) cl(2) by (simp_all add: token_with_client_def access_row_def OAuthToken_scopes_def json_strings_def json_string_list_def)
  have "detect_token_type (dr_token dr2) = TokenType_OAuthToken" using assms(17) by (simp add: detect_token_type_def)
  note accepted = gateway_accepts [OF _ t(1,2) assms(15,16) this]
  show ?thesis
    using run assms(11) found t accepted unfolding token_def
    by (intro exI [of _ "\<lparr>tk_access_token = dr_token dr2, tk_token_type = ''Bearer'', tk_expires_in = secs,
      tk_refresh_token = Some (dr_token2 dr2), tk_scope = join_space ?g\<rparr>"] exI [of _ d2] exI [of _ ?t]) simp
qed

section \<open>A sample run\<close>

definition sample_oauth :: "ref_store oauth_env" where
  "sample_oauth = \<lparr> oe_hash = (\<lambda>x. x), oe_challenge = (\<lambda>x. x), oe_add = (\<lambda>t s. Some (t + s)),
     oe_url = (\<lambda>_. Some (''https'', None)), oe_encode = (\<lambda>x. x), oe_show_uuid = (\<lambda>_. ''client''),
     oe_rfc3339 = show_int, oe_redis = ref_redis, oe_vars = (\<lambda>_. None), oe_frontend_url = [], oe_host_port = [],
     oe_db_error = [] \<rparr>"

definition sample_draw :: "uuid \<Rightarrow> string \<Rightarrow> string \<Rightarrow> draw" where
  "sample_draw i t t2 = \<lparr> dr_now = 0, dr_row = i, dr_row2 = i, dr_uuid = i, dr_token = t, dr_token2 = t2 \<rparr>"

definition sample_start :: "ref_store oauth_db" where
  "sample_start = \<lparr> od_workspaces = \<lparr>wd_workspaces = [], wd_members = []\<rparr>, od_clients = [], od_codes = [], od_access = [],
     od_refresh = [], od_redis = (True, \<lambda>_. None) \<rparr>"

definition sample_register :: oauth_request where
  "sample_register = Rq_Register (sample_draw 1 ''s'' ''s'') [] ''ip''
     \<lparr> rr_redirect_uris = [''uri''], rr_client_name = None, rr_token_endpoint_auth_method = ''none'',
       rr_grant_types = [], rr_response_types = [], rr_scope = Some ''tools:list'', rr_software_id = None, rr_software_version = None \<rparr>"

definition sample_consent :: oauth_request where
  "sample_consent = Rq_Authorize_Code (sample_draw 2 ''code'' ''x'') 7
     \<lparr> acr_response_type = ''code'', acr_client_id = ''client'', acr_redirect_uri = ''uri'', acr_code_challenge = ''v'',
       acr_code_challenge_method = ''S256'', acr_scope = ''*'' \<rparr>"

definition sample_token_request :: TokenRequest where
  "sample_token_request = \<lparr> tr_grant_type = ''authorization_code'', tr_code = Some ''code'', tr_redirect_uri = Some ''uri'',
     tr_code_verifier = Some ''v'', tr_refresh_token = None, tr_client_id = None, tr_client_secret = None \<rparr>"

definition sample_exchange :: oauth_request where
  "sample_exchange = Rq_Token (sample_draw 3 ''access'' ''refresh'') sample_token_request"

definition sample_client :: OAuthClient where
  "sample_client = \<lparr> oc_id = 1, oc_client_id = ''client'', oc_client_secret_hash = None, oc_client_name = ''Dynamic Client'',
     oc_redirect_uris = json_strings [''uri''], oc_grant_types = json_strings [], oc_token_endpoint_auth_method = ''none'',
     oc_workspace_id = None, oc_server_id = None, oc_scopes = json_strings [''tools:list''], oc_is_active = True,
     oc_is_dynamic = True, oc_software_id = None, oc_software_version = None,
     oc_access_token_ttl_seconds = Some DEFAULT_ACCESS_TOKEN_TTL_SECONDS, oc_created_at = 0, oc_updated_at = 0 \<rparr>"

definition sample_registered :: "ref_store oauth_db" where
  "sample_registered = sample_start\<lparr>od_clients := [sample_client],
     od_redis := (True, [''oauth_register_rate:ip'' \<mapsto> (RInt 1, Some 3600)])\<rparr>"

lemma words_of_sample: "split_whitespace ''tools:list'' = [''tools:list'']" "split_whitespace ''*'' = [''*'']"
  by (simp_all add: split_whitespace.simps ws_len_def split: if_splits)

lemma run_sample_register:
  "\<exists>r. run (oauth_handle sample_oauth sample_register) [] sample_start = (r, sample_registered)"
  by (simp add: sample_register_def register_client_def od_count_def count_script_def sample_start_def sample_oauth_def
      api_client_ip_def env_true_def ref_redis_def ref_incr_def is_valid_redirect_uri_def client_create_def Let_def
      sql_insert_def client_row_def register_client_data_def words_of_sample sample_draw_def sample_registered_def sample_client_def)


definition sample_code :: OAuthAuthorizationCode where
  "sample_code = \<lparr> ac_id = 2, ac_code_hash = ''code'', ac_client_id = 1, ac_user_id = 7, ac_redirect_uri = ''uri'',
     ac_scopes = json_strings [''tools:list''], ac_code_challenge = ''v'', ac_code_challenge_method = ''S256'',
     ac_expires_at = 600, ac_used_at = None, ac_created_at = 0 \<rparr>"

definition sample_consented :: "ref_store oauth_db" where
  "sample_consented = sample_registered\<lparr>od_codes := [sample_code]\<rparr>"

lemma run_sample_consent:
  "run (oauth_handle sample_oauth sample_consent) [] sample_registered = (Rp_Code (Inr ''code''), sample_consented)"
  by (simp add: sample_consent_def authorize_code_def client_find_by_client_id_def client_find_by_id_def sample_registered_def
      sample_start_def sample_client_def sample_oauth_def is_redirect_uri_valid_def OAuthClient_redirect_uris_def
      OAuthClient_scopes_def words_of_sample refused_scope_def granted_scopes_def with_date_def AUTH_CODE_EXPIRES_MINUTES_def
      code_create_def Let_def sql_insert_def code_row_def sample_draw_def sample_consented_def sample_code_def)

definition sample_access :: OAuthAccessToken where
  "sample_access = \<lparr> at_id = 3, at_token_hash = ''access'', at_client_id = 1, at_user_id = 7, at_scopes = json_strings [''tools:list''],
     at_expires_at = 2592000, at_revoked_at = None, at_last_used_at = None, at_created_at = 0 \<rparr>"

definition sample_refresh :: OAuthRefreshToken where
  "sample_refresh = \<lparr> rt_id = 3, rt_token_hash = ''refresh'', rt_client_id = 1, rt_user_id = 7, rt_scopes = json_strings [''tools:list''],
     rt_access_token_id = Some 3, rt_expires_at = 2592000, rt_revoked_at = None, rt_created_at = 0 \<rparr>"

definition sample_issued :: "ref_store oauth_db" where
  "sample_issued = sample_consented\<lparr>od_codes := [sample_code\<lparr>ac_used_at := Some 0\<rparr>], od_access := [sample_access],
     od_refresh := [sample_refresh]\<rparr>"

definition sample_response :: TokenResponse where
  "sample_response = \<lparr> tk_access_token = ''access'', tk_token_type = ''Bearer'', tk_expires_in = 2592000,
     tk_refresh_token = Some ''refresh'', tk_scope = ''tools:list'' \<rparr>"

lemma default_ttl: "sint DEFAULT_ACCESS_TOKEN_TTL_SECONDS = 2592000"
  by (simp add: DEFAULT_ACCESS_TOKEN_TTL_SECONDS_def)

lemma run_sample_token:
  "run (token sample_oauth (sample_draw 3 ''access'' ''refresh'') sample_token_request) [] sample_consented
     = (Inr sample_response, sample_issued)"
  by (simp add: sample_token_request_def token_def exchange_code_def code_find_by_hash_def
      AuthCode_is_expired_def AuthCode_is_used_def code_mark_as_used_def sql_update_def new_access_token_def client_ttl_def
      client_find_by_id_def access_token_expiry_def default_ttl with_date_def access_create_def Let_def sql_insert_def access_row_def
      refresh_create_def refresh_row_def AuthCode_scopes_def REFRESH_TOKEN_EXPIRES_DAYS_def sample_oauth_def sample_draw_def
      sample_consented_def sample_code_def sample_registered_def sample_start_def sample_client_def sample_issued_def
      sample_access_def sample_refresh_def sample_response_def)

lemma run_sample_exchange:
  "run (oauth_handle sample_oauth sample_exchange) [] sample_consented = (Rp_Token (Inr sample_response), sample_issued)"
  by (simp add: sample_exchange_def run_sample_token)

definition sample_requests :: "oauth_request list" where
  "sample_requests = [sample_register, sample_consent, sample_exchange]"

lemmas sample_run = serves_run [where handle = "oauth_handle sample_oauth" and start = sample_start]

lemma sample_serves:
  "\<exists>r. serves (oauth_handle sample_oauth) sample_start
     (sample_issued, [(sample_register, Return r), (sample_consent, Return (Rp_Code (Inr ''code''))),
                      (sample_exchange, Return (Rp_Token (Inr sample_response)))])"
proof -
  obtain r where r: "run (oauth_handle sample_oauth sample_register) [] sample_start = (r, sample_registered)"
    using run_sample_register by blast
  have "serves (oauth_handle sample_oauth) sample_start (sample_registered, [] @ [(sample_register, Return r)])"
    by (rule sample_run [where ts = "[]", OF serves_start r])
  from sample_run [OF sample_run [OF this run_sample_consent] run_sample_exchange] show ?thesis by auto
qed

definition sample_gateway_auth :: "(ref_store, ref_store oauth_db) auth_env" where
  "sample_gateway_auth = \<lparr> ae_redis = ref_redis, ae_serde = ref_key_serde, ae_db = oauth_tables (\<lambda>_ _. Inr None) 0,
     ae_brute_force = BruteForceConfig_default (\<lambda>_. None), ae_sha256_hex = (\<lambda>x. x) \<rparr>"

lemma sample_accepted:
  "\<exists>st. validate_credential sample_gateway_auth 0 ''access'' ''ip'' ((True, \<lambda>_. None), sample_issued)
     = (Inr (Cred_OAuthToken (token_with_client sample_access sample_client)), st)"
  by (simp add: sample_gateway_auth_def validate_credential_def detect_token_type_def str_starts_with_def validate_oauth_token_def
      Let_def is_api_key_locked_out_def ref_redis_def oauth_tables_def access_find_with_client_def sample_issued_def
      sample_consented_def sample_registered_def sample_start_def sample_access_def sample_client_def token_with_client_def
      OAuthToken_is_valid_def OAuthToken_is_expired_def OAuthToken_is_revoked_def)


text \<open>
  Two exchanges of one code. Looking the code up and marking it are two statements: two requests that
  both look before either marks are both answered with tokens.
\<close>

definition sample_second :: oauth_request where
  "sample_second = Rq_Token (sample_draw 4 ''access2'' ''refresh2'') sample_token_request"

lemma sample_second_rest:
  "\<exists>resp d. run (resume (oauth_handle sample_oauth sample_second) sample_consented) [] sample_issued = (Rp_Token (Inr resp), d) \<and>
     length (od_access d) = 2"
  by (simp add: sample_second_def sample_token_request_def token_def exchange_code_def code_find_by_hash_def
      AuthCode_is_expired_def AuthCode_is_used_def code_mark_as_used_def sql_update_def new_access_token_def client_ttl_def
      client_find_by_id_def access_token_expiry_def default_ttl with_date_def access_create_def Let_def sql_insert_def
      access_clash_def access_row_def refresh_clash_def
      refresh_create_def refresh_row_def AuthCode_scopes_def REFRESH_TOKEN_EXPIRES_DAYS_def sample_oauth_def sample_draw_def
      sample_consented_def sample_code_def sample_registered_def sample_start_def sample_client_def sample_issued_def
      sample_access_def sample_refresh_def)

lemma code_race:
  "\<exists>d ts resp. serves (oauth_handle sample_oauth) sample_start (d, ts) \<and>
     answered ts sample_exchange (Rp_Token (Inr sample_response)) \<and> answered ts sample_second (Rp_Token (Inr resp)) \<and>
     length (od_access d) = 2"
proof -
  let ?p = "oauth_handle sample_oauth sample_second"
  obtain r where r: "run (oauth_handle sample_oauth sample_register) [] sample_start = (r, sample_registered)"
    using run_sample_register by blast
  let ?ts = "[(sample_register, Return r), (sample_consent, Return (Rp_Code (Inr ''code'')))]"
  have "serves (oauth_handle sample_oauth) sample_start (sample_registered, [] @ [(sample_register, Return r)])"
    by (rule sample_run [where ts = "[]", OF serves_start r])
  from serves_arrive [OF sample_run [OF this run_sample_consent], where q = sample_second]
  have "serves (oauth_handle sample_oauth) sample_start (sample_consented, ?ts @ [(sample_second, ?p)])" by simp
  from serves_step [OF this, of 2 sample_second ?p]
  have "serves (oauth_handle sample_oauth) sample_start (sample_consented, ?ts @ [(sample_second, resume ?p sample_consented)])"
    by (simp add: sample_second_def token_def exchange_code_def sample_token_request_def)
  from sample_run [OF this run_sample_exchange]
  have two: "serves (oauth_handle sample_oauth) sample_start (sample_issued, ?ts @ [(sample_second, resume ?p sample_consented),
      (sample_exchange, Return (Rp_Token (Inr sample_response)))])" by simp
  obtain resp d where "run (resume ?p sample_consented) [] sample_issued = (Rp_Token (Inr resp), d)" and "length (od_access d) = 2"
    using sample_second_rest by blast
  from serves_rest [OF two, of 2 sample_second _ "[]"] this(1)
  have "serves (oauth_handle sample_oauth) sample_start (d, ?ts @ [(sample_second, Return (Rp_Token (Inr resp))),
      (sample_exchange, Return (Rp_Token (Inr sample_response)))])" by simp
  then show ?thesis using \<open>length (od_access d) = 2\<close>
    by (intro exI conjI) (auto simp: answered_def)
qed


text \<open>The properties at that run.\<close>

lemma accepted_token_consented_witness:
  "\<exists>ts t st dr body. serves (oauth_handle sample_oauth) sample_start (sample_issued, ts) \<and>
     validate_credential sample_gateway_auth 0 ''access'' ''ip'' ((True, \<lambda>_. None), sample_issued) = (Inr (Cred_OAuthToken t), st) \<and>
     Rq_Authorize_Code dr (tok_user_id t) body \<in> set (requests ts)"
proof -
  obtain ts where s: "serves (oauth_handle sample_oauth) sample_start (sample_issued, ts)" using sample_serves by blast
  obtain st where v: "validate_credential sample_gateway_auth 0 ''access'' ''ip'' ((True, \<lambda>_. None), sample_issued)
     = (Inr (Cred_OAuthToken (token_with_client sample_access sample_client)), st)" using sample_accepted by blast
  have "ae_db sample_gateway_auth = oauth_tables (\<lambda>_ _. Inr None) 0" by (simp add: sample_gateway_auth_def)
  from accepted_token_consented [OF s _ _ _ _ this v] s v show ?thesis by (auto simp: sample_start_def)
qed

lemma token_answer_proves_possession_witness:
  "\<exists>ts i u scopes. serves (oauth_handle sample_oauth) sample_start (sample_issued, ts) \<and>
     exchanged sample_oauth (set (requests ts)) (sample_draw 3 ''access'' ''refresh'') sample_token_request i u scopes"
proof -
  obtain r where s: "serves (oauth_handle sample_oauth) sample_start
     (sample_issued, [(sample_register, Return r), (sample_consent, Return (Rp_Code (Inr ''code''))),
                      (sample_exchange, Return (Rp_Token (Inr sample_response)))])" (is "serves _ _ (_, ?ts)")
    using sample_serves by blast
  have "answered ?ts (Rq_Token (sample_draw 3 ''access'' ''refresh'') sample_token_request) (Rp_Token (Inr sample_response))"
    by (simp add: answered_def sample_exchange_def)
  from token_answer_proves_possession [OF s _ _ _ _ this] s show ?thesis
    by (auto simp: sample_start_def sample_token_request_def)
qed

definition sample_owner :: WorkspaceMember where
  "sample_owner = \<lparr>wm_workspace_id = 5, wm_user_id = 9, wm_role = ''owner'', wm_created_at = 0\<rparr>"

definition sample_two_clients :: "ref_store oauth_db" where
  "sample_two_clients = sample_issued\<lparr>od_workspaces := \<lparr>wd_workspaces = [], wd_members = [sample_owner]\<rparr>,
     od_clients := [sample_client, sample_client\<lparr>oc_id := 8, oc_client_id := ''other'', oc_workspace_id := Some 5\<rparr>]\<rparr>"

lemma run_sample_delete:
  "run (oauth_handle sample_oauth (Rq_Delete (sample_draw 6 [] []) 9 5 8)) [] sample_two_clients
     = (Rp_Status (Inr 204), client_delete 8 (refresh_revoke_by_client 0 8 (access_revoke_by_client 0 8 sample_two_clients)))"
  by (simp add: delete_client_def require_editor_def od_get_member_def get_member_def sample_two_clients_def sample_owner_def
      WorkspaceMember_role_def WorkspaceRole_of_str_def client_find_by_id_def sample_client_def revoke_client_tokens_def sample_draw_def)

lemma client_deletion_final_witness:
  "\<exists>t st. validate_credential sample_gateway_auth 0 ''access'' ''ip''
       ((True, \<lambda>_. None), client_delete 8 (refresh_revoke_by_client 0 8 (access_revoke_by_client 0 8 sample_two_clients)))
       = (Inr (Cred_OAuthToken t), st) \<and> tok_client_id t \<noteq> 8"
proof -
  let ?q = "Rq_Delete (sample_draw 6 [] []) 9 5 8"
  let ?d = "client_delete 8 (refresh_revoke_by_client 0 8 (access_revoke_by_client 0 8 sample_two_clients))"
  have s: "serves (oauth_handle sample_oauth) sample_two_clients (?d, [] @ [(?q, Return (Rp_Status (Inr 204)))])"
    by (rule serves_run [where handle = "oauth_handle sample_oauth" and ts = "[]", OF serves_start run_sample_delete])
  have v: "\<exists>st. validate_credential sample_gateway_auth 0 ''access'' ''ip'' ((True, \<lambda>_. None), ?d)
     = (Inr (Cred_OAuthToken (token_with_client sample_access sample_client)), st)"
    by (simp add: sample_gateway_auth_def validate_credential_def detect_token_type_def str_starts_with_def validate_oauth_token_def
      Let_def is_api_key_locked_out_def ref_redis_def oauth_tables_def access_find_with_client_def sample_issued_def
      client_delete_def refresh_revoke_by_client_def access_revoke_by_client_def sql_update_def sql_delete_def sample_two_clients_def
      sample_consented_def sample_registered_def sample_start_def sample_access_def sample_client_def token_with_client_def
      OAuthToken_is_valid_def OAuthToken_is_expired_def OAuthToken_is_revoked_def)
  have db: "ae_db sample_gateway_auth = oauth_tables (\<lambda>_ _. Inr None) 0" by (simp add: sample_gateway_auth_def)
  show ?thesis using v client_deletion_final [OF s _ _ db, of "sample_draw 6 [] []" 9 5 8 0 "''access''" "''ip''" "(True, \<lambda>_. None)"]
    by (auto simp: answered_def requests_def)
qed

lemma run_sample_token_fates:
  "run (token sample_oauth (sample_draw 3 ''access'' ''refresh'') sample_token_request) (Runs # Runs # []) sample_consented
     = (Inr sample_response, sample_issued)"
  by (simp add: sample_token_request_def token_def exchange_code_def code_find_by_hash_def
      AuthCode_is_expired_def AuthCode_is_used_def code_mark_as_used_def sql_update_def new_access_token_def client_ttl_def
      client_find_by_id_def access_token_expiry_def default_ttl with_date_def access_create_def Let_def sql_insert_def access_row_def
      refresh_create_def refresh_row_def AuthCode_scopes_def REFRESH_TOKEN_EXPIRES_DAYS_def sample_oauth_def sample_draw_def
      sample_consented_def sample_code_def sample_registered_def sample_start_def sample_client_def sample_issued_def
      sample_access_def sample_refresh_def sample_response_def)

lemma code_single_use_witness:
  "\<exists>e. fst (run (token sample_oauth (sample_draw 4 ''a'' ''b'') sample_token_request) [Runs, Lost] sample_issued) = Inl e"
  by (rule code_single_use [OF run_sample_token_fates]) (simp_all add: sample_token_request_def)

lemma code_flow_witness:
  "\<exists>resp d2 t. run (token sample_oauth (sample_draw 3 ''access'' ''refresh'') sample_token_request) [] sample_consented = (Inr resp, d2) \<and>
    (\<exists>st. validate_credential sample_gateway_auth 100 (tk_access_token resp) ''ip'' ((True, \<lambda>_. None), d2) = (Inr (Cred_OAuthToken t), st)) \<and>
    (\<nexists>st. validate_credential sample_gateway_auth 2592001 (tk_access_token resp) ''ip'' ((True, \<lambda>_. None), d2) = (Inr (Cred_OAuthToken t), st)) \<and>
    OAuthToken_scopes t = [''tools:list'']"
proof -
  let ?body = "\<lparr> acr_response_type = ''code'', acr_client_id = ''client'', acr_redirect_uri = ''uri'', acr_code_challenge = ''v'',
       acr_code_challenge_method = ''S256'', acr_scope = ''*'' \<rparr>"
  let ?dr2 = "sample_draw 3 ''access'' ''refresh''"
  have code: "run (authorize_code sample_oauth (sample_draw 2 ''code'' ''x'') 7 ?body) [] sample_registered = (Inr ''code'', sample_consented)"
    using run_sample_consent by (auto simp: sample_consent_def map_prod_def split: prod.splits)
  have cl: "client_find_by_client_id (acr_client_id ?body) sample_registered = Some sample_client" "oc_is_active sample_client"
    "distinct (map oc_id (od_clients sample_registered))" "OAuthClient_scopes sample_client = [''tools:list'']"
    by (simp_all add: client_find_by_client_id_def sample_registered_def sample_start_def sample_client_def OAuthClient_scopes_def)
  have E: "oe_challenge sample_oauth ''v'' = acr_code_challenge ?body"
    "oe_add sample_oauth (dr_now (sample_draw 2 ''code'' ''x'')) (AUTH_CODE_EXPIRES_MINUTES * 60) = Some 600" "dr_now ?dr2 \<le> 600"
    "access_token_expiry sample_oauth (dr_now ?dr2) (oc_access_token_ttl_seconds sample_client) = Some (2592000, 2592000)"
    "oe_add sample_oauth (dr_now ?dr2) (REFRESH_TOKEN_EXPIRES_DAYS * 86400) = Some 2592000"
    by (simp_all add: sample_oauth_def sample_draw_def AUTH_CODE_EXPIRES_MINUTES_def REFRESH_TOKEN_EXPIRES_DAYS_def
        access_token_expiry_def default_ttl sample_client_def)
  have fr: "fresh_draw sample_oauth ?dr2 sample_registered"
    by (simp add: fresh_draw_def sample_registered_def sample_start_def)
  have tr: "tr_grant_type sample_token_request = ''authorization_code''" "tr_code sample_token_request = Some ''code''"
    "tr_redirect_uri sample_token_request = Some (acr_redirect_uri ?body)" "tr_code_verifier sample_token_request = Some ''v''"
    by (simp_all add: sample_token_request_def)
  have A: "ae_db sample_gateway_auth = oauth_tables (\<lambda>_ _. Inr None) 0" "ae_sha256_hex sample_gateway_auth = oe_hash sample_oauth"
    "\<not> str_starts_with (dr_token ?dr2) ''mcp_''"
    by (simp_all add: sample_gateway_auth_def sample_oauth_def sample_draw_def str_starts_with_def)
  have free: "\<not> is_api_key_locked_out (ae_redis sample_gateway_auth) (True, \<lambda>_. None) ''ip''"
    by (simp add: sample_gateway_auth_def is_api_key_locked_out_def ref_redis_def)
  have scopes: "granted_scopes (OAuthClient_scopes sample_client) (split_whitespace ''*'') = [''tools:list'']"
    by (simp add: cl(4) words_of_sample granted_scopes_def)
  obtain resp d2 t where r: "run (token sample_oauth ?dr2 sample_token_request) [] sample_consented = (Inr resp, d2)"
      "OAuthToken_scopes t = granted_scopes (OAuthClient_scopes sample_client) (split_whitespace (acr_scope ?body))"
      "access_find_with_client (oe_hash sample_oauth (tk_access_token resp)) d2 = Some t"
      "\<forall>d3. access_find_with_client (oe_hash sample_oauth (tk_access_token resp)) d3 = Some t \<longrightarrow> (\<forall>now ip s.
        (\<exists>st. validate_credential sample_gateway_auth now (tk_access_token resp) ip (s, d3) = (Inr (Cred_OAuthToken t), st)) \<longleftrightarrow>
        now \<le> 2592000 \<and> \<not> is_api_key_locked_out (ae_redis sample_gateway_auth) s ip)"
    using code_flow [OF code cl(1-3) E fr tr A] by (elim exE conjE) (rule that; assumption)
  note accepted = r(4) [rule_format, OF r(3)]
  show ?thesis
    using r(1,2) accepted [of 100 "''ip''" "(True, \<lambda>_. None)"] accepted [of 2592001 "''ip''" "(True, \<lambda>_. None)"] free scopes
    by (intro exI [of _ resp] exI [of _ d2] exI [of _ t]) simp
qed

section \<open>Weak points\<close>

text \<open>
  A member of any workspace registers a client for any server: the request's server is stored without a
  look at whose it is. With \<open>code_flow\<close>, its tokens then name that server, which is all the gateway
  compares.
\<close>

lemma client_for_any_server:
  assumes "od_get_member w u d = Some m" and "WorkspaceMember_role m \<noteq> Role_Viewer"
    and "dr_row dr \<notin> oc_id ` set (od_clients d)" and "oe_show_uuid E (dr_uuid dr) \<notin> oc_client_id ` set (od_clients d)"
  shows "\<exists>resp cl d'. run (create_client E dr u w body) [] d = (Inr resp, d') \<and> cl \<in> set (od_clients d') \<and>
    oc_server_id cl = cr_server_id body \<and> oc_workspace_id cl = Some w"
proof -
  let ?row = "client_row (dr_row dr) (dr_now dr) (create_client_data E dr w body)"
  have "\<not> list_ex (client_clash ?row) (od_clients d)"
    using assms(3,4) by (auto simp: list_ex_iff client_clash_def client_row_def create_client_data_def)
  then have "client_create (dr_row dr) (dr_now dr) (create_client_data E dr w body) d = Some (?row, d\<lparr>od_clients := od_clients d @ [?row]\<rparr>)"
    by (simp add: client_create_def Let_def sql_insert_def)
  moreover have "oc_server_id ?row = cr_server_id body" "oc_workspace_id ?row = Some w"
    by (simp_all add: client_row_def create_client_data_def)
  ultimately show ?thesis using assms(1,2)
    by (intro exI [of _ "client_response E (Some (dr_token dr)) ?row"] exI [of _ ?row] exI [of _ "d\<lparr>od_clients := od_clients d @ [?row]\<rparr>"])
      (simp add: create_client_def require_editor_def)
qed

text \<open>
  A lifetime whose end is out of the date range (nothing bounds the days a client asks for) panics the
  exchange after the code was marked as used.
\<close>

lemma unbounded_lifetime_panics:
  assumes "code_find_by_hash (oe_hash E code) d = Some c" and "\<not> AuthCode_is_expired (dr_now dr) c" and "\<not> AuthCode_is_used c"
    and "tr_code tr = Some code" and "tr_redirect_uri tr = Some (ac_redirect_uri c)"
    and "tr_code_verifier tr = Some v" and "oe_challenge E v = ac_code_challenge c"
    and "client_find_by_id (ac_client_id c) d = Some cl"
    and "access_token_expiry E (dr_now dr) (oc_access_token_ttl_seconds cl) = None"
  shows "run (exchange_code E dr tr) [] d = (Inl Panic, code_mark_as_used (dr_now dr) (ac_id c) d)"
proof -
  have "client_find_by_id (ac_client_id c) (code_mark_as_used (dr_now dr) (ac_id c) d) = Some cl"
    using assms(8) by (simp add: client_find_by_id_def code_mark_as_used_def)
  then show ?thesis using assms(1-7,9) by (simp add: exchange_code_def new_access_token_def client_ttl_def with_date_def)
qed

end
