(* ===== verification/User_Repo.thy ===== *)
theory User_Repo
  imports Rust_Prelude Sql
begin

text \<open>
  Users and their e-mail tokens (\<^verbatim>\<open>crates/db/src/models/user.rs\<close>,
  \<^verbatim>\<open>crates/db/src/repositories/user_repo.rs\<close>). A row of \<^verbatim>\<open>users\<close> has every column; \<^verbatim>\<open>User\<close> is what most queries
  return of it. The constraints kept are the unique e-mail address, GitHub and Google identifiers, the
  requirement of some way to authenticate, the unique token hash and the deletion of a user's tokens.
\<close>

section \<open>Rows\<close>

datatype AuthProvider = Provider_GitHub | Provider_Google | Provider_Email

fun AuthProvider_display :: "AuthProvider \<Rightarrow> string" where
  "AuthProvider_display Provider_GitHub = ''github''"
| "AuthProvider_display Provider_Google = ''google''"
| "AuthProvider_display Provider_Email = ''email''"

text \<open>\<open>lower\<close> is \<^verbatim>\<open>str::to_lowercase\<close>.\<close>

definition AuthProvider_of_str :: "(string \<Rightarrow> string) \<Rightarrow> string \<Rightarrow> string + AuthProvider" where
  "AuthProvider_of_str lower s =
     (if lower s = ''github'' then Inr Provider_GitHub
      else if lower s = ''google'' then Inr Provider_Google
      else if lower s = ''email'' then Inr Provider_Email
      else Inl (''Unknown auth provider: '' @ s))"

record User =
  us_id :: uuid
  us_github_id :: "64 word option"
  us_google_id :: "string option"
  us_email :: string
  us_name :: string
  us_avatar_url :: "string option"
  us_is_admin :: bool
  us_email_verified :: bool
  us_auth_provider :: string
  us_created_at :: timestamp
  us_updated_at :: timestamp

record UserWithToken = User +
  us_password_hash :: "string option"
  us_github_access_token_encrypted :: "bytes option"
  us_github_access_token_nonce :: "bytes option"

definition get_auth_provider :: "(string \<Rightarrow> string) \<Rightarrow> User \<Rightarrow> AuthProvider" where
  "get_auth_provider lower u =
     (case AuthProvider_of_str lower (us_auth_provider u) of Inl _ \<Rightarrow> Provider_GitHub | Inr p \<Rightarrow> p)"

datatype EmailTokenType = EmailVerification | PasswordReset

fun EmailTokenType_display :: "EmailTokenType \<Rightarrow> string" where
  "EmailTokenType_display EmailVerification = ''verification''"
| "EmailTokenType_display PasswordReset = ''password_reset''"

definition EmailTokenType_of_str :: "string \<Rightarrow> string + EmailTokenType" where
  "EmailTokenType_of_str s =
     (if s = ''verification'' then Inr EmailVerification
      else if s = ''password_reset'' then Inr PasswordReset
      else Inl (''Unknown token type: '' @ s))"

record EmailVerificationToken =
  et_id :: uuid
  et_user_id :: uuid
  et_token_hash :: string
  et_token_type :: string
  et_expires_at :: timestamp
  et_created_at :: timestamp
  et_used_at :: "timestamp option"

record user_db =
  ud_users :: "UserWithToken list"
  ud_tokens :: "EmailVerificationToken list"


section \<open>Users\<close>

definition as_user :: "UserWithToken \<Rightarrow> User" where
  "as_user u = User.truncate u"

definition user_by :: "(UserWithToken \<Rightarrow> bool) \<Rightarrow> user_db \<Rightarrow> User option" where
  "user_by P d = map_option as_user (find P (ud_users d))"

definition user_find_by_id :: "uuid \<Rightarrow> user_db \<Rightarrow> User option" where
  "user_find_by_id i = user_by (\<lambda>u. us_id u = i)"

definition user_is_admin :: "uuid \<Rightarrow> user_db \<Rightarrow> bool" where
  "user_is_admin i d = unwrap_or (map_option us_is_admin (find (\<lambda>u. us_id u = i) (ud_users d))) False"

definition user_find_by_github_id :: "64 word \<Rightarrow> user_db \<Rightarrow> User option" where
  "user_find_by_github_id g = user_by (\<lambda>u. us_github_id u = Some g)"

definition user_find_by_google_id :: "string \<Rightarrow> user_db \<Rightarrow> User option" where
  "user_find_by_google_id g = user_by (\<lambda>u. us_google_id u = Some g)"

definition user_find_by_email :: "string \<Rightarrow> user_db \<Rightarrow> User option" where
  "user_find_by_email email = user_by (\<lambda>u. us_email u = email)"

definition user_row ::
  "uuid \<Rightarrow> timestamp \<Rightarrow> 64 word option \<Rightarrow> string option \<Rightarrow> string \<Rightarrow> string \<Rightarrow> string option \<Rightarrow> bool \<Rightarrow> string \<Rightarrow>
   string option \<Rightarrow> UserWithToken" where
  "user_row fresh now github_id google_id email name avatar_url verified provider password_hash = \<lparr>
     us_id = fresh, us_github_id = github_id, us_google_id = google_id, us_email = email, us_name = name,
     us_avatar_url = avatar_url, us_is_admin = False, us_email_verified = verified, us_auth_provider = provider,
     us_created_at = now, us_updated_at = now, us_password_hash = password_hash,
     us_github_access_token_encrypted = None, us_github_access_token_nonce = None \<rparr>"

definition opt_clash :: "'a option \<Rightarrow> 'a option \<Rightarrow> bool" where
  "opt_clash x y \<longleftrightarrow> x \<noteq> None \<and> x = y"

definition user_clash :: "UserWithToken \<Rightarrow> UserWithToken \<Rightarrow> bool" where
  "user_clash u v \<longleftrightarrow> us_id u = us_id v \<or> us_email u = us_email v \<or> opt_clash (us_github_id u) (us_github_id v) \<or>
     opt_clash (us_google_id u) (us_google_id v)"

definition has_auth_method :: "UserWithToken \<Rightarrow> bool" where
  "has_auth_method u \<longleftrightarrow> us_github_id u \<noteq> None \<or> us_google_id u \<noteq> None \<or> us_password_hash u \<noteq> None"

definition user_insert :: "UserWithToken \<Rightarrow> user_db \<Rightarrow> (User \<times> user_db) option" where
  "user_insert u d =
     (if has_auth_method u
      then map_option (\<lambda>t. (as_user u, d\<lparr>ud_users := t\<rparr>)) (sql_insert user_clash u (ud_users d)) else None)"

definition create_from_github ::
  "uuid \<Rightarrow> timestamp \<Rightarrow> 64 word \<Rightarrow> string \<Rightarrow> string \<Rightarrow> string option \<Rightarrow> user_db \<Rightarrow> (User \<times> user_db) option" where
  "create_from_github fresh now github_id email name avatar_url =
     user_insert (user_row fresh now (Some github_id) None email name avatar_url True ''github'' None)"

definition create_from_google ::
  "uuid \<Rightarrow> timestamp \<Rightarrow> string \<Rightarrow> string \<Rightarrow> string \<Rightarrow> string option \<Rightarrow> user_db \<Rightarrow> (User \<times> user_db) option" where
  "create_from_google fresh now google_id email name avatar_url =
     user_insert (user_row fresh now None (Some google_id) email name avatar_url True ''google'' None)"

definition create_from_email ::
  "uuid \<Rightarrow> timestamp \<Rightarrow> string \<Rightarrow> string \<Rightarrow> string \<Rightarrow> user_db \<Rightarrow> (User \<times> user_db) option" where
  "create_from_email fresh now email name password_hash =
     user_insert (user_row fresh now None None email name None False ''email'' (Some password_hash))"

text \<open>
  \<^verbatim>\<open>UPDATE users SET .. WHERE ..\<close>: it fails when an updated row clashes with another one, and \<^verbatim>\<open>fetch_one\<close>
  fails when no row matched. \<open>user_change\<close> is the update without a returned row.
\<close>

definition users_apart :: "UserWithToken list \<Rightarrow> bool" where
  "users_apart t \<longleftrightarrow> distinct (map us_id t) \<and> distinct (map us_email t) \<and>
     distinct (List.map_filter us_github_id t) \<and> distinct (List.map_filter us_google_id t)"

definition user_change ::
  "(UserWithToken \<Rightarrow> bool) \<Rightarrow> (UserWithToken \<Rightarrow> UserWithToken) \<Rightarrow> user_db \<Rightarrow> (unit \<times> user_db) option" where
  "user_change P f d =
     (let t = sql_update P f (ud_users d)
      in if users_apart t \<and> list_all has_auth_method t then Some ((), d\<lparr>ud_users := t\<rparr>) else None)"

definition user_update_one ::
  "(UserWithToken \<Rightarrow> bool) \<Rightarrow> (UserWithToken \<Rightarrow> UserWithToken) \<Rightarrow> user_db \<Rightarrow> (User \<times> user_db) option" where
  "user_update_one P f d =
     (case find P (ud_users d) of
        None \<Rightarrow> None
      | Some u \<Rightarrow> map_option (\<lambda>(_, d'). (as_user (f u), d')) (user_change P f d))"

definition user_update ::
  "timestamp \<Rightarrow> uuid \<Rightarrow> string option \<Rightarrow> string option \<Rightarrow> string option \<Rightarrow> user_db \<Rightarrow> (User \<times> user_db) option" where
  "user_update now i email name avatar_url =
     user_update_one (\<lambda>u. us_id u = i)
       (\<lambda>u. u\<lparr>us_email := unwrap_or email (us_email u), us_name := unwrap_or name (us_name u),
              us_avatar_url := or_else avatar_url (us_avatar_url u), us_updated_at := now\<rparr>)"

text \<open>\<^verbatim>\<open>INSERT .. ON CONFLICT (github_id) DO UPDATE\<close>; a clash on another column is an error.\<close>

definition upsert_from_github ::
  "uuid \<Rightarrow> timestamp \<Rightarrow> 64 word \<Rightarrow> string \<Rightarrow> string \<Rightarrow> string option \<Rightarrow> user_db \<Rightarrow> (User \<times> user_db) option" where
  "upsert_from_github fresh now github_id email name avatar_url d =
     (if list_ex (\<lambda>u. us_github_id u = Some github_id) (ud_users d)
      then user_update_one (\<lambda>u. us_github_id u = Some github_id)
             (\<lambda>u. u\<lparr>us_email := email, us_name := name, us_avatar_url := avatar_url, us_updated_at := now\<rparr>) d
      else create_from_github fresh now github_id email name avatar_url d)"

text \<open>The statements of \<^verbatim>\<open>upsert_from_google\<close>; the handler that calls it runs them one after the other.\<close>

definition google_refresh ::
  "timestamp \<Rightarrow> string \<Rightarrow> string \<Rightarrow> string \<Rightarrow> string option \<Rightarrow> user_db \<Rightarrow> (User \<times> user_db) option" where
  "google_refresh now google_id email name avatar_url =
     user_update_one (\<lambda>u. us_google_id u = Some google_id)
       (\<lambda>u. u\<lparr>us_email := email, us_name := name, us_avatar_url := or_else avatar_url (us_avatar_url u),
              us_updated_at := now\<rparr>)"

definition google_link :: "timestamp \<Rightarrow> string \<Rightarrow> string \<Rightarrow> user_db \<Rightarrow> (User \<times> user_db) option" where
  "google_link now google_id email =
     user_update_one (\<lambda>u. us_email u = email)
       (\<lambda>u. u\<lparr>us_google_id := Some google_id, us_email_verified := True, us_updated_at := now\<rparr>)"

definition link_google_account :: "timestamp \<Rightarrow> uuid \<Rightarrow> string \<Rightarrow> user_db \<Rightarrow> (User \<times> user_db) option" where
  "link_google_account now i google_id =
     user_update_one (\<lambda>u. us_id u = i) (\<lambda>u. u\<lparr>us_google_id := Some google_id, us_updated_at := now\<rparr>)"

definition link_github_account :: "timestamp \<Rightarrow> uuid \<Rightarrow> 64 word \<Rightarrow> user_db \<Rightarrow> (User \<times> user_db) option" where
  "link_github_account now i github_id =
     user_update_one (\<lambda>u. us_id u = i) (\<lambda>u. u\<lparr>us_github_id := Some github_id, us_updated_at := now\<rparr>)"

definition user_delete :: "uuid \<Rightarrow> user_db \<Rightarrow> user_db" where
  "user_delete i d = d\<lparr>ud_users := sql_delete (\<lambda>u. us_id u = i) (ud_users d),
                       ud_tokens := sql_delete (\<lambda>t. et_user_id t = i) (ud_tokens d)\<rparr>"

definition update_name :: "timestamp \<Rightarrow> uuid \<Rightarrow> string \<Rightarrow> user_db \<Rightarrow> (User \<times> user_db) option" where
  "update_name now i name = user_update_one (\<lambda>u. us_id u = i) (\<lambda>u. u\<lparr>us_name := name, us_updated_at := now\<rparr>)"

definition update_password :: "timestamp \<Rightarrow> uuid \<Rightarrow> string \<Rightarrow> user_db \<Rightarrow> (unit \<times> user_db) option" where
  "update_password now i password_hash =
     user_change (\<lambda>u. us_id u = i) (\<lambda>u. u\<lparr>us_password_hash := Some password_hash, us_updated_at := now\<rparr>)"

definition user_verify_email :: "timestamp \<Rightarrow> uuid \<Rightarrow> user_db \<Rightarrow> (User \<times> user_db) option" where
  "user_verify_email now i =
     user_update_one (\<lambda>u. us_id u = i) (\<lambda>u. u\<lparr>us_email_verified := True, us_updated_at := now\<rparr>)"

definition update_github_token :: "timestamp \<Rightarrow> uuid \<Rightarrow> bytes \<Rightarrow> bytes \<Rightarrow> user_db \<Rightarrow> (unit \<times> user_db) option" where
  "update_github_token now i encrypted nonce =
     user_change (\<lambda>u. us_id u = i) (\<lambda>u. u\<lparr>us_github_access_token_encrypted := Some encrypted,
       us_github_access_token_nonce := Some nonce, us_updated_at := now\<rparr>)"

definition get_with_token :: "uuid \<Rightarrow> user_db \<Rightarrow> UserWithToken option" where
  "get_with_token i d = find (\<lambda>u. us_id u = i) (ud_users d)"

definition get_for_email_login :: "string \<Rightarrow> user_db \<Rightarrow> UserWithToken option" where
  "get_for_email_login email d = find (\<lambda>u. us_email u = email \<and> us_password_hash u \<noteq> None) (ud_users d)"


section \<open>E-mail tokens\<close>

definition email_token_clash :: "EmailVerificationToken \<Rightarrow> EmailVerificationToken \<Rightarrow> bool" where
  "email_token_clash t t' \<longleftrightarrow> et_id t = et_id t' \<or> et_token_hash t = et_token_hash t'"

definition email_token_create ::
  "uuid \<Rightarrow> timestamp \<Rightarrow> uuid \<Rightarrow> string \<Rightarrow> EmailTokenType \<Rightarrow> timestamp \<Rightarrow> user_db \<Rightarrow>
   (EmailVerificationToken \<times> user_db) option" where
  "email_token_create fresh now user_id token_hash token_type expires_at d =
     (let t = \<lparr>et_id = fresh, et_user_id = user_id, et_token_hash = token_hash,
               et_token_type = EmailTokenType_display token_type, et_expires_at = expires_at,
               et_created_at = now, et_used_at = None\<rparr>
      in if user_find_by_id user_id d = None then None
         else map_option (\<lambda>ts. (t, d\<lparr>ud_tokens := ts\<rparr>)) (sql_insert email_token_clash t (ud_tokens d)))"

definition email_token_find_by_hash :: "string \<Rightarrow> user_db \<Rightarrow> EmailVerificationToken option" where
  "email_token_find_by_hash h d = find (\<lambda>t. et_token_hash t = h) (ud_tokens d)"

definition find_valid_token :: "timestamp \<Rightarrow> string \<Rightarrow> user_db \<Rightarrow> EmailVerificationToken option" where
  "find_valid_token now h d =
     find (\<lambda>t. et_token_hash t = h \<and> et_used_at t = None \<and> now < et_expires_at t) (ud_tokens d)"

definition email_token_mark_as_used :: "timestamp \<Rightarrow> uuid \<Rightarrow> user_db \<Rightarrow> user_db" where
  "email_token_mark_as_used now i d =
     d\<lparr>ud_tokens := sql_update (\<lambda>t. et_id t = i) (\<lambda>t. t\<lparr>et_used_at := Some now\<rparr>) (ud_tokens d)\<rparr>"

definition email_token_delete :: "uuid \<Rightarrow> user_db \<Rightarrow> user_db" where
  "email_token_delete i d = d\<lparr>ud_tokens := sql_delete (\<lambda>t. et_id t = i) (ud_tokens d)\<rparr>"

definition delete_all_for_user :: "uuid \<Rightarrow> user_db \<Rightarrow> user_db" where
  "delete_all_for_user user_id d = d\<lparr>ud_tokens := sql_delete (\<lambda>t. et_user_id t = user_id) (ud_tokens d)\<rparr>"

definition delete_by_type_for_user :: "uuid \<Rightarrow> EmailTokenType \<Rightarrow> user_db \<Rightarrow> user_db" where
  "delete_by_type_for_user user_id token_type d =
     d\<lparr>ud_tokens := sql_delete (\<lambda>t. et_user_id t = user_id \<and> et_token_type t = EmailTokenType_display token_type)
         (ud_tokens d)\<rparr>"

definition email_token_cleanup :: "timestamp \<Rightarrow> user_db \<Rightarrow> nat \<times> user_db" where
  "email_token_cleanup now d =
     (length (filter (\<lambda>t. et_expires_at t < now) (ud_tokens d)),
      d\<lparr>ud_tokens := sql_delete (\<lambda>t. et_expires_at t < now) (ud_tokens d)\<rparr>)"


section \<open>Facts\<close>

lemma email_token_type_read_back [simp]: "EmailTokenType_of_str (EmailTokenType_display t) = Inr t"
  by (cases t) (simp_all add: EmailTokenType_of_str_def)

lemma user_find_by_id_Some:
  "user_find_by_id i d = Some u \<Longrightarrow> us_id u = i \<and> (\<exists>r \<in> set (ud_users d). u = as_user r)"
  by (auto simp: user_find_by_id_def user_by_def as_user_def User.truncate_def dest!: find_Some_in)

text \<open>The constraints hold after every statement that succeeds.\<close>

definition users_ok :: "user_db \<Rightarrow> bool" where
  "users_ok d \<longleftrightarrow> users_apart (ud_users d) \<and> list_all has_auth_method (ud_users d)"

lemma users_ok_insert: "users_ok d \<Longrightarrow> user_insert u d = Some (r, d') \<Longrightarrow> users_ok d'"
  by (auto simp: users_ok_def users_apart_def user_insert_def sql_insert_Some list_ex_iff user_clash_def opt_clash_def
      List.map_filter_def split: if_splits option.splits) metis+

lemma users_ok_change: "user_change P f d = Some (x, d') \<Longrightarrow> users_ok d'"
  by (auto simp: users_ok_def user_change_def Let_def split: if_splits)

lemma users_ok_update: "user_update_one P f d = Some (r, d') \<Longrightarrow> users_ok d'"
  by (auto simp: user_update_one_def split: option.splits dest: users_ok_change)

end
