(* ===== verification/Workspace_Server.thy ===== *)
theory Workspace_Server
  imports Workspace_Repo User_Repo Api_Error Redis_Cache
begin

text \<open>
  Workspaces and their members in the API (\<^verbatim>\<open>crates/api/src/routes/workspaces.rs\<close>, \<^verbatim>\<open>members.rs\<close>,
  \<^verbatim>\<open>crates/api/src/extractors/workspace.rs\<close>) with the Redis cache of plan and member count
  (\<^verbatim>\<open>crates/api/src/cache.rs\<close>). Handlers are programs over the tables, Redis and the outgoing mail. A spawned
  task is the handler's last statements: other requests may run before and between them.
\<close>

section \<open>The cache of workspace information\<close>

definition WORKSPACE_INFO_TTL_SECS :: nat where "WORKSPACE_INFO_TTL_SECS = 300"
definition DEPLOYMENT_COUNT_TTL_SECS :: nat where "DEPLOYMENT_COUNT_TTL_SECS = 60"

record CachedWorkspaceInfo =
  wi_name :: string
  wi_plan :: string
  wi_member_count :: "32 word"

definition wi_billing_plan :: "CachedWorkspaceInfo \<Rightarrow> Plan" where
  "wi_billing_plan c = Plan_of_str (wi_plan c)"

text \<open>
  \<open>av_adjust\<close> is the JSON edit of the script of \<^verbatim>\<open>update_member_count\<close> (\<^verbatim>\<open>cjson\<close>), which fails on text it
  cannot decode; \<open>av_db_text\<close> is the text of a database error.
\<close>

record 'r api_env =
  av_redis :: "'r redis_ops"
  av_info :: "CachedWorkspaceInfo serde"
  av_adjust :: "int \<Rightarrow> string \<Rightarrow> string option"
  av_show_uuid :: "uuid \<Rightarrow> string"
  av_db_text :: string
  av_email :: bool
  av_app_url :: "string option"

definition workspace_info_key :: "'r api_env \<Rightarrow> uuid \<Rightarrow> string" where
  "workspace_info_key E i = ''api:workspace:'' @ av_show_uuid E i @ '':info''"

definition get_workspace_info :: "'r api_env \<Rightarrow> uuid \<Rightarrow> 'r \<Rightarrow> CachedWorkspaceInfo option" where
  "get_workspace_info E i s = cache_get (av_redis E) (av_info E) s (workspace_info_key E i)"

definition set_workspace_info :: "'r api_env \<Rightarrow> uuid \<Rightarrow> CachedWorkspaceInfo \<Rightarrow> 'r \<Rightarrow> 'r" where
  "set_workspace_info E i info s =
     cache_set (av_redis E) (av_info E) s (workspace_info_key E i) info WORKSPACE_INFO_TTL_SECS"

definition invalidate_workspace_info :: "'r api_env \<Rightarrow> uuid \<Rightarrow> 'r \<Rightarrow> 'r" where
  "invalidate_workspace_info E i s = cache_del (av_redis E) s (workspace_info_key E i)"

definition update_member_count :: "'r api_env \<Rightarrow> uuid \<Rightarrow> int \<Rightarrow> 'r \<Rightarrow> 'r" where
  "update_member_count E i delta s =
     (let R = av_redis E; k = workspace_info_key E i
      in if \<not> r_up R s then s
         else (case r_get R s k of
                 None \<Rightarrow> s
               | Some v \<Rightarrow>
                   (case av_adjust E delta (case v of RStr j \<Rightarrow> j | RInt n \<Rightarrow> show_int n) of
                      None \<Rightarrow> s
                    | Some j \<Rightarrow> r_set_ex R s k (RStr j) WORKSPACE_INFO_TTL_SECS)))"

definition deployment_count_key :: "'r api_env \<Rightarrow> uuid \<Rightarrow> int \<Rightarrow> nat \<Rightarrow> string" where
  "deployment_count_key E i year month =
     ''api:workspace:'' @ av_show_uuid E i @ '':deployments:'' @ show_int year @ '':'' @
     (if month < 10 then ''0'' else []) @ show_nat month"

definition get_deployment_count :: "'r api_env \<Rightarrow> uuid \<Rightarrow> int \<Rightarrow> nat \<Rightarrow> 'r \<Rightarrow> int option" where
  "get_deployment_count E i year month s =
     (if r_up (av_redis E) s
      then (case r_get (av_redis E) s (deployment_count_key E i year month) of Some (RInt n) \<Rightarrow> Some n | _ \<Rightarrow> None)
      else None)"

definition set_deployment_count :: "'r api_env \<Rightarrow> uuid \<Rightarrow> int \<Rightarrow> nat \<Rightarrow> int \<Rightarrow> 'r \<Rightarrow> 'r" where
  "set_deployment_count E i year month count s =
     (if r_up (av_redis E) s
      then r_set_ex (av_redis E) s (deployment_count_key E i year month) (RInt count) DEPLOYMENT_COUNT_TTL_SECS else s)"

definition increment_deployment_count :: "'r api_env \<Rightarrow> uuid \<Rightarrow> int \<Rightarrow> nat \<Rightarrow> 'r \<Rightarrow> 'r" where
  "increment_deployment_count E i year month s =
     (let R = av_redis E; k = deployment_count_key E i year month
      in if \<not> r_up R s then s
         else r_expire R (case r_incr R s k of None \<Rightarrow> s | Some (_, s') \<Rightarrow> s') k DEPLOYMENT_COUNT_TTL_SECS)"


section \<open>The store\<close>

record invite =
  iv_to :: string
  iv_inviter :: string
  iv_workspace :: string
  iv_url :: string

record 'r api_db =
  ap_workspaces :: workspace_db
  ap_users :: user_db
  ap_redis :: 'r
  ap_outbox :: "invite list"

text \<open>Statements of the repositories on their own tables.\<close>

definition on_workspaces :: "(workspace_db \<Rightarrow> ('x \<times> workspace_db) option) \<Rightarrow> 'r api_db \<Rightarrow> ('x \<times> 'r api_db) option" where
  "on_workspaces f d = map_option (\<lambda>(x, w). (x, d\<lparr>ap_workspaces := w\<rparr>)) (f (ap_workspaces d))"

definition on_redis :: "('r \<Rightarrow> 'r) \<Rightarrow> 'r api_db \<Rightarrow> (unit \<times> 'r api_db) option" where
  "on_redis f = change (\<lambda>d. d\<lparr>ap_redis := f (ap_redis d)\<rparr>)"

definition db_failed :: "'r api_env \<Rightarrow> AppError" where
  "db_failed E = AppError_of_Error (Error_Database (av_db_text E))"


section \<open>Membership checks\<close>

definition require_member ::
  "'r api_env \<Rightarrow> uuid \<Rightarrow> uuid \<Rightarrow> (WorkspaceMember \<Rightarrow> ('r api_db, AppError, 'a) handler) \<Rightarrow> ('r api_db, AppError, 'a) handler" where
  "require_member E workspace_id user_id k =
     run_or (select (\<lambda>d. get_member workspace_id user_id (ap_workspaces d))) (db_failed E) (\<lambda>member.
     require member (app_forbidden ''Not a member of this workspace'') k)"

definition require_admin ::
  "'r api_env \<Rightarrow> uuid \<Rightarrow> uuid \<Rightarrow> (WorkspaceMember \<Rightarrow> ('r api_db, AppError, 'a) handler) \<Rightarrow> ('r api_db, AppError, 'a) handler" where
  "require_admin E workspace_id user_id k =
     require_member E workspace_id user_id (\<lambda>member.
     ensure (WorkspaceMember_role member = Role_Admin \<or> WorkspaceMember_role member = Role_Owner)
       (app_forbidden ''Admin access required'') (k member))"

definition require_write_access ::
  "'r api_env \<Rightarrow> uuid \<Rightarrow> uuid \<Rightarrow> (WorkspaceMember \<Rightarrow> ('r api_db, AppError, 'a) handler) \<Rightarrow> ('r api_db, AppError, 'a) handler" where
  "require_write_access E workspace_id user_id k =
     require_member E workspace_id user_id (\<lambda>member.
     ensure (WorkspaceMember_role member \<noteq> Role_Viewer) (app_forbidden ''Write access required'') (k member))"


section \<open>Members\<close>

record MemberResponse =
  mr_user_id :: uuid
  mr_email :: string
  mr_name :: string
  mr_avatar_url :: "string option"
  mr_role :: WorkspaceRole

definition member_response :: "User \<Rightarrow> WorkspaceRole \<Rightarrow> MemberResponse" where
  "member_response u role =
     \<lparr>mr_user_id = us_id u, mr_email = us_email u, mr_name = us_name u, mr_avatar_url = us_avatar_url u, mr_role = role\<rparr>"

text \<open>The join of a workspace's members with their users, oldest first.\<close>

definition list_members_with_users :: "uuid \<Rightarrow> 'r api_db \<Rightarrow> MemberResponse list" where
  "list_members_with_users workspace_id d =
     take MAX_MEMBERS_PER_WORKSPACE (concat (map
       (\<lambda>m. map (\<lambda>u. member_response (as_user u) (WorkspaceMember_role m)) (filter (\<lambda>u. us_id u = wm_user_id m) (ud_users (ap_users d))))
       (sort_key wm_created_at (filter (\<lambda>m. wm_workspace_id m = workspace_id) (wd_members (ap_workspaces d))))))"

definition members_list :: "'r api_env \<Rightarrow> uuid \<Rightarrow> uuid \<Rightarrow> ('r api_db, AppError, MemberResponse list) handler" where
  "members_list E auth_user workspace_id =
     require_member E workspace_id auth_user (\<lambda>_.
     run_or (select (list_members_with_users workspace_id)) (db_failed E) answer)"

text \<open>\<^verbatim>\<open>as i32\<close> and \<^verbatim>\<open>as usize\<close> of a count.\<close>

definition count_as_i32 :: "nat \<Rightarrow> 32 word" where
  "count_as_i32 n = of_nat n"

definition i32_as_usize :: "32 word \<Rightarrow> nat" where
  "i32_as_usize c = unat (signed c :: 64 word)"

definition member_limit_error :: "Plan \<Rightarrow> AppError" where
  "member_limit_error plan = app_payment_required ''MEMBER_LIMIT_REACHED''
     (''Your '' @ Plan_display plan @ '' plan allows up to '' @ show_nat (unat (max_team_members (Plan_limits plan))) @
      '' team members. Please upgrade to add more.'')"

text \<open>The invitation, sent when mail is configured; the inviter's name is looked up best-effort.\<close>

definition send_invite ::
  "'r api_env \<Rightarrow> uuid \<Rightarrow> uuid \<Rightarrow> string \<Rightarrow> string \<Rightarrow> ('r api_db, 'e, 'a) handler \<Rightarrow> ('r api_db, 'e, 'a) handler" where
  "send_invite E auth_user workspace_id to_email workspace_name k =
     (if av_email E then
        run_sql (select (\<lambda>d. user_find_by_id auth_user (ap_users d))) (\<lambda>inviter.
        run_sql (change (\<lambda>d. d\<lparr>ap_outbox := ap_outbox d @ [\<lparr>
             iv_to = to_email, iv_inviter = unwrap_or (map_option us_name (Option.bind inviter id)) ''Someone'',
             iv_workspace = workspace_name,
             iv_url = unwrap_or (av_app_url E) ''https://mcpcloud.dev'' @ ''/dashboard?workspace='' @ av_show_uuid E workspace_id \<rparr>]\<rparr>)) (\<lambda>_. k))
      else k)"

definition add_after_count ::
  "'r api_env \<Rightarrow> timestamp \<Rightarrow> uuid \<Rightarrow> uuid \<Rightarrow> string \<Rightarrow> WorkspaceRole option \<Rightarrow> Plan \<Rightarrow> nat \<Rightarrow> string \<Rightarrow>
   ('r api_db, AppError, MemberResponse) handler" where
  "add_after_count E now auth_user workspace_id email role_opt plan member_count workspace_name =
     ensure (\<not> unat (max_team_members (Plan_limits plan)) \<le> member_count) (member_limit_error plan)
     (run_or (select (\<lambda>d. user_find_by_email email (ap_users d))) (db_failed E) (\<lambda>found.
      require found (app_bad_request ''USER_NOT_REGISTERED''
          ''This email is not registered. The user must sign up with GitHub first.'') (\<lambda>user.
      run_or (select (\<lambda>d. get_member workspace_id (us_id user) (ap_workspaces d))) (db_failed E) (\<lambda>existing.
      ensure (existing = None) (app_conflict ''ALREADY_MEMBER'' ''User is already a member'')
      (let role = unwrap_or role_opt Role_Member
       in ensure (role \<noteq> Role_Owner) (app_bad_request ''INVALID_ROLE'' ''Cannot add member as owner'')
      (run_or (on_workspaces (add_member now workspace_id (us_id user) role)) (db_failed E) (\<lambda>new_member.
       run_sql (on_redis (update_member_count E workspace_id 1)) (\<lambda>_.
       send_invite E auth_user workspace_id (us_email user) workspace_name
       (answer (member_response user (WorkspaceMember_role new_member)))))))))))"

definition members_add ::
  "'r api_env \<Rightarrow> timestamp \<Rightarrow> uuid \<Rightarrow> uuid \<Rightarrow> string \<Rightarrow> WorkspaceRole option \<Rightarrow> ('r api_db, AppError, MemberResponse) handler" where
  "members_add E now auth_user workspace_id email role_opt =
     require_member E workspace_id auth_user (\<lambda>member.
     ensure (WorkspaceMember_role member \<in> {Role_Owner, Role_Admin}) (app_forbidden ''Insufficient permissions'')
     (run_sql (select (\<lambda>d. get_workspace_info E workspace_id (ap_redis d))) (\<lambda>hit.
      case Option.bind hit id of
        Some cached \<Rightarrow> add_after_count E now auth_user workspace_id email role_opt (wi_billing_plan cached)
                         (i32_as_usize (wi_member_count cached)) (wi_name cached)
      | None \<Rightarrow>
          run_or (select (\<lambda>d. ws_find_by_id workspace_id (ap_workspaces d))) (db_failed E) (\<lambda>found.
          require found (app_not_found ''Workspace'') (\<lambda>workspace.
          run_sql (select (\<lambda>d. count_members workspace_id (ap_workspaces d))) (\<lambda>counted.
          let member_count = unwrap_or counted 0
          in run_sql (on_redis (set_workspace_info E workspace_id
               \<lparr>wi_name = ws_name workspace, wi_plan = ws_plan workspace, wi_member_count = count_as_i32 member_count\<rparr>)) (\<lambda>_.
             add_after_count E now auth_user workspace_id email role_opt (Plan_of_str (ws_plan workspace))
               member_count (ws_name workspace)))))))) "

definition members_update ::
  "'r api_env \<Rightarrow> uuid \<Rightarrow> uuid \<Rightarrow> uuid \<Rightarrow> WorkspaceRole \<Rightarrow> ('r api_db, AppError, MemberResponse) handler" where
  "members_update E auth_user workspace_id user_id role =
     require_member E workspace_id auth_user (\<lambda>member.
     ensure (WorkspaceMember_role member = Role_Owner) (app_forbidden ''Only owner can change roles'')
     (ensure (auth_user \<noteq> user_id) (app_bad_request ''INVALID_OPERATION'' ''Cannot change your own role'')
     (ensure (role \<noteq> Role_Owner) (app_bad_request ''INVALID_ROLE'' ''Cannot set member as owner'')
     (run_or (select (\<lambda>d. get_member workspace_id user_id (ap_workspaces d))) (db_failed E) (\<lambda>target.
      require target (app_not_found ''Member'') (\<lambda>target_member.
      ensure (WorkspaceMember_role target_member \<noteq> Role_Owner)
        (app_bad_request ''INVALID_OPERATION'' (''Cannot change owner'' @ [CHR 0x27] @ ''s role''))
      (run_or (on_workspaces (update_member_role workspace_id user_id role)) (db_failed E) (\<lambda>updated.
       require updated (app_not_found ''Member'') (\<lambda>updated_member.
       run_or (select (\<lambda>d. user_find_by_id user_id (ap_users d))) (db_failed E) (\<lambda>found.
       require found (app_not_found ''User'') (\<lambda>user.
       answer (member_response user (WorkspaceMember_role updated_member))))))))))))) "

text \<open>The answer is the status \<^verbatim>\<open>NO_CONTENT\<close>.\<close>

definition members_remove ::
  "'r api_env \<Rightarrow> uuid \<Rightarrow> uuid \<Rightarrow> uuid \<Rightarrow> ('r api_db, AppError, nat) handler" where
  "members_remove E auth_user workspace_id user_id =
     require_member E workspace_id auth_user (\<lambda>member.
     ensure (auth_user = user_id \<or> WorkspaceMember_role member \<in> {Role_Owner, Role_Admin})
       (app_forbidden ''Insufficient permissions'')
     (run_or (select (\<lambda>d. get_member workspace_id user_id (ap_workspaces d))) (db_failed E) (\<lambda>target.
      require target (app_not_found ''Member'') (\<lambda>target_member.
      ensure (WorkspaceMember_role target_member \<noteq> Role_Owner)
        (app_bad_request ''INVALID_OPERATION'' ''Cannot remove workspace owner'')
      (run_or (on_workspaces (change (remove_member workspace_id user_id))) (db_failed E) (\<lambda>_.
       run_sql (on_redis (update_member_count E workspace_id (-1))) (\<lambda>_.
       answer 204))))))) "


section \<open>Workspaces\<close>

record WorkspaceResponse =
  wr_id :: uuid
  wr_name :: string
  wr_slug :: string
  wr_plan :: Plan
  wr_role :: WorkspaceRole
  wr_created_at :: timestamp

definition workspace_response :: "Workspace \<Rightarrow> WorkspaceRole \<Rightarrow> WorkspaceResponse" where
  "workspace_response w role =
     \<lparr>wr_id = ws_id w, wr_name = ws_name w, wr_slug = ws_slug w, wr_plan = Plan_of_str (ws_plan w), wr_role = role,
      wr_created_at = ws_created_at w\<rparr>"

definition workspaces_list :: "'r api_env \<Rightarrow> uuid \<Rightarrow> ('r api_db, nat \<times> string, WorkspaceResponse list) handler" where
  "workspaces_list E auth_user =
     run_or (select (\<lambda>d. ws_list_by_user auth_user (ap_workspaces d))) (api_db_error (av_db_text E)) (\<lambda>ws.
     answer (map (\<lambda>(w, role). workspace_response w (WorkspaceRole_of_str role)) ws))"

definition workspaces_create ::
  "'r api_env \<Rightarrow> timestamp \<Rightarrow> uuid \<Rightarrow> uuid \<Rightarrow> string \<Rightarrow> string \<Rightarrow> ('r api_db, nat \<times> string, WorkspaceResponse) handler" where
  "workspaces_create E now fresh auth_user name slug =
     run_or (select (\<lambda>d. ws_find_by_slug slug (ap_workspaces d))) (api_db_error (av_db_text E)) (\<lambda>taken.
     ensure (taken = None) (409, ''Slug already taken'')
     (run_or (on_workspaces (ws_create fresh now name slug auth_user)) (api_db_error (av_db_text E)) (\<lambda>workspace.
      answer (workspace_response workspace Role_Owner))))"

definition workspaces_get :: "'r api_env \<Rightarrow> uuid \<Rightarrow> uuid \<Rightarrow> ('r api_db, nat \<times> string, WorkspaceResponse) handler" where
  "workspaces_get E auth_user workspace_id =
     run_or (select (\<lambda>d. get_member workspace_id auth_user (ap_workspaces d))) (api_db_error (av_db_text E)) (\<lambda>found.
     require found (403, ''Not a member of this workspace'') (\<lambda>member.
     run_or (select (\<lambda>d. ws_find_by_id workspace_id (ap_workspaces d))) (api_db_error (av_db_text E)) (\<lambda>w.
     require w (404, ''Workspace not found'') (\<lambda>workspace.
     answer (workspace_response workspace (WorkspaceMember_role member))))))"

definition workspaces_update ::
  "'r api_env \<Rightarrow> timestamp \<Rightarrow> uuid \<Rightarrow> uuid \<Rightarrow> json \<Rightarrow> ('r api_db, nat \<times> string, WorkspaceResponse) handler" where
  "workspaces_update E now auth_user workspace_id body =
     run_or (select (\<lambda>d. get_member workspace_id auth_user (ap_workspaces d))) (api_db_error (av_db_text E)) (\<lambda>found.
     require found (403, ''Not a member of this workspace'') (\<lambda>member.
     ensure (WorkspaceMember_role member \<in> {Role_Owner, Role_Admin}) (403, ''Insufficient permissions'')
     (run_or (on_workspaces (ws_update now workspace_id (Option.bind (json_get body ''name'') as_str) None))
        (api_db_error (av_db_text E)) (\<lambda>workspace.
      run_sql (on_redis (invalidate_workspace_info E workspace_id)) (\<lambda>_.
      answer (workspace_response workspace (WorkspaceMember_role member)))))))"

definition workspaces_delete ::
  "'r api_env \<Rightarrow> uuid \<Rightarrow> uuid \<Rightarrow> ('r api_db, nat \<times> string, nat) handler" where
  "workspaces_delete E auth_user workspace_id =
     run_or (select (\<lambda>d. ws_find_by_id workspace_id (ap_workspaces d))) (api_db_error (av_db_text E)) (\<lambda>found.
     require found (404, ''Workspace not found'') (\<lambda>workspace.
     ensure (ws_owner_id workspace = auth_user) (403, ''Only owner can delete workspace'')
     (run_or (on_workspaces (change (ws_delete workspace_id))) (api_db_error (av_db_text E)) (\<lambda>_.
      run_sql (on_redis (invalidate_workspace_info E workspace_id)) (\<lambda>_.
      answer 204)))))"

end
