(* ===== verification/Workspace_Service.thy ===== *)
theory Workspace_Service
  imports Workspace_Server
begin

text \<open>
  The workspace and member endpoints as a service: their requests interleave statement by statement
  and their statements fail. Ownership survives all of it.
\<close>

section \<open>Requests\<close>

datatype workspace_request =
    Wq_List uuid
  | Wq_Create timestamp uuid uuid string string
  | Wq_Get uuid uuid
  | Wq_Update timestamp uuid uuid json
  | Wq_Delete uuid uuid
  | Wq_Members uuid uuid
  | Wq_Add timestamp uuid uuid string "WorkspaceRole option"
  | Wq_Role uuid uuid uuid WorkspaceRole
  | Wq_Remove uuid uuid uuid

datatype workspace_reply =
    Wp_Workspaces "nat \<times> string + WorkspaceResponse list"
  | Wp_Workspace "nat \<times> string + WorkspaceResponse"
  | Wp_Deleted "nat \<times> string + nat"
  | Wp_Members "AppError + MemberResponse list"
  | Wp_Member "AppError + MemberResponse"
  | Wp_Removed "AppError + nat"

fun workspace_handle :: "'r api_env \<Rightarrow> workspace_request \<Rightarrow> ('r api_db, workspace_reply) prog" where
  "workspace_handle E (Wq_List u) = map_prog Wp_Workspaces (workspaces_list E u)"
| "workspace_handle E (Wq_Create now fresh u name slug) = map_prog Wp_Workspace (workspaces_create E now fresh u name slug)"
| "workspace_handle E (Wq_Get u i) = map_prog Wp_Workspace (workspaces_get E u i)"
| "workspace_handle E (Wq_Update now u i body) = map_prog Wp_Workspace (workspaces_update E now u i body)"
| "workspace_handle E (Wq_Delete u i) = map_prog Wp_Deleted (workspaces_delete E u i)"
| "workspace_handle E (Wq_Members u i) = map_prog Wp_Members (members_list E u i)"
| "workspace_handle E (Wq_Add now u i email role) = map_prog Wp_Member (members_add E now u i email role)"
| "workspace_handle E (Wq_Role u i v role) = map_prog Wp_Member (members_update E u i v role)"
| "workspace_handle E (Wq_Remove u i v) = map_prog Wp_Removed (members_remove E u i v)"


section \<open>Ownership\<close>

text \<open>
  \<open>own\<close> says for whom each identifier was drawn. Identifiers are not drawn twice, so a request that
  has seen a row may rely on it.
\<close>

definition owned :: "(uuid \<Rightarrow> uuid) \<Rightarrow> 'r api_db \<Rightarrow> bool" where
  "owned own d \<longleftrightarrow> ws_ok (ap_workspaces d) \<and> (\<forall>(i, u) \<in> ws_owners (ap_workspaces d). u = own i)"

lemma owned_same: "owned own d \<Longrightarrow> ap_workspaces d' = ap_workspaces d \<Longrightarrow> owned own d'"
  by (simp add: owned_def)

lemma owned_redis: "owned own d \<Longrightarrow> on_redis f d = Some (x, d') \<Longrightarrow> owned own d'"
  by (auto simp: on_redis_def intro: owned_same)

lemma owned_member: "owned own d \<Longrightarrow> get_member i u (ap_workspaces d) = Some m \<Longrightarrow> WorkspaceMember_role m = Role_Owner \<longleftrightarrow> u = own i"
proof -
  assume o: "owned own d" and m: "get_member i u (ap_workspaces d) = Some m"
  let ?W = "ap_workspaces d"
  have ok: "ws_ok ?W" using o by (simp add: owned_def)
  have "\<exists>v. (i, v) \<in> ws_owners ?W"
    using get_member_Some [OF m] ok by (auto simp: ws_ok_def owner_rows_def)
  then obtain v where v: "(i, v) \<in> ws_owners ?W" by blast
  then have "v = own i" using o by (auto simp: owned_def)
  then have "(i, own i) \<in> ws_owners ?W" using v by simp
  moreover have "(i, u) \<in> ws_owners ?W \<Longrightarrow> u = own i" using o by (auto simp: owned_def)
  ultimately show ?thesis using owner_role [OF ok m] by (auto simp: WorkspaceMember_role_def role_owner_iff)
qed

text \<open>What the statements do to the owners.\<close>

lemma owners_kept:
  "add_member now i u role W = Some (m, W') \<Longrightarrow> ws_owners W' = ws_owners W"
  "update_member_role i u role W = Some (r, W') \<Longrightarrow> ws_owners W' = ws_owners W"
  "ws_owners (remove_member i u W) = ws_owners W"
  "ws_update now i nm plan W = Some (w, W') \<Longrightarrow> ws_owners W' = ws_owners W"
  "ws_create fresh now name slug u W = Some (w, W') \<Longrightarrow> ws_owners W' = insert (fresh, u) (ws_owners W)"
  "ws_owners (ws_delete i W) \<subseteq> ws_owners W"
proof -
  assume "ws_update now i nm plan W = Some (w, W')"
  then have "map (\<lambda>w. (ws_id w, ws_owner_id w)) (wd_workspaces W') = map (\<lambda>w. (ws_id w, ws_owner_id w)) (wd_workspaces W)"
    by (auto simp: ws_update_def Let_def ws_set_def map_sql_update)
  then show "ws_owners W' = ws_owners W" by (simp only: ws_owners_def)
qed (auto simp: ws_owners_def add_member_def update_member_role_def remove_member_def ws_delete_def ws_create_def
    workspace_row_def Let_def sql_insert_Some split: if_splits option.splits)

lemma owned_step:
  assumes "on_workspaces f d = Some (x, d')"
    and "\<And>W'. f (ap_workspaces d) = Some (x, W') \<Longrightarrow> ws_ok W' \<and> (\<forall>(i, u) \<in> ws_owners W'. u = own i)"
  shows "owned own d'"
  using assms by (auto simp: on_workspaces_def owned_def)

lemma owned_statements:
  assumes "owned own d"
  shows "role \<noteq> Role_Owner \<Longrightarrow> on_workspaces (add_member now i u role) d = Some (m, d') \<Longrightarrow> owned own d'"
    and "u \<noteq> own i \<Longrightarrow> role \<noteq> Role_Owner \<Longrightarrow> on_workspaces (update_member_role i u role) d = Some (r, d') \<Longrightarrow> owned own d'"
    and "u \<noteq> own i \<Longrightarrow> on_workspaces (change (remove_member i u)) d = Some (x, d') \<Longrightarrow> owned own d'"
    and "u = own fresh \<Longrightarrow> on_workspaces (ws_create fresh now name slug u) d = Some (w, d') \<Longrightarrow> owned own d'"
    and "on_workspaces (ws_update now i nm plan) d = Some (w, d') \<Longrightarrow> owned own d'"
    and "on_workspaces (change (ws_delete i)) d = Some (x, d') \<Longrightarrow> owned own d'"
proof -
  let ?W = "ap_workspaces d"
  have ok: "ws_ok ?W" and o: "\<And>i u. (i, u) \<in> ws_owners ?W \<Longrightarrow> u = own i" using assms by (auto simp: owned_def)
  have no: "(i, u) \<notin> ws_owners ?W" if "u \<noteq> own i" using o that by blast
  show "owned own d'" if "role \<noteq> Role_Owner" "on_workspaces (add_member now i u role) d = Some (m, d')"
    using that(2) by (rule owned_step) (use ws_ok_add [OF ok _ that(1)] o in \<open>auto simp: owners_kept(1)\<close>)
  show "owned own d'" if "u \<noteq> own i" "role \<noteq> Role_Owner" "on_workspaces (update_member_role i u role) d = Some (r, d')"
    using that(3) by (rule owned_step) (use ws_ok_role [OF ok no [OF that(1)] that(2)] o in \<open>auto simp: owners_kept(2)\<close>)
  show "owned own d'" if "u \<noteq> own i" "on_workspaces (change (remove_member i u)) d = Some (x, d')"
    using that(2) by (rule owned_step) (use ws_ok_remove [OF ok no [OF that(1)]] o in \<open>auto simp: owners_kept(3)\<close>)
  show "owned own d'" if "u = own fresh" "on_workspaces (ws_create fresh now name slug u) d = Some (w, d')"
    using that(2) by (rule owned_step) (use ws_ok_create [OF ok] that(1) o in \<open>auto simp: owners_kept(5)\<close>)
  show "owned own d'" if "on_workspaces (ws_update now i nm plan) d = Some (w, d')"
    using that by (rule owned_step) (use ok o in \<open>auto simp: owners_kept(4) ws_ok_update\<close>)
  show "owned own d'" if "on_workspaces (change (ws_delete i)) d = Some (x, d')"
    using that by (rule owned_step) (use ws_ok_delete [OF ok] owners_kept(6) [of i ?W] o in auto)
qed


text \<open>The invariant says that there is one owner's row.\<close>

lemma owner_row_unique:
  assumes "ws_ok W" and "(i, u) \<in> ws_owners W"
  shows "map wm_user_id (filter (\<lambda>m. wm_workspace_id m = i \<and> WorkspaceMember_role m = Role_Owner) (wd_members W)) = [u]"
proof -
  let ?P = "\<lambda>m. wm_workspace_id m = i \<and> WorkspaceMember_role m = Role_Owner"
  obtain m where m: "m \<in> set (wd_members W)" "member_key m = (i, u)" using assms by (force simp: ws_ok_def)
  have role: "?P x \<longleftrightarrow> member_key x = member_key m" if "x \<in> set (wd_members W)" for x
    using that assms m(2) by (auto simp: ws_ok_def owner_rows_def WorkspaceMember_role_def role_owner_iff member_key_def)
  have "filter ?P (wd_members W) = filter (\<lambda>x. member_key x = member_key m) (wd_members W)"
    by (rule filter_cong [OF refl role])
  also have "\<dots> = [m]" using assms(1) m(1) by (intro filter_key) (simp_all add: ws_ok_def)
  finally show ?thesis using m(2) by (simp add: member_key_def)
qed


section \<open>Every handler keeps ownership\<close>

lemma keeps_on_redis:
  "keeps (owned own) (k None) Q \<Longrightarrow> keeps (owned own) (k (Some ())) Q \<Longrightarrow> keeps (owned own) (run_sql (on_redis f) k) Q"
  by (rule keeps_run_sql) (auto dest: owned_redis)

lemma keeps_require_member:
  assumes "\<And>e d. Q (Inl e) d" and "\<And>m. (WorkspaceMember_role m = Role_Owner \<longleftrightarrow> u = own i) \<Longrightarrow> keeps (owned own) (k m) Q"
  shows "keeps (owned own) (require_member E i u k) Q"
  unfolding require_member_def by (intro keeps_select_or keeps_require assms) (auto dest: owned_member)

lemma keeps_send_invite: "keeps (owned own) k Q \<Longrightarrow> keeps (owned own) (send_invite E a i t n k) Q"
  unfolding send_invite_def by (auto intro!: keeps_select keeps_change elim: owned_same)

lemma keeps_add_after_count:
  "keeps (owned own) (add_after_count E now a i email role plan n name) (\<lambda>_ _. True)"
  unfolding add_after_count_def Let_def
  by (intro keeps_ensure keeps_select_or keeps_require keeps_run_or conjI keeps_on_redis keeps_send_invite keeps_answer TrueI)
    (auto elim: owned_statements)

lemma keeps_members_add: "keeps (owned own) (members_add E now a i email role) (\<lambda>_ _. True)"
proof -
  have "keeps (owned own) (run_or (select f) e (\<lambda>found. require found e' (\<lambda>w. run_sql (select g) (\<lambda>c. run_sql (on_redis (h w c)) (\<lambda>_.
      add_after_count E now a i email role (plan w) (n c) (name w)))))) (\<lambda>_ _. True)" for f e e' g h plan n name
    by (intro keeps_select_or keeps_require keeps_select keeps_on_redis keeps_add_after_count TrueI)
  then show ?thesis unfolding members_add_def Let_def
    by (intro keeps_require_member keeps_ensure keeps_select TrueI)
      (auto simp: keeps_add_after_count split: option.split)
qed

text \<open>Who removes or deletes.\<close>

lemma keeps_members_update:
  "keeps (owned own) (members_update E a i v role) (\<lambda>r _. \<forall>x. r = Inr x \<longrightarrow> a = own i)"
  unfolding members_update_def
  by (intro keeps_require_member keeps_ensure keeps_select_or keeps_require keeps_run_or conjI keeps_answer)
    (auto elim: owned_statements dest: owned_member)

lemma keeps_members_remove:
  "keeps (owned own) (members_remove E a i v) (\<lambda>r _. \<forall>x. r = Inr x \<longrightarrow> v \<noteq> own i)"
  unfolding members_remove_def
  by (intro keeps_require_member keeps_ensure keeps_select_or keeps_require keeps_run_or conjI keeps_on_redis keeps_answer)
    (auto elim: owned_statements dest: owned_member)

lemma keeps_workspaces_delete:
  "keeps (owned own) (workspaces_delete E a i) (\<lambda>r _. \<forall>x. r = Inr x \<longrightarrow> a = own i)"
proof -
  have "w \<in> set (wd_workspaces (ap_workspaces d)) \<Longrightarrow> owned own d \<Longrightarrow> ws_owner_id w = own (ws_id w)" for w d
    by (force simp: owned_def ws_owners_def)
  then have own: "owned own d \<Longrightarrow> ws_find_by_id i (ap_workspaces d) = Some w \<Longrightarrow> ws_owner_id w = own i" for d w
    by (auto simp: ws_find_by_id_def dest!: find_Some_in)
  show ?thesis unfolding workspaces_delete_def
    by (intro keeps_select_or keeps_require keeps_ensure keeps_run_or conjI keeps_on_redis keeps_answer)
      (auto elim: owned_statements dest: own)
qed

lemma keeps_workspaces:
  "keeps (owned own) (workspaces_list E u) (\<lambda>_ _. True)" "keeps (owned own) (workspaces_get E u i) (\<lambda>_ _. True)"
  "keeps (owned own) (workspaces_update E now u i body) (\<lambda>_ _. True)" "keeps (owned own) (members_list E u i) (\<lambda>_ _. True)"
  unfolding workspaces_list_def workspaces_get_def workspaces_update_def members_list_def
  by (intro keeps_require_member keeps_select_or keeps_require keeps_ensure keeps_run_or conjI keeps_on_redis keeps_answer TrueI;
      (auto elim: owned_statements)?)+

lemma keeps_workspaces_create:
  "u = own fresh \<Longrightarrow> keeps (owned own) (workspaces_create E now fresh u name slug) (\<lambda>_ _. True)"
  unfolding workspaces_create_def
  by (intro keeps_select_or keeps_ensure keeps_run_or conjI keeps_answer TrueI) (auto elim: owned_statements)

text \<open>What an answer tells about the caller and the target.\<close>

fun reply_owned :: "(uuid \<Rightarrow> uuid) \<Rightarrow> workspace_request \<Rightarrow> workspace_reply \<Rightarrow> bool" where
  "reply_owned own (Wq_Delete u i) (Wp_Deleted (Inr x)) \<longleftrightarrow> u = own i"
| "reply_owned own (Wq_Role u i v role) (Wp_Member (Inr x)) \<longleftrightarrow> u = own i"
| "reply_owned own (Wq_Remove u i v) (Wp_Removed (Inr x)) \<longleftrightarrow> v \<noteq> own i"
| "reply_owned own _ _ \<longleftrightarrow> True"

fun drawn_for :: "(uuid \<Rightarrow> uuid) \<Rightarrow> workspace_request \<Rightarrow> bool" where
  "drawn_for own (Wq_Create now fresh u name slug) \<longleftrightarrow> u = own fresh"
| "drawn_for own _ \<longleftrightarrow> True"

lemma workspace_handle_keeps:
  assumes "drawn_for own q"
  shows "keeps (owned own) (workspace_handle E q) (\<lambda>r _. reply_owned own q r)"
proof (cases q)
  case (Wq_Delete u i)
  show ?thesis unfolding Wq_Delete workspace_handle.simps keeps_map
    by (rule keeps_mono [OF keeps_workspaces_delete]) (case_tac r; simp)
next
  case (Wq_Role u i v role)
  show ?thesis unfolding Wq_Role workspace_handle.simps keeps_map
    by (rule keeps_mono [OF keeps_members_update]) (case_tac r; simp)
next
  case (Wq_Remove u i v)
  show ?thesis unfolding Wq_Remove workspace_handle.simps keeps_map
    by (rule keeps_mono [OF keeps_members_remove]) (case_tac r; simp)
qed (use assms in \<open>simp_all add: keeps_map keeps_workspaces keeps_members_add keeps_workspaces_create\<close>)


definition sample_api :: "ref_store api_env" where
  "sample_api = \<lparr> av_redis = ref_redis, av_info = \<lparr>ser = (\<lambda>_. None), de = (\<lambda>_. None)\<rparr>, av_adjust = (\<lambda>_ _. None),
     av_show_uuid = ref_uuid, av_db_text = [], av_email = False, av_app_url = None \<rparr>"

definition sample_empty :: "ref_store api_db" where
  "sample_empty = \<lparr> ap_workspaces = \<lparr>wd_workspaces = [], wd_members = []\<rparr>,
     ap_users = \<lparr>ud_users = [], ud_tokens = []\<rparr>, ap_redis = (True, \<lambda>_. None), ap_outbox = [] \<rparr>"

definition sample_created :: "ref_store api_db" where
  "sample_created = sample_empty\<lparr>ap_workspaces := \<lparr>wd_workspaces = [workspace_row 5 0 ''n'' ''s'' 9],
     wd_members = [\<lparr>wm_workspace_id = 5, wm_user_id = 9, wm_role = ''owner'', wm_created_at = 0\<rparr>]\<rparr>\<rparr>"

lemma sample_create_run:
  "\<exists>r. run (workspace_handle sample_api (Wq_Create 0 5 9 ''n'' ''s'')) [] sample_empty = (r, sample_created)"
  by (simp add: workspaces_create_def ws_find_by_slug_def sample_empty_def on_workspaces_def ws_create_def Let_def sql_insert_def
      workspace_row_def sample_created_def)


end
