(* ===== verification/Auth_Store.thy ===== *)
theory Auth_Store
  imports Workspace_Repo User_Repo
begin

text \<open>
  What the sign-in handlers store: users and their e-mail tokens, workspaces, refresh tokens (\<^verbatim>\<open>refresh_tokens\<close>,
  whose statements stand in \<^verbatim>\<open>crates/api/src/routes/auth.rs\<close>), linked GitHub accounts
  (\<^verbatim>\<open>crates/db/src/repositories/linked_github_repo.rs\<close>), Redis and the outgoing mail.
\<close>

section \<open>Rows\<close>

record refresh_row =
  rr_id :: uuid
  rr_user_id :: uuid
  rr_token_hash :: string
  rr_expires_at :: timestamp
  rr_created_at :: timestamp

record LinkedGitHubAccount =
  lg_id :: uuid
  lg_user_id :: uuid
  lg_github_id :: "64 word"
  lg_github_username :: string
  lg_github_avatar_url :: "string option"
  lg_scopes :: "string option"
  lg_is_primary :: bool
  lg_created_at :: timestamp
  lg_updated_at :: timestamp

record LinkedGitHubAccountWithToken = LinkedGitHubAccount +
  lg_access_token_encrypted :: bytes
  lg_access_token_nonce :: bytes

datatype mail = Verification_Mail string string | Reset_Mail string string

record 'r auth_db =
  ax_users :: user_db
  ax_workspaces :: workspace_db
  ax_refresh :: "refresh_row list"
  ax_linked :: "LinkedGitHubAccountWithToken list"
  ax_redis :: 'r
  ax_outbox :: "mail list"

text \<open>Statements of the repositories on their own tables.\<close>

definition at_users :: "(user_db \<Rightarrow> ('x \<times> user_db) option) \<Rightarrow> 'r auth_db \<Rightarrow> ('x \<times> 'r auth_db) option" where
  "at_users f d = map_option (\<lambda>(x, u). (x, d\<lparr>ax_users := u\<rparr>)) (f (ax_users d))"

definition at_redis :: "('r \<Rightarrow> 'r) \<Rightarrow> 'r auth_db \<Rightarrow> (unit \<times> 'r auth_db) option" where
  "at_redis f = change (\<lambda>d. d\<lparr>ax_redis := f (ax_redis d)\<rparr>)"

definition user_exists :: "uuid \<Rightarrow> 'r auth_db \<Rightarrow> bool" where
  "user_exists u d \<longleftrightarrow> user_find_by_id u (ax_users d) \<noteq> None"

text \<open>The owner of a new workspace must exist.\<close>

definition ax_ws_create ::
  "uuid \<Rightarrow> timestamp \<Rightarrow> string \<Rightarrow> string \<Rightarrow> uuid \<Rightarrow> 'r auth_db \<Rightarrow> (Workspace \<times> 'r auth_db) option" where
  "ax_ws_create fresh now name slug owner_id d =
     (if user_exists owner_id d
      then map_option (\<lambda>(w, ws). (w, d\<lparr>ax_workspaces := ws\<rparr>)) (ws_create fresh now name slug owner_id (ax_workspaces d))
      else None)"

text \<open>Deleting a user deletes the rows that refer to it: owned workspaces with their members, memberships and tokens.\<close>

definition ax_user_delete :: "uuid \<Rightarrow> 'r auth_db \<Rightarrow> 'r auth_db" where
  "ax_user_delete u d =
     (let ws = ax_workspaces d; owned = {ws_id w |w. w \<in> set (wd_workspaces ws) \<and> ws_owner_id w = u}
      in d\<lparr>ax_users := user_delete u (ax_users d),
           ax_workspaces := ws\<lparr>wd_workspaces := sql_delete (\<lambda>w. ws_owner_id w = u) (wd_workspaces ws),
             wd_members := sql_delete (\<lambda>m. wm_user_id m = u \<or> wm_workspace_id m \<in> owned) (wd_members ws)\<rparr>,
           ax_refresh := sql_delete (\<lambda>r. rr_user_id r = u) (ax_refresh d),
           ax_linked := sql_delete (\<lambda>l. lg_user_id l = u) (ax_linked d)\<rparr>)"


section \<open>Refresh tokens\<close>

definition refresh_clash :: "refresh_row \<Rightarrow> refresh_row \<Rightarrow> bool" where
  "refresh_clash r r' \<longleftrightarrow> rr_id r = rr_id r' \<or> rr_token_hash r = rr_token_hash r'"

definition insert_refresh ::
  "uuid \<Rightarrow> timestamp \<Rightarrow> uuid \<Rightarrow> string \<Rightarrow> timestamp \<Rightarrow> 'r auth_db \<Rightarrow> (unit \<times> 'r auth_db) option" where
  "insert_refresh fresh now user_id token_hash expires_at d =
     (if user_exists user_id d
      then map_option (\<lambda>t. ((), d\<lparr>ax_refresh := t\<rparr>))
             (sql_insert refresh_clash \<lparr>rr_id = fresh, rr_user_id = user_id, rr_token_hash = token_hash,
                rr_expires_at = expires_at, rr_created_at = now\<rparr> (ax_refresh d))
      else None)"

definition find_refresh :: "string \<Rightarrow> 'r auth_db \<Rightarrow> refresh_row option" where
  "find_refresh token_hash d = find (\<lambda>r. rr_token_hash r = token_hash) (ax_refresh d)"

definition delete_refresh :: "string \<Rightarrow> 'r auth_db \<Rightarrow> 'r auth_db" where
  "delete_refresh token_hash d = d\<lparr>ax_refresh := sql_delete (\<lambda>r. rr_token_hash r = token_hash) (ax_refresh d)\<rparr>"

definition delete_refresh_of :: "uuid \<Rightarrow> 'r auth_db \<Rightarrow> 'r auth_db" where
  "delete_refresh_of user_id d = d\<lparr>ax_refresh := sql_delete (\<lambda>r. rr_user_id r = user_id) (ax_refresh d)\<rparr>"


section \<open>Linked GitHub accounts\<close>

definition as_linked :: "LinkedGitHubAccountWithToken \<Rightarrow> LinkedGitHubAccount" where
  "as_linked l = LinkedGitHubAccount.truncate l"

definition linked_list_by_user :: "uuid \<Rightarrow> 'r auth_db \<Rightarrow> LinkedGitHubAccount list" where
  "linked_list_by_user user_id d =
     map as_linked (sort_key (\<lambda>l. if lg_is_primary l then 0 else 1 :: nat)
       (sort_key lg_created_at (filter (\<lambda>l. lg_user_id l = user_id) (ax_linked d))))"

definition linked_get_with_token :: "uuid \<Rightarrow> uuid \<Rightarrow> 'r auth_db \<Rightarrow> LinkedGitHubAccountWithToken option" where
  "linked_get_with_token i user_id d = find (\<lambda>l. lg_id l = i \<and> lg_user_id l = user_id) (ax_linked d)"

definition linked_get_primary :: "uuid \<Rightarrow> 'r auth_db \<Rightarrow> LinkedGitHubAccountWithToken option" where
  "linked_get_primary user_id d = find (\<lambda>l. lg_user_id l = user_id \<and> lg_is_primary l) (ax_linked d)"

definition linked_get_oldest :: "uuid \<Rightarrow> 'r auth_db \<Rightarrow> LinkedGitHubAccountWithToken option" where
  "linked_get_oldest user_id d =
     (case sort_key lg_created_at (filter (\<lambda>l. lg_user_id l = user_id) (ax_linked d)) of [] \<Rightarrow> None | l # _ \<Rightarrow> Some l)"

text \<open>Two queries: the primary account, else the oldest.\<close>

definition linked_get_any ::
  "'e \<Rightarrow> uuid \<Rightarrow> (LinkedGitHubAccountWithToken option \<Rightarrow> ('r auth_db, 'e, 'a) handler) \<Rightarrow> ('r auth_db, 'e, 'a) handler" where
  "linked_get_any e user_id k =
     run_or (select (linked_get_primary user_id)) e (\<lambda>primary.
     case primary of
       Some l \<Rightarrow> k (Some l)
     | None \<Rightarrow> run_or (select (linked_get_oldest user_id)) e k)"

definition linked_find_by_github_id :: "uuid \<Rightarrow> 64 word \<Rightarrow> 'r auth_db \<Rightarrow> LinkedGitHubAccount option" where
  "linked_find_by_github_id user_id github_id d =
     map_option as_linked (find (\<lambda>l. lg_user_id l = user_id \<and> lg_github_id l = github_id) (ax_linked d))"

definition linked_count_by_user :: "uuid \<Rightarrow> 'r auth_db \<Rightarrow> nat" where
  "linked_count_by_user user_id d = length (filter (\<lambda>l. lg_user_id l = user_id) (ax_linked d))"

definition linked_clash :: "LinkedGitHubAccountWithToken \<Rightarrow> LinkedGitHubAccountWithToken \<Rightarrow> bool" where
  "linked_clash l l' \<longleftrightarrow> lg_id l = lg_id l' \<or> (lg_user_id l = lg_user_id l' \<and> lg_github_id l = lg_github_id l')"

record CreateLinkedGitHubAccount =
  lc_user_id :: uuid
  lc_github_id :: "64 word"
  lc_github_username :: string
  lc_github_avatar_url :: "string option"
  lc_access_token_encrypted :: bytes
  lc_access_token_nonce :: bytes
  lc_scopes :: "string option"

text \<open>\<^verbatim>\<open>create\<close> counts first and inserts then; the user name column holds 39 characters.\<close>

definition linked_insert ::
  "uuid \<Rightarrow> timestamp \<Rightarrow> CreateLinkedGitHubAccount \<Rightarrow> bool \<Rightarrow> 'r auth_db \<Rightarrow> (LinkedGitHubAccount \<times> 'r auth_db) option" where
  "linked_insert fresh now data is_primary d =
     (let l = \<lparr>lg_id = fresh, lg_user_id = lc_user_id data, lg_github_id = lc_github_id data,
               lg_github_username = lc_github_username data, lg_github_avatar_url = lc_github_avatar_url data,
               lg_scopes = lc_scopes data, lg_is_primary = is_primary, lg_created_at = now, lg_updated_at = now,
               lg_access_token_encrypted = lc_access_token_encrypted data, lg_access_token_nonce = lc_access_token_nonce data\<rparr>
      in if user_exists (lc_user_id data) d \<and> length (lc_github_username data) \<le> 39
         then map_option (\<lambda>t. (as_linked l, d\<lparr>ax_linked := t\<rparr>)) (sql_insert linked_clash l (ax_linked d)) else None)"

definition linked_create ::
  "'e \<Rightarrow> uuid \<Rightarrow> timestamp \<Rightarrow> CreateLinkedGitHubAccount \<Rightarrow> (LinkedGitHubAccount \<Rightarrow> ('r auth_db, 'e, 'a) handler) \<Rightarrow>
   ('r auth_db, 'e, 'a) handler" where
  "linked_create e fresh now data k =
     run_or (select (linked_count_by_user (lc_user_id data))) e (\<lambda>existing_count.
     run_or (linked_insert fresh now data (existing_count = 0)) e k)"

definition linked_update_token ::
  "timestamp \<Rightarrow> uuid \<Rightarrow> uuid \<Rightarrow> bytes \<Rightarrow> bytes \<Rightarrow> string option \<Rightarrow> 'r auth_db \<Rightarrow> (LinkedGitHubAccount \<times> 'r auth_db) option" where
  "linked_update_token now i user_id encrypted nonce scopes d =
     (let P = (\<lambda>l. lg_id l = i \<and> lg_user_id l = user_id);
          f = (\<lambda>l. l\<lparr>lg_access_token_encrypted := encrypted, lg_access_token_nonce := nonce,
                     lg_scopes := or_else scopes (lg_scopes l), lg_updated_at := now\<rparr>)
      in map_option (\<lambda>l. (as_linked (f l), d\<lparr>ax_linked := sql_update P f (ax_linked d)\<rparr>)) (find P (ax_linked d)))"

definition linked_delete :: "uuid \<Rightarrow> uuid \<Rightarrow> 'r auth_db \<Rightarrow> (bool \<times> 'r auth_db) option" where
  "linked_delete i user_id d =
     (let P = (\<lambda>l. lg_id l = i \<and> lg_user_id l = user_id)
      in Some (list_ex P (ax_linked d), d\<lparr>ax_linked := sql_delete P (ax_linked d)\<rparr>))"

text \<open>One transaction of two updates; it commits whether or not the account was found.\<close>

definition linked_set_primary :: "uuid \<Rightarrow> uuid \<Rightarrow> 'r auth_db \<Rightarrow> (bool \<times> 'r auth_db) option" where
  "linked_set_primary i user_id d =
     (let t = sql_update (\<lambda>l. lg_user_id l = user_id) (\<lambda>l. l\<lparr>lg_is_primary := False\<rparr>) (ax_linked d);
          P = (\<lambda>l. lg_id l = i \<and> lg_user_id l = user_id)
      in Some (list_ex P t, d\<lparr>ax_linked := sql_update P (\<lambda>l. l\<lparr>lg_is_primary := True\<rparr>) t\<rparr>))"

text \<open>Choosing an account that is not the user's leaves the user without a primary account.\<close>

lemma linked_set_primary_rows:
  assumes "linked_set_primary i u d = Some (b, d')"
  shows "b \<longleftrightarrow> (\<exists>l \<in> set (ax_linked d). lg_id l = i \<and> lg_user_id l = u)"
    and "map lg_id (filter (\<lambda>l. lg_user_id l = u \<and> lg_is_primary l) (ax_linked d')) =
      map lg_id (filter (\<lambda>l. lg_id l = i \<and> lg_user_id l = u) (ax_linked d))"
proof -
  let ?c = "sql_update (\<lambda>l. lg_user_id l = u) (\<lambda>l. l\<lparr>lg_is_primary := False\<rparr>)"
  let ?s = "sql_update (\<lambda>l. lg_id l = i \<and> lg_user_id l = u) (\<lambda>l. l\<lparr>lg_is_primary := True\<rparr>)"
  have d': "ax_linked d' = ?s (?c (ax_linked d))" and b: "b \<longleftrightarrow> list_ex (\<lambda>l. lg_id l = i \<and> lg_user_id l = u) (?c (ax_linked d))"
    using assms unfolding linked_set_primary_def Let_def by (simp_all only: option.inject prod.inject) (elim conjE, hypsubst, simp)
  have "list_ex (\<lambda>l. lg_id l = i \<and> lg_user_id l = u) (?c t) \<longleftrightarrow> list_ex (\<lambda>l. lg_id l = i \<and> lg_user_id l = u) t" for t
    by (induction t) (simp_all add: sql_update_def)
  then show "b \<longleftrightarrow> (\<exists>l \<in> set (ax_linked d). lg_id l = i \<and> lg_user_id l = u)" by (simp add: b list_ex_iff)
  have "map lg_id (filter (\<lambda>l. lg_user_id l = u \<and> lg_is_primary l) (?s (?c t))) =
      map lg_id (filter (\<lambda>l. lg_id l = i \<and> lg_user_id l = u) t)" for t
    by (induction t) (simp_all add: sql_update_def)
  then show "map lg_id (filter (\<lambda>l. lg_user_id l = u \<and> lg_is_primary l) (ax_linked d')) =
      map lg_id (filter (\<lambda>l. lg_id l = i \<and> lg_user_id l = u) (ax_linked d))" by (simp add: d')
qed

lemma set_primary_missing:
  assumes "\<forall>l \<in> set (ax_linked d). \<not> (lg_id l = i \<and> lg_user_id l = u)" and "linked_set_primary i u d = Some (b, d')"
  shows "\<not> b" and "linked_get_primary u d' = None"
proof -
  show "\<not> b" using linked_set_primary_rows(1) [OF assms(2)] assms(1) by blast
  have "filter (\<lambda>l. lg_id l = i \<and> lg_user_id l = u) (ax_linked d) = []" using assms(1) by (simp add: filter_empty_conv)
  then have "filter (\<lambda>l. lg_user_id l = u \<and> lg_is_primary l) (ax_linked d') = []"
    using linked_set_primary_rows(2) [OF assms(2)] by simp
  then show "linked_get_primary u d' = None" by (simp add: linked_get_primary_def find_None_iff filter_empty_conv)
qed

lemma set_primary_one:
  assumes "l \<in> set (ax_linked d)" and "lg_user_id l = u" and "distinct (map lg_id (ax_linked d))"
    and "linked_set_primary (lg_id l) u d = Some (b, d')"
  shows "b" and "map lg_id (filter (\<lambda>l. lg_user_id l = u \<and> lg_is_primary l) (ax_linked d')) = [lg_id l]"
proof -
  show b using linked_set_primary_rows(1) [OF assms(4)] assms(1,2) by blast
  have "filter (\<lambda>k. lg_id k = lg_id l \<and> lg_user_id k = u) (ax_linked d) =
      filter (\<lambda>k. lg_user_id k = u) (filter (\<lambda>k. lg_id k = lg_id l) (ax_linked d))" by (simp add: conj_commute)
  then show "map lg_id (filter (\<lambda>l. lg_user_id l = u \<and> lg_is_primary l) (ax_linked d')) = [lg_id l]"
    using linked_set_primary_rows(2) [OF assms(4)] filter_key [OF assms(3,1)] assms(2) by simp
qed

end
