(* ===== verification/Auth_Tokens.thy ===== *)
theory Auth_Tokens
  imports Api_Limits Api_Error Config Sql
begin

text \<open>
  Session tokens of the API: signed access tokens (\<^verbatim>\<open>crates/auth/src/jwt.rs\<close>), their revocation in Redis
  (\<^verbatim>\<open>revocation.rs\<close>), password hashes (\<^verbatim>\<open>password.rs\<close>), encryption of stored secrets (\<^verbatim>\<open>crypto.rs\<close>), and the
  extractor that turns a request's headers into its user (\<^verbatim>\<open>crates/api/src/extractors/auth.rs\<close>).

  Signing, hashing and sealing come from other crates and are fields of \<open>auth_crypto\<close>. Time is in seconds.
\<close>

section \<open>Access tokens\<close>

record Claims =
  cl_sub :: string
  cl_exp :: int
  cl_iat :: int
  cl_jti :: string
  cl_workspace_id :: "string option"

text \<open>
  \<open>cx_encode\<close> signs claims; \<open>cx_decode\<close> checks a token's signature and, at the given time, its expiry, and returns its
  claims. A password hash is made with a drawn salt; \<open>cx_verify\<close> is \<open>None\<close> on a malformed hash. \<open>cx_seal\<close> and \<open>cx_open\<close>
  are AES-256-GCM under a key and a nonce, \<open>cx_utf8\<close> recognizes UTF-8.
\<close>

record auth_crypto =
  cx_encode :: "Claims \<Rightarrow> string option"
  cx_decode :: "timestamp \<Rightarrow> string \<Rightarrow> Claims option"
  cx_sha256_hex :: "string \<Rightarrow> string"
  cx_hash_password :: "string \<Rightarrow> string \<Rightarrow> string option"
  cx_verify :: "string \<Rightarrow> string \<Rightarrow> bool option"
  cx_seal :: "bytes \<Rightarrow> bytes \<Rightarrow> bytes \<Rightarrow> bytes option"
  cx_open :: "bytes \<Rightarrow> bytes \<Rightarrow> bytes \<Rightarrow> bytes option"
  cx_unhex :: "string \<Rightarrow> bytes option"
  cx_utf8 :: "bytes \<Rightarrow> bool"
  cx_show_uuid :: "uuid \<Rightarrow> string"
  cx_parse_uuid :: "string \<Rightarrow> uuid option"

definition Claims_user_id :: "auth_crypto \<Rightarrow> Claims \<Rightarrow> Error + uuid" where
  "Claims_user_id X c = (case cx_parse_uuid X (cl_sub c) of None \<Rightarrow> Inl Error_Unauthorized | Some u \<Rightarrow> Inr u)"

definition Claims_workspace_id :: "auth_crypto \<Rightarrow> Claims \<Rightarrow> uuid option" where
  "Claims_workspace_id X c = Option.bind (cl_workspace_id c) (cx_parse_uuid X)"

definition token_claims :: "auth_crypto \<Rightarrow> int \<Rightarrow> timestamp \<Rightarrow> uuid \<Rightarrow> uuid \<Rightarrow> uuid option \<Rightarrow> Claims" where
  "token_claims X expiration_hours now jti user_id workspace_id = \<lparr>
     cl_sub = cx_show_uuid X user_id, cl_exp = now + expiration_hours * 3600, cl_iat = now,
     cl_jti = cx_show_uuid X jti, cl_workspace_id = map_option (cx_show_uuid X) workspace_id \<rparr>"

definition generate_token :: "auth_crypto \<Rightarrow> int \<Rightarrow> timestamp \<Rightarrow> uuid \<Rightarrow> uuid \<Rightarrow> uuid option \<Rightarrow> string option" where
  "generate_token X expiration_hours now jti user_id workspace_id =
     cx_encode X (token_claims X expiration_hours now jti user_id workspace_id)"

definition verify_token :: "auth_crypto \<Rightarrow> timestamp \<Rightarrow> string \<Rightarrow> Claims option" where
  "verify_token X now tok = cx_decode X now tok"

definition jwt_refresh_token :: "auth_crypto \<Rightarrow> int \<Rightarrow> timestamp \<Rightarrow> uuid \<Rightarrow> string \<Rightarrow> string option" where
  "jwt_refresh_token X expiration_hours now jti tok =
     (case verify_token X now tok of
        None \<Rightarrow> None
      | Some claims \<Rightarrow>
          (case Claims_user_id X claims of
             Inl _ \<Rightarrow> None
           | Inr user_id \<Rightarrow> generate_token X expiration_hours now jti user_id (Claims_workspace_id X claims)))"

record RefreshToken =
  rf_token :: string
  rf_user_id :: uuid
  rf_expires_at :: timestamp

text \<open>\<open>random\<close> is the hex text of 32 bytes of the system's generator, \<open>None\<close> when it fails.\<close>

definition RefreshToken_generate :: "string option \<Rightarrow> timestamp \<Rightarrow> uuid \<Rightarrow> int \<Rightarrow> RefreshToken option" where
  "RefreshToken_generate random now user_id expiration_days =
     map_option (\<lambda>t. \<lparr>rf_token = t, rf_user_id = user_id, rf_expires_at = now + expiration_days * 86400\<rparr>) random"

definition hash_token :: "auth_crypto \<Rightarrow> string \<Rightarrow> string" where
  "hash_token X t = cx_sha256_hex X t"

definition RefreshToken_hash :: "auth_crypto \<Rightarrow> RefreshToken \<Rightarrow> string" where
  "RefreshToken_hash X r = cx_sha256_hex X (rf_token r)"

definition RefreshToken_is_expired :: "timestamp \<Rightarrow> RefreshToken \<Rightarrow> bool" where
  "RefreshToken_is_expired now r \<longleftrightarrow> rf_expires_at r < now"


section \<open>Revocation\<close>

definition REVOKED_TOKEN_PREFIX :: string where "REVOKED_TOKEN_PREFIX = ''revoked_token:''"

definition revoke_token :: "'r redis_ops \<Rightarrow> string \<Rightarrow> int \<Rightarrow> 'r \<Rightarrow> (unit \<times> 'r) option" where
  "revoke_token R jti ttl_secs s =
     (if ttl_secs \<le> 0 then Some ((), s)
      else if r_up R s then Some ((), r_set_ex R s (REVOKED_TOKEN_PREFIX @ jti) (rval_of ''1'') (nat ttl_secs))
      else None)"

definition is_token_revoked :: "'r redis_ops \<Rightarrow> 'r \<Rightarrow> string \<Rightarrow> bool" where
  "is_token_revoked R s jti = (if r_up R s then r_exists R s (REVOKED_TOKEN_PREFIX @ jti) else False)"

definition user_revocation_key :: "string \<Rightarrow> string" where
  "user_revocation_key user_id = REVOKED_TOKEN_PREFIX @ ''user:'' @ user_id"

text \<open>Redis refuses an expiry that is not positive.\<close>

definition revoke_all_user_tokens :: "'r redis_ops \<Rightarrow> timestamp \<Rightarrow> string \<Rightarrow> int \<Rightarrow> 'r \<Rightarrow> (unit \<times> 'r) option" where
  "revoke_all_user_tokens R now user_id ttl_secs s =
     (if r_up R s \<and> 0 < ttl_secs
      then Some ((), r_set_ex R s (user_revocation_key user_id) (rval_of (show_int now)) (nat ttl_secs))
      else None)"

definition get_user_revocation_timestamp :: "'r redis_ops \<Rightarrow> 'r \<Rightarrow> string \<Rightarrow> int option" where
  "get_user_revocation_timestamp R s user_id =
     (if r_up R s then Option.bind (r_get R s (user_revocation_key user_id)) (\<lambda>v. parse_signed 64 (rval_str v)) else None)"


section \<open>Secrets at rest\<close>

definition hash_password :: "auth_crypto \<Rightarrow> string \<Rightarrow> string \<Rightarrow> Error + string" where
  "hash_password X salt password =
     (case cx_hash_password X salt password of
        None \<Rightarrow> Inl (Error_Internal ''Failed to hash password'') | Some h \<Rightarrow> Inr h)"

definition verify_password :: "auth_crypto \<Rightarrow> string \<Rightarrow> string \<Rightarrow> Error + bool" where
  "verify_password X password h =
     (case cx_verify X password h of None \<Rightarrow> Inl (Error_Internal ''Invalid password hash'') | Some b \<Rightarrow> Inr b)"

definition NONCE_SIZE :: nat where "NONCE_SIZE = 12"
definition KEY_SIZE :: nat where "KEY_SIZE = 32"

definition CryptoService_new :: "bytes \<Rightarrow> Error + bytes" where
  "CryptoService_new key =
     (if length key \<noteq> KEY_SIZE then Inl (Error_Config (''Encryption key must be '' @ show_nat KEY_SIZE @ '' bytes''))
      else Inr key)"

definition CryptoService_from_hex :: "auth_crypto \<Rightarrow> string \<Rightarrow> Error + bytes" where
  "CryptoService_from_hex X hex_key =
     (case cx_unhex X hex_key of None \<Rightarrow> Inl (Error_Config ''Invalid hex key'') | Some key \<Rightarrow> CryptoService_new key)"

text \<open>\<open>nonce\<close> is drawn from the system's generator, \<open>None\<close> when it fails.\<close>

definition encrypt :: "auth_crypto \<Rightarrow> bytes \<Rightarrow> bytes option \<Rightarrow> bytes \<Rightarrow> Error + (bytes \<times> bytes)" where
  "encrypt X key nonce plaintext =
     (case nonce of
        None \<Rightarrow> Inl (Error_Internal ''Failed to generate nonce'')
      | Some n \<Rightarrow>
          (if length key \<noteq> KEY_SIZE then Inl (Error_Internal ''Failed to create encryption key'')
           else (case cx_seal X key n plaintext of
                   None \<Rightarrow> Inl (Error_Internal ''Encryption failed'') | Some c \<Rightarrow> Inr (c, n))))"

definition decrypt :: "auth_crypto \<Rightarrow> bytes \<Rightarrow> bytes \<Rightarrow> bytes \<Rightarrow> Error + bytes" where
  "decrypt X key ciphertext nonce =
     (if length nonce \<noteq> NONCE_SIZE then Inl (Error_BadRequest ''Invalid nonce size'')
      else if length key \<noteq> KEY_SIZE then Inl (Error_Internal ''Failed to create decryption key'')
      else (case cx_open X key nonce ciphertext of
              None \<Rightarrow> Inl (Error_Internal ''Decryption failed'') | Some p \<Rightarrow> Inr p))"

definition encrypt_string :: "auth_crypto \<Rightarrow> bytes \<Rightarrow> bytes option \<Rightarrow> string \<Rightarrow> Error + (bytes \<times> bytes)" where
  "encrypt_string X key nonce plaintext = encrypt X key nonce plaintext"

definition decrypt_string :: "auth_crypto \<Rightarrow> bytes \<Rightarrow> bytes \<Rightarrow> bytes \<Rightarrow> Error + string" where
  "decrypt_string X key ciphertext nonce =
     (case decrypt X key ciphertext nonce of
        Inl e \<Rightarrow> Inl e
      | Inr p \<Rightarrow> if cx_utf8 X p then Inr p else Inl (Error_Internal ''Invalid UTF-8''))"


section \<open>The user of a request\<close>

record AuthUser =
  xu_user_id :: uuid
  xu_workspace_id :: "uuid option"

fun cookie_token :: "string list \<Rightarrow> string option" where
  "cookie_token [] = None"
| "cookie_token (c # cs) =
     (case str_strip_prefix (ascii_trim c) ''access_token='' of Some t \<Rightarrow> Some t | None \<Rightarrow> cookie_token cs)"

definition extract_token_from_cookie :: "string \<Rightarrow> string option" where
  "extract_token_from_cookie cookie_header = cookie_token (str_split (CHR '';'') cookie_header)"

definition request_token :: "headers \<Rightarrow> string failure + string" where
  "request_token h =
     (case hdr_str h ''authorization'' of
        Some auth_header \<Rightarrow>
          (case str_strip_prefix auth_header ''Bearer '' of
             None \<Rightarrow> Inl (Reply 401 ''Invalid authorization header format'') | Some t \<Rightarrow> Inr t)
      | None \<Rightarrow>
          (case hdr_str h ''cookie'' of
             Some cookie_header \<Rightarrow>
               (case extract_token_from_cookie cookie_header of
                  None \<Rightarrow> Inl (Reply 401 ''Missing access token in cookie'') | Some t \<Rightarrow> Inr t)
           | None \<Rightarrow> Inl (Reply 401 ''Missing authorization'')))"

text \<open>
  \<^verbatim>\<open>AuthUser::from_request_parts\<close>, in front of the handlers that take an \<^verbatim>\<open>AuthUser\<close>. It reads Redis twice; a read that
  fails revokes nothing.
\<close>

definition with_auth_user ::
  "auth_crypto \<Rightarrow> 'r redis_ops \<Rightarrow> ('d \<Rightarrow> 'r) \<Rightarrow> timestamp \<Rightarrow> headers \<Rightarrow> (AuthUser \<Rightarrow> ('d, string failure, 'a) handler) \<Rightarrow>
   ('d, string failure, 'a) handler" where
  "with_auth_user X R redis now h k =
     (case request_token h of
        Inl e \<Rightarrow> refuse e
      | Inr t \<Rightarrow>
          require (verify_token X now t) (Reply 401 ''Invalid or expired token'') (\<lambda>claims.
          case Claims_user_id X claims of
            Inl _ \<Rightarrow> refuse (Reply 401 ''Invalid user ID in token'')
          | Inr user_id \<Rightarrow>
              run_sql (select (\<lambda>d. is_token_revoked R (redis d) (cl_jti claims))) (\<lambda>hit.
              ensure (\<not> unwrap_or hit False) (Reply 401 ''Token has been revoked'')
              (run_sql (select (\<lambda>d. get_user_revocation_timestamp R (redis d) (cx_show_uuid X user_id))) (\<lambda>time.
               ensure (\<not> (case Option.bind time id of Some revocation_time \<Rightarrow> cl_iat claims \<le> revocation_time | None \<Rightarrow> False))
                 (Reply 401 ''Token has been revoked'')
               (k \<lparr>xu_user_id = user_id, xu_workspace_id = Claims_workspace_id X claims\<rparr>))))))"

end
