(* ===== verification/Identity_Providers.thy ===== *)
theory Identity_Providers
  imports Json Http Api_Error Config
begin

text \<open>
  Sign-in with GitHub and Google (\<^verbatim>\<open>crates/auth/src/github.rs\<close>, \<^verbatim>\<open>google.rs\<close>): the address the user is sent to, the
  exchange of the code for an access token and the user's data. What the two services answer is the parameter \<open>web\<close>,
  \<open>None\<close> when the call fails; the texts of transport errors are left out.
\<close>

section \<open>Calls to other services\<close>

record web_request =
  wq_method :: string
  wq_url :: string
  wq_headers :: "(string \<times> string) list"
  wq_form :: "(string \<times> string) list"

type_synonym web = "web_request \<Rightarrow> (nat \<times> bytes) option"

definition is_success :: "nat \<Rightarrow> bool" where
  "is_success status \<longleftrightarrow> 200 \<le> status \<and> status < 300"

text \<open>Fields of a derived \<^verbatim>\<open>Deserialize\<close>: an optional one may be absent or null.\<close>

definition de_string :: "json \<Rightarrow> string \<Rightarrow> string option" where
  "de_string v k = Option.bind (json_get v k) as_str"

definition de_opt_string :: "json \<Rightarrow> string \<Rightarrow> string option option" where
  "de_opt_string v k =
     (case json_get v k of None \<Rightarrow> Some None | Some JNull \<Rightarrow> Some None | Some (JString s) \<Rightarrow> Some (Some s) | _ \<Rightarrow> None)"

definition de_bool :: "json \<Rightarrow> string \<Rightarrow> bool option" where
  "de_bool v k = (case json_get v k of Some (JBool b) \<Rightarrow> Some b | _ \<Rightarrow> None)"

definition de_opt_bool :: "json \<Rightarrow> string \<Rightarrow> bool option option" where
  "de_opt_bool v k =
     (case json_get v k of None \<Rightarrow> Some None | Some JNull \<Rightarrow> Some None | Some (JBool b) \<Rightarrow> Some (Some b) | _ \<Rightarrow> None)"

definition de_i64 :: "json \<Rightarrow> string \<Rightarrow> 64 word option" where
  "de_i64 v k =
     (case json_get v k of
        Some (JNumber (NInt i)) \<Rightarrow> (if - (2 ^ 63) \<le> i \<and> i < 2 ^ 63 then Some (word_of_int i) else None) | _ \<Rightarrow> None)"

definition de_u64 :: "json \<Rightarrow> string \<Rightarrow> 64 word option" where
  "de_u64 v k =
     (case json_get v k of
        Some (JNumber (NInt i)) \<Rightarrow> (if 0 \<le> i \<and> i < 2 ^ 64 then Some (word_of_int i) else None) | _ \<Rightarrow> None)"


section \<open>GitHub\<close>

definition GITHUB_AUTH_URL :: string where "GITHUB_AUTH_URL = ''https://github.com/login/oauth/authorize''"
definition GITHUB_TOKEN_URL :: string where "GITHUB_TOKEN_URL = ''https://github.com/login/oauth/access_token''"
definition GITHUB_API_URL :: string where "GITHUB_API_URL = ''https://api.github.com''"

record GitHubUser =
  gu_id :: "64 word"
  gu_login :: string
  gu_email :: "string option"
  gu_name :: "string option"
  gu_avatar_url :: "string option"

record GitHubEmail =
  ge_email :: string
  ge_primary :: bool
  ge_verified :: bool

record OAuthApp =
  oa_client_id :: string
  oa_client_secret :: string
  oa_redirect_url :: string

definition GitHubOAuth_from_config :: "AppConfig \<Rightarrow> string \<Rightarrow> OAuthApp" where
  "GitHubOAuth_from_config c redirect_url =
     \<lparr>oa_client_id = gh_client_id (cf_github c), oa_client_secret = gh_client_secret (cf_github c),
      oa_redirect_url = redirect_url\<rparr>"

text \<open>\<open>encode\<close> is \<^verbatim>\<open>form_urlencoded::byte_serialize\<close>; the state is drawn.\<close>

definition github_authorization_url :: "(string \<Rightarrow> string) \<Rightarrow> OAuthApp \<Rightarrow> string \<Rightarrow> string" where
  "github_authorization_url encode a state =
     GITHUB_AUTH_URL @ ''?client_id='' @ oa_client_id a @ ''&redirect_uri='' @ encode (oa_redirect_url a) @
     ''&scope=user:email%20read:user&state='' @ state"

definition authorization_url_with_state_and_scopes :: "(string \<Rightarrow> string) \<Rightarrow> OAuthApp \<Rightarrow> string \<Rightarrow> string \<Rightarrow> string" where
  "authorization_url_with_state_and_scopes encode a state scopes =
     GITHUB_AUTH_URL @ ''?client_id='' @ oa_client_id a @ ''&redirect_uri='' @ encode (oa_redirect_url a) @
     ''&scope='' @ encode scopes @ ''&state='' @ state"

definition github_exchange_code :: "codec \<Rightarrow> web \<Rightarrow> OAuthApp \<Rightarrow> string \<Rightarrow> Error + string" where
  "github_exchange_code C web a code =
     (case web \<lparr>wq_method = ''POST'', wq_url = GITHUB_TOKEN_URL, wq_headers = [(''Accept'', ''application/json'')],
                wq_form = [(''client_id'', oa_client_id a), (''client_secret'', oa_client_secret a), (''code'', code),
                           (''redirect_uri'', oa_redirect_url a)]\<rparr> of
        None \<Rightarrow> Inl (Error_ExternalService ''GitHub OAuth error'')
      | Some (status, body) \<Rightarrow>
          (if \<not> is_success status then Inl (Error_ExternalService (''GitHub OAuth error: '' @ body))
           else (case Option.bind (from_slice C body) (\<lambda>v. de_string v ''access_token'') of
                   None \<Rightarrow> Inl (Error_ExternalService ''Failed to parse token'') | Some t \<Rightarrow> Inr t)))"

definition GitHubUser_of_json :: "json \<Rightarrow> GitHubUser option" where
  "GitHubUser_of_json v =
     (case (de_i64 v ''id'', de_string v ''login'', de_opt_string v ''email'', de_opt_string v ''name'',
            de_opt_string v ''avatar_url'') of
        (Some i, Some l, Some e, Some n, Some a) \<Rightarrow>
          Some \<lparr>gu_id = i, gu_login = l, gu_email = e, gu_name = n, gu_avatar_url = a\<rparr>
      | _ \<Rightarrow> None)"

definition github_get :: "string \<Rightarrow> string \<Rightarrow> web_request" where
  "github_get path access_token =
     \<lparr>wq_method = ''GET'', wq_url = GITHUB_API_URL @ path,
      wq_headers = [(''Authorization'', ''Bearer '' @ access_token), (''Accept'', ''application/vnd.github+json'')], wq_form = []\<rparr>"

definition github_get_user :: "codec \<Rightarrow> web \<Rightarrow> string \<Rightarrow> Error + GitHubUser" where
  "github_get_user C web access_token =
     (case web (github_get ''/user'' access_token) of
        None \<Rightarrow> Inl (Error_ExternalService ''GitHub API error'')
      | Some (status, body) \<Rightarrow>
          (if \<not> is_success status then Inl (Error_ExternalService (''GitHub API error: '' @ show_nat status @ '' - '' @ body))
           else (case Option.bind (from_slice C body) GitHubUser_of_json of
                   None \<Rightarrow> Inl (Error_ExternalService ''Failed to parse user'') | Some u \<Rightarrow> Inr u)))"

definition GitHubEmail_of_json :: "json \<Rightarrow> GitHubEmail option" where
  "GitHubEmail_of_json v =
     (case (de_string v ''email'', de_bool v ''primary'', de_bool v ''verified'') of
        (Some e, Some p, Some w) \<Rightarrow> Some \<lparr>ge_email = e, ge_primary = p, ge_verified = w\<rparr> | _ \<Rightarrow> None)"

text \<open>A list of values, all of which must convert.\<close>

definition de_list :: "(json \<Rightarrow> 'a option) \<Rightarrow> json \<Rightarrow> 'a list option" where
  "de_list f v =
     (case as_array v of None \<Rightarrow> None
      | Some vs \<Rightarrow> if list_all (\<lambda>x. f x \<noteq> None) vs then Some (List.map_filter f vs) else None)"

definition get_primary_email :: "codec \<Rightarrow> web \<Rightarrow> string \<Rightarrow> Error + string option" where
  "get_primary_email C web access_token =
     (case web (github_get ''/user/emails'' access_token) of
        None \<Rightarrow> Inl (Error_ExternalService ''GitHub API error'')
      | Some (status, body) \<Rightarrow>
          (if \<not> is_success status then Inr None
           else (case Option.bind (from_slice C body) (de_list GitHubEmail_of_json) of
                   None \<Rightarrow> Inl (Error_ExternalService ''Failed to parse emails'')
                 | Some emails \<Rightarrow> Inr (map_option ge_email (find (\<lambda>e. ge_primary e \<and> ge_verified e) emails)))))"


section \<open>Google\<close>

definition GOOGLE_AUTH_URL :: string where "GOOGLE_AUTH_URL = ''https://accounts.google.com/o/oauth2/v2/auth''"
definition GOOGLE_TOKEN_URL :: string where "GOOGLE_TOKEN_URL = ''https://oauth2.googleapis.com/token''"
definition GOOGLE_USERINFO_URL :: string where "GOOGLE_USERINFO_URL = ''https://www.googleapis.com/oauth2/v3/userinfo''"

record GoogleUser =
  gg_sub :: string
  gg_email :: "string option"
  gg_email_verified :: "bool option"
  gg_name :: "string option"
  gg_given_name :: "string option"
  gg_family_name :: "string option"
  gg_picture :: "string option"
  gg_locale :: "string option"

definition GoogleOAuth_new :: "AppConfig \<Rightarrow> string \<Rightarrow> Error + OAuthApp" where
  "GoogleOAuth_new c redirect_url =
     (if go_client_id (cf_google c) = [] then Inl (Error_Config ''GOOGLE_CLIENT_ID not configured'')
      else if go_client_secret (cf_google c) = [] then Inl (Error_Config ''GOOGLE_CLIENT_SECRET not configured'')
      else Inr \<lparr>oa_client_id = go_client_id (cf_google c), oa_client_secret = go_client_secret (cf_google c),
                oa_redirect_url = redirect_url\<rparr>)"

definition google_authorization_url :: "(string \<Rightarrow> string) \<Rightarrow> OAuthApp \<Rightarrow> string \<Rightarrow> string" where
  "google_authorization_url encode a state =
     GOOGLE_AUTH_URL @ ''?client_id='' @ oa_client_id a @ ''&redirect_uri='' @ encode (oa_redirect_url a) @
     ''&response_type=code&scope=openid%20email%20profile&state='' @ state @ ''&access_type=offline&prompt=select_account''"

definition google_exchange_code :: "codec \<Rightarrow> web \<Rightarrow> OAuthApp \<Rightarrow> string \<Rightarrow> Error + string" where
  "google_exchange_code C web a code =
     (case web \<lparr>wq_method = ''POST'', wq_url = GOOGLE_TOKEN_URL,
                wq_headers = [(''Content-Type'', ''application/x-www-form-urlencoded'')],
                wq_form = [(''client_id'', oa_client_id a), (''client_secret'', oa_client_secret a), (''code'', code),
                           (''redirect_uri'', oa_redirect_url a), (''grant_type'', ''authorization_code'')]\<rparr> of
        None \<Rightarrow> Inl (Error_ExternalService ''Google OAuth error'')
      | Some (status, body) \<Rightarrow>
          (let parsed = from_slice C body
           in if \<not> is_success status then
                Inl (Error_ExternalService (''Google OAuth token exchange error: '' @
                  (case (Option.bind parsed (\<lambda>v. de_string v ''error''), Option.bind parsed (\<lambda>v. de_opt_string v ''error_description'')) of
                     (Some e, Some description) \<Rightarrow> e @ '': '' @ unwrap_or description []
                   | _ \<Rightarrow> ''HTTP '' @ show_nat status)))
              else (case (Option.bind parsed (\<lambda>v. de_string v ''access_token''), Option.bind parsed (\<lambda>v. de_string v ''token_type''),
                          Option.bind parsed (\<lambda>v. de_u64 v ''expires_in''), Option.bind parsed (\<lambda>v. de_opt_string v ''scope''),
                          Option.bind parsed (\<lambda>v. de_opt_string v ''id_token'')) of
                      (Some t, Some _, Some _, Some _, Some _) \<Rightarrow> Inr t
                    | _ \<Rightarrow> Inl (Error_ExternalService ''Failed to parse Google token response''))))"

definition GoogleUser_of_json :: "json \<Rightarrow> GoogleUser option" where
  "GoogleUser_of_json v =
     (case (de_string v ''sub'', de_opt_string v ''email'', de_opt_bool v ''email_verified'', de_opt_string v ''name'',
            de_opt_string v ''given_name'', de_opt_string v ''family_name'', de_opt_string v ''picture'', de_opt_string v ''locale'') of
        (Some s, Some e, Some w, Some n, Some g, Some f, Some p, Some l) \<Rightarrow>
          Some \<lparr>gg_sub = s, gg_email = e, gg_email_verified = w, gg_name = n, gg_given_name = g, gg_family_name = f,
                gg_picture = p, gg_locale = l\<rparr>
      | _ \<Rightarrow> None)"

definition google_get_user :: "codec \<Rightarrow> web \<Rightarrow> string \<Rightarrow> Error + GoogleUser" where
  "google_get_user C web access_token =
     (case web \<lparr>wq_method = ''GET'', wq_url = GOOGLE_USERINFO_URL,
                wq_headers = [(''Authorization'', ''Bearer '' @ access_token)], wq_form = []\<rparr> of
        None \<Rightarrow> Inl (Error_ExternalService ''Google API error'')
      | Some (status, body) \<Rightarrow>
          (if \<not> is_success status then Inl (Error_ExternalService (''Google API error: '' @ show_nat status @ '' - '' @ body))
           else (case Option.bind (from_slice C body) GoogleUser_of_json of
                   None \<Rightarrow> Inl (Error_ExternalService ''Failed to parse Google user info'') | Some u \<Rightarrow> Inr u)))"

end
