(* ===== verification/Auth_Server.thy ===== *)
theory Auth_Server
  imports Auth_Store Auth_Tokens Identity_Providers
begin

text \<open>
  Sign-in (\<^verbatim>\<open>crates/api/src/routes/auth.rs\<close>) and the linking of GitHub accounts (\<^verbatim>\<open>routes/github_accounts.rs\<close>). Each
  handler is a program over the store. What a request draws (the time, random tokens, identifiers of new rows) and what
  GitHub and Google answer it are the record \<open>auth_draw\<close>; URL parsing and encoding come from other crates and are fields
  of \<open>auth_env\<close>. The answers to the client are its status, headers and body.
\<close>

section \<open>Environment\<close>

record parsed_url =
  pu_scheme :: string
  pu_host :: "string option"
  pu_port :: "nat option"
  pu_path :: string
  pu_query :: "string option"

record 'r auth_env =
  xe_crypto :: auth_crypto
  xe_key :: bytes
  xe_redis :: "'r redis_ops"
  xe_vars :: env
  xe_config :: AppConfig
  xe_codec :: codec
  xe_lower :: "string \<Rightarrow> string"
  xe_url :: "string \<Rightarrow> parsed_url option"
  xe_byte_serialize :: "string \<Rightarrow> string"
  xe_urlencode :: "string \<Rightarrow> string"
  xe_rfc3339 :: "timestamp \<Rightarrow> string"
  xe_mail :: bool
  xe_db_text :: string

record auth_draw =
  ad_now :: timestamp
  ad_user_row :: uuid
  ad_ws_row :: uuid
  ad_refresh_row :: uuid
  ad_mail_row :: uuid
  ad_linked_row :: uuid
  ad_jti :: uuid
  ad_refresh_token :: "string option"
  ad_mail_token :: "string option"
  ad_state :: string
  ad_salt :: string
  ad_nonce :: "bytes option"
  ad_web :: web

record UserResponse =
  ur_id :: uuid
  ur_email :: string
  ur_name :: string
  ur_avatar_url :: "string option"
  ur_created_at :: timestamp

definition user_response :: "User \<Rightarrow> UserResponse" where
  "user_response u = \<lparr>ur_id = us_id u, ur_email = us_email u, ur_name = us_name u, ur_avatar_url = us_avatar_url u,
     ur_created_at = us_created_at u\<rparr>"

record AuthResponse =
  ar_access_token :: string
  ar_refresh_token :: "string option"
  ar_token_type :: string
  ar_expires_in :: int
  ar_user :: UserResponse

record auth_http =
  hr_status :: nat
  hr_headers :: headers
  hr_body :: "AuthResponse option"

definition db_err :: "'r auth_env \<Rightarrow> string failure" where
  "db_err E = failed (api_db_error (xe_db_text E))"

definition internal_err :: "string \<Rightarrow> string failure" where
  "internal_err what = failed (internal_error what [])"

text \<open>\<^verbatim>\<open>Redirect::temporary\<close> panics on text that is no header value.\<close>

definition redirect_temporary :: "string \<Rightarrow> ('d, string failure, auth_http) handler" where
  "redirect_temporary uri =
     (case hdr_from_str uri of
        None \<Rightarrow> refuse Panic
      | Some v \<Rightarrow> answer \<lparr>hr_status = 307, hr_headers = [(''location'', v)], hr_body = None\<rparr>)"


section \<open>Where to return to\<close>

definition validate_return_to_url :: "(string \<Rightarrow> string) \<Rightarrow> (string \<Rightarrow> parsed_url option) \<Rightarrow> string \<Rightarrow> string \<Rightarrow> string option" where
  "validate_return_to_url lower url_parse return_to frontend_url =
     (let return_to = str_trim return_to
      in if return_to = [] then None
         else if CHR 0x00 \<in> set return_to \<or> CHR 0x0A \<in> set return_to \<or> CHR 0x0D \<in> set return_to then None
         else if str_starts_with return_to ''/'' \<and> \<not> str_starts_with return_to ''//'' then
           (let l = lower return_to
            in if str_contains l ''javascript:'' \<or> str_contains l ''data:'' \<or> str_contains l ''vbscript:'' then None
               else Some return_to)
         else
           (case (url_parse return_to, url_parse frontend_url) of
              (Some return_url, Some frontend) \<Rightarrow>
                (if pu_scheme return_url = pu_scheme frontend \<and> pu_host return_url = pu_host frontend \<and>
                    pu_port return_url = pu_port frontend
                 then Some (case pu_query return_url of
                        Some query \<Rightarrow> pu_path return_url @ ''?'' @ query | None \<Rightarrow> pu_path return_url)
                 else None)
            | _ \<Rightarrow> None))"

definition CSRF_TOKEN_PREFIX :: string where "CSRF_TOKEN_PREFIX = ''csrf:oauth:''"
definition CSRF_TOKEN_TTL_SECS :: nat where "CSRF_TOKEN_TTL_SECS = 600"

definition redirect_uri_or :: "'r auth_env \<Rightarrow> string \<Rightarrow> string \<Rightarrow> string" where
  "redirect_uri_or E configured provider =
     (if configured = [] then
        (if is_production (xe_config E) then ''https'' else ''http'') @ ''://'' @ sc_host (cf_server (xe_config E)) @ '':'' @
        show_nat (sc_port (cf_server (xe_config E))) @ ''/api/v1/auth/'' @ provider @ ''/callback''
      else configured)"

definition frontend_url :: "'r auth_env \<Rightarrow> string" where
  "frontend_url E = sc_frontend_url (cf_server (xe_config E))"

text \<open>Redis commands whose error the handler reports.\<close>

definition redis_set :: "'r auth_env \<Rightarrow> string \<Rightarrow> string \<Rightarrow> nat \<Rightarrow> 'r auth_db \<Rightarrow> (unit \<times> 'r auth_db) option" where
  "redis_set E k v ttl d =
     (if r_up (xe_redis E) (ax_redis d)
      then Some ((), d\<lparr>ax_redis := r_set_ex (xe_redis E) (ax_redis d) k (rval_of v) ttl\<rparr>) else None)"

definition redis_get :: "'r auth_env \<Rightarrow> string \<Rightarrow> 'r auth_db \<Rightarrow> (string option \<times> 'r auth_db) option" where
  "redis_get E k d =
     (if r_up (xe_redis E) (ax_redis d) then Some (map_option rval_str (r_get (xe_redis E) (ax_redis d) k), d) else None)"

definition redis_del :: "'r auth_env \<Rightarrow> string \<Rightarrow> 'r auth_db \<Rightarrow> (unit \<times> 'r auth_db) option" where
  "redis_del E k d =
     (if r_up (xe_redis E) (ax_redis d) then Some ((), d\<lparr>ax_redis := r_del (xe_redis E) (ax_redis d) k\<rparr>) else None)"

text \<open>The state handed to the provider, with the validated address.\<close>

definition csrf_value :: "string option \<Rightarrow> string" where
  "csrf_value return_to = (case return_to of Some url \<Rightarrow> ''1|'' @ url | None \<Rightarrow> ''1'')"

definition csrf_return_to :: "string \<Rightarrow> string option" where
  "csrf_return_to v = (if CHR ''|'' \<in> set v then Some (tl (dropWhile (\<lambda>c. c \<noteq> CHR ''|'') v)) else None)"

definition start_oauth ::
  "'r auth_env \<Rightarrow> auth_draw \<Rightarrow> string \<Rightarrow> string option \<Rightarrow> ('r auth_db, string failure, auth_http) handler" where
  "start_oauth E dr auth_url return_to =
     run_or (redis_set E (CSRF_TOKEN_PREFIX @ ad_state dr)
         (csrf_value (Option.bind return_to (\<lambda>url. validate_return_to_url (xe_lower E) (xe_url E) url (frontend_url E))))
         CSRF_TOKEN_TTL_SECS)
       (Reply 500 ''Failed to initiate OAuth'') (\<lambda>_.
     redirect_temporary auth_url)"

definition github_app :: "'r auth_env \<Rightarrow> OAuthApp" where
  "github_app E = GitHubOAuth_from_config (xe_config E) (redirect_uri_or E (gh_redirect_uri (cf_github (xe_config E))) ''github'')"

definition github_login ::
  "'r auth_env \<Rightarrow> auth_draw \<Rightarrow> string option \<Rightarrow> ('r auth_db, string failure, auth_http) handler" where
  "github_login E dr return_to =
     start_oauth E dr (github_authorization_url (xe_byte_serialize E) (github_app E) (ad_state dr)) return_to"

definition google_app :: "'r auth_env \<Rightarrow> Error + OAuthApp" where
  "google_app E = GoogleOAuth_new (xe_config E) (redirect_uri_or E (go_redirect_uri (cf_google (xe_config E))) ''google'')"

definition google_login ::
  "'r auth_env \<Rightarrow> auth_draw \<Rightarrow> string option \<Rightarrow> ('r auth_db, string failure, auth_http) handler" where
  "google_login E dr return_to =
     (case google_app E of
        Inl _ \<Rightarrow> refuse (Reply 500 ''Google OAuth not configured'')
      | Inr a \<Rightarrow> start_oauth E dr (google_authorization_url (xe_byte_serialize E) a (ad_state dr)) return_to)"


section \<open>Sessions\<close>

text \<open>The user's first workspace, or a new personal one.\<close>

definition first_workspace ::
  "'r auth_env \<Rightarrow> auth_draw \<Rightarrow> uuid \<Rightarrow> string \<Rightarrow> (uuid option \<Rightarrow> ('r auth_db, string failure, 'a) handler) \<Rightarrow>
   ('r auth_db, string failure, 'a) handler" where
  "first_workspace E dr user_id name k =
     run_or (select (\<lambda>d. ws_list_by_user user_id (ax_workspaces d))) (db_err E) (\<lambda>workspaces.
     case workspaces of
       [] \<Rightarrow>
         run_or (ax_ws_create (ad_ws_row dr) (ad_now dr) (name @ [CHR 0x27] @ ''s Workspace'')
             (''user-'' @ hd (str_split (CHR ''-'') (cx_show_uuid (xe_crypto E) user_id))) user_id)
           (internal_err ''Create workspace failed'') (\<lambda>ws.
         k (Some (ws_id ws)))
     | (w, _) # _ \<Rightarrow> k (Some (ws_id w)))"

definition jwt_hours :: "'r auth_env \<Rightarrow> int" where
  "jwt_hours E = au_jwt_expiration_hours (cf_auth (xe_config E))"

definition refresh_days :: "'r auth_env \<Rightarrow> int" where
  "refresh_days E = au_refresh_token_expiration_days (cf_auth (xe_config E))"

text \<open>The access token, then the refresh token, whose hash is stored.\<close>

definition new_session ::
  "'r auth_env \<Rightarrow> auth_draw \<Rightarrow> uuid \<Rightarrow> uuid option \<Rightarrow> string failure \<Rightarrow>
   (string \<Rightarrow> RefreshToken \<Rightarrow> ('r auth_db, string failure, 'a) handler) \<Rightarrow> ('r auth_db, string failure, 'a) handler" where
  "new_session E dr user_id workspace_id token_failed k =
     require (generate_token (xe_crypto E) (jwt_hours E) (ad_now dr) (ad_jti dr) user_id workspace_id)
       (internal_err ''JWT generation failed'') (\<lambda>access_token.
     require (RefreshToken_generate (ad_refresh_token dr) (ad_now dr) user_id (refresh_days E)) token_failed (\<lambda>refresh.
     run_or (insert_refresh (ad_refresh_row dr) (ad_now dr) user_id (RefreshToken_hash (xe_crypto E) refresh) (rf_expires_at refresh))
       (db_err E) (\<lambda>_.
     k access_token refresh)))"

definition cookie_text :: "'r auth_env \<Rightarrow> string \<Rightarrow> string \<Rightarrow> int \<Rightarrow> string" where
  "cookie_text E name value max_age =
     (let production = is_production (xe_config E)
      in name @ ''='' @ value @ ''; HttpOnly'' @ (if production then ''; Secure'' else []) @ ''; SameSite='' @
         (if production then ''None'' else ''Lax'') @ ''; Path=/; Max-Age='' @ show_int max_age)"

definition access_cookie :: "'r auth_env \<Rightarrow> string \<Rightarrow> string" where
  "access_cookie E t = cookie_text E ''access_token'' t (jwt_hours E * 3600)"

definition refresh_cookie :: "'r auth_env \<Rightarrow> string \<Rightarrow> string" where
  "refresh_cookie E t = cookie_text E ''refresh_token'' t (refresh_days E * 24 * 3600)"

text \<open>\<^verbatim>\<open>if let Ok(val) = HeaderValue::from_str(..)\<close>: a value that is none is left out.\<close>

definition add_cookie :: "string \<Rightarrow> headers \<Rightarrow> headers" where
  "add_cookie c h = (case hdr_from_str c of Some v \<Rightarrow> hdr_append h ''set-cookie'' v | None \<Rightarrow> h)"

definition session_answer ::
  "'r auth_env \<Rightarrow> string \<Rightarrow> RefreshToken \<Rightarrow> bool \<Rightarrow> UserResponse \<Rightarrow> ('r auth_db, string failure, auth_http) handler" where
  "session_answer E access_token refresh include_refresh user =
     answer \<lparr>hr_status = 200,
       hr_headers = add_cookie (refresh_cookie E (rf_token refresh)) (add_cookie (access_cookie E access_token) []),
       hr_body = Some \<lparr>ar_access_token = access_token,
         ar_refresh_token = (if include_refresh then Some (rf_token refresh) else None), ar_token_type = ''Bearer'',
         ar_expires_in = jwt_hours E * 3600, ar_user = user\<rparr>\<rparr>"

text \<open>The redirect at the end of a provider's callback; here a bad header value is an error.\<close>

definition callback_answer ::
  "'r auth_env \<Rightarrow> string \<Rightarrow> string option \<Rightarrow> string \<Rightarrow> RefreshToken \<Rightarrow> ('r auth_db, string failure, auth_http) handler" where
  "callback_answer E provider return_to access_token refresh =
     require (hdr_from_str (access_cookie E access_token)) (Reply 500 ''Cookie generation failed'') (\<lambda>a.
     require (hdr_from_str (refresh_cookie E (rf_token refresh))) (Reply 500 ''Cookie generation failed'') (\<lambda>r.
     require (hdr_from_str (frontend_url E @ ''/auth/callback?provider='' @ provider @
         (case return_to of Some url \<Rightarrow> ''&return_to='' @ xe_urlencode E url | None \<Rightarrow> [])))
       (Reply 500 ''Redirect URL generation failed'') (\<lambda>l.
     answer \<lparr>hr_status = 307, hr_headers = [(''set-cookie'', a), (''set-cookie'', r), (''location'', l)], hr_body = None\<rparr>)))"


section \<open>Brute force\<close>

definition AUTH_BRUTE_FORCE_PREFIX :: string where "AUTH_BRUTE_FORCE_PREFIX = ''bf:auth:''"
definition REFRESH_BRUTE_FORCE_PREFIX :: string where "REFRESH_BRUTE_FORCE_PREFIX = ''bf:refresh:''"
definition EMAIL_REGISTER_RATE_LIMIT_PREFIX :: string where "EMAIL_REGISTER_RATE_LIMIT_PREFIX = ''rl:register:''"
definition EMAIL_LOGIN_RATE_LIMIT_PREFIX :: string where "EMAIL_LOGIN_RATE_LIMIT_PREFIX = ''rl:login:''"
definition PASSWORD_RESET_RATE_LIMIT_PREFIX :: string where "PASSWORD_RESET_RATE_LIMIT_PREFIX = ''rl:reset:''"

definition locked_out :: "'r auth_env \<Rightarrow> string \<Rightarrow> string \<Rightarrow> 'r auth_db \<Rightarrow> bool" where
  "locked_out E ip pre d = is_ip_locked_out (xe_redis E) (ax_redis d) ip pre"

text \<open>Refused while locked out, with a fixed message or with the seconds left between two texts.\<close>

definition unless_locked ::
  "'r auth_env \<Rightarrow> string \<Rightarrow> string \<Rightarrow> string \<Rightarrow> ('r auth_db, string failure, 'a) handler \<Rightarrow> ('r auth_db, string failure, 'a) handler" where
  "unless_locked E ip pre message k =
     run_sql (select (locked_out E ip pre)) (\<lambda>locked.
     ensure (\<not> unwrap_or locked False) (Reply 429 message) k)"

definition unless_locked_for ::
  "'r auth_env \<Rightarrow> string \<Rightarrow> string \<Rightarrow> string \<Rightarrow> ('r auth_db, string failure, 'a) handler \<Rightarrow> ('r auth_db, string failure, 'a) handler" where
  "unless_locked_for E ip pre message k =
     run_sql (select (locked_out E ip pre)) (\<lambda>locked.
     if unwrap_or locked False then
       run_sql (select (\<lambda>d. get_lockout_remaining (xe_redis E) (ax_redis d) ip pre)) (\<lambda>remaining.
       refuse (Reply 429 (message @ '' Please try again in '' @ show_int (unwrap_or (Option.bind remaining id) 0) @ '' seconds.'')))
     else k)"

definition note_failure ::
  "'r auth_env \<Rightarrow> string \<Rightarrow> string \<Rightarrow> ('r auth_db, 'b) prog \<Rightarrow> ('r auth_db, 'b) prog" where
  "note_failure E ip pre k =
     run_sql (at_redis (\<lambda>s. record_failed_attempt (xe_redis E) (xe_vars E) s ip pre)) (\<lambda>_. k)"

definition forget_failures ::
  "'r auth_env \<Rightarrow> string \<Rightarrow> string \<Rightarrow> ('r auth_db, 'b) prog \<Rightarrow> ('r auth_db, 'b) prog" where
  "forget_failures E ip pre k =
     run_sql (at_redis (\<lambda>s. clear_failed_attempts (xe_redis E) s ip pre)) (\<lambda>_. k)"



section \<open>Callbacks of the providers\<close>

text \<open>The state parameter: present, known to Redis, and then deleted.\<close>

definition check_state ::
  "'r auth_env \<Rightarrow> string \<Rightarrow> string option \<Rightarrow> (string \<Rightarrow> ('r auth_db, string failure, 'a) handler) \<Rightarrow>
   ('r auth_db, string failure, 'a) handler" where
  "check_state E ip state k =
     (case state of
        None \<Rightarrow> note_failure E ip AUTH_BRUTE_FORCE_PREFIX (refuse (Reply 400 ''Missing state parameter''))
      | Some csrf_state \<Rightarrow>
          run_or (redis_get E (CSRF_TOKEN_PREFIX @ csrf_state)) (internal_err ''Redis CSRF check failed'') (\<lambda>value.
          case value of
            None \<Rightarrow> note_failure E ip AUTH_BRUTE_FORCE_PREFIX (refuse (Reply 400 ''Invalid or expired state parameter''))
          | Some v \<Rightarrow> run_sql (redis_del E (CSRF_TOKEN_PREFIX @ csrf_state)) (\<lambda>_. k v)))"

definition github_email :: "codec \<Rightarrow> web \<Rightarrow> string \<Rightarrow> GitHubUser \<Rightarrow> string" where
  "github_email C web access_token gu =
     (let fallback = (case get_primary_email C web access_token of
                        Inr (Some e) \<Rightarrow> e | _ \<Rightarrow> show_int (sint (gu_id gu)) @ ''@users.noreply.github.com'')
      in case gu_email gu of Some e \<Rightarrow> if e \<noteq> [] then e else fallback | None \<Rightarrow> fallback)"

text \<open>The GitHub identity behind a code.\<close>

definition github_identity ::
  "'r auth_env \<Rightarrow> auth_draw \<Rightarrow> string \<Rightarrow> string \<Rightarrow>
   (string \<Rightarrow> GitHubUser \<Rightarrow> ('r auth_db, string failure, 'a) handler) \<Rightarrow> ('r auth_db, string failure, 'a) handler" where
  "github_identity E dr code failed_get k =
     (case github_exchange_code (xe_codec E) (ad_web dr) (github_app E) code of
        Inl _ \<Rightarrow> refuse (Reply 400 ''GitHub authentication failed'')
      | Inr access_token \<Rightarrow>
          (case github_get_user (xe_codec E) (ad_web dr) access_token of
             Inl _ \<Rightarrow> refuse (Reply 400 failed_get)
           | Inr github_user \<Rightarrow> k access_token github_user))"

text \<open>\<^verbatim>\<open>splitn(3, '|')\<close>.\<close>

definition splitn3 :: "string \<Rightarrow> string list" where
  "splitn3 s =
     (let a = takeWhile (\<lambda>c. c \<noteq> CHR ''|'') s; r = dropWhile (\<lambda>c. c \<noteq> CHR ''|'') s
      in case r of
           [] \<Rightarrow> [a]
         | _ # r \<Rightarrow>
             (case dropWhile (\<lambda>c. c \<noteq> CHR ''|'') r of
                [] \<Rightarrow> [a, r] | _ # r' \<Rightarrow> [a, takeWhile (\<lambda>c. c \<noteq> CHR ''|'') r, r']))"

definition handle_github_link_callback ::
  "'r auth_env \<Rightarrow> auth_draw \<Rightarrow> string \<Rightarrow> string \<Rightarrow> ('r auth_db, string failure, auth_http) handler" where
  "handle_github_link_callback E dr code value =
     (let parts = splitn3 value
      in ensure (2 \<le> length parts) (Reply 400 ''Invalid state data'')
     (require (cx_parse_uuid (xe_crypto E) (parts ! 1)) (Reply 400 ''Invalid user ID in state'') (\<lambda>user_id.
      let return_to = (if 3 \<le> length parts \<and> parts ! 2 \<noteq> [] then Some (parts ! 2) else None)
      in github_identity E dr code ''Failed to get GitHub user info'' (\<lambda>access_token github_user.
         run_or (select (linked_find_by_github_id user_id (gu_id github_user))) (db_err E) (\<lambda>linked.
         case encrypt_string (xe_crypto E) (xe_key E) (ad_nonce dr) access_token of
           Inl _ \<Rightarrow> refuse (internal_err ''Token encryption failed'')
         | Inr (encrypted, nonce) \<Rightarrow>
             (let done = redirect_temporary (frontend_url E @
                    (case return_to of Some p \<Rightarrow> p | None \<Rightarrow> ''/dashboard/settings/github'') @ ''?success=github_linked'')
              in case linked of
                   Some account \<Rightarrow>
                     run_or (linked_update_token (ad_now dr) (lg_id account) user_id encrypted nonce (Some ''repo,user:email''))
                       (db_err E) (\<lambda>_. done)
                 | None \<Rightarrow>
                     linked_create (db_err E) (ad_linked_row dr) (ad_now dr)
                       \<lparr>lc_user_id = user_id, lc_github_id = gu_id github_user, lc_github_username = gu_login github_user,
                        lc_github_avatar_url = gu_avatar_url github_user, lc_access_token_encrypted = encrypted,
                        lc_access_token_nonce = nonce, lc_scopes = Some ''repo,user:email''\<rparr> (\<lambda>_. done)))))))"

definition github_callback ::
  "'r auth_env \<Rightarrow> auth_draw \<Rightarrow> headers \<Rightarrow> string \<Rightarrow> string \<Rightarrow> string option \<Rightarrow> ('r auth_db, string failure, auth_http) handler" where
  "github_callback E dr h peer code state =
     (let ip = api_client_ip (xe_vars E) h peer
      in unless_locked_for E ip AUTH_BRUTE_FORCE_PREFIX ''Too many failed attempts.''
     (check_state E ip state (\<lambda>value.
      if str_starts_with value ''link|'' then handle_github_link_callback E dr code value
      else
        github_identity E dr code ''Failed to get user info from GitHub'' (\<lambda>access_token github_user.
        run_or (at_users (upsert_from_github (ad_user_row dr) (ad_now dr) (gu_id github_user)
            (github_email (xe_codec E) (ad_web dr) access_token github_user)
            (unwrap_or (gu_name github_user) (gu_login github_user)) (gu_avatar_url github_user)))
          (internal_err ''User upsert failed'') (\<lambda>user.
        case encrypt_string (xe_crypto E) (xe_key E) (ad_nonce dr) access_token of
          Inl _ \<Rightarrow> refuse (internal_err ''Token encryption failed'')
        | Inr (encrypted, nonce) \<Rightarrow>
            run_or (at_users (update_github_token (ad_now dr) (us_id user) encrypted nonce))
              (internal_err ''Update GitHub token failed'') (\<lambda>_.
            first_workspace E dr (us_id user) (us_name user) (\<lambda>workspace_id.
            new_session E dr (us_id user) workspace_id (Reply 500 ''Token generation failed'') (\<lambda>token refresh.
            forget_failures E ip AUTH_BRUTE_FORCE_PREFIX
            (callback_answer E ''github'' (csrf_return_to value) token refresh)))))))))"

text \<open>\<^verbatim>\<open>UserRepository::upsert_from_google\<close>: a known Google account, else a known address, else a new user.\<close>

definition upsert_from_google ::
  "string failure \<Rightarrow> uuid \<Rightarrow> timestamp \<Rightarrow> string \<Rightarrow> string \<Rightarrow> string \<Rightarrow> string option \<Rightarrow>
   (User \<Rightarrow> ('r auth_db, string failure, 'a) handler) \<Rightarrow> ('r auth_db, string failure, 'a) handler" where
  "upsert_from_google e fresh now google_id email name avatar_url k =
     run_or (select (\<lambda>d. user_find_by_google_id google_id (ax_users d))) e (\<lambda>known.
     case known of
       Some _ \<Rightarrow> run_or (at_users (google_refresh now google_id email name avatar_url)) e k
     | None \<Rightarrow>
         run_or (select (\<lambda>d. user_find_by_email email (ax_users d))) e (\<lambda>same.
         case same of
           Some _ \<Rightarrow> run_or (at_users (google_link now google_id email)) e k
         | None \<Rightarrow> run_or (at_users (create_from_google fresh now google_id email name avatar_url)) e k))"

text \<open>The Google identity behind a code: it must come with an address that Google verified.\<close>

definition google_identity ::
  "'r auth_env \<Rightarrow> auth_draw \<Rightarrow> string \<Rightarrow>
   (GoogleUser \<Rightarrow> string \<Rightarrow> ('r auth_db, string failure, 'a) handler) \<Rightarrow> ('r auth_db, string failure, 'a) handler" where
  "google_identity E dr code k =
     (case google_app E of
        Inl _ \<Rightarrow> refuse (internal_err ''OAuth initialization failed'')
      | Inr a \<Rightarrow>
          (case google_exchange_code (xe_codec E) (ad_web dr) a code of
             Inl _ \<Rightarrow> refuse (Reply 400 ''Google authentication failed'')
           | Inr access_token \<Rightarrow>
               (case google_get_user (xe_codec E) (ad_web dr) access_token of
                  Inl _ \<Rightarrow> refuse (Reply 400 ''Failed to get user info from Google'')
                | Inr google_user \<Rightarrow>
                    require (gg_email google_user) (Reply 400 ''Email not available from Google'') (\<lambda>email.
                    ensure (gg_email_verified google_user = Some True) (Reply 400 ''Google email is not verified'')
                    (k google_user email)))))"

definition google_callback ::
  "'r auth_env \<Rightarrow> auth_draw \<Rightarrow> headers \<Rightarrow> string \<Rightarrow> string option \<Rightarrow> string option \<Rightarrow> string option \<Rightarrow>
   ('r auth_db, string failure, auth_http) handler" where
  "google_callback E dr h peer code state error =
     (let ip = api_client_ip (xe_vars E) h peer
      in case error of
           Some e \<Rightarrow> redirect_temporary (frontend_url E @ ''/login?error='' @ xe_urlencode E e)
         | None \<Rightarrow>
             require code (Reply 400 ''Missing authorization code'') (\<lambda>c.
             unless_locked_for E ip AUTH_BRUTE_FORCE_PREFIX ''Too many failed attempts.''
             (check_state E ip state (\<lambda>value.
              google_identity E dr c (\<lambda>google_user email.
              upsert_from_google (internal_err ''User upsert failed'') (ad_user_row dr) (ad_now dr) (gg_sub google_user) email
                (unwrap_or (gg_name google_user) (hd (str_split (CHR ''@'') email))) (gg_picture google_user) (\<lambda>user.
              first_workspace E dr (us_id user) (us_name user) (\<lambda>workspace_id.
              new_session E dr (us_id user) workspace_id (Reply 500 ''Token generation failed'') (\<lambda>token refresh.
              forget_failures E ip AUTH_BRUTE_FORCE_PREFIX
              (callback_answer E ''google'' (csrf_return_to value) token refresh)))))))))"


section \<open>Refreshing a session\<close>

text \<open>\<^verbatim>\<open>trim_start_matches\<close> with a text removes every leading copy of it.\<close>

function trim_start_str :: "string \<Rightarrow> string \<Rightarrow> string" where
  "trim_start_str p s = (if p \<noteq> [] \<and> str_starts_with s p then trim_start_str p (drop (length p) s) else s)"
  by pat_completeness auto
termination
  by (relation "measure (\<lambda>(p, s). length s)") (auto simp: starts_with_iff)

declare trim_start_str.simps [simp del]

definition refresh_of_cookie :: "string \<Rightarrow> string option" where
  "refresh_of_cookie c =
     (let cookie = ascii_trim c
      in if str_starts_with cookie ''refresh_token='' then Some (trim_start_str ''refresh_token='' cookie) else None)"

definition extract_refresh_token_from_cookies :: "headers \<Rightarrow> string option" where
  "extract_refresh_token_from_cookies h =
     Option.bind (hdr_str h ''cookie'') (\<lambda>cookies.
       (case List.map_filter refresh_of_cookie (str_split (CHR '';'') cookies) of [] \<Rightarrow> None | t # _ \<Rightarrow> Some t))"

definition refresh_token ::
  "'r auth_env \<Rightarrow> auth_draw \<Rightarrow> headers \<Rightarrow> string \<Rightarrow> string option \<Rightarrow> ('r auth_db, string failure, auth_http) handler" where
  "refresh_token E dr h peer body =
     (let ip = api_client_ip (xe_vars E) h peer; now = ad_now dr
      in unless_locked_for E ip REFRESH_BRUTE_FORCE_PREFIX ''Too many failed attempts.''
     (require (or_else (extract_refresh_token_from_cookies h) body) (Reply 400 ''Refresh token required'') (\<lambda>presented.
      let token_hash = hash_token (xe_crypto E) presented
      in run_or (select (find_refresh token_hash)) (db_err E) (\<lambda>found.
      case found of
        None \<Rightarrow> note_failure E ip REFRESH_BRUTE_FORCE_PREFIX (refuse (Reply 401 ''Invalid refresh token''))
      | Some row \<Rightarrow>
          if rr_expires_at row < now then
            run_sql (change (delete_refresh token_hash)) (\<lambda>_.
            note_failure E ip REFRESH_BRUTE_FORCE_PREFIX (refuse (Reply 401 ''Refresh token expired'')))
          else if rr_created_at row + au_absolute_session_lifetime_days (cf_auth (xe_config E)) * 86400 < now then
            run_sql (change (delete_refresh token_hash)) (\<lambda>_.
            refuse (Reply 401 ''Session expired. Please log in again.''))
          else
            forget_failures E ip REFRESH_BRUTE_FORCE_PREFIX
            (run_or (select (\<lambda>d. user_find_by_id (rr_user_id row) (ax_users d))) (db_err E) (\<lambda>found_user.
             require found_user (Reply 404 ''User not found'') (\<lambda>user.
             run_or (select (\<lambda>d. ws_list_by_user (us_id user) (ax_workspaces d))) (db_err E) (\<lambda>workspaces.
             let workspace_id = (case workspaces of [] \<Rightarrow> None | (w, _) # _ \<Rightarrow> Some (ws_id w))
             in require (generate_token (xe_crypto E) (jwt_hours E) now (ad_jti dr) (us_id user) workspace_id)
                  (internal_err ''JWT generation failed'') (\<lambda>access_token.
                require (RefreshToken_generate (ad_refresh_token dr) now (us_id user) (refresh_days E))
                  (internal_err ''Token generation failed'') (\<lambda>refresh.
                run_sql (change (delete_refresh token_hash)) (\<lambda>_.
                run_or (insert_refresh (ad_refresh_row dr) now (us_id user) (RefreshToken_hash (xe_crypto E) refresh)
                    (rf_expires_at refresh)) (db_err E) (\<lambda>_.
                session_answer E access_token refresh (hdr_str h ''x-include-refresh-token'' = Some ''true'')
                  (user_response user)))))))))))))"


section \<open>The signed-in user\<close>

definition authenticated ::
  "'r auth_env \<Rightarrow> auth_draw \<Rightarrow> headers \<Rightarrow> (AuthUser \<Rightarrow> ('r auth_db, string failure, 'a) handler) \<Rightarrow>
   ('r auth_db, string failure, 'a) handler" where
  "authenticated E dr h k = with_auth_user (xe_crypto E) (xe_redis E) ax_redis (ad_now dr) h k"

definition get_current_user :: "'r auth_env \<Rightarrow> AuthUser \<Rightarrow> ('r auth_db, string failure, UserResponse) handler" where
  "get_current_user E au =
     run_or (select (\<lambda>d. user_find_by_id (xu_user_id au) (ax_users d))) (db_err E) (\<lambda>found.
     require found (Reply 404 ''User not found'') (\<lambda>user.
     answer (user_response user)))"

definition update_profile ::
  "'r auth_env \<Rightarrow> auth_draw \<Rightarrow> AuthUser \<Rightarrow> string option \<Rightarrow> ('r auth_db, string failure, UserResponse) handler" where
  "update_profile E dr au name_opt =
     run_or (select (\<lambda>d. user_find_by_id (xu_user_id au) (ax_users d))) (db_err E) (\<lambda>found.
     require found (Reply 404 ''User not found'') (\<lambda>user.
     let name = unwrap_or name_opt (us_name user)
     in ensure (str_trim name \<noteq> []) (Reply 400 ''Name cannot be empty'')
       (ensure (\<not> 100 < length name) (Reply 400 ''Name too long'')
       (run_or (at_users (update_name (ad_now dr) (xu_user_id au) name)) (db_err E) (\<lambda>updated.
        answer (user_response updated))))))"

definition logout :: "'r auth_env \<Rightarrow> auth_draw \<Rightarrow> AuthUser \<Rightarrow> ('r auth_db, string failure, auth_http) handler" where
  "logout E dr au =
     run_sql (change (delete_refresh_of (xu_user_id au))) (\<lambda>_.
     run_sql (\<lambda>d. map_option (\<lambda>(u, s). (u, d\<lparr>ax_redis := s\<rparr>))
         (revoke_all_user_tokens (xe_redis E) (ad_now dr) (cx_show_uuid (xe_crypto E) (xu_user_id au)) (jwt_hours E * 3600) (ax_redis d))) (\<lambda>_.
     answer \<lparr>hr_status = 204,
       hr_headers = add_cookie (cookie_text E ''refresh_token'' [] 0) (add_cookie (cookie_text E ''access_token'' [] 0) []),
       hr_body = None\<rparr>))"

fun delete_workspaces ::
  "'r auth_env \<Rightarrow> uuid list \<Rightarrow> ('r auth_db, string failure, 'a) handler \<Rightarrow> ('r auth_db, string failure, 'a) handler" where
  "delete_workspaces E [] k = k"
| "delete_workspaces E (i # is) k =
     run_or (change (\<lambda>d. d\<lparr>ax_workspaces := ws_delete i (ax_workspaces d)\<rparr>)) (db_err E) (\<lambda>_. delete_workspaces E is k)"

fun leave_workspaces ::
  "uuid \<Rightarrow> uuid list \<Rightarrow> ('r auth_db, string failure, 'a) handler \<Rightarrow> ('r auth_db, string failure, 'a) handler" where
  "leave_workspaces u [] k = k"
| "leave_workspaces u (i # is) k =
     run_sql (change (\<lambda>d. d\<lparr>ax_workspaces := remove_member i u (ax_workspaces d)\<rparr>)) (\<lambda>_. leave_workspaces u is k)"

definition delete_account :: "'r auth_env \<Rightarrow> AuthUser \<Rightarrow> ('r auth_db, string failure, nat) handler" where
  "delete_account E au =
     run_or (select (\<lambda>d. ws_list_owned (xu_user_id au) (ax_workspaces d))) (db_err E) (\<lambda>owned.
     delete_workspaces E (map ws_id owned)
     (run_or (select (\<lambda>d. ws_list_by_user (xu_user_id au) (ax_workspaces d))) (db_err E) (\<lambda>member.
      leave_workspaces (xu_user_id au) (map (ws_id \<circ> fst) member)
      (run_or (change (delete_refresh_of (xu_user_id au))) (db_err E) (\<lambda>_.
       run_or (change (ax_user_delete (xu_user_id au))) (db_err E) (\<lambda>_.
       answer 204))))))"

definition ws_token :: "'r auth_env \<Rightarrow> auth_draw \<Rightarrow> AuthUser \<Rightarrow> ('r auth_db, string failure, string) handler" where
  "ws_token E dr au =
     run_or (select (\<lambda>d. ws_list_by_user (xu_user_id au) (ax_workspaces d))) (db_err E) (\<lambda>workspaces.
     let workspace_id = (case workspaces of [] \<Rightarrow> None | (w, _) # _ \<Rightarrow> Some (ws_id w))
     in require (generate_token (xe_crypto E) (jwt_hours E) (ad_now dr) (ad_jti dr) (xu_user_id au) workspace_id)
          (internal_err ''Token generation failed'') answer)"


section \<open>E-mail and password\<close>

text \<open>A token is stored by its hash and sent by mail when mail is configured.\<close>

definition mail_token ::
  "'r auth_env \<Rightarrow> auth_draw \<Rightarrow> uuid \<Rightarrow> EmailTokenType \<Rightarrow> int \<Rightarrow> (string \<Rightarrow> mail) \<Rightarrow>
   ('r auth_db, string failure, 'a) handler \<Rightarrow> ('r auth_db, string failure, 'a) handler" where
  "mail_token E dr user_id kind hours letter k =
     require (ad_mail_token dr) (internal_err ''Token generation failed'') (\<lambda>t.
     run_or (at_users (email_token_create (ad_mail_row dr) (ad_now dr) user_id (hash_token (xe_crypto E) t) kind
         (ad_now dr + hours * 3600))) (db_err E) (\<lambda>_.
     if xe_mail E then run_sql (change (\<lambda>d. d\<lparr>ax_outbox := ax_outbox d @ [letter t]\<rparr>)) (\<lambda>_. k) else k))"

definition verification_mail :: "'r auth_env \<Rightarrow> string \<Rightarrow> string \<Rightarrow> mail" where
  "verification_mail E email t = Verification_Mail email (frontend_url E @ ''/verify-email?token='' @ t)"

definition reset_mail :: "'r auth_env \<Rightarrow> string \<Rightarrow> string \<Rightarrow> mail" where
  "reset_mail E email t = Reset_Mail email (frontend_url E @ ''/reset-password?token='' @ t)"

definition drop_tokens ::
  "uuid \<Rightarrow> EmailTokenType \<Rightarrow> ('r auth_db, string failure, 'a) handler \<Rightarrow> ('r auth_db, string failure, 'a) handler" where
  "drop_tokens user_id kind k =
     run_sql (change (\<lambda>d. d\<lparr>ax_users := delete_by_type_for_user user_id kind (ax_users d)\<rparr>)) (\<lambda>_. k)"

record RegisterResponse =
  rg_message :: string
  rg_email :: string

definition REGISTERED_MESSAGE :: string where
  "REGISTERED_MESSAGE = ''Registration successful. Please check your email to verify your account.''"

definition register ::
  "'r auth_env \<Rightarrow> auth_draw \<Rightarrow> headers \<Rightarrow> string \<Rightarrow> string \<Rightarrow> string \<Rightarrow> string \<Rightarrow> ('r auth_db, string failure, RegisterResponse) handler" where
  "register E dr h peer email password name_text =
     (let ip = api_client_ip (xe_vars E) h peer; name = str_trim name_text;
          registered_reply = answer \<lparr>rg_message = REGISTERED_MESSAGE, rg_email = email\<rparr>
      in unless_locked E ip EMAIL_REGISTER_RATE_LIMIT_PREFIX ''Too many registration attempts. Please try again later.''
     (ensure (CHR ''@'' \<in> set email \<and> \<not> 255 < length email) (Reply 400 ''Invalid email address'')
     (ensure (\<not> length password < 8) (Reply 400 ''Password must be at least 8 characters'')
     (ensure (\<not> 128 < length password) (Reply 400 ''Password too long'')
     (ensure (\<not> (name = [] \<or> 100 < length name)) (Reply 400 ''Invalid name'')
     (run_or (select (\<lambda>d. user_find_by_email email (ax_users d))) (db_err E) (\<lambda>existing.
      case existing of
        Some user \<Rightarrow>
          (if \<not> us_email_verified user then
             drop_tokens (us_id user) EmailVerification
             (mail_token E dr (us_id user) EmailVerification 24 (verification_mail E email) registered_reply)
           else
             note_failure E ip EMAIL_REGISTER_RATE_LIMIT_PREFIX
             (answer \<lparr>rg_message = ''If this email is not already registered, a verification email will be sent.'', rg_email = email\<rparr>))
      | None \<Rightarrow>
          (case hash_password (xe_crypto E) (ad_salt dr) password of
             Inl _ \<Rightarrow> refuse (internal_err ''Password hashing failed'')
           | Inr password_hash \<Rightarrow>
               run_or (at_users (create_from_email (ad_user_row dr) (ad_now dr) email name password_hash))
                 (Reply 400 ''Registration failed'') (\<lambda>user.
               mail_token E dr (us_id user) EmailVerification 24 (verification_mail E email) registered_reply))))))))) "

definition login ::
  "'r auth_env \<Rightarrow> auth_draw \<Rightarrow> headers \<Rightarrow> string \<Rightarrow> string \<Rightarrow> string \<Rightarrow> ('r auth_db, string failure, auth_http) handler" where
  "login E dr h peer email password =
     (let ip = api_client_ip (xe_vars E) h peer;
          wrong = Reply 401 ''Invalid email or password''
      in unless_locked_for E ip EMAIL_LOGIN_RATE_LIMIT_PREFIX ''Too many login attempts.''
     (run_or (select (\<lambda>d. get_for_email_login email (ax_users d))) (db_err E) (\<lambda>found.
      case found of
        None \<Rightarrow> note_failure E ip EMAIL_LOGIN_RATE_LIMIT_PREFIX (refuse wrong)
      | Some user \<Rightarrow>
          require (us_password_hash user) wrong (\<lambda>password_hash.
          case verify_password (xe_crypto E) password password_hash of
            Inl _ \<Rightarrow> refuse (internal_err ''Password verification failed'')
          | Inr is_valid \<Rightarrow>
              (if \<not> is_valid then note_failure E ip EMAIL_LOGIN_RATE_LIMIT_PREFIX (refuse wrong)
               else
                 ensure (us_email_verified user) (Reply 403 ''Please verify your email address before logging in'')
                 (forget_failures E ip EMAIL_LOGIN_RATE_LIMIT_PREFIX
                 (first_workspace E dr (us_id user) (us_name user) (\<lambda>workspace_id.
                  new_session E dr (us_id user) workspace_id (internal_err ''Token generation failed'') (\<lambda>token refresh.
                  session_answer E token refresh False (user_response (as_user user))))))))))) "

definition verify_email :: "'r auth_env \<Rightarrow> auth_draw \<Rightarrow> string \<Rightarrow> ('r auth_db, string failure, auth_http) handler" where
  "verify_email E dr presented =
     run_or (select (\<lambda>d. find_valid_token (ad_now dr) (hash_token (xe_crypto E) presented) (ax_users d))) (db_err E) (\<lambda>found.
     require found (Reply 400 ''Invalid or expired verification link'') (\<lambda>t.
     ensure (et_token_type t = EmailTokenType_display EmailVerification) (Reply 400 ''Invalid token type'')
     (run_or (at_users (user_verify_email (ad_now dr) (et_user_id t))) (db_err E) (\<lambda>user.
      run_or (change (\<lambda>d. d\<lparr>ax_users := email_token_mark_as_used (ad_now dr) (et_id t) (ax_users d)\<rparr>)) (db_err E) (\<lambda>_.
      drop_tokens (et_user_id t) EmailVerification
      (first_workspace E dr (us_id user) (us_name user) (\<lambda>workspace_id.
       new_session E dr (us_id user) workspace_id (internal_err ''Token generation failed'') (\<lambda>token refresh.
       session_answer E token refresh False (user_response user)))))))))"

definition FORGOT_MESSAGE :: string where
  "FORGOT_MESSAGE = ''If an account exists with this email, a password reset link will be sent.''"

definition forgot_password ::
  "'r auth_env \<Rightarrow> auth_draw \<Rightarrow> headers \<Rightarrow> string \<Rightarrow> string \<Rightarrow> ('r auth_db, string failure, string) handler" where
  "forgot_password E dr h peer email =
     (let ip = api_client_ip (xe_vars E) h peer
      in unless_locked E ip PASSWORD_RESET_RATE_LIMIT_PREFIX ''Too many password reset requests. Please try again later.''
     (run_sql (select (\<lambda>d. get_for_email_login email (ax_users d))) (\<lambda>found.
      case Option.bind found id of
        None \<Rightarrow> note_failure E ip PASSWORD_RESET_RATE_LIMIT_PREFIX (answer FORGOT_MESSAGE)
      | Some user \<Rightarrow>
          drop_tokens (us_id user) PasswordReset
          (mail_token E dr (us_id user) PasswordReset 1 (reset_mail E email)
          (note_failure E ip PASSWORD_RESET_RATE_LIMIT_PREFIX (answer FORGOT_MESSAGE))))))"

definition reset_password ::
  "'r auth_env \<Rightarrow> auth_draw \<Rightarrow> string \<Rightarrow> string \<Rightarrow> ('r auth_db, string failure, string) handler" where
  "reset_password E dr presented password =
     ensure (\<not> length password < 8) (Reply 400 ''Password must be at least 8 characters'')
     (ensure (\<not> 128 < length password) (Reply 400 ''Password too long'')
     (run_or (select (\<lambda>d. find_valid_token (ad_now dr) (hash_token (xe_crypto E) presented) (ax_users d))) (db_err E) (\<lambda>found.
      require found (Reply 400 ''Invalid or expired reset link'') (\<lambda>t.
      ensure (et_token_type t = EmailTokenType_display PasswordReset) (Reply 400 ''Invalid token type'')
      (case hash_password (xe_crypto E) (ad_salt dr) password of
         Inl _ \<Rightarrow> refuse (internal_err ''Password hashing failed'')
       | Inr password_hash \<Rightarrow>
           run_or (at_users (update_password (ad_now dr) (et_user_id t) password_hash)) (db_err E) (\<lambda>_.
           run_or (change (\<lambda>d. d\<lparr>ax_users := email_token_mark_as_used (ad_now dr) (et_id t) (ax_users d)\<rparr>)) (db_err E) (\<lambda>_.
           drop_tokens (et_user_id t) PasswordReset
           (run_or (change (delete_refresh_of (et_user_id t))) (db_err E) (\<lambda>_.
            answer ''Password reset successfully. Please log in with your new password.'')))))))))"

definition RESEND_MESSAGE :: string where
  "RESEND_MESSAGE = ''If this email is registered and not verified, a verification email will be sent.''"

definition resend_verification ::
  "'r auth_env \<Rightarrow> auth_draw \<Rightarrow> headers \<Rightarrow> string \<Rightarrow> string \<Rightarrow> ('r auth_db, string failure, RegisterResponse) handler" where
  "resend_verification E dr h peer email =
     (let ip = api_client_ip (xe_vars E) h peer;
          done = note_failure E ip EMAIL_REGISTER_RATE_LIMIT_PREFIX (answer \<lparr>rg_message = RESEND_MESSAGE, rg_email = email\<rparr>)
      in unless_locked E ip EMAIL_REGISTER_RATE_LIMIT_PREFIX ''Too many requests. Please try again later.''
     (run_sql (select (\<lambda>d. user_find_by_email email (ax_users d))) (\<lambda>found.
      case Option.bind found id of
        None \<Rightarrow> done
      | Some user \<Rightarrow>
          (if us_email_verified user then done
           else
             drop_tokens (us_id user) EmailVerification
             (mail_token E dr (us_id user) EmailVerification 24 (verification_mail E email) done)))))"


section \<open>Linked accounts\<close>

record LinkedAccountResponse =
  la_id :: uuid
  la_github_id :: "64 word"
  la_github_username :: string
  la_github_avatar_url :: "string option"
  la_is_primary :: bool
  la_created_at :: string

definition linked_response :: "'r auth_env \<Rightarrow> LinkedGitHubAccount \<Rightarrow> LinkedAccountResponse" where
  "linked_response E l = \<lparr>la_id = lg_id l, la_github_id = lg_github_id l, la_github_username = lg_github_username l,
     la_github_avatar_url = lg_github_avatar_url l, la_is_primary = lg_is_primary l,
     la_created_at = xe_rfc3339 E (lg_created_at l)\<rparr>"

definition list_accounts :: "'r auth_env \<Rightarrow> AuthUser \<Rightarrow> ('r auth_db, string failure, LinkedAccountResponse list) handler" where
  "list_accounts E au =
     run_or (select (linked_list_by_user (xu_user_id au))) (db_err E) (\<lambda>accounts.
     answer (map (linked_response E) accounts))"

text \<open>The address to return to is stored as it came.\<close>

definition link_account ::
  "'r auth_env \<Rightarrow> auth_draw \<Rightarrow> AuthUser \<Rightarrow> string option \<Rightarrow> ('r auth_db, string failure, auth_http) handler" where
  "link_account E dr au return_to =
     require (ad_mail_token dr) (internal_err ''Token generation failed'') (\<lambda>csrf_token.
     run_or (redis_set E (CSRF_TOKEN_PREFIX @ csrf_token)
         (''link|'' @ cx_show_uuid (xe_crypto E) (xu_user_id au) @ ''|'' @ unwrap_or return_to []) CSRF_TOKEN_TTL_SECS)
       (internal_err ''Redis set failed'') (\<lambda>_.
     redirect_temporary (authorization_url_with_state_and_scopes (xe_byte_serialize E) (github_app E) csrf_token ''repo,user:email'')))"

definition unlink_account :: "'r auth_env \<Rightarrow> AuthUser \<Rightarrow> uuid \<Rightarrow> ('r auth_db, string failure, string) handler" where
  "unlink_account E au account_id =
     run_or (linked_delete account_id (xu_user_id au)) (db_err E) (\<lambda>deleted.
     ensure deleted (Reply 404 ''Account not found'')
     (answer ''GitHub account unlinked successfully''))"

definition set_primary :: "'r auth_env \<Rightarrow> AuthUser \<Rightarrow> uuid \<Rightarrow> ('r auth_db, string failure, string) handler" where
  "set_primary E au account_id =
     run_or (linked_set_primary account_id (xu_user_id au)) (db_err E) (\<lambda>updated.
     ensure updated (Reply 404 ''Account not found'')
     (answer ''Primary account updated successfully''))"

end
