(* ===== verification/Auth_Service.thy ===== *)
theory Auth_Service
  imports Auth_Server
begin

text \<open>
  Sign-in as a service: every request of \<^verbatim>\<open>crates/api/src/routes/auth.rs\<close> and \<^verbatim>\<open>github_accounts.rs\<close>, interleaved statement
  by statement with each other and with changes that other parts make to Redis and to the workspaces. What the tables
  hold is traced back to the requests that were made.
\<close>

section \<open>Requests\<close>

datatype 'r auth_request =
    Aq_Github_Login auth_draw "string option"
  | Aq_Google_Login auth_draw "string option"
  | Aq_Github_Callback auth_draw headers string string "string option"
  | Aq_Google_Callback auth_draw headers string "string option" "string option" "string option"
  | Aq_Refresh auth_draw headers string "string option"
  | Aq_Me auth_draw headers
  | Aq_Update_Profile auth_draw headers "string option"
  | Aq_Logout auth_draw headers
  | Aq_Delete auth_draw headers
  | Aq_Ws_Token auth_draw headers
  | Aq_Register auth_draw headers string string string string
  | Aq_Login auth_draw headers string string string
  | Aq_Verify auth_draw string
  | Aq_Forgot auth_draw headers string string
  | Aq_Reset auth_draw string string
  | Aq_Resend auth_draw headers string string
  | Aq_List_Accounts auth_draw headers
  | Aq_Link auth_draw headers "string option"
  | Aq_Unlink auth_draw headers uuid
  | Aq_Set_Primary auth_draw headers uuid
  | Aq_Redis 'r
  | Aq_Workspaces workspace_db

datatype auth_reply =
    Ar_Http "string failure + auth_http"
  | Ar_User "string failure + UserResponse"
  | Ar_Status "string failure + nat"
  | Ar_Text "string failure + string"
  | Ar_Registered "string failure + RegisterResponse"
  | Ar_Accounts "string failure + LinkedAccountResponse list"
  | Ar_Done "unit + unit"

fun auth_handle :: "'r auth_env \<Rightarrow> 'r auth_request \<Rightarrow> ('r auth_db, auth_reply) prog" where
  "auth_handle E (Aq_Github_Login dr ret) = map_prog Ar_Http (github_login E dr ret)"
| "auth_handle E (Aq_Google_Login dr ret) = map_prog Ar_Http (google_login E dr ret)"
| "auth_handle E (Aq_Github_Callback dr h peer code state) = map_prog Ar_Http (github_callback E dr h peer code state)"
| "auth_handle E (Aq_Google_Callback dr h peer code state error) = map_prog Ar_Http (google_callback E dr h peer code state error)"
| "auth_handle E (Aq_Refresh dr h peer body) = map_prog Ar_Http (refresh_token E dr h peer body)"
| "auth_handle E (Aq_Me dr h) = map_prog Ar_User (authenticated E dr h (get_current_user E))"
| "auth_handle E (Aq_Update_Profile dr h name) = map_prog Ar_User (authenticated E dr h (\<lambda>u. update_profile E dr u name))"
| "auth_handle E (Aq_Logout dr h) = map_prog Ar_Http (authenticated E dr h (logout E dr))"
| "auth_handle E (Aq_Delete dr h) = map_prog Ar_Status (authenticated E dr h (delete_account E))"
| "auth_handle E (Aq_Ws_Token dr h) = map_prog Ar_Text (authenticated E dr h (ws_token E dr))"
| "auth_handle E (Aq_Register dr h peer email password name) = map_prog Ar_Registered (register E dr h peer email password name)"
| "auth_handle E (Aq_Login dr h peer email password) = map_prog Ar_Http (login E dr h peer email password)"
| "auth_handle E (Aq_Verify dr t) = map_prog Ar_Http (verify_email E dr t)"
| "auth_handle E (Aq_Forgot dr h peer email) = map_prog Ar_Text (forgot_password E dr h peer email)"
| "auth_handle E (Aq_Reset dr t password) = map_prog Ar_Text (reset_password E dr t password)"
| "auth_handle E (Aq_Resend dr h peer email) = map_prog Ar_Registered (resend_verification E dr h peer email)"
| "auth_handle E (Aq_List_Accounts dr h) = map_prog Ar_Accounts (authenticated E dr h (list_accounts E))"
| "auth_handle E (Aq_Link dr h ret) = map_prog Ar_Http (authenticated E dr h (\<lambda>u. link_account E dr u ret))"
| "auth_handle E (Aq_Unlink dr h i) = map_prog Ar_Text (authenticated E dr h (\<lambda>u. unlink_account E u i))"
| "auth_handle E (Aq_Set_Primary dr h i) = map_prog Ar_Text (authenticated E dr h (\<lambda>u. set_primary E u i))"
| "auth_handle E (Aq_Redis s) = map_prog Ar_Done (run_or (change (\<lambda>d. d\<lparr>ax_redis := s\<rparr>)) () answer)"
| "auth_handle E (Aq_Workspaces w) = map_prog Ar_Done (run_or (change (\<lambda>d. d\<lparr>ax_workspaces := w\<rparr>)) () answer)"


section \<open>What belongs to a user\<close>

text \<open>What GitHub and Google say about a code.\<close>

definition github_shows :: "'r auth_env \<Rightarrow> auth_draw \<Rightarrow> string \<Rightarrow> 64 word \<Rightarrow> string \<Rightarrow> bool" where
  "github_shows E dr code g email \<longleftrightarrow>
     (\<exists>t gu. github_exchange_code (xe_codec E) (ad_web dr) (github_app E) code = Inr t \<and>
        github_get_user (xe_codec E) (ad_web dr) t = Inr gu \<and> gu_id gu = g \<and>
        github_email (xe_codec E) (ad_web dr) t gu = email)"

definition google_shows :: "'r auth_env \<Rightarrow> auth_draw \<Rightarrow> string \<Rightarrow> string \<Rightarrow> string \<Rightarrow> bool" where
  "google_shows E dr code sub email \<longleftrightarrow>
     (\<exists>a t gu. google_app E = Inr a \<and> google_exchange_code (xe_codec E) (ad_web dr) a code = Inr t \<and>
        google_get_user (xe_codec E) (ad_web dr) t = Inr gu \<and> gg_sub gu = sub \<and> gg_email gu = Some email \<and>
        gg_email_verified gu = Some True)"

text \<open>The requests that send a link by mail: its kind, the draw with its token, and the address.\<close>

fun asks_link :: "'r auth_request \<Rightarrow> (EmailTokenType \<times> auth_draw \<times> string) option" where
  "asks_link (Aq_Register dr h peer email password name) = Some (EmailVerification, dr, email)"
| "asks_link (Aq_Resend dr h peer email) = Some (EmailVerification, dr, email)"
| "asks_link (Aq_Forgot dr h peer email) = Some (PasswordReset, dr, email)"
| "asks_link _ = None"

definition link_sent :: "'r auth_env \<Rightarrow> 'r auth_request set \<Rightarrow> EmailTokenType \<Rightarrow> string \<Rightarrow> string \<Rightarrow> bool" where
  "link_sent E Qs kind token_hash email \<longleftrightarrow>
     (\<exists>q dr t. q \<in> Qs \<and> asks_link q = Some (kind, dr, email) \<and> ad_mail_token dr = Some t \<and>
        hash_token (xe_crypto E) t = token_hash)"

datatype credential = Github_Id "64 word" | Google_Id string | Address string | Password_Hash string

text \<open>
  The accounts, addresses and passwords of a user, by the requests that gave them to it: a first sign-in or registration,
  later sign-ins that bring an address, a Google account with an address of the user, and a reset link sent to such an
  address.
\<close>

inductive holds :: "'r auth_env \<Rightarrow> 'r auth_request set \<Rightarrow> uuid \<Rightarrow> credential \<Rightarrow> bool"
  for E :: "'r auth_env" and Qs :: "'r auth_request set" where
  holds_github: "Aq_Github_Callback dr h peer code st \<in> Qs \<Longrightarrow> github_shows E dr code g email \<Longrightarrow>
    holds E Qs (ad_user_row dr) (Github_Id g)"
| holds_github_new: "Aq_Github_Callback dr h peer code st \<in> Qs \<Longrightarrow> github_shows E dr code g email \<Longrightarrow>
    holds E Qs (ad_user_row dr) (Address email)"
| holds_github_address: "Aq_Github_Callback dr h peer code st \<in> Qs \<Longrightarrow> github_shows E dr code g email \<Longrightarrow>
    holds E Qs u (Github_Id g) \<Longrightarrow> holds E Qs u (Address email)"
| holds_google: "Aq_Google_Callback dr h peer (Some code) st err \<in> Qs \<Longrightarrow> google_shows E dr code sub email \<Longrightarrow>
    holds E Qs (ad_user_row dr) (Google_Id sub)"
| holds_google_new: "Aq_Google_Callback dr h peer (Some code) st err \<in> Qs \<Longrightarrow> google_shows E dr code sub email \<Longrightarrow>
    holds E Qs (ad_user_row dr) (Address email)"
| holds_google_address: "Aq_Google_Callback dr h peer (Some code) st err \<in> Qs \<Longrightarrow> google_shows E dr code sub email \<Longrightarrow>
    holds E Qs u (Google_Id sub) \<Longrightarrow> holds E Qs u (Address email)"
| holds_google_link: "Aq_Google_Callback dr h peer (Some code) st err \<in> Qs \<Longrightarrow> google_shows E dr code sub email \<Longrightarrow>
    holds E Qs u (Address email) \<Longrightarrow> holds E Qs u (Google_Id sub)"
| holds_register: "Aq_Register dr h peer email password name \<in> Qs \<Longrightarrow> holds E Qs (ad_user_row dr) (Address email)"
| holds_password: "Aq_Register dr h peer email password name \<in> Qs \<Longrightarrow>
    hash_password (xe_crypto E) (ad_salt dr) password = Inr ph \<Longrightarrow> holds E Qs (ad_user_row dr) (Password_Hash ph)"
| holds_reset: "Aq_Reset dr t password \<in> Qs \<Longrightarrow> link_sent E Qs PasswordReset (hash_token (xe_crypto E) t) email \<Longrightarrow>
    holds E Qs u (Address email) \<Longrightarrow> hash_password (xe_crypto E) (ad_salt dr) password = Inr ph \<Longrightarrow>
    holds E Qs u (Password_Hash ph)"

text \<open>The user's address was proved: by a verification link sent to it, or by GitHub or Google.\<close>

inductive proved :: "'r auth_env \<Rightarrow> 'r auth_request set \<Rightarrow> uuid \<Rightarrow> bool"
  for E :: "'r auth_env" and Qs :: "'r auth_request set" where
  proved_link: "Aq_Verify dr t \<in> Qs \<Longrightarrow> link_sent E Qs EmailVerification (hash_token (xe_crypto E) t) email \<Longrightarrow>
    holds E Qs u (Address email) \<Longrightarrow> proved E Qs u"
| proved_github: "Aq_Github_Callback dr h peer code st \<in> Qs \<Longrightarrow> github_shows E dr code g email \<Longrightarrow>
    holds E Qs u (Github_Id g) \<Longrightarrow> proved E Qs u"
| proved_google: "Aq_Google_Callback dr h peer (Some code) st err \<in> Qs \<Longrightarrow> google_shows E dr code sub email \<Longrightarrow>
    holds E Qs u (Google_Id sub) \<Longrightarrow> proved E Qs u"

text \<open>The draw of a request that opens a session.\<close>

fun session_draw :: "'r auth_request \<Rightarrow> auth_draw option" where
  "session_draw (Aq_Github_Callback dr h peer code st) = Some dr"
| "session_draw (Aq_Google_Callback dr h peer code st err) = Some dr"
| "session_draw (Aq_Refresh dr h peer body) = Some dr"
| "session_draw (Aq_Login dr h peer email password) = Some dr"
| "session_draw (Aq_Verify dr t) = Some dr"
| "session_draw _ = None"

definition presented_refresh :: "headers \<Rightarrow> string option \<Rightarrow> string option" where
  "presented_refresh h body = or_else (extract_refresh_token_from_cookies h) body"

text \<open>The request proves to be the user's: by an account, by address and password with the address proved, by a verification
  link, or by the refresh token of a request that did.\<close>

inductive opens :: "'r auth_env \<Rightarrow> 'r auth_request set \<Rightarrow> 'r auth_request \<Rightarrow> uuid \<Rightarrow> bool"
  for E :: "'r auth_env" and Qs :: "'r auth_request set" where
  opens_github: "Aq_Github_Callback dr h peer code st \<in> Qs \<Longrightarrow> github_shows E dr code g email \<Longrightarrow>
    holds E Qs u (Github_Id g) \<Longrightarrow> opens E Qs (Aq_Github_Callback dr h peer code st) u"
| opens_google: "Aq_Google_Callback dr h peer (Some code) st err \<in> Qs \<Longrightarrow> google_shows E dr code sub email \<Longrightarrow>
    holds E Qs u (Google_Id sub) \<Longrightarrow> opens E Qs (Aq_Google_Callback dr h peer (Some code) st err) u"
| opens_login: "Aq_Login dr h peer email password \<in> Qs \<Longrightarrow> holds E Qs u (Address email) \<Longrightarrow> holds E Qs u (Password_Hash ph) \<Longrightarrow>
    verify_password (xe_crypto E) password ph = Inr True \<Longrightarrow> proved E Qs u \<Longrightarrow> opens E Qs (Aq_Login dr h peer email password) u"
| opens_verify: "Aq_Verify dr t \<in> Qs \<Longrightarrow> link_sent E Qs EmailVerification (hash_token (xe_crypto E) t) email \<Longrightarrow>
    holds E Qs u (Address email) \<Longrightarrow> opens E Qs (Aq_Verify dr t) u"
| opens_refresh: "Aq_Refresh dr h peer body \<in> Qs \<Longrightarrow> presented_refresh h body = Some t \<Longrightarrow> opens E Qs q u \<Longrightarrow>
    session_draw q = Some dr' \<Longrightarrow> ad_refresh_token dr' = Some t' \<Longrightarrow>
    hash_token (xe_crypto E) t = hash_token (xe_crypto E) t' \<Longrightarrow> opens E Qs (Aq_Refresh dr h peer body) u"


section \<open>The trace of the tables\<close>

definition user_traced :: "'r auth_env \<Rightarrow> 'r auth_request set \<Rightarrow> UserWithToken \<Rightarrow> bool" where
  "user_traced E Qs r \<longleftrightarrow>
     (\<forall>g. us_github_id r = Some g \<longrightarrow> holds E Qs (us_id r) (Github_Id g)) \<and>
     (\<forall>g. us_google_id r = Some g \<longrightarrow> holds E Qs (us_id r) (Google_Id g)) \<and>
     holds E Qs (us_id r) (Address (us_email r)) \<and>
     (\<forall>ph. us_password_hash r = Some ph \<longrightarrow> holds E Qs (us_id r) (Password_Hash ph)) \<and>
     (us_email_verified r \<longrightarrow> proved E Qs (us_id r))"

definition mail_traced :: "'r auth_env \<Rightarrow> 'r auth_request set \<Rightarrow> EmailVerificationToken \<Rightarrow> bool" where
  "mail_traced E Qs t \<longleftrightarrow> (\<exists>kind email. et_token_type t = EmailTokenType_display kind \<and>
     link_sent E Qs kind (et_token_hash t) email \<and> holds E Qs (et_user_id t) (Address email))"

definition refresh_row_traced :: "'r auth_env \<Rightarrow> 'r auth_request set \<Rightarrow> refresh_row \<Rightarrow> bool" where
  "refresh_row_traced E Qs r \<longleftrightarrow> (\<exists>q dr t. opens E Qs q (rr_user_id r) \<and> session_draw q = Some dr \<and>
     ad_refresh_token dr = Some t \<and> rr_token_hash r = hash_token (xe_crypto E) t)"

definition auth_traced :: "'r auth_env \<Rightarrow> 'r auth_request set \<Rightarrow> 'r auth_db \<Rightarrow> bool" where
  "auth_traced E Qs d \<longleftrightarrow>
     (\<forall>r \<in> set (ud_users (ax_users d)). user_traced E Qs r) \<and> (\<forall>t \<in> set (ud_tokens (ax_users d)). mail_traced E Qs t) \<and>
     (\<forall>r \<in> set (ax_refresh d). refresh_row_traced E Qs r)"

lemma auth_traced_simps [simp]:
  "auth_traced E Qs (d\<lparr>ax_redis := s\<rparr>) = auth_traced E Qs d"
  "auth_traced E Qs (d\<lparr>ax_workspaces := w\<rparr>) = auth_traced E Qs d"
  "auth_traced E Qs (d\<lparr>ax_outbox := m\<rparr>) = auth_traced E Qs d"
  "auth_traced E Qs (d\<lparr>ax_linked := l\<rparr>) = auth_traced E Qs d"
  by (simp_all add: auth_traced_def)

text \<open>Statements that delete rows.\<close>

lemma auth_traced_deletes:
  assumes "auth_traced E Qs d"
  shows "auth_traced E Qs (delete_refresh th d)" "auth_traced E Qs (delete_refresh_of u d)" "auth_traced E Qs (ax_user_delete u d)"
    "auth_traced E Qs (d\<lparr>ax_users := delete_by_type_for_user u kind (ax_users d)\<rparr>)"
    "auth_traced E Qs (d\<lparr>ax_users := email_token_mark_as_used now i (ax_users d)\<rparr>)"
  using assms
  by (auto simp: auth_traced_def delete_refresh_def delete_refresh_of_def ax_user_delete_def user_delete_def Let_def
      delete_by_type_for_user_def email_token_mark_as_used_def set_sql_update mail_traced_def)

text \<open>Statements that change or insert rows.\<close>

lemma at_users_Some: "at_users f d = Some (x, d') \<longleftrightarrow> (\<exists>u. f (ax_users d) = Some (x, u) \<and> d' = d\<lparr>ax_users := u\<rparr>)"
  by (auto simp: at_users_def)

lemma auth_traced_user_change:
  assumes "auth_traced E Qs d" and "user_change P f (ax_users d) = Some (x, u)"
    and "\<And>r. user_traced E Qs r \<Longrightarrow> P r \<Longrightarrow> user_traced E Qs (f r)"
  shows "auth_traced E Qs (d\<lparr>ax_users := u\<rparr>)"
proof -
  have "u = (ax_users d)\<lparr>ud_users := sql_update P f (ud_users (ax_users d))\<rparr>"
    using assms(2) by (auto simp: user_change_def Let_def split: if_splits)
  then show ?thesis using assms(1,3) by (auto simp: auth_traced_def set_sql_update)
qed

lemma auth_traced_update_one:
  assumes "auth_traced E Qs d" and "user_update_one P f (ax_users d) = Some (x, u)"
    and "\<And>r. user_traced E Qs r \<Longrightarrow> P r \<Longrightarrow> user_traced E Qs (f r)"
  shows "auth_traced E Qs (d\<lparr>ax_users := u\<rparr>)" and "\<exists>r. user_traced E Qs r \<and> P r \<and> x = as_user (f r)"
proof -
  obtain r where r: "find P (ud_users (ax_users d)) = Some r" "user_change P f (ax_users d) = Some ((), u)" "x = as_user (f r)"
    using assms(2) by (auto simp: user_update_one_def split: option.splits)
  show "auth_traced E Qs (d\<lparr>ax_users := u\<rparr>)" by (rule auth_traced_user_change [OF assms(1) r(2) assms(3)])
  show "\<exists>r. user_traced E Qs r \<and> P r \<and> x = as_user (f r)"
    using find_Some_in [OF r(1)] assms(1) r(3) by (auto simp: auth_traced_def)
qed

lemma auth_traced_insert_user:
  assumes "auth_traced E Qs d" and "user_insert r (ax_users d) = Some (x, u)" and "user_traced E Qs r"
  shows "auth_traced E Qs (d\<lparr>ax_users := u\<rparr>)" and "x = as_user r"
  using assms by (auto simp: user_insert_def sql_insert_Some auth_traced_def split: if_splits)

lemma as_user_simps [simp]:
  "us_id (as_user r) = us_id r" "us_email (as_user r) = us_email r" "us_email_verified (as_user r) = us_email_verified r"
  by (simp_all add: as_user_def User.truncate_def)

abbreviation keeps_auth where
  "keeps_auth E Qs p \<equiv> keeps (auth_traced E Qs) p (\<lambda>_ _. True)"

lemma keeps_at_redis: "keeps (auth_traced E Qs) (k None) Q \<Longrightarrow> keeps (auth_traced E Qs) (k (Some ())) Q \<Longrightarrow> keeps (auth_traced E Qs) (run_sql (at_redis f) k) Q"
  unfolding at_redis_def by (rule keeps_change) simp_all

lemma keeps_failures:
  "keeps (auth_traced E Qs) k Q \<Longrightarrow> keeps (auth_traced E Qs) (note_failure E ip pre k) Q"
  "keeps (auth_traced E Qs) k Q \<Longrightarrow> keeps (auth_traced E Qs) (forget_failures E ip pre k) Q"
  unfolding note_failure_def forget_failures_def by (auto intro: keeps_at_redis)

lemma keeps_locked:
  assumes "keeps (auth_traced E Qs) k Q" and "\<And>f d. Q (Inl f) d"
  shows "keeps (auth_traced E Qs) (unless_locked E ip pre m k) Q" "keeps (auth_traced E Qs) (unless_locked_for E ip pre m k) Q"
  unfolding unless_locked_def unless_locked_for_def using assms by (auto intro!: keeps_rules split: if_splits)

lemma keeps_first_workspace:
  assumes "\<And>w. keeps (auth_traced E Qs) (k w) Q" and "\<And>f d. Q (Inl f) d"
  shows "keeps (auth_traced E Qs) (first_workspace E dr u n k) Q"
  unfolding first_workspace_def
  using assms by (auto intro!: keeps_rules keeps_run_or simp: ax_ws_create_def split: list.splits if_splits)

lemma keeps_drop_tokens:
  assumes "keeps (auth_traced E Qs) k Q"
  shows "keeps (auth_traced E Qs) (drop_tokens u kind k) Q"
  unfolding drop_tokens_def by (rule keeps_change) (simp_all add: assms auth_traced_deletes)

lemma auth_traced_insert_refresh:
  assumes "auth_traced E Qs d" and "insert_refresh i n u (RefreshToken_hash (xe_crypto E) r) x d = Some (y, d')"
    and "opens E Qs q u" and "session_draw q = Some dr" and "ad_refresh_token dr = Some (rf_token r)"
  shows "auth_traced E Qs d'"
proof -
  have "refresh_row_traced E Qs \<lparr>rr_id = i, rr_user_id = u, rr_token_hash = RefreshToken_hash (xe_crypto E) r,
      rr_expires_at = x, rr_created_at = n\<rparr>"
    unfolding refresh_row_traced_def using assms(3-5)
    by (intro exI [of _ q] exI [of _ dr] exI [of _ "rf_token r"]) (simp add: RefreshToken_hash_def hash_token_def)
  then show ?thesis using assms(1,2) by (auto simp: auth_traced_def insert_refresh_def sql_insert_Some split: if_splits)
qed

lemma RefreshToken_generate_Some: "RefreshToken_generate t n u m = Some r \<Longrightarrow> t = Some (rf_token r)"
  by (auto simp: RefreshToken_generate_def)

lemma keeps_new_session:
  assumes "opens E Qs q u" and "session_draw q = Some dr"
    and "\<And>t r. generate_token (xe_crypto E) (jwt_hours E) (ad_now dr) (ad_jti dr) u w = Some t \<Longrightarrow>
       ad_refresh_token dr = Some (rf_token r) \<Longrightarrow> keeps (auth_traced E Qs) (k t r) Q"
    and "\<And>f d. Q (Inl f) d"
  shows "keeps (auth_traced E Qs) (new_session E dr u w e k) Q"
  unfolding new_session_def
  by (intro keeps_require keeps_run_or conjI assms(3,4))
    (auto dest: RefreshToken_generate_Some intro: auth_traced_insert_refresh assms(1,2))

lemma keeps_mail_token:
  assumes "q \<in> Qs" and "asks_link q = Some (kind, dr, email)" and "holds E Qs u (Address email)"
    and "keeps (auth_traced E Qs) k Q" and "\<And>f d. Q (Inl f) d"
  shows "keeps (auth_traced E Qs) (mail_token E dr u kind hrs letter k) Q"
proof -
  have "auth_traced E Qs d'" if "auth_traced E Qs d" "ad_mail_token dr = Some t"
    "at_users (email_token_create i n u (hash_token (xe_crypto E) t) kind x) d = Some (y, d')" for d d' t i n x y
  proof -
    have "link_sent E Qs kind (hash_token (xe_crypto E) t) email" using assms(1,2) that(2) by (auto simp: link_sent_def)
    then have "mail_traced E Qs \<lparr>et_id = i, et_user_id = u, et_token_hash = hash_token (xe_crypto E) t,
        et_token_type = EmailTokenType_display kind, et_expires_at = x, et_created_at = n, et_used_at = None\<rparr>"
      using assms(3) by (auto simp: mail_traced_def)
    then show ?thesis using that
      by (auto simp: at_users_Some auth_traced_def email_token_create_def Let_def sql_insert_Some split: if_splits)
  qed
  moreover have "keeps (auth_traced E Qs) (if b then run_sql (change (\<lambda>d. d\<lparr>ax_outbox := g d\<rparr>)) (\<lambda>_. k) else k) Q" for b g
    using assms(4) by (auto intro: keeps_change)
  ultimately show ?thesis unfolding mail_token_def
    by (intro keeps_require keeps_run_or conjI assms(5)) auto
qed


section \<open>What an answer hands out\<close>

definition cookies_of :: "auth_http \<Rightarrow> bytes list" where
  "cookies_of r = map snd (filter (\<lambda>h. fst h = ''set-cookie'') (hr_headers r))"

definition issues :: "'r auth_env \<Rightarrow> auth_draw \<Rightarrow> uuid \<Rightarrow> auth_http \<Rightarrow> bool" where
  "issues E dr u r \<longleftrightarrow>
     (\<exists>w t rt. generate_token (xe_crypto E) (jwt_hours E) (ad_now dr) (ad_jti dr) u w = Some t \<and> ad_refresh_token dr = Some rt \<and>
        cookies_of r = List.map_filter hdr_from_str [access_cookie E t, refresh_cookie E rt] \<and>
        (\<forall>b. hr_body r = Some b \<longrightarrow> ar_access_token b = t \<and> ar_refresh_token b \<in> {None, Some rt} \<and> ur_id (ar_user b) = u))"

definition session_reply :: "'r auth_env \<Rightarrow> 'r auth_request set \<Rightarrow> 'r auth_request \<Rightarrow> string failure + auth_http \<Rightarrow> bool" where
  "session_reply E Qs q reply \<longleftrightarrow>
     (\<forall>r. reply = Inr r \<longrightarrow> (cookies_of r = [] \<and> hr_body r = None) \<or>
        (\<exists>u dr. opens E Qs q u \<and> session_draw q = Some dr \<and> issues E dr u r))"

lemma session_reply_Inl [simp]: "session_reply E Qs q (Inl f)"
  by (simp add: session_reply_def)

abbreviation keeps_session where
  "keeps_session E Qs q p \<equiv> keeps (auth_traced E Qs) p (\<lambda>r d. session_reply E Qs q r)"

lemma keeps_redirect: "keeps_session E Qs q (redirect_temporary uri)"
  unfolding redirect_temporary_def
  by (auto intro!: keeps_rules simp: session_reply_def cookies_of_def split: option.splits)

lemma keeps_session_answer:
  assumes "opens E Qs q u" "session_draw q = Some dr" "ad_refresh_token dr = Some (rf_token r)"
    "generate_token (xe_crypto E) (jwt_hours E) (ad_now dr) (ad_jti dr) u w = Some t" "ur_id ur = u"
  shows "keeps_session E Qs q (session_answer E t r inc ur)"
proof -
  have "issues E dr u \<lparr>hr_status = 200,
       hr_headers = add_cookie (refresh_cookie E (rf_token r)) (add_cookie (access_cookie E t) []),
       hr_body = Some \<lparr>ar_access_token = t, ar_refresh_token = (if inc then Some (rf_token r) else None), ar_token_type = ''Bearer'',
         ar_expires_in = jwt_hours E * 3600, ar_user = ur\<rparr>\<rparr>"
    unfolding issues_def using assms(3-5)
    by (intro exI [of _ w] exI [of _ t] exI [of _ "rf_token r"])
      (simp add: cookies_of_def add_cookie_def hdr_append_def List.map_filter_def split: option.splits)
  then show ?thesis unfolding session_answer_def using assms(1,2)
    by (intro keeps_answer) (auto simp: session_reply_def)
qed

lemma keeps_callback_answer:
  assumes "opens E Qs q u" "session_draw q = Some dr" "ad_refresh_token dr = Some (rf_token r)"
    "generate_token (xe_crypto E) (jwt_hours E) (ad_now dr) (ad_jti dr) u w = Some t"
  shows "keeps_session E Qs q (callback_answer E p ret t r)"
proof -
  have "issues E dr u \<lparr>hr_status = 307, hr_headers = [(''set-cookie'', a), (''set-cookie'', c), (''location'', l)], hr_body = None\<rparr>"
    if "hdr_from_str (access_cookie E t) = Some a" "hdr_from_str (refresh_cookie E (rf_token r)) = Some c" for a c l
    unfolding issues_def using assms(3,4) that
    by (intro exI [of _ w] exI [of _ t] exI [of _ "rf_token r"]) (simp add: cookies_of_def List.map_filter_def)
  then show ?thesis unfolding callback_answer_def using assms(1,2)
    by (intro keeps_require keeps_answer) (auto simp: session_reply_def)
qed

section \<open>Every handler keeps the trace\<close>

lemma redis_ops_traced:
  "auth_traced E Qs d \<Longrightarrow> redis_set E k v t d = Some (x, d') \<Longrightarrow> auth_traced E Qs d'"
  "auth_traced E Qs d \<Longrightarrow> redis_get E k d = Some (y, d') \<Longrightarrow> auth_traced E Qs d'"
  "auth_traced E Qs d \<Longrightarrow> redis_del E k d = Some (x, d') \<Longrightarrow> auth_traced E Qs d'"
  by (auto simp: redis_set_def redis_get_def redis_del_def split: if_splits)

lemma keeps_check_state:
  assumes "\<And>v. keeps (auth_traced E Qs) (k v) Q" and "\<And>f d. Q (Inl f) d"
  shows "keeps (auth_traced E Qs) (check_state E ip st k) Q"
  unfolding check_state_def
  using assms by (auto intro!: keeps_run_or keeps_run_sql keeps_failures keeps_refuse intro: redis_ops_traced split: option.splits)

lemma keeps_start_oauth: "keeps_session E Qs q (start_oauth E dr url ret)"
  unfolding start_oauth_def by (auto intro!: keeps_run_or keeps_redirect intro: redis_ops_traced)

lemma keeps_login_pages: "keeps_session E Qs q (github_login E dr ret)" "keeps_session E Qs q (google_login E dr ret)"
  unfolding github_login_def google_login_def
  by (auto intro!: keeps_start_oauth keeps_refuse split: sum.splits)

lemma keeps_github_identity:
  assumes "\<And>t gu. github_shows E dr code (gu_id gu) (github_email (xe_codec E) (ad_web dr) t gu) \<Longrightarrow>
      keeps (auth_traced E Qs) (k t gu) Q" and "\<And>f d. Q (Inl f) d"
  shows "keeps (auth_traced E Qs) (github_identity E dr code m k) Q"
  unfolding github_identity_def
  using assms by (auto intro!: keeps_refuse simp: github_shows_def split: sum.splits)

lemma keeps_google_identity:
  assumes "\<And>gu email. google_shows E dr code (gg_sub gu) email \<Longrightarrow> keeps (auth_traced E Qs) (k gu email) Q" and "\<And>f d. Q (Inl f) d"
  shows "keeps (auth_traced E Qs) (google_identity E dr code k) Q"
  unfolding google_identity_def
  using assms by (auto intro!: keeps_refuse keeps_require keeps_ensure simp: google_shows_def split: sum.splits)

lemma keeps_link_callback: "keeps_session E Qs q (handle_github_link_callback E dr code v)"
proof -
  have 1: "auth_traced E Qs d'" if "auth_traced E Qs d" "linked_update_token n i u e c s d = Some (x, d')" for d d' n i u e c s x
    using that by (auto simp: linked_update_token_def Let_def)
  have 2: "auth_traced E Qs d'" if "auth_traced E Qs d" "linked_insert i n l b d = Some (x, d')" for d d' i n l b x
    using that by (auto simp: linked_insert_def Let_def split: if_splits)
  show ?thesis unfolding handle_github_link_callback_def linked_create_def Let_def
    by (intro keeps_rules keeps_github_identity session_reply_Inl)
      (auto intro!: keeps_refuse keeps_run_or keeps_redirect keeps_select_or intro: 1 2 split: sum.splits option.splits)
qed

text \<open>The statements of a sign-in.\<close>

lemma user_row_simps [simp]:
  "us_id (user_row i n g go e nm av v p ph) = i" "us_github_id (user_row i n g go e nm av v p ph) = g"
  "us_google_id (user_row i n g go e nm av v p ph) = go" "us_email (user_row i n g go e nm av v p ph) = e"
  "us_password_hash (user_row i n g go e nm av v p ph) = ph" "us_email_verified (user_row i n g go e nm av v p ph) = v"
  by (simp_all add: user_row_def)

lemma github_upsert_traced:
  assumes "auth_traced E Qs d" and "Aq_Github_Callback dr h peer code st \<in> Qs" and "github_shows E dr code g email"
    and "at_users (upsert_from_github (ad_user_row dr) n g email nm av) d = Some (user, d')"
  shows "auth_traced E Qs d'" and "holds E Qs (us_id user) (Github_Id g)"
proof -
  obtain u where u: "upsert_from_github (ad_user_row dr) n g email nm av (ax_users d) = Some (user, u)" "d' = d\<lparr>ax_users := u\<rparr>"
    using assms(4) by (auto simp: at_users_Some)
  note H = holds_github [OF assms(2,3)]
  have new: "user_traced E Qs (user_row (ad_user_row dr) n (Some g) None email nm av True p None)" for p
    unfolding user_traced_def using H holds_github_new [OF assms(2,3)] proved_github [OF assms(2,3) H] by simp
  have old: "user_traced E Qs (r\<lparr>us_email := email, us_name := nm, us_avatar_url := av, us_updated_at := n\<rparr>)"
    if "user_traced E Qs r" "us_github_id r = Some g" for r
    using that holds_github_address [OF assms(2,3)] by (simp add: user_traced_def)
  have "auth_traced E Qs d' \<and> holds E Qs (us_id user) (Github_Id g)"
  proof (cases "list_ex (\<lambda>r. us_github_id r = Some g) (ud_users (ax_users d))")
    case True
    then have up: "user_update_one (\<lambda>r. us_github_id r = Some g)
        (\<lambda>r. r\<lparr>us_email := email, us_name := nm, us_avatar_url := av, us_updated_at := n\<rparr>) (ax_users d) = Some (user, u)"
      using u(1) by (simp add: upsert_from_github_def)
    from auth_traced_update_one [OF assms(1) up] old u(2) show ?thesis by (auto simp: user_traced_def)
  next
    case False
    then have ins: "user_insert (user_row (ad_user_row dr) n (Some g) None email nm av True ''github'' None) (ax_users d) = Some (user, u)"
      using u(1) by (simp add: upsert_from_github_def create_from_github_def)
    from auth_traced_insert_user [OF assms(1) ins new] u(2) H show ?thesis by simp
  qed
  then show "auth_traced E Qs d'" "holds E Qs (us_id user) (Github_Id g)" by simp_all
qed

lemma keeps_github_upsert:
  assumes "Aq_Github_Callback dr h peer code st \<in> Qs" and "github_shows E dr code g email" and "\<And>f d. Q (Inl f) d"
    and "\<And>user. holds E Qs (us_id user) (Github_Id g) \<Longrightarrow> keeps (auth_traced E Qs) (k user) Q"
  shows "keeps (auth_traced E Qs) (run_or (at_users (upsert_from_github (ad_user_row dr) n g email nm av)) e k) Q"
  by (rule keeps_run_or) (use github_upsert_traced [OF _ assms(1,2)] assms(3,4) in blast)+

text \<open>Updates of one user that leave the traced fields or prove the new ones.\<close>

lemma keeps_user_change:
  assumes "\<And>r. user_traced E Qs r \<Longrightarrow> P r \<Longrightarrow> user_traced E Qs (f r)" and "\<And>f d. Q (Inl f) d" and "keeps (auth_traced E Qs) (k ()) Q"
  shows "keeps (auth_traced E Qs) (run_or (at_users (user_change P f)) e k) Q"
  by (rule keeps_run_or) (use auth_traced_user_change [OF _ _ assms(1)] assms(2,3) in \<open>auto simp: at_users_Some\<close>)

lemma keeps_update_one:
  assumes "\<And>r. user_traced E Qs r \<Longrightarrow> P r \<Longrightarrow> user_traced E Qs (f r)" and "\<And>f d. Q (Inl f) d"
    and "\<And>r. user_traced E Qs r \<Longrightarrow> P r \<Longrightarrow> keeps (auth_traced E Qs) (k (as_user (f r))) Q"
  shows "keeps (auth_traced E Qs) (run_or (at_users (user_update_one P f)) e k) Q"
proof (rule keeps_run_or)
  fix d x d'
  assume d: "auth_traced E Qs d" and up: "at_users (user_update_one P f) d = Some (x, d')"
  then obtain u where u: "user_update_one P f (ax_users d) = Some (x, u)" "d' = d\<lparr>ax_users := u\<rparr>" by (auto simp: at_users_Some)
  show "auth_traced E Qs d' \<and> keeps (auth_traced E Qs) (k x) Q"
    using auth_traced_update_one [OF d u(1) assms(1)] assms(3) u(2) by blast
qed (rule assms(2))

lemma keeps_insert_user:
  assumes "user_traced E Qs r" and "\<And>f d. Q (Inl f) d" and "keeps (auth_traced E Qs) (k (as_user r)) Q"
  shows "keeps (auth_traced E Qs) (run_or (at_users (user_insert r)) e k) Q"
  by (rule keeps_run_or) (use auth_traced_insert_user [OF _ _ assms(1)] assms(2,3) in \<open>auto simp: at_users_Some\<close>)

lemma keeps_encrypt:
  assumes "\<And>f d. Q (Inl f) d" and "\<And>c n. keeps I (k c n) Q"
  shows "keeps I (case encrypt_string X key nonce t of Inl _ \<Rightarrow> refuse f | Inr (c, n) \<Rightarrow> k c n) Q"
  using assms by (auto intro: keeps_refuse split: sum.splits)

lemma keeps_github_token:
  assumes "\<And>f d. Q (Inl f) d" and "keeps (auth_traced E Qs) (k ()) Q"
  shows "keeps (auth_traced E Qs) (run_or (at_users (update_github_token n u enc c)) e k) Q"
  unfolding update_github_token_def by (rule keeps_user_change) (use assms in \<open>simp_all add: user_traced_def\<close>)

lemma keeps_callback_session:
  assumes "opens E Qs q u" and "session_draw q = Some dr"
  shows "keeps_session E Qs q (first_workspace E dr u nm (\<lambda>w. new_session E dr u w e (\<lambda>t r.
    forget_failures E ip pre (callback_answer E p ret t r))))"
  by (intro keeps_first_workspace keeps_new_session [OF assms] keeps_failures keeps_callback_answer [OF assms] session_reply_Inl)

lemma keeps_if: "(b \<Longrightarrow> keeps I p Q) \<Longrightarrow> (\<not> b \<Longrightarrow> keeps I p' Q) \<Longrightarrow> keeps I (if b then p else p') Q"
  by simp

lemma keeps_github_callback:
  assumes "Aq_Github_Callback dr h peer code st \<in> Qs"
  shows "keeps_session E Qs (Aq_Github_Callback dr h peer code st) (github_callback E dr h peer code st)"
proof -
  let ?q = "Aq_Github_Callback dr h peer code st"
  have enc: "keeps_session E Qs ?q (case encrypt_string X key nonce t of Inl _ \<Rightarrow> refuse f | Inr (c, nc) \<Rightarrow>
      run_or (at_users (update_github_token n u c nc)) e (\<lambda>_. first_workspace E dr u nm (\<lambda>w. new_session E dr u w e' (\<lambda>t r.
        forget_failures E ip pre (callback_answer E p ret t r)))))"
    if "github_shows E dr code g email" "holds E Qs u (Github_Id g)" for X key nonce t f n u e nm e' ip pre p ret g email
    by (rule keeps_encrypt, rule session_reply_Inl, rule keeps_github_token, rule session_reply_Inl,
        rule keeps_callback_session, rule opens_github [OF assms that], simp)
  show ?thesis unfolding github_callback_def Let_def
    by (intro keeps_locked keeps_check_state session_reply_Inl keeps_if keeps_link_callback keeps_github_identity
        keeps_github_upsert [OF assms] enc; assumption?)
qed

text \<open>Google.\<close>

lemma keeps_google_upsert:
  assumes "Aq_Google_Callback dr h peer (Some code) st err \<in> Qs" and "google_shows E dr code sub email" and "\<And>f d. Q (Inl f) d"
    and k: "\<And>user. holds E Qs (us_id user) (Google_Id sub) \<Longrightarrow> keeps (auth_traced E Qs) (k user) Q"
  shows "keeps (auth_traced E Qs) (upsert_from_google e (ad_user_row dr) n sub email nm av k) Q"
proof -
  note q = assms(1,2)
  have new: "user_traced E Qs (user_row (ad_user_row dr) n None (Some sub) email nm av True p None)" for p
    unfolding user_traced_def using holds_google [OF q] holds_google_new [OF q] proved_google [OF q holds_google [OF q]] by simp
  have "keeps (auth_traced E Qs) (run_or (at_users (create_from_google (ad_user_row dr) n sub email nm av)) e k) Q"
    unfolding create_from_google_def by (rule keeps_insert_user [OF new]) (simp_all add: assms(3) k holds_google [OF q])
  moreover have "keeps (auth_traced E Qs) (run_or (at_users (google_refresh n sub email nm av)) e k) Q"
    unfolding google_refresh_def
    by (rule keeps_update_one) (auto simp: user_traced_def intro!: k assms(3) intro: holds_google_address [OF q])
  moreover have "keeps (auth_traced E Qs) (run_or (at_users (google_link n sub email)) e k) Q"
    unfolding google_link_def
    by (rule keeps_update_one)
      (auto simp: user_traced_def intro!: k assms(3) intro: holds_google_link [OF q] proved_google [OF q])
  ultimately show ?thesis unfolding upsert_from_google_def
    by (intro keeps_select_or assms(3)) (auto split: option.splits intro!: keeps_select_or assms(3))
qed

lemma keeps_google_callback:
  assumes "Aq_Google_Callback dr h peer code st err \<in> Qs"
  shows "keeps_session E Qs (Aq_Google_Callback dr h peer code st err) (google_callback E dr h peer code st err)"
proof (cases err)
  case None
  have q: "Aq_Google_Callback dr h peer (Some c) st None \<in> Qs" if "code = Some c" for c using assms that None by simp
  have "keeps_session E Qs (Aq_Google_Callback dr h peer code st None)
      (unless_locked_for E ip pre m (check_state E ip st (\<lambda>v. google_identity E dr c (\<lambda>gu email.
        upsert_from_google e (ad_user_row dr) n (gg_sub gu) email (nm gu email) (av gu) (\<lambda>user.
        first_workspace E dr (us_id user) (us_name user) (\<lambda>w. new_session E dr (us_id user) w e' (\<lambda>t r.
          forget_failures E ip pre' (callback_answer E p (ret v) t r))))))))" if c: "code = Some c" for c ip pre m e n nm av e' pre' p ret
    unfolding c by (intro keeps_locked keeps_check_state session_reply_Inl keeps_google_identity keeps_google_upsert [OF q [OF c]]
        keeps_callback_session opens_google [OF q [OF c]]; (assumption | simp)?)
  then show ?thesis unfolding None google_callback_def Let_def option.case
    by (intro keeps_require session_reply_Inl)
qed (simp add: google_callback_def Let_def keeps_redirect)

text \<open>Password and mail.\<close>

lemma user_found:
  assumes "auth_traced E Qs d"
  shows "user_find_by_email email (ax_users d) = Some u \<Longrightarrow> holds E Qs (us_id u) (Address email)"
    and "get_for_email_login email (ax_users d) = Some r \<Longrightarrow> user_traced E Qs r \<and> us_email r = email"
  using assms by (auto simp: user_find_by_email_def user_by_def get_for_email_login_def auth_traced_def user_traced_def
      dest!: find_Some_in)

lemma keeps_register:
  assumes "Aq_Register dr h peer email password name \<in> Qs"
  shows "keeps_auth E Qs (register E dr h peer email password name)"
proof -
  let ?q = "Aq_Register dr h peer email password name"
  have mail: "keeps_auth E Qs (mail_token E dr u EmailVerification hrs letter (answer a))"
    if "holds E Qs u (Address email)" for u hrs letter a
    by (rule keeps_mail_token [OF assms _ that]) (simp_all add: keeps_answer)
  have new: "user_traced E Qs (user_row (ad_user_row dr) n None None email nm None False p (Some ph))"
    if "hash_password (xe_crypto E) (ad_salt dr) password = Inr ph" for n nm p ph
    unfolding user_traced_def using holds_register [OF assms] holds_password [OF assms that] by simp
  have created: "keeps_auth E Qs (run_or (at_users (create_from_email (ad_user_row dr) n email nm ph)) e
      (\<lambda>user. mail_token E dr (us_id user) EmailVerification hrs letter (answer a)))"
    if "hash_password (xe_crypto E) (ad_salt dr) password = Inr ph" for n nm ph e hrs letter a
    unfolding create_from_email_def
    by (rule keeps_insert_user [OF new [OF that]]) (simp_all add: mail holds_register [OF assms])
  have found: "keeps_auth E Qs (case existing of
       Some user \<Rightarrow> (if \<not> us_email_verified user then drop_tokens (us_id user) EmailVerification
             (mail_token E dr (us_id user) EmailVerification hrs letter (answer a)) else note_failure E ip pre (answer b))
     | None \<Rightarrow> (case hash_password (xe_crypto E) (ad_salt dr) password of Inl _ \<Rightarrow> refuse f
          | Inr ph \<Rightarrow> run_or (at_users (create_from_email (ad_user_row dr) n email nm ph)) e
              (\<lambda>user. mail_token E dr (us_id user) EmailVerification hrs letter (answer a))))"
    if "\<And>u. existing = Some u \<Longrightarrow> holds E Qs (us_id u) (Address email)" for existing hrs letter a ip pre b f n nm e
    using that by (auto split: option.splits sum.splits intro!: keeps_drop_tokens keeps_failures keeps_answer keeps_refuse mail created)
  show ?thesis unfolding register_def Let_def
    by (intro keeps_locked keeps_ensure keeps_select_or TrueI found) (erule user_found(1))
qed

lemma keeps_forgot:
  assumes "Aq_Forgot dr h peer email \<in> Qs"
  shows "keeps_auth E Qs (forgot_password E dr h peer email)"
proof -
  have step: "keeps_auth E Qs (case Option.bind found id of None \<Rightarrow> note_failure E ip pre (answer a)
      | Some user \<Rightarrow> drop_tokens (us_id user) PasswordReset
          (mail_token E dr (us_id user) PasswordReset hrs letter (note_failure E ip pre (answer a))))"
    if "\<And>u. found = Some (Some u) \<Longrightarrow> user_traced E Qs u \<and> us_email u = email" for found ip pre a hrs letter
    using that
    by (auto split: option.splits intro!: keeps_failures keeps_answer keeps_drop_tokens keeps_mail_token [OF assms]
        simp: bind_eq_Some_conv user_traced_def)
  show ?thesis unfolding forgot_password_def Let_def
    by (intro keeps_locked keeps_select TrueI step) (auto dest: user_found(2))
qed

lemma keeps_resend:
  assumes "Aq_Resend dr h peer email \<in> Qs"
  shows "keeps_auth E Qs (resend_verification E dr h peer email)"
proof -
  have step: "keeps_auth E Qs (case Option.bind found id of None \<Rightarrow> note_failure E ip pre (answer a)
      | Some user \<Rightarrow> if us_email_verified user then note_failure E ip pre (answer a)
          else drop_tokens (us_id user) EmailVerification
            (mail_token E dr (us_id user) EmailVerification hrs letter (note_failure E ip pre (answer a))))"
    if "\<And>u. found = Some (Some u) \<Longrightarrow> holds E Qs (us_id u) (Address email)" for found ip pre a hrs letter
    using that
    by (auto split: option.splits intro!: keeps_failures keeps_answer keeps_drop_tokens keeps_mail_token [OF assms]
        simp: bind_eq_Some_conv)
  show ?thesis unfolding resend_verification_def Let_def
    by (intro keeps_locked keeps_select TrueI step) (auto dest: user_found(1))
qed

lemma keeps_password_session:
  assumes "opens E Qs q u" and "session_draw q = Some dr" and "ur_id ur = u"
  shows "keeps_session E Qs q (first_workspace E dr u nm (\<lambda>w. new_session E dr u w e (\<lambda>t r. session_answer E t r inc ur)))"
  by (intro keeps_first_workspace keeps_new_session [OF assms(1,2)] keeps_session_answer [OF assms(1,2) _ _ assms(3)] session_reply_Inl)

lemma keeps_login:
  assumes "Aq_Login dr h peer email password \<in> Qs"
  shows "keeps_session E Qs (Aq_Login dr h peer email password) (login E dr h peer email password)"
proof -
  let ?q = "Aq_Login dr h peer email password"
  have good: "keeps_session E Qs ?q (ensure (us_email_verified user) f (forget_failures E ip pre
      (first_workspace E dr (us_id user) nm (\<lambda>w. new_session E dr (us_id user) w e (\<lambda>t r.
        session_answer E t r inc (user_response (as_user user)))))))"
    if "user_traced E Qs user" "us_email user = email" "us_password_hash user = Some ph"
      "verify_password (xe_crypto E) password ph = Inr True" for user ph f ip pre nm e inc
  proof (rule keeps_ensure)
    assume "us_email_verified user"
    then have "opens E Qs ?q (us_id user)"
      using that by (intro opens_login [OF assms, where ph = ph]) (auto simp: user_traced_def)
    then show "keeps_session E Qs ?q (forget_failures E ip pre (first_workspace E dr (us_id user) nm (\<lambda>w.
        new_session E dr (us_id user) w e (\<lambda>t r. session_answer E t r inc (user_response (as_user user))))))"
      by (intro keeps_failures keeps_password_session) (simp_all add: user_response_def)
  qed simp
  have "keeps_session E Qs ?q (case found of None \<Rightarrow> note_failure E ip pre (refuse f)
      | Some user \<Rightarrow> require (us_password_hash user) f (\<lambda>ph. case verify_password (xe_crypto E) password ph of
          Inl _ \<Rightarrow> refuse f' | Inr ok \<Rightarrow> (if \<not> ok then note_failure E ip pre (refuse f)
            else ensure (us_email_verified user) f'' (forget_failures E ip pre
              (first_workspace E dr (us_id user) (us_name user) (\<lambda>w. new_session E dr (us_id user) w e (\<lambda>t r.
                 session_answer E t r inc (user_response (as_user user)))))))))"
    if "\<And>u. found = Some u \<Longrightarrow> user_traced E Qs u \<and> us_email u = email" for found ip pre f f' f'' e inc
  proof (cases found)
    case (Some user)
    note u = that [OF Some, THEN conjunct1] that [OF Some, THEN conjunct2]
    show ?thesis unfolding Some option.case
    proof (rule keeps_require)
      fix ph assume ph: "us_password_hash user = Some ph"
      show "keeps_session E Qs ?q (case verify_password (xe_crypto E) password ph of
          Inl _ \<Rightarrow> refuse f' | Inr ok \<Rightarrow> (if \<not> ok then note_failure E ip pre (refuse f)
            else ensure (us_email_verified user) f'' (forget_failures E ip pre
              (first_workspace E dr (us_id user) (us_name user) (\<lambda>w. new_session E dr (us_id user) w e (\<lambda>t r.
                 session_answer E t r inc (user_response (as_user user))))))))"
        using good [OF u ph] by (auto split: sum.splits intro!: keeps_failures keeps_refuse)
    qed simp
  qed (simp add: keeps_failures keeps_refuse)
  note step = this
  show ?thesis unfolding login_def Let_def
    by (intro keeps_locked keeps_select_or session_reply_Inl step) (erule user_found(2))
qed

lemma token_found:
  assumes "auth_traced E Qs d" and "find_valid_token now th (ax_users d) = Some t"
    and "et_token_type t = EmailTokenType_display kind"
  shows "\<exists>email. link_sent E Qs kind th email \<and> holds E Qs (et_user_id t) (Address email)"
proof -
  have "mail_traced E Qs t" "et_token_hash t = th"
    using assms(1,2) by (auto simp: auth_traced_def find_valid_token_def dest!: find_Some_in)
  moreover have "kind' = kind" if "et_token_type t = EmailTokenType_display kind'" for kind'
    using that assms(3) by (cases kind; cases kind') auto
  ultimately show ?thesis unfolding mail_traced_def by metis
qed

lemma keeps_mark_used: "keeps (auth_traced E Qs) (k ()) Q \<Longrightarrow> (\<And>f d. Q (Inl f) d) \<Longrightarrow>
  keeps (auth_traced E Qs) (run_or (change (\<lambda>d. d\<lparr>ax_users := email_token_mark_as_used n i (ax_users d)\<rparr>)) e k) Q"
  by (rule keeps_change_or) (simp_all add: auth_traced_deletes)

lemma keeps_verify:
  assumes "Aq_Verify dr t \<in> Qs"
  shows "keeps_session E Qs (Aq_Verify dr t) (verify_email E dr t)"
proof -
  have "keeps_session E Qs (Aq_Verify dr t) (run_or (at_users (user_verify_email n u)) e (\<lambda>user.
      run_or (change (\<lambda>d. d\<lparr>ax_users := email_token_mark_as_used n i (ax_users d)\<rparr>)) e (\<lambda>_. drop_tokens u k
      (first_workspace E dr (us_id user) (us_name user) (\<lambda>w. new_session E dr (us_id user) w e' (\<lambda>a r.
        session_answer E a r inc (user_response user)))))))"
    if "link_sent E Qs EmailVerification (hash_token (xe_crypto E) t) email" "holds E Qs u (Address email)" for u email n e i k e' inc
    unfolding user_verify_email_def
  proof (rule keeps_update_one)
    fix r assume "user_traced E Qs r" "us_id r = u"
    then show "user_traced E Qs (r\<lparr>us_email_verified := True, us_updated_at := n\<rparr>)"
      using proved_link [OF assms that] by (simp add: user_traced_def)
    let ?u = "as_user (r\<lparr>us_email_verified := True, us_updated_at := n\<rparr>)"
    have "opens E Qs (Aq_Verify dr t) (us_id ?u)" using opens_verify [OF assms that] \<open>us_id r = u\<close> by simp
    then show "keeps_session E Qs (Aq_Verify dr t) (run_or (change (\<lambda>d. d\<lparr>ax_users := email_token_mark_as_used n i (ax_users d)\<rparr>)) e
        (\<lambda>_. drop_tokens u k (first_workspace E dr (us_id ?u) (us_name ?u) (\<lambda>w. new_session E dr (us_id ?u) w e' (\<lambda>a r.
        session_answer E a r inc (user_response ?u))))))"
      by (intro keeps_mark_used keeps_drop_tokens keeps_password_session session_reply_Inl) (simp_all add: user_response_def)
  qed simp
  note step = this
  show ?thesis unfolding verify_email_def
  proof (intro keeps_select_or keeps_require keeps_ensure session_reply_Inl)
    fix d tok
    assume "auth_traced E Qs d" "find_valid_token (ad_now dr) (hash_token (xe_crypto E) t) (ax_users d) = Some tok"
      "et_token_type tok = EmailTokenType_display EmailVerification"
    then obtain email where "link_sent E Qs EmailVerification (hash_token (xe_crypto E) t) email"
        "holds E Qs (et_user_id tok) (Address email)" using token_found by blast
    from step [OF this] show "keeps_session E Qs (Aq_Verify dr t)
      (run_or (at_users (user_verify_email (ad_now dr) (et_user_id tok))) (db_err E) (\<lambda>user.
       run_or (change (\<lambda>d. d\<lparr>ax_users := email_token_mark_as_used (ad_now dr) (et_id tok) (ax_users d)\<rparr>)) (db_err E) (\<lambda>_.
       drop_tokens (et_user_id tok) EmailVerification
       (first_workspace E dr (us_id user) (us_name user) (\<lambda>workspace_id.
        new_session E dr (us_id user) workspace_id (internal_err ''Token generation failed'') (\<lambda>token refresh.
        session_answer E token refresh False (user_response user)))))))" .
  qed
qed

lemma keeps_reset:
  assumes "Aq_Reset dr t password \<in> Qs"
  shows "keeps_auth E Qs (reset_password E dr t password)"
proof -
  have "keeps_auth E Qs (case hash_password (xe_crypto E) (ad_salt dr) password of Inl _ \<Rightarrow> refuse f
      | Inr ph \<Rightarrow> run_or (at_users (update_password n u ph)) e (\<lambda>_.
          run_or (change (\<lambda>d. d\<lparr>ax_users := email_token_mark_as_used n i (ax_users d)\<rparr>)) e (\<lambda>_.
          drop_tokens u k (run_or (change (delete_refresh_of u)) e (\<lambda>_. answer a)))))"
    if "link_sent E Qs PasswordReset (hash_token (xe_crypto E) t) email" "holds E Qs u (Address email)" for u email f n e i k a
  proof (cases "hash_password (xe_crypto E) (ad_salt dr) password")
    case (Inr ph)
    have "user_traced E Qs (r\<lparr>us_password_hash := Some ph, us_updated_at := n\<rparr>)" if "user_traced E Qs r" "us_id r = u" for r
      using that holds_reset [OF assms \<open>link_sent _ _ _ _ _\<close> \<open>holds _ _ _ _\<close> Inr] by (simp add: user_traced_def)
    then show ?thesis unfolding Inr sum.case update_password_def
      by (intro keeps_user_change keeps_mark_used keeps_drop_tokens keeps_change_or keeps_answer auth_traced_deletes TrueI) simp_all
  qed (simp add: keeps_refuse)
  note step = this
  show ?thesis unfolding reset_password_def
  proof (intro keeps_select_or keeps_require keeps_ensure TrueI)
    fix d tok
    assume "auth_traced E Qs d" "find_valid_token (ad_now dr) (hash_token (xe_crypto E) t) (ax_users d) = Some tok"
      "et_token_type tok = EmailTokenType_display PasswordReset"
    then obtain email where "link_sent E Qs PasswordReset (hash_token (xe_crypto E) t) email"
        "holds E Qs (et_user_id tok) (Address email)" using token_found by blast
    from step [OF this] show "keeps_auth E Qs (case hash_password (xe_crypto E) (ad_salt dr) password of
         Inl _ \<Rightarrow> refuse (internal_err ''Password hashing failed'')
       | Inr password_hash \<Rightarrow>
           run_or (at_users (update_password (ad_now dr) (et_user_id tok) password_hash)) (db_err E) (\<lambda>_.
           run_or (change (\<lambda>d. d\<lparr>ax_users := email_token_mark_as_used (ad_now dr) (et_id tok) (ax_users d)\<rparr>)) (db_err E) (\<lambda>_.
           drop_tokens (et_user_id tok) PasswordReset
           (run_or (change (delete_refresh_of (et_user_id tok))) (db_err E) (\<lambda>_.
            answer ''Password reset successfully. Please log in with your new password.'')))))" .
  qed
qed

lemma keeps_refresh:
  assumes "Aq_Refresh dr h peer body \<in> Qs"
  shows "keeps_session E Qs (Aq_Refresh dr h peer body) (refresh_token E dr h peer body)"
proof -
  let ?q = "Aq_Refresh dr h peer body"
  have rotate: "keeps_session E Qs ?q (require (generate_token (xe_crypto E) (jwt_hours E) (ad_now dr) (ad_jti dr) u w) f (\<lambda>a.
      require (RefreshToken_generate (ad_refresh_token dr) n u days) f' (\<lambda>r.
      run_sql (change (delete_refresh th)) (\<lambda>_.
      run_or (insert_refresh i n u (RefreshToken_hash (xe_crypto E) r) (rf_expires_at r)) e (\<lambda>_. session_answer E a r inc ur)))))"
    if "opens E Qs ?q u" "ur_id ur = u" for u w f n days f' th i e inc ur
    by (intro keeps_require keeps_change keeps_run_or conjI session_reply_Inl keeps_session_answer [OF that(1)] that(2) auth_traced_deletes)
      (auto dest: RefreshToken_generate_Some intro: auth_traced_insert_refresh that(1))
  have used: "opens E Qs ?q (rr_user_id row)"
    if "auth_traced E Qs d" "find_refresh (hash_token (xe_crypto E) t) d = Some row"
      "or_else (extract_refresh_token_from_cookies h) body = Some t" for d row t
  proof -
    have "refresh_row_traced E Qs row" "rr_token_hash row = hash_token (xe_crypto E) t"
      using that(1,2) by (auto simp: auth_traced_def find_refresh_def dest!: find_Some_in)
    then show ?thesis using that(3) opens_refresh [OF assms] by (auto simp: refresh_row_traced_def presented_refresh_def)
  qed
  have dropped: "keeps_session E Qs ?q (run_sql (change (delete_refresh th)) (\<lambda>_. k))"
    if "keeps_session E Qs ?q k" for th k
    by (intro keeps_change auth_traced_deletes that)
  have valid: "keeps_session E Qs ?q (forget_failures E ip pre
      (run_or (select (\<lambda>d. user_find_by_id u (ax_users d))) e (\<lambda>found.
       require found f (\<lambda>user. run_or (select (\<lambda>d. ws_list_by_user (us_id user) (ax_workspaces d))) e (\<lambda>ws.
         require (generate_token (xe_crypto E) (jwt_hours E) (ad_now dr) (ad_jti dr) (us_id user) (g ws)) f' (\<lambda>a.
         require (RefreshToken_generate (ad_refresh_token dr) n (us_id user) days) f'' (\<lambda>r.
         run_sql (change (delete_refresh th)) (\<lambda>_.
         run_or (insert_refresh i n (us_id user) (RefreshToken_hash (xe_crypto E) r) (rf_expires_at r)) e (\<lambda>_.
         session_answer E a r inc (user_response user))))))))))"
    if "opens E Qs ?q u" for u ip pre e f f' f'' g n days th i inc
  proof (rule keeps_failures(2), rule keeps_select_or, rule session_reply_Inl, rule keeps_require, rule session_reply_Inl)
    fix d user
    assume "auth_traced E Qs d" "user_find_by_id u (ax_users d) = Some user"
    then have "us_id user = u" using user_find_by_id_Some by blast
    then have "opens E Qs ?q (us_id user)" using that by simp
    then show "keeps_session E Qs ?q (run_or (select (\<lambda>d. ws_list_by_user (us_id user) (ax_workspaces d))) e (\<lambda>ws.
         require (generate_token (xe_crypto E) (jwt_hours E) (ad_now dr) (ad_jti dr) (us_id user) (g ws)) f' (\<lambda>a.
         require (RefreshToken_generate (ad_refresh_token dr) n (us_id user) days) f'' (\<lambda>r.
         run_sql (change (delete_refresh th)) (\<lambda>_.
         run_or (insert_refresh i n (us_id user) (RefreshToken_hash (xe_crypto E) r) (rf_expires_at r)) e (\<lambda>_.
         session_answer E a r inc (user_response user)))))))"
      by (intro keeps_select_or session_reply_Inl rotate) (simp_all add: user_response_def)
  qed
  show ?thesis unfolding refresh_token_def Let_def
  proof (intro keeps_locked keeps_require keeps_select_or session_reply_Inl, goal_cases)
    case (1 t d)
    show ?case
    proof (cases "find_refresh (hash_token (xe_crypto E) t) d")
      case (Some row)
      have opened: "opens E Qs ?q (rr_user_id row)" by (rule used [OF 1(2) Some 1(1)])
      show ?thesis unfolding Some option.case
        by (intro keeps_if dropped keeps_failures keeps_refuse session_reply_Inl valid opened)
    qed (simp add: keeps_failures keeps_refuse)
  qed
qed

text \<open>The signed-in user's requests.\<close>

lemma keeps_authenticated:
  assumes "\<And>u. keeps (auth_traced E Qs) (k u) Q" and "\<And>f d. Q (Inl f) d"
  shows "keeps (auth_traced E Qs) (authenticated E dr h k) Q"
  unfolding authenticated_def with_auth_user_def
  using assms by (auto split: sum.splits intro!: keeps_refuse keeps_require keeps_ensure keeps_select)

lemma keeps_deletions:
  "keeps_auth E Qs k \<Longrightarrow> keeps_auth E Qs (delete_workspaces E is k)"
  "keeps_auth E Qs k \<Longrightarrow> keeps_auth E Qs (leave_workspaces u is k)"
  by (induction "is") (auto intro!: keeps_change_or keeps_change)

lemma linked_traced:
  "auth_traced E Qs d \<Longrightarrow> linked_delete i u d = Some (b, d') \<Longrightarrow> auth_traced E Qs d'"
  "auth_traced E Qs d \<Longrightarrow> linked_set_primary i u d = Some (b, d') \<Longrightarrow> auth_traced E Qs d'"
  by (auto simp: linked_delete_def linked_set_primary_def Let_def)

lemma keeps_profile: "keeps_auth E Qs (update_profile E dr u name)"
  unfolding update_profile_def Let_def update_name_def
  by (intro keeps_select_or keeps_require keeps_ensure keeps_update_one keeps_answer TrueI) (simp add: user_traced_def)

lemma revoke_traced:
  "auth_traced E Qs d \<Longrightarrow> map_option (\<lambda>(u, s). (u, d\<lparr>ax_redis := s\<rparr>)) r = Some (x, d') \<Longrightarrow> auth_traced E Qs d'"
  by auto

lemma keeps_signed_in:
  "keeps_auth E Qs (get_current_user E u)" "keeps_auth E Qs (ws_token E dr u)" "keeps_auth E Qs (list_accounts E u)"
  "keeps_auth E Qs (unlink_account E u i)" "keeps_auth E Qs (set_primary E u i)" "keeps_auth E Qs (link_account E dr u ret)"
  "keeps_auth E Qs (logout E dr u)" "keeps_auth E Qs (delete_account E u)"
proof -
  show "keeps_auth E Qs (logout E dr u)" unfolding logout_def
    by (intro keeps_change keeps_run_sql keeps_answer conjI TrueI auth_traced_deletes) (auto elim: revoke_traced)
  show "keeps_auth E Qs (link_account E dr u ret)" unfolding link_account_def redirect_temporary_def
    by (intro keeps_require keeps_run_or conjI TrueI) (auto intro: redis_ops_traced keeps_answer keeps_refuse split: option.splits)
  show "keeps_auth E Qs (unlink_account E u i)" "keeps_auth E Qs (set_primary E u i)"
    unfolding unlink_account_def set_primary_def
    by (intro keeps_run_or keeps_ensure keeps_answer conjI TrueI; erule (1) linked_traced)+
  show "keeps_auth E Qs (delete_account E u)" unfolding delete_account_def
    by (intro keeps_select_or keeps_deletions keeps_change_or keeps_answer TrueI auth_traced_deletes)
  show "keeps_auth E Qs (get_current_user E u)" "keeps_auth E Qs (ws_token E dr u)" "keeps_auth E Qs (list_accounts E u)"
    unfolding get_current_user_def ws_token_def list_accounts_def Let_def by (intro keeps_rules TrueI)+
qed

definition reply_ok :: "'r auth_env \<Rightarrow> 'r auth_request set \<Rightarrow> 'r auth_request \<Rightarrow> auth_reply \<Rightarrow> bool" where
  "reply_ok E Qs q reply \<longleftrightarrow> (session_draw q \<noteq> None \<longrightarrow> (\<forall>x. reply = Ar_Http x \<longrightarrow> session_reply E Qs q x))"

lemma auth_handle_keeps:
  assumes "q \<in> Qs"
  shows "keeps (auth_traced E Qs) (auth_handle E q) (\<lambda>r d. reply_ok E Qs q r)"
proof (cases q)
  case (Aq_Redis s)
  then show ?thesis by (auto simp: keeps_map reply_ok_def intro!: keeps_change_or keeps_answer)
next
  case (Aq_Workspaces w)
  then show ?thesis by (auto simp: keeps_map reply_ok_def intro!: keeps_change_or keeps_answer)
qed (use assms in \<open>auto simp: keeps_map reply_ok_def keeps_profile keeps_signed_in keeps_github_callback keeps_google_callback
      keeps_login keeps_verify keeps_refresh keeps_register keeps_forgot keeps_resend keeps_reset
      intro!: keeps_authenticated keeps_login_pages [THEN keeps_mono]\<close>)

end
