(* ===== verification/Auth_Security.thy ===== *)
theory Auth_Security
  imports Auth_Service
begin

text \<open>
  What signing in, logging out, refreshing and resetting a password guarantee
  (\<^verbatim>\<open>crates/api/src/routes/auth.rs\<close>, \<^verbatim>\<open>github_accounts.rs\<close>, \<^verbatim>\<open>crates/api/src/extractors/auth.rs\<close>).
\<close>

section \<open>Where sessions come from\<close>

text \<open>
  C4: a session belongs to someone who proved to be its user. In a service that starts without users, links and refresh
  tokens, whatever requests interleave and whichever statements fail, a request that opens sessions and is answered
  either sets no cookie and has no body (a redirect that carries an error), or it proved to be a user's: by an account
  that GitHub or Google showed and that the user holds, by a password the user set for an address proved to be his, by a
  verification link sent to the address, or by a refresh token of an earlier such request; and the tokens answered
  are that user's.
\<close>

theorem session_provenance:
  assumes "serves (auth_handle E) start (d, ts)"
    and "ud_users (ax_users start) = []" and "ud_tokens (ax_users start) = []" and "ax_refresh start = []"
    and "answered ts q (Ar_Http (Inr reply))" and "session_draw q = Some dr"
  shows "(cookies_of reply = [] \<and> hr_body reply = None) \<or> (\<exists>u. opens E (set (requests ts)) q u \<and> issues E dr u reply)"
proof -
  let ?Qs = "set (requests ts)"
  have "auth_traced E ?Qs start" using assms(2-4) by (simp add: auth_traced_def)
  from keeps_sound(2) [OF assms(1) this auth_handle_keeps assms(5)] assms(6) show ?thesis
    by (auto simp: reply_ok_def session_reply_def)
qed

definition sample_crypto :: auth_crypto where
  "sample_crypto = \<lparr>
     cx_encode = (\<lambda>c. Some (cl_sub c)),
     cx_decode = (\<lambda>now t. if now \<le> 3760 then
        Some \<lparr>cl_sub = t, cl_exp = 3700, cl_iat = 100, cl_jti = ''5'', cl_workspace_id = None\<rparr> else None),
     cx_sha256_hex = (\<lambda>t. CHR ''h'' # t),
     cx_hash_password = (\<lambda>salt p. Some (salt @ p)), cx_verify = (\<lambda>p h. Some (h = ''s'' @ p)),
     cx_seal = (\<lambda>k n p. Some p), cx_open = (\<lambda>k n c. Some c), cx_unhex = Some, cx_utf8 = (\<lambda>_. True),
     cx_show_uuid = (\<lambda>u. if u = 1 then ''1'' else ''-''), cx_parse_uuid = (\<lambda>s. if s = ''1'' then Some 1 else None) \<rparr>"

definition sample_config :: AppConfig where
  "sample_config = \<lparr>cf_environment = Env_Development,
     cf_server = \<lparr>sc_host = [], sc_port = 0, sc_proxy_port = 0, sc_builder_port = 0, sc_frontend_url = ''f'', sc_proxy_base_domain = []\<rparr>,
     cf_database = \<lparr>dc_url = [], dc_max_connections = 1, dc_min_connections = 0, dc_acquire_timeout_secs = 1,
        dc_idle_timeout_secs = 1, dc_max_lifetime_secs = 1, dc_test_before_acquire = True\<rparr>, cf_redis_url = [],
     cf_auth = \<lparr>au_jwt_secret = [], au_jwt_expiration_hours = 1, au_refresh_token_expiration_days = 14,
        au_absolute_session_lifetime_days = 30\<rparr>,
     cf_github = \<lparr>gh_client_id = [], gh_client_secret = [], gh_redirect_uri = ''r'', gh_app_id = [], gh_app_private_key = [],
        gh_webhook_secret = []\<rparr>,
     cf_google = \<lparr>go_client_id = [], go_client_secret = [], go_redirect_uri = ''r''\<rparr>,
     cf_flyio = \<lparr>fl_api_token = [], fl_org_slug = [], fl_region = []\<rparr>\<rparr>"

definition sample_auth :: "ref_store auth_env" where
  "sample_auth = \<lparr>xe_crypto = sample_crypto, xe_key = [], xe_redis = ref_redis, xe_vars = (\<lambda>_. None), xe_config = sample_config,
     xe_codec = ref_codec, xe_lower = id, xe_url = (\<lambda>_. None), xe_byte_serialize = id, xe_urlencode = id, xe_rfc3339 = (\<lambda>_. []),
     xe_mail = True, xe_db_text = []\<rparr>"

definition sample_draw :: auth_draw where
  "sample_draw = \<lparr>ad_now = 100, ad_user_row = 1, ad_ws_row = 2, ad_refresh_row = 3, ad_mail_row = 4, ad_linked_row = 5, ad_jti = 5,
     ad_refresh_token = Some ''r'', ad_mail_token = Some ''m'', ad_state = ''c'', ad_salt = ''s'', ad_nonce = None, ad_web = (\<lambda>_. None)\<rparr>"

definition sample_start :: "ref_store auth_db" where
  "sample_start = \<lparr>ax_users = \<lparr>ud_users = [], ud_tokens = []\<rparr>, ax_workspaces = \<lparr>wd_workspaces = [], wd_members = []\<rparr>,
     ax_refresh = [], ax_linked = [], ax_redis = (True, \<lambda>_. None), ax_outbox = []\<rparr>"

definition sample_password :: string where "sample_password = ''password''"

abbreviation "sample_register \<equiv> Aq_Register sample_draw [] ''9'' ''a@b'' sample_password ''n''"
abbreviation "sample_verify \<equiv> Aq_Verify sample_draw ''m''"

lemmas sample_auth_defs = sample_crypto_def sample_config_def sample_auth_def sample_draw_def sample_password_def

definition sample_user :: "bool \<Rightarrow> UserWithToken" where
  "sample_user verified = \<lparr>us_id = 1, us_github_id = None, us_google_id = None, us_email = ''a@b'', us_name = ''n'', us_avatar_url = None,
     us_is_admin = False, us_email_verified = verified, us_auth_provider = ''email'', us_created_at = 100, us_updated_at = 100,
     us_password_hash = Some (''s'' @ sample_password), us_github_access_token_encrypted = None, us_github_access_token_nonce = None\<rparr>"

definition sample_registered :: "ref_store auth_db" where
  "sample_registered = sample_start\<lparr>ax_users := \<lparr>ud_users = [sample_user False],
     ud_tokens = [\<lparr>et_id = 4, et_user_id = 1, et_token_hash = ''hm'', et_token_type = EmailTokenType_display EmailVerification,
       et_expires_at = 100 + 24 * 3600, et_created_at = 100, et_used_at = None\<rparr>]\<rparr>,
     ax_outbox := [Verification_Mail ''a@b'' ''f/verify-email?token=m'']\<rparr>"

lemma run_sample_auth_register:
  "run (auth_handle sample_auth sample_register) [] sample_start =
     (Ar_Registered (Inr \<lparr>rg_message = REGISTERED_MESSAGE, rg_email = ''a@b''\<rparr>), sample_registered)"
proof -
  have t: "str_trim ''n'' = ''n''"
    by (simp add: str_trim_def str_trim_start.simps [of "''n''"] str_trim_end.simps [of "''n''"] ws_len_def ends_with_ws_def)
  show ?thesis
    by (simp add: register_def Let_def t unless_locked_def locked_out_def is_ip_locked_out_def api_client_ip_def env_true_def
        sample_auth_defs ref_redis_def sample_start_def user_find_by_email_def user_by_def hash_password_def at_users_def
        create_from_email_def user_insert_def has_auth_method_def user_row_def sql_insert_def mail_token_def
        email_token_create_def user_find_by_id_def as_user_def User.truncate_def hash_token_def verification_mail_def frontend_url_def
        sample_registered_def sample_user_def)
qed

definition sample_token_row :: EmailVerificationToken where
  "sample_token_row = \<lparr>et_id = 4, et_user_id = 1, et_token_hash = ''hm'', et_token_type = EmailTokenType_display EmailVerification,
     et_expires_at = 100 + 24 * 3600, et_created_at = 100, et_used_at = None\<rparr>"

definition sample_signed_in :: "ref_store auth_db" where
  "sample_signed_in = sample_registered\<lparr>ax_users := \<lparr>ud_users = [sample_user True], ud_tokens = []\<rparr>,
     ax_workspaces := \<lparr>wd_workspaces = [workspace_row 2 100 (''n'' @ [CHR 0x27] @ ''s Workspace'') ''user-1'' 1],
       wd_members = [\<lparr>wm_workspace_id = 2, wm_user_id = 1, wm_role = ''owner'', wm_created_at = 100\<rparr>]\<rparr>,
     ax_refresh := [\<lparr>rr_id = 3, rr_user_id = 1, rr_token_hash = ''hr'', rr_expires_at = 100 + 14 * 86400, rr_created_at = 100\<rparr>]\<rparr>"

definition sample_session :: "string \<Rightarrow> auth_http" where
  "sample_session t = \<lparr>hr_status = 200,
     hr_headers = add_cookie (refresh_cookie sample_auth ''r'') (add_cookie (access_cookie sample_auth t) []),
     hr_body = Some \<lparr>ar_access_token = t, ar_refresh_token = None, ar_token_type = ''Bearer'', ar_expires_in = 3600,
       ar_user = \<lparr>ur_id = 1, ur_email = ''a@b'', ur_name = ''n'', ur_avatar_url = None, ur_created_at = 100\<rparr>\<rparr>\<rparr>"

lemma run_sample_verify:
  "run (auth_handle sample_auth sample_verify) [] sample_registered = (Ar_Http (Inr (sample_session ''1'')), sample_signed_in)"
  by (simp add: verify_email_def find_valid_token_def sample_registered_def sample_signed_in_def sample_start_def sample_user_def
      sample_token_row_def sample_session_def hash_token_def at_users_def user_verify_email_def user_update_one_def user_change_def
      sql_update_def users_apart_def map_filter_def has_auth_method_def as_user_def User.truncate_def email_token_mark_as_used_def
      drop_tokens_def delete_by_type_for_user_def sql_delete_def first_workspace_def ws_list_by_user_def MAX_WORKSPACES_PER_USER_def
      ax_ws_create_def user_exists_def user_find_by_id_def user_by_def ws_create_def Let_def sql_insert_def workspace_row_def
      new_session_def generate_token_def token_claims_def RefreshToken_generate_def insert_refresh_def RefreshToken_hash_def
      session_answer_def user_response_def jwt_hours_def refresh_days_def sample_auth_defs)

lemma session_provenance_witness:
  "\<exists>u. opens sample_auth (set [sample_register, sample_verify]) sample_verify u \<and> issues sample_auth sample_draw u (sample_session ''1'')"
proof -
  let ?ts = "[(sample_register, Return (Ar_Registered (Inr \<lparr>rg_message = REGISTERED_MESSAGE, rg_email = ''a@b''\<rparr>)))]"
  have r: "serves (auth_handle sample_auth) sample_start (sample_registered, ?ts)"
    using serves_run [where handle = "auth_handle sample_auth" and q = sample_register and ts = "[]", OF serves_start run_sample_auth_register] by simp
  have s: "serves (auth_handle sample_auth) sample_start
      (sample_signed_in, ?ts @ [(sample_verify, Return (Ar_Http (Inr (sample_session ''1''))))])"
    by (rule serves_run [where handle = "auth_handle sample_auth" and q = sample_verify, OF r run_sample_verify])
  have "answered (?ts @ [(sample_verify, Return (Ar_Http (Inr (sample_session ''1''))))]) sample_verify (Ar_Http (Inr (sample_session ''1'')))"
    by (simp add: answered_def)
  from session_provenance [OF s _ _ _ this, where dr = sample_draw] show ?thesis
    by (simp add: sample_start_def requests_def sample_session_def)
qed

section \<open>Logging out\<close>

text \<open>
  C35: logging out ends the user's refresh tokens and refuses his access tokens for exactly the configured hours. An
  access token issued up to the logout is refused while the revocation entry lives; once it has lapsed, a token that
  still verifies (\<^verbatim>\<open>jsonwebtoken\<close> accepts it for some leeway after it expired) is accepted again. Both statements of the
  logout took effect, Redis is reached at both requests, and the token was not revoked by itself before.
\<close>

theorem logout_lasts:
  assumes "redis_server (xe_redis E) look elapse" and "r_up (xe_redis E) (ax_redis d)" and "0 < jwt_hours E"
    and "0 \<le> ad_now dr" and "ad_now dr < 2 ^ 63"
    and "run (logout E dr au) [] d = (r, d1)"
    and "r_up (xe_redis E) (ax_redis d2)"
    and "\<And>k. k \<in> {user_revocation_key (cx_show_uuid (xe_crypto E) (xu_user_id au)), REVOKED_TOKEN_PREFIX @ cl_jti c} \<Longrightarrow>
      look (ax_redis d2) k = look (elapse n (ax_redis d1)) k"
    and "look (ax_redis d1) (REVOKED_TOKEN_PREFIX @ cl_jti c) = None"
    and "request_token h = Inr tok" and "verify_token (xe_crypto E) (ad_now dr') tok = Some c"
    and "Claims_user_id (xe_crypto E) c = Inr (xu_user_id au)" and "cl_iat c \<le> ad_now dr"
  shows "(\<forall>row \<in> set (ax_refresh d1). rr_user_id row \<noteq> xu_user_id au) \<and>
    run (authenticated E dr' h k) [] d2 =
      (if int n < jwt_hours E * 3600 then (Inl (Reply 401 ''Token has been revoked''), d2)
       else run (k \<lparr>xu_user_id = xu_user_id au, xu_workspace_id = Claims_workspace_id (xe_crypto E) c\<rparr>) [] d2)"
proof -
  note look = redis_server.get_look [OF assms(1)] redis_server.exists_look [OF assms(1)] redis_server.look_elapse [OF assms(1)]
    redis_server.look_set_ex [OF assms(1)]
  let ?key = "user_revocation_key (cx_show_uuid (xe_crypto E) (xu_user_id au))"
  let ?T = "nat (jwt_hours E * 3600)"
  have T: "0 < ?T" using assms(3) by simp
  have d1: "d1 = (delete_refresh_of (xu_user_id au) d)\<lparr>ax_redis := r_set_ex (xe_redis E) (ax_redis d) ?key (rval_of (show_int (ad_now dr))) ?T\<rparr>"
    using assms(2,3,6) by (simp add: logout_def revoke_all_user_tokens_def delete_refresh_of_def)
  have look1: "look (ax_redis d1) ?key = Some (rval_of (show_int (ad_now dr)), Some ?T)"
    by (simp add: d1 look(4) [OF T])
  have time: "get_user_revocation_timestamp (xe_redis E) (ax_redis d2) (cx_show_uuid (xe_crypto E) (xu_user_id au)) =
      (if n < ?T then Some (ad_now dr) else None)"
    using assms(4,5,7) assms(8) [of ?key] look1 parse_show_int [of "ad_now dr"]
    by (simp add: get_user_revocation_timestamp_def look(1,3))
  have "\<not> is_token_revoked (xe_redis E) (ax_redis d2) (cl_jti c)"
    using assms(7) assms(8) [of "REVOKED_TOKEN_PREFIX @ cl_jti c"] assms(9)
    by (simp add: is_token_revoked_def look(2,3))
  then have "run (authenticated E dr' h k) [] d2 =
      (if n < ?T then (Inl (Reply 401 ''Token has been revoked''), d2)
       else run (k \<lparr>xu_user_id = xu_user_id au, xu_workspace_id = Claims_workspace_id (xe_crypto E) c\<rparr>) [] d2)"
    using assms(10-13) time by (simp add: authenticated_def with_auth_user_def)
  moreover have "n < ?T \<longleftrightarrow> int n < jwt_hours E * 3600" using assms(3) by linarith
  ultimately show ?thesis by (simp add: d1 delete_refresh_of_def)
qed

section \<open>A refresh token that is gone\<close>

definition no_refresh :: "string \<Rightarrow> 'r auth_db \<Rightarrow> bool" where
  "no_refresh th d \<longleftrightarrow> (\<forall>row \<in> set (ax_refresh d). rr_token_hash row \<noteq> th)"

abbreviation stays_gone :: "string \<Rightarrow> ('r auth_db, 'a) prog \<Rightarrow> bool" where
  "stays_gone th p \<equiv> stays (no_refresh th) p (\<lambda>_ _. True)"

lemma no_refresh_simps [simp]:
  "no_refresh th (d\<lparr>ax_users := u\<rparr>) = no_refresh th d" "no_refresh th (d\<lparr>ax_workspaces := w\<rparr>) = no_refresh th d"
  "no_refresh th (d\<lparr>ax_linked := l\<rparr>) = no_refresh th d" "no_refresh th (d\<lparr>ax_redis := s\<rparr>) = no_refresh th d"
  "no_refresh th (d\<lparr>ax_outbox := m\<rparr>) = no_refresh th d"
  by (simp_all add: no_refresh_def)

lemma no_refresh_deletes:
  "no_refresh th d \<Longrightarrow> no_refresh th (delete_refresh h d)" "no_refresh th d \<Longrightarrow> no_refresh th (delete_refresh_of u d)"
  "no_refresh th d \<Longrightarrow> no_refresh th (ax_user_delete u d)" "no_refresh th (delete_refresh th d)"
  by (auto simp: no_refresh_def delete_refresh_def delete_refresh_of_def ax_user_delete_def Let_def)

lemma no_refresh_ops:
  "no_refresh th d \<Longrightarrow> at_users f d = Some (x, d') \<Longrightarrow> no_refresh th d'"
  "no_refresh th d \<Longrightarrow> redis_set E k v t d = Some (x1, d') \<Longrightarrow> no_refresh th d'"
  "no_refresh th d \<Longrightarrow> redis_get E k d = Some (x2, d') \<Longrightarrow> no_refresh th d'"
  "no_refresh th d \<Longrightarrow> redis_del E k d = Some (x1, d') \<Longrightarrow> no_refresh th d'"
  "no_refresh th d \<Longrightarrow> at_redis g d = Some (x1, d') \<Longrightarrow> no_refresh th d'"
  "no_refresh th d \<Longrightarrow> ax_ws_create i n nm sl u d = Some (x3, d') \<Longrightarrow> no_refresh th d'"
  "no_refresh th d \<Longrightarrow> linked_update_token n i u e c s d = Some (x4, d') \<Longrightarrow> no_refresh th d'"
  "no_refresh th d \<Longrightarrow> linked_insert i n data b d = Some (x4, d') \<Longrightarrow> no_refresh th d'"
  "no_refresh th d \<Longrightarrow> linked_delete i u d = Some (x5, d') \<Longrightarrow> no_refresh th d'"
  "no_refresh th d \<Longrightarrow> linked_set_primary i u d = Some (x5, d') \<Longrightarrow> no_refresh th d'"
  "no_refresh th d \<Longrightarrow> map_option (\<lambda>(u, s). (u, d\<lparr>ax_redis := s\<rparr>)) r = Some (x6, d') \<Longrightarrow> no_refresh th d'"
  "no_refresh th d \<Longrightarrow> select g' d = Some (x7, d') \<Longrightarrow> no_refresh th d'"
  by (auto simp: at_users_Some redis_set_def redis_get_def redis_del_def at_redis_def ax_ws_create_def linked_update_token_def
      linked_insert_def linked_delete_def linked_set_primary_def Let_def split: if_splits)

lemma no_refresh_insert:
  "no_refresh th d \<Longrightarrow> insert_refresh i n u h x d = Some (y, d') \<Longrightarrow> h \<noteq> th \<Longrightarrow> no_refresh th d'"
  by (auto simp: no_refresh_def insert_refresh_def sql_insert_Some split: if_splits)

text \<open>Programs that never end \<open>no_refresh\<close>, piece by piece.\<close>

lemma stays_gone_sql: "(\<And>d x d'. no_refresh th d \<Longrightarrow> f d = Some (x, d') \<Longrightarrow> no_refresh th d') \<Longrightarrow> (\<And>x. stays_gone th (k x)) \<Longrightarrow>
    stays_gone th (run_sql f k)"
  by (rule stays_run_sql) auto

lemma stays_gone_or: "(\<And>d x d'. no_refresh th d \<Longrightarrow> f d = Some (x, d') \<Longrightarrow> no_refresh th d') \<Longrightarrow> (\<And>x. stays_gone th (k x)) \<Longrightarrow>
    stays_gone th (run_or f e k)"
  by (rule stays_run_or) auto

lemma stays_gone_plain:
  "stays_gone th (answer a)" "stays_gone th (refuse e)"
  "(\<And>v. stays_gone th (k' v)) \<Longrightarrow> stays_gone th (require x e' k')"
  "stays_gone th p \<Longrightarrow> stays_gone th (ensure b e'' p)"
  "stays_gone th p \<Longrightarrow> stays_gone th p' \<Longrightarrow> stays_gone th (if b then p else p')"
  "(\<And>d. no_refresh th d \<Longrightarrow> no_refresh th (g d)) \<Longrightarrow> (\<And>x. stays_gone th (k1 x)) \<Longrightarrow> stays_gone th (run_sql (change g) k1)"
  "(\<And>d. no_refresh th d \<Longrightarrow> no_refresh th (g d)) \<Longrightarrow> stays_gone th (k2 ()) \<Longrightarrow> stays_gone th (run_or (change g) e2 k2)"
  "(\<And>x. stays_gone th (k3 x)) \<Longrightarrow> stays_gone th (run_sql (select s) k3)"
  "(\<And>x. stays_gone th (k4 x)) \<Longrightarrow> stays_gone th (run_or (select s') e4 k4)"
  by (auto intro: stays_rules)

lemma stays_gone_cases:
  "stays_gone th p0 \<Longrightarrow> (\<And>v. stays_gone th (p1 v)) \<Longrightarrow> stays_gone th (case x of None \<Rightarrow> p0 | Some v \<Rightarrow> p1 v)"
  "(\<And>e. stays_gone th (p2 e)) \<Longrightarrow> (\<And>v. stays_gone th (p3 v)) \<Longrightarrow> stays_gone th (case y of Inl e \<Rightarrow> p2 e | Inr v \<Rightarrow> p3 v)"
  "stays_gone th p4 \<Longrightarrow> (\<And>v vs. stays_gone th (p5 v vs)) \<Longrightarrow> stays_gone th (case l of [] \<Rightarrow> p4 | v # vs \<Rightarrow> p5 v vs)"
  "(\<And>v w. stays_gone th (p6 v w)) \<Longrightarrow> stays_gone th (case z of (v, w) \<Rightarrow> p6 v w)"
  by (auto split: option.split sum.split list.split prod.split)

lemmas gone_rules = stays_gone_plain stays_gone_cases

lemma stays_gone_pieces:
  "stays_gone th k \<Longrightarrow> stays_gone th (note_failure E ip pre k)"
  "stays_gone th k \<Longrightarrow> stays_gone th (forget_failures E ip pre k)"
  "stays_gone th k \<Longrightarrow> stays_gone th (unless_locked E ip pre m k)"
  "stays_gone th k \<Longrightarrow> stays_gone th (unless_locked_for E ip pre m k)"
  "stays_gone th k \<Longrightarrow> stays_gone th (drop_tokens u kind k)"
  "stays_gone th k \<Longrightarrow> stays_gone th (mail_token E dr u kind hrs letter k)"
  "(\<And>w. stays_gone th (k1 w)) \<Longrightarrow> stays_gone th (first_workspace E dr u nm k1)"
  "(\<And>v. stays_gone th (k2 v)) \<Longrightarrow> stays_gone th (check_state E ip st k2)"
  "(\<And>t gu. stays_gone th (k3 t gu)) \<Longrightarrow> stays_gone th (github_identity E dr code m k3)"
  "(\<And>gu e. stays_gone th (k4 gu e)) \<Longrightarrow> stays_gone th (google_identity E dr code k4)"
  "(\<And>u. stays_gone th (k5 u)) \<Longrightarrow> stays_gone th (upsert_from_google e i n sub em nm' av k5)"
  "(\<And>u. stays_gone th (k6 u)) \<Longrightarrow> stays_gone th (authenticated E dr h k6)"
  "stays_gone th (redirect_temporary uri)" "stays_gone th (session_answer E a r inc ur)" "stays_gone th (callback_answer E p ret a r)"
  unfolding note_failure_def forget_failures_def unless_locked_def unless_locked_for_def drop_tokens_def mail_token_def
    first_workspace_def check_state_def github_identity_def google_identity_def upsert_from_google_def authenticated_def
    with_auth_user_def redirect_temporary_def session_answer_def callback_answer_def
  by (intro gone_rules stays_gone_sql stays_gone_or; (assumption | erule (1) no_refresh_ops | simp)?)+

definition draws :: "'r auth_env \<Rightarrow> 'r auth_request \<Rightarrow> string \<Rightarrow> bool" where
  "draws E q th \<longleftrightarrow> (\<exists>dr t. session_draw q = Some dr \<and> ad_refresh_token dr = Some t \<and> hash_token (xe_crypto E) t = th)"

lemma stays_gone_insert:
  assumes "\<And>t. ad_refresh_token dr = Some t \<Longrightarrow> hash_token (xe_crypto E) t \<noteq> th" and "\<And>x. stays_gone th (k x)"
    and "RefreshToken_generate (ad_refresh_token dr) n u m = Some r"
  shows "stays_gone th (run_or (insert_refresh i n' u' (RefreshToken_hash (xe_crypto E) r) x') e k)"
proof -
  have "RefreshToken_hash (xe_crypto E) r \<noteq> th"
    using assms(1) RefreshToken_generate_Some [OF assms(3)] by (auto simp: RefreshToken_hash_def hash_token_def)
  then show ?thesis by (intro stays_gone_or assms(2)) (auto elim: no_refresh_insert)
qed

lemma stays_gone_required: "(\<And>v. x = Some v \<Longrightarrow> stays_gone th (k v)) \<Longrightarrow> stays_gone th (require x e k)"
  by (rule stays_require) auto

lemma stays_gone_new_session:
  assumes "\<And>t. ad_refresh_token dr = Some t \<Longrightarrow> hash_token (xe_crypto E) t \<noteq> th" and "\<And>a r. stays_gone th (k a r)"
  shows "stays_gone th (new_session E dr u w e k)"
  unfolding new_session_def by (intro stays_gone_required stays_gone_insert [OF assms(1)] assms(2))

lemma stays_gone_unused:
  "stays_gone th (github_login E dr ret)" "stays_gone th (google_login E dr ret)"
  "stays_gone th (handle_github_link_callback E dr code v)" "stays_gone th (register E dr h peer em pw nm)"
  "stays_gone th (forgot_password E dr h peer em)" "stays_gone th (resend_verification E dr h peer em)"
  "stays_gone th (reset_password E dr t pw)" "stays_gone th (get_current_user E u)" "stays_gone th (update_profile E dr u name)"
  "stays_gone th (ws_token E dr u)" "stays_gone th (list_accounts E u)" "stays_gone th (unlink_account E u i)"
  "stays_gone th (set_primary E u i)" "stays_gone th (link_account E dr u ret)" "stays_gone th (logout E dr u)"
  unfolding github_login_def google_login_def start_oauth_def handle_github_link_callback_def linked_create_def register_def
    forgot_password_def resend_verification_def reset_password_def get_current_user_def update_profile_def ws_token_def
    list_accounts_def unlink_account_def set_primary_def link_account_def logout_def Let_def
  by (intro gone_rules stays_gone_pieces stays_gone_sql stays_gone_or; (assumption | erule (1) no_refresh_ops | erule no_refresh_deletes(1-3) | simp)?)+

lemma stays_gone_workspaces:
  "stays_gone th k \<Longrightarrow> stays_gone th (delete_workspaces E is k)" "stays_gone th k \<Longrightarrow> stays_gone th (leave_workspaces v js k)"
proof -
  show "stays_gone th k \<Longrightarrow> stays_gone th (delete_workspaces E is k)"
    by (induction "is") (auto intro: gone_rules)
  show "stays_gone th k \<Longrightarrow> stays_gone th (leave_workspaces v js k)"
    by (induction js) (auto intro: gone_rules)
qed

lemma stays_gone_delete_account: "stays_gone th (delete_account E u)"
  unfolding delete_account_def Let_def
  by (intro gone_rules stays_gone_pieces stays_gone_sql stays_gone_or stays_gone_workspaces;
      (assumption | erule (1) no_refresh_ops | erule no_refresh_deletes(1-3) | simp)?)+

lemma stays_gone_sessions:
  assumes "\<And>t. ad_refresh_token dr = Some t \<Longrightarrow> hash_token (xe_crypto E) t \<noteq> th"
  shows "stays_gone th (github_callback E dr h peer code st)" "stays_gone th (google_callback E dr h peer co st er)"
    "stays_gone th (login E dr h peer em pw)" "stays_gone th (verify_email E dr t)" "stays_gone th (refresh_token E dr h peer b)"
proof -
  note new = stays_gone_new_session [OF assms] stays_gone_insert [OF assms]
  show "stays_gone th (github_callback E dr h peer code st)" "stays_gone th (google_callback E dr h peer co st er)"
    "stays_gone th (login E dr h peer em pw)" "stays_gone th (verify_email E dr t)"
    unfolding github_callback_def google_callback_def login_def verify_email_def Let_def
    by (intro gone_rules stays_gone_pieces stays_gone_or new stays_gone_unused;
        (assumption | erule (1) no_refresh_ops | simp)?)+
  show "stays_gone th (refresh_token E dr h peer b)"
    unfolding refresh_token_def Let_def
    by (intro stays_gone_required gone_rules stays_gone_pieces no_refresh_deletes new; assumption?)
qed

lemma auth_handle_stays_gone: "\<not> draws E q th \<Longrightarrow> stays_gone th (auth_handle E q)"
  by (cases q) (auto simp: draws_def stays_map intro: stays_gone_sessions stays_gone_unused stays_gone_delete_account stays_gone_pieces gone_rules)


lemma keeps_refused_refresh:
  assumes "presented_refresh h body = Some t" and "hash_token (xe_crypto E) t = th"
  shows "keeps (no_refresh th) (refresh_token E dr h peer body) (\<lambda>r _. \<exists>e. r = Inl e)"
proof -
  let ?th = "hash_token (xe_crypto E) t"
  let ?I = "no_refresh ?th :: 'a auth_db \<Rightarrow> bool" and ?Q = "\<lambda>r (_ :: 'a auth_db). \<exists>e. r = (Inl e :: string failure + auth_http)"
  have absent: "keeps ?I (case found of None \<Rightarrow> note_failure E ip pre (refuse f) | Some row \<Rightarrow> k row) ?Q"
    if "found = None" for found ip pre f k
    using that unfolding note_failure_def
    by (auto intro!: keeps_run_sql keeps_refuse elim: no_refresh_ops)
  have found: "find_refresh ?th d = None" if "?I d" for d
    using that by (auto simp: no_refresh_def find_refresh_def find_None_iff)
  show ?thesis unfolding assms(2) [symmetric] refresh_token_def Let_def unless_locked_for_def
      assms(1) [unfolded presented_refresh_def] require_def option.case
    by (intro keeps_select keeps_if keeps_refuse keeps_select_or absent found; (assumption | simp)?)
qed

text \<open>Programs that end in \<open>I\<close> when they answer and no statement fails.\<close>

definition ends :: "('d \<Rightarrow> bool) \<Rightarrow> ('d, 'e, 'a) handler \<Rightarrow> bool" where
  "ends I p \<longleftrightarrow> (\<forall>d a d'. run p [] d = (Inr a, d') \<longrightarrow> I d')"

lemma ends_rules:
  "ends I (refuse e)" "(\<And>v. x = Some v \<Longrightarrow> ends I (k v)) \<Longrightarrow> ends I (require x e k)"
  "(\<And>y. ends I (k' y)) \<Longrightarrow> ends I (run_sql f k')" "(\<And>y. ends I (k'' y)) \<Longrightarrow> ends I (run_or f' e k'')"
  "ends I p \<Longrightarrow> ends I p' \<Longrightarrow> ends I (if b then p else p')"
  "ends I p0 \<Longrightarrow> (\<And>v. ends I (p1 v)) \<Longrightarrow> ends I (case o' of None \<Rightarrow> p0 | Some v \<Rightarrow> p1 v)"
  unfolding ends_def by (auto split: option.splits)

lemma require_some: "require (Some v) e k = k v"
  by (simp add: require_def)

lemma refresh_spends:
  assumes "run (refresh_token E dr h peer body) [] d = (Inr reply, d1)" and "presented_refresh h body = Some t"
    and "ad_refresh_token dr = Some n" and "hash_token (xe_crypto E) n \<noteq> hash_token (xe_crypto E) t"
  shows "no_refresh (hash_token (xe_crypto E) t) d1"
proof -
  let ?th = "hash_token (xe_crypto E) t"
  have swap: "ends (no_refresh ?th) (run_sql (change (delete_refresh ?th)) (\<lambda>_.
      run_or (insert_refresh i m u (RefreshToken_hash (xe_crypto E) r) x) e (\<lambda>_. session_answer E a r inc ur)))"
    if "RefreshToken_generate (ad_refresh_token dr) m' u' days = Some r" for i m u r x e a inc ur m' u' days
  proof -
    have "RefreshToken_hash (xe_crypto E) r \<noteq> ?th"
      using RefreshToken_generate_Some [OF that] assms(3,4) by (auto simp: RefreshToken_hash_def hash_token_def)
    moreover have "d' = d''" if "run (session_answer E a r inc ur) [] d'' = (Inr reply', d')" for d' d'' reply'
      using that by (auto simp: session_answer_def split: if_splits)
    ultimately show ?thesis
      using no_refresh_insert [OF no_refresh_deletes(4)] unfolding ends_def by (auto split: option.splits) blast+
  qed
  have "ends (no_refresh ?th) (refresh_token E dr h peer body)"
    unfolding refresh_token_def Let_def unless_locked_for_def assms(2) [unfolded presented_refresh_def] require_some
      note_failure_def forget_failures_def
    by (intro swap ends_rules)
  then show ?thesis using assms(1) by (simp add: ends_def)
qed

text \<open>
  C18: a refresh token is used once. After a refresh that answered and whose statements took effect, no later request,
  whatever interleaves with it and whichever statements fail, gets new tokens by presenting the old one, as long as no
  later request draws a token with the same hash.
\<close>

theorem refresh_rotation:
  assumes "run (refresh_token E dr h peer body) [] d = (Inr reply, d1)" and "presented_refresh h body = Some t"
    and "ad_refresh_token dr = Some n" and "hash_token (xe_crypto E) n \<noteq> hash_token (xe_crypto E) t"
    and "serves (auth_handle E) d1 (d2, ts)" and "\<And>q. q \<in> set (requests ts) \<Longrightarrow> \<not> draws E q (hash_token (xe_crypto E) t)"
    and "answered ts (Aq_Refresh dr' h' peer' body') (Ar_Http r)"
    and "presented_refresh h' body' = Some s" and "hash_token (xe_crypto E) s = hash_token (xe_crypto E) t"
  shows "\<exists>e. r = Inl e"
proof -
  let ?th = "hash_token (xe_crypto E) t"
  let ?Q = "\<lambda>q r (_ :: 'a auth_db). (\<forall>dr h peer body s. q = Aq_Refresh dr h peer body \<longrightarrow> presented_refresh h body = Some s \<longrightarrow>
    hash_token (xe_crypto E) s = ?th \<longrightarrow> (\<exists>e. r = Ar_Http (Inl e)))"
  have spent: "no_refresh ?th d1" by (rule refresh_spends [OF assms(1-4)])
  have "keeps (no_refresh ?th) (auth_handle E q) (?Q q)" if "q \<in> set (requests ts)" for q
  proof (cases "\<exists>dr h peer body s. q = Aq_Refresh dr h peer body \<and> presented_refresh h body = Some s \<and> hash_token (xe_crypto E) s = ?th")
    case True
    then obtain dr h peer body s where q: "q = Aq_Refresh dr h peer body" "presented_refresh h body = Some s"
      "hash_token (xe_crypto E) s = ?th" by blast
    show ?thesis unfolding q(1) auth_handle.simps keeps_map
      by (rule keeps_mono [OF keeps_refused_refresh [OF q(2,3)]]) auto
  next
    case False
    have "keeps (no_refresh ?th) (auth_handle E q) (\<lambda>_ _. True)"
      using auth_handle_stays_gone [OF assms(6) [OF that]] by (simp add: stays_def keeps_def)
    then show ?thesis by (rule keeps_mono) (use False in blast)
  qed
  from keeps_sound(2) [OF assms(5) spent this assms(7)] assms(8,9) show ?thesis by auto
qed

section \<open>Password reset\<close>

lemma find_valid_in: "find_valid_token n h d = Some t \<Longrightarrow> t \<in> set (ud_tokens d) \<and> et_token_hash t = h"
  by (auto simp: find_valid_token_def dest!: find_Some_in)

text \<open>
  C36: resetting a password. A reset that answers presented an unexpired, unused reset link and a password of 8 to 128
  bytes; the hash of that password becomes the hash of the link's user and of nobody else, the user's refresh tokens
  are gone, and the same link is refused from then on. Nothing is written to Redis: access tokens issued before keep
  working.
\<close>

theorem password_reset:
  assumes "run (reset_password E dr t password) [] d = (Inr message, d1)"
    and "distinct (map et_token_hash (ud_tokens (ax_users d)))"
  shows "\<exists>link ph. find_valid_token (ad_now dr) (hash_token (xe_crypto E) t) (ax_users d) = Some link \<and>
      et_token_type link = EmailTokenType_display PasswordReset \<and> 8 \<le> length password \<and> length password \<le> 128 \<and>
      hash_password (xe_crypto E) (ad_salt dr) password = Inr ph \<and>
      ud_users (ax_users d1) = map (\<lambda>u. if us_id u = et_user_id link
          then u\<lparr>us_password_hash := Some ph, us_updated_at := ad_now dr\<rparr> else u) (ud_users (ax_users d)) \<and>
      ax_refresh d1 = filter (\<lambda>r. rr_user_id r \<noteq> et_user_id link) (ax_refresh d) \<and> ax_redis d1 = ax_redis d \<and>
      run (reset_password E dr' t password) [] d1 = (Inl (Reply 400 ''Invalid or expired reset link''), d1)"
proof -
  let ?th = "hash_token (xe_crypto E) t"
  have len: "8 \<le> length password" "length password \<le> 128" using assms(1) by (auto simp: reset_password_def split: if_splits)
  obtain link where link: "find_valid_token (ad_now dr) ?th (ax_users d) = Some link"
    "et_token_type link = EmailTokenType_display PasswordReset"
    using assms(1) len by (auto simp: reset_password_def split: option.splits if_splits)
  obtain ph where ph: "hash_password (xe_crypto E) (ad_salt dr) password = Inr ph"
    using assms(1) len link by (cases "hash_password (xe_crypto E) (ad_salt dr) password") (simp_all add: reset_password_def)
  obtain x u where up: "update_password (ad_now dr) (et_user_id link) ph (ax_users d) = Some (x, u)"
    using assms(1) len link ph by (auto simp: reset_password_def at_users_def split: option.splits)
  have d1: "d1 = delete_refresh_of (et_user_id link)
      (d\<lparr>ax_users := delete_by_type_for_user (et_user_id link) PasswordReset (email_token_mark_as_used (ad_now dr) (et_id link) u)\<rparr>)"
    using assms(1) len link ph up
    by (simp add: reset_password_def at_users_def drop_tokens_def)
  have u: "u = ax_users d\<lparr>ud_users := map (\<lambda>u. if us_id u = et_user_id link
          then u\<lparr>us_password_hash := Some ph, us_updated_at := ad_now dr\<rparr> else u) (ud_users (ax_users d))\<rparr>"
    using up by (auto simp: update_password_def user_change_def sql_update_def Let_def split: if_splits)
  have gone: "find_valid_token n ?th (ax_users d1) = None" for n
  proof -
    have "et_user_id y = et_user_id link \<and> et_token_type y = EmailTokenType_display PasswordReset"
      if "y \<in> set (ud_tokens (ax_users d))" "et_token_hash y = ?th" for y
      using that find_valid_in [OF link(1)] link(2) assms(2) by (metis distinct_map inj_onD)
    then show ?thesis
      by (auto simp: d1 u delete_refresh_of_def find_valid_token_def find_None_iff delete_by_type_for_user_def
          email_token_mark_as_used_def sql_update_def)
  qed
  have "run (reset_password E dr' t password) [] d1 = (Inl (Reply 400 ''Invalid or expired reset link''), d1)"
    using len by (simp add: reset_password_def gone)
  then show ?thesis using link len ph
    by (intro exI [of _ link] exI [of _ ph])
      (simp add: d1 u delete_refresh_of_def delete_by_type_for_user_def email_token_mark_as_used_def sql_delete_def)
qed


definition sample_draw2 :: auth_draw where
  "sample_draw2 = sample_draw\<lparr>ad_refresh_token := Some ''q'', ad_refresh_row := 6\<rparr>"

abbreviation "sample_refresh dr \<equiv> refresh_token sample_auth dr [] ''9'' (Some ''r'')"

lemma no_cookie: "extract_refresh_token_from_cookies [] = None"
  by (simp add: extract_refresh_token_from_cookies_def hdr_str_def hdr_get_def)

lemma run_sample_refresh:
  "\<exists>reply. fst (run (sample_refresh sample_draw2) [] sample_signed_in) = Inr reply"
  by (simp add: refresh_token_def Let_def unless_locked_for_def locked_out_def is_ip_locked_out_def api_client_ip_def env_true_def
      no_cookie user_exists_def find_refresh_def forget_failures_def clear_failed_attempts_def at_redis_def ref_redis_def
      user_find_by_id_def user_by_def as_user_def User.truncate_def ws_list_by_user_def workspace_row_def delete_refresh_def sql_delete_def
      generate_token_def token_claims_def RefreshToken_generate_def insert_refresh_def sql_insert_def RefreshToken_hash_def hash_token_def
      session_answer_def user_response_def jwt_hours_def refresh_days_def sample_draw2_def sample_auth_defs
      sample_signed_in_def sample_registered_def sample_start_def sample_user_def)

lemma refresh_rotation_witness:
  "\<exists>reply e. fst (run (sample_refresh sample_draw2) [] sample_signed_in) = Inr reply \<and>
     fst (run (sample_refresh sample_draw2) [] (snd (run (sample_refresh sample_draw2) [] sample_signed_in))) = Inl e"
proof -
  let ?q = "Aq_Refresh sample_draw2 [] ''9'' (Some ''r'')"
  obtain reply d1 where d1: "run (sample_refresh sample_draw2) [] sample_signed_in = (Inr reply, d1)"
    using run_sample_refresh by (metis prod.collapse)
  obtain r d2 where r: "run (sample_refresh sample_draw2) [] d1 = (r, d2)" by fastforce
  have s: "serves (auth_handle sample_auth) d1 (d2, [] @ [(?q, Return (Ar_Http r))])"
    by (rule serves_run [where handle = "auth_handle sample_auth" and ts = "[]" and fs = "[]", OF serves_start]) (simp add: r)
  have "\<exists>e. r = Inl e"
    by (rule refresh_rotation [OF d1 _ _ _ s, where t = "''r''" and s = "''r''" and n = "''q''"])
      (auto simp: presented_refresh_def no_cookie sample_draw2_def sample_auth_defs hash_token_def
        requests_def answered_def draws_def)
  then show ?thesis by (simp add: d1 r)
qed

lemma logout_lasts_witness:
  "let d1 = snd (run (logout sample_auth sample_draw \<lparr>xu_user_id = 1, xu_workspace_id = None\<rparr>) [] sample_signed_in);
       h = [(''authorization'', ''Bearer 1'')];
       later = \<lambda>n. d1\<lparr>ax_redis := ref_elapse n (ax_redis d1)\<rparr>
   in ax_refresh d1 = [] \<and>
      fst (run (authenticated sample_auth sample_draw h (get_current_user sample_auth)) [] (later 3599)) = Inl (Reply 401 ''Token has been revoked'') \<and>
      fst (run (authenticated sample_auth sample_draw h (get_current_user sample_auth)) [] (later 3600)) \<noteq> Inl (Reply 401 ''Token has been revoked'')"
proof -
  let ?au = "\<lparr>xu_user_id = 1, xu_workspace_id = None\<rparr>"
  let ?h = "[(''authorization'', ''Bearer 1'')]"
  let ?c = "\<lparr>cl_sub = ''1'', cl_exp = 3700, cl_iat = 100, cl_jti = ''5'', cl_workspace_id = None\<rparr>"
  obtain r d1 where r: "run (logout sample_auth sample_draw ?au) [] sample_signed_in = (r, d1)" by fastforce
  let ?later = "\<lambda>n. d1\<lparr>ax_redis := ref_elapse n (ax_redis d1)\<rparr>"
  have R: "redis_server (xe_redis sample_auth) snd ref_elapse"
    using ref_store.redis_server_axioms by (simp add: sample_auth_def)
  have "r_up (xe_redis sample_auth) (ax_redis sample_signed_in)" and hours: "jwt_hours sample_auth = 1"
    by (simp_all add: sample_auth_defs ref_redis_def sample_signed_in_def sample_registered_def sample_start_def jwt_hours_def)
  then have eq: "d1 = (delete_refresh_of 1 sample_signed_in)\<lparr>ax_redis := r_set_ex (xe_redis sample_auth) (ax_redis sample_signed_in)
      (user_revocation_key (cx_show_uuid (xe_crypto sample_auth) 1)) (rval_of (show_int (ad_now sample_draw))) 3600\<rparr>"
    using r by (simp add: logout_def revoke_all_user_tokens_def delete_refresh_of_def)
  have d1: "ax_users d1 = ax_users sample_signed_in" "fst (ax_redis d1)" "ax_refresh d1 = []"
     "snd (ax_redis d1) (REVOKED_TOKEN_PREFIX @ ''5'') = None"
    by (simp_all add: eq delete_refresh_of_def sql_delete_def sample_auth_defs ref_redis_def sample_signed_in_def sample_registered_def
        sample_start_def user_revocation_key_def REVOKED_TOKEN_PREFIX_def)
  have later: "(\<forall>row \<in> set (ax_refresh d1). rr_user_id row \<noteq> xu_user_id ?au) \<and> run (authenticated sample_auth sample_draw ?h k) [] (?later n) =
      (if int n < jwt_hours sample_auth * 3600 then (Inl (Reply 401 ''Token has been revoked''), ?later n)
       else run (k \<lparr>xu_user_id = xu_user_id ?au, xu_workspace_id = Claims_workspace_id (xe_crypto sample_auth) ?c\<rparr>) [] (?later n))" for n k
    by (rule logout_lasts [OF R _ _ _ _ r, where tok = "''1''"])
      (use d1 in \<open>simp_all add: sample_auth_defs jwt_hours_def ref_redis_def ref_elapse_def request_token_def hdr_str_def hdr_get_def hdr_to_str_def visible_ascii_def
        verify_token_def Claims_user_id_def sample_signed_in_def sample_registered_def sample_start_def str_strip_prefix_def\<close>)
  have ws: "Claims_workspace_id (xe_crypto sample_auth) ?c = None" by (simp add: Claims_workspace_id_def)
  have "fst (run (get_current_user sample_auth \<lparr>xu_user_id = 1, xu_workspace_id = None\<rparr>) [] (?later 3600)) \<noteq> Inl (Reply 401 ''Token has been revoked'')"
    using d1(1) by (simp add: get_current_user_def sample_signed_in_def sample_user_def user_find_by_id_def user_by_def)
  then show ?thesis using later [of "get_current_user sample_auth" 3599] later [of "get_current_user sample_auth" 3600] r d1(3)
    by (simp add: Let_def hours ws)
qed

definition sample_forgotten :: "ref_store auth_db" where
  "sample_forgotten = sample_signed_in\<lparr>ax_users := \<lparr>ud_users = [sample_user True], ud_tokens = [\<lparr>et_id = 4, et_user_id = 1,
     et_token_hash = ''hm'', et_token_type = EmailTokenType_display PasswordReset, et_expires_at = 3700, et_created_at = 100,
     et_used_at = None\<rparr>]\<rparr>\<rparr>"

lemma run_sample_reset:
  "fst (run (reset_password sample_auth sample_draw ''m'' ''new-password'') [] sample_forgotten) =
     Inr ''Password reset successfully. Please log in with your new password.''"
  by (simp add: reset_password_def sample_forgotten_def find_valid_token_def sample_auth_defs hash_token_def hash_password_def at_users_def
      update_password_def user_change_def sql_update_def Let_def users_apart_def map_filter_def has_auth_method_def sample_user_def drop_tokens_def)

lemma password_reset_witness:
  "\<exists>u. ud_users (ax_users (snd (run (reset_password sample_auth sample_draw ''m'' ''new-password'') [] sample_forgotten))) = [u] \<and>
     us_password_hash u = Some ''snew-password''"
  using password_reset [of sample_auth sample_draw "''m''" "''new-password''" sample_forgotten]
    run_sample_reset
  by (cases "run (reset_password sample_auth sample_draw ''m'' ''new-password'') [] sample_forgotten")
    (auto simp: sample_forgotten_def find_valid_token_def sample_auth_defs hash_token_def hash_password_def sample_user_def)

end
