(* ===== verification/Build_Input.thy ===== *)
theory Build_Input
  imports Fly_Deploy
begin

text \<open>
  What a build is made of (\<^verbatim>\<open>crates/builder/src/main.rs\<close>): the checks of repository and branch names and the command that
  clones, the unpacking of GitHub's archive, and the choice of the directory that is built. A task on the file system is the
  list of what it did and its result.
\<close>

section \<open>Cloning\<close>

definition branch_forbidden :: "(char \<times> string) list" where
  "branch_forbidden =
     [(CHR '' '', '' ''), (CHR 0x09, [CHR 0x5C, CHR ''t'']), (newline, [CHR 0x5C, CHR ''n'']), (CHR 0x0D, [CHR 0x5C, CHR ''r'']),
      (CHR 0x00, [CHR 0x5C, CHR ''0'']), (CHR ''~'', ''~''), (CHR ''^'', ''^''), (CHR '':'', '':''), (CHR ''?'', ''?''),
      (CHR ''*'', ''*''), (CHR ''['', ''[''), (backslash, [CHR 0x5C, CHR 0x5C])]"

definition validate_branch_name :: "string \<Rightarrow> anyhow + unit" where
  "validate_branch_name branch =
     (if branch = [] then Inl [''Branch name cannot be empty'']
      else if 255 < length branch then Inl [''Branch name exceeds maximum length of 255 characters'']
      else if str_starts_with branch ''-'' then Inl [''Branch name cannot start with a dash'']
      else
        (case find (\<lambda>c. map_of branch_forbidden c \<noteq> None) branch of
           Some c \<Rightarrow> Inl [''Branch name contains invalid character: '' @ [quote1] @ the (map_of branch_forbidden c) @ [quote1]]
         | None \<Rightarrow>
             if str_contains branch ''..'' then Inl [''Branch name cannot contain '' @ [quote1] @ ''..'' @ [quote1]]
             else if str_ends_with branch ''.lock'' then Inl [''Branch name cannot end with '' @ [quote1] @ ''.lock'' @ [quote1]]
             else if str_trim branch = [] then Inl [''Branch name cannot be empty or whitespace only'']
             else Inr ()))"

definition validate_github_repo :: "string \<Rightarrow> anyhow + unit" where
  "validate_github_repo repo =
     (if repo = [] then Inl [''Repository name cannot be empty'']
      else
        (case str_split (CHR ''/'') repo of
           [owner, repo_name] \<Rightarrow>
             (if owner = [] \<or> 39 < length owner then Inl [''Invalid repository owner'']
              else if \<not> is_alphanumeric (hd owner) then Inl [''Repository owner must start with alphanumeric character'']
              else if \<not> list_all (\<lambda>c. is_alphanumeric c \<or> c = CHR ''-'') owner then Inl [''Repository owner contains invalid characters'']
              else if repo_name = [] \<or> 100 < length repo_name then Inl [''Invalid repository name length'']
              else if \<not> list_all (\<lambda>c. is_alphanumeric c \<or> c \<in> set ''-_.'') repo_name then Inl [''Repository name contains invalid characters'']
              else Inr ())
         | _ \<Rightarrow> Inl [''Repository must be in '' @ [quote1] @ ''owner/repo'' @ [quote1] @ '' format'']))"

datatype git_outcome = Git_Not_Run string | Git_Ran bool string string

definition clone_command :: "string \<Rightarrow> string \<Rightarrow> string \<Rightarrow> string list" where
  "clone_command github_repo branch dest =
     [''git'', ''clone'', ''--depth'', ''1'', ''--branch'', branch, ''https://github.com/'' @ github_repo @ ''.git'', dest]"

text \<open>The commands that were run, and the result.\<close>

definition clone_repo ::
  "(string list \<Rightarrow> git_outcome) \<Rightarrow> string \<Rightarrow> string \<Rightarrow> string \<Rightarrow> string list list \<times> (anyhow + unit)" where
  "clone_repo git github_repo branch dest =
     (case validate_github_repo github_repo of
        Inl e \<Rightarrow> ([], Inl e)
      | Inr _ \<Rightarrow>
          (case validate_branch_name branch of
             Inl e \<Rightarrow> ([], Inl e)
           | Inr _ \<Rightarrow>
               ([clone_command github_repo branch dest],
                case git (clone_command github_repo branch dest) of
                  Git_Not_Run e \<Rightarrow> Inl [e]
                | Git_Ran True out err \<Rightarrow> Inr ()
                | Git_Ran False out err \<Rightarrow>
                    Inl [''Git clone failed: '' @
                      str_trim (out @ (if err \<noteq> [] \<and> out \<noteq> [] then [newline] else []) @ err)])))"


section \<open>Unpacking an archive\<close>

text \<open>
  A hard link names its target; \<^verbatim>\<open>Entry::unpack\<close> links to it as it is written in the archive, to any file of the host.
\<close>

datatype entry_kind = Symlink_Entry | Directory_Entry | Hard_Link_Entry string | Other_Entry

record tar_entry =
  te_path :: "string + string"
  te_kind :: entry_kind

datatype fs_action = Make_Dirs string | Unpack string | Hard_Link string string

text \<open>\<^verbatim>\<open>Path::components\<close>: only a leading \<^verbatim>\<open>.\<close> is kept.\<close>

datatype path_part = Root_Dir | Cur_Dir | Parent_Dir | Normal string

definition path_parts :: "string \<Rightarrow> path_part list" where
  "path_parts p =
     (if str_starts_with p ''/'' then [Root_Dir] else if hd (str_split (CHR ''/'') p) = ''.'' then [Cur_Dir] else []) @
     map (\<lambda>x. if x = ''..'' then Parent_Dir else Normal x) (components p)"

fun part_name :: "path_part \<Rightarrow> string" where
  "part_name Root_Dir = ''/''"
| "part_name Cur_Dir = ''.''"
| "part_name Parent_Dir = ''..''"
| "part_name (Normal x) = x"

definition path_parent :: "string \<Rightarrow> string" where
  "path_parent p = (case str_rfind (CHR ''/'') p of None \<Rightarrow> [] | Some i \<Rightarrow> take i p)"

definition entry_target :: "string \<Rightarrow> string \<Rightarrow> string option" where
  "entry_target dest path =
     (let parts = path_parts path
      in if Parent_Dir \<in> set parts \<or> Root_Dir \<in> set parts then None
         else if 1 < length parts
         then (let dest_path = path_join dest (str_join ''/'' (map part_name (tl parts)))
               in if path_starts_with dest_path dest then Some dest_path else None)
         else None)"

definition entry_actions :: "string \<Rightarrow> entry_kind \<Rightarrow> string \<Rightarrow> fs_action list" where
  "entry_actions dest kind path =
     (case entry_target dest path of
        None \<Rightarrow> []
      | Some p \<Rightarrow>
          (case kind of
             Directory_Entry \<Rightarrow> [Make_Dirs p]
           | Hard_Link_Entry target \<Rightarrow> [Make_Dirs (path_parent p), Hard_Link target p]
           | _ \<Rightarrow> [Make_Dirs (path_parent p), Unpack p]))"

text \<open>\<open>fails\<close> is the error of an action, when it has one.\<close>

fun perform :: "(fs_action \<Rightarrow> string option) \<Rightarrow> fs_action list \<Rightarrow> fs_action list \<times> (anyhow + unit)" where
  "perform fails [] = ([], Inr ())"
| "perform fails (a # as) =
     (case fails a of Some e \<Rightarrow> ([a], Inl [e]) | None \<Rightarrow> (let (acts, r) = perform fails as in (a # acts, r)))"

fun extract_entries ::
  "(fs_action \<Rightarrow> string option) \<Rightarrow> string \<Rightarrow> (string + tar_entry) list \<Rightarrow> fs_action list \<times> (anyhow + unit)" where
  "extract_entries fails dest [] = ([], Inr ())"
| "extract_entries fails dest (Inl e # rest) = ([], Inl [e])"
| "extract_entries fails dest (Inr entry # rest) =
     (case te_path entry of
        Inl e \<Rightarrow> ([], Inl [e])
      | Inr path \<Rightarrow>
          if te_kind entry = Symlink_Entry then extract_entries fails dest rest
          else
            (case perform fails (entry_actions dest (te_kind entry) path) of
               (acts, Inl e) \<Rightarrow> (acts, Inl e)
             | (acts, Inr _) \<Rightarrow> (let (more, r) = extract_entries fails dest rest in (acts @ more, r))))"

definition extract_tarball ::
  "(fs_action \<Rightarrow> string option) \<Rightarrow> (string + (string + tar_entry) list) \<Rightarrow> string \<Rightarrow> fs_action list \<times> (anyhow + unit)" where
  "extract_tarball fails archive dest =
     (case archive of Inl e \<Rightarrow> ([], Inl [e]) | Inr entries \<Rightarrow> extract_entries fails dest entries)"


section \<open>The directory that is built\<close>

definition whole_repository :: "string \<Rightarrow> bool" where
  "whole_repository root \<longleftrightarrow> root = [] \<or> root = ''.'' \<or> root = ''/''"

text \<open>The directory, or the message of the failure; \<open>io_error\<close> is the error of a path that has no canonical form.\<close>

definition source_directory :: "files \<Rightarrow> (string \<Rightarrow> string) \<Rightarrow> string \<Rightarrow> string \<Rightarrow> string + string" where
  "source_directory F io_error source_dir root =
     (if whole_repository root then Inr source_dir
      else if str_contains root ''..'' then
        Inl (''Root directory cannot contain '' @ [quote1] @ ''..'' @ [quote1] @ '' (path traversal not allowed)'')
      else
        (let clean = trim_start_matches (CHR ''/'') root; subdir = path_join source_dir clean
         in if str_starts_with clean ''/'' \<or> CHR 0x00 \<in> set clean then Inl ''Invalid root directory path''
            else if \<not> fs_exists F subdir then
              Inl (''Root directory '' @ [quote1] @ root @ [quote1] @ '' not found in repository'')
            else
              (case fs_canonical F subdir of
                 None \<Rightarrow> Inl (''Failed to resolve root directory: '' @ io_error subdir)
               | Some canonical_subdir \<Rightarrow>
                   (case fs_canonical F source_dir of
                      None \<Rightarrow> Inl (''Failed to resolve source directory: '' @ io_error source_dir)
                    | Some canonical_source \<Rightarrow>
                        if path_starts_with canonical_subdir canonical_source then Inr canonical_subdir
                        else Inl ''Root directory path escapes repository boundary (path traversal blocked)''))))"

text \<open>The entry command with which a member of a workspace is built from the root of the repository.\<close>

definition workspace_entry :: "build_env \<Rightarrow> string \<Rightarrow> string \<Rightarrow> BuildJob \<Rightarrow> string option" where
  "workspace_entry B source_dir actual_source_dir job =
     (if \<not> whole_repository (bj_root_directory job) \<and> bj_entry_command job = None then
        (let clean = trim_start_matches (CHR ''/'') (bj_root_directory job)
         in if subdir_is_workspace_member clean (detect_workspace_globs B source_dir)
            then map_option (\<lambda>entry. prefix_entry_with_subdir entry clean)
                   (detect_member_entry B source_dir actual_source_dir (bj_runtime job))
            else None)
      else None)"


section \<open>What is written while unpacking\<close>

text \<open>A path below \<open>dest\<close>, spelled with plain names only.\<close>

definition plain_name :: "string \<Rightarrow> bool" where
  "plain_name n \<longleftrightarrow> n \<noteq> [] \<and> n \<noteq> ''.'' \<and> n \<noteq> ''..'' \<and> CHR ''/'' \<notin> set n"

definition below :: "string \<Rightarrow> string \<Rightarrow> bool" where
  "below dest p \<longleftrightarrow> p = dest \<or> (\<exists>names. names \<noteq> [] \<and> list_all plain_name names \<and> p = dest @ ''/'' @ str_join ''/'' names)"

fun action_path :: "fs_action \<Rightarrow> string" where
  "action_path (Make_Dirs p) = p"
| "action_path (Unpack p) = p"
| "action_path (Hard_Link target p) = p"

lemma join_snoc: "xs \<noteq> [] \<Longrightarrow> str_join sep (xs @ [x]) = str_join sep xs @ sep @ x"
  by (induction sep xs rule: str_join.induct) auto

lemma rfind_last: "c \<notin> set b \<Longrightarrow> str_rfind c (a @ c # b) = Some (length a)"
proof -
  assume "c \<notin> set b"
  then have "takeWhile (\<lambda>x. x \<noteq> c) (rev b @ c # rev a) = rev b" by (intro takeWhile_append2 [THEN trans]) auto
  then show ?thesis by (simp add: str_rfind_def)
qed

lemma parent_snoc: "CHR ''/'' \<notin> set n \<Longrightarrow> path_parent (a @ CHR ''/'' # n) = a"
  by (simp add: path_parent_def rfind_last)

lemma below_parent:
  assumes "below dest p" and "p \<noteq> dest"
  shows "below dest (path_parent p)"
proof -
  obtain names where n: "names \<noteq> []" "list_all plain_name names" "p = dest @ ''/'' @ str_join ''/'' names"
    using assms by (auto simp: below_def)
  obtain ns x where x: "names = ns @ [x]" using n(1) by (cases names rule: rev_cases) auto
  then have sep: "CHR ''/'' \<notin> set x" using n(2) by (simp add: plain_name_def)
  show ?thesis
  proof (cases ns)
    case Nil
    then show ?thesis using n(3) x parent_snoc [OF sep, of dest] by (simp add: below_def)
  next
    case (Cons y ys)
    then have "p = (dest @ ''/'' @ str_join ''/'' ns) @ CHR ''/'' # x"
      using n(3) x join_snoc [of ns "''/''" x] by simp
    then have "path_parent p = dest @ ''/'' @ str_join ''/'' ns" using parent_snoc [OF sep] by metis
    then show ?thesis using n(2) x Cons by (auto simp: below_def)
  qed
qed

lemma components_plain:
  assumes "x \<in> set (components p)" and "x \<noteq> ''..''"
  shows "plain_name x"
proof -
  have "x \<in> set (str_split (CHR ''/'') p)" "x \<noteq> []" "x \<noteq> ''.''" using assms(1) by (auto simp: components_def)
  then show ?thesis using assms(2) split_pieces [of x "CHR ''/''" p] by (auto simp: plain_name_def)
qed

lemma tl_path_parts:
  assumes "Parent_Dir \<notin> set (path_parts p)" and "x \<in> set (tl (path_parts p))"
  shows "plain_name (part_name x)"
proof -
  have "x \<in> set (map (\<lambda>x. if x = ''..'' then Parent_Dir else Normal x) (components p))"
    using assms(2) unfolding path_parts_def by (cases "components p") (auto split: if_splits simp del: set_map dest: in_set_dropD [of _ 1, unfolded drop_Suc])
  then obtain n where "n \<in> set (components p)" "x = (if n = ''..'' then Parent_Dir else Normal n)" by auto
  moreover have "Parent_Dir \<in> set (path_parts p)" if "''..'' \<in> set (components p)"
    using that by (auto simp: path_parts_def image_iff)
  ultimately show ?thesis using assms(1) components_plain by (auto split: if_splits)
qed

lemma entry_target_below:
  assumes "entry_target dest path = Some p" and "dest \<noteq> []" and "\<not> str_ends_with dest ''/''"
  shows "below dest p \<and> p \<noteq> dest"
proof -
  let ?names = "map part_name (tl (path_parts path))"
  have "Parent_Dir \<notin> set (path_parts path)" "?names \<noteq> []" and p: "p = path_join dest (str_join ''/'' ?names)"
    using assms(1) by (auto simp: entry_target_def Let_def split: if_splits simp flip: length_greater_0_conv)
  then have plain: "list_all plain_name ?names" by (auto simp: list_all_iff intro: tl_path_parts)
  moreover obtain x xs where "?names = x # xs" using \<open>?names \<noteq> []\<close> by (cases ?names) auto
  ultimately have "\<not> str_starts_with (str_join ''/'' ?names) ''/''"
    by (cases xs; cases x) (auto simp: plain_name_def starts_with_iff)
  then have "p = dest @ ''/'' @ str_join ''/'' ?names" using p assms(2,3) by (simp add: path_join_def)
  then show ?thesis using plain \<open>?names \<noteq> []\<close> by (auto simp: below_def)
qed

lemma entry_actions_below:
  assumes "a \<in> set (entry_actions dest kind path)" and "dest \<noteq> []" and "\<not> str_ends_with dest ''/''"
  shows "below dest (action_path a)"
  using assms entry_target_below [of dest path] below_parent [of dest]
  by (cases kind) (auto simp: entry_actions_def split: option.splits)

lemma perform_subset: "perform fails as = (acts, r) \<Longrightarrow> set acts \<subseteq> set as"
  by (induction as arbitrary: acts r) (fastforce split: option.splits prod.splits)+

lemma extract_entries_below:
  assumes dest: "dest \<noteq> []" "\<not> str_ends_with dest ''/''"
  shows "extract_entries fails dest entries = (acts, r) \<Longrightarrow> a \<in> set acts \<Longrightarrow> below dest (action_path a)"
proof (induction entries arbitrary: acts r)
  case (Cons item rest)
  obtain more r' where m: "extract_entries fails dest rest = (more, r')" by fastforce
  show ?case
  proof (cases "\<exists>entry path. item = Inr entry \<and> te_path entry = Inr path \<and> te_kind entry \<noteq> Symlink_Entry")
    case True
    then obtain entry path where e: "item = Inr entry" "te_path entry = Inr path" "te_kind entry \<noteq> Symlink_Entry" by auto
    obtain now res where p: "perform fails (entry_actions dest (te_kind entry) path) = (now, res)" by fastforce
    have "below dest (action_path a)" if "a \<in> set now"
      using perform_subset [OF p] that by (intro entry_actions_below [OF _ dest]) blast
    then show ?thesis using Cons e m p by (cases res) (auto split: if_splits)
  next
    case False
    then show ?thesis using Cons m by (cases item) (auto split: sum.splits if_splits)
  qed
qed simp

text \<open>
  C19: Whatever the archive holds, and wherever unpacking it fails, every directory made, every file written and every
  hard link made while a repository is unpacked lies below the destination, on a path spelled with plain names only: no absolute
  path, no \<^verbatim>\<open>..\<close> and no empty part. What a hard link points to is not confined.
\<close>

theorem unpacking_confined:
  assumes "dest \<noteq> []" and "\<not> str_ends_with dest ''/''"
  shows "\<forall>a \<in> set (fst (extract_tarball fails archive dest)). below dest (action_path a)"
proof (cases archive)
  case (Inr entries)
  obtain acts r where "extract_entries fails dest entries = (acts, r)" by fastforce
  then show ?thesis using extract_entries_below [OF assms] Inr by (auto simp: extract_tarball_def)
qed (simp add: extract_tarball_def)

lemma hard_link_to_host: "entry_actions ''/tmp/b'' (Hard_Link_Entry ''/etc/passwd'') ''repo/x'' = [Make_Dirs ''/tmp/b'', Hard_Link ''/etc/passwd'' ''/tmp/b/x'']"
  by code_simp

theorem unpacking_confined_witness:
  "below ''/tmp/b'' ''/tmp/b/src'' \<and> fst (extract_tarball (\<lambda>_. None)
      (Inr [Inr \<lparr>te_path = Inr ''repo/../../etc/passwd'', te_kind = Other_Entry\<rparr>,
            Inr \<lparr>te_path = Inr ''repo/src/a.ts'', te_kind = Other_Entry\<rparr>]) ''/tmp/b'') =
    [Make_Dirs ''/tmp/b/src'', Unpack ''/tmp/b/src/a.ts'']"
proof -
  let ?x = "fst (extract_tarball (\<lambda>_. None)
      (Inr [Inr \<lparr>te_path = Inr ''repo/../../etc/passwd'', te_kind = Other_Entry\<rparr>,
            Inr \<lparr>te_path = Inr ''repo/src/a.ts'', te_kind = Other_Entry\<rparr>]) ''/tmp/b'')"
  have x: "?x = [Make_Dirs ''/tmp/b/src'', Unpack ''/tmp/b/src/a.ts'']" by code_simp
  have "\<forall>a \<in> set ?x. below ''/tmp/b'' (action_path a)"
    by (rule unpacking_confined) (simp_all add: str_ends_with_def str_strip_suffix_def str_strip_prefix_def)
  then show ?thesis unfolding x by simp
qed

end
