(* ===== verification/Fly_Machine.thy ===== *)
theory Fly_Machine
  imports Fly_Deploy
begin

text \<open>
  The second way to deploy, from an image that is already built (\<^verbatim>\<open>crates/builder/src/flyio.rs\<close>): the requests to Fly.io's
  machines API and how its answers are read. The answers are a parameter (record \<open>machine_api\<close>).
\<close>

record DeployJob =
  dj_deployment_id :: uuid
  dj_server_id :: uuid
  dj_app_name :: string
  dj_image_url :: string
  dj_secrets :: "SecretEnv list"
  dj_region :: string

record MachineGuest =
  mg_cpu_kind :: string
  mg_cpus :: nat
  mg_memory_mb :: nat

record MachinePort =
  mp_port :: nat
  mp_handlers :: "string list"

record MachineService =
  mv_ports :: "MachinePort list"
  mv_protocol :: string
  mv_internal_port :: nat

record CreateMachineRequest =
  cm_name :: string
  cm_region :: string
  cm_image :: string
  cm_env :: "string \<Rightarrow> string option"
  cm_services :: "MachineService list"
  cm_guest :: MachineGuest

definition machine_env :: "SecretEnv list \<Rightarrow> string \<Rightarrow> string option" where
  "machine_env secrets = (foldl (\<lambda>m s. m(se_key s \<mapsto> se_value s)) Map.empty secrets)(''PORT'' \<mapsto> ''3000'')"

definition machine_request :: "DeployJob \<Rightarrow> CreateMachineRequest" where
  "machine_request job = \<lparr>
     cm_name = dj_app_name job @ ''-machine'', cm_region = dj_region job, cm_image = dj_image_url job,
     cm_env = machine_env (dj_secrets job),
     cm_services = [\<lparr>mv_ports = [\<lparr>mp_port = 80, mp_handlers = [''http'']\<rparr>, \<lparr>mp_port = 443, mp_handlers = [''http'', ''tls'']\<rparr>],
       mv_protocol = ''tcp'', mv_internal_port = 3000\<rparr>],
     cm_guest = \<lparr>mg_cpu_kind = ''shared'', mg_cpus = 1, mg_memory_mb = 256\<rparr> \<rparr>"

text \<open>An answer is its status with its body as text, or as a machine.\<close>

record machine_api =
  ma_create_app :: "string + nat \<times> string"
  ma_create_machine :: "string + nat \<times> string \<times> (string + MachineInfo)"
  ma_poll :: "nat \<Rightarrow> (string + nat \<times> (string + MachineInfo))"

datatype machine_call = Call_Create_App string string | Call_Create_Machine string CreateMachineRequest | Call_Poll string string | Call_Sleep nat

abbreviation is_success :: "nat \<Rightarrow> bool" where
  "is_success status \<equiv> 200 \<le> status \<and> status < 300"

definition create_app_if_not_exists :: "machine_api \<Rightarrow> casing \<Rightarrow> anyhow + unit" where
  "create_app_if_not_exists A K =
     (case ma_create_app A of
        Inl e \<Rightarrow> Inl [''Failed to create app'', e]
      | Inr (status, error_text) \<Rightarrow>
          if is_success status \<or> status = 409 then Inr ()
          else (let lower = to_lower K error_text
                in if str_contains lower ''already'' \<and> (str_contains lower ''exist'' \<or> str_contains lower ''taken'') then Inr ()
                   else Inl [''Failed to create app: '' @ error_text]))"

fun poll_machine :: "machine_api \<Rightarrow> string \<Rightarrow> string \<Rightarrow> nat \<Rightarrow> nat \<Rightarrow> machine_call list \<times> (anyhow + unit)" where
  "poll_machine A app_name machine_id i 0 = ([], Inl [''Machine failed to start in time''])"
| "poll_machine A app_name machine_id i (Suc left) =
     (let again = (let (calls, r) = poll_machine A app_name machine_id (Suc i) left in (Call_Sleep 2 # calls, r));
          (calls, r) =
            (case ma_poll A i of
               Inl e \<Rightarrow> ([], Inl [e])
             | Inr (status, body) \<Rightarrow>
                 if is_success status then
                   (case body of
                      Inl e \<Rightarrow> ([], Inl [e])
                    | Inr m \<Rightarrow>
                        if mi_state m = ''started'' then ([], Inr ())
                        else if mi_state m \<in> {''failed'', ''destroyed'', ''destroying''} then
                          ([], Inl [''Machine '' @ machine_id @ '' entered terminal state '' @ [quote1] @ mi_state m @ [quote1] @ '' while starting''])
                        else again)
                 else again)
      in (Call_Poll app_name machine_id # calls, r))"

definition wait_for_machine :: "machine_api \<Rightarrow> string \<Rightarrow> string \<Rightarrow> machine_call list \<times> (anyhow + unit)" where
  "wait_for_machine A app_name machine_id = poll_machine A app_name machine_id 0 30"

definition fly_deploy :: "machine_api \<Rightarrow> casing \<Rightarrow> string \<Rightarrow> DeployJob \<Rightarrow> machine_call list \<times> (anyhow + string)" where
  "fly_deploy A K org job =
     (let app_name = dj_app_name job; first = Call_Create_App app_name org
      in case create_app_if_not_exists A K of
           Inl e \<Rightarrow> ([first], Inl e)
         | Inr _ \<Rightarrow>
             (let second = Call_Create_Machine app_name (machine_request job)
              in case ma_create_machine A of
                   Inl e \<Rightarrow> ([first, second], Inl [''Failed to create machine'', e])
                 | Inr (status, error_text, body) \<Rightarrow>
                     if \<not> is_success status then ([first, second], Inl [''Failed to create machine: '' @ error_text])
                     else
                       (case body of
                          Inl e \<Rightarrow> ([first, second], Inl [e])
                        | Inr machine \<Rightarrow>
                            (let (calls, r) = wait_for_machine A app_name (mi_id machine)
                             in (first # second # calls,
                                 case r of Inl e \<Rightarrow> Inl e | Inr _ \<Rightarrow> Inr (''https://'' @ app_name @ ''.fly.dev''))))))"


section \<open>A deployment of an image ends\<close>

definition calls_slept :: "machine_call list \<Rightarrow> nat" where
  "calls_slept cs = sum_list (map (\<lambda>c. case c of Call_Sleep n \<Rightarrow> n | _ \<Rightarrow> 0) cs)"

lemma calls_slept_simps [simp]:
  "calls_slept [] = 0" "calls_slept (Call_Sleep n # cs) = n + calls_slept cs"
  "calls_slept (Call_Poll a m # cs) = calls_slept cs" "calls_slept (Call_Create_App a b # cs) = calls_slept cs"
  "calls_slept (Call_Create_Machine a r # cs) = calls_slept cs"
  by (simp_all add: calls_slept_def)

lemma poll_machine_cost: "calls_slept (fst (poll_machine A a m i n)) \<le> 2 * n \<and> length (fst (poll_machine A a m i n)) \<le> 2 * n"
proof (induction n arbitrary: i)
  case (Suc n)
  have "calls_slept (fst (poll_machine A a m (Suc i) n)) \<le> 2 * n" "length (fst (poll_machine A a m (Suc i) n)) \<le> 2 * n"
    using Suc.IH [of "Suc i"] by auto
  then show ?case by (auto simp: Let_def split_def split: sum.splits)
qed simp

text \<open>A deployment whose machine is reported started was reported so by one of the polls; there are at most 30, in a minute.\<close>

definition started_at_poll :: "machine_api \<Rightarrow> nat \<Rightarrow> bool" where
  "started_at_poll A i \<longleftrightarrow> (\<exists>status m. ma_poll A i = Inr (status, Inr m) \<and> is_success status \<and> mi_state m = ''started'')"

lemma poll_machine_started: "snd (poll_machine A a m i n) = Inr () \<Longrightarrow> \<exists>j \<in> {i..<i + n}. started_at_poll A j"
proof (induction n arbitrary: i)
  case (Suc n)
  have range: "{i..<i + Suc n} = insert i {Suc i..<Suc i + n}" by auto
  show ?case unfolding range using Suc.prems Suc.IH [of "Suc i"]
    by (auto simp: Let_def split_def started_at_poll_def split: sum.splits if_splits prod.splits)
qed simp

end
