(* ===== verification/Server_Store.thy ===== *)
theory Server_Store
  imports Workspace_Repo User_Repo Rust_Text "HOL-Library.List_Lexorder"
begin

text \<open>
  What the builder and the server routes keep in the database (\<^verbatim>\<open>crates/db\<close>): servers, deployments, regions,
  encrypted secrets, error hints, and the users' notification settings and preferences, with every query and statement of
  their repositories. The store has its own clock, which \<^verbatim>\<open>NOW()\<close> reads. Statements that break a constraint of
  \<^verbatim>\<open>migrations/\<close> answer \<open>None\<close>; the lengths of columns are not modelled (any statement may fail, see \<open>Sql\<close>).
\<close>

section \<open>Rows\<close>

record Deployment =
  dep_id :: uuid
  dep_server_id :: uuid
  dep_version :: int
  dep_commit_sha :: string
  dep_status :: string
  dep_build_logs :: "string option"
  dep_error_message :: "string option"
  dep_started_at :: timestamp
  dep_finished_at :: "timestamp option"
  dep_deployed_by :: "uuid option"

definition Deployment_status :: "Deployment \<Rightarrow> DeploymentStatus" where
  "Deployment_status d = DeploymentStatus_of_str (dep_status d)"

record UpdateDeployment =
  ude_status :: "DeploymentStatus option"
  ude_build_logs :: "string option"
  ude_error_message :: "string option"
  ude_finished_at :: "timestamp option"

record CreateServer =
  crs_workspace_id :: uuid
  crs_name :: string
  crs_slug :: string
  crs_description :: "string option"
  crs_github_repo :: string
  crs_github_branch :: string
  crs_github_installation_id :: "64 word option"
  crs_runtime :: Runtime
  crs_visibility :: Visibility
  crs_access_mode :: AccessMode
  crs_transport :: Transport
  crs_region :: string
  crs_root_directory :: string
  crs_mcp_path :: string
  crs_entry_command :: "string option"
  crs_build_command :: "string option"
  crs_auth_enabled :: bool
  crs_memory_mb :: "int option"
  crs_port :: "int option"

record UpdateServer =
  upd_name :: "string option"
  upd_description :: "string option"
  upd_github_branch :: "string option"
  upd_visibility :: "Visibility option"
  upd_access_mode :: "AccessMode option"
  upd_status :: "ServerStatus option"
  upd_endpoint_url :: "string option"
  upd_region :: "string option"
  upd_root_directory :: "string option"
  upd_mcp_path :: "string option"
  upd_entry_command :: "string option"
  upd_build_command :: "string option"
  upd_auth_enabled :: "bool option"
  upd_memory_mb :: "int option"
  upd_port :: "int option"
  upd_tool_list_filter_by_scope :: "bool option"
  upd_tool_schema_slim :: "bool option"
  upd_tool_search_mode :: "bool option"
  upd_tool_code_mode :: "bool option"

datatype RegionStatus = Region_Pending | Region_Deploying | Region_Running | Region_Stopped | Region_Failed

fun RegionStatus_as_str :: "RegionStatus \<Rightarrow> string" where
  "RegionStatus_as_str Region_Pending = ''pending''"
| "RegionStatus_as_str Region_Deploying = ''deploying''"
| "RegionStatus_as_str Region_Running = ''running''"
| "RegionStatus_as_str Region_Stopped = ''stopped''"
| "RegionStatus_as_str Region_Failed = ''failed''"

definition RegionStatus_from :: "string \<Rightarrow> RegionStatus" where
  "RegionStatus_from s =
     (if s = ''deploying'' then Region_Deploying
      else if s = ''running'' then Region_Running
      else if s = ''stopped'' then Region_Stopped
      else if s = ''failed'' then Region_Failed
      else Region_Pending)"

record ServerRegion =
  rgn_id :: uuid
  rgn_server_id :: uuid
  rgn_region :: string
  rgn_is_primary :: bool
  rgn_machine_id :: "string option"
  rgn_status :: string
  rgn_endpoint_url :: "string option"
  rgn_cancel_at :: "timestamp option"
  rgn_created_at :: timestamp
  rgn_updated_at :: timestamp

definition ServerRegion_status :: "ServerRegion \<Rightarrow> RegionStatus" where
  "ServerRegion_status r = RegionStatus_from (rgn_status r)"

record UpdateServerRegion =
  usr_machine_id :: "string option"
  usr_status :: "RegionStatus option"
  usr_endpoint_url :: "string option"

record Secret =
  sec_id :: uuid
  sec_server_id :: uuid
  sec_key :: string
  sec_encrypted_value :: bytes
  sec_nonce :: bytes
  sec_created_at :: timestamp
  sec_updated_at :: timestamp

record ErrorHint =
  eh_id :: uuid
  eh_keywords :: "string list"
  eh_hint_message :: string
  eh_priority :: int
  eh_category :: string
  eh_locale :: string
  eh_is_active :: bool
  eh_created_at :: timestamp
  eh_updated_at :: timestamp

record UpdateErrorHint =
  ueh_keywords :: "string list option"
  ueh_hint_message :: "string option"
  ueh_priority :: "int option"
  ueh_category :: "string option"
  ueh_locale :: "string option"
  ueh_is_active :: "bool option"

record NotificationSettings =
  ns_user_id :: uuid
  ns_email_deploy_success :: bool
  ns_email_deploy_failure :: bool
  ns_email_server_down :: bool
  ns_email_weekly_report :: bool
  ns_created_at :: timestamp
  ns_updated_at :: timestamp

record UserPreferences =
  up_user_id :: uuid
  up_sidebar_order :: "string list"
  up_locale :: string
  up_created_at :: timestamp
  up_updated_at :: timestamp

record server_db =
  sd_accounts :: workspace_db
  sd_users :: user_db
  sd_servers :: "McpServer list"
  sd_deployments :: "Deployment list"
  sd_regions :: "ServerRegion list"
  sd_secrets :: "Secret list"
  sd_hints :: "ErrorHint list"
  sd_settings :: "NotificationSettings list"
  sd_preferences :: "UserPreferences list"
  sd_now :: timestamp


section \<open>Deployments\<close>

definition deploy_find_by_id :: "uuid \<Rightarrow> server_db \<Rightarrow> Deployment option" where
  "deploy_find_by_id i d = find (\<lambda>r. dep_id r = i) (sd_deployments d)"

definition deploys_of :: "uuid \<Rightarrow> server_db \<Rightarrow> Deployment list" where
  "deploys_of server_id d = sort_key (\<lambda>r. - dep_version r) (filter (\<lambda>r. dep_server_id r = server_id) (sd_deployments d))"

definition find_latest_by_server :: "uuid \<Rightarrow> server_db \<Rightarrow> Deployment option" where
  "find_latest_by_server server_id d = (case deploys_of server_id d of [] \<Rightarrow> None | r # _ \<Rightarrow> Some r)"

definition deploy_list_by_server :: "uuid \<Rightarrow> nat \<Rightarrow> nat \<Rightarrow> server_db \<Rightarrow> Deployment list" where
  "deploy_list_by_server server_id limit offset d = take limit (drop offset (deploys_of server_id d))"

text \<open>\<^verbatim>\<open>COALESCE(MAX(version), 0) + 1\<close>, an \<^verbatim>\<open>INT\<close>.\<close>

definition next_version :: "uuid \<Rightarrow> server_db \<Rightarrow> int" where
  "next_version server_id d =
     (case map dep_version (filter (\<lambda>r. dep_server_id r = server_id) (sd_deployments d)) of [] \<Rightarrow> 0 | v # vs \<Rightarrow> fold max vs v) + 1"

definition deploy_create ::
  "uuid \<Rightarrow> uuid \<Rightarrow> string \<Rightarrow> uuid option \<Rightarrow> server_db \<Rightarrow> (Deployment \<times> server_db) option" where
  "deploy_create fresh server_id commit_sha deployed_by d =
     (let r = \<lparr> dep_id = fresh, dep_server_id = server_id, dep_version = next_version server_id d, dep_commit_sha = commit_sha,
               dep_status = ''pending'', dep_build_logs = None, dep_error_message = None, dep_started_at = sd_now d,
               dep_finished_at = None, dep_deployed_by = deployed_by \<rparr>
      in if \<not> list_ex (\<lambda>s. srv_id s = server_id) (sd_servers d) \<or> 2 ^ 31 \<le> dep_version r then None
         else map_option (\<lambda>t. (r, d\<lparr>sd_deployments := t\<rparr>)) (sql_insert (\<lambda>a b. dep_id a = dep_id b) r (sd_deployments d)))"

definition deploy_change :: "(Deployment \<Rightarrow> bool) \<Rightarrow> (Deployment \<Rightarrow> Deployment) \<Rightarrow> server_db \<Rightarrow> server_db" where
  "deploy_change P f d = d\<lparr>sd_deployments := sql_update P f (sd_deployments d)\<rparr>"

definition updated_deployment :: "UpdateDeployment \<Rightarrow> Deployment \<Rightarrow> Deployment" where
  "updated_deployment u r = r\<lparr>
     dep_status := unwrap_or (map_option DeploymentStatus_str (ude_status u)) (dep_status r),
     dep_build_logs := or_else (ude_build_logs u) (dep_build_logs r),
     dep_error_message := or_else (ude_error_message u) (dep_error_message r),
     dep_finished_at := or_else (ude_finished_at u) (dep_finished_at r)\<rparr>"

text \<open>\<^verbatim>\<open>fetch_one\<close> fails when no row was updated.\<close>

definition deploy_update :: "uuid \<Rightarrow> UpdateDeployment \<Rightarrow> server_db \<Rightarrow> (Deployment \<times> server_db) option" where
  "deploy_update i u d =
     (let d' = deploy_change (\<lambda>r. dep_id r = i) (updated_deployment u) d in map_option (\<lambda>r. (r, d')) (deploy_find_by_id i d'))"

text \<open>PostgreSQL's \<^verbatim>\<open>LENGTH\<close> and \<^verbatim>\<open>RIGHT\<close> count characters; \<^verbatim>\<open>RIGHT\<close> of a negative number drops that many from the left.\<close>

fun char_count :: "string \<Rightarrow> nat" where
  "char_count [] = 0"
| "char_count (c # s) = (if 128 \<le> (of_char c :: nat) \<and> (of_char c :: nat) < 192 then 0 else 1) + char_count s"

definition drop_chars :: "nat \<Rightarrow> string \<Rightarrow> string" where
  "drop_chars n s = drop (length (take_chars n s)) s"

definition sql_right :: "string \<Rightarrow> int \<Rightarrow> string" where
  "sql_right s n = drop_chars (if 0 \<le> n then char_count s - nat n else nat (- n)) s"

definition MAX_BUILD_LOG_SIZE :: int where "MAX_BUILD_LOG_SIZE = 5 * 1024 * 1024"

text \<open>The marker is written without \<^verbatim>\<open>E''\<close>, so it ends with a backslash and an \<^verbatim>\<open>n\<close>, not with a newline.\<close>

definition appended_log :: "string option \<Rightarrow> string \<Rightarrow> string" where
  "appended_log logs line =
     (let old = unwrap_or logs []
      in if MAX_BUILD_LOG_SIZE < int (char_count old) + int (char_count line)
         then ''... [earlier logs truncated]'' @ [backslash, CHR ''n''] @ sql_right old (MAX_BUILD_LOG_SIZE - int (char_count line) - 50) @
              line @ [newline]
         else old @ line @ [newline])"

definition append_log :: "uuid \<Rightarrow> string \<Rightarrow> server_db \<Rightarrow> server_db" where
  "append_log i line = deploy_change (\<lambda>r. dep_id r = i) (\<lambda>r. r\<lparr>dep_build_logs := Some (appended_log (dep_build_logs r) line)\<rparr>)"

definition count_by_workspace_since :: "uuid \<Rightarrow> timestamp \<Rightarrow> server_db \<Rightarrow> nat" where
  "count_by_workspace_since workspace_id since d =
     length (filter (\<lambda>r. since \<le> dep_started_at r \<and>
       list_ex (\<lambda>s. srv_id s = dep_server_id r \<and> srv_workspace_id s = workspace_id) (sd_servers d)) (sd_deployments d))"

definition is_member_row :: "uuid \<Rightarrow> uuid \<Rightarrow> server_db \<Rightarrow> bool" where
  "is_member_row workspace_id user_id d \<longleftrightarrow>
     list_ex (\<lambda>m. wm_workspace_id m = workspace_id \<and> wm_user_id m = user_id) (wd_members (sd_accounts d))"

definition deploy_check_user_access :: "uuid \<Rightarrow> uuid \<Rightarrow> server_db \<Rightarrow> bool" where
  "deploy_check_user_access deployment_id user_id d \<longleftrightarrow>
     list_ex (\<lambda>r. dep_id r = deployment_id \<and>
       list_ex (\<lambda>s. srv_id s = dep_server_id r \<and> is_member_row (srv_workspace_id s) user_id d) (sd_servers d)) (sd_deployments d)"

definition unfinished :: "string \<Rightarrow> bool" where
  "unfinished status \<longleftrightarrow> status \<in> {''pending'', ''building'', ''pushing'', ''deploying''}"

definition stuck :: "timestamp \<Rightarrow> int \<Rightarrow> Deployment \<Rightarrow> bool" where
  "stuck now timeout_minutes r \<longleftrightarrow> unfinished (dep_status r) \<and> dep_started_at r < now - 60 * timeout_minutes"

definition timeout_stuck_deployments :: "int \<Rightarrow> server_db \<Rightarrow> nat \<times> server_db" where
  "timeout_stuck_deployments timeout_minutes d =
     (length (filter (stuck (sd_now d) timeout_minutes) (sd_deployments d)),
      deploy_change (stuck (sd_now d) timeout_minutes)
        (\<lambda>r. r\<lparr>dep_status := ''failed'', dep_error_message := Some ''Deployment timed out'', dep_finished_at := Some (sd_now d)\<rparr>) d)"

definition has_succeeded_deployment_after :: "uuid \<Rightarrow> int \<Rightarrow> server_db \<Rightarrow> bool" where
  "has_succeeded_deployment_after server_id version d \<longleftrightarrow>
     list_ex (\<lambda>r. dep_server_id r = server_id \<and> version < dep_version r \<and> dep_status r = ''succeeded'') (sd_deployments d)"


section \<open>Servers\<close>

definition MAX_SERVERS_PER_QUERY :: int where "MAX_SERVERS_PER_QUERY = 200"

definition server_by :: "(McpServer \<Rightarrow> bool) \<Rightarrow> server_db \<Rightarrow> McpServer option" where
  "server_by P d = find P (sd_servers d)"

definition server_find_by_id :: "uuid \<Rightarrow> server_db \<Rightarrow> McpServer option" where
  "server_find_by_id i = server_by (\<lambda>s. srv_id s = i)"

definition server_find_by_slug :: "uuid \<Rightarrow> string \<Rightarrow> server_db \<Rightarrow> McpServer option" where
  "server_find_by_slug workspace_id slug = server_by (\<lambda>s. srv_workspace_id s = workspace_id \<and> srv_slug s = slug)"

definition find_by_endpoint_slug :: "string \<Rightarrow> server_db \<Rightarrow> McpServer option" where
  "find_by_endpoint_slug slug = server_by (\<lambda>s. srv_slug s = slug \<and> srv_status s = ''running'')"

definition newest_first :: "McpServer list \<Rightarrow> McpServer list" where
  "newest_first = sort_key (\<lambda>s. - srv_created_at s)"

definition server_list_by_workspace :: "uuid \<Rightarrow> nat \<Rightarrow> nat \<Rightarrow> server_db \<Rightarrow> McpServer list" where
  "server_list_by_workspace workspace_id limit offset d =
     take limit (drop offset (newest_first (filter (\<lambda>s. srv_workspace_id s = workspace_id) (sd_servers d))))"

definition list_running :: "server_db \<Rightarrow> McpServer list" where
  "list_running d = take 5000 (filter (\<lambda>s. srv_status s = ''running'') (sd_servers d))"

definition count_by_workspace :: "uuid \<Rightarrow> server_db \<Rightarrow> nat" where
  "count_by_workspace workspace_id d = length (filter (\<lambda>s. srv_workspace_id s = workspace_id) (sd_servers d))"

text \<open>\<^verbatim>\<open>mcp-\<close> and the 32 hexadecimal digits of the id, which \<open>simple\<close> writes.\<close>

definition new_fly_app_name :: "(uuid \<Rightarrow> string) \<Rightarrow> uuid \<Rightarrow> string" where
  "new_fly_app_name simple i = ''mcp-'' @ simple i"

definition server_row :: "(uuid \<Rightarrow> string) \<Rightarrow> uuid \<Rightarrow> timestamp \<Rightarrow> CreateServer \<Rightarrow> McpServer" where
  "server_row simple fresh now c = \<lparr>
     srv_id = fresh, srv_workspace_id = crs_workspace_id c, srv_name = crs_name c, srv_slug = crs_slug c, srv_description = crs_description c,
     srv_github_repo = crs_github_repo c, srv_github_branch = crs_github_branch c, srv_github_installation_id = crs_github_installation_id c,
     srv_runtime = Runtime_display (crs_runtime c), srv_visibility = Visibility_str (crs_visibility c),
     srv_access_mode = AccessMode_display (crs_access_mode c), srv_transport = Transport_display (crs_transport c),
     srv_status = ''inactive'', srv_endpoint_url = None, srv_rate_limit_per_minute = Some 100, srv_region = crs_region c,
     srv_root_directory = crs_root_directory c, srv_mcp_path = crs_mcp_path c, srv_entry_command = crs_entry_command c,
     srv_build_command = crs_build_command c, srv_auth_enabled = crs_auth_enabled c, srv_memory_mb = crs_memory_mb c, srv_port = crs_port c,
     srv_fly_app_name = new_fly_app_name simple fresh, srv_tool_list_filter_by_scope = True, srv_tool_schema_slim = False,
     srv_tool_search_mode = False, srv_tool_code_mode = False, srv_created_at = now, srv_updated_at = now \<rparr>"

text \<open>The checks of \<^verbatim>\<open>20240102000000_add_constraints.sql\<close> and its successors, and the unique keys.\<close>

definition slug_check :: "string \<Rightarrow> bool" where
  "slug_check s \<longleftrightarrow> s \<noteq> [] \<and> list_all (\<lambda>c. is_lower c \<or> is_digit c \<or> c = CHR ''-'') s \<and> hd s \<noteq> CHR ''-'' \<and> last s \<noteq> CHR ''-''"

definition repo_char :: "char \<Rightarrow> bool" where
  "repo_char c \<longleftrightarrow> is_alphanumeric c \<or> c \<in> set ''_.-''"

definition github_repo_check :: "string \<Rightarrow> bool" where
  "github_repo_check s \<longleftrightarrow>
     (case str_split (CHR ''/'') s of [owner, repo] \<Rightarrow> owner \<noteq> [] \<and> repo \<noteq> [] \<and> list_all repo_char (owner @ repo) | _ \<Rightarrow> False)"

definition server_check :: "McpServer \<Rightarrow> bool" where
  "server_check s \<longleftrightarrow> slug_check (srv_slug s) \<and> github_repo_check (srv_github_repo s) \<and>
     srv_runtime s \<in> {''node'', ''python'', ''go'', ''rust'', ''deno'', ''bun''} \<and>
     srv_visibility s \<in> {''private'', ''team'', ''public''} \<and> srv_transport s \<in> {''sse'', ''stdio''} \<and>
     srv_status s \<in> {''inactive'', ''building'', ''deploying'', ''running'', ''failed'', ''stopped'', ''deleting''}"

definition server_clash :: "McpServer \<Rightarrow> McpServer \<Rightarrow> bool" where
  "server_clash s t \<longleftrightarrow> srv_id s = srv_id t \<or> srv_workspace_id s = srv_workspace_id t \<and> srv_slug s = srv_slug t"

definition server_create :: "(uuid \<Rightarrow> string) \<Rightarrow> uuid \<Rightarrow> CreateServer \<Rightarrow> server_db \<Rightarrow> (McpServer \<times> server_db) option" where
  "server_create simple fresh c d =
     (let s = server_row simple fresh (sd_now d) c
      in if \<not> server_check s \<or> ws_find_by_id (srv_workspace_id s) (sd_accounts d) = None then None
         else map_option (\<lambda>t. (s, d\<lparr>sd_servers := t\<rparr>)) (sql_insert server_clash s (sd_servers d)))"

definition server_change :: "uuid \<Rightarrow> (McpServer \<Rightarrow> McpServer) \<Rightarrow> server_db \<Rightarrow> server_db" where
  "server_change i f d = d\<lparr>sd_servers := sql_update (\<lambda>s. srv_id s = i) (\<lambda>s. (f s)\<lparr>srv_updated_at := sd_now d\<rparr>) (sd_servers d)\<rparr>"

definition updated_server :: "UpdateServer \<Rightarrow> McpServer \<Rightarrow> McpServer" where
  "updated_server u s = s\<lparr>
     srv_name := unwrap_or (upd_name u) (srv_name s),
     srv_description := or_else (upd_description u) (srv_description s),
     srv_github_branch := unwrap_or (upd_github_branch u) (srv_github_branch s),
     srv_visibility := unwrap_or (map_option Visibility_str (upd_visibility u)) (srv_visibility s),
     srv_access_mode := unwrap_or (map_option AccessMode_display (upd_access_mode u)) (srv_access_mode s),
     srv_status := unwrap_or (map_option ServerStatus_str (upd_status u)) (srv_status s),
     srv_endpoint_url := or_else (upd_endpoint_url u) (srv_endpoint_url s),
     srv_region := unwrap_or (upd_region u) (srv_region s),
     srv_root_directory := unwrap_or (upd_root_directory u) (srv_root_directory s),
     srv_mcp_path := unwrap_or (upd_mcp_path u) (srv_mcp_path s),
     srv_entry_command := or_else (upd_entry_command u) (srv_entry_command s),
     srv_build_command := or_else (upd_build_command u) (srv_build_command s),
     srv_auth_enabled := unwrap_or (upd_auth_enabled u) (srv_auth_enabled s),
     srv_memory_mb := or_else (upd_memory_mb u) (srv_memory_mb s),
     srv_port := or_else (upd_port u) (srv_port s),
     srv_tool_list_filter_by_scope := unwrap_or (upd_tool_list_filter_by_scope u) (srv_tool_list_filter_by_scope s),
     srv_tool_schema_slim := unwrap_or (upd_tool_schema_slim u) (srv_tool_schema_slim s),
     srv_tool_search_mode := unwrap_or (upd_tool_search_mode u) (srv_tool_search_mode s),
     srv_tool_code_mode := unwrap_or (upd_tool_code_mode u) (srv_tool_code_mode s)\<rparr>"

definition server_update :: "uuid \<Rightarrow> UpdateServer \<Rightarrow> server_db \<Rightarrow> (McpServer \<times> server_db) option" where
  "server_update i u d =
     (let d' = server_change i (updated_server u) d in map_option (\<lambda>s. (s, d')) (server_find_by_id i d'))"

text \<open>Deployments, regions and secrets go with their server.\<close>

definition server_delete :: "uuid \<Rightarrow> server_db \<Rightarrow> server_db" where
  "server_delete i d = d\<lparr>
     sd_servers := sql_delete (\<lambda>s. srv_id s = i) (sd_servers d),
     sd_deployments := sql_delete (\<lambda>r. dep_server_id r = i) (sd_deployments d),
     sd_regions := sql_delete (\<lambda>r. rgn_server_id r = i) (sd_regions d),
     sd_secrets := sql_delete (\<lambda>r. sec_server_id r = i) (sd_secrets d)\<rparr>"

definition mark_deleting :: "uuid \<Rightarrow> server_db \<Rightarrow> server_db" where
  "mark_deleting i = server_change i (\<lambda>s. s\<lparr>srv_status := ''deleting''\<rparr>)"

definition stuck_in_deleting :: "timestamp \<Rightarrow> int \<Rightarrow> McpServer \<Rightarrow> bool" where
  "stuck_in_deleting now minutes s \<longleftrightarrow> srv_status s = ''deleting'' \<and> srv_updated_at s < now - 60 * minutes"

definition list_deleting_older_than :: "int \<Rightarrow> server_db \<Rightarrow> McpServer list" where
  "list_deleting_older_than minutes d = take 1000 (filter (stuck_in_deleting (sd_now d) minutes) (sd_servers d))"

definition server_update_status :: "uuid \<Rightarrow> ServerStatus \<Rightarrow> string option \<Rightarrow> server_db \<Rightarrow> server_db" where
  "server_update_status i status endpoint_url =
     server_change i (\<lambda>s. s\<lparr>srv_status := ServerStatus_str status, srv_endpoint_url := or_else endpoint_url (srv_endpoint_url s)\<rparr>)"

definition list_all_by_user_paginated :: "uuid \<Rightarrow> int \<Rightarrow> nat \<Rightarrow> server_db \<Rightarrow> McpServer list" where
  "list_all_by_user_paginated user_id limit offset d =
     take (nat (min limit MAX_SERVERS_PER_QUERY)) (drop offset (newest_first
       (filter (\<lambda>s. is_member_row (srv_workspace_id s) user_id d) (sd_servers d))))"

definition list_all_by_user :: "uuid \<Rightarrow> server_db \<Rightarrow> McpServer list" where
  "list_all_by_user user_id = list_all_by_user_paginated user_id MAX_SERVERS_PER_QUERY 0"

definition count_all_by_user :: "uuid \<Rightarrow> server_db \<Rightarrow> nat" where
  "count_all_by_user user_id d = card (srv_id ` {s \<in> set (sd_servers d). is_member_row (srv_workspace_id s) user_id d})"

definition server_check_user_access :: "uuid \<Rightarrow> uuid \<Rightarrow> uuid \<Rightarrow> server_db \<Rightarrow> bool" where
  "server_check_user_access server_id workspace_id user_id d \<longleftrightarrow>
     list_ex (\<lambda>s. srv_id s = server_id \<and> srv_workspace_id s = workspace_id) (sd_servers d) \<and> is_member_row workspace_id user_id d"

definition get_platform_stats :: "server_db \<Rightarrow> nat \<times> nat \<times> nat" where
  "get_platform_stats d =
     (length (sd_servers d), length (filter (\<lambda>s. srv_status s = ''running'') (sd_servers d)),
      card (srv_workspace_id ` set (sd_servers d)))"


section \<open>Regions\<close>

definition at_region :: "uuid \<Rightarrow> string \<Rightarrow> ServerRegion \<Rightarrow> bool" where
  "at_region server_id region r \<longleftrightarrow> rgn_server_id r = server_id \<and> rgn_region r = region"

definition region_by :: "(ServerRegion \<Rightarrow> bool) \<Rightarrow> server_db \<Rightarrow> ServerRegion option" where
  "region_by P d = find P (sd_regions d)"

text \<open>The primary region first, then by name.\<close>

definition region_list_by_server :: "uuid \<Rightarrow> server_db \<Rightarrow> ServerRegion list" where
  "region_list_by_server server_id d =
     (let rs = sort_key (\<lambda>r. map (of_char :: char \<Rightarrow> nat) (rgn_region r)) (filter (\<lambda>r. rgn_server_id r = server_id) (sd_regions d))
      in filter rgn_is_primary rs @ filter (\<lambda>r. \<not> rgn_is_primary r) rs)"

definition find_by_server_and_region :: "uuid \<Rightarrow> string \<Rightarrow> server_db \<Rightarrow> ServerRegion option" where
  "find_by_server_and_region server_id region = region_by (at_region server_id region)"

definition find_primary :: "uuid \<Rightarrow> server_db \<Rightarrow> ServerRegion option" where
  "find_primary server_id = region_by (\<lambda>r. rgn_server_id r = server_id \<and> rgn_is_primary r)"

definition region_create :: "uuid \<Rightarrow> uuid \<Rightarrow> string \<Rightarrow> bool \<Rightarrow> server_db \<Rightarrow> (ServerRegion \<times> server_db) option" where
  "region_create fresh server_id region is_primary d =
     (let r = \<lparr> rgn_id = fresh, rgn_server_id = server_id, rgn_region = region, rgn_is_primary = is_primary, rgn_machine_id = None,
               rgn_status = ''pending'', rgn_endpoint_url = None, rgn_cancel_at = None, rgn_created_at = sd_now d, rgn_updated_at = sd_now d \<rparr>
      in if \<not> list_ex (\<lambda>s. srv_id s = server_id) (sd_servers d) then None
         else map_option (\<lambda>t. (r, d\<lparr>sd_regions := t\<rparr>))
           (sql_insert (\<lambda>a b. rgn_id a = rgn_id b \<or> at_region (rgn_server_id a) (rgn_region a) b) r (sd_regions d)))"

definition region_change :: "uuid \<Rightarrow> string \<Rightarrow> (ServerRegion \<Rightarrow> ServerRegion) \<Rightarrow> server_db \<Rightarrow> server_db" where
  "region_change server_id region f d =
     d\<lparr>sd_regions := sql_update (at_region server_id region) (\<lambda>r. (f r)\<lparr>rgn_updated_at := sd_now d\<rparr>) (sd_regions d)\<rparr>"

definition region_update ::
  "uuid \<Rightarrow> string \<Rightarrow> UpdateServerRegion \<Rightarrow> server_db \<Rightarrow> ServerRegion option \<times> server_db" where
  "region_update server_id region u d =
     (let d' = region_change server_id region (\<lambda>r. r\<lparr>
            rgn_machine_id := or_else (usr_machine_id u) (rgn_machine_id r),
            rgn_status := unwrap_or (map_option RegionStatus_as_str (usr_status u)) (rgn_status r),
            rgn_endpoint_url := or_else (usr_endpoint_url u) (rgn_endpoint_url r)\<rparr>) d
      in (find_by_server_and_region server_id region d', d'))"

definition region_update_status :: "uuid \<Rightarrow> string \<Rightarrow> RegionStatus \<Rightarrow> server_db \<Rightarrow> server_db" where
  "region_update_status server_id region status =
     region_change server_id region (\<lambda>r. r\<lparr>rgn_status := RegionStatus_as_str status\<rparr>)"

definition region_delete :: "uuid \<Rightarrow> string \<Rightarrow> server_db \<Rightarrow> bool \<times> server_db" where
  "region_delete server_id region d =
     (let P = (\<lambda>r. at_region server_id region r \<and> \<not> rgn_is_primary r)
      in (list_ex P (sd_regions d), d\<lparr>sd_regions := sql_delete P (sd_regions d)\<rparr>))"

definition count_additional_regions :: "uuid \<Rightarrow> server_db \<Rightarrow> nat" where
  "count_additional_regions server_id d = length (filter (\<lambda>r. rgn_server_id r = server_id \<and> \<not> rgn_is_primary r) (sd_regions d))"

definition list_running_additional_regions :: "uuid \<Rightarrow> server_db \<Rightarrow> ServerRegion list" where
  "list_running_additional_regions workspace_id d =
     filter (\<lambda>r. \<not> rgn_is_primary r \<and> rgn_status r = ''running'' \<and>
       list_ex (\<lambda>s. srv_id s = rgn_server_id r \<and> srv_workspace_id s = workspace_id) (sd_servers d)) (sd_regions d)"

definition count_workspace_additional_regions :: "uuid \<Rightarrow> server_db \<Rightarrow> nat" where
  "count_workspace_additional_regions workspace_id d = length (list_running_additional_regions workspace_id d)"

definition mark_for_cancellation :: "uuid \<Rightarrow> string \<Rightarrow> timestamp \<Rightarrow> server_db \<Rightarrow> ServerRegion option \<times> server_db" where
  "mark_for_cancellation server_id region cancel_at d =
     (let d' = region_change server_id region (\<lambda>r. r\<lparr>rgn_cancel_at := Some cancel_at\<rparr>) d
      in (find_by_server_and_region server_id region d', d'))"

definition clear_cancellation :: "uuid \<Rightarrow> string \<Rightarrow> server_db \<Rightarrow> server_db" where
  "clear_cancellation server_id region = region_change server_id region (\<lambda>r. r\<lparr>rgn_cancel_at := None\<rparr>)"

definition list_regions_to_delete :: "server_db \<Rightarrow> ServerRegion list" where
  "list_regions_to_delete d = filter (\<lambda>r. case rgn_cancel_at r of None \<Rightarrow> False | Some t \<Rightarrow> t \<le> sd_now d) (sd_regions d)"


section \<open>Secrets\<close>

definition MAX_SECRETS_PER_SERVER :: nat where "MAX_SECRETS_PER_SERVER = 100"

definition at_key :: "uuid \<Rightarrow> string \<Rightarrow> Secret \<Rightarrow> bool" where
  "at_key server_id key r \<longleftrightarrow> sec_server_id r = server_id \<and> sec_key r = key"

definition secret_find_by_id :: "uuid \<Rightarrow> server_db \<Rightarrow> Secret option" where
  "secret_find_by_id i d = find (\<lambda>r. sec_id r = i) (sd_secrets d)"

definition secret_find_by_key :: "uuid \<Rightarrow> string \<Rightarrow> server_db \<Rightarrow> Secret option" where
  "secret_find_by_key server_id key d = find (at_key server_id key) (sd_secrets d)"

definition secret_list_by_server :: "uuid \<Rightarrow> server_db \<Rightarrow> Secret list" where
  "secret_list_by_server server_id d =
     take MAX_SECRETS_PER_SERVER (sort_key (\<lambda>r. map (of_char :: char \<Rightarrow> nat) (sec_key r))
       (filter (\<lambda>r. sec_server_id r = server_id) (sd_secrets d)))"

definition list_keys_by_server :: "uuid \<Rightarrow> server_db \<Rightarrow> string list" where
  "list_keys_by_server server_id d = map sec_key (secret_list_by_server server_id d)"

definition secret_row :: "uuid \<Rightarrow> timestamp \<Rightarrow> uuid \<Rightarrow> string \<Rightarrow> bytes \<Rightarrow> bytes \<Rightarrow> Secret" where
  "secret_row fresh now server_id key encrypted_value nonce = \<lparr>
     sec_id = fresh, sec_server_id = server_id, sec_key = key, sec_encrypted_value = encrypted_value, sec_nonce = nonce,
     sec_created_at = now, sec_updated_at = now \<rparr>"

definition secret_create :: "uuid \<Rightarrow> uuid \<Rightarrow> string \<Rightarrow> bytes \<Rightarrow> bytes \<Rightarrow> server_db \<Rightarrow> (Secret \<times> server_db) option" where
  "secret_create fresh server_id key encrypted_value nonce d =
     (let r = secret_row fresh (sd_now d) server_id key encrypted_value nonce
      in if \<not> list_ex (\<lambda>s. srv_id s = server_id) (sd_servers d) then None
         else map_option (\<lambda>t. (r, d\<lparr>sd_secrets := t\<rparr>))
           (sql_insert (\<lambda>a b. sec_id a = sec_id b \<or> at_key (sec_server_id a) (sec_key a) b) r (sd_secrets d)))"

definition secret_change :: "(Secret \<Rightarrow> bool) \<Rightarrow> bytes \<Rightarrow> bytes \<Rightarrow> server_db \<Rightarrow> server_db" where
  "secret_change P encrypted_value nonce d =
     d\<lparr>sd_secrets := sql_update P
         (\<lambda>r. r\<lparr>sec_encrypted_value := encrypted_value, sec_nonce := nonce, sec_updated_at := sd_now d\<rparr>) (sd_secrets d)\<rparr>"

definition secret_upsert :: "uuid \<Rightarrow> uuid \<Rightarrow> string \<Rightarrow> bytes \<Rightarrow> bytes \<Rightarrow> server_db \<Rightarrow> (Secret \<times> server_db) option" where
  "secret_upsert fresh server_id key encrypted_value nonce d =
     (if list_ex (at_key server_id key) (sd_secrets d) then
        (let d' = secret_change (at_key server_id key) encrypted_value nonce d
         in map_option (\<lambda>r. (r, d')) (secret_find_by_key server_id key d'))
      else secret_create fresh server_id key encrypted_value nonce d)"

definition secret_update :: "uuid \<Rightarrow> bytes \<Rightarrow> bytes \<Rightarrow> server_db \<Rightarrow> (Secret \<times> server_db) option" where
  "secret_update i encrypted_value nonce d =
     (let d' = secret_change (\<lambda>r. sec_id r = i) encrypted_value nonce d in map_option (\<lambda>r. (r, d')) (secret_find_by_id i d'))"

definition secret_delete :: "uuid \<Rightarrow> server_db \<Rightarrow> server_db" where
  "secret_delete i d = d\<lparr>sd_secrets := sql_delete (\<lambda>r. sec_id r = i) (sd_secrets d)\<rparr>"

definition delete_by_key :: "uuid \<Rightarrow> string \<Rightarrow> server_db \<Rightarrow> server_db" where
  "delete_by_key server_id key d = d\<lparr>sd_secrets := sql_delete (at_key server_id key) (sd_secrets d)\<rparr>"


section \<open>Error hints\<close>

definition list_active :: "string \<Rightarrow> server_db \<Rightarrow> ErrorHint list" where
  "list_active locale d =
     sort_key (\<lambda>h. - eh_priority h) (filter (\<lambda>h. eh_is_active h \<and> eh_locale h = locale) (sd_hints d))"

definition all_keywords_in :: "casing \<Rightarrow> string \<Rightarrow> ErrorHint \<Rightarrow> bool" where
  "all_keywords_in K error_lower h \<longleftrightarrow> list_all (\<lambda>k. str_contains error_lower (to_lower K k)) (eh_keywords h)"

definition find_matching_hint :: "casing \<Rightarrow> string \<Rightarrow> string \<Rightarrow> server_db \<Rightarrow> ErrorHint option" where
  "find_matching_hint K error_msg locale d =
     (let error_lower = to_lower K error_msg
      in case find (all_keywords_in K error_lower) (list_active locale d) of
           Some h \<Rightarrow> Some h
         | None \<Rightarrow> if locale \<noteq> ''en'' then find (all_keywords_in K error_lower) (list_active ''en'' d) else None)"

definition hint_find_by_id :: "uuid \<Rightarrow> server_db \<Rightarrow> ErrorHint option" where
  "hint_find_by_id i d = find (\<lambda>h. eh_id h = i) (sd_hints d)"

definition hint_create ::
  "uuid \<Rightarrow> string list \<Rightarrow> string \<Rightarrow> int option \<Rightarrow> string option \<Rightarrow> string option \<Rightarrow> server_db \<Rightarrow> (ErrorHint \<times> server_db) option" where
  "hint_create fresh keywords hint_message priority category locale d =
     (let h = \<lparr> eh_id = fresh, eh_keywords = keywords, eh_hint_message = hint_message, eh_priority = unwrap_or priority 0,
               eh_category = unwrap_or category ''general'', eh_locale = unwrap_or locale ''en'', eh_is_active = True,
               eh_created_at = sd_now d, eh_updated_at = sd_now d \<rparr>
      in map_option (\<lambda>t. (h, d\<lparr>sd_hints := t\<rparr>)) (sql_insert (\<lambda>a b. eh_id a = eh_id b) h (sd_hints d)))"

definition hint_update :: "uuid \<Rightarrow> UpdateErrorHint \<Rightarrow> server_db \<Rightarrow> ErrorHint option \<times> server_db" where
  "hint_update i u d =
     (let d' = d\<lparr>sd_hints := sql_update (\<lambda>h. eh_id h = i) (\<lambda>h. h\<lparr>
            eh_keywords := unwrap_or (ueh_keywords u) (eh_keywords h),
            eh_hint_message := unwrap_or (ueh_hint_message u) (eh_hint_message h),
            eh_priority := unwrap_or (ueh_priority u) (eh_priority h),
            eh_category := unwrap_or (ueh_category u) (eh_category h),
            eh_locale := unwrap_or (ueh_locale u) (eh_locale h),
            eh_is_active := unwrap_or (ueh_is_active u) (eh_is_active h),
            eh_updated_at := sd_now d\<rparr>) (sd_hints d)\<rparr>
      in (hint_find_by_id i d', d'))"

definition hint_delete :: "uuid \<Rightarrow> server_db \<Rightarrow> bool \<times> server_db" where
  "hint_delete i d =
     (list_ex (\<lambda>h. eh_id h = i) (sd_hints d), d\<lparr>sd_hints := sql_delete (\<lambda>h. eh_id h = i) (sd_hints d)\<rparr>)"

definition hint_count :: "server_db \<Rightarrow> nat" where
  "hint_count d = length (sd_hints d)"


section \<open>Settings and preferences\<close>

definition default_settings :: "timestamp \<Rightarrow> uuid \<Rightarrow> NotificationSettings" where
  "default_settings now user_id = \<lparr>
     ns_user_id = user_id, ns_email_deploy_success = True, ns_email_deploy_failure = True, ns_email_server_down = True,
     ns_email_weekly_report = False, ns_created_at = now, ns_updated_at = now \<rparr>"

definition user_exists :: "uuid \<Rightarrow> server_db \<Rightarrow> bool" where
  "user_exists user_id d \<longleftrightarrow> user_find_by_id user_id (sd_users d) \<noteq> None"

definition settings_of :: "uuid \<Rightarrow> server_db \<Rightarrow> NotificationSettings option" where
  "settings_of user_id d = find (\<lambda>r. ns_user_id r = user_id) (sd_settings d)"

definition settings_get_or_create :: "uuid \<Rightarrow> server_db \<Rightarrow> (NotificationSettings \<times> server_db) option" where
  "settings_get_or_create user_id d =
     (case settings_of user_id d of
        Some r \<Rightarrow> Some (r, d)
      | None \<Rightarrow>
          if user_exists user_id d
          then (let r = default_settings (sd_now d) user_id in Some (r, d\<lparr>sd_settings := sd_settings d @ [r]\<rparr>)) else None)"

definition settings_update ::
  "uuid \<Rightarrow> bool option \<Rightarrow> bool option \<Rightarrow> bool option \<Rightarrow> bool option \<Rightarrow> server_db \<Rightarrow> (NotificationSettings \<times> server_db) option" where
  "settings_update user_id success failure down weekly d =
     (let set = (\<lambda>r. r\<lparr>ns_email_deploy_success := unwrap_or success (ns_email_deploy_success r),
                      ns_email_deploy_failure := unwrap_or failure (ns_email_deploy_failure r),
                      ns_email_server_down := unwrap_or down (ns_email_server_down r),
                      ns_email_weekly_report := unwrap_or weekly (ns_email_weekly_report r),
                      ns_updated_at := sd_now d\<rparr>)
      in case settings_of user_id d of
           Some r \<Rightarrow> Some (set r, d\<lparr>sd_settings := sql_update (\<lambda>r. ns_user_id r = user_id) set (sd_settings d)\<rparr>)
         | None \<Rightarrow>
             if user_exists user_id d
             then (let r = set (default_settings (sd_now d) user_id) in Some (r, d\<lparr>sd_settings := sd_settings d @ [r]\<rparr>)) else None)"

definition find_by_user_id :: "uuid \<Rightarrow> server_db \<Rightarrow> UserPreferences option" where
  "find_by_user_id user_id d = find (\<lambda>r. up_user_id r = user_id) (sd_preferences d)"

definition preferences_set ::
  "uuid \<Rightarrow> (UserPreferences \<Rightarrow> UserPreferences) \<Rightarrow> UserPreferences \<Rightarrow> server_db \<Rightarrow> (UserPreferences \<times> server_db) option" where
  "preferences_set user_id f r0 d =
     (case find_by_user_id user_id d of
        Some r \<Rightarrow> (let f' = (\<lambda>r. (f r)\<lparr>up_updated_at := sd_now d\<rparr>)
           in Some (f' r, d\<lparr>sd_preferences := sql_update (\<lambda>r. up_user_id r = user_id) f' (sd_preferences d)\<rparr>))
      | None \<Rightarrow> if user_exists user_id d then Some (r0, d\<lparr>sd_preferences := sd_preferences d @ [r0]\<rparr>) else None)"

definition preferences_upsert :: "uuid \<Rightarrow> string list \<Rightarrow> server_db \<Rightarrow> (UserPreferences \<times> server_db) option" where
  "preferences_upsert user_id sidebar_order d =
     preferences_set user_id (\<lambda>r. r\<lparr>up_sidebar_order := sidebar_order\<rparr>)
       \<lparr>up_user_id = user_id, up_sidebar_order = sidebar_order, up_locale = ''en'', up_created_at = sd_now d, up_updated_at = sd_now d\<rparr> d"

definition get_locale :: "uuid \<Rightarrow> server_db \<Rightarrow> string" where
  "get_locale user_id d = unwrap_or (map_option up_locale (find_by_user_id user_id d)) ''en''"

definition update_locale :: "uuid \<Rightarrow> string \<Rightarrow> server_db \<Rightarrow> (unit \<times> server_db) option" where
  "update_locale user_id locale d =
     map_option (\<lambda>(_, d'). ((), d')) (preferences_set user_id (\<lambda>r. r\<lparr>up_locale := locale\<rparr>)
       \<lparr>up_user_id = user_id, up_sidebar_order = [], up_locale = locale, up_created_at = sd_now d, up_updated_at = sd_now d\<rparr> d)"


section \<open>Facts\<close>

lemma RegionStatus_read_back [simp]: "RegionStatus_from (RegionStatus_as_str r) = r"
  by (cases r) (simp_all add: RegionStatus_from_def)

end
