(* ===== verification/Build_Jobs.thy ===== *)
theory Build_Jobs
  imports Build_Input Fly_Machine Server_Store Transform
begin

text \<open>
  The builder (\<^verbatim>\<open>crates/builder/src/main.rs\<close>): its three kinds of jobs, the retry policy, the reaper of stuck deployments and
  the sweeper of unfinished teardowns. A job is a program over the builder's state: the database, the events and mails it
  sent, the cache of error hints, and what it waited for and tore down. What GitHub, git, Fly.io and the file system answer
  to one job is the record \<open>job_world\<close>; the database's clock also serves for \<^verbatim>\<open>Utc::now\<close> and \<^verbatim>\<open>Instant::now\<close>.
\<close>

section \<open>State\<close>

datatype LogStream = Stdout | Stderr

datatype builder_event =
    Status_Event uuid uuid DeploymentStatus "string option" nat
  | Log_Event uuid string LogStream

datatype mail = Success_Mail string string string | Failure_Mail string string string string

record PreprocessedErrorHint =
  ph_hint_message :: string
  ph_keywords_lower :: "string list"

type_synonym hints_cache = "(string \<times> PreprocessedErrorHint list \<times> timestamp) list"

record builder_state =
  bt_db :: server_db
  bt_events :: "builder_event list"
  bt_mails :: "mail list"
  bt_cache :: hints_cache
  bt_waits :: "nat list"
  bt_destroyed :: "string list"

datatype job_error = Db_Failed | Io_Failed string | Destroy_Failed anyhow

type_synonym 'a job = "(builder_state, job_error, 'a) handler"

record job_world =
  jw_tempdir :: "string + string"
  jw_github_app :: bool
  jw_tarball :: "int \<Rightarrow> string \<Rightarrow> string \<Rightarrow> string \<Rightarrow> string + nat \<times> (string + (string + tar_entry) list)"
  jw_fs_fails :: "fs_action \<Rightarrow> string option"
  jw_git :: "string list \<Rightarrow> git_outcome"
  jw_env :: build_env
  jw_io_error :: "string \<Rightarrow> string"
  jw_decrypt :: "bytes \<Rightarrow> bytes \<Rightarrow> bytes option"
  jw_fly :: fly_world
  jw_org :: string
  jw_probe :: "nat \<Rightarrow> probe_reply"
  jw_app_logs :: "string option"
  jw_time_limit :: "nat option"
  jw_batches :: "nat list"
  jw_machines :: machine_api
  jw_destroy :: "nat \<Rightarrow> fly_world"
  jw_email :: bool
  jw_app_url :: string
  jw_show_uuid :: "uuid \<Rightarrow> string"

abbreviation jw_case :: "job_world \<Rightarrow> casing" where
  "jw_case W \<equiv> be_case (jw_env W)"

text \<open>\<^verbatim>\<open>to_string\<close> of an \<^verbatim>\<open>anyhow\<close> error: its outermost message.\<close>

definition outer_message :: "anyhow \<Rightarrow> string" where
  "outer_message e = (case e of [] \<Rightarrow> [] | m # _ \<Rightarrow> m)"

definition on_db :: "(server_db \<Rightarrow> ('x \<times> server_db) option) \<Rightarrow> builder_state \<Rightarrow> ('x \<times> builder_state) option" where
  "on_db f b = map_option (\<lambda>(x, d). (x, b\<lparr>bt_db := d\<rparr>)) (f (bt_db b))"

definition on_store :: "(server_db \<Rightarrow> server_db) \<Rightarrow> builder_state \<Rightarrow> builder_state" where
  "on_store f b = b\<lparr>bt_db := f (bt_db b)\<rparr>"

text \<open>\<^verbatim>\<open>.await.ok();\<close>\<close>

definition attempt_change :: "(builder_state \<Rightarrow> builder_state) \<Rightarrow> 'a job \<Rightarrow> 'a job" where
  "attempt_change f k = run_sql (change f) (\<lambda>_. k)"

definition attempt_db :: "(server_db \<Rightarrow> ('x \<times> server_db) option) \<Rightarrow> 'a job \<Rightarrow> 'a job" where
  "attempt_db f k = run_sql (on_db f) (\<lambda>_. k)"

definition publish :: "builder_event \<Rightarrow> 'a job \<Rightarrow> 'a job" where
  "publish e = attempt_change (\<lambda>b. b\<lparr>bt_events := bt_events b @ [e]\<rparr>)"

definition send_mail :: "mail \<Rightarrow> 'a job \<Rightarrow> 'a job" where
  "send_mail m = attempt_change (\<lambda>b. b\<lparr>bt_mails := bt_mails b @ [m]\<rparr>)"

definition sleep_secs :: "nat \<Rightarrow> 'a job \<Rightarrow> 'a job" where
  "sleep_secs n = attempt_change (\<lambda>b. b\<lparr>bt_waits := bt_waits b @ [n]\<rparr>)"

definition log_db :: "uuid \<Rightarrow> string \<Rightarrow> 'a job \<Rightarrow> 'a job" where
  "log_db i msg = attempt_change (on_store (append_log i msg))"

definition log_to_db_and_ws :: "uuid \<Rightarrow> string \<Rightarrow> 'a job \<Rightarrow> 'a job" where
  "log_to_db_and_ws i msg k = log_db i msg (publish (Log_Event i msg Stdout) k)"

text \<open>The new status, with \<^verbatim>\<open>Utc::now()\<close> as the time of the end if the deployment ends.\<close>

definition status_update :: "DeploymentStatus \<Rightarrow> string option \<Rightarrow> bool \<Rightarrow> timestamp \<Rightarrow> UpdateDeployment" where
  "status_update status error_message ends now = \<lparr>
     ude_status = Some status, ude_build_logs = None, ude_error_message = error_message,
     ude_finished_at = (if ends then Some now else None) \<rparr>"

definition set_deployment :: "uuid \<Rightarrow> DeploymentStatus \<Rightarrow> string option \<Rightarrow> bool \<Rightarrow> server_db \<Rightarrow> (Deployment \<times> server_db) option" where
  "set_deployment i status error_message ends d = deploy_update i (status_update status error_message ends (sd_now d)) d"

text \<open>\<^verbatim>\<open>match .. { Ok(Some(x)) => k(x), _ => k0 }\<close>\<close>

definition load :: "(server_db \<Rightarrow> 'x option) \<Rightarrow> 'a job \<Rightarrow> ('x \<Rightarrow> 'a job) \<Rightarrow> 'a job" where
  "load f k0 k = run_sql (select (\<lambda>b. f (bt_db b))) (\<lambda>r. case r of Some (Some x) \<Rightarrow> k x | _ \<Rightarrow> k0)"


section \<open>Who is told, and in which language\<close>

definition send_deploy_notification :: "job_world \<Rightarrow> uuid \<Rightarrow> bool \<Rightarrow> string option \<Rightarrow> 'a job \<Rightarrow> 'a job" where
  "send_deploy_notification W server_id success error_message k =
     (if \<not> jw_email W then k
      else
        load (server_find_by_id server_id) k (\<lambda>server.
        load (\<lambda>d. ws_find_by_id (srv_workspace_id server) (sd_accounts d)) k (\<lambda>workspace.
        load (\<lambda>d. user_find_by_id (ws_owner_id workspace) (sd_users d)) k (\<lambda>owner.
        run_sql (on_db (settings_get_or_create (us_id owner))) (\<lambda>settings.
          case settings of
            None \<Rightarrow> k
          | Some settings \<Rightarrow>
              (let url = jw_app_url W @ ''/dashboard/servers/'' @ jw_show_uuid W server_id
               in if success \<and> ns_email_deploy_success settings
                  then send_mail (Success_Mail (us_email owner) (srv_name server) url) k
                  else if \<not> success \<and> ns_email_deploy_failure settings
                  then send_mail (Failure_Mail (us_email owner) (srv_name server) (unwrap_or error_message ''Unknown error'') (url @ ''/logs'')) k
                  else k))))))"

definition get_user_locale_for_server :: "uuid \<Rightarrow> (string \<Rightarrow> 'a job) \<Rightarrow> 'a job" where
  "get_user_locale_for_server server_id k =
     load (server_find_by_id server_id) (k ''en'') (\<lambda>server.
     load (\<lambda>d. ws_find_by_id (srv_workspace_id server) (sd_accounts d)) (k ''en'') (\<lambda>workspace.
     load (\<lambda>d. Some (get_locale (ws_owner_id workspace) d)) (k ''en'') k))"

definition plan_memory_ceiling_mb :: "uuid \<Rightarrow> (nat \<Rightarrow> 'a job) \<Rightarrow> 'a job" where
  "plan_memory_ceiling_mb server_id k =
     (let free = k (unat (max_memory_mb PlanLimits_default))
      in load (server_find_by_id server_id) free (\<lambda>server.
         load (\<lambda>d. ws_find_by_id (srv_workspace_id server) (sd_accounts d)) free (\<lambda>workspace.
           k (unat (max_memory_mb (Plan_limits (Plan_of_str (ws_plan workspace))))))))"


section \<open>Error hints\<close>

definition preprocess :: "casing \<Rightarrow> ErrorHint \<Rightarrow> PreprocessedErrorHint" where
  "preprocess K h = \<lparr>ph_hint_message = eh_hint_message h, ph_keywords_lower = map (to_lower K) (eh_keywords h)\<rparr>"

definition ERROR_HINTS_CACHE_TTL_SECS :: int where "ERROR_HINTS_CACHE_TTL_SECS = 300"
definition MAX_CACHE_LOCALES :: nat where "MAX_CACHE_LOCALES = 100"

definition cached_hints :: "timestamp \<Rightarrow> string \<Rightarrow> hints_cache \<Rightarrow> PreprocessedErrorHint list option" where
  "cached_hints now locale cache =
     (case map_of cache locale of
        Some (hints, last_updated) \<Rightarrow> if now - last_updated < ERROR_HINTS_CACHE_TTL_SECS then Some hints else None
      | None \<Rightarrow> None)"

text \<open>Among equally old entries the first of the list goes; the code's hash map has no order.\<close>

definition evict_oldest :: "hints_cache \<Rightarrow> hints_cache" where
  "evict_oldest cache =
     (if MAX_CACHE_LOCALES \<le> length cache
      then (case sort_key (\<lambda>(_, _, t). t) cache of [] \<Rightarrow> cache | (oldest, _) # _ \<Rightarrow> filter (\<lambda>e. fst e \<noteq> oldest) cache)
      else cache)"

definition store_hints :: "string \<Rightarrow> PreprocessedErrorHint list \<Rightarrow> timestamp \<Rightarrow> hints_cache \<Rightarrow> hints_cache" where
  "store_hints locale hints now cache = (locale, hints, now) # filter (\<lambda>e. fst e \<noteq> locale) (evict_oldest cache)"

definition get_cached_error_hints :: "casing \<Rightarrow> string \<Rightarrow> (PreprocessedErrorHint list \<Rightarrow> 'a job) \<Rightarrow> 'a job" where
  "get_cached_error_hints K locale k =
     run_sql (select (\<lambda>b. let now = sd_now (bt_db b) in
         case cached_hints now locale (bt_cache b) of Some hints \<Rightarrow> Inl hints | None \<Rightarrow> Inr (now, list_active locale (bt_db b))))
       (\<lambda>r. case r of
          None \<Rightarrow> k []
        | Some (Inl hints) \<Rightarrow> k hints
        | Some (Inr (now, hints)) \<Rightarrow>
            (let preprocessed = map (preprocess K) hints
             in attempt_change (\<lambda>b. b\<lparr>bt_cache := store_hints locale preprocessed now (bt_cache b)\<rparr>) (k preprocessed)))"

definition hint_matches :: "string \<Rightarrow> PreprocessedErrorHint \<Rightarrow> bool" where
  "hint_matches error_lower h \<longleftrightarrow> list_all (str_contains error_lower) (ph_keywords_lower h)"

definition hint_text :: "string \<Rightarrow> PreprocessedErrorHint list \<Rightarrow> string option" where
  "hint_text error_lower hints = map_option (\<lambda>h. [newline, newline] @ ph_hint_message h) (find (hint_matches error_lower) hints)"

definition analyze_error_for_hints :: "casing \<Rightarrow> string \<Rightarrow> string \<Rightarrow> (string option \<Rightarrow> 'a job) \<Rightarrow> 'a job" where
  "analyze_error_for_hints K error_msg locale k =
     (let error_lower = to_lower K error_msg
      in get_cached_error_hints K locale (\<lambda>hints.
           case hint_text error_lower hints of
             Some t \<Rightarrow> k (Some t)
           | None \<Rightarrow>
               if locale \<noteq> ''en'' then get_cached_error_hints K ''en'' (\<lambda>en_hints. k (hint_text error_lower en_hints))
               else k None))"


section \<open>The end of a build\<close>

definition full_message :: "string \<Rightarrow> string option \<Rightarrow> string" where
  "full_message error_msg hint = error_msg @ unwrap_or hint []"

definition report_failure :: "BuildJob \<Rightarrow> string \<Rightarrow> string option \<Rightarrow> 'a job \<Rightarrow> 'a job" where
  "report_failure job error_msg hint k =
     (let i = bj_deployment_id job; full = full_message error_msg hint
      in attempt_db (set_deployment i Deployment_Failed (Some full) True)
         (publish (Status_Event i (bj_server_id job) Deployment_Failed (Some full) 100)
         (publish (Log_Event i error_msg Stderr)
         (case hint of Some h \<Rightarrow> publish (Log_Event i h Stderr) (log_db i h k) | None \<Rightarrow> k))))"

text \<open>The version of the deployment counts as 0 when it cannot be read, and an unanswered question as no.\<close>

definition fail_server :: "BuildJob \<Rightarrow> 'a job \<Rightarrow> 'a job" where
  "fail_server job k =
     run_sql (select (\<lambda>b. deploy_find_by_id (bj_deployment_id job) (bt_db b))) (\<lambda>r.
       (let current_version = (case r of Some (Some dep) \<Rightarrow> dep_version dep | _ \<Rightarrow> 0)
        in run_sql (select (\<lambda>b. has_succeeded_deployment_after (bj_server_id job) current_version (bt_db b))) (\<lambda>newer.
             if unwrap_or newer False then k
             else attempt_change (on_store (server_update_status (bj_server_id job) Server_Failed None)) k)))"

definition handle_build_failure :: "job_world \<Rightarrow> BuildJob \<Rightarrow> string \<Rightarrow> unit job" where
  "handle_build_failure W job error_msg =
     get_user_locale_for_server (bj_server_id job) (\<lambda>locale.
     analyze_error_for_hints (jw_case W) error_msg locale (\<lambda>hint.
     report_failure job error_msg hint
     (fail_server job
     (send_deploy_notification W (bj_server_id job) False (Some (full_message error_msg hint)) (answer ())))))"

definition handle_build_success :: "job_world \<Rightarrow> BuildJob \<Rightarrow> DeployResult \<Rightarrow> unit job" where
  "handle_build_success W job deploy =
     (let i = bj_deployment_id job; server_id = bj_server_id job
      in attempt_db (set_deployment i Deployment_Succeeded None True)
         (publish (Status_Event i server_id Deployment_Succeeded None 100)
         (attempt_change (on_store (server_update_status server_id Server_Running (Some (dp_endpoint_url deploy))))
         (attempt_db (\<lambda>d. Some (region_update server_id (bj_region job)
             \<lparr>usr_machine_id = dp_machine_id deploy, usr_status = Some Region_Running, usr_endpoint_url = Some (dp_endpoint_url deploy)\<rparr> d))
         (send_deploy_notification W server_id True None (answer ()))))))"


section \<open>A build\<close>

text \<open>\<^verbatim>\<open>batches\<close> says how many lines were waiting each time the log consumer looked; it takes up to 50.\<close>

function batch_lines :: "nat list \<Rightarrow> string list \<Rightarrow> string list list" where
  "batch_lines ns [] = []"
| "batch_lines ns (l # ls) =
     (let n = max 1 (min 50 (case ns of [] \<Rightarrow> 1 | n # _ \<Rightarrow> n)) in take n (l # ls) # batch_lines (tl ns) (drop n (l # ls)))"
  by pat_completeness auto
termination
  by (relation "measure (\<lambda>(_, ls). length ls)") auto

fun flush_batches :: "uuid \<Rightarrow> string list list \<Rightarrow> 'a job \<Rightarrow> 'a job" where
  "flush_batches i [] k = k"
| "flush_batches i (batch # rest) k =
     foldr (\<lambda>line. publish (Log_Event i line Stdout)) batch (log_db i (str_join [newline] batch) (flush_batches i rest k))"

definition BUILD_DEPLOY_TIMEOUT_SECS :: nat where "BUILD_DEPLOY_TIMEOUT_SECS = 25 * 60"

definition probe_logs :: "probe_event list \<Rightarrow> string list" where
  "probe_logs es = List.map_filter (\<lambda>e. case e of Probe_Log m \<Rightarrow> Some m | _ \<Rightarrow> None) es"

definition fly_logs :: "fly_event list \<Rightarrow> string list" where
  "fly_logs es = List.map_filter (\<lambda>e. case e of Log m \<Rightarrow> Some m | _ \<Rightarrow> None) es"

definition broken_message :: "job_world \<Rightarrow> string \<Rightarrow> string" where
  "broken_message W detail =
     (let server_logs = (case jw_app_logs W of None \<Rightarrow> [] | Some l \<Rightarrow> extract_error_lines (jw_case W) l 12);
          causes = ''This is usually a wrong startup command, missing build output, or the server running out of memory.''
      in if server_logs \<noteq> [] then
           ''Deployment reached Fly.io but the MCP server did not start. '' @ causes @ [newline, newline] @
           ''Server error:'' @ [newline] @ server_logs
         else ''Deployment reached Fly.io but the MCP server did not start ('' @ detail @ ''). '' @ causes)"

definition deploy_and_verify ::
  "job_world \<Rightarrow> BuildJob \<Rightarrow> string \<Rightarrow> SecretEnv list \<Rightarrow> nat \<Rightarrow> string list \<times> (anyhow + DeployResult)" where
  "deploy_and_verify W job build_context secrets plan_memory_ceiling =
     (case build_and_deploy (jw_env W) (jw_fly W) (jw_org W) job build_context secrets plan_memory_ceiling of
        (events, Inl e) \<Rightarrow> (fly_logs events, Inl e)
      | (events, Inr deploy) \<Rightarrow>
          (let (probes, outcome) = verify_mcp_initialize (be_codec (jw_env W)) (dp_endpoint_url deploy) (bj_mcp_path job) (jw_probe W);
               logs = fly_logs events @ probe_logs probes
           in case outcome of
                Verified \<Rightarrow> (logs, Inr deploy)
              | Inconclusive detail \<Rightarrow>
                  (logs @ [''Warning: could not verify the MCP server responded; leaving as deployed. ('' @ detail @ '')''], Inr deploy)
              | Broken detail \<Rightarrow> (logs, Inl [broken_message W detail])))"

text \<open>\<open>jw_time_limit\<close> is the number of lines logged before the time was up, if it was.\<close>

definition bounded_deploy ::
  "job_world \<Rightarrow> BuildJob \<Rightarrow> string \<Rightarrow> SecretEnv list \<Rightarrow> nat \<Rightarrow> string list \<times> (anyhow + DeployResult)" where
  "bounded_deploy W job build_context secrets plan_memory_ceiling =
     (let (logs, r) = deploy_and_verify W job build_context secrets plan_memory_ceiling
      in case jw_time_limit W of
           None \<Rightarrow> (logs, r)
         | Some n \<Rightarrow> (take n logs,
             Inl [''Build and deploy exceeded the '' @ show_nat (BUILD_DEPLOY_TIMEOUT_SECS div 60) @ ''-minute limit and was aborted. '' @
                  ''This usually means the build is hanging (e.g. an interactive prompt or an extremely large image).'']))"

definition decrypted_secrets :: "job_world \<Rightarrow> Secret list \<Rightarrow> SecretEnv list" where
  "decrypted_secrets W secrets =
     List.map_filter (\<lambda>s. case jw_decrypt W (sec_encrypted_value s) (sec_nonce s) of
         Some value \<Rightarrow> if from_utf8 value then Some \<lparr>se_key = sec_key s, se_value = value\<rparr> else None
       | None \<Rightarrow> None) secrets"

definition clone_source :: "job_world \<Rightarrow> BuildJob \<Rightarrow> string \<Rightarrow> anyhow + unit" where
  "clone_source W job source_dir = snd (clone_repo (jw_git W) (bj_github_repo job) (bj_github_branch job) source_dir)"

definition download_source ::
  "job_world \<Rightarrow> BuildJob \<Rightarrow> string \<Rightarrow> string \<Rightarrow> string \<Rightarrow> (anyhow + unit \<Rightarrow> 'a job) \<Rightarrow> 'a job" where
  "download_source W job owner repo source_dir k =
     (let i = bj_deployment_id job
      in case (jw_github_app W, bj_github_installation_id job) of
           (True, Some installation_id) \<Rightarrow>
             log_to_db_and_ws i ''Downloading source from GitHub...''
             (case jw_tarball W installation_id owner repo (bj_github_branch job) of
                Inr (received, archive) \<Rightarrow>
                  log_to_db_and_ws i (''Downloaded '' @ show_nat received @ '' bytes, extracting...'')
                  (k (snd (extract_tarball (jw_fs_fails W) archive source_dir)))
              | Inl _ \<Rightarrow> log_to_db_and_ws i ''Falling back to git clone...'' (k (clone_source W job source_dir)))
         | _ \<Rightarrow> log_to_db_and_ws i ''Cloning public repository...'' (k (clone_source W job source_dir)))"

definition finish_build :: "job_world \<Rightarrow> BuildJob \<Rightarrow> string \<Rightarrow> unit job" where
  "finish_build W job build_context =
     (let i = bj_deployment_id job; server_id = bj_server_id job
      in run_sql (select (\<lambda>b. secret_list_by_server server_id (bt_db b))) (\<lambda>r.
         (let secrets = decrypted_secrets W (unwrap_or r [])
          in attempt_db (set_deployment i Deployment_Deploying None False)
             (publish (Status_Event i server_id Deployment_Deploying None 50)
             (plan_memory_ceiling_mb server_id (\<lambda>ceiling.
               (let (logs, result) = bounded_deploy W job build_context secrets ceiling
                in flush_batches i (batch_lines (jw_batches W) logs)
                   (case result of
                      Inr deploy \<Rightarrow> handle_build_success W job deploy
                    | Inl e \<Rightarrow> handle_build_failure W job (outer_message e)))))))))"

definition build_source :: "job_world \<Rightarrow> BuildJob \<Rightarrow> string \<Rightarrow> unit job" where
  "build_source W job source_dir =
     (let B = jw_env W; root = bj_root_directory job; i = bj_deployment_id job
      in case source_directory (be_files B) (jw_io_error W) source_dir root of
           Inl err_msg \<Rightarrow> handle_build_failure W job err_msg
         | Inr actual_source_dir \<Rightarrow>
             (let continue =
                (case workspace_entry B source_dir actual_source_dir job of
                   Some prefixed \<Rightarrow>
                     log_to_db_and_ws i (''Workspace monorepo member detected '' @ em_dash @ '' building from repo root with entry `'' @ prefixed @ ''`'')
                     (finish_build W (job\<lparr>bj_entry_command := Some prefixed\<rparr>) source_dir)
                 | None \<Rightarrow> finish_build W job actual_source_dir)
              in if whole_repository root then continue
                 else log_to_db_and_ws i (''Using root directory: '' @ root) continue))"

definition handle_build_job :: "job_world \<Rightarrow> BuildJob \<Rightarrow> unit job" where
  "handle_build_job W job =
     (let i = bj_deployment_id job; server_id = bj_server_id job
      in run_or (on_db (set_deployment i Deployment_Building None False)) Db_Failed (\<lambda>_.
         publish (Status_Event i server_id Deployment_Building None 10)
         (case str_split (CHR ''/'') (bj_github_repo job) of
            [owner, repo] \<Rightarrow>
              (case jw_tempdir W of
                 Inl e \<Rightarrow> refuse (Io_Failed e)
               | Inr source_dir \<Rightarrow>
                   download_source W job owner repo source_dir (\<lambda>r.
                     case r of
                       Inl e \<Rightarrow> handle_build_failure W job (''Failed to download source: '' @ outer_message e)
                     | Inr _ \<Rightarrow> build_source W job source_dir))
          | _ \<Rightarrow>
              attempt_db (set_deployment i Deployment_Failed (Some (''Invalid github_repo format: '' @ bj_github_repo job)) True)
              (answer ()))))"


section \<open>Deploying an image\<close>

definition deploy_job_failed :: "job_world \<Rightarrow> DeployJob \<Rightarrow> string \<Rightarrow> unit job" where
  "deploy_job_failed W job error_msg =
     (let i = dj_deployment_id job; server_id = dj_server_id job
      in get_user_locale_for_server server_id (\<lambda>locale.
         analyze_error_for_hints (jw_case W) error_msg locale (\<lambda>hint.
         (let full = full_message error_msg hint;
              finish = attempt_change (on_store (region_update_status server_id (dj_region job) Region_Failed))
                (send_deploy_notification W server_id False (Some full) (answer ()))
          in attempt_db (set_deployment i Deployment_Failed (Some full) True)
             (publish (Status_Event i server_id Deployment_Failed (Some full) 100)
             (run_sql (select (\<lambda>b. find_latest_by_server server_id (bt_db b))) (\<lambda>r.
               if (case r of Some (Some latest) \<Rightarrow> dep_id latest = i | _ \<Rightarrow> True)
               then attempt_change (on_store (server_update_status server_id Server_Failed None)) finish
               else finish)))))))"

definition handle_deploy_job :: "job_world \<Rightarrow> DeployJob \<Rightarrow> unit job" where
  "handle_deploy_job W job =
     (let i = dj_deployment_id job; server_id = dj_server_id job
      in run_or (on_db (set_deployment i Deployment_Deploying None False)) Db_Failed (\<lambda>_.
         attempt_change (on_store (region_update_status server_id (dj_region job) Region_Deploying))
         (publish (Status_Event i server_id Deployment_Deploying None 80)
         (case snd (fly_deploy (jw_machines W) (jw_case W) (jw_org W) job) of
            Inr endpoint_url \<Rightarrow>
              attempt_db (set_deployment i Deployment_Succeeded None True)
              (publish (Status_Event i server_id Deployment_Succeeded None 100)
              (attempt_change (on_store (server_update_status server_id Server_Running (Some endpoint_url)))
              (attempt_db (\<lambda>d. Some (region_update server_id (dj_region job)
                  \<lparr>usr_machine_id = None, usr_status = Some Region_Running, usr_endpoint_url = Some endpoint_url\<rparr> d))
              (send_deploy_notification W server_id True None (answer ())))))
          | Inl e \<Rightarrow> deploy_job_failed W job (outer_message e)))))"


section \<open>Tearing down\<close>

record DestroyJob =
  xj_server_id :: uuid
  xj_app_name :: string

text \<open>One run of \<^verbatim>\<open>flyctl apps destroy\<close>: when it fails the answer is lost, whether or not the app is gone.\<close>

definition fly_destroy :: "job_world \<Rightarrow> nat \<Rightarrow> string \<Rightarrow> builder_state \<Rightarrow> ((anyhow + unit) \<times> builder_state) option" where
  "fly_destroy W n app_name b =
     (case snd (destroy_app (jw_destroy W n) (jw_case W) app_name) of
        Inl e \<Rightarrow> Some (Inl e, b)
      | Inr _ \<Rightarrow> Some (Inr (), b\<lparr>bt_destroyed := app_name # bt_destroyed b\<rparr>))"

definition DESTROY_ATTEMPTS :: nat where "DESTROY_ATTEMPTS = 5"

definition destroy_backoff :: "nat \<Rightarrow> nat" where
  "destroy_backoff n = min (5 * 2 ^ (n - 1)) 30"

fun destroy_attempts :: "job_world \<Rightarrow> DestroyJob \<Rightarrow> nat \<Rightarrow> nat \<Rightarrow> anyhow \<Rightarrow> unit job" where
  "destroy_attempts W job n 0 last_err = refuse (Destroy_Failed last_err)"
| "destroy_attempts W job n (Suc left) last_err =
     run_sql (fly_destroy W n (xj_app_name job)) (\<lambda>r.
       case r of
         Some (Inr _) \<Rightarrow> run_or (\<lambda>b. change (on_store (server_delete (xj_server_id job))) b) Db_Failed (\<lambda>_. answer ())
       | Some (Inl e) \<Rightarrow> (if 0 < left then sleep_secs (destroy_backoff n) (destroy_attempts W job (Suc n) left e) else destroy_attempts W job (Suc n) left e)
       | None \<Rightarrow> (if 0 < left then sleep_secs (destroy_backoff n) (destroy_attempts W job (Suc n) left last_err) else destroy_attempts W job (Suc n) left last_err))"

definition handle_destroy_job :: "job_world \<Rightarrow> DestroyJob \<Rightarrow> unit job" where
  "handle_destroy_job W job = destroy_attempts W job 1 DESTROY_ATTEMPTS [''destroy failed'']"


section \<open>Housekeeping\<close>

definition STUCK_DEPLOYMENT_TIMEOUT_MINUTES :: int where "STUCK_DEPLOYMENT_TIMEOUT_MINUTES = 30"
definition DELETING_STUCK_TIMEOUT_MINUTES :: int where "DELETING_STUCK_TIMEOUT_MINUTES = 15"

text \<open>One tick of each of the background tasks.\<close>

definition reap_stuck_deployments :: "unit job" where
  "reap_stuck_deployments =
     attempt_db (\<lambda>d. Some (timeout_stuck_deployments STUCK_DEPLOYMENT_TIMEOUT_MINUTES d)) (answer ())"

fun sweep_servers :: "job_world \<Rightarrow> nat \<Rightarrow> McpServer list \<Rightarrow> unit job" where
  "sweep_servers W n [] = answer ()"
| "sweep_servers W n (server # rest) =
     run_sql (fly_destroy W n (srv_fly_app_name server)) (\<lambda>r.
       case r of
         Some (Inr _) \<Rightarrow> attempt_change (on_store (server_delete (srv_id server))) (sweep_servers W (Suc n) rest)
       | _ \<Rightarrow> sweep_servers W (Suc n) rest)"

definition sweep_orphans :: "job_world \<Rightarrow> unit job" where
  "sweep_orphans W =
     run_sql (select (\<lambda>b. list_deleting_older_than DELETING_STUCK_TIMEOUT_MINUTES (bt_db b))) (\<lambda>r.
       case r of None \<Rightarrow> answer () | Some servers \<Rightarrow> sweep_servers W 0 servers)"

definition MAX_JOB_RETRIES :: nat where "MAX_JOB_RETRIES = 3"

text \<open>The delay before the next run of a job, if there is one; \<open>millis\<close> is the millisecond of the clock.\<close>

definition retry_delay :: "nat \<Rightarrow> job_error + unit \<Rightarrow> nat \<Rightarrow> nat \<Rightarrow> nat option" where
  "retry_delay max_retries result attempt millis =
     (case result of
        Inr _ \<Rightarrow> None
      | Inl _ \<Rightarrow>
          if max_retries \<le> attempt then None
          else (let base = min (5 * 2 ^ min attempt 6) (2 ^ 64 - 1); capped = min base 300 in Some (capped + millis mod 3)))"

text \<open>
  The runs of one job: \<open>results\<close> and \<open>millis\<close> give the result of each run and the clock after it. Every clone of the request
  counts as an attempt, as \<^verbatim>\<open>clone_request\<close> does; \<open>attempt\<close> is the count after the first.
\<close>

function retry_waits :: "nat \<Rightarrow> (nat \<Rightarrow> job_error + unit) \<Rightarrow> (nat \<Rightarrow> nat) \<Rightarrow> nat \<Rightarrow> nat list" where
  "retry_waits max_retries results millis attempt =
     (case retry_delay max_retries (results attempt) attempt (millis attempt) of
        None \<Rightarrow> []
      | Some secs \<Rightarrow> secs # retry_waits max_retries results millis (Suc attempt))"
  by pat_completeness auto
termination
  by (relation "measure (\<lambda>(m, _, _, a). m - a)") (auto simp: retry_delay_def split: sum.splits if_splits)

declare retry_waits.simps [simp del]

datatype builder_request =
    Build_Request job_world BuildJob | Deploy_Request job_world DeployJob | Destroy_Request job_world DestroyJob
  | Reaper_Tick | Sweeper_Tick job_world | Clock_Tick nat

fun builder_handle :: "builder_request \<Rightarrow> unit job" where
  "builder_handle (Build_Request W job) = handle_build_job W job"
| "builder_handle (Deploy_Request W job) = handle_deploy_job W job"
| "builder_handle (Destroy_Request W job) = handle_destroy_job W job"
| "builder_handle Reaper_Tick = reap_stuck_deployments"
| "builder_handle (Sweeper_Tick W) = sweep_orphans W"
| "builder_handle (Clock_Tick n) = attempt_change (on_store (\<lambda>d. d\<lparr>sd_now := sd_now d + int n\<rparr>)) (answer ())"

definition worker_concurrency :: "(string \<Rightarrow> nat option) \<Rightarrow> string option \<Rightarrow> nat" where
  "worker_concurrency parse var =
     (case Option.bind var parse of Some n \<Rightarrow> if 1 \<le> n then n else 4 | None \<Rightarrow> 4)"

end
