(* ===== verification/Build_Steps.thy ===== *)
theory Build_Steps
  imports Build_Jobs
begin

text \<open>
  What the builder's programs are made of: all jobs but the teardowns consist of statements that leave the servers' identities,
  the record of teardowns and the bound of the hints' cache alone (\<open>quiet\<close>). The properties of the builder rest on this.
\<close>

section \<open>Programs made of certain statements\<close>

text \<open>All statements of the program change the store by an \<open>f\<close> with \<open>S f\<close>, and all its results satisfy \<open>L\<close>.\<close>

primrec made_of :: "(('d \<Rightarrow> 'd) \<Rightarrow> bool) \<Rightarrow> ('r \<Rightarrow> bool) \<Rightarrow> ('d, 'r) prog \<Rightarrow> bool" where
  "made_of S L (Return r) \<longleftrightarrow> L r"
| "made_of S L (Statement p f k) \<longleftrightarrow> S f \<and> made_of S L p \<and> (\<forall>d. made_of S L (k d))"

named_theorems made_rules \<open>what programs are made of\<close>

lemma made_answer [made_rules]: "L (Inr a) \<Longrightarrow> made_of S L (answer a)" "L (Inl e) \<Longrightarrow> made_of S L (refuse e)"
  by (simp_all add: answer_def refuse_def)

lemma made_run_sql:
  "S (\<lambda>d. case f d of None \<Rightarrow> d | Some (_, d') \<Rightarrow> d') \<Longrightarrow> (\<And>x. made_of S L (k x)) \<Longrightarrow> made_of S L (run_sql f k)"
  by (simp add: run_sql_def)

lemma made_run_or:
  "L (Inl e) \<Longrightarrow> S (\<lambda>d. case f d of None \<Rightarrow> d | Some (_, d') \<Rightarrow> d') \<Longrightarrow> (\<And>x. made_of S L (k x)) \<Longrightarrow> made_of S L (run_or f e k)"
  unfolding run_or_def by (rule made_run_sql) (auto simp: require_def made_rules split: option.splits)

lemma made_select: "S (\<lambda>d. d) \<Longrightarrow> (\<And>x. made_of S L (k x)) \<Longrightarrow> made_of S L (run_sql (select g) k)"
  by (rule made_run_sql) simp_all

lemma made_keeps:
  assumes "\<And>f d. S f \<Longrightarrow> I d \<Longrightarrow> I (f d)"
  shows "made_of S L p \<Longrightarrow> keeps I p (\<lambda>r _. L r)"
proof -
  have "made_of S L p \<Longrightarrow> rg (\<lambda>d d'. I d \<longrightarrow> I d') p (\<lambda>r _. L r) d" for d
    by (induction p arbitrary: d) (use assms in auto)
  then show "made_of S L p \<Longrightarrow> keeps I p (\<lambda>r _. L r)" by (simp add: keeps_def)
qed

lemma made_rg:
  assumes "\<And>f d. S f \<Longrightarrow> R d (f d)"
  shows "made_of S L p \<Longrightarrow> rg R p (\<lambda>r _. L r) d"
  by (induction p arbitrary: d) (use assms in auto)


section \<open>Statements that touch neither servers nor teardowns\<close>

definition apps :: "builder_state \<Rightarrow> (uuid \<times> string) set" where
  "apps b = (\<lambda>s. (srv_id s, srv_fly_app_name s)) ` set (sd_servers (bt_db b))"

definition cache_ok :: "builder_state \<Rightarrow> bool" where
  "cache_ok b \<longleftrightarrow> length (bt_cache b) \<le> MAX_CACHE_LOCALES \<and> distinct (map fst (bt_cache b))"

definition quiet :: "(builder_state \<Rightarrow> builder_state) \<Rightarrow> bool" where
  "quiet f \<longleftrightarrow> (\<forall>b. apps (f b) = apps b \<and> bt_destroyed (f b) = bt_destroyed b \<and> (cache_ok b \<longrightarrow> cache_ok (f b)))"

lemma quiet_same: "(\<And>b. apps (f b) = apps b \<and> bt_destroyed (f b) = bt_destroyed b \<and> bt_cache (f b) = bt_cache b) \<Longrightarrow> quiet f"
  by (simp add: quiet_def cache_ok_def)

lemma quiet_id [simp, made_rules]: "quiet (\<lambda>b. b)"
  by (simp add: quiet_same)

lemma made_attempt_change: "quiet f \<Longrightarrow> made_of quiet L k \<Longrightarrow> made_of quiet L (attempt_change f k)"
  unfolding attempt_change_def by (rule made_run_sql) simp_all

lemma made_load [made_rules]: "made_of quiet L k0 \<Longrightarrow> (\<And>x. made_of quiet L (k x)) \<Longrightarrow> made_of quiet L (load f k0 k)"
  unfolding load_def by (rule made_select) (auto split: option.splits)

lemma apps_bt [simp]: "apps (b\<lparr>bt_events := x\<rparr>) = apps b" "apps (b\<lparr>bt_mails := y\<rparr>) = apps b" "apps (b\<lparr>bt_waits := z\<rparr>) = apps b"
  "apps (b\<lparr>bt_cache := w\<rparr>) = apps b" "apps (b\<lparr>bt_destroyed := v\<rparr>) = apps b"
  by (simp_all add: apps_def)

lemma made_small [made_rules]:
  "made_of quiet L k \<Longrightarrow> made_of quiet L (publish e k)" "made_of quiet L k \<Longrightarrow> made_of quiet L (send_mail m k)"
  "made_of quiet L k \<Longrightarrow> made_of quiet L (sleep_secs n k)"
  unfolding publish_def send_mail_def sleep_secs_def by (rule made_attempt_change; simp add: quiet_same)+

text \<open>Database changes, by what they do to the servers.\<close>

definition same_apps :: "(server_db \<Rightarrow> server_db) \<Rightarrow> bool" where
  "same_apps f \<longleftrightarrow> (\<forall>d. (\<lambda>s. (srv_id s, srv_fly_app_name s)) ` set (sd_servers (f d)) =
     (\<lambda>s. (srv_id s, srv_fly_app_name s)) ` set (sd_servers d))"

lemma made_store: "same_apps f \<Longrightarrow> made_of quiet L k \<Longrightarrow> made_of quiet L (attempt_change (on_store f) k)"
  by (rule made_attempt_change) (simp_all add: quiet_same apps_def on_store_def same_apps_def)

definition keeps_servers :: "(server_db \<Rightarrow> ('x \<times> server_db) option) \<Rightarrow> bool" where
  "keeps_servers f \<longleftrightarrow> (\<forall>d x d'. f d = Some (x, d') \<longrightarrow> sd_servers d' = sd_servers d)"

lemma quiet_on_db: "keeps_servers f \<Longrightarrow> quiet (\<lambda>b. case on_db f b of None \<Rightarrow> b | Some (_, b') \<Rightarrow> b')"
  by (rule quiet_same) (auto simp: on_db_def keeps_servers_def apps_def split: option.splits prod.splits)

lemma made_db: "keeps_servers f \<Longrightarrow> made_of quiet L k \<Longrightarrow> made_of quiet L (attempt_db f k)"
  unfolding attempt_db_def by (rule made_run_sql) (simp_all add: quiet_on_db)

lemma same_appsI:
  assumes "\<And>d. map (\<lambda>s. (srv_id s, srv_fly_app_name s)) (sd_servers (f d)) = map (\<lambda>s. (srv_id s, srv_fly_app_name s)) (sd_servers d)"
  shows "same_apps f"
  unfolding same_apps_def by (simp only: list.set_map [symmetric] assms simp_thms)

lemma same_apps_rules [made_rules]:
  "same_apps (append_log i l)" "same_apps (server_update_status j st u)" "same_apps (region_update_status j r rs)"
  "same_apps (\<lambda>d. d\<lparr>sd_now := sd_now d + n\<rparr>)"
  by (rule same_appsI, simp add: append_log_def deploy_change_def server_update_status_def server_change_def sql_update_def
      region_update_status_def region_change_def)+

lemma keeps_servers_rules [made_rules]:
  "keeps_servers (set_deployment i st m e)" "keeps_servers (settings_get_or_create j)"
  "keeps_servers (\<lambda>d. Some (region_update j r u d))" "keeps_servers (\<lambda>d. Some (timeout_stuck_deployments n d))"
  by (auto simp: keeps_servers_def set_deployment_def deploy_update_def deploy_change_def settings_get_or_create_def Let_def
      region_update_def region_change_def timeout_stuck_deployments_def split: option.splits if_splits)

lemma cache_ok_store: "cache_ok b \<Longrightarrow> cache_ok (b\<lparr>bt_cache := store_hints l hs t (bt_cache b)\<rparr>)"
proof -
  assume ok: "cache_ok b"
  let ?c = "bt_cache b"
  have d: "distinct (map fst (evict_oldest ?c))"
    using ok by (cases "sort_key (\<lambda>(_, _, t). t) ?c") (auto simp: cache_ok_def evict_oldest_def intro: distinct_map_filter)
  have "length (evict_oldest ?c) < MAX_CACHE_LOCALES"
  proof (cases "MAX_CACHE_LOCALES \<le> length ?c")
    case True
    then have len: "length ?c = MAX_CACHE_LOCALES" using ok by (simp add: cache_ok_def)
    then obtain e es where s: "sort_key (\<lambda>(_, _, t). t) ?c = e # es"
      by (cases "sort_key (\<lambda>(_, _, t). t) ?c") (auto simp: MAX_CACHE_LOCALES_def dest: arg_cong [where f = length])
    then have "e \<in> set ?c" by (metis list.set_intros(1) set_sort)
    then have "length (filter (\<lambda>x. fst x \<noteq> fst e) ?c) < length ?c" by (rule length_filter_less) simp
    then show ?thesis using True s len by (cases e) (simp add: evict_oldest_def)
  qed (simp add: evict_oldest_def)
  then have "length (filter (\<lambda>e. fst e \<noteq> l) (evict_oldest ?c)) < MAX_CACHE_LOCALES"
    using length_filter_le le_less_trans by blast
  then show ?thesis using d by (auto simp: cache_ok_def store_hints_def intro: distinct_map_filter)
qed

lemma quiet_store: "quiet (\<lambda>b. b\<lparr>bt_cache := store_hints l hs t (bt_cache b)\<rparr>)"
  by (simp add: quiet_def cache_ok_store)


section \<open>The handlers\<close>

lemma made_hints [made_rules]: "(\<And>hs. made_of quiet L (k hs)) \<Longrightarrow> made_of quiet L (get_cached_error_hints K l k)"
  unfolding get_cached_error_hints_def
  by (rule made_select) (auto simp: Let_def split: option.splits sum.splits intro!: made_attempt_change quiet_store)

lemma made_analyze [made_rules]: "(\<And>h. made_of quiet L (k h)) \<Longrightarrow> made_of quiet L (analyze_error_for_hints K e l k)"
  by (auto simp: analyze_error_for_hints_def Let_def split: option.splits intro!: made_hints)

lemma made_locale [made_rules]: "(\<And>l. made_of quiet L (k l)) \<Longrightarrow> made_of quiet L (get_user_locale_for_server i k)"
  by (simp add: get_user_locale_for_server_def made_load)

lemma made_ceiling [made_rules]: "(\<And>n. made_of quiet L (k n)) \<Longrightarrow> made_of quiet L (plan_memory_ceiling_mb i k)"
  by (simp add: plan_memory_ceiling_mb_def Let_def made_load)

lemma made_notification [made_rules]: "made_of quiet L k \<Longrightarrow> made_of quiet L (send_deploy_notification W i ok m k)"
  unfolding send_deploy_notification_def Let_def
  by (auto split: option.splits intro!: made_load made_small made_run_sql quiet_on_db made_rules)

lemma made_log [made_rules]: "made_of quiet L k \<Longrightarrow> made_of quiet L (log_db i m k)" "made_of quiet L k \<Longrightarrow> made_of quiet L (log_to_db_and_ws i m k)"
  by (simp_all add: log_db_def log_to_db_and_ws_def made_store made_rules)

lemma made_report [made_rules]: "made_of quiet L k \<Longrightarrow> made_of quiet L (report_failure job m h k)"
  by (auto simp: report_failure_def Let_def split: option.splits intro!: made_db made_rules)

lemma made_fail_server [made_rules]: "made_of quiet L k \<Longrightarrow> made_of quiet L (fail_server job k)"
  unfolding fail_server_def Let_def by (intro made_select quiet_id allI) (simp add: made_store made_rules)

lemma made_failure [made_rules]: "L (Inr ()) \<Longrightarrow> made_of quiet L (handle_build_failure W job m)"
  by (simp add: handle_build_failure_def made_rules)

lemma made_success [made_rules]: "L (Inr ()) \<Longrightarrow> made_of quiet L (handle_build_success W job dr)"
  by (simp add: handle_build_success_def Let_def made_db made_store made_rules)

lemma made_publish_all: "made_of quiet L k \<Longrightarrow> made_of quiet L (foldr (\<lambda>l. publish (Log_Event i l Stdout)) ls k)"
  by (induction ls) (simp_all add: made_rules)

lemma made_flush [made_rules]: "made_of quiet L k \<Longrightarrow> made_of quiet L (flush_batches i bs k)"
  by (induction bs) (simp_all add: made_publish_all made_rules)

lemma made_finish [made_rules]: "L (Inr ()) \<Longrightarrow> made_of quiet L (finish_build W job dir)"
  unfolding finish_build_def Let_def
  by (rule made_select) (auto simp: made_db made_rules split: prod.splits sum.splits)

lemma made_source [made_rules]: "L (Inr ()) \<Longrightarrow> made_of quiet L (build_source W job dir)"
  by (auto simp: build_source_def Let_def made_rules split: sum.splits option.splits)

lemma made_download [made_rules]: "(\<And>r. made_of quiet L (k r)) \<Longrightarrow> made_of quiet L (download_source W job o' n dir k)"
  by (auto simp: download_source_def Let_def made_rules split: sum.splits option.splits bool.splits prod.splits)

lemma made_build [made_rules]: "(\<And>r. L r) \<Longrightarrow> made_of quiet L (handle_build_job W job)"
  unfolding handle_build_job_def Let_def
  by (rule made_run_or) (auto simp: quiet_on_db made_db made_rules split: list.splits sum.splits)

lemma made_deploy_failed [made_rules]: "L (Inr ()) \<Longrightarrow> made_of quiet L (deploy_job_failed W job m)"
  unfolding deploy_job_failed_def Let_def
  by (intro made_locale made_analyze made_db made_small made_select) (auto simp: made_store made_rules)

lemma made_deploy [made_rules]: "(\<And>r. L r) \<Longrightarrow> made_of quiet L (handle_deploy_job W job)"
  unfolding handle_deploy_job_def Let_def
  by (rule made_run_or) (auto simp: quiet_on_db made_db made_store made_rules split: sum.splits)

lemma made_reaper [made_rules]: "L (Inr ()) \<Longrightarrow> made_of quiet L reap_stuck_deployments"
  by (simp add: reap_stuck_deployments_def made_db made_rules)

lemma made_clock [made_rules]: "L (Inr ()) \<Longrightarrow> made_of quiet L (builder_handle (Clock_Tick n))"
  by (simp add: made_store made_rules)


section \<open>A sample world\<close>

text \<open>Commands succeed, nothing is written by Fly.io, and the builder knows one deployment of one server.\<close>

definition sample_fly :: fly_world where
  "sample_fly = \<lparr>fw_command = \<lambda>_ _. Ran True [] [], fw_app_lookup = \<lambda>_. None, fw_machines = \<lambda>_. Inl [], fw_writes = \<lambda>_. None,
     fw_after = be_files sample_build, fw_debug = \<lambda>_. [], fw_adapter = []\<rparr>"

definition sample_world :: job_world where
  "sample_world = \<lparr>
     jw_tempdir = Inr ''/tmp/b'', jw_github_app = False, jw_tarball = \<lambda>_ _ _ _. Inl [], jw_fs_fails = \<lambda>_. None,
     jw_git = \<lambda>_. Git_Ran True [] [], jw_env = sample_build, jw_io_error = \<lambda>_. [], jw_decrypt = \<lambda>_ _. None, jw_fly = sample_fly,
     jw_org = ''org'', jw_probe = \<lambda>_. Probe_Failed [], jw_app_logs = None, jw_time_limit = None, jw_batches = [],
     jw_machines = \<lparr>ma_create_app = Inl [], ma_create_machine = Inl [], ma_poll = \<lambda>_. Inl []\<rparr>, jw_destroy = \<lambda>_. sample_fly,
     jw_email = False, jw_app_url = [], jw_show_uuid = \<lambda>_. []\<rparr>"

definition sample_create :: CreateServer where
  "sample_create = \<lparr>
     crs_workspace_id = 7, crs_name = ''s'', crs_slug = ''s'', crs_description = None, crs_github_repo = ''o/r'', crs_github_branch = ''main'',
     crs_github_installation_id = None, crs_runtime = Runtime_Node, crs_visibility = Visibility_Private, crs_access_mode = AccessMode_Public, crs_transport = Transport_Sse,
     crs_region = ''iad'', crs_root_directory = [], crs_mcp_path = ''/mcp'', crs_entry_command = None, crs_build_command = None,
     crs_auth_enabled = True, crs_memory_mb = None, crs_port = None \<rparr>"

definition sample_server_row :: McpServer where
  "sample_server_row = (server_row (\<lambda>_. ''2'') 2 0 sample_create)\<lparr>srv_status := ''deleting''\<rparr>"

definition sample_deployment :: Deployment where
  "sample_deployment = \<lparr> dep_id = 1, dep_server_id = 2, dep_version = 1, dep_commit_sha = ''HEAD'', dep_status = ''pending'',
     dep_build_logs = None, dep_error_message = None, dep_started_at = 0, dep_finished_at = None, dep_deployed_by = None \<rparr>"

definition sample_builder :: builder_state where
  "sample_builder = \<lparr>
     bt_db = \<lparr>sd_accounts = \<lparr>wd_workspaces = [], wd_members = []\<rparr>, sd_users = \<lparr>ud_users = [], ud_tokens = []\<rparr>,
       sd_servers = [sample_server_row], sd_deployments = [sample_deployment], sd_regions = [], sd_secrets = [], sd_hints = [],
       sd_settings = [], sd_preferences = [], sd_now = 10000\<rparr>,
     bt_events = [], bt_mails = [], bt_cache = [], bt_waits = [], bt_destroyed = [] \<rparr>"

lemma sample_destroy: "fly_destroy sample_world n app b = Some (Inr (), b\<lparr>bt_destroyed := app # bt_destroyed b\<rparr>)"
  by (simp add: fly_destroy_def sample_world_def sample_fly_def destroy_app_def on_command_def finished_def Let_def)

lemma sample_server_simps [simp]:
  "srv_id sample_server_row = 2" "srv_fly_app_name sample_server_row = ''mcp-2''" "srv_status sample_server_row = ''deleting''"
  "srv_updated_at sample_server_row = 0"
  by (simp_all add: sample_server_row_def server_row_def new_fly_app_name_def)

end
