(* ===== verification/Build_Service.thy ===== *)
theory Build_Service
  imports Build_Steps
begin

text \<open>
  The runs of a job: how often it is run again, and what its answer says of what is recorded. Triples of the runs in which no
  statement fails follow the combinators of which the jobs are made.
\<close>

section \<open>Runs of a job\<close>

lemma retry_delay_Some:
  "retry_delay m r a ms = Some w \<Longrightarrow> (\<exists>e. r = Inl e) \<and> a < m \<and> 5 \<le> w \<and> w \<le> 302"
  by (auto simp: retry_delay_def Let_def split: sum.splits if_splits intro: le_trans [OF _ le_add1])

lemma retry_waits_upt:
  "length (retry_waits m results millis a) = length (takeWhile (\<lambda>i. \<exists>e. results i = Inl e) [a..<m])"
proof (induction m results millis a rule: retry_waits.induct)
  case (1 m results millis a)
  show ?case
  proof (cases "retry_delay m (results a) a (millis a)")
    case None
    then have "takeWhile (\<lambda>i. \<exists>e. results i = Inl e) [a..<m] = []"
      by (cases "a < m") (auto simp: retry_delay_def Let_def upt_conv_Cons split: sum.splits if_splits)
    then show ?thesis using None by (simp add: retry_waits.simps)
  next
    case (Some w)
    then show ?thesis using 1 retry_delay_Some [OF Some] by (simp add: retry_waits.simps [of m results millis a] upt_conv_Cons)
  qed
qed

lemma retry_waits_bounds: "set (retry_waits m results millis a) \<subseteq> {5..302}"
proof (induction m results millis a rule: retry_waits.induct)
  case (1 m results millis a)
  show ?case
  proof (cases "retry_delay m (results a) a (millis a)")
    case (Some w)
    then show ?thesis using 1 retry_delay_Some [OF Some] by (simp add: retry_waits.simps [of m results millis a])
  qed (simp add: retry_waits.simps [of m results millis a])
qed

text \<open>
  A job is run again exactly as long as its runs fail and its count of attempts is below the limit, so at most three more
  times; before each run the worker waits between 5 seconds and 5 minutes and 2 seconds. No job is run for ever.
\<close>

theorem retries_end:
  "length (retry_waits MAX_JOB_RETRIES results millis attempt) =
     length (takeWhile (\<lambda>i. \<exists>e. results i = Inl e) [attempt..<MAX_JOB_RETRIES]) \<and>
   length (retry_waits MAX_JOB_RETRIES results millis attempt) \<le> 3 \<and>
   set (retry_waits MAX_JOB_RETRIES results millis attempt) \<subseteq> {5..302}"
proof -
  have "length (takeWhile (\<lambda>i. \<exists>e. results i = Inl e) [attempt..<MAX_JOB_RETRIES]) \<le> 3"
    by (rule le_trans [OF length_takeWhile_le]) (simp add: MAX_JOB_RETRIES_def)
  then show ?thesis using retry_waits_upt [of MAX_JOB_RETRIES] retry_waits_bounds by simp
qed


section \<open>The answer of a job\<close>

text \<open>A Hoare triple for a run in which no statement fails.\<close>

definition triple :: "(builder_state \<Rightarrow> bool) \<Rightarrow> 'a job \<Rightarrow> (builder_state \<Rightarrow> bool) \<Rightarrow> bool" where
  "triple P p Q \<longleftrightarrow> (\<forall>b. P b \<longrightarrow> Q (snd (run p [] b)))"

definition answers :: "unit job \<Rightarrow> bool" where
  "answers p \<longleftrightarrow> (\<forall>fs b. fst (run p fs b) = Inr ())"

named_theorems triple_rules \<open>triples of the builder's programs\<close>
named_theorems answers_rules \<open>programs that always answer\<close>

text \<open>What is seen of a deployment: whether it exists, its status and when it ended.\<close>

definition seen :: "uuid \<Rightarrow> server_db \<Rightarrow> (string \<times> timestamp option) option" where
  "seen i d = map_option (\<lambda>r. (dep_status r, dep_finished_at r)) (deploy_find_by_id i d)"

definition known :: "uuid \<Rightarrow> builder_state \<Rightarrow> bool" where
  "known i b \<longleftrightarrow> seen i (bt_db b) \<noteq> None"

definition ended :: "uuid \<Rightarrow> builder_state \<Rightarrow> bool" where
  "ended i b \<longleftrightarrow> (\<exists>status t. seen i (bt_db b) = Some (status, Some t) \<and> deployment_is_finished status)"

definition watched :: "(builder_state \<Rightarrow> bool) \<Rightarrow> bool" where
  "watched P \<longleftrightarrow> (\<exists>i. \<forall>b b'. seen i (bt_db b) = seen i (bt_db b') \<longrightarrow> P b = P b')"

lemma watched_both [simp, intro]: "watched (known i)" "watched (ended i)"
  unfolding watched_def known_def ended_def by (rule exI [of _ i], simp)+

lemma watchesD: "watched P \<Longrightarrow> P b \<Longrightarrow> (\<And>i. seen i (bt_db b') = seen i (bt_db b)) \<Longrightarrow> P b'"
  unfolding watched_def by metis

lemma triple_answer: "(\<And>b. P b \<Longrightarrow> Q b) \<Longrightarrow> triple P (answer a) Q"
  by (simp add: triple_def)

lemma triple_select: "(\<And>x. triple P (k (Some x)) Q) \<Longrightarrow> triple P (run_sql (select g) k) Q"
  by (simp add: triple_def)

lemma triple_load: "triple P k0 Q \<Longrightarrow> (\<And>x. triple P (k x) Q) \<Longrightarrow> triple P (load f k0 k) Q"
  unfolding load_def by (rule triple_select) (auto split: option.splits)

lemma triple_change: "(\<And>b. P b \<Longrightarrow> P' (f b)) \<Longrightarrow> triple P' k Q \<Longrightarrow> triple P (attempt_change f k) Q"
  by (simp add: triple_def attempt_change_def)

lemma triple_run_db:
  assumes "\<And>b. P b \<Longrightarrow> f (bt_db b) = None \<Longrightarrow> P' b" and "\<And>b x d. P b \<Longrightarrow> f (bt_db b) = Some (x, d) \<Longrightarrow> P' (b\<lparr>bt_db := d\<rparr>)"
    and "\<And>x. triple P' (k x) Q"
  shows "triple P (run_sql (on_db f) k) Q"
  unfolding triple_def
proof (intro allI impI)
  fix b assume "P b"
  then show "Q (snd (run (run_sql (on_db f) k) [] b))"
    using assms by (cases "f (bt_db b)") (auto simp: on_db_def triple_def)
qed

lemma triple_db:
  assumes "\<And>b. P b \<Longrightarrow> f (bt_db b) = None \<Longrightarrow> P' b" and "\<And>b x d. P b \<Longrightarrow> f (bt_db b) = Some (x, d) \<Longrightarrow> P' (b\<lparr>bt_db := d\<rparr>)"
    and "triple P' k Q"
  shows "triple P (attempt_db f k) Q"
  unfolding attempt_db_def by (rule triple_run_db) (use assms in auto)

text \<open>Statements that do not show in what is watched.\<close>

lemma triple_unseen:
  "watched P \<Longrightarrow> (\<And>i d. seen i (f d) = seen i d) \<Longrightarrow> triple P k Q \<Longrightarrow> triple P (attempt_change (on_store f) k) Q"
  by (rule triple_change) (auto simp: on_store_def elim: watchesD)

lemma triple_unseen_db:
  "watched P \<Longrightarrow> (\<And>i d x d'. f d = Some (x, d') \<Longrightarrow> seen i d' = seen i d) \<Longrightarrow> (\<And>x. triple P (k x) Q) \<Longrightarrow>
   triple P (run_sql (on_db f) k) Q"
  by (rule triple_run_db [where P' = P]) (auto elim: watchesD)

lemma triple_small:
  assumes "watched P" and "triple P k Q"
  shows "triple P (publish e k) Q" "triple P (send_mail m k) Q" "triple P (sleep_secs n k) Q"
  unfolding publish_def send_mail_def sleep_secs_def
  by (rule triple_change [OF _ assms(2)]; erule watchesD [OF assms(1)]; simp)+

lemma seen_rules [simp]:
  "seen i (append_log j l d) = seen i d" "seen i (server_update_status j st u d) = seen i d"
  "seen i (region_update_status j r rs d) = seen i d"
  by (simp_all add: seen_def deploy_find_by_id_def append_log_def deploy_change_def server_update_status_def server_change_def
      region_update_status_def region_change_def find_sql_update option.map_comp comp_def) (cases "find (\<lambda>r. dep_id r = i) (sd_deployments d)"; simp)

lemma seen_db_rules:
  "settings_get_or_create j d = Some (x, d') \<Longrightarrow> seen i d' = seen i d"
  "Some (region_update j r u d) = Some (y, d') \<Longrightarrow> seen i d' = seen i d"
  by (auto simp: seen_def deploy_find_by_id_def settings_get_or_create_def Let_def region_update_def region_change_def
      split: option.splits if_splits)

lemma set_deployment_seen:
  "set_deployment i st m e d = (case seen i d of
     None \<Rightarrow> None
   | Some (s, t) \<Rightarrow> Some (the (deploy_find_by_id i (snd (the (set_deployment i st m e d)))), snd (the (set_deployment i st m e d))))"
  "seen i d = Some (s, t) \<Longrightarrow> seen i (snd (the (set_deployment i st m e d))) = Some (DeploymentStatus_str st, if e then Some (sd_now d) else t)"
  by (auto simp: set_deployment_def deploy_update_def Let_def seen_def deploy_find_by_id_def deploy_change_def
      find_sql_update updated_deployment_def status_update_def unwrap_or_def or_else_def split: option.splits dest: find_Some_in)

text \<open>The pieces of a job, for what they leave as it is.\<close>

lemma triple_locale: "(\<And>l. triple P (k l) Q) \<Longrightarrow> triple P (get_user_locale_for_server j k) Q"
  by (simp add: get_user_locale_for_server_def triple_load)

lemma triple_ceiling: "(\<And>n. triple P (k n) Q) \<Longrightarrow> triple P (plan_memory_ceiling_mb j k) Q"
  by (simp add: plan_memory_ceiling_mb_def Let_def triple_load)

lemma triple_hints: "watched P \<Longrightarrow> (\<And>hs. triple P (k hs) Q) \<Longrightarrow> triple P (get_cached_error_hints K l k) Q"
  unfolding get_cached_error_hints_def
  by (rule triple_select) (auto simp: Let_def split: sum.splits intro!: triple_change [where P' = P] elim: watchesD)

lemma triple_analyze:
  assumes "watched P" and "\<And>h. triple P (k h) Q"
  shows "triple P (analyze_error_for_hints K e l k) Q"
proof -
  have *: "triple P (get_cached_error_hints K ''en'' (\<lambda>hs. k (g hs))) Q" for g
    by (rule triple_hints [OF assms(1)]) (rule assms(2))
  show ?thesis unfolding analyze_error_for_hints_def Let_def
    by (rule triple_hints [OF assms(1)]) (use * assms(2) in \<open>auto split: option.splits\<close>)
qed

lemma triple_notification:
  assumes "watched P" and "triple P k Q"
  shows "triple P (send_deploy_notification W j ok m k) Q"
proof -
  have "triple P (run_sql (on_db (settings_get_or_create o')) (\<lambda>r. case r of None \<Rightarrow> k | Some x \<Rightarrow> g x)) Q"
    if "\<And>x. triple P (g x) Q" for o' g
    by (rule triple_unseen_db [OF assms(1)]) (auto simp: seen_db_rules(1) that assms(2) split: option.splits)
  note settings = this
  show ?thesis unfolding send_deploy_notification_def Let_def
    by (auto intro!: triple_load settings triple_small [OF assms(1)] assms(2))
qed

lemma triple_log:
  assumes "watched P" and "triple P k Q"
  shows "triple P (log_db j m k) Q" "triple P (log_to_db_and_ws j m k) Q"
  by (auto simp: log_db_def log_to_db_and_ws_def intro!: triple_unseen [OF assms(1)] triple_small [OF assms(1)] assms(2))

lemma triple_set_status:
  assumes "watched P" and "triple P k Q"
  shows "triple P (attempt_change (on_store (server_update_status j st u)) k) Q"
    "triple P (attempt_change (on_store (region_update_status j r rs)) k) Q"
    "triple P (attempt_db (\<lambda>d. Some (region_update j r ru d)) k) Q"
  unfolding attempt_db_def
  by (rule triple_unseen [OF assms(1)] triple_unseen_db [OF assms(1)]; simp add: assms(2) seen_db_rules(2))+

lemma triple_ends:
  assumes "triple (ended i) k Q" and "e" and "deployment_is_finished (DeploymentStatus_str st)"
  shows "triple (known i) (attempt_db (set_deployment i st m e) k) Q"
proof (rule triple_db [where P' = "ended i"])
  fix b assume "known i b" and "set_deployment i st m e (bt_db b) = None"
  then show "ended i b" using set_deployment_seen(1) [of i st m e "bt_db b"] by (auto simp: known_def split: option.splits)
next
  fix b x d assume "known i b" and r: "set_deployment i st m e (bt_db b) = Some (x, d)"
  then obtain s t where "seen i (bt_db b) = Some (s, t)" by (auto simp: known_def)
  from set_deployment_seen(2) [OF this, of st m e] r assms(2,3)
  show "ended i (b\<lparr>bt_db := d\<rparr>)" by (auto simp: ended_def)
qed (rule assms(1))

lemma triple_keeps_known:
  assumes "triple (known i) k Q"
  shows "triple (known i) (attempt_db (set_deployment i st m e) k) Q"
proof (rule triple_db [where P' = "known i"])
  fix b x d assume "known i b" and r: "set_deployment i st m e (bt_db b) = Some (x, d)"
  then obtain s t where "seen i (bt_db b) = Some (s, t)" by (auto simp: known_def)
  from set_deployment_seen(2) [OF this, of st m e] r show "known i (b\<lparr>bt_db := d\<rparr>)" by (auto simp: known_def)
qed (use assms in auto)

lemma triple_report:
  assumes "triple (ended (bj_deployment_id job)) k Q"
  shows "triple (known (bj_deployment_id job)) (report_failure job m h k) Q"
proof -
  let ?i = "bj_deployment_id job"
  have "triple (ended ?i) (case h of Some h \<Rightarrow> publish (Log_Event ?i h Stderr) (log_db ?i h k) | None \<Rightarrow> k) Q"
    using assms by (auto split: option.splits intro!: triple_small triple_log)
  then show ?thesis unfolding report_failure_def Let_def
    by (intro triple_ends triple_small) (simp_all add: deployment_is_finished_def)
qed

lemma triple_fail_server:
  assumes "watched P" and "triple P k Q"
  shows "triple P (fail_server job k) Q"
  unfolding fail_server_def Let_def by (intro triple_select) (auto intro!: triple_set_status [OF assms(1)] assms(2))

lemma triple_failure: "triple (known (bj_deployment_id job)) (handle_build_failure W job m) (ended (bj_deployment_id job))"
  unfolding handle_build_failure_def
  by (intro triple_locale triple_analyze triple_report triple_fail_server triple_notification triple_answer watched_both) simp

lemma triple_success: "triple (known (bj_deployment_id job)) (handle_build_success W job dr) (ended (bj_deployment_id job))"
  unfolding handle_build_success_def Let_def
  by (intro triple_ends triple_small triple_set_status triple_notification triple_answer watched_both)
    (simp_all add: deployment_is_finished_def)

lemma triple_flush:
  assumes "watched P" and "triple P k Q"
  shows "triple P (flush_batches j bs k) Q"
proof (induction bs)
  case (Cons ls bs)
  have "triple P (foldr (\<lambda>l. publish (Log_Event j l Stdout)) ls k') Q" if "triple P k' Q" for k'
    by (induction ls) (use that in \<open>auto intro: triple_small [OF assms(1)]\<close>)
  then show ?case using Cons by (auto intro: triple_log [OF assms(1)])
qed (simp add: assms(2))

lemma triple_finish: "triple (known (bj_deployment_id job)) (finish_build W job dir) (ended (bj_deployment_id job))"
  unfolding finish_build_def Let_def
  by (rule triple_select)
    (auto split: prod.splits sum.splits intro!: triple_keeps_known triple_small triple_ceiling triple_flush triple_success triple_failure)

lemma triple_source: "triple (known (bj_deployment_id job)) (build_source W job dir) (ended (bj_deployment_id job))"
proof -
  have "triple (known (bj_deployment_id job)) (finish_build W (job\<lparr>bj_entry_command := c\<rparr>) d) (ended (bj_deployment_id job))" for c d
    using triple_finish [of "job\<lparr>bj_entry_command := c\<rparr>"] by simp
  then show ?thesis
    by (auto simp: build_source_def Let_def split: sum.splits option.splits
        intro!: triple_failure triple_log triple_finish)
qed

lemma triple_download:
  assumes "watched P" and "\<And>r. triple P (k r) Q"
  shows "triple P (download_source W job o' n dir k) Q"
  unfolding download_source_def Let_def
  by (auto split: sum.splits option.splits bool.splits prod.splits intro!: triple_log [OF assms(1)] assms(2))

lemma made_result: "made_of S L p \<Longrightarrow> L (fst (run p fs b))"
  by (induction p arbitrary: fs b) (auto split: list.splits fate.splits)

text \<open>A build after its deployment was marked as being built.\<close>

definition build_body :: "job_world \<Rightarrow> BuildJob \<Rightarrow> unit job" where
  "build_body W job =
     (case str_split (CHR ''/'') (bj_github_repo job) of
        [owner, repo] \<Rightarrow>
          (case jw_tempdir W of
             Inl e \<Rightarrow> refuse (Io_Failed e)
           | Inr source_dir \<Rightarrow>
               download_source W job owner repo source_dir (\<lambda>r.
                 case r of
                   Inl e \<Rightarrow> handle_build_failure W job (''Failed to download source: '' @ outer_message e)
                 | Inr _ \<Rightarrow> build_source W job source_dir))
      | _ \<Rightarrow>
          attempt_db (set_deployment (bj_deployment_id job) Deployment_Failed (Some (''Invalid github_repo format: '' @ bj_github_repo job)) True)
          (answer ()))"

abbreviation build_begun :: "BuildJob \<Rightarrow> builder_event" where
  "build_begun job \<equiv> Status_Event (bj_deployment_id job) (bj_server_id job) Deployment_Building None 10"

lemma handle_build_job_body:
  "handle_build_job W job =
     run_or (on_db (set_deployment (bj_deployment_id job) Deployment_Building None False)) Db_Failed
       (\<lambda>_. publish (build_begun job) (build_body W job))"
  by (simp add: handle_build_job_def build_body_def Let_def)

lemma publish_run:
  assumes "run (publish e k) fs b = (r, b')"
  obtains fs' b2 where "run k fs' b2 = (r, b')" "bt_db b2 = bt_db b" "bt_mails b2 = bt_mails b" "fs = [] \<longrightarrow> fs' = []"
proof -
  let ?b2 = "if fs \<noteq> [] \<and> hd fs = Fails then b else b\<lparr>bt_events := bt_events b @ [e]\<rparr>"
  have "run k (tl fs) ?b2 = (r, b')"
    using assms by (cases fs; cases "hd fs") (auto simp: publish_def attempt_change_def)
  then show thesis by (rule that) simp_all
qed

definition no_workplace :: "job_world \<Rightarrow> BuildJob \<Rightarrow> bool" where
  "no_workplace W job \<longleftrightarrow> length (str_split (CHR ''/'') (bj_github_repo job)) = 2 \<and> (\<exists>e. jw_tempdir W = Inl e)"

lemma body_refuses: "no_workplace W job \<Longrightarrow> \<exists>e. build_body W job = refuse e"
  by (auto simp: no_workplace_def build_body_def length_Suc_conv numeral_2_eq_2)

lemma body_answers: "\<not> no_workplace W job \<Longrightarrow> made_of quiet (\<lambda>r. r = Inr ()) (build_body W job)"
  by (auto simp: no_workplace_def build_body_def made_rules made_db split: list.splits sum.splits)

lemma body_ends: "\<not> no_workplace W job \<Longrightarrow> triple (known (bj_deployment_id job)) (build_body W job) (ended (bj_deployment_id job))"
  by (auto simp: no_workplace_def build_body_def deployment_is_finished_def split: list.splits sum.splits
      intro!: triple_ends triple_answer triple_download triple_failure triple_source)

definition marked_building :: "uuid \<Rightarrow> server_db \<Rightarrow> server_db" where
  "marked_building i = deploy_change (\<lambda>r. dep_id r = i) (\<lambda>r. r\<lparr>dep_status := ''building''\<rparr>)"

lemma set_building: "set_deployment i Deployment_Building None False d = Some (x, d') \<Longrightarrow> d' = marked_building i d"
  by (auto simp: set_deployment_def deploy_update_def Let_def updated_deployment_def status_update_def marked_building_def
      deploy_change_def unwrap_or_def or_else_def intro!: arg_cong [where f = "\<lambda>f. d\<lparr>sd_deployments := sql_update _ f _\<rparr>"])

lemma set_deployment_known: "known i b \<longleftrightarrow> (\<exists>x d. set_deployment i st m e (bt_db b) = Some (x, d))"
  using set_deployment_seen(1) [of i st m e "bt_db b"] by (auto simp: known_def split: option.splits)

text \<open>
  C8: The contract between a build and the queue. A build that answers with an error, so that it is run again, has recorded no
  failure and told nobody: the database is as before, or only marks the deployment as being built. When every statement of
  the build is executed, it answers with an error just when its deployment does not exist or it got no directory to work in;
  in every other case it answers without error and its deployment has ended, as succeeded or as failed, with its time.
\<close>

theorem build_answer:
  assumes "run (handle_build_job W job) fs b = (r, b')"
  shows "(case r of
      Inl _ \<Rightarrow> bt_db b' \<in> {bt_db b, marked_building (bj_deployment_id job) (bt_db b)} \<and> bt_mails b' = bt_mails b
    | Inr _ \<Rightarrow> fs = [] \<longrightarrow> ended (bj_deployment_id job) b') \<and>
    (fs = [] \<longrightarrow> (r = Inr () \<longleftrightarrow> known (bj_deployment_id job) b \<and> \<not> no_workplace W job))"
proof -
  let ?i = "bj_deployment_id job" and ?set = "set_deployment (bj_deployment_id job) Deployment_Building None False"
  have first: "bt_db b1 = marked_building ?i (bt_db b) \<and> bt_mails b1 = bt_mails b \<and> known ?i b1"
    if "on_db ?set b = Some (x, b1)" for x b1
  proof -
    note stmt = that
    obtain d where d: "?set (bt_db b) = Some (x, d)" "b1 = b\<lparr>bt_db := d\<rparr>" using stmt by (auto simp: on_db_def)
    moreover have "known ?i b1"
    proof (cases "seen ?i (bt_db b)")
      case (Some st)
      then show ?thesis
        using set_deployment_seen(2) [of ?i "bt_db b" "fst st" "snd st" Deployment_Building None False] d by (simp add: known_def)
    next
      case None
      then show ?thesis using set_deployment_seen(1) [of ?i Deployment_Building None False "bt_db b"] d(1) by simp
    qed
    ultimately show ?thesis using set_building by simp
  qed
  consider (kept) e where "r = Inl e" "b' = b" "fs \<noteq> []" | (absent) e where "r = Inl e" "b' = b" "\<not> known ?i b"
    | (lost) e x where "r = Inl e" "on_db ?set b = Some (x, b')" "fs \<noteq> []"
    | (begun) x b1 where "on_db ?set b = Some (x, b1)" "run (publish (build_begun job) (build_body W job)) (tl fs) b1 = (r, b')"
    using assms set_deployment_known [of ?i b Deployment_Building None False]
    by (cases fs; cases "hd fs"; cases "on_db ?set b") (auto simp: handle_build_job_body on_db_def split: fate.splits option.splits)
  then show ?thesis
  proof cases
    case begun
    have known: "known ?i b" using begun(1) set_deployment_known [of ?i b Deployment_Building None False] by (auto simp: on_db_def)
    obtain fs' b2 where run: "run (build_body W job) fs' b2 = (r, b')" and b2: "bt_db b2 = bt_db b1" "bt_mails b2 = bt_mails b1"
      and fs': "fs = [] \<longrightarrow> fs' = []"
      using publish_run [OF begun(2)] by (metis list.sel(2))
    show ?thesis
    proof (cases "no_workplace W job")
      case True
      then show ?thesis using body_refuses [OF True] run b2 first [OF begun(1)] by auto
    next
      case False
      have "r = Inr ()" using made_result [OF body_answers [OF False], of fs' b2] run by simp
      moreover have "known ?i b2" unfolding known_def b2(1) using first [OF begun(1)] unfolding known_def by blast
      then have "fs = [] \<longrightarrow> ended ?i b'" using body_ends [OF False] run fs' unfolding triple_def by (metis snd_conv)
      ultimately show ?thesis using known False by simp
    qed
  qed (use first in auto)
qed

definition sample_build_job :: "string \<Rightarrow> BuildJob" where
  "sample_build_job repo = \<lparr> bj_deployment_id = 1, bj_server_id = 2, bj_app_name = ''mcp-2'', bj_github_repo = repo,
     bj_github_branch = ''main'', bj_commit_sha = ''HEAD'', bj_runtime = ''node'', bj_github_installation_id = None, bj_region = ''iad'',
     bj_root_directory = [], bj_mcp_path = ''/mcp'', bj_transport = ''sse'', bj_entry_command = None, bj_build_command = None,
     bj_memory_mb = None, bj_port = None \<rparr>"

text \<open>A success keeps the message of an earlier failure: the update writes only the columns it is given.\<close>

lemma success_keeps_error_message:
  "dep_error_message (updated_deployment (status_update Deployment_Succeeded None True now) r) = dep_error_message r"
  by (simp add: updated_deployment_def status_update_def or_else_def)

lemma build_answer_witness:
  "ended 1 (snd (run (handle_build_job sample_world (sample_build_job ''o/r'')) [] sample_builder))"
proof -
  let ?job = "sample_build_job ''o/r''"
  obtain r b' where run: "run (handle_build_job sample_world ?job) [] sample_builder = (r, b')" by fastforce
  have job: "bj_deployment_id ?job = 1" "\<not> no_workplace sample_world ?job" "known 1 sample_builder"
    by (simp_all add: sample_build_job_def no_workplace_def sample_world_def known_def seen_def deploy_find_by_id_def
        sample_builder_def sample_deployment_def)
  have "r = Inr ()" using build_answer [OF run] job by simp
  then have ran: "run (handle_build_job sample_world ?job) [] sample_builder = (Inr (), b')" using run by simp
  show ?thesis using build_answer [OF ran] ran job by simp
qed

end
