(* ===== verification/Build_Teardown.thy ===== *)
theory Build_Teardown
  imports Build_Steps
begin

text \<open>
  Teardowns and stuck work: no server leaves the database before its app is taken for gone, under every interleaving (by rely and
  guarantee, with \<open>teardown\<close> as both), and one tick of the background tasks finishes what is stuck.
\<close>

section \<open>No app is forgotten\<close>

text \<open>
  When \<^verbatim>\<open>destroy_app\<close> takes an app for gone: \<^verbatim>\<open>flyctl\<close> succeeded; or it failed and looking the app up was not answered with a
  success (the app is missing, but also: the token was refused, the API failed or was not reached); or its message says so.
\<close>

definition taken_for_gone :: "fly_world \<Rightarrow> casing \<Rightarrow> string \<Rightarrow> bool" where
  "taken_for_gone W K app \<longleftrightarrow>
     (case fw_command W [''flyctl'', ''apps'', ''destroy'', app, ''--yes''] [] of
        Ran ok _ err \<Rightarrow>
          ok \<or> (case fw_app_lookup W app of None \<Rightarrow> True | Some status \<Rightarrow> status < 200 \<or> 300 \<le> status) \<or>
          list_ex (str_contains (to_lower K err)) [''not found'', ''could not find'', ''does not exist'']
      | _ \<Rightarrow> False)"

lemma destroy_app_ok: "(\<exists>u. snd (destroy_app W K app) = Inr u) \<longleftrightarrow> taken_for_gone W K app"
proof (cases "fw_command W [''flyctl'', ''apps'', ''destroy'', app, ''--yes''] []")
  case (Ran ok out err)
  have "app_exists W app \<longleftrightarrow> \<not> (case fw_app_lookup W app of None \<Rightarrow> True | Some status \<Rightarrow> status < 200 \<or> 300 \<le> status)"
    by (auto simp: app_exists_def split: option.splits)
  then show ?thesis
    unfolding destroy_app_def on_command_def finished_def taken_for_gone_def Ran command_outcome.case Let_def
    by (simp add: bail_def)
qed (simp_all add: destroy_app_def on_command_def finished_def taken_for_gone_def bail_def Let_def)

text \<open>The \<open>n\<close>th attempt of a request takes only apps of \<open>G\<close> for gone.\<close>

definition lets_only :: "job_world \<Rightarrow> nat \<Rightarrow> string \<Rightarrow> string set \<Rightarrow> bool" where
  "lets_only W n app G \<longleftrightarrow> (taken_for_gone (jw_destroy W n) (jw_case W) app \<longrightarrow> app \<in> G)"

text \<open>The app that one of a teardown job's five attempts takes for gone, and those that a sweep does, of its up to 1000 servers.\<close>

fun lets_go :: "string \<Rightarrow> builder_request \<Rightarrow> bool" where
  "lets_go app (Destroy_Request W job) \<longleftrightarrow>
     app = xj_app_name job \<and> (\<exists>n \<in> {1..5}. taken_for_gone (jw_destroy W n) (jw_case W) app)"
| "lets_go app (Sweeper_Tick W) \<longleftrightarrow> (\<exists>n < 1000. taken_for_gone (jw_destroy W n) (jw_case W) app)"
| "lets_go app _ \<longleftrightarrow> False"

text \<open>What one statement may do: the apps newly recorded as torn down are of \<open>G\<close>, and only a recorded app's server is removed.\<close>

definition teardown :: "string set \<Rightarrow> builder_state \<Rightarrow> builder_state \<Rightarrow> bool" where
  "teardown G b b' \<longleftrightarrow> set (bt_destroyed b) \<subseteq> set (bt_destroyed b') \<and> set (bt_destroyed b') \<subseteq> set (bt_destroyed b) \<union> G \<and> apps b' \<subseteq> apps b \<and>
     snd ` (apps b - apps b') \<subseteq> set (bt_destroyed b')"

lemma teardown_refl: "reflp (teardown G)"
  by (rule reflpI) (simp add: teardown_def)

lemma teardown_trans: "transp (teardown G)"
proof (rule transpI)
  fix x y z
  assume "teardown G x y" and "teardown G y z"
  then have xy: "set (bt_destroyed x) \<subseteq> set (bt_destroyed y)" "set (bt_destroyed y) \<subseteq> set (bt_destroyed x) \<union> G" "apps y \<subseteq> apps x"
      "snd ` (apps x - apps y) \<subseteq> set (bt_destroyed y)"
    and yz: "set (bt_destroyed y) \<subseteq> set (bt_destroyed z)" "set (bt_destroyed z) \<subseteq> set (bt_destroyed y) \<union> G" "apps z \<subseteq> apps y"
      "snd ` (apps y - apps z) \<subseteq> set (bt_destroyed z)"
    by (simp_all add: teardown_def)
  have "set (bt_destroyed z) \<subseteq> set (bt_destroyed x) \<union> G" using xy(2) yz(2) by auto
  moreover have "apps x - apps z \<subseteq> (apps x - apps y) \<union> (apps y - apps z)" by blast
  then have "snd ` (apps x - apps z) \<subseteq> snd ` (apps x - apps y) \<union> snd ` (apps y - apps z)" by (simp flip: image_Un add: image_mono)
  then have "snd ` (apps x - apps z) \<subseteq> set (bt_destroyed z)" using xy(4) yz(1,4) by (meson Un_least order_trans)
  ultimately show "teardown G x z" using subset_trans [OF xy(1) yz(1)] subset_trans [OF yz(3) xy(3)] by (simp add: teardown_def)
qed

lemma quiet_teardown: "quiet f \<Longrightarrow> teardown G b (f b)"
  by (simp add: quiet_def teardown_def)

lemma fly_destroy_teardown:
  assumes "fly_destroy W n app b = Some (r, b')" and "lets_only W n app G"
  shows "teardown G b b' \<and> (r = Inr () \<longrightarrow> app \<in> set (bt_destroyed b'))"
proof (cases "snd (destroy_app (jw_destroy W n) (jw_case W) app)")
  case (Inl e)
  then have "r = Inl e" "b' = b" using assms(1) by (simp_all add: fly_destroy_def)
  then show ?thesis by (simp add: teardown_def)
next
  case (Inr u)
  then have "app \<in> G" using assms(2) destroy_app_ok unfolding lets_only_def by blast
  moreover have "b' = b\<lparr>bt_destroyed := app # bt_destroyed b\<rparr>" using assms(1) Inr by (simp add: fly_destroy_def)
  ultimately show ?thesis by (auto simp: teardown_def apps_def)
qed

text \<open>All that is stored under \<open>i\<close> is the app \<open>a\<close>.\<close>

definition app_is :: "uuid \<Rightarrow> string \<Rightarrow> builder_state \<Rightarrow> bool" where
  "app_is i a b \<longleftrightarrow> (\<forall>a'. (i, a') \<in> apps b \<longrightarrow> a' = a)"

lemma app_is_later: "app_is i a b \<Longrightarrow> teardown G b b' \<Longrightarrow> app_is i a b'"
  by (auto simp: app_is_def teardown_def)

lemma apps_delete: "apps (on_store (server_delete i) b) = {x \<in> apps b. fst x \<noteq> i}"
proof -
  have "f ` {s \<in> A. P (f s)} = {x \<in> f ` A. P x}" for f :: "McpServer \<Rightarrow> uuid \<times> string" and A P by blast
  from this [of "\<lambda>s. (srv_id s, srv_fly_app_name s)" "set (sd_servers (bt_db b))" "\<lambda>x. fst x \<noteq> i"]
  show ?thesis by (simp add: apps_def on_store_def server_delete_def)
qed

lemma delete_teardown:
  assumes "app_is i a b" and "a \<in> set (bt_destroyed b)"
  shows "teardown G b (on_store (server_delete i) b)"
proof -
  have "bt_destroyed (on_store (server_delete i) b) = bt_destroyed b" by (simp add: on_store_def)
  moreover have "snd ` (apps b - {x \<in> apps b. fst x \<noteq> i}) \<subseteq> set (bt_destroyed b)"
    using assms by (auto simp: app_is_def)
  ultimately show ?thesis unfolding teardown_def apps_delete by auto
qed

lemma rg_delete:
  assumes "app_is i a b" and "a \<in> set (bt_destroyed b)" and "\<And>b'. teardown G b b' \<Longrightarrow> rg (teardown G) k (\<lambda>_ _. True) b'"
  shows "rg (teardown G) (attempt_change (on_store (server_delete i)) k) (\<lambda>_ _. True) b"
    and "rg (teardown G) (run_or (change (on_store (server_delete i))) e (\<lambda>_. k)) (\<lambda>_ _. True) b"
proof -
  have *: "teardown G b' (on_store (server_delete i) b')" if "teardown G b b'" for b'
    by (rule delete_teardown [OF app_is_later [OF assms(1) that]]) (use assms(2) that in \<open>auto simp: teardown_def\<close>)
  then have "teardown G b (on_store (server_delete i) b')" if "teardown G b b'" for b'
    using that transpD [OF teardown_trans] by blast
  then show "rg (teardown G) (attempt_change (on_store (server_delete i)) k) (\<lambda>_ _. True) b"
    "rg (teardown G) (run_or (change (on_store (server_delete i))) e (\<lambda>_. k)) (\<lambda>_ _. True) b"
    unfolding attempt_change_def
    by (auto intro!: rg_run_sql rg_run_or teardown_refl teardown_trans * assms(3))
qed

lemma rg_sleep:
  assumes "\<And>b'. teardown G b b' \<Longrightarrow> rg (teardown G) k (\<lambda>_ _. True) b'"
  shows "rg (teardown G) (sleep_secs n k) (\<lambda>_ _. True) b"
proof -
  have *: "teardown G b' (b'\<lparr>bt_waits := bt_waits b' @ [n]\<rparr>)" for b' by (simp add: teardown_def)
  then have "teardown G b (b'\<lparr>bt_waits := bt_waits b' @ [n]\<rparr>)" if "teardown G b b'" for b'
    using that transpD [OF teardown_trans] by blast
  then show ?thesis unfolding sleep_secs_def attempt_change_def
    by (auto intro!: rg_run_sql teardown_refl teardown_trans * assms)
qed

lemma rg_destroy_attempts:
  "\<forall>m \<in> {n..<n + left}. lets_only W m (xj_app_name job) G \<Longrightarrow> app_is (xj_server_id job) (xj_app_name job) b \<Longrightarrow>
   rg (teardown G) (destroy_attempts W job n left e) (\<lambda>_ _. True) b"
proof (induction left arbitrary: n e b)
  case 0
  then show ?case by (simp add: rg_rules)
next
  case (Suc left)
  have gone: "lets_only W n (xj_app_name job) G" and more: "\<forall>m \<in> {Suc n..<Suc n + left}. lets_only W m (xj_app_name job) G"
    using Suc.prems(1) by auto
  have again: "rg (teardown G) (if 0 < left then sleep_secs m (destroy_attempts W job (Suc n) left e') else destroy_attempts W job (Suc n) left e')
      (\<lambda>_ _. True) b'" if "teardown G b b'" for b' m e'
    using Suc.IH [OF more] app_is_later [OF Suc.prems(2) that] by (auto intro!: rg_sleep dest: app_is_later)
  show ?case
    unfolding destroy_attempts.simps
  proof (rule rg_run_sql [OF teardown_trans _ _ teardown_refl], goal_cases)
    case (1 b')
    then show ?case using again by simp
  next
    case (2 b' x b'')
    have later: "teardown G b b''" using 2(1) fly_destroy_teardown [OF 2(2) gone] transpD [OF teardown_trans] by blast
    show ?case
    proof (cases x)
      case (Inl e')
      then show ?thesis using fly_destroy_teardown [OF 2(2) gone] again [OF later] by simp
    next
      case (Inr u)
      have "rg (teardown G) (run_or (change (on_store (server_delete (xj_server_id job)))) Db_Failed (\<lambda>_. answer ())) (\<lambda>_ _. True) b''"
        using fly_destroy_teardown [OF 2(2) gone] Inr
        by (intro rg_delete(2) [OF app_is_later [OF Suc.prems(2) later]]) (simp_all add: rg_rules)
      then show ?thesis using fly_destroy_teardown [OF 2(2) gone] Inr by simp
    qed
  qed
qed

lemma rg_sweep_servers:
  "\<forall>m \<in> {n..<n + length servers}. \<forall>app. lets_only W m app G \<Longrightarrow>
   \<forall>s \<in> set servers. app_is (srv_id s) (srv_fly_app_name s) b \<Longrightarrow> rg (teardown G) (sweep_servers W n servers) (\<lambda>_ _. True) b"
proof (induction servers arbitrary: n b)
  case Nil
  then show ?case by (simp add: rg_rules)
next
  case (Cons s servers)
  have gone: "lets_only W n app G" for app using Cons.prems(1) by simp
  have rest: "rg (teardown G) (sweep_servers W (Suc n) servers) (\<lambda>_ _. True) b'" if "teardown G b b'" for b'
    using Cons.prems app_is_later that by (intro Cons.IH) auto
  show ?case
    unfolding sweep_servers.simps
  proof (rule rg_run_sql [OF teardown_trans _ _ teardown_refl], goal_cases)
    case (1 b')
    then show ?case using rest by simp
  next
    case (2 b' x b'')
    have later: "teardown G b b''" using 2(1) fly_destroy_teardown [OF 2(2) gone] transpD [OF teardown_trans] by blast
    then have rest': "rg (teardown G) (sweep_servers W (Suc n) servers) (\<lambda>_ _. True) b3" if "teardown G b'' b3" for b3
      using that rest transpD [OF teardown_trans] by blast
    show ?case
    proof (cases x)
      case (Inl e')
      then show ?thesis using fly_destroy_teardown [OF 2(2) gone] rest [OF later] by simp
    next
      case (Inr u)
      have "app_is (srv_id s) (srv_fly_app_name s) b''" using Cons.prems later by (auto intro: app_is_later)
      then have "rg (teardown G) (attempt_change (on_store (server_delete (srv_id s))) (sweep_servers W (Suc n) servers)) (\<lambda>_ _. True) b''"
        using fly_destroy_teardown [OF 2(2) gone] Inr rest' by (intro rg_delete(1) [where a = "srv_fly_app_name s"]) simp_all
      then show ?thesis using fly_destroy_teardown [OF 2(2) gone] Inr by simp
    qed
  qed
qed

lemma app_is_stored: "single_valued (apps b) \<Longrightarrow> s \<in> set (sd_servers (bt_db b)) \<Longrightarrow> app_is (srv_id s) (srv_fly_app_name s) b"
  by (auto simp: app_is_def apps_def single_valued_def)

lemma rg_sweep:
  assumes "single_valued (apps b)" and gone: "\<forall>m < 1000. \<forall>app. lets_only W m app G"
  shows "rg (teardown G) (sweep_orphans W) (\<lambda>_ _. True) b"
  unfolding sweep_orphans_def
proof (rule rg_run_sql [OF teardown_trans _ _ teardown_refl], goal_cases)
  case (1 b')
  then show ?case by (simp add: rg_rules)
next
  case (2 b' servers b'')
  then have b: "b'' = b'" "servers = list_deleting_older_than DELETING_STUCK_TIMEOUT_MINUTES (bt_db b')" by auto
  then have "set servers \<subseteq> set (sd_servers (bt_db b'))"
    by (auto simp: list_deleting_older_than_def dest: in_set_takeD)
  moreover have "length servers \<le> 1000" by (simp add: b list_deleting_older_than_def)
  moreover have "single_valued (apps b')" using assms 2(1) by (auto simp: teardown_def intro: single_valued_subset)
  ultimately show ?case using b teardown_refl by (auto dest: reflpD intro!: rg_sweep_servers app_is_stored simp: gone)
qed

lemma quiet_rg: "made_of quiet (\<lambda>_. True) p \<Longrightarrow> rg (teardown G) p (\<lambda>_ _. True) d"
proof -
  have step: "\<And>f d. quiet f \<Longrightarrow> teardown G d (f d)" by (rule quiet_teardown)
  show "made_of quiet (\<lambda>_. True) p \<Longrightarrow> rg (teardown G) p (\<lambda>_ _. True) d"
    by (rule made_rg [where S = quiet and L = "\<lambda>_. True"]) (rule step)
qed

fun rightly_named :: "builder_state \<Rightarrow> builder_request \<Rightarrow> bool" where
  "rightly_named b (Destroy_Request W job) \<longleftrightarrow> app_is (xj_server_id job) (xj_app_name job) b"
| "rightly_named b _ \<longleftrightarrow> True"

text \<open>
  C3: No app is forgotten. Whatever jobs, sweeps and reapings run, in any interleaving and with any of their statements failing: a
  server that the builder has removed from the database is one whose app was torn down before, or that an attempt of a teardown job
  for this app or a sweep among the requests takes for gone. That means: \<^verbatim>\<open>flyctl apps destroy\<close> succeeded; or it failed and the lookup of the app was
  not answered with a success, be it that the app is missing or that the API refused or was not reached; or \<^verbatim>\<open>flyctl\<close> itself
  says that there is no such app. So a crash or an error between the two leaves the record by which the sweeper finds the app
  again. The teardown jobs are to name their own server's app, as the jobs queued by the server routes do, and no two stored
  servers have the same id.
\<close>

theorem teardown_confirmed:
  assumes "serves builder_handle start (b, ts)" and "distinct (map srv_id (sd_servers (bt_db start)))"
    and "\<forall>q \<in> set (requests ts). rightly_named start q" and "s \<in> set (sd_servers (bt_db start))"
  shows "(srv_id s, srv_fly_app_name s) \<in> apps b \<or> srv_fly_app_name s \<in> set (bt_destroyed start) \<or>
    (\<exists>q \<in> set (requests ts). lets_go (srv_fly_app_name s) q)"
proof -
  let ?G = "{app. \<exists>q \<in> set (requests ts). lets_go app q}"
  have sv: "single_valued (apps start)"
    using assms(2) by (auto simp: single_valued_def apps_def distinct_map dest: inj_onD)
  have "rg (teardown ?G) (builder_handle q) (\<lambda>_ _. True) d'" if q: "q \<in> set (requests ts)" and d': "teardown ?G start d'" for q d'
  proof (cases q)
    case (Destroy_Request W job)
    then have "app_is (xj_server_id job) (xj_app_name job) start" using q assms(3) by fastforce
    moreover have "lets_only W m (xj_app_name job) ?G" if "m \<in> {1..5}" for m
      unfolding lets_only_def using q lets_go.simps(1) [of _ W job] that unfolding Destroy_Request by blast
    then have "\<forall>m \<in> {1..<1 + DESTROY_ATTEMPTS}. lets_only W m (xj_app_name job) ?G" by (simp add: DESTROY_ATTEMPTS_def)
    ultimately show ?thesis
      using Destroy_Request app_is_later d' by (auto simp: handle_destroy_job_def intro!: rg_destroy_attempts)
  next
    case (Sweeper_Tick W)
    have "\<forall>m < 1000. \<forall>app. lets_only W m app ?G" unfolding lets_only_def using q lets_go.simps(2) [of _ W] unfolding Sweeper_Tick by blast
    moreover have "single_valued (apps d')" using sv d' by (auto simp: teardown_def intro: single_valued_subset)
    ultimately show ?thesis using Sweeper_Tick by (auto intro!: rg_sweep)
  next
    case (Clock_Tick n)
    have "made_of quiet (\<lambda>_. True) (builder_handle q)" unfolding Clock_Tick by (rule made_clock) simp
    then show ?thesis by (rule quiet_rg)
  qed (simp_all add: quiet_rg made_rules)
  from rg_sound [OF assms(1) teardown_refl teardown_trans, where Q = "\<lambda>_ _ _. True"] this
  have "teardown ?G start b" by (auto simp: safe_def)
  moreover have "(srv_id s, srv_fly_app_name s) \<in> apps start" using assms(4) by (auto simp: apps_def)
  ultimately show ?thesis by (force simp: teardown_def)
qed

text \<open>An outage during which \<^verbatim>\<open>flyctl\<close> and the API both fail: every app is taken for gone.\<close>

lemma outage_takes_for_gone:
  "fw_command W [''flyctl'', ''apps'', ''destroy'', app, ''--yes''] [] = Ran False out err \<Longrightarrow> fw_app_lookup W app = None \<Longrightarrow>
   taken_for_gone W K app"
  by (simp add: taken_for_gone_def)

lemma teardown_confirmed_witness:
  "\<exists>b. serves builder_handle sample_builder (b, [(Sweeper_Tick sample_world, Return (Inr ()))]) \<and>
    sd_servers (bt_db b) = [] \<and> lets_go ''mcp-2'' (Sweeper_Tick sample_world)"
proof -
  let ?b = "snd (run (sweep_orphans sample_world) [] sample_builder)"
  have run: "run (builder_handle (Sweeper_Tick sample_world)) [] sample_builder = (Inr (), ?b)" and gone: "sd_servers (bt_db ?b) = []"
    by (simp_all add: sweep_orphans_def list_deleting_older_than_def DELETING_STUCK_TIMEOUT_MINUTES_def sample_builder_def
        stuck_in_deleting_def sample_destroy attempt_change_def on_store_def server_delete_def sql_delete_def)
  have s: "serves builder_handle sample_builder (?b, [(Sweeper_Tick sample_world, Return (Inr ()))])"
    using serves_run [OF serves_start [of builder_handle sample_builder] run] by simp
  have "sample_server_row \<in> set (sd_servers (bt_db sample_builder))" by (simp add: sample_builder_def)
  from teardown_confirmed [OF s _ _ this] have "lets_go ''mcp-2'' (Sweeper_Tick sample_world)"
    using gone by (simp add: sample_builder_def requests_def apps_def del: lets_go.simps)
  then show ?thesis using s gone by blast
qed


section \<open>Stuck work is finished\<close>

text \<open>The servers of a sweep whose app is taken for gone.\<close>

fun torn_down :: "job_world \<Rightarrow> nat \<Rightarrow> McpServer list \<Rightarrow> McpServer list" where
  "torn_down W n [] = []"
| "torn_down W n (s # ss) =
     (case snd (destroy_app (jw_destroy W n) (jw_case W) (srv_fly_app_name s)) of
        Inr _ \<Rightarrow> s # torn_down W (Suc n) ss | Inl _ \<Rightarrow> torn_down W (Suc n) ss)"

lemma run_sweep_servers:
  "sd_servers (bt_db (snd (run (sweep_servers W n ss) [] b))) =
     filter (\<lambda>s. srv_id s \<notin> srv_id ` set (torn_down W n ss)) (sd_servers (bt_db b))"
proof (induction ss arbitrary: n b)
  case (Cons s ss)
  show ?case
  proof (cases "snd (destroy_app (jw_destroy W n) (jw_case W) (srv_fly_app_name s))")
    case (Inl e)
    then show ?thesis using Cons by (simp add: fly_destroy_def)
  next
    case (Inr u)
    then show ?thesis
      by (simp add: Cons fly_destroy_def attempt_change_def on_store_def server_delete_def sql_delete_def conj_commute)
  qed
qed simp

lemma torn_down_subset: "set (torn_down W n ss) \<subseteq> set ss"
  by (induction ss arbitrary: n) (auto split: sum.splits)

lemma torn_down_all: "(\<And>n app. \<exists>u. snd (destroy_app (jw_destroy W n) (jw_case W) app) = Inr u) \<Longrightarrow> torn_down W n ss = ss"
proof (induction ss arbitrary: n)
  case (Cons s ss)
  obtain u where "snd (destroy_app (jw_destroy W n) (jw_case W) (srv_fly_app_name s)) = Inr u" using Cons.prems by blast
  then show ?case using Cons.IH [OF Cons.prems] by simp
qed simp

lemma run_reap:
  "run reap_stuck_deployments [] b =
     (Inr (), b\<lparr>bt_db := snd (timeout_stuck_deployments STUCK_DEPLOYMENT_TIMEOUT_MINUTES (bt_db b))\<rparr>)"
  by (simp add: reap_stuck_deployments_def attempt_db_def on_db_def split: prod.split)

text \<open>
  C29: Stuck work is finished. After one tick of the reaper no deployment that began more than 30 minutes ago is unfinished. A
  tick of the sweeper removes, of the up to 1000 servers it finds in teardown for more than 15 minutes, exactly those whose
  app \<^verbatim>\<open>destroy_app\<close> takes for gone, and no other server; when it takes every app for gone, no such server is left.
\<close>

theorem stuck_work_finished:
  assumes "distinct (map srv_id (sd_servers (bt_db b)))"
    and "length (filter (stuck_in_deleting (sd_now (bt_db b)) 15) (sd_servers (bt_db b))) \<le> 1000"
  shows "filter (stuck (sd_now (bt_db b)) 30) (sd_deployments (bt_db (snd (run reap_stuck_deployments [] b)))) = [] \<and>
    sd_servers (bt_db (snd (run (sweep_orphans W) [] b))) =
      filter (\<lambda>s. s \<notin> set (torn_down W 0 (filter (stuck_in_deleting (sd_now (bt_db b)) 15) (sd_servers (bt_db b)))))
        (sd_servers (bt_db b)) \<and>
    ((\<forall>n app. \<exists>u. snd (destroy_app (jw_destroy W n) (jw_case W) app) = Inr u) \<longrightarrow>
      filter (stuck_in_deleting (sd_now (bt_db b)) 15) (sd_servers (bt_db (snd (run (sweep_orphans W) [] b)))) = [])"
proof -
  let ?now = "sd_now (bt_db b)" and ?servers = "sd_servers (bt_db b)"
  let ?stuck = "filter (stuck_in_deleting ?now 15) ?servers"
  have "filter (stuck ?now 30) (sd_deployments (bt_db (snd (run reap_stuck_deployments [] b)))) = []"
    by (auto simp: run_reap timeout_stuck_deployments_def deploy_change_def set_sql_update stuck_def unfinished_def
        STUCK_DEPLOYMENT_TIMEOUT_MINUTES_def filter_empty_conv)
  moreover have "run (sweep_orphans W) [] b = run (sweep_servers W 0 ?stuck) [] b"
    using assms(2) by (simp add: sweep_orphans_def list_deleting_older_than_def DELETING_STUCK_TIMEOUT_MINUTES_def)
  then have swept: "sd_servers (bt_db (snd (run (sweep_orphans W) [] b))) = filter (\<lambda>s. s \<notin> set (torn_down W 0 ?stuck)) ?servers"
    using run_sweep_servers [of W 0 ?stuck b] torn_down_subset [of W 0 ?stuck] assms(1)
    by (auto simp: image_iff distinct_map intro!: filter_cong dest: inj_onD)
  moreover have "filter (stuck_in_deleting ?now 15) (filter (\<lambda>s. s \<notin> set (torn_down W 0 ?stuck)) ?servers) = []"
    if "\<forall>n app. \<exists>u. snd (destroy_app (jw_destroy W n) (jw_case W) app) = Inr u"
    using torn_down_all that by (simp add: filter_empty_conv)
  ultimately show ?thesis by simp
qed

lemma stuck_work_finished_witness:
  "stuck_in_deleting 10000 15 sample_server_row \<and>
   filter (stuck_in_deleting 10000 15) (sd_servers (bt_db (snd (run (sweep_orphans sample_world) [] sample_builder)))) = []"
proof -
  have now: "sd_now (bt_db sample_builder) = 10000" "sd_servers (bt_db sample_builder) = [sample_server_row]"
    by (simp_all add: sample_builder_def)
  have all: "\<forall>n app. \<exists>u. snd (destroy_app (jw_destroy sample_world n) (jw_case sample_world) app) = Inr u"
    by (simp add: sample_world_def sample_fly_def destroy_app_def on_command_def finished_def Let_def)
  have "filter (stuck_in_deleting 10000 15) (sd_servers (bt_db (snd (run (sweep_orphans sample_world) [] sample_builder)))) = []"
    using stuck_work_finished [of sample_builder sample_world] all by (simp add: now)
  then show ?thesis by (simp add: stuck_in_deleting_def)
qed

end
