(* ===== verification/Build_Hints.thy ===== *)
theory Build_Hints
  imports Build_Steps
begin

text \<open>
  The cache of error hints: what is shown to a user is what the repository's search finds in the database, and the cache stays
  within its bound.
\<close>

section \<open>The hints that are shown\<close>

text \<open>Every hint the cache would still answer with is what the database holds.\<close>

definition hints_current :: "casing \<Rightarrow> builder_state \<Rightarrow> bool" where
  "hints_current K b \<longleftrightarrow> (\<forall>locale hints. cached_hints (sd_now (bt_db b)) locale (bt_cache b) = Some hints \<longrightarrow>
     hints = map (preprocess K) (list_active locale (bt_db b)))"

lemma cached_after_store:
  "cached_hints now l (store_hints l' hs now cache) = Some hs' \<Longrightarrow> (l' = l \<and> hs' = hs) \<or> cached_hints now l cache = Some hs'"
proof -
  have sub: "map_of (filter (\<lambda>e. fst e \<noteq> k) c) l = (if l = k then None else map_of c l)" for k and c :: hints_cache
    by (induction c) auto
  show "cached_hints now l (store_hints l' hs now cache) = Some hs' \<Longrightarrow> (l' = l \<and> hs' = hs) \<or> cached_hints now l cache = Some hs'"
    by (cases "sort_key (\<lambda>(_, _, t). t) cache")
      (auto simp: cached_hints_def store_hints_def evict_oldest_def sub split: if_splits option.splits prod.splits)
qed

lemma run_get_hints:
  assumes "hints_current K b"
  obtains b' where "run (get_cached_error_hints K locale k) [] b = run (k (map (preprocess K) (list_active locale (bt_db b)))) [] b'"
    "bt_db b' = bt_db b" "hints_current K b'"
proof (cases "cached_hints (sd_now (bt_db b)) locale (bt_cache b)")
  case (Some hints)
  have "run (get_cached_error_hints K locale k) [] b = run (k (map (preprocess K) (list_active locale (bt_db b)))) [] b"
    using Some assms by (simp add: get_cached_error_hints_def Let_def hints_current_def)
  then show thesis using that assms by blast
next
  case None
  let ?b' = "b\<lparr>bt_cache := store_hints locale (map (preprocess K) (list_active locale (bt_db b))) (sd_now (bt_db b)) (bt_cache b)\<rparr>"
  have "run (get_cached_error_hints K locale k) [] b = run (k (map (preprocess K) (list_active locale (bt_db b)))) [] ?b'"
    using None by (simp add: get_cached_error_hints_def Let_def attempt_change_def)
  moreover have "hints_current K ?b'"
    using assms by (auto simp: hints_current_def dest!: cached_after_store)
  ultimately show thesis using that by simp
qed

lemma find_preprocessed:
  "find (hint_matches e) (map (preprocess K) hs) = map_option (preprocess K) (find (all_keywords_in K e) hs)"
  by (induction hs) (auto simp: hint_matches_def preprocess_def all_keywords_in_def list.pred_map comp_def)

lemma hint_text_stored:
  "hint_text e (map (preprocess K) hs) = map_option (\<lambda>h. [newline, newline] @ eh_hint_message h) (find (all_keywords_in K e) hs)"
  by (simp add: hint_text_def find_preprocessed option.map_comp comp_def preprocess_def)

text \<open>
  C31: The hint added to the message of a failed build, found through the cache with its prepared keywords, is the hint that
  the repository's own search finds in the database, as long as the cache's live entries are current; and it leaves them so.
\<close>

theorem hints_as_stored:
  assumes "hints_current K b"
  shows "\<exists>b'. run (analyze_error_for_hints K error_msg locale answer) [] b =
      (Inr (map_option (\<lambda>h. [newline, newline] @ eh_hint_message h) (find_matching_hint K error_msg locale (bt_db b))), b') \<and>
    bt_db b' = bt_db b \<and> hints_current K b'"
proof -
  let ?e = "to_lower K error_msg" and ?hs = "\<lambda>l. map (preprocess K) (list_active l (bt_db b))"
  let ?k = "\<lambda>hints. case hint_text ?e hints of Some t \<Rightarrow> answer (Some t)
     | None \<Rightarrow> if locale \<noteq> ''en'' then get_cached_error_hints K ''en'' (\<lambda>en. answer (hint_text ?e en)) else answer None"
  obtain b1 where b1: "run (analyze_error_for_hints K error_msg locale answer) [] b = run (?k (?hs locale)) [] b1"
    "bt_db b1 = bt_db b" "hints_current K b1"
    using run_get_hints [OF assms, of "locale" ?k] unfolding analyze_error_for_hints_def Let_def by blast
  show ?thesis
  proof (cases "hint_text ?e (?hs locale) = None \<and> locale \<noteq> ''en''")
    case True
    then have none: "find (all_keywords_in K ?e) (list_active locale (bt_db b)) = None" by (simp add: hint_text_stored)
    obtain b2 where b2: "run (?k (?hs locale)) [] b1 = run (answer (hint_text ?e (?hs ''en''))) [] b2" "bt_db b2 = bt_db b" "hints_current K b2"
      using run_get_hints [OF b1(3), of "''en''" "\<lambda>en. answer (hint_text ?e en)"] True b1(2) by auto
    have "find_matching_hint K error_msg locale (bt_db b) = find (all_keywords_in K ?e) (list_active ''en'' (bt_db b))"
      using none True by (simp add: find_matching_hint_def Let_def)
    then show ?thesis using b1(1) b2 by (auto simp: hint_text_stored)
  next
    case False
    then show ?thesis using b1
      by (auto simp: hint_text_stored find_matching_hint_def Let_def split: option.splits)
  qed
qed

text \<open>Nothing ever makes the cache larger than its bound.\<close>

definition cache_safe :: "(builder_state \<Rightarrow> builder_state) \<Rightarrow> bool" where
  "cache_safe f \<longleftrightarrow> (\<forall>b. cache_ok b \<longrightarrow> cache_ok (f b))"

lemma made_mono: "made_of S L p \<Longrightarrow> (\<And>f. S f \<Longrightarrow> S' f) \<Longrightarrow> made_of S' L p"
  by (induction p) auto

lemma cache_safe_same: "(\<And>b. bt_cache (f b) = bt_cache b) \<Longrightarrow> cache_safe f"
  by (simp add: cache_safe_def cache_ok_def)

lemma cache_safe_destroy: "cache_safe (\<lambda>b. case fly_destroy W n app b of None \<Rightarrow> b | Some (_, b') \<Rightarrow> b')"
  by (rule cache_safe_same) (simp add: fly_destroy_def split: sum.splits)

lemma made_destroy: "made_of cache_safe (\<lambda>_. True) (destroy_attempts W job n left e)"
proof (induction left arbitrary: n e)
  case (Suc left)
  then show ?case
    by (auto simp: sleep_secs_def attempt_change_def cache_safe_same on_store_def made_rules
        split: option.splits sum.splits intro!: made_run_sql made_run_or cache_safe_destroy)
qed (simp add: made_rules)

lemma made_sweep: "made_of cache_safe (\<lambda>_. True) (sweep_servers W n ss)"
  by (induction ss arbitrary: n)
    (auto simp: attempt_change_def cache_safe_same on_store_def made_rules
      split: option.splits sum.splits intro!: made_run_sql cache_safe_destroy)

lemma made_handle: "made_of cache_safe (\<lambda>_. True) (builder_handle q)"
proof -
  have quiet: "made_of quiet (\<lambda>_. True) p \<Longrightarrow> made_of cache_safe (\<lambda>_. True) p" for p :: "unit job"
    by (rule made_mono [where S = quiet]) (simp_all add: quiet_def cache_safe_def)
  show ?thesis
  proof (cases q)
    case (Clock_Tick n)
    then show ?thesis using made_clock [of "\<lambda>_. True" n] by (auto intro: quiet)
  next
    case (Sweeper_Tick W)
    then show ?thesis
      by (auto simp: sweep_orphans_def cache_safe_same made_rules made_sweep split: option.splits intro!: made_select)
  qed (auto simp: handle_destroy_job_def made_destroy made_rules intro: quiet)
qed

text \<open>
  The cache of error hints never holds more than 100 locales, nor two entries for one, whatever jobs the builder runs,
  however they interleave and whichever of their statements fail.
\<close>

theorem hints_cache_bounded:
  assumes "serves builder_handle start (b, ts)" and "cache_ok start"
  shows "length (bt_cache b) \<le> MAX_CACHE_LOCALES \<and> distinct (map fst (bt_cache b))"
proof -
  have "keeps cache_ok (builder_handle q) (\<lambda>r _. True)" for q
    by (rule made_keeps [OF _ made_handle]) (simp add: cache_safe_def)
  then have "cache_ok b" using keeps_sound(1) [where I = cache_ok and Q = "\<lambda>_ _ _. True", OF assms(1,2)] by blast
  then show ?thesis by (simp add: cache_ok_def)
qed

text \<open>A Japanese build falls back to the English hint.\<close>

definition english_hint :: ErrorHint where
  "english_hint = \<lparr>eh_id = 5, eh_keywords = [''npm'', ''err''], eh_hint_message = ''Check package.json'', eh_priority = 0,
     eh_category = ''general'', eh_locale = ''en'', eh_is_active = True, eh_created_at = 0, eh_updated_at = 0\<rparr>"

lemma hints_as_stored_witness:
  "\<exists>b b'. run (analyze_error_for_hints ascii_casing ''npm ERR'' ''ja'' answer) [] b =
      (Inr (Some ([newline, newline] @ ''Check package.json'')), b') \<and> hints_current ascii_casing b'"
proof -
  let ?b = "sample_builder\<lparr>bt_db := (bt_db sample_builder)\<lparr>sd_hints := [english_hint]\<rparr>\<rparr>"
  have "hints_current ascii_casing ?b" by (simp add: hints_current_def sample_builder_def cached_hints_def)
  moreover have "list_active ''ja'' (bt_db ?b) = []" "list_active ''en'' (bt_db ?b) = [english_hint]"
    by (simp_all add: list_active_def english_hint_def)
  moreover have "all_keywords_in ascii_casing (to_lower ascii_casing ''npm ERR'') english_hint" by code_simp
  moreover have "eh_hint_message english_hint = ''Check package.json''" by (simp add: english_hint_def)
  ultimately show ?thesis using hints_as_stored [of ascii_casing ?b "''npm ERR''" "''ja''"]
    by (auto simp: find_matching_hint_def Let_def)
qed

lemma hints_cache_bounded_witness:
  "length (bt_cache (sample_builder)) \<le> MAX_CACHE_LOCALES \<and> distinct (map fst (bt_cache sample_builder))"
  by (rule hints_cache_bounded [OF serves_start]) (simp add: cache_ok_def sample_builder_def)

end
