(* ===== verification/Stripe_Billing.thy ===== *)
theory Stripe_Billing
  imports Workspace_Server Api_Limits Plans Rust_Text
begin

text \<open>
  Billing (\<^verbatim>\<open>crates/billing/src/service.rs\<close>, \<^verbatim>\<open>webhook.rs\<close>): the calls to Stripe and the handlers of Stripe's events, on the
  workspace tables. Stripe is an external service: its answers are the record \<open>stripe_api\<close>, and every call that changes
  something there is appended to \<open>bl_calls\<close>. \<open>bv_vars\<close> is the process environment, \<open>bv_timestamp\<close> is
  \<^verbatim>\<open>DateTime::from_timestamp\<close>, which refuses seconds outside its range.
\<close>

section \<open>Stripe\<close>

record stripe_subscription =
  sb_id :: string
  sb_customer :: string
  sb_status :: string
  sb_items :: "(string \<times> string option) list"
  sb_metadata :: "(string \<times> string) list"
  sb_period_start :: int
  sb_period_end :: int
  sb_cancel_at_period_end :: bool
  sb_canceled_at :: "int option"
  sb_ended_at :: "int option"

record stripe_session =
  ss_metadata :: "(string \<times> string) list option"
  ss_subscription :: "string option"
  ss_customer :: "string option"

text \<open>A line's period has an end, if the line has a period.\<close>

record stripe_invoice =
  in_id :: string
  in_number :: "string option"
  in_status :: "string option"
  in_amount_due :: "int option"
  in_amount_paid :: "int option"
  in_currency :: "string option"
  in_created :: "int option"
  in_hosted_invoice_url :: "string option"
  in_invoice_pdf :: "string option"
  in_customer :: "string option"
  in_attempt_count :: "nat option"
  in_lines :: "int option option list option"

record stripe_card =
  sc_brand :: string
  sc_last4 :: string
  sc_exp_month :: "64 word"
  sc_exp_year :: "64 word"

datatype EventType =
    CheckoutSessionCompleted | CustomerSubscriptionCreated | CustomerSubscriptionUpdated | CustomerSubscriptionDeleted
  | InvoicePaid | InvoicePaymentFailed | Other_Event string

datatype EventObject =
    Checkout_Object stripe_session | Subscription_Object stripe_subscription | Invoice_Object stripe_invoice | Other_Object

record stripe_event =
  ev_type :: EventType
  ev_object :: EventObject

record checkout_params =
  ck_customer :: string
  ck_line_items :: "(string \<times> nat option) list"
  ck_success_url :: string
  ck_cancel_url :: string
  ck_workspace_id :: uuid

datatype stripe_call =
    Create_Customer string string uuid | Open_Checkout checkout_params | Open_Portal string string
  | Cancel_At_Period_End string | Cancel_Now string | Change_Price string string string
  | Meter_Event string string nat int string

record stripe_api =
  st_valid_customer :: "string \<Rightarrow> bool"
  st_valid_subscription :: "string \<Rightarrow> bool"
  st_valid_price :: "string \<Rightarrow> bool"
  st_customer :: "string + string"
  st_checkout :: "string + string \<times> string option"
  st_portal :: "string + string"
  st_retrieve :: "string \<Rightarrow> string + stripe_subscription"
  st_list_subscriptions :: "string \<Rightarrow> string + stripe_subscription list"
  st_update :: "string + stripe_subscription"
  st_cards :: "string \<Rightarrow> string + stripe_card option list"
  st_invoices :: "string \<Rightarrow> nat \<Rightarrow> string + stripe_invoice list"
  st_meter :: "string + nat \<times> string"
  st_construct_event :: "string \<Rightarrow> string \<Rightarrow> string \<Rightarrow> string + stripe_event"

record 'r billing_env =
  bv_api :: "'r api_env"
  bv_vars :: env
  bv_now :: timestamp
  bv_parse_uuid :: "string \<Rightarrow> uuid option"
  bv_timestamp :: "int \<Rightarrow> timestamp option"
  bv_lower :: casing
  bv_stripe :: stripe_api
  bv_unreachable :: string
  bv_billing :: bool
  bv_webhook_secret :: "string option"
  bv_base_url :: string

record 'r billing_db =
  bl_api :: "'r api_db"
  bl_calls :: "stripe_call list"

type_synonym ('r, 'e, 'a) billing = "('r billing_db, 'e, 'a) handler"

text \<open>The text of a statement's error, \<^verbatim>\<open>?\<close> on a result, and the tables.\<close>

abbreviation bv_db_text :: "'r billing_env \<Rightarrow> string" where
  "bv_db_text E \<equiv> av_db_text (bv_api E)"

definition require_ok :: "'f + 'x \<Rightarrow> ('f \<Rightarrow> 'e) \<Rightarrow> ('x \<Rightarrow> ('d, 'e, 'a) handler) \<Rightarrow> ('d, 'e, 'a) handler" where
  "require_ok r f k = (case r of Inl e \<Rightarrow> refuse (f e) | Inr x \<Rightarrow> k x)"

definition bl_workspaces :: "'r billing_db \<Rightarrow> workspace_db" where
  "bl_workspaces b = ap_workspaces (bl_api b)"

definition on_rows :: "(workspace_db \<Rightarrow> workspace_db) \<Rightarrow> 'r billing_db \<Rightarrow> 'r billing_db" where
  "on_rows f b = b\<lparr>bl_api := (bl_api b)\<lparr>ap_workspaces := f (bl_workspaces b)\<rparr>\<rparr>"


section \<open>The calls\<close>

definition prefix_err :: "string \<Rightarrow> string + 'x \<Rightarrow> string + 'x" where
  "prefix_err p r = (case r of Inl e \<Rightarrow> Inl (p @ e) | Inr x \<Rightarrow> Inr x)"

definition stripe_write :: "'r billing_env \<Rightarrow> stripe_call \<Rightarrow> string + 'x \<Rightarrow> (string + 'x \<Rightarrow> ('r, 'e, 'a) billing) \<Rightarrow> ('r, 'e, 'a) billing" where
  "stripe_write E c result k =
     run_sql (change (\<lambda>b. b\<lparr>bl_calls := bl_calls b @ [c]\<rparr>)) (\<lambda>r. k (if r = None then Inl (bv_unreachable E) else result))"

definition create_customer :: "'r billing_env \<Rightarrow> string \<Rightarrow> string \<Rightarrow> uuid \<Rightarrow> (string + string \<Rightarrow> ('r, 'e, 'a) billing) \<Rightarrow> ('r, 'e, 'a) billing" where
  "create_customer E email name user_id k =
     stripe_write E (Create_Customer email name user_id) (st_customer (bv_stripe E)) (\<lambda>r. k (prefix_err ''Failed to create Stripe customer: '' r))"

definition checkout_line_items :: "env \<Rightarrow> string \<Rightarrow> (string \<times> nat option) list" where
  "checkout_line_items vars price_id =
     (price_id, Some 1) #
     (if get_plan_by_price_id vars price_id = Some Plan_Pro then
        (case vars ''STRIPE_PRICE_PRO_USAGE'' of
           Some usage_price \<Rightarrow> if usage_price \<noteq> [] then [(usage_price, None)] else []
         | None \<Rightarrow> [])
      else [])"

definition create_checkout_session ::
  "'r billing_env \<Rightarrow> string \<Rightarrow> string \<Rightarrow> uuid \<Rightarrow> (string + string \<times> string option \<Rightarrow> ('r, 'e, 'a) billing) \<Rightarrow> ('r, 'e, 'a) billing" where
  "create_checkout_session E customer_id price_id workspace_id k =
     (if \<not> st_valid_customer (bv_stripe E) customer_id then k (Inl ''Invalid customer ID'')
      else stripe_write E (Open_Checkout \<lparr>
             ck_customer = customer_id, ck_line_items = checkout_line_items (bv_vars E) price_id,
             ck_success_url = bv_base_url E @ ''/dashboard/billing/success'', ck_cancel_url = bv_base_url E @ ''/dashboard/billing/cancel'',
             ck_workspace_id = workspace_id \<rparr>) (st_checkout (bv_stripe E))
             (\<lambda>r. k (prefix_err ''Failed to create checkout session: '' r)))"

definition stripe_portal_session :: "'r billing_env \<Rightarrow> string \<Rightarrow> (string + string \<Rightarrow> ('r, 'e, 'a) billing) \<Rightarrow> ('r, 'e, 'a) billing" where
  "stripe_portal_session E customer_id k =
     (if \<not> st_valid_customer (bv_stripe E) customer_id then k (Inl ''Invalid customer ID'')
      else stripe_write E (Open_Portal customer_id (bv_base_url E @ ''/dashboard/billing'')) (st_portal (bv_stripe E))
             (\<lambda>r. k (prefix_err ''Failed to create portal session: '' r)))"

definition stripe_get_subscription :: "'r billing_env \<Rightarrow> string \<Rightarrow> string + stripe_subscription" where
  "stripe_get_subscription E subscription_id =
     (if \<not> st_valid_subscription (bv_stripe E) subscription_id then Inl ''Invalid subscription ID''
      else prefix_err ''Failed to get subscription: '' (st_retrieve (bv_stripe E) subscription_id))"

definition find_metered_subscription_item :: "'r billing_env \<Rightarrow> string \<Rightarrow> string \<Rightarrow> string + string option" where
  "find_metered_subscription_item E subscription_id metered_price_id =
     (case stripe_get_subscription E subscription_id of
        Inl e \<Rightarrow> Inl e
      | Inr sub \<Rightarrow> Inr (map_option fst (find (\<lambda>(_, price). price = Some metered_price_id) (sb_items sub))))"

definition report_meter_usage ::
  "'r billing_env \<Rightarrow> string \<Rightarrow> string \<Rightarrow> nat \<Rightarrow> int \<Rightarrow> string \<Rightarrow> (string + string \<Rightarrow> ('r, 'e, 'a) billing) \<Rightarrow> ('r, 'e, 'a) billing" where
  "report_meter_usage E customer_id event_name quantity at identifier k =
     stripe_write E (Meter_Event customer_id event_name quantity at identifier) (st_meter (bv_stripe E)) (\<lambda>r.
       k (case prefix_err ''Failed to send meter event: '' r of
            Inl e \<Rightarrow> Inl e
          | Inr (status, body) \<Rightarrow>
              if status \<in> {200..299} then Inr identifier
              else Inl (''Meter event rejected ('' @ show_nat status @ ''): '' @ body)))"

definition get_subscription_period_end :: "'r billing_env \<Rightarrow> string \<Rightarrow> string + timestamp" where
  "get_subscription_period_end E subscription_id =
     (case stripe_get_subscription E subscription_id of
        Inl e \<Rightarrow> Inl e
      | Inr sub \<Rightarrow>
          (case bv_timestamp E (sb_period_end sub) of
             None \<Rightarrow> Inl (''Invalid period end timestamp: '' @ show_int (sb_period_end sub))
           | Some t \<Rightarrow> Inr t))"

definition stripe_list_subscriptions :: "'r billing_env \<Rightarrow> string \<Rightarrow> string + stripe_subscription list" where
  "stripe_list_subscriptions E customer_id =
     (if \<not> st_valid_customer (bv_stripe E) customer_id then Inl ''Invalid customer ID''
      else prefix_err ''Failed to list subscriptions: '' (st_list_subscriptions (bv_stripe E) customer_id))"

definition stripe_cancel_subscription :: "'r billing_env \<Rightarrow> string \<Rightarrow> (string + stripe_subscription \<Rightarrow> ('r, 'e, 'a) billing) \<Rightarrow> ('r, 'e, 'a) billing" where
  "stripe_cancel_subscription E subscription_id k =
     (if \<not> st_valid_subscription (bv_stripe E) subscription_id then k (Inl ''Invalid subscription ID'')
      else stripe_write E (Cancel_At_Period_End subscription_id) (st_update (bv_stripe E))
             (\<lambda>r. k (prefix_err ''Failed to cancel subscription: '' r)))"

definition cancel_subscription_immediately :: "'r billing_env \<Rightarrow> string \<Rightarrow> (string + stripe_subscription \<Rightarrow> ('r, 'e, 'a) billing) \<Rightarrow> ('r, 'e, 'a) billing" where
  "cancel_subscription_immediately E subscription_id k =
     (if \<not> st_valid_subscription (bv_stripe E) subscription_id then k (Inl ''Invalid subscription ID'')
      else stripe_write E (Cancel_Now subscription_id) (st_update (bv_stripe E))
             (\<lambda>r. k (prefix_err ''Failed to cancel subscription: '' r)))"

text \<open>The new price replaces that of the subscription's first item.\<close>

definition update_subscription_plan ::
  "'r billing_env \<Rightarrow> string \<Rightarrow> string \<Rightarrow> (string + stripe_subscription \<Rightarrow> ('r, 'e, 'a) billing) \<Rightarrow> ('r, 'e, 'a) billing" where
  "update_subscription_plan E subscription_id new_price_id k =
     (if \<not> st_valid_subscription (bv_stripe E) subscription_id then k (Inl ''Invalid subscription ID'')
      else case stripe_get_subscription E subscription_id of
        Inl e \<Rightarrow> k (Inl e)
      | Inr subscription \<Rightarrow>
          (case sb_items subscription of
             [] \<Rightarrow> k (Inl ''No plan subscription item found'')
           | (item_id, _) # _ \<Rightarrow>
               if \<not> st_valid_price (bv_stripe E) new_price_id then k (Inl ''Invalid price ID'')
               else stripe_write E (Change_Price subscription_id item_id new_price_id) (st_update (bv_stripe E))
                      (\<lambda>r. k (prefix_err ''Failed to update subscription plan: '' r))))"

record PaymentMethodDetails =
  pm_brand :: string
  pm_last4 :: string
  pm_exp_month :: "32 word"
  pm_exp_year :: "32 word"

definition get_default_payment_method :: "'r billing_env \<Rightarrow> string \<Rightarrow> string + PaymentMethodDetails option" where
  "get_default_payment_method E customer_id =
     (if \<not> st_valid_customer (bv_stripe E) customer_id then Inl ''Invalid customer ID''
      else case prefix_err ''Failed to list payment methods: '' (st_cards (bv_stripe E) customer_id) of
        Inl e \<Rightarrow> Inl e
      | Inr (Some c # _) \<Rightarrow> Inr (Some \<lparr>
            pm_brand = (if sc_brand c = [] then ''card'' else to_lower (bv_lower E) (sc_brand c)), pm_last4 = sc_last4 c,
            pm_exp_month = ucast (sc_exp_month c), pm_exp_year = ucast (sc_exp_year c) \<rparr>)
      | Inr _ \<Rightarrow> Inr None)"

text \<open>The plan of the price of the first item; the webhooks read it in the same way.\<close>

definition get_plan_from_subscription :: "env \<Rightarrow> stripe_subscription \<Rightarrow> Plan" where
  "get_plan_from_subscription vars subscription =
     unwrap_or (Option.bind (case sb_items subscription of [] \<Rightarrow> None | (_, price) # _ \<Rightarrow> price) (get_plan_by_price_id vars)) Plan_Free"

definition stripe_list_invoices :: "'r billing_env \<Rightarrow> string \<Rightarrow> nat \<Rightarrow> string + stripe_invoice list" where
  "stripe_list_invoices E customer_id limit =
     (if \<not> st_valid_customer (bv_stripe E) customer_id then Inl ''Invalid customer ID''
      else prefix_err ''Failed to list invoices: '' (st_invoices (bv_stripe E) customer_id limit))"


section \<open>The events\<close>

definition run_rows :: "'r billing_env \<Rightarrow> (workspace_db \<Rightarrow> workspace_db) \<Rightarrow> ('r, string, 'a) billing \<Rightarrow> ('r, string, 'a) billing" where
  "run_rows E f k = run_or (change (on_rows f)) (bv_db_text E) (\<lambda>_. k)"

text \<open>Plan, then status and end of the period, from Stripe's subscription.\<close>

definition save_subscription :: "'r billing_env \<Rightarrow> uuid \<Rightarrow> stripe_subscription \<Rightarrow> ('r, string, unit) billing" where
  "save_subscription E workspace_id subscription =
     run_rows E (ws_update_plan (bv_now E) workspace_id (get_plan_from_subscription (bv_vars E) subscription))
     (run_rows E (ws_update_subscription_status (bv_now E) workspace_id (sb_status subscription)
        (bv_timestamp E (sb_period_end subscription)))
     (answer ()))"

definition metadata_workspace :: "'r billing_env \<Rightarrow> (string \<times> string) list \<Rightarrow> uuid option" where
  "metadata_workspace E m = Option.bind (map_of m ''workspace_id'') (bv_parse_uuid E)"

definition handle_checkout_completed :: "'r billing_env \<Rightarrow> stripe_event \<Rightarrow> ('r, string, unit) billing" where
  "handle_checkout_completed E event =
     (case ev_object event of
        Checkout_Object session \<Rightarrow>
          require (Option.bind (ss_metadata session) (metadata_workspace E)) ''Missing workspace_id in metadata'' (\<lambda>workspace_id.
          run_or (select (\<lambda>b. ws_find_by_id workspace_id (bl_workspaces b))) (bv_db_text E) (\<lambda>found.
          require found ''Workspace not found'' (\<lambda>workspace.
          require (ss_subscription session) ''Missing subscription ID'' (\<lambda>subscription_id.
          if ws_stripe_subscription_id workspace = Some subscription_id then answer ()
          else
            require (ss_customer session) ''Missing customer ID'' (\<lambda>customer_id.
            run_rows E (ws_update_stripe_ids (bv_now E) workspace_id customer_id subscription_id)
            (ensure (st_valid_subscription (bv_stripe E) subscription_id) ''Invalid subscription ID''
            (require_ok (st_retrieve (bv_stripe E) subscription_id) (\<lambda>e. ''Failed to retrieve subscription: '' @ e) (\<lambda>subscription.
             save_subscription E workspace_id subscription)))))))) 
      | _ \<Rightarrow> answer ())"

text \<open>\<^verbatim>\<open>handle_subscription_created\<close> and \<^verbatim>\<open>handle_subscription_updated\<close> do the same.\<close>

definition handle_subscription_updated :: "'r billing_env \<Rightarrow> stripe_event \<Rightarrow> ('r, string, unit) billing" where
  "handle_subscription_updated E event =
     (case ev_object event of
        Subscription_Object subscription \<Rightarrow>
          require (metadata_workspace E (sb_metadata subscription)) ''Missing workspace_id in subscription metadata'' (\<lambda>workspace_id.
          save_subscription E workspace_id subscription)
      | _ \<Rightarrow> answer ())"

definition downgrade :: "'r billing_env \<Rightarrow> uuid \<Rightarrow> ('r, string, unit) billing" where
  "downgrade E workspace_id =
     run_rows E (ws_update_plan (bv_now E) workspace_id Plan_Free)
     (run_rows E (ws_clear_stripe_subscription (bv_now E) workspace_id)
     (answer ()))"

definition handle_subscription_deleted :: "'r billing_env \<Rightarrow> stripe_event \<Rightarrow> ('r, string, unit) billing" where
  "handle_subscription_deleted E event =
     (case ev_object event of
        Subscription_Object subscription \<Rightarrow>
          (case metadata_workspace E (sb_metadata subscription) of
             Some workspace_id \<Rightarrow> downgrade E workspace_id
           | None \<Rightarrow>
               run_sql (select (\<lambda>b. ws_find_by_stripe_subscription (sb_id subscription) (bl_workspaces b))) (\<lambda>by_sub.
               case by_sub of
                 Some (Some ws) \<Rightarrow> downgrade E (ws_id ws)
               | _ \<Rightarrow>
                   run_sql (select (\<lambda>b. ws_find_by_stripe_customer (sb_customer subscription) (bl_workspaces b))) (\<lambda>by_customer.
                   case by_customer of
                     Some (Some ws) \<Rightarrow>
                       if ws_stripe_subscription_id ws = Some (sb_id subscription) then downgrade E (ws_id ws) else answer ()
                   | _ \<Rightarrow> answer ())))
      | _ \<Rightarrow> answer ())"

definition failed_payment_status :: "nat \<Rightarrow> string" where
  "failed_payment_status attempt_count = (if 3 \<le> attempt_count then ''unpaid'' else ''past_due'')"

definition handle_invoice_payment_failed :: "'r billing_env \<Rightarrow> stripe_event \<Rightarrow> ('r, string, unit) billing" where
  "handle_invoice_payment_failed E event =
     (case ev_object event of
        Invoice_Object invoice \<Rightarrow>
          (case in_customer invoice of
             None \<Rightarrow> answer ()
           | Some customer_id \<Rightarrow>
               run_sql (select (\<lambda>b. ws_find_by_stripe_customer customer_id (bl_workspaces b))) (\<lambda>found.
               case found of
                 Some (Some workspace) \<Rightarrow>
                   run_sql (change (on_rows (ws_update_subscription_status (bv_now E) (ws_id workspace)
                     (failed_payment_status (unwrap_or (in_attempt_count invoice) 0)) None))) (\<lambda>_. answer ())
               | _ \<Rightarrow> answer ()))
      | _ \<Rightarrow> answer ())"

definition invoice_period_end :: "'r billing_env \<Rightarrow> stripe_invoice \<Rightarrow> timestamp option" where
  "invoice_period_end E invoice =
     (case in_lines invoice of
        Some (Some (Some t) # _) \<Rightarrow> bv_timestamp E t
      | _ \<Rightarrow> None)"

definition handle_invoice_paid :: "'r billing_env \<Rightarrow> stripe_event \<Rightarrow> ('r, string, unit) billing" where
  "handle_invoice_paid E event =
     (case ev_object event of
        Invoice_Object invoice \<Rightarrow>
          (case in_customer invoice of
             None \<Rightarrow> answer ()
           | Some customer_id \<Rightarrow>
               run_sql (select (\<lambda>b. ws_find_by_stripe_customer customer_id (bl_workspaces b))) (\<lambda>found.
               case found of
                 Some (Some workspace) \<Rightarrow>
                   if ws_subscription_status workspace \<in> {Some ''past_due'', Some ''unpaid''} then
                     run_sql (change (on_rows (ws_update_subscription_status (bv_now E) (ws_id workspace) ''active''
                       (invoice_period_end E invoice)))) (\<lambda>_. answer ())
                   else answer ()
               | _ \<Rightarrow> answer ()))
      | _ \<Rightarrow> answer ())"

definition handle_event :: "'r billing_env \<Rightarrow> stripe_event \<Rightarrow> ('r, string, unit) billing" where
  "handle_event E event =
     (case ev_type event of
        CheckoutSessionCompleted \<Rightarrow> handle_checkout_completed E event
      | CustomerSubscriptionCreated \<Rightarrow> handle_subscription_updated E event
      | CustomerSubscriptionUpdated \<Rightarrow> handle_subscription_updated E event
      | CustomerSubscriptionDeleted \<Rightarrow> handle_subscription_deleted E event
      | InvoicePaid \<Rightarrow> handle_invoice_paid E event
      | InvoicePaymentFailed \<Rightarrow> handle_invoice_payment_failed E event
      | Other_Event _ \<Rightarrow> answer ())"

definition verify_event :: "'r billing_env \<Rightarrow> string \<Rightarrow> string \<Rightarrow> string \<Rightarrow> string + stripe_event" where
  "verify_event E secret payload signature =
     prefix_err ''Failed to verify webhook: '' (st_construct_event (bv_stripe E) payload signature secret)"

end
