(* ===== verification/Billing_Routes.thy ===== *)
theory Billing_Routes
  imports Stripe_Billing
begin

text \<open>
  The billing routes of the API (\<^verbatim>\<open>crates/api/src/routes/billing.rs\<close>), the webhook endpoint included. An error is a status with
  its text. The usage report (\<^verbatim>\<open>get_usage\<close>) adds floating point numbers and is not modelled.
\<close>

definition CHECKOUT_LOCK_TTL_SECS :: nat where "CHECKOUT_LOCK_TTL_SECS = 30"
definition WEBHOOK_RATE_LIMIT_PREFIX :: string where "WEBHOOK_RATE_LIMIT_PREFIX = ''webhook_rate:stripe:''"
definition WEBHOOK_RATE_LIMIT_MAX :: int where "WEBHOOK_RATE_LIMIT_MAX = 100"
definition WEBHOOK_RATE_LIMIT_WINDOW_SECS :: nat where "WEBHOOK_RATE_LIMIT_WINDOW_SECS = 60"

type_synonym http_error = "nat \<times> string"

abbreviation bv_db_error :: "'r billing_env \<Rightarrow> http_error" where
  "bv_db_error E \<equiv> api_db_error (bv_db_text E)"


section \<open>Plans\<close>

record PlanResponse =
  pl_plan :: string
  pl_name :: string
  pl_description :: string
  pl_price_monthly_jpy :: "32 word option"
  pl_price_yearly_jpy :: "32 word option"
  pl_features :: "string list"
  pl_limits :: PlanLimits

definition list_plans :: "PlanResponse list" where
  "list_plans = map (\<lambda>p. \<lparr>
     pl_plan = Plan_display (pd_plan p), pl_name = pd_name p, pl_description = pd_description p,
     pl_price_monthly_jpy = price_monthly_jpy p, pl_price_yearly_jpy = price_yearly_jpy p,
     pl_features = pd_features p, pl_limits = pd_limits p \<rparr>) PLANS"

definition is_missing_stripe_resource :: "casing \<Rightarrow> string \<Rightarrow> bool" where
  "is_missing_stripe_resource K e =
     (let s = to_lower K e in str_contains s ''no such customer'' \<or> str_contains s ''resource_missing'')"

definition price_variable :: "string \<Rightarrow> bool \<Rightarrow> string option" where
  "price_variable plan yearly =
     (if plan = ''pro'' then Some (if yearly then ''STRIPE_PRICE_PRO_YEARLY'' else ''STRIPE_PRICE_PRO_MONTHLY'')
      else if plan = ''team'' then Some (if yearly then ''STRIPE_PRICE_TEAM_YEARLY'' else ''STRIPE_PRICE_TEAM_MONTHLY'')
      else if plan = ''enterprise'' then Some (if yearly then ''STRIPE_PRICE_ENTERPRISE_YEARLY'' else ''STRIPE_PRICE_ENTERPRISE_MONTHLY'')
      else None)"

definition get_price_id :: "env \<Rightarrow> string \<Rightarrow> bool \<Rightarrow> string option" where
  "get_price_id vars plan yearly = Option.bind (price_variable plan yearly) vars"


section \<open>Who may see and manage billing\<close>

definition with_member ::
  "'r billing_env \<Rightarrow> uuid \<Rightarrow> uuid \<Rightarrow> (WorkspaceMember \<Rightarrow> ('r, http_error, 'a) billing) \<Rightarrow> ('r, http_error, 'a) billing" where
  "with_member E auth_user workspace_id k =
     run_or (select (\<lambda>b. get_member workspace_id auth_user (bl_workspaces b))) (bv_db_error E) (\<lambda>found.
     require found (403, ''Not a member'') k)"

definition is_manager :: "WorkspaceMember \<Rightarrow> bool" where
  "is_manager member \<longleftrightarrow> WorkspaceMember_role member \<in> {Role_Owner, Role_Admin}"

definition with_manager ::
  "'r billing_env \<Rightarrow> string \<Rightarrow> uuid \<Rightarrow> uuid \<Rightarrow> ('r, http_error, 'a) billing \<Rightarrow> ('r, http_error, 'a) billing" where
  "with_manager E message auth_user workspace_id k =
     with_member E auth_user workspace_id (\<lambda>member. ensure (is_manager member) (403, message) k)"

definition with_workspace ::
  "'r billing_env \<Rightarrow> uuid \<Rightarrow> (Workspace \<Rightarrow> ('r, http_error, 'a) billing) \<Rightarrow> ('r, http_error, 'a) billing" where
  "with_workspace E workspace_id k =
     run_or (select (\<lambda>b. ws_find_by_id workspace_id (bl_workspaces b))) (bv_db_error E) (\<lambda>found.
     require found (404, ''Workspace not found'') k)"

definition with_billing :: "'r billing_env \<Rightarrow> ('r, http_error, 'a) billing \<Rightarrow> ('r, http_error, 'a) billing" where
  "with_billing E = ensure (bv_billing E) (503, ''Billing not configured'')"

definition managers_only :: string where
  "managers_only = ''Only owners and admins can manage billing''"


section \<open>The subscription\<close>

record SubscriptionResponse =
  sr_plan :: string
  sr_status :: string
  sr_stripe_customer_id :: "string option"
  sr_stripe_subscription_id :: "string option"
  sr_current_period_start :: "int option"
  sr_current_period_end :: "timestamp option"
  sr_cancel_at_period_end :: bool

definition get_subscription :: "'r billing_env \<Rightarrow> uuid \<Rightarrow> uuid \<Rightarrow> ('r, http_error, SubscriptionResponse) billing" where
  "get_subscription E auth_user workspace_id =
     with_member E auth_user workspace_id (\<lambda>_.
     with_workspace E workspace_id (\<lambda>workspace.
     let live = (case ws_stripe_subscription_id workspace of
                   Some i \<Rightarrow> if bv_billing E then (case stripe_get_subscription E i of Inr s \<Rightarrow> Some s | Inl _ \<Rightarrow> None) else None
                 | None \<Rightarrow> None)
     in answer \<lparr>
          sr_plan = ws_plan workspace, sr_status = unwrap_or (ws_subscription_status workspace) ''none'',
          sr_stripe_customer_id = ws_stripe_customer_id workspace, sr_stripe_subscription_id = ws_stripe_subscription_id workspace,
          sr_current_period_start = map_option sb_period_start live, sr_current_period_end = ws_current_period_end workspace,
          sr_cancel_at_period_end = unwrap_or (map_option sb_cancel_at_period_end live) False \<rparr>))"

text \<open>\<^verbatim>\<open>SET NX EX\<close>: an unreachable server counts as a lock that is held.\<close>

definition checkout_lock_key :: "'r billing_env \<Rightarrow> uuid \<Rightarrow> string" where
  "checkout_lock_key E workspace_id = ''checkout_lock:'' @ av_show_uuid (bv_api E) workspace_id"

definition acquire_lock :: "'r redis_ops \<Rightarrow> string \<Rightarrow> 'r \<Rightarrow> (bool \<times> 'r) option" where
  "acquire_lock R k s =
     (if \<not> r_up R s then None
      else if r_exists R s k then Some (False, s)
      else Some (True, r_set_ex R s k (RInt 1) CHECKOUT_LOCK_TTL_SECS))"

definition on_bl_redis :: "('r \<Rightarrow> ('x \<times> 'r) option) \<Rightarrow> 'r billing_db \<Rightarrow> ('x \<times> 'r billing_db) option" where
  "on_bl_redis f b = map_option (\<lambda>(x, s). (x, b\<lparr>bl_api := (bl_api b)\<lparr>ap_redis := s\<rparr>\<rparr>)) (f (ap_redis (bl_api b)))"

definition customer_of ::
  "'r billing_env \<Rightarrow> uuid \<Rightarrow> uuid \<Rightarrow> Workspace \<Rightarrow> (string \<Rightarrow> ('r, http_error, 'a) billing) \<Rightarrow> ('r, http_error, 'a) billing" where
  "customer_of E auth_user workspace_id workspace k =
     (case ws_stripe_customer_id workspace of
        Some customer_id \<Rightarrow> k customer_id
      | None \<Rightarrow>
          run_or (select (\<lambda>b. user_find_by_id auth_user (ap_users (bl_api b)))) (bv_db_error E) (\<lambda>found.
          require found (404, ''User not found'') (\<lambda>user.
          create_customer E (us_email user) (us_name user) auth_user (\<lambda>r.
          require_ok r api_db_error (\<lambda>customer_id.
          run_or (change (on_rows (ws_update_stripe_customer (bv_now E) workspace_id customer_id))) (bv_db_error E) (\<lambda>_.
          k customer_id))))))"

record CheckoutResponse =
  co_checkout_url :: string
  co_session_id :: string

definition create_checkout :: "'r billing_env \<Rightarrow> uuid \<Rightarrow> uuid \<Rightarrow> string \<Rightarrow> bool \<Rightarrow> ('r, http_error, CheckoutResponse) billing" where
  "create_checkout E auth_user workspace_id plan yearly =
     ensure (plan \<in> {''pro'', ''team'', ''enterprise''}) (400, ''Invalid plan. Must be one of: pro, team, enterprise'')
     (with_manager E managers_only auth_user workspace_id
     (with_workspace E workspace_id (\<lambda>workspace.
      ensure (ws_stripe_subscription_id workspace = None)
        (409, ''Workspace already has an active subscription. Please cancel the existing subscription first or use the billing portal to change plans.'')
      (run_sql (on_bl_redis (acquire_lock (av_redis (bv_api E)) (checkout_lock_key E workspace_id))) (\<lambda>acquired.
      ensure (unwrap_or acquired False)
        (429, ''A checkout is already in progress for this workspace. Please wait a moment and try again.'')
      (with_billing E
      (customer_of E auth_user workspace_id workspace (\<lambda>customer_id.
       require (get_price_id (bv_vars E) plan yearly) (400, ''Price not configured for this plan'') (\<lambda>price_id.
       create_checkout_session E customer_id price_id workspace_id (\<lambda>r.
       require_ok r api_db_error (\<lambda>(session_id, url).
       require url (500, ''Stripe did not return a checkout URL'') (\<lambda>checkout_url.
       answer \<lparr>co_checkout_url = checkout_url, co_session_id = session_id\<rparr>))))))))))))"

record ChangePlanResponse =
  cg_plan :: string
  cg_status :: string
  cg_portal_url :: "string option"

definition change_plan :: "'r billing_env \<Rightarrow> uuid \<Rightarrow> uuid \<Rightarrow> string \<Rightarrow> bool \<Rightarrow> ('r, http_error, ChangePlanResponse) billing" where
  "change_plan E auth_user workspace_id plan yearly =
     ensure (plan \<in> {''pro'', ''team'', ''enterprise''}) (400, ''Invalid plan'')
     (with_manager E managers_only auth_user workspace_id
     (with_workspace E workspace_id (\<lambda>workspace.
      require (ws_stripe_subscription_id workspace) (400, ''No active subscription. Please subscribe first.'') (\<lambda>subscription_id.
      with_billing E
      (require_ok (stripe_get_subscription E subscription_id) (\<lambda>e. (500, ''Failed to get subscription: '' @ e)) (\<lambda>current.
       if plan = Plan_display (get_plan_from_subscription (bv_vars E) current) \<and> sb_cancel_at_period_end current then
         require (get_price_id (bv_vars E) plan yearly) (400, ''Price not configured for this plan'') (\<lambda>new_price_id.
         update_subscription_plan E subscription_id new_price_id (\<lambda>r.
         require_ok r (\<lambda>e. (500, ''Failed to reactivate: '' @ e)) (\<lambda>subscription.
         answer \<lparr>cg_plan = plan, cg_status = sb_status subscription, cg_portal_url = None\<rparr>)))
       else
         require (ws_stripe_customer_id workspace) (400, ''No billing setup for this workspace'') (\<lambda>customer_id.
         stripe_portal_session E customer_id (\<lambda>r.
         require_ok r api_db_error (\<lambda>url.
         answer \<lparr>cg_plan = plan, cg_status = ''redirect'', cg_portal_url = Some url\<rparr>)))))))))"

record CancelResponse =
  cl_status :: string
  cl_cancel_at_period_end :: bool
  cl_current_period_end :: "int option"

definition cancel_subscription :: "'r billing_env \<Rightarrow> uuid \<Rightarrow> uuid \<Rightarrow> ('r, http_error, CancelResponse) billing" where
  "cancel_subscription E auth_user workspace_id =
     with_manager E managers_only auth_user workspace_id
     (with_workspace E workspace_id (\<lambda>workspace.
      require (ws_stripe_subscription_id workspace) (400, ''No active subscription to cancel'') (\<lambda>subscription_id.
      with_billing E
      (require_ok (stripe_get_subscription E subscription_id) (\<lambda>e. (500, ''Failed to get subscription: '' @ e)) (\<lambda>current.
       if sb_status current = ''canceled'' then
         run_or (change (on_rows (ws_clear_stripe_subscription (bv_now E) workspace_id))) (bv_db_error E) (\<lambda>_.
         run_or (change (on_rows (ws_update_plan (bv_now E) workspace_id Plan_Free))) (bv_db_error E) (\<lambda>_.
         answer \<lparr>cl_status = ''canceled'', cl_cancel_at_period_end = False, cl_current_period_end = None\<rparr>))
       else if sb_cancel_at_period_end current then
         answer \<lparr>cl_status = sb_status current, cl_cancel_at_period_end = True, cl_current_period_end = Some (sb_period_end current)\<rparr>
       else
         stripe_cancel_subscription E subscription_id (\<lambda>r.
         require_ok r (\<lambda>e. (500, ''Failed to cancel subscription: '' @ e)) (\<lambda>subscription.
         let reply = answer \<lparr>cl_status = sb_status subscription, cl_cancel_at_period_end = sb_cancel_at_period_end subscription,
               cl_current_period_end = Some (sb_period_end subscription)\<rparr>
         in if sb_cancel_at_period_end subscription then
              run_or (change (on_rows (ws_update_subscription_status (bv_now E) workspace_id ''active''
                (bv_timestamp E (sb_period_end subscription))))) (bv_db_error E) (\<lambda>_. reply)
            else reply)))))))"

definition create_portal_session :: "'r billing_env \<Rightarrow> uuid \<Rightarrow> uuid \<Rightarrow> ('r, http_error, string) billing" where
  "create_portal_session E auth_user workspace_id =
     with_manager E managers_only auth_user workspace_id
     (with_workspace E workspace_id (\<lambda>workspace.
      require (ws_stripe_customer_id workspace) (400, ''No billing setup for this workspace'') (\<lambda>customer_id.
      with_billing E
      (stripe_portal_session E customer_id (\<lambda>r.
       require_ok r api_db_error answer)))))"


section \<open>Webhooks\<close>

text \<open>Stripe's delivery: limited per address, then verified, then handled; an error is answered with 500, so that Stripe repeats it.\<close>

definition handle_webhook :: "'r billing_env \<Rightarrow> headers \<Rightarrow> string \<Rightarrow> string \<Rightarrow> ('r, http_error, nat) billing" where
  "handle_webhook E h peer body =
     (let ip = api_client_ip (bv_vars E) h peer
      in run_sql (on_bl_redis (count_script (av_redis (bv_api E)) (WEBHOOK_RATE_LIMIT_PREFIX @ ip) WEBHOOK_RATE_LIMIT_WINDOW_SECS)) (\<lambda>counted.
         ensure (\<not> (case counted of Some count \<Rightarrow> WEBHOOK_RATE_LIMIT_MAX < count | None \<Rightarrow> False)) (429, ''Rate limit exceeded'')
         (require (hdr_str h ''stripe-signature'') (400, ''Missing signature'') (\<lambda>signature.
          require (bv_webhook_secret E) (503, ''Webhook handler not configured'') (\<lambda>secret.
          require_ok (verify_event E secret body signature) (\<lambda>_. (400, ''Invalid webhook signature'')) (\<lambda>event.
          map_prog (map_sum (internal_error ''Webhook handler error'') (\<lambda>_. 200)) (handle_event E event)))))))"


section \<open>Settings, cards, invoices and history\<close>

definition get_billing_settings :: "'r billing_env \<Rightarrow> uuid \<Rightarrow> uuid \<Rightarrow> ('r, http_error, bool) billing" where
  "get_billing_settings E auth_user workspace_id =
     with_member E auth_user workspace_id (\<lambda>_.
     with_workspace E workspace_id (\<lambda>workspace.
     answer (unwrap_or (ws_auto_email_invoices workspace) True)))"

definition update_billing_settings :: "'r billing_env \<Rightarrow> uuid \<Rightarrow> uuid \<Rightarrow> bool \<Rightarrow> ('r, http_error, bool) billing" where
  "update_billing_settings E auth_user workspace_id auto_email_invoices =
     with_manager E ''Only owners and admins can manage billing settings'' auth_user workspace_id
     (run_or (change (on_rows (ws_update_billing_settings (bv_now E) workspace_id auto_email_invoices))) (bv_db_error E) (\<lambda>_.
      answer auto_email_invoices))"

definition get_payment_method :: "'r billing_env \<Rightarrow> uuid \<Rightarrow> uuid \<Rightarrow> ('r, http_error, PaymentMethodDetails option) billing" where
  "get_payment_method E auth_user workspace_id =
     with_member E auth_user workspace_id (\<lambda>_.
     with_workspace E workspace_id (\<lambda>workspace.
     case ws_stripe_customer_id workspace of
       None \<Rightarrow> answer None
     | Some customer_id \<Rightarrow>
         with_billing E (answer (case get_default_payment_method E customer_id of Inl _ \<Rightarrow> None | Inr pm \<Rightarrow> pm))))"

record InvoiceResponse =
  ir_id :: string
  ir_number :: "string option"
  ir_status :: "string option"
  ir_amount_due :: int
  ir_amount_paid :: int
  ir_currency :: string
  ir_created :: int
  ir_hosted_invoice_url :: "string option"
  ir_invoice_pdf :: "string option"

definition invoice_response :: "stripe_invoice \<Rightarrow> InvoiceResponse" where
  "invoice_response i = \<lparr>
     ir_id = in_id i, ir_number = in_number i, ir_status = in_status i, ir_amount_due = unwrap_or (in_amount_due i) 0,
     ir_amount_paid = unwrap_or (in_amount_paid i) 0, ir_currency = unwrap_or (in_currency i) ''jpy'',
     ir_created = unwrap_or (in_created i) 0, ir_hosted_invoice_url = in_hosted_invoice_url i, ir_invoice_pdf = in_invoice_pdf i \<rparr>"

text \<open>A customer that Stripe does not know has an empty list.\<close>

definition customer_list ::
  "'r billing_env \<Rightarrow> uuid \<Rightarrow> uuid \<Rightarrow> (string \<Rightarrow> string + 'x list) \<Rightarrow> (string \<Rightarrow> http_error) \<Rightarrow> ('x \<Rightarrow> 'y) \<Rightarrow> ('r, http_error, 'y list) billing" where
  "customer_list E auth_user workspace_id fetch err response =
     with_member E auth_user workspace_id (\<lambda>_.
     with_workspace E workspace_id (\<lambda>workspace.
     case ws_stripe_customer_id workspace of
       None \<Rightarrow> answer []
     | Some customer_id \<Rightarrow>
         if \<not> bv_billing E then answer []
         else (case fetch customer_id of
                 Inr xs \<Rightarrow> answer (map response xs)
               | Inl e \<Rightarrow> if is_missing_stripe_resource (bv_lower E) e then answer [] else refuse (err e))))"

definition list_invoices :: "'r billing_env \<Rightarrow> uuid \<Rightarrow> uuid \<Rightarrow> ('r, http_error, InvoiceResponse list) billing" where
  "list_invoices E auth_user workspace_id =
     customer_list E auth_user workspace_id (\<lambda>c. stripe_list_invoices E c 100) api_db_error invoice_response"

record SubscriptionHistoryItem =
  sh_id :: string
  sh_plan :: string
  sh_status :: string
  sh_current_period_start :: int
  sh_current_period_end :: int
  sh_canceled_at :: "int option"
  sh_ended_at :: "int option"
  sh_cancel_at_period_end :: bool

definition history_item :: "env \<Rightarrow> stripe_subscription \<Rightarrow> SubscriptionHistoryItem" where
  "history_item vars sub = \<lparr>
     sh_id = sb_id sub, sh_plan = Plan_display (get_plan_from_subscription vars sub), sh_status = sb_status sub,
     sh_current_period_start = sb_period_start sub, sh_current_period_end = sb_period_end sub,
     sh_canceled_at = sb_canceled_at sub, sh_ended_at = sb_ended_at sub, sh_cancel_at_period_end = sb_cancel_at_period_end sub \<rparr>"

definition list_subscription_history :: "'r billing_env \<Rightarrow> uuid \<Rightarrow> uuid \<Rightarrow> ('r, http_error, SubscriptionHistoryItem list) billing" where
  "list_subscription_history E auth_user workspace_id =
     customer_list E auth_user workspace_id (stripe_list_subscriptions E) (\<lambda>e. (500, ''Failed to list subscriptions: '' @ e))
       (history_item (bv_vars E))"


section \<open>All requests\<close>

datatype billing_request =
    Get_Subscription uuid uuid | Create_Checkout uuid uuid string bool | Change_Plan uuid uuid string bool
  | Cancel_Subscription uuid uuid | Portal_Session uuid uuid | Stripe_Webhook headers string string
  | Get_Settings uuid uuid | Update_Settings uuid uuid bool | Get_Payment_Method uuid uuid | List_Invoices uuid uuid
  | List_History uuid uuid

definition request_done :: "('r, http_error, 'a) billing \<Rightarrow> ('r, http_error, unit) billing" where
  "request_done p = map_prog (map_sum id (\<lambda>_. ())) p"

fun billing_handle :: "'r billing_env \<Rightarrow> billing_request \<Rightarrow> ('r, http_error, unit) billing" where
  "billing_handle E (Get_Subscription u w) = request_done (get_subscription E u w)"
| "billing_handle E (Create_Checkout u w plan yearly) = request_done (create_checkout E u w plan yearly)"
| "billing_handle E (Change_Plan u w plan yearly) = request_done (change_plan E u w plan yearly)"
| "billing_handle E (Cancel_Subscription u w) = request_done (cancel_subscription E u w)"
| "billing_handle E (Portal_Session u w) = request_done (create_portal_session E u w)"
| "billing_handle E (Stripe_Webhook h peer body) = request_done (handle_webhook E h peer body)"
| "billing_handle E (Get_Settings u w) = request_done (get_billing_settings E u w)"
| "billing_handle E (Update_Settings u w b) = request_done (update_billing_settings E u w b)"
| "billing_handle E (Get_Payment_Method u w) = request_done (get_payment_method E u w)"
| "billing_handle E (List_Invoices u w) = request_done (list_invoices E u w)"
| "billing_handle E (List_History u w) = request_done (list_subscription_history E u w)"

end
