(* ===== verification/Billing_Spec.thy ===== *)
theory Billing_Spec
  imports Billing_Routes
begin

text \<open>
  What billing promises: an abstract account for every workspace, the steps that Stripe's events are to make on the accounts,
  and that the webhook handlers make exactly these steps; what repeated deliveries repair; and who can change an account.
\<close>

section \<open>Accounts\<close>

record account =
  acc_plan :: Plan
  acc_customer :: "string option"
  acc_subscription :: "string option"
  acc_status :: "string option"
  acc_period_end :: "timestamp option"

type_synonym accounts = "uuid \<rightharpoonup> account"

definition account :: "Workspace \<Rightarrow> account" where
  "account w = \<lparr>acc_plan = Plan_of_str (ws_plan w), acc_customer = ws_stripe_customer_id w,
     acc_subscription = ws_stripe_subscription_id w, acc_status = ws_subscription_status w, acc_period_end = ws_current_period_end w\<rparr>"

definition accounts :: "'r billing_db \<Rightarrow> accounts" where
  "accounts b i = map_option account (ws_find_by_id i (bl_workspaces b))"

text \<open>Everything else that is stored.\<close>

definition others :: "'r billing_db \<Rightarrow> stripe_call list \<times> user_db \<times> 'r \<times> invite list \<times> WorkspaceMember list \<times> (uuid \<times> string \<times> string \<times> uuid) list" where
  "others b = (bl_calls b, ap_users (bl_api b), ap_redis (bl_api b), ap_outbox (bl_api b), wd_members (bl_workspaces b),
     map (\<lambda>w. (ws_id w, ws_name w, ws_slug w, ws_owner_id w)) (wd_workspaces (bl_workspaces b)))"

definition revise :: "uuid \<Rightarrow> (account \<Rightarrow> account) \<Rightarrow> accounts \<Rightarrow> accounts" where
  "revise i g A = A(i := map_option g (A i))"

lemma revise_revise [simp]: "revise i g (revise i h A) = revise i (\<lambda>a. g (h a)) A"
  by (rule ext) (auto simp: revise_def option.map_comp comp_def)

lemma revise_at: "revise i g A j = (if j = i then map_option g (A i) else A j)"
  by (simp add: revise_def)

lemma on_rows_rows [simp]: "bl_workspaces (on_rows f b) = f (bl_workspaces b)"
  by (simp add: on_rows_def bl_workspaces_def)

text \<open>The statements on one row, as steps on its account.\<close>

lemma accounts_set:
  assumes "\<And>w. ws_id (f w) = ws_id w" and "\<And>w. account (f w) = g (account w)"
  shows "accounts (on_rows (ws_set i f) b) = revise i g (accounts b)"
proof (rule ext)
  fix j
  have "ws_find_by_id j (ws_set i f (bl_workspaces b)) =
      map_option (\<lambda>w. if ws_id w = i then f w else w) (ws_find_by_id j (bl_workspaces b))"
    unfolding ws_find_by_id_def ws_set_def by (simp add: find_sql_update assms(1))
  moreover have "ws_id w = j" if "ws_find_by_id j (bl_workspaces b) = Some w" for w
    using that unfolding ws_find_by_id_def by (auto dest: find_Some_in)
  ultimately show "accounts (on_rows (ws_set i f) b) j = revise i g (accounts b) j"
    by (cases "ws_find_by_id j (bl_workspaces b)") (auto simp: accounts_def revise_def assms(2))
qed

lemma Plan_read_back [simp]: "Plan_of_str (Plan_display p) = p"
  by (cases p) (simp_all add: Plan_of_str_def)

lemma account_steps [simp]:
  "accounts (on_rows (ws_update_plan now i p) b) = revise i (\<lambda>a. a\<lparr>acc_plan := p\<rparr>) (accounts b)"
  "accounts (on_rows (ws_update_subscription_status now i st t) b) =
     revise i (\<lambda>a. a\<lparr>acc_status := Some st, acc_period_end := t\<rparr>) (accounts b)"
  "accounts (on_rows (ws_update_stripe_ids now i c s) b) =
     revise i (\<lambda>a. a\<lparr>acc_customer := Some c, acc_subscription := Some s, acc_status := Some ''active''\<rparr>) (accounts b)"
  "accounts (on_rows (ws_clear_stripe_subscription now i) b) =
     revise i (\<lambda>a. a\<lparr>acc_subscription := None, acc_status := Some ''cancelled''\<rparr>) (accounts b)"
  "accounts (on_rows (ws_update_stripe_customer now i c) b) = revise i (\<lambda>a. a\<lparr>acc_customer := Some c\<rparr>) (accounts b)"
  "accounts (on_rows (ws_update_billing_settings now i e) b) = revise i id (accounts b)"
  unfolding ws_update_plan_def ws_update_subscription_status_def ws_update_stripe_ids_def ws_clear_stripe_subscription_def
    ws_update_stripe_customer_def ws_update_billing_settings_def
  by (subst accounts_set, simp_all add: account_def)+

lemma others_set:
  assumes "\<And>w. ws_id (f w) = ws_id w" "\<And>w. ws_name (f w) = ws_name w" "\<And>w. ws_slug (f w) = ws_slug w" "\<And>w. ws_owner_id (f w) = ws_owner_id w"
  shows "others (on_rows (ws_set i f) b) = others b"
  using assms by (simp add: others_def on_rows_def bl_workspaces_def ws_set_def map_sql_update)

lemma others_steps [simp]:
  "others (on_rows (ws_update_plan now i p) b) = others b"
  "others (on_rows (ws_update_subscription_status now i st t) b) = others b"
  "others (on_rows (ws_update_stripe_ids now i c s) b) = others b"
  "others (on_rows (ws_clear_stripe_subscription now i) b) = others b"
  "others (on_rows (ws_update_stripe_customer now i c) b) = others b"
  "others (on_rows (ws_update_billing_settings now i e) b) = others b"
  unfolding ws_update_plan_def ws_update_subscription_status_def ws_update_stripe_ids_def ws_clear_stripe_subscription_def
    ws_update_stripe_customer_def ws_update_billing_settings_def
  by (subst others_set, simp_all)+

text \<open>Identifiers are the primary key, and Stripe's are not shared.\<close>

definition unshared :: "('w \<Rightarrow> 'k option) \<Rightarrow> 'w list \<Rightarrow> bool" where
  "unshared f ws \<longleftrightarrow> (\<forall>w \<in> set ws. \<forall>w' \<in> set ws. \<forall>k. f w = Some k \<longrightarrow> f w' = Some k \<longrightarrow> w = w')"

definition keyed :: "'r billing_db \<Rightarrow> bool" where
  "keyed b \<longleftrightarrow> distinct (map ws_id (wd_workspaces (bl_workspaces b)))"

lemma accounts_row: "keyed b \<Longrightarrow> w \<in> set (wd_workspaces (bl_workspaces b)) \<Longrightarrow> accounts b (ws_id w) = Some (account w)"
proof -
  assume k: "keyed b" and w: "w \<in> set (wd_workspaces (bl_workspaces b))"
  obtain w' where f: "find (\<lambda>x. ws_id x = ws_id w) (wd_workspaces (bl_workspaces b)) = Some w'"
    using w by (metis (mono_tags, lifting) find_None_iff not_Some_eq)
  then have "w' = w" using k w unfolding keyed_def by (metis (mono_tags, lifting) distinct_map find_Some_in inj_onD)
  then show ?thesis using f by (simp add: accounts_def ws_find_by_id_def)
qed

lemma accounts_Some: "accounts b i = Some a \<Longrightarrow> \<exists>w \<in> set (wd_workspaces (bl_workspaces b)). ws_id w = i \<and> account w = a"
  by (auto simp: accounts_def ws_find_by_id_def dest!: find_Some_in)

lemma find_by_stripe:
  assumes "keyed b"
  shows "ws_find_by_stripe_subscription s (bl_workspaces b) = Some w \<Longrightarrow>
      accounts b (ws_id w) = Some (account w) \<and> acc_subscription (account w) = Some s"
    and "ws_find_by_stripe_customer c (bl_workspaces b) = Some w \<Longrightarrow>
      accounts b (ws_id w) = Some (account w) \<and> acc_customer (account w) = Some c"
    and "ws_find_by_stripe_subscription s (bl_workspaces b) = None \<longleftrightarrow> (\<forall>i a. accounts b i = Some a \<longrightarrow> acc_subscription a \<noteq> Some s)"
    and "ws_find_by_stripe_customer c (bl_workspaces b) = None \<longleftrightarrow> (\<forall>i a. accounts b i = Some a \<longrightarrow> acc_customer a \<noteq> Some c)"
  using accounts_row [OF assms] accounts_Some [of b]
  by (auto simp: ws_find_by_stripe_subscription_def ws_find_by_stripe_customer_def account_def find_None_iff dest!: find_Some_in) 
     (metis account.select_convs(2,3))+


section \<open>The steps\<close>

definition mirrors :: "'r billing_env \<Rightarrow> stripe_subscription \<Rightarrow> account \<Rightarrow> account" where
  "mirrors E sub a = a\<lparr>acc_plan := get_plan_from_subscription (bv_vars E) sub, acc_status := Some (sb_status sub),
     acc_period_end := bv_timestamp E (sb_period_end sub)\<rparr>"

definition subscribes :: "string \<Rightarrow> string \<Rightarrow> account \<Rightarrow> account" where
  "subscribes c s a = a\<lparr>acc_customer := Some c, acc_subscription := Some s, acc_status := Some ''active''\<rparr>"

definition cancels :: "account \<Rightarrow> account" where
  "cancels a = a\<lparr>acc_plan := Plan_Free, acc_subscription := None, acc_status := Some ''cancelled''\<rparr>"

definition owes :: "nat \<Rightarrow> account \<Rightarrow> account" where
  "owes attempts a = a\<lparr>acc_status := Some (failed_payment_status attempts), acc_period_end := None\<rparr>"

definition pays :: "timestamp option \<Rightarrow> account \<Rightarrow> account" where
  "pays t a = (if acc_status a \<in> {Some ''past_due'', Some ''unpaid''} then a\<lparr>acc_status := Some ''active'', acc_period_end := t\<rparr> else a)"

inductive bills :: "'r billing_env \<Rightarrow> stripe_event \<Rightarrow> accounts \<Rightarrow> accounts \<Rightarrow> bool" for E where
  bills_checkout: "bills E \<lparr>ev_type = CheckoutSessionCompleted, ev_object = Checkout_Object s\<rparr> A (revise i (\<lambda>a. mirrors E sub (subscribes c sid a)) A)"
    if "Option.bind (ss_metadata s) (metadata_workspace E) = Some i" "A i = Some a" "ss_subscription s = Some sid" "ss_customer s = Some c"
      "acc_subscription a \<noteq> Some sid" "st_valid_subscription (bv_stripe E) sid" "st_retrieve (bv_stripe E) sid = Inr sub"
| bills_again: "bills E \<lparr>ev_type = CheckoutSessionCompleted, ev_object = Checkout_Object s\<rparr> A A"
    if "Option.bind (ss_metadata s) (metadata_workspace E) = Some i" "A i = Some a" "ss_subscription s = Some sid"
      "acc_subscription a = Some sid"
| bills_mirror: "bills E \<lparr>ev_type = t, ev_object = Subscription_Object sub\<rparr> A (revise i (mirrors E sub) A)"
    if "t \<in> {CustomerSubscriptionCreated, CustomerSubscriptionUpdated}" "metadata_workspace E (sb_metadata sub) = Some i"
| bills_cancel: "bills E \<lparr>ev_type = CustomerSubscriptionDeleted, ev_object = Subscription_Object sub\<rparr> A (revise i cancels A)"
    if "metadata_workspace E (sb_metadata sub) = Some i \<or>
      metadata_workspace E (sb_metadata sub) = None \<and> (\<exists>a. A i = Some a \<and> acc_subscription a = Some (sb_id sub))"
| bills_unknown: "bills E \<lparr>ev_type = CustomerSubscriptionDeleted, ev_object = Subscription_Object sub\<rparr> A A"
    if "metadata_workspace E (sb_metadata sub) = None" "\<And>i a. A i = Some a \<Longrightarrow> acc_subscription a \<noteq> Some (sb_id sub)"
| bills_owed: "bills E \<lparr>ev_type = InvoicePaymentFailed, ev_object = Invoice_Object v\<rparr> A (revise i (owes (unwrap_or (in_attempt_count v) 0)) A)"
    if "in_customer v = Some c" "A i = Some a" "acc_customer a = Some c"
| bills_paid: "bills E \<lparr>ev_type = InvoicePaid, ev_object = Invoice_Object v\<rparr> A (revise i (pays (invoice_period_end E v)) A)"
    if "in_customer v = Some c" "A i = Some a" "acc_customer a = Some c"
| bills_stranger: "bills E \<lparr>ev_type = t, ev_object = Invoice_Object v\<rparr> A A"
    if "t \<in> {InvoicePaid, InvoicePaymentFailed}" "\<And>i a c. in_customer v = Some c \<Longrightarrow> A i = Some a \<Longrightarrow> acc_customer a \<noteq> Some c"
| bills_other: "bills E \<lparr>ev_type = t, ev_object = ob\<rparr> A A"
    if "case t of CheckoutSessionCompleted \<Rightarrow> \<forall>s. ob \<noteq> Checkout_Object s
      | InvoicePaid \<Rightarrow> \<forall>i. ob \<noteq> Invoice_Object i | InvoicePaymentFailed \<Rightarrow> \<forall>i. ob \<noteq> Invoice_Object i
      | Other_Event _ \<Rightarrow> True | _ \<Rightarrow> \<forall>s. ob \<noteq> Subscription_Object s"

end
