(* ===== verification/Billing_Correct.thy ===== *)
theory Billing_Correct
  imports Billing_Spec Workspace_Service
begin

text \<open>
  The webhook handlers make the steps of \<open>bills\<close> and no others, a repeated delivery repairs an interrupted one (but for a
  checkout), and only managers and Stripe change an account.
\<close>

section \<open>Refinement\<close>

lemma run_run_rows [simp]:
  "run (run_rows E f k) fs b =
     (case fs of
        Fails # _ \<Rightarrow> (Inl (bv_db_text E), b)
      | Lost # _ \<Rightarrow> (Inl (bv_db_text E), on_rows f b)
      | _ \<Rightarrow> run k (tl fs) (on_rows f b))"
  by (auto simp: run_rows_def split: list.splits fate.splits)

lemma run_require_ok [simp]:
  "run (require_ok r f k) fs b = (case r of Inl e \<Rightarrow> (Inl (f e), b) | Inr x \<Rightarrow> run (k x) fs b)"
  by (simp add: require_ok_def split: sum.splits)

lemma run_save:
  assumes "run (save_subscription E i sub) [] b = (r, b')"
  shows "r = Inr () \<and> accounts b' = revise i (mirrors E sub) (accounts b) \<and> others b' = others b"
  using assms by (auto simp: save_subscription_def mirrors_def [abs_def])

lemma run_downgrade:
  assumes "run (downgrade E i) [] b = (r, b')"
  shows "r = Inr () \<and> accounts b' = revise i cancels (accounts b) \<and> others b' = others b"
  using assms by (auto simp: downgrade_def cancels_def [abs_def])

text \<open>The first half of a checkout's step: the subscription is noted, its plan is not.\<close>

definition begins_subscription :: "stripe_event \<Rightarrow> accounts \<Rightarrow> accounts \<Rightarrow> bool" where
  "begins_subscription e A A' \<longleftrightarrow> ev_type e = CheckoutSessionCompleted \<and> (\<exists>i c s. A' = revise i (subscribes c s) A)"

lemma checkout_refines:
  assumes "run (handle_checkout_completed E e) [] b = (r, b')" and "ev_type e = CheckoutSessionCompleted"
  shows "(case r of Inr _ \<Rightarrow> bills E e (accounts b) (accounts b')
      | Inl _ \<Rightarrow> accounts b' = accounts b \<or> begins_subscription e (accounts b) (accounts b')) \<and> others b' = others b"
proof (cases "\<exists>s. ev_object e = Checkout_Object s")
  case False
  then have "r = Inr () \<and> b' = b" "bills E \<lparr>ev_type = CheckoutSessionCompleted, ev_object = ev_object e\<rparr> (accounts b) (accounts b)"
    using assms(1) by (auto simp: handle_checkout_completed_def split: EventObject.splits intro!: bills_other)
  then show ?thesis using assms(2) by (cases e) simp
next
  case True
  then obtain s where e: "e = \<lparr>ev_type = CheckoutSessionCompleted, ev_object = Checkout_Object s\<rparr>" using assms(2) by (cases e) auto
  let ?ids = "\<lambda>i c sid. on_rows (ws_update_stripe_ids (bv_now E) i c sid) b"
  have begins: "accounts (?ids i c sid) = revise i (subscribes c sid) (accounts b)" for i c sid
    by (simp add: subscribes_def [abs_def])
  consider (kept) m where "r = Inl m" "b' = b"
    | (again) i w sid where "r = Inr ()" "b' = b" "Option.bind (ss_metadata s) (metadata_workspace E) = Some i"
        "ws_find_by_id i (bl_workspaces b) = Some w" "ss_subscription s = Some sid" "ws_stripe_subscription_id w = Some sid"
    | (begun) m i c sid where "r = Inl m" "b' = ?ids i c sid"
    | (complete) i w c sid sub where "Option.bind (ss_metadata s) (metadata_workspace E) = Some i"
        "ws_find_by_id i (bl_workspaces b) = Some w" "ss_subscription s = Some sid" "ss_customer s = Some c"
        "ws_stripe_subscription_id w \<noteq> Some sid" "st_valid_subscription (bv_stripe E) sid" "st_retrieve (bv_stripe E) sid = Inr sub"
        "run (save_subscription E i sub) [] (?ids i c sid) = (r, b')"
    using assms(1) by (auto simp: e handle_checkout_completed_def split: option.splits if_splits sum.splits)
  then show ?thesis
  proof cases
    case kept
    then show ?thesis by simp
  next
    case again
    then have "accounts b i = Some (account w)" "acc_subscription (account w) = Some sid" by (simp_all add: accounts_def account_def)
    then have "bills E e (accounts b) (accounts b)" unfolding e using again by (intro bills_again)
    then show ?thesis using again by simp
  next
    case begun
    then show ?thesis using begins [of i c sid] assms(2) unfolding begins_subscription_def by auto
  next
    case complete
    then have "accounts b i = Some (account w)" "acc_subscription (account w) \<noteq> Some sid" by (simp_all add: accounts_def account_def)
    then have "bills E e (accounts b) (revise i (\<lambda>a. mirrors E sub (subscribes c sid a)) (accounts b))"
      unfolding e using complete by (intro bills_checkout)
    then show ?thesis using run_save [OF complete(8)] by (simp add: subscribes_def)
  qed
qed

lemma subscription_refines:
  assumes "run (handle_subscription_updated E e) [] b = (r, b')" and "ev_type e \<in> {CustomerSubscriptionCreated, CustomerSubscriptionUpdated}"
  shows "(case r of Inr _ \<Rightarrow> bills E e (accounts b) (accounts b') | Inl _ \<Rightarrow> accounts b' = accounts b) \<and> others b' = others b"
proof -
  consider (other) "r = Inr ()" "b' = b" "\<nexists>sub. ev_object e = Subscription_Object sub"
    | (lacks) m where "r = Inl m" "b' = b"
    | (saved) sub i where "ev_object e = Subscription_Object sub" "metadata_workspace E (sb_metadata sub) = Some i"
        "run (save_subscription E i sub) [] b = (r, b')"
    using assms(1) by (auto simp: handle_subscription_updated_def split: EventObject.splits option.splits)
  then show ?thesis
  proof cases
    case other
    then have "bills E \<lparr>ev_type = ev_type e, ev_object = ev_object e\<rparr> (accounts b) (accounts b)"
      using assms(2) by (intro bills_other) auto
    then show ?thesis using other by (cases e) simp
  next
    case saved
    then have "bills E \<lparr>ev_type = ev_type e, ev_object = Subscription_Object sub\<rparr> (accounts b) (revise i (mirrors E sub) (accounts b))"
      using assms(2) by (intro bills_mirror)
    then show ?thesis using run_save [OF saved(3)] saved(1) by (cases e) simp
  qed simp
qed

lemma deletion_refines:
  assumes "run (handle_subscription_deleted E e) [] b = (r, b')" and "ev_type e = CustomerSubscriptionDeleted" and "keyed b"
  shows "r = Inr () \<and> bills E e (accounts b) (accounts b') \<and> others b' = others b"
proof (cases "\<exists>sub. ev_object e = Subscription_Object sub")
  case False
  then have "r = Inr () \<and> b' = b" "bills E \<lparr>ev_type = CustomerSubscriptionDeleted, ev_object = ev_object e\<rparr> (accounts b) (accounts b)"
    using assms(1) by (auto simp: handle_subscription_deleted_def split: EventObject.splits intro!: bills_other)
  then show ?thesis using assms(2) by (cases e) simp
next
  case True
  then obtain sub where e: "e = \<lparr>ev_type = CustomerSubscriptionDeleted, ev_object = Subscription_Object sub\<rparr>" using assms(2) by (cases e) auto
  note found = find_by_stripe [OF assms(3)]
  consider (named) i where "metadata_workspace E (sb_metadata sub) = Some i" "run (downgrade E i) [] b = (r, b')"
    | (held) w where "metadata_workspace E (sb_metadata sub) = None" "ws_find_by_stripe_subscription (sb_id sub) (bl_workspaces b) = Some w"
        "run (downgrade E (ws_id w)) [] b = (r, b')"
    | (unknown) "metadata_workspace E (sb_metadata sub) = None" "ws_find_by_stripe_subscription (sb_id sub) (bl_workspaces b) = None"
    by (cases "metadata_workspace E (sb_metadata sub)"; cases "ws_find_by_stripe_subscription (sb_id sub) (bl_workspaces b)")
      (use assms(1) in \<open>auto simp: e handle_subscription_deleted_def\<close>)
  then show ?thesis
  proof cases
    case named
    then show ?thesis using run_downgrade [OF named(2)] unfolding e by (simp add: bills_cancel)
  next
    case held
    then show ?thesis using run_downgrade [OF held(3)] found(1) [OF held(2)] unfolding e by (simp add: bills_cancel)
  next
    case unknown
    then have free: "\<And>i a. accounts b i = Some a \<Longrightarrow> acc_subscription a \<noteq> Some (sb_id sub)" using found(3) by blast
    have "ws_stripe_subscription_id w \<noteq> Some (sb_id sub)" if "ws_find_by_stripe_customer c (bl_workspaces b) = Some w" for c w
      using free [of "ws_id w" "account w"] found(2) [OF that] by (simp add: account_def)
    then have "r = Inr () \<and> b' = b" using assms(1) unknown by (auto simp: e handle_subscription_deleted_def split: option.splits if_splits)
    moreover have "bills E e (accounts b) (accounts b)" unfolding e by (rule bills_unknown [OF unknown(1) free])
    ultimately show ?thesis by simp
  qed
qed

lemma invoice_refines:
  assumes "run (if ev_type e = InvoicePaid then handle_invoice_paid E e else handle_invoice_payment_failed E e) [] b = (r, b')"
    and "ev_type e \<in> {InvoicePaid, InvoicePaymentFailed}" and "keyed b"
  shows "r = Inr () \<and> bills E e (accounts b) (accounts b') \<and> others b' = others b"
proof (cases "\<exists>v c w. ev_object e = Invoice_Object v \<and> in_customer v = Some c \<and> ws_find_by_stripe_customer c (bl_workspaces b) = Some w")
  case True
  then obtain v c w where v: "e = \<lparr>ev_type = ev_type e, ev_object = Invoice_Object v\<rparr>" "in_customer v = Some c"
    and w: "ws_find_by_stripe_customer c (bl_workspaces b) = Some w" by (cases e) auto
  note a = find_by_stripe(2) [OF assms(3) w]
  have paid: "pays t (account w) = (if ws_subscription_status w \<in> {Some ''past_due'', Some ''unpaid''}
      then (account w)\<lparr>acc_status := Some ''active'', acc_period_end := t\<rparr> else account w)" for t
    by (simp add: pays_def account_def)
  have pays: "revise (ws_id w) (pays t) (accounts b) = (if ws_subscription_status w \<in> {Some ''past_due'', Some ''unpaid''}
      then revise (ws_id w) (\<lambda>a. a\<lparr>acc_status := Some ''active'', acc_period_end := t\<rparr>) (accounts b) else accounts b)" for t
    by (rule ext) (use a paid in \<open>auto simp: revise_at\<close>)
  consider "ev_type e = InvoicePaid" | "ev_type e = InvoicePaymentFailed" using assms(2) by blast
  then show ?thesis
  proof cases
    case 1
    then have "r = Inr () \<and> accounts b' = revise (ws_id w) (pays (invoice_period_end E v)) (accounts b) \<and> others b' = others b"
      using assms(1) v w unfolding pays by (cases e) (auto simp: handle_invoice_paid_def split: if_splits)
    moreover have "bills E \<lparr>ev_type = InvoicePaid, ev_object = Invoice_Object v\<rparr> (accounts b) (revise (ws_id w) (pays (invoice_period_end E v)) (accounts b))"
      using v(2) a by (intro bills_paid) auto
    ultimately show ?thesis using v(1) 1 by metis
  next
    case 2
    then have "r = Inr () \<and> accounts b' = revise (ws_id w) (owes (unwrap_or (in_attempt_count v) 0)) (accounts b) \<and> others b' = others b"
      using assms(1) v w by (cases e) (auto simp: handle_invoice_payment_failed_def owes_def [abs_def])
    moreover have "bills E \<lparr>ev_type = InvoicePaymentFailed, ev_object = Invoice_Object v\<rparr> (accounts b)
        (revise (ws_id w) (owes (unwrap_or (in_attempt_count v) 0)) (accounts b))"
      using v(2) a by (intro bills_owed) auto
    ultimately show ?thesis using v(1) 2 by metis
  qed
next
  case False
  then have "r = Inr () \<and> b' = b"
    using assms(1) by (auto simp: handle_invoice_paid_def handle_invoice_payment_failed_def split: if_splits EventObject.splits option.splits)
  moreover have "bills E \<lparr>ev_type = ev_type e, ev_object = ev_object e\<rparr> (accounts b) (accounts b)"
  proof (cases "\<exists>v. ev_object e = Invoice_Object v")
    case True
    then obtain v where v: "ev_object e = Invoice_Object v" by blast
    have "acc_customer a \<noteq> Some c" if "in_customer v = Some c" "accounts b i = Some a" for i a c
      using False v that find_by_stripe(4) [OF assms(3), of c] by (metis option.exhaust)
    then show ?thesis using assms(2) unfolding v by (intro bills_stranger) auto
  next
    case no: False
    then show ?thesis using assms(2) by (intro bills_other) auto
  qed
  ultimately show ?thesis by (cases e) simp
qed

text \<open>Where a step is specified, the event is answered.\<close>

lemma bills_answered:
  assumes "bills E e (accounts b) A'" and "run (handle_event E e) [] b = (r, b')" and "keyed b"
  shows "r = Inr ()"
  using assms(1)
proof cases
  case (bills_checkout s i a sid c sub)
  then obtain w where "ws_find_by_id i (bl_workspaces b) = Some w" "account w = a" by (auto simp: accounts_def)
  then have "fst (run (handle_event E e) [] b) = Inr ()"
    using bills_checkout by (auto simp: handle_event_def handle_checkout_completed_def save_subscription_def account_def)
  then show ?thesis using assms(2) by simp
next
  case (bills_again s i a sid)
  then obtain w where "ws_find_by_id i (bl_workspaces b) = Some w" "account w = a" by (auto simp: accounts_def)
  then show ?thesis using assms(2) bills_again by (auto simp: handle_event_def handle_checkout_completed_def account_def)
next
  case (bills_mirror t sub i)
  then show ?thesis using assms(2) by (auto simp: handle_event_def handle_subscription_updated_def save_subscription_def)
next
  case (bills_other t ob)
  then show ?thesis using assms(2)
    by (auto simp: handle_event_def handle_checkout_completed_def handle_subscription_updated_def handle_subscription_deleted_def
        handle_invoice_paid_def handle_invoice_payment_failed_def split: EventType.splits EventObject.splits)
next
  case (bills_owed v c i a)
  then show ?thesis using invoice_refines [of e E b r b'] assms(2,3) by (simp add: handle_event_def)
next
  case (bills_paid v c i a)
  then show ?thesis using invoice_refines [of e E b r b'] assms(2,3) by (simp add: handle_event_def)
next
  case (bills_stranger t v)
  then show ?thesis using invoice_refines [of e E b r b'] assms(2,3) by (auto simp: handle_event_def)
qed (use deletion_refines [of E e b r b'] assms(2,3) in \<open>auto simp: handle_event_def\<close>)

text \<open>
  C2: The webhook handlers implement the specified steps on accounts. When no statement fails, an event of Stripe is answered
  exactly if a step is specified for it, and then the accounts made such a step; when it is refused no account changed, unless
  a new subscription was noted whose details Stripe did not deliver. Nothing else that is stored changes.
\<close>

theorem billing_refines:
  assumes "run (handle_event E e) [] b = (r, b')" and "keyed b"
  shows "(r = Inr () \<longleftrightarrow> (\<exists>A'. bills E e (accounts b) A')) \<and> (case r of
      Inr _ \<Rightarrow> bills E e (accounts b) (accounts b')
    | Inl _ \<Rightarrow> accounts b' = accounts b \<or> begins_subscription e (accounts b) (accounts b')) \<and> others b' = others b"
proof -
  have "(case r of
      Inr _ \<Rightarrow> bills E e (accounts b) (accounts b')
    | Inl _ \<Rightarrow> accounts b' = accounts b \<or> begins_subscription e (accounts b) (accounts b')) \<and> others b' = others b" (is ?step)
  proof (cases "ev_type e")
    case CheckoutSessionCompleted
    then show ?thesis using checkout_refines assms by (simp add: handle_event_def)
  next
    case (Other_Event x)
    then have "bills E \<lparr>ev_type = Other_Event x, ev_object = ev_object e\<rparr> (accounts b) (accounts b)" by (intro bills_other) simp
    then show ?thesis using assms(1) Other_Event by (cases e) (auto simp: handle_event_def)
  next
    case CustomerSubscriptionDeleted
    then show ?thesis using deletion_refines [of E e b r b'] assms by (simp add: handle_event_def split: sum.splits)
  next
    case InvoicePaid
    then show ?thesis using invoice_refines [of e E b r b'] assms by (simp add: handle_event_def split: sum.splits)
  next
    case InvoicePaymentFailed
    then show ?thesis using invoice_refines [of e E b r b'] assms by (simp add: handle_event_def split: sum.splits)
  qed (use subscription_refines [of E e b r b'] assms in \<open>auto simp: handle_event_def split: sum.splits\<close>)
  then show ?thesis using bills_answered [OF _ assms] by (cases r) auto
qed


section \<open>Repeated deliveries\<close>

text \<open>The clock is all that changes between two deliveries of an event; no step depends on it.\<close>

lemma later_simps [simp]:
  "metadata_workspace (E\<lparr>bv_now := t\<rparr>) = metadata_workspace E" "mirrors (E\<lparr>bv_now := t\<rparr>) = mirrors E"
  "invoice_period_end (E\<lparr>bv_now := t\<rparr>) = invoice_period_end E"
  by (intro ext, simp add: metadata_workspace_def mirrors_def invoice_period_end_def split: option.split list.split)+

lemma bills_later: "bills (E\<lparr>bv_now := t\<rparr>) e A A' \<Longrightarrow> bills E e A A'"
  by (erule bills.cases) (auto intro: bills.intros)

lemma revise_id [simp]: "revise i (\<lambda>a. a) A = A" "revise i id A = A"
  by (rule ext, simp add: revise_at option.map_ident option.map_id)+

lemma interrupted_two:
  "run (run_rows E f (run_rows E g (answer ()))) fs b = (r, b') \<Longrightarrow> b' \<in> {b, on_rows f b, on_rows g (on_rows f b)}"
  by (auto split: list.splits fate.splits)

text \<open>An interrupted change of an account is one that the whole change overwrites.\<close>

lemma interrupted_save:
  assumes "run (save_subscription E i sub) fs b = (r, b')"
  shows "\<exists>g. accounts b' = revise i g (accounts b) \<and> (\<forall>a. mirrors E sub (g a) = mirrors E sub a)"
  using interrupted_two [OF assms [unfolded save_subscription_def]]
proof (elim insertE emptyE)
  assume "b' = b"
  then show ?thesis by (intro exI [of _ id]) simp
qed (auto simp: mirrors_def intro!: exI)

lemma interrupted_downgrade:
  assumes "run (downgrade E i) fs b = (r, b')"
  shows "\<exists>g \<in> {id, \<lambda>a. a\<lparr>acc_plan := Plan_Free\<rparr>, cancels}. accounts b' = revise i g (accounts b)"
  using interrupted_two [OF assms [unfolded downgrade_def]] by (auto simp: cancels_def [abs_def])

text \<open>No two workspaces hold one Stripe object.\<close>

definition single_holder :: "(account \<Rightarrow> string option) \<Rightarrow> accounts \<Rightarrow> bool" where
  "single_holder f A \<longleftrightarrow> (\<forall>i j a a' k. A i = Some a \<longrightarrow> A j = Some a' \<longrightarrow> f a = Some k \<longrightarrow> f a' = Some k \<longrightarrow> i = j)"

lemma keyed_others: "others b' = others b \<Longrightarrow> keyed b \<Longrightarrow> keyed b'"
proof -
  assume o: "others b' = others b" and k: "keyed b"
  have "map fst (map (\<lambda>w. (ws_id w, ws_name w, ws_slug w, ws_owner_id w)) (wd_workspaces (bl_workspaces b'))) =
      map fst (map (\<lambda>w. (ws_id w, ws_name w, ws_slug w, ws_owner_id w)) (wd_workspaces (bl_workspaces b)))"
    using o by (simp add: others_def)
  then show ?thesis using k by (simp add: keyed_def comp_def)
qed

lemma others_stay: "stays (\<lambda>b. others b = z) (handle_event E e) (\<lambda>_ _. True)"
  by (auto simp: handle_event_def handle_checkout_completed_def handle_subscription_updated_def handle_subscription_deleted_def
      handle_invoice_paid_def handle_invoice_payment_failed_def save_subscription_def downgrade_def run_rows_def require_ok_def Let_def
      split: EventType.splits EventObject.splits option.splits sum.splits intro!: stays_rules)

lemma others_kept: "run (handle_event E e) fs b = (r, b') \<Longrightarrow> others b' = others b"
  using stays_run [OF others_stay] by metis

lemma repaired_update:
  assumes "run (handle_subscription_updated E e) fs b = (r1, b1)" and "ev_type e \<in> {CustomerSubscriptionCreated, CustomerSubscriptionUpdated}"
    and "bills E e (accounts b1) A2" and "bills E e (accounts b) A3"
  shows "A2 = A3"
  using assms(4)
proof cases
  case (bills_mirror t sub i)
  then have "run (save_subscription E i sub) fs b = (r1, b1)" using assms(1) by (simp add: handle_subscription_updated_def)
  from interrupted_save [OF this] obtain g where g: "accounts b1 = revise i g (accounts b)" "\<And>a. mirrors E sub (g a) = mirrors E sub a"
    by blast
  have "A2 = revise i (mirrors E sub) (accounts b1)"
    using assms(3) unfolding bills_mirror(1) by cases (use bills_mirror in auto)
  then show ?thesis using g bills_mirror(2) by simp
next
  case (bills_other t ob)
  then have "b1 = b" using assms(1,2) by (auto simp: handle_subscription_updated_def split: EventObject.splits EventType.splits)
  moreover have "A2 = accounts b1" using assms(3) unfolding bills_other(1)
    by cases (use bills_other assms(2) in auto)
  ultimately show ?thesis using bills_other by simp
qed (use assms(2) in auto)

text \<open>With single holders, a step that finds its account by a Stripe object is a function of the accounts.\<close>

definition at_holders :: "(account \<Rightarrow> string option) \<Rightarrow> string \<Rightarrow> (account \<Rightarrow> account) \<Rightarrow> accounts \<Rightarrow> accounts" where
  "at_holders f k g A i = map_option (\<lambda>a. if f a = Some k then g a else a) (A i)"

lemma at_holder:
  assumes "single_holder f A" and "A i = Some a" and "f a = Some k"
  shows "revise i g A = at_holders f k g A"
proof (rule ext)
  fix j
  show "revise i g A j = at_holders f k g A j"
  proof (cases "A j")
    case (Some a')
    then have "f a' = Some k \<longleftrightarrow> j = i" using assms unfolding single_holder_def by (metis option.inject)
    then show ?thesis using Some assms by (auto simp: revise_at at_holders_def)
  qed (auto simp: revise_at at_holders_def)
qed

lemma at_no_holder: "(\<And>i a. A i = Some a \<Longrightarrow> f a \<noteq> Some k) \<Longrightarrow> at_holders f k g A = A"
  by (rule ext) (auto simp: at_holders_def split: option.splits intro!: option.map_ident_strong)

lemma at_holders_again:
  assumes "A i = Some a" and "f a = Some k" and "(if f (h a) = Some k then g (h a) else h a) = g a"
  shows "at_holders f k g (revise i h A) = at_holders f k g A"
  by (rule ext) (use assms in \<open>auto simp: at_holders_def revise_at\<close>)

lemma single_holder_revise:
  assumes "single_holder f A" and "\<And>a. f (h a) = f a \<or> f (h a) = None"
  shows "single_holder f (revise i h A)"
proof -
  have "\<exists>a. A j = Some a \<and> f a = Some k" if "revise i h A j = Some a'" "f a' = Some k" for j a' k
    using that assms(2) by (auto simp: revise_at split: if_splits) (metis option.distinct(1))
  then show ?thesis using assms(1) unfolding single_holder_def by metis
qed

lemma bills_deletion:
  assumes "bills E \<lparr>ev_type = CustomerSubscriptionDeleted, ev_object = Subscription_Object sub\<rparr> A A'" and "single_holder acc_subscription A"
  shows "A' = (case metadata_workspace E (sb_metadata sub) of
    Some i \<Rightarrow> revise i cancels A | None \<Rightarrow> at_holders acc_subscription (sb_id sub) cancels A)"
  using assms(1) by cases (use at_holder [OF assms(2)] at_no_holder [of A] in auto)

lemma bills_invoice:
  assumes "bills E \<lparr>ev_type = t, ev_object = Invoice_Object v\<rparr> A A'" and "t \<in> {InvoicePaid, InvoicePaymentFailed}"
    and "single_holder acc_customer A" and "in_customer v = Some c"
  shows "A' = at_holders acc_customer c
    (if t = InvoicePaid then pays (invoice_period_end E v) else owes (unwrap_or (in_attempt_count v) 0)) A"
  using assms(1) by cases (use at_holder [OF assms(3)] at_no_holder [of A] assms(2,4) in auto)

lemma repaired_deletion:
  assumes "run (handle_subscription_deleted E e) fs b = (r1, b1)" and "ev_type e = CustomerSubscriptionDeleted" and "keyed b"
    and "single_holder acc_subscription (accounts b)"
    and "bills E e (accounts b1) A2" and "bills E e (accounts b) A3"
  shows "A2 = A3"
proof (cases "\<exists>sub. ev_object e = Subscription_Object sub")
  case True
  then obtain sub where e: "e = \<lparr>ev_type = CustomerSubscriptionDeleted, ev_object = Subscription_Object sub\<rparr>" using assms(2) by (cases e) auto
  let ?A = "accounts b" and ?s = "sb_id sub"
  consider (none) "b1 = b" | (some) fs' i where "run (downgrade E i) fs' b = (r1, b1)"
      "metadata_workspace E (sb_metadata sub) = Some i \<or>
       metadata_workspace E (sb_metadata sub) = None \<and> (\<exists>a. ?A i = Some a \<and> acc_subscription a = Some ?s)"
    using assms(1) find_by_stripe(1,2) [OF assms(3)] unfolding e handle_subscription_deleted_def
    by (auto simp: account_def split: option.splits list.splits fate.splits if_splits)
  then show ?thesis
  proof cases
    case none
    then show ?thesis using assms(4-6) bills_deletion unfolding e by metis
  next
    case some
    from interrupted_downgrade [OF some(1)] obtain g where g: "g \<in> {id, \<lambda>a. a\<lparr>acc_plan := Plan_Free\<rparr>, cancels}"
      and A1: "accounts b1 = revise i g ?A" by blast
    have "single_holder acc_subscription (accounts b1)"
      unfolding A1 by (rule single_holder_revise [OF assms(4)]) (use g in \<open>auto simp: cancels_def\<close>)
    note results = bills_deletion [OF assms(5) [unfolded e] this] bills_deletion [OF assms(6) [unfolded e] assms(4)]
    have over: "cancels (g a) = cancels a" "(if acc_subscription (g a) = acc_subscription a then cancels (g a) else g a) = cancels a" for a
      using g by (auto simp: cancels_def)
    show ?thesis
    proof (cases "metadata_workspace E (sb_metadata sub)")
      case None
      then obtain a where a: "?A i = Some a" "acc_subscription a = Some ?s" using some(2) by auto
      have "at_holders acc_subscription ?s cancels (revise i g ?A) = at_holders acc_subscription ?s cancels ?A"
        by (rule at_holders_again [where A = ?A and f = acc_subscription, OF a]) (use over(2) [of a] a in simp)
      then show ?thesis using results None A1 by simp
    next
      case (Some j)
      then show ?thesis using results some(2) A1 over(1) by simp
    qed
  qed
next
  case False
  then have "b1 = b" using assms(1) by (auto simp: handle_subscription_deleted_def split: EventObject.splits)
  moreover have "A' = A" if "bills E e A A'" for A A'
    using that by cases (use False assms(2) in auto)
  ultimately show ?thesis using assms(5,6) by metis
qed

lemma repaired_invoice:
  assumes "run (if ev_type e = InvoicePaid then handle_invoice_paid E e else handle_invoice_payment_failed E e) fs b = (r1, b1)"
    and "ev_type e \<in> {InvoicePaid, InvoicePaymentFailed}" and "keyed b" and "single_holder acc_customer (accounts b)"
    and "bills E e (accounts b1) A2" and "bills E e (accounts b) A3"
  shows "A2 = A3"
proof (cases "\<exists>v c. ev_object e = Invoice_Object v \<and> in_customer v = Some c")
  case True
  then obtain t v c where e: "e = \<lparr>ev_type = t, ev_object = Invoice_Object v\<rparr>" and v: "in_customer v = Some c" by (cases e) auto
  then have t: "t \<in> {InvoicePaid, InvoicePaymentFailed}" using assms(2) by simp
  let ?A = "accounts b"
  let ?f = "if t = InvoicePaid then pays (invoice_period_end E v) else owes (unwrap_or (in_attempt_count v) 0)"
  have again: "?f (?f a) = ?f a" "acc_customer (?f a) = acc_customer a" for a by (auto simp: pays_def owes_def)
  have step: "A' = at_holders acc_customer c ?f A" if "bills E e A A'" "single_holder acc_customer A" for A A'
    using bills_invoice [OF that(1) [unfolded e] t that(2) v] .
  consider (none) "b1 = b" | (some) i a where "?A i = Some a" "acc_customer a = Some c" "accounts b1 = revise i ?f ?A"
  proof (cases "ws_find_by_stripe_customer c (bl_workspaces b)")
    case None
    then have "b1 = b" using assms(1) v t by (auto simp: e handle_invoice_paid_def handle_invoice_payment_failed_def
        split: list.splits fate.splits)
    then show ?thesis using that(1) by blast
  next
    case (Some w)
    note a = find_by_stripe(2) [OF assms(3) Some]
    let ?b = "on_rows (if t = InvoicePaid
          then ws_update_subscription_status (bv_now E) (ws_id w) ''active'' (invoice_period_end E v)
          else ws_update_subscription_status (bv_now E) (ws_id w) (failed_payment_status (unwrap_or (in_attempt_count v) 0)) None) b"
    have "b1 = b \<or> b1 = ?b \<and> (t = InvoicePaid \<longrightarrow> ws_subscription_status w \<in> {Some ''past_due'', Some ''unpaid''})"
      using assms(1) v t Some by (auto simp: e handle_invoice_paid_def handle_invoice_payment_failed_def
          split: if_splits list.splits fate.splits)
    moreover have "accounts ?b = revise (ws_id w) ?f ?A"
      if "t = InvoicePaid \<longrightarrow> ws_subscription_status w \<in> {Some ''past_due'', Some ''unpaid''}"
      by (rule ext) (use a that in \<open>auto simp: revise_at pays_def owes_def account_def\<close>)
    ultimately show ?thesis using that a by metis
  qed
  then show ?thesis
  proof cases
    case none
    then show ?thesis using step assms(4-6) by metis
  next
    case some
    have "single_holder acc_customer (accounts b1)"
      unfolding some(3) by (rule single_holder_revise [OF assms(4)]) (use again(2) in simp)
    then have "A2 = at_holders acc_customer c ?f (accounts b1)" "A3 = at_holders acc_customer c ?f ?A"
      using step assms(4-6) by blast+
    moreover have "at_holders acc_customer c ?f (revise i ?f ?A) = at_holders acc_customer c ?f ?A"
      by (rule at_holders_again [where A = ?A and f = acc_customer, OF some(1,2)]) (use again [of a] some(2) in simp)
    ultimately show ?thesis using some by simp
  qed
next
  case False
  then have "b1 = b" using assms(1)
    by (auto simp: handle_invoice_paid_def handle_invoice_payment_failed_def split: if_splits EventObject.splits option.splits)
  moreover have "A' = A" if "bills E e A A'" for A A'
    using that by cases (use False assms(2) in auto)
  ultimately show ?thesis using assms(5,6) by metis
qed

text \<open>
  C21: A repeated delivery repairs an interrupted one. Whichever statements of its first handling failed, an event other than
  the end of a checkout that is then delivered again and handled without failure leaves every account as one uninterrupted
  handling would have, and handling it twice does no more than handling it once. Workspaces have distinct ids, and no two of them
  hold the same Stripe subscription or the same Stripe customer.
\<close>

theorem redelivery_repairs:
  assumes "run (handle_event E e) fs b = (r1, b1)" and "run (handle_event (E\<lparr>bv_now := later\<rparr>) e) [] b1 = (Inr (), b2)"
    and "run (handle_event E e) [] b = (Inr (), b3)" and "ev_type e \<noteq> CheckoutSessionCompleted"
    and "keyed b" and "single_holder acc_subscription (accounts b)" and "single_holder acc_customer (accounts b)"
  shows "accounts b2 = accounts b3 \<and> others b2 = others b3"
proof -
  have b3: "bills E e (accounts b) (accounts b3)" "others b3 = others b" using billing_refines [OF assms(3,5)] by simp_all
  have o1: "others b1 = others b" using others_kept [OF assms(1)] .
  have "accounts b2 = accounts b3" if b2: "bills E e (accounts b1) (accounts b2)"
  proof (cases "ev_type e")
    case (Other_Event x)
    then have "b1 = b" using assms(1) by (simp add: handle_event_def)
    moreover have "A' = A" if "bills E e A A'" for A A' using that by cases (use Other_Event in auto)
    ultimately show ?thesis using b2 b3 by metis
  next
    case CustomerSubscriptionDeleted
    then show ?thesis using repaired_deletion [OF _ _ assms(5,6) b2 b3(1)] assms(1) by (simp add: handle_event_def)
  next
    case InvoicePaid
    then show ?thesis using repaired_invoice [OF _ _ assms(5,7) b2 b3(1)] assms(1) by (simp add: handle_event_def)
  next
    case InvoicePaymentFailed
    then show ?thesis using repaired_invoice [OF _ _ assms(5,7) b2 b3(1)] assms(1) by (simp add: handle_event_def)
  next
    case CustomerSubscriptionCreated
    then show ?thesis using repaired_update [OF _ _ b2 b3(1)] assms(1) by (simp add: handle_event_def)
  next
    case CustomerSubscriptionUpdated
    then show ?thesis using repaired_update [OF _ _ b2 b3(1)] assms(1) by (simp add: handle_event_def)
  qed (use assms(4) in simp)
  moreover have "bills (E\<lparr>bv_now := later\<rparr>) e (accounts b1) (accounts b2)" "others b2 = others b1"
    using billing_refines [OF assms(2) keyed_others [OF o1 assms(5)]] by simp_all
  ultimately show ?thesis using bills_later b3(2) o1 by metis
qed

text \<open>
  The exception. When Stripe does not deliver the details of a new subscription, the event is refused, but the subscription has
  been noted; every repetition then counts as a duplicate, and the workspace keeps the plan it had.
\<close>

lemma checkout_upgrade_lost:
  assumes "run (handle_event E e) [] b = (r1, b1)"
    and e: "e = \<lparr>ev_type = CheckoutSessionCompleted, ev_object = Checkout_Object s\<rparr>"
    and "Option.bind (ss_metadata s) (metadata_workspace E) = Some i" and "ws_find_by_id i (bl_workspaces b) = Some w"
    and "ss_subscription s = Some sid" and "ws_stripe_subscription_id w \<noteq> Some sid" and "ss_customer s = Some c"
    and "st_valid_subscription (bv_stripe E) sid" and "st_retrieve (bv_stripe E) sid = Inl m"
    and "bv_parse_uuid E' = bv_parse_uuid E"
  shows "r1 \<noteq> Inr () \<and> run (handle_event E' e) [] b1 = (Inr (), b1) \<and> map_option acc_plan (accounts b1 i) = map_option acc_plan (accounts b i)"
proof -
  have b1: "r1 \<noteq> Inr ()" "b1 = on_rows (ws_update_stripe_ids (bv_now E) i c sid) b"
    using assms(1,3-9) by (auto simp: e handle_event_def handle_checkout_completed_def)
  have a1: "accounts b1 i = map_option (subscribes c sid) (accounts b i)"
    by (simp add: b1 revise_at subscribes_def [abs_def])
  then obtain w1 where w1: "ws_find_by_id i (bl_workspaces b1) = Some w1" "account w1 = subscribes c sid (account w)"
    using assms(4) by (auto simp: accounts_def)
  then have "acc_subscription (account w1) = Some sid" by (simp only: w1(2)) (simp add: subscribes_def)
  then have "ws_stripe_subscription_id w1 = Some sid" by (simp add: account_def)
  moreover have "metadata_workspace E' = metadata_workspace E" using assms(10) by (intro ext) (simp add: metadata_workspace_def)
  ultimately have "run (handle_event E' e) [] b1 = (Inr (), b1)"
    using assms(3,5) w1(1) by (simp add: e handle_event_def handle_checkout_completed_def)
  then show ?thesis using b1(1) a1 by (simp add: option.map_comp comp_def subscribes_def)
qed


section \<open>Who can change an account\<close>

fun caller :: "billing_request \<Rightarrow> (uuid \<times> uuid) option" where
  "caller (Get_Subscription u w) = Some (u, w)"
| "caller (Create_Checkout u w plan yearly) = Some (u, w)"
| "caller (Change_Plan u w plan yearly) = Some (u, w)"
| "caller (Cancel_Subscription u w) = Some (u, w)"
| "caller (Portal_Session u w) = Some (u, w)"
| "caller (Stripe_Webhook h peer body) = None"
| "caller (Get_Settings u w) = Some (u, w)"
| "caller (Update_Settings u w b) = Some (u, w)"
| "caller (Get_Payment_Method u w) = Some (u, w)"
| "caller (List_Invoices u w) = Some (u, w)"
| "caller (List_History u w) = Some (u, w)"

definition manages :: "'r billing_db \<Rightarrow> uuid \<Rightarrow> uuid \<Rightarrow> bool" where
  "manages b u w \<longleftrightarrow> (\<exists>m. get_member w u (bl_workspaces b) = Some m \<and> is_manager m)"

lemma manager_gate: "run (with_manager E msg u w k) fs b = (r, b') \<Longrightarrow> b' = b \<or> manages b u w"
  by (auto simp: with_manager_def with_member_def manages_def split: list.splits fate.splits option.splits if_splits)

lemma request_gate:
  "run (request_done (with_manager E msg u w k)) fs b = (r, b') \<Longrightarrow> b' = b \<or> manages b u w"
  "run (request_done (ensure c e (with_manager E msg u w k))) fs b = (r', b') \<Longrightarrow> b' = b \<or> manages b u w"
  using manager_gate [of E msg u w k fs b] by (cases "run (with_manager E msg u w k) fs b"; auto simp: request_done_def split: if_splits)+

lemma on_bl_redis_keeps: "on_bl_redis f b = Some (x, b') \<Longrightarrow> accounts b' = accounts b \<and> bl_calls b' = bl_calls b"
  by (auto simp: on_bl_redis_def accounts_def [abs_def] bl_workspaces_def)

text \<open>A request by a user leaves the accounts of other workspaces alone.\<close>

lemma calls_keep [simp]: "accounts (b\<lparr>bl_calls := cs\<rparr>) = accounts b"
  by (simp add: accounts_def [abs_def] bl_workspaces_def)

text \<open>What every part of a route keeps, the parts after it permitting.\<close>

abbreviation lasting :: "('r billing_db \<Rightarrow> bool) \<Rightarrow> ('r, 'e, 'a) billing \<Rightarrow> bool" where
  "lasting I p \<equiv> stays I p (\<lambda>_ _. True)"

lemma lasting_answer: "lasting I (answer a)"
  by (rule stays_answer) simp

lemma lasting_refuse: "lasting I (refuse a)"
  by (rule stays_refuse) simp

lemma lasting_require: "(\<And>v. lasting I (k v)) \<Longrightarrow> lasting I (require x e k)"
  by (rule stays_require) simp_all

lemma lasting_ensure: "lasting I k \<Longrightarrow> lasting I (ensure c e k)"
  by (rule stays_ensure) simp_all

lemma lasting_require_ok: "(\<And>x. lasting I (k x)) \<Longrightarrow> lasting I (require_ok r f k)"
  by (cases r) (simp_all add: require_ok_def lasting_refuse)

lemma lasting_member: "(\<And>m. lasting I (k m)) \<Longrightarrow> lasting I (with_member E u w k)"
  unfolding with_member_def by (rule stays_select_or) (simp_all add: lasting_require)

lemma lasting_manager: "lasting I k \<Longrightarrow> lasting I (with_manager E msg u w k)"
  unfolding with_manager_def by (rule lasting_member) (rule lasting_ensure)

lemma lasting_workspace: "(\<And>m. lasting I (k m)) \<Longrightarrow> lasting I (with_workspace E w k)"
  unfolding with_workspace_def by (rule stays_select_or) (simp_all add: lasting_require)

lemma lasting_billing: "lasting I k \<Longrightarrow> lasting I (with_billing E k)"
  unfolding with_billing_def by (rule lasting_ensure)

lemma lasting_change: "(\<And>b. I b \<Longrightarrow> I (f b)) \<Longrightarrow> lasting I k \<Longrightarrow> lasting I (run_or (change f) e (\<lambda>_. k))"
  by (rule stays_change_or) simp_all

lemma lasting_done: "lasting I p \<Longrightarrow> lasting I (request_done p)"
  by (simp add: request_done_def stays_map)

lemmas lasting_rules = lasting_answer lasting_refuse lasting_require lasting_ensure lasting_require_ok lasting_member lasting_manager
  lasting_workspace lasting_billing lasting_change lasting_done

text \<open>An account elsewhere.\<close>

lemma elsewhere_write: "(\<And>x. lasting (\<lambda>b. accounts b j = z) (k x)) \<Longrightarrow> lasting (\<lambda>b. accounts b j = z) (stripe_write E c r k)"
  unfolding stripe_write_def by (rule stays_change) simp_all

lemma elsewhere_calls:
  assumes "\<And>x. lasting (\<lambda>b. accounts b j = z) (k x)"
  shows "lasting (\<lambda>b. accounts b j = z) (create_customer E email name u k)"
  unfolding create_customer_def by (rule elsewhere_write) (rule assms)

lemma elsewhere_checkout_session:
  assumes "\<And>x. lasting (\<lambda>b. accounts b j = z) (k x)"
  shows "lasting (\<lambda>b. accounts b j = z) (create_checkout_session E c p w k)"
  unfolding create_checkout_session_def by (auto intro!: elsewhere_write assms)

lemma elsewhere_portal:
  assumes "\<And>x. lasting (\<lambda>b. accounts b j = z) (k x)"
  shows "lasting (\<lambda>b. accounts b j = z) (stripe_portal_session E c k)"
  unfolding stripe_portal_session_def by (auto intro!: elsewhere_write assms)

lemma elsewhere_updates:
  assumes "\<And>x. lasting (\<lambda>b. accounts b j = z) (k x)"
  shows "lasting (\<lambda>b. accounts b j = z) (stripe_cancel_subscription E s k)"
    and "lasting (\<lambda>b. accounts b j = z) (update_subscription_plan E s p k)"
  unfolding stripe_cancel_subscription_def update_subscription_plan_def
  by (auto intro!: elsewhere_write assms split: sum.splits list.splits prod.splits)

lemma elsewhere_customer:
  assumes "\<And>x. lasting (\<lambda>b. accounts b j = z) (k x)" and "j \<noteq> w"
  shows "lasting (\<lambda>b. accounts b j = z) (customer_of E u w workspace k)"
proof (cases "ws_stripe_customer_id workspace")
  case None
  show ?thesis unfolding customer_of_def None
    by (simp, intro stays_select_or lasting_require elsewhere_calls lasting_require_ok lasting_change assms) (simp_all add: revise_at assms(2))
qed (simp add: customer_of_def assms)

lemma elsewhere_checkout: "j \<noteq> w \<Longrightarrow> lasting (\<lambda>b. accounts b j = z) (create_checkout E u w plan yearly)"
  unfolding create_checkout_def
  by (intro lasting_rules stays_run_sql elsewhere_customer elsewhere_checkout_session)
    (auto dest: on_bl_redis_keeps intro!: lasting_rules)

lemma elsewhere_change_plan: "lasting (\<lambda>b. accounts b j = z) (change_plan E u w plan yearly)"
  unfolding change_plan_def by (auto intro!: lasting_rules elsewhere_updates elsewhere_portal)

lemma elsewhere_cancel: "j \<noteq> w \<Longrightarrow> lasting (\<lambda>b. accounts b j = z) (cancel_subscription E u w)"
  unfolding cancel_subscription_def Let_def by (auto intro!: lasting_rules elsewhere_updates simp: revise_at)

lemma elsewhere:
  assumes "caller q = Some (u, w)" and "j \<noteq> w"
  shows "lasting (\<lambda>b. accounts b j = z) (billing_handle E q)"
  using assms
  by (cases q) (auto simp: create_portal_session_def update_billing_settings_def revise_at get_subscription_def get_billing_settings_def
      get_payment_method_def list_invoices_def list_subscription_history_def customer_list_def Let_def split: option.splits sum.splits
      intro!: lasting_rules elsewhere_checkout elsewhere_change_plan elsewhere_cancel elsewhere_portal)

text \<open>Requests that only read.\<close>

lemma reads_only:
  assumes "q \<in> {Get_Subscription u w, Get_Settings u w, Get_Payment_Method u w, List_Invoices u w, List_History u w}"
  shows "lasting (\<lambda>b. b = z) (billing_handle E q)"
  using assms
  by (auto simp: get_subscription_def get_billing_settings_def get_payment_method_def list_invoices_def list_subscription_history_def
      customer_list_def Let_def split: option.splits sum.splits intro!: lasting_rules)

lemma after_first:
  assumes "run (run_sql f k) fs b = (r, b')"
  obtains x fs1 b1 where "b1 = b \<or> (\<exists>y. f b = Some (y, b1))" and "run (k x) fs1 b1 = (r, b')"
  using assms by (auto split: list.splits fate.splits option.splits)

text \<open>
  C14: Only managers and Stripe change an account. If a billing request changed the account of some workspace or called Stripe
  to change something, whichever of its statements failed, then it is either a webhook delivery whose signature was verified
  with the webhook's secret, which called nothing, or the request of an owner or administrator of a workspace, and no other
  workspace's account changed. An account is the plan with Stripe's customer, subscription, its status and the end of its period.
\<close>

theorem billing_guarded:
  assumes "run (billing_handle E q) fs b = (r, b')" and "accounts b' \<noteq> accounts b \<or> bl_calls b' \<noteq> bl_calls b"
  shows "case caller q of
      None \<Rightarrow> bl_calls b' = bl_calls b \<and> (\<exists>h peer body signature secret event. q = Stripe_Webhook h peer body \<and>
        hdr_str h ''stripe-signature'' = Some signature \<and> bv_webhook_secret E = Some secret \<and>
        st_construct_event (bv_stripe E) body signature secret = Inr event)
    | Some (u, w) \<Rightarrow> manages b u w \<and> (\<forall>j. j \<noteq> w \<longrightarrow> accounts b' j = accounts b j)"
proof (cases "caller q")
  case (Some x)
  obtain u w where x: "x = (u, w)" by (cases x)
  have other: "\<forall>j. j \<noteq> w \<longrightarrow> accounts b' j = accounts b j"
    using stays_run [OF elsewhere [OF Some [unfolded x]] assms(1)] by metis
  have changed: "b' \<noteq> b" using assms(2) by auto
  have "manages b u w"
  proof (cases "q \<in> {Get_Subscription u w, Get_Settings u w, Get_Payment_Method u w, List_Invoices u w, List_History u w}")
    case True
    then show ?thesis using stays_run [OF reads_only assms(1)] changed by metis
  next
    case False
    then show ?thesis using assms(1) changed Some x
      by (cases q) (auto simp: create_checkout_def change_plan_def cancel_subscription_def create_portal_session_def
          update_billing_settings_def dest!: request_gate)
  qed
  then show ?thesis using other Some x by simp
next
  case None
  then obtain h peer body where q: "q = Stripe_Webhook h peer body" by (cases q) auto
  let ?k = "\<lambda>counted. ensure (\<not> (case counted of Some count \<Rightarrow> WEBHOOK_RATE_LIMIT_MAX < count | None \<Rightarrow> False)) (429, ''Rate limit exceeded'')
    (require (hdr_str h ''stripe-signature'') (400, ''Missing signature'') (\<lambda>signature.
     require (bv_webhook_secret E) (503, ''Webhook handler not configured'') (\<lambda>secret.
     require_ok (verify_event E secret body signature) (\<lambda>_. (400, ''Invalid webhook signature'')) (\<lambda>event.
     map_prog (map_sum (internal_error ''Webhook handler error'') (\<lambda>_. 200::nat)) (handle_event E event)))))"
  obtain b1 counted fs1 r1 where b1: "accounts b1 = accounts b" "bl_calls b1 = bl_calls b" and run: "run (?k counted) fs1 b1 = (r1, b')"
  proof -
    obtain r0 where "run (handle_webhook E h peer body) fs b = (r0, b')"
      using assms(1) by (cases "run (handle_webhook E h peer body) fs b") (simp add: q request_done_def)
    then obtain x fs1 b1 where *: "b1 = b \<or> (\<exists>y. on_bl_redis (count_script (av_redis (bv_api E))
          (WEBHOOK_RATE_LIMIT_PREFIX @ api_client_ip (bv_vars E) h peer) WEBHOOK_RATE_LIMIT_WINDOW_SECS) b = Some (y, b1))"
      and "run (?k x) fs1 b1 = (r0, b')"
      unfolding handle_webhook_def Let_def by (rule after_first)
    moreover have "accounts b1 = accounts b \<and> bl_calls b1 = bl_calls b" using * by (auto dest: on_bl_redis_keeps)
    ultimately show ?thesis using that by blast
  qed
  have kept: "bl_calls (snd (run (handle_event E e) fs1 b1)) = bl_calls b1" for e
    using others_kept [of E e fs1 b1] by (cases "run (handle_event E e) fs1 b1") (simp add: others_def)
  have b': "b' = snd (run (?k counted) fs1 b1)" using run by simp
  have "bl_calls b' = bl_calls b1 \<and> (accounts b' = accounts b1 \<or> (\<exists>signature secret event. hdr_str h ''stripe-signature'' = Some signature \<and>
      bv_webhook_secret E = Some secret \<and> st_construct_event (bv_stripe E) body signature secret = Inr event))"
    unfolding b' using kept by (auto simp: verify_event_def prefix_err_def split: option.splits sum.splits)
  then show ?thesis using assms(2) b1 q by auto
qed


section \<open>A sample workspace\<close>

definition sample_stripe :: stripe_api where
  "sample_stripe = \<lparr>
     st_valid_customer = \<lambda>_. True, st_valid_subscription = \<lambda>_. True, st_valid_price = \<lambda>_. True, st_customer = Inl [], st_checkout = Inl [],
     st_portal = Inr ''url'', st_retrieve = \<lambda>_. Inl [], st_list_subscriptions = \<lambda>_. Inr [], st_update = Inl [], st_cards = \<lambda>_. Inr [],
     st_invoices = \<lambda>_ _. Inr [], st_meter = Inl [], st_construct_event = \<lambda>_ _ _. Inl [] \<rparr>"

definition sample_billing :: "ref_store billing_env" where
  "sample_billing = \<lparr>
     bv_api = sample_api, bv_vars = \<lambda>x. if x = ''STRIPE_PRICE_PRO_MONTHLY'' then Some ''p'' else None, bv_now = 1,
     bv_parse_uuid = \<lambda>x. if x = ''5'' then Some 5 else None, bv_timestamp = Some, bv_lower = ascii_casing, bv_stripe = sample_stripe,
     bv_unreachable = [], bv_billing = True, bv_webhook_secret = None, bv_base_url = [] \<rparr>"

definition sample_account :: "ref_store billing_db" where
  "sample_account = \<lparr>bl_api = sample_empty\<lparr>ap_workspaces := \<lparr>
       wd_workspaces = [(workspace_row 5 0 ''n'' ''s'' 9)\<lparr>ws_stripe_customer_id := Some ''c''\<rparr>],
       wd_members = [\<lparr>wm_workspace_id = 5, wm_user_id = 9, wm_role = ''owner'', wm_created_at = 0\<rparr>]\<rparr>\<rparr>, bl_calls = []\<rparr>"

definition sample_update :: stripe_event where
  "sample_update = \<lparr>ev_type = CustomerSubscriptionUpdated, ev_object = Subscription_Object \<lparr>
     sb_id = ''sub'', sb_customer = ''c'', sb_status = ''active'', sb_items = [(''i'', Some ''p'')], sb_metadata = [(''workspace_id'', ''5'')],
     sb_period_start = 0, sb_period_end = 9, sb_cancel_at_period_end = False, sb_canceled_at = None, sb_ended_at = None\<rparr>\<rparr>"

lemma sample_update_run: "fst (run (handle_event (sample_billing\<lparr>bv_now := t\<rparr>) sample_update) [] b) = Inr ()"
  by (simp add: handle_event_def sample_update_def handle_subscription_updated_def metadata_workspace_def sample_billing_def
      save_subscription_def)

lemma sample_keyed: "keyed sample_account"
  by (simp add: keyed_def sample_account_def bl_workspaces_def)

lemma sample_row: "accounts sample_account i = Some a \<Longrightarrow> i = 5 \<and> acc_subscription a = None \<and> acc_customer a = Some ''c''"
  by (auto simp: accounts_def sample_account_def bl_workspaces_def ws_find_by_id_def workspace_row_def account_def split: if_splits)

lemma billing_refines_witness:
  "bills sample_billing sample_update (accounts sample_account)
     (accounts (snd (run (handle_event sample_billing sample_update) [] sample_account)))"
proof -
  obtain r b' where run: "run (handle_event sample_billing sample_update) [] sample_account = (r, b')" by fastforce
  then have "run (handle_event sample_billing sample_update) [] sample_account = (Inr (), b')"
    using sample_update_run [of "bv_now sample_billing" sample_account] by simp
  from billing_refines [OF this sample_keyed] show ?thesis using run by simp
qed

lemma redelivery_repairs_witness:
  "accounts (snd (run (handle_event (sample_billing\<lparr>bv_now := 7\<rparr>) sample_update) []
     (snd (run (handle_event sample_billing sample_update) [Runs, Fails] sample_account)))) =
   accounts (snd (run (handle_event sample_billing sample_update) [] sample_account))"
proof -
  obtain r1 b1 where 1: "run (handle_event sample_billing sample_update) [Runs, Fails] sample_account = (r1, b1)" by fastforce
  obtain r2 b2 where 2: "run (handle_event (sample_billing\<lparr>bv_now := 7\<rparr>) sample_update) [] b1 = (r2, b2)" by fastforce
  obtain r3 b3 where 3: "run (handle_event sample_billing sample_update) [] sample_account = (r3, b3)" by fastforce
  have "r2 = Inr ()" "r3 = Inr ()" using sample_update_run [of 7 b1] sample_update_run [of "bv_now sample_billing" sample_account] 2 3 by simp_all
  moreover have "single_holder acc_subscription (accounts sample_account)" "single_holder acc_customer (accounts sample_account)"
    using sample_row by (auto simp: single_holder_def)
  moreover have "ev_type sample_update \<noteq> CheckoutSessionCompleted" by (simp add: sample_update_def)
  ultimately show ?thesis using redelivery_repairs [OF 1 _ _ _ sample_keyed] 1 2 3 by simp
qed

lemma billing_guarded_witness: "manages sample_account 9 5"
proof -
  let ?q = "Portal_Session 9 5"
  obtain r b' where run: "run (billing_handle sample_billing ?q) [] sample_account = (r, b')" by fastforce
  then have "bl_calls b' \<noteq> bl_calls sample_account"
    by (auto simp: request_done_def create_portal_session_def with_manager_def with_member_def with_workspace_def with_billing_def
        stripe_portal_session_def stripe_write_def sample_account_def bl_workspaces_def get_member_def is_manager_def
        WorkspaceMember_role_def WorkspaceRole_of_str_def ws_find_by_id_def workspace_row_def sample_billing_def sample_stripe_def prefix_err_def)
  then show ?thesis using billing_guarded [OF run] by simp
qed

end
