(* ===== verification/GitHub_App.thy ===== *)
theory GitHub_App
  imports Identity_Providers Rust_Text
begin

text \<open>
  The GitHub App client (\<^verbatim>\<open>crates/github/src/lib.rs\<close>): installation tokens, the latest commit and the files of a repository,
  the check that a repository looks like an MCP server, and the signature of webhooks. Signing, base64 and hexadecimal
  digits, HMAC and the service's answers are parameters; a failure is the outermost message of its error.
\<close>

section \<open>Calls\<close>

record AppJwtClaims =
  jc_iat :: timestamp
  jc_exp :: timestamp
  jc_iss :: string

record github_app =
  ga_app_id :: string
  ga_now :: timestamp
  ga_sign :: "AppJwtClaims \<Rightarrow> string option"
  ga_web :: web
  ga_codec :: codec
  ga_base64 :: "bytes \<Rightarrow> bytes option"
  ga_utf8 :: "bytes \<Rightarrow> bool"
  ga_case :: casing
  ga_status_text :: "nat \<Rightarrow> string"

record InstallationToken =
  it_token :: string
  it_expires_at :: string

record Repository =
  rp_id :: "64 word"
  rp_name :: string
  rp_full_name :: string
  rp_default_branch :: string
  rp_clone_url :: string

record Commit =
  cm_sha :: string
  cm_message :: "string option"

definition generate_jwt :: "github_app \<Rightarrow> string + string" where
  "generate_jwt A =
     (case ga_sign A \<lparr>jc_iat = ga_now A - 60, jc_exp = ga_now A + 600, jc_iss = ga_app_id A\<rparr> of
        None \<Rightarrow> Inl ''Failed to generate JWT'' | Some t \<Rightarrow> Inr t)"

definition authorized :: "string \<Rightarrow> string \<Rightarrow> string \<Rightarrow> web_request" where
  "authorized http_method path token = \<lparr>
     wq_method = http_method, wq_url = GITHUB_API_URL @ path,
     wq_headers = [(''Authorization'', ''Bearer '' @ token), (''Accept'', ''application/vnd.github+json'')], wq_form = []\<rparr>"

definition InstallationToken_of_json :: "json \<Rightarrow> InstallationToken option" where
  "InstallationToken_of_json v =
     (case (de_string v ''token'', de_string v ''expires_at'') of
        (Some t, Some e) \<Rightarrow> Some \<lparr>it_token = t, it_expires_at = e\<rparr> | _ \<Rightarrow> None)"

definition Repository_of_json :: "json \<Rightarrow> Repository option" where
  "Repository_of_json v =
     (case (de_i64 v ''id'', de_string v ''name'', de_string v ''full_name'', de_string v ''default_branch'', de_string v ''clone_url'') of
        (Some i, Some n, Some f, Some b, Some c) \<Rightarrow>
          Some \<lparr>rp_id = i, rp_name = n, rp_full_name = f, rp_default_branch = b, rp_clone_url = c\<rparr>
      | _ \<Rightarrow> None)"

definition Commit_of_json :: "json \<Rightarrow> Commit option" where
  "Commit_of_json v =
     (case (de_string v ''sha'', de_opt_string v ''message'') of
        (Some s, Some m) \<Rightarrow> Some \<lparr>cm_sha = s, cm_message = m\<rparr> | _ \<Rightarrow> None)"

text \<open>\<^verbatim>\<open>response.json()\<close>\<close>

definition parsed :: "github_app \<Rightarrow> (json \<Rightarrow> 'a option) \<Rightarrow> string \<Rightarrow> bytes \<Rightarrow> string + 'a" where
  "parsed A f e body = (case Option.bind (from_slice (ga_codec A) body) f of None \<Rightarrow> Inl e | Some x \<Rightarrow> Inr x)"

definition get_installation_token :: "github_app \<Rightarrow> 64 word \<Rightarrow> string + InstallationToken" where
  "get_installation_token A installation_id =
     (case generate_jwt A of
        Inl e \<Rightarrow> Inl e
      | Inr jwt \<Rightarrow>
          (case ga_web A (authorized ''POST'' (''/app/installations/'' @ show_int (sint installation_id) @ ''/access_tokens'') jwt) of
             None \<Rightarrow> Inl ''Failed to get installation token''
           | Some (status, body) \<Rightarrow>
               (if \<not> is_success status
                then Inl (''GitHub API error: '' @ ga_status_text A status @ '' - Failed to get installation token'')
                else parsed A InstallationToken_of_json ''Failed to parse response'' body)))"

text \<open>One call with a new installation token; a transport error is passed on.\<close>

definition with_token :: "github_app \<Rightarrow> 64 word \<Rightarrow> string \<Rightarrow> string \<Rightarrow> (nat \<times> bytes \<Rightarrow> string + 'a) \<Rightarrow> string + 'a" where
  "with_token A installation_id http_method path k =
     (case get_installation_token A installation_id of
        Inl e \<Rightarrow> Inl e
      | Inr t \<Rightarrow>
          (case ga_web A (authorized http_method path (it_token t)) of None \<Rightarrow> Inl ''error sending request'' | Some r \<Rightarrow> k r))"

definition repo_path :: "string \<Rightarrow> string \<Rightarrow> string" where
  "repo_path owner repo = ''/repos/'' @ owner @ ''/'' @ repo"

definition get_repository :: "github_app \<Rightarrow> 64 word \<Rightarrow> string \<Rightarrow> string \<Rightarrow> string + Repository" where
  "get_repository A installation_id owner repo =
     with_token A installation_id ''GET'' (repo_path owner repo) (\<lambda>(status, body).
       if \<not> is_success status then Inl ''Failed to get repository''
       else parsed A Repository_of_json ''Failed to parse repository'' body)"

definition get_latest_commit :: "github_app \<Rightarrow> 64 word \<Rightarrow> string \<Rightarrow> string \<Rightarrow> string \<Rightarrow> string + Commit" where
  "get_latest_commit A installation_id owner repo branch =
     with_token A installation_id ''GET'' (repo_path owner repo @ ''/commits/'' @ branch) (\<lambda>(status, body).
       if \<not> is_success status then Inl ''Failed to get commit'' else parsed A Commit_of_json ''Failed to parse commit'' body)"

text \<open>The tarball is fetched without an \<^verbatim>\<open>Accept\<close> header.\<close>

definition download_tarball :: "github_app \<Rightarrow> 64 word \<Rightarrow> string \<Rightarrow> string \<Rightarrow> string \<Rightarrow> string + bytes" where
  "download_tarball A installation_id owner repo ref_name =
     (case get_installation_token A installation_id of
        Inl e \<Rightarrow> Inl e
      | Inr t \<Rightarrow>
          (case ga_web A \<lparr>wq_method = ''GET'', wq_url = GITHUB_API_URL @ repo_path owner repo @ ''/tarball/'' @ ref_name,
                          wq_headers = [(''Authorization'', ''Bearer '' @ it_token t)], wq_form = []\<rparr> of
             None \<Rightarrow> Inl ''error sending request''
           | Some (status, body) \<Rightarrow> if \<not> is_success status then Inl ''Failed to download tarball'' else Inr body))"

definition verify_webhook_signature ::
  "(string \<Rightarrow> bytes \<Rightarrow> bytes) \<Rightarrow> (string \<Rightarrow> bytes option) \<Rightarrow> string \<Rightarrow> string \<Rightarrow> bytes \<Rightarrow> bool" where
  "verify_webhook_signature hmac unhex secret signature payload =
     (case str_strip_prefix signature ''sha256='' of
        None \<Rightarrow> False
      | Some hex_sig \<Rightarrow> (case unhex hex_sig of None \<Rightarrow> False | Some sig_bytes \<Rightarrow> sig_bytes = hmac secret payload))"


section \<open>Files\<close>

definition contents_path :: "string \<Rightarrow> string \<Rightarrow> string \<Rightarrow> string \<Rightarrow> string" where
  "contents_path owner repo path branch = repo_path owner repo @ ''/contents/'' @ path @ ''?ref='' @ branch"

definition base64_decode :: "github_app \<Rightarrow> string \<Rightarrow> string + string" where
  "base64_decode A encoded =
     (let cleaned = str_replace (str_replace encoded [newline] []) [CHR 0x0D] []
      in case ga_base64 A cleaned of
           None \<Rightarrow> Inl ''Failed to decode base64 content''
         | Some b \<Rightarrow> if ga_utf8 A b then Inr b else Inl ''Invalid UTF-8 in file content'')"

definition GitHubContent_of_json :: "json \<Rightarrow> (string option \<times> string option) option" where
  "GitHubContent_of_json v =
     (case (de_opt_string v ''content'', de_opt_string v ''encoding'') of (Some c, Some e) \<Rightarrow> Some (c, e) | _ \<Rightarrow> None)"

definition get_file_content :: "github_app \<Rightarrow> 64 word \<Rightarrow> string \<Rightarrow> string \<Rightarrow> string \<Rightarrow> string \<Rightarrow> string + string option" where
  "get_file_content A installation_id owner repo path branch =
     with_token A installation_id ''GET'' (contents_path owner repo path branch) (\<lambda>(status, body).
       if status = 404 then Inr None
       else if \<not> is_success status then Inl (''Failed to get file content: '' @ ga_status_text A status)
       else (case parsed A GitHubContent_of_json ''error decoding response body'' body of
               Inl e \<Rightarrow> Inl e
             | Inr (Some encoded, Some ''base64'') \<Rightarrow> (case base64_decode A encoded of Inl e \<Rightarrow> Inl e | Inr s \<Rightarrow> Inr (Some s))
             | Inr _ \<Rightarrow> Inr None))"

definition file_exists :: "github_app \<Rightarrow> 64 word \<Rightarrow> string \<Rightarrow> string \<Rightarrow> string \<Rightarrow> string \<Rightarrow> string + bool" where
  "file_exists A installation_id owner repo path branch =
     with_token A installation_id ''HEAD'' (contents_path owner repo path branch) (\<lambda>(status, _). Inr (is_success status))"


section \<open>Whether a repository is an MCP server\<close>

record McpValidationResult =
  vr_is_valid :: bool
  vr_detected_runtime :: "string option"
  vr_errors :: "string list"
  vr_warnings :: "string list"

definition de_opt_keys :: "json \<Rightarrow> string \<Rightarrow> string list option option" where
  "de_opt_keys v k =
     (case json_get v k of None \<Rightarrow> Some None | Some JNull \<Rightarrow> Some None | Some (JObject m) \<Rightarrow> Some (Some (map fst m)) | _ \<Rightarrow> None)"

definition PackageJson_of_json :: "json \<Rightarrow> (string list option \<times> string list option) option" where
  "PackageJson_of_json v =
     (case (de_opt_keys v ''dependencies'', de_opt_keys v ''devDependencies'') of (Some d, Some e) \<Rightarrow> Some (d, e) | _ \<Rightarrow> None)"

definition mcp_sdk :: string where "mcp_sdk = ''@modelcontextprotocol/sdk''"

definition has_mcp_sdk :: "string list option \<times> string list option \<Rightarrow> bool" where
  "has_mcp_sdk p = (let has = (\<lambda>d. mcp_sdk \<in> set (unwrap_or d [])) in has (fst p) \<or> has (snd p))"

definition requirement_line :: "casing \<Rightarrow> string \<Rightarrow> bool" where
  "requirement_line K line =
     (let line = to_lower K (str_trim line)
      in str_starts_with line ''mcp'' \<or> str_contains line ''mcp>='' \<or> str_contains line ''mcp=='')"

definition sure :: "string \<Rightarrow> string" where
  "sure w = w @ ''. Make sure this is a valid MCP server.''"

text \<open>
  Errors and warnings of each kind of project. \<open>file\<close> is \<^verbatim>\<open>get_file_content\<close> with its failures dropped.
\<close>

definition check_node :: "github_app \<Rightarrow> (string \<Rightarrow> string option) \<Rightarrow> string list \<times> string list" where
  "check_node A file =
     (case file ''package.json'' of
        None \<Rightarrow> ([], [])
      | Some content \<Rightarrow>
          (case Option.bind (from_slice (ga_codec A) content) PackageJson_of_json of
             None \<Rightarrow> ([''Invalid package.json format''], [])
           | Some pkg \<Rightarrow>
               ([], if has_mcp_sdk pkg then [] else [sure (''package.json does not contain '' @ mcp_sdk @ '' dependency'')])))"

definition check_python :: "github_app \<Rightarrow> (string \<Rightarrow> string option) \<Rightarrow> bool \<Rightarrow> bool \<Rightarrow> string list \<times> string list" where
  "check_python A file has_requirements has_pyproject =
     ([], (case if has_requirements then file ''requirements.txt'' else None of
             None \<Rightarrow> []
           | Some content \<Rightarrow>
               if list_ex (requirement_line (ga_case A)) (str_lines content) then []
               else [sure (''requirements.txt does not contain '' @ [CHR 0x27] @ ''mcp'' @ [CHR 0x27] @ '' package'')]) @
          (case if has_pyproject then file ''pyproject.toml'' else None of
             None \<Rightarrow> []
           | Some content \<Rightarrow>
               if str_contains content ''mcp'' then []
               else [sure (''pyproject.toml does not reference '' @ [CHR 0x27] @ ''mcp'' @ [CHR 0x27] @ '' package'')]))"

definition check_mentions :: "(string \<Rightarrow> string option) \<Rightarrow> string \<Rightarrow> string \<Rightarrow> string list \<times> string list" where
  "check_mentions file path what =
     ([], case file path of
            None \<Rightarrow> []
          | Some content \<Rightarrow>
              if str_contains content ''mcp'' \<or> str_contains content ''model-context-protocol'' then []
              else [sure (path @ '' does not contain MCP-related '' @ what)])"

definition no_project :: string where
  "no_project = ''No package.json, requirements.txt, pyproject.toml, go.mod, or Cargo.toml found. Cannot determine project type.''"

text \<open>The function returns \<^verbatim>\<open>Ok\<close> in every case.\<close>

definition validate_mcp_repository ::
  "github_app \<Rightarrow> 64 word \<Rightarrow> string \<Rightarrow> string \<Rightarrow> string \<Rightarrow> string option \<Rightarrow> McpValidationResult" where
  "validate_mcp_repository A installation_id owner repo branch expected_runtime =
     (let has = (\<lambda>path. case file_exists A installation_id owner repo path branch of Inr b \<Rightarrow> b | Inl _ \<Rightarrow> False);
          file = (\<lambda>path. case get_file_content A installation_id owner repo path branch of Inr c \<Rightarrow> c | Inl _ \<Rightarrow> None);
          wanted = (\<lambda>r. expected_runtime = None \<or> expected_runtime = Some r);
          (detected, errors, warnings) =
            (if has ''package.json'' \<and> wanted ''node'' then (Some ''node'', check_node A file)
             else if (has ''requirements.txt'' \<or> has ''pyproject.toml'') \<and> wanted ''python''
               then (Some ''python'', check_python A file (has ''requirements.txt'') (has ''pyproject.toml''))
             else if has ''go.mod'' \<and> wanted ''go'' then (Some ''go'', check_mentions file ''go.mod'' ''dependencies'')
             else if has ''Cargo.toml'' \<and> wanted ''rust'' then (Some ''rust'', check_mentions file ''Cargo.toml'' ''dependencies'')
             else if expected_runtime = Some ''docker'' then
               (if has ''Dockerfile'' then (Some ''docker'', [], []) else (None, [''No Dockerfile found for docker runtime.''], []))
             else (None, [no_project], []));
          mismatch = (case (expected_runtime, detected) of
                        (Some expected, Some found) \<Rightarrow>
                          (if expected \<noteq> found \<and> expected \<noteq> ''docker''
                           then [''Runtime mismatch: expected '' @ [CHR 0x27] @ expected @ [CHR 0x27] @ '' but detected '' @ [CHR 0x27] @ found @ [CHR 0x27]]
                           else [])
                      | _ \<Rightarrow> []);
          errors = errors @ mismatch
      in \<lparr>vr_is_valid = (errors = []), vr_detected_runtime = detected, vr_errors = errors, vr_warnings = warnings\<rparr>)"


section \<open>Facts\<close>

text \<open>A valid repository is of the runtime that was asked for.\<close>

lemma valid_repository_runtime:
  "vr_is_valid (validate_mcp_repository A i owner repo branch (Some r)) \<Longrightarrow>
   vr_detected_runtime (validate_mcp_repository A i owner repo branch (Some r)) = Some r"
  by (auto simp: validate_mcp_repository_def Let_def split: if_splits prod.splits)

lemma signature_accepted:
  "unhex h = Some (hmac secret payload) \<Longrightarrow> verify_webhook_signature hmac unhex secret (''sha256='' @ h) payload"
  unfolding verify_webhook_signature_def strip_prefix_append by simp

lemma signature_needed:
  "verify_webhook_signature hmac unhex secret signature payload \<Longrightarrow>
   \<exists>h. signature = ''sha256='' @ h \<and> unhex h = Some (hmac secret payload)"
  by (auto simp: verify_webhook_signature_def strip_prefix_Some split: option.splits)

end
