(* ===== verification/Server_Requests.thy ===== *)
theory Server_Requests
  imports Build_Jobs Workspace_Server Auth_Tokens GitHub_App
begin

text \<open>
  What the server routes of the API work on: the platform's state (the database, Redis, the webhooks' table, the job queue of
  \<^verbatim>\<open>crates/queue/src/lib.rs\<close> and the apps torn down inline), the request and response bodies of
  \<^verbatim>\<open>crates/common/src/types.rs\<close> with their checks, and the membership checks that every route begins with.
\<close>

section \<open>The platform\<close>

record DeployWebhook =
  dwh_id :: uuid
  dwh_server_id :: uuid
  dwh_name :: string
  dwh_webhook_url :: string
  dwh_webhook_type :: string
  dwh_events :: "string list"
  dwh_secret :: "string option"
  dwh_encrypted_secret :: "bytes option"
  dwh_secret_nonce :: "bytes option"
  dwh_is_active :: bool
  dwh_last_triggered_at :: "timestamp option"
  dwh_last_status :: "string option"
  dwh_created_at :: timestamp
  dwh_updated_at :: timestamp

record 'r platform =
  pf_db :: server_db
  pf_redis :: 'r
  pf_webhooks :: "DeployWebhook list"
  pf_builds :: "BuildJob list"
  pf_destroys :: "DestroyJob list"
  pf_destroyed :: "string list"

text \<open>
  What one request meets: the ids its rows will get, the calendar (year, month and start of the month), the cipher's key and
  drawn nonces, the GitHub App if it is configured, other calls to the network, the text of a failed insertion or of a queue
  that is down, the order in which the validation errors come out of their hash map, and Fly.io if it is configured: whether
  an app could be destroyed, and its metrics.
\<close>

record 'r server_env =
  sv_api :: "'r api_env"
  sv_server_id :: uuid
  sv_region_id :: uuid
  sv_deployment_id :: uuid
  sv_webhook_id :: uuid
  sv_secret_id :: "nat \<Rightarrow> uuid"
  sv_simple :: "uuid \<Rightarrow> string"
  sv_year :: int
  sv_month :: nat
  sv_month_start :: timestamp
  sv_crypto :: auth_crypto
  sv_key :: bytes
  sv_nonce :: "nat \<Rightarrow> bytes option"
  sv_github :: "github_app option"
  sv_web :: web
  sv_codec :: codec
  sv_case :: casing
  sv_insert_error :: string
  sv_queue_error :: string
  sv_order :: "(string \<times> string list) list \<Rightarrow> (string \<times> string list) list"
  sv_destroy :: "(string \<Rightarrow> bool) option"
  sv_metrics :: "(string \<Rightarrow> string + json) option"

type_synonym ('r, 'e, 'a) serving = "('r platform, 'e, 'a) handler"
type_synonym http_failure = "nat \<times> string"

definition on_pf :: "(server_db \<Rightarrow> ('x \<times> server_db) option) \<Rightarrow> 'r platform \<Rightarrow> ('x \<times> 'r platform) option" where
  "on_pf f p = map_option (\<lambda>(x, d). (x, p\<lparr>pf_db := d\<rparr>)) (f (pf_db p))"

definition on_pf_redis :: "('r \<Rightarrow> 'r) \<Rightarrow> 'r platform \<Rightarrow> 'r platform" where
  "on_pf_redis f p = p\<lparr>pf_redis := f (pf_redis p)\<rparr>"

definition sv_db_error :: "'r server_env \<Rightarrow> AppError" where
  "sv_db_error E = db_failed (sv_api E)"

definition sv_http_db_error :: "'r server_env \<Rightarrow> http_failure" where
  "sv_http_db_error E = api_db_error (av_db_text (sv_api E))"


section \<open>The queue\<close>

definition BuildJob_from_server :: "McpServer \<Rightarrow> uuid \<Rightarrow> string \<Rightarrow> string option \<Rightarrow> BuildJob" where
  "BuildJob_from_server server deployment_id commit_sha region = \<lparr>
     bj_deployment_id = deployment_id, bj_server_id = srv_id server, bj_app_name = srv_fly_app_name server,
     bj_github_repo = srv_github_repo server, bj_github_branch = srv_github_branch server, bj_commit_sha = commit_sha,
     bj_runtime = srv_runtime server, bj_github_installation_id = map_option sint (srv_github_installation_id server),
     bj_region = unwrap_or region (srv_region server), bj_root_directory = srv_root_directory server,
     bj_mcp_path = srv_mcp_path server, bj_transport = srv_transport server, bj_entry_command = srv_entry_command server,
     bj_build_command = srv_build_command server, bj_memory_mb = srv_memory_mb server, bj_port = srv_port server \<rparr>"

definition push_build_job :: "BuildJob \<Rightarrow> 'r platform \<Rightarrow> 'r platform" where
  "push_build_job job p = p\<lparr>pf_builds := pf_builds p @ [job]\<rparr>"

definition push_destroy_job :: "DestroyJob \<Rightarrow> 'r platform \<Rightarrow> 'r platform" where
  "push_destroy_job job p = p\<lparr>pf_destroys := pf_destroys p @ [job]\<rparr>"


section \<open>Requests\<close>

record SetSecretRequest =
  ssq_key :: string
  ssq_value :: string

record CreateServerRequest =
  cq_name :: string
  cq_slug :: string
  cq_description :: "string option"
  cq_github_repo :: string
  cq_github_branch :: "string option"
  cq_github_installation_id :: "64 word option"
  cq_runtime :: "Runtime option"
  cq_visibility :: "Visibility option"
  cq_access_mode :: "AccessMode option"
  cq_transport :: "Transport option"
  cq_region :: "string option"
  cq_root_directory :: "string option"
  cq_mcp_path :: "string option"
  cq_entry_command :: "string option"
  cq_build_command :: "string option"
  cq_auth_enabled :: "bool option"
  cq_memory_mb :: "32 word option"
  cq_port :: "32 word option"
  cq_env_vars :: "SetSecretRequest list option"

record UpdateServerRequest =
  uq_name :: "string option"
  uq_description :: "string option"
  uq_github_branch :: "string option"
  uq_visibility :: "Visibility option"
  uq_access_mode :: "AccessMode option"
  uq_region :: "string option"
  uq_root_directory :: "string option"
  uq_mcp_path :: "string option"
  uq_entry_command :: "string option"
  uq_build_command :: "string option"
  uq_auth_enabled :: "bool option"
  uq_memory_mb :: "32 word option"
  uq_port :: "32 word option"
  uq_tool_list_filter_by_scope :: "bool option"
  uq_tool_schema_slim :: "bool option"
  uq_tool_search_mode :: "bool option"
  uq_tool_code_mode :: "bool option"

text \<open>The checks of \<^verbatim>\<open>#[derive(Validate)]\<close>: the code of every check that fails. Lengths count characters.\<close>

definition length_check :: "nat \<Rightarrow> nat \<Rightarrow> string option \<Rightarrow> string list" where
  "length_check lo hi field =
     (case field of None \<Rightarrow> [] | Some s \<Rightarrow> if lo \<le> char_count s \<and> char_count s \<le> hi then [] else [''length''])"

definition port_check :: "32 word option \<Rightarrow> string list" where
  "port_check port = (case port of None \<Rightarrow> [] | Some p \<Rightarrow> if 1 \<le> sint p \<and> sint p \<le> 65535 then [] else [''range''])"

definition slug_code :: "string \<Rightarrow> string list" where
  "slug_code slug = (if validate_slug slug then [] else [''invalid_slug''])"

definition failed_checks :: "(string \<times> string list) list \<Rightarrow> (string \<times> string list) list" where
  "failed_checks checks = filter (\<lambda>(_, codes). codes \<noteq> []) checks"

definition validate_create :: "CreateServerRequest \<Rightarrow> (string \<times> string list) list" where
  "validate_create b = failed_checks
     [(''name'', length_check 1 255 (Some (cq_name b))),
      (''slug'', length_check 1 63 (Some (cq_slug b)) @ slug_code (cq_slug b)),
      (''description'', length_check 0 1000 (cq_description b)),
      (''github_repo'', length_check 1 255 (Some (cq_github_repo b))),
      (''github_branch'', length_check 0 255 (cq_github_branch b)),
      (''region'', length_check 0 20 (cq_region b)),
      (''root_directory'', length_check 0 255 (cq_root_directory b)),
      (''mcp_path'', length_check 0 255 (cq_mcp_path b)),
      (''entry_command'', length_check 0 500 (cq_entry_command b)),
      (''build_command'', length_check 0 500 (cq_build_command b)),
      (''port'', port_check (cq_port b)),
      (''env_vars'', case cq_env_vars b of None \<Rightarrow> [] | Some vs \<Rightarrow> if length vs \<le> 100 then [] else [''length''])]"

definition validate_update :: "UpdateServerRequest \<Rightarrow> (string \<times> string list) list" where
  "validate_update b = failed_checks
     [(''name'', length_check 1 255 (uq_name b)),
      (''root_directory'', length_check 0 255 (uq_root_directory b)),
      (''mcp_path'', length_check 0 255 (uq_mcp_path b)),
      (''entry_command'', length_check 0 500 (uq_entry_command b)),
      (''build_command'', length_check 0 500 (uq_build_command b)),
      (''port'', port_check (uq_port b))]"

definition error_messages :: "'r server_env \<Rightarrow> (string \<times> string list) list \<Rightarrow> string list" where
  "error_messages E errors = concat (map (\<lambda>(field, codes). map (\<lambda>c. field @ '': '' @ c) codes) (sv_order E errors))"

definition validation_error :: "'r server_env \<Rightarrow> (string \<times> string list) list \<Rightarrow> AppError" where
  "validation_error E errors =
     (let messages = error_messages E errors
      in with_details (app_bad_request ''VALIDATION_ERROR'' (str_join '', '' messages))
           (JObject [(''errors'', JArray (map JString messages))]))"

text \<open>The expression \<^verbatim>\<open>^[A-Za-z][A-Za-z0-9_]{0,255}$\<close>.\<close>

definition SECRET_KEY_REGEX :: "string \<Rightarrow> bool" where
  "SECRET_KEY_REGEX key \<longleftrightarrow>
     key \<noteq> [] \<and> is_alphabetic (hd key) \<and> list_all (\<lambda>c. is_alphanumeric c \<or> c = CHR ''_'') (tl key) \<and> length key \<le> 256"

definition api_validate_secret_key :: "string \<Rightarrow> http_failure + unit" where
  "api_validate_secret_key key =
     (if key = [] then Inl (400, ''Secret key cannot be empty'')
      else if \<not> SECRET_KEY_REGEX key
        then Inl (400, ''Secret key must start with a letter and contain only letters, numbers, and underscores (max 256 chars)'')
      else Inr ())"


section \<open>Responses\<close>

record ServerResponse =
  svr_id :: uuid
  svr_workspace_id :: uuid
  svr_name :: string
  svr_slug :: string
  svr_description :: "string option"
  svr_github_repo :: string
  svr_github_branch :: string
  svr_runtime :: Runtime
  svr_visibility :: Visibility
  svr_access_mode :: AccessMode
  svr_transport :: Transport
  svr_status :: ServerStatus
  svr_endpoint_url :: "string option"
  svr_region :: string
  svr_root_directory :: string
  svr_mcp_path :: string
  svr_entry_command :: "string option"
  svr_build_command :: "string option"
  svr_auth_enabled :: bool
  svr_memory_mb :: "int option"
  svr_port :: "int option"
  svr_tool_list_filter_by_scope :: bool
  svr_tool_schema_slim :: bool
  svr_tool_search_mode :: bool
  svr_tool_code_mode :: bool
  svr_created_at :: timestamp
  svr_updated_at :: timestamp

definition server_response :: "McpServer \<Rightarrow> ServerResponse" where
  "server_response s = \<lparr>
     svr_id = srv_id s, svr_workspace_id = srv_workspace_id s, svr_name = srv_name s, svr_slug = srv_slug s,
     svr_description = srv_description s, svr_github_repo = srv_github_repo s, svr_github_branch = srv_github_branch s,
     svr_runtime = McpServer_runtime s, svr_visibility = McpServer_visibility s, svr_access_mode = McpServer_access_mode s,
     svr_transport = McpServer_transport s, svr_status = McpServer_status s, svr_endpoint_url = srv_endpoint_url s,
     svr_region = srv_region s, svr_root_directory = srv_root_directory s, svr_mcp_path = srv_mcp_path s,
     svr_entry_command = srv_entry_command s, svr_build_command = srv_build_command s, svr_auth_enabled = srv_auth_enabled s,
     svr_memory_mb = srv_memory_mb s, svr_port = srv_port s, svr_tool_list_filter_by_scope = srv_tool_list_filter_by_scope s,
     svr_tool_schema_slim = srv_tool_schema_slim s, svr_tool_search_mode = srv_tool_search_mode s,
     svr_tool_code_mode = srv_tool_code_mode s, svr_created_at = srv_created_at s, svr_updated_at = srv_updated_at s \<rparr>"

record ServerMinimalResponse =
  smr_id :: uuid
  smr_workspace_id :: uuid
  smr_name :: string

definition server_minimal :: "McpServer \<Rightarrow> ServerMinimalResponse" where
  "server_minimal s = \<lparr>smr_id = srv_id s, smr_workspace_id = srv_workspace_id s, smr_name = srv_name s\<rparr>"

record ServerBasicResponse =
  sbr_id :: uuid
  sbr_workspace_id :: uuid
  sbr_name :: string
  sbr_status :: ServerStatus
  sbr_runtime :: Runtime

definition server_basic :: "McpServer \<Rightarrow> ServerBasicResponse" where
  "server_basic s = \<lparr>
     sbr_id = srv_id s, sbr_workspace_id = srv_workspace_id s, sbr_name = srv_name s,
     sbr_status = McpServer_status s, sbr_runtime = McpServer_runtime s \<rparr>"

record ServerListResponse =
  slr_id :: uuid
  slr_workspace_id :: uuid
  slr_name :: string
  slr_slug :: string
  slr_runtime :: Runtime
  slr_visibility :: Visibility
  slr_status :: ServerStatus
  slr_github_repo :: string
  slr_endpoint_url :: "string option"

definition server_summary :: "McpServer \<Rightarrow> ServerListResponse" where
  "server_summary s = \<lparr>
     slr_id = srv_id s, slr_workspace_id = srv_workspace_id s, slr_name = srv_name s, slr_slug = srv_slug s,
     slr_runtime = McpServer_runtime s, slr_visibility = McpServer_visibility s, slr_status = McpServer_status s,
     slr_github_repo = srv_github_repo s, slr_endpoint_url = srv_endpoint_url s \<rparr>"

record DeploymentResponse =
  dpr_id :: uuid
  dpr_server_id :: uuid
  dpr_version :: int
  dpr_commit_sha :: string
  dpr_status :: DeploymentStatus
  dpr_error_message :: "string option"
  dpr_build_logs :: "string option"
  dpr_started_at :: timestamp
  dpr_finished_at :: "timestamp option"
  dpr_created_at :: timestamp
  dpr_deployed_at :: "timestamp option"
  dpr_build_duration_seconds :: "int option"

definition deployment_response :: "Deployment \<Rightarrow> DeploymentResponse" where
  "deployment_response d = \<lparr>
     dpr_id = dep_id d, dpr_server_id = dep_server_id d, dpr_version = dep_version d, dpr_commit_sha = dep_commit_sha d,
     dpr_status = Deployment_status d, dpr_error_message = dep_error_message d, dpr_build_logs = dep_build_logs d,
     dpr_started_at = dep_started_at d, dpr_finished_at = dep_finished_at d, dpr_created_at = dep_started_at d,
     dpr_deployed_at = dep_finished_at d, dpr_build_duration_seconds = map_option (\<lambda>f. f - dep_started_at d) (dep_finished_at d) \<rparr>"

record SecretResponse =
  ser_key :: string
  ser_created_at :: timestamp
  ser_updated_at :: timestamp

definition secret_response :: "Secret \<Rightarrow> SecretResponse" where
  "secret_response s = \<lparr>ser_key = sec_key s, ser_created_at = sec_created_at s, ser_updated_at = sec_updated_at s\<rparr>"


section \<open>Membership and ownership\<close>

text \<open>The row of the requesting user, and the server of the path if it lies in the workspace of the path.\<close>

definition of_member ::
  "'e \<Rightarrow> 'e \<Rightarrow> uuid \<Rightarrow> uuid \<Rightarrow> (WorkspaceMember \<Rightarrow> ('r, 'e, 'a) serving) \<Rightarrow> ('r, 'e, 'a) serving" where
  "of_member on_error denied workspace_id user_id k =
     run_or (select (\<lambda>p. get_member workspace_id user_id (sd_accounts (pf_db p)))) on_error (\<lambda>found. require found denied k)"

definition of_writer :: "'e \<Rightarrow> 'e \<Rightarrow> 'e \<Rightarrow> uuid \<Rightarrow> uuid \<Rightarrow> ('r, 'e, 'a) serving \<Rightarrow> ('r, 'e, 'a) serving" where
  "of_writer on_error denied viewer workspace_id user_id k =
     of_member on_error denied workspace_id user_id (\<lambda>member. ensure (WorkspaceMember_role member \<noteq> Role_Viewer) viewer k)"

definition of_manager :: "'e \<Rightarrow> 'e \<Rightarrow> 'e \<Rightarrow> uuid \<Rightarrow> uuid \<Rightarrow> ('r, 'e, 'a) serving \<Rightarrow> ('r, 'e, 'a) serving" where
  "of_manager on_error denied lower_role workspace_id user_id k =
     of_member on_error denied workspace_id user_id (\<lambda>member.
     ensure (WorkspaceMember_role member = Role_Admin \<or> WorkspaceMember_role member = Role_Owner) lower_role k)"

definition of_server :: "'e \<Rightarrow> 'e \<Rightarrow> uuid \<Rightarrow> uuid \<Rightarrow> (McpServer \<Rightarrow> ('r, 'e, 'a) serving) \<Rightarrow> ('r, 'e, 'a) serving" where
  "of_server on_error missing workspace_id server_id k =
     run_or (select (\<lambda>p. server_find_by_id server_id (pf_db p))) on_error (\<lambda>found.
     require found missing (\<lambda>server. ensure (srv_workspace_id server = workspace_id) missing (k server)))"

text \<open>\<^verbatim>\<open>extractors/workspace.rs\<close>\<close>

definition server_member :: "'r server_env \<Rightarrow> uuid \<Rightarrow> uuid \<Rightarrow> ('r, AppError, 'a) serving \<Rightarrow> ('r, AppError, 'a) serving" where
  "server_member E workspace_id user_id k =
     of_member (sv_db_error E) (app_forbidden ''Not a member of this workspace'') workspace_id user_id (\<lambda>_. k)"

definition server_admin :: "'r server_env \<Rightarrow> uuid \<Rightarrow> uuid \<Rightarrow> ('r, AppError, 'a) serving \<Rightarrow> ('r, AppError, 'a) serving" where
  "server_admin E =
     of_manager (sv_db_error E) (app_forbidden ''Not a member of this workspace'') (app_forbidden ''Admin access required'')"

definition server_writer :: "'r server_env \<Rightarrow> uuid \<Rightarrow> uuid \<Rightarrow> ('r, AppError, 'a) serving \<Rightarrow> ('r, AppError, 'a) serving" where
  "server_writer E =
     of_writer (sv_db_error E) (app_forbidden ''Not a member of this workspace'') (app_forbidden ''Write access required'')"

definition own_server ::
  "'r server_env \<Rightarrow> uuid \<Rightarrow> uuid \<Rightarrow> (McpServer \<Rightarrow> ('r, AppError, 'a) serving) \<Rightarrow> ('r, AppError, 'a) serving" where
  "own_server E = of_server (sv_db_error E) (app_not_found ''Server'')"

end
