(* ===== verification/Server_Routes.thy ===== *)
theory Server_Routes
  imports Server_Requests
begin

text \<open>
  The server routes of the API (\<^verbatim>\<open>crates/api/src/routes/servers.rs\<close>): listing, creation with the first deployment, reading,
  changing, deletion, deployment, stop and restart. The handlers mirror the statements of the code in their order, and what each
  failure leaves behind.
\<close>

section \<open>Lists\<close>

definition all_servers :: "'r server_env \<Rightarrow> uuid \<Rightarrow> (McpServer \<Rightarrow> 'x) \<Rightarrow> ('r, AppError, 'x list) serving" where
  "all_servers E auth_user f =
     run_or (select (\<lambda>p. list_all_by_user auth_user (pf_db p))) (sv_db_error E) (\<lambda>servers. answer (map f servers))"

definition workspace_servers ::
  "'r server_env \<Rightarrow> uuid \<Rightarrow> uuid \<Rightarrow> nat \<Rightarrow> nat \<Rightarrow> (McpServer \<Rightarrow> 'x) \<Rightarrow> ('r, AppError, 'x list) serving" where
  "workspace_servers E auth_user workspace_id limit offset f =
     server_member E workspace_id auth_user
     (run_or (select (\<lambda>p. server_list_by_workspace workspace_id limit offset (pf_db p))) (sv_db_error E) (\<lambda>servers.
      answer (map f servers)))"

definition servers_list_all :: "'r server_env \<Rightarrow> uuid \<Rightarrow> ('r, AppError, ServerResponse list) serving" where
  "servers_list_all E auth_user = all_servers E auth_user server_response"

definition servers_list_all_minimal :: "'r server_env \<Rightarrow> uuid \<Rightarrow> ('r, AppError, ServerMinimalResponse list) serving" where
  "servers_list_all_minimal E auth_user = all_servers E auth_user server_minimal"

definition servers_list_all_basic :: "'r server_env \<Rightarrow> uuid \<Rightarrow> ('r, AppError, ServerBasicResponse list) serving" where
  "servers_list_all_basic E auth_user = all_servers E auth_user server_basic"

definition servers_list_all_list :: "'r server_env \<Rightarrow> uuid \<Rightarrow> ('r, AppError, ServerListResponse list) serving" where
  "servers_list_all_list E auth_user = all_servers E auth_user server_summary"

definition servers_list_minimal :: "'r server_env \<Rightarrow> uuid \<Rightarrow> uuid \<Rightarrow> ('r, AppError, ServerMinimalResponse list) serving" where
  "servers_list_minimal E auth_user workspace_id = workspace_servers E auth_user workspace_id 1000 0 server_minimal"

definition servers_list_basic :: "'r server_env \<Rightarrow> uuid \<Rightarrow> uuid \<Rightarrow> ('r, AppError, ServerBasicResponse list) serving" where
  "servers_list_basic E auth_user workspace_id = workspace_servers E auth_user workspace_id 1000 0 server_basic"

definition servers_list_summary :: "'r server_env \<Rightarrow> uuid \<Rightarrow> uuid \<Rightarrow> ('r, AppError, ServerListResponse list) serving" where
  "servers_list_summary E auth_user workspace_id = workspace_servers E auth_user workspace_id 1000 0 server_summary"

definition servers_list ::
  "'r server_env \<Rightarrow> uuid \<Rightarrow> uuid \<Rightarrow> PaginationParams \<Rightarrow> ('r, AppError, ServerResponse list) serving" where
  "servers_list E auth_user workspace_id pagination =
     workspace_servers E auth_user workspace_id (unat (pagination_limit pagination)) (unat (pagination_offset pagination)) server_response"

definition servers_get :: "'r server_env \<Rightarrow> uuid \<Rightarrow> uuid \<Rightarrow> uuid \<Rightarrow> ('r, AppError, ServerResponse) serving" where
  "servers_get E auth_user workspace_id server_id =
     server_member E workspace_id auth_user (own_server E workspace_id server_id (\<lambda>server. answer (server_response server)))"


section \<open>Limits of the plan\<close>

definition upgrade_url :: "string \<times> json" where "upgrade_url = (''upgrade_url'', JString ''/dashboard/billing'')"

definition check_memory_choice :: "32 word option \<Rightarrow> PlanLimits \<Rightarrow> string \<Rightarrow> AppError + unit" where
  "check_memory_choice memory_mb limits plan =
     (case validate_memory_choice memory_mb limits of
        Inr _ \<Rightarrow> Inr ()
      | Inl NotOnLadder \<Rightarrow> Inl (app_bad_request ''INVALID_MEMORY''
          (''Memory must be one of ['' @ str_join '', '' (map (show_nat \<circ> unat) MEMORY_LADDER_MB) @ ''] MB.''))
      | Inl (ExceedsPlan ceiling_mb) \<Rightarrow> Inl (with_details (app_payment_required ''MEMORY_LIMIT_REACHED''
          (''Your '' @ plan @ '' plan allows up to '' @ show_nat (unat ceiling_mb) @
           '' MB of memory per server. Upgrade to select a larger size.''))
          (JObject [(''requested_mb'', case memory_mb of None \<Rightarrow> JNull | Some m \<Rightarrow> JNumber (NInt (sint m))),
                    (''max_allowed_mb'', JNumber (NInt (uint ceiling_mb))), (''plan'', JString plan), upgrade_url])))"

definition limit_reached :: "string \<Rightarrow> string \<Rightarrow> int \<Rightarrow> 32 word \<Rightarrow> string \<Rightarrow> AppError" where
  "limit_reached code message current_count max_allowed plan =
     with_details (app_payment_required code message)
       (JObject [(''current_count'', JNumber (NInt current_count)), (''max_allowed'', JNumber (NInt (uint max_allowed))),
                 (''plan'', JString plan), upgrade_url])"

definition server_limit_reached :: "Workspace \<Rightarrow> nat \<Rightarrow> AppError" where
  "server_limit_reached workspace count =
     (let m = max_servers (Plan_limits (Plan_of_str (ws_plan workspace)))
      in limit_reached ''SERVER_LIMIT_REACHED''
           (''You have reached the maximum number of servers ('' @ show_nat (unat m) @ '') for your '' @ ws_plan workspace @
            '' plan. Please upgrade to create more servers.'') (int count) m (ws_plan workspace))"

definition deployment_limit_reached :: "Workspace \<Rightarrow> int \<Rightarrow> AppError" where
  "deployment_limit_reached workspace count =
     (let m = max_deployments_per_month (Plan_limits (Plan_of_str (ws_plan workspace)))
      in limit_reached ''DEPLOYMENT_LIMIT_REACHED''
           (''You have reached the maximum number of deployments ('' @ show_nat (unat m) @ '') for your '' @ ws_plan workspace @
            '' plan this month. Please upgrade to deploy more.'') count m (ws_plan workspace))"

definition of_workspace ::
  "'e \<Rightarrow> 'e \<Rightarrow> uuid \<Rightarrow> (Workspace \<Rightarrow> ('r, 'e, 'a) serving) \<Rightarrow> ('r, 'e, 'a) serving" where
  "of_workspace on_error missing workspace_id k =
     run_or (select (\<lambda>p. ws_find_by_id workspace_id (sd_accounts (pf_db p)))) on_error (\<lambda>found. require found missing k)"

text \<open>The deployments of this month: the cached count, or the database's, which is then cached.\<close>

definition deployments_this_month ::
  "'r server_env \<Rightarrow> 'e \<Rightarrow> uuid \<Rightarrow> (int \<Rightarrow> ('r, 'e, 'a) serving) \<Rightarrow> ('r, 'e, 'a) serving" where
  "deployments_this_month E on_error workspace_id k =
     run_sql (select (\<lambda>p. get_deployment_count (sv_api E) workspace_id (sv_year E) (sv_month E) (pf_redis p))) (\<lambda>r.
       case r of
         Some (Some n) \<Rightarrow> k n
       | _ \<Rightarrow>
           run_or (select (\<lambda>p. count_by_workspace_since workspace_id (sv_month_start E) (pf_db p))) on_error (\<lambda>count.
           run_sql (change (on_pf_redis (set_deployment_count (sv_api E) workspace_id (sv_year E) (sv_month E) (int count)))) (\<lambda>_.
           k (int count))))"


section \<open>A deployment\<close>

text \<open>The commit that GitHub names, asked through the App if the server has an installation.\<close>

definition HEAD :: string where "HEAD = ''HEAD''"

definition public_commit :: "'r server_env \<Rightarrow> string \<Rightarrow> string \<Rightarrow> string \<Rightarrow> string" where
  "public_commit E owner repo branch =
     (case sv_web E \<lparr>wq_method = ''GET'', wq_url = ''https://api.github.com/repos/'' @ owner @ ''/'' @ repo @ ''/commits/'' @ branch,
                     wq_headers = [(''User-Agent'', ''MCP-Cloud''), (''Accept'', ''application/vnd.github+json'')], wq_form = []\<rparr> of
        Some (status, body) \<Rightarrow>
          if is_success status
          then unwrap_or (Option.bind (from_slice (sv_codec E) body) (\<lambda>v. de_string v ''sha'')) HEAD else HEAD
      | None \<Rightarrow> HEAD)"

definition latest_commit_sha :: "'r server_env \<Rightarrow> McpServer \<Rightarrow> string \<Rightarrow> string \<Rightarrow> string" where
  "latest_commit_sha E server owner repo =
     (case (sv_github E, srv_github_installation_id server) of
        (Some A, Some i) \<Rightarrow>
          (case get_latest_commit A i owner repo (srv_github_branch server) of Inr c \<Rightarrow> cm_sha c | Inl _ \<Rightarrow> HEAD)
      | _ \<Rightarrow> public_commit E owner repo (srv_github_branch server))"

text \<open>
  The deployment's row, the cached count, the server's status and the job. The four errors are those of the deployment, of the
  status and of the queue.
\<close>

definition start_deployment ::
  "'r server_env \<Rightarrow> 'e \<Rightarrow> 'e \<Rightarrow> 'e \<Rightarrow> uuid \<Rightarrow> uuid \<Rightarrow> McpServer \<Rightarrow> string \<Rightarrow> (Deployment \<Rightarrow> ('r, 'e, 'a) serving) \<Rightarrow> ('r, 'e, 'a) serving" where
  "start_deployment E no_row no_status no_job auth_user workspace_id server commit_sha k =
     run_or (on_pf (deploy_create (sv_deployment_id E) (srv_id server) commit_sha (Some auth_user))) no_row (\<lambda>deployment.
     run_sql (change (on_pf_redis (increment_deployment_count (sv_api E) workspace_id (sv_year E) (sv_month E)))) (\<lambda>_.
     run_or (on_pf (change (server_update_status (srv_id server) Server_Building None))) no_status (\<lambda>_.
     run_or (change (push_build_job (BuildJob_from_server server (dep_id deployment) (dep_commit_sha deployment) None))) no_job (\<lambda>_.
     k deployment))))"

definition servers_deploy :: "'r server_env \<Rightarrow> uuid \<Rightarrow> uuid \<Rightarrow> uuid \<Rightarrow> ('r, AppError, DeploymentResponse) serving" where
  "servers_deploy E auth_user workspace_id server_id =
     server_writer E workspace_id auth_user
     (of_workspace (sv_db_error E) (app_not_found ''Workspace'') workspace_id (\<lambda>workspace.
      deployments_this_month E (sv_db_error E) workspace_id (\<lambda>count.
      ensure (\<not> uint (max_deployments_per_month (Plan_limits (Plan_of_str (ws_plan workspace)))) \<le> count)
        (deployment_limit_reached workspace count)
      (own_server E workspace_id server_id (\<lambda>server.
       case str_split (CHR ''/'') (srv_github_repo server) of
         [owner, repo] \<Rightarrow>
           start_deployment E (sv_db_error E) (sv_db_error E) (app_internal (''Failed to enqueue build job: '' @ sv_queue_error E))
             auth_user workspace_id server (latest_commit_sha E server owner repo) (\<lambda>deployment.
           answer (deployment_response deployment))
       | _ \<Rightarrow> refuse (app_bad_request ''INVALID_GITHUB_REPO'' ''Invalid github_repo format''))))))"


section \<open>Creation\<close>

definition invalid_github_repo :: "string \<Rightarrow> AppError" where
  "invalid_github_repo repo =
     with_details (app_bad_request ''INVALID_GITHUB_REPO'' (''GitHub repository must be in format '' @ [CHR 0x27] @ ''owner/repo'' @ [CHR 0x27]))
       (JObject [(''provided_repo'', JString repo), (''expected_format'', JString ''owner/repo''),
                 (''example'', JString ''octocat/my-mcp-server'')])"

definition slug_taken :: "string \<Rightarrow> McpServer \<Rightarrow> AppError" where
  "slug_taken slug existing =
     with_details (app_conflict ''SLUG_ALREADY_EXISTS''
       (''A server with slug '' @ [CHR 0x27] @ slug @ [CHR 0x27] @ '' already exists in this workspace''))
       (JObject [(''conflicting_slug'', JString slug), (''existing_server_name'', JString (srv_name existing)),
                 (''suggestion'', JString (slug @ ''-2''))])"

definition opt_json :: "string option \<Rightarrow> json" where
  "opt_json s = (case s of None \<Rightarrow> JNull | Some s \<Rightarrow> JString s)"

definition invalid_repository :: "McpValidationResult \<Rightarrow> Runtime \<Rightarrow> AppError" where
  "invalid_repository v runtime =
     with_details (app_bad_request ''INVALID_MCP_REPOSITORY'' ''Repository does not appear to be a valid MCP server'')
       (JObject [(''errors'', JArray (map JString (vr_errors v))), (''warnings'', JArray (map JString (vr_warnings v))),
                 (''detected_runtime'', opt_json (vr_detected_runtime v)), (''expected_runtime'', JString (Runtime_display runtime)),
                 (''help'', JString (''Make sure your repository contains package.json (Node.js) or requirements.txt/pyproject.toml '' @
                   ''(Python) with MCP SDK dependencies''))])"

text \<open>The check of the repository is made only when the App and an installation are known.\<close>

definition repository_verdict :: "'r server_env \<Rightarrow> CreateServerRequest \<Rightarrow> Runtime \<Rightarrow> string \<Rightarrow> string \<Rightarrow> AppError option" where
  "repository_verdict E body runtime owner repo =
     (case (sv_github E, cq_github_installation_id body) of
        (Some A, Some i) \<Rightarrow>
          (let v = validate_mcp_repository A i owner repo (unwrap_or (cq_github_branch body) ''main'') (Some (Runtime_display runtime))
           in if vr_is_valid v then None else Some (invalid_repository v runtime))
      | _ \<Rightarrow> None)"

text \<open>What a failed insertion is answered with, by the text of the database's error.\<close>

definition create_failed :: "'r server_env \<Rightarrow> string \<Rightarrow> AppError" where
  "create_failed E slug =
     (let error_msg = to_lower (sv_case E) (sv_insert_error E); says = str_contains error_msg
      in if says ''duplicate key'' then
           (if says ''slug''
            then app_conflict ''SLUG_ALREADY_EXISTS'' (''A server with slug '' @ [CHR 0x27] @ slug @ [CHR 0x27] @ '' already exists'')
            else app_conflict ''DUPLICATE_ENTRY'' ''A server with these details already exists'')
         else if says ''chk_mcp_servers_slug'' \<or> says ''slug'' \<and> says ''check'' then
           app_bad_request ''INVALID_SLUG''
             (''Server slug must contain only lowercase letters, numbers, and hyphens. '' @ ''It cannot start or end with a hyphen.'')
         else if says ''chk_mcp_servers_github_repo'' \<or> says ''github_repo'' \<and> says ''check'' then
           app_bad_request ''INVALID_REPOSITORY''
             (''Invalid repository format. Please use the format '' @ [CHR 0x27] @ ''owner/repository'' @ [CHR 0x27] @
              '' (e.g., '' @ [CHR 0x27] @ ''username/my-repo'' @ [CHR 0x27] @ '').'')
         else if says ''chk_mcp_servers_runtime'' \<or> says ''runtime'' \<and> says ''check'' then
           app_bad_request ''INVALID_RUNTIME'' ''Invalid runtime selected. Please choose from: Node.js, Python, Go, or Rust.''
         else if says ''chk_mcp_servers_transport'' \<or> says ''transport'' \<and> says ''check'' then
           app_bad_request ''INVALID_TRANSPORT'' ''Invalid transport type. Please choose SSE or STDIO.''
         else if says ''violates foreign key'' \<or> says ''foreign key constraint'' then
           app_bad_request ''INVALID_WORKSPACE'' (''The specified workspace does not exist or you don'' @ [CHR 0x27] @ ''t have access to it.'')
         else app_internal ''Unable to create the server. Please check your input and try again.'')"

definition new_server :: "uuid \<Rightarrow> CreateServerRequest \<Rightarrow> Runtime \<Rightarrow> CreateServer" where
  "new_server workspace_id body runtime = \<lparr>
     crs_workspace_id = workspace_id, crs_name = cq_name body, crs_slug = cq_slug body, crs_description = cq_description body,
     crs_github_repo = cq_github_repo body, crs_github_branch = unwrap_or (cq_github_branch body) ''main'',
     crs_github_installation_id = cq_github_installation_id body, crs_runtime = runtime,
     crs_visibility = unwrap_or (cq_visibility body) Visibility_Private,
     crs_access_mode = unwrap_or (cq_access_mode body) AccessMode_Public,
     crs_transport = unwrap_or (cq_transport body) Transport_Sse, crs_region = ''iad'',
     crs_root_directory = unwrap_or (cq_root_directory body) [], crs_mcp_path = unwrap_or (cq_mcp_path body) ''/mcp'',
     crs_entry_command = cq_entry_command body, crs_build_command = cq_build_command body,
     crs_auth_enabled = unwrap_or (cq_auth_enabled body) True, crs_memory_mb = map_option sint (cq_memory_mb body),
     crs_port = map_option sint (cq_port body) \<rparr>"

text \<open>One environment variable after the other; what was stored before a refusal stays.\<close>

fun provision_env ::
  "'r server_env \<Rightarrow> uuid \<Rightarrow> nat \<Rightarrow> SetSecretRequest list \<Rightarrow> ('r, AppError, 'a) serving \<Rightarrow> ('r, AppError, 'a) serving" where
  "provision_env E server_id n [] k = k"
| "provision_env E server_id n (env # rest) k =
     (case api_validate_secret_key (ssq_key env) of
        Inl (_, msg) \<Rightarrow> refuse (app_bad_request ''INVALID_SECRET_KEY'' msg)
      | Inr _ \<Rightarrow>
          (case encrypt_string (sv_crypto E) (sv_key E) (sv_nonce E n) (ssq_value env) of
             Inl _ \<Rightarrow> refuse (app_internal ''Failed to encrypt environment variable'')
           | Inr (encrypted_value, nonce) \<Rightarrow>
               run_or (on_pf (secret_upsert (sv_secret_id E n) server_id (ssq_key env) encrypted_value nonce))
                 (app_internal ''Failed to store environment variable'') (\<lambda>_.
               provision_env E server_id (Suc n) rest k)))"

text \<open>From the new row to the answer.\<close>

definition launch_server ::
  "'r server_env \<Rightarrow> uuid \<Rightarrow> uuid \<Rightarrow> CreateServerRequest \<Rightarrow> string \<Rightarrow> string \<Rightarrow> McpServer \<Rightarrow> ('r, AppError, ServerResponse) serving" where
  "launch_server E auth_user workspace_id body owner repo server =
     run_or (on_pf (region_create (sv_region_id E) (srv_id server) (srv_region server) True))
       (app_internal ''Failed to create server region. Please try again.'') (\<lambda>_.
     provision_env E (srv_id server) 0 (unwrap_or (cq_env_vars body) [])
     (start_deployment E (app_internal ''Server created but auto-deployment failed. Please deploy manually.'')
        (app_internal ''Server created but status update failed.'')
        (app_internal ''Server created but build job failed to enqueue.'')
        auth_user workspace_id server (latest_commit_sha E server owner repo) (\<lambda>_.
      answer ((server_response server)\<lparr>svr_status := Server_Building\<rparr>))))"

text \<open>From the checks of the plan to the insertion.\<close>

definition insert_server ::
  "'r server_env \<Rightarrow> uuid \<Rightarrow> CreateServerRequest \<Rightarrow> Runtime \<Rightarrow> Workspace \<Rightarrow>
   (string \<Rightarrow> string \<Rightarrow> McpServer \<Rightarrow> ('r, AppError, 'a) serving) \<Rightarrow> ('r, AppError, 'a) serving" where
  "insert_server E workspace_id body runtime workspace k =
     (let limits = Plan_limits (Plan_of_str (ws_plan workspace))
      in case check_memory_choice (cq_memory_mb body) limits (ws_plan workspace) of
           Inl e \<Rightarrow> refuse e
         | Inr _ \<Rightarrow>
             run_or (select (\<lambda>p. count_by_workspace workspace_id (pf_db p))) (app_internal ''Failed to check server count'') (\<lambda>count.
             ensure (\<not> uint (max_servers limits) \<le> int count) (server_limit_reached workspace count)
             (run_or (select (\<lambda>p. server_find_by_slug workspace_id (cq_slug body) (pf_db p)))
                (app_internal ''Failed to check server slug availability'') (\<lambda>existing.
              case existing of
                Some other \<Rightarrow> refuse (slug_taken (cq_slug body) other)
              | None \<Rightarrow>
                  (case str_split (CHR ''/'') (cq_github_repo body) of
                     [owner, repo] \<Rightarrow>
                       (if owner = [] \<or> repo = [] then refuse (invalid_github_repo (cq_github_repo body))
                        else (case repository_verdict E body runtime owner repo of
                                Some e \<Rightarrow> refuse e
                              | None \<Rightarrow>
                                  run_or (on_pf (server_create (sv_simple E) (sv_server_id E) (new_server workspace_id body runtime)))
                                    (create_failed E (cq_slug body)) (k owner repo)))
                   | _ \<Rightarrow> refuse (invalid_github_repo (cq_github_repo body)))))))"

text \<open>The check of the runtime lists all its constructors and never fails.\<close>

definition servers_create ::
  "'r server_env \<Rightarrow> uuid \<Rightarrow> uuid \<Rightarrow> CreateServerRequest \<Rightarrow> ('r, AppError, ServerResponse) serving" where
  "servers_create E auth_user workspace_id body =
     (let errors = validate_create body; runtime = unwrap_or (cq_runtime body) Runtime_Node
      in ensure (errors = []) (validation_error E errors)
         (server_writer E workspace_id auth_user
          (of_workspace (app_internal ''Failed to fetch workspace'') (app_not_found ''Workspace not found'') workspace_id (\<lambda>workspace.
           insert_server E workspace_id body runtime workspace (launch_server E auth_user workspace_id body)))))"


section \<open>Change and deletion\<close>

definition server_changes :: "UpdateServerRequest \<Rightarrow> UpdateServer" where
  "server_changes b = \<lparr>
     upd_name = uq_name b, upd_description = uq_description b, upd_github_branch = uq_github_branch b, upd_visibility = uq_visibility b,
     upd_access_mode = uq_access_mode b, upd_status = None, upd_endpoint_url = None, upd_region = None,
     upd_root_directory = uq_root_directory b, upd_mcp_path = uq_mcp_path b, upd_entry_command = uq_entry_command b,
     upd_build_command = uq_build_command b, upd_auth_enabled = uq_auth_enabled b, upd_memory_mb = map_option sint (uq_memory_mb b),
     upd_port = map_option sint (uq_port b), upd_tool_list_filter_by_scope = uq_tool_list_filter_by_scope b,
     upd_tool_schema_slim = uq_tool_schema_slim b, upd_tool_search_mode = uq_tool_search_mode b,
     upd_tool_code_mode = uq_tool_code_mode b \<rparr>"

definition checked_memory ::
  "'r server_env \<Rightarrow> uuid \<Rightarrow> 32 word option \<Rightarrow> ('r, AppError, 'a) serving \<Rightarrow> ('r, AppError, 'a) serving" where
  "checked_memory E workspace_id memory_mb k =
     (if memory_mb = None then k
      else of_workspace (app_internal ''Failed to fetch workspace'') (app_not_found ''Workspace not found'') workspace_id (\<lambda>workspace.
           case check_memory_choice memory_mb (Plan_limits (Plan_of_str (ws_plan workspace))) (ws_plan workspace) of
             Inl e \<Rightarrow> refuse e | Inr _ \<Rightarrow> k))"

definition servers_update ::
  "'r server_env \<Rightarrow> uuid \<Rightarrow> uuid \<Rightarrow> uuid \<Rightarrow> UpdateServerRequest \<Rightarrow> ('r, AppError, ServerResponse) serving" where
  "servers_update E auth_user workspace_id server_id body =
     server_writer E workspace_id auth_user
     (let errors = validate_update body
      in ensure (errors = []) (validation_error E errors)
         (own_server E workspace_id server_id (\<lambda>_.
          checked_memory E workspace_id (uq_memory_mb body)
          (run_or (on_pf (server_update server_id (server_changes body))) (sv_db_error E) (\<lambda>server. answer (server_response server))))))"

text \<open>When the queue is down the app is destroyed at once, if Fly.io is configured; a failure of that is only logged.\<close>

definition servers_delete :: "'r server_env \<Rightarrow> uuid \<Rightarrow> uuid \<Rightarrow> uuid \<Rightarrow> ('r, AppError, unit) serving" where
  "servers_delete E auth_user workspace_id server_id =
     server_admin E workspace_id auth_user
     (own_server E workspace_id server_id (\<lambda>existing.
      run_or (on_pf (change (mark_deleting server_id))) (sv_db_error E) (\<lambda>_.
      let app_name = srv_fly_app_name existing
      in run_sql (change (push_destroy_job \<lparr>xj_server_id = server_id, xj_app_name = app_name\<rparr>)) (\<lambda>r.
         case (r, sv_destroy E) of
           (None, Some destroys) \<Rightarrow>
             run_sql (change (\<lambda>p. if destroys app_name then p\<lparr>pf_destroyed := app_name # pf_destroyed p\<rparr> else p)) (\<lambda>_. answer ())
         | _ \<Rightarrow> answer ()))))"


section \<open>Stop, restart, metrics\<close>

definition stop_writer :: "'r server_env \<Rightarrow> uuid \<Rightarrow> uuid \<Rightarrow> ('r, AppError, 'a) serving \<Rightarrow> ('r, AppError, 'a) serving" where
  "stop_writer E =
     of_writer (sv_db_error E) (app_forbidden ''Not a member of this workspace'') (app_forbidden ''Insufficient permissions'')"

definition servers_stop :: "'r server_env \<Rightarrow> uuid \<Rightarrow> uuid \<Rightarrow> uuid \<Rightarrow> ('r, AppError, ServerResponse) serving" where
  "servers_stop E auth_user workspace_id server_id =
     stop_writer E workspace_id auth_user
     (own_server E workspace_id server_id (\<lambda>server.
      ensure (McpServer_is_running server) (app_bad_request ''SERVER_NOT_RUNNING'' ''Server is not running'')
      (run_or (on_pf (change (server_update_status server_id Server_Stopped None))) (sv_db_error E) (\<lambda>_.
       run_or (select (\<lambda>p. server_find_by_id server_id (pf_db p))) (sv_db_error E) (\<lambda>found.
       require found (app_not_found ''Server'') (\<lambda>server. answer (server_response server)))))))"

definition servers_restart :: "'r server_env \<Rightarrow> uuid \<Rightarrow> uuid \<Rightarrow> uuid \<Rightarrow> ('r, AppError, DeploymentResponse) serving" where
  "servers_restart E auth_user workspace_id server_id =
     stop_writer E workspace_id auth_user
     (own_server E workspace_id server_id (\<lambda>_. servers_deploy E auth_user workspace_id server_id))"

text \<open>The first label of the endpoint's host.\<close>

definition endpoint_app :: "string \<Rightarrow> string option" where
  "endpoint_app url =
     (case str_split (CHR ''.'') (str_replace (str_replace url ''https://'' []) ''http://'' []) of [] \<Rightarrow> None | s # _ \<Rightarrow> Some s)"

definition servers_metrics :: "'r server_env \<Rightarrow> uuid \<Rightarrow> uuid \<Rightarrow> uuid \<Rightarrow> ('r, AppError, json) serving" where
  "servers_metrics E auth_user workspace_id server_id =
     server_member E workspace_id auth_user
     (own_server E workspace_id server_id (\<lambda>server.
      require (sv_metrics E) (app_internal ''Fly.io runtime not configured'') (\<lambda>get_metrics.
      require (Option.bind (srv_endpoint_url server) endpoint_app) (app_bad_request ''NO_ENDPOINT'' ''Server has no endpoint URL'') (\<lambda>app_name.
      case get_metrics app_name of
        Inl e \<Rightarrow> refuse (app_internal (''Failed to get metrics: '' @ e))
      | Inr metrics \<Rightarrow> answer metrics))))"

end
