(* ===== verification/Deployment_Routes.thy ===== *)
theory Deployment_Routes
  imports Server_Routes
begin

text \<open>
  The routes on the deployments and secrets of a server (\<^verbatim>\<open>crates/api/src/routes/deployments.rs\<close>, \<^verbatim>\<open>secrets.rs\<close>). An error is a
  status with its text.
\<close>

section \<open>Deployments\<close>

abbreviation not_a_member :: http_failure where
  "not_a_member \<equiv> (403, ''Not a member'')"

definition path_server ::
  "'r server_env \<Rightarrow> uuid \<Rightarrow> uuid \<Rightarrow> ('r, http_failure, 'a) serving \<Rightarrow> ('r, http_failure, 'a) serving" where
  "path_server E workspace_id server_id k = of_server (sv_http_db_error E) (404, ''Server not found'') workspace_id server_id (\<lambda>_. k)"

definition deployments_list ::
  "'r server_env \<Rightarrow> uuid \<Rightarrow> uuid \<Rightarrow> uuid \<Rightarrow> PaginationParams \<Rightarrow> ('r, http_failure, DeploymentResponse list) serving" where
  "deployments_list E auth_user workspace_id server_id pagination =
     of_member (sv_http_db_error E) not_a_member workspace_id auth_user (\<lambda>_.
     path_server E workspace_id server_id
     (run_or (select (\<lambda>p. deploy_list_by_server server_id (unat (pagination_limit pagination)) (unat (pagination_offset pagination)) (pf_db p)))
        (sv_http_db_error E) (\<lambda>deployments. answer (map deployment_response deployments))))"

text \<open>The deployment of the path, if it is one of the server of the path.\<close>

definition path_deployment ::
  "'r server_env \<Rightarrow> uuid \<Rightarrow> uuid \<Rightarrow> (Deployment \<Rightarrow> ('r, http_failure, 'a) serving) \<Rightarrow> ('r, http_failure, 'a) serving" where
  "path_deployment E server_id deployment_id k =
     run_or (select (\<lambda>p. deploy_find_by_id deployment_id (pf_db p))) (sv_http_db_error E) (\<lambda>found.
     require found (404, ''Deployment not found'') (\<lambda>deployment.
     ensure (dep_server_id deployment = server_id) (404, ''Deployment not found'') (k deployment)))"

definition deployments_get ::
  "'r server_env \<Rightarrow> uuid \<Rightarrow> uuid \<Rightarrow> uuid \<Rightarrow> uuid \<Rightarrow> ('r, http_failure, DeploymentResponse) serving" where
  "deployments_get E auth_user workspace_id server_id deployment_id =
     of_member (sv_http_db_error E) not_a_member workspace_id auth_user (\<lambda>_.
     path_server E workspace_id server_id
     (path_deployment E server_id deployment_id (\<lambda>deployment. answer (deployment_response deployment))))"

definition deployments_get_logs ::
  "'r server_env \<Rightarrow> uuid \<Rightarrow> uuid \<Rightarrow> uuid \<Rightarrow> uuid \<Rightarrow> ('r, http_failure, string option) serving" where
  "deployments_get_logs E auth_user workspace_id server_id deployment_id =
     of_member (sv_http_db_error E) not_a_member workspace_id auth_user (\<lambda>_.
     path_server E workspace_id server_id
     (path_deployment E server_id deployment_id (\<lambda>deployment. answer (dep_build_logs deployment))))"

definition secret_writer :: "'r server_env \<Rightarrow> uuid \<Rightarrow> uuid \<Rightarrow> ('r, http_failure, 'a) serving \<Rightarrow> ('r, http_failure, 'a) serving" where
  "secret_writer E = of_writer (sv_http_db_error E) not_a_member (403, ''Insufficient permissions'')"

text \<open>The monthly count is neither checked nor counted up here.\<close>

definition rollback ::
  "'r server_env \<Rightarrow> uuid \<Rightarrow> uuid \<Rightarrow> uuid \<Rightarrow> uuid \<Rightarrow> ('r, http_failure, DeploymentResponse) serving" where
  "rollback E auth_user workspace_id server_id deployment_id =
     secret_writer E workspace_id auth_user
     (path_server E workspace_id server_id
     (path_deployment E server_id deployment_id (\<lambda>target.
      ensure (Deployment_status target = Deployment_Succeeded) (400, ''Can only rollback to successful deployments'')
      (run_or (select (\<lambda>p. server_find_by_id server_id (pf_db p))) (sv_http_db_error E) (\<lambda>found.
       require found (404, ''Server not found'') (\<lambda>server.
       run_or (on_pf (deploy_create (sv_deployment_id E) server_id (dep_commit_sha target) (Some auth_user))) (sv_http_db_error E) (\<lambda>deployment.
       run_or (on_pf (change (server_update_status server_id Server_Building None))) (sv_http_db_error E) (\<lambda>_.
       run_or (change (push_build_job ((BuildJob_from_server server (dep_id deployment) (dep_commit_sha target) None)\<lparr>bj_server_id := server_id\<rparr>)))
         (500, ''Failed to enqueue build job: '' @ sv_queue_error E) (\<lambda>_.
       answer (deployment_response deployment))))))))))"

record DeploymentUsageResponse =
  du_deployments_this_month :: int
  du_max_deployments :: "32 word"

definition deployments_usage :: "'r server_env \<Rightarrow> uuid \<Rightarrow> uuid \<Rightarrow> ('r, http_failure, DeploymentUsageResponse) serving" where
  "deployments_usage E auth_user workspace_id =
     of_member (sv_http_db_error E) not_a_member workspace_id auth_user (\<lambda>_.
     of_workspace (sv_http_db_error E) (404, ''Workspace not found'') workspace_id (\<lambda>workspace.
     deployments_this_month E (sv_http_db_error E) workspace_id (\<lambda>count.
     answer \<lparr>du_deployments_this_month = count,
             du_max_deployments = max_deployments_per_month (Plan_limits (Plan_of_str (ws_plan workspace)))\<rparr>)))"


section \<open>Secrets\<close>

definition secrets_list :: "'r server_env \<Rightarrow> uuid \<Rightarrow> uuid \<Rightarrow> uuid \<Rightarrow> ('r, http_failure, SecretResponse list) serving" where
  "secrets_list E auth_user workspace_id server_id =
     of_member (sv_http_db_error E) not_a_member workspace_id auth_user (\<lambda>_.
     path_server E workspace_id server_id
     (run_or (select (\<lambda>p. secret_list_by_server server_id (pf_db p))) (sv_http_db_error E) (\<lambda>secrets.
      answer (map secret_response secrets))))"

definition valid_key :: "string \<Rightarrow> ('r, http_failure, 'a) serving \<Rightarrow> ('r, http_failure, 'a) serving" where
  "valid_key key k = (case api_validate_secret_key key of Inl e \<Rightarrow> refuse e | Inr _ \<Rightarrow> k)"

definition secrets_set ::
  "'r server_env \<Rightarrow> uuid \<Rightarrow> uuid \<Rightarrow> uuid \<Rightarrow> SetSecretRequest \<Rightarrow> ('r, http_failure, SecretResponse) serving" where
  "secrets_set E auth_user workspace_id server_id body =
     valid_key (ssq_key body)
     (secret_writer E workspace_id auth_user
     (path_server E workspace_id server_id
      (case encrypt_string (sv_crypto E) (sv_key E) (sv_nonce E 0) (ssq_value body) of
         Inl _ \<Rightarrow> refuse (500, ''Encryption failed'')
       | Inr (encrypted_value, nonce) \<Rightarrow>
           run_or (on_pf (secret_upsert (sv_secret_id E 0) server_id (ssq_key body) encrypted_value nonce)) (sv_http_db_error E) (\<lambda>secret.
           answer (secret_response secret)))))"

definition secrets_delete :: "'r server_env \<Rightarrow> uuid \<Rightarrow> uuid \<Rightarrow> uuid \<Rightarrow> string \<Rightarrow> ('r, http_failure, unit) serving" where
  "secrets_delete E auth_user workspace_id server_id key =
     valid_key key
     (secret_writer E workspace_id auth_user
     (path_server E workspace_id server_id
      (run_or (on_pf (change (delete_by_key server_id key))) (sv_http_db_error E) (\<lambda>_. answer ()))))"


section \<open>The service\<close>

text \<open>A request on servers, with what it meets, its user and the workspace and server of its path.\<close>

datatype 'r server_request =
    List_All "'r server_env" uuid
  | List_Servers "'r server_env" uuid uuid PaginationParams
  | Get_Server "'r server_env" uuid uuid uuid
  | Create_Server "'r server_env" uuid uuid CreateServerRequest
  | Update_Server "'r server_env" uuid uuid uuid UpdateServerRequest
  | Delete_Server "'r server_env" uuid uuid uuid
  | Deploy_Server "'r server_env" uuid uuid uuid
  | Stop_Server "'r server_env" uuid uuid uuid
  | Restart_Server "'r server_env" uuid uuid uuid
  | Server_Metrics "'r server_env" uuid uuid uuid
  | List_Deployments "'r server_env" uuid uuid uuid PaginationParams
  | Get_Deployment "'r server_env" uuid uuid uuid uuid
  | Get_Logs "'r server_env" uuid uuid uuid uuid
  | Rollback "'r server_env" uuid uuid uuid uuid
  | Deployment_Usage "'r server_env" uuid uuid
  | List_Secrets "'r server_env" uuid uuid uuid
  | Set_Secret "'r server_env" uuid uuid uuid SetSecretRequest
  | Delete_Secret "'r server_env" uuid uuid uuid string

datatype server_failure = App_Failure AppError | Http_Failure http_failure

text \<open>What was answered is left out: the service's runs are looked at through the platform's state and the refusals.\<close>

definition app_served :: "('r, AppError, 'a) serving \<Rightarrow> ('r, server_failure, unit) serving" where
  "app_served h = map_prog (map_sum App_Failure (\<lambda>_. ())) h"

definition http_served :: "('r, http_failure, 'a) serving \<Rightarrow> ('r, server_failure, unit) serving" where
  "http_served h = map_prog (map_sum Http_Failure (\<lambda>_. ())) h"

fun server_handle :: "'r server_request \<Rightarrow> ('r, server_failure, unit) serving" where
  "server_handle (List_All E u) = app_served (servers_list_all E u)"
| "server_handle (List_Servers E u w pg) = app_served (servers_list E u w pg)"
| "server_handle (Get_Server E u w s) = app_served (servers_get E u w s)"
| "server_handle (Create_Server E u w b) = app_served (servers_create E u w b)"
| "server_handle (Update_Server E u w s b) = app_served (servers_update E u w s b)"
| "server_handle (Delete_Server E u w s) = app_served (servers_delete E u w s)"
| "server_handle (Deploy_Server E u w s) = app_served (servers_deploy E u w s)"
| "server_handle (Stop_Server E u w s) = app_served (servers_stop E u w s)"
| "server_handle (Restart_Server E u w s) = app_served (servers_restart E u w s)"
| "server_handle (Server_Metrics E u w s) = app_served (servers_metrics E u w s)"
| "server_handle (List_Deployments E u w s pg) = http_served (deployments_list E u w s pg)"
| "server_handle (Get_Deployment E u w s i) = http_served (deployments_get E u w s i)"
| "server_handle (Get_Logs E u w s i) = http_served (deployments_get_logs E u w s i)"
| "server_handle (Rollback E u w s i) = http_served (rollback E u w s i)"
| "server_handle (Deployment_Usage E u w) = http_served (deployments_usage E u w)"
| "server_handle (List_Secrets E u w s) = http_served (secrets_list E u w s)"
| "server_handle (Set_Secret E u w s b) = http_served (secrets_set E u w s b)"
| "server_handle (Delete_Secret E u w s k) = http_served (secrets_delete E u w s k)"

end
