(* ===== verification/Server_Steps.thy ===== *)
theory Server_Steps
  imports Deployment_Routes
begin

text \<open>
  What one statement of a server request may do to the platform (\<open>tenant_step\<close>), and the rules by which the handlers are shown to
  consist of such statements. An assertion that no such statement ends may be relied on between statements (\<open>under\<close>).
\<close>

section \<open>Relying on stable assertions\<close>

definition stable :: "('d \<Rightarrow> 'd \<Rightarrow> bool) \<Rightarrow> ('d \<Rightarrow> bool) \<Rightarrow> bool" where
  "stable R K \<longleftrightarrow> (\<forall>d d'. K d \<longrightarrow> R d d' \<longrightarrow> K d')"

definition under :: "('d \<Rightarrow> 'd \<Rightarrow> bool) \<Rightarrow> ('d \<Rightarrow> bool) \<Rightarrow> ('d, 'r) prog \<Rightarrow> ('r \<Rightarrow> 'd \<Rightarrow> bool) \<Rightarrow> bool" where
  "under R K p Q \<longleftrightarrow> (\<forall>d. K d \<longrightarrow> rg R p Q d)"

text \<open>Nothing is claimed of a refusal.\<close>

definition ok_then :: "('d \<Rightarrow> bool) \<Rightarrow> 'e + 'a \<Rightarrow> 'd \<Rightarrow> bool" where
  "ok_then G r d \<longleftrightarrow> (case r of Inl _ \<Rightarrow> True | Inr _ \<Rightarrow> G d)"

lemma ok_then_simps [simp]: "ok_then G (Inl e) d" "ok_then G (Inr a) d \<longleftrightarrow> G d" "ok_then G (map_sum f g r) d \<longleftrightarrow> ok_then G r d"
  by (simp_all add: ok_then_def split: sum.splits)

lemma stable_conj: "stable R K \<Longrightarrow> stable R L \<Longrightarrow> stable R (\<lambda>d. K d \<and> L d)"
  by (auto simp: stable_def)

lemma stable_const: "stable R (\<lambda>_. b)"
  by (simp add: stable_def)

locale rely =
  fixes R :: "'d \<Rightarrow> 'd \<Rightarrow> bool"
  assumes R_refl: "R d d" and R_trans: "R a b \<Longrightarrow> R b c \<Longrightarrow> R a c"
begin

lemma preorder: "reflp R" "transp R"
  using R_refl R_trans by (auto intro: reflpI transpI)

lemma under_answer: "stable R K \<Longrightarrow> (\<And>d. K d \<Longrightarrow> G d) \<Longrightarrow> under R K (answer a) (ok_then G)"
  by (auto simp: under_def rg_rules stable_def)

lemma under_refuse: "under R K (refuse e) (ok_then G)"
  by (simp add: under_def rg_rules)

lemma under_ensure: "(b \<Longrightarrow> under R K h (ok_then G)) \<Longrightarrow> under R K (ensure b e h) (ok_then G)"
  by (simp add: ensure_def under_refuse)

lemma under_require: "(\<And>v. x = Some v \<Longrightarrow> under R K (k v) (ok_then G)) \<Longrightarrow> under R K (require x e k) (ok_then G)"
  by (cases x) (simp_all add: require_def under_refuse)

lemma under_run_sql:
  assumes "stable R K" and "under R K (k None) Q"
    and "\<And>d x d'. K d \<Longrightarrow> f d = Some (x, d') \<Longrightarrow> R d d' \<and> K' x d'" and "\<And>x. under R (K' x) (k (Some x)) Q"
  shows "under R K (run_sql f k) Q"
  unfolding under_def
proof (intro allI impI)
  fix d assume "K d"
  then show "rg R (run_sql f k) Q d"
    by (intro rg_run_sql [OF preorder(2) _ _ preorder(1)]) (use assms in \<open>unfold under_def stable_def, blast+\<close>)
qed

lemma under_run_or:
  assumes "stable R K" and "\<And>d x d'. K d \<Longrightarrow> f d = Some (x, d') \<Longrightarrow> R d d' \<and> K' x d'" and "\<And>x. under R (K' x) (k x) (ok_then G)"
  shows "under R K (run_or f e k) (ok_then G)"
  unfolding run_or_def
  by (rule under_run_sql [OF assms(1), where K' = K']) (use assms(2,3) in \<open>auto simp: require_def under_refuse\<close>)

text \<open>A statement that keeps the assertion, and a query.\<close>

lemma under_step:
  assumes "stable R K" and "\<And>d x d'. K d \<Longrightarrow> f d = Some (x, d') \<Longrightarrow> R d d'" and "\<And>x. under R K (k x) (ok_then G)"
  shows "under R K (run_or f e k) (ok_then G)"
  by (rule under_run_or [OF assms(1), where K' = "\<lambda>_. K"]) (use assms in \<open>auto simp: stable_def\<close>)

lemma under_attempt:
  assumes "stable R K" and "\<And>d x d'. K d \<Longrightarrow> f d = Some (x, d') \<Longrightarrow> R d d'" and "\<And>x. under R K (k x) (ok_then G)"
  shows "under R K (run_sql f k) (ok_then G)"
  by (rule under_run_sql [OF assms(1), where K' = "\<lambda>_. K"]) (use assms in \<open>auto simp: stable_def\<close>)

lemma under_select_or: "stable R K \<Longrightarrow> (\<And>x. under R K (k x) (ok_then G)) \<Longrightarrow> under R K (run_or (select g) e k) (ok_then G)"
  by (rule under_step) (auto intro: R_refl)

lemma under_select: "stable R K \<Longrightarrow> (\<And>x. under R K (k x) (ok_then G)) \<Longrightarrow> under R K (run_sql (select g) k) (ok_then G)"
  by (rule under_attempt) (auto intro: R_refl)

lemma under_serves:
  assumes "serves handle start (d, ts)" and "\<And>q d'. q \<in> set (requests ts) \<Longrightarrow> R start d' \<Longrightarrow> rg R (handle q) (Q q) d'"
  shows "R start d" and "answered ts q r \<Longrightarrow> Q q r d"
proof -
  have s: "safe R Q start (d, ts)" by (rule rg_sound [OF assms(1) preorder assms(2)])
  then show "R start d" by (simp add: safe_def)
  show "answered ts q r \<Longrightarrow> Q q r d" by (rule safe_answered [OF s preorder(1)])
qed

end


section \<open>The platform's invariant\<close>

text \<open>
  Every stored text of an enumeration is one that its reader knows, and every number is one that the API's checks let through.
\<close>

definition typed_server :: "McpServer \<Rightarrow> bool" where
  "typed_server s \<longleftrightarrow>
     Runtime_display (McpServer_runtime s) = srv_runtime s \<and> Visibility_str (McpServer_visibility s) = srv_visibility s \<and>
     AccessMode_display (McpServer_access_mode s) = srv_access_mode s \<and> Transport_display (McpServer_transport s) = srv_transport s \<and>
     ServerStatus_str (McpServer_status s) = srv_status s \<and> slug_check (srv_slug s) \<and> github_repo_check (srv_github_repo s) \<and>
     (\<forall>m. srv_memory_mb s = Some m \<longrightarrow> m \<in> {256, 512, 1024, 2048}) \<and> (\<forall>n. srv_port s = Some n \<longrightarrow> 1 \<le> n \<and> n \<le> 65535)"

definition typed_deployment :: "Deployment \<Rightarrow> bool" where
  "typed_deployment r \<longleftrightarrow> DeploymentStatus_str (Deployment_status r) = dep_status r \<and> 1 \<le> dep_version r"

definition well_typed :: "'r platform \<Rightarrow> bool" where
  "well_typed p \<longleftrightarrow>
     (\<forall>s \<in> set (sd_servers (pf_db p)). typed_server s) \<and> (\<forall>r \<in> set (sd_deployments (pf_db p)). typed_deployment r) \<and>
     (\<forall>k \<in> set (sd_secrets (pf_db p)). SECRET_KEY_REGEX (sec_key k))"

definition idents :: "'r platform \<Rightarrow> (uuid \<times> uuid \<times> string) set" where
  "idents p = (\<lambda>s. (srv_id s, srv_workspace_id s, srv_fly_app_name s)) ` set (sd_servers (pf_db p))"

definition deps :: "'r platform \<Rightarrow> (uuid \<times> uuid \<times> string) set" where
  "deps p = (\<lambda>r. (dep_id r, dep_server_id r, dep_commit_sha r)) ` set (sd_deployments (pf_db p))"

text \<open>A queued job is about a stored deployment of a stored server, and names that server's app.\<close>

definition backed_build :: "'r platform \<Rightarrow> BuildJob \<Rightarrow> bool" where
  "backed_build p j \<longleftrightarrow>
     (bj_deployment_id j, bj_server_id j, bj_commit_sha j) \<in> deps p \<and> (\<exists>i. (bj_server_id j, i, bj_app_name j) \<in> idents p)"

definition backed_destroy :: "'r platform \<Rightarrow> DestroyJob \<Rightarrow> bool" where
  "backed_destroy p j \<longleftrightarrow> (\<exists>i. (xj_server_id j, i, xj_app_name j) \<in> idents p)"

definition backed :: "'r platform \<Rightarrow> bool" where
  "backed p \<longleftrightarrow> (\<forall>j \<in> set (pf_builds p). backed_build p j) \<and> (\<forall>j \<in> set (pf_destroys p). backed_destroy p j)"

definition one_row_each :: "'r platform \<Rightarrow> bool" where
  "one_row_each p \<longleftrightarrow> distinct (map srv_id (sd_servers (pf_db p)))"


section \<open>What belongs to a workspace\<close>

definition is_of :: "uuid \<Rightarrow> 'r platform \<Rightarrow> uuid \<Rightarrow> bool" where
  "is_of w p i \<longleftrightarrow> (\<exists>app. (i, w, app) \<in> idents p)"

record holdings =
  ho_servers :: "McpServer list"
  ho_deployments :: "Deployment list"
  ho_regions :: "ServerRegion list"
  ho_secrets :: "Secret list"
  ho_builds :: "BuildJob list"
  ho_destroys :: "DestroyJob list"

definition about :: "uuid \<Rightarrow> 'r platform \<Rightarrow> holdings" where
  "about w p = \<lparr>
     ho_servers = filter (\<lambda>s. srv_workspace_id s = w) (sd_servers (pf_db p)),
     ho_deployments = filter (\<lambda>r. is_of w p (dep_server_id r)) (sd_deployments (pf_db p)),
     ho_regions = filter (\<lambda>r. is_of w p (rgn_server_id r)) (sd_regions (pf_db p)),
     ho_secrets = filter (\<lambda>k. is_of w p (sec_server_id k)) (sd_secrets (pf_db p)),
     ho_builds = filter (\<lambda>j. is_of w p (bj_server_id j)) (pf_builds p),
     ho_destroys = filter (\<lambda>j. is_of w p (xj_server_id j)) (pf_destroys p) \<rparr>"

text \<open>
  A step among tenants: membership stays, servers and deployments stay what they are, the invariants last, and the workspace \<open>w\<close>,
  if one is singled out, is left alone.
\<close>

definition tenant_step :: "uuid option \<Rightarrow> 'r platform \<Rightarrow> 'r platform \<Rightarrow> bool" where
  "tenant_step w p p' \<longleftrightarrow>
     sd_accounts (pf_db p') = sd_accounts (pf_db p) \<and> idents p \<subseteq> idents p' \<and> deps p \<subseteq> deps p' \<and>
     (one_row_each p \<longrightarrow> one_row_each p' \<and> (well_typed p \<longrightarrow> well_typed p') \<and> (backed p \<longrightarrow> backed p') \<and>
        (\<forall>i. w = Some i \<longrightarrow> about i p' = about i p))"

interpretation tenant: rely "tenant_step w" for w :: "uuid option"
  by unfold_locales (auto simp: tenant_step_def)

definition belongs :: "uuid \<Rightarrow> uuid \<Rightarrow> 'r platform \<Rightarrow> bool" where
  "belongs i u p \<longleftrightarrow> get_member i u (sd_accounts (pf_db p)) \<noteq> None"

definition writes :: "uuid \<Rightarrow> uuid \<Rightarrow> 'r platform \<Rightarrow> bool" where
  "writes i u p \<longleftrightarrow> (\<exists>m. get_member i u (sd_accounts (pf_db p)) = Some m \<and> WorkspaceMember_role m \<noteq> Role_Viewer)"

definition holds_server :: "uuid \<Rightarrow> uuid \<Rightarrow> string \<Rightarrow> 'r platform \<Rightarrow> bool" where
  "holds_server i s app p \<longleftrightarrow> (s, i, app) \<in> idents p"

lemma stable_tenant [intro]:
  "stable (tenant_step w) (belongs i u)" "stable (tenant_step w) (writes i u)" "stable (tenant_step w) (holds_server i s app)"
  "stable (tenant_step w) (\<lambda>p. t \<in> deps p)"
  by (auto simp: stable_def tenant_step_def belongs_def writes_def holds_server_def)


section \<open>Statements\<close>

text \<open>A step that keeps the rows of servers, and adds or changes rows and jobs of one server outside \<open>w\<close> only.\<close>

lemma is_of_idents: "idents p' = idents p \<Longrightarrow> is_of w p' = is_of w p"
  by (rule ext) (simp add: is_of_def)

lemma not_of:
  assumes "one_row_each p" and "(s, i, app) \<in> idents p" and "is_of w p s"
  shows "i = w"
proof -
  obtain x y where x: "x \<in> set (sd_servers (pf_db p))" "srv_id x = s" "srv_workspace_id x = i"
    and y: "y \<in> set (sd_servers (pf_db p))" "srv_id y = s" "srv_workspace_id y = w"
    using assms(2,3) by (auto simp: idents_def is_of_def)
  then have "x = y" using assms(1) by (auto simp: one_row_each_def dest: inj_onD [OF distinct_map [THEN iffD1, THEN conjunct2]])
  then show ?thesis using x y by simp
qed

lemma filter_update_other:
  "(\<And>r. r \<in> set t \<Longrightarrow> P r \<Longrightarrow> \<not> Q r \<and> \<not> Q (f r)) \<Longrightarrow> filter Q (sql_update P f t) = filter Q t"
  by (induction t) (auto simp: sql_update_def)

lemma filter_delete_other: "(\<And>r. r \<in> set t \<Longrightarrow> P r \<Longrightarrow> \<not> Q r) \<Longrightarrow> filter Q (sql_delete P t) = filter Q t"
  by (induction t) (auto simp: sql_delete_def)

lemma tenant_stepI:
  assumes "sd_accounts (pf_db p') = sd_accounts (pf_db p)" and "idents p' = idents p" and "one_row_each p' = one_row_each p"
    and "deps p \<subseteq> deps p'" and "well_typed p \<Longrightarrow> well_typed p'" and "backed p \<Longrightarrow> backed p'"
    and "\<And>i. w = Some i \<Longrightarrow> one_row_each p \<Longrightarrow> about i p' = about i p"
  shows "tenant_step w p p'"
  using assms by (simp add: tenant_step_def)

lemma backed_more:
  assumes "idents p \<subseteq> idents p'" and "deps p \<subseteq> deps p'" and "pf_builds p' = pf_builds p" and "pf_destroys p' = pf_destroys p"
  shows "backed p \<Longrightarrow> backed p'"
  using assms by (fastforce simp: backed_def backed_build_def backed_destroy_def)

text \<open>Redis, and the record of apps destroyed inline.\<close>

lemma step_unseen:
  assumes "pf_db p' = pf_db p" and "pf_builds p' = pf_builds p" and "pf_destroys p' = pf_destroys p"
  shows "tenant_step w p p'"
proof -
  have i: "idents p' = idents p" and d: "deps p' = deps p" using assms by (simp_all add: idents_def deps_def)
  show ?thesis
    by (rule tenant_stepI) (use assms i d is_of_idents [OF i] in
      \<open>auto simp: one_row_each_def well_typed_def about_def backed_def backed_build_def backed_destroy_def\<close>)
qed

text \<open>A statement on the tables about one server.\<close>

lemma step_rows:
  assumes p': "p' = p\<lparr>pf_db := d'\<rparr>" and d': "sd_accounts d' = sd_accounts (pf_db p)" "sd_servers d' = sd_servers (pf_db p)"
    and more: "deps p \<subseteq> deps p'"
    and typed: "well_typed p \<Longrightarrow> (\<forall>r \<in> set (sd_deployments d'). typed_deployment r) \<and> (\<forall>k \<in> set (sd_secrets d'). SECRET_KEY_REGEX (sec_key k))"
    and holds: "holds_server i s app p" and w: "w \<noteq> Some i"
    and other: "\<And>Q. \<not> Q s \<Longrightarrow> filter (\<lambda>r. Q (dep_server_id r)) (sd_deployments d') = filter (\<lambda>r. Q (dep_server_id r)) (sd_deployments (pf_db p))"
      "\<And>Q. \<not> Q s \<Longrightarrow> filter (\<lambda>r. Q (rgn_server_id r)) (sd_regions d') = filter (\<lambda>r. Q (rgn_server_id r)) (sd_regions (pf_db p))"
      "\<And>Q. \<not> Q s \<Longrightarrow> filter (\<lambda>k. Q (sec_server_id k)) (sd_secrets d') = filter (\<lambda>k. Q (sec_server_id k)) (sd_secrets (pf_db p))"
  shows "tenant_step w p p'"
proof (rule tenant_stepI)
  show i: "idents p' = idents p" using p' d' by (simp add: idents_def)
  show "well_typed p'" if "well_typed p" using typed [OF that] that p' d' by (simp add: well_typed_def)
  show "backed p'" if "backed p" by (rule backed_more [OF _ more _ _ that]) (use i p' in simp_all)
  fix v assume v: "w = Some v" and one: "one_row_each p"
  have "\<not> is_of v p s" using not_of [OF one, of s i app v] holds w v by (auto simp: holds_server_def)
  then show "about v p' = about v p"
    unfolding about_def is_of_idents [OF i] using other [of "is_of v p"] by (simp add: p' d')
qed (use assms in \<open>simp_all add: one_row_each_def\<close>)

text \<open>A job about one server.\<close>

lemma step_job:
  assumes "holds_server i s app p" and "w \<noteq> Some i"
  shows "bj_server_id j = s \<Longrightarrow> holds_server i' s (bj_app_name j) p \<Longrightarrow> (bj_deployment_id j, s, bj_commit_sha j) \<in> deps p \<Longrightarrow>
      tenant_step w p (push_build_job j p)"
    and "xj_server_id x = s \<Longrightarrow> xj_app_name x = app \<Longrightarrow> tenant_step w p (push_destroy_job x p)"
proof -
  note one = not_of [of p s i app]
  have i: "idents (push_build_job j p) = idents p" "idents (push_destroy_job x p) = idents p"
    and d: "deps (push_build_job j p) = deps p" "deps (push_destroy_job x p) = deps p"
    by (simp_all add: idents_def deps_def push_build_job_def push_destroy_job_def)
  show "tenant_step w p (push_build_job j p)"
    if "bj_server_id j = s" "holds_server i' s (bj_app_name j) p" "(bj_deployment_id j, s, bj_commit_sha j) \<in> deps p"
    by (rule tenant_stepI) (use that assms i d one is_of_idents [OF i(1)] in
      \<open>auto simp: push_build_job_def one_row_each_def well_typed_def about_def backed_def backed_build_def backed_destroy_def holds_server_def\<close>)
  show "tenant_step w p (push_destroy_job x p)" if "xj_server_id x = s" "xj_app_name x = app"
    by (rule tenant_stepI) (use that assms i d one is_of_idents [OF i(2)] in
      \<open>auto simp: push_destroy_job_def one_row_each_def well_typed_def about_def backed_def backed_build_def backed_destroy_def holds_server_def\<close>)
qed

text \<open>A change of one server's row.\<close>

lemma step_server:
  assumes holds: "holds_server i s app p" and w: "w \<noteq> Some i"
    and same: "\<And>x. srv_id (f x) = srv_id x" "\<And>x. srv_workspace_id (f x) = srv_workspace_id x" "\<And>x. srv_fly_app_name (f x) = srv_fly_app_name x"
    and typed: "\<And>x t. typed_server x \<Longrightarrow> typed_server ((f x)\<lparr>srv_updated_at := t\<rparr>)"
  shows "tenant_step w p (p\<lparr>pf_db := server_change s f (pf_db p)\<rparr>)"
proof (rule tenant_stepI)
  let ?p = "p\<lparr>pf_db := server_change s f (pf_db p)\<rparr>"
  have keys: "map (\<lambda>x. (srv_id x, srv_workspace_id x, srv_fly_app_name x)) (sd_servers (pf_db ?p)) =
      map (\<lambda>x. (srv_id x, srv_workspace_id x, srv_fly_app_name x)) (sd_servers (pf_db p))"
    by (simp add: server_change_def map_sql_update same)
  show i: "idents ?p = idents p" using arg_cong [OF keys, of set] by (simp add: idents_def)
  have "map srv_id (sd_servers (pf_db ?p)) = map srv_id (sd_servers (pf_db p))"
    by (simp add: server_change_def map_sql_update same)
  then show "one_row_each ?p = one_row_each p" by (simp add: one_row_each_def)
  show "deps p \<subseteq> deps ?p" by (simp add: deps_def server_change_def)
  then show "backed ?p" if "backed p" by (rule backed_more [OF _ _ _ _ that, rotated]) (use i in simp_all)
  show "well_typed ?p" if "well_typed p"
  proof -
    have "typed_server x" if "x \<in> set (sd_servers (pf_db ?p))" for x
    proof -
      obtain y where "y \<in> set (sd_servers (pf_db p))" "x = y \<or> x = (f y)\<lparr>srv_updated_at := sd_now (pf_db p)\<rparr>"
        using \<open>x \<in> _\<close> unfolding server_change_def sql_update_def by (auto split: if_splits)
      then show ?thesis using \<open>well_typed p\<close> typed unfolding well_typed_def by blast
    qed
    then show ?thesis using that by (simp add: well_typed_def server_change_def)
  qed
  fix v assume v: "w = Some v" and one: "one_row_each p"
  have "srv_workspace_id x = i" if "x \<in> set (sd_servers (pf_db p))" "srv_id x = s" for x
  proof -
    have "is_of (srv_workspace_id x) p s" using that by (auto simp: is_of_def idents_def)
    then show ?thesis using not_of [OF one, of s i app] holds by (simp add: holds_server_def)
  qed
  then have "filter (\<lambda>x. srv_workspace_id x = v) (sd_servers (pf_db ?p)) = filter (\<lambda>x. srv_workspace_id x = v) (sd_servers (pf_db p))"
    using v w same unfolding server_change_def by (auto intro!: filter_update_other)
  then show "about v ?p = about v p" by (simp add: about_def is_of_idents [OF i]) (simp add: server_change_def)
qed (simp add: server_change_def)

text \<open>The statements of the handlers.\<close>

lemma typed_read [simp]:
  "Runtime_display (Runtime_of_str (Runtime_display r)) = Runtime_display r"
  "Visibility_str (Visibility_of_str (Visibility_str v)) = Visibility_str v"
  "AccessMode_display (AccessMode_of_str (AccessMode_display m)) = AccessMode_display m"
  "Transport_display (Transport_of_str (Transport_display t)) = Transport_display t"
  "ServerStatus_str (ServerStatus_of_str (ServerStatus_str st)) = ServerStatus_str st"
  "DeploymentStatus_str (DeploymentStatus_of_str (DeploymentStatus_str ds)) = DeploymentStatus_str ds"
  by (simp_all add: stored_enums_read_back)

lemma on_pf_Some: "on_pf f p = Some (x, p') \<longleftrightarrow> (\<exists>d'. f (pf_db p) = Some (x, d') \<and> p' = p\<lparr>pf_db := d'\<rparr>)"
  by (auto simp: on_pf_def)

lemma fold_max_ge: "(a :: int) \<le> b \<Longrightarrow> a \<le> fold max vs b"
  by (induction vs arbitrary: b) auto

lemma next_version_pos: "well_typed p \<Longrightarrow> 1 \<le> next_version s (pf_db p)"
proof -
  assume t: "well_typed p"
  show ?thesis
  proof (cases "map dep_version (filter (\<lambda>r. dep_server_id r = s) (sd_deployments (pf_db p)))")
    case (Cons v vs)
    then have "v \<in> set (map dep_version (filter (\<lambda>r. dep_server_id r = s) (sd_deployments (pf_db p))))" by simp
    then have "1 \<le> v" using t by (auto simp: well_typed_def typed_deployment_def)
    then have "1 \<le> fold max vs v" by (rule fold_max_ge)
    then show ?thesis using Cons by (simp add: next_version_def)
  qed (simp add: next_version_def)
qed

lemma step_deploy_create:
  assumes "on_pf (deploy_create fresh s sha u) p = Some (r, p')" and "holds_server i s app p" and "w \<noteq> Some i"
  shows "tenant_step w p p' \<and> (dep_id r, s, dep_commit_sha r) \<in> deps p'"
proof -
  obtain d' where d': "deploy_create fresh s sha u (pf_db p) = Some (r, d')" and p': "p' = p\<lparr>pf_db := d'\<rparr>"
    using assms(1) by (auto simp: on_pf_Some)
  then have r: "dep_server_id r = s" "dep_status r = ''pending''" "dep_version r = next_version s (pf_db p)"
    and rows: "d' = (pf_db p)\<lparr>sd_deployments := sd_deployments (pf_db p) @ [r]\<rparr>"
    by (auto simp: deploy_create_def Let_def sql_insert_Some split: if_splits)
  have "typed_deployment r" if "well_typed p"
    using next_version_pos [OF that, of s] r by (simp add: typed_deployment_def Deployment_status_def DeploymentStatus_of_str_def)
  then have "tenant_step w p p'"
    by (intro step_rows [OF p' _ _ _ _ assms(2,3)]) (auto simp: rows deps_def p' r well_typed_def)
  then show ?thesis using r by (auto simp: p' rows deps_def)
qed

lemma step_region_create:
  assumes "on_pf (region_create fresh s reg prim) p = Some (r, p')" and "holds_server i s app p" and "w \<noteq> Some i"
  shows "tenant_step w p p'"
proof -
  obtain d' where d': "region_create fresh s reg prim (pf_db p) = Some (r, d')" and p': "p' = p\<lparr>pf_db := d'\<rparr>"
    using assms(1) by (auto simp: on_pf_Some)
  then have "rgn_server_id r = s" "d' = (pf_db p)\<lparr>sd_regions := sd_regions (pf_db p) @ [r]\<rparr>"
    by (auto simp: region_create_def Let_def sql_insert_Some split: if_splits)
  then show ?thesis by (intro step_rows [OF p' _ _ _ _ assms(2,3)]) (auto simp: deps_def p' well_typed_def)
qed

lemma step_secret_upsert:
  assumes "on_pf (secret_upsert fresh s key v n) p = Some (r, p')" and "holds_server i s app p" and "w \<noteq> Some i"
    and "SECRET_KEY_REGEX key"
  shows "tenant_step w p p'"
proof -
  obtain d' where d': "secret_upsert fresh s key v n (pf_db p) = Some (r, d')" and p': "p' = p\<lparr>pf_db := d'\<rparr>"
    using assms(1) by (auto simp: on_pf_Some)
  let ?set = "\<lambda>r. r\<lparr>sec_encrypted_value := v, sec_nonce := n, sec_updated_at := sd_now (pf_db p)\<rparr>"
  have "d' = (pf_db p)\<lparr>sd_secrets := sql_update (at_key s key) ?set (sd_secrets (pf_db p))\<rparr> \<or>
      sec_server_id r = s \<and> sec_key r = key \<and> d' = (pf_db p)\<lparr>sd_secrets := sd_secrets (pf_db p) @ [r]\<rparr>"
    using d' by (auto simp: secret_upsert_def secret_create_def secret_change_def secret_row_def Let_def sql_insert_Some split: if_splits)
  then show ?thesis
  proof (elim disjE conjE)
    assume d: "d' = (pf_db p)\<lparr>sd_secrets := sql_update (at_key s key) ?set (sd_secrets (pf_db p))\<rparr>"
    have "filter (\<lambda>k. Q (sec_server_id k)) (sql_update (at_key s key) ?set (sd_secrets (pf_db p))) =
        filter (\<lambda>k. Q (sec_server_id k)) (sd_secrets (pf_db p))" if "\<not> Q s" for Q
      using that by (auto simp: at_key_def intro!: filter_update_other)
    then show ?thesis
      by (intro step_rows [OF p' _ _ _ _ assms(2,3)]) (auto simp: d deps_def p' well_typed_def set_sql_update)
  next
    assume "sec_server_id r = s" "sec_key r = key" "d' = (pf_db p)\<lparr>sd_secrets := sd_secrets (pf_db p) @ [r]\<rparr>"
    then show ?thesis by (intro step_rows [OF p' _ _ _ _ assms(2,3)]) (use assms(4) in \<open>auto simp: deps_def p' well_typed_def\<close>)
  qed
qed

lemma step_delete_by_key:
  assumes "holds_server i s app p" and "w \<noteq> Some i"
  shows "tenant_step w p (p\<lparr>pf_db := delete_by_key s key (pf_db p)\<rparr>)"
proof -
  have "filter (\<lambda>k. Q (sec_server_id k)) (sql_delete (at_key s key) (sd_secrets (pf_db p))) =
      filter (\<lambda>k. Q (sec_server_id k)) (sd_secrets (pf_db p))" if "\<not> Q s" for Q
    using that by (auto simp: at_key_def intro!: filter_delete_other)
  then show ?thesis
    by (intro step_rows [OF refl _ _ _ _ assms]) (auto simp: delete_by_key_def deps_def well_typed_def)
qed

lemma step_status:
  assumes "holds_server i s app p" and "w \<noteq> Some i"
  shows "tenant_step w p (p\<lparr>pf_db := server_update_status s st u (pf_db p)\<rparr>)"
    and "tenant_step w p (p\<lparr>pf_db := mark_deleting s (pf_db p)\<rparr>)"
proof -
  have set: "typed_server x \<Longrightarrow> typed_server (x\<lparr>srv_status := ServerStatus_str st, srv_endpoint_url := e, srv_updated_at := t\<rparr>)" for x st e t
    by (simp add: typed_server_def McpServer_runtime_def McpServer_visibility_def
      McpServer_access_mode_def McpServer_transport_def McpServer_status_def)
  show "tenant_step w p (p\<lparr>pf_db := server_update_status s st u (pf_db p)\<rparr>)"
    unfolding server_update_status_def by (rule step_server [OF assms]) (use set in simp_all)
  have "typed_server (x\<lparr>srv_status := ''deleting'', srv_updated_at := t\<rparr>)" if "typed_server x" for x t
    using set [OF that, where st = Server_Deleting and e = "srv_endpoint_url x" and t = t] by simp
  then show "tenant_step w p (p\<lparr>pf_db := mark_deleting s (pf_db p)\<rparr>)"
    unfolding mark_deleting_def by (intro step_server [OF assms]) simp_all
qed

definition checked_numbers :: "int option \<Rightarrow> int option \<Rightarrow> bool" where
  "checked_numbers memory port \<longleftrightarrow> (\<forall>m. memory = Some m \<longrightarrow> m \<in> {256, 512, 1024, 2048}) \<and> (\<forall>n. port = Some n \<longrightarrow> 1 \<le> n \<and> n \<le> 65535)"

lemma typed_updated:
  assumes "typed_server x" and "checked_numbers (upd_memory_mb u) (upd_port u)"
  shows "typed_server ((updated_server u x)\<lparr>srv_updated_at := t\<rparr>)"
proof -
  have either: "or_else a b = Some (c :: int) \<Longrightarrow> a = Some c \<or> b = Some c" for a b c by (cases a) auto
  have un: "unwrap_or (map_option f a) (b :: string) = b \<or> (\<exists>v. unwrap_or (map_option f a) b = f v)" for f a b by (cases a) auto
  show ?thesis
    using assms un [of Visibility_str "upd_visibility u" "srv_visibility x"] un [of AccessMode_display "upd_access_mode u" "srv_access_mode x"]
      un [of ServerStatus_str "upd_status u" "srv_status x"]
    unfolding typed_server_def McpServer_runtime_def McpServer_visibility_def McpServer_access_mode_def McpServer_transport_def
      McpServer_status_def checked_numbers_def updated_server_def
    by (auto dest!: either)
qed

lemma step_server_update:
  assumes "on_pf (server_update s u) p = Some (x, p')" and "holds_server i s app p" and "w \<noteq> Some i"
    and "checked_numbers (upd_memory_mb u) (upd_port u)"
  shows "tenant_step w p p'"
proof -
  have "p' = p\<lparr>pf_db := server_change s (updated_server u) (pf_db p)\<rparr>"
    using assms(1) by (auto simp: on_pf_Some server_update_def Let_def)
  moreover have "tenant_step w p (p\<lparr>pf_db := server_change s (updated_server u) (pf_db p)\<rparr>)"
    by (rule step_server [OF assms(2,3)]) (use typed_updated [OF _ assms(4)] in \<open>simp_all add: updated_server_def\<close>)
  ultimately show ?thesis by simp
qed

lemma step_server_create:
  assumes "on_pf (server_create simple fresh c) p = Some (s, p')" and "w \<noteq> Some (crs_workspace_id c)"
    and "checked_numbers (crs_memory_mb c) (crs_port c)"
  shows "tenant_step w p p' \<and> holds_server (crs_workspace_id c) (srv_id s) (srv_fly_app_name s) p'"
proof -
  let ?S = "sd_servers (pf_db p)"
  obtain d' where d': "server_create simple fresh c (pf_db p) = Some (s, d')" and p': "p' = p\<lparr>pf_db := d'\<rparr>"
    using assms(1) by (auto simp: on_pf_Some)
  then have s: "s = server_row simple fresh (sd_now (pf_db p)) c" and ok: "server_check s" and rows: "d' = (pf_db p)\<lparr>sd_servers := ?S @ [s]\<rparr>"
    and new: "\<forall>x \<in> set ?S. srv_id x \<noteq> srv_id s"
    by (auto simp: server_create_def Let_def sql_insert_Some server_clash_def list_ex_iff split: if_splits)
  have ws: "srv_workspace_id s = crs_workspace_id c" by (simp add: s server_row_def)
  have typed: "typed_server s"
    using ok assms(3) by (auto simp: typed_server_def server_check_def s server_row_def checked_numbers_def McpServer_runtime_def
      McpServer_visibility_def McpServer_access_mode_def McpServer_transport_def McpServer_status_def ServerStatus_of_str_def)
  have i: "idents p' = insert (srv_id s, srv_workspace_id s, srv_fly_app_name s) (idents p)" by (simp add: idents_def p' rows)
  have deps: "deps p' = deps p" by (simp add: deps_def p' rows)
  have of: "is_of v p' = is_of v p" if "w = Some v" for v
    using that assms(2) ws by (auto simp: is_of_def i fun_eq_iff)
  have "backed p'" if "backed p" by (rule backed_more [OF _ _ _ _ that]) (use i deps in \<open>auto simp: p'\<close>)
  moreover have "about v p' = about v p" if "w = Some v" for v
    unfolding about_def of [OF that] using that assms(2) ws by (simp add: p' rows)
  moreover have "one_row_each p'" if "one_row_each p" using that new by (auto simp: one_row_each_def p' rows)
  moreover have "well_typed p'" if "well_typed p" using that typed by (auto simp: well_typed_def p' rows)
  moreover have "sd_accounts (pf_db p') = sd_accounts (pf_db p)" by (simp add: p' rows)
  ultimately have "tenant_step w p p'" unfolding tenant_step_def i deps by blast
  then show ?thesis using ws by (simp add: holds_server_def i)
qed

end
