(* ===== verification/Server_Service.thy ===== *)
theory Server_Service
  imports Server_Steps Workspace_Service
begin

text \<open>
  The server routes as a service: their requests interleave statement by statement and their statements fail. Tenants do not reach
  each other's servers, the stored rows stay well-typed and every queued job is about stored rows.
\<close>

section \<open>The parts of the handlers\<close>

lemmas under_intros = tenant.under_answer tenant.under_refuse tenant.under_ensure tenant.under_require

lemma step_redis: "tenant_step w p (on_pf_redis f p)"
  by (rule step_unseen) (simp_all add: on_pf_redis_def)

lemma under_of_member:
  assumes "stable (tenant_step w) K"
    and "\<And>m. under (tenant_step w) (\<lambda>p. K p \<and> get_member i u (sd_accounts (pf_db p)) = Some m) (k m) (ok_then G)"
  shows "under (tenant_step w) K (of_member e1 e2 i u k) (ok_then G)"
  unfolding of_member_def
proof (rule tenant.under_run_or [OF assms(1)])
  show "tenant_step w p p' \<and> K p' \<and> get_member i u (sd_accounts (pf_db p')) = x"
    if "K p" "select (\<lambda>p. get_member i u (sd_accounts (pf_db p))) p = Some (x, p')" for p x p'
    using that by (auto simp: tenant.R_refl)
  show "under (tenant_step w) (\<lambda>p. K p \<and> get_member i u (sd_accounts (pf_db p)) = x) (require x e2 k) (ok_then G)" for x
    using assms(2) by (cases x) (simp_all add: require_def tenant.under_refuse)
qed

lemma under_reader:
  assumes "stable (tenant_step w) K" and "under (tenant_step w) (\<lambda>p. K p \<and> belongs i u p) k (ok_then G)"
  shows "under (tenant_step w) K (of_member e1 e2 i u (\<lambda>_. k)) (ok_then G)"
  by (rule under_of_member [OF assms(1)]) (use assms(2) in \<open>auto simp: under_def belongs_def\<close>)

lemma under_writer:
  assumes "stable (tenant_step w) K" and "\<And>p. K p \<Longrightarrow> w = Some i \<Longrightarrow> \<not> writes i u p"
    and "w \<noteq> Some i \<Longrightarrow> under (tenant_step w) (\<lambda>p. K p \<and> writes i u p) k (ok_then G)"
  shows "under (tenant_step w) K (of_writer e1 e2 e3 i u k) (ok_then G)"
  unfolding of_writer_def
proof (intro under_of_member [OF assms(1)] tenant.under_ensure)
  fix m assume "WorkspaceMember_role m \<noteq> Role_Viewer"
  then have "writes i u p" if "get_member i u (sd_accounts (pf_db p)) = Some m" for p :: "'a platform"
    using that by (auto simp: writes_def)
  then show "under (tenant_step w) (\<lambda>p. K p \<and> get_member i u (sd_accounts (pf_db p)) = Some m) k (ok_then G)"
    using assms(2,3) unfolding under_def by blast
qed

lemma under_manager:
  assumes "stable (tenant_step w) K" and "\<And>p. K p \<Longrightarrow> w = Some i \<Longrightarrow> \<not> writes i u p"
    and "w \<noteq> Some i \<Longrightarrow> under (tenant_step w) (\<lambda>p. K p \<and> writes i u p) k (ok_then G)"
  shows "under (tenant_step w) K (of_manager e1 e2 e3 i u k) (ok_then G)"
  unfolding of_manager_def
proof (intro under_of_member [OF assms(1)] tenant.under_ensure)
  fix m assume "WorkspaceMember_role m = Role_Admin \<or> WorkspaceMember_role m = Role_Owner"
  then have "writes i u p" if "get_member i u (sd_accounts (pf_db p)) = Some m" for p :: "'a platform"
    using that by (auto simp: writes_def)
  then show "under (tenant_step w) (\<lambda>p. K p \<and> get_member i u (sd_accounts (pf_db p)) = Some m) k (ok_then G)"
    using assms(2,3) unfolding under_def by blast
qed

lemma found_server:
  "server_find_by_id s (pf_db p) = Some server \<Longrightarrow> srv_id server = s \<and> holds_server (srv_workspace_id server) s (srv_fly_app_name server) p"
  by (auto simp: server_find_by_id_def server_by_def holds_server_def idents_def dest!: find_Some_in)

lemma under_find_server:
  assumes "stable (tenant_step w) K"
    and "\<And>server. srv_id server = s \<Longrightarrow>
      under (tenant_step w) (\<lambda>p. K p \<and> holds_server (srv_workspace_id server) s (srv_fly_app_name server) p) (k server) (ok_then G)"
  shows "under (tenant_step w) K (run_or (select (\<lambda>p. server_find_by_id s (pf_db p))) e1 (\<lambda>found. require found e2 k)) (ok_then G)"
proof -
  let ?found = "\<lambda>x p. K p \<and> (\<forall>server. x = Some server \<longrightarrow>
      srv_id server = s \<and> holds_server (srv_workspace_id server) s (srv_fly_app_name server) p)"
  show ?thesis
  proof (rule tenant.under_run_or [OF assms(1), where K' = ?found])
    show "tenant_step w p p' \<and> ?found x p'" if "K p" "select (\<lambda>p. server_find_by_id s (pf_db p)) p = Some (x, p')" for p x p'
      using that found_server by (auto simp: tenant.R_refl)
    show "under (tenant_step w) (?found x) (require x e2 k) (ok_then G)" for x
      using assms(2) by (cases x) (auto simp: require_def under_def rg_rules)
  qed
qed

lemma under_of_server:
  assumes "stable (tenant_step w) K"
    and "\<And>server. srv_id server = s \<Longrightarrow> under (tenant_step w) (\<lambda>p. K p \<and> holds_server i s (srv_fly_app_name server) p) (k server) (ok_then G)"
  shows "under (tenant_step w) K (of_server e1 e2 i s k) (ok_then G)"
  unfolding of_server_def by (intro under_find_server assms(1) tenant.under_ensure) (use assms(2) in auto)

lemma under_of_workspace:
  "stable (tenant_step w) K \<Longrightarrow> (\<And>ws. under (tenant_step w) K (k ws) (ok_then G)) \<Longrightarrow>
   under (tenant_step w) K (of_workspace e1 e2 i k) (ok_then G)"
  unfolding of_workspace_def by (intro tenant.under_select_or tenant.under_require)

lemma under_this_month:
  assumes "stable (tenant_step w) K" and "\<And>n. under (tenant_step w) K (k n) (ok_then G)"
  shows "under (tenant_step w) K (deployments_this_month E e i k) (ok_then G)"
proof -
  have "under (tenant_step w) K (run_or (select (\<lambda>p. count_by_workspace_since i (sv_month_start E) (pf_db p))) e (\<lambda>count.
      run_sql (change (on_pf_redis (set_deployment_count (sv_api E) i (sv_year E) (sv_month E) (int count)))) (\<lambda>_. k (int count)))) (ok_then G)"
    by (intro tenant.under_select_or tenant.under_attempt assms) (auto simp: step_redis)
  then show ?thesis
    unfolding deployments_this_month_def
    by (intro tenant.under_select assms(1)) (auto split: option.splits intro: assms(2))
qed

lemma under_start_deployment:
  assumes "stable (tenant_step w) K" and "\<And>p. K p \<Longrightarrow> holds_server i (srv_id server) (srv_fly_app_name server) p" and "w \<noteq> Some i"
    and "\<And>d. under (tenant_step w) K (k d) (ok_then G)"
  shows "under (tenant_step w) K (start_deployment E e1 e2 e3 u i server sha k) (ok_then G)"
proof -
  let ?in = "\<lambda>d p. K p \<and> (dep_id d, srv_id server, dep_commit_sha d) \<in> deps p"
  have st: "stable (tenant_step w) (?in d)" for d by (intro stable_conj assms(1) stable_tenant)
  have k: "under (tenant_step w) (?in d) (k d) (ok_then G)" for d using assms(4) by (simp add: under_def)
  show ?thesis
    unfolding start_deployment_def
  proof (rule tenant.under_run_or [OF assms(1), where K' = ?in])
    show "tenant_step w p p' \<and> ?in d p'"
      if "K p" "on_pf (deploy_create (sv_deployment_id E) (srv_id server) sha (Some u)) p = Some (d, p')" for p d p'
      using step_deploy_create [OF that(2) assms(2) [OF that(1)] assms(3)] assms(1) that(1) by (auto simp: stable_def)
  next
    fix d
    show "under (tenant_step w) (?in d) (run_sql (change (on_pf_redis (increment_deployment_count (sv_api E) i (sv_year E) (sv_month E)))) (\<lambda>_.
      run_or (on_pf (change (server_update_status (srv_id server) Server_Building None))) e2 (\<lambda>_.
      run_or (change (push_build_job (BuildJob_from_server server (dep_id d) (dep_commit_sha d) None))) e3 (\<lambda>_. k d)))) (ok_then G)"
      by (intro tenant.under_attempt tenant.under_step st k)
        (use assms(2,3) in \<open>auto simp: step_redis on_pf_Some BuildJob_from_server_def intro!: step_status step_job\<close>)
  qed
qed

lemma under_provision_env:
  assumes "stable (tenant_step w) K" and "\<And>p. K p \<Longrightarrow> holds_server i s app p" and "w \<noteq> Some i"
    and "under (tenant_step w) K k (ok_then G)"
  shows "under (tenant_step w) K (provision_env E s n vars k) (ok_then G)"
proof (induction vars arbitrary: n)
  case (Cons var vars)
  show ?case
  proof (cases "api_validate_secret_key (ssq_key var)")
    case (Inr y)
    then have "SECRET_KEY_REGEX (ssq_key var)" by (auto simp: api_validate_secret_key_def split: if_splits)
    then show ?thesis
      using Inr Cons.IH by (auto split: sum.splits simp: tenant.under_refuse intro!: tenant.under_step assms(1)
          intro: step_secret_upsert [OF _ assms(2,3)])
  qed (auto simp: tenant.under_refuse split: prod.splits)
qed (use assms(4) in simp)


section \<open>The handlers\<close>

text \<open>The user, the workspace and the server of a request's path, and whether it needs the right to write.\<close>

fun target :: "'r server_request \<Rightarrow> (uuid \<times> uuid \<times> uuid option \<times> bool) option" where
  "target (List_All E u) = None"
| "target (List_Servers E u i pg) = Some (u, i, None, False)"
| "target (Get_Server E u i s) = Some (u, i, Some s, False)"
| "target (Create_Server E u i b) = Some (u, i, None, True)"
| "target (Update_Server E u i s b) = Some (u, i, Some s, True)"
| "target (Delete_Server E u i s) = Some (u, i, Some s, True)"
| "target (Deploy_Server E u i s) = Some (u, i, Some s, True)"
| "target (Stop_Server E u i s) = Some (u, i, Some s, True)"
| "target (Restart_Server E u i s) = Some (u, i, Some s, True)"
| "target (Server_Metrics E u i s) = Some (u, i, Some s, False)"
| "target (List_Deployments E u i s pg) = Some (u, i, Some s, False)"
| "target (Get_Deployment E u i s j) = Some (u, i, Some s, False)"
| "target (Get_Logs E u i s j) = Some (u, i, Some s, False)"
| "target (Rollback E u i s j) = Some (u, i, Some s, True)"
| "target (Deployment_Usage E u i) = Some (u, i, None, False)"
| "target (List_Secrets E u i s) = Some (u, i, Some s, False)"
| "target (Set_Secret E u i s b) = Some (u, i, Some s, True)"
| "target (Delete_Secret E u i s k) = Some (u, i, Some s, True)"

definition entitled :: "'r server_request \<Rightarrow> 'r platform \<Rightarrow> bool" where
  "entitled q p \<longleftrightarrow>
     (case target q of
        None \<Rightarrow> True
      | Some (u, i, server, needs_writing) \<Rightarrow>
          (if needs_writing then writes i u p else belongs i u p) \<and>
          (case server of None \<Rightarrow> True | Some s \<Rightarrow> \<exists>app. holds_server i s app p))"

definition may_write :: "'r server_request \<Rightarrow> uuid \<Rightarrow> 'r platform \<Rightarrow> bool" where
  "may_write q w p \<longleftrightarrow> (case target q of None \<Rightarrow> False | Some (u, i, _, _) \<Rightarrow> i = w \<and> writes i u p)"

abbreviation guarded :: "uuid option \<Rightarrow> uuid \<Rightarrow> uuid \<Rightarrow> 'r platform \<Rightarrow> bool" where
  "guarded w i u p \<equiv> w = Some i \<longrightarrow> \<not> writes i u p"

lemma stable_guarded [intro]: "stable (tenant_step w) (guarded w' i u)"
  by (auto simp: stable_def tenant_step_def writes_def)

lemmas stable_rules = stable_guarded stable_tenant stable_conj

lemma under_mono: "under R K p Q \<Longrightarrow> (\<And>d. K' d \<Longrightarrow> K d) \<Longrightarrow> under R K' p Q"
  by (auto simp: under_def)

text \<open>Reading one of a workspace's servers, and writing to one.\<close>

definition reading :: "uuid \<Rightarrow> uuid \<Rightarrow> uuid \<Rightarrow> string \<Rightarrow> 'r platform \<Rightarrow> bool" where
  "reading i u s app p \<longleftrightarrow> belongs i u p \<and> holds_server i s app p"

definition writing :: "uuid \<Rightarrow> uuid \<Rightarrow> uuid \<Rightarrow> string \<Rightarrow> 'r platform \<Rightarrow> bool" where
  "writing i u s app p \<longleftrightarrow> writes i u p \<and> holds_server i s app p"

lemma stable_reading: "stable (tenant_step w) (reading i u s app)" "stable (tenant_step w) (writing i u s app)"
  unfolding reading_def writing_def by (intro stable_rules)+

lemma writing_holds: "writing i u s app p \<Longrightarrow> holds_server i s app p"
  by (simp add: writing_def)

lemma under_relaunch:
  assumes "w \<noteq> Some i" and "\<And>p. writing i u s app p \<Longrightarrow> G p"
  shows "under (tenant_step w) (writing i u s app) (run_or (select (\<lambda>p. server_find_by_id s (pf_db p))) e1 (\<lambda>found.
    require found e2 (\<lambda>server.
    run_or (on_pf (deploy_create fresh s sha (Some u))) e3 (\<lambda>deployment.
    run_or (on_pf (change (server_update_status s Server_Building None))) e4 (\<lambda>_.
    run_or (change (push_build_job ((BuildJob_from_server server (dep_id deployment) sha None)\<lparr>bj_server_id := s\<rparr>))) e5 (\<lambda>_.
    answer (deployment_response deployment))))))) (ok_then G)"
proof (rule under_find_server [OF stable_reading(2)])
  fix server :: McpServer
  let ?K = "\<lambda>p. writing i u s app p \<and> holds_server (srv_workspace_id server) s (srv_fly_app_name server) p"
  let ?in = "\<lambda>d p. ?K p \<and> (dep_id d, s, sha) \<in> deps p"
  have K: "stable (tenant_step w) ?K" by (intro stable_rules stable_reading)
  have st: "stable (tenant_step w) (?in d)" for d by (intro stable_conj K stable_tenant)
  show "under (tenant_step w) ?K (run_or (on_pf (deploy_create fresh s sha (Some u))) e3 (\<lambda>deployment.
    run_or (on_pf (change (server_update_status s Server_Building None))) e4 (\<lambda>_.
    run_or (change (push_build_job ((BuildJob_from_server server (dep_id deployment) sha None)\<lparr>bj_server_id := s\<rparr>))) e5 (\<lambda>_.
    answer (deployment_response deployment))))) (ok_then G)"
  proof (rule tenant.under_run_or [OF K, where K' = ?in])
    show "tenant_step w p p' \<and> ?in d p'" if "?K p" "on_pf (deploy_create fresh s sha (Some u)) p = Some (d, p')" for p d p'
    proof -
      have "dep_commit_sha d = sha" using that(2) by (auto simp: on_pf_Some deploy_create_def Let_def split: if_splits)
      then show ?thesis
        using step_deploy_create [OF that(2) writing_holds assms(1)] K that(1) by (auto simp: stable_def)
    qed
  next
    fix d
    show "under (tenant_step w) (?in d) (run_or (on_pf (change (server_update_status s Server_Building None))) e4 (\<lambda>_.
      run_or (change (push_build_job ((BuildJob_from_server server (dep_id d) sha None)\<lparr>bj_server_id := s\<rparr>))) e5 (\<lambda>_.
      answer (deployment_response d)))) (ok_then G)"
      by (intro tenant.under_step tenant.under_answer st)
        (use assms in \<open>auto simp: on_pf_Some BuildJob_from_server_def intro: step_status step_job(1) writing_holds\<close>)
  qed
qed

lemma under_path:
  assumes "\<And>server. under (tenant_step w) (reading i u s (srv_fly_app_name server)) (k server) (ok_then G)"
  shows "under (tenant_step w) (guarded w i u) (of_member e1 e2 i u (\<lambda>_. of_server e3 e4 i s k)) (ok_then G)"
  by (intro under_reader under_of_server stable_rules under_mono [OF assms]) (simp add: reading_def)

lemma under_write_path:
  assumes "\<And>server. w \<noteq> Some i \<Longrightarrow> srv_id server = s \<Longrightarrow>
      under (tenant_step w) (writing i u s (srv_fly_app_name server)) (k server) (ok_then G)"
  shows "under (tenant_step w) (guarded w i u) (of_writer e1 e2 e3 i u (of_server e4 e5 i s k)) (ok_then G)"
    and "under (tenant_step w) (guarded w i u) (of_manager e1 e2 e3 i u (of_server e4 e5 i s k)) (ok_then G)"
  by (rule under_writer under_manager; (intro under_of_server stable_rules under_mono [OF assms])?; simp add: writing_def)+

lemma reading_handlers:
  "under (tenant_step w) (\<lambda>_. True) (servers_list_all E u) (ok_then (\<lambda>_. True))"
  "under (tenant_step w) (guarded w i u) (servers_list E u i pg) (ok_then (belongs i u))"
  "under (tenant_step w) (guarded w i u) (deployments_usage E u i) (ok_then (belongs i u))"
  unfolding servers_list_all_def all_servers_def servers_list_def workspace_servers_def server_member_def deployments_usage_def
  by (intro under_reader under_of_workspace under_this_month tenant.under_select_or tenant.under_answer stable_rules stable_const; simp)+

lemma reading_server_handlers:
  fixes w :: "uuid option"
  defines "sees i u s \<equiv> \<lambda>p. \<exists>app. reading i u s app p"
  shows "under (tenant_step w) (guarded w i u) (servers_get E u i s) (ok_then (sees i u s))"
    and "under (tenant_step w) (guarded w i u) (servers_metrics E u i s) (ok_then (sees i u s))"
    and "under (tenant_step w) (guarded w i u) (deployments_list E u i s pg) (ok_then (sees i u s))"
    and "under (tenant_step w) (guarded w i u) (deployments_get E u i s j) (ok_then (sees i u s))"
    and "under (tenant_step w) (guarded w i u) (deployments_get_logs E u i s j) (ok_then (sees i u s))"
    and "under (tenant_step w) (guarded w i u) (secrets_list E u i s) (ok_then (sees i u s))"
  unfolding servers_get_def server_member_def own_server_def servers_metrics_def deployments_list_def path_server_def deployments_get_def
    deployments_get_logs_def path_deployment_def secrets_list_def sees_def
  by (intro under_path tenant.under_select_or under_intros stable_reading;
      auto split: sum.splits intro!: tenant.under_refuse tenant.under_answer stable_reading)+

lemma writing_server_handlers:
  fixes w :: "uuid option"
  defines "changes i u s \<equiv> \<lambda>p. \<exists>app. writing i u s app p"
  shows "under (tenant_step w) (guarded w i u) (servers_delete E u i s) (ok_then (changes i u s))"
    and "under (tenant_step w) (guarded w i u) (servers_stop E u i s) (ok_then (changes i u s))"
    and "under (tenant_step w) (guarded w i u) (secrets_set E u i s b) (ok_then (changes i u s))"
    and "under (tenant_step w) (guarded w i u) (secrets_delete E u i s key) (ok_then (changes i u s))"
proof -
  show "under (tenant_step w) (guarded w i u) (servers_delete E u i s) (ok_then (changes i u s))"
    unfolding servers_delete_def server_admin_def own_server_def Let_def
    by (intro under_write_path(2) tenant.under_step tenant.under_attempt stable_reading;
      auto simp: on_pf_Some changes_def step_unseen split: option.splits
        intro!: step_status step_job tenant.under_attempt tenant.under_answer stable_reading intro: writing_holds)
  show "under (tenant_step w) (guarded w i u) (servers_stop E u i s) (ok_then (changes i u s))"
    unfolding servers_stop_def stop_writer_def own_server_def
    by (intro under_write_path(1) tenant.under_select_or tenant.under_step under_intros stable_reading;
      auto simp: on_pf_Some changes_def intro!: step_status intro: writing_holds)
  show "under (tenant_step w) (guarded w i u) (secrets_delete E u i s key) (ok_then (changes i u s))"
    unfolding secrets_delete_def valid_key_def secret_writer_def path_server_def
    by (auto simp: tenant.under_refuse on_pf_Some changes_def split: sum.splits
        intro!: under_write_path(1) tenant.under_step under_intros step_delete_by_key stable_reading intro: writing_holds)
  show "under (tenant_step w) (guarded w i u) (secrets_set E u i s b) (ok_then (changes i u s))"
  proof (cases "api_validate_secret_key (ssq_key b)")
    case (Inr x)
    then have "SECRET_KEY_REGEX (ssq_key b)" by (auto simp: api_validate_secret_key_def split: if_splits)
    then show ?thesis
      unfolding secrets_set_def valid_key_def secret_writer_def path_server_def
      using Inr by (auto simp: tenant.under_refuse changes_def split: sum.splits
        intro!: under_write_path(1) tenant.under_step under_intros stable_reading intro: step_secret_upsert writing_holds)
  qed (simp add: secrets_set_def valid_key_def tenant.under_refuse)
qed

text \<open>What the checks of a request's body let through.\<close>

lemma checked_port: "port_check port = [] \<Longrightarrow> map_option sint port = Some n \<Longrightarrow> 1 \<le> n \<and> n \<le> 65535"
  by (auto simp: port_check_def split: if_splits option.splits)

lemma checked_memory_choice:
  assumes "check_memory_choice memory limits plan = Inr x" and "map_option sint memory = Some m"
  shows "m \<in> {256, 512, 1024, 2048}"
proof -
  obtain v where v: "memory = Some v" "m = sint v" using assms(2) by auto
  then have "v \<in> {256, 512, 1024, 2048}"
    using assms(1) by (auto simp: check_memory_choice_def validate_memory_choice_def MEMORY_LADDER_MB_def
        split: sum.splits MemoryChoiceError.splits if_splits)
  then show ?thesis using v by auto
qed

lemma failed_checks_Nil: "failed_checks checks = [] \<Longrightarrow> (field, codes) \<in> set checks \<Longrightarrow> codes = []"
  by (auto simp: failed_checks_def filter_empty_conv)

lemma validated: "validate_create b = [] \<Longrightarrow> port_check (cq_port b) = []" "validate_update c = [] \<Longrightarrow> port_check (uq_port c) = []"
  unfolding validate_create_def validate_update_def
  by (rule failed_checks_Nil [where field = "''port''"], assumption, simp)+

lemma checked:
  assumes "port_check port = []" and "memory = None \<or> check_memory_choice memory limits plan = Inr x"
  shows "checked_numbers (map_option sint memory) (map_option sint port)"
  unfolding checked_numbers_def
proof (intro conjI allI impI)
  fix m assume "map_option sint memory = Some m"
  then show "m \<in> {256, 512, 1024, 2048}" using checked_memory_choice assms(2) by fastforce
qed (use checked_port [OF assms(1)] in auto)

lemma numbers_checked:
  "validate_create b = [] \<Longrightarrow> check_memory_choice (cq_memory_mb b) limits plan = Inr x \<Longrightarrow>
     checked_numbers (crs_memory_mb (new_server i b rt)) (crs_port (new_server i b rt))"
  "validate_update c = [] \<Longrightarrow> uq_memory_mb c = None \<or> check_memory_choice (uq_memory_mb c) limits plan = Inr x \<Longrightarrow>
     checked_numbers (upd_memory_mb (server_changes c)) (upd_port (server_changes c))"
  using checked [OF validated(1)] checked [OF validated(2)] by (auto simp add: new_server_def server_changes_def)

lemma under_deploy:
  assumes "stable (tenant_step w) K" and "\<And>p. K p \<Longrightarrow> guarded w i u p"
    and "\<And>(server :: McpServer) p. K p \<Longrightarrow> writing i u s (srv_fly_app_name server) p \<Longrightarrow> G p"
  shows "under (tenant_step w) K (servers_deploy E u i s) (ok_then G)"
proof -
  have "under (tenant_step w) (\<lambda>p. (K p \<and> writes i u p) \<and> holds_server i s (srv_fly_app_name server) p)
      (case str_split (CHR ''/'') (srv_github_repo server) of
         [owner, repo] \<Rightarrow>
           start_deployment E (sv_db_error E) (sv_db_error E) (app_internal (''Failed to enqueue build job: '' @ sv_queue_error E))
             u i server (latest_commit_sha E server owner repo) (\<lambda>deployment. answer (deployment_response deployment))
       | _ \<Rightarrow> refuse (app_bad_request ''INVALID_GITHUB_REPO'' ''Invalid github_repo format'')) (ok_then G)"
    if "w \<noteq> Some i" "srv_id server = s" for server :: McpServer
  proof (cases "\<exists>owner repo. str_split (CHR ''/'') (srv_github_repo server) = [owner, repo]")
    case True
    then obtain owner repo where "str_split (CHR ''/'') (srv_github_repo server) = [owner, repo]" by blast
    then show ?thesis
      by simp (intro under_start_deployment tenant.under_answer stable_rules assms(1) that(1); use that assms(3) [of _ server] in \<open>auto simp: writing_def\<close>)
  qed (auto split: list.splits simp: tenant.under_refuse)
  then show ?thesis
    unfolding servers_deploy_def server_writer_def own_server_def
    by (intro under_writer under_of_workspace under_this_month tenant.under_ensure under_of_server stable_rules assms(1))
      (use assms(2) in auto)
qed

lemma deploying_handlers:
  fixes w :: "uuid option"
  defines "changes i u s \<equiv> \<lambda>p. \<exists>app. writing i u s app p"
  shows "under (tenant_step w) (guarded w i u) (servers_deploy E u i s) (ok_then (changes i u s))"
    and "under (tenant_step w) (guarded w i u) (servers_restart E u i s) (ok_then (changes i u s))"
    and "under (tenant_step w) (guarded w i u) (rollback E u i s j) (ok_then (changes i u s))"
proof -
  show "under (tenant_step w) (guarded w i u) (servers_deploy E u i s) (ok_then (changes i u s))"
    by (rule under_deploy) (auto simp: changes_def)
  show "under (tenant_step w) (guarded w i u) (servers_restart E u i s) (ok_then (changes i u s))"
    unfolding servers_restart_def stop_writer_def own_server_def
    by (intro under_write_path(1) under_deploy stable_reading) (auto simp: changes_def)
  show "under (tenant_step w) (guarded w i u) (rollback E u i s j) (ok_then (changes i u s))"
    unfolding rollback_def secret_writer_def path_server_def path_deployment_def
    by (intro under_write_path(1) tenant.under_select_or tenant.under_require tenant.under_ensure stable_reading
        under_relaunch) (auto simp: changes_def)
qed

lemma update_handler:
  "under (tenant_step w) (guarded w i u) (servers_update E u i s b) (ok_then (\<lambda>p. \<exists>app. writing i u s app p))"
  unfolding servers_update_def server_writer_def own_server_def Let_def
proof (intro under_writer under_of_server tenant.under_ensure stable_rules)
  fix server :: McpServer
  assume w: "w \<noteq> Some i" and v: "validate_update b = []"
  let ?K = "writing i u s (srv_fly_app_name server)"
  have update: "under (tenant_step w) ?K (run_or (on_pf (server_update s (server_changes b))) (sv_db_error E) (\<lambda>server.
      answer (server_response server))) (ok_then (\<lambda>p. \<exists>app. writing i u s app p))"
    if "uq_memory_mb b = None \<or> check_memory_choice (uq_memory_mb b) limits plan = Inr x" for limits plan x
    by (intro tenant.under_step tenant.under_answer stable_reading)
      (use w numbers_checked(2) [OF v that] in \<open>auto intro: step_server_update writing_holds\<close>)
  have "under (tenant_step w) ?K (checked_memory E i (uq_memory_mb b)
      (run_or (on_pf (server_update s (server_changes b))) (sv_db_error E) (\<lambda>server. answer (server_response server))))
      (ok_then (\<lambda>p. \<exists>app. writing i u s app p))"
    unfolding checked_memory_def
    by (cases "uq_memory_mb b = None")
      (auto simp: tenant.under_refuse split: sum.splits intro!: under_of_workspace stable_reading update)
  then show "under (tenant_step w) (\<lambda>p. (guarded w i u p \<and> writes i u p) \<and> holds_server i s (srv_fly_app_name server) p)
      (checked_memory E i (uq_memory_mb b)
        (run_or (on_pf (server_update s (server_changes b))) (sv_db_error E) (\<lambda>server. answer (server_response server))))
      (ok_then (\<lambda>p. \<exists>app. writing i u s app p))"
    by (rule under_mono) (simp add: writing_def)
qed simp

lemma under_insert_server:
  assumes K: "stable (tenant_step w) K" and w: "w \<noteq> Some i" and v: "validate_create b = []"
    and k: "\<And>owner repo server. under (tenant_step w) (\<lambda>p. K p \<and> holds_server i (srv_id server) (srv_fly_app_name server) p)
      (k owner repo server) (ok_then G)"
  shows "under (tenant_step w) K (insert_server E i b rt ws k) (ok_then G)"
proof (cases "check_memory_choice (cq_memory_mb b) (Plan_limits (Plan_of_str (ws_plan ws))) (ws_plan ws)")
  case (Inr x)
  let ?new = "new_server i b rt"
  have create: "under (tenant_step w) K (run_or (on_pf (server_create (sv_simple E) (sv_server_id E) ?new)) e (k owner repo)) (ok_then G)"
    for e owner repo
  proof (rule tenant.under_run_or [OF K, where K' = "\<lambda>server p. K p \<and> holds_server i (srv_id server) (srv_fly_app_name server) p"])
    show "tenant_step w p p' \<and> K p' \<and> holds_server i (srv_id server) (srv_fly_app_name server) p'"
      if "K p" "on_pf (server_create (sv_simple E) (sv_server_id E) ?new) p = Some (server, p')" for p server p'
      using step_server_create [OF that(2) _ numbers_checked(1) [OF v Inr]] K w that(1)
      by (auto simp: stable_def new_server_def)
  qed (rule k)
  have named: "under (tenant_step w) K (case str_split (CHR ''/'') (cq_github_repo b) of
      [owner, repo] \<Rightarrow>
        (if owner = [] \<or> repo = [] then refuse (invalid_github_repo (cq_github_repo b))
         else (case repository_verdict E b rt owner repo of
                 Some e \<Rightarrow> refuse e
               | None \<Rightarrow> run_or (on_pf (server_create (sv_simple E) (sv_server_id E) ?new)) (create_failed E (cq_slug b)) (k owner repo)))
    | _ \<Rightarrow> refuse (invalid_github_repo (cq_github_repo b))) (ok_then G)"
    using create by (auto simp: tenant.under_refuse split: list.splits option.splits)
  show ?thesis
    unfolding insert_server_def Let_def Inr
    by (simp, intro tenant.under_select_or tenant.under_ensure K) (auto simp: tenant.under_refuse named split: option.splits)
qed (simp add: insert_server_def Let_def tenant.under_refuse)

lemma create_handler: "under (tenant_step w) (guarded w i u) (servers_create E u i b) (ok_then (writes i u))"
  unfolding servers_create_def server_writer_def launch_server_def Let_def
  by (intro tenant.under_ensure under_writer under_of_workspace under_insert_server tenant.under_step under_provision_env
      under_start_deployment tenant.under_answer stable_rules)
    (auto intro: step_region_create)

lemma map_sum_ok: "(\<lambda>r. ok_then G (map_sum f g r)) = ok_then G"
  by (simp add: fun_eq_iff)

lemma under_served:
  "under R K p (ok_then G) \<Longrightarrow> under R K (app_served p) (ok_then G)"
  "under R K q (ok_then G) \<Longrightarrow> under R K (http_served q) (ok_then G)"
  by (simp_all add: app_served_def http_served_def under_def rg_rules map_sum_ok)

lemma entitled_eq:
  "target q = None \<Longrightarrow> entitled q = (\<lambda>_. True)"
  "target q = Some (u, i, None, False) \<Longrightarrow> entitled q = belongs i u"
  "target q = Some (u, i, None, True) \<Longrightarrow> entitled q = writes i u"
  "target q = Some (u, i, Some s, False) \<Longrightarrow> entitled q = (\<lambda>p. \<exists>app. reading i u s app p)"
  "target q = Some (u, i, Some s, True) \<Longrightarrow> entitled q = (\<lambda>p. \<exists>app. writing i u s app p)"
  by (auto simp: entitled_def fun_eq_iff reading_def writing_def)

lemma server_handle_under:
  "under (tenant_step w) (\<lambda>p. \<forall>i. w = Some i \<longrightarrow> \<not> may_write q i p) (server_handle q) (ok_then (entitled q))"
proof (cases "target q")
  case None
  then have "\<exists>E u. q = List_All E u" by (cases q) auto
  then show ?thesis using None under_mono [OF under_served(1) [OF reading_handlers(1)]] by (auto simp: entitled_eq)
next
  case (Some t)
  then obtain u i server writes where t: "target q = Some (u, i, server, writes)" by (cases t) auto
  have "under (tenant_step w) (guarded w i u) (server_handle q) (ok_then (entitled q))"
  proof (cases server; cases writes)
    assume "server = None" "\<not> writes"
    then show ?thesis using t entitled_eq(2) [of q u i] by (cases q) (auto intro: under_served reading_handlers)
  next
    assume "server = None" "writes"
    then show ?thesis using t entitled_eq(3) [of q u i] by (cases q) (auto intro: under_served create_handler)
  next
    fix s assume "server = Some s" "\<not> writes"
    then show ?thesis using t entitled_eq(4) [of q u i s] by (cases q) (auto intro: under_served reading_server_handlers)
  next
    fix s assume "server = Some s" "writes"
    then show ?thesis using t entitled_eq(5) [of q u i s]
      by (cases q) (auto intro: under_served writing_server_handlers deploying_handlers update_handler)
  qed
  then show ?thesis by (rule under_mono) (simp add: may_write_def t)
qed


section \<open>Properties of every run\<close>

lemma server_runs:
  assumes "serves server_handle p0 (p, ts)" and "\<And>q i. q \<in> set (requests ts) \<Longrightarrow> w = Some i \<Longrightarrow> \<not> may_write q i p0"
  shows "tenant_step w p0 p" and "answered ts q (Inr ()) \<Longrightarrow> entitled q p"
proof -
  have may: "may_write q i p' = may_write q i p0" if "tenant_step w p0 p'" for q i p'
    using that by (auto simp: may_write_def tenant_step_def writes_def split: option.splits)
  have r: "rg (tenant_step w) (server_handle q) (ok_then (entitled q)) p'"
    if "q \<in> set (requests ts)" "tenant_step w p0 p'" for q p'
    using server_handle_under [of w q] assms(2) [OF that(1)] may [OF that(2)] by (simp add: under_def)
  show "tenant_step w p0 p" by (rule tenant.under_serves(1) [OF assms(1) r])
  show "answered ts q (Inr ()) \<Longrightarrow> entitled q p" using tenant.under_serves(2) [OF assms(1) r] by fastforce
qed

text \<open>
  C1: Tenants do not reach each other's servers. Whatever server, deployment and secret requests were made, however their statements
  interleaved and whichever of them failed: if no request came from a user who may write to a workspace, its servers with their
  deployments, regions, secrets and queued jobs are what they were; and every request that was answered came from a member of the
  workspace of its path (from one who may write, if it writes), about a server of that workspace.
\<close>

theorem tenants_isolated:
  assumes "serves server_handle p0 (p, ts)" and "one_row_each p0" and "\<And>q. q \<in> set (requests ts) \<Longrightarrow> \<not> may_write q w p0"
  shows "about w p = about w p0 \<and> (\<forall>q. answered ts q (Inr ()) \<longrightarrow> entitled q p)"
proof -
  note runs = server_runs [OF assms(1), of "Some w"]
  have "tenant_step (Some w) p0 p" by (rule runs(1)) (use assms(3) in auto)
  then have "about w p = about w p0" using assms(2) by (simp add: tenant_step_def)
  then show ?thesis using runs(2) assms(3) by blast
qed

text \<open>
  C11: The stored rows keep their types. From well-typed rows every run of server requests leads to well-typed rows: the texts of
  runtime, visibility, access mode, transport and status are ones that reading them gives back, slugs and repositories have the
  required form, memory sizes are of the ladder, ports are ports, deployments are numbered from one and the keys of secrets match
  the expression they are checked with.
\<close>

theorem rows_typed:
  assumes "serves server_handle p0 (p, ts)" and "one_row_each p0" and "well_typed p0"
  shows "well_typed p \<and> one_row_each p"
  using server_runs(1) [OF assms(1), of None] assms(2,3) by (simp add: tenant_step_def)

text \<open>
  C12: Every queued job is about stored rows. These are runs of the server, deployment and secret requests, the ones that queue jobs,
  from a state in which every queued job is about stored rows, as it is when the queues are empty. However they interleave and
  whichever of their statements fail, a queued build names a stored deployment with its server and commit and that server's own
  app, and a queued teardown names the app of a stored server; and no stored server has the id of a queued job without having its
  app, so that no job reaches another server's app. Rows also go in two ways that are not requests of this kind: with their whole
  workspace, and by the builder's own removal at the end of a teardown. A job queued before such a removal finds no row, and only
  the last part, which is about every stored row on its own, is left for the rows that remain.
\<close>

theorem jobs_backed:
  assumes "serves server_handle p0 (p, ts)" and "one_row_each p0" and "backed p0"
  shows "(\<forall>j \<in> set (pf_builds p).
      (\<exists>r \<in> set (sd_deployments (pf_db p)). dep_id r = bj_deployment_id j \<and> dep_server_id r = bj_server_id j \<and> dep_commit_sha r = bj_commit_sha j) \<and>
      (\<exists>s \<in> set (sd_servers (pf_db p)). srv_id s = bj_server_id j \<and> srv_fly_app_name s = bj_app_name j)) \<and>
    (\<forall>j \<in> set (pf_destroys p). \<exists>s \<in> set (sd_servers (pf_db p)). srv_id s = xj_server_id j \<and> srv_fly_app_name s = xj_app_name j) \<and>
    (\<forall>s \<in> set (sd_servers (pf_db p)).
      (\<forall>j \<in> set (pf_builds p). bj_server_id j = srv_id s \<longrightarrow> bj_app_name j = srv_fly_app_name s) \<and>
      (\<forall>j \<in> set (pf_destroys p). xj_server_id j = srv_id s \<longrightarrow> xj_app_name j = srv_fly_app_name s))"
proof -
  have b: "backed p" and one: "one_row_each p" using server_runs(1) [OF assms(1), of None] assms(2,3) by (simp_all add: tenant_step_def)
  have named: "\<exists>s \<in> set (sd_servers (pf_db p)). srv_id s = i \<and> srv_fly_app_name s = app"
    and own: "\<forall>s \<in> set (sd_servers (pf_db p)). i = srv_id s \<longrightarrow> app = srv_fly_app_name s"
    if "(i, w, app) \<in> idents p" for i w app
    using that one by (auto simp: idents_def one_row_each_def distinct_map dest: inj_onD)
  have row: "\<exists>r \<in> set (sd_deployments (pf_db p)). dep_id r = i \<and> dep_server_id r = s \<and> dep_commit_sha r = sha"
    if "(i, s, sha) \<in> deps p" for i s sha
    using that by (auto simp: deps_def)
  have builds: "(bj_deployment_id j, bj_server_id j, bj_commit_sha j) \<in> deps p" "\<exists>w. (bj_server_id j, w, bj_app_name j) \<in> idents p"
    if "j \<in> set (pf_builds p)" for j
    using b that by (simp_all add: backed_def backed_build_def)
  have teardowns: "\<exists>w. (xj_server_id j, w, xj_app_name j) \<in> idents p" if "j \<in> set (pf_destroys p)" for j
    using b that by (simp add: backed_def backed_destroy_def)
  show ?thesis
  proof (intro conjI ballI impI)
    fix j assume j: "j \<in> set (pf_builds p)"
    show "\<exists>r \<in> set (sd_deployments (pf_db p)). dep_id r = bj_deployment_id j \<and> dep_server_id r = bj_server_id j \<and> dep_commit_sha r = bj_commit_sha j"
      by (rule row [OF builds(1) [OF j]])
    show "\<exists>s \<in> set (sd_servers (pf_db p)). srv_id s = bj_server_id j \<and> srv_fly_app_name s = bj_app_name j"
      using builds(2) [OF j] named by blast
    show "bj_app_name j = srv_fly_app_name s" if "s \<in> set (sd_servers (pf_db p))" "bj_server_id j = srv_id s" for s
      using builds(2) [OF j] own that by blast
  next
    fix j assume j: "j \<in> set (pf_destroys p)"
    show "\<exists>s \<in> set (sd_servers (pf_db p)). srv_id s = xj_server_id j \<and> srv_fly_app_name s = xj_app_name j"
      using teardowns [OF j] named by blast
    show "xj_app_name j = srv_fly_app_name s" if "s \<in> set (sd_servers (pf_db p))" "xj_server_id j = srv_id s" for s
      using teardowns [OF j] own that by blast
  qed
qed


section \<open>A sample platform\<close>

text \<open>Two workspaces with an owner and a server each; the cipher writes its plaintext.\<close>

definition plain_crypto :: auth_crypto where
  "plain_crypto = \<lparr>
     cx_encode = (\<lambda>_. None), cx_decode = (\<lambda>_ _. None), cx_sha256_hex = id, cx_hash_password = (\<lambda>_ _. None), cx_verify = (\<lambda>_ _. None),
     cx_seal = (\<lambda>k n p. Some p), cx_open = (\<lambda>k n c. Some c), cx_unhex = Some, cx_utf8 = (\<lambda>_. True),
     cx_show_uuid = ref_uuid, cx_parse_uuid = (\<lambda>_. None) \<rparr>"

definition site_env :: "ref_store server_env" where
  "site_env = \<lparr>
     sv_api = sample_api, sv_server_id = 30, sv_region_id = 31, sv_deployment_id = 32, sv_webhook_id = 33, sv_secret_id = (\<lambda>_. 34),
     sv_simple = (\<lambda>_. ''x''), sv_year = 2026, sv_month = 1, sv_month_start = 0, sv_crypto = plain_crypto, sv_key = replicate 32 (CHR ''k''),
     sv_nonce = (\<lambda>_. Some (replicate 12 (CHR ''n''))), sv_github = None, sv_web = (\<lambda>_. None), sv_codec = ref_codec,
     sv_case = ascii_casing, sv_insert_error = [], sv_queue_error = [], sv_order = id, sv_destroy = None, sv_metrics = None \<rparr>"

definition site_request :: CreateServerRequest where
  "site_request = \<lparr>
     cq_name = ''s'', cq_slug = ''s'', cq_description = None, cq_github_repo = ''o/r'', cq_github_branch = None,
     cq_github_installation_id = None, cq_runtime = None, cq_visibility = None, cq_access_mode = None, cq_transport = None,
     cq_region = None, cq_root_directory = None, cq_mcp_path = None, cq_entry_command = None, cq_build_command = None,
     cq_auth_enabled = None, cq_memory_mb = Some 256, cq_port = Some 3000, cq_env_vars = Some [\<lparr>ssq_key = ''A'', ssq_value = ''v''\<rparr>] \<rparr>"

definition site_server :: "uuid \<Rightarrow> uuid \<Rightarrow> McpServer" where
  "site_server s i = server_row (\<lambda>_. ''y'') s 0 (new_server i (site_request\<lparr>cq_slug := ''t''\<rparr>) Runtime_Node)"

definition site :: "ref_store platform" where
  "site = \<lparr>
     pf_db = \<lparr>sd_accounts = \<lparr>wd_workspaces = [workspace_row 5 0 ''n'' ''s'' 9, workspace_row 7 0 ''m'' ''t'' 8],
         wd_members = [\<lparr>wm_workspace_id = 5, wm_user_id = 9, wm_role = ''owner'', wm_created_at = 0\<rparr>,
                       \<lparr>wm_workspace_id = 7, wm_user_id = 8, wm_role = ''owner'', wm_created_at = 0\<rparr>]\<rparr>,
       sd_users = \<lparr>ud_users = [], ud_tokens = []\<rparr>, sd_servers = [site_server 2 5, site_server 3 7], sd_deployments = [], sd_regions = [],
       sd_secrets = [], sd_hints = [], sd_settings = [], sd_preferences = [], sd_now = 0\<rparr>,
     pf_redis = (True, \<lambda>_. None), pf_webhooks = [], pf_builds = [], pf_destroys = [], pf_destroyed = [] \<rparr>"

definition site_deploy :: "ref_store server_request" where
  "site_deploy = Deploy_Server site_env 9 5 2"

text \<open>Redis is down.\<close>

definition site_fates :: "fate list" where
  "site_fates = [Runs, Runs, Fails, Runs, Fails, Runs, Runs, Fails]"

definition site_after :: "ref_store platform" where
  "site_after = snd (run (server_handle site_deploy) site_fates site)"

lemmas site_handlers = app_served_def servers_deploy_def server_writer_def of_writer_def of_member_def of_workspace_def
  deployments_this_month_def own_server_def of_server_def start_deployment_def get_member_def ws_find_by_id_def server_find_by_id_def
  server_by_def WorkspaceMember_role_def WorkspaceRole_of_str_def on_pf_def deploy_create_def Let_def sql_insert_def
  count_by_workspace_since_def next_version_def Plan_of_str_def PlanLimits_default_def

lemmas site_rows = site_def site_server_def server_row_def new_server_def site_request_def workspace_row_def

lemma site_deployed: "fst (run (server_handle site_deploy) site_fates site) = Inr ()"
  by (simp add: site_deploy_def site_fates_def site_handlers site_rows)

lemma site_serves: "serves server_handle site (site_after, [(site_deploy, Return (Inr ()))])"
proof -
  have "run (server_handle site_deploy) site_fates site = (Inr (), site_after)"
    by (simp add: site_after_def prod_eq_iff site_deployed)
  from serves_run [where handle = server_handle and q = site_deploy and ts = "[]", OF serves_start this] show ?thesis by simp
qed

lemma site_invariants: "one_row_each site" "well_typed site" "backed site"
proof -
  show "one_row_each site" by (simp add: one_row_each_def site_rows)
  show "backed site" by (simp add: backed_def site_def)
  have "typed_server (site_server s i)" for s i
    by (simp add: typed_server_def site_server_def server_row_def new_server_def site_request_def McpServer_runtime_def
        McpServer_visibility_def McpServer_access_mode_def McpServer_transport_def McpServer_status_def) code_simp
  then show "well_typed site" by (simp add: well_typed_def site_def)
qed

lemma site_built: "map bj_app_name (pf_builds site_after) = [''mcp-y'']"
  unfolding site_after_def site_deploy_def
  by (simp add: site_fates_def site_handlers site_rows push_build_job_def BuildJob_from_server_def new_fly_app_name_def)

lemma tenants_isolated_witness:
  "about 7 site_after = about 7 site \<and> map bj_app_name (pf_builds site_after) = [''mcp-y''] \<and> entitled site_deploy site_after"
  using tenants_isolated [OF site_serves site_invariants(1), of 7] site_built
  by (auto simp: requests_def may_write_def site_deploy_def answered_def)

lemma rows_typed_witness: "well_typed site_after"
  using rows_typed [OF site_serves site_invariants(1,2)] by simp

lemma jobs_backed_witness:
  "\<exists>j s. pf_builds site_after = [j] \<and> bj_app_name j = ''mcp-y'' \<and> s \<in> set (sd_servers (pf_db site_after)) \<and>
     srv_id s = bj_server_id j \<and> srv_fly_app_name s = bj_app_name j"
proof -
  obtain j where j: "pf_builds site_after = [j]" "bj_app_name j = ''mcp-y''" using site_built by auto
  have "j \<in> set (pf_builds site_after)" by (simp add: j(1))
  from bspec [OF conjunct1 [OF jobs_backed [OF site_serves site_invariants(1,3)]] this]
  obtain s where "s \<in> set (sd_servers (pf_db site_after))" "srv_id s = bj_server_id j" "srv_fly_app_name s = bj_app_name j"
    by (elim conjE bexE) (rule that; assumption)
  with j show ?thesis by (intro exI [of _ j] exI [of _ s] conjI)
qed

end
