(* ===== verification/Server_Correct.thy ===== *)
theory Server_Correct
  imports Server_Service Build_Teardown Workspace_Service
begin

text \<open>
  What single server requests achieve, and how the API and the builder meet: a secret that was set is the one the next build is
  given, a deleted server goes although statements failed, and a plan's limits hold for a request that runs alone.
\<close>

section \<open>Secrets from the API to the build\<close>

lemma filter_at_key: "filter (\<lambda>r. sec_key r = key) (filter (\<lambda>r. sec_server_id r = s) t) = filter (at_key s key) t"
  by (induction t) (auto simp: at_key_def)

lemma one_at_key:
  assumes "distinct (map (\<lambda>r. (sec_server_id r, sec_key r)) t)" and "r \<in> set t" and "at_key s key r"
  shows "filter (at_key s key) t = [r]"
proof -
  have "filter (at_key s key) t = filter (\<lambda>x. (sec_server_id x, sec_key x) = (sec_server_id r, sec_key r)) t"
    using assms(3) by (intro filter_cong) (auto simp: at_key_def)
  then show ?thesis using filter_key [OF assms(1,2)] by simp
qed

lemma upserted:
  assumes "secret_upsert fresh s key v n d = Some (r, d')"
    and "distinct (map (\<lambda>r. (sec_server_id r, sec_key r)) (sd_secrets d))"
  shows "\<exists>row. filter (at_key s key) (sd_secrets d') = [row] \<and> sec_key row = key \<and> sec_encrypted_value row = v \<and> sec_nonce row = n"
proof (cases "list_ex (at_key s key) (sd_secrets d)")
  case True
  let ?set = "\<lambda>r. r\<lparr>sec_encrypted_value := v, sec_nonce := n, sec_updated_at := sd_now d\<rparr>"
  obtain row where row: "row \<in> set (sd_secrets d)" "at_key s key row" using True by (auto simp: list_ex_iff)
  have "sd_secrets d' = sql_update (at_key s key) ?set (sd_secrets d)"
    using assms(1) True by (auto simp: secret_upsert_def Let_def secret_change_def)
  moreover have "filter (at_key s key) (sql_update (at_key s key) ?set t) = map ?set (filter (at_key s key) t)" for t
    by (induction t) (auto simp: sql_update_def at_key_def)
  ultimately show ?thesis using one_at_key [OF assms(2) row] row(2) by (simp add: at_key_def)
next
  case False
  then have "filter (at_key s key) (sd_secrets d) = []" by (auto simp: list_ex_iff filter_empty_conv)
  then show ?thesis
    using assms(1) False by (auto simp: secret_upsert_def secret_create_def secret_row_def Let_def sql_insert_Some at_key_def split: if_splits)
qed

lemma listed_secret:
  assumes "length (filter (\<lambda>k. sec_server_id k = s) (sd_secrets d)) \<le> MAX_SECRETS_PER_SERVER"
  shows "filter (\<lambda>r. sec_key r = key) (secret_list_by_server s d) = filter (at_key s key) (sd_secrets d)"
proof -
  let ?f = "\<lambda>r. map (of_char :: char \<Rightarrow> nat) (sec_key r)" and ?own = "filter (\<lambda>r. sec_server_id r = s) (sd_secrets d)"
  have key: "sec_key r = key \<longleftrightarrow> ?f r = map of_char key" for r
    using inj_mapI [OF inj_of_char, where ?'a1 = nat] by (auto dest: injD)
  have "filter (\<lambda>r. sec_key r = key) (sort_key ?f ?own) = filter (\<lambda>r. sec_key r = key) ?own"
    unfolding key by (rule sort_key_stable)
  also have "\<dots> = filter (at_key s key) (sd_secrets d)" by (rule filter_at_key)
  finally show ?thesis using assms by (simp only: secret_list_by_server_def take_all length_sort)
qed

lemma decrypted_at_key:
  "filter (\<lambda>e. se_key e = key) (decrypted_secrets W t) = decrypted_secrets W (filter (\<lambda>r. sec_key r = key) t)"
  by (induction t) (auto simp: decrypted_secrets_def List.map_filter_simps split: option.splits)

lemma set_secret_run:
  assumes "run (secrets_set E u i s b) fs p = (Inr r, p')"
  obtains c n row where "encrypt_string (sv_crypto E) (sv_key E) (sv_nonce E 0) (ssq_value b) = Inr (c, n)"
    and "secret_upsert (sv_secret_id E 0) s (ssq_key b) c n (pf_db p) = Some (row, pf_db p')"
    and "SECRET_KEY_REGEX (ssq_key b)"
  using assms unfolding secrets_set_def valid_key_def secret_writer_def of_writer_def of_member_def path_server_def of_server_def
  by (auto simp: on_pf_def api_validate_secret_key_def split: sum.splits if_splits list.splits fate.splits option.splits prod.splits)

text \<open>The builder's check of keys lets every key through that the API let through.\<close>

lemma key_accepted_by_builder: "SECRET_KEY_REGEX key \<Longrightarrow> validate_secret_key key = Inr ()"
  by (cases key) (auto simp: SECRET_KEY_REGEX_def validate_secret_key_def)

text \<open>
  C10: A secret that was set reaches the build. When setting a secret was answered, the builder, under the same key, reads exactly one
  secret of that name from the server's rows, with the value that was set, and its check of keys accepts the name. (Here the
  cipher opens what it sealed, and the server has no more secrets than one query returns.)
\<close>

theorem secret_reaches_build:
  assumes "run (secrets_set E u i s b) fs p = (Inr r, p')"
    and "\<And>n v c. cx_seal (sv_crypto E) (sv_key E) n v = Some c \<Longrightarrow> cx_open (sv_crypto E) (sv_key E) n c = Some v"
    and "\<And>n. sv_nonce E 0 = Some n \<Longrightarrow> length n = NONCE_SIZE"
    and "\<And>c n. jw_decrypt W c n = (case decrypt (sv_crypto E) (sv_key E) c n of Inr v \<Rightarrow> Some v | Inl _ \<Rightarrow> None)"
    and "from_utf8 (ssq_value b)"
    and "distinct (map (\<lambda>r. (sec_server_id r, sec_key r)) (sd_secrets (pf_db p)))"
    and "length (filter (\<lambda>k. sec_server_id k = s) (sd_secrets (pf_db p'))) \<le> MAX_SECRETS_PER_SERVER"
  shows "filter (\<lambda>e. se_key e = ssq_key b) (decrypted_secrets W (secret_list_by_server s (pf_db p'))) =
      [\<lparr>se_key = ssq_key b, se_value = ssq_value b\<rparr>] \<and> validate_secret_key (ssq_key b) = Inr ()"
proof -
  obtain c n row where sealed: "encrypt_string (sv_crypto E) (sv_key E) (sv_nonce E 0) (ssq_value b) = Inr (c, n)"
    and upsert: "secret_upsert (sv_secret_id E 0) s (ssq_key b) c n (pf_db p) = Some (row, pf_db p')"
    and key: "SECRET_KEY_REGEX (ssq_key b)"
    using set_secret_run [OF assms(1)] .
  obtain stored where stored: "filter (at_key s (ssq_key b)) (sd_secrets (pf_db p')) = [stored]" "sec_key stored = ssq_key b"
      "sec_encrypted_value stored = c" "sec_nonce stored = n"
    using upserted [OF upsert assms(6)] by blast
  have "jw_decrypt W c n = Some (ssq_value b)"
    using sealed assms(2,3) by (auto simp: encrypt_string_def encrypt_def decrypt_def assms(4) split: option.splits if_splits)
  then show ?thesis
    using key_accepted_by_builder [OF key] stored assms(5)
    by (simp add: decrypted_at_key listed_secret [OF assms(7)]) (simp add: decrypted_secrets_def List.map_filter_simps)
qed


section \<open>Limits of the plan\<close>

definition server_count :: "uuid \<Rightarrow> 'r platform \<Rightarrow> nat" where
  "server_count i p = count_by_workspace i (pf_db p)"

abbreviation same_count :: "uuid \<Rightarrow> ('r platform \<Rightarrow> 'r platform) \<Rightarrow> bool" where
  "same_count i f \<equiv> \<forall>p. server_count i (f p) = server_count i p"

lemma made_run:
  assumes "\<And>f d. S f \<Longrightarrow> g (f d) = g d"
  shows "made_of S L q \<Longrightarrow> run q fs d = (r, d') \<Longrightarrow> g d' = g d"
proof (induction q arbitrary: fs d)
  case (Statement p f k)
  have step: "g (f d) = g d" "made_of S L p" "made_of S L (k d)" using Statement.prems(1) assms by auto
  have "run p (tl fs) d = (r, d') \<or> run p (tl fs) (f d) = (r, d') \<or> run (k d) (tl fs) (f d) = (r, d')"
    using Statement.prems(2) by (auto split: list.splits fate.splits)
  then show ?case
    using Statement.IH(1) [OF step(2), of "tl fs"] Statement.IH(2) [OF _ step(3), of "tl fs" "f d"] step(1) by auto
qed auto

lemma count_of: "server_count i p = count_list (map srv_workspace_id (sd_servers (pf_db p))) i"
proof -
  have "length (filter (\<lambda>s. srv_workspace_id s = i) t) = count_list (map srv_workspace_id t) i" for t :: "McpServer list"
    by (induction t) simp_all
  then show ?thesis by (simp add: server_count_def count_by_workspace_def)
qed

definition keeps_workspaces :: "(server_db \<Rightarrow> ('x \<times> server_db) option) \<Rightarrow> bool" where
  "keeps_workspaces f \<longleftrightarrow> (\<forall>d x d'. f d = Some (x, d') \<longrightarrow> map srv_workspace_id (sd_servers d') = map srv_workspace_id (sd_servers d))"

lemma count_kept: "keeps_workspaces f \<Longrightarrow> same_count i (\<lambda>p. case on_pf f p of None \<Rightarrow> p | Some (_, p') \<Rightarrow> p')"
  by (auto simp: on_pf_def count_of keeps_workspaces_def split: option.splits)

lemma keeps_workspaces_rules:
  "keeps_workspaces (region_create fr s g m)" "keeps_workspaces (secret_upsert fr s key v n)" "keeps_workspaces (deploy_create fr s sha u)"
  "keeps_workspaces (change (server_update_status s st e))"
  by (auto simp: keeps_workspaces_def region_create_def secret_upsert_def secret_create_def secret_change_def deploy_create_def
      server_update_status_def server_change_def map_sql_update Let_def split: if_splits)

lemma count_unseen: "same_count i (on_pf_redis f)" "same_count i (push_build_job j)"
  by (simp_all add: server_count_def on_pf_redis_def push_build_job_def)

lemma made_start_deployment:
  "(\<And>d. made_of (same_count j) (\<lambda>_. True) (k d)) \<Longrightarrow>
   made_of (same_count j) (\<lambda>_. True) (start_deployment E e1 e2 e3 u i server sha k)"
  unfolding start_deployment_def
  by (intro made_run_or made_run_sql TrueI count_kept keeps_workspaces_rules) (simp_all add: count_unseen)

lemma made_provision_env:
  "made_of (same_count j) (\<lambda>_. True) k \<Longrightarrow> made_of (same_count j) (\<lambda>_. True) (provision_env E s n vars k)"
  by (induction vars arbitrary: n)
    (auto simp: made_rules split: sum.splits intro!: made_run_or count_kept keeps_workspaces_rules)

lemma made_launch: "made_of (same_count j) (\<lambda>_. True) (launch_server E u i b owner repo server)"
  unfolding launch_server_def
  by (intro made_run_or made_provision_env made_start_deployment made_answer TrueI count_kept keeps_workspaces_rules)

lemma launch_count: "run (launch_server E u i b owner repo server) fs p = (r, p') \<Longrightarrow> server_count j p' = server_count j p"
  by (rule made_run [where g = "server_count j", OF _ made_launch]) auto

lemma created_count:
  "on_pf (server_create simple fresh c) p = Some (s, p') \<Longrightarrow>
   server_count i p' = server_count i p + (if crs_workspace_id c = i then 1 else 0)"
  by (auto simp: on_pf_Some server_create_def Let_def sql_insert_Some server_count_def count_by_workspace_def server_row_def split: if_splits)

definition memory_allowed :: "32 word option \<Rightarrow> PlanLimits \<Rightarrow> bool" where
  "memory_allowed memory limits \<longleftrightarrow> (\<forall>m. memory = Some m \<longrightarrow> m \<in> set MEMORY_LADDER_MB \<and> m \<le> max_memory_mb limits)"

lemma checked_memory_allowed: "check_memory_choice memory limits plan = Inr () \<longleftrightarrow> memory_allowed memory limits"
  by (auto simp: check_memory_choice_def validate_memory_choice_def memory_allowed_def
      split: option.splits sum.splits MemoryChoiceError.splits if_splits)

lemma insert_server_run:
  assumes "run (insert_server E i b rt ws k) fs p = (r, p')"
  shows "isl r \<and> p' = p \<or> isl r \<and> (\<exists>s. on_pf (server_create (sv_simple E) (sv_server_id E) (new_server i b rt)) p = Some (s, p')) \<and>
      memory_allowed (cq_memory_mb b) (Plan_limits (Plan_of_str (ws_plan ws))) \<and>
      int (server_count i p) < uint (max_servers (Plan_limits (Plan_of_str (ws_plan ws)))) \<or>
    (\<exists>owner repo s p1 fs'. on_pf (server_create (sv_simple E) (sv_server_id E) (new_server i b rt)) p = Some (s, p1) \<and>
      run (k owner repo s) fs' p1 = (r, p') \<and> memory_allowed (cq_memory_mb b) (Plan_limits (Plan_of_str (ws_plan ws))) \<and>
      int (server_count i p) < uint (max_servers (Plan_limits (Plan_of_str (ws_plan ws)))))"
proof (cases "check_memory_choice (cq_memory_mb b) (Plan_limits (Plan_of_str (ws_plan ws))) (ws_plan ws)")
  case (Inr x)
  then have m: "memory_allowed (cq_memory_mb b) (Plan_limits (Plan_of_str (ws_plan ws)))" using checked_memory_allowed by simp
  show ?thesis
    using assms m unfolding insert_server_def Let_def Inr server_count_def [symmetric]
    by (auto split: list.splits fate.splits option.splits if_splits)
qed (use assms in \<open>auto simp: insert_server_def Let_def\<close>)

lemma create_reaches_insert:
  assumes "run (servers_create E u i b) fs p = (r, p')" and "ws_find_by_id i (sd_accounts (pf_db p)) = Some ws"
  shows "isl r \<and> p' = p \<or>
    (\<exists>rt fs'. run (insert_server E i b rt ws (launch_server E u i b)) fs' p = (r, p'))"
  using assms unfolding servers_create_def server_writer_def of_writer_def of_member_def of_workspace_def Let_def
  by (auto split: list.splits fate.splits option.splits if_splits)

text \<open>
  C20: A workspace stays within its plan. A request to create a server, made alone, is either refused and changes nothing, or the
  workspace had fewer servers than its plan allows and now has one more, and the memory that was asked for is of the ladder and
  within the plan, whichever of the statements failed.
\<close>

theorem server_limits_kept:
  assumes "run (servers_create E u i b) fs p = (r, p')" and "ws_find_by_id i (sd_accounts (pf_db p)) = Some ws"
  shows "isl r \<and> p' = p \<or>
    int (server_count i p') \<le> uint (max_servers (Plan_limits (Plan_of_str (ws_plan ws)))) \<and>
    server_count i p' = server_count i p + 1 \<and> memory_allowed (cq_memory_mb b) (Plan_limits (Plan_of_str (ws_plan ws)))"
proof -
  have one: "server_count i p1 = server_count i p + 1"
    if "on_pf (server_create (sv_simple E) (sv_server_id E) (new_server i b rt)) p = Some (s, p1)" for rt s p1
    using created_count [OF that, of i] by (simp add: new_server_def)
  show ?thesis
    using create_reaches_insert [OF assms]
  proof (elim disjE exE conjE)
    fix rt fs' assume "run (insert_server E i b rt ws (launch_server E u i b)) fs' p = (r, p')"
    from insert_server_run [OF this] show ?thesis using one launch_count [of E u i b _ _ _ _ _ r p' i] by fastforce
  qed simp
qed


section \<open>Deletion\<close>

lemma found_by_id: "one_row_each p \<Longrightarrow> server_find_by_id s (pf_db p) = Some x \<Longrightarrow> y \<in> set (sd_servers (pf_db p)) \<Longrightarrow> srv_id y = s \<Longrightarrow> y = x"
  by (auto simp: one_row_each_def server_find_by_id_def server_by_def distinct_map dest!: find_Some_in inj_onD)

lemma delete_run:
  assumes "run (servers_delete E u i s) fs p = (Inr (), p')"
  shows "\<exists>x. server_find_by_id s (pf_db p) = Some x \<and> srv_workspace_id x = i \<and> pf_db p' = mark_deleting s (pf_db p)"
  using assms unfolding servers_delete_def server_admin_def of_manager_def of_member_def own_server_def of_server_def Let_def
  by (auto simp: on_pf_def push_destroy_job_def split: list.splits fate.splits option.splits if_splits)

text \<open>A builder that starts on what the server routes stored takes rightly named teardown jobs from the queue.\<close>

lemma queued_teardowns_named:
  assumes "backed p" and "one_row_each p" and "j \<in> set (pf_destroys p)" and "bt_db b = pf_db p"
  shows "rightly_named b (Destroy_Request W j)"
proof -
  obtain i where "(xj_server_id j, i, xj_app_name j) \<in> idents p" using assms(1,3) by (auto simp: backed_def backed_destroy_def)
  then show ?thesis using assms(2,4) by (auto simp: app_is_def apps_def idents_def one_row_each_def distinct_map dest: inj_onD)
qed

lemma sweep_all:
  assumes "distinct (map srv_id (sd_servers (bt_db b)))"
    and "length (filter (stuck_in_deleting (sd_now (bt_db b)) DELETING_STUCK_TIMEOUT_MINUTES) (sd_servers (bt_db b))) \<le> 1000"
    and "\<And>n app. \<exists>u. snd (destroy_app (jw_destroy W n) (jw_case W) app) = Inr u"
    and "x \<in> set (sd_servers (bt_db b))" and "stuck_in_deleting (sd_now (bt_db b)) DELETING_STUCK_TIMEOUT_MINUTES x"
  shows "srv_id x \<notin> srv_id ` set (sd_servers (bt_db (snd (run (sweep_orphans W) [] b))))"
proof -
  let ?stuck = "filter (stuck_in_deleting (sd_now (bt_db b)) DELETING_STUCK_TIMEOUT_MINUTES) (sd_servers (bt_db b))"
  have "run (sweep_orphans W) [] b = run (sweep_servers W 0 ?stuck) [] b"
    using assms(2) by (simp add: sweep_orphans_def list_deleting_older_than_def)
  moreover have "torn_down W 0 ?stuck = ?stuck" by (rule torn_down_all [OF assms(3)])
  moreover have "srv_id x \<in> srv_id ` set ?stuck" using assms(4,5) by simp
  ultimately show ?thesis by (simp only: run_sweep_servers) auto
qed

text \<open>
  C30: A deleted server goes. When a deletion was answered, although its job may not have reached the queue, the server's row is
  stored as being deleted with its app's name; and if nothing else happened to it, the builder's sweeper removes it at its first
  tick after 15 minutes at which \<^verbatim>\<open>destroy_app\<close> takes the apps it is given for gone, provided that at most 1000 servers have
  been in teardown that long and no statement of the tick fails.
\<close>

theorem deleted_server_goes:
  assumes "run (servers_delete E u i s) fs p = (Inr (), p')" and "one_row_each p"
    and "bt_db b = (pf_db p')\<lparr>sd_now := now\<rparr>" and "sd_now (pf_db p) + 15 * 60 < now"
    and "length (filter (stuck_in_deleting now DELETING_STUCK_TIMEOUT_MINUTES) (sd_servers (pf_db p'))) \<le> 1000"
    and "\<And>n app. \<exists>u. snd (destroy_app (jw_destroy W n) (jw_case W) app) = Inr u"
  shows "(\<exists>x \<in> set (sd_servers (pf_db p)). \<exists>y \<in> set (sd_servers (pf_db p')).
      srv_id x = s \<and> srv_workspace_id x = i \<and> srv_id y = s \<and> srv_status y = ''deleting'' \<and> srv_fly_app_name y = srv_fly_app_name x) \<and>
    s \<notin> srv_id ` set (sd_servers (bt_db (snd (run (sweep_orphans W) [] b))))"
proof -
  obtain x where x: "server_find_by_id s (pf_db p) = Some x" "srv_workspace_id x = i" and p': "pf_db p' = mark_deleting s (pf_db p)"
    using delete_run [OF assms(1)] by blast
  let ?y = "x\<lparr>srv_status := ''deleting'', srv_updated_at := sd_now (pf_db p)\<rparr>"
  have "x \<in> set (sd_servers (pf_db p))" "srv_id x = s"
    using x(1) by (auto simp: server_find_by_id_def server_by_def dest!: find_Some_in)
  then have y: "?y \<in> set (sd_servers (pf_db p'))"
    unfolding p' mark_deleting_def server_change_def sql_update_def by force
  have "map srv_id (sd_servers (pf_db p')) = map srv_id (sd_servers (pf_db p))"
    by (simp add: p' mark_deleting_def server_change_def map_sql_update)
  then have "distinct (map srv_id (sd_servers (bt_db b)))" using assms(2,3) by (simp add: one_row_each_def)
  from sweep_all [OF this, of W ?y] have "srv_id ?y \<notin> srv_id ` set (sd_servers (bt_db (snd (run (sweep_orphans W) [] b))))"
    using assms(3-6) y by (simp add: stuck_in_deleting_def DELETING_STUCK_TIMEOUT_MINUTES_def)
  then show ?thesis using \<open>x \<in> _\<close> \<open>srv_id x = s\<close> x(2) y by (intro conjI bexI [of _ x] bexI [of _ ?y]) auto
qed


section \<open>Samples\<close>

abbreviation site_secret :: SetSecretRequest where
  "site_secret \<equiv> \<lparr>ssq_key = ''A'', ssq_value = ''v''\<rparr>"

definition site_with_secret :: "ref_store platform" where
  "site_with_secret = site\<lparr>pf_db := (pf_db site)\<lparr>sd_secrets := [secret_row 34 0 2 ''A'' ''v'' (replicate 12 (CHR ''n''))]\<rparr>\<rparr>"

lemma site_secret_run:
  "run (secrets_set site_env 9 5 2 site_secret) [] site =
     (Inr (secret_response (secret_row 34 0 2 ''A'' ''v'' (replicate 12 (CHR ''n'')))), site_with_secret)"
  by (simp add: secrets_set_def valid_key_def api_validate_secret_key_def SECRET_KEY_REGEX_def is_upper_def secret_writer_def
      path_server_def site_handlers site_rows encrypt_string_def encrypt_def site_env_def plain_crypto_def KEY_SIZE_def
      secret_upsert_def secret_create_def secret_row_def site_with_secret_def)

definition reading_world :: job_world where
  "reading_world = sample_world\<lparr>jw_decrypt := \<lambda>c n.
     case decrypt plain_crypto (replicate 32 (CHR ''k'')) c n of Inr v \<Rightarrow> Some v | Inl _ \<Rightarrow> None\<rparr>"

lemma secret_reaches_build_witness:
  "filter (\<lambda>e. se_key e = ''A'') (decrypted_secrets reading_world (secret_list_by_server 2 (pf_db site_with_secret))) =
     [\<lparr>se_key = ''A'', se_value = ''v''\<rparr>]"
  using secret_reaches_build [OF site_secret_run, of reading_world]
  by (simp add: site_env_def plain_crypto_def reading_world_def NONCE_SIZE_def site_with_secret_def site_def from_utf8_ascii
      MAX_SECRETS_PER_SERVER_def secret_row_def)

text \<open>The row is inserted, and the next statement fails.\<close>

definition cut_short :: "fate list" where
  "cut_short = [Runs, Runs, Runs, Runs, Runs, Fails]"

definition site_created :: "ref_store platform" where
  "site_created = site\<lparr>pf_db := (pf_db site)\<lparr>sd_servers := sd_servers (pf_db site) @
     [server_row (\<lambda>_. ''x'') 30 0 (new_server 5 site_request Runtime_Node)]\<rparr>\<rparr>"

lemma site_create_facts:
  "validate_create site_request = []" "server_check (server_row (\<lambda>_. ''x'') 30 0 (new_server 5 site_request Runtime_Node))"
  "check_memory_choice (Some 256) (Plan_limits Plan_Free) ''free'' = Inr ()" "str_split (CHR ''/'') ''o/r'' = [''o'', ''r'']"
  "\<not> uint (max_servers (Plan_limits Plan_Free)) \<le> 1" "Plan_of_str ''free'' = Plan_Free"
  by code_simp+

lemma site_request_fields [simp]:
  "cq_memory_mb site_request = Some 256" "cq_slug site_request = ''s''" "cq_github_repo site_request = ''o/r''"
  "cq_runtime site_request = None" "cq_github_installation_id site_request = None"
  by (simp_all add: site_request_def)

lemma site_facts:
  "get_member 5 9 (sd_accounts (pf_db site)) = Some \<lparr>wm_workspace_id = 5, wm_user_id = 9, wm_role = ''owner'', wm_created_at = 0\<rparr>"
  "ws_find_by_id 5 (sd_accounts (pf_db site)) = Some (workspace_row 5 0 ''n'' ''s'' 9)"
  "count_by_workspace 5 (pf_db site) = 1" "server_find_by_slug 5 ''s'' (pf_db site) = None"
  "on_pf (server_create (\<lambda>_. ''x'') 30 (new_server 5 site_request Runtime_Node)) site =
     Some (server_row (\<lambda>_. ''x'') 30 0 (new_server 5 site_request Runtime_Node), site_created)"
proof -
  show "on_pf (server_create (\<lambda>_. ''x'') 30 (new_server 5 site_request Runtime_Node)) site =
     Some (server_row (\<lambda>_. ''x'') 30 0 (new_server 5 site_request Runtime_Node), site_created)"
    using site_create_facts(2) by (simp add: on_pf_def server_create_def Let_def site_created_def)
      (simp add: site_rows ws_find_by_id_def sql_insert_def server_clash_def)
qed (simp_all add: get_member_def ws_find_by_id_def count_by_workspace_def server_find_by_slug_def server_by_def site_rows)

lemma site_created_run: "snd (run (servers_create site_env 9 5 site_request) cut_short site) = site_created"
proof -
  have "ws_plan (workspace_row 5 0 ''n'' ''s'' 9) = ''free''" by (simp add: workspace_row_def)
  moreover have "sv_simple site_env = (\<lambda>_. ''x'')" "sv_server_id site_env = 30" "sv_github site_env = None" by (simp_all add: site_env_def)
  ultimately show ?thesis
    unfolding servers_create_def insert_server_def launch_server_def Let_def site_create_facts(1)
    by (simp add: server_writer_def of_writer_def of_member_def of_workspace_def site_facts site_create_facts cut_short_def
        WorkspaceMember_role_def WorkspaceRole_of_str_def repository_verdict_def del: Plan_limits_simps)
qed

lemma server_limits_kept_witness:
  "server_count 5 (snd (run (servers_create site_env 9 5 site_request) cut_short site)) = 2 \<and>
   memory_allowed (Some 256) (Plan_limits Plan_Free)"
proof -
  let ?run = "run (servers_create site_env 9 5 site_request) cut_short site"
  have "length (sd_servers (pf_db (snd ?run))) \<noteq> length (sd_servers (pf_db site))" by (simp add: site_created_run site_created_def)
  then have "snd ?run \<noteq> site" by metis
  moreover have "server_count 5 site = 1" by (simp add: server_count_def site_facts)
  ultimately show ?thesis
    using server_limits_kept [OF surjective_pairing [of ?run] site_facts(2)] by (auto simp: workspace_row_def site_create_facts simp del: Plan_limits_simps)
qed

definition site_deleted :: "ref_store platform" where
  "site_deleted = snd (run (servers_delete site_env 9 5 2) [] site)"

lemma site_deleted_run: "run (servers_delete site_env 9 5 2) [] site = (Inr (), site_deleted)"
proof -
  have "fst (run (servers_delete site_env 9 5 2) [] site) = Inr ()"
    by (simp add: servers_delete_def server_admin_def of_manager_def site_handlers site_rows site_env_def)
  then show ?thesis by (simp add: site_deleted_def prod_eq_iff)
qed

lemma deleted_server_goes_witness:
  "2 \<notin> srv_id ` set (sd_servers (bt_db (snd (run (sweep_orphans sample_world) []
     (sample_builder\<lparr>bt_db := (pf_db site_deleted)\<lparr>sd_now := 901\<rparr>\<rparr>)))))"
proof -
  let ?b = "sample_builder\<lparr>bt_db := (pf_db site_deleted)\<lparr>sd_now := 901\<rparr>\<rparr>"
  have all: "\<exists>u. snd (destroy_app (jw_destroy sample_world n) (jw_case sample_world) app) = Inr u" for n app
    by (simp add: sample_world_def sample_fly_def destroy_app_def on_command_def finished_def Let_def)
  have rows: "length (sd_servers (pf_db site_deleted)) = 2"
    using delete_run [OF site_deleted_run] by (auto simp: mark_deleting_def server_change_def sql_update_def site_def)
  have "length (filter (stuck_in_deleting 901 DELETING_STUCK_TIMEOUT_MINUTES) (sd_servers (pf_db site_deleted))) \<le> 1000"
    by (rule le_trans [OF length_filter_le]) (simp add: rows)
  then show ?thesis
    using deleted_server_goes [OF site_deleted_run site_invariants(1), of ?b 901 sample_world] all by (simp add: site_def)
qed

end
