(* ===== verification/Webhook_Routes.thy ===== *)
theory Webhook_Routes
  imports Server_Routes "HOL-Library.Word"
begin

unbundle bit_operations_syntax

text \<open>
  Deploy webhooks (\<^verbatim>\<open>crates/api/src/routes/webhooks.rs\<close>, \<^verbatim>\<open>crates/db/src/repositories/deploy_webhook_repo.rs\<close>): the table, the check
  of a webhook's address against internal targets, and the routes. The URL parser, the resolver and the sent request are
  parameters.
\<close>

section \<open>The table\<close>

definition webhook_list_by_server :: "uuid \<Rightarrow> 'r platform \<Rightarrow> DeployWebhook list" where
  "webhook_list_by_server server_id p = sort_key (\<lambda>h. - dwh_created_at h) (filter (\<lambda>h. dwh_server_id h = server_id) (pf_webhooks p))"

definition list_active_for_event :: "uuid \<Rightarrow> string \<Rightarrow> 'r platform \<Rightarrow> DeployWebhook list" where
  "list_active_for_event server_id event p =
     filter (\<lambda>h. dwh_server_id h = server_id \<and> dwh_is_active h \<and> event \<in> set (dwh_events h)) (pf_webhooks p)"

definition webhook_find_by_id :: "uuid \<Rightarrow> 'r platform \<Rightarrow> DeployWebhook option" where
  "webhook_find_by_id i p = find (\<lambda>h. dwh_id h = i) (pf_webhooks p)"

record CreateDeployWebhook =
  cdw_server_id :: uuid
  cdw_name :: string
  cdw_webhook_url :: string
  cdw_webhook_type :: string
  cdw_events :: "string list"
  cdw_encrypted_secret :: "bytes option"
  cdw_secret_nonce :: "bytes option"

definition webhook_create :: "uuid \<Rightarrow> CreateDeployWebhook \<Rightarrow> 'r platform \<Rightarrow> (DeployWebhook \<times> 'r platform) option" where
  "webhook_create fresh c p =
     (let now = sd_now (pf_db p);
          h = \<lparr> dwh_id = fresh, dwh_server_id = cdw_server_id c, dwh_name = cdw_name c, dwh_webhook_url = cdw_webhook_url c,
                dwh_webhook_type = cdw_webhook_type c, dwh_events = cdw_events c, dwh_secret = None,
                dwh_encrypted_secret = cdw_encrypted_secret c, dwh_secret_nonce = cdw_secret_nonce c, dwh_is_active = True,
                dwh_last_triggered_at = None, dwh_last_status = None, dwh_created_at = now, dwh_updated_at = now \<rparr>
      in if \<not> list_ex (\<lambda>s. srv_id s = cdw_server_id c) (sd_servers (pf_db p)) then None
         else map_option (\<lambda>t. (h, p\<lparr>pf_webhooks := t\<rparr>)) (sql_insert (\<lambda>a b. dwh_id a = dwh_id b) h (pf_webhooks p)))"

record UpdateDeployWebhook =
  udw_name :: "string option"
  udw_webhook_url :: "string option"
  udw_events :: "string list option"
  udw_encrypted_secret :: "bytes option"
  udw_secret_nonce :: "bytes option"
  udw_is_active :: "bool option"

definition webhook_change :: "uuid \<Rightarrow> (DeployWebhook \<Rightarrow> DeployWebhook) \<Rightarrow> 'r platform \<Rightarrow> 'r platform" where
  "webhook_change i f p = p\<lparr>pf_webhooks := sql_update (\<lambda>h. dwh_id h = i) (\<lambda>h. (f h)\<lparr>dwh_updated_at := sd_now (pf_db p)\<rparr>) (pf_webhooks p)\<rparr>"

definition webhook_update :: "uuid \<Rightarrow> UpdateDeployWebhook \<Rightarrow> 'r platform \<Rightarrow> DeployWebhook option \<times> 'r platform" where
  "webhook_update i u p =
     (let p' = webhook_change i (\<lambda>h. h\<lparr>
            dwh_name := unwrap_or (udw_name u) (dwh_name h),
            dwh_webhook_url := unwrap_or (udw_webhook_url u) (dwh_webhook_url h),
            dwh_events := unwrap_or (udw_events u) (dwh_events h),
            dwh_encrypted_secret := or_else (udw_encrypted_secret u) (dwh_encrypted_secret h),
            dwh_secret_nonce := or_else (udw_secret_nonce u) (dwh_secret_nonce h),
            dwh_is_active := unwrap_or (udw_is_active u) (dwh_is_active h),
            dwh_secret := None\<rparr>) p
      in (webhook_find_by_id i p', p'))"

definition update_trigger_status :: "uuid \<Rightarrow> string \<Rightarrow> 'r platform \<Rightarrow> 'r platform" where
  "update_trigger_status i status p =
     webhook_change i (\<lambda>h. h\<lparr>dwh_last_triggered_at := Some (sd_now (pf_db p)), dwh_last_status := Some status\<rparr>) p"

definition webhook_delete :: "uuid \<Rightarrow> 'r platform \<Rightarrow> bool \<times> 'r platform" where
  "webhook_delete i p =
     (list_ex (\<lambda>h. dwh_id h = i) (pf_webhooks p), p\<lparr>pf_webhooks := sql_delete (\<lambda>h. dwh_id h = i) (pf_webhooks p)\<rparr>)"


section \<open>Internal addresses\<close>

datatype IpAddr = V4 "32 word" | V6 "128 word"

text \<open>The ranges of \<^verbatim>\<open>std::net::Ipv4Addr\<close>; the last test looks at the first two octets.\<close>

definition octet :: "nat \<Rightarrow> 32 word \<Rightarrow> 32 word" where
  "octet n v = drop_bit (24 - 8 * n) v AND 0xFF"

definition is_private :: "32 word \<Rightarrow> bool" where
  "is_private v \<longleftrightarrow> drop_bit 24 v = 10 \<or> drop_bit 20 v = 0xAC1 \<or> drop_bit 16 v = 0xC0A8"

definition is_documentation :: "32 word \<Rightarrow> bool" where
  "is_documentation v \<longleftrightarrow> drop_bit 8 v \<in> {0xC00002, 0xC63364, 0xCB0071}"

definition is_internal_v4 :: "32 word \<Rightarrow> bool" where
  "is_internal_v4 v \<longleftrightarrow>
     is_private v \<or> drop_bit 24 v = 127 \<or> drop_bit 16 v = 0xA9FE \<or> v = 0xFFFFFFFF \<or> is_documentation v \<or> v = 0 \<or>
     octet 0 v = 169 \<and> octet 1 v = 254"

definition to_ipv4_mapped :: "128 word \<Rightarrow> 32 word option" where
  "to_ipv4_mapped a = (if drop_bit 32 a = 0xFFFF then Some (ucast a) else None)"

definition segment0 :: "128 word \<Rightarrow> 16 word" where
  "segment0 a = ucast (drop_bit 112 a)"

fun is_internal_ip :: "IpAddr \<Rightarrow> bool" where
  "is_internal_ip (V4 v) = is_internal_v4 v"
| "is_internal_ip (V6 a) =
     (a = 1 \<or> a = 0 \<or>
      (case to_ipv4_mapped a of
         Some v \<Rightarrow> is_internal_v4 v
       | None \<Rightarrow> segment0 a AND 0xfe00 = 0xfc00 \<or> segment0 a AND 0xffc0 = 0xfe80))"


section \<open>Webhook addresses\<close>

text \<open>
  A parsed URL is its host and its port, if it has them; a resolver that fails gives \<open>None\<close>. A sent request fails or is answered
  with a status.
\<close>

datatype send_error = Send_Timeout | Send_Connect | Send_Request | Send_Other

record 'r webhook_env =
  hv_server :: "'r server_env"
  hv_parse_url :: "string \<Rightarrow> (string option \<times> nat option) option"
  hv_resolve :: "string \<Rightarrow> IpAddr list option"
  hv_rfc3339 :: "timestamp \<Rightarrow> string"
  hv_now :: timestamp
  hv_client :: bool
  hv_post :: "string \<Rightarrow> json \<Rightarrow> send_error + nat"

definition blocked_hosts :: "string list" where
  "blocked_hosts = [
     ''localhost'', ''127.0.0.1'', ''0.0.0.0'', ''::1'', ''[::1]'', ''169.254.169.254'', ''metadata.google.internal'',
     ''metadata.internal'', ''kubernetes.default'', ''kubernetes.default.svc'']"

definition blocked_host :: "casing \<Rightarrow> string \<Rightarrow> bool" where
  "blocked_host K host =
     (let host_lower = to_lower K host
      in list_ex (\<lambda>blocked. host_lower = blocked \<or> str_ends_with host_lower (CHR ''.'' # blocked)) blocked_hosts)"

definition validate_webhook_url :: "'r webhook_env \<Rightarrow> string \<Rightarrow> AppError + unit" where
  "validate_webhook_url H url =
     (if \<not> str_starts_with url ''https://'' then Inl (app_bad_request ''INVALID_URL'' ''Webhook URL must use HTTPS'')
      else (case hv_parse_url H url of
              None \<Rightarrow> Inl (app_bad_request ''INVALID_URL'' ''Invalid URL format'')
            | Some (None, _) \<Rightarrow> Inl (app_bad_request ''INVALID_URL'' ''URL must have a host'')
            | Some (Some host, port) \<Rightarrow>
                (if blocked_host (sv_case (hv_server H)) host
                 then Inl (app_bad_request ''BLOCKED_URL'' ''Webhook URL points to a blocked internal address'')
                 else (case hv_resolve H (host @ '':'' @ show_nat (unwrap_or port 443)) of
                         Some addrs \<Rightarrow>
                           (if list_ex is_internal_ip addrs
                            then Inl (app_bad_request ''BLOCKED_URL'' ''Webhook URL resolves to an internal IP address'') else Inr ())
                       | None \<Rightarrow> Inr ()))))"


section \<open>Routes\<close>

record WebhookResponse =
  whr_id :: string
  whr_name :: string
  whr_webhook_url :: string
  whr_webhook_type :: string
  whr_events :: "string list"
  whr_is_active :: bool
  whr_last_triggered_at :: "string option"
  whr_last_status :: "string option"
  whr_created_at :: string

definition show_id :: "'r webhook_env \<Rightarrow> uuid \<Rightarrow> string" where
  "show_id H = av_show_uuid (sv_api (hv_server H))"

definition webhook_response :: "'r webhook_env \<Rightarrow> DeployWebhook \<Rightarrow> WebhookResponse" where
  "webhook_response H h = \<lparr>
     whr_id = show_id H (dwh_id h), whr_name = dwh_name h, whr_webhook_url = dwh_webhook_url h, whr_webhook_type = dwh_webhook_type h,
     whr_events = dwh_events h, whr_is_active = dwh_is_active h,
     whr_last_triggered_at = map_option (hv_rfc3339 H) (dwh_last_triggered_at h), whr_last_status = dwh_last_status h,
     whr_created_at = hv_rfc3339 H (dwh_created_at h) \<rparr>"

abbreviation no_access :: AppError where
  "no_access \<equiv> app_internal ''Failed to verify access''"

definition webhook_reader :: "uuid \<Rightarrow> uuid \<Rightarrow> ('r, AppError, 'a) serving \<Rightarrow> ('r, AppError, 'a) serving" where
  "webhook_reader workspace_id user_id k = of_member no_access (app_forbidden ''Access denied'') workspace_id user_id (\<lambda>_. k)"

definition webhook_manager :: "uuid \<Rightarrow> uuid \<Rightarrow> ('r, AppError, 'a) serving \<Rightarrow> ('r, AppError, 'a) serving" where
  "webhook_manager =
     of_manager no_access (app_forbidden ''Access denied'') (app_forbidden ''Only owners and admins can manage webhooks'')"

definition webhook_server :: "uuid \<Rightarrow> uuid \<Rightarrow> ('r, AppError, 'a) serving \<Rightarrow> ('r, AppError, 'a) serving" where
  "webhook_server workspace_id server_id k =
     of_server (app_internal ''Failed to get server'') (app_not_found ''Server not found'') workspace_id server_id (\<lambda>_. k)"

text \<open>The webhook of the path, if it is one of the server of the path; nothing here looks at the server's workspace.\<close>

definition path_webhook ::
  "uuid \<Rightarrow> uuid \<Rightarrow> (DeployWebhook \<Rightarrow> ('r, AppError, 'a) serving) \<Rightarrow> ('r, AppError, 'a) serving" where
  "path_webhook server_id webhook_id k =
     run_or (select (webhook_find_by_id webhook_id)) (app_internal ''Failed to get webhook'') (\<lambda>found.
     require found (app_not_found ''Webhook not found'') (\<lambda>h.
     ensure (dwh_server_id h = server_id) (app_not_found ''Webhook not found'') (k h)))"

definition valid_url :: "'r webhook_env \<Rightarrow> string \<Rightarrow> ('r, AppError, 'a) serving \<Rightarrow> ('r, AppError, 'a) serving" where
  "valid_url H url k = (case validate_webhook_url H url of Inl e \<Rightarrow> refuse e | Inr _ \<Rightarrow> k)"

definition valid_events :: "string list \<Rightarrow> ('r, AppError, 'a) serving \<Rightarrow> ('r, AppError, 'a) serving" where
  "valid_events events k =
     (case find (\<lambda>e. e \<notin> {''deploy_success'', ''deploy_failure'', ''deploy_started''}) events of
        Some e \<Rightarrow> refuse (app_bad_request ''INVALID_EVENT'' (''Invalid event: '' @ e))
      | None \<Rightarrow> k)"

definition sealed_secret ::
  "'r webhook_env \<Rightarrow> string option \<Rightarrow> (bytes option \<Rightarrow> bytes option \<Rightarrow> ('r, AppError, 'a) serving) \<Rightarrow> ('r, AppError, 'a) serving" where
  "sealed_secret H secret k =
     (case secret of
        None \<Rightarrow> k None None
      | Some s \<Rightarrow>
          (let E = hv_server H
           in case encrypt_string (sv_crypto E) (sv_key E) (sv_nonce E 0) s of
                Inl _ \<Rightarrow> refuse (app_internal ''Failed to encrypt secret'')
              | Inr (enc, nonce) \<Rightarrow> k (Some enc) (Some nonce)))"

definition webhooks_list :: "'r webhook_env \<Rightarrow> uuid \<Rightarrow> uuid \<Rightarrow> uuid \<Rightarrow> ('r, AppError, WebhookResponse list) serving" where
  "webhooks_list H auth_user workspace_id server_id =
     webhook_reader workspace_id auth_user
     (webhook_server workspace_id server_id
     (run_or (select (webhook_list_by_server server_id)) (app_internal ''Failed to list webhooks'') (\<lambda>hs.
      answer (map (webhook_response H) hs))))"

record CreateWebhookRequest =
  cwr_name :: string
  cwr_webhook_url :: string
  cwr_webhook_type :: string
  cwr_events :: "string list"
  cwr_secret :: "string option"

definition webhooks_create ::
  "'r webhook_env \<Rightarrow> uuid \<Rightarrow> uuid \<Rightarrow> uuid \<Rightarrow> CreateWebhookRequest \<Rightarrow> ('r, AppError, WebhookResponse) serving" where
  "webhooks_create H auth_user workspace_id server_id body =
     webhook_manager workspace_id auth_user
     (webhook_server workspace_id server_id
     (valid_url H (cwr_webhook_url body)
     (valid_events (cwr_events body)
     (sealed_secret H (cwr_secret body) (\<lambda>encrypted_secret secret_nonce.
      run_or (webhook_create (sv_webhook_id (hv_server H)) \<lparr>
          cdw_server_id = server_id, cdw_name = cwr_name body, cdw_webhook_url = cwr_webhook_url body,
          cdw_webhook_type = cwr_webhook_type body, cdw_events = cwr_events body, cdw_encrypted_secret = encrypted_secret,
          cdw_secret_nonce = secret_nonce \<rparr>)
        (app_internal ''Failed to create webhook'') (\<lambda>h. answer (webhook_response H h)))))))"

record UpdateWebhookRequest =
  uwr_name :: "string option"
  uwr_webhook_url :: "string option"
  uwr_events :: "string list option"
  uwr_secret :: "string option"
  uwr_is_active :: "bool option"

definition webhooks_update ::
  "'r webhook_env \<Rightarrow> uuid \<Rightarrow> uuid \<Rightarrow> uuid \<Rightarrow> uuid \<Rightarrow> UpdateWebhookRequest \<Rightarrow> ('r, AppError, WebhookResponse) serving" where
  "webhooks_update H auth_user workspace_id server_id webhook_id body =
     webhook_manager workspace_id auth_user
     (path_webhook server_id webhook_id (\<lambda>_.
      (case uwr_webhook_url body of None \<Rightarrow> (\<lambda>k. k) | Some url \<Rightarrow> valid_url H url)
      ((case uwr_events body of None \<Rightarrow> (\<lambda>k. k) | Some events \<Rightarrow> valid_events events)
      (sealed_secret H (uwr_secret body) (\<lambda>encrypted_secret secret_nonce.
       run_or (\<lambda>p. Some (webhook_update webhook_id \<lparr>
           udw_name = uwr_name body, udw_webhook_url = uwr_webhook_url body, udw_events = uwr_events body,
           udw_encrypted_secret = encrypted_secret, udw_secret_nonce = secret_nonce, udw_is_active = uwr_is_active body \<rparr> p))
         (app_internal ''Failed to update webhook'') (\<lambda>found.
       require found (app_not_found ''Webhook not found'') (\<lambda>h. answer (webhook_response H h))))))))"

definition webhooks_delete :: "uuid \<Rightarrow> uuid \<Rightarrow> uuid \<Rightarrow> uuid \<Rightarrow> ('r, AppError, unit) serving" where
  "webhooks_delete auth_user workspace_id server_id webhook_id =
     webhook_manager workspace_id auth_user
     (path_webhook server_id webhook_id (\<lambda>_.
      run_or (\<lambda>p. Some (webhook_delete webhook_id p)) (app_internal ''Failed to delete webhook'') (\<lambda>_. answer ())))"

definition webhook_test_payload :: "'r webhook_env \<Rightarrow> uuid \<Rightarrow> uuid \<Rightarrow> json" where
  "webhook_test_payload H server_id webhook_id = JObject [
     (''event'', JString ''test''), (''server_id'', JString (show_id H server_id)), (''webhook_id'', JString (show_id H webhook_id)),
     (''message'', JString ''This is a test webhook notification from NodeFlare''), (''timestamp'', JString (hv_rfc3339 H (hv_now H)))]"

definition send_error_message :: "send_error \<Rightarrow> string" where
  "send_error_message e =
     (case e of Send_Timeout \<Rightarrow> ''Connection timed out'' | Send_Connect \<Rightarrow> ''Failed to connect to webhook URL''
      | Send_Request \<Rightarrow> ''Invalid request'' | Send_Other \<Rightarrow> ''Failed to send webhook'')"

definition webhooks_test :: "'r webhook_env \<Rightarrow> uuid \<Rightarrow> uuid \<Rightarrow> uuid \<Rightarrow> uuid \<Rightarrow> ('r, AppError, json) serving" where
  "webhooks_test H auth_user workspace_id server_id webhook_id =
     webhook_reader workspace_id auth_user
     (path_webhook server_id webhook_id (\<lambda>h.
      valid_url H (dwh_webhook_url h)
      (ensure (hv_client H) (app_internal ''Failed to create HTTP client'')
      (case hv_post H (dwh_webhook_url h) (webhook_test_payload H server_id webhook_id) of
         Inr status \<Rightarrow>
           run_sql (change (update_trigger_status webhook_id (if is_success status then ''success'' else ''failure''))) (\<lambda>_.
           answer (JObject [(''success'', JBool (is_success status)), (''status_code'', JNumber (NInt (int status)))]))
       | Inl e \<Rightarrow>
           run_sql (change (update_trigger_status webhook_id ''failure'')) (\<lambda>_.
           answer (JObject [(''success'', JBool False), (''error'', JString (send_error_message e))]))))))"


section \<open>Facts\<close>

text \<open>What an accepted address cannot be, as far as the resolver told.\<close>

lemma accepted_address:
  assumes "validate_webhook_url H url = Inr ()"
  shows "str_starts_with url ''https://''"
    and "\<exists>host port. hv_parse_url H url = Some (Some host, port) \<and> \<not> blocked_host (sv_case (hv_server H)) host \<and>
      (\<forall>addrs. hv_resolve H (host @ '':'' @ show_nat (unwrap_or port 443)) = Some addrs \<longrightarrow> (\<forall>a \<in> set addrs. \<not> is_internal_ip a))"
  using assms by (auto simp: validate_webhook_url_def list_ex_iff split: if_splits option.splits)

lemma internal_ranges:
  "is_internal_ip (V4 0x0A000001)" "is_internal_ip (V4 0xAC1FFFFF)" "is_internal_ip (V4 0xC0A80001)" "is_internal_ip (V4 0x7F000001)"
  "is_internal_ip (V4 0xA9FEA9FE)" "is_internal_ip (V6 0xFFFF0A000001)" "is_internal_ip (V6 (push_bit 112 0xFC00))"
  "is_internal_ip (V6 (push_bit 112 0xFE80))" "\<not> is_internal_ip (V4 0x08080808)" "\<not> is_internal_ip (V4 0xAC200000)"
  by code_simp+

text \<open>Addresses of the provider's own carrier network (100.64.0.0/10) and IPv4-compatible ones pass as external.\<close>

lemma shared_address_passes: "\<not> is_internal_ip (V4 0x64400001)" "\<not> is_internal_ip (V6 0x7F000001)"
  by code_simp+

text \<open>
  A webhook of any tenant is deleted by a manager of any workspace: the path's workspace and the server's are not compared.
\<close>

lemma foreign_webhook_deleted:
  assumes "get_member i u (sd_accounts (pf_db p)) = Some m" and "WorkspaceMember_role m = Role_Owner"
    and "webhook_find_by_id j p = Some h"
  shows "run (webhooks_delete u i (dwh_server_id h) j) [] p = (Inr (), snd (webhook_delete j p))"
  using assms by (simp add: webhooks_delete_def webhook_manager_def of_manager_def of_member_def path_webhook_def split: prod.splits)

end
