(* ===== verification/Spec2Isabelle.thy ===== *)
theory Spec2Isabelle
  imports Fly_Deploy Scopes Common_Types Plans Models Proxy_Error Redis_Cache Rate_Limit Request_Cache
    Proxy_Auth Transform Affinity Meta_Tools Gateway_Pure Gateway Gateway_Security Workspace_Repo OAuth_Security
    Workspace_Service Auth_Security Build_Service Build_Teardown Build_Hints Billing_Correct
    Server_Correct Webhook_Routes
begin

text \<open>
  A verification development of NodeFlare, a platform that builds and hosts MCP servers (\<^verbatim>\<open>src/crates\<close>, in Rust). It has three
  services over one PostgreSQL database, one Redis and a job queue:

  \<^item> the API (\<^verbatim>\<open>crates/api\<close>) signs users in, manages workspaces, servers, secrets, deployments and subscriptions, is an OAuth 2.1
    authorization server, and queues build and teardown jobs;
  \<^item> the builder (\<^verbatim>\<open>crates/builder\<close>) takes the jobs, fetches a repository, generates its Dockerfile and \<^verbatim>\<open>fly.toml\<close>, deploys by
    \<^verbatim>\<open>flyctl\<close> or by the Machines API, records the outcome, retries, and tears apps down;
  \<^item> the gateway (\<^verbatim>\<open>crates/proxy\<close>) authenticates each MCP request, limits, filters, coalesces and caches it, and forwards it to
    the tenant's server.

  They meet in stored rows, so the theories meet in stored states: what the API's routes leave (\<open>platform\<close>) contains the database
  the builder runs on (\<open>bt_db\<close>), and the OAuth tables are the ones whose tokens the gateway looks up.
\<close>

section \<open>How the code is modelled\<close>

text \<open>
  \<^bold>\<open>Values.\<close> A Rust \<^verbatim>\<open>String\<close> is its bytes, hence a \<open>string\<close>; structs are records with the fields' names behind a prefix of the
  type; enums are datatypes; \<^verbatim>\<open>Result\<close> is a sum with the error on the left; unsigned counters that wrap or saturate are words or
  written out. \<open>Rust_Prelude\<close>, \<open>Rust_Text\<close>, \<open>Http\<close> and \<open>Json\<close> hold the parts of the standard library and of HTTP and JSON that the
  code uses, with the lemmas the components share (\<open>rust_simps\<close>).

  \<^bold>\<open>Statements.\<close> A handler of the API or the builder is a program (\<open>Sql.prog\<close>) whose statements each change the shared state in one
  piece. \<open>run\<close> executes one alone under a list of fates: a statement \<open>Runs\<close>, \<open>Fails\<close> without effect, or is \<open>Lost\<close>, which means it took
  effect but its answer did not arrive; statements beyond the end of the list run. \<open>serves\<close> interleaves any number of programs
  statement by statement with any fates, so every race and every partial effect of the code is a run. Invariants of \<open>serves\<close>
  are proved by rely and guarantee: \<open>rg\<close> and \<open>rg_sound\<close>, with \<open>rg_rules\<close> following the combinators of which handlers are made, and
  the locale \<open>Server_Steps.rely\<close> for relations between earlier and later states.

  \<^bold>\<open>What is outside.\<close> Redis is a record of its commands with documented laws (locale \<open>redis_server\<close>), the JSON codec, the LRU cache
  and the Unicode case mapping likewise (\<open>json_codec\<close>, \<open>lru_cache\<close>, \<open>case_mapping\<close>), each with an interpretation that executes. Stripe,
  GitHub, Fly.io, \<^verbatim>\<open>flyctl\<close>, the clock, random numbers and cryptography are fields of environment records, which a theorem
  quantifies over or restricts by a stated premise. Two values of such a field that belong to different moments are told apart by
  an index (\<open>jw_destroy W n\<close>) or by the request that carries them.

  \<^bold>\<open>Loops.\<close> Recursion is structural or has its measure proved; no definition runs on fuel. Retries count down the bound of the code
  (three retries of a job, five attempts within a teardown job, the probes of \<open>probe_outcome\<close>). The one loop that need not end, the gateway's coalescing wait
  \<open>try_coalesce\<close>, is a \<open>partial_function\<close> whose result \<open>None\<close> means that it does not return.
\<close>

section \<open>The theories and the code\<close>

text \<open>
  \<^bold>\<open>Shared types.\<close> \<open>Common_Types\<close> and \<open>Scopes\<close> (\<^verbatim>\<open>common/src/types.rs\<close>), \<open>Config\<close> (\<^verbatim>\<open>common/src/config.rs\<close>), \<open>Plans\<close>
  (\<^verbatim>\<open>billing/src/plans.rs\<close>, with \<open>Plan\<close> a linear order), \<open>Models\<close> (\<^verbatim>\<open>db/src/models\<close>).

  \<^bold>\<open>Gateway\<close> (\<^verbatim>\<open>proxy/src\<close>). \<open>Proxy_Error\<close>, \<open>Redis\<close>, \<open>Redis_Cache\<close> (\<^verbatim>\<open>redis_cache.rs\<close>), \<open>Rate_Limit\<close> (\<^verbatim>\<open>rate_limit.rs\<close>), \<open>Proxy_Auth\<close>
  (\<^verbatim>\<open>auth.rs\<close>), \<open>Request_Cache\<close> (\<^verbatim>\<open>cache.rs\<close>: \<open>exec\<close> is one critical section of one task, \<open>reachable\<close> all interleavings of tasks,
  cancellation included), \<open>Transform\<close> (\<^verbatim>\<open>mcp_transform.rs\<close>), \<open>Affinity\<close>, \<open>Meta_Tools\<close> (\<^verbatim>\<open>meta_tools.rs\<close>, \<^verbatim>\<open>code_mode.rs\<close>,
  \<^verbatim>\<open>code_runner.rs\<close>), \<open>Gateway_Pure\<close> and \<open>Gateway\<close> (\<^verbatim>\<open>main.rs\<close>: its pure functions, and its handlers over a state that logs the
  upstream requests), \<open>Gateway_Security\<close> (what the handlers guarantee together).

  \<^bold>\<open>Authorization server\<close> (\<^verbatim>\<open>api/src/routes/oauth.rs\<close>). \<open>OAuth_Store\<close> (its tables, \<^verbatim>\<open>oauth_repo.rs\<close>), \<open>OAuth_Server\<close> (handlers),
  \<open>OAuth_Service\<close> (requests and invariants), \<open>OAuth_Security\<close> (properties; the locale \<open>token_tables\<close> is what the gateway expects of the
  tables, interpreted on the server's own).

  \<^bold>\<open>Accounts.\<close> \<open>Workspace_Repo\<close>, \<open>User_Repo\<close>, \<open>Auth_Store\<close> (tables), \<open>Api_Error\<close>, \<open>Api_Limits\<close>, \<open>Auth_Tokens\<close> (\<^verbatim>\<open>auth/src\<close>: JWT, revocation,
  encryption), \<open>Identity_Providers\<close>, \<open>Workspace_Server\<close> and \<open>Workspace_Service\<close> (\<^verbatim>\<open>routes/workspaces.rs\<close>, \<^verbatim>\<open>members.rs\<close>), \<open>Auth_Server\<close>,
  \<open>Auth_Service\<close> and \<open>Auth_Security\<close> (\<^verbatim>\<open>routes/auth.rs\<close>, \<^verbatim>\<open>github_accounts.rs\<close>).

  \<^bold>\<open>Servers.\<close> \<open>Server_Store\<close> (the tables of servers, deployments, regions, secrets, hints and settings), \<open>GitHub_App\<close>
  (\<^verbatim>\<open>github/src/lib.rs\<close>), \<open>Server_Requests\<close> (state and bodies, the queue), \<open>Server_Routes\<close> (\<^verbatim>\<open>routes/servers.rs\<close>), \<open>Deployment_Routes\<close>
  (\<^verbatim>\<open>deployments.rs\<close>, \<^verbatim>\<open>secrets.rs\<close>), \<open>Server_Steps\<close>, \<open>Server_Service\<close> and \<open>Server_Correct\<close> (properties), \<open>Webhook_Routes\<close>
  (\<^verbatim>\<open>webhooks.rs\<close>).

  \<^bold>\<open>Builder\<close> (\<^verbatim>\<open>builder/src\<close>). \<open>Fly_Secrets\<close>, \<open>Dockerfile_Context\<close>, \<open>Project_Detect\<close>, \<open>Dockerfile_Gen\<close>, \<open>Fly_Deploy\<close> (all of
  \<^verbatim>\<open>flyctl.rs\<close>), \<open>Fly_Machine\<close> (\<^verbatim>\<open>flyio.rs\<close>), \<open>Build_Input\<close> and \<open>Build_Jobs\<close> (\<^verbatim>\<open>main.rs\<close>), \<open>Build_Steps\<close>, \<open>Build_Service\<close>,
  \<open>Build_Teardown\<close>, \<open>Build_Hints\<close> (properties).

  \<^bold>\<open>Billing\<close> (\<^verbatim>\<open>billing/src\<close>, \<^verbatim>\<open>routes/billing.rs\<close>). \<open>Stripe_Billing\<close> (calls to Stripe, webhook handlers), \<open>Billing_Routes\<close>,
  \<open>Billing_Spec\<close> (the abstract account and the steps \<open>bills\<close> that events are to make), \<open>Billing_Correct\<close> (the refinement and what
  follows from it).
\<close>

section \<open>What is proved\<close>

text \<open>
  Each property stands behind a text that names it (C1 to C40) and states it with its conditions.

  \<^item> \<^bold>\<open>Tenancy and authorization.\<close> No request reaches another workspace's servers (C1); a workspace keeps exactly one owner (C5); every
    upstream request of the gateway was authorized for the body that is sent (C6), sandboxes included (C16); accepted tokens stem
    from consent (C7, C15), deletions are final (C13), codes are spent (C25) and the flow works (C24); sessions stem from proofs of
    identity (C4, C18, C35, C36); accounts are changed by managers or by Stripe (C14).
  \<^item> \<^bold>\<open>Functional contracts.\<close> The webhook handlers refine \<open>bills\<close> (C2) and converge under redelivery (C21); a build's answer tells what is
    recorded (C8); a secret that was set reaches the build (C10) as it is and is not logged (C22, C23); limits hold (C20, C27); the
    tool list is filtered, and nothing else of a message changes (C28); descriptions are cut at characters (C40); detection is
    idempotent (C38); hints are the stored ones (C31).
  \<^item> \<^bold>\<open>Invariants and liveness.\<close> Stored rows are well-typed (C11) and queued jobs are about stored rows (C12); one flight per key (C9) and
    no foreign answers (C17); no app is forgotten (C3), stuck work ends (C29), deleted servers go (C30); probing ends in time (C26).
  \<^item> \<^bold>\<open>Confinement of input.\<close> Archives (C19), entry commands (C37), headers (C32), the client's influence on its address (C39), revoked
    keys (C33) and guesses (C34).

  What is shown to go wrong is a lemma beside the operation it concerns, for example \<open>foreign_webhook_deleted\<close>, \<open>code_race\<close>,
  \<open>outage_takes_for_gone\<close>, \<open>hard_link_to_host\<close>, \<open>checkout_upgrade_lost\<close> and \<open>overlapping_secret_leaks\<close>.
\<close>

section \<open>What is not modelled\<close>

text \<open>
  \<^item> Metering of usage (the samplers in \<^verbatim>\<open>api/src/main.rs\<close>, \<^verbatim>\<open>request_log_repo.rs\<close>, \<^verbatim>\<open>get_usage\<close>): sums of floating-point numbers
    over SQL aggregates.
  \<^item> The routes that manage API keys and stored tools (\<^verbatim>\<open>access_tokens.rs\<close>, \<^verbatim>\<open>tools.rs\<close>). The gateway is modelled over the rows they write.
  \<^item> Live updates over WebSockets, the e-mail client and its templates, metrics, consoles, WireGuard, server tests, contact and
    announcements: sockets, foreign services and formatting. What the modelled handlers publish or mail is recorded in their state.
  \<^item> Wiring: start-up, the table of routes, connection pools, OpenAPI; the crates \<^verbatim>\<open>mcp-runtime\<close> and the builder's \<^verbatim>\<open>docker.rs\<close>, which
    nothing calls.
  \<^item> Time spent, memory, and processes that die; a request that is dropped between two statements is a run in which its remaining
    statements never come.
\<close>

end
